(* ===== verification/Prelude.thy ===== *)
theory Prelude
  imports Main "HOL-Library.AList" "HOL-Library.Char_ord" "HOL-Library.List_Lexorder"
    "HOL-Library.Multiset" "HOL-Library.Word"
begin

text \<open>
  Shared vocabulary of the development: the names of the model's basic types, Go maps as
  association lists, Go's sorting helpers, and the generic lemmas the components use.

  A Go map is an association list with distinct keys (\<open>gmap_ok\<close>). The order of the list is
  the order in which a \<open>range\<close> loop visits the entries; Go leaves it unspecified, so every
  theorem about a ranging function holds for any list, hence for any visiting order.
\<close>

type_synonym u32 = "32 word"
type_synonym u64 = "64 word"
type_synonym ('k, 'v) gmap = "('k \<times> 'v) list"

named_theorems codec_simps "facts about the identifier codec (node ids)"
named_theorems store_simps "lookup after update and delete on the model's stores"

section \<open>Go maps\<close>

definition gmap_ok :: "('k, 'v) gmap \<Rightarrow> bool" where
  "gmap_ok m \<longleftrightarrow> distinct (map fst m)"

definition mget :: "('k, 'v) gmap \<Rightarrow> 'k \<Rightarrow> 'v option" where
  "mget m k = map_of m k"

definition mset_at :: "'k \<Rightarrow> 'v \<Rightarrow> ('k, 'v) gmap \<Rightarrow> ('k, 'v) gmap" where
  "mset_at k v m = AList.update k v m"

definition mdelete :: "'k \<Rightarrow> ('k, 'v) gmap \<Rightarrow> ('k, 'v) gmap" where
  "mdelete k m = AList.delete k m"

text \<open>Reading a slice-valued map at an absent key gives the nil slice.\<close>

definition mlist :: "('k, 'v list) gmap \<Rightarrow> 'k \<Rightarrow> 'v list" where
  "mlist m k = (case mget m k of None \<Rightarrow> [] | Some xs \<Rightarrow> xs)"

definition mkeys :: "('k, 'v) gmap \<Rightarrow> 'k list" where
  "mkeys m = map fst m"

lemma mget_Nil [simp]: "mget [] k = None"
  by (simp add: mget_def)

lemma mlist_Nil [simp]: "mlist [] k = []"
  by (simp add: mlist_def)

lemma mget_mset_at [simp, store_simps]:
  "mget (mset_at k v m) k' = (if k' = k then Some v else mget m k')"
  by (simp add: mget_def mset_at_def update_conv')

lemma mget_mdelete [simp, store_simps]:
  "mget (mdelete k m) k' = (if k' = k then None else mget m k')"
  by (simp add: mget_def mdelete_def delete_conv')

lemma mlist_mset_at [simp, store_simps]:
  "mlist (mset_at k v m) k' = (if k' = k then v else mlist m k')"
  by (simp add: mlist_def)

lemma gmap_ok_Nil [simp]: "gmap_ok []"
  by (simp add: gmap_ok_def)

lemma gmap_ok_mset_at [simp]: "gmap_ok m \<Longrightarrow> gmap_ok (mset_at k v m)"
  by (simp add: gmap_ok_def mset_at_def distinct_update)

lemma gmap_ok_mdelete [simp]: "gmap_ok m \<Longrightarrow> gmap_ok (mdelete k m)"
  by (simp add: gmap_ok_def mdelete_def distinct_delete)

lemma mget_in_set: "mget m k = Some v \<Longrightarrow> (k, v) \<in> set m"
  by (simp add: mget_def map_of_SomeD)

lemma in_set_mget: "gmap_ok m \<Longrightarrow> (k, v) \<in> set m \<Longrightarrow> mget m k = Some v"
  by (simp add: gmap_ok_def mget_def)

lemma mlist_in_set: "x \<in> set (mlist m k) \<Longrightarrow> \<exists>xs. (k, xs) \<in> set m \<and> x \<in> set xs"
  by (cases "mget m k") (auto simp: mlist_def dest: mget_in_set)

lemma in_set_mlist: "gmap_ok m \<Longrightarrow> (k, xs) \<in> set m \<Longrightarrow> mlist m k = xs"
  by (simp add: mlist_def in_set_mget)

section \<open>Sorting with a comparison function\<close>

text \<open>
  \<open>slices.SortFunc\<close> with a comparison derived from a strict order: the result is a
  permutation in which no element is preceded by a larger one. Elements neither of which is
  smaller keep their order here (Go's sort gives them some order).
\<close>

fun insert_by :: "('a \<Rightarrow> 'a \<Rightarrow> bool) \<Rightarrow> 'a \<Rightarrow> 'a list \<Rightarrow> 'a list" where
  "insert_by lt x [] = [x]"
| "insert_by lt x (y # ys) = (if lt y x then y # insert_by lt x ys else x # y # ys)"

fun sort_by :: "('a \<Rightarrow> 'a \<Rightarrow> bool) \<Rightarrow> 'a list \<Rightarrow> 'a list" where
  "sort_by lt [] = []"
| "sort_by lt (x # xs) = insert_by lt x (sort_by lt xs)"

lemma mset_insert_by [simp]: "mset (insert_by lt x xs) = add_mset x (mset xs)"
  by (induction xs) auto

lemma mset_sort_by [simp]: "mset (sort_by lt xs) = mset xs"
  by (induction xs) auto

lemma set_insert_by [simp]: "set (insert_by lt x xs) = insert x (set xs)"
  by (induction xs) auto

lemma set_sort_by [simp]: "set (sort_by lt xs) = set xs"
  by (induction xs) auto

lemma length_sort_by [simp]: "length (sort_by lt xs) = length xs"
  by (metis mset_sort_by size_mset)

lemma distinct_sort_by [simp]: "distinct (sort_by lt xs) = distinct xs"
  by (metis mset_eq_imp_distinct_iff mset_sort_by)

text \<open>The contract of a comparison: a strict weak order.\<close>

locale weak_order =
  fixes lt :: "'a \<Rightarrow> 'a \<Rightarrow> bool"
  assumes lt_asym: "lt x y \<Longrightarrow> \<not> lt y x"
    and lt_neg_trans: "\<not> lt x y \<Longrightarrow> \<not> lt y z \<Longrightarrow> \<not> lt x z"
begin

lemma lt_irrefl: "\<not> lt x x"
  using lt_asym by blast

lemma lt_trans: "lt x y \<Longrightarrow> lt y z \<Longrightarrow> lt x z"
  using lt_asym lt_neg_trans by blast

definition ordered :: "'a list \<Rightarrow> bool" where
  "ordered xs \<longleftrightarrow> sorted_wrt (\<lambda>a b. \<not> lt b a) xs"

lemma ordered_insert_by: "ordered xs \<Longrightarrow> ordered (insert_by lt x xs)"
proof (induction xs)
  case Nil
  then show ?case by (simp add: ordered_def)
next
  case (Cons y ys)
  then have IH: "sorted_wrt (\<lambda>a b. \<not> lt b a) (insert_by lt x ys)"
    and y: "\<forall>z\<in>set ys. \<not> lt z y" and ys: "sorted_wrt (\<lambda>a b. \<not> lt b a) ys"
    by (auto simp: ordered_def)
  show ?case
  proof (cases "lt y x")
    case True
    then show ?thesis using IH y by (auto simp: ordered_def dest: lt_asym)
  next
    case False
    then have "\<forall>z\<in>set ys. \<not> lt z x" using y lt_neg_trans by blast
    then show ?thesis using False y ys by (simp add: ordered_def)
  qed
qed

lemma ordered_sort_by: "ordered (sort_by lt xs)"
  by (induction xs) (simp_all add: ordered_insert_by, simp add: ordered_def)

text \<open>The head of a sorted list is minimal: nothing in the list is smaller than it.\<close>

lemma ordered_head_min: "ordered (x # xs) \<Longrightarrow> y \<in> set (x # xs) \<Longrightarrow> \<not> lt y x"
  by (auto simp: ordered_def lt_irrefl)

lemma sort_by_head_min:
  assumes "sort_by lt xs = y # ys" and "z \<in> set xs"
  shows "\<not> lt z y"
  using assms ordered_head_min [of y ys z] ordered_sort_by [of xs] set_sort_by [of lt xs]
  by auto

end

section \<open>Sorted name lists without duplicates\<close>

text \<open>\<open>slices.Sort\<close> followed by \<open>slices.Compact\<close>.\<close>

definition sorted_names :: "string list \<Rightarrow> string list" where
  "sorted_names xs = remdups_adj (sort xs)"

lemma distinct_remdups_adj_sorted: "sorted xs \<Longrightarrow> distinct (remdups_adj xs)"
  for xs :: "'a::linorder list"
proof (induction xs rule: remdups_adj.induct)
  case (3 x y xs)
  then show ?case by (cases "x = y") auto
qed simp_all

lemma set_sorted_names [simp]: "set (sorted_names xs) = set xs"
  by (simp add: sorted_names_def)

lemma sorted_sorted_names [simp]: "sorted (sorted_names xs)"
  by (simp add: sorted_names_def sorted_remdups_adj)

lemma distinct_sorted_names [simp]: "distinct (sorted_names xs)"
  unfolding sorted_names_def by (rule distinct_remdups_adj_sorted) simp

lemma sorted_names_eq: "set xs = set ys \<Longrightarrow> sorted_names xs = sorted_names ys"
  by (rule sorted_distinct_set_unique) simp_all

lemma sorted_names_Nil [simp]: "sorted_names [] = []"
  by (simp add: sorted_names_def)

section \<open>Bytes\<close>

lemma of_char_byte: "0 \<le> (of_char c :: int) \<and> (of_char c :: int) < 256"
proof -
  have "(of_char c :: int) = of_char c mod 256" by (metis char_of_char of_char_of)
  then show ?thesis by (metis pos_mod_bound pos_mod_sign zero_less_numeral)
qed

end
