(* ===== verification/GoStrings.thy ===== *)
theory GoStrings
  imports Prelude
begin

text \<open>
  The functions of Go's \<open>strings\<close> package that the program calls. A Go string is a byte
  sequence and a \<open>char\<close> here is one byte, so lengths and comparisons agree with Go's.
\<close>

section \<open>Prefixes, suffixes, cutting\<close>

definition HasPrefix :: "string \<Rightarrow> string \<Rightarrow> bool" where
  "HasPrefix s p \<longleftrightarrow> take (length p) s = p"

definition HasSuffix :: "string \<Rightarrow> string \<Rightarrow> bool" where
  "HasSuffix s p \<longleftrightarrow> length p \<le> length s \<and> drop (length s - length p) s = p"

definition TrimPrefix :: "string \<Rightarrow> string \<Rightarrow> string" where
  "TrimPrefix s p = (if HasPrefix s p then drop (length p) s else s)"

definition TrimSuffix :: "string \<Rightarrow> string \<Rightarrow> string" where
  "TrimSuffix s p = (if HasSuffix s p then take (length s - length p) s else s)"

text \<open>\<open>strings.Cut\<close> at a one-byte separator: the text before it, after it, and whether it occurs.\<close>

fun Cut :: "string \<Rightarrow> char \<Rightarrow> string \<times> string \<times> bool" where
  "Cut [] c = ([], [], False)"
| "Cut (x # xs) c =
     (if x = c then ([], xs, True)
      else case Cut xs c of (a, b, ok) \<Rightarrow> (x # a, b, ok))"

text \<open>\<open>strings.Split\<close> and \<open>strings.SplitSeq\<close> at a one-byte separator (never an empty list).\<close>

fun Split :: "string \<Rightarrow> char \<Rightarrow> string list" where
  "Split [] c = [[]]"
| "Split (x # xs) c =
     (if x = c then [] # Split xs c
      else case Split xs c of [] \<Rightarrow> [[x]] | p # ps \<Rightarrow> (x # p) # ps)"

fun Join :: "string list \<Rightarrow> string \<Rightarrow> string" where
  "Join [] sep = []"
| "Join [p] sep = p"
| "Join (p # ps) sep = p @ sep @ Join ps sep"

text \<open>\<open>strings.Contains\<close>.\<close>

fun Contains :: "string \<Rightarrow> string \<Rightarrow> bool" where
  "Contains [] p = (p = [])"
| "Contains (x # xs) p = (HasPrefix (x # xs) p \<or> Contains xs p)"

lemma HasPrefix_iff: "HasPrefix s p \<longleftrightarrow> (\<exists>t. s = p @ t)"
  by (metis HasPrefix_def append_eq_conv_conj append_take_drop_id)

lemma HasSuffix_iff: "HasSuffix s p \<longleftrightarrow> (\<exists>t. s = t @ p)"
proof
  assume "HasSuffix s p"
  then show "\<exists>t. s = t @ p"
    by (metis HasSuffix_def append_take_drop_id)
qed (auto simp: HasSuffix_def)

lemma HasPrefix_append [simp]: "HasPrefix (p @ t) p"
  by (auto simp: HasPrefix_iff)

lemma HasPrefix_single [simp]: "HasPrefix s [c] \<longleftrightarrow> (\<exists>t. s = c # t)"
  by (simp add: HasPrefix_iff)

lemma TrimPrefix_append [simp]: "TrimPrefix (p @ t) p = t"
  by (simp add: TrimPrefix_def)

lemma TrimSuffix_append [simp]: "TrimSuffix (t @ p) p = t"
  by (auto simp: TrimSuffix_def HasSuffix_iff)

lemma TrimPrefix_single: "TrimPrefix s [c] = (case s of [] \<Rightarrow> [] | x # t \<Rightarrow> if x = c then t else s)"
  by (cases s) (auto simp: TrimPrefix_def)

lemma Cut_found: "Cut s c = (a, b, True) \<longleftrightarrow> s = a @ c # b \<and> c \<notin> set a"
proof (induction s arbitrary: a)
  case (Cons x xs)
  show ?case
  proof (cases "x = c")
    case True
    then show ?thesis by (cases a) auto
  next
    case False
    then show ?thesis using Cons.IH [of "tl a"] by (cases a; cases "Cut xs c") auto
  qed
qed simp

lemma Cut_missing: "Cut s c = (a, b, False) \<Longrightarrow> c \<notin> set s"
  by (induction s arbitrary: a) (auto split: if_splits prod.splits)

lemma Split_not_Nil [simp]: "Split s c \<noteq> []"
  by (induction s) (auto split: list.splits)

lemma Split_no_sep: "c \<notin> set s \<Longrightarrow> Split s c = [s]"
  by (induction s) auto

lemma Split_parts: "p \<in> set (Split s c) \<Longrightarrow> c \<notin> set p \<and> set p \<subseteq> set s"
  by (induction s arbitrary: p) (fastforce split: if_splits list.splits)+

lemma Split_append_sep: "Split (a @ c # b) c = Split a c @ Split b c"
proof (induction a)
  case (Cons x xs)
  then show ?case by (cases "Split xs c") auto
qed simp

section \<open>White space\<close>

text \<open>
  \<open>unicode.IsSpace\<close> on UTF-8 text: the encodings of the code points with the White Space
  property. \<open>strings.TrimSpace\<close> strips them from both ends.
\<close>

definition space_codes :: "string list" where
  "space_codes =
     [[CHR 0x09], [CHR 0x0A], [CHR 0x0B], [CHR 0x0C], [CHR 0x0D], [CHR 0x20],
      [CHR 0xC2, CHR 0x85], [CHR 0xC2, CHR 0xA0], [CHR 0xE1, CHR 0x9A, CHR 0x80],
      [CHR 0xE2, CHR 0x80, CHR 0x80], [CHR 0xE2, CHR 0x80, CHR 0x81],
      [CHR 0xE2, CHR 0x80, CHR 0x82], [CHR 0xE2, CHR 0x80, CHR 0x83],
      [CHR 0xE2, CHR 0x80, CHR 0x84], [CHR 0xE2, CHR 0x80, CHR 0x85],
      [CHR 0xE2, CHR 0x80, CHR 0x86], [CHR 0xE2, CHR 0x80, CHR 0x87],
      [CHR 0xE2, CHR 0x80, CHR 0x88], [CHR 0xE2, CHR 0x80, CHR 0x89],
      [CHR 0xE2, CHR 0x80, CHR 0x8A], [CHR 0xE2, CHR 0x80, CHR 0xA8],
      [CHR 0xE2, CHR 0x80, CHR 0xA9], [CHR 0xE2, CHR 0x80, CHR 0xAF],
      [CHR 0xE2, CHR 0x81, CHR 0x9F], [CHR 0xE3, CHR 0x80, CHR 0x80]]"

definition lead_space :: "string \<Rightarrow> nat" where
  "lead_space s = (case filter (HasPrefix s) space_codes of [] \<Rightarrow> 0 | w # _ \<Rightarrow> length w)"

definition trail_space :: "string \<Rightarrow> nat" where
  "trail_space s = (case filter (HasSuffix s) space_codes of [] \<Rightarrow> 0 | w # _ \<Rightarrow> length w)"

function trim_left :: "string \<Rightarrow> string" where
  "trim_left s = (if s = [] \<or> lead_space s = 0 then s else trim_left (drop (lead_space s) s))"
  by pat_completeness auto
termination
  by (relation "measure length") auto

function trim_right :: "string \<Rightarrow> string" where
  "trim_right s =
     (if s = [] \<or> trail_space s = 0 then s else trim_right (take (length s - trail_space s) s))"
  by pat_completeness auto
termination
  by (relation "measure length") auto

declare trim_left.simps [simp del] trim_right.simps [simp del]

definition TrimSpace :: "string \<Rightarrow> string" where
  "TrimSpace s = trim_right (trim_left s)"

text \<open>Text without white space at either end is left alone.\<close>

definition trimmed :: "string \<Rightarrow> bool" where
  "trimmed s \<longleftrightarrow> lead_space s = 0 \<and> trail_space s = 0"

lemma lead_space_Nil [simp]: "lead_space [] = 0"
  by (simp add: lead_space_def space_codes_def HasPrefix_def)

lemma trail_space_Nil [simp]: "trail_space [] = 0"
  by (simp add: trail_space_def space_codes_def HasSuffix_def)

lemma TrimSpace_trimmed: "trimmed s \<Longrightarrow> TrimSpace s = s"
  by (simp add: trimmed_def TrimSpace_def trim_left.simps [of s] trim_right.simps [of s])

lemma trim_left_done: "lead_space (trim_left s) = 0"
proof (induction s rule: trim_left.induct)
  case (1 s)
  then show ?case
    by (cases "s = [] \<or> lead_space s = 0") (auto simp: trim_left.simps [of s])
qed

lemma trim_right_done: "trail_space (trim_right s) = 0"
proof (induction s rule: trim_right.induct)
  case (1 s)
  then show ?case
    by (cases "s = [] \<or> trail_space s = 0") (auto simp: trim_right.simps [of s])
qed

lemma trim_right_prefix: "\<exists>t. s = trim_right s @ t"
proof (induction s rule: trim_right.induct)
  case (1 s)
  show ?case
  proof (cases "s = [] \<or> trail_space s = 0")
    case True
    then show ?thesis by (simp add: trim_right.simps [of s])
  next
    case False
    let ?u = "take (length s - trail_space s) s"
    from False 1 obtain t where t: "?u = trim_right ?u @ t" by auto
    have "s = ?u @ drop (length s - trail_space s) s" by simp
    then have "s = trim_right ?u @ t @ drop (length s - trail_space s) s"
      using t by (metis append.assoc)
    then show ?thesis using False by (auto simp: trim_right.simps [of s])
  qed
qed

lemma first_length_zero:
  assumes "\<forall>w\<in>set ws. length w \<noteq> 0"
  shows "(case filter P ws of [] \<Rightarrow> 0 | w # _ \<Rightarrow> length w) = 0 \<longleftrightarrow> (\<forall>w\<in>set ws. \<not> P w)"
  using assms by (induction ws) auto

lemma space_codes_nonempty: "\<forall>w\<in>set space_codes. length w \<noteq> 0"
  by (simp add: space_codes_def)

lemmas lead_space_zero = first_length_zero [OF space_codes_nonempty, where P = "HasPrefix s" for s, folded lead_space_def]

lemmas trail_space_zero = first_length_zero [OF space_codes_nonempty, where P = "HasSuffix s" for s, folded trail_space_def]

lemma trimmed_TrimSpace: "trimmed (TrimSpace s)"
proof -
  obtain t where t: "trim_left s = trim_right (trim_left s) @ t"
    using trim_right_prefix by blast
  have "\<not> HasPrefix (trim_right (trim_left s)) w" if "w \<in> set space_codes" for w
  proof
    assume "HasPrefix (trim_right (trim_left s)) w"
    then have "HasPrefix (trim_left s) w"
      by (metis HasPrefix_iff append.assoc t)
    with that show False
      using trim_left_done [of s] by (simp add: lead_space_zero)
  qed
  then have "lead_space (trim_right (trim_left s)) = 0" by (simp add: lead_space_zero)
  then show ?thesis by (simp add: trimmed_def TrimSpace_def trim_right_done)
qed

lemma TrimSpace_idem [simp]: "TrimSpace (TrimSpace s) = TrimSpace s"
  by (simp add: TrimSpace_trimmed trimmed_TrimSpace)

lemma TrimSpace_Nil [simp]: "TrimSpace [] = []"
  by (simp add: TrimSpace_trimmed trimmed_def)

lemma trim_left_suffix: "\<exists>t. s = t @ trim_left s"
proof (induction s rule: trim_left.induct)
  case (1 s)
  then show ?case
    by (cases "s = [] \<or> lead_space s = 0")
      (auto simp: trim_left.simps [of s], metis append.assoc append_take_drop_id)
qed

lemma set_TrimSpace: "set (TrimSpace s) \<subseteq> set s"
proof -
  obtain t u where "s = t @ trim_left s" "trim_left s = TrimSpace s @ u"
    using trim_left_suffix trim_right_prefix by (metis TrimSpace_def)
  then have "s = t @ TrimSpace s @ u" by simp
  then have "set s = set t \<union> set (TrimSpace s) \<union> set u" by (metis set_append Un_assoc)
  then show ?thesis by blast
qed

end
