(* ===== verification/Base64.thy ===== *)
theory Base64
  imports Prelude
begin

text \<open>
  Go's \<open>base64.StdEncoding\<close> on byte strings: \<open>EncodeToString\<close>, \<open>DecodeString\<close> (which
  skips line breaks and refuses anything but padded groups of four), and their round trip.
\<close>

definition b64_char :: "int \<Rightarrow> char" where
  "b64_char i =
     (if i < 26 then char_of (65 + i) else if i < 52 then char_of (71 + i)
      else if i < 62 then char_of (i - 4) else if i = 62 then CHR ''+'' else CHR ''/'')"

definition b64_val :: "char \<Rightarrow> int option" where
  "b64_val c =
     (let n = of_char c in
      if 65 \<le> n \<and> n \<le> 90 then Some (n - 65)
      else if 97 \<le> n \<and> n \<le> 122 then Some (n - 71)
      else if 48 \<le> n \<and> n \<le> 57 then Some (n + 4)
      else if n = 43 then Some 62 else if n = 47 then Some 63 else None)"

fun EncodeToString :: "string \<Rightarrow> string" where
  "EncodeToString [] = []"
| "EncodeToString [a] =
     (let a = of_char a in
      [b64_char (a div 4), b64_char (a mod 4 * 16), CHR ''='', CHR ''=''])"
| "EncodeToString [a, b] =
     (let a = of_char a; b = of_char b in
      [b64_char (a div 4), b64_char (a mod 4 * 16 + b div 16), b64_char (b mod 16 * 4), CHR ''=''])"
| "EncodeToString (a # b # c # r) =
     (let a = of_char a; b = of_char b; c = of_char c in
      [b64_char (a div 4), b64_char (a mod 4 * 16 + b div 16),
       b64_char (b mod 16 * 4 + c div 64), b64_char (c mod 64)]) @ EncodeToString r"

definition b64_two :: "char \<Rightarrow> char \<Rightarrow> (int \<times> int) option" where
  "b64_two w x = (case b64_val w of None \<Rightarrow> None | Some i \<Rightarrow> map_option (Pair i) (b64_val x))"

fun b64_groups :: "string \<Rightarrow> string option" where
  "b64_groups [] = Some []"
| "b64_groups (w # x # y # z # r) =
     (case b64_two w x of
        None \<Rightarrow> None
      | Some (i, j) \<Rightarrow>
          if y = CHR ''='' then
            (if z = CHR ''='' \<and> r = [] then Some [char_of (i * 4 + j div 16)] else None)
          else (case b64_val y of
              None \<Rightarrow> None
            | Some k \<Rightarrow>
                if z = CHR ''='' then
                  (if r = [] then Some [char_of (i * 4 + j div 16), char_of (j mod 16 * 16 + k div 4)]
                   else None)
                else (case b64_val z of
                    None \<Rightarrow> None
                  | Some l \<Rightarrow>
                      map_option (\<lambda>t. char_of (i * 4 + j div 16) # char_of (j mod 16 * 16 + k div 4) #
                                       char_of (k mod 4 * 64 + l) # t) (b64_groups r))))"
| "b64_groups _ = None"

definition DecodeString :: "string \<Rightarrow> string option" where
  "DecodeString s = b64_groups (filter (\<lambda>c. c \<noteq> CHR 0x0A \<and> c \<noteq> CHR 0x0D) s)"

lemma b64_val_char: "0 \<le> i \<Longrightarrow> i < 64 \<Longrightarrow> b64_val (b64_char i) = Some i"
  by (auto simp: b64_char_def b64_val_def Let_def)

lemma b64_char_plain:
  assumes "0 \<le> i" "i < 64"
  shows "b64_char i \<noteq> CHR ''='' \<and> b64_char i \<noteq> CHR 0x0A \<and> b64_char i \<noteq> CHR 0x0D"
proof -
  have "b64_val (b64_char i) \<noteq> None" using assms by (simp add: b64_val_char)
  moreover have "b64_val (CHR ''='') = None" "b64_val (CHR 0x0A) = None" "b64_val (CHR 0x0D) = None"
    by (simp_all add: b64_val_def)
  ultimately show ?thesis by metis
qed

text \<open>The six-bit digits the encoder forms from the bytes \<open>a\<close>, \<open>b\<close>.\<close>

definition digit_ok :: "int \<Rightarrow> bool" where
  "digit_ok i \<longleftrightarrow> 0 \<le> i \<and> i < 64"

lemma digit_okI:
  fixes a b :: char
  shows "digit_ok (of_char a div 4)" "digit_ok (of_char a mod 64)"
    "digit_ok (of_char a mod 4 * 16)" "digit_ok (of_char a mod 16 * 4)"
    "digit_ok (of_char a mod 4 * 16 + of_char b div 16)"
    "digit_ok (of_char a mod 16 * 4 + of_char b div 64)"
proof -
  define x y :: int where "x = of_char a" and "y = of_char b"
  have x: "0 \<le> x" "x < 256" and y: "0 \<le> y" "y < 256"
    using of_char_byte by (auto simp: x_def y_def)
  have m: "0 \<le> x mod 4" "x mod 4 \<le> 3" "0 \<le> x mod 16" "x mod 16 \<le> 15" by simp_all
  have d: "0 \<le> y div 16" "y div 16 \<le> 15" "0 \<le> y div 64" "y div 64 \<le> 3"
    using y by linarith+
  have "digit_ok (x div 4)" "digit_ok (x mod 64)" "digit_ok (x mod 4 * 16)" "digit_ok (x mod 16 * 4)"
    "digit_ok (x mod 4 * 16 + y div 16)" "digit_ok (x mod 16 * 4 + y div 64)"
    unfolding digit_ok_def using x m d by linarith+
  then show "digit_ok (of_char a div 4)" "digit_ok (of_char a mod 64)"
    "digit_ok (of_char a mod 4 * 16)" "digit_ok (of_char a mod 16 * 4)"
    "digit_ok (of_char a mod 4 * 16 + of_char b div 16)"
    "digit_ok (of_char a mod 16 * 4 + of_char b div 64)"
    by (simp_all add: x_def y_def)
qed

lemma digit_val: "digit_ok i \<Longrightarrow> b64_val (b64_char i) = Some i"
  by (simp add: b64_val_char digit_ok_def)

lemma digit_plain:
  "digit_ok i \<Longrightarrow> b64_char i \<noteq> CHR ''='' \<and> b64_char i \<noteq> CHR 0x0A \<and> b64_char i \<noteq> CHR 0x0D"
  by (simp add: b64_char_plain digit_ok_def)

lemmas digits = digit_okI [THEN digit_val] digit_okI [THEN digit_plain]

text \<open>Regrouping the digits gives the bytes back.\<close>

lemma regroup_div: "0 \<le> s \<Longrightarrow> s < k \<Longrightarrow> (r * k + s) div k = r" for r s k :: int
  by (simp add: div_pos_pos_trivial)

lemma regroup_mod: "0 \<le> s \<Longrightarrow> s < k \<Longrightarrow> (r * k + s) mod k = s" for r s k :: int
  by (simp add: mod_pos_pos_trivial)

lemma top_nibble: "0 \<le> (of_char b :: int) div 16" "(of_char b :: int) div 16 < 16"
  and top_pair: "0 \<le> (of_char b :: int) div 64" "(of_char b :: int) div 64 < 4"
  using of_char_byte [of b] by linarith+

lemma regroup_bytes:
  fixes a b c :: char
  shows "char_of (of_char a div 4 * 4 + of_char a mod 4 * 16 div (16::int)) = a"
    "char_of (of_char a div 4 * 4 + (of_char a mod 4 * 16 + of_char b div 16) div (16::int)) = a"
    "char_of ((of_char a mod 4 * 16 + of_char b div 16) mod 16 * 16 + of_char b mod 16 * 4 div (4::int)) = b"
    "char_of ((of_char a mod 4 * 16 + of_char b div 16) mod 16 * 16 +
       (of_char b mod 16 * 4 + of_char c div 64) div (4::int)) = b"
    "char_of ((of_char b mod 16 * 4 + of_char c div 64) mod 4 * 64 + of_char c mod (64::int)) = c"
  by (simp_all add: regroup_div [OF top_nibble] regroup_mod [OF top_nibble]
      regroup_div [OF top_pair] regroup_mod [OF top_pair] del: mod_mult_self3 mod_mult_self4)

lemma encode_no_break: "c \<in> set (EncodeToString s) \<Longrightarrow> c \<noteq> CHR 0x0A \<and> c \<noteq> CHR 0x0D"
  by (induction s rule: EncodeToString.induct) (auto simp: Let_def digits)

lemma groups_encode: "b64_groups (EncodeToString s) = Some s"
  by (induction s rule: EncodeToString.induct)
    (simp_all only: EncodeToString.simps b64_groups.simps Let_def append.simps b64_two_def
      digits regroup_bytes option.simps option.map prod.simps simp_thms if_True if_False)

lemma Decode_Encode [simp, codec_simps]: "DecodeString (EncodeToString s) = Some s"
proof -
  have "filter (\<lambda>c. c \<noteq> CHR 0x0A \<and> c \<noteq> CHR 0x0D) (EncodeToString s) = EncodeToString s"
    using encode_no_break by (simp add: filter_id_conv)
  then show ?thesis by (simp add: DecodeString_def groups_encode)
qed

end
