(* ===== verification/GoJson.thy ===== *)
theory GoJson
  imports Prelude
begin

text \<open>
  Go's \<open>encoding/json\<close> as far as node identifiers need it: quoting a string, reading a JSON
  text into a value (strict grammar, escapes with surrogate pairs, invalid UTF-8 replaced, nesting
  limited to 10000 levels), and the round trip of quoted strings.
\<close>

section \<open>UTF-8\<close>

abbreviation code :: "char \<Rightarrow> int" where
  "code c \<equiv> of_char c"

definition cont :: "char \<Rightarrow> int \<Rightarrow> int \<Rightarrow> bool" where
  "cont c lo hi \<longleftrightarrow> lo \<le> code c \<and> code c \<le> hi"

text \<open>The length of the well-formed multi-byte sequence at the head, 0 when there is none.\<close>

definition seq2 :: "char \<Rightarrow> char \<Rightarrow> bool" where
  "seq2 a b \<longleftrightarrow> cont a 0xC2 0xDF \<and> cont b 0x80 0xBF"

definition seq3 :: "char \<Rightarrow> char \<Rightarrow> char \<Rightarrow> bool" where
  "seq3 a b c \<longleftrightarrow> cont c 0x80 0xBF \<and>
     (cont a 0xE0 0xE0 \<and> cont b 0xA0 0xBF \<or> cont a 0xE1 0xEC \<and> cont b 0x80 0xBF \<or>
      cont a 0xED 0xED \<and> cont b 0x80 0x9F \<or> cont a 0xEE 0xEF \<and> cont b 0x80 0xBF)"

definition seq4 :: "char \<Rightarrow> char \<Rightarrow> char \<Rightarrow> char \<Rightarrow> bool" where
  "seq4 a b c d \<longleftrightarrow> cont c 0x80 0xBF \<and> cont d 0x80 0xBF \<and>
     (cont a 0xF0 0xF0 \<and> cont b 0x90 0xBF \<or> cont a 0xF1 0xF3 \<and> cont b 0x80 0xBF \<or>
      cont a 0xF4 0xF4 \<and> cont b 0x80 0x8F)"

fun utf8_len :: "string \<Rightarrow> nat" where
  "utf8_len (a # b # c # d # r) =
     (if seq2 a b then 2 else if seq3 a b c then 3 else if seq4 a b c d then 4 else 0)"
| "utf8_len [a, b, c] = (if seq2 a b then 2 else if seq3 a b c then 3 else 0)"
| "utf8_len [a, b] = (if seq2 a b then 2 else 0)"
| "utf8_len [a] = 0"
| "utf8_len [] = 0"

definition utf8_encode :: "int \<Rightarrow> string" where
  "utf8_encode u =
     (if u < 0x80 then [char_of u]
      else if u < 0x800 then [char_of (0xC0 + u div 64), char_of (0x80 + u mod 64)]
      else if u < 0x10000 then
        [char_of (0xE0 + u div 4096), char_of (0x80 + u div 64 mod 64), char_of (0x80 + u mod 64)]
      else [char_of (0xF0 + u div 262144), char_of (0x80 + u div 4096 mod 64),
            char_of (0x80 + u div 64 mod 64), char_of (0x80 + u mod 64)])"

function valid_utf8 :: "string \<Rightarrow> bool" where
  "valid_utf8 s =
     (case s of
        [] \<Rightarrow> True
      | c # r \<Rightarrow>
          if code c < 0x80 then valid_utf8 r
          else if utf8_len s = 0 then False
          else valid_utf8 (drop (utf8_len s) s))"
  by pat_completeness auto
termination
  by (relation "measure length") auto

declare valid_utf8.simps [simp del]

lemma valid_utf8_Cons:
  "valid_utf8 (c # r) =
     (if code c < 0x80 then valid_utf8 r
      else utf8_len (c # r) \<noteq> 0 \<and> valid_utf8 (drop (utf8_len (c # r)) (c # r)))"
  by (subst valid_utf8.simps) simp

lemma valid_utf8_Nil [simp]: "valid_utf8 []"
  by (subst valid_utf8.simps) simp

lemma utf8_len_le: "utf8_len s \<le> length s"
  by (induction s rule: utf8_len.induct) auto

lemma utf8_len_ge: "utf8_len s \<noteq> 0 \<Longrightarrow> 2 \<le> utf8_len s"
  by (induction s rule: utf8_len.induct) (auto split: if_splits)

lemma utf8_len_append: "utf8_len s \<noteq> 0 \<Longrightarrow> utf8_len (s @ t) = utf8_len s"
proof (induction s rule: utf8_len.induct)
  case (2 a b c)
  then show ?case by (cases t) (auto split: if_splits)
next
  case (3 a b)
  then show ?case by (cases t; cases "tl t") (auto split: if_splits)
qed simp_all

lemma utf8_len_take: "utf8_len s \<noteq> 0 \<Longrightarrow> utf8_len (take (utf8_len s) s) = utf8_len s"
  by (induction s rule: utf8_len.induct) (auto simp: numeral_eq_Suc split: if_splits)

lemma utf8_len_take_append:
  "utf8_len s \<noteq> 0 \<Longrightarrow> utf8_len (take (utf8_len s) s @ t) = utf8_len s"
  using utf8_len_append [of "take (utf8_len s) s" t] utf8_len_take [of s] by simp

section \<open>Quoting a string\<close>

definition hex_digit :: "int \<Rightarrow> char" where
  "hex_digit d = (if d < 10 then char_of (48 + d) else char_of (87 + d))"

text \<open>One ASCII byte, with the HTML-safe escaping \<open>json.Marshal\<close> uses.\<close>

definition quote_ascii :: "char \<Rightarrow> string" where
  "quote_ascii c =
     (if c = CHR 0x22 \<or> c = CHR 0x5C then [CHR 0x5C, c]
      else if c = CHR 0x08 then [CHR 0x5C, CHR ''b'']
      else if c = CHR 0x0C then [CHR 0x5C, CHR ''f'']
      else if c = CHR 0x0A then [CHR 0x5C, CHR ''n'']
      else if c = CHR 0x0D then [CHR 0x5C, CHR ''r'']
      else if c = CHR 0x09 then [CHR 0x5C, CHR ''t'']
      else if code c < 0x20 \<or> c = CHR ''<'' \<or> c = CHR ''>'' \<or> c = CHR ''&'' then
        [CHR 0x5C, CHR ''u'', CHR ''0'', CHR ''0'', hex_digit (code c div 16), hex_digit (code c mod 16)]
      else [c])"

function quote_body :: "string \<Rightarrow> string" where
  "quote_body s =
     (case s of
        [] \<Rightarrow> []
      | c # r \<Rightarrow>
          if code c < 0x80 then quote_ascii c @ quote_body r
          else if utf8_len s = 0 then [CHR 0x5C] @ ''ufffd'' @ quote_body r
          else if take 3 s = [CHR 0xE2, CHR 0x80, CHR 0xA8] then [CHR 0x5C] @ ''u2028'' @ quote_body (drop 3 s)
          else if take 3 s = [CHR 0xE2, CHR 0x80, CHR 0xA9] then [CHR 0x5C] @ ''u2029'' @ quote_body (drop 3 s)
          else take (utf8_len s) s @ quote_body (drop (utf8_len s) s))"
  by pat_completeness auto
termination
  by (relation "measure length") auto

declare quote_body.simps [simp del]

lemma quote_body_Nil [simp]: "quote_body [] = []"
  by (subst quote_body.simps) simp

lemma quote_body_ascii: "code c < 0x80 \<Longrightarrow> quote_body (c # r) = quote_ascii c @ quote_body r"
  by (subst quote_body.simps) simp

lemma quote_body_multi:
  "\<not> code c < 0x80 \<Longrightarrow> utf8_len (c # r) \<noteq> 0 \<Longrightarrow> quote_body (c # r) =
     (if take 3 (c # r) = [CHR 0xE2, CHR 0x80, CHR 0xA8] then [CHR 0x5C] @ ''u2028'' @ quote_body (drop 3 (c # r))
      else if take 3 (c # r) = [CHR 0xE2, CHR 0x80, CHR 0xA9] then [CHR 0x5C] @ ''u2029'' @ quote_body (drop 3 (c # r))
      else take (utf8_len (c # r)) (c # r) @ quote_body (drop (utf8_len (c # r)) (c # r)))"
  by (subst quote_body.simps) simp

definition quote :: "string \<Rightarrow> string" where
  "quote s = [CHR 0x22] @ quote_body s @ [CHR 0x22]"

section \<open>Reading a string\<close>

definition hex_of :: "char \<Rightarrow> int option" where
  "hex_of c =
     (let n = code c in
      if 48 \<le> n \<and> n \<le> 57 then Some (n - 48)
      else if 97 \<le> n \<and> n \<le> 102 then Some (n - 87)
      else if 65 \<le> n \<and> n \<le> 70 then Some (n - 55)
      else None)"

definition hex4 :: "string \<Rightarrow> int option" where
  "hex4 s = (case s of
      a # b # c # d # _ \<Rightarrow>
        (case (hex_of a, hex_of b, hex_of c, hex_of d) of
           (Some a, Some b, Some c, Some d) \<Rightarrow> Some (((a * 16 + b) * 16 + c) * 16 + d)
         | _ \<Rightarrow> None)
    | _ \<Rightarrow> None)"

definition simple_escape :: "char \<Rightarrow> char option" where
  "simple_escape e =
     (if e = CHR 0x22 \<or> e = CHR 0x5C \<or> e = CHR ''/'' then Some e
      else if e = CHR ''b'' then Some (CHR 0x08)
      else if e = CHR ''f'' then Some (CHR 0x0C)
      else if e = CHR ''n'' then Some (CHR 0x0A)
      else if e = CHR ''r'' then Some (CHR 0x0D)
      else if e = CHR ''t'' then Some (CHR 0x09)
      else None)"

text \<open>A high surrogate followed by an escaped low surrogate stands for one code point.\<close>

definition surrogate_pair :: "int \<Rightarrow> string \<Rightarrow> int option" where
  "surrogate_pair u s =
     (case s of
        x # y # t \<Rightarrow>
          if 0xD800 \<le> u \<and> u < 0xDC00 \<and> x = CHR 0x5C \<and> y = CHR ''u'' then
            (case hex4 t of
               Some l \<Rightarrow> if 0xDC00 \<le> l \<and> l < 0xE000
                 then Some ((u - 0xD800) * 1024 + (l - 0xDC00) + 0x10000) else None
             | None \<Rightarrow> None)
          else None
      | _ \<Rightarrow> None)"

definition prepend :: "string \<Rightarrow> (string \<times> string) option \<Rightarrow> (string \<times> string) option" where
  "prepend p r = map_option (\<lambda>(t, rest). (p @ t, rest)) r"

text \<open>
  One step of reading the text after an opening quote: the closing quote with the text after it,
  or the bytes one character stands for with the text left.
\<close>

datatype scan = ScanErr | ScanEnd string | ScanOut string string

definition scan_escape :: "char \<Rightarrow> string \<Rightarrow> scan" where
  "scan_escape e r =
     (if e = CHR ''u'' then
        (case hex4 r of
           None \<Rightarrow> ScanErr
         | Some u \<Rightarrow>
             (case surrogate_pair u (drop 4 r) of
                Some cp \<Rightarrow> ScanOut (utf8_encode cp) (drop 10 r)
              | None \<Rightarrow> ScanOut (utf8_encode (if 0xD800 \<le> u \<and> u < 0xE000 then 0xFFFD else u)) (drop 4 r)))
      else (case simple_escape e of None \<Rightarrow> ScanErr | Some b \<Rightarrow> ScanOut [b] r))"

definition scan_step :: "char \<Rightarrow> string \<Rightarrow> scan" where
  "scan_step c r =
     (if c = CHR 0x22 then ScanEnd r
      else if c = CHR 0x5C then (case r of [] \<Rightarrow> ScanErr | e # r' \<Rightarrow> scan_escape e r')
      else if code c < 0x20 then ScanErr
      else if code c < 0x80 then ScanOut [c] r
      else if utf8_len (c # r) = 0 then ScanOut [CHR 0xEF, CHR 0xBF, CHR 0xBD] r
      else ScanOut (take (utf8_len (c # r)) (c # r)) (drop (utf8_len (c # r)) (c # r)))"

lemma scan_escape_shorter: "scan_escape e r = ScanOut out r' \<Longrightarrow> length r' \<le> length r"
  by (auto simp: scan_escape_def split: if_splits option.splits)

lemma scan_step_shorter: "scan_step c r = ScanOut out r' \<Longrightarrow> length r' \<le> length r"
  using utf8_len_ge [of "c # r"]
  by (auto simp: scan_step_def dest: scan_escape_shorter split: if_splits list.splits)

function scan_str :: "string \<Rightarrow> (string \<times> string) option" where
  "scan_str [] = None"
| "scan_str (c # r) =
     (case scan_step c r of
        ScanErr \<Rightarrow> None
      | ScanEnd r' \<Rightarrow> Some ([], r')
      | ScanOut out r' \<Rightarrow> map_option (\<lambda>(t, rest). (out @ t, rest)) (scan_str r'))"
  by pat_completeness auto
termination
  by (relation "measure length") (auto dest: scan_step_shorter)

declare scan_str.simps(2) [simp del]

lemma scan_step_end: "scan_step c r = ScanEnd r' \<Longrightarrow> r' = r"
  by (auto simp: scan_step_def scan_escape_def split: if_splits list.splits option.splits)

lemma scan_str_shorter: "scan_str s = Some (t, r) \<Longrightarrow> length r < length s"
proof (induction s arbitrary: t rule: scan_str.induct)
  case (2 c s)
  show ?case
  proof (cases "scan_step c s")
    case (ScanOut out s')
    then show ?thesis
      using 2 scan_step_shorter [OF ScanOut] by (fastforce simp: scan_str.simps(2) [of c s])
  qed (use 2 scan_step_end in \<open>auto simp: scan_str.simps(2) [of c s]\<close>)
qed simp

section \<open>The round trip of a quoted string\<close>

lemma char_of_hex: "0 \<le> n \<Longrightarrow> n < 16 \<Longrightarrow> hex_of (hex_digit n) = Some n"
  by (auto simp: hex_of_def hex_digit_def Let_def)

lemma scan_ascii_plain:
  assumes "0x20 \<le> code c" "code c < 0x80" "c \<noteq> CHR 0x22" "c \<noteq> CHR 0x5C"
  shows "scan_str (c # r) = map_option (\<lambda>(t, rest). (c # t, rest)) (scan_str r)"
  using assms by (simp add: scan_str.simps(2) scan_step_def)

lemma scan_u00:
  assumes c: "code c < 0x80"
  shows "scan_str (CHR 0x5C # CHR ''u'' # CHR ''0'' # CHR ''0'' # hex_digit (code c div 16) #
           hex_digit (code c mod 16) # r) = map_option (\<lambda>(t, rest). (c # t, rest)) (scan_str r)"
proof -
  have n: "0 \<le> code c"
    by (metis of_nat_0_le_iff of_nat_of_char)
  have h: "hex_of (hex_digit (code c div 16)) = Some (code c div 16)"
    "hex_of (hex_digit (code c mod 16)) = Some (code c mod 16)" "hex_of (CHR ''0'') = Some 0"
    using n c by (simp_all add: char_of_hex, simp add: hex_of_def)
  have v: "hex4 (CHR ''0'' # CHR ''0'' # hex_digit (code c div 16) # hex_digit (code c mod 16) # r) = Some (code c)"
    using h by (simp add: hex4_def)
  have "surrogate_pair (code c) r = None"
    using c by (auto simp: surrogate_pair_def split: list.splits)
  then have "scan_escape (CHR ''u'') (CHR ''0'' # CHR ''0'' # hex_digit (code c div 16) #
      hex_digit (code c mod 16) # r) = ScanOut [c] r"
    using v c by (simp add: scan_escape_def utf8_encode_def)
  then show ?thesis by (simp add: scan_str.simps(2) scan_step_def)
qed

lemma scan_quote_ascii:
  assumes "code c < 0x80"
  shows "scan_str (quote_ascii c @ r) = map_option (\<lambda>(t, rest). (c # t, rest)) (scan_str r)"
proof -
  have simple: "scan_str (CHR 0x5C # e # r) = map_option (\<lambda>(t, rest). (b # t, rest)) (scan_str r)"
    if "simple_escape e = Some b" "e \<noteq> CHR ''u''" for e b
    using that by (simp add: scan_str.simps(2) scan_step_def scan_escape_def)
  show ?thesis
    using assms by (auto simp: quote_ascii_def simple simple_escape_def scan_u00 scan_ascii_plain)
qed

lemma scan_multi:
  assumes n: "utf8_len s \<noteq> 0" and c: "0x80 \<le> code (hd s)"
  shows "scan_str (take (utf8_len s) s @ r) =
    map_option (\<lambda>(t, rest). (take (utf8_len s) s @ t, rest)) (scan_str r)"
proof -
  obtain d ds where s: "take (utf8_len s) s = d # ds" "d = hd s"
    using n by (cases s) (auto simp: take_Cons')
  have l: "utf8_len (d # ds @ r) = utf8_len s"
    using utf8_len_take_append [OF n, of r] s by simp
  have len: "length (d # ds) = utf8_len s"
    using s(1) utf8_len_le [of s] by (metis length_take min.absorb2)
  have "d \<noteq> CHR 0x22" "d \<noteq> CHR 0x5C" using c s(2) by auto
  then have "scan_step d (ds @ r) = ScanOut (d # ds) r"
    using c s(2) n l len by (auto simp: scan_step_def take_Cons' drop_Cons')
  then show ?thesis using s(1) by (simp add: scan_str.simps(2))
qed

lemma line_sep_bytes:
  "utf8_encode 0x2028 = [CHR 0xE2, CHR 0x80, CHR 0xA8]" "utf8_encode 0x2029 = [CHR 0xE2, CHR 0x80, CHR 0xA9]"
  by code_simp+

lemma scan_line_sep:
  "scan_str ([CHR 0x5C] @ ''u2028'' @ r) =
     map_option (\<lambda>(t, rest). ([CHR 0xE2, CHR 0x80, CHR 0xA8] @ t, rest)) (scan_str r)"
  "scan_str ([CHR 0x5C] @ ''u2029'' @ r) =
     map_option (\<lambda>(t, rest). ([CHR 0xE2, CHR 0x80, CHR 0xA9] @ t, rest)) (scan_str r)"
proof -
  have "surrogate_pair 0x2028 r = None" "surrogate_pair 0x2029 r = None"
    by (auto simp: surrogate_pair_def split: list.splits)
  then show "scan_str ([CHR 0x5C] @ ''u2028'' @ r) =
     map_option (\<lambda>(t, rest). ([CHR 0xE2, CHR 0x80, CHR 0xA8] @ t, rest)) (scan_str r)"
    "scan_str ([CHR 0x5C] @ ''u2029'' @ r) =
     map_option (\<lambda>(t, rest). ([CHR 0xE2, CHR 0x80, CHR 0xA9] @ t, rest)) (scan_str r)"
    by (simp_all add: scan_str.simps(2) scan_step_def scan_escape_def hex4_def hex_of_def line_sep_bytes)
qed

lemma take3_line_sep:
  assumes "take 3 s = x" "x = [CHR 0xE2, CHR 0x80, CHR 0xA8] \<or> x = [CHR 0xE2, CHR 0x80, CHR 0xA9]"
  shows "utf8_len s = 3 \<and> s = x @ drop 3 s"
proof
  show e: "s = x @ drop 3 s" using assms(1) by (metis append_take_drop_id)
  have "utf8_len x = 3" using assms(2) by (auto simp: seq2_def seq3_def cont_def)
  then show "utf8_len s = 3" using utf8_len_append [of x "drop 3 s"] e by simp
qed

lemma scan_quote_multi:
  assumes m: "\<not> code c < 0x80" "utf8_len (c # cs) \<noteq> 0"
    and IH: "scan_str (quote_body (drop (utf8_len (c # cs)) (c # cs)) @ r) =
      Some (drop (utf8_len (c # cs)) (c # cs), rest)"
  shows "scan_str (quote_body (c # cs) @ r) = Some (c # cs, rest)"
proof -
  let ?s = "c # cs"
  consider (a) "take 3 ?s = [CHR 0xE2, CHR 0x80, CHR 0xA8]"
    | (b) "take 3 ?s \<noteq> [CHR 0xE2, CHR 0x80, CHR 0xA8]" "take 3 ?s = [CHR 0xE2, CHR 0x80, CHR 0xA9]"
    | (o) "take 3 ?s \<noteq> [CHR 0xE2, CHR 0x80, CHR 0xA8]" "take 3 ?s \<noteq> [CHR 0xE2, CHR 0x80, CHR 0xA9]"
    by blast
  then show ?thesis
  proof cases
    case a
    then have l: "utf8_len ?s = 3" "[CHR 0xE2, CHR 0x80, CHR 0xA8] @ drop 3 ?s = ?s"
      using take3_line_sep [OF a] by simp_all
    have "quote_body ?s @ r = [CHR 0x5C] @ ''u2028'' @ (quote_body (drop 3 ?s) @ r)"
      using quote_body_multi [OF m] a by simp
    then show ?thesis using IH l by (simp only: scan_line_sep option.map prod.case l(1))
  next
    case b
    then have l: "utf8_len ?s = 3" "[CHR 0xE2, CHR 0x80, CHR 0xA9] @ drop 3 ?s = ?s"
      using take3_line_sep [OF b(2)] by simp_all
    have "quote_body ?s @ r = [CHR 0x5C] @ ''u2029'' @ (quote_body (drop 3 ?s) @ r)"
      using quote_body_multi [OF m] b by simp
    then show ?thesis using IH l by (simp only: scan_line_sep option.map prod.case l(1))
  next
    case o
    then have "quote_body ?s @ r =
        take (utf8_len ?s) ?s @ (quote_body (drop (utf8_len ?s) ?s) @ r)"
      by (simp only: quote_body_multi [OF m] if_False append.assoc)
    then show ?thesis
      using scan_multi [OF m(2)] m(1) IH by (simp only: option.map prod.case list.sel append_take_drop_id not_less)
  qed
qed

lemma scan_quote: "valid_utf8 s \<Longrightarrow> scan_str (quote_body s @ CHR 0x22 # r) = Some (s, r)"
proof (induction s rule: valid_utf8.induct)
  case (1 s)
  show ?case
  proof (cases s)
    case Nil
    then show ?thesis by (simp add: scan_str.simps(2) scan_step_def)
  next
    case (Cons c cs)
    show ?thesis
    proof (cases "code c < 0x80")
      case True
      then have "valid_utf8 cs" using "1.prems" Cons by (simp add: valid_utf8_Cons)
      then show ?thesis
        using "1.IH"(1) [OF Cons True] True Cons by (simp add: quote_body_ascii scan_quote_ascii)
    next
      case False
      then have "utf8_len s \<noteq> 0" "valid_utf8 (drop (utf8_len s) s)"
        using "1.prems" Cons by (simp_all add: valid_utf8_Cons)
      then show ?thesis
        using "1.IH"(2) [OF Cons False] scan_quote_multi [OF False] Cons by simp
    qed
  qed
qed

section \<open>Values\<close>

text \<open>
  Lexing and a stack parser over the tokens; both recursions consume their input. Nesting beyond
  10000 open arrays and objects is refused, as Go's scanner does.
\<close>

datatype json =
    JNull
  | JBool bool
  | JNum string
  | JStr string
  | JArr "json list"
  | JObj "(string \<times> json) list"

datatype token =
    TPunct char
  | TLit json

definition json_space :: "char \<Rightarrow> bool" where
  "json_space c \<longleftrightarrow> c = CHR 0x20 \<or> c = CHR 0x09 \<or> c = CHR 0x0A \<or> c = CHR 0x0D"

definition json_digit :: "char \<Rightarrow> bool" where
  "json_digit c \<longleftrightarrow> 48 \<le> code c \<and> code c \<le> 57"

text \<open>The longest number at the head: optional minus, integer part, fraction, exponent.\<close>

definition num_int :: "string \<Rightarrow> (string \<times> string) option" where
  "num_int s =
     (case s of
        [] \<Rightarrow> None
      | c # r \<Rightarrow>
          if c = CHR ''0'' then Some ([c], r)
          else if json_digit c then Some (takeWhile json_digit s, dropWhile json_digit s)
          else None)"

definition num_frac :: "string \<Rightarrow> (string \<times> string) option" where
  "num_frac s =
     (if s \<noteq> [] \<and> hd s = CHR ''.'' then
        (if takeWhile json_digit (tl s) = [] then None
         else Some (CHR ''.'' # takeWhile json_digit (tl s), dropWhile json_digit (tl s)))
      else Some ([], s))"

definition num_exp :: "string \<Rightarrow> (string \<times> string) option" where
  "num_exp s =
     (if s \<noteq> [] \<and> (hd s = CHR ''e'' \<or> hd s = CHR ''E'') then
        (let signed = tl s \<noteq> [] \<and> (hd (tl s) = CHR ''+'' \<or> hd (tl s) = CHR ''-'');
             ds = (if signed then tl (tl s) else tl s) in
         if takeWhile json_digit ds = [] then None
         else Some (hd s # (if signed then [hd (tl s)] else []) @ takeWhile json_digit ds,
                    dropWhile json_digit ds))
      else Some ([], s))"

definition lex_num :: "string \<Rightarrow> (string \<times> string) option" where
  "lex_num s =
     (let neg = s \<noteq> [] \<and> hd s = CHR ''-'' in
      case num_int (if neg then tl s else s) of
        None \<Rightarrow> None
      | Some (i, r) \<Rightarrow> (case num_frac r of
        None \<Rightarrow> None
      | Some (f, r) \<Rightarrow> (case num_exp r of
        None \<Rightarrow> None
      | Some (e, r) \<Rightarrow> Some ((if neg then ''-'' else []) @ i @ f @ e, r))))"

definition lex_one :: "string \<Rightarrow> (token \<times> string) option" where
  "lex_one s =
     (case s of
        [] \<Rightarrow> None
      | c # r \<Rightarrow>
          if c \<in> set ''{}[],:'' then Some (TPunct c, r)
          else if c = CHR 0x22 then map_option (\<lambda>(t, r). (TLit (JStr t), r)) (scan_str r)
          else if take 4 s = ''null'' then Some (TLit JNull, drop 4 s)
          else if take 4 s = ''true'' then Some (TLit (JBool True), drop 4 s)
          else if take 5 s = ''false'' then Some (TLit (JBool False), drop 5 s)
          else map_option (\<lambda>(n, r). (TLit (JNum n), r)) (lex_num s))"

lemma num_int_shorter: "num_int s = Some (i, r) \<Longrightarrow> length r < length s"
  by (auto simp: num_int_def split: list.splits if_splits) (metis length_dropWhile_le le_imp_less_Suc)

lemma num_frac_le: "num_frac s = Some (i, r) \<Longrightarrow> length r \<le> length s"
  using length_dropWhile_le [of json_digit "tl s"] by (auto simp: num_frac_def split: if_splits)

lemma num_exp_le: "num_exp s = Some (i, r) \<Longrightarrow> length r \<le> length s"
  using length_dropWhile_le [of json_digit "tl s"] length_dropWhile_le [of json_digit "tl (tl s)"]
  by (auto simp: num_exp_def Let_def split: if_splits)

lemma lex_num_shorter: "lex_num s = Some (n, r) \<Longrightarrow> length r < length s"
  by (fastforce simp: lex_num_def Let_def split: option.splits if_splits
      dest!: num_int_shorter num_frac_le num_exp_le)

lemma lex_one_shorter: "lex_one s = Some (t, r) \<Longrightarrow> length r < length s"
  by (auto simp: lex_one_def split: list.splits if_splits dest: scan_str_shorter lex_num_shorter)

function lex :: "string \<Rightarrow> token list option" where
  "lex [] = Some []"
| "lex (c # r) =
     (if json_space c then lex r
      else case lex_one (c # r) of
             None \<Rightarrow> None
           | Some (t, r') \<Rightarrow> map_option (Cons t) (lex r'))"
  by pat_completeness auto
termination
  by (relation "measure length") (auto dest: lex_one_shorter)

datatype frame = FArr "json list" | FObj "(string \<times> json) list" string

definition max_depth :: nat where
  "max_depth = 10000"

function p_value :: "frame list \<Rightarrow> token list \<Rightarrow> json option"
  and p_after :: "frame list \<Rightarrow> json \<Rightarrow> token list \<Rightarrow> json option" where
  "p_value st ts =
     (case ts of
        [] \<Rightarrow> None
      | TLit v # r \<Rightarrow> p_after st v r
      | TPunct c # r \<Rightarrow>
          if max_depth \<le> length st then None
          else if c = CHR ''['' then
            (case r of
               TPunct d # r' \<Rightarrow> if d = CHR '']'' then p_after st (JArr []) r' else p_value (FArr [] # st) r
             | _ \<Rightarrow> p_value (FArr [] # st) r)
          else if c = CHR ''{'' then
            (case r of
               TPunct d # r' \<Rightarrow> if d = CHR ''}'' then p_after st (JObj []) r' else None
             | TLit (JStr k) # TPunct d # r' \<Rightarrow>
                 if d = CHR '':'' then p_value (FObj [] k # st) r' else None
             | _ \<Rightarrow> None)
          else None)"
| "p_after st v ts =
     (case st of
        [] \<Rightarrow> (if ts = [] then Some v else None)
      | FArr vs # st' \<Rightarrow>
          (case ts of
             TPunct c # r \<Rightarrow>
               if c = CHR '','' then p_value (FArr (vs @ [v]) # st') r
               else if c = CHR '']'' then p_after st' (JArr (vs @ [v])) r
               else None
           | _ \<Rightarrow> None)
      | FObj ms k # st' \<Rightarrow>
          (case ts of
             TPunct c # r \<Rightarrow>
               if c = CHR '','' then
                 (case r of
                    TLit (JStr k') # TPunct d # r' \<Rightarrow>
                      if d = CHR '':'' then p_value (FObj (ms @ [(k, v)]) k' # st') r' else None
                  | _ \<Rightarrow> None)
               else if c = CHR ''}'' then p_after st' (JObj (ms @ [(k, v)])) r
               else None
           | _ \<Rightarrow> None))"
  by pat_completeness auto
termination
  by (relation "measure (\<lambda>x. case x of Inl (st, ts) \<Rightarrow> length ts | Inr (st, v, ts) \<Rightarrow> length ts)") auto

declare p_value.simps [simp del] p_after.simps [simp del]

definition parse_json :: "string \<Rightarrow> json option" where
  "parse_json s = (case lex s of None \<Rightarrow> None | Some ts \<Rightarrow> p_value [] ts)"

end
