(* ===== verification/Util.thy ===== *)
theory Util
  imports GoStrings Base64 GoJson
begin

text \<open>
  Shared helpers of the controllers, \<open>src/controllers/util/util.go\<close>: node identifiers (a
  base64 text of a JSON object), comma separated lists, the node ids of an annotated resource, and
  the age order of routes.
\<close>

section \<open>Annotations and comma separated lists\<close>

text \<open>Reading a string-valued map at an absent key gives the empty string.\<close>

definition mstr :: "(string, string) gmap \<Rightarrow> string \<Rightarrow> string" where
  "mstr m k = (case mget m k of None \<Rightarrow> [] | Some v \<Rightarrow> v)"

definition ParseCSV :: "string \<Rightarrow> string list" where
  "ParseCSV s = filter (\<lambda>p. p \<noteq> []) (map TrimSpace (Split s (CHR '','')))"

lemma ParseCSV_parts: "p \<in> set (ParseCSV s) \<Longrightarrow> p \<noteq> [] \<and> trimmed p \<and> CHR '','' \<notin> set p"
  using set_TrimSpace Split_parts by (fastforce simp: ParseCSV_def trimmed_TrimSpace)

lemma ParseCSV_single:
  "p \<noteq> [] \<Longrightarrow> trimmed p \<Longrightarrow> CHR '','' \<notin> set p \<Longrightarrow> ParseCSV p = [p]"
  by (simp add: ParseCSV_def Split_no_sep TrimSpace_trimmed)

lemma ParseCSV_self: "p \<in> set (ParseCSV s) \<Longrightarrow> ParseCSV p = [p]"
  using ParseCSV_parts ParseCSV_single by blast

lemma ParseCSV_Nil [simp]: "ParseCSV [] = []"
  by (simp add: ParseCSV_def)

lemma ParseCSV_append: "ParseCSV (a @ CHR '','' # b) = ParseCSV a @ ParseCSV b"
  by (simp add: ParseCSV_def Split_append_sep)

lemma ParseCSV_Join:
  assumes "\<forall>p\<in>set ps. p \<noteq> [] \<and> trimmed p \<and> CHR '','' \<notin> set p"
  shows "ParseCSV (Join ps '','') = ps"
  using assms
proof (induction ps rule: induct_list012)
  case (2 p)
  then show ?case by (simp add: ParseCSV_single)
next
  case (3 p q ps)
  then show ?case by (simp add: ParseCSV_append ParseCSV_single)
qed simp

section \<open>Node identifiers\<close>

record NodeInfo =
  Nodes :: "string list"
  Clusters :: "string list"

definition empty_NodeInfo :: NodeInfo where
  "empty_NodeInfo = \<lparr>Nodes = [], Clusters = []\<rparr>"

text \<open>\<open>json.Marshal\<close> of a node info: a nil slice is null; \<open>GetNodeID\<close> leaves empty lists nil.\<close>

definition marshal_strings :: "string list \<Rightarrow> string" where
  "marshal_strings xs =
     (if xs = [] then ''null'' else [CHR ''[''] @ Join (map quote xs) '','' @ [CHR '']''])"

definition marshal_NodeInfo :: "NodeInfo \<Rightarrow> string" where
  "marshal_NodeInfo n =
     [CHR ''{''] @ quote ''nodes'' @ [CHR '':''] @ marshal_strings (Nodes n) @ [CHR '',''] @
     quote ''clusters'' @ [CHR '':''] @ marshal_strings (Clusters n) @ [CHR ''}'']"

definition GetNodeID :: "(string, string) gmap \<Rightarrow> string" where
  "GetNodeID an =
     EncodeToString (marshal_NodeInfo
       \<lparr>Nodes = sort (ParseCSV (mstr an ''nodes'')), Clusters = sort (ParseCSV (mstr an ''clusters''))\<rparr>)"

text \<open>
  \<open>json.Unmarshal\<close> into a slice of strings. A slice is its backing array and its length: a
  repeated key decodes into the array it already has, where null leaves the element unchanged.
\<close>

fun unmarshal_elems :: "json list \<Rightarrow> string list \<Rightarrow> string list option" where
  "unmarshal_elems [] buf = Some []"
| "unmarshal_elems (JStr s # js) buf = map_option (Cons s) (unmarshal_elems js (tl buf))"
| "unmarshal_elems (JNull # js) buf =
     map_option (Cons (case buf of [] \<Rightarrow> [] | b # _ \<Rightarrow> b)) (unmarshal_elems js (tl buf))"
| "unmarshal_elems (_ # js) buf = None"

type_synonym slice = "string list \<times> nat"

definition unmarshal_slice :: "json \<Rightarrow> slice \<Rightarrow> slice option" where
  "unmarshal_slice v sl =
     (case v of
        JNull \<Rightarrow> Some ([], 0)
      | JArr js \<Rightarrow>
          (if js = [] then Some ([], 0)
           else map_option (\<lambda>xs. (xs @ drop (length xs) (fst sl), length xs)) (unmarshal_elems js (fst sl)))
      | _ \<Rightarrow> None)"

text \<open>Field names match exactly or after case folding; U+017F folds to the letter s.\<close>

fun fold_name :: "string \<Rightarrow> string" where
  "fold_name (a # b # r) =
     (if a = CHR 0xC5 \<and> b = CHR 0xBF then CHR ''s'' # fold_name r
      else (if 65 \<le> code a \<and> code a \<le> 90 then char_of (code a + 32) else a) # fold_name (b # r))"
| "fold_name [a] = [if 65 \<le> code a \<and> code a \<le> 90 then char_of (code a + 32) else a]"
| "fold_name [] = []"

fun unmarshal_members :: "(string \<times> json) list \<Rightarrow> slice \<Rightarrow> slice \<Rightarrow> (slice \<times> slice) option" where
  "unmarshal_members [] ns cs = Some (ns, cs)"
| "unmarshal_members ((k, v) # ms) ns cs =
     (if fold_name k = ''nodes'' then
        (case unmarshal_slice v ns of None \<Rightarrow> None | Some ns' \<Rightarrow> unmarshal_members ms ns' cs)
      else if fold_name k = ''clusters'' then
        (case unmarshal_slice v cs of None \<Rightarrow> None | Some cs' \<Rightarrow> unmarshal_members ms ns cs')
      else unmarshal_members ms ns cs)"

definition unmarshal_NodeInfo :: "string \<Rightarrow> NodeInfo option" where
  "unmarshal_NodeInfo data =
     (case parse_json data of
        Some JNull \<Rightarrow> Some empty_NodeInfo
      | Some (JObj ms) \<Rightarrow>
          map_option (\<lambda>(ns, cs). \<lparr>Nodes = take (snd ns) (fst ns), Clusters = take (snd cs) (fst cs)\<rparr>)
            (unmarshal_members ms ([], 0) ([], 0))
      | _ \<Rightarrow> None)"

text \<open>\<open>None\<close> is the error result; callers that ignore the error see the empty node info.\<close>

definition GetNodeInfo :: "string \<Rightarrow> NodeInfo option" where
  "GetNodeInfo nodeid =
     (case DecodeString nodeid of None \<Rightarrow> None | Some d \<Rightarrow> unmarshal_NodeInfo d)"

definition NodeInfo_or_empty :: "string \<Rightarrow> NodeInfo" where
  "NodeInfo_or_empty nodeid =
     (case GetNodeInfo nodeid of None \<Rightarrow> empty_NodeInfo | Some n \<Rightarrow> n)"

definition FindNodeAndCluster :: "NodeInfo \<Rightarrow> string \<Rightarrow> bool" where
  "FindNodeAndCluster n nodeid =
     (case GetNodeInfo nodeid of
        None \<Rightarrow> False
      | Some c \<Rightarrow>
          if \<not> list_ex (\<lambda>x. x \<in> set (Nodes c)) (Nodes n) then False
          else list_ex (\<lambda>x. x \<in> set (Clusters c)) (Clusters n))"

definition pair_id :: "string \<Rightarrow> string \<Rightarrow> string" where
  "pair_id cluster node = GetNodeID [(''clusters'', cluster), (''nodes'', node)]"

definition NodeIDs :: "(string, string) gmap \<Rightarrow> string \<Rightarrow> string \<Rightarrow> string list" where
  "NodeIDs annotations defaultNode defaultCluster =
     (let nodes = ParseCSV (mstr annotations ''nodes'');
          nodes = (if nodes = [] then ParseCSV defaultNode else nodes);
          clusters = ParseCSV (mstr annotations ''clusters'');
          clusters = (if clusters = [] then ParseCSV defaultCluster else clusters)
      in concat (map (\<lambda>c. map (pair_id c) (sort nodes)) (sort clusters)))"

section \<open>Age order of routes\<close>

text \<open>Object metadata; a creation time stamp is a point of time, counted in seconds.\<close>

record ObjectMeta =
  om_Name :: string
  om_Namespace :: string
  om_CreationTimestamp :: int
  om_Generation :: int
  om_Annotations :: "(string, string) gmap"

definition OlderRoute :: "'a ObjectMeta_scheme \<Rightarrow> 'a ObjectMeta_scheme \<Rightarrow> bool" where
  "OlderRoute a b =
     (if om_CreationTimestamp a \<noteq> om_CreationTimestamp b
      then om_CreationTimestamp a < om_CreationTimestamp b
      else om_Name a < om_Name b)"

interpretation age: weak_order OlderRoute
  by unfold_locales (auto simp: OlderRoute_def split: if_splits)

section \<open>The codec's round trip\<close>

lemma lex_quote: "valid_utf8 s \<Longrightarrow> lex (quote s @ r) = map_option (Cons (TLit (JStr s))) (lex r)"
  using scan_quote [of s r] by (simp add: quote_def json_space_def lex_one_def)

lemma lex_punct:
  "c \<in> set ''{}[],:'' \<Longrightarrow> lex (c # r) = map_option (Cons (TPunct c)) (lex r)"
  by (auto simp: json_space_def lex_one_def)

lemma lex_null: "lex (''null'' @ r) = map_option (Cons (TLit JNull)) (lex r)"
  by (simp add: json_space_def lex_one_def)

fun comma_tokens :: "string list \<Rightarrow> token list" where
  "comma_tokens [] = []"
| "comma_tokens [x] = [TLit (JStr x)]"
| "comma_tokens (x # xs) = TLit (JStr x) # TPunct (CHR '','') # comma_tokens xs"

lemma lex_join:
  "\<forall>x\<in>set xs. valid_utf8 x \<Longrightarrow>
   lex (Join (map quote xs) '','' @ r) = map_option ((@) (comma_tokens xs)) (lex r)"
proof (induction xs rule: induct_list012)
  case 1
  then show ?case by (simp add: option.map_id0 id_def [symmetric])
next
  case (2 x)
  then show ?case by (simp add: lex_quote)
next
  case (3 x y zs)
  have "lex (Join (map quote (y # zs)) '','' @ r) = map_option ((@) (comma_tokens (y # zs))) (lex r)"
    by (rule 3) (use 3 in simp)
  then show ?case
    using 3 by (simp add: lex_quote lex_punct option.map_comp comp_def del: lex.simps)
qed

definition strings_tokens :: "string list \<Rightarrow> token list" where
  "strings_tokens xs =
     (if xs = [] then [TLit JNull] else TPunct (CHR ''['') # comma_tokens xs @ [TPunct (CHR '']'')])"

lemma lex_strings:
  assumes "\<forall>x\<in>set xs. valid_utf8 x"
  shows "lex (marshal_strings xs @ r) = map_option ((@) (strings_tokens xs)) (lex r)"
proof (cases "xs = []")
  case True
  then show ?thesis
    using lex_null [of r] by (simp add: marshal_strings_def strings_tokens_def append_Cons [abs_def] del: lex.simps)
next
  case False
  then show ?thesis
    using lex_join [OF assms, of "CHR '']'' # r"]
    by (cases "lex r") (simp_all add: marshal_strings_def strings_tokens_def lex_punct del: lex.simps)
qed

lemma p_after_elems:
  "xs \<noteq> [] \<Longrightarrow> length st < max_depth \<Longrightarrow>
   p_value (FArr vs # st) (comma_tokens xs @ TPunct (CHR '']'') # r) =
   p_after st (JArr (vs @ map JStr xs)) r"
proof (induction xs arbitrary: vs rule: comma_tokens.induct)
  case (2 x)
  then show ?case by (simp add: p_value.simps [of "FArr vs # st"] p_after.simps [of "FArr vs # st"])
next
  case (3 x y zs)
  then show ?case
    by (simp add: p_value.simps [of "FArr vs # st"] p_after.simps [of "FArr vs # st"])
qed simp

definition strings_json :: "string list \<Rightarrow> json" where
  "strings_json xs = (if xs = [] then JNull else JArr (map JStr xs))"

lemma comma_tokens_head: "xs \<noteq> [] \<Longrightarrow> \<exists>x ts. comma_tokens xs = TLit (JStr x) # ts"
  by (cases xs rule: comma_tokens.cases) auto

lemma p_value_strings:
  assumes "length st < max_depth"
  shows "p_value st (strings_tokens xs @ r) = p_after st (strings_json xs) r"
proof (cases "xs = []")
  case True
  then show ?thesis by (simp add: strings_tokens_def strings_json_def p_value.simps [of st])
next
  case False
  then obtain x ts where h: "comma_tokens xs = TLit (JStr x) # ts" using comma_tokens_head by blast
  have "p_value st (strings_tokens xs @ r) =
      p_value (FArr [] # st) (comma_tokens xs @ TPunct (CHR '']'') # r)"
    using False assms by (simp add: strings_tokens_def p_value.simps [of st] h)
  then show ?thesis
    using False assms by (simp add: p_after_elems strings_json_def)
qed

lemma parse_NodeInfo:
  assumes "\<forall>x\<in>set (Nodes n). valid_utf8 x" "\<forall>x\<in>set (Clusters n). valid_utf8 x"
  shows "parse_json (marshal_NodeInfo n) =
    Some (JObj [(''nodes'', strings_json (Nodes n)), (''clusters'', strings_json (Clusters n))])"
proof -
  have v: "valid_utf8 ''nodes''" "valid_utf8 ''clusters''" by code_simp+
  have l: "lex (marshal_NodeInfo n) = Some
      ([TPunct (CHR ''{''), TLit (JStr ''nodes''), TPunct (CHR '':'')] @ strings_tokens (Nodes n) @
       [TPunct (CHR '',''), TLit (JStr ''clusters''), TPunct (CHR '':'')] @ strings_tokens (Clusters n) @
       [TPunct (CHR ''}'')])"
    unfolding marshal_NodeInfo_def append_Cons append_Nil append_assoc
    by (simp add: lex_punct lex_quote v lex_strings assms del: lex.simps(2))
  have d: "0 < max_depth" "Suc 0 < max_depth" by (simp_all add: max_depth_def)
  show ?thesis
    unfolding parse_json_def l
    by (simp add: p_value.simps [of "[]"] d p_value_strings p_after.simps [of "[]"]
        p_after.simps [of "[FObj ms k]" for ms k])
qed

lemma unmarshal_elems_strs: "unmarshal_elems (map JStr xs) [] = Some xs"
  by (induction xs) auto

lemma unmarshal_slice_strings:
  "unmarshal_slice (strings_json xs) ([], 0) = Some (xs, length xs)"
  by (simp add: unmarshal_slice_def strings_json_def unmarshal_elems_strs)

lemma unmarshal_marshal [codec_simps]:
  assumes "\<forall>x\<in>set (Nodes n). valid_utf8 x" "\<forall>x\<in>set (Clusters n). valid_utf8 x"
  shows "unmarshal_NodeInfo (marshal_NodeInfo n) = Some n"
proof -
  have f: "fold_name ''nodes'' = ''nodes''" "fold_name ''clusters'' = ''clusters''" by code_simp+
  show ?thesis
    by (simp add: unmarshal_NodeInfo_def parse_NodeInfo assms f unmarshal_slice_strings)
qed

section \<open>Well-formed text stays well-formed under splitting and trimming\<close>

definition starts :: "string \<Rightarrow> bool" where
  "starts s \<longleftrightarrow> (case s of [] \<Rightarrow> True | c # _ \<Rightarrow> code c < 0x80 \<or> 0xC0 \<le> code c)"

definition tail_byte :: "char \<Rightarrow> bool" where
  "tail_byte c \<longleftrightarrow> 0x80 \<le> code c \<and> code c < 0xC0"

lemma seq_tail_bytes:
  "seq2 a b \<Longrightarrow> tail_byte b"
  "seq3 a b c \<Longrightarrow> tail_byte b \<and> tail_byte c"
  "seq4 a b c d \<Longrightarrow> tail_byte b \<and> tail_byte c \<and> tail_byte d"
  unfolding seq2_def seq3_def seq4_def cont_def tail_byte_def by linarith+

lemma utf8_len_cont: "0 < i \<Longrightarrow> i < utf8_len s \<Longrightarrow> tail_byte (s ! i)"
proof (induction s rule: utf8_len.induct)
  case (1 a b c d r)
  then have "i = 1 \<or> i = 2 \<or> i = 3" by (simp split: if_splits) linarith+
  with 1 show ?case by (auto simp: seq_tail_bytes split: if_splits)
next
  case (2 a b c)
  then have "i = 1 \<or> i = 2" by (simp split: if_splits) linarith+
  with 2 show ?case by (auto simp: seq_tail_bytes split: if_splits)
next
  case (3 a b)
  then have "i = 1" by (simp split: if_splits)
  with 3 show ?case by (auto simp: seq_tail_bytes split: if_splits)
qed simp_all

lemma utf8_len_inside:
  assumes "starts b" "a \<noteq> []"
  shows "utf8_len (a @ b) \<le> length a"
proof (rule ccontr)
  assume "\<not> utf8_len (a @ b) \<le> length a"
  then have l: "length a < utf8_len (a @ b)" by simp
  then have "b \<noteq> []" using utf8_len_le [of "a @ b"] by auto
  then obtain c r where b: "b = c # r" by (cases b) auto
  have "tail_byte c"
    using utf8_len_cont [of "length a" "a @ b"] l assms(2) b by (simp add: nth_append)
  then show False using assms(1) b by (simp add: starts_def tail_byte_def)
qed

lemma valid_utf8_split:
  "valid_utf8 (a @ b) \<Longrightarrow> starts b \<Longrightarrow> valid_utf8 a \<and> valid_utf8 b"
proof (induction a rule: valid_utf8.induct)
  case (1 a)
  show ?case
  proof (cases a)
    case Nil
    then show ?thesis using "1.prems" by simp
  next
    case (Cons c cs)
    show ?thesis
    proof (cases "code c < 0x80")
      case True
      then show ?thesis using "1.IH"(1) [OF Cons True] "1.prems" Cons by (simp add: valid_utf8_Cons)
    next
      case False
      let ?n = "utf8_len (a @ b)"
      have v: "?n \<noteq> 0" "valid_utf8 (drop ?n (a @ b))"
        using "1.prems"(1) Cons False by (simp_all add: valid_utf8_Cons)
      have n: "?n \<le> length a" using utf8_len_inside [OF "1.prems"(2), of a] Cons by simp
      have la: "utf8_len a = ?n"
        using utf8_len_take_append [OF v(1), of "drop ?n a"] n by simp
      have "valid_utf8 (drop ?n a) \<and> valid_utf8 b"
        using "1.IH"(2) [OF Cons False] la v n "1.prems"(2) by simp
      then show ?thesis using la v(1) Cons False by (simp add: valid_utf8_Cons)
    qed
  qed
qed

lemma valid_utf8_comma:
  assumes "valid_utf8 (a @ CHR '','' # b)"
  shows "valid_utf8 a \<and> valid_utf8 b"
  using valid_utf8_split [OF assms] by (simp add: starts_def valid_utf8_Cons)

lemma valid_Split:
  "valid_utf8 s \<Longrightarrow> p \<in> set (Split s (CHR '','')) \<Longrightarrow> valid_utf8 p"
proof (induction "length s" arbitrary: s rule: less_induct)
  case less
  show ?case
  proof (cases "CHR '','' \<in> set s")
    case True
    then obtain a b where s: "s = a @ CHR '','' # b" "CHR '','' \<notin> set a" by (meson split_list_first)
    then have "p = a \<or> p \<in> set (Split b (CHR '',''))"
      using less.prems(2) by (simp add: Split_append_sep Split_no_sep)
    then show ?thesis
      using less.hyps [of b] valid_utf8_comma [of a b] less.prems(1) s(1) by auto
  next
    case False
    then show ?thesis using less.prems by (simp add: Split_no_sep)
  qed
qed

definition whole_char :: "string \<Rightarrow> bool" where
  "whole_char w \<longleftrightarrow> w \<noteq> [] \<and> starts w \<and> (if code (hd w) < 0x80 then length w = 1 else utf8_len w = length w)"

lemma space_codes_whole: "\<forall>w\<in>set space_codes. whole_char w"
  unfolding list_all_iff [symmetric] by code_simp

lemma valid_drop_char:
  assumes "whole_char w" "valid_utf8 (w @ t)"
  shows "valid_utf8 t"
proof -
  obtain c cs where w: "w = c # cs" using assms(1) by (cases w) (auto simp: whole_char_def)
  show ?thesis
  proof (cases "code c < 0x80")
    case True
    then show ?thesis using assms w by (simp add: whole_char_def valid_utf8_Cons)
  next
    case False
    then have "utf8_len w = length w" "utf8_len w \<noteq> 0" using assms(1) w by (auto simp: whole_char_def)
    then have "utf8_len (w @ t) = length w" using utf8_len_append by metis
    then show ?thesis using assms(2) False w by (simp add: valid_utf8_Cons)
  qed
qed

lemma valid_drop_end: "whole_char w \<Longrightarrow> valid_utf8 (t @ w) \<Longrightarrow> valid_utf8 t"
  using valid_utf8_split [of t w] by (simp add: whole_char_def)

lemma first_length:
  assumes "(case filter P ws of [] \<Rightarrow> 0 | w # _ \<Rightarrow> length w) \<noteq> 0"
  obtains w where "w \<in> set ws" "P w" "(case filter P ws of [] \<Rightarrow> 0 | w # _ \<Rightarrow> length w) = length w"
proof (cases "filter P ws")
  case (Cons w r)
  have "w \<in> set (filter P ws)" unfolding Cons by simp
  then have "w \<in> set ws" "P w" by auto
  with Cons that show ?thesis by simp
qed (use assms in simp)

lemma valid_trim_left: "valid_utf8 s \<Longrightarrow> valid_utf8 (trim_left s)"
proof (induction s rule: trim_left.induct)
  case (1 s)
  show ?case
  proof (cases "s = [] \<or> lead_space s = 0")
    case False
    then obtain w where w: "w \<in> set space_codes" "HasPrefix s w" "lead_space s = length w"
      using first_length [of "HasPrefix s" space_codes] by (auto simp: lead_space_def)
    then have s: "s = w @ drop (lead_space s) s" by (auto simp: HasPrefix_iff)
    have "valid_utf8 (drop (lead_space s) s)"
      using valid_drop_char [of w "drop (lead_space s) s"] w(1) space_codes_whole s "1.prems" by simp
    then show ?thesis using "1.IH" False by (simp add: trim_left.simps [of s])
  qed (use 1 in \<open>simp add: trim_left.simps [of s]\<close>)
qed

lemma valid_trim_right: "valid_utf8 s \<Longrightarrow> valid_utf8 (trim_right s)"
proof (induction s rule: trim_right.induct)
  case (1 s)
  show ?case
  proof (cases "s = [] \<or> trail_space s = 0")
    case False
    then obtain w where w: "w \<in> set space_codes" "HasSuffix s w" "trail_space s = length w"
      using first_length [of "HasSuffix s" space_codes] by (auto simp: trail_space_def)
    then have s: "s = take (length s - trail_space s) s @ w" by (auto simp: HasSuffix_iff)
    have "valid_utf8 (take (length s - trail_space s) s)"
      using valid_drop_end [of w "take (length s - trail_space s) s"] w(1) space_codes_whole s "1.prems" by simp
    then show ?thesis using "1.IH" False by (simp add: trim_right.simps [of s])
  qed (use 1 in \<open>simp add: trim_right.simps [of s]\<close>)
qed

lemma valid_ParseCSV: "valid_utf8 s \<Longrightarrow> p \<in> set (ParseCSV s) \<Longrightarrow> valid_utf8 p"
  by (auto simp: ParseCSV_def TrimSpace_def intro!: valid_trim_right valid_trim_left dest: valid_Split)

section \<open>Node identifiers are faithful\<close>

text \<open>Annotations are JSON strings of the Kubernetes API, hence well-formed UTF-8.\<close>

definition text_ok :: "(string, string) gmap \<Rightarrow> bool" where
  "text_ok an \<longleftrightarrow> valid_utf8 (mstr an ''nodes'') \<and> valid_utf8 (mstr an ''clusters'')"

lemma decode_GetNodeID [codec_simps]:
  "text_ok an \<Longrightarrow> GetNodeInfo (GetNodeID an) =
     Some \<lparr>Nodes = sort (ParseCSV (mstr an ''nodes'')), Clusters = sort (ParseCSV (mstr an ''clusters''))\<rparr>"
  by (auto simp: GetNodeInfo_def GetNodeID_def text_ok_def
      intro!: unmarshal_marshal dest: valid_ParseCSV)

lemma mstr_pair [simp]:
  "mstr [(''clusters'', c), (''nodes'', n)] ''nodes'' = n"
  "mstr [(''clusters'', c), (''nodes'', n)] ''clusters'' = c"
  by (simp_all add: mstr_def mget_def)

definition plain :: "string \<Rightarrow> bool" where
  "plain s \<longleftrightarrow> valid_utf8 s \<and> ParseCSV s = [s]"

lemma plain_part: "valid_utf8 s \<Longrightarrow> p \<in> set (ParseCSV s) \<Longrightarrow> plain p"
  by (simp add: plain_def valid_ParseCSV ParseCSV_self)

lemma decode_pair_id [codec_simps]:
  "plain c \<Longrightarrow> plain n \<Longrightarrow> GetNodeInfo (pair_id c n) = Some \<lparr>Nodes = [n], Clusters = [c]\<rparr>"
  by (simp add: pair_id_def decode_GetNodeID text_ok_def plain_def)

lemma pair_id_inj:
  assumes "plain c" "plain n" "plain c'" "plain n'" and e: "pair_id c n = pair_id c' n'"
  shows "c = c' \<and> n = n'"
proof -
  have "\<lparr>Nodes = [n], Clusters = [c]\<rparr> = \<lparr>Nodes = [n'], Clusters = [c']\<rparr>"
    using decode_pair_id [OF assms(1,2)] decode_pair_id [OF assms(3,4)] unfolding e by simp
  then show ?thesis by simp
qed

section \<open>Properties\<close>

lemma plain_all: "valid_utf8 s \<Longrightarrow> \<forall>p\<in>set (sort (ParseCSV s)). plain p"
  by (simp add: plain_part)

text \<open>C40. Decoding a node id gives back the sorted node and cluster names it was made from.\<close>

theorem node_id_roundtrip:
  assumes "text_ok an"
  shows "GetNodeInfo (GetNodeID an) =
    Some \<lparr>Nodes = sort (ParseCSV (mstr an ''nodes'')), Clusters = sort (ParseCSV (mstr an ''clusters''))\<rparr>"
  by (rule decode_GetNodeID [OF assms])

lemma node_id_roundtrip_witness:
  "GetNodeInfo (GetNodeID [(''nodes'', ''b, a''), (''clusters'', ''c'')]) = Some \<lparr>Nodes = [''a'', ''b''], Clusters = [''c'']\<rparr>"
proof -
  have "text_ok [(''nodes'', ''b, a''), (''clusters'', ''c'')]" by code_simp
  from node_id_roundtrip [OF this] show ?thesis
    using ParseCSV_Join [of "[''b'', ''a'']"] by simp code_simp
qed

text \<open>The ids of an annotated resource are the ids of all pairs of its clusters and nodes (or of the
  defaults), in order, and each decodes to its one cluster and one node.\<close>

theorem node_ids_are_the_pairs:
  assumes "text_ok an" and "valid_utf8 dn" and "valid_utf8 dc"
  defines "nodes \<equiv> sort (if ParseCSV (mstr an ''nodes'') = [] then ParseCSV dn else ParseCSV (mstr an ''nodes''))"
    and "clusters \<equiv> sort (if ParseCSV (mstr an ''clusters'') = [] then ParseCSV dc else ParseCSV (mstr an ''clusters''))"
  shows "map GetNodeInfo (NodeIDs an dn dc) =
    concat (map (\<lambda>c. map (\<lambda>n. Some \<lparr>Nodes = [n], Clusters = [c]\<rparr>) nodes) clusters)"
proof -
  have n: "\<forall>n\<in>set nodes. plain n" and c: "\<forall>c\<in>set clusters. plain c"
    using assms(1-3) unfolding nodes_def clusters_def text_ok_def by (auto simp: plain_part)
  have "map GetNodeInfo (concat (map (\<lambda>c. map (pair_id c) nodes) cs)) =
      concat (map (\<lambda>c. map (\<lambda>n. Some \<lparr>Nodes = [n], Clusters = [c]\<rparr>) nodes) cs)"
    if "\<forall>c\<in>set cs. plain c" for cs
    using that n by (induction cs) (simp_all add: decode_pair_id)
  then show ?thesis using c by (simp add: NodeIDs_def Let_def nodes_def clusters_def)
qed

lemma node_ids_are_the_pairs_witness:
  "map GetNodeInfo (NodeIDs [(''nodes'', ''b,a'')] ''n'' ''c'') =
     [Some \<lparr>Nodes = [''a''], Clusters = [''c'']\<rparr>, Some \<lparr>Nodes = [''b''], Clusters = [''c'']\<rparr>]"
proof -
  have t: "text_ok [(''nodes'', ''b,a'')]" "valid_utf8 ''n''" "valid_utf8 ''c''"
    "ParseCSV (mstr [(''nodes'', ''b,a'')] ''nodes'') = [''b'', ''a'']"
    "ParseCSV (mstr [(''nodes'', ''b,a'')] ''clusters'') = []" "ParseCSV ''c'' = [''c'']"
    "sort [''b'', ''a''] = [''a'', ''b'']" by code_simp+
  show ?thesis unfolding node_ids_are_the_pairs [OF t(1-3)] t(4-6) by (simp add: t(7))
qed

text \<open>A comma separated list of non-empty, trimmed, comma-free names reads back as it was written.\<close>

theorem csv_roundtrip:
  assumes "\<forall>p\<in>set ps. p \<noteq> [] \<and> trimmed p \<and> CHR '','' \<notin> set p"
  shows "ParseCSV (Join ps '','') = ps"
  by (rule ParseCSV_Join [OF assms])

lemma csv_roundtrip_witness: "ParseCSV (Join [''edge'', ''core''] '','') = [''edge'', ''core'']"
  by (rule csv_roundtrip) code_simp

text \<open>A node info matches a node id exactly when the id decodes and they share a node and a cluster.\<close>

theorem find_node_and_cluster_iff:
  "FindNodeAndCluster n nodeid \<longleftrightarrow>
     (\<exists>c. GetNodeInfo nodeid = Some c \<and> set (Nodes n) \<inter> set (Nodes c) \<noteq> {} \<and>
        set (Clusters n) \<inter> set (Clusters c) \<noteq> {})"
  by (auto simp: FindNodeAndCluster_def list_ex_iff split: option.split)

end
