(* ===== verification/NetIP.thy ===== *)
theory NetIP
  imports GoStrings
begin

text \<open>
  The part of Go's \<open>net/netip\<close> that filter chain matching uses: parsing an IPv4 or IPv6
  address (with zone, ellipsis and embedded IPv4 tail), its bit length, and the prefix that keeps
  the top bits of an address. Parse errors are \<open>None\<close>: the caller replaces their text.
\<close>

datatype Addr = V4 "32 word" | V6 "128 word" string

datatype Prefix = Pfx (pfx_addr: Addr) (pfx_bits: nat)

fun BitLen :: "Addr \<Rightarrow> nat" where
  "BitLen (V4 _) = 32"
| "BitLen (V6 _ _) = 128"

section \<open>Parsing\<close>

definition is_digit :: "char \<Rightarrow> bool" where
  "is_digit c \<longleftrightarrow> 48 \<le> (of_char c :: int) \<and> (of_char c :: int) \<le> 57"

definition hex_val :: "char \<Rightarrow> int option" where
  "hex_val c =
     (let n = of_char c in
      if 48 \<le> n \<and> n \<le> 57 then Some (n - 48)
      else if 97 \<le> n \<and> n \<le> 102 then Some (n - 87)
      else if 65 \<le> n \<and> n \<le> 70 then Some (n - 55)
      else None)"

definition is_hex :: "char \<Rightarrow> bool" where
  "is_hex c \<longleftrightarrow> hex_val c \<noteq> None"

definition hex_num :: "string \<Rightarrow> int" where
  "hex_num s = foldl (\<lambda>a c. a * 16 + (case hex_val c of None \<Rightarrow> 0 | Some d \<Rightarrow> d)) 0 s"

text \<open>The four fields of a dotted address; \<open>fresh\<close> says that no digit of the field was read.\<close>

fun v4_fields :: "string \<Rightarrow> int \<Rightarrow> nat \<Rightarrow> bool \<Rightarrow> int list \<Rightarrow> int list option" where
  "v4_fields [] val diglen fresh fs = (if length fs < 3 then None else Some (fs @ [val]))"
| "v4_fields (c # cs) val diglen fresh fs =
     (if is_digit c then
        (if diglen = 1 \<and> val = 0 then None
         else let val' = val * 10 + (of_char c - 48) in
           if val' > 255 then None else v4_fields cs val' (Suc diglen) False fs)
      else if c = CHR ''.'' then
        (if fresh \<or> cs = [] then None
         else if length fs = 3 then None
         else v4_fields cs 0 0 True (fs @ [val]))
      else None)"

definition be_num :: "int \<Rightarrow> int list \<Rightarrow> int" where
  "be_num b ds = foldl (\<lambda>a d. a * b + d) 0 ds"

definition parseIPv4 :: "string \<Rightarrow> Addr option" where
  "parseIPv4 s = map_option (\<lambda>fs. V4 (word_of_int (be_num 256 fs))) (v4_fields s 0 0 True [])"

text \<open>The loop over the 16-bit groups: the groups read, where the ellipsis is, the text left.\<close>

function v6_groups :: "string \<Rightarrow> int list \<Rightarrow> nat option \<Rightarrow> (int list \<times> nat option \<times> string) option" where
  "v6_groups s gs e =
     (if 8 \<le> length gs then Some (gs, e, s)
      else let h = takeWhile is_hex s; r = drop (length h) s in
        if 4 < length h \<or> h = [] then None
        else (case r of
            [] \<Rightarrow> Some (gs @ [hex_num h], e, [])
          | c # r' \<Rightarrow>
              if c = CHR ''.'' then
                (if e = None \<and> length gs \<noteq> 6 then None
                 else if 6 < length gs then None
                 else map_option (\<lambda>fs. (gs @ [be_num 256 (take 2 fs), be_num 256 (drop 2 fs)], e, []))
                        (v4_fields s 0 0 True []))
              else if c \<noteq> CHR '':'' \<or> r' = [] then None
              else if hd r' = CHR '':'' then
                (if e \<noteq> None then None
                 else if tl r' = [] then Some (gs @ [hex_num h], Some (Suc (length gs)), [])
                 else v6_groups (tl r') (gs @ [hex_num h]) (Some (Suc (length gs))))
              else v6_groups r' (gs @ [hex_num h]) e))"
  by pat_completeness auto
termination
  by (relation "measure (\<lambda>(s, gs, e). 8 - length gs)") auto

declare v6_groups.simps [simp del]

definition v6_expand :: "int list \<Rightarrow> nat option \<Rightarrow> int list option" where
  "v6_expand gs e =
     (if length gs < 8 then
        map_option (\<lambda>i. take i gs @ replicate (8 - length gs) 0 @ drop i gs) e
      else if e \<noteq> None then None else Some gs)"

definition parseIPv6 :: "string \<Rightarrow> Addr option" where
  "parseIPv6 inp =
     (case Cut inp (CHR ''%'') of (s, zone, found) \<Rightarrow>
      if found \<and> zone = [] then None
      else if s = [CHR '':'', CHR '':''] then Some (V6 0 zone)
      else
        (case (if HasPrefix s [CHR '':'', CHR '':''] then v6_groups (drop 2 s) [] (Some 0)
               else v6_groups s [] None) of
           None \<Rightarrow> None
         | Some (gs, e, rest) \<Rightarrow>
             if rest \<noteq> [] then None
             else map_option (\<lambda>gs. V6 (word_of_int (be_num 65536 gs)) zone) (v6_expand gs e)))"

fun first_mark :: "string \<Rightarrow> char option" where
  "first_mark [] = None"
| "first_mark (c # cs) =
     (if c = CHR ''.'' \<or> c = CHR '':'' \<or> c = CHR ''%'' then Some c else first_mark cs)"

definition ParseAddr :: "string \<Rightarrow> Addr option" where
  "ParseAddr s =
     (case first_mark s of
        None \<Rightarrow> None
      | Some c \<Rightarrow>
          if c = CHR ''.'' then parseIPv4 s
          else if c = CHR '':'' then parseIPv6 s
          else None)"

section \<open>Prefixes\<close>

definition keep_top :: "nat \<Rightarrow> 'a::len word \<Rightarrow> 'a word" where
  "keep_top b w = push_bit (LENGTH('a) - b) (drop_bit (LENGTH('a) - b) w)"

text \<open>\<open>Addr.Prefix\<close>: the zone is dropped and the host bits are cleared; too many bits is an error.\<close>

fun addr_prefix :: "Addr \<Rightarrow> nat \<Rightarrow> Prefix option" where
  "addr_prefix (V4 w) b = (if 32 < b then None else Some (Pfx (V4 (keep_top b w)) b))"
| "addr_prefix (V6 w z) b = (if 128 < b then None else Some (Pfx (V6 (keep_top b w) []) b))"

text \<open>A prefix in the form \<open>Addr.Prefix\<close> returns: no zone, no host bits, at most the bit length.\<close>

fun prefix_norm :: "Prefix \<Rightarrow> bool" where
  "prefix_norm (Pfx (V4 w) b) \<longleftrightarrow> b \<le> 32 \<and> keep_top b w = w"
| "prefix_norm (Pfx (V6 w z) b) \<longleftrightarrow> b \<le> 128 \<and> z = [] \<and> keep_top b w = w"

lemma keep_top_idem [simp]: "keep_top b (keep_top b w) = keep_top b w"
  by (rule bit_word_eqI) (auto simp: keep_top_def bit_push_bit_iff bit_drop_bit_eq)

lemma keep_top_0 [simp]: "keep_top 0 w = 0"
  by (rule bit_word_eqI) (auto simp: keep_top_def bit_push_bit_iff bit_drop_bit_eq dest: bit_imp_le_length)

lemma keep_top_zero [simp]: "keep_top b 0 = 0"
  by (simp add: keep_top_def)

lemma addr_prefix_norm: "addr_prefix a b = Some p \<Longrightarrow> prefix_norm p \<and> pfx_bits p = b"
  by (cases a) (auto split: if_splits)

lemma addr_prefix_total: "b \<le> BitLen a \<Longrightarrow> \<exists>p. addr_prefix a b = Some p"
  by (cases a) auto

lemma addr_prefix_same_length: "addr_prefix a b = Some p \<Longrightarrow> BitLen (pfx_addr p) = BitLen a"
  by (cases a) (auto split: if_splits)

end
