(* ===== verification/Fcm.thy ===== *)
theory Fcm
  imports NetIP
begin

text \<open>
  Filter chain matching, \<open>src/pkg/xds/fcm/fcm.go\<close>: compiling a filter chain match into the
  keys Envoy files chains under, comparing two compiled matchers, and the set of matchers placed
  on one listener. The protobuf validation \<open>ValidateAll\<close> (generated code of a third-party
  package) and the JSON to protobuf conversion are arguments of the definitions that use them.
\<close>

section \<open>Data\<close>

datatype Verdict = VNone | Shadow | Duplicate

fun Verdict_String :: "Verdict \<Rightarrow> string" where
  "Verdict_String Shadow = ''shadow''"
| "Verdict_String Duplicate = ''duplicate''"
| "Verdict_String VNone = ''none''"

text \<open>The protobuf messages the listener carries (only the fields read here).\<close>

record CidrRange =
  address_prefix :: string
  prefix_len :: "u32 option"

record FilterChainMatch =
  destination_port :: "u32 option"
  prefix_ranges :: "CidrRange list"
  address_suffix :: string
  suffix_len :: "u32 option"
  direct_source_prefix_ranges :: "CidrRange list"
  source_type :: int
  source_prefix_ranges :: "CidrRange list"
  source_ports :: "u32 list"
  server_names :: "string list"
  transport_protocol :: string
  application_protocols :: "string list"

definition empty_match :: FilterChainMatch where
  "empty_match = \<lparr>destination_port = None, prefix_ranges = [], address_suffix = [],
     suffix_len = None, direct_source_prefix_ranges = [], source_type = 0,
     source_prefix_ranges = [], source_ports = [], server_names = [],
     transport_protocol = [], application_protocols = []\<rparr>"

text \<open>The custom resource's own match type, before its JSON is read as a protobuf message.\<close>

record lds_CidrRange =
  AddressPrefix :: string
  PrefixLen :: "u32 option"

record lds_FilterChainMatch =
  DestinationPort :: "u32 option"
  PrefixRanges :: "lds_CidrRange option list"
  AddressSuffix :: string
  SuffixLen :: "u32 option"
  DirectSourcePrefixRanges :: "lds_CidrRange option list"
  SourceType :: string
  SourcePrefixRanges :: "lds_CidrRange option list"
  SourcePorts :: "u32 list"
  ServerNames :: "string list"
  TransportProtocol :: string
  ApplicationProtocols :: "string list"

text \<open>A compiled match: the keys Envoy files the chain under, one list per criterion.\<close>

record Matcher =
  m_destinationPort :: u32
  m_prefixRanges :: "Prefix list"
  m_serverNames :: "string list"
  m_transportProtocol :: string
  m_alpn :: "string list"
  m_directSource :: "Prefix list"
  m_sourceType :: int
  m_source :: "Prefix list"
  m_sourcePorts :: "u32 list"

text \<open>The errors of compilation; the value a duplicate error prints is left out.\<close>

datatype fcm_error =
    RecastFailed string
  | ValidationFailed string
  | SuffixNotImplemented
  | PartialWildcard string
  | ListedTwice string
  | MalformedIP string string
  | BadPrefix string

definition anyNames :: "string list" where
  "anyNames = ['''']"

definition anyPorts :: "u32 list" where
  "anyPorts = [0]"

definition anyAddresses :: "Prefix list" where
  "anyAddresses = [Pfx (V4 0) 0, Pfx (V6 0 []) 0]"

section \<open>Compilation\<close>

text \<open>
  Envoy rejects a chain that lists a key twice, and files an empty list under the "any" key.
  The loop looks at each value and the values before it.
\<close>

fun dup_scan :: "'a list \<Rightarrow> 'a list \<Rightarrow> bool" where
  "dup_scan seen [] = False"
| "dup_scan seen (v # vs) = (if v \<in> set seen then True else dup_scan (seen @ [v]) vs)"

definition unique :: "string \<Rightarrow> 'a list \<Rightarrow> 'a list \<Rightarrow> fcm_error + 'a list" where
  "unique field values dflt =
     (if values = [] then Inr dflt
      else if dup_scan [] values then Inl (ListedTwice field)
      else Inr values)"

definition asciiLower_char :: "char \<Rightarrow> char" where
  "asciiLower_char c =
     (if 65 \<le> (of_char c :: nat) \<and> (of_char c :: nat) \<le> 90 then char_of (of_char c + 32 :: nat) else c)"

definition asciiLower :: "string \<Rightarrow> string" where
  "asciiLower s = map asciiLower_char s"

definition bad_wildcard :: "string \<Rightarrow> bool" where
  "bad_wildcard n \<longleftrightarrow>
     CHR ''*'' \<in> set n \<and> \<not> HasPrefix n ''*.'' \<or> count_list n (CHR ''*'') > 1"

definition server_key :: "string \<Rightarrow> string" where
  "server_key n = TrimPrefix (asciiLower n) ''*''"

fun server_keys :: "string list \<Rightarrow> fcm_error + string list" where
  "server_keys [] = Inr []"
| "server_keys (n # ns) =
     (if bad_wildcard n then Inl (PartialWildcard n)
      else case server_keys ns of Inl e \<Rightarrow> Inl e | Inr ks \<Rightarrow> Inr (server_key n # ks))"

definition compileServerNames :: "string list \<Rightarrow> fcm_error + string list" where
  "compileServerNames names =
     (case server_keys names of
        Inl e \<Rightarrow> Inl e
      | Inr keys \<Rightarrow> unique ''server_names'' keys anyNames)"

definition compile_cidr :: "string \<Rightarrow> CidrRange \<Rightarrow> fcm_error + Prefix" where
  "compile_cidr field r =
     (case ParseAddr (address_prefix r) of
        None \<Rightarrow> Inl (MalformedIP field (address_prefix r))
      | Some addr \<Rightarrow>
          (case addr_prefix addr
                  (min (unat (case prefix_len r of None \<Rightarrow> 0 | Some n \<Rightarrow> n)) (BitLen addr)) of
             None \<Rightarrow> Inl (BadPrefix field)
           | Some p \<Rightarrow> Inr p))"

fun cidr_keys :: "string \<Rightarrow> CidrRange list \<Rightarrow> fcm_error + Prefix list" where
  "cidr_keys field [] = Inr []"
| "cidr_keys field (r # rs) =
     (case compile_cidr field r of
        Inl e \<Rightarrow> Inl e
      | Inr p \<Rightarrow> (case cidr_keys field rs of Inl e \<Rightarrow> Inl e | Inr ps \<Rightarrow> Inr (p # ps)))"

definition compileCIDRs :: "string \<Rightarrow> CidrRange list \<Rightarrow> fcm_error + Prefix list" where
  "compileCIDRs field ranges =
     (if ranges = [] then Inr anyAddresses
      else case cidr_keys field ranges of
             Inl e \<Rightarrow> Inl e
           | Inr out \<Rightarrow> unique field out anyAddresses)"

definition CompileProto ::
  "(FilterChainMatch \<Rightarrow> string option) \<Rightarrow> FilterChainMatch option \<Rightarrow> fcm_error + Matcher" where
  "CompileProto validate mo =
     (let m = (case mo of None \<Rightarrow> empty_match | Some m \<Rightarrow> m) in
      case validate m of
        Some e \<Rightarrow> Inl (ValidationFailed e)
      | None \<Rightarrow>
        if address_suffix m \<noteq> [] \<or> suffix_len m \<noteq> None then Inl SuffixNotImplemented
        else case compileServerNames (server_names m) of
          Inl e \<Rightarrow> Inl e
        | Inr names \<Rightarrow> (case unique ''application_protocols'' (application_protocols m) anyNames of
          Inl e \<Rightarrow> Inl e
        | Inr alpn \<Rightarrow> (case unique ''source_ports'' (source_ports m) anyPorts of
          Inl e \<Rightarrow> Inl e
        | Inr ports \<Rightarrow> (case compileCIDRs ''prefix_ranges'' (prefix_ranges m) of
          Inl e \<Rightarrow> Inl e
        | Inr ranges \<Rightarrow> (case compileCIDRs ''direct_source_prefix_ranges'' (direct_source_prefix_ranges m) of
          Inl e \<Rightarrow> Inl e
        | Inr direct \<Rightarrow> (case compileCIDRs ''source_prefix_ranges'' (source_prefix_ranges m) of
          Inl e \<Rightarrow> Inl e
        | Inr src \<Rightarrow> Inr
            \<lparr>m_destinationPort = (case destination_port m of None \<Rightarrow> 0 | Some p \<Rightarrow> p),
             m_prefixRanges = ranges, m_serverNames = names,
             m_transportProtocol = transport_protocol m, m_alpn = alpn,
             m_directSource = direct, m_sourceType = source_type m,
             m_source = src, m_sourcePorts = ports\<rparr>))))))"

definition Compile ::
  "(FilterChainMatch \<Rightarrow> string option) \<Rightarrow> (lds_FilterChainMatch \<Rightarrow> string + FilterChainMatch)
   \<Rightarrow> lds_FilterChainMatch option \<Rightarrow> fcm_error + Matcher" where
  "Compile validate recast mo =
     (case mo of
        None \<Rightarrow> CompileProto validate None
      | Some m \<Rightarrow>
          (case recast m of
             Inl e \<Rightarrow> Inl (RecastFailed e)
           | Inr p \<Rightarrow> CompileProto validate (Some p)))"

section \<open>Comparison\<close>

definition shareKey :: "'a list \<Rightarrow> 'a list \<Rightarrow> bool" where
  "shareKey a b \<longleftrightarrow> list_ex (\<lambda>x. x \<in> set b) a"

definition covers :: "string \<Rightarrow> string \<Rightarrow> bool" where
  "covers pattern domain =
     (if \<not> HasPrefix pattern ''.'' then False
      else case Cut domain (CHR ''.'') of
             (label, rest, ok) \<Rightarrow> ok \<and> label \<noteq> [] \<and> ''.'' @ rest = pattern)"

definition sameButTrailingDot :: "string \<Rightarrow> string \<Rightarrow> bool" where
  "sameButTrailingDot x y =
     (if length x = Suc (length y) then last x = CHR ''.'' \<and> take (length y) x = y
      else if length y = Suc (length x) then last y = CHR ''.'' \<and> take (length x) y = x
      else False)"

definition shadows :: "string \<Rightarrow> string \<Rightarrow> bool" where
  "shadows x y \<longleftrightarrow>
     x \<noteq> [] \<and> y \<noteq> [] \<and> (covers x y \<or> covers y x \<or> sameButTrailingDot x y)"

text \<open>The double loop over the server names, with the verdict so far; a shared name returns.\<close>

fun names_inner :: "string \<Rightarrow> string list \<Rightarrow> Verdict \<Rightarrow> Verdict" where
  "names_inner x [] v = v"
| "names_inner x (y # ys) v =
     (if x = y then Duplicate
      else names_inner x ys (if shadows x y then Shadow else v))"

fun names_outer :: "string list \<Rightarrow> string list \<Rightarrow> Verdict \<Rightarrow> Verdict" where
  "names_outer [] b v = v"
| "names_outer (x # xs) b v =
     (if names_inner x b v = Duplicate then Duplicate
      else names_outer xs b (names_inner x b v))"

definition compareServerNames :: "string list \<Rightarrow> string list \<Rightarrow> Verdict" where
  "compareServerNames a b = names_outer a b VNone"

definition Matcher_Compare :: "Matcher \<Rightarrow> Matcher \<Rightarrow> Verdict" where
  "Matcher_Compare m o2 =
     (if m_destinationPort m \<noteq> m_destinationPort o2 \<or>
         m_transportProtocol m \<noteq> m_transportProtocol o2 \<or>
         m_sourceType m \<noteq> m_sourceType o2 \<or>
         \<not> shareKey (m_prefixRanges m) (m_prefixRanges o2) \<or>
         \<not> shareKey (m_alpn m) (m_alpn o2) \<or>
         \<not> shareKey (m_directSource m) (m_directSource o2) \<or>
         \<not> shareKey (m_source m) (m_source o2) \<or>
         \<not> shareKey (m_sourcePorts m) (m_sourcePorts o2)
      then VNone
      else compareServerNames (m_serverNames m) (m_serverNames o2))"

definition Compare ::
  "(FilterChainMatch \<Rightarrow> string option) \<Rightarrow> (lds_FilterChainMatch \<Rightarrow> string + FilterChainMatch)
   \<Rightarrow> lds_FilterChainMatch option \<Rightarrow> lds_FilterChainMatch option \<Rightarrow> fcm_error + Verdict" where
  "Compare validate recast a b =
     (case Compile validate recast a of
        Inl e \<Rightarrow> Inl e
      | Inr ca \<Rightarrow>
          (case Compile validate recast b of
             Inl e \<Rightarrow> Inl e
           | Inr cb \<Rightarrow> Inr (Matcher_Compare ca cb)))"

definition match_key :: "string \<Rightarrow> string" where
  "match_key s = TrimPrefix (asciiLower (TrimSuffix s ''.'')) ''*''"

definition MatchDomainName :: "string \<Rightarrow> string \<Rightarrow> bool" where
  "MatchDomainName pattern domain =
     (match_key pattern = match_key domain \<or> covers (match_key pattern) (match_key domain))"

section \<open>The set of matchers placed on one listener\<close>

type_synonym FcmSet = "(string, Matcher list) gmap"

definition add_name :: "Matcher \<Rightarrow> FcmSet \<Rightarrow> string \<Rightarrow> FcmSet" where
  "add_name m s n = mset_at n (mlist s n @ [m]) s"

definition Set_Add :: "FcmSet \<Rightarrow> Matcher \<Rightarrow> FcmSet" where
  "Set_Add s m = foldl (add_name m) s (m_serverNames m)"

definition Set_HasDuplicate :: "FcmSet \<Rightarrow> Matcher \<Rightarrow> bool" where
  "Set_HasDuplicate s m =
     list_ex (\<lambda>n. list_ex (\<lambda>p. Matcher_Compare m p = Duplicate) (mlist s n)) (m_serverNames m)"

section \<open>Facts about compilation\<close>

lemma dup_scan_iff: "dup_scan seen vs \<longleftrightarrow> \<not> distinct vs \<or> set seen \<inter> set vs \<noteq> {}"
  by (induction seen vs rule: dup_scan.induct) auto

lemma unique_Inr:
  "unique field values dflt = Inr ks \<longleftrightarrow>
     (if values = [] then ks = dflt else distinct values \<and> ks = values)"
  by (auto simp: unique_def dup_scan_iff)

lemma unique_Inl:
  "unique field values dflt = Inl e \<longleftrightarrow> \<not> distinct values \<and> e = ListedTwice field"
  by (auto simp: unique_def dup_scan_iff)

lemma server_keys_Inr:
  "server_keys ns = Inr ks \<longleftrightarrow> (\<forall>n\<in>set ns. \<not> bad_wildcard n) \<and> ks = map server_key ns"
proof (induction ns arbitrary: ks)
  case (Cons n ns)
  then show ?case by (cases "server_keys ns") auto
qed auto

lemma cidr_keys_Inr:
  "cidr_keys field rs = Inr ps \<Longrightarrow> length ps = length rs \<and> (\<forall>p\<in>set ps. prefix_norm p)"
  by (induction rs arbitrary: ps)
    (auto simp: compile_cidr_def dest: addr_prefix_norm split: sum.splits option.splits)

text \<open>The clamp makes \<open>Addr.Prefix\<close> succeed: only a malformed address is refused.\<close>

lemma compile_cidr_Inl:
  "compile_cidr field r = Inl e \<longleftrightarrow>
     ParseAddr (address_prefix r) = None \<and> e = MalformedIP field (address_prefix r)"
proof (cases "ParseAddr (address_prefix r)")
  case (Some a)
  obtain p where
    "addr_prefix a (min (unat (case prefix_len r of None \<Rightarrow> 0 | Some n \<Rightarrow> n)) (BitLen a)) = Some p"
    using addr_prefix_total [OF min.cobounded2] by blast
  with Some show ?thesis by (simp add: compile_cidr_def)
qed (auto simp: compile_cidr_def)

lemma compileCIDRs_Inr:
  assumes "compileCIDRs field rs = Inr ps"
  shows "ps \<noteq> [] \<and> distinct ps \<and> (\<forall>p\<in>set ps. prefix_norm p)"
proof (cases "rs = []")
  case True
  with assms show ?thesis by (auto simp: compileCIDRs_def anyAddresses_def)
next
  case False
  with assms obtain qs where q: "cidr_keys field rs = Inr qs" and u: "unique field qs anyAddresses = Inr ps"
    by (auto simp: compileCIDRs_def split: sum.splits)
  have "qs \<noteq> []" using cidr_keys_Inr [OF q] False by auto
  with u have "distinct qs" "ps = qs" by (simp_all add: unique_Inr)
  then show ?thesis using cidr_keys_Inr [OF q] \<open>qs \<noteq> []\<close> by simp
qed

text \<open>A server name key: no wildcard character and no ASCII capital is left.\<close>

definition lower_char :: "char \<Rightarrow> bool" where
  "lower_char c \<longleftrightarrow> \<not> (65 \<le> (of_char c :: nat) \<and> (of_char c :: nat) \<le> 90)"

definition name_key :: "string \<Rightarrow> bool" where
  "name_key k \<longleftrightarrow> CHR ''*'' \<notin> set k \<and> (\<forall>c\<in>set k. lower_char c)"

lemma asciiLower_char_lower: "lower_char (asciiLower_char c)"
  by (auto simp: lower_char_def asciiLower_char_def)

lemma asciiLower_char_star: "asciiLower_char c = CHR ''*'' \<longleftrightarrow> c = CHR ''*''"
proof -
  have "char_of (n + 32 :: nat) \<noteq> CHR ''*''" if "65 \<le> n" "n \<le> 90" for n :: nat
  proof
    assume "char_of (n + 32) = CHR ''*''"
    then have "(of_char (char_of (n + 32) :: char) :: nat) = of_char (CHR ''*'')" by simp
    with that show False by simp
  qed
  then show ?thesis by (auto simp: asciiLower_char_def)
qed

lemma asciiLower_star: "CHR ''*'' \<in> set (asciiLower s) \<longleftrightarrow> CHR ''*'' \<in> set s"
  unfolding asciiLower_def set_map image_iff
  by (metis asciiLower_char_star)

lemma server_key_name_key:
  assumes "\<not> bad_wildcard n"
  shows "name_key (server_key n)"
proof (cases "CHR ''*'' \<in> set n")
  case True
  with assms obtain t where n: "n = CHR ''*'' # CHR ''.'' # t" and c: "count_list n (CHR ''*'') \<le> 1"
    by (auto simp: bad_wildcard_def HasPrefix_iff)
  then have "CHR ''*'' \<notin> set t" by (auto simp: count_list_0_iff)
  then have "CHR ''*'' \<notin> set (asciiLower (CHR ''.'' # t))" by (simp add: asciiLower_star)
  moreover have "asciiLower n = CHR ''*'' # asciiLower (CHR ''.'' # t)"
    by (simp add: n asciiLower_def asciiLower_char_def)
  ultimately show ?thesis
    by (simp add: server_key_def name_key_def TrimPrefix_single)
      (auto simp: asciiLower_def asciiLower_char_lower)
next
  case False
  then have "CHR ''*'' \<notin> set (asciiLower n)" by (simp add: asciiLower_star)
  then show ?thesis
    by (auto simp: server_key_def name_key_def TrimPrefix_single asciiLower_def
        asciiLower_char_lower split: list.splits)
qed

text \<open>What a compiled matcher always satisfies: Envoy does not refuse the chain on its own.\<close>

definition matcher_ok :: "Matcher \<Rightarrow> bool" where
  "matcher_ok m \<longleftrightarrow>
     m_serverNames m \<noteq> [] \<and> distinct (m_serverNames m) \<and> (\<forall>k\<in>set (m_serverNames m). name_key k) \<and>
     m_alpn m \<noteq> [] \<and> distinct (m_alpn m) \<and>
     m_sourcePorts m \<noteq> [] \<and> distinct (m_sourcePorts m) \<and>
     m_prefixRanges m \<noteq> [] \<and> distinct (m_prefixRanges m) \<and> (\<forall>p\<in>set (m_prefixRanges m). prefix_norm p) \<and>
     m_directSource m \<noteq> [] \<and> distinct (m_directSource m) \<and> (\<forall>p\<in>set (m_directSource m). prefix_norm p) \<and>
     m_source m \<noteq> [] \<and> distinct (m_source m) \<and> (\<forall>p\<in>set (m_source m). prefix_norm p)"

lemma compileServerNames_Inr:
  assumes "compileServerNames ns = Inr ks"
  shows "ks \<noteq> [] \<and> distinct ks \<and> (\<forall>k\<in>set ks. name_key k)"
proof -
  from assms obtain js where "server_keys ns = Inr js" "unique ''server_names'' js anyNames = Inr ks"
    by (auto simp: compileServerNames_def split: sum.splits)
  then show ?thesis
    by (auto simp: server_keys_Inr unique_Inr anyNames_def name_key_def
        dest: server_key_name_key [unfolded name_key_def] split: if_splits)
qed

lemma unique_ok: "unique f vs d = Inr ks \<Longrightarrow> d \<noteq> [] \<Longrightarrow> distinct d \<Longrightarrow> ks \<noteq> [] \<and> distinct ks"
  by (auto simp: unique_Inr split: if_splits)

lemma CompileProto_fields:
  assumes "CompileProto validate mo = Inr c"
  defines "m \<equiv> case mo of None \<Rightarrow> empty_match | Some m \<Rightarrow> m"
  shows "compileServerNames (server_names m) = Inr (m_serverNames c)"
    and "unique ''application_protocols'' (application_protocols m) anyNames = Inr (m_alpn c)"
    and "unique ''source_ports'' (source_ports m) anyPorts = Inr (m_sourcePorts c)"
    and "compileCIDRs ''prefix_ranges'' (prefix_ranges m) = Inr (m_prefixRanges c)"
    and "compileCIDRs ''direct_source_prefix_ranges'' (direct_source_prefix_ranges m) = Inr (m_directSource c)"
    and "compileCIDRs ''source_prefix_ranges'' (source_prefix_ranges m) = Inr (m_source c)"
    and "validate m = None \<and> address_suffix m = [] \<and> suffix_len m = None"
  using assms(1) unfolding CompileProto_def m_def [symmetric] Let_def
  by (auto split: option.splits sum.splits if_splits)

lemma CompileProto_ok: "CompileProto validate mo = Inr c \<Longrightarrow> matcher_ok c"
  using CompileProto_fields [of validate mo c] compileServerNames_Inr compileCIDRs_Inr
    unique_ok [of "''application_protocols''" _ anyNames "m_alpn c"]
    unique_ok [of "''source_ports''" _ anyPorts "m_sourcePorts c"]
  unfolding matcher_ok_def by (simp add: anyNames_def anyPorts_def)

lemma Compile_ok: "Compile validate recast mo = Inr c \<Longrightarrow> matcher_ok c"
  by (auto simp: Compile_def dest: CompileProto_ok split: option.splits sum.splits)

section \<open>Facts about comparison\<close>

lemma shareKey_iff: "shareKey a b \<longleftrightarrow> set a \<inter> set b \<noteq> {}"
  by (auto simp: shareKey_def list_ex_iff)

lemma shareKey_sym: "shareKey a b = shareKey b a"
  by (auto simp: shareKey_iff)

lemma covers_iff:
  "covers pattern domain \<longleftrightarrow>
     (\<exists>label rest. pattern = CHR ''.'' # rest \<and> domain = label @ CHR ''.'' # rest \<and>
        label \<noteq> [] \<and> CHR ''.'' \<notin> set label)"
proof -
  obtain a b ok where c: "Cut domain (CHR ''.'') = (a, b, ok)" by (metis prod_cases3)
  show ?thesis
  proof (cases ok)
    case True
    with c have d: "domain = a @ CHR ''.'' # b" "CHR ''.'' \<notin> set a" by (simp_all add: Cut_found)
    have "label = a \<and> rest = b"
      if "domain = label @ CHR ''.'' # rest" "CHR ''.'' \<notin> set label" for label rest
      using that c True Cut_found [of domain "CHR ''.''" label rest] by simp
    then show ?thesis using c True d by (auto simp: covers_def)
  next
    case False
    with c have "CHR ''.'' \<notin> set domain" using Cut_missing by fastforce
    with c False show ?thesis by (auto simp: covers_def)
  qed
qed

lemma names_inner_Duplicate: "v \<noteq> Duplicate \<Longrightarrow> names_inner x b v = Duplicate \<longleftrightarrow> x \<in> set b"
  by (induction b arbitrary: v) auto

lemma names_inner_Shadow:
  "x \<notin> set b \<Longrightarrow> names_inner x b v = (if \<exists>y\<in>set b. shadows x y then Shadow else v)"
  by (induction b arbitrary: v) auto

lemma names_outer_Duplicate:
  "v \<noteq> Duplicate \<Longrightarrow> names_outer a b v = Duplicate \<longleftrightarrow> set a \<inter> set b \<noteq> {}"
  by (induction a arbitrary: v) (auto simp: names_inner_Duplicate)

lemma names_outer_Shadow:
  "v \<noteq> Duplicate \<Longrightarrow> set a \<inter> set b = {} \<Longrightarrow>
   names_outer a b v = (if \<exists>x\<in>set a. \<exists>y\<in>set b. shadows x y then Shadow else v)"
proof (induction a arbitrary: v)
  case (Cons x a)
  then have x: "x \<notin> set b" and d: "set a \<inter> set b = {}" by auto
  have "names_inner x b v \<noteq> Duplicate" using x Cons.prems(1) by (simp add: names_inner_Duplicate)
  then show ?case using Cons.IH [OF _ d] x by (auto simp: names_inner_Shadow)
qed simp

lemma compareServerNames_cases:
  "compareServerNames a b =
     (if set a \<inter> set b \<noteq> {} then Duplicate
      else if \<exists>x\<in>set a. \<exists>y\<in>set b. shadows x y then Shadow else VNone)"
  using names_outer_Duplicate [of VNone a b] names_outer_Shadow [of VNone a b]
  by (auto simp: compareServerNames_def)

lemma shadows_sym: "shadows x y = shadows y x"
  by (auto simp: shadows_def sameButTrailingDot_def)

lemma compareServerNames_sym: "compareServerNames a b = compareServerNames b a"
proof -
  have "set a \<inter> set b = set b \<inter> set a" by auto
  moreover have "(\<exists>x\<in>set a. \<exists>y\<in>set b. shadows x y) \<longleftrightarrow> (\<exists>x\<in>set b. \<exists>y\<in>set a. shadows x y)"
    using shadows_sym by blast
  ultimately show ?thesis by (simp only: compareServerNames_cases)
qed

text \<open>
  What Envoy does with a chain, stated without the code: it files the chain under every tuple
  that takes one key per criterion, and two chains collide when they are filed under one tuple.
\<close>

definition filed_keys ::
  "Matcher \<Rightarrow> (u32 \<times> Prefix \<times> string \<times> string \<times> string \<times> Prefix \<times> int \<times> Prefix \<times> u32) set" where
  "filed_keys m =
     {(port, ip, name, tp, alpn, dsrc, st, src, sport).
        port = m_destinationPort m \<and> ip \<in> set (m_prefixRanges m) \<and> name \<in> set (m_serverNames m) \<and>
        tp = m_transportProtocol m \<and> alpn \<in> set (m_alpn m) \<and> dsrc \<in> set (m_directSource m) \<and>
        st = m_sourceType m \<and> src \<in> set (m_source m) \<and> sport \<in> set (m_sourcePorts m)}"

lemma Matcher_Compare_Duplicate:
  "Matcher_Compare m p = Duplicate \<longleftrightarrow>
     m_destinationPort m = m_destinationPort p \<and> m_transportProtocol m = m_transportProtocol p \<and>
     m_sourceType m = m_sourceType p \<and>
     shareKey (m_prefixRanges m) (m_prefixRanges p) \<and> shareKey (m_alpn m) (m_alpn p) \<and>
     shareKey (m_directSource m) (m_directSource p) \<and> shareKey (m_source m) (m_source p) \<and>
     shareKey (m_sourcePorts m) (m_sourcePorts p) \<and> shareKey (m_serverNames m) (m_serverNames p)"
  unfolding Matcher_Compare_def compareServerNames_cases shareKey_iff by auto

lemma Duplicate_iff_filed: "Matcher_Compare m p = Duplicate \<longleftrightarrow> filed_keys m \<inter> filed_keys p \<noteq> {}"
proof -
  have prod: "filed_keys x =
      {m_destinationPort x} \<times> set (m_prefixRanges x) \<times> set (m_serverNames x) \<times>
      {m_transportProtocol x} \<times> set (m_alpn x) \<times> set (m_directSource x) \<times>
      {m_sourceType x} \<times> set (m_source x) \<times> set (m_sourcePorts x)" for x
    by (auto simp: filed_keys_def)
  show ?thesis
    unfolding Matcher_Compare_Duplicate shareKey_iff prod Times_Int_Times Times_empty by auto
qed

lemma Matcher_Compare_commute: "Matcher_Compare m p = Matcher_Compare p m"
  unfolding Matcher_Compare_def
  using compareServerNames_sym [of "m_serverNames m" "m_serverNames p"]
  by (auto simp: shareKey_iff)

lemma matcher_ok_self: "matcher_ok m \<Longrightarrow> Matcher_Compare m m = Duplicate"
  by (simp add: matcher_ok_def Matcher_Compare_Duplicate shareKey_iff)

section \<open>Facts about the set of placed matchers\<close>

lemma mlist_add_name: "mlist (add_name m s n) k = (if k = n then mlist s n @ [m] else mlist s k)"
  by (simp add: add_name_def)

lemma mlist_foldl_add:
  "set (mlist (foldl (add_name m) s ns) k) = set (mlist s k) \<union> (if k \<in> set ns then {m} else {})"
  by (induction ns arbitrary: s) (auto simp: mlist_add_name)

lemma mlist_Set_Add:
  "set (mlist (Set_Add s m) k) = set (mlist s k) \<union> (if k \<in> set (m_serverNames m) then {m} else {})"
  by (simp add: Set_Add_def mlist_foldl_add)

definition Set_of :: "Matcher list \<Rightarrow> FcmSet" where
  "Set_of ms = foldl Set_Add [] ms"

lemma mlist_Set_fold:
  "set (mlist (foldl Set_Add s ms) k) = set (mlist s k) \<union> {m \<in> set ms. k \<in> set (m_serverNames m)}"
  by (induction ms arbitrary: s) (auto simp: mlist_Set_Add)

lemma HasDuplicate_Set_of:
  "Set_HasDuplicate (Set_of ms) m \<longleftrightarrow> (\<exists>p\<in>set ms. Matcher_Compare m p = Duplicate)"
proof
  assume "\<exists>p\<in>set ms. Matcher_Compare m p = Duplicate"
  then obtain p n where "p \<in> set ms" "Matcher_Compare m p = Duplicate"
    "n \<in> set (m_serverNames m)" "n \<in> set (m_serverNames p)"
    by (auto simp: Matcher_Compare_Duplicate shareKey_iff)
  then show "Set_HasDuplicate (Set_of ms) m"
    by (auto simp: Set_HasDuplicate_def list_ex_iff Set_of_def mlist_Set_fold)
qed (auto simp: Set_HasDuplicate_def list_ex_iff Set_of_def mlist_Set_fold)

lemma Set_of_snoc: "Set_of (ms @ [m]) = Set_Add (Set_of ms) m"
  by (simp add: Set_of_def)

section \<open>Which matches compile\<close>

definition cidr_of :: "CidrRange \<Rightarrow> Prefix" where
  "cidr_of r = (case compile_cidr [] r of Inr p \<Rightarrow> p | Inl e \<Rightarrow> Pfx (V4 0) 0)"

lemma compile_cidr_Inr:
  "compile_cidr field r = Inr p \<longleftrightarrow> ParseAddr (address_prefix r) \<noteq> None \<and> p = cidr_of r"
proof (cases "ParseAddr (address_prefix r)")
  case (Some a)
  obtain q where
    "addr_prefix a (min (unat (case prefix_len r of None \<Rightarrow> 0 | Some n \<Rightarrow> n)) (BitLen a)) = Some q"
    using addr_prefix_total [OF min.cobounded2] by blast
  with Some show ?thesis by (auto simp: compile_cidr_def cidr_of_def)
qed (simp add: compile_cidr_def)

lemma cidr_keys_all:
  "cidr_keys field rs = Inr ps \<longleftrightarrow>
     (\<forall>r\<in>set rs. ParseAddr (address_prefix r) \<noteq> None) \<and> ps = map cidr_of rs"
proof (induction rs arbitrary: ps)
  case (Cons r rs)
  show ?case
  proof (cases "compile_cidr field r")
    case (Inl e)
    then have "ParseAddr (address_prefix r) = None" by (simp add: compile_cidr_Inl)
    then show ?thesis using Inl by simp
  next
    case (Inr p)
    then have r: "ParseAddr (address_prefix r) \<noteq> None" "p = cidr_of r" by (simp_all add: compile_cidr_Inr)
    show ?thesis
    proof (cases "cidr_keys field rs")
      case (Inl e)
      then have "\<not> (\<forall>r\<in>set rs. ParseAddr (address_prefix r) \<noteq> None)"
        using Cons.IH [of "map cidr_of rs"] by auto
      then show ?thesis using \<open>compile_cidr field r = Inr p\<close> Inl by auto
    next
      case (Inr qs)
      then show ?thesis using \<open>compile_cidr field r = Inr p\<close> r Cons.IH [of qs] by auto
    qed
  qed
qed auto

definition cidrs_ok :: "CidrRange list \<Rightarrow> bool" where
  "cidrs_ok rs \<longleftrightarrow> (\<forall>r\<in>set rs. ParseAddr (address_prefix r) \<noteq> None) \<and> distinct (map cidr_of rs)"

lemma compileCIDRs_accepts: "(\<exists>ps. compileCIDRs field rs = Inr ps) \<longleftrightarrow> cidrs_ok rs"
proof (cases "cidr_keys field rs")
  case (Inl e)
  then have "\<not> (\<forall>r\<in>set rs. ParseAddr (address_prefix r) \<noteq> None)"
    using cidr_keys_all [of field rs "map cidr_of rs"] by auto
  then show ?thesis using Inl by (auto simp: compileCIDRs_def cidrs_ok_def)
next
  case (Inr qs)
  then show ?thesis
    using cidr_keys_all [of field rs qs] by (auto simp: compileCIDRs_def cidrs_ok_def unique_Inr)
qed

lemma compileServerNames_accepts:
  "(\<exists>ks. compileServerNames ns = Inr ks) \<longleftrightarrow>
     (\<forall>n\<in>set ns. \<not> bad_wildcard n) \<and> distinct (map server_key ns)"
proof (cases "server_keys ns")
  case (Inl e)
  then show ?thesis using server_keys_Inr [of ns "map server_key ns"] by (auto simp: compileServerNames_def)
next
  case (Inr ks)
  then show ?thesis using server_keys_Inr [of ns ks] by (auto simp: compileServerNames_def unique_Inr)
qed

lemma unique_accepts: "(\<exists>ks. unique field vs d = Inr ks) \<longleftrightarrow> distinct vs"
  by (auto simp: unique_Inr)

definition accepted :: "(FilterChainMatch \<Rightarrow> string option) \<Rightarrow> FilterChainMatch \<Rightarrow> bool" where
  "accepted validate m \<longleftrightarrow>
     validate m = None \<and> address_suffix m = [] \<and> suffix_len m = None \<and>
     (\<forall>n\<in>set (server_names m). \<not> bad_wildcard n) \<and> distinct (map server_key (server_names m)) \<and>
     distinct (application_protocols m) \<and> distinct (source_ports m) \<and>
     cidrs_ok (prefix_ranges m) \<and> cidrs_ok (direct_source_prefix_ranges m) \<and> cidrs_ok (source_prefix_ranges m)"

lemma CompileProto_accepts: "(\<exists>c. CompileProto validate (Some m) = Inr c) \<longleftrightarrow> accepted validate m"
proof
  assume "\<exists>c. CompileProto validate (Some m) = Inr c"
  then obtain c where c: "CompileProto validate (Some m) = Inr c" by blast
  show "accepted validate m"
    using CompileProto_fields [OF c] compileServerNames_accepts [of "server_names m"]
      unique_accepts [of _ "application_protocols m" anyNames] unique_accepts [of _ "source_ports m" anyPorts]
      compileCIDRs_accepts [of "''prefix_ranges''" "prefix_ranges m"]
      compileCIDRs_accepts [of "''direct_source_prefix_ranges''" "direct_source_prefix_ranges m"]
      compileCIDRs_accepts [of "''source_prefix_ranges''" "source_prefix_ranges m"]
    unfolding accepted_def option.case by blast
next
  assume a: "accepted validate m"
  obtain ns where "compileServerNames (server_names m) = Inr ns"
    using a compileServerNames_accepts [of "server_names m"] by (auto simp: accepted_def)
  moreover obtain rs ds ss where "compileCIDRs ''prefix_ranges'' (prefix_ranges m) = Inr rs"
      "compileCIDRs ''direct_source_prefix_ranges'' (direct_source_prefix_ranges m) = Inr ds"
      "compileCIDRs ''source_prefix_ranges'' (source_prefix_ranges m) = Inr ss"
    using a compileCIDRs_accepts unfolding accepted_def by metis
  moreover obtain al po where "unique ''application_protocols'' (application_protocols m) anyNames = Inr al"
      "unique ''source_ports'' (source_ports m) anyPorts = Inr po"
    using a unique_accepts unfolding accepted_def by metis
  ultimately show "\<exists>c. CompileProto validate (Some m) = Inr c"
    using a by (simp add: CompileProto_def accepted_def)
qed

lemma HasSuffix_star: "\<not> HasSuffix s ''.'' \<Longrightarrow> TrimSuffix s ''.'' = s"
  by (simp add: TrimSuffix_def)

section \<open>Properties\<close>

text \<open>C38. A verdict of Duplicate is exactly Envoy's collision: some tuple of keys files both chains.\<close>

theorem compare_duplicate_iff_filed:
  "Matcher_Compare m p = Duplicate \<longleftrightarrow> filed_keys m \<inter> filed_keys p \<noteq> {}"
  by (rule Duplicate_iff_filed)

text \<open>The set of placed chains finds a duplicate exactly when some placed chain compares as one: filing
  chains by server name loses no collision.\<close>

theorem set_finds_every_duplicate:
  "Set_HasDuplicate (Set_of ms) m \<longleftrightarrow> (\<exists>p\<in>set ms. Matcher_Compare m p = Duplicate)"
  by (rule HasDuplicate_Set_of)

text \<open>The verdict on two chains does not depend on which of them is asked.\<close>

theorem compare_symmetric: "Matcher_Compare m p = Matcher_Compare p m"
  by (rule Matcher_Compare_commute)

text \<open>A match compiles exactly when it passes validation, uses no address suffix, has only whole-label
  wildcards and readable addresses, and lists no key twice after normalisation.\<close>

theorem compile_accepts_iff:
  "(\<exists>c. CompileProto validate (Some m) = Inr c) \<longleftrightarrow> accepted validate m"
  by (rule CompileProto_accepts)

text \<open>A compiled match has a key for every criterion, lists none twice, holds masked prefixes and
  lower-case names without wildcards, and collides with itself: no chain can be placed twice.\<close>

theorem compiled_match_collides_with_itself:
  assumes "Compile validate recast mo = Inr c"
  shows "matcher_ok c \<and> Matcher_Compare c c = Duplicate"
  using Compile_ok [OF assms] matcher_ok_self by blast

definition sample_match :: FilterChainMatch where
  "sample_match = empty_match\<lparr>server_names := [''*.Example.com''], source_ports := [80],
     prefix_ranges := [\<lparr>address_prefix = ''10.1.2.3'', prefix_len = Some 8\<rparr>]\<rparr>"

lemma compiled_match_collides_with_itself_witness:
  "\<exists>c. Compile (\<lambda>m. None) (\<lambda>m. Inr sample_match)
     (Some \<lparr>DestinationPort = None, PrefixRanges = [], AddressSuffix = [], SuffixLen = None,
       DirectSourcePrefixRanges = [], SourceType = [], SourcePrefixRanges = [], SourcePorts = [80],
       ServerNames = [''*.Example.com''], TransportProtocol = [], ApplicationProtocols = []\<rparr>) = Inr c \<and>
     Matcher_Compare c c = Duplicate"
proof -
  have "\<exists>c. CompileProto (\<lambda>m. None) (Some sample_match) = Inr c"
    unfolding CompileProto_accepts by code_simp
  then obtain c where "CompileProto (\<lambda>m. None) (Some sample_match) = Inr c" by blast
  then have c: "Compile (\<lambda>m. None) (\<lambda>m. Inr sample_match)
     (Some \<lparr>DestinationPort = None, PrefixRanges = [], AddressSuffix = [], SuffixLen = None,
       DirectSourcePrefixRanges = [], SourceType = [], SourcePrefixRanges = [], SourcePorts = [80],
       ServerNames = [''*.Example.com''], TransportProtocol = [], ApplicationProtocols = []\<rparr>) = Inr c"
    by (simp add: Compile_def)
  from compiled_match_collides_with_itself [OF this] c show ?thesis by blast
qed

text \<open>A Shadow verdict means the chains agree on every criterion but the server names, share no name, and
  one has a wildcard that covers a name of the other (or the names differ in a trailing dot).\<close>

theorem compare_shadow_iff:
  "Matcher_Compare m p = Shadow \<longleftrightarrow>
     m_destinationPort m = m_destinationPort p \<and> m_transportProtocol m = m_transportProtocol p \<and>
     m_sourceType m = m_sourceType p \<and>
     set (m_prefixRanges m) \<inter> set (m_prefixRanges p) \<noteq> {} \<and> set (m_alpn m) \<inter> set (m_alpn p) \<noteq> {} \<and>
     set (m_directSource m) \<inter> set (m_directSource p) \<noteq> {} \<and> set (m_source m) \<inter> set (m_source p) \<noteq> {} \<and>
     set (m_sourcePorts m) \<inter> set (m_sourcePorts p) \<noteq> {} \<and>
     set (m_serverNames m) \<inter> set (m_serverNames p) = {} \<and>
     (\<exists>x\<in>set (m_serverNames m). \<exists>y\<in>set (m_serverNames p). shadows x y)"
  unfolding Matcher_Compare_def compareServerNames_cases shareKey_iff by auto

text \<open>A wildcard domain matches exactly the names with one more label; with no label before the dot
  the keys coincide.\<close>

theorem wildcard_matches_one_label:
  assumes "asciiLower s = s" and "asciiLower d = d"
    and "\<not> HasSuffix (''*.'' @ s) ''.''" and "\<not> HasSuffix d ''.''" and "\<not> HasPrefix d ''*''"
  shows "MatchDomainName (''*.'' @ s) d \<longleftrightarrow>
    (\<exists>label. d = label @ ''.'' @ s \<and> CHR ''.'' \<notin> set label)"
proof -
  have "asciiLower (''*.'' @ s) = ''*.'' @ s"
    using assms(1) by (simp add: asciiLower_def asciiLower_char_def)
  then have p: "match_key (''*.'' @ s) = CHR ''.'' # s"
    using HasSuffix_star [OF assms(3)] by (simp add: match_key_def TrimPrefix_single)
  have d: "match_key d = d"
    using HasSuffix_star [OF assms(4)] assms(2,5) by (auto simp: match_key_def TrimPrefix_single split: list.split)
  have "CHR ''.'' # s = d \<longleftrightarrow> d = [] @ ''.'' @ s" by auto
  moreover have "covers (CHR ''.'' # s) d \<longleftrightarrow> (\<exists>label. d = label @ ''.'' @ s \<and> label \<noteq> [] \<and> CHR ''.'' \<notin> set label)"
    by (auto simp: covers_iff)
  ultimately show ?thesis
    unfolding MatchDomainName_def p d by (metis empty_iff list.set(1))
qed

lemma wildcard_matches_one_label_witness:
  "MatchDomainName ''*.example.com'' ''a.example.com'' \<and> \<not> MatchDomainName ''*.example.com'' ''a.b.example.com''"
proof -
  have h: "asciiLower ''example.com'' = ''example.com''" "\<not> HasSuffix (''*.'' @ ''example.com'') ''.''"
    "asciiLower ''a.example.com'' = ''a.example.com''" "\<not> HasSuffix ''a.example.com'' ''.''"
    "\<not> HasPrefix ''a.example.com'' ''*''" by code_simp+
  have "MatchDomainName (''*.'' @ ''example.com'') ''a.example.com''"
    unfolding wildcard_matches_one_label [OF h(1,3,2,4,5)] by (rule exI [of _ "''a''"]) simp
  moreover have "\<not> MatchDomainName ''*.example.com'' ''a.b.example.com''" by code_simp
  ultimately show ?thesis by simp
qed

end
