(* ===== verification/Sha256.thy ===== *)
theory Sha256
  imports Prelude
begin

unbundle bit_operations_syntax

text \<open>
  \<open>crypto/sha256\<close>: SHA-256 on byte strings with 32-bit words, as the standard library
  computes it, and \<open>encoding/hex\<close>. The hasher of the snapshot versions is built on it.
\<close>

definition rotr :: "nat \<Rightarrow> u32 \<Rightarrow> u32" where
  "rotr n x = word_rotr n x"

text \<open>The constants, as the standard defines them: the first 32 bits of the fractional parts of the
  cube roots of the first 64 primes, and of the square roots of the first eight.\<close>

fun root_bits :: "nat \<Rightarrow> nat \<Rightarrow> int \<Rightarrow> int \<Rightarrow> int" where
  "root_bits k 0 n r = r"
| "root_bits k (Suc b) n r = root_bits k b n (if (r + 2 ^ b) ^ k \<le> n then r + 2 ^ b else r)"

definition root_fraction :: "nat \<Rightarrow> int \<Rightarrow> u32" where
  "root_fraction k p = word_of_int (root_bits k 37 (p * 2 ^ (32 * k)) 0)"

definition sha_primes :: "int list" where
  "sha_primes = filter (\<lambda>n. list_all (\<lambda>d. n mod d \<noteq> 0) [2..n - 1]) [2..311]"

definition sha_k :: "u32 list" where
  "sha_k = map (root_fraction 3) sha_primes"

definition sha_init :: "u32 list" where
  "sha_init = map (root_fraction 2) [2, 3, 5, 7, 11, 13, 17, 19]"

text \<open>Padding: the bit 1, zeros, and the length in bits as eight bytes.\<close>

definition len_bytes :: "nat \<Rightarrow> string" where
  "len_bytes n = map (\<lambda>i. char_of (int n * 8 div 2 ^ (8 * (7 - i)))) [0..<8]"

definition pad :: "string \<Rightarrow> string" where
  "pad s = s @ [CHR 0x80] @ replicate ((119 - length s mod 64) mod 64) (CHR 0x00) @ len_bytes (length s)"

fun words_of :: "string \<Rightarrow> u32 list" where
  "words_of (a # b # c # d # r) =
     word_of_int (((of_char a * 256 + of_char b) * 256 + of_char c) * 256 + of_char d) # words_of r"
| "words_of _ = []"

text \<open>The message schedule, newest word first while it grows to 64 words.\<close>

definition small0 :: "u32 \<Rightarrow> u32" where
  "small0 x = rotr 7 x XOR rotr 18 x XOR drop_bit 3 x"

definition small1 :: "u32 \<Rightarrow> u32" where
  "small1 x = rotr 17 x XOR rotr 19 x XOR drop_bit 10 x"

fun schedule :: "nat \<Rightarrow> u32 list \<Rightarrow> u32 list" where
  "schedule 0 w = rev w"
| "schedule (Suc n) w = schedule n ((small1 (w ! 1) + w ! 6 + small0 (w ! 14) + w ! 15) # w)"

fun round :: "u32 list \<Rightarrow> u32 \<times> u32 \<Rightarrow> u32 list" where
  "round [a, b, c, d, e, f, g, h] (k, w) =
     (let t1 = h + (rotr 6 e XOR rotr 11 e XOR rotr 25 e) + ((e AND f) XOR (NOT e AND g)) + k + w;
          t2 = (rotr 2 a XOR rotr 13 a XOR rotr 22 a) + ((a AND b) XOR (a AND c) XOR (b AND c))
      in [t1 + t2, a, b, c, d + t1, e, f, g])"
| "round hs kw = hs"

definition compress :: "u32 list \<Rightarrow> u32 list \<Rightarrow> u32 list" where
  "compress hs block = map2 (+) hs (foldl round hs (zip sha_k (schedule 48 (rev block))))"

fun blocks :: "nat \<Rightarrow> u32 list \<Rightarrow> u32 list \<Rightarrow> u32 list" where
  "blocks 0 hs ws = hs"
| "blocks (Suc n) hs ws = blocks n (compress hs (take 16 ws)) (drop 16 ws)"

definition word_bytes :: "u32 \<Rightarrow> string" where
  "word_bytes w = map (\<lambda>i. char_of (uint (drop_bit (24 - 8 * i) w))) [0..<4]"

definition sha256 :: "string \<Rightarrow> string" where
  "sha256 s = (let p = pad s in concat (map word_bytes (blocks (length p div 64) sha_init (words_of p))))"

definition hex_nibble :: "int \<Rightarrow> char" where
  "hex_nibble d = (if d < 10 then char_of (48 + d) else char_of (87 + d))"

definition hex_encode :: "string \<Rightarrow> string" where
  "hex_encode s = concat (map (\<lambda>c. [hex_nibble (of_char c div 16), hex_nibble (of_char c mod 16)]) s)"

lemma length_foldl_round: "length hs = 8 \<Longrightarrow> length (foldl round hs kws) = 8"
proof (induction kws arbitrary: hs)
  case (Cons kw kws)
  have "length (round hs kw) = 8"
    using Cons.prems by (cases "(hs, kw)" rule: round.cases) (auto simp: Let_def)
  then show ?case using Cons.IH by simp
qed simp

lemma length_blocks: "length hs = 8 \<Longrightarrow> length (blocks n hs ws) = 8"
  by (induction n arbitrary: hs ws) (simp_all add: compress_def length_foldl_round)

lemma length_concat_const: "(\<And>x. x \<in> set xs \<Longrightarrow> length (f x) = k) \<Longrightarrow> length (concat (map f xs)) = k * length xs"
  by (induction xs) auto

lemma length_sha256 [simp]: "length (sha256 s) = 32"
proof -
  have "length (blocks n sha_init ws) = 8" for n ws
    by (rule length_blocks) (simp add: sha_init_def)
  then show ?thesis
    by (simp add: sha256_def Let_def length_concat_const [where k = 4] word_bytes_def)
qed

lemma hex_nibble_inj: "0 \<le> a \<Longrightarrow> a < 16 \<Longrightarrow> 0 \<le> b \<Longrightarrow> b < 16 \<Longrightarrow> hex_nibble a = hex_nibble b \<Longrightarrow> a = b"
proof -
  assume a: "0 \<le> a" "a < 16" "0 \<le> b" "b < 16" and "hex_nibble a = hex_nibble b"
  then have "(of_char (hex_nibble a) :: int) = of_char (hex_nibble b)" by simp
  then show "a = b" using a by (simp add: hex_nibble_def split: if_splits)
qed

lemma hex_encode_inj: "hex_encode s = hex_encode t \<Longrightarrow> s = t"
proof (induction s arbitrary: t)
  case Nil
  then show ?case by (cases t) (simp_all add: hex_encode_def)
next
  case (Cons c s)
  then obtain d u where t: "t = d # u" by (cases t) (simp_all add: hex_encode_def)
  have b: "0 \<le> (of_char x :: int) div 16" "(of_char x :: int) div 16 < 16" for x :: char
    using of_char_byte [of x] by linarith+
  have n: "hex_nibble (of_char c div 16) = hex_nibble (of_char d div 16)"
    "hex_nibble (of_char c mod 16) = hex_nibble (of_char d mod 16)" "hex_encode s = hex_encode u"
    using Cons.prems t by (simp_all add: hex_encode_def)
  have "(of_char c :: int) div 16 = of_char d div 16" "(of_char c :: int) mod 16 = of_char d mod 16"
    using hex_nibble_inj [OF b b n(1)] hex_nibble_inj [OF _ _ _ _ n(2)] by simp_all
  then have "(of_char c :: int) = of_char d" by (metis div_mult_mod_eq)
  then have "c = d" by (metis char_of_char)
  then show ?case using Cons.IH n(3) t by simp
qed

end
