(* ===== verification/Hash.thy ===== *)
theory Hash
  imports Sha256
begin

text \<open>
  Snapshot versions, \<open>src/pkg/xds/hash.go\<close>: a digest of protobuf messages that ignores the
  order of resources and map entries, the per-pass memo of digests keyed by message address, and
  the version string. A message is modelled as its present fields in descriptor order, with its
  address (pointer identity) and, for an Any value, what the type registry and the decoder return
  for its type URL and bytes. A pooled hash writer is the bytes written since its last Reset.
\<close>

section \<open>Messages\<close>

datatype pval =
    VMsg pmsg
  | VStr string
  | VBytes string
  | VBool bool
  | VEnum int
  | VFloat u64
  | VUint u64
  | VInt int
and pfield =
    FSingle pval
  | FList "pval list"
  | FMap "(pval \<times> pval) list"
and pmsg =
    PMsg nat bool "(int \<times> pfield) list" string
  | PAny nat string string "pmsg option"

text \<open>\<open>PMsg\<close>: address, is it a listener filter chain, fields by number, unknown bytes.\<close>

fun addr :: "pmsg \<Rightarrow> nat" where
  "addr (PMsg a _ _ _) = a"
| "addr (PAny a _ _ _) = a"

section \<open>What is written to the hash\<close>

function uvarint :: "nat \<Rightarrow> string" where
  "uvarint n = (if n < 128 then [char_of n] else char_of (n mod 128 + 128) # uvarint (n div 128))"
  by pat_completeness auto
termination
  by (relation "measure id") auto

declare uvarint.simps [simp del]

definition varint :: "int \<Rightarrow> string" where
  "varint x = uvarint (nat (if x < 0 then - 2 * x - 1 else 2 * x))"

definition writeUint :: "string \<Rightarrow> nat \<Rightarrow> string" where
  "writeUint w n = w @ uvarint n"

definition writeInt :: "string \<Rightarrow> int \<Rightarrow> string" where
  "writeInt w n = w @ varint n"

definition writeBytes :: "string \<Rightarrow> string \<Rightarrow> string" where
  "writeBytes w b = writeUint w (length b) @ b"

definition writeSorted :: "string \<Rightarrow> string list \<Rightarrow> string" where
  "writeSorted w elems = foldl writeBytes (writeUint w (length elems)) (sort elems)"

section \<open>The memo\<close>

record 'v passMemo =
  pm_cur :: "(nat, 'v) gmap"
  pm_prev :: "(nat, 'v) gmap"

definition empty_memo :: "'v passMemo" where
  "empty_memo = \<lparr>pm_cur = [], pm_prev = []\<rparr>"

definition passMemo_endPass :: "'v passMemo \<Rightarrow> 'v passMemo" where
  "passMemo_endPass p = \<lparr>pm_cur = [], pm_prev = pm_cur p\<rparr>"

text \<open>The computation may itself extend the memo, so it takes and returns it.\<close>

definition passMemo_get ::
  "'v passMemo \<Rightarrow> nat \<Rightarrow> ('v passMemo \<Rightarrow> 'v \<times> 'v passMemo) \<Rightarrow> 'v \<times> 'v passMemo" where
  "passMemo_get p m compute =
     (case mget (pm_cur p) m of
        Some v \<Rightarrow> (v, p)
      | None \<Rightarrow>
          (case mget (pm_prev p) m of
             Some v \<Rightarrow> (v, p\<lparr>pm_cur := mset_at m v (pm_cur p)\<rparr>)
           | None \<Rightarrow> (case compute p of (v, p') \<Rightarrow> (v, p'\<lparr>pm_cur := mset_at m v (pm_cur p')\<rparr>))))"

section \<open>The hasher\<close>

text \<open>
  The hasher threads the memo; its number argument counts the Any values being decoded
  (\<open>unpacking\<close>): inside them nothing is cached. The hash function is an argument, fixed to
  SHA-256 in \<open>GetHash\<close>. The functions recurse on the message; the \<open>run\<close> functions
  are the code's loops over list elements, map entries and fields, in order.
\<close>

type_synonym memo = "string passMemo"
type_synonym hashing = "(string \<Rightarrow> string) \<Rightarrow> nat \<Rightarrow> memo \<Rightarrow> string \<times> memo"
type_synonym field_hashing = "(string \<Rightarrow> string) \<Rightarrow> nat \<Rightarrow> memo \<Rightarrow> string \<Rightarrow> string \<times> memo"

primrec run_list :: "hashing list \<Rightarrow> field_hashing" where
  "run_list [] sha u p w = (w, p)"
| "run_list (h # hs) sha u p w =
     (case h sha u p of (b, p') \<Rightarrow> run_list hs sha u p' (writeBytes w b))"

primrec run_entries ::
  "(hashing \<times> hashing) list \<Rightarrow> (string \<Rightarrow> string) \<Rightarrow> nat \<Rightarrow> memo \<Rightarrow> string list \<times> memo" where
  "run_entries [] sha u p = ([], p)"
| "run_entries (e # es) sha u p =
     (case fst e sha u p of (kb, p1) \<Rightarrow>
      case snd e sha u p1 of (vb, p2) \<Rightarrow>
      case run_entries es sha u p2 of (ds, p3) \<Rightarrow>
        (sha (writeBytes (writeBytes [] kb) vb) # ds, p3))"

primrec run_fields :: "(int \<times> field_hashing) list \<Rightarrow> field_hashing" where
  "run_fields [] sha u p w = (w, p)"
| "run_fields (f # fs) sha u p w =
     (case snd f sha u p (writeInt w (fst f)) of (w', p') \<Rightarrow> run_fields fs sha u p' w')"

definition any_digest ::
  "(string \<Rightarrow> string) \<Rightarrow> nat \<Rightarrow> string \<Rightarrow> string \<Rightarrow> hashing option \<Rightarrow> memo \<Rightarrow> string \<times> memo" where
  "any_digest sha u url val inner p =
     (case inner of
        Some h \<Rightarrow> (case h sha (Suc u) p of (d, p') \<Rightarrow> (sha (writeBytes [] url @ d), p'))
      | None \<Rightarrow> (sha (writeBytes (writeBytes [] url) val), p))"

primrec h_value :: "pval \<Rightarrow> hashing"
  and h_field :: "pfield \<Rightarrow> field_hashing"
  and h_message :: "pmsg \<Rightarrow> hashing" where
  "h_value (VMsg m) = h_message m"
| "h_value (VStr s) = (\<lambda>sha u p. (s, p))"
| "h_value (VBytes s) = (\<lambda>sha u p. (s, p))"
| "h_value (VBool b) = (\<lambda>sha u p. ([char_of (if b then 1 else 0 :: nat)], p))"
| "h_value (VEnum e) = (\<lambda>sha u p. (varint e, p))"
| "h_value (VFloat f) = (\<lambda>sha u p. (uvarint (unat f), p))"
| "h_value (VUint n) = (\<lambda>sha u p. (uvarint (unat n), p))"
| "h_value (VInt i) = (\<lambda>sha u p. (varint i, p))"
| "h_field (FList vs) = (\<lambda>sha u p w. run_list (map h_value vs) sha u p (writeInt w (int (length vs))))"
| "h_field (FMap es) = (\<lambda>sha u p w.
     (case run_entries (map (map_prod h_value h_value) es) sha u p of (ds, p') \<Rightarrow> (writeSorted w ds, p')))"
| "h_field (FSingle v) = (\<lambda>sha u p w. (case h_value v sha u p of (b, p') \<Rightarrow> (writeBytes w b, p')))"
| "h_message (PMsg a chain fs unknown) = (\<lambda>sha u p.
     let compute = (\<lambda>p. case run_fields (map (map_prod id h_field) fs) sha u p [] of
                      (w, p') \<Rightarrow> (sha (writeBytes w unknown), p'))
     in if chain \<and> u = 0 then passMemo_get p a compute else compute p)"
| "h_message (PAny a url val inner) = (\<lambda>sha u p.
     if 0 < u then any_digest sha u url val (map_option h_message inner) p
     else passMemo_get p a (any_digest sha u url val (map_option h_message inner)))"

fun h_digests :: "(string \<Rightarrow> string) \<Rightarrow> memo \<Rightarrow> pmsg list \<Rightarrow> string list \<times> memo" where
  "h_digests sha p [] = ([], p)"
| "h_digests sha p (r # rs) =
     (case passMemo_get p (addr r) (h_message r sha 0) of (d, p1) \<Rightarrow>
      case h_digests sha p1 rs of (ds, p2) \<Rightarrow> (d # ds, p2))"

fun h_types :: "(string \<Rightarrow> string) \<Rightarrow> memo \<Rightarrow> string \<Rightarrow> (string, pmsg list) gmap \<Rightarrow> string list \<Rightarrow> string \<times> memo" where
  "h_types sha p w resources [] = (w, p)"
| "h_types sha p w resources (k # ks) =
     (case h_digests sha p (mlist resources k) of (ds, p') \<Rightarrow>
        h_types sha p' (writeUint (writeBytes w k) (length ds) @ concat (sort ds)) resources ks)"

definition hasher_resources ::
  "(string \<Rightarrow> string) \<Rightarrow> memo \<Rightarrow> (string, pmsg list) gmap \<Rightarrow> string \<times> memo" where
  "hasher_resources sha p resources =
     (case h_types sha p [] resources (sort (mkeys resources)) of (w, p') \<Rightarrow> (hex_encode (sha w), p'))"

definition GetHash :: "(string, pmsg list) gmap \<Rightarrow> string" where
  "GetHash resources = fst (hasher_resources sha256 empty_memo resources)"

section \<open>The digest without a memo\<close>

primrec d_value :: "pval \<Rightarrow> (string \<Rightarrow> string) \<Rightarrow> string"
  and d_field :: "pfield \<Rightarrow> (string \<Rightarrow> string) \<Rightarrow> string"
  and d_message :: "pmsg \<Rightarrow> (string \<Rightarrow> string) \<Rightarrow> string" where
  "d_value (VMsg m) = d_message m"
| "d_value (VStr s) = (\<lambda>sha. s)"
| "d_value (VBytes s) = (\<lambda>sha. s)"
| "d_value (VBool b) = (\<lambda>sha. [char_of (if b then 1 else 0 :: nat)])"
| "d_value (VEnum e) = (\<lambda>sha. varint e)"
| "d_value (VFloat f) = (\<lambda>sha. uvarint (unat f))"
| "d_value (VUint n) = (\<lambda>sha. uvarint (unat n))"
| "d_value (VInt i) = (\<lambda>sha. varint i)"
| "d_field (FList vs) = (\<lambda>sha.
     varint (int (length vs)) @ concat (map (\<lambda>d. writeBytes [] (d sha)) (map d_value vs)))"
| "d_field (FMap es) = (\<lambda>sha. writeSorted []
     (map (\<lambda>(dk, dv). sha (writeBytes [] (dk sha) @ writeBytes [] (dv sha)))
        (map (map_prod d_value d_value) es)))"
| "d_field (FSingle v) = (\<lambda>sha. writeBytes [] (d_value v sha))"
| "d_message (PMsg a chain fs unknown) = (\<lambda>sha.
     sha (concat (map (\<lambda>(n, d). varint n @ d sha) (map (map_prod id d_field) fs)) @ writeBytes [] unknown))"
| "d_message (PAny a url val inner) = (\<lambda>sha.
     (case map_option d_message inner of
        Some d \<Rightarrow> sha (writeBytes [] url @ d sha)
      | None \<Rightarrow> sha (writeBytes [] url @ writeBytes [] val)))"

definition d_type :: "(string \<Rightarrow> string) \<Rightarrow> (string, pmsg list) gmap \<Rightarrow> string \<Rightarrow> string" where
  "d_type sha resources k =
     writeBytes [] k @ uvarint (length (mlist resources k)) @
     concat (sort (map (\<lambda>r. d_message r sha) (mlist resources k)))"

definition d_resources :: "(string \<Rightarrow> string) \<Rightarrow> (string, pmsg list) gmap \<Rightarrow> string" where
  "d_resources sha resources =
     hex_encode (sha (concat (map (d_type sha resources) (sort (mkeys resources)))))"

end
