(* ===== verification/Status.thy ===== *)
theory Status
  imports Prelude
begin

text \<open>
  Reconciliation status, \<open>src/pkg/status/status.go\<close>: the readiness flags of the controllers and the
  listeners that RDS changed and LDS has not rebuilt yet. Every operation of the source is atomic
  (an atomic flag or the pending mutex), so a program is a sequence of the operations below. The
  lemmas show that the sequence numbers implement the intended protocol: a rebuild clears a mark
  only if it started after the mark was placed.
\<close>

section \<open>State\<close>

record ReconciliationStatus =
  listenersReconciled :: bool
  routesReconciled :: bool
  clustersReconciled :: bool
  endpointsReconciled :: bool
  domainConfigsReconciled :: bool
  snapshotGenerated :: bool
  hasListeners :: bool
  hasRoutes :: bool
  hasClusters :: bool
  hasEndpoints :: bool
  hasDomainConfigs :: bool
  pendingSeq :: u64
  pendingListeners :: "(string, u64) gmap"
  listenersInitialized :: bool
  routesInitialized :: bool
  clustersInitialized :: bool
  endpointsInitialized :: bool
  domainConfigsInitialized :: bool

definition NewReconciliationStatus :: ReconciliationStatus where
  "NewReconciliationStatus = \<lparr>
     listenersReconciled = True,
     routesReconciled = True,
     clustersReconciled = True,
     endpointsReconciled = True,
     domainConfigsReconciled = True,
     snapshotGenerated = False,
     hasListeners = False,
     hasRoutes = False,
     hasClusters = False,
     hasEndpoints = False,
     hasDomainConfigs = False,
     pendingSeq = 0,
     pendingListeners = [],
     listenersInitialized = False,
     routesInitialized = False,
     clustersInitialized = False,
     endpointsInitialized = False,
     domainConfigsInitialized = False\<rparr>"

section \<open>Flags\<close>

definition IsListenersReconciled :: "ReconciliationStatus \<Rightarrow> bool" where
  "IsListenersReconciled rs = listenersReconciled rs"

definition SetListenersReconciled :: "bool \<Rightarrow> ReconciliationStatus \<Rightarrow> ReconciliationStatus" where
  "SetListenersReconciled reconciled rs = rs\<lparr>listenersReconciled := reconciled\<rparr>"

definition IsRoutesReconciled :: "ReconciliationStatus \<Rightarrow> bool" where
  "IsRoutesReconciled rs = routesReconciled rs"

definition SetRoutesReconciled :: "bool \<Rightarrow> ReconciliationStatus \<Rightarrow> ReconciliationStatus" where
  "SetRoutesReconciled reconciled rs = rs\<lparr>routesReconciled := reconciled\<rparr>"

definition IsClustersReconciled :: "ReconciliationStatus \<Rightarrow> bool" where
  "IsClustersReconciled rs = clustersReconciled rs"

definition SetClustersReconciled :: "bool \<Rightarrow> ReconciliationStatus \<Rightarrow> ReconciliationStatus" where
  "SetClustersReconciled reconciled rs = rs\<lparr>clustersReconciled := reconciled\<rparr>"

definition IsEndpointsReconciled :: "ReconciliationStatus \<Rightarrow> bool" where
  "IsEndpointsReconciled rs = endpointsReconciled rs"

definition SetEndpointsReconciled :: "bool \<Rightarrow> ReconciliationStatus \<Rightarrow> ReconciliationStatus" where
  "SetEndpointsReconciled reconciled rs = rs\<lparr>endpointsReconciled := reconciled\<rparr>"

definition IsDomainConfigsReconciled :: "ReconciliationStatus \<Rightarrow> bool" where
  "IsDomainConfigsReconciled rs = domainConfigsReconciled rs"

definition SetDomainConfigsReconciled :: "bool \<Rightarrow> ReconciliationStatus \<Rightarrow> ReconciliationStatus" where
  "SetDomainConfigsReconciled reconciled rs = rs\<lparr>domainConfigsReconciled := reconciled\<rparr>"

definition IsSnapshotGenerated :: "ReconciliationStatus \<Rightarrow> bool" where
  "IsSnapshotGenerated rs = snapshotGenerated rs"

definition SetSnapshotGenerated :: "bool \<Rightarrow> ReconciliationStatus \<Rightarrow> ReconciliationStatus" where
  "SetSnapshotGenerated generated rs = rs\<lparr>snapshotGenerated := generated\<rparr>"

definition SetHasListeners :: "bool \<Rightarrow> ReconciliationStatus \<Rightarrow> ReconciliationStatus" where
  "SetHasListeners has rs =
     (let rs' = rs\<lparr>hasListeners := has\<rparr>
      in if has then rs'\<lparr>listenersReconciled := False\<rparr> else rs')"

definition SetHasRoutes :: "bool \<Rightarrow> ReconciliationStatus \<Rightarrow> ReconciliationStatus" where
  "SetHasRoutes has rs =
     (let rs' = rs\<lparr>hasRoutes := has\<rparr>
      in if has then rs'\<lparr>routesReconciled := False\<rparr> else rs')"

definition SetHasClusters :: "bool \<Rightarrow> ReconciliationStatus \<Rightarrow> ReconciliationStatus" where
  "SetHasClusters has rs =
     (let rs' = rs\<lparr>hasClusters := has\<rparr>
      in if has then rs'\<lparr>clustersReconciled := False\<rparr> else rs')"

definition SetHasEndpoints :: "bool \<Rightarrow> ReconciliationStatus \<Rightarrow> ReconciliationStatus" where
  "SetHasEndpoints has rs =
     (let rs' = rs\<lparr>hasEndpoints := has\<rparr>
      in if has then rs'\<lparr>endpointsReconciled := False\<rparr> else rs')"

definition SetHasDomainConfigs :: "bool \<Rightarrow> ReconciliationStatus \<Rightarrow> ReconciliationStatus" where
  "SetHasDomainConfigs has rs =
     (let rs' = rs\<lparr>hasDomainConfigs := has\<rparr>
      in if has then rs'\<lparr>domainConfigsReconciled := False\<rparr> else rs')"

definition SetListenersInitialized :: "bool \<Rightarrow> ReconciliationStatus \<Rightarrow> ReconciliationStatus" where
  "SetListenersInitialized initialized rs = rs\<lparr>listenersInitialized := initialized\<rparr>"

definition SetRoutesInitialized :: "bool \<Rightarrow> ReconciliationStatus \<Rightarrow> ReconciliationStatus" where
  "SetRoutesInitialized initialized rs = rs\<lparr>routesInitialized := initialized\<rparr>"

definition SetClustersInitialized :: "bool \<Rightarrow> ReconciliationStatus \<Rightarrow> ReconciliationStatus" where
  "SetClustersInitialized initialized rs = rs\<lparr>clustersInitialized := initialized\<rparr>"

definition SetEndpointsInitialized :: "bool \<Rightarrow> ReconciliationStatus \<Rightarrow> ReconciliationStatus" where
  "SetEndpointsInitialized initialized rs = rs\<lparr>endpointsInitialized := initialized\<rparr>"

definition SetDomainConfigsInitialized :: "bool \<Rightarrow> ReconciliationStatus \<Rightarrow> ReconciliationStatus" where
  "SetDomainConfigsInitialized initialized rs = rs\<lparr>domainConfigsInitialized := initialized\<rparr>"

definition IsRoutesInitialized :: "ReconciliationStatus \<Rightarrow> bool" where
  "IsRoutesInitialized rs = routesInitialized rs"

definition AllInitialized :: "ReconciliationStatus \<Rightarrow> bool" where
  "AllInitialized rs \<longleftrightarrow> listenersInitialized rs \<and> routesInitialized rs \<and>
     clustersInitialized rs \<and> endpointsInitialized rs \<and> domainConfigsInitialized rs"

definition HasAnyResources :: "ReconciliationStatus \<Rightarrow> bool" where
  "HasAnyResources rs \<longleftrightarrow> hasListeners rs \<or> hasRoutes rs \<or> hasClusters rs \<or>
     hasEndpoints rs \<or> hasDomainConfigs rs"

section \<open>Pending listeners\<close>

definition MarkListenerPending :: "string \<Rightarrow> ReconciliationStatus \<Rightarrow> ReconciliationStatus" where
  "MarkListenerPending key rs =
     (let s = pendingSeq rs + 1
      in rs\<lparr>pendingSeq := s, pendingListeners := mset_at key s (pendingListeners rs)\<rparr>)"

text \<open>Reading an absent key gives 0.\<close>

definition ListenerPendingSeq :: "string \<Rightarrow> ReconciliationStatus \<Rightarrow> u64" where
  "ListenerPendingSeq key rs = (case mget (pendingListeners rs) key of Some s \<Rightarrow> s | None \<Rightarrow> 0)"

definition ClearListenerPending :: "string \<Rightarrow> u64 \<Rightarrow> ReconciliationStatus \<Rightarrow> ReconciliationStatus" where
  "ClearListenerPending key s rs =
     (if ListenerPendingSeq key rs = s
      then rs\<lparr>pendingListeners := mdelete key (pendingListeners rs)\<rparr> else rs)"

definition HasPendingListeners :: "ReconciliationStatus \<Rightarrow> bool" where
  "HasPendingListeners rs \<longleftrightarrow> pendingListeners rs \<noteq> []"

section \<open>Readiness\<close>

definition AllReconciled :: "ReconciliationStatus \<Rightarrow> bool" where
  "AllReconciled rs \<longleftrightarrow>
     (if \<not> AllInitialized rs then False
      else ((\<not> hasListeners rs \<or> IsListenersReconciled rs) \<and> \<not> HasPendingListeners rs) \<and>
        (\<not> hasRoutes rs \<or> IsRoutesReconciled rs) \<and>
        (\<not> hasClusters rs \<or> IsClustersReconciled rs) \<and>
        (\<not> hasEndpoints rs \<or> IsEndpointsReconciled rs) \<and>
        (\<not> hasDomainConfigs rs \<or> IsDomainConfigsReconciled rs))"

definition AllReconciledWithSnapshot :: "ReconciliationStatus \<Rightarrow> bool" where
  "AllReconciledWithSnapshot rs \<longleftrightarrow>
     (if \<not> HasAnyResources rs then True
      else if IsSnapshotGenerated rs then True
      else AllReconciled rs)"

section \<open>The protocol of marks and rebuilds\<close>

text \<open>
  Rebuilding workers read a token for a listener before they read any state, and clear the mark
  with it when the rebuild is done. The events of an interleaved run, and the tokens held.
\<close>

datatype pending_event =
    Mark string
  | Begin nat string
  | Finish nat string

type_synonym tokens = "nat \<Rightarrow> string \<Rightarrow> u64"

fun pending_step :: "pending_event \<Rightarrow> ReconciliationStatus \<times> tokens \<Rightarrow> ReconciliationStatus \<times> tokens" where
  "pending_step (Mark k) (rs, t) = (MarkListenerPending k rs, t)"
| "pending_step (Begin w k) (rs, t) = (rs, t(w := (t w)(k := ListenerPendingSeq k rs)))"
| "pending_step (Finish w k) (rs, t) = (ClearListenerPending k (t w k) rs, t)"

text \<open>
  The specification: which listeners are pending, and which rebuilds of a listener began after its
  last mark (\<open>fresh\<close>). Only a fresh rebuild clears.
\<close>

record pending_spec =
  pending :: "string set"
  fresh :: "(nat \<times> string) set"

fun spec_step :: "pending_event \<Rightarrow> pending_spec \<Rightarrow> pending_spec" where
  "spec_step (Mark k) s = s\<lparr>pending := insert k (pending s), fresh := {f \<in> fresh s. snd f \<noteq> k}\<rparr>"
| "spec_step (Begin w k) s = s\<lparr>fresh := insert (w, k) (fresh s)\<rparr>"
| "spec_step (Finish w k) s = (if (w, k) \<in> fresh s then s\<lparr>pending := pending s - {k}\<rparr> else s)"

fun marks :: "pending_event list \<Rightarrow> nat" where
  "marks [] = 0"
| "marks (Mark k # es) = Suc (marks es)"
| "marks (e # es) = marks es"

definition implements :: "ReconciliationStatus \<times> tokens \<Rightarrow> pending_spec \<Rightarrow> bool" where
  "implements c s \<longleftrightarrow> (case c of (rs, t) \<Rightarrow>
     (\<forall>k. k \<in> pending s \<longleftrightarrow> mget (pendingListeners rs) k \<noteq> None) \<and>
     (\<forall>k v. mget (pendingListeners rs) k = Some v \<longrightarrow> 0 < v \<and> v \<le> pendingSeq rs) \<and>
     (\<forall>w k. t w k \<le> pendingSeq rs) \<and>
     (\<forall>w k v. mget (pendingListeners rs) k = Some v \<longrightarrow>
        (if (w, k) \<in> fresh s then t w k = v else t w k < v)))"

lemma implements_token:
  "implements (rs, t) s \<Longrightarrow> mget (pendingListeners rs) k = Some v \<Longrightarrow>
     if (w, k) \<in> fresh s then t w k = v else t w k < v"
  unfolding implements_def prod.case by blast

lemma implements_step:
  assumes "implements (rs, t) s" and "\<And>k. e = Mark k \<Longrightarrow> pendingSeq rs < pendingSeq rs + 1"
  shows "implements (pending_step e (rs, t)) (spec_step e s)"
proof (cases e)
  case (Mark k)
  then have lt: "pendingSeq rs < pendingSeq rs + 1" using assms(2) by blast
  have t: "t w j < pendingSeq rs + 1" for w j
  proof (rule le_less_trans [OF _ lt])
    show "t w j \<le> pendingSeq rs" using assms(1) by (simp add: implements_def)
  qed
  have v: "mget (pendingListeners rs) j = Some v \<Longrightarrow> v \<le> pendingSeq rs + 1" for j v
    using assms(1) order_trans [OF _ less_imp_le [OF lt], of v] by (simp add: implements_def)
  have "0 < pendingSeq rs + 1" using lt by (rule le_less_trans [OF word_zero_le])
  then show ?thesis using assms(1) Mark t v
    by (auto simp: implements_def MarkListenerPending_def Let_def less_imp_le)
next
  case (Begin w k)
  then show ?thesis using assms(1)
    by (auto simp: implements_def ListenerPendingSeq_def split: option.splits)
next
  case (Finish w k)
  show ?thesis
  proof (cases "mget (pendingListeners rs) k")
    case None
    then show ?thesis using assms(1) Finish
      by (auto simp: implements_def ClearListenerPending_def)
  next
    case (Some v)
    have "if (w, k) \<in> fresh s then t w k = v else t w k < v"
      using implements_token [OF assms(1) Some] .
    then have "ListenerPendingSeq k rs = t w k \<longleftrightarrow> (w, k) \<in> fresh s"
      by (cases "(w, k) \<in> fresh s") (simp_all add: ListenerPendingSeq_def Some)
    then have "pending_step e (rs, t) =
        (if (w, k) \<in> fresh s then rs\<lparr>pendingListeners := mdelete k (pendingListeners rs)\<rparr> else rs, t)"
      using Finish by (simp add: ClearListenerPending_def)
    then show ?thesis using assms(1) Finish
      by (cases "(w, k) \<in> fresh s") (simp_all add: implements_def)
  qed
qed

definition run_pending :: "pending_event list \<Rightarrow> ReconciliationStatus \<times> tokens \<Rightarrow> ReconciliationStatus \<times> tokens" where
  "run_pending es c = fold pending_step es c"

lemma implements_run:
  assumes "implements c s" and "unat (pendingSeq (fst c)) + marks es < 2 ^ 64"
  shows "implements (run_pending es c) (fold spec_step es s)"
  using assms
proof (induction es arbitrary: c s)
  case Nil
  then show ?case by (simp add: run_pending_def)
next
  case (Cons e es)
  obtain rs t where c: "c = (rs, t)" by force
  have no_wrap: "unat (pendingSeq rs + 1) = Suc (unat (pendingSeq rs))" if "e = Mark k" for k
    using Cons.prems(2) c that unat_add_lem [of "pendingSeq rs" 1] by simp
  then have "implements (pending_step e c) (spec_step e s)"
    using implements_step [of rs t s e] Cons.prems(1) c by (simp add: word_less_nat_alt)
  moreover have "unat (pendingSeq (fst (pending_step e c))) + marks es < 2 ^ 64"
    using Cons.prems(2) c no_wrap
    by (cases e) (auto simp: MarkListenerPending_def ClearListenerPending_def Let_def)
  ultimately show ?case using Cons.IH by (simp add: run_pending_def)
qed

section \<open>Sequences of operations\<close>

datatype kind = KListeners | KRoutes | KClusters | KEndpoints | KDomainConfigs

datatype status_op =
    SetReconciled kind bool
  | SetHas kind bool
  | SetInitialized kind bool
  | SetGenerated bool
  | MarkPending string
  | ClearPending string u64

fun status_step :: "status_op \<Rightarrow> ReconciliationStatus \<Rightarrow> ReconciliationStatus" where
  "status_step (SetReconciled KListeners b) rs = SetListenersReconciled b rs"
| "status_step (SetReconciled KRoutes b) rs = SetRoutesReconciled b rs"
| "status_step (SetReconciled KClusters b) rs = SetClustersReconciled b rs"
| "status_step (SetReconciled KEndpoints b) rs = SetEndpointsReconciled b rs"
| "status_step (SetReconciled KDomainConfigs b) rs = SetDomainConfigsReconciled b rs"
| "status_step (SetHas KListeners b) rs = SetHasListeners b rs"
| "status_step (SetHas KRoutes b) rs = SetHasRoutes b rs"
| "status_step (SetHas KClusters b) rs = SetHasClusters b rs"
| "status_step (SetHas KEndpoints b) rs = SetHasEndpoints b rs"
| "status_step (SetHas KDomainConfigs b) rs = SetHasDomainConfigs b rs"
| "status_step (SetInitialized KListeners b) rs = SetListenersInitialized b rs"
| "status_step (SetInitialized KRoutes b) rs = SetRoutesInitialized b rs"
| "status_step (SetInitialized KClusters b) rs = SetClustersInitialized b rs"
| "status_step (SetInitialized KEndpoints b) rs = SetEndpointsInitialized b rs"
| "status_step (SetInitialized KDomainConfigs b) rs = SetDomainConfigsInitialized b rs"
| "status_step (SetGenerated b) rs = SetSnapshotGenerated b rs"
| "status_step (MarkPending k) rs = MarkListenerPending k rs"
| "status_step (ClearPending k s) rs = ClearListenerPending k s rs"

fun waiting :: "kind \<Rightarrow> ReconciliationStatus \<Rightarrow> bool" where
  "waiting KListeners rs \<longleftrightarrow> hasListeners rs \<and> \<not> listenersReconciled rs"
| "waiting KRoutes rs \<longleftrightarrow> hasRoutes rs \<and> \<not> routesReconciled rs"
| "waiting KClusters rs \<longleftrightarrow> hasClusters rs \<and> \<not> clustersReconciled rs"
| "waiting KEndpoints rs \<longleftrightarrow> hasEndpoints rs \<and> \<not> endpointsReconciled rs"
| "waiting KDomainConfigs rs \<longleftrightarrow> hasDomainConfigs rs \<and> \<not> domainConfigsReconciled rs"

lemmas status_defs =
  SetListenersReconciled_def SetHasListeners_def SetListenersInitialized_def
  SetRoutesReconciled_def SetHasRoutes_def SetRoutesInitialized_def
  SetClustersReconciled_def SetHasClusters_def SetClustersInitialized_def
  SetEndpointsReconciled_def SetHasEndpoints_def SetEndpointsInitialized_def
  SetDomainConfigsReconciled_def SetHasDomainConfigs_def SetDomainConfigsInitialized_def
  SetSnapshotGenerated_def MarkListenerPending_def ClearListenerPending_def Let_def

lemma waiting_step:
  "waiting k rs \<Longrightarrow> op \<noteq> SetReconciled k True \<Longrightarrow> op \<noteq> SetHas k False \<Longrightarrow> waiting k (status_step op rs)"
  by (induction k; cases "(op, rs)" rule: status_step.cases)
    (simp_all only: prod.inject status_step.simps, simp_all add: status_defs)

lemma waiting_SetHas: "waiting k (status_step (SetHas k True) rs)"
  by (cases k) (simp_all add: status_defs)

lemma waiting_blocks: "waiting k rs \<Longrightarrow> \<not> AllReconciled rs"
  by (cases k) (simp_all add: AllReconciled_def
    IsListenersReconciled_def IsRoutesReconciled_def IsClustersReconciled_def IsEndpointsReconciled_def IsDomainConfigsReconciled_def)

lemma waiting_run:
  "waiting k rs \<Longrightarrow> SetReconciled k True \<notin> set ops \<Longrightarrow> SetHas k False \<notin> set ops \<Longrightarrow> waiting k (fold status_step ops rs)"
proof (induction ops arbitrary: rs)
  case (Cons op ops)
  have "waiting k (status_step op rs)"
    by (rule waiting_step [OF Cons.prems(1)]) (use Cons.prems in auto)
  then show ?case using Cons by simp
qed simp

section \<open>Properties\<close>

text \<open>C35. In every interleaving of marks and rebuilds the sequence numbers implement the protocol: the
  listeners pending in the status are those with a mark that no rebuild begun after it has
  finished. In particular a mark placed while a rebuild runs survives that rebuild.\<close>

theorem pending_protocol:
  assumes "marks es < 2 ^ 64"
  shows "{k. mget (pendingListeners (fst (run_pending es (NewReconciliationStatus, \<lambda>w k. 0)))) k \<noteq> None} =
      pending (fold spec_step es \<lparr>pending = {}, fresh = {}\<rparr>) \<and>
    (HasPendingListeners (fst (run_pending es (NewReconciliationStatus, \<lambda>w k. 0))) \<longleftrightarrow>
      pending (fold spec_step es \<lparr>pending = {}, fresh = {}\<rparr>) \<noteq> {})"
proof -
  let ?c = "run_pending es (NewReconciliationStatus, \<lambda>w k. 0)"
  have "implements (NewReconciliationStatus, \<lambda>w k. 0) \<lparr>pending = {}, fresh = {}\<rparr>"
    by (simp add: implements_def NewReconciliationStatus_def)
  then have "implements ?c (fold spec_step es \<lparr>pending = {}, fresh = {}\<rparr>)"
    by (rule implements_run) (use assms in \<open>simp add: NewReconciliationStatus_def\<close>)
  then have *: "k \<in> pending (fold spec_step es \<lparr>pending = {}, fresh = {}\<rparr>) \<longleftrightarrow>
      mget (pendingListeners (fst ?c)) k \<noteq> None" for k
    by (cases ?c) (simp add: implements_def)
  have "pendingListeners (fst ?c) = [] \<longleftrightarrow> (\<forall>k. mget (pendingListeners (fst ?c)) k = None)"
    by (auto simp: mget_def map_of_eq_None_iff)
  then show ?thesis using * by (auto simp: HasPendingListeners_def)
qed

lemma pending_protocol_witness:
  "HasPendingListeners (fst (run_pending [Mark ''l'', Begin 0 ''l'', Mark ''l'', Finish 0 ''l'']
     (NewReconciliationStatus, \<lambda>w k. 0)))"
  using pending_protocol [of "[Mark ''l'', Begin 0 ''l'', Mark ''l'', Finish 0 ''l'']"] by simp

text \<open>Once a kind of resource is announced, the controller is not ready until that kind is reported
  reconciled (or reported absent), whatever other operations happen in between.\<close>

theorem readiness_waits:
  assumes "SetReconciled k True \<notin> set ops" and "SetHas k False \<notin> set ops"
  shows "\<not> AllReconciled (fold status_step ops (status_step (SetHas k True) rs))"
  using waiting_blocks waiting_run [OF waiting_SetHas assms] .

lemma readiness_waits_witness:
  "\<not> AllReconciled (fold status_step [SetReconciled KListeners True, SetInitialized KRoutes True]
     (status_step (SetHas KRoutes True) NewReconciliationStatus))"
  by (rule readiness_waits) simp_all

end
