(* ===== verification/Config.thy ===== *)
theory Config
  imports Util Fcm Hash Status
begin

text \<open>
  The data the controllers and the snapshot server share: the custom resources
  (\<open>src/apis/v1alpha1\<close>, \<open>src/pkg/xds/types\<close>), the Envoy messages they turn into, and
  \<open>xds.Config\<close> of \<open>src/pkg/xds/xds.go\<close> with its counters and leader flags. A record has
  the fields the modelled code reads or writes; a \<open>rest\<close> field stands for the remaining
  fields of a configuration message, which are only copied. A Go pointer is the object with its
  address (\<open>addr\<close> fields).
\<close>

section \<open>Custom resources\<close>

record VirtualHost =
  vh_Domains :: "string list"
  vh_rest :: string

record RDS =
  rds_VirtualHosts :: "VirtualHost option list"
  rds_rest :: string

record ConfigSource =
  cs_Ads :: "string option"
  cs_ResourceApiVersion :: string
  cs_rest :: string

record Rds =
  rds_ConfigSource :: "ConfigSource option"
  rds_RouteConfigName :: string

record HCM =
  hcm_RouteConfig :: "RDS option"
  hcm_Rds :: "Rds option"
  hcm_rest :: string

record Route = ObjectMeta +
  rt_addr :: nat
  rt_ListenerRefs :: "string list"
  rt_TLSSecretRef :: string
  rt_TLSSecretRefs :: "string list"
  rt_FilterChainMatch :: "lds_FilterChainMatch option"
  rt_RouteConfig :: "RDS option"
  rt_HCM :: HCM

record lds_FilterChain =
  lfc_FilterChainMatch :: "lds_FilterChainMatch option"
  lfc_rest :: string

text \<open>A nil filter chain list is \<open>None\<close>; the code tells it apart from an empty one.\<close>

record ListenerCR = ObjectMeta +
  li_FilterChains :: "lds_FilterChain option list option"
  li_rest :: string

section \<open>Envoy messages\<close>

record RouteConfiguration =
  rcf_Name :: string
  rcf_rest :: string

record HttpConnectionManager =
  hm_RdsName :: string
  hm_ScopedRoutes :: "string list"
  hm_CodecType :: int
  hm_rest :: string

datatype any_message =
    AnyHCM HttpConnectionManager
  | AnyQuic "string list"
  | AnyTls "string list" "string list"
  | AnyOther string

record Any =
  an_addr :: nat
  an_message :: any_message

record Filter =
  ef_Name :: string
  ef_TypedConfig :: "Any option"

record TransportSocket =
  ts_Name :: string
  ts_TypedConfig :: Any

record FilterChain =
  ec_Name :: string
  ec_FilterChainMatch :: "FilterChainMatch option"
  ec_Filters :: "Filter list"
  ec_TransportSocket :: "TransportSocket option"
  ec_rest :: string

datatype Address = NoAddress | SocketAddress int | OtherAddress

record Listener =
  el_Name :: string
  el_FilterChains :: "FilterChain list"
  el_DefaultFilterChain :: "FilterChain option"
  el_UdpQuicOptions :: "bool option"
  el_Address :: Address
  el_rest :: string

datatype discovery_type = EDS | OtherDiscovery int

record EdsClusterConfig =
  eds_ServiceName :: string

record LocalityLbEndpoints =
  lo_LbEndpoints :: "string list"
  lo_rest :: string

record ClusterLoadAssignment =
  cla_ClusterName :: string
  cla_Endpoints :: "LocalityLbEndpoints list"
  cla_NamedEndpoints :: "(string, string) gmap"
  cla_Policy :: "string option"
  cla_rest :: string

record Cluster =
  cl_Name :: string
  cl_Type :: discovery_type
  cl_EdsClusterConfig :: "EdsClusterConfig option"
  cl_LoadAssignment :: "ClusterLoadAssignment option"
  cl_rest :: string

text \<open>A TLS certificate is a chain and a key, both inline bytes; no other kind of secret is made.\<close>

record Secret =
  sec_Name :: string
  sec_TlsCertificate :: "(string \<times> string) option"

datatype Resource =
    RSecret Secret
  | RListener Listener
  | RCluster Cluster
  | RRoute RouteConfiguration
  | REndpoint ClusterLoadAssignment

section \<open>The shared configuration\<close>

record RouteConfig =
  rc_RouteConfiguration :: RouteConfiguration
  rc_Route :: Route
  rc_ListenerNames :: "string list"
  rc_Matcher :: "Matcher option"

record snapshotMemo =
  sm_hashes :: memo
  sm_routes :: "string list passMemo"

definition snapshotMemo_endPass :: "snapshotMemo \<Rightarrow> snapshotMemo" where
  "snapshotMemo_endPass s =
     s\<lparr>sm_hashes := passMemo_endPass (sm_hashes s), sm_routes := passMemo_endPass (sm_routes s)\<rparr>"

record Config =
  NodeID :: string
  ClusterName :: string
  SecretConfigs :: "(string, Secret list) gmap"
  ListenerConfigs :: "(string, Listener list) gmap"
  ClusterConfigs :: "(string, Cluster list) gmap"
  RouteConfigs :: "(string, RouteConfig list) gmap"
  EndpointConfigs :: "(string, ClusterLoadAssignment list) gmap"
  reconciliationStatus :: ReconciliationStatus
  IsLeader :: bool
  LeaderID :: string
  configChangeCounter :: u64
  memo_of :: snapshotMemo

definition new_Config :: "string \<Rightarrow> string \<Rightarrow> Config" where
  "new_Config node cluster =
     \<lparr>NodeID = node, ClusterName = cluster, SecretConfigs = [], ListenerConfigs = [],
      ClusterConfigs = [], RouteConfigs = [], EndpointConfigs = [],
      reconciliationStatus = NewReconciliationStatus, IsLeader = False, LeaderID = [],
      configChangeCounter = 0, memo_of = \<lparr>sm_hashes = empty_memo, sm_routes = empty_memo\<rparr>\<rparr>"

text \<open>The counter is a 64-bit atomic: it wraps.\<close>

definition IncrementConfigCounter :: "Config \<Rightarrow> Config" where
  "IncrementConfigCounter c = c\<lparr>configChangeCounter := configChangeCounter c + 1\<rparr>"

definition GetConfigCounter :: "Config \<Rightarrow> u64" where
  "GetConfigCounter c = configChangeCounter c"

definition SetLeaderStatus :: "bool \<Rightarrow> Config \<Rightarrow> Config" where
  "SetLeaderStatus isLeader c =
     (let c' = c\<lparr>IsLeader := isLeader\<rparr>
      in if isLeader then c'\<lparr>LeaderID := NodeID c'\<rparr> else c')"

definition IsLeaderInstance :: "Config \<Rightarrow> bool" where
  "IsLeaderInstance c = IsLeader c"

definition GetLeaderID :: "Config \<Rightarrow> string" where
  "GetLeaderID c = LeaderID c"

end
