(* ===== verification/HashFacts.thy ===== *)
theory HashFacts
  imports Hash
begin

text \<open>
  What a snapshot version means: the memo never changes a digest, the version does not depend on
  the visiting order of maps or the order of resources, and different contents get different
  versions unless the hash function collides.
\<close>

section \<open>Writing appends\<close>

lemma writeBytes_append: "writeBytes w b = w @ writeBytes [] b"
  by (simp add: writeBytes_def writeUint_def)

lemma foldl_writeBytes: "foldl writeBytes w bs = w @ concat (map (writeBytes []) bs)"
proof (induction bs arbitrary: w)
  case (Cons b bs)
  have "foldl writeBytes w (b # bs) = writeBytes w b @ concat (map (writeBytes []) bs)"
    by (simp only: foldl_Cons Cons.IH)
  then show ?case by (simp add: writeBytes_append [of w b])
qed simp

lemma writeSorted_append: "writeSorted w ds = w @ writeSorted [] ds"
  by (simp add: writeSorted_def foldl_writeBytes writeUint_def)

lemma writeInt_append: "writeInt w n = w @ varint n"
  by (simp add: writeInt_def)

section \<open>The memo is transparent\<close>

text \<open>
  A heap gives the message stored at an address; the parts of a message outside Any values are
  stored there. Inside an Any they are fresh copies, which the memo never sees.
\<close>

primrec at_value :: "pval \<Rightarrow> (nat \<Rightarrow> pmsg) \<Rightarrow> bool"
  and at_field :: "pfield \<Rightarrow> (nat \<Rightarrow> pmsg) \<Rightarrow> bool"
  and at_message :: "pmsg \<Rightarrow> (nat \<Rightarrow> pmsg) \<Rightarrow> bool" where
  "at_value (VMsg m) = at_message m"
| "at_value (VStr s) = (\<lambda>h. True)"
| "at_value (VBytes s) = (\<lambda>h. True)"
| "at_value (VBool b) = (\<lambda>h. True)"
| "at_value (VEnum e) = (\<lambda>h. True)"
| "at_value (VFloat f) = (\<lambda>h. True)"
| "at_value (VUint n) = (\<lambda>h. True)"
| "at_value (VInt i) = (\<lambda>h. True)"
| "at_field (FSingle v) = at_value v"
| "at_field (FList vs) = (\<lambda>h. \<forall>a\<in>set (map at_value vs). a h)"
| "at_field (FMap es) = (\<lambda>h. \<forall>e\<in>set (map (map_prod at_value at_value) es). fst e h \<and> snd e h)"
| "at_message (PMsg a chain fs unknown) = (\<lambda>h.
     h a = PMsg a chain fs unknown \<and> (\<forall>f\<in>set (map (map_prod id at_field) fs). snd f h))"
| "at_message (PAny a url val inner) = (\<lambda>h. h a = PAny a url val inner)"

definition memo_ok :: "(string \<Rightarrow> string) \<Rightarrow> (nat \<Rightarrow> pmsg) \<Rightarrow> memo \<Rightarrow> bool" where
  "memo_ok sha h p \<longleftrightarrow> (\<forall>a d. mget (pm_cur p) a = Some d \<or> mget (pm_prev p) a = Some d \<longrightarrow>
     d = d_message (h a) sha)"

lemma memo_ok_empty [simp]: "memo_ok sha h empty_memo"
  by (simp add: memo_ok_def empty_memo_def)

lemma memo_ok_endPass: "memo_ok sha h p \<Longrightarrow> memo_ok sha h (passMemo_endPass p)"
  by (simp add: memo_ok_def passMemo_endPass_def)

text \<open>\<open>computes\<close>: the step returns the pure digest and leaves the memo correct.\<close>

definition computes ::
  "(string \<Rightarrow> string) \<Rightarrow> (nat \<Rightarrow> pmsg) \<Rightarrow> memo \<Rightarrow> 'r \<Rightarrow> 'r \<times> memo \<Rightarrow> bool" where
  "computes sha h p r res \<longleftrightarrow> (memo_ok sha h p \<longrightarrow> (\<exists>p'. res = (r, p') \<and> memo_ok sha h p'))"

lemma computesI: "(memo_ok sha h p \<Longrightarrow> \<exists>p'. res = (r, p') \<and> memo_ok sha h p') \<Longrightarrow> computes sha h p r res"
  by (simp add: computes_def)

lemma computesD: "computes sha h p r res \<Longrightarrow> memo_ok sha h p \<Longrightarrow> \<exists>p'. res = (r, p') \<and> memo_ok sha h p'"
  by (simp add: computes_def)

lemma computes_get:
  assumes "\<And>p. computes sha h p (d_message (h a) sha) (f p)"
  shows "computes sha h p (d_message (h a) sha) (passMemo_get p a f)"
proof (rule computesI)
  assume p: "memo_ok sha h p"
  obtain p' where p': "f p = (d_message (h a) sha, p')" "memo_ok sha h p'"
    using computesD [OF assms p] by blast
  show "\<exists>p'. passMemo_get p a f = (d_message (h a) sha, p') \<and> memo_ok sha h p'"
    using p p' by (auto simp: passMemo_get_def memo_ok_def split: option.splits)
qed

lemma computes_run_list:
  assumes "\<And>v p. v \<in> set vs \<Longrightarrow> computes sha h p (d_value v sha) (h_value v sha u p)"
  shows "computes sha h p (w @ concat (map (\<lambda>v. writeBytes [] (d_value v sha)) vs))
           (run_list (map h_value vs) sha u p w)"
  using assms
proof (induction vs arbitrary: p w)
  case Nil
  then show ?case by (simp add: computes_def)
next
  case (Cons v vs)
  show ?case
  proof (rule computesI)
    assume "memo_ok sha h p"
    then obtain p' where p': "h_value v sha u p = (d_value v sha, p')" "memo_ok sha h p'"
      using Cons.prems [of v p] by (auto dest: computesD)
    show "\<exists>p'. run_list (map h_value (v # vs)) sha u p w =
        (w @ concat (map (\<lambda>v. writeBytes [] (d_value v sha)) (v # vs)), p') \<and> memo_ok sha h p'"
      using Cons.IH [of p' "writeBytes w (d_value v sha)"] Cons.prems p'
      by (auto dest!: computesD simp: writeBytes_append [of w])
  qed
qed

lemma computes_run_entries:
  assumes "\<And>k v p. (k, v) \<in> set es \<Longrightarrow> computes sha h p (d_value k sha) (h_value k sha u p)"
    and "\<And>k v p. (k, v) \<in> set es \<Longrightarrow> computes sha h p (d_value v sha) (h_value v sha u p)"
  shows "computes sha h p
           (map (\<lambda>(k, v). sha (writeBytes [] (d_value k sha) @ writeBytes [] (d_value v sha))) es)
           (run_entries (map (map_prod h_value h_value) es) sha u p)"
  using assms
proof (induction es arbitrary: p)
  case Nil
  then show ?case by (simp add: computes_def)
next
  case (Cons e es)
  obtain k v where e: "e = (k, v)" by force
  show ?case
  proof (rule computesI)
    assume "memo_ok sha h p"
    then obtain p1 where p1: "h_value k sha u p = (d_value k sha, p1)" "memo_ok sha h p1"
      using Cons.prems(1) [of k v p] e by (auto dest: computesD)
    then obtain p2 where p2: "h_value v sha u p1 = (d_value v sha, p2)" "memo_ok sha h p2"
      using Cons.prems(2) [of k v p1] e by (auto dest: computesD)
    show "\<exists>p'. run_entries (map (map_prod h_value h_value) (e # es)) sha u p =
        (map (\<lambda>(k, v). sha (writeBytes [] (d_value k sha) @ writeBytes [] (d_value v sha))) (e # es), p')
        \<and> memo_ok sha h p'"
      using computesD [OF Cons.IH p2(2)] Cons.prems p1 p2 e
      by (fastforce simp: writeBytes_append [of "writeBytes [] x" for x])
  qed
qed

lemma computes_run_fields:
  assumes "\<And>n f p w. (n, f) \<in> set fs \<Longrightarrow> computes sha h p (w @ d_field f sha) (h_field f sha u p w)"
  shows "computes sha h p (w @ concat (map (\<lambda>(n, f). varint n @ d_field f sha) fs))
           (run_fields (map (map_prod id h_field) fs) sha u p w)"
  using assms
proof (induction fs arbitrary: p w)
  case Nil
  then show ?case by (simp add: computes_def)
next
  case (Cons e fs)
  obtain n f where e: "e = (n, f)" by force
  show ?case
  proof (rule computesI)
    assume "memo_ok sha h p"
    then obtain p' where p': "h_field f sha u p (writeInt w n) = (writeInt w n @ d_field f sha, p')"
        "memo_ok sha h p'"
      using Cons.prems [of n f p "writeInt w n"] e by (auto dest: computesD)
    show "\<exists>p'. run_fields (map (map_prod id h_field) (e # fs)) sha u p w =
        (w @ concat (map (\<lambda>(n, f). varint n @ d_field f sha) (e # fs)), p') \<and> memo_ok sha h p'"
      using computesD [OF Cons.IH p'(2), of "writeInt w n @ d_field f sha"] Cons.prems p' e
      by (fastforce simp: writeInt_append id_def)
  qed
qed

lemma computes_any:
  assumes "\<And>m p. inner = Some m \<Longrightarrow> computes sha h p (d_message m sha) (h_message m sha (Suc u) p)"
  shows "computes sha h p (d_message (PAny a url val inner) sha)
           (any_digest sha u url val (map_option h_message inner) p)"
proof (rule computesI)
  assume p: "memo_ok sha h p"
  show "\<exists>p'. any_digest sha u url val (map_option h_message inner) p =
      (d_message (PAny a url val inner) sha, p') \<and> memo_ok sha h p'"
  proof (cases inner)
    case None
    then show ?thesis using p by (simp add: any_digest_def writeBytes_append [of "writeBytes [] x" for x])
  next
    case (Some m)
    then show ?thesis using computesD [OF assms [of m p] p] by (auto simp: any_digest_def)
  qed
qed

lemma computes_message:
  "\<And>u p. u = 0 \<longrightarrow> at_value v h \<Longrightarrow> computes sha h p (d_value v sha) (h_value v sha u p)"
  "\<And>u p w. u = 0 \<longrightarrow> at_field f h \<Longrightarrow> computes sha h p (w @ d_field f sha) (h_field f sha u p w)"
  "\<And>u p. u = 0 \<longrightarrow> at_message m h \<Longrightarrow> computes sha h p (d_message m sha) (h_message m sha u p)"
proof (induction v and f and m)
  case (FSingle v)
  show ?case using FSingle.IH [of u p] FSingle.prems
    by (auto simp: computes_def writeBytes_append [of w])
next
  case (FList vs)
  have "computes sha h p (writeInt w (int (length vs)) @ concat (map (\<lambda>v. writeBytes [] (d_value v sha)) vs))
     (run_list (map h_value vs) sha u p (writeInt w (int (length vs))))"
    by (rule computes_run_list) (use FList in auto)
  then show ?case by (simp add: writeInt_append comp_def)
next
  case (FMap es)
  have *: "computes sha h p
           (map (\<lambda>(k, v). sha (writeBytes [] (d_value k sha) @ writeBytes [] (d_value v sha))) es)
           (run_entries (map (map_prod h_value h_value) es) sha u p)"
    by (rule computes_run_entries) (use FMap in fastforce)+
  then show ?case
    by (auto simp: computes_def writeSorted_append [of w] comp_def case_prod_unfold)
next
  case (PMsg a chain fs unknown)
  let ?f = "\<lambda>p. case run_fields (map (map_prod id h_field) fs) sha u p [] of
      (w, p') \<Rightarrow> (sha (writeBytes w unknown), p')"
  have *: "computes sha h p (d_message (PMsg a chain fs unknown) sha) (?f p)" for p
  proof -
    have "computes sha h p ([] @ concat (map (\<lambda>(n, f). varint n @ d_field f sha) fs))
           (run_fields (map (map_prod id h_field) fs) sha u p [])"
      by (rule computes_run_fields) (use PMsg in fastforce)
    then show ?thesis
      by (auto simp: computes_def writeBytes_append [of "concat x" for x] comp_def case_prod_unfold)
  qed
  show ?case
  proof (cases "chain \<and> u = 0")
    case True
    then have "h a = PMsg a chain fs unknown" using PMsg.prems by simp
    then show ?thesis using True computes_get [of sha h a ?f p] * by simp
  next
    case False
    then show ?thesis using * [of p] by (simp only: h_message.simps Let_def if_False)
  qed
next
  case (PAny a url val inner)
  have *: "computes sha h p (d_message (PAny a url val inner) sha)
           (any_digest sha u url val (map_option h_message inner) p)" for p
    by (rule computes_any) (use PAny.IH in auto)
  show ?case
  proof (cases "0 < u")
    case False
    then have "h a = PAny a url val inner" using PAny.prems by simp
    then show ?thesis
      using False computes_get [of sha h a "any_digest sha u url val (map_option h_message inner)" p] *
      by simp
  qed (use * in simp)
qed (simp_all add: computes_def)

lemma at_addr: "at_message m h \<Longrightarrow> h (addr m) = m"
  by (cases m) auto

lemma computes_digests:
  assumes "\<And>r. r \<in> set rs \<Longrightarrow> at_message r h"
  shows "computes sha h p (map (\<lambda>r. d_message r sha) rs) (h_digests sha p rs)"
  using assms
proof (induction rs arbitrary: p)
  case Nil
  then show ?case by (simp add: computes_def)
next
  case (Cons r rs)
  have r: "at_message r h" using Cons.prems by simp
  have "computes sha h p (d_message r sha) (passMemo_get p (addr r) (h_message r sha 0))" for p
    using computes_get [of sha h "addr r" "h_message r sha 0" p] computes_message(3) [of 0 r h sha] r
    by (simp add: at_addr)
  then show ?case
    using Cons by (fastforce simp: computes_def)
qed

lemma computes_types:
  assumes "\<And>k r. r \<in> set (mlist rs k) \<Longrightarrow> at_message r h"
  shows "computes sha h p (w @ concat (map (d_type sha rs) ks)) (h_types sha p w rs ks)"
proof (induction ks arbitrary: p w)
  case Nil
  then show ?case by (simp add: computes_def)
next
  case (Cons k ks)
  show ?case
  proof (rule computesI)
    assume "memo_ok sha h p"
    then obtain p' where p': "h_digests sha p (mlist rs k) = (map (\<lambda>r. d_message r sha) (mlist rs k), p')"
        "memo_ok sha h p'"
      using computesD [OF computes_digests] assms by blast
    let ?w = "w @ d_type sha rs k"
    have "writeUint (writeBytes w k) (length (mlist rs k)) @
        concat (sort (map (\<lambda>r. d_message r sha) (mlist rs k))) = ?w"
      by (simp add: d_type_def writeUint_def writeBytes_append [of w])
    then show "\<exists>p'. h_types sha p w rs (k # ks) = (w @ concat (map (d_type sha rs) (k # ks)), p') \<and> memo_ok sha h p'"
      using computesD [OF Cons.IH [of p' ?w] p'(2)] p'(1) by auto
  qed
qed

lemma computes_resources:
  assumes "\<And>k r. r \<in> set (mlist rs k) \<Longrightarrow> at_message r h"
  shows "computes sha h p (d_resources sha rs) (hasher_resources sha p rs)"
proof (rule computesI)
  assume p: "memo_ok sha h p"
  have "computes sha h p ([] @ concat (map (d_type sha rs) (sort (mkeys rs))))
      (h_types sha p [] rs (sort (mkeys rs)))"
    by (rule computes_types) (rule assms)
  from computesD [OF this p]
  show "\<exists>p'. hasher_resources sha p rs = (d_resources sha rs, p') \<and> memo_ok sha h p'"
    by (auto simp: hasher_resources_def d_resources_def)
qed

text \<open>The passes of a snapshot server: one hash per snapshot, the memo kept from pass to pass.\<close>

fun hash_passes ::
  "(string \<Rightarrow> string) \<Rightarrow> memo \<Rightarrow> (string, pmsg list) gmap list list \<Rightarrow> string list list" where
  "hash_passes sha p [] = []"
| "hash_passes sha p (pass # passes) =
     (let (vs, p') = fold (\<lambda>rs (vs, p). case hasher_resources sha p rs of (v, p') \<Rightarrow> (vs @ [v], p')) pass ([], p)
      in vs # hash_passes sha (passMemo_endPass p') passes)"

lemma computes_pass:
  assumes "memo_ok sha h p"
    and "\<And>rs k r. rs \<in> set pass \<Longrightarrow> r \<in> set (mlist rs k) \<Longrightarrow> at_message r h"
  shows "\<exists>p'. fold (\<lambda>rs (vs, p). case hasher_resources sha p rs of (v, p') \<Rightarrow> (vs @ [v], p')) pass (vs, p)
    = (vs @ map (d_resources sha) pass, p') \<and> memo_ok sha h p'"
  using assms
proof (induction pass arbitrary: vs p)
  case (Cons rs pass)
  then obtain p' where "hasher_resources sha p rs = (d_resources sha rs, p')" "memo_ok sha h p'"
    using computesD [OF computes_resources [of rs h sha p]] by (metis list.set_intros(1))
  then show ?case using Cons.IH [of p' "vs @ [d_resources sha rs]"] Cons.prems(2) by auto
qed simp

lemma hash_passes_pure:
  assumes "memo_ok sha h p"
    and "\<And>pass rs k r. pass \<in> set passes \<Longrightarrow> rs \<in> set pass \<Longrightarrow> r \<in> set (mlist rs k) \<Longrightarrow> at_message r h"
  shows "hash_passes sha p passes = map (map (d_resources sha)) passes"
  using assms
proof (induction passes arbitrary: p)
  case (Cons pass passes)
  obtain p' where p': "fold (\<lambda>rs (vs, p). case hasher_resources sha p rs of (v, p') \<Rightarrow> (vs @ [v], p')) pass ([], p)
      = (map (d_resources sha) pass, p')" "memo_ok sha h p'"
    using computes_pass [OF Cons.prems(1), of pass "[]"] Cons.prems(2) [of pass]
    by (metis append_Nil list.set_intros(1))
  moreover have "hash_passes sha (passMemo_endPass p') passes = map (map (d_resources sha)) passes"
    using Cons.IH [OF memo_ok_endPass [OF p'(2)]] Cons.prems(2) by (metis list.set_intros(2))
  ultimately show ?case by simp
qed simp

section \<open>Equivalent contents\<close>

text \<open>
  Two messages are equivalent when they differ only in addresses, in the order of map entries,
  and in the bytes of Any values that decode to equivalent messages.
\<close>

inductive veq :: "pval \<Rightarrow> pval \<Rightarrow> bool"
  and feq :: "pfield \<Rightarrow> pfield \<Rightarrow> bool"
  and meq :: "pmsg \<Rightarrow> pmsg \<Rightarrow> bool" where
  veq_msg: "meq m m' \<Longrightarrow> veq (VMsg m) (VMsg m')"
| veq_refl: "veq v v"
| feq_single: "veq v v' \<Longrightarrow> feq (FSingle v) (FSingle v')"
| feq_list: "list_all2 veq vs vs' \<Longrightarrow> feq (FList vs) (FList vs')"
| feq_map: "list_all2 (\<lambda>e e'. veq (fst e) (fst e') \<and> veq (snd e) (snd e')) es zs \<Longrightarrow> mset zs = mset es' \<Longrightarrow>
    feq (FMap es) (FMap es')"
| meq_msg: "list_all2 (\<lambda>f f'. fst f = fst f' \<and> feq (snd f) (snd f')) fs fs' \<Longrightarrow>
    meq (PMsg a chain fs unknown) (PMsg a' chain' fs' unknown)"
| meq_any: "meq m m' \<Longrightarrow> meq (PAny a url val (Some m)) (PAny a' url val' (Some m'))"
| meq_raw: "meq (PAny a url val None) (PAny a' url val None)"

lemma map_list_all2: "list_all2 (\<lambda>x y. f x = g y) xs ys \<Longrightarrow> map f xs = map g ys"
  by (induction rule: list_all2_induct) auto

lemma map_eq_comp: "map f xs = map f ys \<Longrightarrow> map (\<lambda>v. g (f v)) xs = map (\<lambda>v. g (f v)) ys"
  by (drule arg_cong [where f = "map g"]) (simp add: comp_def)

lemma writeSorted_mset: "mset ds = mset ds' \<Longrightarrow> writeSorted w ds = writeSorted w ds'"
proof -
  assume m: "mset ds = mset ds'"
  then have "sort ds = sort ds'" by (metis sort_key_eq_sort_key sorted_list_of_multiset_mset)
  then show ?thesis using mset_eq_length [OF m] by (simp add: writeSorted_def)
qed

lemma digest_eq:
  "veq v v' \<Longrightarrow> d_value v sha = d_value v' sha"
  "feq f f' \<Longrightarrow> d_field f sha = d_field f' sha"
  "meq m m' \<Longrightarrow> d_message m sha = d_message m' sha"
proof (induction rule: veq_feq_meq.inducts)
  case (feq_list vs vs')
  then have "map (\<lambda>v. d_value v sha) vs = map (\<lambda>v. d_value v sha) vs'"
    by (intro map_list_all2) (auto elim: list_all2_mono)
  then have "map (\<lambda>v. writeBytes [] (d_value v sha)) vs = map (\<lambda>v. writeBytes [] (d_value v sha)) vs'"
    by (rule map_eq_comp)
  then show ?case using feq_list by (simp add: list_all2_lengthD comp_def)
next
  case (feq_map es zs es')
  let ?e = "\<lambda>e. sha (writeBytes [] (d_value (fst e) sha) @ writeBytes [] (d_value (snd e) sha))"
  have "map ?e es = map ?e zs"
    using feq_map by (intro map_list_all2) (auto elim: list_all2_mono)
  moreover have "mset zs = mset es'" using feq_map by simp
  ultimately have "mset (map ?e es) = mset (map ?e es')" by (simp only: mset_map)
  then show ?case by (simp add: comp_def case_prod_unfold writeSorted_mset)
next
  case (meq_msg fs fs' a chain unknown a' chain')
  have "map (\<lambda>f. varint (fst f) @ d_field (snd f) sha) fs = map (\<lambda>f. varint (fst f) @ d_field (snd f) sha) fs'"
    using meq_msg by (intro map_list_all2) (auto elim: list_all2_mono)
  then show ?case by (simp add: comp_def case_prod_unfold)
qed simp_all

lemma d_type_eq:
  assumes "list_all2 meq (mlist rs k) zs" and "mset zs = mset (mlist rs' k)"
  shows "d_type sha rs k = d_type sha rs' k"
proof -
  have "map (\<lambda>r. d_message r sha) (mlist rs k) = map (\<lambda>r. d_message r sha) zs"
    using assms(1) by (intro map_list_all2) (auto elim!: list_all2_mono simp: digest_eq)
  then have m: "mset (map (\<lambda>r. d_message r sha) (mlist rs k)) = mset (map (\<lambda>r. d_message r sha) (mlist rs' k))"
    using assms(2) by (simp only: mset_map)
  then have "sort (map (\<lambda>r. d_message r sha) (mlist rs k)) = sort (map (\<lambda>r. d_message r sha) (mlist rs' k))"
    by (metis sorted_list_of_multiset_mset)
  moreover have "length (mlist rs k) = length (mlist rs' k)"
    using mset_eq_length [OF m] by simp
  ultimately show ?thesis by (simp add: d_type_def)
qed

lemma sorted_keys_eq:
  "gmap_ok rs \<Longrightarrow> gmap_ok rs' \<Longrightarrow> set (mkeys rs) = set (mkeys rs') \<Longrightarrow> sort (mkeys rs) = sort (mkeys rs')"
  for rs :: "('k::linorder, 'v) gmap" and rs' :: "('k, 'w) gmap"
  by (rule sorted_distinct_set_unique) (simp_all add: gmap_ok_def mkeys_def)

lemma d_resources_eq:
  assumes "gmap_ok rs" and "gmap_ok rs'" and "set (mkeys rs) = set (mkeys rs')"
    and "\<And>k. \<exists>zs. list_all2 meq (mlist rs k) zs \<and> mset zs = mset (mlist rs' k)"
  shows "d_resources sha rs = d_resources sha rs'"
proof -
  have "d_type sha rs = d_type sha rs'" using assms(4) d_type_eq by blast
  then show ?thesis using sorted_keys_eq [OF assms(1-3)] by (simp add: d_resources_def)
qed

section \<open>Different contents\<close>

lemma uvarint_inj: "uvarint n @ x = uvarint m @ y \<Longrightarrow> n = m \<and> x = y"
proof (induction n arbitrary: m rule: uvarint.induct)
  case (1 n)
  have low: "take_bit 8 (k mod 128 + 128) = k mod 128 + (128::nat)" "j < 128 \<Longrightarrow> take_bit 8 j = j" for k j :: nat
    by (simp_all add: take_bit_eq_mod)
  show ?case
  proof (cases "n < 128"; cases "m < 128")
    assume "n < 128" "m < 128"
    then show ?thesis using "1.prems"
      by (simp add: uvarint.simps [of n] uvarint.simps [of m] char_of_eq_iff low)
  next
    assume "n < 128" "\<not> m < 128"
    then show ?thesis using "1.prems"
      by (simp add: uvarint.simps [of n] uvarint.simps [of m] char_of_eq_iff low)
  next
    assume "\<not> n < 128" "m < 128"
    then show ?thesis using "1.prems"
      by (simp add: uvarint.simps [of n] uvarint.simps [of m] char_of_eq_iff low)
  next
    assume n: "\<not> n < 128" and m: "\<not> m < 128"
    then have "n mod 128 = m mod 128" "uvarint (n div 128) @ x = uvarint (m div 128) @ y"
      using "1.prems" by (simp_all add: uvarint.simps [of n] uvarint.simps [of m] char_of_eq_iff low)
    then show ?thesis using "1.IH" [OF n] by (metis div_mod_decomp)
  qed
qed

lemma writeBytes_inj: "writeBytes [] b @ x = writeBytes [] c @ y \<Longrightarrow> b = c \<and> x = y"
  unfolding writeBytes_def writeUint_def
  using uvarint_inj [of "length b" "b @ x" "length c" "c @ y"] by auto

lemma concat_digests_inj:
  assumes "concat ds @ x = concat es @ y" and "length ds = length es"
    and "\<forall>d\<in>set ds \<union> set es. length d = k"
  shows "ds = es \<and> x = y"
proof -
  have "length (concat ds) = length (concat es)"
    using assms length_concat_const [of ds id k] length_concat_const [of es id k] by simp
  then have c: "concat ds = concat es" "x = y" using assms(1) by auto
  have "\<forall>(d, e)\<in>set (zip ds es). length d = length e"
  proof (intro ballI, clarify)
    fix d e
    assume "(d, e) \<in> set (zip ds es)"
    then have "d \<in> set ds" "e \<in> set es" by (auto dest: set_zip_leftD set_zip_rightD)
    then show "length d = length e" using assms(3) by simp
  qed
  then show ?thesis using c assms(2) concat_injective [OF c(1)] by simp
qed

definition type_digests :: "(string \<Rightarrow> string) \<Rightarrow> (string, pmsg list) gmap \<Rightarrow> string \<Rightarrow> string list" where
  "type_digests sha rs k = sort (map (\<lambda>r. d_message r sha) (mlist rs k))"

text \<open>Every digest is one value of the hash function.\<close>

lemma d_message_range: "\<exists>x. d_message m sha = sha x"
  by (cases m) (auto split: option.split)

lemma length_digest: "(\<And>x. length (sha x) = 32) \<Longrightarrow> length (d_message m sha) = 32"
  using d_message_range [of m sha] by auto

lemma d_type_inj:
  assumes "\<And>x. length (sha x) = 32" and "d_type sha rs k @ x = d_type sha rs' k' @ y"
  shows "k = k' \<and> type_digests sha rs k = type_digests sha rs' k' \<and> x = y"
proof -
  let ?n = "length (mlist rs k)" and ?n' = "length (mlist rs' k')"
  have e: "writeBytes [] k @ uvarint ?n @ concat (type_digests sha rs k) @ x =
      writeBytes [] k' @ uvarint ?n' @ concat (type_digests sha rs' k') @ y"
    using assms(2) by (simp add: d_type_def type_digests_def)
  from writeBytes_inj [OF e] have k: "k = k'"
    and e2: "uvarint ?n @ concat (type_digests sha rs k) @ x = uvarint ?n' @ concat (type_digests sha rs' k') @ y"
    by blast+
  from uvarint_inj [OF e2] have n: "?n = ?n'"
    and c: "concat (type_digests sha rs k) @ x = concat (type_digests sha rs' k') @ y"
    by simp_all
  have l: "\<forall>d\<in>set (type_digests sha rs k) \<union> set (type_digests sha rs' k'). length d = 32"
    by (auto simp: type_digests_def assms(1) length_digest)
  have "length (type_digests sha rs k) = length (type_digests sha rs' k')"
    using n by (simp add: type_digests_def)
  then show ?thesis using concat_digests_inj [OF c _ l] k by simp
qed

lemma d_type_not_Nil: "d_type sha rs k \<noteq> []"
  by (simp add: d_type_def writeBytes_def writeUint_def uvarint.simps [of "length k"])

lemma d_types_inj:
  assumes "\<And>x. length (sha x) = 32"
    and "concat (map (d_type sha rs) ks) = concat (map (d_type sha rs') ks')"
  shows "ks = ks' \<and> (\<forall>k\<in>set ks. type_digests sha rs k = type_digests sha rs' k)"
  using assms(2)
proof (induction ks arbitrary: ks')
  case Nil
  then show ?case by (cases ks') (simp_all add: d_type_not_Nil)
next
  case (Cons k ks)
  then obtain k' ks2 where ks': "ks' = k' # ks2" by (cases ks') (simp_all add: d_type_not_Nil)
  have "d_type sha rs k @ concat (map (d_type sha rs) ks) = d_type sha rs' k' @ concat (map (d_type sha rs') ks2)"
    using Cons.prems ks' by simp
  from d_type_inj [OF assms(1) this] show ?case using Cons.IH [of ks2] ks' by auto
qed

text \<open>The bytes a version is the hash of.\<close>

definition version_preimage :: "(string \<Rightarrow> string) \<Rightarrow> (string, pmsg list) gmap \<Rightarrow> string" where
  "version_preimage sha rs = concat (map (d_type sha rs) (sort (mkeys rs)))"

lemma d_resources_inj:
  assumes "\<And>x. length (sha x) = 32"
    and "inj_on sha {version_preimage sha rs, version_preimage sha rs'}"
    and "d_resources sha rs = d_resources sha rs'"
  shows "mset (mkeys rs) = mset (mkeys rs') \<and>
    (\<forall>k. mset (map (\<lambda>r. d_message r sha) (mlist rs k)) = mset (map (\<lambda>r. d_message r sha) (mlist rs' k)))"
proof -
  have "sha (version_preimage sha rs) = sha (version_preimage sha rs')"
    using assms(3) unfolding d_resources_def version_preimage_def by (rule hex_encode_inj)
  then have "version_preimage sha rs = version_preimage sha rs'"
    by (rule inj_onD [OF assms(2)]) simp_all
  then have *: "sort (mkeys rs) = sort (mkeys rs')"
      "\<forall>k\<in>set (mkeys rs). type_digests sha rs k = type_digests sha rs' k"
    using d_types_inj [where sha = sha and rs = rs and ks = "sort (mkeys rs)" and rs' = rs' and
      ks' = "sort (mkeys rs')", OF assms(1)]
    unfolding version_preimage_def set_sort by blast+
  have keys: "mset (mkeys rs) = mset (mkeys rs')" using arg_cong [OF *(1), of mset] by simp
  have "mset (map (\<lambda>r. d_message r sha) (mlist rs k)) = mset (map (\<lambda>r. d_message r sha) (mlist rs' k))" for k
  proof (cases "k \<in> set (mkeys rs)")
    case True
    then have "mset (type_digests sha rs k) = mset (type_digests sha rs' k)" using *(2) by simp
    then show ?thesis by (simp only: type_digests_def mset_sort)
  next
    case False
    then have "k \<notin> set (mkeys rs')" using mset_eq_setD [OF keys] by blast
    then have "mget rs k = None" "mget rs' k = None"
      using False by (simp_all add: mkeys_def mget_def map_of_eq_None_iff)
    then show ?thesis by (simp add: mlist_def)
  qed
  then show ?thesis using keys by blast
qed

section \<open>The version of a snapshot\<close>

lemma GetHash_pure:
  "(\<And>k r. r \<in> set (mlist rs k) \<Longrightarrow> at_message r h) \<Longrightarrow> GetHash rs = d_resources sha256 rs"
  using computesD [OF computes_resources [of rs h sha256 empty_memo]] by (auto simp: GetHash_def)

text \<open>Versions computed with the memo kept across snapshot passes are the versions a fresh
  hasher gives, for any sequence of passes, as long as an address always holds the same message.\<close>

theorem versions_memo_transparent:
  assumes "\<And>pass rs k r. pass \<in> set passes \<Longrightarrow> rs \<in> set pass \<Longrightarrow> r \<in> set (mlist rs k) \<Longrightarrow> at_message r h"
  shows "hash_passes sha256 empty_memo passes = map (map GetHash) passes"
proof -
  have "GetHash rs = d_resources sha256 rs" if "pass \<in> set passes" "rs \<in> set pass" for pass rs
    by (rule GetHash_pure) (use assms that in blast)
  then have "map (map GetHash) passes = map (map (d_resources sha256)) passes" by simp
  then show ?thesis
    using hash_passes_pure [where sha = sha256 and h = h and p = empty_memo and passes = passes, OF memo_ok_empty]
      assms by simp
qed

definition sample_chain :: pmsg where
  "sample_chain = PMsg 1 True [(7, FSingle (VStr ''web''))] []"

definition sample_any :: "nat \<Rightarrow> string \<Rightarrow> (pval \<times> pval) list \<Rightarrow> pmsg" where
  "sample_any a raw es = PAny a ''t/M'' raw (Some (PMsg 9 False [(1, FMap es)] []))"

definition sample_listener :: pmsg where
  "sample_listener = PMsg 3 False [(1, FSingle (VStr ''l'')), (3, FList [VMsg sample_chain, VMsg sample_chain])] []"

lemma versions_memo_transparent_witness:
  "hash_passes sha256 empty_memo
     [[[(''l'', [sample_listener, sample_any 2 ''raw'' []])], [(''l'', [sample_listener])]], [[(''l'', [sample_listener])]]] =
   map (map GetHash)
     [[[(''l'', [sample_listener, sample_any 2 ''raw'' []])], [(''l'', [sample_listener])]], [[(''l'', [sample_listener])]]]"
  by (rule versions_memo_transparent
      [where h = "\<lambda>a. if a = 1 then sample_chain else if a = 2 then sample_any 2 ''raw'' [] else sample_listener"])
    (auto simp: sample_chain_def sample_any_def sample_listener_def mlist_def mget_def split: if_splits)

text \<open>A version ignores the order of the resource types, of the resources of a type and of map
  entries at any depth, and how an Any value happened to be serialised.\<close>

theorem GetHash_order_insensitive:
  assumes "gmap_ok rs" and "gmap_ok rs'" and "set (mkeys rs) = set (mkeys rs')"
    and "\<And>k. \<exists>zs. list_all2 meq (mlist rs k) zs \<and> mset zs = mset (mlist rs' k)"
    and "\<And>k r. r \<in> set (mlist rs k) \<Longrightarrow> at_message r h"
    and "\<And>k r. r \<in> set (mlist rs' k) \<Longrightarrow> at_message r h'"
  shows "GetHash rs = GetHash rs'"
  using d_resources_eq [OF assms(1-4)] GetHash_pure [OF assms(5)] GetHash_pure [OF assms(6)] by simp

lemma sample_any_meq:
  "meq (sample_any a raw [(VStr ''x'', VUint 1), (VStr ''y'', VUint 2)])
       (sample_any a' raw' [(VStr ''y'', VUint 2), (VStr ''x'', VUint 1)])"
  unfolding sample_any_def
  by (intro meq_any meq_msg) (auto intro!: feq_map [where zs = "[(VStr ''x'', VUint 1), (VStr ''y'', VUint 2)]"] veq_refl)

lemma meq_refl_PMsg: "list_all (\<lambda>f. feq (snd f) (snd f)) fs \<Longrightarrow> meq (PMsg a c fs u) (PMsg a' c' fs u)"
  by (intro meq_msg) (simp add: list_all2_same list_all_iff)

lemma sample_chain_meq: "meq sample_chain sample_chain"
  unfolding sample_chain_def by (rule meq_refl_PMsg) (simp add: feq_single veq_refl)

lemma GetHash_order_insensitive_witness:
  "GetHash [(''a'', [sample_chain, sample_any 2 ''p'' [(VStr ''x'', VUint 1), (VStr ''y'', VUint 2)]]), (''b'', [])] =
   GetHash [(''b'', []), (''a'', [sample_any 5 ''q'' [(VStr ''y'', VUint 2), (VStr ''x'', VUint 1)], sample_chain])]"
  (is "GetHash ?a = GetHash ?b")
proof (rule GetHash_order_insensitive
    [where h = "\<lambda>a. if a = 1 then sample_chain else sample_any 2 ''p'' [(VStr ''x'', VUint 1), (VStr ''y'', VUint 2)]"
      and h' = "\<lambda>a. if a = 1 then sample_chain else sample_any 5 ''q'' [(VStr ''y'', VUint 2), (VStr ''x'', VUint 1)]"])
  fix k
  show "\<exists>zs. list_all2 meq (mlist ?a k) zs \<and> mset zs = mset (mlist ?b k)"
    by (rule exI [where x = "if k = ''a'' then [sample_chain, sample_any 5 ''q'' [(VStr ''y'', VUint 2), (VStr ''x'', VUint 1)]] else []"])
      (auto simp: mlist_def mget_def sample_any_meq sample_chain_meq)
qed (auto simp: gmap_ok_def mkeys_def mlist_def mget_def sample_chain_def sample_any_def split: if_splits)

text \<open>C39. Equal versions mean equal contents: the same resource types, and under each type the same
  multiset of resource digests, unless SHA-256 collides on the two hashed byte strings.\<close>

theorem GetHash_separates:
  assumes "GetHash rs = GetHash rs'"
    and "inj_on sha256 {version_preimage sha256 rs, version_preimage sha256 rs'}"
    and "\<And>k r. r \<in> set (mlist rs k) \<Longrightarrow> at_message r h"
    and "\<And>k r. r \<in> set (mlist rs' k) \<Longrightarrow> at_message r h'"
  shows "mset (mkeys rs) = mset (mkeys rs') \<and>
    (\<forall>k. mset (map (\<lambda>r. d_message r sha256) (mlist rs k)) = mset (map (\<lambda>r. d_message r sha256) (mlist rs' k)))"
proof (rule d_resources_inj)
  show "d_resources sha256 rs = d_resources sha256 rs'"
    using assms(1) GetHash_pure [OF assms(3)] GetHash_pure [OF assms(4)] by simp
qed (simp, rule assms(2))

lemma sample_swap:
  "version_preimage sha [(''a'', [sample_chain]), (''b'', [])] = version_preimage sha [(''b'', []), (''a'', [sample_chain])]"
  "d_resources sha [(''a'', [sample_chain]), (''b'', [])] = d_resources sha [(''b'', []), (''a'', [sample_chain])]"
  by (simp_all add: version_preimage_def d_resources_def mkeys_def d_type_def mlist_def mget_def less_list_code)

lemma GetHash_separates_witness:
  "mset (mkeys [(''a'', [sample_chain]), (''b'', [])]) = mset (mkeys [(''b'', []), (''a'', [sample_chain])])"
proof -
  have at: "r \<in> set (mlist [(''a'', [sample_chain]), (''b'', [])] k) \<Longrightarrow> at_message r (\<lambda>a. sample_chain)"
    "r \<in> set (mlist [(''b'', []), (''a'', [sample_chain])] k) \<Longrightarrow> at_message r (\<lambda>a. sample_chain)" for r k
    by (auto simp: mlist_def mget_def sample_chain_def split: if_splits)
  have "GetHash [(''a'', [sample_chain]), (''b'', [])] = GetHash [(''b'', []), (''a'', [sample_chain])]"
    using GetHash_pure [OF at(1)] GetHash_pure [OF at(2)] sample_swap(2) [of sha256] by simp
  from GetHash_separates [OF this _ at] show ?thesis by (simp add: sample_swap(1))
qed

end
