(* ===== verification/Snapshot.thy ===== *)
theory Snapshot
  imports Config HashFacts
begin

text \<open>
  Snapshot generation, \<open>src/pkg/xds/xds.go\<close>: the configured resources are collected per node,
  routes no listener of the node references are dropped, and every node gets a versioned snapshot
  with the result of its consistency check. The go-control-plane library is an argument
  (\<open>api\<close>): its type URLs, resource names, HTTP connection manager decoding, snapshot
  construction and lookup, reference extraction and protobuf reflection.
\<close>

section \<open>The library\<close>

record 'snap api =
  SecretType :: string
  ListenerType :: string
  ClusterType :: string
  RouteType :: string
  EndpointType :: string
  GetResourceName :: "Resource \<Rightarrow> string"
  GetHTTPConnectionManager :: "Filter \<Rightarrow> HttpConnectionManager option"
  NewSnapshot :: "string \<Rightarrow> (string, Resource list) gmap \<Rightarrow> string + 'snap"
  GetResources :: "'snap \<Rightarrow> string \<Rightarrow> (string, Resource) gmap"
  GetResourceReferences :: "(string, Resource) gmap \<Rightarrow> string \<Rightarrow> string list"
  ProtoReflect :: "Resource \<Rightarrow> pmsg"

type_synonym node_resources = "(string, Resource list) gmap"
type_synonym resources = "(string, node_resources) gmap"

section \<open>Collecting resources\<close>

definition getNodes :: "NodeInfo \<Rightarrow> Config \<Rightarrow> string list" where
  "getNodes nodeInfo x = (if Nodes nodeInfo = [] then [NodeID x] else Nodes nodeInfo)"

definition targetNodes :: "string \<Rightarrow> Config \<Rightarrow> string list" where
  "targetNodes s x =
     (case GetNodeInfo s of
        None \<Rightarrow> []
      | Some nodeInfo \<Rightarrow>
          if Clusters nodeInfo = [] \<and> Nodes nodeInfo = []
          then [GetNodeID [(''nodes'', NodeID x), (''clusters'', ClusterName x)]]
          else concat (map (\<lambda>c. map (\<lambda>n. GetNodeID [(''nodes'', n), (''clusters'', c)]) (getNodes nodeInfo x))
                 (Clusters nodeInfo)))"

definition node_entry :: "resources \<Rightarrow> string \<Rightarrow> node_resources" where
  "node_entry resources nodeID = (case mget resources nodeID of None \<Rightarrow> [] | Some m \<Rightarrow> m)"

definition add_to_node :: "Resource \<Rightarrow> string \<Rightarrow> resources \<Rightarrow> string \<Rightarrow> resources" where
  "add_to_node res resType resources nodeID =
     (let m = node_entry resources nodeID
      in mset_at nodeID (mset_at resType (mlist m resType @ [res]) m) resources)"

definition addResource :: "string list \<Rightarrow> Resource \<Rightarrow> string \<Rightarrow> resources \<Rightarrow> resources" where
  "addResource targets res resType resources = foldl (add_to_node res resType) resources targets"

text \<open>The loop every collecting function has: map entries, then the resources of an entry.\<close>

definition collect ::
  "Config \<Rightarrow> string \<Rightarrow> (string, Resource list) gmap \<Rightarrow> resources \<Rightarrow> resources" where
  "collect x resType entries resources =
     foldl (\<lambda>resources (s, v). foldl (\<lambda>resources res. addResource (targetNodes s x) res resType resources) resources v)
       resources entries"

definition getResourcesFromSecretConfigs :: "'snap api \<Rightarrow> Config \<Rightarrow> resources \<Rightarrow> resources" where
  "getResourcesFromSecretConfigs api x =
     collect x (SecretType api) (map (\<lambda>(s, v). (s, map RSecret v)) (SecretConfigs x))"

definition getResourcesFromListenerConfigs :: "'snap api \<Rightarrow> Config \<Rightarrow> resources \<Rightarrow> resources" where
  "getResourcesFromListenerConfigs api x =
     collect x (ListenerType api) (map (\<lambda>(s, v). (s, map RListener v)) (ListenerConfigs x))"

definition getResourcesFromClusterConfigs :: "'snap api \<Rightarrow> Config \<Rightarrow> resources \<Rightarrow> resources" where
  "getResourcesFromClusterConfigs api x =
     collect x (ClusterType api) (map (\<lambda>(s, v). (s, map RCluster v)) (ClusterConfigs x))"

definition getResourcesFromRouteConfigs :: "'snap api \<Rightarrow> Config \<Rightarrow> resources \<Rightarrow> resources" where
  "getResourcesFromRouteConfigs api x =
     collect x (RouteType api) (map (\<lambda>(s, v). (s, map (\<lambda>rc. RRoute (rc_RouteConfiguration rc)) v)) (RouteConfigs x))"

definition eds_name :: "Cluster \<Rightarrow> string" where
  "eds_name c =
     (case cl_EdsClusterConfig c of
        Some e \<Rightarrow> if eds_ServiceName e \<noteq> [] then eds_ServiceName e else cl_Name c
      | None \<Rightarrow> cl_Name c)"

definition edsEndpointNames :: "Config \<Rightarrow> string list" where
  "edsEndpointNames x =
     concat (map (\<lambda>(s, clusters). map eds_name (filter (\<lambda>c. cl_Type c = EDS) clusters)) (ClusterConfigs x))"

definition getResourcesFromEndpointConfigs :: "'snap api \<Rightarrow> Config \<Rightarrow> resources \<Rightarrow> resources" where
  "getResourcesFromEndpointConfigs api x =
     collect x (EndpointType api)
       (map (\<lambda>(s, v). (s, map REndpoint (filter (\<lambda>e. cla_ClusterName e \<in> set (edsEndpointNames x)) v)))
         (EndpointConfigs x))"

section \<open>Route references\<close>

definition hcm_routes :: "HttpConnectionManager option \<Rightarrow> string list" where
  "hcm_routes h =
     (case h of
        None \<Rightarrow> []
      | Some h \<Rightarrow> (if hm_RdsName h \<noteq> [] then [hm_RdsName h] else []) @ hm_ScopedRoutes h)"

type_synonym refs_state = "string list \<times> string list passMemo"

text \<open>The set of names is a list in order of insertion; inserting a member again changes nothing.\<close>

definition add_used :: "string \<Rightarrow> string list \<Rightarrow> string list" where
  "add_used name used = (if name \<in> set used then used else used @ [name])"

definition add_filter :: "'snap api \<Rightarrow> refs_state \<Rightarrow> Filter \<Rightarrow> refs_state" where
  "add_filter api st f =
     (case ef_TypedConfig f of
        None \<Rightarrow> st
      | Some tc \<Rightarrow>
          (case passMemo_get (snd st) (an_addr tc) (\<lambda>p. (hcm_routes (GetHTTPConnectionManager api f), p)) of
             (names, memo) \<Rightarrow> (foldl (\<lambda>used name. add_used name used) (fst st) names, memo)))"

definition add_chain :: "'snap api \<Rightarrow> refs_state \<Rightarrow> FilterChain \<Rightarrow> refs_state" where
  "add_chain api st fc = foldl (add_filter api) st (ec_Filters fc)"

definition add_listener :: "'snap api \<Rightarrow> refs_state \<Rightarrow> Resource \<Rightarrow> refs_state" where
  "add_listener api st r =
     (case r of
        RListener l \<Rightarrow>
          (let st = foldl (add_chain api) st (el_FilterChains l) in
           case el_DefaultFilterChain l of None \<Rightarrow> st | Some fc \<Rightarrow> add_chain api st fc)
      | _ \<Rightarrow> st)"

definition routeReferences :: "'snap api \<Rightarrow> Resource list \<Rightarrow> string list passMemo \<Rightarrow> refs_state" where
  "routeReferences api listeners memo = foldl (add_listener api) ([], memo) listeners"

definition pruneUnreferencedRoutes :: "'snap api \<Rightarrow> node_resources \<Rightarrow> string list \<Rightarrow> node_resources" where
  "pruneUnreferencedRoutes api res used =
     mset_at (RouteType api) (filter (\<lambda>r. GetResourceName api r \<in> set used) (mlist res (RouteType api))) res"

section \<open>Consistency\<close>

datatype inconsistency = LengthMismatch string | NotListed string string

fun first_unlisted :: "string \<Rightarrow> string list \<Rightarrow> string list \<Rightarrow> inconsistency option" where
  "first_unlisted typ names [] = None"
| "first_unlisted typ names (n # ns) =
     (if n \<notin> set names then Some (NotListed typ n) else first_unlisted typ names ns)"

definition check_refs :: "string \<Rightarrow> string list \<Rightarrow> (string, Resource) gmap \<Rightarrow> inconsistency option" where
  "check_refs typ names items =
     (if length (remdups names) \<noteq> length items then Some (LengthMismatch typ)
      else first_unlisted typ names (mkeys items))"

definition consistent :: "'snap api \<Rightarrow> 'snap \<Rightarrow> string list \<Rightarrow> inconsistency option" where
  "consistent api snap routes =
     (case check_refs (EndpointType api)
             (GetResourceReferences api (GetResources api snap (ClusterType api)) (EndpointType api))
             (GetResources api snap (EndpointType api)) of
        Some e \<Rightarrow> Some e
      | None \<Rightarrow> check_refs (RouteType api) routes (GetResources api snap (RouteType api)))"

section \<open>Generation\<close>

record 'snap SnapshotConfig =
  sc_NodeID :: string
  sc_Version :: string
  sc_Snapshot :: 'snap
  sc_Inconsistent :: "inconsistency option"

datatype snapshot_error = CreateFailed string string

definition collect_resources :: "'snap api \<Rightarrow> Config \<Rightarrow> resources" where
  "collect_resources api x =
     getResourcesFromEndpointConfigs api x
      (getResourcesFromRouteConfigs api x
       (getResourcesFromClusterConfigs api x
        (getResourcesFromListenerConfigs api x
         (getResourcesFromSecretConfigs api x []))))"

definition reflect :: "'snap api \<Rightarrow> node_resources \<Rightarrow> (string, pmsg list) gmap" where
  "reflect api res = map (\<lambda>(k, rs). (k, map (ProtoReflect api) rs)) res"

definition generate_node ::
  "'snap api \<Rightarrow> string \<Rightarrow> node_resources \<Rightarrow> snapshotMemo \<Rightarrow> (snapshot_error + 'snap SnapshotConfig) \<times> snapshotMemo" where
  "generate_node api nodeID res memo =
     (case routeReferences api (mlist res (ListenerType api)) (sm_routes memo) of (used, routes) \<Rightarrow>
      let res = pruneUnreferencedRoutes api res used in
      case hasher_resources sha256 (sm_hashes memo) (reflect api res) of (version, hashes) \<Rightarrow>
      let memo = memo\<lparr>sm_hashes := hashes, sm_routes := routes\<rparr> in
      case NewSnapshot api version res of
        Inl e \<Rightarrow> (Inl (CreateFailed nodeID e), memo)
      | Inr snap \<Rightarrow>
          (Inr \<lparr>sc_NodeID = nodeID, sc_Version = version, sc_Snapshot = snap,
                sc_Inconsistent = consistent api snap used\<rparr>, memo))"

fun generate_nodes ::
  "'snap api \<Rightarrow> resources \<Rightarrow> snapshotMemo \<Rightarrow> (snapshot_error + 'snap SnapshotConfig list) \<times> snapshotMemo" where
  "generate_nodes api [] memo = (Inr [], memo)"
| "generate_nodes api ((nodeID, res) # rest) memo =
     (case generate_node api nodeID res memo of
        (Inl e, memo) \<Rightarrow> (Inl e, memo)
      | (Inr sc, memo) \<Rightarrow>
          (case generate_nodes api rest memo of
             (Inl e, memo) \<Rightarrow> (Inl e, memo)
           | (Inr scs, memo) \<Rightarrow> (Inr (sc # scs), memo)))"

definition GenerateSnapshotsV2 ::
  "'snap api \<Rightarrow> Config \<Rightarrow> (snapshot_error + 'snap SnapshotConfig list) \<times> Config" where
  "GenerateSnapshotsV2 api x =
     (case generate_nodes api (collect_resources api x) (memo_of x) of
        (r, memo) \<Rightarrow> (r, x\<lparr>memo_of := snapshotMemo_endPass memo\<rparr>))"

end
