(* ===== verification/Metrics.thy ===== *)
theory Metrics
  imports Prelude
begin

text \<open>
  Stream and snapshot bookkeeping, \<open>src/pkg/xds/xdsMetrics.go\<close>. A prometheus vector is a map
  from label values to numbers; the certificate gauge is not modelled.
\<close>

record Stream =
  st_Node :: string
  st_Cluster :: string
  EnvoyVersion :: string
  SnapshotClientVersion :: string
  SnapshotServerVersion :: string

definition empty_Stream :: Stream where
  "empty_Stream = \<lparr>st_Node = [], st_Cluster = [], EnvoyVersion = [],
     SnapshotClientVersion = [], SnapshotServerVersion = []\<rparr>"

record CurrentServerSnapshot =
  ss_Node :: string
  ss_Cluster :: string
  ss_SnapshotVersion :: string

record Metrics =
  Streams :: "(int, Stream) gmap"
  Snapshots :: "CurrentServerSnapshot list"
  SnapshotVersionMatch :: "(string \<times> string, nat) gmap"
  SnapshotUpdateCounter :: "(string \<times> string, nat) gmap"
  EnvoyStreamActive :: "(string \<times> string \<times> string \<times> string, nat) gmap"
  ResourceCount :: "(string \<times> string \<times> string, nat) gmap"
  ErrorCounter :: "(string, nat) gmap"
  ConfigErrorCount :: "(string \<times> string \<times> string, nat) gmap"

definition no_Metrics :: Metrics where
  "no_Metrics = \<lparr>Streams = [], Snapshots = [], SnapshotVersionMatch = [], SnapshotUpdateCounter = [],
     EnvoyStreamActive = [], ResourceCount = [], ErrorCounter = [], ConfigErrorCount = []\<rparr>"

definition inc :: "'k \<Rightarrow> ('k, nat) gmap \<Rightarrow> ('k, nat) gmap" where
  "inc k m = mset_at k (Suc (case mget m k of None \<Rightarrow> 0 | Some n \<Rightarrow> n)) m"

text \<open>Reading a vector with new labels creates the counter at 0.\<close>

definition touch :: "'k \<Rightarrow> ('k, nat) gmap \<Rightarrow> ('k, nat) gmap" where
  "touch k m = mset_at k (case mget m k of None \<Rightarrow> 0 | Some n \<Rightarrow> n) m"

definition RecordEnvoyStreamActive :: "string \<Rightarrow> string \<Rightarrow> string \<Rightarrow> string \<Rightarrow> Metrics \<Rightarrow> Metrics" where
  "RecordEnvoyStreamActive sid cluster node version m =
     m\<lparr>EnvoyStreamActive := touch (sid, cluster, node, version) (EnvoyStreamActive m)\<rparr>"

text \<open>The first stream of the cluster and node decides, in the order the range visits the map.\<close>

fun version_match :: "Stream list \<Rightarrow> string \<Rightarrow> string \<Rightarrow> bool" where
  "version_match [] cluster node = False"
| "version_match (s # ss) cluster node =
     (if st_Cluster s = cluster \<and> st_Node s = node then
        (if SnapshotClientVersion s \<noteq> [] \<and> SnapshotServerVersion s \<noteq> []
         then SnapshotClientVersion s = SnapshotServerVersion s else False)
      else version_match ss cluster node)"

definition VersionMatch :: "string \<Rightarrow> string \<Rightarrow> Metrics \<Rightarrow> bool" where
  "VersionMatch cluster node m = version_match (map snd (Streams m)) cluster node"

definition RecordSnapshotVersionMatchSet :: "string \<Rightarrow> string \<Rightarrow> Metrics \<Rightarrow> Metrics" where
  "RecordSnapshotVersionMatchSet cluster node m =
     (if VersionMatch cluster node m
      then m\<lparr>SnapshotVersionMatch := mset_at (cluster, node) 1 (SnapshotVersionMatch m)\<rparr>
      else m\<lparr>SnapshotVersionMatch := mset_at (cluster, node) 0 (SnapshotVersionMatch m)\<rparr>)"

definition RecordSnapshotUpdateCount :: "string \<Rightarrow> string \<Rightarrow> Metrics \<Rightarrow> Metrics" where
  "RecordSnapshotUpdateCount cluster node m =
     m\<lparr>SnapshotUpdateCounter := inc (cluster, node) (SnapshotUpdateCounter m)\<rparr>"

definition RecordResourceCount :: "string \<Rightarrow> string \<Rightarrow> string \<Rightarrow> nat \<Rightarrow> Metrics \<Rightarrow> Metrics" where
  "RecordResourceCount resourceType cluster node n m =
     m\<lparr>ResourceCount := mset_at (resourceType, cluster, node) n (ResourceCount m)\<rparr>"

definition RecordError :: "string \<Rightarrow> Metrics \<Rightarrow> Metrics" where
  "RecordError resourceType m = m\<lparr>ErrorCounter := inc resourceType (ErrorCounter m)\<rparr>"

definition RecordConfigError :: "string \<Rightarrow> string \<Rightarrow> string \<Rightarrow> Metrics \<Rightarrow> Metrics" where
  "RecordConfigError name resourceType err m =
     RecordError resourceType
       (m\<lparr>ConfigErrorCount := inc (name, resourceType, err) (ConfigErrorCount m)\<rparr>)"

definition SetSnapshotClientVersion :: "string \<Rightarrow> string \<Rightarrow> string \<Rightarrow> Metrics \<Rightarrow> Metrics" where
  "SetSnapshotClientVersion node cluster version m =
     m\<lparr>Streams := map (\<lambda>(id, s). (id,
        if st_Node s = node \<and> st_Cluster s = cluster then s\<lparr>SnapshotClientVersion := version\<rparr> else s)) (Streams m)\<rparr>"

definition SetSnapshotServerVersion :: "string \<Rightarrow> string \<Rightarrow> string \<Rightarrow> Metrics \<Rightarrow> Metrics" where
  "SetSnapshotServerVersion node cluster version m =
     m\<lparr>Streams := map (\<lambda>(id, s). (id,
        if st_Node s = node \<and> st_Cluster s = cluster then s\<lparr>SnapshotServerVersion := version\<rparr> else s)) (Streams m)\<rparr>"

definition CleanSnapshots :: "Metrics \<Rightarrow> Metrics" where
  "CleanSnapshots m = m\<lparr>Snapshots := []\<rparr>"

fun add_snapshot :: "string \<Rightarrow> string \<Rightarrow> string \<Rightarrow> CurrentServerSnapshot list \<Rightarrow> CurrentServerSnapshot list" where
  "add_snapshot node cluster version [] =
     [\<lparr>ss_Node = node, ss_Cluster = cluster, ss_SnapshotVersion = version\<rparr>]"
| "add_snapshot node cluster version (s # ss) =
     (if ss_Node s = node \<and> ss_Cluster s = cluster then s\<lparr>ss_SnapshotVersion := version\<rparr> # ss
      else s # add_snapshot node cluster version ss)"

definition AddSnapshot :: "string \<Rightarrow> string \<Rightarrow> string \<Rightarrow> Metrics \<Rightarrow> Metrics" where
  "AddSnapshot node cluster version m = m\<lparr>Snapshots := add_snapshot node cluster version (Snapshots m)\<rparr>"

definition GetSnapshots :: "Metrics \<Rightarrow> CurrentServerSnapshot list" where
  "GetSnapshots m = Snapshots m"

section \<open>Facts\<close>

text \<open>The versions of the server snapshots, as a map of node and cluster.\<close>

definition server_version :: "Metrics \<Rightarrow> string \<times> string \<Rightarrow> string option" where
  "server_version m nc =
     map_of (map (\<lambda>s. ((ss_Node s, ss_Cluster s), ss_SnapshotVersion s)) (Snapshots m)) nc"

lemma add_snapshot_map:
  "map_of (map (\<lambda>s. ((ss_Node s, ss_Cluster s), ss_SnapshotVersion s)) (add_snapshot n c v ss)) =
   (map_of (map (\<lambda>s. ((ss_Node s, ss_Cluster s), ss_SnapshotVersion s)) ss))((n, c) \<mapsto> v)"
  by (induction ss) (auto simp: fun_eq_iff)

lemma add_snapshot_keys:
  "set (map (\<lambda>s. (ss_Node s, ss_Cluster s)) (add_snapshot n c v ss)) =
     insert (n, c) (set (map (\<lambda>s. (ss_Node s, ss_Cluster s)) ss))"
  by (induction ss) auto

lemma add_snapshot_distinct:
  "distinct (map (\<lambda>s. (ss_Node s, ss_Cluster s)) ss) \<Longrightarrow>
     distinct (map (\<lambda>s. (ss_Node s, ss_Cluster s)) (add_snapshot n c v ss))"
  by (induction ss) (use add_snapshot_keys in \<open>auto simp: image_iff\<close>)

lemma server_version_AddSnapshot [store_simps]:
  "server_version (AddSnapshot n c v m) = (server_version m)((n, c) \<mapsto> v)"
  unfolding server_version_def AddSnapshot_def by (rule ext) (simp add: add_snapshot_map)

text \<open>The verdict is independent of the order of the streams when the streams of one cluster and
  node agree on their versions.\<close>

lemma version_match_iff:
  assumes "\<forall>s\<in>set ss. \<forall>t\<in>set ss. st_Cluster s = c \<and> st_Node s = n \<and> st_Cluster t = c \<and> st_Node t = n \<longrightarrow>
      SnapshotClientVersion s = SnapshotClientVersion t \<and> SnapshotServerVersion s = SnapshotServerVersion t"
  shows "version_match ss c n \<longleftrightarrow>
    (\<exists>s\<in>set ss. st_Cluster s = c \<and> st_Node s = n \<and> SnapshotClientVersion s \<noteq> [] \<and>
       SnapshotServerVersion s = SnapshotClientVersion s)"
  using assms
proof (induction ss)
  case (Cons s ss)
  show ?case
  proof (cases "st_Cluster s = c \<and> st_Node s = n")
    case True
    have same: "SnapshotClientVersion t = SnapshotClientVersion s \<and> SnapshotServerVersion t = SnapshotServerVersion s"
      if "t \<in> set (s # ss)" "st_Cluster t = c" "st_Node t = n" for t
      using Cons.prems [rule_format, OF that(1), of s] True that by simp
    have "version_match (s # ss) c n \<longleftrightarrow>
        SnapshotClientVersion s \<noteq> [] \<and> SnapshotServerVersion s = SnapshotClientVersion s"
      using True by auto
    then show ?thesis using same True by (metis list.set_intros(1))
  next
    case False
    have "version_match ss c n \<longleftrightarrow> (\<exists>s\<in>set ss. st_Cluster s = c \<and> st_Node s = n \<and>
        SnapshotClientVersion s \<noteq> [] \<and> SnapshotServerVersion s = SnapshotClientVersion s)"
      by (rule Cons.IH) (meson Cons.prems list.set_intros(2))
    then show ?thesis using False by auto
  qed
qed simp

end
