(* ===== verification/Serv.thy ===== *)
theory Serv
  imports Snapshot Metrics
begin

text \<open>
  The xDS server, \<open>src/pkg/serv/serv.go\<close> and \<open>src/pkg/serv/callbacks.go\<close>: the tick of the
  snapshot loop, applying snapshots to the cache, and the stream callbacks. The snapshot cache is
  an argument (\<open>set_snapshot\<close>, with its own error result); starting and stopping the gRPC
  server is not modelled. An index out of range and a nil dereference are panics, which end the
  process.
\<close>

section \<open>Snapshot updates\<close>

record ('snap, 'cache) server =
  sv_Config :: Config
  sv_Cache :: 'cache
  sv_Metrics :: Metrics
  snapVersions :: "(string, string) gmap"
  lastProcessedCounter :: u64

datatype serv_error =
    GenerateFailed snapshot_error
  | SetFailed string string
  | InconsistentNodes "(string \<times> inconsistency) list"

text \<open>How a handler ends.\<close>

datatype 's outcome = Done 's | Failed serv_error 's | Panicked

type_synonym ('snap, 'cache) setter = "'cache \<Rightarrow> string \<Rightarrow> 'snap \<Rightarrow> 'cache \<times> string option"

definition isSnapToUpdate ::
  "'snap SnapshotConfig \<Rightarrow> ('snap, 'cache) server \<Rightarrow> bool \<times> ('snap, 'cache) server" where
  "isSnapToUpdate conf s =
     (case mget (snapVersions s) (sc_NodeID conf) of
        Some currentVersion \<Rightarrow>
          if currentVersion \<noteq> sc_Version conf
          then (True, s\<lparr>snapVersions := mset_at (sc_NodeID conf) (sc_Version conf) (snapVersions s)\<rparr>)
          else (False, s)
      | None \<Rightarrow> (True, s\<lparr>snapVersions := mset_at (sc_NodeID conf) (sc_Version conf) (snapVersions s)\<rparr>))"

definition record_counts ::
  "'snap api \<Rightarrow> string \<Rightarrow> string \<Rightarrow> 'snap \<Rightarrow> Metrics \<Rightarrow> Metrics" where
  "record_counts api cluster node snap m =
     RecordResourceCount ''SDS'' cluster node (length (GetResources api snap (SecretType api)))
      (RecordResourceCount ''EDS'' cluster node (length (GetResources api snap (EndpointType api)))
       (RecordResourceCount ''RDS'' cluster node (length (GetResources api snap (RouteType api)))
        (RecordResourceCount ''CDS'' cluster node (length (GetResources api snap (ClusterType api)))
         (RecordResourceCount ''LDS'' cluster node (length (GetResources api snap (ListenerType api)))
          (RecordSnapshotUpdateCount cluster node m)))))"

text \<open>After the cache: the node's snapshot is recorded for the metrics.\<close>

definition finish_node :: "string \<Rightarrow> string \<Rightarrow> string \<Rightarrow> ('snap, 'cache) server \<Rightarrow> ('snap, 'cache) server" where
  "finish_node node cluster version s =
     s\<lparr>sv_Config := (sv_Config s)\<lparr>reconciliationStatus :=
          SetSnapshotGenerated True (reconciliationStatus (sv_Config s))\<rparr>,
       sv_Metrics := AddSnapshot node cluster version (sv_Metrics s)\<rparr>"

fun process_nodes ::
  "'snap api \<Rightarrow> ('snap, 'cache) setter \<Rightarrow> 'snap SnapshotConfig list \<Rightarrow> (string \<times> inconsistency) list
   \<Rightarrow> ('snap, 'cache) server \<Rightarrow> (string \<times> inconsistency) list \<times> ('snap, 'cache) server outcome" where
  "process_nodes api set_snapshot [] inconsistent s = (inconsistent, Done s)"
| "process_nodes api set_snapshot (conf # confs) inconsistent s =
     (case GetNodeInfo (sc_NodeID conf) of
        None \<Rightarrow> process_nodes api set_snapshot confs inconsistent s
      | Some nodeInfo \<Rightarrow>
          (case (Clusters nodeInfo, Nodes nodeInfo) of
             (cluster # _, node # _) \<Rightarrow>
               (case sc_Inconsistent conf of
                  Some e \<Rightarrow> process_nodes api set_snapshot confs (inconsistent @ [(sc_NodeID conf, e)]) s
                | None \<Rightarrow>
                    (case isSnapToUpdate conf s of
                       (True, s) \<Rightarrow>
                         let s = s\<lparr>sv_Metrics := record_counts api cluster node (sc_Snapshot conf) (sv_Metrics s)\<rparr> in
                         (case set_snapshot (sv_Cache s) (sc_NodeID conf) (sc_Snapshot conf) of
                            (cache, Some e) \<Rightarrow> (inconsistent, Failed (SetFailed (sc_NodeID conf) e) (s\<lparr>sv_Cache := cache\<rparr>))
                          | (cache, None) \<Rightarrow>
                              process_nodes api set_snapshot confs inconsistent
                                (finish_node node cluster (sc_Version conf) (s\<lparr>sv_Cache := cache\<rparr>)))
                     | (False, s) \<Rightarrow>
                         process_nodes api set_snapshot confs inconsistent
                           (finish_node node cluster (sc_Version conf) s)))
           | _ \<Rightarrow> (inconsistent, Panicked)))"

definition record_matches :: "Metrics \<Rightarrow> Metrics" where
  "record_matches m =
     foldl (\<lambda>m st. if SnapshotClientVersion st \<noteq> [] \<and> SnapshotServerVersion st \<noteq> []
              then RecordSnapshotVersionMatchSet (st_Cluster st) (st_Node st) m else m)
       m (map snd (Streams m))"

definition processSnapshot ::
  "'snap api \<Rightarrow> ('snap, 'cache) setter \<Rightarrow> ('snap, 'cache) server \<Rightarrow> ('snap, 'cache) server outcome" where
  "processSnapshot api set_snapshot s =
     (case GenerateSnapshotsV2 api (sv_Config s) of
        (Inl e, x) \<Rightarrow> Failed (GenerateFailed e) (s\<lparr>sv_Config := x\<rparr>)
      | (Inr snapshots, x) \<Rightarrow>
          (case process_nodes api set_snapshot snapshots []
                  (s\<lparr>sv_Config := x, sv_Metrics := CleanSnapshots (sv_Metrics s)\<rparr>) of
             (inconsistent, Done s) \<Rightarrow>
               let s = s\<lparr>sv_Metrics := record_matches (sv_Metrics s)\<rparr> in
               if inconsistent = [] then Done s else Failed (InconsistentNodes inconsistent) s
           | (_, r) \<Rightarrow> r))"

section \<open>The loop\<close>

text \<open>
  Controllers run concurrently: \<open>between\<close> is what they do to the configuration after the tick
  has read the counter and before the snapshots are generated.
\<close>

definition error_text :: "serv_error \<Rightarrow> string" where
  "error_text e = (case e of GenerateFailed _ \<Rightarrow> ''failed to generate snapshots''
     | SetFailed n _ \<Rightarrow> ''failed to set snapshot for node '' @ n
     | InconsistentNodes ns \<Rightarrow> concat (map (\<lambda>(n, i). ''node '' @ n) ns))"

definition tick ::
  "'snap api \<Rightarrow> ('snap, 'cache) setter \<Rightarrow> (Config \<Rightarrow> Config) \<Rightarrow> ('snap, 'cache) server \<Rightarrow> ('snap, 'cache) server option" where
  "tick api set_snapshot between s =
     (if \<not> AllReconciled (reconciliationStatus (sv_Config s)) then Some s
      else
        let currentCounter = GetConfigCounter (sv_Config s) in
        if currentCounter = lastProcessedCounter s then Some s
        else
          case processSnapshot api set_snapshot (s\<lparr>sv_Config := between (sv_Config s)\<rparr>) of
            Panicked \<Rightarrow> None
          | Failed e s \<Rightarrow> Some (s\<lparr>sv_Metrics := RecordConfigError ''Snapshot'' ''XDS''
                            (''unable to process snapshot: '' @ error_text e) (sv_Metrics s)\<rparr>)
          | Done s \<Rightarrow> Some (s\<lparr>lastProcessedCounter := currentCounter\<rparr>))"

section \<open>Callbacks\<close>

text \<open>The node of a request; the version is absent when the client sends none.\<close>

record EnvoyNode =
  nd_Id :: string
  nd_Cluster :: string
  nd_BuildVersion :: "(nat \<times> nat \<times> nat) option"

record Callbacks =
  SignalOpen :: bool
  Debug :: bool
  Fetches :: nat
  Requests :: nat
  DeltaRequests :: nat
  DeltaResponses :: nat

function decimal :: "nat \<Rightarrow> string" where
  "decimal n = (if n < 10 then [char_of (n + 48)] else decimal (n div 10) @ [char_of (n mod 10 + 48)])"
  by pat_completeness auto
termination
  by (relation "measure id") auto

declare decimal.simps [simp del]

text \<open>Formatting the version of a client that sends none dereferences nil.\<close>

definition getVersion :: "EnvoyNode \<Rightarrow> string option" where
  "getVersion n =
     (case nd_BuildVersion n of
        None \<Rightarrow> None
      | Some (major, minor, patch) \<Rightarrow>
          Some (''v'' @ decimal major @ ''.'' @ decimal minor @ ''.'' @ decimal patch))"

definition stream_id :: "int \<Rightarrow> string" where
  "stream_id i = (if i < 0 then ''-'' @ decimal (nat (- i)) else decimal (nat i))"

type_synonym callback_state = "Callbacks \<times> Metrics"

definition OnStreamOpen :: "int \<Rightarrow> callback_state \<Rightarrow> callback_state" where
  "OnStreamOpen i st = (case st of (cb, m) \<Rightarrow> (cb, m\<lparr>Streams := mset_at i empty_Stream (Streams m)\<rparr>))"

definition OnStreamClosed :: "int \<Rightarrow> callback_state \<Rightarrow> callback_state" where
  "OnStreamClosed i st =
     (case st of (cb, m) \<Rightarrow>
        (case mget (Streams m) i of
           None \<Rightarrow> (cb, m)
         | Some stream \<Rightarrow>
             (cb, m\<lparr>EnvoyStreamActive := mdelete
                      (stream_id i, st_Cluster stream, st_Node stream, EnvoyVersion stream) (EnvoyStreamActive m),
                    Streams := mdelete i (Streams m)\<rparr>)))"

definition OnDeltaStreamOpen :: "int \<Rightarrow> callback_state \<Rightarrow> callback_state" where
  "OnDeltaStreamOpen i st = st"

definition OnDeltaStreamClosed :: "int \<Rightarrow> callback_state \<Rightarrow> callback_state" where
  "OnDeltaStreamClosed i st = st"

definition close_signal :: "Callbacks \<Rightarrow> Callbacks" where
  "close_signal cb = (if SignalOpen cb then cb\<lparr>SignalOpen := False\<rparr> else cb)"

text \<open>Requests carry a node or none; \<open>None\<close> as the result is a panic.\<close>

definition OnStreamRequest ::
  "int \<Rightarrow> EnvoyNode option \<Rightarrow> callback_state \<Rightarrow> (EnvoyNode \<times> callback_state) option" where
  "OnStreamRequest i node st =
     (case st of (cb, m) \<Rightarrow>
        let cb = close_signal (cb\<lparr>Requests := Suc (Requests cb)\<rparr>) in
        case node of
          None \<Rightarrow> None
        | Some n \<Rightarrow>
            (case getVersion n of
               None \<Rightarrow> None
             | Some v \<Rightarrow>
                 Some (n\<lparr>nd_Id := GetNodeID [(''clusters'', nd_Cluster n), (''nodes'', nd_Id n)]\<rparr>,
                   (cb, RecordEnvoyStreamActive (stream_id i) (nd_Cluster n) (nd_Id n) v m))))"

definition OnStreamResponse ::
  "int \<Rightarrow> EnvoyNode option \<Rightarrow> string \<Rightarrow> callback_state \<Rightarrow> (EnvoyNode \<times> callback_state) option" where
  "OnStreamResponse i node version st =
     (case st of (cb, m) \<Rightarrow>
        (case node of
           None \<Rightarrow> None
         | Some n \<Rightarrow>
             (case GetNodeInfo (nd_Id n) of
                None \<Rightarrow> Some (n, (cb, m))
              | Some nodeInfo \<Rightarrow>
                  (case (Nodes nodeInfo, Clusters nodeInfo) of
                     (nd # _, cl # _) \<Rightarrow>
                       (case getVersion n of
                          None \<Rightarrow> None
                        | Some v \<Rightarrow>
                            let n = n\<lparr>nd_Id := nd\<rparr>;
                                m = m\<lparr>Streams := mset_at i (empty_Stream\<lparr>st_Node := nd, st_Cluster := cl, EnvoyVersion := v\<rparr>) (Streams m)\<rparr>;
                                m = foldl (\<lambda>m s. SetSnapshotServerVersion (ss_Node s) (ss_Cluster s) (ss_SnapshotVersion s) m)
                                      m (GetSnapshots m);
                                m = SetSnapshotClientVersion nd cl version m
                            in Some (n, (cb, record_matches m)))
                   | _ \<Rightarrow> None))))"

definition OnStreamDeltaResponse :: "int \<Rightarrow> callback_state \<Rightarrow> callback_state" where
  "OnStreamDeltaResponse i st = (case st of (cb, m) \<Rightarrow> (cb\<lparr>DeltaResponses := Suc (DeltaResponses cb)\<rparr>, m))"

definition OnStreamDeltaRequest ::
  "int \<Rightarrow> EnvoyNode option \<Rightarrow> callback_state \<Rightarrow> (EnvoyNode \<times> callback_state) option" where
  "OnStreamDeltaRequest i node st =
     (case st of (cb, m) \<Rightarrow>
        let cb = close_signal (cb\<lparr>DeltaRequests := Suc (DeltaRequests cb)\<rparr>) in
        case node of
          None \<Rightarrow> None
        | Some n \<Rightarrow>
            Some (n\<lparr>nd_Id := GetNodeID [(''clusters'', nd_Cluster n), (''nodes'', nd_Id n)]\<rparr>, (cb, m)))"

text \<open>Only the debug message of a fetch reads the node; with Debug a request without one panics.\<close>

definition OnFetchRequest :: "EnvoyNode option \<Rightarrow> callback_state \<Rightarrow> callback_state option" where
  "OnFetchRequest node st =
     (case st of (cb, m) \<Rightarrow>
        let cb = close_signal (cb\<lparr>Fetches := Suc (Fetches cb)\<rparr>) in
        if Debug cb \<and> node = None then None else Some (cb, m))"

end
