(* ===== verification/ServFacts.thy ===== *)
theory ServFacts
  imports Serv
begin

text \<open>
  What the server loop guarantees: no configuration change is lost, a node with an inconsistent
  snapshot keeps its last good one, every other node gets the snapshot just generated, and the
  callbacks rename a node and restore its name.
\<close>

section \<open>Facts\<close>

lemma isSnapToUpdate_simps:
  "fst (isSnapToUpdate conf s) \<longleftrightarrow> mget (snapVersions s) (sc_NodeID conf) \<noteq> Some (sc_Version conf)"
  "mget (snapVersions (snd (isSnapToUpdate conf s))) n =
     (if n = sc_NodeID conf then Some (sc_Version conf) else mget (snapVersions s) n)"
  "sv_Config (snd (isSnapToUpdate conf s)) = sv_Config s"
  "sv_Cache (snd (isSnapToUpdate conf s)) = sv_Cache s"
  by (auto simp: isSnapToUpdate_def split: option.split)

lemma finish_node_simps [simp]:
  "snapVersions (finish_node nd cl v s) = snapVersions s"
  "sv_Cache (finish_node nd cl v s) = sv_Cache s"
  "lastProcessedCounter (finish_node nd cl v s) = lastProcessedCounter s"
  "configChangeCounter (sv_Config (finish_node nd cl v s)) = configChangeCounter (sv_Config s)"
  by (simp_all add: finish_node_def)

text \<open>A node id that names at least one cluster and one node.\<close>

definition addressed :: "string \<Rightarrow> bool" where
  "addressed n \<longleftrightarrow> (\<exists>i. GetNodeInfo n = Some i \<and> Clusters i \<noteq> [] \<and> Nodes i \<noteq> [])"

text \<open>One step of the loop, for the three kinds of snapshots.\<close>

lemma process_inconsistent:
  assumes "addressed (sc_NodeID conf)" and "sc_Inconsistent conf = Some e"
  shows "process_nodes api f (conf # confs) incs s = process_nodes api f confs (incs @ [(sc_NodeID conf, e)]) s"
proof -
  obtain i cl cls nd nds where "GetNodeInfo (sc_NodeID conf) = Some i" "Clusters i = cl # cls" "Nodes i = nd # nds"
    using assms(1) by (auto simp: addressed_def neq_Nil_conv)
  then show ?thesis using assms(2) by simp
qed

lemma process_unchanged:
  assumes "addressed (sc_NodeID conf)" and "sc_Inconsistent conf = None"
    and "mget (snapVersions s) (sc_NodeID conf) = Some (sc_Version conf)"
  shows "\<exists>nd cl. process_nodes api f (conf # confs) incs s =
    process_nodes api f confs incs (finish_node nd cl (sc_Version conf) s)"
proof -
  obtain i cl cls nd nds where "GetNodeInfo (sc_NodeID conf) = Some i" "Clusters i = cl # cls" "Nodes i = nd # nds"
    using assms(1) by (auto simp: addressed_def neq_Nil_conv)
  then show ?thesis using assms(2,3) by (auto simp: isSnapToUpdate_def)
qed

text \<open>The state in which a changed snapshot is handed to the cache.\<close>

lemma process_changed:
  assumes "addressed (sc_NodeID conf)" and "sc_Inconsistent conf = None"
    and "mget (snapVersions s) (sc_NodeID conf) \<noteq> Some (sc_Version conf)"
    and "f (sv_Cache s) (sc_NodeID conf) (sc_Snapshot conf) = (cache, err)"
  shows "\<exists>nd cl m. let s1 = s\<lparr>snapVersions := mset_at (sc_NodeID conf) (sc_Version conf) (snapVersions s),
      sv_Metrics := m, sv_Cache := cache\<rparr> in
    process_nodes api f (conf # confs) incs s =
      (case err of
         Some e \<Rightarrow> (incs, Failed (SetFailed (sc_NodeID conf) e) s1)
       | None \<Rightarrow> process_nodes api f confs incs (finish_node nd cl (sc_Version conf) s1))"
proof -
  obtain i cl cls nd nds where i: "GetNodeInfo (sc_NodeID conf) = Some i" "Clusters i = cl # cls" "Nodes i = nd # nds"
    using assms(1) by (auto simp: addressed_def neq_Nil_conv)
  have "isSnapToUpdate conf s =
      (True, s\<lparr>snapVersions := mset_at (sc_NodeID conf) (sc_Version conf) (snapVersions s)\<rparr>)"
    using assms(3) by (auto simp: isSnapToUpdate_def split: option.split)
  then show ?thesis using i assms(2,4) by (auto simp: Let_def split: option.split)
qed

lemma process_unaddressed:
  assumes "\<not> addressed (sc_NodeID conf)" and "process_nodes api f (conf # confs) incs s = (incs', Done s')"
  shows "GetNodeInfo (sc_NodeID conf) = None \<and> process_nodes api f confs incs s = (incs', Done s')"
  using assms by (auto simp: addressed_def split: option.splits list.splits)

declare process_nodes.simps(2) [simp del]

section \<open>The cache\<close>

text \<open>The contract of the snapshot cache: setting a node's snapshot stores it, and only it.\<close>

definition cache_ok :: "('snap, 'cache) setter \<Rightarrow> ('cache \<Rightarrow> string \<Rightarrow> 'snap option) \<Rightarrow> bool" where
  "cache_ok f lookup \<longleftrightarrow> (\<forall>c n snap c' e. f c n snap = (c', e) \<longrightarrow>
     (e = None \<longrightarrow> lookup c' n = Some snap) \<and> (\<forall>m. m \<noteq> n \<longrightarrow> lookup c' m = lookup c m))"

text \<open>The recorded versions are those of the cached snapshots.\<close>

definition versions_agree ::
  "('cache \<Rightarrow> string \<Rightarrow> 'snap option) \<Rightarrow> ('snap \<Rightarrow> string) \<Rightarrow> ('snap, 'cache) server \<Rightarrow> bool" where
  "versions_agree lookup ver s \<longleftrightarrow>
     (\<forall>n v. mget (snapVersions s) n = Some v \<longrightarrow> (\<exists>snap. lookup (sv_Cache s) n = Some snap \<and> ver snap = v))"

lemma process_nodes_frame:
  assumes "cache_ok f lookup" and "process_nodes api f confs incs s = (incs', Done s')"
    and "\<forall>conf\<in>set confs. sc_NodeID conf = n \<longrightarrow> sc_Inconsistent conf \<noteq> None"
  shows "lookup (sv_Cache s') n = lookup (sv_Cache s) n \<and> mget (snapVersions s') n = mget (snapVersions s) n \<and>
    set incs \<subseteq> set incs' \<and>
    (\<forall>conf\<in>set confs. sc_NodeID conf = n \<longrightarrow> addressed n \<longrightarrow> n \<in> fst ` set incs')"
  using assms(2,3)
proof (induction confs arbitrary: incs s)
  case (Cons conf confs)
  note prems = Cons.prems
  show ?case
  proof (cases "addressed (sc_NodeID conf)")
    case False
    from process_unaddressed [OF this prems(1)] show ?thesis using Cons.IH [of incs s] prems(2) False by auto
  next
    case addr: True
    show ?thesis
    proof (cases "sc_Inconsistent conf")
      case (Some e)
      have "process_nodes api f confs (incs @ [(sc_NodeID conf, e)]) s = (incs', Done s')"
        using prems(1) unfolding process_inconsistent [OF addr Some] .
      from Cons.IH [OF this] prems(2) show ?thesis by force
    next
      case None
      then have n: "sc_NodeID conf \<noteq> n" using prems(2) by auto
      show ?thesis
      proof (cases "mget (snapVersions s) (sc_NodeID conf) = Some (sc_Version conf)")
        case True
        from process_unchanged [OF addr None True] obtain nd cl where
          "process_nodes api f confs incs (finish_node nd cl (sc_Version conf) s) = (incs', Done s')"
          using prems(1) by metis
        from Cons.IH [OF this] prems(2) n show ?thesis by auto
      next
        case False
        obtain cache err where f: "f (sv_Cache s) (sc_NodeID conf) (sc_Snapshot conf) = (cache, err)" by force
        from process_changed [where api = api and f = f and confs = confs and incs = incs, OF addr None False f] prems(1) obtain nd cl m where
          p: "process_nodes api f confs incs (finish_node nd cl (sc_Version conf)
            (s\<lparr>snapVersions := mset_at (sc_NodeID conf) (sc_Version conf) (snapVersions s), sv_Metrics := m,
               sv_Cache := cache\<rparr>)) = (incs', Done s')"
          by (auto simp: Let_def split: option.splits)
        have "lookup cache n = lookup (sv_Cache s) n" using assms(1) f n by (auto simp: cache_ok_def)
        with Cons.IH [OF p] prems(2) n show ?thesis by auto
      qed
    qed
  qed
qed simp

text \<open>After a pass without error every consistent node is served the snapshot of its generated version.\<close>

lemma process_nodes_current:
  assumes "cache_ok f lookup" and "process_nodes api f confs incs s = (incs', Done s')"
    and "versions_agree lookup ver s" and "\<forall>conf\<in>set confs. ver (sc_Snapshot conf) = sc_Version conf"
    and "distinct (map sc_NodeID confs)"
  shows "versions_agree lookup ver s' \<and>
    (\<forall>conf\<in>set confs. addressed (sc_NodeID conf) \<longrightarrow> sc_Inconsistent conf = None \<longrightarrow>
       mget (snapVersions s') (sc_NodeID conf) = Some (sc_Version conf))"
  using assms(2-5)
proof (induction confs arbitrary: incs s)
  case (Cons conf confs)
  note prems = Cons.prems
  show ?case
  proof (cases "addressed (sc_NodeID conf)")
    case False
    from process_unaddressed [OF this prems(1)] show ?thesis using Cons.IH [of incs s] prems(2-) False by auto
  next
    case addr: True
    show ?thesis
    proof (cases "sc_Inconsistent conf")
      case (Some e)
      have "process_nodes api f confs (incs @ [(sc_NodeID conf, e)]) s = (incs', Done s')"
        using prems(1) unfolding process_inconsistent [OF addr Some] .
      from Cons.IH [OF this] prems(2-) Some show ?thesis by auto
    next
      case None
      obtain s1 incs1 where p: "process_nodes api f confs incs1 s1 = (incs', Done s')"
        and agree: "versions_agree lookup ver s1"
        and set: "mget (snapVersions s1) (sc_NodeID conf) = Some (sc_Version conf)"
      proof (cases "mget (snapVersions s) (sc_NodeID conf) = Some (sc_Version conf)")
        case True
        from process_unchanged [OF addr None True] obtain nd cl where
          "process_nodes api f confs incs (finish_node nd cl (sc_Version conf) s) = (incs', Done s')"
          using prems(1) by metis
        then show ?thesis using that True prems(2) by (auto simp: versions_agree_def)
      next
        case False
        obtain cache err where f: "f (sv_Cache s) (sc_NodeID conf) (sc_Snapshot conf) = (cache, err)" by force
        from process_changed [where api = api and f = f and confs = confs and incs = incs, OF addr None False f]
          prems(1) obtain nd cl m where err: "err = None"
          and p: "process_nodes api f confs incs (finish_node nd cl (sc_Version conf)
            (s\<lparr>snapVersions := mset_at (sc_NodeID conf) (sc_Version conf) (snapVersions s), sv_Metrics := m,
               sv_Cache := cache\<rparr>)) = (incs', Done s')"
          by (auto simp: Let_def split: option.splits)
        have "lookup cache (sc_NodeID conf) = Some (sc_Snapshot conf)"
          "\<And>m. m \<noteq> sc_NodeID conf \<Longrightarrow> lookup cache m = lookup (sv_Cache s) m"
          using assms(1) f err by (auto simp: cache_ok_def)
        then show ?thesis using that [OF p] prems(2,3) by (auto simp: versions_agree_def)
      qed
      have "\<forall>c\<in>set confs. sc_NodeID c = sc_NodeID conf \<longrightarrow> sc_Inconsistent c \<noteq> None"
        using prems(4) by (metis distinct.simps(2) imageI list.map(2) set_map)
      from process_nodes_frame [OF assms(1) p this]
      have "mget (snapVersions s') (sc_NodeID conf) = mget (snapVersions s1) (sc_NodeID conf)" by blast
      then show ?thesis using Cons.IH [OF p agree] prems(3,4) set by auto
    qed
  qed
qed simp

section \<open>Properties\<close>

text \<open>Neither counter changes while snapshots are processed.\<close>

definition same_counters :: "('snap, 'cache) server \<Rightarrow> ('snap, 'cache) server outcome \<Rightarrow> bool" where
  "same_counters s r \<longleftrightarrow> (\<forall>s'. (r = Done s' \<or> (\<exists>e. r = Failed e s')) \<longrightarrow>
     configChangeCounter (sv_Config s') = configChangeCounter (sv_Config s) \<and>
     lastProcessedCounter s' = lastProcessedCounter s)"

lemma process_nodes_counters: "same_counters s (snd (process_nodes api f confs incs s))"
proof (induction confs arbitrary: incs s)
  case (Cons conf confs)
  have step: "same_counters s (snd (process_nodes api f confs incs1 s1))"
    if "configChangeCounter (sv_Config s1) = configChangeCounter (sv_Config s)"
      "lastProcessedCounter s1 = lastProcessedCounter s" for incs1 s1
    using Cons.IH [of s1 incs1] that by (simp add: same_counters_def)
  show ?case
    unfolding process_nodes.simps(2)
    by (auto simp: isSnapToUpdate_def Let_def same_counters_def [of _ "Failed _ _"] same_counters_def [of _ Panicked]
        intro: step split: option.split list.split prod.split)
qed (simp add: same_counters_def)

lemma processSnapshot_counters: "same_counters s (processSnapshot api f s)"
proof -
  obtain r x where g: "GenerateSnapshotsV2 api (sv_Config s) = (r, x)" by force
  have x: "configChangeCounter x = configChangeCounter (sv_Config s)"
    using g by (auto simp: GenerateSnapshotsV2_def split: prod.splits)
  show ?thesis
  proof (cases r)
    case (Inl e)
    then show ?thesis using g x by (simp add: processSnapshot_def same_counters_def)
  next
    case (Inr snaps)
    let ?s = "s\<lparr>sv_Config := x, sv_Metrics := CleanSnapshots (sv_Metrics s)\<rparr>"
    obtain incs o1 where p: "process_nodes api f snaps [] ?s = (incs, o1)" by force
    have "same_counters ?s o1" using process_nodes_counters [of ?s api f snaps "[]"] p by simp
    then show ?thesis using g x Inr p
      by (cases o1) (auto simp: processSnapshot_def same_counters_def Let_def)
  qed
qed

text \<open>C33. No configuration change is lost: when the configuration changes again after a tick has read
  the counter, the next tick finds a counter it has not processed, whether this tick succeeded
  or failed.\<close>

theorem tick_loses_no_change:
  assumes "tick api f between s = Some s'" and "AllReconciled (reconciliationStatus (sv_Config s))"
    and "GetConfigCounter (sv_Config s) \<noteq> lastProcessedCounter s"
    and "GetConfigCounter (between (sv_Config s)) \<notin> {GetConfigCounter (sv_Config s), lastProcessedCounter s}"
  shows "GetConfigCounter (sv_Config s') \<noteq> lastProcessedCounter s'"
  using assms processSnapshot_counters [of "s\<lparr>sv_Config := between (sv_Config s)\<rparr>" api f]
  by (auto simp: tick_def Let_def same_counters_def GetConfigCounter_def split: outcome.splits)

definition sample_setter :: "('snap, (string, 'snap) gmap) setter" where
  "sample_setter c n s = (mset_at n s c, None)"

lemma sample_cache: "cache_ok sample_setter mget"
  by (simp add: cache_ok_def sample_setter_def)

definition sample_server :: "(node_resources \<times> string, (string, node_resources \<times> string) gmap) server" where
  "sample_server = \<lparr>sv_Config = (new_Config ''n1'' ''c'')\<lparr>configChangeCounter := 3,
       reconciliationStatus := NewReconciliationStatus\<lparr>listenersInitialized := True, routesInitialized := True,
         clustersInitialized := True, endpointsInitialized := True, domainConfigsInitialized := True\<rparr>\<rparr>,
     sv_Cache = [], sv_Metrics = no_Metrics, snapVersions = [], lastProcessedCounter = 0\<rparr>"

definition sample_quiet_api :: "(node_resources \<times> string) api" where
  "sample_quiet_api = \<lparr>SecretType = ''Secret'', ListenerType = ''Listener'', ClusterType = ''Cluster'',
     RouteType = ''Route'', EndpointType = ''Endpoint'', GetResourceName = (\<lambda>r. []),
     GetHTTPConnectionManager = (\<lambda>f. None), NewSnapshot = (\<lambda>v res. Inr (res, v)), GetResources = (\<lambda>s t. []),
     GetResourceReferences = (\<lambda>m t. []), ProtoReflect = (\<lambda>r. PMsg 0 False [] [])\<rparr>"

lemma sample_tick:
  "tick sample_quiet_api sample_setter IncrementConfigCounter sample_server =
     Some (sample_server\<lparr>sv_Config := (sv_Config sample_server)\<lparr>configChangeCounter := 4\<rparr>, lastProcessedCounter := 3\<rparr>)"
  by (simp add: tick_def sample_server_def AllReconciled_def AllInitialized_def HasPendingListeners_def new_Config_def
      NewReconciliationStatus_def IncrementConfigCounter_def GetConfigCounter_def processSnapshot_def
      GenerateSnapshotsV2_def collect_resources_def getResourcesFromEndpointConfigs_def
      getResourcesFromRouteConfigs_def getResourcesFromClusterConfigs_def getResourcesFromListenerConfigs_def
      getResourcesFromSecretConfigs_def collect_def CleanSnapshots_def record_matches_def no_Metrics_def
      snapshotMemo_endPass_def passMemo_endPass_def empty_memo_def)

lemma tick_loses_no_change_witness:
  "\<exists>s'. tick sample_quiet_api sample_setter IncrementConfigCounter sample_server = Some s' \<and>
     GetConfigCounter (sv_Config s') \<noteq> lastProcessedCounter s'"
  using tick_loses_no_change [OF sample_tick] sample_tick
  by (simp add: sample_server_def AllReconciled_def AllInitialized_def HasPendingListeners_def new_Config_def
      NewReconciliationStatus_def IncrementConfigCounter_def GetConfigCounter_def)

lemma plain_ids: "plain ''c'' \<and> plain ''n1'' \<and> plain ''n2''"
  by code_simp

lemma addressed_pair: "plain c \<Longrightarrow> plain n \<Longrightarrow> addressed (pair_id c n)"
  by (simp add: addressed_def decode_pair_id)

text \<open>A node whose generated snapshot is inconsistent keeps the snapshot it has, and is reported, so that
  the tick is retried.\<close>

theorem inconsistent_node_kept:
  assumes "cache_ok f lookup" and "process_nodes api f confs [] s = (incs, Done s')"
    and "conf \<in> set confs" and "addressed (sc_NodeID conf)" and "distinct (map sc_NodeID confs)"
    and "sc_Inconsistent conf \<noteq> None"
  shows "lookup (sv_Cache s') (sc_NodeID conf) = lookup (sv_Cache s) (sc_NodeID conf) \<and>
    sc_NodeID conf \<in> fst ` set incs"
proof -
  have "\<forall>c\<in>set confs. sc_NodeID c = sc_NodeID conf \<longrightarrow> sc_Inconsistent c \<noteq> None"
    using assms(3,5,6) by (metis distinct_map inj_onD)
  from process_nodes_frame [OF assms(1,2) this] assms(3,4) show ?thesis by blast
qed

definition sample_bad :: "(node_resources \<times> string) SnapshotConfig" where
  "sample_bad = \<lparr>sc_NodeID = pair_id ''c'' ''n1'', sc_Version = ''v1'', sc_Snapshot = ([], ''v1''),
     sc_Inconsistent = Some (LengthMismatch ''Route'')\<rparr>"

definition sample_good :: "(node_resources \<times> string) SnapshotConfig" where
  "sample_good = \<lparr>sc_NodeID = pair_id ''c'' ''n2'', sc_Version = ''v2'', sc_Snapshot = ([], ''v2''),
     sc_Inconsistent = None\<rparr>"

lemma sample_ids_differ: "pair_id ''c'' ''n1'' \<noteq> pair_id ''c'' ''n2''"
  using pair_id_inj [of "''c''" "''n1''" "''c''" "''n2''"] plain_ids by auto

lemma sample_pass: "\<exists>s'. process_nodes api sample_setter [sample_bad, sample_good] [] sample_server =
    ([(pair_id ''c'' ''n1'', LengthMismatch ''Route'')], Done s')"
  using plain_ids by (simp add: process_nodes.simps(2) sample_bad_def sample_good_def decode_pair_id isSnapToUpdate_def
      sample_server_def sample_setter_def Let_def)

lemma inconsistent_node_kept_witness:
  "\<exists>s'. process_nodes sample_quiet_api sample_setter [sample_bad, sample_good] [] sample_server =
      ([(pair_id ''c'' ''n1'', LengthMismatch ''Route'')], Done s') \<and>
     mget (sv_Cache s') (pair_id ''c'' ''n1'') = None"
proof -
  obtain s' where p: "process_nodes sample_quiet_api sample_setter [sample_bad, sample_good] [] sample_server =
      ([(pair_id ''c'' ''n1'', LengthMismatch ''Route'')], Done s')" using sample_pass by blast
  have "mget (sv_Cache s') (sc_NodeID sample_bad) = mget (sv_Cache sample_server) (sc_NodeID sample_bad)"
    using inconsistent_node_kept [OF sample_cache p, of sample_bad] plain_ids sample_ids_differ
    by (simp add: sample_bad_def sample_good_def addressed_pair)
  then show ?thesis using p by (simp add: sample_server_def sample_bad_def)
qed

text \<open>C34. While the recorded versions are those of the cached snapshots, a pass that returns no error keeps
  them so, and serves every consistent node the snapshot of its newly generated version.\<close>

theorem consistent_nodes_served:
  assumes "cache_ok f lookup" and "process_nodes api f confs [] s = (incs, Done s')"
    and "versions_agree lookup ver s" and "\<forall>conf\<in>set confs. ver (sc_Snapshot conf) = sc_Version conf"
    and "distinct (map sc_NodeID confs)"
  shows "versions_agree lookup ver s' \<and>
    (\<forall>conf\<in>set confs. addressed (sc_NodeID conf) \<longrightarrow> sc_Inconsistent conf = None \<longrightarrow>
       (\<exists>snap. lookup (sv_Cache s') (sc_NodeID conf) = Some snap \<and> ver snap = sc_Version conf))"
  using process_nodes_current [OF assms] by (auto simp: versions_agree_def)

lemma consistent_nodes_served_witness:
  "\<exists>s' snap. process_nodes sample_quiet_api sample_setter [sample_bad, sample_good] [] sample_server =
      ([(pair_id ''c'' ''n1'', LengthMismatch ''Route'')], Done s') \<and>
     mget (sv_Cache s') (pair_id ''c'' ''n2'') = Some snap \<and> snd snap = ''v2''"
proof -
  obtain s' where p: "process_nodes sample_quiet_api sample_setter [sample_bad, sample_good] [] sample_server =
      ([(pair_id ''c'' ''n1'', LengthMismatch ''Route'')], Done s')" using sample_pass by blast
  have "\<exists>snap. mget (sv_Cache s') (sc_NodeID sample_good) = Some snap \<and> snd snap = sc_Version sample_good"
    using consistent_nodes_served [OF sample_cache p, of snd] plain_ids sample_ids_differ
    by (simp add: sample_bad_def sample_good_def addressed_pair versions_agree_def sample_server_def)
  then show ?thesis using p by (auto simp: sample_good_def)
qed

text \<open>The version is recorded before the cache accepts the snapshot: after a failed update the next
  pass takes the node for up to date and leaves the cache as the failure left it.\<close>

theorem failed_update_not_retried:
  assumes "addressed (sc_NodeID conf)" and "sc_Inconsistent conf = None"
    and "process_nodes api f [conf] [] s = (incs, Failed e s1)"
  shows "\<exists>s2. process_nodes api g [conf] [] s1 = ([], Done s2) \<and> sv_Cache s2 = sv_Cache s1"
proof -
  have v: "mget (snapVersions s1) (sc_NodeID conf) = Some (sc_Version conf)"
  proof (cases "mget (snapVersions s) (sc_NodeID conf) = Some (sc_Version conf)")
    case True
    from process_unchanged [OF assms(1,2) this, of api f "[]" "[]"] assms(3) show ?thesis by auto
  next
    case False
    obtain cache err where f: "f (sv_Cache s) (sc_NodeID conf) (sc_Snapshot conf) = (cache, err)" by force
    from process_changed [where api = api and f = f and confs = "[]" and incs = "[]", OF assms(1,2) False f] assms(3)
    show ?thesis by (auto simp: Let_def split: option.splits)
  qed
  from process_unchanged [OF assms(1,2) this, of api g "[]" "[]"] show ?thesis by auto
qed

lemma failed_update_not_retried_witness:
  "\<exists>s1 s2. process_nodes sample_quiet_api (\<lambda>c n s. (c, Some ''full'')) [sample_good] [] sample_server =
      ([], Failed (SetFailed (pair_id ''c'' ''n2'') ''full'') s1) \<and>
    process_nodes sample_quiet_api sample_setter [sample_good] [] s1 = ([], Done s2) \<and>
    mget (sv_Cache s2) (pair_id ''c'' ''n2'') = None"
proof -
  obtain s1 where p: "process_nodes sample_quiet_api (\<lambda>c n s. (c, Some ''full'')) [sample_good] [] sample_server =
      ([], Failed (SetFailed (pair_id ''c'' ''n2'') ''full'') s1)" and c: "sv_Cache s1 = []"
    using plain_ids by (simp add: process_nodes.simps(2) sample_good_def decode_pair_id isSnapToUpdate_def
        sample_server_def Let_def)
  show ?thesis
    using failed_update_not_retried [OF _ _ p, of sample_setter] p c plain_ids
    by (auto simp: sample_good_def addressed_pair)
qed

text \<open>The node name a response sees is the one the request came with: decoding undoes the encoding, for
  plain names.\<close>

theorem response_restores_node:
  assumes "OnStreamRequest i (Some n) st = Some (n1, st1)" and "plain (nd_Id n)" and "plain (nd_Cluster n)"
  shows "nd_Id n1 = pair_id (nd_Cluster n) (nd_Id n) \<and>
    (\<exists>n2 st2. OnStreamResponse i (Some n1) v st1 = Some (n2, st2) \<and> nd_Id n2 = nd_Id n)"
proof -
  obtain cb m where st: "st = (cb, m)" by force
  from assms(1) obtain ver where ver: "getVersion n = Some ver"
    and n1: "n1 = n\<lparr>nd_Id := pair_id (nd_Cluster n) (nd_Id n)\<rparr>"
    by (auto simp: OnStreamRequest_def st Let_def pair_id_def split: option.splits)
  have "getVersion n1 = Some ver" using ver n1 by (simp add: getVersion_def)
  then show ?thesis using n1 decode_pair_id [OF assms(3,2)]
    by (cases st1) (simp add: OnStreamResponse_def Let_def)
qed

lemma response_restores_node_witness:
  "\<exists>n1 st1 n2 st2. OnStreamRequest 4 (Some \<lparr>nd_Id = ''n1'', nd_Cluster = ''c'', nd_BuildVersion = Some (1, 36, 2)\<rparr>)
      (\<lparr>SignalOpen = True, Debug = True, Fetches = 0, Requests = 0, DeltaRequests = 0, DeltaResponses = 0\<rparr>, no_Metrics) =
      Some (n1, st1) \<and> OnStreamResponse 4 (Some n1) ''v1'' st1 = Some (n2, st2) \<and> nd_Id n2 = ''n1''"
proof -
  obtain n1 st1 where "OnStreamRequest 4 (Some \<lparr>nd_Id = ''n1'', nd_Cluster = ''c'', nd_BuildVersion = Some (1, 36, 2)\<rparr>)
      (\<lparr>SignalOpen = True, Debug = True, Fetches = 0, Requests = 0, DeltaRequests = 0, DeltaResponses = 0\<rparr>, no_Metrics) =
      Some (n1, st1)"
    by (simp add: OnStreamRequest_def getVersion_def Let_def)
  with response_restores_node [OF this, of "''v1''"] plain_ids show ?thesis by auto
qed

text \<open>A client that sends no build version panics the server.\<close>

lemma request_without_version_panics:
  "nd_BuildVersion n = None \<Longrightarrow> OnStreamRequest i (Some n) st = None"
  by (cases st) (simp add: OnStreamRequest_def getVersion_def Let_def)

end
