(* ===== verification/SnapshotFacts.thy ===== *)
theory SnapshotFacts
  imports Snapshot
begin

text \<open>
  What a snapshot holds: every node gets exactly the resources configured for it, routes only when
  a listener of the node references them, and the consistency check decides whether all
  references resolve. The caches kept between passes change nothing.
\<close>

section \<open>Collected resources\<close>

lemma node_entry_add_to_node:
  "mlist (node_entry (add_to_node res t rs k) n) t' =
     mlist (node_entry rs n) t' @ (if k = n \<and> t' = t then [res] else [])"
  by (simp add: add_to_node_def node_entry_def Let_def)

lemma node_entry_addResource:
  "mlist (node_entry (addResource ks res t rs) n) t' =
     mlist (node_entry rs n) t' @ (if t' = t then replicate (count_list ks n) res else [])"
proof (induction ks arbitrary: rs)
  case (Cons k ks)
  have "addResource (k # ks) res t rs = addResource ks res t (add_to_node res t rs k)"
    by (simp add: addResource_def)
  then show ?case
    by (simp add: Cons.IH node_entry_add_to_node replicate_append_same)
qed (simp add: addResource_def)

definition copies :: "Config \<Rightarrow> string \<Rightarrow> string \<Rightarrow> Resource \<Rightarrow> Resource list" where
  "copies x n s res = replicate (count_list (targetNodes s x) n) res"

definition reach :: "Config \<Rightarrow> (string, Resource list) gmap \<Rightarrow> string \<Rightarrow> Resource list" where
  "reach x entries n = concat (map (\<lambda>(s, v). concat (map (copies x n s) v)) entries)"

lemma node_entry_resources:
  "mlist (node_entry (foldl (\<lambda>rs res. addResource (targetNodes s x) res t rs) rs v) n) t' =
     mlist (node_entry rs n) t' @ (if t' = t then concat (map (copies x n s) v) else [])"
  by (induction v arbitrary: rs) (auto simp: node_entry_addResource copies_def)

lemma node_entry_collect:
  "mlist (node_entry (collect x t es rs) n) t' =
     mlist (node_entry rs n) t' @ (if t' = t then reach x es n else [])"
proof (induction es arbitrary: rs)
  case (Cons e es)
  obtain s v where e: "e = (s, v)" by force
  have "collect x t (e # es) rs = collect x t es (foldl (\<lambda>rs res. addResource (targetNodes s x) res t rs) rs v)"
    by (simp add: collect_def e)
  then show ?case by (simp add: Cons.IH node_entry_resources reach_def e)
qed (simp add: collect_def reach_def)

lemma add_to_node_ok: "gmap_ok rs \<Longrightarrow> gmap_ok (add_to_node res t rs k)"
  by (simp add: add_to_node_def Let_def)

lemma addResource_ok: "gmap_ok rs \<Longrightarrow> gmap_ok (addResource ks res t rs)"
  by (induction ks arbitrary: rs) (simp_all add: addResource_def add_to_node_ok)

lemma collect_ok: "gmap_ok rs \<Longrightarrow> gmap_ok (collect x t es rs)"
proof (induction es arbitrary: rs)
  case (Cons e es)
  have "gmap_ok rs \<Longrightarrow> gmap_ok (foldl (\<lambda>rs res. addResource (targetNodes s x) res t rs) rs v)" for s v rs
    by (induction v arbitrary: rs) (simp_all add: addResource_ok)
  then show ?case using Cons by (simp add: collect_def case_prod_unfold)
qed (simp add: collect_def)

lemma collect_resources_ok: "gmap_ok (collect_resources api x)"
  by (simp add: collect_resources_def getResourcesFromEndpointConfigs_def getResourcesFromRouteConfigs_def
      getResourcesFromClusterConfigs_def getResourcesFromListenerConfigs_def
      getResourcesFromSecretConfigs_def collect_ok)

section \<open>Keys of the stores\<close>

text \<open>
  A store's key is the id of an annotated resource: it names any number of clusters and nodes. The nodes it stands for
  are the pairs of its clusters and nodes, the configured node when it names none, and the configured
  pair when it names nothing. A node named twice gets the resource twice.
\<close>

definition named_pairs :: "Config \<Rightarrow> NodeInfo \<Rightarrow> (string \<times> string) list" where
  "named_pairs x info =
     (if Clusters info = [] \<and> Nodes info = [] then [(ClusterName x, NodeID x)]
      else List.product (Clusters info) (if Nodes info = [] then [NodeID x] else Nodes info))"

definition times_named :: "Config \<Rightarrow> string \<Rightarrow> string \<Rightarrow> nat" where
  "times_named x s n =
     (case GetNodeInfo s of
        None \<Rightarrow> 0
      | Some info \<Rightarrow> length (filter (\<lambda>(c, m). n = pair_id c m) (named_pairs x info)))"

lemma node_id_pair: "GetNodeID [(''nodes'', n), (''clusters'', c)] = pair_id c n"
  by (simp add: pair_id_def GetNodeID_def mstr_def mget_def)

lemma count_list_pairs: "count_list (map (\<lambda>(c, m). pair_id c m) ps) n = length (filter (\<lambda>(c, m). n = pair_id c m) ps)"
  by (induction ps) auto

lemma targetNodes_pairs:
  "targetNodes s x = (case GetNodeInfo s of None \<Rightarrow> [] | Some info \<Rightarrow> map (\<lambda>(c, m). pair_id c m) (named_pairs x info))"
  by (auto simp: targetNodes_def node_id_pair named_pairs_def getNodes_def List.product_concat_map map_concat comp_def
      split: option.split)

lemma count_targetNodes: "count_list (targetNodes s x) n = times_named x s n"
  by (simp add: targetNodes_pairs times_named_def count_list_pairs split: option.split)

text \<open>What a store holds for a node: its entries in order, each resource as often as its key names the node.\<close>

definition stored_for :: "Config \<Rightarrow> (string, 'v list) gmap \<Rightarrow> string \<Rightarrow> 'v list" where
  "stored_for x m n = concat (map (\<lambda>(s, vs). concat (map (replicate (times_named x s n)) vs)) m)"

lemma in_stored_for: "v \<in> set (stored_for x m n) \<longleftrightarrow> (\<exists>(s, vs)\<in>set m. v \<in> set vs \<and> 0 < times_named x s n)"
  by (force simp: stored_for_def)

lemma map_replicates: "map f (concat (map (replicate k) vs)) = concat (map (replicate k) (map f vs))"
  by (induction vs) simp_all

lemma filter_replicates: "filter P (concat (map (replicate k) vs)) = concat (map (replicate k) (filter P vs))"
  by (induction vs) simp_all

lemma reach_stored_for: "reach x (map (\<lambda>(s, vs). (s, map f (filter P vs))) m) n = map f (filter P (stored_for x m n))"
  by (induction m)
    (auto simp: reach_def stored_for_def copies_def count_targetNodes filter_replicates map_replicates comp_def)

lemma reach_stored: "reach x (map (\<lambda>(s, vs). (s, map f vs)) m) n = map f (stored_for x m n)"
  using reach_stored_for [of x f "\<lambda>_. True" m n] by simp

text \<open>The id of annotations names the pairs of the listed clusters and nodes.\<close>

lemma times_named_GetNodeID:
  assumes "text_ok an" and "ParseCSV (mstr an ''clusters'') \<noteq> []" and "ParseCSV (mstr an ''nodes'') \<noteq> []"
  shows "0 < times_named x (GetNodeID an) n \<longleftrightarrow>
    (\<exists>c\<in>set (ParseCSV (mstr an ''clusters'')). \<exists>m\<in>set (ParseCSV (mstr an ''nodes'')). n = pair_id c m)"
proof -
  have "sort (ParseCSV (mstr an ''clusters'')) \<noteq> []" "sort (ParseCSV (mstr an ''nodes'')) \<noteq> []"
    using assms(2,3) by (metis set_empty set_sort)+
  then have "0 < times_named x (GetNodeID an) n \<longleftrightarrow>
      (\<exists>p\<in>set (ParseCSV (mstr an ''clusters'')) \<times> set (ParseCSV (mstr an ''nodes'')). n = pair_id (fst p) (snd p))"
    by (auto simp: times_named_def decode_GetNodeID [OF assms(1)] named_pairs_def filter_empty_conv case_prod_unfold
        set_product)
  then show ?thesis by auto
qed

lemma times_named_pair:
  assumes "plain c" and "plain m"
  shows "times_named x (pair_id c m) n = (if n = pair_id c m then 1 else 0)"
  using assms by (simp add: times_named_def decode_pair_id named_pairs_def)

definition types_ok :: "'snap api \<Rightarrow> bool" where
  "types_ok api \<longleftrightarrow>
     distinct [SecretType api, ListenerType api, ClusterType api, RouteType api, EndpointType api]"

text \<open>What is configured for a node.\<close>

definition node_routes :: "Config \<Rightarrow> string \<Rightarrow> Resource list" where
  "node_routes x n = map (\<lambda>rc. RRoute (rc_RouteConfiguration rc)) (stored_for x (RouteConfigs x) n)"

definition node_endpoints :: "Config \<Rightarrow> string \<Rightarrow> Resource list" where
  "node_endpoints x n =
     map REndpoint (filter (\<lambda>e. cla_ClusterName e \<in> set (edsEndpointNames x)) (stored_for x (EndpointConfigs x) n))"

lemma collected:
  assumes "types_ok api"
  shows "mlist (node_entry (collect_resources api x) n) (SecretType api) = map RSecret (stored_for x (SecretConfigs x) n)"
    and "mlist (node_entry (collect_resources api x) n) (ListenerType api) = map RListener (stored_for x (ListenerConfigs x) n)"
    and "mlist (node_entry (collect_resources api x) n) (ClusterType api) = map RCluster (stored_for x (ClusterConfigs x) n)"
    and "mlist (node_entry (collect_resources api x) n) (RouteType api) = node_routes x n"
    and "mlist (node_entry (collect_resources api x) n) (EndpointType api) = node_endpoints x n"
proof -
  have "mlist (node_entry [] n) t = []" for t by (simp add: node_entry_def)
  then show "mlist (node_entry (collect_resources api x) n) (SecretType api) = map RSecret (stored_for x (SecretConfigs x) n)"
    "mlist (node_entry (collect_resources api x) n) (ListenerType api) = map RListener (stored_for x (ListenerConfigs x) n)"
    "mlist (node_entry (collect_resources api x) n) (ClusterType api) = map RCluster (stored_for x (ClusterConfigs x) n)"
    "mlist (node_entry (collect_resources api x) n) (RouteType api) = node_routes x n"
    "mlist (node_entry (collect_resources api x) n) (EndpointType api) = node_endpoints x n"
    using assms
    by (auto simp: collect_resources_def getResourcesFromEndpointConfigs_def getResourcesFromRouteConfigs_def
      getResourcesFromClusterConfigs_def getResourcesFromListenerConfigs_def getResourcesFromSecretConfigs_def
      node_entry_collect types_ok_def reach_stored reach_stored_for node_routes_def node_endpoints_def)
qed

section \<open>Route references\<close>

definition filters_of :: "Listener \<Rightarrow> Filter list" where
  "filters_of l =
     concat (map ec_Filters (el_FilterChains l)) @
     (case el_DefaultFilterChain l of None \<Rightarrow> [] | Some fc \<Rightarrow> ec_Filters fc)"

definition filter_routes :: "'snap api \<Rightarrow> Filter \<Rightarrow> string list" where
  "filter_routes api f =
     (if ef_TypedConfig f = None then [] else hcm_routes (GetHTTPConnectionManager api f))"

definition resource_routes :: "'snap api \<Rightarrow> Resource \<Rightarrow> string set" where
  "resource_routes api r =
     (case r of RListener l \<Rightarrow> (\<Union>f\<in>set (filters_of l). set (filter_routes api f)) | _ \<Rightarrow> {})"

text \<open>The cached names of a typed config are those of its contents.\<close>

definition names_at :: "'snap api \<Rightarrow> (nat \<Rightarrow> string list) \<Rightarrow> Filter \<Rightarrow> bool" where
  "names_at api h f \<longleftrightarrow>
     (\<forall>tc. ef_TypedConfig f = Some tc \<longrightarrow> h (an_addr tc) = hcm_routes (GetHTTPConnectionManager api f))"

definition routes_memo_ok :: "(nat \<Rightarrow> string list) \<Rightarrow> string list passMemo \<Rightarrow> bool" where
  "routes_memo_ok h p \<longleftrightarrow> (\<forall>a v. mget (pm_cur p) a = Some v \<or> mget (pm_prev p) a = Some v \<longrightarrow> v = h a)"

lemma routes_memo_ok_empty [simp]: "routes_memo_ok h empty_memo"
  by (simp add: routes_memo_ok_def empty_memo_def)

lemma routes_memo_ok_endPass: "routes_memo_ok h p \<Longrightarrow> routes_memo_ok h (passMemo_endPass p)"
  by (simp add: routes_memo_ok_def passMemo_endPass_def)

lemma routes_memo_get:
  assumes "routes_memo_ok h p" and "h a = names"
  shows "\<exists>p'. passMemo_get p a (\<lambda>p. (names, p)) = (names, p') \<and> routes_memo_ok h p'"
  using assms by (auto simp: passMemo_get_def routes_memo_ok_def split: option.splits)

definition refs_ok :: "(nat \<Rightarrow> string list) \<Rightarrow> refs_state \<Rightarrow> string set \<Rightarrow> bool" where
  "refs_ok h st names \<longleftrightarrow> set (fst st) = names \<and> distinct (fst st) \<and> routes_memo_ok h (snd st)"

lemma add_used_fold:
  "set (foldl (\<lambda>used name. add_used name used) used ns) = set used \<union> set ns \<and>
   (distinct used \<longrightarrow> distinct (foldl (\<lambda>used name. add_used name used) used ns))"
  by (induction ns arbitrary: used) (auto simp: add_used_def)

lemma add_filter_ok:
  assumes "refs_ok h st names" and "names_at api h f"
  shows "refs_ok h (add_filter api st f) (names \<union> set (filter_routes api f))"
proof (cases "ef_TypedConfig f")
  case None
  then show ?thesis using assms by (simp add: add_filter_def filter_routes_def)
next
  case (Some tc)
  then obtain p' where "passMemo_get (snd st) (an_addr tc) (\<lambda>p. (hcm_routes (GetHTTPConnectionManager api f), p)) =
      (hcm_routes (GetHTTPConnectionManager api f), p')" "routes_memo_ok h p'"
    using routes_memo_get [of h "snd st" "an_addr tc" "hcm_routes (GetHTTPConnectionManager api f)"] assms
    by (auto simp: refs_ok_def names_at_def)
  then show ?thesis
    using assms(1) Some add_used_fold [of "fst st" "hcm_routes (GetHTTPConnectionManager api f)"]
    by (simp add: add_filter_def filter_routes_def refs_ok_def)
qed

lemma add_filters_ok:
  assumes "refs_ok h st names" and "\<And>f. f \<in> set fs \<Longrightarrow> names_at api h f"
  shows "refs_ok h (foldl (add_filter api) st fs) (names \<union> (\<Union>f\<in>set fs. set (filter_routes api f)))"
  using assms
proof (induction fs arbitrary: st names)
  case (Cons f fs)
  have "refs_ok h (add_filter api st f) (names \<union> set (filter_routes api f))"
    using add_filter_ok [OF Cons.prems(1), of api f] Cons.prems(2) by simp
  from Cons.IH [OF this] Cons.prems(2) show ?case by (simp add: Un_assoc)
qed simp

lemma foldl_add_chain:
  "foldl (add_chain api) st fcs = foldl (add_filter api) st (concat (map ec_Filters fcs))"
  by (induction fcs arbitrary: st) (simp_all add: add_chain_def)

lemma add_listener_filters:
  "add_listener api st (RListener l) = foldl (add_filter api) st (filters_of l)"
  by (simp add: add_listener_def filters_of_def foldl_add_chain add_chain_def Let_def split: option.split)

definition resource_at :: "'snap api \<Rightarrow> (nat \<Rightarrow> string list) \<Rightarrow> Resource \<Rightarrow> bool" where
  "resource_at api h r \<longleftrightarrow> (\<forall>l. r = RListener l \<longrightarrow> (\<forall>f\<in>set (filters_of l). names_at api h f))"

lemma add_listener_ok:
  assumes "refs_ok h st names" and "resource_at api h r"
  shows "refs_ok h (add_listener api st r) (names \<union> resource_routes api r)"
proof (cases r)
  case (RListener l)
  then show ?thesis
    using add_filters_ok [OF assms(1), of "filters_of l" api] assms(2)
    by (simp add: add_listener_filters resource_routes_def resource_at_def)
qed (use assms(1) in \<open>simp_all add: add_listener_def resource_routes_def\<close>)

lemma routeReferences_ok:
  assumes "routes_memo_ok h memo" and "\<And>r. r \<in> set ls \<Longrightarrow> resource_at api h r"
  shows "refs_ok h (routeReferences api ls memo) (\<Union>r\<in>set ls. resource_routes api r)"
proof -
  have "refs_ok h st names \<Longrightarrow> refs_ok h (foldl (add_listener api) st ls) (names \<union> (\<Union>r\<in>set ls. resource_routes api r))"
    for st names
    using assms(2)
  proof (induction ls arbitrary: st names)
    case (Cons r ls)
    have "refs_ok h (add_listener api st r) (names \<union> resource_routes api r)"
      using add_listener_ok [OF Cons.prems(1), of api r] Cons.prems(2) by simp
    from Cons.IH [OF this] Cons.prems(2) show ?case by (simp add: Un_assoc)
  qed simp
  from this [of "([], memo)" "{}"] show ?thesis using assms(1) by (simp add: routeReferences_def refs_ok_def)
qed

section \<open>The consistency check\<close>

lemma first_unlisted_None: "first_unlisted typ names ns = None \<longleftrightarrow> set ns \<subseteq> set names"
  by (induction ns) auto

lemma check_refs_None:
  assumes "gmap_ok items"
  shows "check_refs typ names items = None \<longleftrightarrow> set names = set (mkeys items)"
proof -
  have items: "length items = card (set (mkeys items))"
    using assms distinct_card [of "map fst items"] by (simp add: gmap_ok_def mkeys_def)
  have names: "length (remdups names) = card (set names)" by (simp add: length_remdups_card_conv)
  show ?thesis
  proof
    assume "check_refs typ names items = None"
    then have "card (set names) = card (set (mkeys items))" "set (mkeys items) \<subseteq> set names"
      using items names by (auto simp: check_refs_def first_unlisted_None split: if_splits)
    then show "set names = set (mkeys items)" by (metis card_subset_eq finite_set)
  next
    assume "set names = set (mkeys items)"
    then show "check_refs typ names items = None"
      using items names by (simp add: check_refs_def first_unlisted_None)
  qed
qed

section \<open>One node\<close>

definition all_at :: "'snap api \<Rightarrow> (nat \<Rightarrow> pmsg) \<Rightarrow> (nat \<Rightarrow> string list) \<Rightarrow> node_resources \<Rightarrow> bool" where
  "all_at api h g res \<longleftrightarrow>
     (\<forall>t. \<forall>r\<in>set (mlist res t). at_message (ProtoReflect api r) h \<and> resource_at api g r)"

definition memos_ok :: "(nat \<Rightarrow> pmsg) \<Rightarrow> (nat \<Rightarrow> string list) \<Rightarrow> snapshotMemo \<Rightarrow> bool" where
  "memos_ok h g m \<longleftrightarrow> memo_ok sha256 h (sm_hashes m) \<and> routes_memo_ok g (sm_routes m)"

lemma memos_ok_endPass: "memos_ok h g m \<Longrightarrow> memos_ok h g (snapshotMemo_endPass m)"
  by (simp add: memos_ok_def snapshotMemo_endPass_def memo_ok_endPass routes_memo_ok_endPass)

definition used_routes :: "'snap api \<Rightarrow> node_resources \<Rightarrow> string set" where
  "used_routes api res = (\<Union>r\<in>set (mlist res (ListenerType api)). resource_routes api r)"

definition pruned :: "'snap api \<Rightarrow> node_resources \<Rightarrow> node_resources" where
  "pruned api res =
     mset_at (RouteType api)
       (filter (\<lambda>r. GetResourceName api r \<in> used_routes api res) (mlist res (RouteType api))) res"

lemma mlist_reflect: "mlist (reflect api res) k = map (ProtoReflect api) (mlist res k)"
  by (induction res) (auto simp: reflect_def mlist_def mget_def)

text \<open>The snapshot a node should get.\<close>

definition node_snapshot ::
  "'snap api \<Rightarrow> string \<Rightarrow> node_resources \<Rightarrow> 'snap SnapshotConfig \<Rightarrow> bool" where
  "node_snapshot api n res sc \<longleftrightarrow>
     sc_NodeID sc = n \<and> sc_Version sc = GetHash (reflect api (pruned api res)) \<and>
         NewSnapshot api (sc_Version sc) (pruned api res) = Inr (sc_Snapshot sc) \<and>
         (\<exists>used. set used = used_routes api res \<and> distinct used \<and>
            sc_Inconsistent sc = consistent api (sc_Snapshot sc) used)"

lemma generate_node_ok:
  assumes "memos_ok h g memo" and "all_at api h g res"
    and "generate_node api n res memo = (r, memo')"
  shows "memos_ok h g memo' \<and>
    (case r of Inl e \<Rightarrow> True
     | Inr sc \<Rightarrow> node_snapshot api n res sc)"
proof -
  obtain used routes where u: "routeReferences api (mlist res (ListenerType api)) (sm_routes memo) = (used, routes)"
    by force
  have ref: "refs_ok g (used, routes) (used_routes api res)"
    using routeReferences_ok [of g "sm_routes memo" "mlist res (ListenerType api)" api] assms(1,2) u
    by (simp add: memos_ok_def all_at_def used_routes_def)
  then have pr: "pruneUnreferencedRoutes api res used = pruned api res"
    by (simp add: pruneUnreferencedRoutes_def pruned_def refs_ok_def)
  have at: "at_message m h" if "m \<in> set (mlist (reflect api (pruned api res)) k)" for k m
    using that assms(2) by (auto simp: mlist_reflect pruned_def all_at_def split: if_splits)
  obtain hashes where hh: "hasher_resources sha256 (sm_hashes memo) (reflect api (pruned api res)) =
      (d_resources sha256 (reflect api (pruned api res)), hashes)" "memo_ok sha256 h hashes"
  proof -
    have "computes sha256 h (sm_hashes memo) (d_resources sha256 (reflect api (pruned api res)))
        (hasher_resources sha256 (sm_hashes memo) (reflect api (pruned api res)))"
      by (rule computes_resources) (rule at)
    then show ?thesis using assms(1) that by (auto simp: memos_ok_def dest: computesD)
  qed
  have v: "GetHash (reflect api (pruned api res)) = d_resources sha256 (reflect api (pruned api res))"
    by (rule GetHash_pure) (rule at)
  show ?thesis
    using assms(3) ref hh v unfolding generate_node_def u prod.case pr Let_def
    by (auto simp: memos_ok_def refs_ok_def node_snapshot_def split: sum.splits)
qed

lemma generate_nodes_ok:
  assumes "memos_ok h g memo" and "\<And>n res. (n, res) \<in> set rs \<Longrightarrow> all_at api h g res"
    and "generate_nodes api rs memo = (Inr scs, memo')"
  shows "memos_ok h g memo' \<and> map sc_NodeID scs = map fst rs \<and>
    (\<forall>sc\<in>set scs. \<exists>res. (sc_NodeID sc, res) \<in> set rs \<and> node_snapshot api (sc_NodeID sc) res sc)"
  using assms
proof (induction rs arbitrary: memo scs)
  case (Cons e rs)
  obtain n res where e: "e = (n, res)" by force
  obtain r m1 where g1: "generate_node api n res memo = (r, m1)" by force
  with Cons.prems(3) e obtain sc where r: "r = Inr sc" by (cases r) auto
  obtain r2 m2 where g2: "generate_nodes api rs m1 = (r2, m2)" by force
  with Cons.prems(3) e g1 r obtain scs2 where r2: "r2 = Inr scs2" "scs = sc # scs2" "m2 = memo'"
    by (cases r2) auto
  have 1: "memos_ok h g m1 \<and> node_snapshot api n res sc"
    using generate_node_ok [OF Cons.prems(1) _ g1] Cons.prems(2) [of n res] e r by simp
  have 2: "memos_ok h g memo' \<and> map sc_NodeID scs2 = map fst rs \<and>
    (\<forall>sc\<in>set scs2. \<exists>res. (sc_NodeID sc, res) \<in> set rs \<and> node_snapshot api (sc_NodeID sc) res sc)"
    by (rule Cons.IH [of m1]) (use 1 Cons.prems(2) g2 r2 in auto)
  have n: "sc_NodeID sc = n" using 1 by (simp add: node_snapshot_def)
  show ?case using 1 2 n r2(2) e by auto
qed simp

section \<open>All nodes\<close>

text \<open>A node has an entry exactly when some resource was added for it.\<close>

definition entries_filled :: "resources \<Rightarrow> bool" where
  "entries_filled rs \<longleftrightarrow> (\<forall>n. n \<in> set (mkeys rs) \<longleftrightarrow> (\<exists>t. mlist (node_entry rs n) t \<noteq> []))"

lemma mkeys_mset_at [simp]: "set (mkeys (mset_at k v m)) = insert k (set (mkeys m))"
  by (simp add: mkeys_def mset_at_def dom_update)

lemma mkeys_add_to_node: "set (mkeys (add_to_node res t rs k)) = insert k (set (mkeys rs))"
  by (simp add: add_to_node_def Let_def)

lemma add_to_node_filled: "entries_filled rs \<Longrightarrow> entries_filled (add_to_node res t rs k)"
proof (unfold entries_filled_def, rule allI)
  fix n
  assume rs: "\<forall>n. n \<in> set (mkeys rs) \<longleftrightarrow> (\<exists>t. mlist (node_entry rs n) t \<noteq> [])"
  show "n \<in> set (mkeys (add_to_node res t rs k)) \<longleftrightarrow>
      (\<exists>t'. mlist (node_entry (add_to_node res t rs k) n) t' \<noteq> [])"
  proof (cases "n = k")
    case True
    have "mlist (node_entry (add_to_node res t rs k) n) t \<noteq> []"
      by (simp add: node_entry_add_to_node True)
    then show ?thesis using True by (auto simp: mkeys_add_to_node)
  next
    case False
    then show ?thesis using rs by (simp add: node_entry_add_to_node mkeys_add_to_node)
  qed
qed

lemma addResource_filled: "entries_filled rs \<Longrightarrow> entries_filled (addResource ks res t rs)"
  by (induction ks arbitrary: rs) (simp_all add: addResource_def add_to_node_filled)

lemma collect_filled: "entries_filled rs \<Longrightarrow> entries_filled (collect x t es rs)"
proof (induction es arbitrary: rs)
  case (Cons e es)
  have "entries_filled rs \<Longrightarrow> entries_filled (foldl (\<lambda>rs res. addResource (targetNodes s x) res t rs) rs v)" for s v rs
    by (induction v arbitrary: rs) (simp_all add: addResource_filled)
  then show ?case using Cons by (simp add: collect_def case_prod_unfold)
qed (simp add: collect_def)

lemma collect_resources_filled: "entries_filled (collect_resources api x)"
proof -
  have "entries_filled []" by (simp add: entries_filled_def mkeys_def node_entry_def)
  then show ?thesis
    by (simp add: collect_resources_def getResourcesFromEndpointConfigs_def getResourcesFromRouteConfigs_def
      getResourcesFromClusterConfigs_def getResourcesFromListenerConfigs_def
      getResourcesFromSecretConfigs_def collect_filled)
qed

definition configured :: "Config \<Rightarrow> string \<Rightarrow> bool" where
  "configured x n \<longleftrightarrow> stored_for x (SecretConfigs x) n \<noteq> [] \<or> stored_for x (ListenerConfigs x) n \<noteq> [] \<or>
     stored_for x (ClusterConfigs x) n \<noteq> [] \<or> stored_for x (RouteConfigs x) n \<noteq> [] \<or> node_endpoints x n \<noteq> []"

lemma collected_other:
  "t \<notin> {SecretType api, ListenerType api, ClusterType api, RouteType api, EndpointType api} \<Longrightarrow>
     mlist (node_entry (collect_resources api x) n) t = []"
  by (simp add: collect_resources_def getResourcesFromEndpointConfigs_def getResourcesFromRouteConfigs_def
      getResourcesFromClusterConfigs_def getResourcesFromListenerConfigs_def getResourcesFromSecretConfigs_def
      node_entry_collect) (simp add: node_entry_def)

lemma node_keys:
  assumes "types_ok api"
  shows "n \<in> set (mkeys (collect_resources api x)) \<longleftrightarrow> configured x n"
proof -
  have "n \<in> set (mkeys (collect_resources api x)) \<longleftrightarrow>
      (\<exists>t. mlist (node_entry (collect_resources api x) n) t \<noteq> [])"
    using collect_resources_filled [of api x] by (simp add: entries_filled_def)
  also have "\<dots> \<longleftrightarrow> (\<exists>t\<in>{SecretType api, ListenerType api, ClusterType api, RouteType api, EndpointType api}.
      mlist (node_entry (collect_resources api x) n) t \<noteq> [])"
    using collected_other [of _ api x n] by blast
  finally show ?thesis by (simp add: collected [OF assms(1)] configured_def node_routes_def)
qed

lemma node_entry_mem:
  "(n, res) \<in> set (collect_resources api x) \<Longrightarrow> node_entry (collect_resources api x) n = res"
  by (simp add: node_entry_def in_set_mget [OF collect_resources_ok])

definition listener_routes :: "'snap api \<Rightarrow> Listener \<Rightarrow> string set" where
  "listener_routes api l = (\<Union>f\<in>set (filters_of l). set (filter_routes api f))"

definition referenced :: "'snap api \<Rightarrow> Config \<Rightarrow> string \<Rightarrow> string set" where
  "referenced api x n = (\<Union>l\<in>set (stored_for x (ListenerConfigs x) n). listener_routes api l)"

definition heap_ok :: "'snap api \<Rightarrow> Config \<Rightarrow> (nat \<Rightarrow> pmsg) \<Rightarrow> (nat \<Rightarrow> string list) \<Rightarrow> bool" where
  "heap_ok api x h g \<longleftrightarrow> (\<forall>(n, res)\<in>set (collect_resources api x). all_at api h g res)"

text \<open>The contents a node's snapshot should have.\<close>

definition contents :: "'snap api \<Rightarrow> Config \<Rightarrow> string \<Rightarrow> node_resources \<Rightarrow> bool" where
  "contents api x n res \<longleftrightarrow>
     mlist res (SecretType api) = map RSecret (stored_for x (SecretConfigs x) n) \<and>
     mlist res (ListenerType api) = map RListener (stored_for x (ListenerConfigs x) n) \<and>
     mlist res (ClusterType api) = map RCluster (stored_for x (ClusterConfigs x) n) \<and>
     mlist res (EndpointType api) = node_endpoints x n \<and>
     mlist res (RouteType api) = filter (\<lambda>r. GetResourceName api r \<in> referenced api x n) (node_routes x n)"

lemma used_routes_referenced:
  assumes "types_ok api"
  shows "used_routes api (node_entry (collect_resources api x) n) = referenced api x n"
  by (auto simp: used_routes_def collected(2) [OF assms] referenced_def resource_routes_def listener_routes_def)

lemma pruned_contents:
  assumes "types_ok api"
  shows "contents api x n (pruned api (node_entry (collect_resources api x) n))"
  using assms unfolding contents_def pruned_def used_routes_referenced [OF assms] types_ok_def
  by (auto simp: collected [OF assms])

lemma generated:
  assumes "types_ok api" and "heap_ok api x h g" and "memos_ok h g (memo_of x)"
    and "GenerateSnapshotsV2 api x = (Inr scs, x')"
  shows "memos_ok h g (memo_of x') \<and> distinct (map sc_NodeID scs) \<and>
    (\<forall>n. n \<in> sc_NodeID ` set scs \<longleftrightarrow> configured x n) \<and>
    (\<forall>sc\<in>set scs. \<exists>res used. contents api x (sc_NodeID sc) res \<and> sc_Version sc = GetHash (reflect api res) \<and>
       NewSnapshot api (sc_Version sc) res = Inr (sc_Snapshot sc) \<and>
       set used = referenced api x (sc_NodeID sc) \<and> sc_Inconsistent sc = consistent api (sc_Snapshot sc) used)"
proof -
  obtain memo' where g: "generate_nodes api (collect_resources api x) (memo_of x) = (Inr scs, memo')"
      and x': "x' = x\<lparr>memo_of := snapshotMemo_endPass memo'\<rparr>"
    using assms(4) by (auto simp: GenerateSnapshotsV2_def split: prod.splits)
  have at: "(n, res) \<in> set (collect_resources api x) \<Longrightarrow> all_at api h g res" for n res
    using assms(2) by (auto simp: heap_ok_def)
  have ok: "memos_ok h g memo' \<and> map sc_NodeID scs = map fst (collect_resources api x) \<and>
      (\<forall>sc\<in>set scs. \<exists>res. (sc_NodeID sc, res) \<in> set (collect_resources api x) \<and>
         node_snapshot api (sc_NodeID sc) res sc)"
    by (rule generate_nodes_ok [OF assms(3) _ g]) (rule at)
  have keys: "map sc_NodeID scs = mkeys (collect_resources api x)"
    using ok by (simp add: mkeys_def)
  have "\<exists>res used. contents api x (sc_NodeID sc) res \<and> sc_Version sc = GetHash (reflect api res) \<and>
       NewSnapshot api (sc_Version sc) res = Inr (sc_Snapshot sc) \<and>
       set used = referenced api x (sc_NodeID sc) \<and> sc_Inconsistent sc = consistent api (sc_Snapshot sc) used"
    if sc: "sc \<in> set scs" for sc
  proof -
    obtain res where "(sc_NodeID sc, res) \<in> set (collect_resources api x)" and n: "node_snapshot api (sc_NodeID sc) res sc"
      using ok sc by blast
    then have res: "node_entry (collect_resources api x) (sc_NodeID sc) = res" by (simp add: node_entry_mem)
    from n obtain used where "sc_Version sc = GetHash (reflect api (pruned api res))"
        "NewSnapshot api (sc_Version sc) (pruned api res) = Inr (sc_Snapshot sc)"
        "set used = used_routes api res" "sc_Inconsistent sc = consistent api (sc_Snapshot sc) used"
      unfolding node_snapshot_def by blast
    moreover have "contents api x (sc_NodeID sc) (pruned api res)"
      using pruned_contents [OF assms(1), of x "sc_NodeID sc"] unfolding res .
    moreover have "used_routes api res = referenced api x (sc_NodeID sc)"
      using used_routes_referenced [OF assms(1), of x "sc_NodeID sc"] unfolding res .
    ultimately show ?thesis by blast
  qed
  moreover have "memos_ok h g (memo_of x')" using ok x' by (simp add: memos_ok_endPass)
  moreover have "distinct (map sc_NodeID scs)"
    unfolding keys using collect_resources_ok [of api x] by (simp only: gmap_ok_def mkeys_def)
  moreover have "n \<in> sc_NodeID ` set scs \<longleftrightarrow> configured x n" for n
    unfolding set_map [symmetric] keys by (rule node_keys [OF assms(1)])
  ultimately show ?thesis by blast
qed

section \<open>References and resources agree\<close>

text \<open>
  The documented behaviour of the library: a snapshot indexes the resources of a type by name, the
  name of a cluster, route configuration or load assignment is its own, and the indexed clusters
  reference the endpoints of their EDS services.
\<close>

definition lookup_ok :: "'snap api \<Rightarrow> bool" where
  "lookup_ok api \<longleftrightarrow>
     (\<forall>v res snap. NewSnapshot api v res = Inr snap \<longrightarrow>
        (\<forall>t\<in>{ClusterType api, EndpointType api, RouteType api}.
           gmap_ok (GetResources api snap t) \<and>
           set (mkeys (GetResources api snap t)) = GetResourceName api ` set (mlist res t)) \<and>
        (distinct (map (GetResourceName api) (mlist res (ClusterType api))) \<longrightarrow> set (GetResourceReferences api (GetResources api snap (ClusterType api)) (EndpointType api)) =
          eds_name ` {c. RCluster c \<in> set (mlist res (ClusterType api)) \<and> cl_Type c = EDS})) \<and>
     (\<forall>c. GetResourceName api (RCluster c) = cl_Name c) \<and>
     (\<forall>r. GetResourceName api (RRoute r) = rcf_Name r) \<and>
     (\<forall>e. GetResourceName api (REndpoint e) = cla_ClusterName e)"

text \<open>EDS services the clusters of a node use, and the load assignments of the node.\<close>

definition eds_used :: "Config \<Rightarrow> string \<Rightarrow> string set" where
  "eds_used x n = eds_name ` {c \<in> set (stored_for x (ClusterConfigs x) n). cl_Type c = EDS}"

definition eds_present :: "Config \<Rightarrow> string \<Rightarrow> string set" where
  "eds_present x n =
     cla_ClusterName ` {e \<in> set (stored_for x (EndpointConfigs x) n). cla_ClusterName e \<in> set (edsEndpointNames x)}"

definition route_names :: "Config \<Rightarrow> string \<Rightarrow> string set" where
  "route_names x n = (\<lambda>rc. rcf_Name (rc_RouteConfiguration rc)) ` set (stored_for x (RouteConfigs x) n)"

lemma consistent_contents:
  assumes "lookup_ok api" and "contents api x n res" and "NewSnapshot api v res = Inr snap"
    and "set used = referenced api x n" and "distinct (map cl_Name (stored_for x (ClusterConfigs x) n))"
  shows "consistent api snap used = None \<longleftrightarrow> eds_used x n = eds_present x n \<and> referenced api x n \<subseteq> route_names x n"
proof -
  let ?refs = "GetResourceReferences api (GetResources api snap (ClusterType api)) (EndpointType api)"
  from assms(1,3) have ok: "gmap_ok (GetResources api snap (EndpointType api))"
      "gmap_ok (GetResources api snap (RouteType api))"
    and keys: "set (mkeys (GetResources api snap (EndpointType api))) = GetResourceName api ` set (mlist res (EndpointType api))"
      "set (mkeys (GetResources api snap (RouteType api))) = GetResourceName api ` set (mlist res (RouteType api))"
    and refs: "distinct (map (GetResourceName api) (mlist res (ClusterType api))) \<longrightarrow>
        set ?refs = eds_name ` {c. RCluster c \<in> set (mlist res (ClusterType api)) \<and> cl_Type c = EDS}"
    and names: "\<And>c. GetResourceName api (RCluster c) = cl_Name c" "\<And>r. GetResourceName api (RRoute r) = rcf_Name r" "\<And>e. GetResourceName api (REndpoint e) = cla_ClusterName e"
    by (simp_all add: lookup_ok_def)
  have "GetResourceName api ` set (mlist res (EndpointType api)) = eds_present x n"
    using assms(2) by (simp add: contents_def node_endpoints_def eds_present_def names image_image)
  moreover have "set ?refs = eds_used x n"
  proof -
    have "distinct (map (GetResourceName api) (mlist res (ClusterType api)))"
      using assms(2,5) by (simp add: contents_def names comp_def)
    then show ?thesis using refs assms(2) by (auto simp: contents_def eds_used_def)
  qed
  moreover have "GetResourceName api ` set (mlist res (RouteType api)) = referenced api x n \<inter> route_names x n"
    using assms(2) by (auto simp: contents_def node_routes_def route_names_def names filter_map image_image comp_def)
  ultimately show ?thesis
    using check_refs_None [OF ok(1), of "EndpointType api" ?refs] check_refs_None [OF ok(2), of "RouteType api" used]
    by (auto simp: consistent_def keys assms(4) split: option.split)
qed

lemma generated_consistent:
  assumes "types_ok api" and "heap_ok api x h g" and "memos_ok h g (memo_of x)"
    and "lookup_ok api" and "GenerateSnapshotsV2 api x = (Inr scs, x')" and "sc \<in> set scs"
    and "distinct (map cl_Name (stored_for x (ClusterConfigs x) (sc_NodeID sc)))"
  shows "sc_Inconsistent sc = None \<longleftrightarrow>
    eds_used x (sc_NodeID sc) = eds_present x (sc_NodeID sc) \<and>
    referenced api x (sc_NodeID sc) \<subseteq> route_names x (sc_NodeID sc)"
proof -
  obtain res used where "contents api x (sc_NodeID sc) res"
      and "NewSnapshot api (sc_Version sc) res = Inr (sc_Snapshot sc)"
      and "set used = referenced api x (sc_NodeID sc)" and i: "sc_Inconsistent sc = consistent api (sc_Snapshot sc) used"
    using generated [OF assms(1-3,5)] assms(6) by blast
  then show ?thesis unfolding i by (intro consistent_contents [OF assms(4) _ _ _ assms(7)])
qed

section \<open>A sample configuration\<close>

definition sample_name :: "Resource \<Rightarrow> string" where
  "sample_name r = (case r of RSecret s \<Rightarrow> sec_Name s | RListener l \<Rightarrow> el_Name l | RCluster c \<Rightarrow> cl_Name c
     | RRoute r \<Rightarrow> rcf_Name r | REndpoint e \<Rightarrow> cla_ClusterName e)"

definition sample_index :: "Resource list \<Rightarrow> (string, Resource) gmap" where
  "sample_index rs = foldl (\<lambda>m r. mset_at (sample_name r) r m) [] rs"

definition sample_api :: "(node_resources \<times> string) api" where
  "sample_api = \<lparr>SecretType = ''Secret'', ListenerType = ''Listener'', ClusterType = ''Cluster'',
     RouteType = ''Route'', EndpointType = ''Endpoint'', GetResourceName = sample_name,
     GetHTTPConnectionManager = (\<lambda>f. case ef_TypedConfig f of None \<Rightarrow> None
       | Some tc \<Rightarrow> (case an_message tc of AnyHCM h \<Rightarrow> Some h | _ \<Rightarrow> None)),
     NewSnapshot = (\<lambda>v res. Inr (res, v)), GetResources = (\<lambda>s t. sample_index (mlist (fst s) t)),
     GetResourceReferences = (\<lambda>m t. concat (map (\<lambda>(k, r). case r of RCluster c \<Rightarrow> if cl_Type c = EDS then [eds_name c] else [] | _ \<Rightarrow> []) m)),
     ProtoReflect = (\<lambda>r. PMsg (case r of RSecret s \<Rightarrow> 1 | RListener l \<Rightarrow> 2 | RCluster c \<Rightarrow> 3 | RRoute r \<Rightarrow> 4 | REndpoint e \<Rightarrow> 5)
        False [(1, FSingle (VStr (sample_name r)))] [])\<rparr>"

definition sample_hcm :: Filter where
  "sample_hcm = \<lparr>ef_Name = ''hcm'', ef_TypedConfig = Some \<lparr>an_addr = 7,
     an_message = AnyHCM \<lparr>hm_RdsName = ''web'', hm_ScopedRoutes = [], hm_CodecType = 0, hm_rest = []\<rparr>\<rparr>\<rparr>"

definition sample_edge :: Listener where
  "sample_edge = \<lparr>el_Name = ''edge'', el_FilterChains = [\<lparr>ec_Name = [], ec_FilterChainMatch = None,
     ec_Filters = [sample_hcm], ec_TransportSocket = None, ec_rest = []\<rparr>],
     el_DefaultFilterChain = None, el_UdpQuicOptions = None, el_Address = NoAddress, el_rest = []\<rparr>"

definition sample_route :: Route where
  "sample_route = \<lparr>om_Name = ''web'', om_Namespace = ''d'', om_CreationTimestamp = 1, om_Generation = 1,
     om_Annotations = [], rt_addr = 1, rt_ListenerRefs = [''edge''], rt_TLSSecretRef = [], rt_TLSSecretRefs = [],
     rt_FilterChainMatch = None, rt_RouteConfig = None,
     rt_HCM = \<lparr>hcm_RouteConfig = None, hcm_Rds = None, hcm_rest = []\<rparr>\<rparr>"

definition sample_placed :: RouteConfig where
  "sample_placed = \<lparr>rc_RouteConfiguration = \<lparr>rcf_Name = ''web'', rcf_rest = []\<rparr>, rc_Route = sample_route,
     rc_ListenerNames = [''edge''], rc_Matcher = None\<rparr>"

text \<open>Two nodes: both have the endpoints of service s, stored once under a key that names both; only the first has
  a cluster that uses them.\<close>

definition shared_key :: string where
  "shared_key = GetNodeID [(''nodes'', ''n2, n1''), (''clusters'', ''c'')]"

definition sample_config :: Config where
  "sample_config = (new_Config ''n1'' ''c'')
     \<lparr>ListenerConfigs := [(pair_id ''c'' ''n1'', [sample_edge])],
      RouteConfigs := [(pair_id ''c'' ''n1'', [sample_placed])],
      ClusterConfigs := [(pair_id ''c'' ''n1'', [\<lparr>cl_Name = ''s'', cl_Type = EDS, cl_EdsClusterConfig = None, cl_LoadAssignment = None, cl_rest = []\<rparr>])],
      EndpointConfigs := [(shared_key, [\<lparr>cla_ClusterName = ''s'', cla_Endpoints = [], cla_NamedEndpoints = [], cla_Policy = None, cla_rest = []\<rparr>])]\<rparr>"

lemma sample_types: "types_ok sample_api"
  by (simp add: types_ok_def sample_api_def)

lemma sample_index_ok: "gmap_ok (sample_index rs) \<and> set (mkeys (sample_index rs)) = sample_name ` set rs"
proof (induction rs rule: rev_induct)
  case (snoc r rs)
  then show ?case by (simp add: sample_index_def)
qed (simp add: sample_index_def mkeys_def)

lemma update_new: "k \<notin> fst ` set m \<Longrightarrow> AList.update k v m = m @ [(k, v)]"
  by (induction m) auto

lemma sample_index_distinct:
  "distinct (map sample_name rs) \<Longrightarrow> sample_index rs = map (\<lambda>r. (sample_name r, r)) rs"
  by (induction rs rule: rev_induct) (auto simp: sample_index_def mset_at_def update_new image_image)

lemma sample_lookup: "lookup_ok sample_api"
  unfolding lookup_ok_def sample_api_def
  by (auto simp: sample_index_ok sample_index_distinct sample_name_def split: Resource.splits if_splits)

lemma plain_sample: "plain ''c'' \<and> plain ''n1'' \<and> plain ''n2''"
  by code_simp

lemma sample_ids: "pair_id ''c'' ''n1'' \<noteq> pair_id ''c'' ''n2''"
  using pair_id_inj [of "''c''" "''n1''" "''c''" "''n2''"] plain_sample by auto

lemma sample_key:
  "times_named x (pair_id ''c'' ''n1'') n = (if n = pair_id ''c'' ''n1'' then 1 else 0)"
  "times_named x shared_key n = (if n = pair_id ''c'' ''n1'' \<or> n = pair_id ''c'' ''n2'' then 1 else 0)"
proof -
  show "times_named x (pair_id ''c'' ''n1'') n = (if n = pair_id ''c'' ''n1'' then 1 else 0)"
    by (rule times_named_pair) (simp_all add: plain_sample)
  have t: "text_ok [(''nodes'', ''n2, n1''), (''clusters'', ''c'')]" by code_simp
  have "sort (ParseCSV (mstr [(''nodes'', ''n2, n1''), (''clusters'', ''c'')] ''nodes'')) = [''n1'', ''n2'']"
    "sort (ParseCSV (mstr [(''nodes'', ''n2, n1''), (''clusters'', ''c'')] ''clusters'')) = [''c'']"
    by code_simp+
  then show "times_named x shared_key n = (if n = pair_id ''c'' ''n1'' \<or> n = pair_id ''c'' ''n2'' then 1 else 0)"
    using sample_ids by (auto simp: times_named_def shared_key_def decode_GetNodeID [OF t] named_pairs_def)
qed

lemma sample_stores:
  "stored_for sample_config (SecretConfigs sample_config) n = []"
  "stored_for sample_config (ListenerConfigs sample_config) n = (if n = pair_id ''c'' ''n1'' then [sample_edge] else [])"
  "stored_for sample_config (RouteConfigs sample_config) n = (if n = pair_id ''c'' ''n1'' then [sample_placed] else [])"
  "stored_for sample_config (ClusterConfigs sample_config) n = (if n = pair_id ''c'' ''n1'' then
     [\<lparr>cl_Name = ''s'', cl_Type = EDS, cl_EdsClusterConfig = None, cl_LoadAssignment = None, cl_rest = []\<rparr>] else [])"
  "stored_for sample_config (EndpointConfigs sample_config) n = (if n = pair_id ''c'' ''n1'' \<or> n = pair_id ''c'' ''n2'' then
     [\<lparr>cla_ClusterName = ''s'', cla_Endpoints = [], cla_NamedEndpoints = [], cla_Policy = None, cla_rest = []\<rparr>] else [])"
  "edsEndpointNames sample_config = [''s'']"
  by (simp_all add: stored_for_def sample_key sample_config_def new_Config_def edsEndpointNames_def eds_name_def)

definition sample_heap :: "nat \<Rightarrow> pmsg" where
  "sample_heap a = PMsg a False [(1, FSingle (VStr
     (if a = 2 then ''edge'' else if a = 4 then ''web'' else ''s'')))] []"

lemma sample_heap_ok: "heap_ok sample_api sample_config sample_heap (\<lambda>a. [''web''])"
proof -
  have "all_at sample_api sample_heap (\<lambda>a. [''web'']) res" if m: "(n, res) \<in> set (collect_resources sample_api sample_config)" for n res
  proof (unfold all_at_def, intro allI ballI)
    fix t r
    assume r: "r \<in> set (mlist res t)"
    have res: "node_entry (collect_resources sample_api sample_config) n = res" using node_entry_mem [OF m] .
    have t: "t \<in> {SecretType sample_api, ListenerType sample_api, ClusterType sample_api, RouteType sample_api, EndpointType sample_api}"
      using r collected_other [of t sample_api sample_config n] res by (cases "mlist res t") auto
    have "r \<in> {RListener sample_edge, RRoute \<lparr>rcf_Name = ''web'', rcf_rest = []\<rparr>,
        RCluster \<lparr>cl_Name = ''s'', cl_Type = EDS, cl_EdsClusterConfig = None, cl_LoadAssignment = None, cl_rest = []\<rparr>,
        REndpoint \<lparr>cla_ClusterName = ''s'', cla_Endpoints = [], cla_NamedEndpoints = [], cla_Policy = None, cla_rest = []\<rparr>}"
      using t r collected [OF sample_types, of sample_config n] sample_ids unfolding res
      by (auto simp: sample_stores node_routes_def node_endpoints_def sample_placed_def split: if_splits)
    then show "at_message (ProtoReflect sample_api r) sample_heap \<and> resource_at sample_api (\<lambda>a. [''web'']) r"
      by (auto simp: sample_api_def sample_heap_def sample_name_def sample_edge_def resource_at_def filters_of_def
          names_at_def sample_hcm_def hcm_routes_def)
  qed
  then show ?thesis by (auto simp: heap_ok_def)
qed

lemma sample_memos: "memos_ok h g (memo_of sample_config)"
  by (simp add: memos_ok_def sample_config_def new_Config_def)

lemma sample_generates: "\<exists>scs x'. GenerateSnapshotsV2 sample_api sample_config = (Inr scs, x')"
proof -
  have "\<exists>scs m'. generate_nodes sample_api rs m = (Inr scs, m')" for rs m
  proof (induction rs arbitrary: m)
    case (Cons e rs)
    obtain n res where e: "e = (n, res)" by force
    have "\<exists>sc m'. generate_node sample_api n res m = (Inr sc, m')"
      by (auto simp: generate_node_def sample_api_def Let_def split: prod.split)
    then obtain sc m1 where g: "generate_node sample_api n res m = (Inr sc, m1)" by blast
    obtain scs m2 where "generate_nodes sample_api rs m1 = (Inr scs, m2)" using Cons.IH by blast
    then show ?case using e g by simp
  qed simp
  then obtain scs m' where "generate_nodes sample_api (collect_resources sample_api sample_config)
      (memo_of sample_config) = (Inr scs, m')" by blast
  then show ?thesis by (simp add: GenerateSnapshotsV2_def)
qed

section \<open>Properties\<close>

text \<open>C21. What every node gets, whatever the stores hold: a resource is configured for the pairs of the clusters and
  nodes its key lists, however many (the configured node for a key without nodes, the configured pair for a key
  without both), once for each time the key names the node. Every node with configured resources gets exactly
  one snapshot, no other node does, and its contents are the node's secrets, listeners and clusters in order, its
  load assignments of EDS services, and those of its routes that a listener of the node references. The version is
  the hash of exactly these contents, and the caches stay correct for the next pass. The five type URLs of the
  library are assumed distinct, and a message that is in the heap to keep its contents while it is cached.\<close>

theorem snapshot_contents:
  assumes "types_ok api" and "heap_ok api x h g" and "memos_ok h g (memo_of x)"
    and "GenerateSnapshotsV2 api x = (Inr scs, x')"
  shows "memos_ok h g (memo_of x') \<and> distinct (map sc_NodeID scs) \<and>
    (\<forall>n. n \<in> sc_NodeID ` set scs \<longleftrightarrow> configured x n) \<and>
    (\<forall>sc\<in>set scs. \<exists>res. contents api x (sc_NodeID sc) res \<and> sc_Version sc = GetHash (reflect api res) \<and>
       NewSnapshot api (sc_Version sc) res = Inr (sc_Snapshot sc))"
  using generated [OF assms] by blast

text \<open>One entry of the endpoint store, whose key names two nodes, is enough for both to get a snapshot.\<close>

lemma snapshot_contents_witness:
  "\<exists>scs x'. GenerateSnapshotsV2 sample_api sample_config = (Inr scs, x') \<and> mkeys (EndpointConfigs sample_config) = [shared_key] \<and>
     pair_id ''c'' ''n1'' \<in> sc_NodeID ` set scs \<and> pair_id ''c'' ''n2'' \<in> sc_NodeID ` set scs"
proof -
  obtain scs x' where g: "GenerateSnapshotsV2 sample_api sample_config = (Inr scs, x')"
    using sample_generates by blast
  have "configured sample_config (pair_id ''c'' ''n1'')" "configured sample_config (pair_id ''c'' ''n2'')"
    by (simp_all add: configured_def sample_stores node_endpoints_def)
  then show ?thesis
    using snapshot_contents [OF sample_types sample_heap_ok sample_memos g] g
    by (auto simp: sample_config_def mkeys_def)
qed

text \<open>A snapshot passes the consistency check exactly when every route its listeners reference is
  placed on the node and the EDS services of its clusters are the services it has endpoints for.\<close>

theorem consistent_iff_resolved:
  assumes "types_ok api" and "heap_ok api x h g" and "memos_ok h g (memo_of x)"
    and "lookup_ok api" and "GenerateSnapshotsV2 api x = (Inr scs, x')" and "sc \<in> set scs"
    and "distinct (map cl_Name (stored_for x (ClusterConfigs x) (sc_NodeID sc)))"
  shows "sc_Inconsistent sc = None \<longleftrightarrow>
    eds_used x (sc_NodeID sc) = eds_present x (sc_NodeID sc) \<and>
    referenced api x (sc_NodeID sc) \<subseteq> route_names x (sc_NodeID sc)"
  by (rule generated_consistent [OF assms])

lemma sample_clusters_distinct: "distinct (map cl_Name (stored_for sample_config (ClusterConfigs sample_config) n))"
  by (simp add: sample_stores)

lemma sample_snapshot:
  assumes "GenerateSnapshotsV2 sample_api sample_config = (Inr scs, x')"
  shows "\<exists>sc\<in>set scs. sc_NodeID sc = pair_id ''c'' ''n1''" "\<exists>sc\<in>set scs. sc_NodeID sc = pair_id ''c'' ''n2''"
proof -
  have "configured sample_config (pair_id ''c'' ''n1'')" "configured sample_config (pair_id ''c'' ''n2'')"
    by (simp_all add: configured_def sample_stores node_endpoints_def)
  then have "pair_id ''c'' ''n1'' \<in> sc_NodeID ` set scs" "pair_id ''c'' ''n2'' \<in> sc_NodeID ` set scs"
    using generated [OF sample_types sample_heap_ok sample_memos assms] by blast+
  then show "\<exists>sc\<in>set scs. sc_NodeID sc = pair_id ''c'' ''n1''" "\<exists>sc\<in>set scs. sc_NodeID sc = pair_id ''c'' ''n2''"
    by (auto simp: image_iff)
qed

lemma consistent_iff_resolved_witness:
  "\<exists>scs x' sc. GenerateSnapshotsV2 sample_api sample_config = (Inr scs, x') \<and> sc \<in> set scs \<and>
     sc_Inconsistent sc = None"
proof -
  obtain scs x' where g: "GenerateSnapshotsV2 sample_api sample_config = (Inr scs, x')"
    using sample_generates by blast
  obtain sc where sc: "sc \<in> set scs" "sc_NodeID sc = pair_id ''c'' ''n1''"
    using sample_snapshot [OF g] by blast
  have "eds_used sample_config (pair_id ''c'' ''n1'') = {''s''}"
    by (auto simp: eds_used_def sample_stores eds_name_def image_iff)
  moreover have "eds_present sample_config (pair_id ''c'' ''n1'') = {''s''}"
    by (auto simp: eds_present_def sample_stores image_iff)
  moreover have "route_names sample_config (pair_id ''c'' ''n1'') = {''web''}"
    by (simp add: route_names_def sample_stores sample_placed_def)
  moreover have "referenced sample_api sample_config (pair_id ''c'' ''n1'') \<subseteq> {''web''}"
    by (simp add: referenced_def sample_stores listener_routes_def filters_of_def sample_edge_def
        filter_routes_def sample_hcm_def hcm_routes_def sample_api_def)
  ultimately have "eds_used sample_config (pair_id ''c'' ''n1'') = eds_present sample_config (pair_id ''c'' ''n1'') \<and>
      referenced sample_api sample_config (pair_id ''c'' ''n1'') \<subseteq> route_names sample_config (pair_id ''c'' ''n1'')"
    by simp
  then have "sc_Inconsistent sc = None"
    using consistent_iff_resolved [OF sample_types sample_heap_ok sample_memos sample_lookup g sc(1)
        sample_clusters_distinct] unfolding sc(2) by blast
  then show ?thesis using g sc(1) by blast
qed

text \<open>The endpoint filter looks at the clusters of all nodes: a load assignment of a service that only
  clusters of other nodes use is still published, and makes the node's snapshot inconsistent, so
  the node is kept on its previous snapshot.\<close>

theorem foreign_service_blocks_node:
  assumes "types_ok api" and "heap_ok api x h g" and "memos_ok h g (memo_of x)"
    and "lookup_ok api" and "GenerateSnapshotsV2 api x = (Inr scs, x')" and "sc \<in> set scs"
    and "distinct (map cl_Name (stored_for x (ClusterConfigs x) (sc_NodeID sc)))"
    and "e \<in> set (stored_for x (EndpointConfigs x) (sc_NodeID sc))"
    and "c \<in> set (stored_for x (ClusterConfigs x) m)" and "cl_Type c = EDS" and "eds_name c = cla_ClusterName e"
    and "cla_ClusterName e \<notin> eds_used x (sc_NodeID sc)"
  shows "sc_Inconsistent sc \<noteq> None"
proof -
  obtain s vs where "(s, vs) \<in> set (ClusterConfigs x)" "c \<in> set vs"
    using assms(9) in_stored_for [of c x "ClusterConfigs x" m] by blast
  then have "cla_ClusterName e \<in> set (edsEndpointNames x)"
    using assms(10,11) unfolding edsEndpointNames_def by (auto intro!: bexI [of _ "(s, vs)"] image_eqI [of _ _ c])
  then have "cla_ClusterName e \<in> eds_present x (sc_NodeID sc)" using assms(8) by (auto simp: eds_present_def)
  then show ?thesis using generated_consistent [OF assms(1-7)] assms(12) by blast
qed

lemma foreign_service_blocks_node_witness:
  "\<exists>scs x' sc. GenerateSnapshotsV2 sample_api sample_config = (Inr scs, x') \<and> sc \<in> set scs \<and>
     sc_Inconsistent sc \<noteq> None"
proof -
  obtain scs x' where g: "GenerateSnapshotsV2 sample_api sample_config = (Inr scs, x')"
    using sample_generates by blast
  obtain sc where sc: "sc \<in> set scs" "sc_NodeID sc = pair_id ''c'' ''n2''"
    using sample_snapshot [OF g] by blast
  have "sc_Inconsistent sc \<noteq> None"
    by (rule foreign_service_blocks_node [OF sample_types sample_heap_ok sample_memos sample_lookup
          g sc(1) sample_clusters_distinct, where e = "\<lparr>cla_ClusterName = ''s'', cla_Endpoints = [], cla_NamedEndpoints = [], cla_Policy = None, cla_rest = []\<rparr>"
          and m = "pair_id ''c'' ''n1''"
          and c = "\<lparr>cl_Name = ''s'', cl_Type = EDS, cl_EdsClusterConfig = None, cl_LoadAssignment = None, cl_rest = []\<rparr>"])
      (use sample_ids in \<open>simp_all add: sc(2) sample_stores eds_name_def eds_used_def\<close>)
  then show ?thesis using g sc by blast
qed

end
