(* ===== verification/Store.thy ===== *)
theory Store
  imports Config
begin

text \<open>
  The interface of the per-node stores of \<open>xds.Config\<close>: every controller keeps, for each node, a
  list of named resources, puts one by replacing the entry of that name or appending, and removes
  by name. The laws are stated for lookup by name; what the clients need (several nodes at once,
  nothing else changes) is proved once here. The route and the listener stores interpret it.
\<close>

section \<open>Lists of named values\<close>

fun put_named :: "('v \<Rightarrow> string) \<Rightarrow> 'v \<Rightarrow> 'v list \<Rightarrow> 'v list" where
  "put_named name v [] = [v]"
| "put_named name v (x # xs) = (if name x = name v then v # xs else x # put_named name v xs)"

fun delete_named :: "('v \<Rightarrow> string) \<Rightarrow> string \<Rightarrow> 'v list \<Rightarrow> 'v list" where
  "delete_named name k [] = []"
| "delete_named name k (x # xs) = (if name x = k then xs else x # delete_named name k xs)"

definition find_named :: "('v \<Rightarrow> string) \<Rightarrow> string \<Rightarrow> 'v list \<Rightarrow> 'v option" where
  "find_named name k xs = List.find (\<lambda>x. name x = k) xs"

lemma find_named_simps [simp]:
  "find_named name k [] = None"
  "find_named name k (x # xs) = (if name x = k then Some x else find_named name k xs)"
  by (simp_all add: find_named_def)

lemma find_named_None: "find_named name k xs = None \<longleftrightarrow> k \<notin> name ` set xs"
  by (induction xs) auto

lemma find_named_Some: "find_named name k xs = Some x \<Longrightarrow> x \<in> set xs \<and> name x = k"
  by (induction xs) (auto split: if_splits)

lemma find_named_unique:
  "distinct (map name xs) \<Longrightarrow> x \<in> set xs \<Longrightarrow> find_named name (name x) xs = Some x"
  by (induction xs) auto

lemma find_put_named:
  "find_named name k (put_named name v xs) = (if k = name v then Some v else find_named name k xs)"
  by (induction xs) auto

lemma names_put_named: "name ` set (put_named name v xs) = insert (name v) (name ` set xs)"
  by (induction xs) auto

lemma distinct_put_named: "distinct (map name xs) \<Longrightarrow> distinct (map name (put_named name v xs))"
proof (induction xs)
  case (Cons x xs)
  then show ?case using names_put_named [of name v xs] by auto
qed simp

lemma delete_named_absent: "k \<notin> name ` set xs \<Longrightarrow> delete_named name k xs = xs"
  by (induction xs) auto

lemma find_delete_named:
  "distinct (map name xs) \<Longrightarrow>
     find_named name j (delete_named name k xs) = (if j = k then None else find_named name j xs)"
  by (induction xs) (auto simp: find_named_None)

lemma set_delete_named: "set (delete_named name k xs) \<subseteq> set xs"
  by (induction xs) auto

lemma distinct_delete_named: "distinct (map name xs) \<Longrightarrow> distinct (map name (delete_named name k xs))"
proof (induction xs)
  case (Cons x xs)
  then show ?case using set_delete_named [of name k xs] by (auto simp: image_iff)
qed simp

section \<open>The interface\<close>

type_synonym 'v store = "(string, 'v list) gmap"

definition lookup :: "('v \<Rightarrow> string) \<Rightarrow> 'v store \<Rightarrow> string \<Rightarrow> string \<Rightarrow> 'v option" where
  "lookup name s node k = find_named name k (mlist s node)"

definition unique_names :: "('v \<Rightarrow> string) \<Rightarrow> 'v store \<Rightarrow> bool" where
  "unique_names name s \<longleftrightarrow> (\<forall>node. distinct (map name (mlist s node)))"

locale node_store =
  fixes name :: "'v \<Rightarrow> string"
    and put :: "string \<Rightarrow> 'v \<Rightarrow> 'v store \<Rightarrow> 'v store"
    and remove :: "string \<Rightarrow> string \<Rightarrow> 'v store \<Rightarrow> 'v store"
  assumes lookup_put:
      "lookup name (put node v s) node' k =
         (if node' = node \<and> k = name v then Some v else lookup name s node' k)"
    and lookup_remove: "unique_names name s \<Longrightarrow>
         lookup name (remove node k s) node' k' =
           (if node' = node \<and> k' = k then None else lookup name s node' k')"
    and unique_put: "unique_names name s \<Longrightarrow> unique_names name (put node v s)"
    and unique_remove: "unique_names name s \<Longrightarrow> unique_names name (remove node k s)"
    and keys_put: "gmap_ok s \<Longrightarrow> gmap_ok (put node v s)"
    and keys_remove: "gmap_ok s \<Longrightarrow> gmap_ok (remove node k s)"
begin

definition put_all :: "string list \<Rightarrow> 'v \<Rightarrow> 'v store \<Rightarrow> 'v store" where
  "put_all nodes v s = foldl (\<lambda>s node. put node v s) s nodes"

definition remove_all :: "string list \<Rightarrow> string \<Rightarrow> 'v store \<Rightarrow> 'v store" where
  "remove_all nodes k s = foldl (\<lambda>s node. remove node k s) s nodes"

lemma lookup_put_all:
  "lookup name (put_all nodes v s) node k =
     (if node \<in> set nodes \<and> k = name v then Some v else lookup name s node k)"
proof (induction nodes arbitrary: s)
  case (Cons n nodes)
  then show ?case by (simp add: put_all_def lookup_put)
qed (simp add: put_all_def)

lemma unique_put_all: "unique_names name s \<Longrightarrow> unique_names name (put_all nodes v s)"
  by (induction nodes arbitrary: s) (simp_all add: put_all_def unique_put)

lemma unique_remove_all: "unique_names name s \<Longrightarrow> unique_names name (remove_all nodes k s)"
  by (induction nodes arbitrary: s) (simp_all add: remove_all_def unique_remove)

lemma keys_put_all: "gmap_ok s \<Longrightarrow> gmap_ok (put_all nodes v s)"
  by (induction nodes arbitrary: s) (simp_all add: put_all_def keys_put)

lemma keys_remove_all: "gmap_ok s \<Longrightarrow> gmap_ok (remove_all nodes k s)"
  by (induction nodes arbitrary: s) (simp_all add: remove_all_def keys_remove)

lemma lookup_remove_all:
  "unique_names name s \<Longrightarrow> lookup name (remove_all nodes k s) node k' =
     (if node \<in> set nodes \<and> k' = k then None else lookup name s node k')"
proof (induction nodes arbitrary: s)
  case (Cons n nodes)
  then show ?case by (simp add: remove_all_def unique_remove lookup_remove)
qed (simp add: remove_all_def)

end

lemma lookup_Some: "lookup name s node k = Some v \<Longrightarrow> v \<in> set (mlist s node) \<and> name v = k"
  by (simp add: lookup_def find_named_Some)

lemma lookup_mem: "unique_names name s \<Longrightarrow> v \<in> set (mlist s node) \<Longrightarrow> lookup name s node (name v) = Some v"
  by (simp add: lookup_def unique_names_def find_named_unique)

lemma lookup_iff: "unique_names name s \<Longrightarrow> v \<in> set (mlist s node) \<longleftrightarrow> lookup name s node (name v) = Some v"
  using lookup_mem lookup_Some by metis

section \<open>The store operations of the code\<close>

definition store_put :: "('v \<Rightarrow> string) \<Rightarrow> string \<Rightarrow> 'v \<Rightarrow> 'v store \<Rightarrow> 'v store" where
  "store_put name node v s = mset_at node (put_named name v (mlist s node)) s"

definition store_remove :: "('v \<Rightarrow> string) \<Rightarrow> string \<Rightarrow> string \<Rightarrow> 'v store \<Rightarrow> 'v store" where
  "store_remove name node k s =
     (if k \<in> name ` set (mlist s node) then mset_at node (delete_named name k (mlist s node)) s else s)"

lemma store_remove_lookup:
  "unique_names name s \<Longrightarrow> lookup name (store_remove name node k s) node' k' =
     (if node' = node \<and> k' = k then None else lookup name s node' k')"
proof (cases "k \<in> name ` set (mlist s node)")
  case False
  then have "find_named name k (mlist s node) = None" by (simp add: find_named_None)
  then show ?thesis using False by (simp add: store_remove_def lookup_def)
qed (simp add: store_remove_def lookup_def unique_names_def find_delete_named)

lemma node_store_named: "node_store name (store_put name) (store_remove name)"
proof
  show "unique_names name (store_put name node v s)" if "unique_names name s" for node v s
    using that by (simp add: unique_names_def store_put_def distinct_put_named)
  show "unique_names name (store_remove name node k s)" if "unique_names name s" for node k s
    using that by (simp add: unique_names_def store_remove_def distinct_delete_named)
  show "gmap_ok (store_remove name node k s)" if "gmap_ok s" for node k s
    using that by (simp add: store_remove_def)
qed (simp_all add: store_put_def lookup_def find_put_named store_remove_lookup [unfolded lookup_def])

end
