(* ===== verification/Rds.thy ===== *)
theory Rds
  imports Store
begin

text \<open>
  The route controller, \<open>src/controllers/rds/route_controller.go\<close>: where a Route is served,
  conflicts between filter chains on a node resolved by age, notification of the listener
  controller, and the whole \<open>Reconcile\<close> handler. Arguments (\<open>env\<close>): the Kubernetes API, the
  conversion of the route configuration to protobuf, and the two functions of \<open>Fcm\<close> that stand
  for generated code. A failed \<open>Get\<close> leaves its target unchanged. Messages are kept structured
  instead of formatted. A set of nodes is a list, in the order a range visits it.
\<close>

section \<open>State\<close>

type_synonym nsname = "string \<times> string"

definition key_String :: "nsname \<Rightarrow> string" where
  "key_String k = fst k @ ''/'' @ snd k"

datatype 'a get = Found 'a | NotFound | GetError string

record rds_env =
  Get_Route :: "nsname \<Rightarrow> Route get"
  Get_Listener :: "nsname \<Rightarrow> ListenerCR get"
  List_Routes :: "string \<Rightarrow> string + Route list"
  recast_route :: "RDS option \<Rightarrow> string + RouteConfiguration"
  validate_match :: "FilterChainMatch \<Rightarrow> string option"
  recast_match :: "lds_FilterChainMatch \<Rightarrow> string + FilterChainMatch"

definition fcm_Compile :: "rds_env \<Rightarrow> lds_FilterChainMatch option \<Rightarrow> fcm_error + Matcher" where
  "fcm_Compile env m = Compile (validate_match env) (recast_match env) m"

datatype message =
    NoMessage
  | ListenerRefsNotSet
  | RecastError string
  | InvalidMatch fcm_error
  | NoListenerOnNodes
  | DuplicatesStatic string
  | ConflictWithOlder string int Verdict
  | EvictedBy string Verdict
  | MissingImport

record status_call =
  call_route :: nsname
  call_active :: bool
  call_nodes :: "string list"
  call_listeners :: "string list"
  call_virtualHosts :: nat
  call_message :: message

text \<open>
  \<open>accepts\<close>: how many more sends go through before the context of the request ends.
  \<open>listenerEvents\<close> and \<open>requeue\<close> are the events sent; the flags say whether the channel exists.
\<close>

record RouteReconciler =
  rr_Config :: Config
  has_ListenerEvents :: bool
  listenerEvents :: "nsname list"
  has_requeue :: bool
  requeue :: "nsname list"
  losers :: "(nsname, nsname list) gmap"
  rds_reconciling :: int
  accepts :: nat
  statusCalls :: "status_call list"
  configErrors :: "(string \<times> message) list"

type_synonym action = "RouteReconciler \<Rightarrow> RouteReconciler"

definition with_Config :: "(Config \<Rightarrow> Config) \<Rightarrow> action" where
  "with_Config f r = r\<lparr>rr_Config := f (rr_Config r)\<rparr>"

definition with_Status :: "(ReconciliationStatus \<Rightarrow> ReconciliationStatus) \<Rightarrow> action" where
  "with_Status f r = with_Config (\<lambda>c. c\<lparr>reconciliationStatus := f (reconciliationStatus c)\<rparr>) r"

definition object_key :: "'a ObjectMeta_scheme \<Rightarrow> nsname" where
  "object_key m = (om_Namespace m, om_Name m)"

section \<open>Conflicts\<close>

definition sharesName :: "string list \<Rightarrow> string list \<Rightarrow> bool" where
  "sharesName a b \<longleftrightarrow> list_ex (\<lambda>x. x \<in> set b) a"

definition hasVirtualHostOverlap :: "VirtualHost option \<Rightarrow> VirtualHost option \<Rightarrow> bool" where
  "hasVirtualHostOverlap a b =
     (case (a, b) of (Some vh1, Some vh2) \<Rightarrow> sharesName (vh_Domains vh1) (vh_Domains vh2) | _ \<Rightarrow> False)"

definition virtualHostsOverlap :: "RDS option \<Rightarrow> RDS option \<Rightarrow> bool" where
  "virtualHostsOverlap a b =
     (case (a, b) of
        (Some x, Some y) \<Rightarrow>
          list_ex (\<lambda>vh1. list_ex (hasVirtualHostOverlap vh1) (rds_VirtualHosts y)) (rds_VirtualHosts x)
      | _ \<Rightarrow> False)"

definition RouteConflict :: "Route \<Rightarrow> Route \<Rightarrow> Matcher \<Rightarrow> Matcher \<Rightarrow> Verdict" where
  "RouteConflict a b ma mb =
     (if \<not> sharesName (rt_ListenerRefs a) (rt_ListenerRefs b) then VNone
      else
        let v = Matcher_Compare ma mb in
        if v = Shadow \<and> \<not> virtualHostsOverlap (rt_RouteConfig a) (rt_RouteConfig b) then VNone else v)"

definition rc_name :: "RouteConfig \<Rightarrow> string" where
  "rc_name rc = om_Name (rc_Route rc)"

record routeConflict =
  cf_route :: Route
  cf_verdict :: Verdict

definition stored_matcher :: "rds_env \<Rightarrow> RouteConfig \<Rightarrow> Matcher option" where
  "stored_matcher env rc =
     (case rc_Matcher rc of
        Some m \<Rightarrow> Some m
      | None \<Rightarrow> (case fcm_Compile env (rt_FilterChainMatch (rc_Route rc)) of Inl e \<Rightarrow> None | Inr m \<Rightarrow> Some m))"

definition conflict_with :: "rds_env \<Rightarrow> Route \<Rightarrow> Matcher \<Rightarrow> RouteConfig \<Rightarrow> routeConflict list" where
  "conflict_with env route m rc =
     (case stored_matcher env rc of
        None \<Rightarrow> []
      | Some other \<Rightarrow>
          (let v = RouteConflict route (rc_Route rc) m other in
           if v \<noteq> VNone then [\<lparr>cf_route = rc_Route rc, cf_verdict = v\<rparr>] else []))"

fun scan_routes ::
  "rds_env \<Rightarrow> Route \<Rightarrow> Matcher \<Rightarrow> RouteConfig list \<Rightarrow> string list \<times> routeConflict list
   \<Rightarrow> string list \<times> routeConflict list" where
  "scan_routes env route m [] st = st"
| "scan_routes env route m (rc # rcs) (seen, out) =
     (if rc_name rc = om_Name route \<or> rc_name rc \<in> set seen
      then scan_routes env route m rcs (seen, out)
      else scan_routes env route m rcs (rc_name rc # seen, out @ conflict_with env route m rc))"

definition findConflicts :: "rds_env \<Rightarrow> Config \<Rightarrow> Route \<Rightarrow> Matcher \<Rightarrow> string list \<Rightarrow> routeConflict list" where
  "findConflicts env c route m nodes =
     sort_by (\<lambda>x y. OlderRoute (cf_route x) (cf_route y))
       (snd (foldl (\<lambda>st node. scan_routes env route m (mlist (RouteConfigs c) node) st) ([], []) nodes))"

section \<open>Placements\<close>

definition mergeNames :: "string list \<Rightarrow> string list \<Rightarrow> string list" where
  "mergeNames a b = sorted_names (a @ b)"

record placement =
  pl_nodes :: "string list"
  pl_listeners :: "string list"
  pl_generation :: int

definition placement_same :: "placement \<Rightarrow> string list \<Rightarrow> string list \<Rightarrow> int \<Rightarrow> bool" where
  "placement_same p nodes listeners generation =
     (if pl_generation p \<noteq> generation \<or> length (pl_nodes p) \<noteq> length nodes \<or>
         pl_listeners p \<noteq> mergeNames listeners [] then False
      else list_all (\<lambda>n. n \<in> set (pl_nodes p)) nodes)"

definition place_at :: "string \<Rightarrow> placement \<Rightarrow> string \<times> RouteConfig list \<Rightarrow> placement" where
  "place_at name p e =
     (case e of (nodeID, routes) \<Rightarrow>
        (case find_named rc_name name routes of
           None \<Rightarrow> p
         | Some rc \<Rightarrow>
             \<lparr>pl_nodes = pl_nodes p @ [nodeID], pl_listeners = mergeNames (pl_listeners p) (rc_ListenerNames rc),
              pl_generation = om_Generation (rc_Route rc)\<rparr>))"

definition routePlacement :: "Config \<Rightarrow> string \<Rightarrow> placement" where
  "routePlacement c name =
     foldl (place_at name) \<lparr>pl_nodes = [], pl_listeners = [], pl_generation = 0\<rparr> (RouteConfigs c)"

definition removeRouteLocked :: "string \<Rightarrow> string \<Rightarrow> string list \<times> Config \<Rightarrow> string list \<times> Config" where
  "removeRouteLocked nodeID routeName st =
     (case st of (listeners, c) \<Rightarrow>
        (case find_named rc_name routeName (mlist (RouteConfigs c) nodeID) of
           None \<Rightarrow> (listeners, c)
         | Some rc \<Rightarrow>
             (mergeNames listeners (rc_ListenerNames rc),
              IncrementConfigCounter (c\<lparr>RouteConfigs := store_remove rc_name nodeID routeName (RouteConfigs c)\<rparr>))))"

definition remove_loop :: "string \<Rightarrow> string list \<Rightarrow> Config \<Rightarrow> string list \<times> Config" where
  "remove_loop routeName nodes c = foldl (\<lambda>st nodeID. removeRouteLocked nodeID routeName st) ([], c) nodes"

definition removeRouteFromNodes :: "string \<Rightarrow> string list \<Rightarrow> RouteReconciler \<Rightarrow> string list \<times> RouteReconciler" where
  "removeRouteFromNodes routeName nodes r =
     (if nodes = [] then ([], r)
      else case remove_loop routeName nodes (rr_Config r) of (listeners, c) \<Rightarrow> (listeners, r\<lparr>rr_Config := c\<rparr>))"

definition removeRouteEverywhere :: "string \<Rightarrow> RouteReconciler \<Rightarrow> string list \<times> RouteReconciler" where
  "removeRouteEverywhere routeName r =
     (case remove_loop routeName (mkeys (RouteConfigs (rr_Config r))) (rr_Config r) of
        (listeners, c) \<Rightarrow> (listeners, r\<lparr>rr_Config := c\<rparr>))"

definition updateRouteConfig ::
  "string list \<Rightarrow> Route \<Rightarrow> RouteConfiguration \<Rightarrow> Matcher \<Rightarrow> string \<Rightarrow> Config \<Rightarrow> Config" where
  "updateRouteConfig listenerNames route rd matcher node c =
     (let c = IncrementConfigCounter c in
      c\<lparr>RouteConfigs := store_put rc_name node
          \<lparr>rc_RouteConfiguration = rd, rc_Route = route, rc_ListenerNames = listenerNames, rc_Matcher = Some matcher\<rparr>
          (RouteConfigs c)\<rparr>)"

section \<open>Events\<close>

fun send_listeners :: "string \<Rightarrow> string list \<Rightarrow> action" where
  "send_listeners namespace [] r = r"
| "send_listeners namespace (name # names) r =
     (let r = with_Status (MarkListenerPending (key_String (namespace, name))) r in
      if accepts r = 0 then r
      else send_listeners namespace names
             (r\<lparr>listenerEvents := listenerEvents r @ [(namespace, name)], accepts := accepts r - 1\<rparr>))"

definition notifyListeners :: "string \<Rightarrow> string list \<Rightarrow> action" where
  "notifyListeners namespace names r =
     (if \<not> has_ListenerEvents r \<or> names = [] then r
      else send_listeners namespace names (with_Status (SetListenersReconciled False) r))"

definition enqueueRoute :: "nsname \<Rightarrow> action" where
  "enqueueRoute key r =
     (if \<not> has_requeue r \<or> accepts r = 0 then r
      else r\<lparr>requeue := requeue r @ [key], accepts := accepts r - 1\<rparr>)"

definition addLoser :: "nsname \<Rightarrow> nsname \<Rightarrow> action" where
  "addLoser winner loser r =
     (let ls = mlist (losers r) winner in
      r\<lparr>losers := mset_at winner (if loser \<in> set ls then ls else ls @ [loser]) (losers r)\<rparr>)"

definition requeueLosers :: "nsname \<Rightarrow> action" where
  "requeueLosers winner r =
     (let ls = mlist (losers r) winner;
          r = r\<lparr>losers := mdelete winner (losers r)\<rparr>
      in foldl (\<lambda>r key. enqueueRoute key r) r ls)"

definition updateRouteStatus ::
  "Route \<Rightarrow> bool \<Rightarrow> string list \<Rightarrow> string list \<Rightarrow> nat \<Rightarrow> message \<Rightarrow> action" where
  "updateRouteStatus route active nodes listeners vhosts msg r =
     r\<lparr>statusCalls := statusCalls r @
        [\<lparr>call_route = object_key route, call_active = active, call_nodes = nodes, call_listeners = listeners,
          call_virtualHosts = vhosts, call_message = msg\<rparr>]\<rparr>"

definition RecordRouteError :: "string \<Rightarrow> message \<Rightarrow> action" where
  "RecordRouteError name msg r = r\<lparr>configErrors := configErrors r @ [(name, msg)]\<rparr>"

definition unplace :: "Route \<Rightarrow> placement \<Rightarrow> message \<Rightarrow> action" where
  "unplace route previous msg r =
     (case removeRouteFromNodes (om_Name route) (pl_nodes previous) r of
        (removed, r) \<Rightarrow>
          updateRouteStatus route False [] (rt_ListenerRefs route) 0 msg
            (notifyListeners (om_Namespace route) removed r))"

definition reject :: "Route \<Rightarrow> placement \<Rightarrow> message \<Rightarrow> action" where
  "reject route previous msg r =
     (case removeRouteEverywhere (om_Name route) (RecordRouteError (om_Name route) msg r) of
        (removed, r) \<Rightarrow>
          updateRouteStatus route False [] (rt_ListenerRefs route) 0 msg
            (notifyListeners (om_Namespace route) (mergeNames (pl_listeners previous) removed) r))"

section \<open>Nodes of a route\<close>

definition set_default :: "string \<Rightarrow> string \<Rightarrow> (string, string) gmap \<Rightarrow> (string, string) gmap" where
  "set_default k v an = (if mstr an k = [] then mset_at k v an else an)"

definition with_defaults :: "Config \<Rightarrow> (string, string) gmap \<Rightarrow> (string, string) gmap" where
  "with_defaults c an = set_default ''clusters'' (ClusterName c) (set_default ''nodes'' (NodeID c) an)"

text \<open>One listener variable serves the whole double loop: when a Get fails it keeps the annotations
  of the last listener read (at first none, hence the defaults).\<close>

fun match_listeners ::
  "rds_env \<Rightarrow> Config \<Rightarrow> string \<Rightarrow> NodeInfo \<Rightarrow> string list \<Rightarrow> (string, string) gmap \<Rightarrow> bool
   \<Rightarrow> bool \<times> (string, string) gmap \<times> bool" where
  "match_listeners env c ns nodeInfo [] li ex = (False, li, ex)"
| "match_listeners env c ns nodeInfo (l # ls) li ex =
     (let (li, ex) = (case Get_Listener env (ns, l) of Found lr \<Rightarrow> (om_Annotations lr, True) | _ \<Rightarrow> (li, ex));
          li = with_defaults c li;
          info = NodeInfo_or_empty (GetNodeID li)
      in if list_ex (\<lambda>n. n \<in> set (Nodes info)) (Nodes nodeInfo) \<and>
            list_ex (\<lambda>x. x \<in> set (Clusters info)) (Clusters nodeInfo)
         then (True, li, ex)
         else match_listeners env c ns nodeInfo ls li ex)"

fun match_nodes ::
  "rds_env \<Rightarrow> Config \<Rightarrow> string \<Rightarrow> string list \<Rightarrow> string list \<Rightarrow> (string, string) gmap \<Rightarrow> bool
   \<Rightarrow> bool \<times> string list" where
  "match_nodes env c ns ls [] li ex = (ex, [])"
| "match_nodes env c ns ls (node # nodes) li ex =
     (case match_listeners env c ns (NodeInfo_or_empty node) ls li ex of
        (matched, li, ex) \<Rightarrow>
          (case match_nodes env c ns ls nodes li ex of
             (ex, unmatched) \<Rightarrow> (ex, if matched then unmatched else node # unmatched)))"

definition isListenerExists ::
  "rds_env \<Rightarrow> Config \<Rightarrow> string \<Rightarrow> string list \<Rightarrow> string list \<Rightarrow> bool \<times> string list" where
  "isListenerExists env c ns listenerNames nodes = match_nodes env c ns listenerNames nodes [] False"

text \<open>The defaults are written into the route's annotations.\<close>

definition getNodesForRoute ::
  "rds_env \<Rightarrow> Config \<Rightarrow> Route \<Rightarrow> string list \<Rightarrow> string \<Rightarrow> string list \<times> Route" where
  "getNodesForRoute env c route listenerNames ns =
     (let route = route\<lparr>om_Annotations := with_defaults c (om_Annotations route)\<rparr>;
          nodes = NodeIDs (om_Annotations route) (NodeID c) (ClusterName c)
      in case isListenerExists env c ns listenerNames nodes of
           (ex, unmatched) \<Rightarrow>
             (if \<not> ex then ([], route)
              else if unmatched \<noteq> [] then (filter (\<lambda>n. n \<notin> set unmatched) nodes, route)
              else (nodes, route)))"

definition static_duplicate :: "rds_env \<Rightarrow> Matcher \<Rightarrow> lds_FilterChain option \<Rightarrow> bool" where
  "static_duplicate env m fco =
     (case fco of
        None \<Rightarrow> False
      | Some fc \<Rightarrow>
          (case fcm_Compile env (lfc_FilterChainMatch fc) of
             Inl e \<Rightarrow> False
           | Inr sm \<Rightarrow> Matcher_Compare m sm = Duplicate))"

fun static_conflict ::
  "rds_env \<Rightarrow> Config \<Rightarrow> string \<Rightarrow> Matcher \<Rightarrow> string list \<Rightarrow> string list \<Rightarrow> string" where
  "static_conflict env c ns m nodes [] = []"
| "static_conflict env c ns m nodes (name # names) =
     (case Get_Listener env (ns, name) of
        Found l \<Rightarrow>
          (case li_FilterChains l of
             Some (fc # fcs) \<Rightarrow>
               (if list_ex (\<lambda>id. id \<in> set nodes) (NodeIDs (om_Annotations l) (NodeID c) (ClusterName c)) \<and>
                   list_ex (static_duplicate env m) (fc # fcs)
                then name
                else static_conflict env c ns m nodes names)
           | _ \<Rightarrow> static_conflict env c ns m nodes names)
      | _ \<Rightarrow> static_conflict env c ns m nodes names)"

definition staticChainConflict :: "rds_env \<Rightarrow> Config \<Rightarrow> Route \<Rightarrow> Matcher \<Rightarrow> string list \<Rightarrow> string" where
  "staticChainConflict env c route m nodes =
     static_conflict env c (om_Namespace route) m nodes (rt_ListenerRefs route)"

section \<open>Reconcile\<close>

definition evict :: "Route \<Rightarrow> routeConflict \<Rightarrow> action" where
  "evict rd cf r =
     (let name = om_Name (cf_route cf);
          r = RecordRouteError name (EvictedBy (om_Name rd) (cf_verdict cf)) r
      in case removeRouteEverywhere name r of
           (removed, r) \<Rightarrow> enqueueRoute (object_key (cf_route cf)) (notifyListeners (om_Namespace (cf_route cf)) removed r))"

definition place ::
  "string \<Rightarrow> placement \<Rightarrow> Route \<Rightarrow> RouteConfiguration \<Rightarrow> Matcher \<Rightarrow> string list \<Rightarrow> action" where
  "place ns previous rd rds matcher currentNodes r =
     (let listenerNames = rt_ListenerRefs rd;
          r = with_Config (\<lambda>c. foldl (\<lambda>c node. updateRouteConfig listenerNames rd rds matcher node c) c currentNodes) r;
          r = (if \<not> placement_same previous (remdups currentNodes) listenerNames (om_Generation rd)
               then notifyListeners ns (mergeNames (pl_listeners previous) listenerNames) r else r);
          vhosts = (case rt_RouteConfig rd of None \<Rightarrow> 0 | Some c \<Rightarrow> length (rds_VirtualHosts c))
      in updateRouteStatus rd True currentNodes listenerNames vhosts NoMessage r)"

text \<open>From the conflict check on: an older conflicting route wins, younger ones are evicted.\<close>

definition resolve ::
  "rds_env \<Rightarrow> nsname \<Rightarrow> placement \<Rightarrow> Route \<Rightarrow> RouteConfiguration \<Rightarrow> Matcher \<Rightarrow> string list \<Rightarrow> action" where
  "resolve env req previous rd rds matcher currentNodes r =
     (let conflicts = findConflicts env (rr_Config r) rd matcher (remdups currentNodes)
      in case conflicts of
           winner # _ \<Rightarrow>
             (if OlderRoute (cf_route winner) rd
              then
                let r = foldl (\<lambda>r cf. if OlderRoute (cf_route cf) rd then addLoser (object_key (cf_route cf)) req r else r)
                          r conflicts
                in reject rd previous
                     (ConflictWithOlder (om_Name (cf_route winner)) (om_CreationTimestamp (cf_route winner)) (cf_verdict winner)) r
              else place (fst req) previous rd rds matcher currentNodes (foldl (\<lambda>r cf. evict rd cf r) r conflicts))
         | [] \<Rightarrow> place (fst req) previous rd rds matcher currentNodes r)"

text \<open>A route with references and a valid configuration, once its nodes are known.\<close>

definition reconcile_placed ::
  "rds_env \<Rightarrow> nsname \<Rightarrow> placement \<Rightarrow> Route \<Rightarrow> RouteConfiguration \<Rightarrow> Matcher \<Rightarrow> string list \<Rightarrow> action" where
  "reconcile_placed env req previous rd rds matcher currentNodes r =
     (case removeRouteFromNodes (snd req) (filter (\<lambda>n. n \<notin> set currentNodes) (pl_nodes previous)) r of
        (removed, r) \<Rightarrow>
          let r = notifyListeners (fst req) removed r;
              listener = staticChainConflict env (rr_Config r) rd matcher (remdups currentNodes)
          in if listener \<noteq> [] then reject rd previous (DuplicatesStatic listener) r
             else resolve env req previous rd rds matcher currentNodes r)"

definition reconcile_found :: "rds_env \<Rightarrow> nsname \<Rightarrow> placement \<Rightarrow> Route \<Rightarrow> action" where
  "reconcile_found env req previous rd r =
     (let listenerNames = rt_ListenerRefs rd in
      if listenerNames = [] then unplace rd previous ListenerRefsNotSet r
      else case recast_route env (rt_RouteConfig rd) of
        Inl e \<Rightarrow> updateRouteStatus rd False [] listenerNames 0 (RecastError e)
                  (RecordRouteError (om_Name rd) MissingImport r)
      | Inr rds \<Rightarrow>
          let rds = rds\<lparr>rcf_Name := om_Name rd\<rparr> in
          (case fcm_Compile env (rt_FilterChainMatch rd) of
             Inl e \<Rightarrow> updateRouteStatus rd False [] listenerNames 0 (InvalidMatch e)
                       (RecordRouteError (om_Name rd) (InvalidMatch e) r)
           | Inr matcher \<Rightarrow>
               (case getNodesForRoute env (rr_Config r) rd listenerNames (fst req) of
                  (currentNodes, rd) \<Rightarrow>
                    if currentNodes = [] then unplace rd previous NoListenerOnNodes r
                    else reconcile_placed env req previous rd rds matcher currentNodes r)))"

text \<open>The handler, up to the deferred end of the count: an API error returns before anything is
  deferred but the count.\<close>

definition Reconcile :: "rds_env \<Rightarrow> nsname \<Rightarrow> RouteReconciler \<Rightarrow> string option \<times> RouteReconciler" where
  "Reconcile env req r =
     (let r = with_Status (SetHasRoutes True) r;
          r = r\<lparr>rds_reconciling := rds_reconciling r + 1\<rparr>
      in case Get_Route env req of
           GetError e \<Rightarrow> (Some e, r)
         | NotFound \<Rightarrow>
             (let previous = routePlacement (rr_Config r) (snd req)
              in case removeRouteFromNodes (snd req) (pl_nodes previous) r of
                   (removed, r) \<Rightarrow> (None, requeueLosers req (notifyListeners (fst req) removed r)))
         | Found rd \<Rightarrow>
             (let previous = routePlacement (rr_Config r) (snd req)
              in (None, requeueLosers req (reconcile_found env req previous rd r))))"

text \<open>The deferred part of the handler's goroutine, a second after the handler has returned.\<close>

definition reconcile_done :: action where
  "reconcile_done r =
     (let r = r\<lparr>rds_reconciling := rds_reconciling r - 1\<rparr>
      in if rds_reconciling r = 0 then with_Status (SetRoutesReconciled True) r else r)"

section \<open>Other entry points\<close>

text \<open>The runnable that runs once the cache has synced, given the number of routes listed.\<close>

definition initialize_routes :: "nat \<Rightarrow> action" where
  "initialize_routes found r =
     (let r = (if 0 < found then with_Status (SetHasRoutes True) r else r)
      in with_Status (SetRoutesInitialized True) r)"

definition routesForListener :: "rds_env \<Rightarrow> 'a ObjectMeta_scheme \<Rightarrow> nsname list" where
  "routesForListener env listener =
     (case List_Routes env (om_Namespace listener) of
        Inl e \<Rightarrow> []
      | Inr routes \<Rightarrow> map object_key (filter (\<lambda>rt. om_Name listener \<in> set (rt_ListenerRefs rt)) routes))"

definition conflictReason :: "Verdict \<Rightarrow> string" where
  "conflictReason v =
     (if v = Shadow then ''server_names overlap through a wildcard and virtual host domains overlap''
      else ''Envoy rejects a listener holding both filter chains (same matching rules)'')"

end
