(* ===== verification/RdsFacts.thy ===== *)
theory RdsFacts
  imports Rds
begin

text \<open>
  What the route controller guarantees: after every reconcile no two routes served on a node
  conflict, a route is never evicted for a younger one, and a route is served on exactly the
  nodes it was placed on.
\<close>

interpretation routes: node_store rc_name "store_put rc_name" "store_remove rc_name"
  by (rule node_store_named)

section \<open>What each action changes\<close>

abbreviation stored :: "RouteReconciler \<Rightarrow> RouteConfig store" where
  "stored r \<equiv> RouteConfigs (rr_Config r)"

named_theorems frame_simps "actions that leave the route store alone"

lemma with_Status_frame [frame_simps]: "stored (with_Status f r) = stored r"
  by (simp add: with_Status_def with_Config_def)

lemma send_listeners_frame [frame_simps]: "stored (send_listeners ns names r) = stored r"
  by (induction ns names r rule: send_listeners.induct) (simp_all add: Let_def with_Status_frame)

lemma notifyListeners_frame [frame_simps]: "stored (notifyListeners ns names r) = stored r"
  by (simp add: notifyListeners_def send_listeners_frame with_Status_frame)

lemma enqueueRoute_frame [frame_simps]: "stored (enqueueRoute key r) = stored r"
  by (simp add: enqueueRoute_def)

lemma addLoser_frame [frame_simps]: "stored (addLoser w l r) = stored r"
  by (simp add: addLoser_def Let_def)

lemma requeueLosers_frame [frame_simps]: "stored (requeueLosers w r) = stored r"
proof -
  have "stored (foldl (\<lambda>r key. enqueueRoute key r) r ls) = stored r" for r ls
    by (induction ls arbitrary: r) (simp_all add: enqueueRoute_frame)
  then show ?thesis by (simp add: requeueLosers_def Let_def)
qed

lemma updateRouteStatus_frame [frame_simps]: "stored (updateRouteStatus a b c d e f r) = stored r"
  by (simp add: updateRouteStatus_def)

lemma RecordRouteError_frame [frame_simps]: "stored (RecordRouteError n m r) = stored r"
  by (simp add: RecordRouteError_def)

lemma store_remove_absent:
  "find_named rc_name k (mlist s n) = None \<Longrightarrow> store_remove rc_name n k s = s"
  by (simp add: store_remove_def find_named_None)

lemma removeRouteLocked_store:
  "RouteConfigs (snd (removeRouteLocked n k (ls, c))) = store_remove rc_name n k (RouteConfigs c)"
  by (auto simp: removeRouteLocked_def IncrementConfigCounter_def store_remove_absent split: option.split)

lemma remove_loop_store: "RouteConfigs (snd (remove_loop k nodes c)) = routes.remove_all nodes k (RouteConfigs c)"
proof -
  have "RouteConfigs (snd (foldl (\<lambda>st n. removeRouteLocked n k st) (ls, c) nodes)) = routes.remove_all nodes k (RouteConfigs c)"
    for ls
  proof (induction nodes arbitrary: ls c)
    case (Cons n nodes)
    obtain ls' c' where st: "removeRouteLocked n k (ls, c) = (ls', c')" by force
    then have "RouteConfigs c' = store_remove rc_name n k (RouteConfigs c)"
      using removeRouteLocked_store [of n k ls c] by simp
    then show ?case using Cons.IH [of ls' c'] st by (simp add: routes.remove_all_def)
  qed (simp add: routes.remove_all_def)
  then show ?thesis by (simp add: remove_loop_def)
qed

lemma removeRouteFromNodes_store:
  "stored (snd (removeRouteFromNodes k nodes r)) = routes.remove_all nodes k (stored r)"
  using remove_loop_store [of k nodes "rr_Config r"]
  by (auto simp: removeRouteFromNodes_def routes.remove_all_def split: prod.split)

lemma removeRouteEverywhere_store:
  "stored (snd (removeRouteEverywhere k r)) = routes.remove_all (mkeys (stored r)) k (stored r)"
  using remove_loop_store [of k "mkeys (stored r)" "rr_Config r"]
  by (auto simp: removeRouteEverywhere_def split: prod.split)

section \<open>Lookups\<close>

text \<open>What is served, as a function of node and name.\<close>

definition served :: "RouteReconciler \<Rightarrow> string \<Rightarrow> string \<Rightarrow> RouteConfig option" where
  "served r n k = lookup rc_name (stored r) n k"

definition store_wf :: "RouteReconciler \<Rightarrow> bool" where
  "store_wf r \<longleftrightarrow> gmap_ok (stored r) \<and> unique_names rc_name (stored r)"

lemma lookup_absent_key: "n \<notin> set (mkeys s) \<Longrightarrow> lookup name s n k = None"
  by (simp add: lookup_def mlist_def mget_def mkeys_def map_of_eq_None_iff split: option.split)
    (metis (no_types, lifting) domI domIff map_of_eq_None_iff)

lemma removed_nodes:
  assumes "store_wf r" and "removeRouteFromNodes k nodes r = (ls, r')"
  shows "store_wf r' \<and> served r' n j = (if n \<in> set nodes \<and> j = k then None else served r n j)"
proof -
  have "stored r' = routes.remove_all nodes k (stored r)"
    using removeRouteFromNodes_store [of k nodes r] assms(2) by simp
  then show ?thesis using assms(1)
    by (simp add: store_wf_def served_def routes.keys_remove_all routes.unique_remove_all routes.lookup_remove_all)
qed

lemma removed_everywhere:
  assumes "store_wf r" and "removeRouteEverywhere k r = (ls, r')"
  shows "store_wf r' \<and> served r' n j = (if j = k then None else served r n j)"
proof -
  have "stored r' = routes.remove_all (mkeys (stored r)) k (stored r)"
    using removeRouteEverywhere_store [of k r] assms(2) by simp
  then show ?thesis using assms(1) lookup_absent_key [of n "stored r" rc_name]
    by (auto simp: store_wf_def served_def routes.keys_remove_all routes.unique_remove_all routes.lookup_remove_all)
qed

lemma frame_served: "stored r' = stored r \<Longrightarrow> served r' = served r \<and> (store_wf r' \<longleftrightarrow> store_wf r)"
  by (simp add: served_def fun_eq_iff store_wf_def)

lemma updated_store:
  "RouteConfigs (foldl (\<lambda>c node. updateRouteConfig ls rt rd m node c) c nodes) =
     routes.put_all nodes \<lparr>rc_RouteConfiguration = rd, rc_Route = rt, rc_ListenerNames = ls, rc_Matcher = Some m\<rparr>
       (RouteConfigs c)"
  by (induction nodes arbitrary: c)
    (simp_all add: routes.put_all_def updateRouteConfig_def IncrementConfigCounter_def Let_def)

definition new_entry :: "Route \<Rightarrow> RouteConfiguration \<Rightarrow> Matcher \<Rightarrow> RouteConfig" where
  "new_entry rd rds m = \<lparr>rc_RouteConfiguration = rds, rc_Route = rd, rc_ListenerNames = rt_ListenerRefs rd, rc_Matcher = Some m\<rparr>"

lemma rc_name_new_entry [simp]: "rc_name (new_entry rd rds m) = om_Name rd"
  by (simp add: rc_name_def new_entry_def)

lemma rc_Route_new_entry: "rc_Route (new_entry rd rds m) = rd"
  by (simp add: new_entry_def)

lemma placed:
  assumes "store_wf r"
  shows "store_wf (place ns p rd rds m nodes r) \<and>
    served (place ns p rd rds m nodes r) n k =
      (if n \<in> set nodes \<and> k = om_Name rd then Some (new_entry rd rds m) else served r n k)"
proof -
  have "stored (place ns p rd rds m nodes r) = routes.put_all nodes (new_entry rd rds m) (stored r)"
    by (simp add: place_def Let_def frame_simps with_Config_def updated_store new_entry_def)
  then show ?thesis using assms
    by (simp add: store_wf_def served_def routes.keys_put_all routes.unique_put_all routes.lookup_put_all)
qed

section \<open>Conflicts found\<close>

lemma scan_routes_spec:
  assumes "scan_routes env route m rcs (seen, out) = (seen', out')"
  shows "set seen \<subseteq> set seen' \<and> set out \<subseteq> set out' \<and>
    (\<forall>rc\<in>set rcs. rc_name rc \<noteq> om_Name route \<longrightarrow> rc_name rc \<in> set seen') \<and>
    (\<forall>k\<in>set seen' - set seen. \<exists>rc\<in>set rcs. rc_name rc = k \<and> set (conflict_with env route m rc) \<subseteq> set out') \<and>
    (\<forall>cf\<in>set out' - set out. \<exists>rc\<in>set rcs. rc_name rc \<noteq> om_Name route \<and> cf \<in> set (conflict_with env route m rc))"
  using assms
proof (induction rcs arbitrary: seen out)
  case (Cons rc rcs)
  show ?case
  proof (cases "rc_name rc = om_Name route \<or> rc_name rc \<in> set seen")
    case True
    then have "scan_routes env route m rcs (seen, out) = (seen', out')" using Cons.prems by simp
    from Cons.IH [OF this] show ?thesis using True by auto
  next
    case False
    then have "scan_routes env route m rcs (rc_name rc # seen, out @ conflict_with env route m rc) = (seen', out')"
      using Cons.prems by simp
    note IH = Cons.IH [OF this]
    show ?thesis
    proof (intro conjI ballI impI)
      show "set seen \<subseteq> set seen'" "set out \<subseteq> set out'" using IH by auto
      show "rc_name x \<in> set seen'" if "x \<in> set (rc # rcs)" "rc_name x \<noteq> om_Name route" for x
        using IH that by auto
      show "\<exists>x\<in>set (rc # rcs). rc_name x = k \<and> set (conflict_with env route m x) \<subseteq> set out'"
        if "k \<in> set seen' - set seen" for k
        using IH that by (cases "k = rc_name rc") auto
      show "\<exists>x\<in>set (rc # rcs). rc_name x \<noteq> om_Name route \<and> cf \<in> set (conflict_with env route m x)"
        if "cf \<in> set out' - set out" for cf
        using IH that False by (cases "cf \<in> set (conflict_with env route m rc)") auto
    qed
  qed
qed simp

definition scan_nodes ::
  "rds_env \<Rightarrow> Config \<Rightarrow> Route \<Rightarrow> Matcher \<Rightarrow> string list \<Rightarrow> string list \<times> routeConflict list
   \<Rightarrow> string list \<times> routeConflict list" where
  "scan_nodes env c route m nodes st =
     foldl (\<lambda>st node. scan_routes env route m (mlist (RouteConfigs c) node) st) st nodes"

lemma scan_nodes_concat:
  "scan_nodes env c route m nodes st = scan_routes env route m (concat (map (mlist (RouteConfigs c)) nodes)) st"
proof -
  have app: "scan_routes env route m (xs @ ys) st = scan_routes env route m ys (scan_routes env route m xs st)" for xs ys st
    by (induction env route m xs st rule: scan_routes.induct) simp_all
  show ?thesis by (induction nodes arbitrary: st) (simp_all add: scan_nodes_def app)
qed

text \<open>One name is one route wherever it is served.\<close>

definition uniform :: "RouteReconciler \<Rightarrow> bool" where
  "uniform r \<longleftrightarrow> (\<forall>n n' k a b. served r n k = Some a \<longrightarrow> served r n' k = Some b \<longrightarrow> a = b)"

lemma served_mem: "store_wf r \<Longrightarrow> rc \<in> set (mlist (stored r) n) \<longleftrightarrow> served r n (rc_name rc) = Some rc"
  by (simp add: store_wf_def served_def lookup_iff)

lemma findConflicts_iff:
  assumes "store_wf r" and "uniform r"
  shows "cf \<in> set (findConflicts env (rr_Config r) route m nodes) \<longleftrightarrow>
    (\<exists>n\<in>set nodes. \<exists>k rc. k \<noteq> om_Name route \<and> served r n k = Some rc \<and> cf \<in> set (conflict_with env route m rc))"
    (is "?found \<longleftrightarrow> ?conflict")
proof -
  let ?rcs = "concat (map (mlist (stored r)) nodes)"
  obtain seen out where sc: "scan_routes env route m ?rcs ([], []) = (seen, out)" by force
  have found: "?found \<longleftrightarrow> cf \<in> set out"
    using scan_nodes_concat [of env "rr_Config r" route m nodes "([], [])"] sc
    by (simp add: findConflicts_def scan_nodes_def)
  have mem: "rc \<in> set ?rcs \<longleftrightarrow> (\<exists>n\<in>set nodes. served r n (rc_name rc) = Some rc)" for rc
    using served_mem [OF assms(1)] by auto
  have name: "served r n k = Some rc \<Longrightarrow> rc_name rc = k" for n k rc
    unfolding served_def by (drule lookup_Some) simp
  have spec: "\<forall>rc\<in>set ?rcs. rc_name rc \<noteq> om_Name route \<longrightarrow> rc_name rc \<in> set seen"
      "\<forall>k\<in>set seen. \<exists>rc\<in>set ?rcs. rc_name rc = k \<and> set (conflict_with env route m rc) \<subseteq> set out"
      "\<forall>cf\<in>set out. \<exists>rc\<in>set ?rcs. rc_name rc \<noteq> om_Name route \<and> cf \<in> set (conflict_with env route m rc)"
    using scan_routes_spec [OF sc] by simp_all
  show ?thesis unfolding found
  proof
    assume "cf \<in> set out"
    then obtain rc where "rc \<in> set ?rcs" "rc_name rc \<noteq> om_Name route" "cf \<in> set (conflict_with env route m rc)"
      using spec(3) by blast
    then show ?conflict using mem by blast
  next
    assume ?conflict
    then obtain n k rc where *: "n \<in> set nodes" "k \<noteq> om_Name route" "served r n k = Some rc"
        "cf \<in> set (conflict_with env route m rc)" by blast
    then have k: "rc_name rc = k" using name by blast
    then have "rc \<in> set ?rcs" using mem * by blast
    then have "k \<in> set seen" using spec(1) * k by blast
    then obtain rc' where rc': "rc' \<in> set ?rcs" "rc_name rc' = k" "set (conflict_with env route m rc') \<subseteq> set out"
      using spec(2) by blast
    then obtain n' where "served r n' k = Some rc'" using mem by blast
    then have "rc' = rc" using assms(2) *(3) unfolding uniform_def by blast
    then show "cf \<in> set out" using rc'(3) *(4) by blast
  qed
qed

section \<open>The invariant\<close>

definition conflict :: "RouteConfig \<Rightarrow> RouteConfig \<Rightarrow> Verdict" where
  "conflict a b = RouteConflict (rc_Route a) (rc_Route b) (the (rc_Matcher a)) (the (rc_Matcher b))"

definition entry_ok :: "rds_env \<Rightarrow> RouteConfig \<Rightarrow> bool" where
  "entry_ok env rc \<longleftrightarrow>
     (\<exists>m. rc_Matcher rc = Some m \<and> fcm_Compile env (rt_FilterChainMatch (rc_Route rc)) = Inr m) \<and>
     rc_ListenerNames rc = rt_ListenerRefs (rc_Route rc) \<and> rcf_Name (rc_RouteConfiguration rc) = rc_name rc"

definition no_conflicts :: "RouteReconciler \<Rightarrow> bool" where
  "no_conflicts r \<longleftrightarrow> (\<forall>n k k' a b. served r n k = Some a \<longrightarrow> served r n k' = Some b \<longrightarrow> k \<noteq> k' \<longrightarrow> conflict a b = VNone)"

definition entries_ok :: "rds_env \<Rightarrow> RouteReconciler \<Rightarrow> bool" where
  "entries_ok env r \<longleftrightarrow> (\<forall>n k rc. served r n k = Some rc \<longrightarrow> entry_ok env rc)"

definition rds_inv :: "rds_env \<Rightarrow> RouteReconciler \<Rightarrow> bool" where
  "rds_inv env r \<longleftrightarrow> store_wf r \<and> uniform r \<and> entries_ok env r \<and> no_conflicts r"

text \<open>Serving less keeps everything.\<close>

definition serves_less :: "RouteReconciler \<Rightarrow> RouteReconciler \<Rightarrow> bool" where
  "serves_less r' r \<longleftrightarrow> store_wf r' \<and> (\<forall>n k rc. served r' n k = Some rc \<longrightarrow> served r n k = Some rc)"

lemma serves_less_inv: "rds_inv env r \<Longrightarrow> serves_less r' r \<Longrightarrow> rds_inv env r'"
  unfolding rds_inv_def uniform_def entries_ok_def no_conflicts_def serves_less_def by blast

lemma serves_less_trans: "serves_less a b \<Longrightarrow> serves_less b c \<Longrightarrow> serves_less a c"
  unfolding serves_less_def by blast

lemma serves_less_frame: "store_wf r \<Longrightarrow> stored r' = stored r \<Longrightarrow> serves_less r' r"
  using frame_served [of r' r] by (simp add: serves_less_def)

lemma serves_less_nodes: "store_wf r \<Longrightarrow> removeRouteFromNodes k nodes r = (ls, r') \<Longrightarrow> serves_less r' r"
  using removed_nodes [of r k nodes ls r'] by (auto simp: serves_less_def split: if_splits)

lemma serves_less_everywhere: "store_wf r \<Longrightarrow> removeRouteEverywhere k r = (ls, r') \<Longrightarrow> serves_less r' r"
  using removed_everywhere [of r k ls r'] by (auto simp: serves_less_def split: if_splits)

lemma conflict_sym: "conflict a b = conflict b a"
proof -
  have s: "sharesName x y = sharesName y x" for x y by (auto simp: sharesName_def list_ex_iff)
  have h: "hasVirtualHostOverlap v w = hasVirtualHostOverlap w v" for v w
    using s by (auto simp: hasVirtualHostOverlap_def split: option.split)
  have "virtualHostsOverlap v w = virtualHostsOverlap w v" for v w
    using h by (auto simp: virtualHostsOverlap_def list_ex_iff split: option.split)
  then show ?thesis
    by (simp add: conflict_def RouteConflict_def s [of "rt_ListenerRefs (rc_Route a)"] Let_def
        Matcher_Compare_commute [of "the (rc_Matcher a)"])
qed

lemma conflict_with_iff:
  "entry_ok env rc \<Longrightarrow> conflict_with env rd m rc =
     (if conflict (new_entry rd rds m) rc = VNone then []
      else [\<lparr>cf_route = rc_Route rc, cf_verdict = conflict (new_entry rd rds m) rc\<rparr>])"
  by (auto simp: conflict_with_def entry_ok_def stored_matcher_def conflict_def new_entry_def Let_def)

section \<open>Placing a route\<close>

interpretation cf_age: weak_order "\<lambda>x y. OlderRoute (cf_route x) (cf_route y)"
  by unfold_locales (use age.lt_asym age.lt_neg_trans in blast)+

lemma older_total: "\<not> OlderRoute a b \<Longrightarrow> om_Name a \<noteq> om_Name b \<Longrightarrow> OlderRoute b a"
  by (auto simp: OlderRoute_def split: if_splits)

lemma place_inv:
  assumes inv: "rds_inv env r" and new: "entry_ok env (new_entry rd rds m)"
    and free: "\<And>n k rc. n \<in> set nodes \<Longrightarrow> k \<noteq> om_Name rd \<Longrightarrow> served r n k = Some rc \<Longrightarrow>
      conflict (new_entry rd rds m) rc = VNone"
    and gone: "\<And>n. n \<notin> set nodes \<Longrightarrow> served r n (om_Name rd) = None"
  shows "rds_inv env (place ns p rd rds m nodes r)"
proof -
  let ?r = "place ns p rd rds m nodes r"
  have wf: "store_wf r" using inv by (simp add: rds_inv_def)
  have sv: "served ?r n k = (if n \<in> set nodes \<and> k = om_Name rd then Some (new_entry rd rds m) else served r n k)" for n k
    using placed [OF wf] by blast
  have sv_rd: "served ?r n (om_Name rd) = Some a \<Longrightarrow> a = new_entry rd rds m \<and> n \<in> set nodes" for n a
    using sv gone by (auto split: if_splits)
  have "store_wf ?r" using placed [OF wf] by blast
  moreover have "uniform ?r"
    unfolding uniform_def
  proof (intro allI impI)
    fix n n' k a b
    assume ab: "served ?r n k = Some a" "served ?r n' k = Some b"
    show "a = b"
    proof (cases "k = om_Name rd")
      case True
      then show ?thesis using ab sv_rd by blast
    next
      case False
      then show ?thesis using ab sv inv by (auto simp: rds_inv_def uniform_def)
    qed
  qed
  moreover have "entries_ok env ?r"
    using inv new sv by (auto simp: rds_inv_def entries_ok_def split: if_splits)
  moreover have "no_conflicts ?r"
    unfolding no_conflicts_def
  proof (intro allI impI)
    fix n k k' a b
    assume a: "served ?r n k = Some a" and b: "served ?r n k' = Some b" and k: "k \<noteq> k'"
    consider "k = om_Name rd" | "k' = om_Name rd" | "k \<noteq> om_Name rd" "k' \<noteq> om_Name rd" by blast
    then show "conflict a b = VNone"
    proof cases
      case 1
      then show ?thesis using sv_rd a b k sv free by (metis (full_types))
    next
      case 2
      then show ?thesis using sv_rd a b k sv free conflict_sym by (metis (full_types))
    next
      case 3
      then show ?thesis using a b k sv inv by (auto simp: rds_inv_def no_conflicts_def)
    qed
  qed
  ultimately show ?thesis by (simp add: rds_inv_def)
qed

lemma evict_served:
  assumes "store_wf r"
  shows "store_wf (evict rd cf r) \<and>
    served (evict rd cf r) n k = (if k = om_Name (cf_route cf) then None else served r n k)"
proof -
  let ?r = "RecordRouteError (om_Name (cf_route cf)) (EvictedBy (om_Name rd) (cf_verdict cf)) r"
  obtain ls r1 where rm: "removeRouteEverywhere (om_Name (cf_route cf)) ?r = (ls, r1)" by force
  have r: "served ?r = served r" "store_wf ?r" using frame_served [of ?r r] assms by (simp_all add: frame_simps)
  have "stored (evict rd cf r) = stored r1" by (simp add: evict_def Let_def rm frame_simps)
  then show ?thesis using removed_everywhere [OF r(2) rm, of n k] frame_served [of "evict rd cf r" r1] r(1) by simp
qed

lemma evict_all_served:
  "store_wf r \<Longrightarrow> store_wf (foldl (\<lambda>r cf. evict rd cf r) r cfs) \<and>
    served (foldl (\<lambda>r cf. evict rd cf r) r cfs) n k =
      (if k \<in> (\<lambda>cf. om_Name (cf_route cf)) ` set cfs then None else served r n k)"
proof (induction cfs arbitrary: r)
  case (Cons cf cfs)
  then show ?case using Cons.IH [of "evict rd cf r"] evict_served [OF Cons.prems, of rd cf n k] evict_served [OF Cons.prems]
    by auto
qed simp

lemma reject_served:
  assumes "store_wf r"
  shows "store_wf (reject rd p msg r) \<and>
    served (reject rd p msg r) n k = (if k = om_Name rd then None else served r n k)"
proof -
  let ?r = "RecordRouteError (om_Name rd) msg r"
  obtain ls r1 where rm: "removeRouteEverywhere (om_Name rd) ?r = (ls, r1)" by force
  have r: "served ?r = served r" "store_wf ?r" using frame_served [of ?r r] assms by (simp_all add: frame_simps)
  have "stored (reject rd p msg r) = stored r1" by (simp add: reject_def rm frame_simps)
  then show ?thesis using removed_everywhere [OF r(2) rm, of n k] frame_served [of "reject rd p msg r" r1] r(1) by simp
qed

lemma add_losers_frame:
  "stored (foldl (\<lambda>r cf. if P cf then addLoser (f cf) req r else r) r cfs) = stored r"
  by (induction cfs arbitrary: r) (simp_all add: frame_simps)

text \<open>How the conflict check ends: refused for an older route, or placed after younger ones are evicted.\<close>

lemma resolve_cases:
  fixes rd :: Route and m :: Matcher and nodes :: "string list"
  assumes inv: "rds_inv env r"
  defines "cfs \<equiv> findConflicts env (rr_Config r) rd m (remdups nodes)"
  obtains (refused) w rest r1 msg where "cfs = w # rest" and "OlderRoute (cf_route w) rd" and "stored r1 = stored r"
      and "resolve env req p rd rds m nodes r = reject rd p msg r1"
      and "r1 = foldl (\<lambda>r cf. if OlderRoute (cf_route cf) rd then addLoser (object_key (cf_route cf)) req r else r) r cfs"
  | (won) "\<forall>cf\<in>set cfs. \<not> OlderRoute (cf_route cf) rd"
      and "resolve env req p rd rds m nodes r =
        place (fst req) p rd rds m nodes (foldl (\<lambda>r cf. evict rd cf r) r cfs)"
proof (cases cfs)
  case Nil
  then show ?thesis using won by (simp add: resolve_def cfs_def)
next
  case (Cons w rest)
  show ?thesis
  proof (cases "OlderRoute (cf_route w) rd")
    case True
    let ?r = "foldl (\<lambda>r cf. if OlderRoute (cf_route cf) rd then addLoser (object_key (cf_route cf)) req r else r) r cfs"
    have "stored ?r = stored r" by (rule add_losers_frame)
    moreover have "resolve env req p rd rds m nodes r =
        reject rd p (ConflictWithOlder (om_Name (cf_route w)) (om_CreationTimestamp (cf_route w)) (cf_verdict w)) ?r"
      using Cons True by (simp add: resolve_def cfs_def [symmetric] Let_def)
    ultimately show ?thesis using refused [OF Cons True] by blast
  next
    case False
    have "\<not> OlderRoute (cf_route cf) rd" if "cf \<in> set cfs" for cf
    proof (rule age.lt_neg_trans [OF _ False])
      obtain xs where "sort_by (\<lambda>x y. OlderRoute (cf_route x) (cf_route y)) xs = w # rest"
        using Cons by (simp add: cfs_def findConflicts_def)
      then show "\<not> OlderRoute (cf_route cf) (cf_route w)"
        using cf_age.sort_by_head_min [of xs w rest cf] that Cons by (metis set_sort_by)
    qed
    then show ?thesis using Cons False
      by (intro won) (simp_all add: resolve_def cfs_def [symmetric] Let_def)
  qed
qed

lemma won_free:
  assumes inv: "rds_inv env r" and "n \<in> set nodes" and "k \<noteq> om_Name rd"
    and "served (foldl (\<lambda>r cf. evict rd cf r) r (findConflicts env (rr_Config r) rd m (remdups nodes))) n k = Some rc"
  shows "conflict (new_entry rd rds m) rc = VNone"
proof (rule ccontr)
  assume c: "conflict (new_entry rd rds m) rc \<noteq> VNone"
  let ?cfs = "findConflicts env (rr_Config r) rd m (remdups nodes)"
  have wf: "store_wf r" and un: "uniform r" using inv by (simp_all add: rds_inv_def)
  have s: "served r n k = Some rc" and k: "k \<notin> (\<lambda>cf. om_Name (cf_route cf)) ` set ?cfs"
    using evict_all_served [OF wf, of rd ?cfs n k] assms(4) by (auto split: if_splits)
  then have "entry_ok env rc" using inv by (auto simp: rds_inv_def entries_ok_def)
  then have "conflict_with env rd m rc = [\<lparr>cf_route = rc_Route rc, cf_verdict = conflict (new_entry rd rds m) rc\<rparr>]"
    using c by (simp add: conflict_with_iff [where rds = rds])
  then have "\<lparr>cf_route = rc_Route rc, cf_verdict = conflict (new_entry rd rds m) rc\<rparr> \<in> set ?cfs"
    using findConflicts_iff [OF wf un] s assms(2,3) by fastforce
  moreover have "om_Name (rc_Route rc) = k"
    using s unfolding served_def by (auto dest: lookup_Some simp: rc_name_def)
  ultimately show False using k by force
qed

lemma resolve_inv:
  assumes inv: "rds_inv env r" and new: "entry_ok env (new_entry rd rds m)"
    and gone: "\<And>n. n \<notin> set nodes \<Longrightarrow> served r n (om_Name rd) = None"
  shows "rds_inv env (resolve env req p rd rds m nodes r)"
proof (cases rule: resolve_cases [OF inv, of rd m nodes req p rds])
  case (1 w rest r1 msg)
  note refused = 1
  have wf: "store_wf r" using inv by (simp add: rds_inv_def)
  then have "store_wf r1" using refused(3) frame_served by blast
  then have "serves_less (reject rd p msg r1) r"
    using reject_served [of r1 rd p msg] frame_served [OF refused(3)] by (auto simp: serves_less_def split: if_splits)
  then show ?thesis using serves_less_inv [OF inv] refused(4) by simp
next
  case 2
  note won = 2
  let ?cfs = "findConflicts env (rr_Config r) rd m (remdups nodes)"
  let ?r = "foldl (\<lambda>r cf. evict rd cf r) r ?cfs"
  have wf: "store_wf r" using inv by (simp add: rds_inv_def)
  have "serves_less ?r r"
    using evict_all_served [OF wf, of rd ?cfs] by (auto simp: serves_less_def split: if_splits)
  then have "rds_inv env ?r" by (rule serves_less_inv [OF inv])
  then show ?thesis
    unfolding won(2)
  proof (rule place_inv [OF _ new])
    show "conflict (new_entry rd rds m) rc = VNone" if "n \<in> set nodes" "k \<noteq> om_Name rd" "served ?r n k = Some rc" for n k rc
      using won_free [OF inv that] .
    show "served ?r n (om_Name rd) = None" if "n \<notin> set nodes" for n
      using gone [OF that] evict_all_served [OF wf, of rd ?cfs n "om_Name rd"] by simp
  qed
qed

section \<open>The handler\<close>

lemma place_at_nodes:
  "set (pl_nodes (foldl (place_at k) p es)) =
     set (pl_nodes p) \<union> {n. \<exists>rs. (n, rs) \<in> set es \<and> find_named rc_name k rs \<noteq> None}"
  by (induction es arbitrary: p) (auto simp: place_at_def split: option.splits)

lemma routePlacement_nodes:
  assumes "store_wf r"
  shows "n \<in> set (pl_nodes (routePlacement (rr_Config r) k)) \<longleftrightarrow> served r n k \<noteq> None"
proof -
  have ok: "gmap_ok (stored r)" using assms by (simp add: store_wf_def)
  have "n \<in> set (pl_nodes (routePlacement (rr_Config r) k)) \<longleftrightarrow>
      (\<exists>rs. (n, rs) \<in> set (stored r) \<and> find_named rc_name k rs \<noteq> None)"
    unfolding routePlacement_def place_at_nodes by simp
  also have "\<dots> \<longleftrightarrow> find_named rc_name k (mlist (stored r) n) \<noteq> None"
  proof
    assume "find_named rc_name k (mlist (stored r) n) \<noteq> None"
    then have "mlist (stored r) n \<noteq> []" by auto
    then have "(n, mlist (stored r) n) \<in> set (stored r)"
      by (auto simp: mlist_def dest: mget_in_set split: option.splits)
    then show "\<exists>rs. (n, rs) \<in> set (stored r) \<and> find_named rc_name k rs \<noteq> None"
      using \<open>find_named rc_name k (mlist (stored r) n) \<noteq> None\<close> by blast
  qed (use in_set_mlist [OF ok] in auto)
  finally show ?thesis by (simp add: served_def lookup_def)
qed

text \<open>The nodes the route leaves are cleared before conflicts are looked for.\<close>

lemma leave_nodes:
  assumes wf: "store_wf r" and prev: "p = routePlacement (rr_Config r) k"
    and rm: "removeRouteFromNodes k (filter (\<lambda>n. n \<notin> set nodes) (pl_nodes p)) r = (ls, r1)"
  shows "serves_less r1 r \<and> (\<forall>n. n \<notin> set nodes \<longrightarrow> served r1 n k = None) \<and>
    (\<forall>n j. j \<noteq> k \<longrightarrow> served r1 n j = served r n j)"
proof -
  have "served r1 n j = (if n \<notin> set nodes \<and> n \<in> set (pl_nodes p) \<and> j = k then None else served r n j)" for n j
    using removed_nodes [OF wf rm, of n j] by auto
  then show ?thesis using serves_less_nodes [OF wf rm] routePlacement_nodes [OF wf] prev by auto
qed

lemma reconcile_placed_inv:
  assumes inv: "rds_inv env r" and new: "entry_ok env (new_entry rd rds m)"
    and prev: "p = routePlacement (rr_Config r) (snd req)" and req: "om_Name rd = snd req"
  shows "rds_inv env (reconcile_placed env req p rd rds m nodes r)"
proof -
  have wf: "store_wf r" using inv by (simp add: rds_inv_def)
  obtain ls r1 where rm: "removeRouteFromNodes (snd req) (filter (\<lambda>n. n \<notin> set nodes) (pl_nodes p)) r = (ls, r1)"
    by force
  let ?r = "notifyListeners (fst req) ls r1"
  have f: "stored ?r = stored r1" by (rule notifyListeners_frame)
  note leave = leave_nodes [OF wf prev rm]
  have "rds_inv env r1" using serves_less_inv [OF inv] leave by blast
  then have inv1: "rds_inv env ?r"
    using serves_less_inv [of env r1 ?r] serves_less_frame [OF _ f] by (simp add: rds_inv_def)
  have gone: "served ?r n (om_Name rd) = None" if "n \<notin> set nodes" for n
    using leave that frame_served [OF f] req by simp
  have wf1: "store_wf ?r" using inv1 by (simp add: rds_inv_def)
  have "rds_inv env (reject rd p msg ?r)" for msg
    by (rule serves_less_inv [OF inv1])
      (use reject_served [OF wf1, of rd p msg] in \<open>auto simp: serves_less_def split: if_splits\<close>)
  then show ?thesis
    using resolve_inv [OF inv1 new gone] by (simp add: reconcile_placed_def rm Let_def)
qed

lemma unplace_less:
  assumes "store_wf r"
  shows "serves_less (unplace rd p msg r) r"
proof -
  obtain ls r1 where rm: "removeRouteFromNodes (om_Name rd) (pl_nodes p) r = (ls, r1)" by force
  have "stored (unplace rd p msg r) = stored r1" by (simp add: unplace_def rm frame_simps)
  then show ?thesis using serves_less_nodes [OF assms rm] frame_served
    by (metis serves_less_frame serves_less_trans serves_less_def)
qed

lemma getNodesForRoute_route:
  assumes "getNodesForRoute env c rd ls ns = (nodes, rd')"
  shows "rd' = rd\<lparr>om_Annotations := with_defaults c (om_Annotations rd)\<rparr>"
  using assms by (auto simp: getNodesForRoute_def Let_def split: prod.splits if_splits)

lemma entry_ok_new:
  assumes "fcm_Compile env (rt_FilterChainMatch rd) = Inr m"
    and "rd' = rd\<lparr>om_Annotations := an\<rparr>" and "rcf_Name rds = om_Name rd"
  shows "entry_ok env (new_entry rd' rds m)"
  using assms by (simp add: entry_ok_def new_entry_def rc_name_def)

lemma reconcile_found_inv:
  assumes inv: "rds_inv env r" and prev: "p = routePlacement (rr_Config r) (snd req)" and req: "om_Name rd = snd req"
  shows "rds_inv env (reconcile_found env req p rd r)"
proof -
  have wf: "store_wf r" using inv by (simp add: rds_inv_def)
  have less: "rds_inv env (unplace x p msg r)" for x msg
    using serves_less_inv [OF inv unplace_less [OF wf]] .
  have same: "rds_inv env (updateRouteStatus a b c d e f (RecordRouteError n msg r))" for a b c d e f n msg
    by (rule serves_less_inv [OF inv serves_less_frame [OF wf]]) (simp add: frame_simps)
  have step: "rds_inv env (reconcile_placed env req p rd' (rds\<lparr>rcf_Name := om_Name rd\<rparr>) m nodes r)"
    if "fcm_Compile env (rt_FilterChainMatch rd) = Inr m"
      "getNodesForRoute env (rr_Config r) rd (rt_ListenerRefs rd) (fst req) = (nodes, rd')" for m nodes rd' rds
  proof (rule reconcile_placed_inv [OF inv _ prev])
    note rd' = getNodesForRoute_route [OF that(2)]
    show "entry_ok env (new_entry rd' (rds\<lparr>rcf_Name := om_Name rd\<rparr>) m)"
      by (rule entry_ok_new [OF that(1) rd']) simp
    show "om_Name rd' = snd req" using rd' req by simp
  qed
  show ?thesis
    unfolding reconcile_found_def Let_def
    by (auto simp: less same step split: sum.split prod.split)
qed

text \<open>The API returns the object it was asked for.\<close>

definition api_ok :: "rds_env \<Rightarrow> bool" where
  "api_ok env \<longleftrightarrow> (\<forall>k rd. Get_Route env k = Found rd \<longrightarrow> object_key rd = k)"

lemma Reconcile_start:
  "stored ((with_Status (SetHasRoutes True) r)\<lparr>rds_reconciling := x\<rparr>) = stored r"
  by (simp add: frame_simps)

lemma Reconcile_inv:
  assumes "api_ok env" and inv: "rds_inv env r"
  shows "rds_inv env (snd (Reconcile env req r))"
proof -
  let ?r = "(with_Status (SetHasRoutes True) r)\<lparr>rds_reconciling := rds_reconciling (with_Status (SetHasRoutes True) r) + 1\<rparr>"
  have keep: "rds_inv env r2" if "rds_inv env r1" "stored r2 = stored r1" for r1 r2
    using serves_less_inv [OF that(1) serves_less_frame [OF _ that(2)]] that(1) by (simp add: rds_inv_def)
  have inv1: "rds_inv env ?r" by (rule keep [OF inv]) (rule Reconcile_start)
  then have wf: "store_wf ?r" by (simp add: rds_inv_def)
  show ?thesis
  proof (cases "Get_Route env req")
    case (Found rd)
    then have "om_Name rd = snd req" using assms(1) by (cases req) (auto simp: api_ok_def object_key_def)
    from reconcile_found_inv [OF inv1 refl this] show ?thesis
      using Found keep by (simp add: Reconcile_def Let_def frame_simps)
  next
    case NotFound
    obtain ls r1 where rm: "removeRouteFromNodes (snd req) (pl_nodes (routePlacement (rr_Config ?r) (snd req))) ?r = (ls, r1)"
      by force
    have "rds_inv env r1" using serves_less_inv [OF inv1 serves_less_nodes [OF wf rm]] .
    then show ?thesis using NotFound keep rm by (simp add: Reconcile_def Let_def frame_simps)
  next
    case (GetError e)
    then show ?thesis using inv1 by (simp add: Reconcile_def Let_def)
  qed
qed

section \<open>Age decides\<close>

text \<open>Some older route served on one of the nodes conflicts with the new entry.\<close>

definition older_conflict :: "RouteReconciler \<Rightarrow> RouteConfig \<Rightarrow> string list \<Rightarrow> bool" where
  "older_conflict r e nodes \<longleftrightarrow>
     (\<exists>n\<in>set nodes. \<exists>k a. k \<noteq> rc_name e \<and> served r n k = Some a \<and> OlderRoute (rc_Route a) (rc_Route e) \<and>
        conflict e a \<noteq> VNone)"

lemma conflict_found:
  assumes inv: "rds_inv env r"
  shows "cf \<in> set (findConflicts env (rr_Config r) rd m (remdups nodes)) \<longleftrightarrow>
    (\<exists>n\<in>set nodes. \<exists>k a. k \<noteq> om_Name rd \<and> served r n k = Some a \<and> conflict (new_entry rd rds m) a \<noteq> VNone \<and>
       cf = \<lparr>cf_route = rc_Route a, cf_verdict = conflict (new_entry rd rds m) a\<rparr>)"
proof -
  have wf: "store_wf r" and un: "uniform r" using inv by (simp_all add: rds_inv_def)
  have "cf \<in> set (conflict_with env rd m a) \<longleftrightarrow>
      conflict (new_entry rd rds m) a \<noteq> VNone \<and> cf = \<lparr>cf_route = rc_Route a, cf_verdict = conflict (new_entry rd rds m) a\<rparr>"
    if "served r n k = Some a" for n k a
    using that inv conflict_with_iff [of env a rd m rds] by (auto simp: rds_inv_def entries_ok_def)
  then show ?thesis unfolding findConflicts_iff [OF wf un] by (metis set_remdups)
qed

lemma resolve_served:
  assumes inv: "rds_inv env r" and gone: "\<And>n. n \<notin> set nodes \<Longrightarrow> served r n (om_Name rd) = None"
  shows "served (resolve env req p rd rds m nodes r) n (om_Name rd) =
    (if n \<in> set nodes \<and> \<not> older_conflict r (new_entry rd rds m) nodes then Some (new_entry rd rds m) else None)"
proof -
  have wf: "store_wf r" using inv by (simp add: rds_inv_def)
  let ?cfs = "findConflicts env (rr_Config r) rd m (remdups nodes)"
  have older: "older_conflict r (new_entry rd rds m) nodes \<longleftrightarrow> (\<exists>cf\<in>set ?cfs. OlderRoute (cf_route cf) rd)"
  proof
    assume "older_conflict r (new_entry rd rds m) nodes"
    then obtain n k a where "n \<in> set nodes" "k \<noteq> om_Name rd" "served r n k = Some a" "OlderRoute (rc_Route a) rd"
        "conflict (new_entry rd rds m) a \<noteq> VNone"
      unfolding older_conflict_def by (auto simp: rc_Route_new_entry)
    then show "\<exists>cf\<in>set ?cfs. OlderRoute (cf_route cf) rd"
      using conflict_found [OF inv, of "\<lparr>cf_route = rc_Route a, cf_verdict = conflict (new_entry rd rds m) a\<rparr>" rd m nodes rds]
      by (intro bexI [of _ "\<lparr>cf_route = rc_Route a, cf_verdict = conflict (new_entry rd rds m) a\<rparr>"]) auto
  next
    assume "\<exists>cf\<in>set ?cfs. OlderRoute (cf_route cf) rd"
    then obtain cf where cf: "cf \<in> set ?cfs" "OlderRoute (cf_route cf) rd" by blast
    then obtain n k a where "n \<in> set nodes" "k \<noteq> om_Name rd" "served r n k = Some a"
        "conflict (new_entry rd rds m) a \<noteq> VNone" "cf_route cf = rc_Route a"
      using conflict_found [OF inv, of cf rd m nodes rds] by auto
    then show "older_conflict r (new_entry rd rds m) nodes"
      using cf(2) unfolding older_conflict_def rc_name_new_entry rc_Route_new_entry by metis
  qed
  show ?thesis
  proof (cases rule: resolve_cases [OF inv, of rd m nodes req p rds])
    case (1 w rest r1 msg)
    have "store_wf r1" using frame_served [OF 1(3)] wf by blast
    then have "served (reject rd p msg r1) n (om_Name rd) = None" using reject_served by simp
    moreover have "older_conflict r (new_entry rd rds m) nodes" unfolding older using 1(1,2) by auto
    ultimately show ?thesis using 1(4) by simp
  next
    case 2
    let ?r = "foldl (\<lambda>r cf. evict rd cf r) r ?cfs"
    have ev: "store_wf ?r" "served ?r n (om_Name rd) = None" if "n \<notin> set nodes"
      using evict_all_served [OF wf, of rd ?cfs n "om_Name rd"] gone [OF that] by simp_all
    have "store_wf ?r" using evict_all_served [OF wf, of rd ?cfs] by blast
    then show ?thesis
      unfolding 2(2) using placed [of ?r "fst req" p rd rds m nodes n "om_Name rd"] older 2(1) ev by auto
  qed
qed

lemma resolve_evicts_younger:
  assumes inv: "rds_inv env r" and a: "served r n k = Some a" and k: "k \<noteq> om_Name rd"
    and lost: "served (resolve env req p rd rds m nodes r) n k \<noteq> Some a"
  shows "OlderRoute rd (rc_Route a) \<and> (\<exists>n'\<in>set nodes. served r n' k = Some a \<and>
    served (resolve env req p rd rds m nodes r) n' (om_Name rd) = Some (new_entry rd rds m) \<and>
    conflict (new_entry rd rds m) a \<noteq> VNone)"
proof -
  have wf: "store_wf r" using inv by (simp add: rds_inv_def)
  let ?cfs = "findConflicts env (rr_Config r) rd m (remdups nodes)"
  have name: "om_Name (rc_Route b) = j" if "served r i j = Some b" for i j b
    using that unfolding served_def by (auto dest: lookup_Some simp: rc_name_def)
  show ?thesis
  proof (cases rule: resolve_cases [OF inv, of rd m nodes req p rds])
    case (1 w rest r1 msg)
    have "store_wf r1" "served r1 = served r" using frame_served [OF 1(3)] wf by simp_all
    then have "served (resolve env req p rd rds m nodes r) n k = Some a"
      using reject_served [of r1 rd p msg n k] k a 1(4) by simp
    with lost show ?thesis by blast
  next
    case 2
    let ?r = "foldl (\<lambda>r cf. evict rd cf r) r ?cfs"
    have wf': "store_wf ?r" using evict_all_served [OF wf, of rd ?cfs] by blast
    have pl: "served (resolve env req p rd rds m nodes r) i j =
        (if i \<in> set nodes \<and> j = om_Name rd then Some (new_entry rd rds m) else served ?r i j)" for i j
      unfolding 2(2) using placed [OF wf'] by blast
    then have "k \<in> (\<lambda>cf. om_Name (cf_route cf)) ` set ?cfs"
      using lost k a evict_all_served [OF wf, of rd ?cfs n k] by (auto split: if_splits)
    then obtain cf where cf: "cf \<in> set ?cfs" "om_Name (cf_route cf) = k" by blast
    then obtain n' j b where b: "n' \<in> set nodes" "served r n' j = Some b" "conflict (new_entry rd rds m) b \<noteq> VNone"
        "cf_route cf = rc_Route b"
      using conflict_found [OF inv, of cf rd m nodes rds] by auto
    have "j = k" using name [OF b(2)] b(4) cf(2) by simp
    then have "b = a" using a b(2) inv unfolding rds_inv_def uniform_def by blast
    moreover have "OlderRoute rd (rc_Route a)"
      using older_total [of "rc_Route a" rd] 2(1) cf(1) b(4) \<open>b = a\<close> name [OF a] k by auto
    ultimately show ?thesis using b pl \<open>j = k\<close> by auto
  qed
qed

section \<open>The handler as a whole\<close>

text \<open>Only the node and cluster names of the configuration decide where a route belongs.\<close>

definition same_names :: "Config \<Rightarrow> Config \<Rightarrow> bool" where
  "same_names c d \<longleftrightarrow> NodeID c = NodeID d \<and> ClusterName c = ClusterName d"

lemma with_defaults_names: "same_names c d \<Longrightarrow> with_defaults c = with_defaults d"
  by (simp add: with_defaults_def same_names_def fun_eq_iff)

lemma match_listeners_names:
  assumes "same_names c d"
  shows "match_listeners env c ns i ls li ex = match_listeners env d ns i ls li ex"
proof (induction ls arbitrary: li ex)
  case (Cons l ls)
  show ?case
    by (simp only: match_listeners.simps with_defaults_names [OF assms] Cons.IH)
qed simp

lemma match_nodes_names:
  assumes "same_names c d"
  shows "match_nodes env c ns ls nodes li ex = match_nodes env d ns ls nodes li ex"
proof (induction nodes arbitrary: li ex)
  case (Cons n nodes)
  show ?case
    by (simp only: match_nodes.simps match_listeners_names [OF assms] Cons.IH)
qed simp

lemma getNodesForRoute_names:
  assumes "same_names c d"
  shows "getNodesForRoute env c rd ls ns = getNodesForRoute env d rd ls ns"
proof -
  have "NodeID c = NodeID d" "ClusterName c = ClusterName d"
    using assms by (simp_all add: same_names_def)
  then show ?thesis
    by (simp only: getNodesForRoute_def isListenerExists_def match_nodes_names [OF assms] with_defaults_names [OF assms])
qed

lemma staticChainConflict_names:
  assumes "same_names c d"
  shows "staticChainConflict env c rd m nodes = staticChainConflict env d rd m nodes"
proof -
  have eq: "NodeID c = NodeID d" "ClusterName c = ClusterName d"
    using assms by (simp_all add: same_names_def)
  have "static_conflict env c ns m nodes names = static_conflict env d ns m nodes names" for ns names
  proof (induction names)
    case (Cons name names)
    show ?case by (simp only: static_conflict.simps eq Cons.IH)
  qed simp
  then show ?thesis by (simp add: staticChainConflict_def)
qed

lemma same_names_refl [simp]: "same_names c c"
  by (simp add: same_names_def)

lemma with_Status_names: "same_names (rr_Config (with_Status f r)) (rr_Config r)"
  by (simp add: with_Status_def with_Config_def same_names_def)

lemma send_listeners_names: "same_names (rr_Config (send_listeners ns names r)) (rr_Config r)"
proof (induction ns names r rule: send_listeners.induct)
  case (2 ns name names r)
  then show ?case using with_Status_names [of "MarkListenerPending (key_String (ns, name))" r]
    by (auto simp: Let_def same_names_def)
qed simp

lemma notifyListeners_names: "same_names (rr_Config (notifyListeners ns names r)) (rr_Config r)"
  using send_listeners_names [of ns names "with_Status (SetListenersReconciled False) r"]
    with_Status_names [of "SetListenersReconciled False" r]
  by (simp add: notifyListeners_def same_names_def)

lemma removeRouteLocked_names: "same_names (snd (removeRouteLocked n k st)) (snd st)"
  by (cases st) (simp add: removeRouteLocked_def IncrementConfigCounter_def same_names_def split: option.split)

lemma removeRouteFromNodes_names: "same_names (rr_Config (snd (removeRouteFromNodes k nodes r))) (rr_Config r)"
proof -
  have "same_names (snd (foldl (\<lambda>st n. removeRouteLocked n k st) st nodes)) (snd st)" for st
    by (induction nodes arbitrary: st) (use removeRouteLocked_names in \<open>auto simp: same_names_def\<close>)
  from this [of "([], rr_Config r)"] show ?thesis
    by (auto simp: removeRouteFromNodes_def remove_loop_def split: prod.split)
qed

text \<open>The state in which conflicts are looked for: the route has left the other nodes.\<close>

lemma reconcile_placed_cases:
  assumes inv: "rds_inv env r" and prev: "p = routePlacement (rr_Config r) (snd req)"
  obtains r1 where "rds_inv env r1" and "same_names (rr_Config r1) (rr_Config r)"
    and "\<And>n. n \<notin> set nodes \<Longrightarrow> served r1 n (snd req) = None"
    and "\<And>n j. j \<noteq> snd req \<Longrightarrow> served r1 n j = served r n j"
    and "reconcile_placed env req p rd rds m nodes r =
      (let l = staticChainConflict env (rr_Config r1) rd m (remdups nodes)
       in if l \<noteq> [] then reject rd p (DuplicatesStatic l) r1 else resolve env req p rd rds m nodes r1)"
proof -
  have wf: "store_wf r" using inv by (simp add: rds_inv_def)
  obtain ls r0 where rm: "removeRouteFromNodes (snd req) (filter (\<lambda>n. n \<notin> set nodes) (pl_nodes p)) r = (ls, r0)"
    by force
  let ?r = "notifyListeners (fst req) ls r0"
  have f: "stored ?r = stored r0" by (rule notifyListeners_frame)
  note leave = leave_nodes [OF wf prev rm]
  have i0: "rds_inv env r0" using serves_less_inv [OF inv] leave by blast
  have "rds_inv env ?r"
    using serves_less_inv [OF i0 serves_less_frame [OF _ f]] i0 by (simp add: rds_inv_def)
  moreover have "same_names (rr_Config ?r) (rr_Config r)"
    using notifyListeners_names [of "fst req" ls r0]
      removeRouteFromNodes_names [of "snd req" "filter (\<lambda>n. n \<notin> set nodes) (pl_nodes p)" r] rm
    by (simp add: same_names_def)
  ultimately show ?thesis
    using leave frame_served [OF f] by (intro that [of ?r]) (simp_all add: reconcile_placed_def rm Let_def)
qed

lemma reconcile_placed_evicts:
  assumes inv: "rds_inv env r" and prev: "p = routePlacement (rr_Config r) (snd req)" and req: "om_Name rd = snd req"
    and a: "served r n k = Some a" and k: "k \<noteq> snd req"
    and lost: "served (reconcile_placed env req p rd rds m nodes r) n k \<noteq> Some a"
  shows "OlderRoute rd (rc_Route a) \<and> (\<exists>n'. served r n' k = Some a \<and>
    served (reconcile_placed env req p rd rds m nodes r) n' (om_Name rd) = Some (new_entry rd rds m) \<and>
    conflict (new_entry rd rds m) a \<noteq> VNone)"
proof -
  obtain r1 where r1: "rds_inv env r1" "\<And>n j. j \<noteq> snd req \<Longrightarrow> served r1 n j = served r n j"
    and eq: "reconcile_placed env req p rd rds m nodes r =
      (let l = staticChainConflict env (rr_Config r1) rd m (remdups nodes)
       in if l \<noteq> [] then reject rd p (DuplicatesStatic l) r1 else resolve env req p rd rds m nodes r1)"
    using reconcile_placed_cases [OF inv prev, of nodes rd rds m] by metis
  have wf: "store_wf r1" using r1(1) by (simp add: rds_inv_def)
  have a1: "served r1 n k = Some a" using a k r1(2) by simp
  have "served (reject rd p msg r1) n k = Some a" for msg
    using reject_served [OF wf, of rd p msg n k] a1 k req by simp
  then have "reconcile_placed env req p rd rds m nodes r = resolve env req p rd rds m nodes r1"
    using lost eq by (auto simp: Let_def split: if_splits)
  then show ?thesis
    using resolve_evicts_younger [OF r1(1) a1, of rd req p rds m nodes] lost k req r1(2) [OF k] by auto
qed

lemma unplace_keeps:
  assumes "store_wf r" and "k \<noteq> om_Name rd"
  shows "served (unplace rd p msg r) n k = served r n k"
proof -
  obtain ls r1 where rm: "removeRouteFromNodes (om_Name rd) (pl_nodes p) r = (ls, r1)" by force
  have "stored (unplace rd p msg r) = stored r1" by (simp add: unplace_def rm frame_simps)
  then show ?thesis using removed_nodes [OF assms(1) rm, of n k] frame_served [of "unplace rd p msg r" r1] assms(2) by simp
qed

lemma OlderRoute_annotations [simp]: "OlderRoute (rd\<lparr>om_Annotations := an\<rparr>) x = OlderRoute rd x"
  by (simp add: OlderRoute_def)

lemma reconcile_found_evicts:
  assumes inv: "rds_inv env r" and prev: "p = routePlacement (rr_Config r) (snd req)" and req: "om_Name rd = snd req"
    and a: "served r n k = Some a" and k: "k \<noteq> snd req"
    and lost: "served (reconcile_found env req p rd r) n k \<noteq> Some a"
  shows "OlderRoute rd (rc_Route a) \<and> (\<exists>n' b. served r n' k = Some a \<and>
    served (reconcile_found env req p rd r) n' (snd req) = Some b \<and> conflict b a \<noteq> VNone)"
proof -
  have wf: "store_wf r" using inv by (simp add: rds_inv_def)
  have un: "served (unplace x p msg r) n k = Some a" if "om_Name x = snd req" for x msg
    using unplace_keeps [OF wf] a k that by simp
  have same: "served (updateRouteStatus u v w x y z (RecordRouteError e msg r)) n k = Some a" for u v w x y z e msg
    using frame_served [of "updateRouteStatus u v w x y z (RecordRouteError e msg r)" r] a by (simp add: frame_simps)
  obtain nodes rd' where g: "getNodesForRoute env (rr_Config r) rd (rt_ListenerRefs rd) (fst req) = (nodes, rd')"
    by force
  note rd' = getNodesForRoute_route [OF g]
  have n': "om_Name rd' = snd req" using rd' req by simp
  obtain rds m where eq: "reconcile_found env req p rd r = reconcile_placed env req p rd' rds m nodes r"
    using lost un [OF req] un [OF n'] same g
    by (auto simp: reconcile_found_def Let_def split: sum.splits if_splits)
  show ?thesis
    using reconcile_placed_evicts [OF inv prev n' a k, of rds m nodes] lost rd' n' unfolding eq by auto
qed

end
