(* ===== verification/RdsSpec.thy ===== *)
theory RdsSpec
  imports RdsFacts
begin

text \<open>
  What the route controller's \<open>Reconcile\<close> guarantees: no two conflicting filter chains on a node,
  the oldest of two conflicting routes is served, a route loses its place only to an older one.
\<close>

section \<open>The properties\<close>

lemma Reconcile_Found:
  assumes "Get_Route env req = Found rd"
  obtains r1 where "stored r1 = stored r" and "rr_Config r1 = rr_Config (with_Status (SetHasRoutes True) r)"
    and "stored (snd (Reconcile env req r)) =
      stored (reconcile_found env req (routePlacement (rr_Config r1) (snd req)) rd r1)"
proof -
  let ?r = "(with_Status (SetHasRoutes True) r)\<lparr>rds_reconciling := rds_reconciling (with_Status (SetHasRoutes True) r) + 1\<rparr>"
  show ?thesis
    by (rule that [of ?r]) (use assms in \<open>simp_all add: frame_simps Reconcile_def Let_def\<close>)
qed

lemma inv_frame: "rds_inv env r \<Longrightarrow> stored r' = stored r \<Longrightarrow> rds_inv env r'"
  using serves_less_inv [of env r r'] serves_less_frame [of r r'] by (simp add: rds_inv_def)

text \<open>C2. One run of the route controller's handler keeps its invariant, on every branch (errors
  of the API, deletion, invalid routes, conflicts lost and won): on every node, the routes served
  have distinct names, carry the matcher compiled from their own match and the listeners of their
  own references, are the same object on every node, and no two of them conflict, so that no listener
  of a node is given two filter chains Envoy would reject. The API is assumed to return the object
  it was asked for.\<close>

theorem reconcile_keeps_invariant:
  assumes "api_ok env" and "rds_inv env r"
  shows "rds_inv env (snd (Reconcile env req r))"
  using assms by (rule Reconcile_inv)

text \<open>C4. Reconciling a route takes another route off a node only when that other route is
  younger, conflicts with the one reconciled, and the one reconciled is served after the run on a
  node where the other was: no route loses its place to a younger route, nor to one that is itself
  refused.\<close>

theorem reconcile_evicts_only_younger:
  assumes "api_ok env" and inv: "rds_inv env r"
    and a: "served r n k = Some a" and k: "k \<noteq> snd req"
    and lost: "served (snd (Reconcile env req r)) n k \<noteq> Some a"
  shows "\<exists>rd n' b. Get_Route env req = Found rd \<and> OlderRoute rd (rc_Route a) \<and> served r n' k = Some a \<and>
    served (snd (Reconcile env req r)) n' (snd req) = Some b \<and> conflict b a \<noteq> VNone"
proof (cases "Get_Route env req")
  case (Found rd)
  obtain r1 where r1: "stored r1 = stored r"
    and eq: "stored (snd (Reconcile env req r)) =
      stored (reconcile_found env req (routePlacement (rr_Config r1) (snd req)) rd r1)"
    using Reconcile_Found [OF Found] by metis
  have req: "om_Name rd = snd req" using Found assms(1) by (cases req) (auto simp: api_ok_def object_key_def)
  show ?thesis
    using reconcile_found_evicts [OF inv_frame [OF inv r1] refl req _ k, of n a] a lost Found
      frame_served [OF r1] frame_served [OF eq] by auto
next
  case NotFound
  let ?r = "(with_Status (SetHasRoutes True) r)\<lparr>rds_reconciling := rds_reconciling (with_Status (SetHasRoutes True) r) + 1\<rparr>"
  obtain ls r1 where rm: "removeRouteFromNodes (snd req) (pl_nodes (routePlacement (rr_Config ?r) (snd req))) ?r = (ls, r1)"
    by force
  have wf: "store_wf ?r" using inv_frame [OF inv Reconcile_start] by (simp add: rds_inv_def)
  have "stored (snd (Reconcile env req r)) = stored r1"
    using NotFound rm by (simp add: Reconcile_def Let_def frame_simps)
  then show ?thesis
    using removed_nodes [OF wf rm, of n k] frame_served [OF Reconcile_start] frame_served k a lost by metis
next
  case (GetError e)
  then have "stored (snd (Reconcile env req r)) = stored r" by (simp add: Reconcile_def Let_def frame_simps)
  then show ?thesis using frame_served a lost by metis
qed

lemma Reconcile_served:
  assumes "api_ok env" and inv: "rds_inv env r"
    and found: "Get_Route env req = Found rd" and refs: "rt_ListenerRefs rd \<noteq> []"
    and rds: "recast_route env (rt_RouteConfig rd) = Inr rds"
    and m: "fcm_Compile env (rt_FilterChainMatch rd) = Inr m"
    and nodes: "getNodesForRoute env (rr_Config r) rd (rt_ListenerRefs rd) (fst req) = (nodes, rd')" "nodes \<noteq> []"
    and e: "e = new_entry rd' (rds\<lparr>rcf_Name := om_Name rd\<rparr>) m"
  shows "served (snd (Reconcile env req r)) n (snd req) =
    (if n \<in> set nodes \<and> staticChainConflict env (rr_Config r) rd' m (remdups nodes) = [] \<and> \<not> older_conflict r e nodes
     then Some e else None)"
proof -
  obtain r1 where r1: "stored r1 = stored r" and c1: "rr_Config r1 = rr_Config (with_Status (SetHasRoutes True) r)"
    and eq: "stored (snd (Reconcile env req r)) =
      stored (reconcile_found env req (routePlacement (rr_Config r1) (snd req)) rd r1)"
    using Reconcile_Found [OF found] by metis
  let ?p = "routePlacement (rr_Config r1) (snd req)"
  have req: "om_Name rd = snd req" using found assms(1) by (cases req) (auto simp: api_ok_def object_key_def)
  have rd': "om_Name rd' = snd req" using getNodesForRoute_route [OF nodes(1)] req by simp
  have same: "same_names (rr_Config r1) (rr_Config r)" unfolding c1 by (rule with_Status_names)
  have i1: "rds_inv env r1" by (rule inv_frame [OF inv r1])
  have rf: "reconcile_found env req ?p rd r1 = reconcile_placed env req ?p rd' (rds\<lparr>rcf_Name := om_Name rd\<rparr>) m nodes r1"
    using refs rds m nodes by (simp add: reconcile_found_def Let_def getNodesForRoute_names [OF same])
  obtain r2 where r2: "rds_inv env r2" "same_names (rr_Config r2) (rr_Config r1)"
      "\<And>n. n \<notin> set nodes \<Longrightarrow> served r2 n (snd req) = None" "\<And>n j. j \<noteq> snd req \<Longrightarrow> served r2 n j = served r1 n j"
    and placed: "reconcile_placed env req ?p rd' (rds\<lparr>rcf_Name := om_Name rd\<rparr>) m nodes r1 =
      (let l = staticChainConflict env (rr_Config r2) rd' m (remdups nodes)
       in if l \<noteq> [] then reject rd' ?p (DuplicatesStatic l) r2
          else resolve env req ?p rd' (rds\<lparr>rcf_Name := om_Name rd\<rparr>) m nodes r2)"
    using reconcile_placed_cases [OF i1 refl, where rd = rd' and nodes = nodes and m = m and req = req] by metis
  have "same_names (rr_Config r2) (rr_Config r)" using r2(2) same by (simp add: same_names_def)
  then have static: "staticChainConflict env (rr_Config r2) rd' m (remdups nodes) =
      staticChainConflict env (rr_Config r) rd' m (remdups nodes)" by (simp add: staticChainConflict_names)
  show ?thesis
  proof (cases "staticChainConflict env (rr_Config r) rd' m (remdups nodes) = []")
    case False
    have "store_wf r2" using r2(1) by (simp add: rds_inv_def)
    then show ?thesis
      using False reject_served [of r2 rd' ?p] frame_served [OF eq] rd' unfolding rf placed static by (simp add: Let_def)
  next
    case True
    then have "reconcile_found env req ?p rd r1 = resolve env req ?p rd' (rds\<lparr>rcf_Name := om_Name rd\<rparr>) m nodes r2"
      unfolding rf placed static by simp
    moreover have "older_conflict r2 e nodes = older_conflict r e nodes"
      using r2(4) frame_served [OF r1] unfolding older_conflict_def e rc_name_new_entry rd' by metis
    moreover have "\<And>n. n \<notin> set nodes \<Longrightarrow> served r2 n (om_Name rd') = None" using r2(3) rd' by simp
    ultimately show ?thesis
      using resolve_served [OF r2(1), where rd = rd' and nodes = nodes and n = n and m = m] frame_served [OF eq] rd' e True
      by simp
  qed
qed

lemma Reconcile_unplaced:
  assumes "api_ok env" and inv: "rds_inv env r"
    and gone: "Get_Route env req = NotFound \<or> Get_Route env req = Found rd \<and> rt_ListenerRefs rd \<noteq> [] \<and>
      recast_route env (rt_RouteConfig rd) = Inr rds \<and> fcm_Compile env (rt_FilterChainMatch rd) = Inr m \<and>
      getNodesForRoute env (rr_Config r) rd (rt_ListenerRefs rd) (fst req) = ([], rd')"
  shows "served (snd (Reconcile env req r)) n (snd req) = None"
proof -
  have leave: "served r2 n (snd req) = None"
    if "rds_inv env r1" "removeRouteFromNodes (snd req) (pl_nodes (routePlacement (rr_Config r1) (snd req))) r1 = (ls, r2)"
    for r1 r2 ls
    using leave_nodes [OF _ refl, of r1 "snd req" "[]" ls r2] that by (simp add: rds_inv_def)
  show ?thesis
  proof (cases "Get_Route env req")
    case NotFound
    let ?r = "(with_Status (SetHasRoutes True) r)\<lparr>rds_reconciling := rds_reconciling (with_Status (SetHasRoutes True) r) + 1\<rparr>"
    obtain ls r2 where rm: "removeRouteFromNodes (snd req) (pl_nodes (routePlacement (rr_Config ?r) (snd req))) ?r = (ls, r2)"
      by force
    have "stored (snd (Reconcile env req r)) = stored r2" using NotFound rm by (simp add: Reconcile_def Let_def frame_simps)
    then show ?thesis using leave [OF inv_frame [OF inv Reconcile_start] rm] frame_served by metis
  next
    case (Found rd0)
    then have f: "Get_Route env req = Found rd" "rt_ListenerRefs rd \<noteq> []" "recast_route env (rt_RouteConfig rd) = Inr rds"
      "fcm_Compile env (rt_FilterChainMatch rd) = Inr m"
      "getNodesForRoute env (rr_Config r) rd (rt_ListenerRefs rd) (fst req) = ([], rd')" using gone by auto
    obtain r1 where r1: "stored r1 = stored r" and c1: "rr_Config r1 = rr_Config (with_Status (SetHasRoutes True) r)"
      and eq: "stored (snd (Reconcile env req r)) =
        stored (reconcile_found env req (routePlacement (rr_Config r1) (snd req)) rd r1)"
      using Reconcile_Found [OF f(1)] by metis
    let ?p = "routePlacement (rr_Config r1) (snd req)"
    have same: "same_names (rr_Config r1) (rr_Config r)" unfolding c1 by (rule with_Status_names)
    have "om_Name rd' = snd req"
      using getNodesForRoute_route [OF f(5)] f(1) assms(1) by (cases req) (auto simp: api_ok_def object_key_def)
    moreover obtain ls r2 where rm: "removeRouteFromNodes (snd req) (pl_nodes ?p) r1 = (ls, r2)" by force
    ultimately have "stored (reconcile_found env req ?p rd r1) = stored r2"
      using f(2-5) by (simp add: reconcile_found_def Let_def getNodesForRoute_names [OF same] unplace_def frame_simps)
    then show ?thesis using leave [OF inv_frame [OF inv r1] rm] frame_served eq by metis
  qed (use gone in auto)
qed

text \<open>C3. The oldest route wins: a valid route with a place (its nodes not empty, no static filter
  chain in its way) is served, with the configuration built from it, on exactly its nodes, unless an
  older conflicting route is served on one of them; then it is served nowhere.\<close>

theorem reconcile_serves:
  assumes "api_ok env" and inv: "rds_inv env r"
    and found: "Get_Route env req = Found rd" and refs: "rt_ListenerRefs rd \<noteq> []"
    and rds: "recast_route env (rt_RouteConfig rd) = Inr rds"
    and m: "fcm_Compile env (rt_FilterChainMatch rd) = Inr m"
    and nodes: "getNodesForRoute env (rr_Config r) rd (rt_ListenerRefs rd) (fst req) = (nodes, rd')" "nodes \<noteq> []"
    and static: "staticChainConflict env (rr_Config r) rd' m (remdups nodes) = []"
    and e: "e = new_entry rd' (rds\<lparr>rcf_Name := om_Name rd\<rparr>) m"
  shows "served (snd (Reconcile env req r)) n (snd req) =
    (if n \<in> set nodes \<and> \<not> older_conflict r e nodes then Some e else None)"
  using Reconcile_served [OF assms(1-8) e] static by simp

section \<open>A cluster with two routes\<close>

definition sample_route :: "string \<Rightarrow> int \<Rightarrow> Route" where
  "sample_route name t =
     \<lparr>om_Name = name, om_Namespace = ''ns'', om_CreationTimestamp = t, om_Generation = 1, om_Annotations = [],
      rt_addr = 0, rt_ListenerRefs = [''l''], rt_TLSSecretRef = [], rt_TLSSecretRefs = [],
      rt_FilterChainMatch = None, rt_RouteConfig = None,
      rt_HCM = \<lparr>hcm_RouteConfig = None, hcm_Rds = None, hcm_rest = []\<rparr>\<rparr>"

definition sample_listener :: ListenerCR where
  "sample_listener =
     \<lparr>om_Name = ''l'', om_Namespace = ''ns'', om_CreationTimestamp = 0, om_Generation = 1, om_Annotations = [],
      li_FilterChains = None, li_rest = []\<rparr>"

definition sample_rds :: rds_env where
  "sample_rds =
     \<lparr>Get_Route = (\<lambda>k. if k = (''ns'', ''a'') then Found (sample_route ''a'' 1)
                      else if k = (''ns'', ''b'') then Found (sample_route ''b'' 2) else NotFound),
      Get_Listener = (\<lambda>k. if k = (''ns'', ''l'') then Found sample_listener else NotFound),
      List_Routes = (\<lambda>ns. Inr []),
      recast_route = (\<lambda>c. Inr \<lparr>rcf_Name = [], rcf_rest = []\<rparr>),
      validate_match = (\<lambda>m. None),
      recast_match = (\<lambda>m. Inl [])\<rparr>"

definition fresh_rds :: RouteReconciler where
  "fresh_rds =
     \<lparr>rr_Config = new_Config ''n'' ''c'', has_ListenerEvents = True, listenerEvents = [], has_requeue = True,
      requeue = [], losers = [], rds_reconciling = 0, accepts = 100, statusCalls = [], configErrors = []\<rparr>"

definition with_b :: RouteReconciler where
  "with_b = snd (Reconcile sample_rds (''ns'', ''b'') fresh_rds)"

definition with_a :: RouteReconciler where
  "with_a = snd (Reconcile sample_rds (''ns'', ''a'') with_b)"

lemma sample_api: "api_ok sample_rds"
  by (simp add: api_ok_def sample_rds_def object_key_def sample_route_def)

lemma fresh_inv: "rds_inv env fresh_rds"
proof -
  have "served fresh_rds n k = None" for n k
    by (simp add: served_def lookup_def fresh_rds_def new_Config_def)
  then show ?thesis
    by (simp add: rds_inv_def store_wf_def uniform_def entries_ok_def no_conflicts_def fresh_rds_def new_Config_def
        unique_names_def)
qed

lemma b_served: "\<exists>b. served with_b (pair_id ''c'' ''n'') ''b'' = Some b"
proof -
  have "served with_b (pair_id ''c'' ''n'') ''b'' = None \<longleftrightarrow> False"
    unfolding with_b_def option.case_eq_if by code_simp
  then show ?thesis by auto
qed

lemma b_evicted: "served with_a (pair_id ''c'' ''n'') ''b'' = None"
  unfolding with_a_def with_b_def by code_simp

theorem reconcile_keeps_invariant_witness:
  "rds_inv sample_rds with_b \<and> rds_inv sample_rds (snd (Reconcile sample_rds (''ns'', ''a'') with_b))"
proof -
  have "rds_inv sample_rds with_b"
    unfolding with_b_def by (rule reconcile_keeps_invariant [OF sample_api fresh_inv])
  then show ?thesis using reconcile_keeps_invariant [OF sample_api] by blast
qed

theorem reconcile_evicts_only_younger_witness:
  "\<exists>rd n b a. Get_Route sample_rds (''ns'', ''a'') = Found rd \<and> OlderRoute rd (rc_Route a) \<and>
     served with_b n ''b'' = Some a \<and> served with_a n ''a'' = Some b \<and> conflict b a \<noteq> VNone"
proof -
  obtain a where a: "served with_b (pair_id ''c'' ''n'') ''b'' = Some a" using b_served by blast
  have inv: "rds_inv sample_rds with_b" unfolding with_b_def by (rule Reconcile_inv [OF sample_api fresh_inv])
  have lost: "served (snd (Reconcile sample_rds (''ns'', ''a'') with_b)) (pair_id ''c'' ''n'') ''b'' \<noteq> Some a"
    using b_evicted by (simp add: with_a_def)
  from reconcile_evicts_only_younger [OF sample_api inv a _ lost] show ?thesis
    by (auto simp: with_a_def)
qed

definition default_b :: Route where
  "default_b = (sample_route ''b'' 2)\<lparr>om_Annotations := [(''nodes'', ''n''), (''clusters'', ''c'')]\<rparr>"

lemma sample_nodes:
  "getNodesForRoute sample_rds (rr_Config fresh_rds) (sample_route ''b'' 2) (rt_ListenerRefs (sample_route ''b'' 2))
     (fst (''ns'', ''b'')) = ([pair_id ''c'' ''n''], default_b)"
  by code_simp

theorem reconcile_serves_witness:
  "\<exists>b. served with_b (pair_id ''c'' ''n'') ''b'' = Some b \<and> om_Name (rc_Route b) = ''b''"
proof -
  obtain m where m: "fcm_Compile sample_rds (rt_FilterChainMatch (sample_route ''b'' 2)) = Inr m"
  proof -
    have "case fcm_Compile sample_rds None of Inl e \<Rightarrow> False | Inr m \<Rightarrow> True" by code_simp
    then show ?thesis using that by (auto simp: sample_route_def split: sum.splits)
  qed
  have alone: "\<not> older_conflict fresh_rds e nodes" for e nodes
    by (simp add: older_conflict_def served_def lookup_def fresh_rds_def new_Config_def)
  have found: "Get_Route sample_rds (''ns'', ''b'') = Found (sample_route ''b'' 2)"
    and refs: "rt_ListenerRefs (sample_route ''b'' 2) \<noteq> []"
    and rds: "recast_route sample_rds (rt_RouteConfig (sample_route ''b'' 2)) = Inr \<lparr>rcf_Name = [], rcf_rest = []\<rparr>"
    by (simp_all add: sample_rds_def sample_route_def)
  have static: "staticChainConflict sample_rds (rr_Config fresh_rds) default_b m (remdups [pair_id ''c'' ''n'']) = []"
    by (simp add: staticChainConflict_def sample_rds_def sample_listener_def default_b_def sample_route_def)
  from reconcile_serves [OF sample_api fresh_inv found refs rds m sample_nodes _ static refl, of "pair_id ''c'' ''n''"]
  show ?thesis using alone
    by (simp add: with_b_def new_entry_def default_b_def sample_route_def)
qed

end
