(* ===== verification/Lds.thy ===== *)
theory Lds
  imports Rds
begin

text \<open>
  The listener controller, \<open>src/controllers/lds/listener_controller.go\<close>: the filter chain built
  for a route and the cache of built chains, the Envoy listener assembled from a Listener resource
  and the routes of a node, the store of listeners, and the whole \<open>Reconcile\<close> handler. Arguments
  (\<open>env\<close>): the Kubernetes API, the conversions from JSON to protobuf, \<open>anypb.New\<close>. A packed
  message is immutable once it is built, so equal messages are given the same address.
\<close>

section \<open>State\<close>

record lds_env =
  Get_CR :: "nsname \<Rightarrow> ListenerCR get"
  recast_listener :: "ListenerCR \<Rightarrow> string + Listener"
  recast_hcm :: "HCM \<Rightarrow> string + HttpConnectionManager"
  to_match :: "lds_FilterChainMatch \<Rightarrow> string + FilterChainMatch"
  validate :: "FilterChainMatch \<Rightarrow> string option"
  pack_error :: "any_message \<Rightarrow> string option"
  address_of :: "any_message \<Rightarrow> nat"
  hcm_filter_name :: string

datatype lds_error =
    DuplicateFound
  | ListenerInvalid string
  | NoRoutesOrFilters
  | StaticInvalid string fcm_error
  | StaticDuplicate string
  | MatchInvalid string
  | RouteInvalid string fcm_error
  | FilterInvalid string

text \<open>What building the chain of a route gives: the fields of \<open>builtChain\<close> are filled in this
  order, so these three shapes are the values \<open>buildChain\<close> returns.\<close>

datatype builtChain =
    MatchErr lds_error
  | ChainErr Matcher lds_error
  | Built Matcher FilterChain

type_synonym chainCache = "(nat \<times> bool, builtChain) gmap"

datatype lds_message = LNone | NothingConfigured | RecastFailedWith lds_error

record lds_status =
  ls_name :: nsname
  ls_active :: bool
  ls_nodes :: "string list"
  ls_count :: nat
  ls_message :: lds_message

record ListenerReconciler =
  lr_Config :: Config
  lds_reconciling :: int
  chains :: chainCache
  lds_status_calls :: "lds_status list"
  lds_config_errors :: "(string \<times> lds_error) list"

section \<open>The chain of a route\<close>

definition isQUIC :: "Listener \<Rightarrow> bool" where
  "isQUIC l \<longleftrightarrow> el_UdpQuicOptions l = Some True \<and> el_Address l = SocketAddress 1"

definition ads_source :: "ConfigSource option \<Rightarrow> ConfigSource" where
  "ads_source cso =
     (let cs = (case cso of None \<Rightarrow> \<lparr>cs_Ads = None, cs_ResourceApiVersion = [], cs_rest = []\<rparr> | Some cs \<Rightarrow> cs)
      in cs\<lparr>cs_Ads := Some ''{}'', cs_ResourceApiVersion := ''V3''\<rparr>)"

definition hcm_of :: "Route \<Rightarrow> HCM" where
  "hcm_of route =
     (let h = (rt_HCM route)\<lparr>hcm_RouteConfig := None\<rparr>;
          cfg = (case hcm_Rds h of None \<Rightarrow> \<lparr>rds_ConfigSource = None, rds_RouteConfigName = []\<rparr> | Some r \<Rightarrow> r);
          cfg = cfg\<lparr>rds_RouteConfigName := om_Name route\<rparr>;
          cfg = cfg\<lparr>rds_ConfigSource := Some (ads_source (rds_ConfigSource cfg))\<rparr>
      in h\<lparr>hcm_Rds := Some cfg\<rparr>)"

definition pack :: "lds_env \<Rightarrow> any_message \<Rightarrow> string + Any" where
  "pack env m =
     (case pack_error env m of
        Some e \<Rightarrow> Inl e
      | None \<Rightarrow> Inr \<lparr>an_addr = address_of env m, an_message = m\<rparr>)"

text \<open>Codec types: 0 is AUTO, 3 is HTTP3.\<close>

definition prepareFilters :: "lds_env \<Rightarrow> Route \<Rightarrow> bool \<Rightarrow> string + Filter list" where
  "prepareFilters env route quic =
     (case recast_hcm env (hcm_of route) of
        Inl e \<Rightarrow> Inl e
      | Inr h \<Rightarrow>
          let h = (if quic \<and> hm_CodecType h = 0 then h\<lparr>hm_CodecType := 3\<rparr> else h) in
          (case pack env (AnyHCM h) of
             Inl e \<Rightarrow> Inl e
           | Inr tc \<Rightarrow> Inr [\<lparr>ef_Name = hcm_filter_name env, ef_TypedConfig = Some tc\<rparr>]))"

definition add_secret :: "string list \<Rightarrow> string \<Rightarrow> string list" where
  "add_secret names s = (let s = TrimSpace s in if s = [] then names else if s \<in> set names then names else names @ [s])"

definition routeTLSSecretNames :: "Route \<Rightarrow> string list" where
  "routeTLSSecretNames route = foldl add_secret (add_secret [] (rt_TLSSecretRef route)) (rt_TLSSecretRefs route)"

definition with_socket :: "lds_env \<Rightarrow> string \<Rightarrow> any_message \<Rightarrow> FilterChain \<Rightarrow> FilterChain" where
  "with_socket env name m fc =
     (case pack env m of
        Inl e \<Rightarrow> fc
      | Inr tc \<Rightarrow> fc\<lparr>ec_TransportSocket := Some \<lparr>ts_Name = name, ts_TypedConfig = tc\<rparr>\<rparr>)"

definition prepareSecretContext :: "lds_env \<Rightarrow> Route \<Rightarrow> bool \<Rightarrow> FilterChain \<Rightarrow> FilterChain" where
  "prepareSecretContext env route quic fc =
     (let secretNames = routeTLSSecretNames route in
      if secretNames = [] then fc
      else if quic then with_socket env ''envoy.transport_sockets.quic'' (AnyQuic secretNames) fc
      else
        let alpn = (case ec_FilterChainMatch fc of None \<Rightarrow> [] | Some m \<Rightarrow> application_protocols m)
        in with_socket env ''envoy.transport_sockets.tls'' (AnyTls secretNames alpn) fc)"

definition unmarshalFilterChainMatch :: "lds_env \<Rightarrow> Route \<Rightarrow> lds_error + FilterChainMatch option" where
  "unmarshalFilterChainMatch env route =
     (case rt_FilterChainMatch route of
        None \<Rightarrow> Inr None
      | Some m \<Rightarrow> (case to_match env m of Inl e \<Rightarrow> Inl (MatchInvalid e) | Inr p \<Rightarrow> Inr (Some p)))"

definition buildChain :: "lds_env \<Rightarrow> Route \<Rightarrow> bool \<Rightarrow> builtChain" where
  "buildChain env route quic =
     (case unmarshalFilterChainMatch env route of
        Inl e \<Rightarrow> MatchErr e
      | Inr routeFCM \<Rightarrow>
          (case CompileProto (validate env) routeFCM of
             Inl e \<Rightarrow> MatchErr (RouteInvalid (om_Name route) e)
           | Inr m \<Rightarrow>
               (case prepareFilters env route quic of
                  Inl e \<Rightarrow> ChainErr m (FilterInvalid e)
                | Inr filters \<Rightarrow>
                    Built m (prepareSecretContext env route quic
                      \<lparr>ec_Name = [], ec_FilterChainMatch = routeFCM, ec_Filters = filters,
                       ec_TransportSocket = None, ec_rest = []\<rparr>))))"

section \<open>The cache of chains\<close>

text \<open>A nil cache is \<open>None\<close>. The key is the address of the route and the kind of listener.\<close>

definition chains_get ::
  "lds_env \<Rightarrow> chainCache option \<Rightarrow> Route \<Rightarrow> bool \<Rightarrow> builtChain \<times> chainCache option" where
  "chains_get env cache route quic =
     (case cache of
        None \<Rightarrow> (buildChain env route quic, None)
      | Some c \<Rightarrow>
          (case mget c (rt_addr route, quic) of
             Some b \<Rightarrow> (b, Some c)
           | None \<Rightarrow>
               let b = buildChain env route quic
               in (b, Some (mset_at (rt_addr route, quic) b c))))"

definition chains_prune :: "nat list \<Rightarrow> chainCache \<Rightarrow> chainCache" where
  "chains_prune live c = filter (\<lambda>e. fst (fst e) \<in> set live) c"

section \<open>The listener\<close>

fun place_static :: "lds_env \<Rightarrow> FilterChain list \<Rightarrow> FcmSet \<Rightarrow> lds_error + FcmSet" where
  "place_static env [] placed = Inr placed"
| "place_static env (fc # fcs) placed =
     (case CompileProto (validate env) (ec_FilterChainMatch fc) of
        Inl e \<Rightarrow> Inl (StaticInvalid (ec_Name fc) e)
      | Inr m \<Rightarrow>
          if Set_HasDuplicate placed m then Inl (StaticDuplicate (ec_Name fc))
          else place_static env fcs (Set_Add placed m))"

definition duplicateFound :: "FcmSet \<Rightarrow> Matcher \<Rightarrow> bool" where
  "duplicateFound placed m = Set_HasDuplicate placed m"

definition processRoute :: "builtChain \<Rightarrow> Listener \<Rightarrow> FcmSet \<Rightarrow> lds_error + (Matcher \<times> Listener)" where
  "processRoute c lds placed =
     (case c of
        MatchErr e \<Rightarrow> Inl e
      | ChainErr m e \<Rightarrow> if duplicateFound placed m then Inl DuplicateFound else Inl e
      | Built m chain \<Rightarrow>
          if duplicateFound placed m then Inl DuplicateFound
          else Inr (m, lds\<lparr>el_FilterChains := el_FilterChains lds @ [chain]\<rparr>))"

text \<open>A route that is skipped is reported under its name, a duplicate as such.\<close>

fun place_routes ::
  "lds_env \<Rightarrow> bool \<Rightarrow> Route list \<Rightarrow> Listener \<Rightarrow> FcmSet \<Rightarrow> chainCache option
   \<Rightarrow> Listener \<times> chainCache option \<times> (string \<times> lds_error) list" where
  "place_routes env quic [] lds placed cache = (lds, cache, [])"
| "place_routes env quic (route # routes) lds placed cache =
     (case chains_get env cache route quic of
        (c, cache) \<Rightarrow>
          (case processRoute c lds placed of
             Inl e \<Rightarrow>
               (case place_routes env quic routes lds placed cache of
                  (lds, cache, errs) \<Rightarrow> (lds, cache, (om_Name route, e) # errs))
           | Inr (m, lds) \<Rightarrow> place_routes env quic routes lds (Set_Add placed m) cache))"

definition processRoutes ::
  "lds_env \<Rightarrow> Route list \<Rightarrow> Listener \<Rightarrow> chainCache option
   \<Rightarrow> (lds_error + Listener) \<times> chainCache option \<times> (string \<times> lds_error) list" where
  "processRoutes env routes lds cache =
     (case place_static env (el_FilterChains lds) [] of
        Inl e \<Rightarrow> (Inl e, cache, [])
      | Inr placed \<Rightarrow>
          (case place_routes env (isQUIC lds) routes lds placed cache of
             (lds, cache, errs) \<Rightarrow> (Inr lds, cache, errs)))"

definition listenerRecast ::
  "lds_env \<Rightarrow> ListenerCR \<Rightarrow> Route list \<Rightarrow> chainCache option
   \<Rightarrow> (lds_error + Listener) \<times> chainCache option \<times> (string \<times> lds_error) list" where
  "listenerRecast env l routes cache =
     (case recast_listener env l of
        Inl e \<Rightarrow> (Inl (ListenerInvalid e), cache, [])
      | Inr lds \<Rightarrow>
          let lds = lds\<lparr>el_Name := om_Name l\<rparr> in
          if routes = [] \<and> el_FilterChains lds = [] then (Inl NoRoutesOrFilters, cache, [])
          else processRoutes env routes lds cache)"

definition ListenerRecast :: "lds_env \<Rightarrow> ListenerCR \<Rightarrow> Route list \<Rightarrow> lds_error + Listener" where
  "ListenerRecast env l routes = fst (listenerRecast env l routes None)"

section \<open>Stores\<close>

definition remove_every :: "('v \<Rightarrow> string) \<Rightarrow> string \<Rightarrow> string \<Rightarrow> 'v store \<Rightarrow> 'v store" where
  "remove_every name node k s =
     (if k \<in> name ` set (mlist s node) then mset_at node (filter (\<lambda>v. name v \<noteq> k) (mlist s node)) s else s)"

definition remove_listener :: "string \<Rightarrow> Config \<Rightarrow> string \<Rightarrow> Config" where
  "remove_listener name c node =
     (IncrementConfigCounter ^^ length (filter (\<lambda>l. el_Name l = name) (mlist (ListenerConfigs c) node)))
       (c\<lparr>ListenerConfigs := remove_every el_Name node name (ListenerConfigs c)\<rparr>)"

definition removeListenerFromNodes :: "string \<Rightarrow> string list \<Rightarrow> Config \<Rightarrow> Config" where
  "removeListenerFromNodes name nodes c = foldl (remove_listener name) c nodes"

definition updateListenerConfig :: "string \<Rightarrow> Listener \<Rightarrow> Config \<Rightarrow> Config" where
  "updateListenerConfig node lds c =
     IncrementConfigCounter (c\<lparr>ListenerConfigs := store_put el_Name node lds (ListenerConfigs c)\<rparr>)"

definition getNodesForListener :: "Config \<Rightarrow> ListenerCR \<Rightarrow> string list \<times> ListenerCR" where
  "getNodesForListener c cr =
     (let cr = cr\<lparr>om_Annotations := with_defaults c (om_Annotations cr)\<rparr>
      in (NodeIDs (om_Annotations cr) (NodeID c) (ClusterName c), cr))"

definition routes_at :: "Config \<Rightarrow> string \<Rightarrow> RouteConfig list" where
  "routes_at c node =
     concat (map snd (filter (\<lambda>e. FindNodeAndCluster (NodeInfo_or_empty node) (fst e)) (RouteConfigs c)))"

definition getRoutesForNode :: "Config \<Rightarrow> string \<Rightarrow> string \<Rightarrow> Route list" where
  "getRoutesForNode c listener node =
     sort_by OlderRoute
       (map rc_Route (filter (\<lambda>rc. listener \<in> set (rt_ListenerRefs (rc_Route rc))) (routes_at c node)))"

definition hasRoutesFor :: "Config \<Rightarrow> string \<Rightarrow> string list \<Rightarrow> bool" where
  "hasRoutesFor c listener nodes =
     list_ex (\<lambda>node. list_ex (\<lambda>rc. listener \<in> set (rc_ListenerNames rc)) (routes_at c node)) nodes"

definition pruneChains :: "ListenerReconciler \<Rightarrow> ListenerReconciler" where
  "pruneChains r =
     r\<lparr>chains := chains_prune (map (\<lambda>rc. rt_addr (rc_Route rc)) (concat (map snd (RouteConfigs (lr_Config r)))))
                  (chains r)\<rparr>"

definition previous_nodes :: "string \<Rightarrow> Config \<Rightarrow> string list" where
  "previous_nodes name c =
     map fst (filter (\<lambda>e. list_ex (\<lambda>l. el_Name l = name) (snd e)) (ListenerConfigs c))"

section \<open>Reconcile\<close>

definition in_config :: "(Config \<Rightarrow> Config) \<Rightarrow> ListenerReconciler \<Rightarrow> ListenerReconciler" where
  "in_config f r = r\<lparr>lr_Config := f (lr_Config r)\<rparr>"

definition in_status ::
  "(ReconciliationStatus \<Rightarrow> ReconciliationStatus) \<Rightarrow> ListenerReconciler \<Rightarrow> ListenerReconciler" where
  "in_status f r = in_config (\<lambda>c. c\<lparr>reconciliationStatus := f (reconciliationStatus c)\<rparr>) r"

definition rs_of :: "ListenerReconciler \<Rightarrow> ReconciliationStatus" where
  "rs_of r = reconciliationStatus (lr_Config r)"

definition updateListenerStatus ::
  "ListenerCR \<Rightarrow> string list \<Rightarrow> nat \<Rightarrow> lds_message \<Rightarrow> ListenerReconciler \<Rightarrow> ListenerReconciler" where
  "updateListenerStatus cr nodes cnt msg r =
     r\<lparr>lds_status_calls := lds_status_calls r @
        [\<lparr>ls_name = object_key cr, ls_active = nodes \<noteq> [], ls_nodes = nodes, ls_count = cnt, ls_message = msg\<rparr>]\<rparr>"

text \<open>One node: the listener is removed, kept as it is (it cannot be built), or replaced. The
  accumulator holds the nodes it is active on, the most filter chains, and the last error.\<close>

definition reconcile_node ::
  "lds_env \<Rightarrow> ListenerCR \<Rightarrow> string list \<times> nat \<times> lds_message \<Rightarrow> string \<Rightarrow> ListenerReconciler
   \<Rightarrow> (string list \<times> nat \<times> lds_message) \<times> ListenerReconciler" where
  "reconcile_node env cr acc node r =
     (case acc of (active, cnt, msg) \<Rightarrow>
        let nodeRoutes = getRoutesForNode (lr_Config r) (om_Name cr) node in
        if li_FilterChains cr = None \<and> nodeRoutes = []
        then (acc, in_config (removeListenerFromNodes (om_Name cr) [node]) r)
        else
          (case listenerRecast env cr nodeRoutes (Some (chains r)) of
             (res, cache, errs) \<Rightarrow>
               let r = r\<lparr>chains := (case cache of None \<Rightarrow> [] | Some c \<Rightarrow> c),
                        lds_config_errors := lds_config_errors r @ errs\<rparr>
               in (case res of
                     Inl e \<Rightarrow> ((active, cnt, RecastFailedWith e), r)
                   | Inr lds \<Rightarrow>
                       ((active @ [node], max cnt (length (el_FilterChains lds)), msg),
                        in_config (updateListenerConfig node lds) r))))"

fun reconcile_nodes ::
  "lds_env \<Rightarrow> ListenerCR \<Rightarrow> string list \<Rightarrow> string list \<times> nat \<times> lds_message \<Rightarrow> ListenerReconciler
   \<Rightarrow> (string list \<times> nat \<times> lds_message) \<times> ListenerReconciler" where
  "reconcile_nodes env cr [] acc r = (acc, r)"
| "reconcile_nodes env cr (node # nodes) acc r =
     (case reconcile_node env cr acc node r of (acc, r) \<Rightarrow> reconcile_nodes env cr nodes acc r)"

definition reconcile_cr ::
  "lds_env \<Rightarrow> string list \<Rightarrow> ListenerCR \<Rightarrow> ListenerReconciler \<Rightarrow> ListenerReconciler" where
  "reconcile_cr env previous cr r =
     (case getNodesForListener (lr_Config r) cr of
        (currentNodes, cr) \<Rightarrow>
          if li_FilterChains cr = None \<and> \<not> hasRoutesFor (lr_Config r) (om_Name cr) currentNodes
          then updateListenerStatus cr [] 0 NothingConfigured
                 (in_config (removeListenerFromNodes (om_Name cr) previous) r)
          else
            (case reconcile_nodes env cr currentNodes ([], 0, LNone)
                    (in_config (removeListenerFromNodes (om_Name cr)
                       (filter (\<lambda>n. n \<notin> set currentNodes) previous)) r) of
               ((active, cnt, msg), r) \<Rightarrow> updateListenerStatus cr active cnt msg r))"

text \<open>The handler between the reading of the pending token and its end. \<open>Some e\<close> is an error.\<close>

definition reconcile_listener ::
  "lds_env \<Rightarrow> nsname \<Rightarrow> ListenerReconciler \<Rightarrow> string option \<times> ListenerReconciler" where
  "reconcile_listener env req r =
     (let r = r\<lparr>lds_reconciling := lds_reconciling r + 1\<rparr> in
      case Get_CR env req of
        GetError e \<Rightarrow> (Some e, r)
      | NotFound \<Rightarrow>
          (None, pruneChains (in_config (removeListenerFromNodes (snd req) (previous_nodes (snd req) (lr_Config r))) r))
      | Found cr \<Rightarrow> (None, pruneChains (reconcile_cr env (previous_nodes (snd req) (lr_Config r)) cr r)))"

datatype lds_result = RequeueAfterSecond | Finished | ReconcileError string

text \<open>\<open>meanwhile\<close>: what other goroutines do to the status between the reading of the token and the
  deferred clearing.\<close>

definition ReconcileListener ::
  "lds_env \<Rightarrow> (ReconciliationStatus \<Rightarrow> ReconciliationStatus) \<Rightarrow> nsname \<Rightarrow> ListenerReconciler
   \<Rightarrow> lds_result \<times> ListenerReconciler" where
  "ReconcileListener env meanwhile req r =
     (let r = in_status (SetHasListeners True) r; rs = rs_of r in
      if \<not> IsRoutesInitialized rs \<or> \<not> IsRoutesReconciled rs \<or> \<not> IsDomainConfigsReconciled rs
      then (RequeueAfterSecond, r)
      else
        let pendingSeq = ListenerPendingSeq (key_String req) rs in
        (case reconcile_listener env req r of
           (Some e, r) \<Rightarrow> (ReconcileError e, in_status meanwhile r)
         | (None, r) \<Rightarrow> (Finished, in_status (\<lambda>rs. ClearListenerPending (key_String req) pendingSeq (meanwhile rs)) r)))"

text \<open>The deferred part of the handler's goroutine, a second after the handler has returned.\<close>

definition listener_done :: "ListenerReconciler \<Rightarrow> ListenerReconciler" where
  "listener_done r =
     (let r = r\<lparr>lds_reconciling := lds_reconciling r - 1\<rparr>
      in if lds_reconciling r = 0 then in_status (SetListenersReconciled True) r else r)"

section \<open>Set-up\<close>

definition initialize_listeners :: "nat \<Rightarrow> ListenerReconciler \<Rightarrow> ListenerReconciler" where
  "initialize_listeners found r =
     (let r = (if 0 < found then in_status (SetHasListeners True) r else r)
      in in_status (SetListenersInitialized True) r)"

text \<open>Without the channel from the route controller, routes are watched directly.\<close>

definition listeners_of_route :: "Route \<Rightarrow> ListenerReconciler \<Rightarrow> nsname list \<times> ListenerReconciler" where
  "listeners_of_route route r =
     (if rt_ListenerRefs route = [] then ([], r)
      else (map (\<lambda>l. (om_Namespace route, l)) (rt_ListenerRefs route), in_status (SetListenersReconciled False) r))"

end
