(* ===== verification/LdsFacts.thy ===== *)
theory LdsFacts
  imports Lds
begin

text \<open>
  Facts about the listener controller: the cache of chains does not show, routes are attached
  greedily in order, the chains of a listener never collide, and what the handler leaves in the
  store. The listener store is a second provider of the interface of \<open>Store\<close>.
\<close>

section \<open>The listener store\<close>

lemma find_named_filter: "find_named name j (filter (\<lambda>v. name v \<noteq> k) xs) = (if j = k then None else find_named name j xs)"
  by (induction xs) auto

lemma remove_every_lookup:
  "lookup name (remove_every name node k s) node' k' =
     (if node' = node \<and> k' = k then None else lookup name s node' k')"
proof (cases "k \<in> name ` set (mlist s node)")
  case False
  then have "find_named name k (mlist s node) = None" by (simp add: find_named_None)
  then show ?thesis using False by (simp add: remove_every_def lookup_def)
qed (simp add: remove_every_def lookup_def find_named_filter)

lemma remove_every_unique: "unique_names name s \<Longrightarrow> unique_names name (remove_every name node k s)"
  by (simp add: unique_names_def remove_every_def distinct_map_filter)

interpretation listeners: node_store "el_Name :: Listener \<Rightarrow> string" "store_put el_Name" "remove_every el_Name"
proof
  note named = node_store_named [of el_Name]
  show "lookup el_Name (store_put el_Name node v s) node' k =
      (if node' = node \<and> k = el_Name v then Some v else lookup el_Name s node' k)" for node v s node' k
    by (rule node_store.lookup_put [OF named])
  show "unique_names el_Name (store_put el_Name node v s)" if "unique_names el_Name s" for node v s
    using that by (rule node_store.unique_put [OF named])
  show "gmap_ok (store_put el_Name node v s)" if "gmap_ok s" for node v and s :: "Listener store"
    using that by (rule node_store.keys_put [OF named])
qed (simp_all add: remove_every_lookup remove_every_unique, simp add: remove_every_def)

section \<open>Chains that do not collide\<close>

definition collides :: "Matcher list \<Rightarrow> Matcher \<Rightarrow> bool" where
  "collides ms m \<longleftrightarrow> list_ex (\<lambda>p. Matcher_Compare m p = Duplicate) ms"

definition collision_free :: "Matcher list \<Rightarrow> bool" where
  "collision_free ms \<longleftrightarrow> sorted_wrt (\<lambda>a b. Matcher_Compare a b \<noteq> Duplicate) ms"

definition compiled :: "lds_env \<Rightarrow> FilterChain \<Rightarrow> Matcher \<Rightarrow> bool" where
  "compiled env fc m \<longleftrightarrow> CompileProto (validate env) (ec_FilterChainMatch fc) = Inr m"

lemma placed_collides: "Set_HasDuplicate (Set_of ms) m \<longleftrightarrow> collides ms m"
  by (simp add: HasDuplicate_Set_of collides_def list_ex_iff)

lemma collision_free_snoc: "collision_free ms \<Longrightarrow> \<not> collides ms m \<Longrightarrow> collision_free (ms @ [m])"
  using Matcher_Compare_commute by (auto simp: collision_free_def collides_def sorted_wrt_append list_ex_iff)

lemma place_static_spec:
  assumes "place_static env fcs (Set_of ms0) = Inr placed" and "collision_free ms0"
  shows "\<exists>ms. list_all2 (compiled env) fcs ms \<and> placed = Set_of (ms0 @ ms) \<and> collision_free (ms0 @ ms)"
  using assms
proof (induction fcs arbitrary: ms0)
  case (Cons fc fcs)
  from Cons.prems obtain m where m: "compiled env fc m" "\<not> collides ms0 m"
      "place_static env fcs (Set_of (ms0 @ [m])) = Inr placed"
    by (auto simp: compiled_def placed_collides Set_of_snoc split: sum.splits if_splits)
  from Cons.IH [OF m(3) collision_free_snoc [OF Cons.prems(2) m(2)]] obtain ms
    where "list_all2 (compiled env) fcs ms" "placed = Set_of ((ms0 @ [m]) @ ms)" "collision_free ((ms0 @ [m]) @ ms)"
    by blast
  then show ?case using m(1) by (intro exI [of _ "m # ms"]) simp
qed simp

section \<open>The chain of a route\<close>

lemma with_socket_match [simp]:
  "ec_FilterChainMatch (with_socket env n m fc) = ec_FilterChainMatch fc"
  "ec_Filters (with_socket env n m fc) = ec_Filters fc"
  by (simp_all add: with_socket_def split: sum.split)

lemma prepareSecretContext_match [simp]:
  "ec_FilterChainMatch (prepareSecretContext env route quic fc) = ec_FilterChainMatch fc"
  "ec_Filters (prepareSecretContext env route quic fc) = ec_Filters fc"
  by (simp_all add: prepareSecretContext_def Let_def)

lemma built_compiled: "buildChain env route quic = Built m chain \<Longrightarrow> compiled env chain m"
  by (auto simp: buildChain_def compiled_def split: sum.splits)

section \<open>The cache\<close>

text \<open>The heap says which route lives at an address; the cache holds what those routes build.\<close>

definition at_home :: "(nat \<Rightarrow> Route) \<Rightarrow> Route \<Rightarrow> bool" where
  "at_home heap route \<longleftrightarrow> heap (rt_addr route) = route"

definition cache_ok :: "lds_env \<Rightarrow> (nat \<Rightarrow> Route) \<Rightarrow> chainCache \<Rightarrow> bool" where
  "cache_ok env heap c \<longleftrightarrow> gmap_ok c \<and> (\<forall>a quic b. mget c (a, quic) = Some b \<longrightarrow> b = buildChain env (heap a) quic)"

definition opt_cache_ok :: "lds_env \<Rightarrow> (nat \<Rightarrow> Route) \<Rightarrow> chainCache option \<Rightarrow> bool" where
  "opt_cache_ok env heap cache \<longleftrightarrow> (\<forall>c. cache = Some c \<longrightarrow> cache_ok env heap c)"

lemma opt_cache_ok_simps [simp]:
  "opt_cache_ok env heap None" "opt_cache_ok env heap (Some c) = cache_ok env heap c"
  by (simp_all add: opt_cache_ok_def)

lemma chains_get_ok:
  assumes "opt_cache_ok env heap cache" and "cache = None \<or> at_home heap route"
  shows "\<exists>cache'. chains_get env cache route quic = (buildChain env route quic, cache') \<and>
    opt_cache_ok env heap cache' \<and> (cache' = None \<longleftrightarrow> cache = None)"
proof (cases cache)
  case (Some c)
  show ?thesis
  proof (cases "mget c (rt_addr route, quic)")
    case None
    then show ?thesis using assms Some by (auto simp: chains_get_def at_home_def cache_ok_def Let_def)
  next
    case (Some b)
    have "cache_ok env heap c" using assms(1) \<open>cache = Some c\<close> by simp
    then have "b = buildChain env (heap (rt_addr route)) quic" using Some unfolding cache_ok_def by blast
    then have "b = buildChain env route quic" using assms(2) \<open>cache = Some c\<close> by (simp add: at_home_def)
    then show ?thesis using assms Some \<open>cache = Some c\<close> by (simp add: chains_get_def)
  qed
qed (simp add: chains_get_def)

lemma prune_ok:
  assumes "cache_ok env heap c"
  shows "cache_ok env heap (chains_prune live c)"
proof -
  have ok: "gmap_ok c" using assms by (simp add: cache_ok_def)
  have "mget c k = Some b" if "mget (chains_prune live c) k = Some b" for k b
    using mget_in_set [OF that] in_set_mget [OF ok] by (auto simp: chains_prune_def)
  moreover have "gmap_ok (chains_prune live c)"
    using ok by (simp add: gmap_ok_def chains_prune_def distinct_map_filter)
  ultimately show ?thesis using assms by (auto simp: cache_ok_def)
qed

section \<open>Attaching routes\<close>

text \<open>The reference: no cache, no set of matchers by name, no listener being extended.\<close>

fun attach ::
  "lds_env \<Rightarrow> bool \<Rightarrow> Matcher list \<Rightarrow> Route list \<Rightarrow> (Matcher \<times> FilterChain) list \<times> (string \<times> lds_error) list" where
  "attach env quic ms [] = ([], [])"
| "attach env quic ms (route # routes) =
     (case buildChain env route quic of
        MatchErr e \<Rightarrow> apsnd (Cons (om_Name route, e)) (attach env quic ms routes)
      | ChainErr m e \<Rightarrow>
          apsnd (Cons (om_Name route, if collides ms m then DuplicateFound else e)) (attach env quic ms routes)
      | Built m c \<Rightarrow>
          (if collides ms m then apsnd (Cons (om_Name route, DuplicateFound)) (attach env quic ms routes)
           else apfst (Cons (m, c)) (attach env quic (ms @ [m]) routes)))"

lemma place_routes_attach:
  assumes "opt_cache_ok env heap cache" and "cache = None \<or> (\<forall>rt\<in>set routes. at_home heap rt)"
  shows "\<exists>cache'. place_routes env quic routes lds (Set_of ms) cache =
      (lds\<lparr>el_FilterChains := el_FilterChains lds @ map snd (fst (attach env quic ms routes))\<rparr>, cache',
       snd (attach env quic ms routes)) \<and> opt_cache_ok env heap cache' \<and> (cache' = None \<longleftrightarrow> cache = None)"
  using assms
proof (induction routes arbitrary: lds ms cache)
  case (Cons route routes)
  have "cache = None \<or> at_home heap route" using Cons.prems(2) by auto
  from chains_get_ok [OF Cons.prems(1) this] obtain c1 where
    get: "chains_get env cache route quic = (buildChain env route quic, c1)"
    and c1: "opt_cache_ok env heap c1" "c1 = None \<longleftrightarrow> cache = None" by blast
  have "c1 = None \<or> (\<forall>rt\<in>set routes. at_home heap rt)" using Cons.prems(2) c1(2) by auto
  note IH = Cons.IH [OF c1(1) this]
  show ?case
  proof (cases "buildChain env route quic")
    case (MatchErr e)
    show ?thesis using IH [of lds ms] c1(2) by (auto simp: get MatchErr processRoute_def)
  next
    case (ChainErr m e)
    show ?thesis using IH [of lds ms] c1(2)
      by (auto simp: get ChainErr processRoute_def duplicateFound_def placed_collides)
  next
    case (Built m c)
    show ?thesis
      using IH [of lds ms] IH [of "lds\<lparr>el_FilterChains := el_FilterChains lds @ [c]\<rparr>" "ms @ [m]"] c1(2)
      by (auto simp: get Built processRoute_def duplicateFound_def placed_collides Set_of_snoc)
  qed
qed simp

lemma attach_free:
  "collision_free ms \<Longrightarrow> collision_free (ms @ map fst (fst (attach env quic ms routes)))"
proof (induction routes arbitrary: ms)
  case (Cons route routes)
  show ?case
  proof (cases "buildChain env route quic")
    case (Built m c)
    show ?thesis
    proof (cases "collides ms m")
      case True
      then show ?thesis using Cons Built by simp
    next
      case False
      then show ?thesis using Cons.IH [OF collision_free_snoc [OF Cons.prems False]] Built by simp
    qed
  qed (use Cons in simp_all)
qed simp

lemma attach_compiled: "(m, c) \<in> set (fst (attach env quic ms routes)) \<Longrightarrow>
  compiled env c m \<and> (\<exists>rt\<in>set routes. buildChain env rt quic = Built m c)"
proof (induction routes arbitrary: ms)
  case (Cons route routes)
  then show ?case
    by (cases "buildChain env route quic") (auto dest: built_compiled split: if_splits)
qed simp

text \<open>A route whose chain is built is left out only for a chain attached before it.\<close>

lemma attach_complete:
  assumes "rt \<in> set routes" and "buildChain env rt quic = Built m c"
  shows "(m, c) \<in> set (fst (attach env quic ms routes)) \<or>
    collides (ms @ map fst (fst (attach env quic ms routes))) m \<and>
    (om_Name rt, DuplicateFound) \<in> set (snd (attach env quic ms routes))"
  using assms(1)
proof (induction routes arbitrary: ms)
  case (Cons route routes)
  show ?case
  proof (cases "rt = route")
    case True
    then show ?thesis using assms(2) by (auto simp: collides_def)
  next
    case False
    then have mem: "rt \<in> set routes" using Cons.prems by simp
    show ?thesis
    proof (cases "buildChain env route quic")
      case (Built m' c')
      show ?thesis using Cons.IH [OF mem, of ms] Cons.IH [OF mem, of "ms @ [m']"] Built by auto
    qed (use Cons.IH [OF mem, of ms] in auto)
  qed
qed simp

section \<open>The listener of a node\<close>

lemma processRoutes_cached:
  assumes "opt_cache_ok env heap cache" and "cache = None \<or> (\<forall>rt\<in>set routes. at_home heap rt)"
  shows "\<exists>cache'. processRoutes env routes lds cache =
      (fst (processRoutes env routes lds None), cache', snd (snd (processRoutes env routes lds None))) \<and>
    opt_cache_ok env heap cache' \<and> (cache' = None \<longleftrightarrow> cache = None)"
proof (cases "place_static env (el_FilterChains lds) []")
  case (Inl e)
  then show ?thesis using assms(1) by (simp add: processRoutes_def)
next
  case (Inr placed)
  have "place_static env (el_FilterChains lds) (Set_of []) = Inr placed" using Inr by (simp add: Set_of_def)
  from place_static_spec [OF this] obtain ms where "placed = Set_of ms" by (auto simp: collision_free_def)
  moreover obtain c' where "place_routes env (isQUIC lds) routes lds (Set_of ms) cache =
      (lds\<lparr>el_FilterChains := el_FilterChains lds @ map snd (fst (attach env (isQUIC lds) ms routes))\<rparr>, c',
       snd (attach env (isQUIC lds) ms routes))" "opt_cache_ok env heap c'" "c' = None \<longleftrightarrow> cache = None"
    using place_routes_attach [OF assms] by blast
  moreover obtain c0 where "place_routes env (isQUIC lds) routes lds (Set_of ms) None =
      (lds\<lparr>el_FilterChains := el_FilterChains lds @ map snd (fst (attach env (isQUIC lds) ms routes))\<rparr>, c0,
       snd (attach env (isQUIC lds) ms routes))"
    using place_routes_attach [where cache = None and heap = undefined] by auto
  ultimately show ?thesis using Inr by (auto simp: processRoutes_def)
qed

lemma listenerRecast_cached:
  assumes "opt_cache_ok env heap cache" and "cache = None \<or> (\<forall>rt\<in>set routes. at_home heap rt)"
  shows "\<exists>cache'. listenerRecast env l routes cache =
      (ListenerRecast env l routes, cache', snd (snd (listenerRecast env l routes None))) \<and>
    opt_cache_ok env heap cache' \<and> (cache' = None \<longleftrightarrow> cache = None)"
  using processRoutes_cached [OF assms] assms(1)
  by (auto simp: listenerRecast_def ListenerRecast_def Let_def split: sum.split)

lemma isQUIC_name [simp]: "isQUIC (lds\<lparr>el_Name := n\<rparr>) = isQUIC lds"
  by (simp add: isQUIC_def)

lemma listenerRecast_Inr:
  assumes "ListenerRecast env l routes = Inr lds"
  obtains lds0 ms where "recast_listener env l = Inr lds0" "list_all2 (compiled env) (el_FilterChains lds0) ms"
    "collision_free ms"
    "lds = lds0\<lparr>el_Name := om_Name l,
       el_FilterChains := el_FilterChains lds0 @ map snd (fst (attach env (isQUIC lds0) ms routes))\<rparr>"
    "snd (snd (listenerRecast env l routes None)) = snd (attach env (isQUIC lds0) ms routes)"
proof -
  obtain lds0 where lds0: "recast_listener env l = Inr lds0"
    and p: "fst (processRoutes env routes (lds0\<lparr>el_Name := om_Name l\<rparr>) None) = Inr lds"
    and e: "listenerRecast env l routes None = processRoutes env routes (lds0\<lparr>el_Name := om_Name l\<rparr>) None"
    using assms by (auto simp: ListenerRecast_def listenerRecast_def Let_def split: sum.splits if_splits)
  let ?lds = "lds0\<lparr>el_Name := om_Name l\<rparr>"
  obtain placed where st: "place_static env (el_FilterChains lds0) (Set_of []) = Inr placed"
    using p by (auto simp: processRoutes_def Set_of_def split: sum.splits)
  from place_static_spec [OF st] obtain ms
    where ms: "list_all2 (compiled env) (el_FilterChains lds0) ms" "placed = Set_of ms" "collision_free ms"
    by (auto simp: collision_free_def)
  obtain c0 where "place_routes env (isQUIC lds0) routes ?lds (Set_of ms) None =
      (?lds\<lparr>el_FilterChains := el_FilterChains ?lds @ map snd (fst (attach env (isQUIC lds0) ms routes))\<rparr>, c0,
       snd (attach env (isQUIC lds0) ms routes))"
    using place_routes_attach [where cache = None and heap = undefined, of env routes "isQUIC lds0" ?lds ms] by auto
  then show ?thesis
    using that [OF lds0 ms(1,3)] p e st ms(2) by (auto simp: processRoutes_def Set_of_def)
qed

lemma listenerRecast_name: "ListenerRecast env l routes = Inr lds \<Longrightarrow> el_Name lds = om_Name l"
  by (rule listenerRecast_Inr) auto

section \<open>What the handler leaves in the store\<close>

definition listener_at :: "ListenerReconciler \<Rightarrow> string \<Rightarrow> string \<Rightarrow> Listener option" where
  "listener_at r n k = lookup el_Name (ListenerConfigs (lr_Config r)) n k"

text \<open>Names are unique on a node, and the cache holds chains of the routes the
  store points to, each attached to the listeners it references.\<close>

definition lds_inv :: "lds_env \<Rightarrow> (nat \<Rightarrow> Route) \<Rightarrow> ListenerReconciler \<Rightarrow> bool" where
  "lds_inv env heap r \<longleftrightarrow>
     gmap_ok (ListenerConfigs (lr_Config r)) \<and> unique_names el_Name (ListenerConfigs (lr_Config r)) \<and>
     cache_ok env heap (chains r) \<and>
     (\<forall>rcs\<in>snd ` set (RouteConfigs (lr_Config r)). \<forall>rc\<in>set rcs.
        at_home heap (rc_Route rc) \<and> rc_ListenerNames rc = rt_ListenerRefs (rc_Route rc))"

text \<open>The part of the configuration the handler only reads.\<close>

definition read_part ::
  "ListenerReconciler \<Rightarrow> (string, RouteConfig list) gmap \<times> string \<times> string \<times> ReconciliationStatus" where
  "read_part r =
     (RouteConfigs (lr_Config r), NodeID (lr_Config r), ClusterName (lr_Config r), reconciliationStatus (lr_Config r))"

lemma Increment_pow: "(IncrementConfigCounter ^^ n) c = c\<lparr>configChangeCounter := configChangeCounter c + of_nat n\<rparr>"
  by (induction n) (simp_all add: IncrementConfigCounter_def algebra_simps)

lemma removeListener_store:
  "ListenerConfigs (removeListenerFromNodes k nodes c) = listeners.remove_all nodes k (ListenerConfigs c) \<and>
   RouteConfigs (removeListenerFromNodes k nodes c) = RouteConfigs c \<and>
   NodeID (removeListenerFromNodes k nodes c) = NodeID c \<and> ClusterName (removeListenerFromNodes k nodes c) = ClusterName c \<and>
   reconciliationStatus (removeListenerFromNodes k nodes c) = reconciliationStatus c"
  by (induction nodes arbitrary: c)
    (simp_all add: removeListenerFromNodes_def listeners.remove_all_def remove_listener_def Increment_pow)

lemma removed_listener:
  assumes "lds_inv env heap r"
  shows "lds_inv env heap (in_config (removeListenerFromNodes k nodes) r) \<and>
    read_part (in_config (removeListenerFromNodes k nodes) r) = read_part r \<and>
    listener_at (in_config (removeListenerFromNodes k nodes) r) n j =
      (if n \<in> set nodes \<and> j = k then None else listener_at r n j)"
  using assms
  by (simp add: lds_inv_def read_part_def in_config_def removeListener_store listener_at_def
      listeners.unique_remove_all listeners.keys_remove_all listeners.lookup_remove_all)

lemma updated_listener:
  assumes "lds_inv env heap r" and "el_Name lds = k"
  shows "lds_inv env heap (in_config (updateListenerConfig node lds) r) \<and>
    read_part (in_config (updateListenerConfig node lds) r) = read_part r \<and>
    listener_at (in_config (updateListenerConfig node lds) r) n j =
      (if n = node \<and> j = k then Some lds else listener_at r n j)"
  using assms
  by (simp add: lds_inv_def read_part_def in_config_def updateListenerConfig_def IncrementConfigCounter_def
      listener_at_def listeners.unique_put listeners.keys_put listeners.lookup_put)

text \<open>What one node ends up with: nothing, the listener built from its routes, or what it had.\<close>

definition target ::
  "lds_env \<Rightarrow> ListenerCR \<Rightarrow> Route list \<Rightarrow> Listener option \<Rightarrow> Listener option" where
  "target env cr routes old =
     (if li_FilterChains cr = None \<and> routes = [] then None
      else case ListenerRecast env cr routes of Inl e \<Rightarrow> old | Inr lds \<Rightarrow> Some lds)"

lemma target_idem: "target env cr routes (target env cr routes old) = target env cr routes old"
  by (simp add: target_def split: sum.split)

lemma routes_at_mem: "rc \<in> set (routes_at c node) \<Longrightarrow> \<exists>rcs\<in>snd ` set (RouteConfigs c). rc \<in> set rcs"
  by (force simp: routes_at_def)

lemma node_routes_home:
  assumes "lds_inv env heap r" and "rt \<in> set (getRoutesForNode (lr_Config r) name node)"
  shows "at_home heap rt"
proof -
  obtain rc where "rt = rc_Route rc" "rc \<in> set (routes_at (lr_Config r) node)"
    using assms(2) by (auto simp: getRoutesForNode_def)
  then show ?thesis using routes_at_mem [of rc] assms(1) unfolding lds_inv_def by blast
qed

lemma read_part_routes: "read_part r' = read_part r \<Longrightarrow> getRoutesForNode (lr_Config r') = getRoutesForNode (lr_Config r)"
  by (simp add: read_part_def getRoutesForNode_def routes_at_def fun_eq_iff)

lemma reconcile_node_at:
  assumes inv: "lds_inv env heap r" and step: "reconcile_node env cr acc node r = (acc', r')"
  shows "lds_inv env heap r' \<and> read_part r' = read_part r \<and>
    listener_at r' n k =
      (if n = node \<and> k = om_Name cr
       then target env cr (getRoutesForNode (lr_Config r) (om_Name cr) node) (listener_at r n k)
       else listener_at r n k)"
proof -
  obtain active cnt msg where acc: "acc = (active, cnt, msg)" by (cases acc)
  let ?routes = "getRoutesForNode (lr_Config r) (om_Name cr) node"
  show ?thesis
  proof (cases "li_FilterChains cr = None \<and> ?routes = []")
    case True
    then have "r' = in_config (removeListenerFromNodes (om_Name cr) [node]) r"
      using step acc by (simp add: reconcile_node_def)
    then show ?thesis using removed_listener [OF inv, of "om_Name cr" "[node]" n k] True by (simp add: target_def)
  next
    case False
    have "opt_cache_ok env heap (Some (chains r))" using inv by (simp add: lds_inv_def)
    from listenerRecast_cached [OF this, of ?routes cr] node_routes_home [OF inv] obtain c errs where
      rec: "listenerRecast env cr ?routes (Some (chains r)) = (ListenerRecast env cr ?routes, Some c, errs)"
      and c: "cache_ok env heap c" by auto
    let ?r = "r\<lparr>chains := c, lds_config_errors := lds_config_errors r @ errs\<rparr>"
    have inv1: "lds_inv env heap ?r" using inv c by (simp add: lds_inv_def)
    have same: "read_part ?r = read_part r" "listener_at ?r = listener_at r"
      by (simp_all add: read_part_def listener_at_def fun_eq_iff)
    show ?thesis
    proof (cases "ListenerRecast env cr ?routes")
      case (Inl e)
      then have "r' = ?r" using step acc False rec by (auto simp: reconcile_node_def)
      then show ?thesis using inv1 same Inl False by (auto simp: target_def)
    next
      case (Inr lds)
      then have "r' = in_config (updateListenerConfig node lds) ?r"
        using step acc False rec by (auto simp: reconcile_node_def)
      then show ?thesis
        using updated_listener [OF inv1 listenerRecast_name [OF Inr], of node n k] same Inr False
        by (auto simp: target_def)
    qed
  qed
qed

lemma reconcile_nodes_at:
  assumes "lds_inv env heap r" and "reconcile_nodes env cr nodes acc r = (acc', r')"
  shows "lds_inv env heap r' \<and> read_part r' = read_part r \<and>
    listener_at r' n k =
      (if n \<in> set nodes \<and> k = om_Name cr
       then target env cr (getRoutesForNode (lr_Config r) (om_Name cr) n) (listener_at r n k)
       else listener_at r n k)"
  using assms
proof (induction nodes arbitrary: acc r)
  case (Cons node nodes)
  obtain acc1 r1 where one: "reconcile_node env cr acc node r = (acc1, r1)"
    by (cases "reconcile_node env cr acc node r")
  then have rest: "reconcile_nodes env cr nodes acc1 r1 = (acc', r')" using Cons.prems(2) by simp
  note first = reconcile_node_at [OF Cons.prems(1) one, of n k]
  have "lds_inv env heap r1" "read_part r1 = read_part r" using first by blast+
  then show ?case
    using Cons.IH [OF _ rest] first read_part_routes [of r1 r] target_idem by auto
qed simp

lemma hasRoutesFor_iff:
  assumes "lds_inv env heap r"
  shows "hasRoutesFor (lr_Config r) name nodes \<longleftrightarrow> (\<exists>n\<in>set nodes. getRoutesForNode (lr_Config r) name n \<noteq> [])"
proof -
  have names: "rc_ListenerNames rc = rt_ListenerRefs (rc_Route rc)" if "rc \<in> set (routes_at (lr_Config r) n)" for rc n
    using routes_at_mem [OF that] assms unfolding lds_inv_def by blast
  have ne: "getRoutesForNode (lr_Config r) name n \<noteq> [] \<longleftrightarrow>
      (\<exists>rc\<in>set (routes_at (lr_Config r) n). name \<in> set (rt_ListenerRefs (rc_Route rc)))" for n
  proof -
    have "set (getRoutesForNode (lr_Config r) name n) \<noteq> {} \<longleftrightarrow>
        (\<exists>rc\<in>set (routes_at (lr_Config r) n). name \<in> set (rt_ListenerRefs (rc_Route rc)))"
      by (auto simp: getRoutesForNode_def)
    then show ?thesis by simp
  qed
  have "list_ex (\<lambda>rc. name \<in> set (rc_ListenerNames rc)) (routes_at (lr_Config r) n) \<longleftrightarrow>
      (\<exists>rc\<in>set (routes_at (lr_Config r) n). name \<in> set (rt_ListenerRefs (rc_Route rc)))" for n
    using names [of _ n] by (simp add: list_ex_iff)
  then show ?thesis unfolding ne by (simp add: hasRoutesFor_def list_ex_iff)
qed

lemma previous_absent:
  assumes "lds_inv env heap r" and "n \<notin> set (previous_nodes k (lr_Config r))"
  shows "listener_at r n k = None"
proof (rule ccontr)
  assume "listener_at r n k \<noteq> None"
  then obtain l where "l \<in> set (mlist (ListenerConfigs (lr_Config r)) n)" "el_Name l = k"
    unfolding listener_at_def using lookup_Some by (metis not_None_eq)
  then obtain ls where "(n, ls) \<in> set (ListenerConfigs (lr_Config r))" "l \<in> set ls"
    using mlist_in_set by metis
  then show False using assms(2) \<open>el_Name l = k\<close> by (force simp: previous_nodes_def list_ex_iff)
qed

lemma status_call_frame:
  "lds_inv env heap (updateListenerStatus cr nodes cnt msg r) = lds_inv env heap r"
  "listener_at (updateListenerStatus cr nodes cnt msg r) = listener_at r"
  "read_part (updateListenerStatus cr nodes cnt msg r) = read_part r"
  by (simp_all add: updateListenerStatus_def lds_inv_def listener_at_def read_part_def fun_eq_iff)

text \<open>One resource: its nodes get their targets, every other node loses the listener.\<close>

lemma reconcile_cr_at:
  assumes inv: "lds_inv env heap r" and nodes: "getNodesForListener (lr_Config r) cr = (nodes, cr')"
    and r': "r' = reconcile_cr env (previous_nodes (om_Name cr) (lr_Config r)) cr r"
  shows "lds_inv env heap r' \<and> read_part r' = read_part r \<and>
    listener_at r' n k =
      (if k \<noteq> om_Name cr then listener_at r n k
       else if n \<in> set nodes
       then target env cr' (getRoutesForNode (lr_Config r) k n) (listener_at r n k)
       else None)"
proof -
  let ?prev = "previous_nodes (om_Name cr) (lr_Config r)"
  have name: "om_Name cr' = om_Name cr" using nodes by (auto simp: getNodesForListener_def)
  note absent = previous_absent [OF inv, of n "om_Name cr"]
  show ?thesis
  proof (cases "li_FilterChains cr' = None \<and> \<not> hasRoutesFor (lr_Config r) (om_Name cr) nodes")
    case True
    then have eq: "r' = updateListenerStatus cr' [] 0 NothingConfigured
        (in_config (removeListenerFromNodes (om_Name cr) ?prev) r)"
      using r' nodes name by (simp add: reconcile_cr_def)
    have "target env cr' (getRoutesForNode (lr_Config r) (om_Name cr) n) x = None" if "n \<in> set nodes" for x
      using True hasRoutesFor_iff [OF inv, of "om_Name cr" nodes] that by (auto simp: target_def)
    then show ?thesis
      unfolding eq status_call_frame using removed_listener [OF inv, of "om_Name cr" ?prev n k] absent by auto
  next
    case False
    let ?r = "in_config (removeListenerFromNodes (om_Name cr) (filter (\<lambda>n. n \<notin> set nodes) ?prev)) r"
    obtain active cnt msg r2 where loop: "reconcile_nodes env cr' nodes ([], 0, LNone) ?r = ((active, cnt, msg), r2)"
      by (cases "reconcile_nodes env cr' nodes ([], 0, LNone) ?r") auto
    have eq: "r' = updateListenerStatus cr' active cnt msg r2"
      using False r' nodes name loop by (auto simp: reconcile_cr_def)
    note rm = removed_listener [OF inv, of "om_Name cr" "filter (\<lambda>n. n \<notin> set nodes) ?prev" n k]
    have "lds_inv env heap ?r" "read_part ?r = read_part r" using rm by blast+
    with reconcile_nodes_at [OF _ loop, of heap n k] read_part_routes [of ?r r] show ?thesis
      unfolding eq status_call_frame using rm absent name by auto
  qed
qed

lemma prune_frame:
  assumes "lds_inv env heap r"
  shows "lds_inv env heap (pruneChains r)" and "listener_at (pruneChains r) = listener_at r"
    and "read_part (pruneChains r) = read_part r"
  using assms prune_ok [of env heap "chains r"]
  by (simp_all add: pruneChains_def lds_inv_def listener_at_def read_part_def fun_eq_iff)

lemma status_frame:
  "lds_inv env heap (in_status f r) = lds_inv env heap r"
  "listener_at (in_status f r) = listener_at r"
  "RouteConfigs (lr_Config (in_status f r)) = RouteConfigs (lr_Config r)"
  "reconciliationStatus (lr_Config (in_status f r)) = f (reconciliationStatus (lr_Config r))"
  by (simp_all add: in_status_def in_config_def lds_inv_def listener_at_def fun_eq_iff)

lemma count_frame:
  "lds_inv env heap (r\<lparr>lds_reconciling := i\<rparr>) = lds_inv env heap r"
  "listener_at (r\<lparr>lds_reconciling := i\<rparr>) = listener_at r"
  "read_part (r\<lparr>lds_reconciling := i\<rparr>) = read_part r"
  by (simp_all add: lds_inv_def listener_at_def read_part_def fun_eq_iff)

text \<open>What a listener request asks for, as a function of the API's answer and the state before.\<close>

definition wanted ::
  "lds_env \<Rightarrow> nsname \<Rightarrow> ListenerReconciler \<Rightarrow> string \<Rightarrow> Listener option" where
  "wanted env req r n =
     (case Get_CR env req of
        GetError e \<Rightarrow> listener_at r n (snd req)
      | NotFound \<Rightarrow> None
      | Found cr \<Rightarrow>
          (case getNodesForListener (lr_Config r) cr of
             (nodes, cr') \<Rightarrow>
               if n \<in> set nodes
               then target env cr' (getRoutesForNode (lr_Config r) (snd req) n) (listener_at r n (snd req))
               else None))"

definition listener_api_ok :: "lds_env \<Rightarrow> bool" where
  "listener_api_ok env \<longleftrightarrow> (\<forall>k cr. Get_CR env k = Found cr \<longrightarrow> object_key cr = k)"

lemma reconcile_listener_at:
  assumes api: "listener_api_ok env" and inv: "lds_inv env heap r" and step: "reconcile_listener env req r = (e, r')"
  shows "lds_inv env heap r' \<and> read_part r' = read_part r \<and>
    listener_at r' n k = (if k = snd req then wanted env req r n else listener_at r n k)"
proof -
  let ?r = "r\<lparr>lds_reconciling := lds_reconciling r + 1\<rparr>"
  have inv1: "lds_inv env heap ?r" using inv by (simp add: count_frame)
  show ?thesis
  proof (cases "Get_CR env req")
    case (Found cr)
    have name: "om_Name cr = snd req" using api Found by (cases req) (auto simp: listener_api_ok_def object_key_def)
    obtain nodes cr' where nodes: "getNodesForListener (lr_Config ?r) cr = (nodes, cr')"
      by (cases "getNodesForListener (lr_Config ?r) cr")
    let ?r2 = "reconcile_cr env (previous_nodes (om_Name cr) (lr_Config ?r)) cr ?r"
    note at = reconcile_cr_at [OF inv1 nodes refl, of n k]
    have "r' = pruneChains ?r2" using step Found name by (auto simp: reconcile_listener_def Let_def)
    moreover have "lds_inv env heap ?r2" using at by blast
    ultimately show ?thesis
      using at prune_frame [of env heap ?r2] Found nodes name by (auto simp: wanted_def count_frame)
  next
    case NotFound
    let ?r2 = "in_config (removeListenerFromNodes (snd req) (previous_nodes (snd req) (lr_Config ?r))) ?r"
    note rm = removed_listener [OF inv1, of "snd req" "previous_nodes (snd req) (lr_Config ?r)" n k]
    have "r' = pruneChains ?r2" using step NotFound by (auto simp: reconcile_listener_def Let_def)
    then show ?thesis
      using rm prune_frame [of env heap ?r2] previous_absent [OF inv1, of n "snd req"] NotFound
      by (auto simp: wanted_def count_frame)
  next
    case (GetError x)
    then show ?thesis using step inv1 by (auto simp: reconcile_listener_def Let_def wanted_def count_frame)
  qed
qed

end
