(* ===== verification/LdsSpec.thy ===== *)
theory LdsSpec
  imports LdsFacts
begin

text \<open>
  What the listener controller guarantees: Envoy can tell the chains of a listener apart, routes
  are attached oldest first and left out only for a collision, the cache does not show, a finished
  request leaves the wanted listener on every node, and a failed or overtaken request stays pending.
\<close>

section \<open>The listener that is built\<close>

lemma list_all2_attach:
  "list_all2 (compiled env) (map snd (fst (attach env quic ms routes))) (map fst (fst (attach env quic ms routes)))"
  by (auto simp: list_all2_conv_all_nth dest!: nth_mem attach_compiled)
    (metis attach_compiled nth_mem prod.collapse)

text \<open>C12. Envoy never sees two chains it cannot tell apart: every filter chain of a listener that is
  built has a valid match, and no two of them collide, whether they come from the resource or from
  routes.\<close>

theorem listener_chains_never_collide:
  assumes "ListenerRecast env l routes = Inr lds"
  shows "\<exists>ms. list_all2 (compiled env) (el_FilterChains lds) ms \<and> collision_free ms"
  using assms
proof (rule listenerRecast_Inr)
  fix lds0 ms
  assume "list_all2 (compiled env) (el_FilterChains lds0) ms" and "collision_free ms"
    and "lds = lds0\<lparr>el_Name := om_Name l,
      el_FilterChains := el_FilterChains lds0 @ map snd (fst (attach env (isQUIC lds0) ms routes))\<rparr>"
  then show ?thesis
    using list_all2_attach [of env "isQUIC lds0" ms routes] attach_free [of ms env "isQUIC lds0" routes]
    by (intro exI [of _ "ms @ map fst (fst (attach env (isQUIC lds0) ms routes))"]) (simp add: list_all2_appendI)
qed

text \<open>C15. The listener is what the reference says: the chains of the resource, then one chain for each
  route in the order given (oldest first) unless it collides with one before it; every route left out is
  reported by name with its reason. Nothing else of the converted resource changes but its name.\<close>

theorem listener_is_reference:
  assumes "ListenerRecast env l routes = Inr lds"
  shows "\<exists>lds0 ms. recast_listener env l = Inr lds0 \<and> list_all2 (compiled env) (el_FilterChains lds0) ms \<and>
    lds = lds0\<lparr>el_Name := om_Name l,
      el_FilterChains := el_FilterChains lds0 @ map snd (fst (attach env (isQUIC lds0) ms routes))\<rparr> \<and>
    snd (snd (listenerRecast env l routes None)) = snd (attach env (isQUIC lds0) ms routes)"
  using listenerRecast_Inr [OF assms] by metis

text \<open>A route whose chain can be built is on the listener, unless it is reported as a duplicate
  and its matcher collides with the matcher of a chain that is on the listener.\<close>

theorem route_left_out_only_for_collision:
  assumes "ListenerRecast env l routes = Inr lds" and "rt \<in> set routes"
    and "recast_listener env l = Inr lds0" and "buildChain env rt (isQUIC lds0) = Built m c"
  shows "c \<in> set (el_FilterChains lds) \<or>
    (\<exists>fc\<in>set (el_FilterChains lds). \<exists>p. compiled env fc p \<and> Matcher_Compare m p = Duplicate) \<and>
    (om_Name rt, DuplicateFound) \<in> set (snd (snd (listenerRecast env l routes None)))"
  using assms(1)
proof (rule listenerRecast_Inr)
  fix lds1 ms
  assume eq: "recast_listener env l = Inr lds1" and ms: "list_all2 (compiled env) (el_FilterChains lds1) ms"
    and lds: "lds = lds1\<lparr>el_Name := om_Name l,
      el_FilterChains := el_FilterChains lds1 @ map snd (fst (attach env (isQUIC lds1) ms routes))\<rparr>"
    and errs: "snd (snd (listenerRecast env l routes None)) = snd (attach env (isQUIC lds1) ms routes)"
  have "lds1 = lds0" using eq assms(3) by simp
  then consider "(m, c) \<in> set (fst (attach env (isQUIC lds1) ms routes))"
    | "collides (ms @ map fst (fst (attach env (isQUIC lds1) ms routes))) m"
      "(om_Name rt, DuplicateFound) \<in> set (snd (attach env (isQUIC lds1) ms routes))"
    using attach_complete [OF assms(2), of env "isQUIC lds1" m c ms] assms(4) by blast
  then show ?thesis
  proof cases
    case 1
    then show ?thesis unfolding lds by force
  next
    case 2
    have all: "list_all2 (compiled env) (el_FilterChains lds) (ms @ map fst (fst (attach env (isQUIC lds1) ms routes)))"
      unfolding lds using ms list_all2_attach by (simp add: list_all2_appendI)
    from 2(1) obtain p where p: "p \<in> set (ms @ map fst (fst (attach env (isQUIC lds1) ms routes)))"
      "Matcher_Compare m p = Duplicate" by (auto simp: collides_def list_ex_iff)
    from p(1) obtain i where i: "i < length (ms @ map fst (fst (attach env (isQUIC lds1) ms routes)))"
      "(ms @ map fst (fst (attach env (isQUIC lds1) ms routes))) ! i = p" by (metis in_set_conv_nth)
    then have "compiled env (el_FilterChains lds ! i) p" "el_FilterChains lds ! i \<in> set (el_FilterChains lds)"
      using list_all2_nthD2 [OF all i(1)] list_all2_lengthD [OF all] by auto
    then show ?thesis using p(2) 2(2) errs by metis
  qed
qed

text \<open>C14. Sharing built chains between rebuilds and nodes does not show: with a cache that holds only
  what the routes of the heap build, a listener is built exactly as without a cache, with the same reports,
  and the cache stays one. The key of the cache is the address of a route, so the routes must be at home.\<close>

theorem chain_cache_transparent:
  assumes "cache_ok env heap c" and "\<forall>rt\<in>set routes. at_home heap rt"
  shows "\<exists>c'. listenerRecast env l routes (Some c) =
      (ListenerRecast env l routes, Some c', snd (snd (listenerRecast env l routes None))) \<and> cache_ok env heap c'"
  using listenerRecast_cached [of env heap "Some c" routes l] assms by auto

section \<open>The secrets of a chain\<close>

lemma add_secret_names:
  "distinct names \<Longrightarrow> distinct (add_secret names s) \<and> set (add_secret names s) = set names \<union> ({TrimSpace s} - {[]})"
  by (auto simp: add_secret_def Let_def)

lemma secrets_fold:
  "distinct names \<Longrightarrow> distinct (foldl add_secret names ss) \<and>
     set (foldl add_secret names ss) = set names \<union> (TrimSpace ` set ss - {[]})"
proof (induction ss arbitrary: names)
  case (Cons s ss)
  then show ?case using add_secret_names [OF Cons.prems, of s] Cons.IH [of "add_secret names s"] by auto
qed simp

text \<open>A route that names certificates is never served without them: its chain has a TLS socket (a QUIC
  socket on a QUIC listener) that lists every non-empty name it gives, trimmed, once each, and no other.
  Packing the socket is assumed to succeed; the code would serve the chain in the clear otherwise.\<close>

theorem chain_has_secrets:
  assumes "buildChain env route quic = Built m c" and "routeTLSSecretNames route \<noteq> []"
    and "\<And>msg. pack_error env msg = None"
  shows "\<exists>names. distinct names \<and>
    set names = TrimSpace ` set (rt_TLSSecretRef route # rt_TLSSecretRefs route) - {[]} \<and>
    (\<exists>ts. ec_TransportSocket c = Some ts \<and>
       (if quic then an_message (ts_TypedConfig ts) = AnyQuic names
        else \<exists>alpn. an_message (ts_TypedConfig ts) = AnyTls names alpn))"
proof (rule exI [of _ "routeTLSSecretNames route"], intro conjI)
  let ?names = "routeTLSSecretNames route"
  have eq: "?names = foldl add_secret [] (rt_TLSSecretRef route # rt_TLSSecretRefs route)"
    by (simp add: routeTLSSecretNames_def)
  show "distinct ?names" "set ?names = TrimSpace ` set (rt_TLSSecretRef route # rt_TLSSecretRefs route) - {[]}"
    unfolding eq using secrets_fold [of "[]" "rt_TLSSecretRef route # rt_TLSSecretRefs route"] by auto
  obtain fcm fs where "c = prepareSecretContext env route quic
      \<lparr>ec_Name = [], ec_FilterChainMatch = fcm, ec_Filters = fs, ec_TransportSocket = None, ec_rest = []\<rparr>"
    using assms(1) by (auto simp: buildChain_def split: sum.splits)
  then show "\<exists>ts. ec_TransportSocket c = Some ts \<and>
      (if quic then an_message (ts_TypedConfig ts) = AnyQuic ?names
       else \<exists>alpn. an_message (ts_TypedConfig ts) = AnyTls ?names alpn)"
    using assms(2,3) by (simp add: prepareSecretContext_def Let_def with_socket_def pack_def)
qed

section \<open>The handler\<close>

lemma rs_of_in_status [simp]: "rs_of (in_status f r) = f (rs_of r)"
  by (simp add: rs_of_def in_status_def in_config_def)

text \<open>Routes have been listed and placed, and so have secrets.\<close>

definition ready :: "ListenerReconciler \<Rightarrow> bool" where
  "ready r \<longleftrightarrow> (let rs = SetHasListeners True (rs_of r) in
     IsRoutesInitialized rs \<and> IsRoutesReconciled rs \<and> IsDomainConfigsReconciled rs)"

lemma ReconcileListener_ready:
  assumes "ready r"
  obtains e r1 where "reconcile_listener env req (in_status (SetHasListeners True) r) = (e, r1)"
    and "ReconcileListener env mw req r =
      (case e of
         Some x \<Rightarrow> (ReconcileError x, in_status mw r1)
       | None \<Rightarrow> (Finished, in_status (\<lambda>rs. ClearListenerPending (key_String req)
           (ListenerPendingSeq (key_String req) (SetHasListeners True (rs_of r))) (mw rs)) r1))"
proof -
  obtain e r1 where "reconcile_listener env req (in_status (SetHasListeners True) r) = (e, r1)"
    by (cases "reconcile_listener env req (in_status (SetHasListeners True) r)")
  then show ?thesis
    using assms by (intro that [of e r1]) (simp_all add: ReconcileListener_def ready_def Let_def split: option.split)
qed

lemma in_status_wanted [simp]: "wanted env req (in_status f r) = wanted env req r"
  by (simp add: wanted_def fun_eq_iff status_frame in_status_def in_config_def getNodesForListener_def
      getRoutesForNode_def routes_at_def with_defaults_def listener_at_def split: get.split)

lemma request_served:
  assumes "listener_api_ok env" and "lds_inv env heap r" and "ready r"
    and "r' = snd (ReconcileListener env mw req r)"
  shows "lds_inv env heap r' \<and> RouteConfigs (lr_Config r') = RouteConfigs (lr_Config r) \<and>
    listener_at r' n k = (if k = snd req then wanted env req r n else listener_at r n k)"
proof -
  obtain e r1 where run: "reconcile_listener env req (in_status (SetHasListeners True) r) = (e, r1)"
    and eq: "ReconcileListener env mw req r =
      (case e of
         Some x \<Rightarrow> (ReconcileError x, in_status mw r1)
       | None \<Rightarrow> (Finished, in_status (\<lambda>rs. ClearListenerPending (key_String req)
           (ListenerPendingSeq (key_String req) (SetHasListeners True (rs_of r))) (mw rs)) r1))"
    by (rule ReconcileListener_ready [OF assms(3)])
  have "lds_inv env heap (in_status (SetHasListeners True) r)" using assms(2) by (simp add: status_frame)
  note at = reconcile_listener_at [OF assms(1) this run, of n k]
  obtain f where "r' = in_status f r1" using eq assms(4) by (cases e) auto
  then show ?thesis using at by (auto simp: status_frame read_part_def)
qed

text \<open>C11. A run of the listener controller's handler that is not put off leaves, on every node, exactly
  the listener its request wants: none once the resource is gone or the node is not one of its nodes or nothing
  is to be served there, the listener built from the resource and the node's routes otherwise (the one that was
  there when it cannot be built), whatever the other goroutines do to the status. Other listeners and the routes
  are untouched and the invariant is kept.\<close>

theorem listener_request_served:
  assumes "listener_api_ok env" and "lds_inv env heap r" and "ready r"
    and "r' = snd (ReconcileListener env mw req r)"
  shows "lds_inv env heap r' \<and> RouteConfigs (lr_Config r') = RouteConfigs (lr_Config r) \<and>
    listener_at r' n k = (if k = snd req then wanted env req r n else listener_at r n k)"
  using assms by (rule request_served)

lemma marks_after_run:
  assumes "listener_api_ok env" and "lds_inv env heap r" and "ready r"
    and "ReconcileListener env mw req r = (res, r')"
  shows "res \<noteq> RequeueAfterSecond \<and> mget (pendingListeners (rs_of r')) k =
    (if res = Finished \<and> k = key_String req \<and>
        ListenerPendingSeq k (mw (SetHasListeners True (rs_of r))) = ListenerPendingSeq k (rs_of r)
     then None else mget (pendingListeners (mw (SetHasListeners True (rs_of r)))) k)"
proof -
  obtain e r1 where run: "reconcile_listener env req (in_status (SetHasListeners True) r) = (e, r1)"
    and eq: "ReconcileListener env mw req r =
      (case e of
         Some x \<Rightarrow> (ReconcileError x, in_status mw r1)
       | None \<Rightarrow> (Finished, in_status (\<lambda>rs. ClearListenerPending (key_String req)
           (ListenerPendingSeq (key_String req) (SetHasListeners True (rs_of r))) (mw rs)) r1))"
    by (rule ReconcileListener_ready [OF assms(3)])
  have "lds_inv env heap (in_status (SetHasListeners True) r)" using assms(2) by (simp add: status_frame)
  note at = reconcile_listener_at [OF assms(1) this run]
  have "rs_of r1 = rs_of (in_status (SetHasListeners True) r)" using at by (simp add: read_part_def rs_of_def)
  moreover have "ListenerPendingSeq k (SetHasListeners True rs) = ListenerPendingSeq k rs" for k rs
    by (simp add: ListenerPendingSeq_def SetHasListeners_def)
  ultimately show ?thesis using eq assms(4) by (cases e) (auto simp: ClearListenerPending_def)
qed

text \<open>C13. A listener stays pending until a rebuild that saw the last mark succeeds. A request that is put off, because
  routes or secrets are not in place yet, comes back after a second and changes no mark. One that runs clears the
  mark exactly when it ends without an error and no other mark was set while it ran; one that fails clears nothing,
  and the marks of other listeners are never touched.\<close>

theorem listener_stays_pending:
  assumes "listener_api_ok env" and "lds_inv env heap r"
    and "ReconcileListener env mw req r = (res, r')"
  shows "if ready r
    then res \<noteq> RequeueAfterSecond \<and>
      mget (pendingListeners (rs_of r')) k =
        (if res = Finished \<and> k = key_String req \<and>
            ListenerPendingSeq k (mw (SetHasListeners True (rs_of r))) = ListenerPendingSeq k (rs_of r)
         then None else mget (pendingListeners (mw (SetHasListeners True (rs_of r)))) k)
    else res = RequeueAfterSecond \<and> pendingListeners (rs_of r') = pendingListeners (rs_of r)"
proof (cases "ready r")
  case False
  then have "res = RequeueAfterSecond \<and> r' = in_status (SetHasListeners True) r"
    using assms(3) by (auto simp: ready_def ReconcileListener_def Let_def split: if_splits)
  then show ?thesis using False by (simp add: SetHasListeners_def)
next
  case True
  then show ?thesis using marks_after_run [OF assms(1,2) True assms(3)] by simp
qed

text \<open>A listener whose resource has an empty, but present, list of filter chains is not removed from a
  node when its last route goes: conversion fails with the error that should indicate removal, and the handler
  then keeps the listener that is stored, with the chains of routes that are gone.\<close>

theorem empty_chains_keep_stale_listener:
  assumes "listener_api_ok env" and "lds_inv env heap r" and "ready r"
    and found: "Get_CR env req = Found cr" and chains: "li_FilterChains cr = Some []"
    and nodes: "getNodesForListener (lr_Config r) cr = (nodes, cr')" "n \<in> set nodes"
    and recast: "recast_listener env cr' = Inr lds0" "el_FilterChains lds0 = []"
    and gone: "getRoutesForNode (lr_Config r) (snd req) n = []"
  shows "listener_at (snd (ReconcileListener env mw req r)) n (snd req) = listener_at r n (snd req)"
proof -
  have "li_FilterChains cr' = Some []" using nodes(1) chains by (auto simp: getNodesForListener_def)
  moreover have "ListenerRecast env cr' [] = Inl NoRoutesOrFilters"
    using recast by (simp add: ListenerRecast_def listenerRecast_def Let_def)
  ultimately have "wanted env req r n = listener_at r n (snd req)"
    using found nodes gone by (simp add: wanted_def target_def)
  then show ?thesis using request_served [OF assms(1-3) refl, of mw req n "snd req"] by simp
qed

section \<open>A listener with two routes\<close>

definition sample_hm :: HttpConnectionManager where
  "sample_hm = \<lparr>hm_RdsName = ''web'', hm_ScopedRoutes = [], hm_CodecType = 0, hm_rest = []\<rparr>"

definition sample_cr :: ListenerCR where
  "sample_cr =
     \<lparr>om_Name = ''l'', om_Namespace = ''ns'', om_CreationTimestamp = 0, om_Generation = 1, om_Annotations = [],
      li_FilterChains = None, li_rest = []\<rparr>"

definition sample_lds :: lds_env where
  "sample_lds =
     \<lparr>Get_CR = (\<lambda>k. if k = (''ns'', ''l'') then Found sample_cr else NotFound),
      recast_listener = (\<lambda>l. Inr \<lparr>el_Name = [], el_FilterChains = [], el_DefaultFilterChain = None,
         el_UdpQuicOptions = None, el_Address = SocketAddress 0, el_rest = []\<rparr>),
      recast_hcm = (\<lambda>h. Inr sample_hm), to_match = (\<lambda>m. Inr empty_match), validate = (\<lambda>m. None),
      pack_error = (\<lambda>m. None), address_of = (\<lambda>m. 7), hcm_filter_name = ''hcm''\<rparr>"

definition sample_rt :: "nat \<Rightarrow> string \<Rightarrow> int \<Rightarrow> Route" where
  "sample_rt a name t =
     \<lparr>om_Name = name, om_Namespace = ''ns'', om_CreationTimestamp = t, om_Generation = 1, om_Annotations = [],
      rt_addr = a, rt_ListenerRefs = [''l''], rt_TLSSecretRef = '' cert '', rt_TLSSecretRefs = [''cert'', ''two''],
      rt_FilterChainMatch = None, rt_RouteConfig = None,
      rt_HCM = \<lparr>hcm_RouteConfig = None, hcm_Rds = None, hcm_rest = []\<rparr>\<rparr>"

definition sample_routes :: "Route list" where
  "sample_routes = [sample_rt 1 ''a'' 1, sample_rt 2 ''b'' 2]"

lemma sample_recast:
  "\<exists>lds c. ListenerRecast sample_lds sample_cr sample_routes = Inr lds \<and> el_FilterChains lds = [c]"
proof -
  have "case ListenerRecast sample_lds sample_cr sample_routes of Inl e \<Rightarrow> False | Inr lds \<Rightarrow> length (el_FilterChains lds) = 1"
    by code_simp
  then show ?thesis by (auto simp: length_Suc_conv split: sum.splits)
qed

lemma sample_built: "\<exists>m c. buildChain sample_lds (sample_rt n x t) False = Built m c"
proof -
  obtain m where "CompileProto (\<lambda>m. None) None = Inr m"
  proof -
    have "case CompileProto (\<lambda>m. None) None of Inl e \<Rightarrow> False | Inr m \<Rightarrow> True" by code_simp
    then show ?thesis using that by (auto split: sum.splits)
  qed
  then show ?thesis
    by (simp add: buildChain_def unmarshalFilterChainMatch_def sample_rt_def sample_lds_def prepareFilters_def pack_def)
qed

theorem listener_chains_never_collide_witness:
  "\<exists>lds ms. ListenerRecast sample_lds sample_cr sample_routes = Inr lds \<and>
     list_all2 (compiled sample_lds) (el_FilterChains lds) ms \<and> collision_free ms"
  using sample_recast listener_chains_never_collide by blast

theorem listener_is_reference_witness:
  "\<exists>lds. ListenerRecast sample_lds sample_cr sample_routes = Inr lds \<and> el_Name lds = ''l''"
proof -
  obtain lds where l: "ListenerRecast sample_lds sample_cr sample_routes = Inr lds" using sample_recast by blast
  from listener_is_reference [OF l] show ?thesis using l by (auto simp: sample_cr_def)
qed

theorem route_left_out_only_for_collision_witness:
  "\<exists>lds m c. ListenerRecast sample_lds sample_cr sample_routes = Inr lds \<and>
     buildChain sample_lds (sample_rt 2 ''b'' 2) False = Built m c \<and>
     (c \<in> set (el_FilterChains lds) \<or>
      (\<exists>fc\<in>set (el_FilterChains lds). \<exists>p. compiled sample_lds fc p \<and> Matcher_Compare m p = Duplicate))"
proof -
  obtain lds where l: "ListenerRecast sample_lds sample_cr sample_routes = Inr lds" using sample_recast by blast
  obtain m c where b: "buildChain sample_lds (sample_rt 2 ''b'' 2) False = Built m c" using sample_built by blast
  let ?l0 = "\<lparr>el_Name = [], el_FilterChains = [], el_DefaultFilterChain = None,
         el_UdpQuicOptions = None, el_Address = SocketAddress 0, el_rest = []\<rparr> :: Listener"
  have r: "recast_listener sample_lds sample_cr = Inr ?l0" by (simp add: sample_lds_def)
  have q: "isQUIC ?l0 = False" by (simp add: isQUIC_def)
  have "sample_rt 2 ''b'' 2 \<in> set sample_routes" by (simp add: sample_routes_def)
  from route_left_out_only_for_collision [OF l this r, unfolded q, OF b] show ?thesis using l b by blast
qed

definition sample_heap :: "nat \<Rightarrow> Route" where
  "sample_heap a = (if a = 1 then sample_rt 1 ''a'' 1 else sample_rt 2 ''b'' 2)"

lemma sample_home: "\<forall>rt\<in>set sample_routes. at_home sample_heap rt"
  by (simp add: sample_routes_def at_home_def sample_heap_def sample_rt_def)

theorem chain_cache_transparent_witness:
  "\<exists>c errs. listenerRecast sample_lds sample_cr sample_routes (Some []) =
     (ListenerRecast sample_lds sample_cr sample_routes, Some c, errs) \<and> cache_ok sample_lds sample_heap c"
proof -
  have "cache_ok sample_lds sample_heap []" by (simp add: cache_ok_def)
  from chain_cache_transparent [OF this sample_home] show ?thesis by blast
qed

theorem chain_has_secrets_witness:
  "\<exists>m c names. buildChain sample_lds (sample_rt 1 ''a'' 1) False = Built m c \<and> set names = {''cert'', ''two''} \<and>
     distinct names \<and> ec_TransportSocket c \<noteq> None"
proof -
  obtain m c where b: "buildChain sample_lds (sample_rt 1 ''a'' 1) False = Built m c" using sample_built by blast
  have t: "TrimSpace '' cert '' = ''cert''" "TrimSpace ''cert'' = ''cert''" "TrimSpace ''two'' = ''two''" by code_simp+
  have "routeTLSSecretNames (sample_rt 1 ''a'' 1) \<noteq> []"
    by (simp add: routeTLSSecretNames_def add_secret_def sample_rt_def t)
  from chain_has_secrets [OF b this] obtain names where
    "distinct names" "set names = TrimSpace ` set ('' cert '' # [''cert'', ''two'']) - {[]}" "ec_TransportSocket c \<noteq> None"
    by (auto simp: sample_lds_def sample_rt_def)
  then show ?thesis using b t by auto
qed

definition sample_status :: ReconciliationStatus where
  "sample_status =
     MarkListenerPending ''ns/l''
       (SetDomainConfigsReconciled True (SetRoutesReconciled True (SetRoutesInitialized True NewReconciliationStatus)))"

definition sample_lr :: ListenerReconciler where
  "sample_lr =
     \<lparr>lr_Config = (new_Config ''n'' ''c'')\<lparr>
        RouteConfigs := [(pair_id ''c'' ''n'',
          [\<lparr>rc_RouteConfiguration = \<lparr>rcf_Name = ''a'', rcf_rest = []\<rparr>, rc_Route = sample_rt 1 ''a'' 1,
            rc_ListenerNames = [''l''], rc_Matcher = None\<rparr>])],
        reconciliationStatus := sample_status\<rparr>,
      lds_reconciling = 0, chains = [], lds_status_calls = [], lds_config_errors = []\<rparr>"

lemma sample_lr_ok:
  "listener_api_ok sample_lds" "lds_inv sample_lds sample_heap sample_lr" "ready sample_lr"
proof -
  show "listener_api_ok sample_lds"
    by (simp add: listener_api_ok_def sample_lds_def sample_cr_def object_key_def)
  show "lds_inv sample_lds sample_heap sample_lr"
    by (simp add: lds_inv_def sample_lr_def new_Config_def unique_names_def cache_ok_def at_home_def sample_heap_def
        sample_rt_def)
  show "ready sample_lr" by code_simp
qed

theorem listener_request_served_witness:
  "\<exists>lds. listener_at (snd (ReconcileListener sample_lds (\<lambda>rs. rs) (''ns'', ''l'') sample_lr)) (pair_id ''c'' ''n'') ''l'' = Some lds"
proof -
  have "case wanted sample_lds (''ns'', ''l'') sample_lr (pair_id ''c'' ''n'') of None \<Rightarrow> False | Some l \<Rightarrow> True"
    by code_simp
  then show ?thesis
    using listener_request_served [OF sample_lr_ok refl, of "\<lambda>rs. rs" "(''ns'', ''l'')" "pair_id ''c'' ''n''" "''l''"]
    by (auto split: option.splits)
qed

theorem listener_stays_pending_witness:
  "\<exists>res r'. ReconcileListener sample_lds (MarkListenerPending ''ns/l'') (''ns'', ''l'') sample_lr = (res, r') \<and>
     mget (pendingListeners (rs_of r')) ''ns/l'' \<noteq> None"
proof -
  obtain res r' where run: "ReconcileListener sample_lds (MarkListenerPending ''ns/l'') (''ns'', ''l'') sample_lr = (res, r')"
    by (cases "ReconcileListener sample_lds (MarkListenerPending ''ns/l'') (''ns'', ''l'') sample_lr")
  have seqs: "ListenerPendingSeq ''ns/l'' (MarkListenerPending ''ns/l'' (SetHasListeners True (rs_of sample_lr))) \<noteq>
      ListenerPendingSeq ''ns/l'' (rs_of sample_lr)"
    "mget (pendingListeners (MarkListenerPending ''ns/l'' (SetHasListeners True (rs_of sample_lr)))) ''ns/l'' \<noteq> None"
    by code_simp+
  show ?thesis
    using listener_stays_pending [OF sample_lr_ok(1,2) run, of "''ns/l''"] sample_lr_ok(3) run seqs by auto
qed

definition empty_cr :: ListenerCR where
  "empty_cr = sample_cr\<lparr>li_FilterChains := Some []\<rparr>"

definition empty_lds :: lds_env where
  "empty_lds = sample_lds\<lparr>Get_CR := (\<lambda>k. if k = (''ns'', ''l'') then Found empty_cr else NotFound)\<rparr>"

definition stale_lr :: ListenerReconciler where
  "stale_lr = sample_lr\<lparr>lr_Config := (new_Config ''n'' ''c'')\<lparr>
     reconciliationStatus := sample_status,
     ListenerConfigs := [(pair_id ''c'' ''n'', [\<lparr>el_Name = ''l'', el_FilterChains = [], el_DefaultFilterChain = None,
       el_UdpQuicOptions = None, el_Address = SocketAddress 0, el_rest = ''stale''\<rparr>])]\<rparr>\<rparr>"

theorem empty_chains_keep_stale_listener_witness:
  "\<exists>lds. listener_at (snd (ReconcileListener empty_lds (\<lambda>rs. rs) (''ns'', ''l'') stale_lr)) (pair_id ''c'' ''n'') ''l'' = Some lds
     \<and> el_rest lds = ''stale''"
proof -
  have api: "listener_api_ok empty_lds"
    by (simp add: listener_api_ok_def empty_lds_def empty_cr_def sample_cr_def object_key_def)
  have inv: "lds_inv empty_lds sample_heap stale_lr"
    by (simp add: lds_inv_def stale_lr_def sample_lr_def new_Config_def unique_names_def cache_ok_def
        mlist_def mget_def gmap_ok_def)
  have rdy: "ready stale_lr" by code_simp
  have found: "Get_CR empty_lds (''ns'', ''l'') = Found empty_cr" by (simp add: empty_lds_def)
  have nodes: "getNodesForListener (lr_Config stale_lr) empty_cr =
      ([pair_id ''c'' ''n''], snd (getNodesForListener (lr_Config stale_lr) empty_cr))" by code_simp
  let ?l0 = "\<lparr>el_Name = [], el_FilterChains = [], el_DefaultFilterChain = None,
     el_UdpQuicOptions = None, el_Address = SocketAddress 0, el_rest = []\<rparr> :: Listener"
  have recast: "recast_listener empty_lds x = Inr ?l0" for x by (simp add: empty_lds_def sample_lds_def)
  have gone: "getRoutesForNode (lr_Config stale_lr) (snd (''ns'', ''l'')) (pair_id ''c'' ''n'') = []"
    by (simp add: getRoutesForNode_def routes_at_def stale_lr_def new_Config_def)
  have old: "\<exists>lds. listener_at stale_lr (pair_id ''c'' ''n'') ''l'' = Some lds \<and> el_rest lds = ''stale''"
    by (simp add: listener_at_def lookup_def stale_lr_def mlist_def mget_def)
  have "listener_at (snd (ReconcileListener empty_lds (\<lambda>rs. rs) (''ns'', ''l'') stale_lr)) (pair_id ''c'' ''n'')
      (snd (''ns'', ''l'')) = listener_at stale_lr (pair_id ''c'' ''n'') (snd (''ns'', ''l''))"
    by (rule empty_chains_keep_stale_listener [OF api inv rdy found _ nodes _ recast _ gone])
      (simp_all add: empty_cr_def)
  then show ?thesis using old by simp
qed

end
