(* ===== verification/Conditions.thy ===== *)
theory Conditions
  imports Rds Serv
begin

text \<open>
  What the four controllers write to the status of their resources: the snapshots and names derived
  from the active node ids, the Ready, Reconciled and Error conditions, and whether a new status is
  written at all. The code repeats itself in the four controllers up to the fields and messages; so
  does the model. \<open>retry.RetryOnConflict\<close> runs one attempt again on a conflict; an attempt is
  modelled, against the answers of the API. A time is an integer.
\<close>

section \<open>Status of a resource\<close>

record SnapshotInfo =
  si_NodeID :: string
  si_Cluster :: string
  si_Active :: bool
  si_LastUpdated :: int

record Condition =
  co_Type :: string
  co_Status :: string
  co_Reason :: string
  co_Message :: string
  co_LastTransitionTime :: int
  co_ObservedGeneration :: int

record Status =
  st_Active :: bool
  st_Snapshots :: "SnapshotInfo list"
  st_Nodes :: string
  st_Clusters :: string
  st_LastReconciled :: int
  st_ObservedGeneration :: int
  st_Conditions :: "Condition list"
  st_Message :: string

record ListenerStatus = Status +
  st_FilterChainCount :: nat

record RouteStatus = Status +
  st_VirtualHostCount :: nat
  st_Listeners :: string

record ClusterStatus = Status +
  st_EndpointCount :: nat
  st_ReferencedEndpoints :: string

record EndpointStatus = Status +
  st_Endpoints :: nat

section \<open>Conditions\<close>

fun updateCondition :: "Condition list \<Rightarrow> Condition \<Rightarrow> Condition list" where
  "updateCondition [] new = [new]"
| "updateCondition (c # cs) new =
     (if co_Type c = co_Type new
      then (if co_Status c \<noteq> co_Status new then new
            else new\<lparr>co_LastTransitionTime := co_LastTransitionTime c\<rparr>) # cs
      else c # updateCondition cs new)"

definition bool_status :: "bool \<Rightarrow> string" where
  "bool_status b = (if b then ''True'' else ''False'')"

definition readyCondition :: "int \<Rightarrow> int \<Rightarrow> bool \<Rightarrow> string \<Rightarrow> string \<Rightarrow> Condition" where
  "readyCondition now generation active activeMessage message =
     \<lparr>co_Type = ''Ready'', co_Status = bool_status active,
      co_Reason = (if active then ''Active'' else ''Inactive''),
      co_Message = (if active then activeMessage else message),
      co_LastTransitionTime = now, co_ObservedGeneration = generation\<rparr>"

definition reconciledCondition :: "int \<Rightarrow> int \<Rightarrow> Condition" where
  "reconciledCondition now generation =
     \<lparr>co_Type = ''Reconciled'', co_Status = ''True'', co_Reason = ''Reconciled'',
      co_Message = ''Successfully reconciled'', co_LastTransitionTime = now, co_ObservedGeneration = generation\<rparr>"

definition errorCondition :: "int \<Rightarrow> int \<Rightarrow> bool \<Rightarrow> string \<Rightarrow> Condition" where
  "errorCondition now generation active message =
     (if message \<noteq> [] \<and> \<not> active
      then \<lparr>co_Type = ''Error'', co_Status = ''True'', co_Reason = ''Error'', co_Message = message,
            co_LastTransitionTime = now, co_ObservedGeneration = generation\<rparr>
      else \<lparr>co_Type = ''Error'', co_Status = ''False'', co_Reason = ''NoError'', co_Message = [],
            co_LastTransitionTime = now, co_ObservedGeneration = generation\<rparr>)"

definition conditions_of ::
  "int \<Rightarrow> int \<Rightarrow> bool \<Rightarrow> string \<Rightarrow> string \<Rightarrow> Condition list \<Rightarrow> Condition list" where
  "conditions_of now generation active activeMessage message cs =
     updateCondition
       (updateCondition
         (updateCondition cs (readyCondition now generation active activeMessage message))
         (reconciledCondition now generation))
       (errorCondition now generation active message)"

section \<open>Names of the active nodes\<close>

definition snapshots_of :: "int \<Rightarrow> string list \<Rightarrow> SnapshotInfo list" where
  "snapshots_of now activeNodes =
     map (\<lambda>nodeID. let info = NodeInfo_or_empty nodeID in
            \<lparr>si_NodeID = Join (Nodes info) '','', si_Cluster = Join (Clusters info) '','',
             si_Active = True, si_LastUpdated = now\<rparr>) activeNodes"

definition nodesList :: "string list \<Rightarrow> string list" where
  "nodesList activeNodes = sorted_names (concat (map (\<lambda>n. Nodes (NodeInfo_or_empty n)) activeNodes))"

definition clustersList :: "string list \<Rightarrow> string list" where
  "clustersList activeNodes = sorted_names (concat (map (\<lambda>n. Clusters (NodeInfo_or_empty n)) activeNodes))"

section \<open>One attempt\<close>

definition attempt ::
  "('s \<Rightarrow> 's \<Rightarrow> bool) \<Rightarrow> ('s \<Rightarrow> 's) \<Rightarrow> 's get \<Rightarrow> ('s \<Rightarrow> string option) \<Rightarrow> string option \<times> 's option" where
  "attempt equal build latest update =
     (case latest of
        NotFound \<Rightarrow> (Some ''not found'', None)
      | GetError e \<Rightarrow> (Some e, None)
      | Found s \<Rightarrow>
          let newStatus = build s in
          if equal s newStatus then (None, None)
          else (case update newStatus of Some e \<Rightarrow> (Some e, None) | None \<Rightarrow> (None, Some newStatus)))"

section \<open>Listeners\<close>

definition listenerStatus ::
  "int \<Rightarrow> int \<Rightarrow> bool \<Rightarrow> string list \<Rightarrow> nat \<Rightarrow> string \<Rightarrow> ListenerStatus \<Rightarrow> ListenerStatus" where
  "listenerStatus now generation active activeNodes filterChainCount message latest =
     \<lparr>st_Active = active, st_Snapshots = snapshots_of now activeNodes,
      st_Nodes = Join (nodesList activeNodes) '','', st_Clusters = Join (clustersList activeNodes) '','',
      st_LastReconciled = now, st_ObservedGeneration = generation,
      st_Conditions = conditions_of now generation active
        (''Listener is active in '' @ decimal (length activeNodes) @ '' snapshots'') message (st_Conditions latest),
      st_Message = message, st_FilterChainCount = filterChainCount\<rparr>"

definition listenerStatusEqual :: "ListenerStatus \<Rightarrow> ListenerStatus \<Rightarrow> bool" where
  "listenerStatusEqual a b =
     (if st_Active a \<noteq> st_Active b then False
      else if st_FilterChainCount a \<noteq> st_FilterChainCount b then False
      else if st_Nodes a \<noteq> st_Nodes b then False
      else if st_Clusters a \<noteq> st_Clusters b then False
      else if st_ObservedGeneration a \<noteq> st_ObservedGeneration b then False
      else if length (st_Snapshots a) \<noteq> length (st_Snapshots b) then False
      else True)"

definition write_listener_status ::
  "int \<Rightarrow> int \<Rightarrow> bool \<Rightarrow> string list \<Rightarrow> nat \<Rightarrow> string \<Rightarrow> ListenerStatus get \<Rightarrow> (ListenerStatus \<Rightarrow> string option)
   \<Rightarrow> string option \<times> ListenerStatus option" where
  "write_listener_status now generation active activeNodes filterChainCount message =
     attempt listenerStatusEqual (listenerStatus now generation active activeNodes filterChainCount message)"

section \<open>Routes\<close>

definition routeStatus ::
  "int \<Rightarrow> int \<Rightarrow> bool \<Rightarrow> string list \<Rightarrow> string list \<Rightarrow> nat \<Rightarrow> string \<Rightarrow> RouteStatus \<Rightarrow> RouteStatus" where
  "routeStatus now generation active activeNodes listeners virtualHostCount message latest =
     \<lparr>st_Active = active, st_Snapshots = snapshots_of now activeNodes,
      st_Nodes = Join (nodesList activeNodes) '','', st_Clusters = Join (clustersList activeNodes) '','',
      st_LastReconciled = now, st_ObservedGeneration = generation,
      st_Conditions = conditions_of now generation active
        (''Route is active in '' @ decimal (length activeNodes) @ '' snapshots'') message (st_Conditions latest),
      st_Message = message, st_VirtualHostCount = virtualHostCount, st_Listeners = Join listeners '',''\<rparr>"

definition routeStatusEqual :: "RouteStatus \<Rightarrow> RouteStatus \<Rightarrow> bool" where
  "routeStatusEqual a b =
     (if st_Active a \<noteq> st_Active b then False
      else if st_VirtualHostCount a \<noteq> st_VirtualHostCount b then False
      else if st_Listeners a \<noteq> st_Listeners b then False
      else if st_Nodes a \<noteq> st_Nodes b then False
      else if st_Clusters a \<noteq> st_Clusters b then False
      else if st_ObservedGeneration a \<noteq> st_ObservedGeneration b then False
      else if st_Message a \<noteq> st_Message b then False
      else if length (st_Snapshots a) \<noteq> length (st_Snapshots b) then False
      else True)"

definition write_route_status ::
  "int \<Rightarrow> int \<Rightarrow> bool \<Rightarrow> string list \<Rightarrow> string list \<Rightarrow> nat \<Rightarrow> string \<Rightarrow> RouteStatus get \<Rightarrow> (RouteStatus \<Rightarrow> string option)
   \<Rightarrow> string option \<times> RouteStatus option" where
  "write_route_status now generation active activeNodes listeners virtualHostCount message =
     attempt routeStatusEqual (routeStatus now generation active activeNodes listeners virtualHostCount message)"

section \<open>Clusters\<close>

definition clusterStatus ::
  "int \<Rightarrow> int \<Rightarrow> bool \<Rightarrow> string list \<Rightarrow> nat \<Rightarrow> string list \<Rightarrow> string \<Rightarrow> ClusterStatus \<Rightarrow> ClusterStatus" where
  "clusterStatus now generation active activeNodes endpointCount referencedEndpoints message latest =
     \<lparr>st_Active = active, st_Snapshots = snapshots_of now activeNodes,
      st_Nodes = Join (nodesList activeNodes) '','', st_Clusters = Join (clustersList activeNodes) '','',
      st_LastReconciled = now, st_ObservedGeneration = generation,
      st_Conditions = conditions_of now generation active
        (if 0 < endpointCount
         then ''Cluster is active in '' @ decimal (length activeNodes) @ '' snapshots with '' @
              decimal endpointCount @ '' endpoints''
         else ''Cluster is active in '' @ decimal (length activeNodes) @ '' snapshots'')
        message (st_Conditions latest),
      st_Message = message, st_EndpointCount = endpointCount,
      st_ReferencedEndpoints = Join referencedEndpoints '',''\<rparr>"

definition clusterStatusEqual :: "ClusterStatus \<Rightarrow> ClusterStatus \<Rightarrow> bool" where
  "clusterStatusEqual a b =
     (if st_Active a \<noteq> st_Active b then False
      else if st_EndpointCount a \<noteq> st_EndpointCount b then False
      else if st_ReferencedEndpoints a \<noteq> st_ReferencedEndpoints b then False
      else if st_Nodes a \<noteq> st_Nodes b then False
      else if st_Clusters a \<noteq> st_Clusters b then False
      else if st_ObservedGeneration a \<noteq> st_ObservedGeneration b then False
      else if length (st_Snapshots a) \<noteq> length (st_Snapshots b) then False
      else True)"

definition write_cluster_status ::
  "int \<Rightarrow> int \<Rightarrow> bool \<Rightarrow> string list \<Rightarrow> nat \<Rightarrow> string list \<Rightarrow> string \<Rightarrow> ClusterStatus get \<Rightarrow> (ClusterStatus \<Rightarrow> string option)
   \<Rightarrow> string option \<times> ClusterStatus option" where
  "write_cluster_status now generation active activeNodes endpointCount referencedEndpoints message =
     attempt clusterStatusEqual (clusterStatus now generation active activeNodes endpointCount referencedEndpoints message)"

section \<open>Endpoints\<close>

definition endpointStatus ::
  "int \<Rightarrow> int \<Rightarrow> bool \<Rightarrow> string list \<Rightarrow> nat \<Rightarrow> string \<Rightarrow> EndpointStatus \<Rightarrow> EndpointStatus" where
  "endpointStatus now generation active activeNodes endpointCount message latest =
     \<lparr>st_Active = active, st_Snapshots = snapshots_of now activeNodes,
      st_Nodes = Join (nodesList activeNodes) '','', st_Clusters = Join (clustersList activeNodes) '','',
      st_LastReconciled = now, st_ObservedGeneration = generation,
      st_Conditions = conditions_of now generation active
        (''Endpoint is active in '' @ decimal (length activeNodes) @ '' snapshots with '' @
         decimal endpointCount @ '' endpoints'') message (st_Conditions latest),
      st_Message = message, st_Endpoints = endpointCount\<rparr>"

definition endpointStatusEqual :: "EndpointStatus \<Rightarrow> EndpointStatus \<Rightarrow> bool" where
  "endpointStatusEqual a b =
     (if st_Active a \<noteq> st_Active b then False
      else if st_Endpoints a \<noteq> st_Endpoints b then False
      else if st_Nodes a \<noteq> st_Nodes b then False
      else if st_Clusters a \<noteq> st_Clusters b then False
      else if st_ObservedGeneration a \<noteq> st_ObservedGeneration b then False
      else if length (st_Snapshots a) \<noteq> length (st_Snapshots b) then False
      else True)"

definition write_endpoint_status ::
  "int \<Rightarrow> int \<Rightarrow> bool \<Rightarrow> string list \<Rightarrow> nat \<Rightarrow> string \<Rightarrow> EndpointStatus get \<Rightarrow> (EndpointStatus \<Rightarrow> string option)
   \<Rightarrow> string option \<times> EndpointStatus option" where
  "write_endpoint_status now generation active activeNodes endpointCount message =
     attempt endpointStatusEqual (endpointStatus now generation active activeNodes endpointCount message)"

section \<open>Facts about conditions\<close>

definition condition_at :: "string \<Rightarrow> Condition list \<Rightarrow> Condition option" where
  "condition_at t cs = find_named co_Type t cs"

definition since :: "Condition option \<Rightarrow> Condition \<Rightarrow> int" where
  "since old new =
     (case old of
        Some c \<Rightarrow> if co_Status c = co_Status new then co_LastTransitionTime c else co_LastTransitionTime new
      | None \<Rightarrow> co_LastTransitionTime new)"

lemma condition_at_update:
  "condition_at t (updateCondition cs new) =
     (if t = co_Type new then Some (new\<lparr>co_LastTransitionTime := since (condition_at t cs) new\<rparr>)
      else condition_at t cs)"
  by (induction cs) (auto simp: condition_at_def since_def)

lemma types_update: "co_Type ` set (updateCondition cs new) = insert (co_Type new) (co_Type ` set cs)"
  by (induction cs) auto

lemma distinct_update: "distinct (map co_Type cs) \<Longrightarrow> distinct (map co_Type (updateCondition cs new))"
proof (induction cs)
  case (Cons c cs)
  then show ?case using types_update [of cs new] by auto
qed simp

lemma condition_fields [simp]:
  "co_Type (readyCondition now g a am m) = ''Ready''" "co_Type (reconciledCondition now g) = ''Reconciled''"
  "co_Type (errorCondition now g a m) = ''Error''"
  by (simp_all add: readyCondition_def reconciledCondition_def errorCondition_def)

section \<open>Properties\<close>

text \<open>The conditions written tell the truth and nothing else: Ready is true exactly for an active resource,
  Error exactly for an inactive one with a message, Reconciled always; each type is listed once, conditions of
  other types are kept, and the transition time of Ready moves only when its status changes.\<close>

theorem conditions_truthful:
  assumes "distinct (map co_Type cs)" and "cs' = conditions_of now g active am message cs"
  shows "distinct (map co_Type cs') \<and>
    (\<exists>c. condition_at ''Ready'' cs' = Some c \<and> co_Status c = bool_status active \<and> co_ObservedGeneration c = g \<and>
       co_Message c = (if active then am else message) \<and>
       co_LastTransitionTime c =
         (case condition_at ''Ready'' cs of
            Some old \<Rightarrow> if co_Status old = bool_status active then co_LastTransitionTime old else now
          | None \<Rightarrow> now)) \<and>
    map_option co_Status (condition_at ''Reconciled'' cs') = Some ''True'' \<and>
    map_option co_Status (condition_at ''Error'' cs') = Some (bool_status (message \<noteq> [] \<and> \<not> active)) \<and>
    (\<forall>t. t \<notin> {''Ready'', ''Reconciled'', ''Error''} \<longrightarrow> condition_at t cs' = condition_at t cs)"
proof (intro conjI)
  show "distinct (map co_Type cs')" using assms by (simp add: conditions_of_def distinct_update)
  show "\<exists>c. condition_at ''Ready'' cs' = Some c \<and> co_Status c = bool_status active \<and> co_ObservedGeneration c = g \<and>
      co_Message c = (if active then am else message) \<and>
      co_LastTransitionTime c =
        (case condition_at ''Ready'' cs of
           Some old \<Rightarrow> if co_Status old = bool_status active then co_LastTransitionTime old else now
         | None \<Rightarrow> now)"
    unfolding assms(2) conditions_of_def condition_at_update
    by (simp add: readyCondition_def since_def split: option.split)
  show "map_option co_Status (condition_at ''Reconciled'' cs') = Some ''True''"
    unfolding assms(2) conditions_of_def condition_at_update by (simp add: reconciledCondition_def)
  show "map_option co_Status (condition_at ''Error'' cs') = Some (bool_status (message \<noteq> [] \<and> \<not> active))"
    unfolding assms(2) conditions_of_def condition_at_update by (simp add: errorCondition_def bool_status_def)
  show "\<forall>t. t \<notin> {''Ready'', ''Reconciled'', ''Error''} \<longrightarrow> condition_at t cs' = condition_at t cs"
    unfolding assms(2) conditions_of_def condition_at_update by simp
qed

theorem conditions_truthful_witness:
  "\<exists>c. condition_at ''Ready'' (conditions_of 9 1 False ''ok'' ''broken''
      [\<lparr>co_Type = ''Ready'', co_Status = ''False'', co_Reason = ''Inactive'', co_Message = [],
        co_LastTransitionTime = 5, co_ObservedGeneration = 1\<rparr>]) = Some c \<and>
     co_LastTransitionTime c = 5 \<and> co_Message c = ''broken''"
proof -
  let ?c = "\<lparr>co_Type = ''Ready'', co_Status = ''False'', co_Reason = ''Inactive'', co_Message = [],
      co_LastTransitionTime = 5, co_ObservedGeneration = 1\<rparr>"
  have "distinct (map co_Type [?c])" "condition_at ''Ready'' [?c] = Some ?c" by (simp_all add: condition_at_def)
  from conditions_truthful [OF this(1) refl, of 9 1 False "''ok''" "''broken''"] this(2) show ?thesis
    by (auto simp: bool_status_def)
qed

text \<open>Status updates settle: once a controller has written a status, writing it again with the same
  outcome at any later time changes nothing, so that the update it triggers does not trigger another.\<close>

theorem status_settles:
  "write_listener_status t g a ns n m (Found (listenerStatus now g a ns n m l)) upd1 = (None, None) \<and>
   write_route_status t g a ns ls n m (Found (routeStatus now g a ns ls n m rt)) upd2 = (None, None) \<and>
   write_cluster_status t g a ns n refs m (Found (clusterStatus now g a ns n refs m cl)) upd3 = (None, None) \<and>
   write_endpoint_status t g a ns n m (Found (endpointStatus now g a ns n m ep)) upd4 = (None, None)"
  by (simp add: write_listener_status_def write_route_status_def write_cluster_status_def write_endpoint_status_def
      attempt_def Let_def listenerStatusEqual_def routeStatusEqual_def clusterStatusEqual_def endpointStatusEqual_def
      listenerStatus_def routeStatus_def clusterStatus_def endpointStatus_def snapshots_of_def)

text \<open>The message of a listener, a cluster or an endpoint is not part of the comparison: when only the reason
  changes, the status keeps the old one, and so do its conditions; a route's status is written.\<close>

theorem message_change_not_written:
  "write_listener_status t g False [] n m' (Found (listenerStatus now g False [] n m l)) upd1 = (None, None) \<and>
   write_cluster_status t g False [] n refs m' (Found (clusterStatus now g False [] n refs m cl)) upd3 = (None, None) \<and>
   write_endpoint_status t g False [] n m' (Found (endpointStatus now g False [] n m ep)) upd4 = (None, None) \<and>
   (snd (write_route_status t g False [] ls n m' (Found (routeStatus now g False [] ls n m rt)) (\<lambda>s. None)) = None
    \<longleftrightarrow> m = m')"
  by (simp add: write_listener_status_def write_route_status_def write_cluster_status_def write_endpoint_status_def
      attempt_def Let_def listenerStatusEqual_def routeStatusEqual_def clusterStatusEqual_def endpointStatusEqual_def
      listenerStatus_def routeStatus_def clusterStatus_def endpointStatus_def snapshots_of_def)

end
