(* ===== verification/Homes.thy ===== *)
theory Homes
  imports Store
begin

text \<open>
  Clusters and endpoints: unlike routes and listeners, a resource lives under one node id only. The
  two controllers run the same loops over the same kind of map; the custom resources and the loops
  are here, with the contract the handlers rely on as a locale. The specs (\<open>CDS\<close>, \<open>EDS\<close>, generated
  types) are opaque: they are only handed to the JSON encoder.
\<close>

record EndpointCR = ObjectMeta +
  ep_EDS :: string

record ClusterCR = ObjectMeta +
  cc_EndpointRefs :: "string list"
  cc_CDS :: string

section \<open>Deleting while ranging\<close>

text \<open>
  \<open>for i, v := range m[node] { if v.Name == k { m[node] = append(m[node][:i], m[node][i+1:]...) } }\<close>:
  the range visits the positions of the slice read at the start, whose array the deletion shifts. State:
  positions left, position, array, length of the stored slice. \<open>None\<close>: a slice bound out of range.
\<close>

fun range_delete :: "('v \<Rightarrow> string) \<Rightarrow> string \<Rightarrow> nat \<Rightarrow> nat \<Rightarrow> 'v list \<Rightarrow> nat \<Rightarrow> ('v list \<times> nat) option" where
  "range_delete name k 0 i arr len = Some (arr, len)"
| "range_delete name k (Suc todo) i arr len =
     (if name (arr ! i) = k
      then if len < Suc i then None
           else range_delete name k todo (Suc i)
                  (take i arr @ drop (Suc i) (take len arr) @ drop (len - 1) arr) (len - 1)
      else range_delete name k todo (Suc i) arr len)"

definition delete_scan :: "('v \<Rightarrow> string) \<Rightarrow> string \<Rightarrow> 'v list \<Rightarrow> ('v list \<times> nat) option" where
  "delete_scan name k xs =
     map_option (\<lambda>(arr, len). (take len arr, length xs - len)) (range_delete name k (length xs) 0 xs (length xs))"

text \<open>The result has the number of deletions; a node without a match is left as it is.\<close>

fun delete_home :: "('v \<Rightarrow> string) \<Rightarrow> string \<Rightarrow> string list \<Rightarrow> 'v store \<Rightarrow> ('v store \<times> nat) option" where
  "delete_home name k [] s = Some (s, 0)"
| "delete_home name k (node # nodes) s =
     (case delete_scan name k (mlist s node) of
        None \<Rightarrow> None
      | Some (xs, c) \<Rightarrow>
          map_option (apsnd ((+) c)) (delete_home name k nodes (if c = 0 then s else mset_at node xs s)))"

text \<open>The other loop counts the positions down, so that a deletion does not move what is still to come:
  \<open>for i := len(m[node])-1; i >= 0; i--\<close>. The result has the number of deletions.\<close>

fun delete_down :: "('v \<Rightarrow> string) \<Rightarrow> string \<Rightarrow> nat \<Rightarrow> 'v list \<Rightarrow> 'v list \<times> nat" where
  "delete_down name k 0 xs = (xs, 0)"
| "delete_down name k (Suc i) xs =
     (if name (xs ! i) = k then apsnd Suc (delete_down name k i (take i xs @ drop (Suc i) xs))
      else delete_down name k i xs)"

fun remove_homes :: "('v \<Rightarrow> string) \<Rightarrow> string \<Rightarrow> string list \<Rightarrow> 'v store \<Rightarrow> 'v store \<times> nat" where
  "remove_homes name k [] s = (s, 0)"
| "remove_homes name k (node # nodes) s =
     (case delete_down name k (length (mlist s node)) (mlist s node) of
        (xs, c) \<Rightarrow> apsnd ((+) c) (remove_homes name k nodes (if c = 0 then s else mset_at node xs s)))"

section \<open>Putting at one home\<close>

text \<open>The first entry of that name, over all nodes, is replaced or moved; otherwise one is appended.\<close>

definition upsert :: "('v \<Rightarrow> string) \<Rightarrow> string \<Rightarrow> 'v \<Rightarrow> 'v store \<Rightarrow> 'v store" where
  "upsert name nodeid v s =
     (case List.find (\<lambda>e. list_ex (\<lambda>x. name x = name v) (snd e)) s of
        Some (node, vs) \<Rightarrow>
          (if nodeid \<noteq> node
           then let s = mset_at node (delete_named name (name v) vs) s
                in mset_at nodeid (mlist s nodeid @ [v]) s
           else mset_at node (put_named name v vs) s)
      | None \<Rightarrow> mset_at nodeid (mlist s nodeid @ [v]) s)"

section \<open>The contract\<close>

definition one_home :: "('v \<Rightarrow> string) \<Rightarrow> 'v store \<Rightarrow> bool" where
  "one_home name s \<longleftrightarrow> gmap_ok s \<and> unique_names name s \<and>
     (\<forall>n n' k. lookup name s n k \<noteq> None \<longrightarrow> lookup name s n' k \<noteq> None \<longrightarrow> n = n')"

locale single_home =
  fixes name :: "'v \<Rightarrow> string"
    and put :: "string \<Rightarrow> 'v \<Rightarrow> 'v store \<Rightarrow> 'v store"
    and del :: "string \<Rightarrow> 'v store \<Rightarrow> ('v store \<times> nat) option"
  assumes put_at: "one_home name s \<Longrightarrow> lookup name (put node v s) n k =
      (if k = name v then if n = node then Some v else None else lookup name s n k)"
    and put_home: "one_home name s \<Longrightarrow> one_home name (put node v s)"
    and del_at: "one_home name s \<Longrightarrow> \<exists>s' c. del k s = Some (s', c) \<and>
      (\<forall>n j. lookup name s' n j = (if j = k then None else lookup name s n j)) \<and> one_home name s' \<and>
      (s' \<noteq> s \<longrightarrow> c = 1) \<and> (c = 0 \<or> c = 1)"
begin

text \<open>Deleting what was just put gives the store without it; putting again moves it.\<close>

lemma put_put: "one_home name s \<Longrightarrow> name v = name w \<Longrightarrow>
  lookup name (put m w (put n v s)) = lookup name (put m w s)"
  by (simp add: fun_eq_iff put_at put_home)

lemma del_put: "one_home name s \<Longrightarrow> del (name v) (put n v s) = Some (s', c) \<Longrightarrow>
  lookup name s' i j = (if j = name v then None else lookup name s i j)"
proof -
  assume s: "one_home name s" and d: "del (name v) (put n v s) = Some (s', c)"
  from del_at [OF put_home [OF s], where k = "name v"] obtain t d where
    t: "del (name v) (put n v s) = Some (t, d)"
    "\<forall>i j. lookup name t i j = (if j = name v then None else lookup name (put n v s) i j)" by blast
  then show ?thesis using d by (simp add: put_at [OF s])
qed

end

section \<open>The loops meet the contract\<close>

lemma range_delete_skip:
  "(\<And>j. j < t \<Longrightarrow> name (arr ! (i + j)) \<noteq> k) \<Longrightarrow>
     range_delete name k (t + m) i arr len = range_delete name k m (i + t) arr len"
proof (induction t arbitrary: i)
  case (Suc t)
  have "name (arr ! i) \<noteq> k" using Suc.prems [of 0] by simp
  moreover have "range_delete name k (t + m) (Suc i) arr len = range_delete name k m (Suc i + t) arr len"
    by (rule Suc.IH) (use Suc.prems [of "Suc j" for j] in auto)
  ultimately show ?case by simp
qed simp

lemma delete_scan_absent: "k \<notin> name ` set xs \<Longrightarrow> delete_scan name k xs = Some (xs, 0)"
proof -
  assume "k \<notin> name ` set xs"
  then have "range_delete name k (length xs + 0) 0 xs (length xs) = range_delete name k 0 (0 + length xs) xs (length xs)"
    by (intro range_delete_skip) (metis add_0 image_eqI nth_mem)
  then show ?thesis by (simp add: delete_scan_def)
qed

lemma delete_scan_split:
  assumes "k \<notin> name ` set ys" and "name x = k" and "k \<notin> name ` set zs"
  shows "delete_scan name k (ys @ x # zs) = Some (ys @ zs, 1)"
proof -
  let ?xs = "ys @ x # zs"
  let ?arr = "ys @ zs @ drop (length ys + length zs) ?xs"
  have "range_delete name k (length ys + Suc (length zs)) 0 ?xs (length ?xs) =
      range_delete name k (Suc (length zs)) (0 + length ys) ?xs (length ?xs)"
    by (rule range_delete_skip) (use assms(1) in \<open>auto simp: nth_append\<close>)
  also have "\<dots> = range_delete name k (length zs + 0) (Suc (length ys)) ?arr (length ys + length zs)"
    using assms(2) by simp
  also have "\<dots> = range_delete name k 0 (Suc (length ys) + length zs) ?arr (length ys + length zs)"
  proof (rule range_delete_skip)
    fix j
    assume j: "j < length zs"
    have "?arr ! (Suc (length ys) + j) \<in> set zs"
    proof (cases "Suc j < length zs")
      case True
      then show ?thesis by (simp add: nth_append)
    next
      case False
      then have "Suc j = length zs" using j by simp
      then have "?arr ! (Suc (length ys) + j) = drop (length ys + length zs) ?xs ! 0" by (simp add: nth_append)
      also have "\<dots> = ?xs ! (length ys + length zs)" by (simp add: nth_drop)
      also have "\<dots> = zs ! j" using \<open>Suc j = length zs\<close> by (simp add: nth_append flip: \<open>Suc j = length zs\<close>)
      finally show ?thesis using j by simp
    qed
    then show "name (?arr ! (Suc (length ys) + j)) \<noteq> k" using assms(3) by (metis image_eqI)
  qed
  finally show ?thesis by (simp add: delete_scan_def)
qed

lemma delete_scan_unique:
  assumes "distinct (map name xs)"
  shows "delete_scan name k xs = Some (delete_named name k xs, if k \<in> name ` set xs then 1 else 0)"
proof (cases "k \<in> name ` set xs")
  case False
  then show ?thesis by (simp add: delete_scan_absent delete_named_absent)
next
  case True
  then obtain ys x zs where xs: "xs = ys @ x # zs" "name x = k"
    by (metis imageE in_set_conv_decomp)
  have k: "k \<notin> name ` set ys" "k \<notin> name ` set zs" using assms xs by auto
  have "delete_named name k (ys @ x # zs) = ys @ zs" using k(1) xs(2) by (induction ys) auto
  then show ?thesis using delete_scan_split [OF k(1) xs(2) k(2)] xs True by simp
qed

text \<open>With a name twice on a node the range would run past the shortened slice.\<close>

lemma delete_scan_twice: "delete_scan id ''a'' [''a'', ''b'', ''a''] = None"
  by code_simp

lemma delete_down_filter:
  "i \<le> length xs \<Longrightarrow> delete_down name k i xs =
     (filter (\<lambda>v. name v \<noteq> k) (take i xs) @ drop i xs, length (filter (\<lambda>v. name v = k) (take i xs)))"
proof (induction i arbitrary: xs)
  case (Suc i)
  then have "take (Suc i) xs = take i xs @ [xs ! i]" "drop i xs = xs ! i # drop (Suc i) xs"
    by (simp_all add: take_Suc_conv_app_nth Cons_nth_drop_Suc)
  then show ?case using Suc by simp
qed simp

lemma filter_named_unique:
  "distinct (map name xs) \<Longrightarrow> filter (\<lambda>v. name v \<noteq> k) xs = delete_named name k xs \<and>
     length (filter (\<lambda>v. name v = k) xs) = (if k \<in> name ` set xs then 1 else 0)"
proof (induction xs)
  case (Cons x xs)
  have "filter (\<lambda>v. name v \<noteq> k) xs = xs \<and> filter (\<lambda>v. name v = k) xs = []" if "name x = k"
    using Cons.prems that by (auto simp: filter_id_conv filter_empty_conv image_iff)
  then show ?case using Cons by auto
qed simp

text \<open>With distinct names on a node, the two loops do the same.\<close>

lemma remove_homes_delete_home:
  "unique_names name s \<Longrightarrow> delete_home name k nodes s = Some (remove_homes name k nodes s)"
proof (induction nodes arbitrary: s)
  case (Cons node nodes)
  let ?xs = "mlist s node"
  let ?s = "store_remove name node k s"
  have d: "distinct (map name ?xs)" using Cons.prems by (simp add: unique_names_def)
  have "unique_names name ?s" using Cons.prems node_store.unique_remove [OF node_store_named] by blast
  note IH = Cons.IH [OF this]
  have s: "(if (if k \<in> name ` set ?xs then 1 else 0 :: nat) = 0 then s else mset_at node (delete_named name k ?xs) s) = ?s"
    by (simp add: store_remove_def)
  have "delete_down name k (length ?xs) ?xs = (delete_named name k ?xs, if k \<in> name ` set ?xs then 1 else 0)"
    using filter_named_unique [OF d, of k] by (simp add: delete_down_filter)
  then show ?case
    unfolding delete_home.simps remove_homes.simps delete_scan_unique [OF d] option.case prod.case s
    by (simp add: s IH)
qed simp

text \<open>Deleting everywhere takes the store through the deletions of \<open>Store\<close>, node by node.\<close>

lemma delete_home_all:
  assumes "gmap_ok s" and "unique_names name s"
  shows "\<exists>s' c. delete_home name k nodes s = Some (s', c) \<and> gmap_ok s' \<and> unique_names name s' \<and>
    (\<forall>n j. lookup name s' n j = (if n \<in> set nodes \<and> j = k then None else lookup name s n j))"
  using assms
proof (induction nodes arbitrary: s)
  case (Cons node nodes)
  let ?s = "store_remove name node k s"
  have "distinct (map name (mlist s node))" using Cons.prems(2) by (simp add: unique_names_def)
  then have one: "delete_home name k (node # nodes) s =
      map_option (apsnd ((+) (if k \<in> name ` set (mlist s node) then 1 else 0))) (delete_home name k nodes ?s)"
    by (simp add: delete_scan_unique store_remove_def)
  have "gmap_ok ?s" "unique_names name ?s"
    using Cons.prems node_store.keys_remove [OF node_store_named] node_store.unique_remove [OF node_store_named] by blast+
  from Cons.IH [OF this] obtain s' c where s': "delete_home name k nodes ?s = Some (s', c)" "gmap_ok s'" "unique_names name s'"
    "\<forall>n j. lookup name s' n j = (if n \<in> set nodes \<and> j = k then None else lookup name ?s n j)" by blast
  then show ?case
    unfolding one using node_store.lookup_remove [OF node_store_named Cons.prems(2)] by auto
qed simp

lemma delete_home_count:
  assumes "unique_names name s" and "distinct nodes"
  shows "\<exists>s'. delete_home name k nodes s = Some (s', length (filter (\<lambda>n. lookup name s n k \<noteq> None) nodes)) \<and>
    ((\<forall>n\<in>set nodes. lookup name s n k = None) \<longrightarrow> s' = s)"
  using assms
proof (induction nodes arbitrary: s)
  case (Cons node nodes)
  let ?s = "store_remove name node k s"
  have d: "distinct (map name (mlist s node))" using Cons.prems(1) by (simp add: unique_names_def)
  have one: "delete_home name k (node # nodes) s =
      map_option (apsnd ((+) (if k \<in> name ` set (mlist s node) then 1 else 0))) (delete_home name k nodes ?s)"
    by (simp add: delete_scan_unique d store_remove_def)
  have here: "k \<in> name ` set (mlist s node) \<longleftrightarrow> lookup name s node k \<noteq> None"
    by (simp add: lookup_def find_named_None)
  have "unique_names name ?s" using Cons.prems node_store.unique_remove [OF node_store_named] by blast
  from Cons.IH [OF this] Cons.prems(2) obtain s' where
    s': "delete_home name k nodes ?s = Some (s', length (filter (\<lambda>n. lookup name ?s n k \<noteq> None) nodes))"
    "(\<forall>n\<in>set nodes. lookup name ?s n k = None) \<longrightarrow> s' = ?s" by auto
  have other: "lookup name ?s n k = lookup name s n k" if "n \<in> set nodes" for n
    using that Cons.prems node_store.lookup_remove [OF node_store_named Cons.prems(1), of node k n k] by auto
  then have "filter (\<lambda>n. lookup name ?s n k \<noteq> None) nodes = filter (\<lambda>n. lookup name s n k \<noteq> None) nodes"
    by (intro filter_cong) auto
  moreover have "?s = s" if "lookup name s node k = None" using that here by (simp add: store_remove_def)
  ultimately show ?case unfolding one s'(1) using s'(2) other here by auto
qed simp

lemma at_most_one: "distinct xs \<Longrightarrow> (\<And>a b. P a \<Longrightarrow> P b \<Longrightarrow> a = b) \<Longrightarrow> length (filter P xs) = 0 \<or> length (filter P xs) = 1"
proof (induction xs)
  case (Cons x xs)
  have "filter P xs = []" if "P x" using Cons.prems that by (auto simp: filter_empty_conv)
  then show ?case using Cons by auto
qed simp

lemma lookup_outside: "n \<notin> set (mkeys s) \<Longrightarrow> lookup name s n k = None"
  by (simp add: lookup_def mlist_def mget_def mkeys_def map_of_eq_None_iff split: option.split)
    (metis (no_types, lifting) domI domIff map_of_eq_None_iff)

lemma put_named_absent: "name v \<notin> name ` set xs \<Longrightarrow> put_named name v xs = xs @ [v]"
  by (induction xs) auto

lemma upsert_cases:
  assumes "one_home name s"
  shows "(\<exists>node x. lookup name s node (name v) = Some x \<and>
      upsert name nodeid v s = store_put name nodeid v (if node = nodeid then s else store_remove name node (name v) s)) \<or>
    (\<forall>n. lookup name s n (name v) = None) \<and> upsert name nodeid v s = store_put name nodeid v s"
proof -
  have ok: "gmap_ok s" "unique_names name s" using assms by (simp_all add: one_home_def)
  have found: "lookup name s node (name v) \<noteq> None" if "x \<in> set (mlist s node)" "name x = name v" for node x
    using lookup_mem [OF ok(2) that(1)] that(2) by simp
  have append: "mset_at nodeid (mlist t nodeid @ [v]) t = store_put name nodeid v t"
    if "name v \<notin> name ` set (mlist t nodeid)" for t
    using that by (simp add: store_put_def put_named_absent)
  show ?thesis
  proof (cases "List.find (\<lambda>e. list_ex (\<lambda>x. name x = name v) (snd e)) s")
    case None
    then have no: "\<not> list_ex (\<lambda>x. name x = name v) vs" if "(n, vs) \<in> set s" for n vs
      using that by (auto simp: find_None_iff)
    have "name v \<notin> name ` set (mlist s n)" for n
      using mlist_in_set no by (fastforce simp: list_ex_iff)
    then show ?thesis using None append by (auto simp: upsert_def lookup_def find_named_None)
  next
    case (Some e)
    obtain node vs where e: "e = (node, vs)" by (cases e)
    have "e \<in> set s" and ex: "list_ex (\<lambda>x. name x = name v) (snd e)"
      using Some by (auto simp: find_Some_iff simp del: list_ex_iff)
    then have mem: "(node, vs) \<in> set s" "list_ex (\<lambda>x. name x = name v) vs" using e by simp_all
    have vs: "mlist s node = vs" by (rule in_set_mlist [OF ok(1) mem(1)])
    obtain x where x: "x \<in> set vs" "name x = name v" using mem(2) by (auto simp: list_ex_iff)
    have at: "lookup name s node (name v) \<noteq> None" using found x vs by simp
    have rem: "mset_at node (delete_named name (name v) vs) s = store_remove name node (name v) s"
      using x(1) x(2) [symmetric] unfolding store_remove_def vs by simp
    show ?thesis
    proof (cases "nodeid = node")
      case True
      then show ?thesis using Some e at vs by (auto simp: upsert_def store_put_def)
    next
      case False
      have "lookup name s nodeid (name v) = None" using assms at False unfolding one_home_def by blast
      then have "lookup name (store_remove name node (name v) s) nodeid (name v) = None"
        using store_remove_lookup [OF ok(2)] by simp
      then have "name v \<notin> name ` set (mlist (store_remove name node (name v) s) nodeid)"
        by (simp add: lookup_def find_named_None)
      from append [OF this] have "upsert name nodeid v s = store_put name nodeid v (store_remove name node (name v) s)"
        by (simp only: upsert_def Let_def Some e option.case prod.case rem False if_True not_False_eq_True)
      then show ?thesis using at False by auto
    qed
  qed
qed

lemma upsert_at:
  assumes "one_home name s"
  shows "lookup name (upsert name nodeid v s) n k =
      (if k = name v then if n = nodeid then Some v else None else lookup name s n k) \<and>
    gmap_ok (upsert name nodeid v s) \<and> unique_names name (upsert name nodeid v s)"
proof -
  note named = node_store_named [of name]
  have ok: "gmap_ok s" "unique_names name s" using assms by (simp_all add: one_home_def)
  from upsert_cases [OF assms, of v nodeid] show ?thesis
  proof (elim disjE exE conjE)
    fix node x
    assume x: "lookup name s node (name v) = Some x"
      and eq: "upsert name nodeid v s = store_put name nodeid v (if node = nodeid then s else store_remove name node (name v) s)"
    let ?s = "if node = nodeid then s else store_remove name node (name v) s"
    have ok': "gmap_ok ?s" "unique_names name ?s"
      using ok node_store.keys_remove [OF named] node_store.unique_remove [OF named] by auto
    have other: "lookup name s m (name v) = None" if "m \<noteq> node" for m
      using assms x that unfolding one_home_def by (metis option.distinct(1))
    show ?thesis
      unfolding eq using node_store.lookup_put [OF named, of nodeid v ?s n k] store_remove_lookup [OF ok(2)] other
        node_store.keys_put [OF named ok'(1)] node_store.unique_put [OF named ok'(2)] by auto
  next
    assume "\<forall>n. lookup name s n (name v) = None" and eq: "upsert name nodeid v s = store_put name nodeid v s"
    then show ?thesis
      unfolding eq using node_store.lookup_put [OF named, of nodeid v s n k]
        node_store.keys_put [OF named ok(1)] node_store.unique_put [OF named ok(2)] by auto
  qed
qed

lemma one_homeI:
  assumes "one_home name s" and "gmap_ok t" and "unique_names name t"
    and "\<And>n k. lookup name t n k = (if k = j then if n = m then v else None else lookup name s n k)"
  shows "one_home name t"
  unfolding one_home_def
proof (intro conjI allI impI)
  fix n n' k
  assume "lookup name t n k \<noteq> None" "lookup name t n' k \<noteq> None"
  then show "n = n'"
    using assms(1) unfolding one_home_def assms(4) by (cases "k = j") (auto split: if_splits)
qed (rule assms)+

lemma single_home_named:
  fixes name :: "'v \<Rightarrow> string"
  shows "single_home name (upsert name) (\<lambda>k s. delete_home name k (mkeys s) s)"
proof
  fix s :: "'v store" and node k v
  assume s: "one_home name s"
  show "lookup name (upsert name node v s) n k =
      (if k = name v then if n = node then Some v else None else lookup name s n k)" for n
    using upsert_at [OF s] by blast
  show "one_home name (upsert name node v s)"
    by (rule one_homeI [where s = s]) (use upsert_at [OF s] s in auto)
  have ok: "gmap_ok s" "unique_names name s" using s by (simp_all add: one_home_def)
  then have keys: "distinct (mkeys s)" by (simp add: gmap_ok_def mkeys_def)
  from delete_home_all [OF ok, of k "mkeys s"] obtain s' c where
    d: "delete_home name k (mkeys s) s = Some (s', c)" "gmap_ok s'" "unique_names name s'"
    "\<forall>n j. lookup name s' n j = (if n \<in> set (mkeys s) \<and> j = k then None else lookup name s n j)" by blast
  from delete_home_count [OF ok(2) keys, of k] d(1)
  have c: "c = length (filter (\<lambda>n. lookup name s n k \<noteq> None) (mkeys s))"
    and same: "(\<forall>n\<in>set (mkeys s). lookup name s n k = None) \<longrightarrow> s' = s" by auto
  have one: "c = 0 \<or> c = 1"
    unfolding c by (rule at_most_one [OF keys]) (use s in \<open>auto simp: one_home_def\<close>)
  moreover have "c = 1" if "s' \<noteq> s"
    using that one same unfolding c by (auto simp: filter_empty_conv)
  moreover have l: "lookup name s' n j = (if j = k then None else lookup name s n j)" for n j
    using d(4) lookup_outside [of n s name] by auto
  moreover have "one_home name s'" using d(2,3) s l unfolding one_home_def by (auto split: if_splits)
  ultimately show "\<exists>s' c. delete_home name k (mkeys s) s = Some (s', c) \<and>
      (\<forall>n j. lookup name s' n j = (if j = k then None else lookup name s n j)) \<and> one_home name s' \<and>
      (s' \<noteq> s \<longrightarrow> c = 1) \<and> (c = 0 \<or> c = 1)"
    using d(1) by blast
qed

lemma single_home_down:
  fixes name :: "'v \<Rightarrow> string"
  shows "single_home name (upsert name) (\<lambda>k s. Some (remove_homes name k (mkeys s) s))"
proof
  fix s :: "'v store" and node k v
  assume s: "one_home name s"
  then have "unique_names name s" by (simp add: one_home_def)
  note eq = remove_homes_delete_home [OF this, symmetric]
  show "lookup name (upsert name node v s) n k =
      (if k = name v then if n = node then Some v else None else lookup name s n k)" for n
    by (rule single_home.put_at [OF single_home_named s])
  show "one_home name (upsert name node v s)"
    by (rule single_home.put_home [OF single_home_named s])
  show "\<exists>s' c. Some (remove_homes name k (mkeys s) s) = Some (s', c) \<and>
      (\<forall>n j. lookup name s' n j = (if j = k then None else lookup name s n j)) \<and> one_home name s' \<and>
      (s' \<noteq> s \<longrightarrow> c = 1) \<and> (c = 0 \<or> c = 1)"
    unfolding eq by (rule single_home.del_at [OF single_home_named s])
qed

end
