(* ===== verification/Cds.thy ===== *)
theory Cds
  imports Rds Homes
begin

text \<open>
  The cluster controller, \<open>src/controllers/cds/cluster_controller.go\<close>: endpoints of the referenced
  Endpoint resources merged into the load assignment of a cluster, the handler that keeps every
  cluster at one node id and holds it back while it waits for endpoints, and the watch on Endpoint
  resources. Arguments (\<open>env\<close>): the Kubernetes API, \<open>json.Marshal\<close> of the generated types and
  \<open>protojson.Unmarshal\<close>. \<open>None\<close> as the outcome of the handler: it panics.
\<close>

section \<open>State\<close>

record cds_env =
  Get_Cluster :: "nsname \<Rightarrow> ClusterCR get"
  Get_Endpoint :: "nsname \<Rightarrow> EndpointCR get"
  List_Clusters :: "string \<Rightarrow> string + ClusterCR list"
  json_CDS :: "string \<Rightarrow> string + string"
  protojson_Cluster :: "string \<Rightarrow> string + Cluster"
  json_EDS :: "string \<Rightarrow> string + string"
  protojson_EDS :: "string \<Rightarrow> string + ClusterLoadAssignment"

datatype cds_error = MissingAnyImport | MergeFailed string

record cds_status =
  cs_name :: nsname
  cs_active :: bool
  cs_nodes :: "string list"
  cs_count :: nat
  cs_refs :: "string list"
  cs_message :: string

record ClusterReconciler =
  kr_Config :: Config
  cds_reconciling :: int
  cds_status_calls :: "cds_status list"
  cds_config_errors :: "(string \<times> cds_error) list"

section \<open>Conversions\<close>

definition ClusterRecast :: "cds_env \<Rightarrow> string \<Rightarrow> string + Cluster" where
  "ClusterRecast env c =
     (case json_CDS env c of
        Inl err \<Rightarrow> Inl (''JSON marshaling failed: '' @ err)
      | Inr routeData \<Rightarrow>
          (case protojson_Cluster env routeData of
             Inl err \<Rightarrow> Inl (''proto unmarshaling failed: '' @ err)
           | Inr clusterConfig \<Rightarrow> Inr clusterConfig))"

definition EndpointRecast :: "cds_env \<Rightarrow> string \<Rightarrow> string + ClusterLoadAssignment" where
  "EndpointRecast env e =
     (case json_EDS env e of
        Inl err \<Rightarrow> Inl (''JSON marshaling failed: '' @ err)
      | Inr edsData \<Rightarrow>
          (case protojson_EDS env edsData of
             Inl err \<Rightarrow> Inl (''proto unmarshaling failed: '' @ err)
           | Inr cla \<Rightarrow> Inr cla))"

section \<open>Merging endpoints\<close>

definition merge_endpoints :: "ClusterLoadAssignment \<Rightarrow> ClusterLoadAssignment \<Rightarrow> ClusterLoadAssignment" where
  "merge_endpoints la eds =
     la\<lparr>cla_Endpoints := cla_Endpoints la @ cla_Endpoints eds,
        cla_NamedEndpoints := foldl (\<lambda>m (k, v). mset_at k v m) (cla_NamedEndpoints la) (cla_NamedEndpoints eds),
        cla_Policy := (case cla_Policy eds of None \<Rightarrow> cla_Policy la | Some p \<Rightarrow> Some p)\<rparr>"

definition count_endpoints :: "nat \<Rightarrow> ClusterLoadAssignment \<Rightarrow> nat" where
  "count_endpoints n eds = foldl (\<lambda>cnt locality. cnt + length (lo_LbEndpoints locality)) n (cla_Endpoints eds)"

fun merge_refs ::
  "cds_env \<Rightarrow> string \<Rightarrow> string list \<Rightarrow> ClusterLoadAssignment \<Rightarrow> string list \<Rightarrow> nat
   \<Rightarrow> string + (ClusterLoadAssignment \<times> string list \<times> nat)" where
  "merge_refs env ns [] la refs n = Inr (la, refs, n)"
| "merge_refs env ns (epRef # epRefs) la refs n =
     (case Get_Endpoint env (ns, epRef) of
        NotFound \<Rightarrow> merge_refs env ns epRefs la refs n
      | GetError e \<Rightarrow> Inl (''failed to get endpoint '' @ epRef @ '': '' @ e)
      | Found ep \<Rightarrow>
          let refs = refs @ [epRef] in
          (case EndpointRecast env (ep_EDS ep) of
             Inl err \<Rightarrow> merge_refs env ns epRefs la refs n
           | Inr eds \<Rightarrow> merge_refs env ns epRefs (merge_endpoints la eds) refs (count_endpoints n eds)))"

text \<open>The load assignment of the cluster, when it has one, is changed in place: the result carries the
  cluster as the call leaves it.\<close>

definition mergeEndpointRefs ::
  "cds_env \<Rightarrow> ClusterCR \<Rightarrow> Cluster
   \<Rightarrow> string + (ClusterLoadAssignment option \<times> string list \<times> nat \<times> Cluster)" where
  "mergeEndpointRefs env cl cds =
     (if cc_EndpointRefs cl = [] then Inr (None, [], 0, cds)
      else
        let loadAssignment =
          (case cl_LoadAssignment cds of
             None \<Rightarrow> \<lparr>cla_ClusterName = om_Name cl, cla_Endpoints = [], cla_NamedEndpoints = [],
                       cla_Policy = None, cla_rest = []\<rparr>
           | Some la \<Rightarrow> if cla_ClusterName la = [] then la\<lparr>cla_ClusterName := om_Name cl\<rparr> else la)
        in (case merge_refs env (om_Namespace cl) (cc_EndpointRefs cl) loadAssignment [] 0 of
              Inl err \<Rightarrow> Inl err
            | Inr (la, refs, n) \<Rightarrow>
                let cds = (if cl_LoadAssignment cds = None then cds else cds\<lparr>cl_LoadAssignment := Some la\<rparr>) in
                if cla_Endpoints la = [] \<and> cla_NamedEndpoints la = [] then Inr (None, refs, 0, cds)
                else Inr (Some la, refs, n, cds)))"

section \<open>The handler\<close>

definition updateClusterStatus ::
  "ClusterCR \<Rightarrow> bool \<Rightarrow> string list \<Rightarrow> nat \<Rightarrow> string list \<Rightarrow> string \<Rightarrow> ClusterReconciler \<Rightarrow> ClusterReconciler" where
  "updateClusterStatus cl active nodes cnt refs msg r =
     r\<lparr>cds_status_calls := cds_status_calls r @
        [\<lparr>cs_name = object_key cl, cs_active = active, cs_nodes = nodes, cs_count = cnt, cs_refs = refs,
          cs_message = msg\<rparr>]\<rparr>"

definition record_cds_error :: "string \<Rightarrow> cds_error \<Rightarrow> ClusterReconciler \<Rightarrow> ClusterReconciler" where
  "record_cds_error name e r = r\<lparr>cds_config_errors := cds_config_errors r @ [(name, e)]\<rparr>"

definition cds_config :: "(Config \<Rightarrow> Config) \<Rightarrow> ClusterReconciler \<Rightarrow> ClusterReconciler" where
  "cds_config f r = r\<lparr>kr_Config := f (kr_Config r)\<rparr>"

definition cds_in_status ::
  "(ReconciliationStatus \<Rightarrow> ReconciliationStatus) \<Rightarrow> ClusterReconciler \<Rightarrow> ClusterReconciler" where
  "cds_in_status f r = cds_config (\<lambda>c. c\<lparr>reconciliationStatus := f (reconciliationStatus c)\<rparr>) r"

definition cluster_nodeid :: "Config \<Rightarrow> ClusterCR \<Rightarrow> string" where
  "cluster_nodeid c cl = GetNodeID (with_defaults c (om_Annotations cl))"

definition set_clusters :: "Cluster store \<times> nat \<Rightarrow> ClusterReconciler \<Rightarrow> ClusterReconciler" where
  "set_clusters sn r = cds_config (\<lambda>c. (IncrementConfigCounter ^^ snd sn) (c\<lparr>ClusterConfigs := fst sn\<rparr>)) r"

definition remove_cluster :: "string \<Rightarrow> ClusterReconciler \<Rightarrow> ClusterReconciler option" where
  "remove_cluster k r =
     map_option (\<lambda>sn. set_clusters sn r)
       (delete_home cl_Name k (mkeys (ClusterConfigs (kr_Config r))) (ClusterConfigs (kr_Config r)))"

definition removeClusterFromAllNodes :: "string \<Rightarrow> ClusterReconciler \<Rightarrow> ClusterReconciler" where
  "removeClusterFromAllNodes k r =
     set_clusters (remove_homes cl_Name k (mkeys (ClusterConfigs (kr_Config r))) (ClusterConfigs (kr_Config r))) r"

definition put_cluster :: "string \<Rightarrow> Cluster \<Rightarrow> Config \<Rightarrow> Config" where
  "put_cluster nodeid cds c =
     IncrementConfigCounter (c\<lparr>ClusterConfigs := upsert cl_Name nodeid cds (ClusterConfigs c)\<rparr>)"

text \<open>From the converted cluster on. The merged endpoints replace the load assignment when there are some.\<close>

definition reconcile_cluster ::
  "cds_env \<Rightarrow> ClusterCR \<Rightarrow> Cluster \<Rightarrow> ClusterReconciler \<Rightarrow> string option \<times> ClusterReconciler" where
  "reconcile_cluster env cl cds r =
     (let nodeid = cluster_nodeid (kr_Config r) cl;
          hasInlineLoadAssignment = (case cl_LoadAssignment cds of None \<Rightarrow> False | Some la \<Rightarrow> cla_Endpoints la \<noteq> []);
          hasEndpointRefs = cc_EndpointRefs cl \<noteq> []
      in case (if hasEndpointRefs then mergeEndpointRefs env cl cds else Inr (None, [], 0, cds)) of
           Inl err \<Rightarrow>
             (Some err, updateClusterStatus cl False [] 0 [] err (record_cds_error (om_Name cl) (MergeFailed err) r))
         | Inr (mergedEndpoints, referencedEndpoints, endpointCount, cds) \<Rightarrow>
             let cds = (case mergedEndpoints of
                          Some la \<Rightarrow> if cla_Endpoints la \<noteq> [] then cds\<lparr>cl_LoadAssignment := Some la\<rparr> else cds
                        | None \<Rightarrow> cds)
             in if hasEndpointRefs \<and> \<not> hasInlineLoadAssignment \<and> endpointCount = 0
                then (None, updateClusterStatus cl False [] 0 [] ''Waiting for endpoint refs to be available''
                              (removeClusterFromAllNodes (om_Name cl) r))
                else (None, updateClusterStatus cl True [nodeid] endpointCount referencedEndpoints []
                              (cds_config (put_cluster nodeid cds) r)))"

definition ReconcileCluster ::
  "cds_env \<Rightarrow> nsname \<Rightarrow> ClusterReconciler \<Rightarrow> (string option \<times> ClusterReconciler) option" where
  "ReconcileCluster env req r =
     (let r = cds_in_status (SetHasClusters True) r;
          r = r\<lparr>cds_reconciling := cds_reconciling r + 1\<rparr>
      in case Get_Cluster env req of
           GetError e \<Rightarrow> Some (Some e, r)
         | NotFound \<Rightarrow> map_option (Pair None) (remove_cluster (snd req) r)
         | Found cl \<Rightarrow>
             (case ClusterRecast env (cc_CDS cl) of
                Inl err \<Rightarrow>
                  Some (Some err, updateClusterStatus cl False [] 0 [] err (record_cds_error (om_Name cl) MissingAnyImport r))
              | Inr cds \<Rightarrow> Some (reconcile_cluster env cl (cds\<lparr>cl_Name := om_Name cl\<rparr>) r)))"

text \<open>The deferred part of the handler's goroutine, and the runnable that runs after the cache has synced.\<close>

definition cluster_done :: "ClusterReconciler \<Rightarrow> ClusterReconciler" where
  "cluster_done r =
     (let r = r\<lparr>cds_reconciling := cds_reconciling r - 1\<rparr>
      in if cds_reconciling r = 0 then cds_in_status (SetClustersReconciled True) r else r)"

definition initialize_clusters :: "nat \<Rightarrow> ClusterReconciler \<Rightarrow> ClusterReconciler" where
  "initialize_clusters found r =
     (let r = (if 0 < found then cds_in_status (SetHasClusters True) r else r)
      in cds_in_status (SetClustersInitialized True) r)"

text \<open>A change of an Endpoint resource: the clusters that name it, each once.\<close>

fun watch_clusters :: "string \<Rightarrow> ClusterCR list \<Rightarrow> nsname list" where
  "watch_clusters ep [] = []"
| "watch_clusters ep (cluster # clusters) =
     (if list_ex (\<lambda>ref. ref = ep) (cc_EndpointRefs cluster)
      then object_key cluster # watch_clusters ep clusters else watch_clusters ep clusters)"

definition clusters_of_endpoint :: "cds_env \<Rightarrow> EndpointCR \<Rightarrow> nsname list" where
  "clusters_of_endpoint env ep =
     (case List_Clusters env (om_Namespace ep) of
        Inl e \<Rightarrow> []
      | Inr clusters \<Rightarrow> watch_clusters (om_Name ep) clusters)"

section \<open>Merging, as it is meant\<close>

text \<open>What the references contribute, in their order: the load assignments of the Endpoint resources that
  exist and can be converted.\<close>

definition contributions :: "cds_env \<Rightarrow> string \<Rightarrow> string list \<Rightarrow> ClusterLoadAssignment list" where
  "contributions env ns refs = concat (map (\<lambda>ref.
     case Get_Endpoint env (ns, ref) of
       Found ep \<Rightarrow> (case EndpointRecast env (ep_EDS ep) of Inl e \<Rightarrow> [] | Inr eds \<Rightarrow> [eds])
     | _ \<Rightarrow> []) refs)"

definition ref_fails :: "cds_env \<Rightarrow> string \<Rightarrow> string \<Rightarrow> bool" where
  "ref_fails env ns ref \<longleftrightarrow> (case Get_Endpoint env (ns, ref) of GetError e \<Rightarrow> True | _ \<Rightarrow> False)"

definition ref_found :: "cds_env \<Rightarrow> string \<Rightarrow> string \<Rightarrow> bool" where
  "ref_found env ns ref \<longleftrightarrow> (case Get_Endpoint env (ns, ref) of Found ep \<Rightarrow> True | _ \<Rightarrow> False)"

definition lb_total :: "LocalityLbEndpoints list \<Rightarrow> nat" where
  "lb_total es = sum_list (map (\<lambda>e. length (lo_LbEndpoints e)) es)"

definition last_with :: "(ClusterLoadAssignment \<Rightarrow> 'a option) \<Rightarrow> ClusterLoadAssignment list \<Rightarrow> 'a option \<Rightarrow> 'a option" where
  "last_with f cs base = foldl (\<lambda>b c. case f c of None \<Rightarrow> b | Some x \<Rightarrow> Some x) base cs"

lemma contributions_Cons:
  "contributions env ns (ref # refs) =
     (case Get_Endpoint env (ns, ref) of
        Found ep \<Rightarrow> (case EndpointRecast env (ep_EDS ep) of Inl e \<Rightarrow> [] | Inr eds \<Rightarrow> [eds])
      | _ \<Rightarrow> []) @ contributions env ns refs"
  by (simp add: contributions_def)

lemma merge_refs_eq:
  "merge_refs env ns rs la refs n =
     (case find (ref_fails env ns) rs of
        Some ref \<Rightarrow> merge_refs env ns rs la refs n
      | None \<Rightarrow> Inr (foldl merge_endpoints la (contributions env ns rs), refs @ filter (ref_found env ns) rs,
                    foldl count_endpoints n (contributions env ns rs)))"
proof (induction rs arbitrary: la refs n)
  case Nil
  then show ?case by (simp add: contributions_def)
next
  case (Cons ref rs)
  show ?case
  proof (cases "find (ref_fails env ns) (ref # rs)")
    case None
    then have here: "\<not> ref_fails env ns ref" and rest: "find (ref_fails env ns) rs = None"
      by (auto split: if_splits)
    note IH = Cons.IH [unfolded rest option.case]
    show ?thesis
      unfolding None option.case using here IH
      by (auto simp: ref_fails_def ref_found_def contributions_Cons Let_def split: get.splits sum.splits)
  qed simp
qed

lemma merge_refs_fails: "(\<exists>e. merge_refs env ns rs la refs n = Inl e) \<longleftrightarrow> list_ex (ref_fails env ns) rs"
  by (induction rs arbitrary: la refs n) (auto simp: ref_fails_def Let_def split: get.splits sum.splits)

lemma endpoints_merged:
  "cla_Endpoints (foldl merge_endpoints la cs) = cla_Endpoints la @ concat (map cla_Endpoints cs)"
  by (induction cs arbitrary: la) (simp_all add: merge_endpoints_def)

lemma count_endpoints_total: "count_endpoints n eds = n + lb_total (cla_Endpoints eds)"
proof -
  have "foldl (\<lambda>cnt e. cnt + length (lo_LbEndpoints e)) n es = n + lb_total es" for es
    by (induction es arbitrary: n) (simp_all add: lb_total_def)
  then show ?thesis by (simp add: count_endpoints_def)
qed

lemma endpoints_counted:
  "foldl count_endpoints n cs = n + lb_total (concat (map cla_Endpoints cs))"
  by (induction cs arbitrary: n) (simp_all add: count_endpoints_total, simp_all add: lb_total_def)

lemma policy_merged: "cla_Policy (foldl merge_endpoints la cs) = last_with cla_Policy cs (cla_Policy la)"
  by (induction cs arbitrary: la) (simp_all add: last_with_def merge_endpoints_def)

lemma name_merged: "cla_ClusterName (foldl merge_endpoints la cs) = cla_ClusterName la"
  by (induction cs arbitrary: la) (simp_all add: merge_endpoints_def)

lemma mget_puts:
  "gmap_ok ps \<Longrightarrow> mget (foldl (\<lambda>m (k, v). mset_at k v m) m ps) k =
     (case mget ps k of None \<Rightarrow> mget m k | Some v \<Rightarrow> Some v)"
proof (induction ps arbitrary: m)
  case (Cons p ps)
  obtain k' v' where p: "p = (k', v')" by (cases p)
  have "gmap_ok ps" "mget ps k' = None" using Cons.prems by (auto simp: p gmap_ok_def mget_def map_of_eq_None_iff)
  then show ?case using Cons.IH [of "mset_at k' v' m"] by (auto simp: p mget_def [of "_ # _"] mget_def [of ps] split: option.split)
qed simp

lemma named_merged:
  "\<forall>c\<in>set cs. gmap_ok (cla_NamedEndpoints c) \<Longrightarrow>
     mget (cla_NamedEndpoints (foldl merge_endpoints la cs)) k =
       last_with (\<lambda>c. mget (cla_NamedEndpoints c) k) cs (mget (cla_NamedEndpoints la) k)"
  by (induction cs arbitrary: la) (simp_all add: last_with_def merge_endpoints_def mget_puts split: option.split)

definition own_endpoints :: "Cluster \<Rightarrow> LocalityLbEndpoints list" where
  "own_endpoints cds = (case cl_LoadAssignment cds of None \<Rightarrow> [] | Some la \<Rightarrow> cla_Endpoints la)"

definition base_assignment :: "ClusterCR \<Rightarrow> Cluster \<Rightarrow> ClusterLoadAssignment" where
  "base_assignment cl cds =
     (case cl_LoadAssignment cds of
        None \<Rightarrow> \<lparr>cla_ClusterName = om_Name cl, cla_Endpoints = [], cla_NamedEndpoints = [],
                  cla_Policy = None, cla_rest = []\<rparr>
      | Some la \<Rightarrow> if cla_ClusterName la = [] then la\<lparr>cla_ClusterName := om_Name cl\<rparr> else la)"

lemma base_endpoints: "cla_Endpoints (base_assignment cl cds) = own_endpoints cds"
  by (simp add: base_assignment_def own_endpoints_def split: option.split)

definition merged :: "cds_env \<Rightarrow> ClusterCR \<Rightarrow> Cluster \<Rightarrow> ClusterLoadAssignment" where
  "merged env cl cds =
     foldl merge_endpoints (base_assignment cl cds) (contributions env (om_Namespace cl) (cc_EndpointRefs cl))"

definition referenced_endpoints :: "cds_env \<Rightarrow> ClusterCR \<Rightarrow> LocalityLbEndpoints list" where
  "referenced_endpoints env cl =
     concat (map cla_Endpoints (contributions env (om_Namespace cl) (cc_EndpointRefs cl)))"

lemma merged_endpoints: "cla_Endpoints (merged env cl cds) = own_endpoints cds @ referenced_endpoints env cl"
  by (simp add: merged_def endpoints_merged base_endpoints referenced_endpoints_def)

lemma merge_ok:
  assumes "\<not> list_ex (ref_fails env (om_Namespace cl)) (cc_EndpointRefs cl)" and "cc_EndpointRefs cl \<noteq> []"
  shows "mergeEndpointRefs env cl cds =
    (let cds' = (if cl_LoadAssignment cds = None then cds else cds\<lparr>cl_LoadAssignment := Some (merged env cl cds)\<rparr>);
         refs = filter (ref_found env (om_Namespace cl)) (cc_EndpointRefs cl)
     in if cla_Endpoints (merged env cl cds) = [] \<and> cla_NamedEndpoints (merged env cl cds) = []
        then Inr (None, refs, 0, cds')
        else Inr (Some (merged env cl cds), refs, lb_total (referenced_endpoints env cl), cds'))"
proof -
  have "find (ref_fails env (om_Namespace cl)) (cc_EndpointRefs cl) = None"
    using assms(1) by (auto simp: find_None_iff list_ex_iff)
  then have "merge_refs env (om_Namespace cl) (cc_EndpointRefs cl) (base_assignment cl cds) [] 0 =
      Inr (merged env cl cds, filter (ref_found env (om_Namespace cl)) (cc_EndpointRefs cl),
           lb_total (referenced_endpoints env cl))"
    by (subst merge_refs_eq) (simp add: merged_def endpoints_counted referenced_endpoints_def)
  then show ?thesis
    using assms(2) unfolding mergeEndpointRefs_def base_assignment_def [symmetric] by (simp add: Let_def)
qed

lemma merge_fails:
  "cc_EndpointRefs cl \<noteq> [] \<Longrightarrow> list_ex (ref_fails env (om_Namespace cl)) (cc_EndpointRefs cl) \<Longrightarrow>
     \<exists>e. mergeEndpointRefs env cl cds = Inl e"
  using merge_refs_fails [of env "om_Namespace cl" "cc_EndpointRefs cl" "base_assignment cl cds" "[]" 0]
  unfolding mergeEndpointRefs_def base_assignment_def [symmetric] by auto

section \<open>The clusters\<close>

interpretation clusters: single_home cl_Name "upsert cl_Name" "\<lambda>k s. delete_home cl_Name k (mkeys s) s"
  by (rule single_home_named)

interpretation waiting: single_home cl_Name "upsert cl_Name" "\<lambda>k s. Some (remove_homes cl_Name k (mkeys s) s)"
  by (rule single_home_down)

definition clusters_of :: "ClusterReconciler \<Rightarrow> Cluster store" where
  "clusters_of r = ClusterConfigs (kr_Config r)"

definition cluster_at :: "ClusterReconciler \<Rightarrow> string \<Rightarrow> string \<Rightarrow> Cluster option" where
  "cluster_at r node k = lookup cl_Name (clusters_of r) node k"

definition counter_of :: "ClusterReconciler \<Rightarrow> u64" where
  "counter_of r = GetConfigCounter (kr_Config r)"

text \<open>The store \<open>s\<close> replaces the one of \<open>r\<close>, and the counter tells when it has changed.\<close>

definition counted :: "ClusterReconciler \<Rightarrow> ClusterReconciler \<Rightarrow> bool" where
  "counted r r' \<longleftrightarrow> (clusters_of r' \<noteq> clusters_of r \<longrightarrow> counter_of r' = counter_of r + 1)"

lemma cds_simps [simp]:
  "clusters_of (updateClusterStatus cl a ns n refs m r) = clusters_of r"
  "counter_of (updateClusterStatus cl a ns n refs m r) = counter_of r"
  "clusters_of (record_cds_error k e r) = clusters_of r" "counter_of (record_cds_error k e r) = counter_of r"
  "clusters_of (cds_in_status g r) = clusters_of r" "counter_of (cds_in_status g r) = counter_of r"
  "clusters_of (r\<lparr>cds_reconciling := i\<rparr>) = clusters_of r" "counter_of (r\<lparr>cds_reconciling := i\<rparr>) = counter_of r"
  "clusters_of (cds_config (put_cluster node cds) r) = upsert cl_Name node cds (clusters_of r)"
  "counter_of (cds_config (put_cluster node cds) r) = counter_of r + 1"
  "cluster_nodeid (kr_Config (cds_in_status g r)) cl = cluster_nodeid (kr_Config r) cl"
  by (simp_all add: clusters_of_def counter_of_def GetConfigCounter_def updateClusterStatus_def record_cds_error_def
      cds_in_status_def cds_config_def put_cluster_def IncrementConfigCounter_def cluster_nodeid_def with_defaults_def)

lemma Increment_ClusterConfigs [simp]:
  "ClusterConfigs ((IncrementConfigCounter ^^ n) c) = ClusterConfigs c"
  "configChangeCounter ((IncrementConfigCounter ^^ n) c) = configChangeCounter c + of_nat n"
  by (induction n) (simp_all add: IncrementConfigCounter_def)

lemma set_clusters_simps [simp]:
  "clusters_of (set_clusters sn r) = fst sn" "counter_of (set_clusters sn r) = counter_of r + of_nat (snd sn)"
  by (simp_all add: clusters_of_def counter_of_def GetConfigCounter_def set_clusters_def cds_config_def)

lemma remove_cluster_spec:
  assumes "one_home cl_Name (clusters_of r)"
  shows "\<exists>r'. remove_cluster k r = Some r' \<and> one_home cl_Name (clusters_of r') \<and> counted r r' \<and>
    (\<forall>n j. cluster_at r' n j = (if j = k then None else cluster_at r n j))"
proof -
  from clusters.del_at [OF assms, of k] obtain s c where
    s: "delete_home cl_Name k (mkeys (clusters_of r)) (clusters_of r) = Some (s, c)"
    "\<forall>n j. lookup cl_Name s n j = (if j = k then None else lookup cl_Name (clusters_of r) n j)"
    "one_home cl_Name s" "s \<noteq> clusters_of r \<longrightarrow> c = 1" by blast
  then have "remove_cluster k r = Some (set_clusters (s, c) r)" by (simp add: remove_cluster_def clusters_of_def)
  then show ?thesis using s(2,3,4) by (simp add: cluster_at_def counted_def)
qed

lemma removeClusterFromAllNodes_spec:
  assumes "one_home cl_Name (clusters_of r)"
  shows "one_home cl_Name (clusters_of (removeClusterFromAllNodes k r)) \<and> counted r (removeClusterFromAllNodes k r) \<and>
    (\<forall>n j. cluster_at (removeClusterFromAllNodes k r) n j = (if j = k then None else cluster_at r n j))"
proof -
  from waiting.del_at [OF assms, of k] obtain s c where
    s: "remove_homes cl_Name k (mkeys (clusters_of r)) (clusters_of r) = (s, c)"
    "\<forall>n j. lookup cl_Name s n j = (if j = k then None else lookup cl_Name (clusters_of r) n j)"
    "one_home cl_Name s" "s \<noteq> clusters_of r \<longrightarrow> c = 1" by blast
  then have "removeClusterFromAllNodes k r = set_clusters (s, c) r"
    by (simp add: removeClusterFromAllNodes_def clusters_of_def)
  then show ?thesis using s(2,3,4) by (simp add: cluster_at_def counted_def)
qed

lemma put_cluster_spec:
  assumes "one_home cl_Name (clusters_of r)"
  shows "one_home cl_Name (clusters_of (cds_config (put_cluster home cds) r)) \<and>
    counted r (cds_config (put_cluster home cds) r) \<and>
    (\<forall>n j. cluster_at (cds_config (put_cluster home cds) r) n j =
       (if j = cl_Name cds then if n = home then Some cds else None else cluster_at r n j))"
  using clusters.put_home [OF assms] clusters.put_at [OF assms] by (simp add: cluster_at_def counted_def)

definition waits :: "cds_env \<Rightarrow> ClusterCR \<Rightarrow> Cluster \<Rightarrow> bool" where
  "waits env cl cds \<longleftrightarrow>
     cc_EndpointRefs cl \<noteq> [] \<and> own_endpoints cds = [] \<and> lb_total (referenced_endpoints env cl) = 0"

definition no_failure :: "cds_env \<Rightarrow> ClusterCR \<Rightarrow> bool" where
  "no_failure env cl \<longleftrightarrow> \<not> list_ex (ref_fails env (om_Namespace cl)) (cc_EndpointRefs cl)"

text \<open>The cluster handed to the store: the converted one with all the endpoints.\<close>

definition completed :: "cds_env \<Rightarrow> ClusterCR \<Rightarrow> Cluster \<Rightarrow> Cluster" where
  "completed env cl cds =
     (if cc_EndpointRefs cl = [] then cds else cds\<lparr>cl_LoadAssignment := Some (merged env cl cds)\<rparr>)"

lemma completed_endpoints: "own_endpoints (completed env cl cds) = own_endpoints cds @ referenced_endpoints env cl"
proof (cases "cc_EndpointRefs cl = []")
  case True
  then show ?thesis by (simp add: completed_def referenced_endpoints_def contributions_def)
next
  case False
  then show ?thesis by (simp add: completed_def own_endpoints_def [of "_\<lparr>cl_LoadAssignment := _\<rparr>"] merged_endpoints)
qed

lemma completed_same: "completed env cl cds = cds\<lparr>cl_LoadAssignment := cl_LoadAssignment (completed env cl cds)\<rparr>"
  by (simp add: completed_def)

lemma reconcile_cluster_ok:
  assumes "no_failure env cl"
  shows "\<exists>n refs. reconcile_cluster env cl cds r =
    (None, if waits env cl cds
           then updateClusterStatus cl False [] 0 [] ''Waiting for endpoint refs to be available''
                  (removeClusterFromAllNodes (om_Name cl) r)
           else updateClusterStatus cl True [cluster_nodeid (kr_Config r) cl] n refs []
                  (cds_config (put_cluster (cluster_nodeid (kr_Config r) cl) (completed env cl cds)) r))"
proof (cases "cc_EndpointRefs cl = []")
  case True
  then show ?thesis by (auto simp: reconcile_cluster_def Let_def waits_def completed_def)
next
  case refs: False
  let ?m = "merged env cl cds"
  let ?t = "lb_total (referenced_endpoints env cl)"
  let ?cds = "if cl_LoadAssignment cds = None then cds else cds\<lparr>cl_LoadAssignment := Some ?m\<rparr>"
  let ?found = "filter (ref_found env (om_Namespace cl)) (cc_EndpointRefs cl)"
  have own: "(case cl_LoadAssignment cds of None \<Rightarrow> False | Some la \<Rightarrow> cla_Endpoints la \<noteq> []) \<longleftrightarrow> own_endpoints cds \<noteq> []"
    by (simp add: own_endpoints_def split: option.split)
  note m = merge_ok [OF assms [unfolded no_failure_def] refs, of cds, unfolded Let_def]
  show ?thesis
  proof (cases "cla_Endpoints ?m = []")
    case True
    then have "own_endpoints cds = []" "referenced_endpoints env cl = []" by (simp_all add: merged_endpoints)
    then have w: "waits env cl cds" "own_endpoints cds = []" "?t = 0" using refs by (simp_all add: waits_def lb_total_def)
    show ?thesis using m refs w by (auto simp: reconcile_cluster_def Let_def own split: if_splits)
  next
    case False
    then have "mergeEndpointRefs env cl cds = Inr (Some ?m, ?found, ?t, ?cds)" using m by simp
    moreover have "?cds\<lparr>cl_LoadAssignment := Some ?m\<rparr> = completed env cl cds" using refs by (simp add: completed_def)
    ultimately show ?thesis using refs False by (auto simp: reconcile_cluster_def Let_def own waits_def)
  qed
qed

lemma reconcile_cluster_fails:
  assumes "\<not> no_failure env cl"
  shows "\<exists>e r'. reconcile_cluster env cl cds r = (Some e, r') \<and> clusters_of r' = clusters_of r"
proof -
  have "cc_EndpointRefs cl \<noteq> []" using assms by (auto simp: no_failure_def)
  moreover from this obtain e where "mergeEndpointRefs env cl cds = Inl e"
    using merge_fails [where cl = cl and env = env and cds = cds] assms by (auto simp: no_failure_def)
  ultimately show ?thesis by (simp add: reconcile_cluster_def Let_def)
qed

lemma reconcile_cluster_placed:
  assumes "one_home cl_Name (clusters_of r)" and "no_failure env cl" and "cl_Name cds = om_Name cl"
  shows "\<exists>r'. reconcile_cluster env cl cds r = (None, r') \<and> one_home cl_Name (clusters_of r') \<and> counted r r' \<and>
    (\<forall>n j. cluster_at r' n j =
       (if j = om_Name cl
        then if waits env cl cds \<or> n \<noteq> cluster_nodeid (kr_Config r) cl then None else Some (completed env cl cds)
        else cluster_at r n j))"
proof -
  let ?home = "cluster_nodeid (kr_Config r) cl"
  let ?waiting = "updateClusterStatus cl False [] 0 [] ''Waiting for endpoint refs to be available''
      (removeClusterFromAllNodes (om_Name cl) r)"
  from reconcile_cluster_ok [OF assms(2), of cds r] obtain n refs where eq: "reconcile_cluster env cl cds r =
      (None, if waits env cl cds then ?waiting
             else updateClusterStatus cl True [?home] n refs [] (cds_config (put_cluster ?home (completed env cl cds)) r))"
    by blast
  have name: "cl_Name (completed env cl cds) = om_Name cl" using assms(3) by (simp add: completed_def)
  have status: "cluster_at (updateClusterStatus cl a ns i refs' m r') = cluster_at r'"
    "counted r (updateClusterStatus cl a ns i refs' m r') \<longleftrightarrow> counted r r'" for a ns i refs' m r'
    by (simp_all add: cluster_at_def fun_eq_iff counted_def)
  show ?thesis
    unfolding eq using removeClusterFromAllNodes_spec [OF assms(1), of "om_Name cl"]
      put_cluster_spec [OF assms(1), of ?home "completed env cl cds"]
    by (cases "waits env cl cds") (simp_all add: status name)
qed

text \<open>What a request does to the store, in every case.\<close>

definition request_outcome :: "cds_env \<Rightarrow> nsname \<Rightarrow> ClusterReconciler \<Rightarrow> string option \<Rightarrow> ClusterReconciler \<Rightarrow> bool" where
  "request_outcome env req r res r' \<longleftrightarrow>
     (case Get_Cluster env req of
        GetError e \<Rightarrow> res = Some e \<and> clusters_of r' = clusters_of r
      | NotFound \<Rightarrow> res = None \<and> (\<forall>n k. cluster_at r' n k = (if k = snd req then None else cluster_at r n k))
      | Found cl \<Rightarrow>
          (case ClusterRecast env (cc_CDS cl) of
             Inl e \<Rightarrow> res = Some e \<and> clusters_of r' = clusters_of r
           | Inr c \<Rightarrow>
               if \<not> no_failure env cl then res \<noteq> None \<and> clusters_of r' = clusters_of r
               else res = None \<and> (\<forall>n k. cluster_at r' n k =
                 (if k = snd req
                  then if waits env cl c \<or> n \<noteq> cluster_nodeid (kr_Config r) cl then None
                       else Some (completed env cl (c\<lparr>cl_Name := snd req\<rparr>))
                  else cluster_at r n k))))"

lemma cluster_served:
  assumes "one_home cl_Name (clusters_of r)"
    and "\<And>cl. Get_Cluster env req = Found cl \<Longrightarrow> om_Name cl = snd req"
  shows "\<exists>res r'. ReconcileCluster env req r = Some (res, r') \<and> one_home cl_Name (clusters_of r') \<and>
    counted r r' \<and> request_outcome env req r res r'"
proof -
  let ?r = "(cds_in_status (SetHasClusters True) r)\<lparr>cds_reconciling := cds_reconciling r + 1\<rparr>"
  have r: "clusters_of ?r = clusters_of r" "counter_of ?r = counter_of r" "cluster_at ?r = cluster_at r"
    "cds_reconciling (cds_in_status (SetHasClusters True) r) = cds_reconciling r"
    by (simp_all add: cluster_at_def fun_eq_iff) (simp add: cds_in_status_def cds_config_def)
  have node: "cluster_nodeid (kr_Config ?r) cl = cluster_nodeid (kr_Config r) cl" for cl by simp
  have home: "one_home cl_Name (clusters_of ?r)" using assms(1) r by simp
  have counted: "counted r r' \<longleftrightarrow> counted ?r r'" for r' by (simp add: counted_def r)
  show ?thesis
  proof (cases "Get_Cluster env req")
    case NotFound
    from remove_cluster_spec [OF home, of "snd req"] obtain r' where
      "remove_cluster (snd req) ?r = Some r'" "one_home cl_Name (clusters_of r')" "counted ?r r'"
      "\<forall>n j. cluster_at r' n j = (if j = snd req then None else cluster_at ?r n j)" by blast
    then show ?thesis using NotFound by (simp add: ReconcileCluster_def Let_def request_outcome_def counted r)
  next
    case (GetError e)
    then show ?thesis using home by (simp add: ReconcileCluster_def Let_def request_outcome_def counted_def r)
  next
    case (Found cl)
    have name: "om_Name cl = snd req" by (rule assms(2) [OF Found])
    show ?thesis
    proof (cases "ClusterRecast env (cc_CDS cl)")
      case (Inl e)
      then show ?thesis using home Found by (simp add: ReconcileCluster_def Let_def request_outcome_def counted_def r)
    next
      case (Inr c)
      let ?c = "c\<lparr>cl_Name := snd req\<rparr>"
      have run: "ReconcileCluster env req r = Some (reconcile_cluster env cl ?c ?r)"
        using Found Inr name by (simp add: ReconcileCluster_def Let_def r)
      have w: "waits env cl ?c \<longleftrightarrow> waits env cl c" by (simp add: waits_def own_endpoints_def)
      show ?thesis
      proof (cases "no_failure env cl")
        case False
        from reconcile_cluster_fails [OF this, of ?c ?r] obtain e r' where
          "reconcile_cluster env cl ?c ?r = (Some e, r')" "clusters_of r' = clusters_of ?r" by blast
        then show ?thesis using run Found Inr False home by (simp add: request_outcome_def counted_def r)
      next
        case True
        have "cl_Name ?c = om_Name cl" using name by simp
        from reconcile_cluster_placed [OF home True this] show ?thesis
          unfolding run w node name r counted using Found Inr True by (auto simp: request_outcome_def)
      qed
    qed
  qed
qed

lemma watch_clusters_iff:
  "key \<in> set (watch_clusters ep cls) \<longleftrightarrow> (\<exists>cl\<in>set cls. ep \<in> set (cc_EndpointRefs cl) \<and> key = object_key cl)"
  by (induction cls) (auto simp: list_ex_iff)

lemma lb_total_zero: "lb_total es = 0 \<longleftrightarrow> (\<forall>e\<in>set es. lo_LbEndpoints e = [])"
  by (simp add: lb_total_def)

lemma contribution_counts:
  assumes "Get_Endpoint env (ns, ref) = Found ep" and "EndpointRecast env (ep_EDS ep) = Inr eds" and "ref \<in> set refs"
  shows "eds \<in> set (contributions env ns refs)"
  using assms by (force simp: contributions_def)

section \<open>Samples\<close>

definition sample_assignment :: ClusterLoadAssignment where
  "sample_assignment = \<lparr>cla_ClusterName = ''ep'', cla_Endpoints = [\<lparr>lo_LbEndpoints = [''a'', ''b''], lo_rest = []\<rparr>],
     cla_NamedEndpoints = [(''x'', ''1'')], cla_Policy = Some ''p'', cla_rest = []\<rparr>"

definition sample_endpoint :: EndpointCR where
  "sample_endpoint = \<lparr>om_Name = ''ep'', om_Namespace = ''ns'', om_CreationTimestamp = 1, om_Generation = 1,
     om_Annotations = [], ep_EDS = ''{}''\<rparr>"

definition sample_cluster :: ClusterCR where
  "sample_cluster = \<lparr>om_Name = ''db'', om_Namespace = ''ns'', om_CreationTimestamp = 1, om_Generation = 1,
     om_Annotations = [], cc_EndpointRefs = [''none'', ''ep''], cc_CDS = ''{}''\<rparr>"

definition plain_cluster :: Cluster where
  "plain_cluster = \<lparr>cl_Name = [], cl_Type = OtherDiscovery 1, cl_EdsClusterConfig = None, cl_LoadAssignment = None, cl_rest = []\<rparr>"

definition sample_cds_env :: cds_env where
  "sample_cds_env = \<lparr>Get_Cluster = (\<lambda>k. if k = (''ns'', ''db'') then Found sample_cluster else NotFound),
     Get_Endpoint = (\<lambda>k. if k = (''ns'', ''ep'') then Found sample_endpoint else NotFound),
     List_Clusters = (\<lambda>_. Inr [sample_cluster]), json_CDS = Inr, protojson_Cluster = (\<lambda>_. Inr plain_cluster),
     json_EDS = Inr, protojson_EDS = (\<lambda>_. Inr sample_assignment)\<rparr>"

definition fresh_cds :: ClusterReconciler where
  "fresh_cds = \<lparr>kr_Config = new_Config ''n'' ''c'', cds_reconciling = 0, cds_status_calls = [], cds_config_errors = []\<rparr>"

lemma sample_cds_facts:
  "one_home cl_Name (clusters_of fresh_cds)"
  "ClusterRecast sample_cds_env (cc_CDS sample_cluster) = Inr plain_cluster"
  "EndpointRecast sample_cds_env (ep_EDS sample_endpoint) = Inr sample_assignment"
  "no_failure sample_cds_env sample_cluster"
  "contributions sample_cds_env ''ns'' [''none'', ''ep''] = [sample_assignment]"
  "filter (ref_found sample_cds_env ''ns'') [''none'', ''ep''] = [''ep'']"
  by (simp_all add: fresh_cds_def clusters_of_def new_Config_def one_home_def unique_names_def lookup_def
      ClusterRecast_def EndpointRecast_def sample_cds_env_def no_failure_def ref_fails_def contributions_def ref_found_def
      sample_cluster_def)

section \<open>Properties\<close>

text \<open>C16. A request for a Cluster does not panic, keeps every cluster under at most one node id and touches no other
  cluster: a deleted resource leaves no entry, one that cannot be converted or whose references cannot be read
  changes nothing, one that waits for endpoints is withdrawn, and any other is stored, with its own endpoints and
  the referenced ones, under the node id of its annotations only. A change of the store is counted once.\<close>

theorem cluster_request_served:
  assumes "one_home cl_Name (clusters_of r)"
    and "\<And>cl. Get_Cluster env req = Found cl \<Longrightarrow> om_Name cl = snd req"
  shows "\<exists>res r'. ReconcileCluster env req r = Some (res, r') \<and> one_home cl_Name (clusters_of r') \<and>
    counted r r' \<and> request_outcome env req r res r'"
  using cluster_served [OF assms] by blast

theorem cluster_request_served_witness:
  "\<exists>r'. ReconcileCluster sample_cds_env (''ns'', ''db'') fresh_cds = Some (None, r') \<and>
     map_option own_endpoints (cluster_at r' (cluster_nodeid (kr_Config fresh_cds) sample_cluster) ''db'') =
       Some [\<lparr>lo_LbEndpoints = [''a'', ''b''], lo_rest = []\<rparr>]"
proof -
  have g: "Get_Cluster sample_cds_env (''ns'', ''db'') = Found sample_cluster" by (simp add: sample_cds_env_def)
  have n: "om_Name sample_cluster = ''db''" "om_Namespace sample_cluster = ''ns''"
    "cc_EndpointRefs sample_cluster = [''none'', ''ep'']" by (simp_all add: sample_cluster_def)
  have re: "referenced_endpoints sample_cds_env sample_cluster = [\<lparr>lo_LbEndpoints = [''a'', ''b''], lo_rest = []\<rparr>]"
    unfolding referenced_endpoints_def n sample_cds_facts by (simp add: sample_assignment_def)
  then have "\<not> waits sample_cds_env sample_cluster plain_cluster" by (simp add: waits_def lb_total_def)
  moreover have "own_endpoints (completed sample_cds_env sample_cluster (plain_cluster\<lparr>cl_Name := ''db''\<rparr>)) =
      [\<lparr>lo_LbEndpoints = [''a'', ''b''], lo_rest = []\<rparr>]"
    unfolding completed_endpoints re by (simp add: own_endpoints_def plain_cluster_def)
  ultimately show ?thesis
    using cluster_request_served [OF sample_cds_facts(1), of sample_cds_env "(''ns'', ''db'')"]
    by (auto simp: request_outcome_def g n sample_cds_facts)
qed

text \<open>C17. The merged load assignment is the inline one followed by what the references contribute: localities in the
  order of the references, the number of their endpoints, the named endpoints and the policy of the last one that
  has them. Absent resources and unconvertible ones are passed over; any other failure to read one fails.\<close>

theorem endpoints_are_merged:
  assumes "cc_EndpointRefs cl \<noteq> []" and "cs = contributions env (om_Namespace cl) (cc_EndpointRefs cl)"
    and "\<forall>c\<in>set cs. gmap_ok (cla_NamedEndpoints c)"
  shows "if list_ex (ref_fails env (om_Namespace cl)) (cc_EndpointRefs cl)
    then \<exists>e. mergeEndpointRefs env cl cds = Inl e
    else \<exists>m n cds'. mergeEndpointRefs env cl cds =
           Inr (m, filter (ref_found env (om_Namespace cl)) (cc_EndpointRefs cl), n, cds') \<and>
         (case m of
            None \<Rightarrow> n = 0 \<and> own_endpoints cds = [] \<and> concat (map cla_Endpoints cs) = []
          | Some la \<Rightarrow>
              cla_Endpoints la = own_endpoints cds @ concat (map cla_Endpoints cs) \<and>
              n = lb_total (concat (map cla_Endpoints cs)) \<and>
              cla_ClusterName la = cla_ClusterName (base_assignment cl cds) \<and>
              cla_Policy la = last_with cla_Policy cs (cla_Policy (base_assignment cl cds)) \<and>
              (\<forall>k. mget (cla_NamedEndpoints la) k = last_with (\<lambda>c. mget (cla_NamedEndpoints c) k) cs
                 (mget (cla_NamedEndpoints (base_assignment cl cds)) k)))"
proof (cases "list_ex (ref_fails env (om_Namespace cl)) (cc_EndpointRefs cl)")
  case True
  then show ?thesis using merge_fails [OF assms(1) True] by simp
next
  case False
  show ?thesis
    using merge_ok [OF False assms(1), of cds] assms(3) False
    by (auto simp: Let_def merged_def endpoints_merged base_endpoints referenced_endpoints_def policy_merged name_merged
        named_merged assms(2))
qed

theorem endpoints_are_merged_witness:
  "\<exists>la cds'. mergeEndpointRefs sample_cds_env sample_cluster plain_cluster = Inr (Some la, [''ep''], 2, cds') \<and>
     cla_Policy la = Some ''p'' \<and> mget (cla_NamedEndpoints la) ''x'' = Some ''1''"
proof -
  have n: "om_Namespace sample_cluster = ''ns''" "cc_EndpointRefs sample_cluster = [''none'', ''ep'']"
    "cc_EndpointRefs sample_cluster \<noteq> []" by (simp_all add: sample_cluster_def)
  have cs: "[sample_assignment] = contributions sample_cds_env (om_Namespace sample_cluster) (cc_EndpointRefs sample_cluster)"
    unfolding n(1,2) by (rule sample_cds_facts(5) [symmetric])
  have "gmap_ok (cla_NamedEndpoints sample_assignment)" by (simp add: sample_assignment_def gmap_ok_def)
  then have gm: "\<forall>c\<in>set [sample_assignment]. gmap_ok (cla_NamedEndpoints c)" by simp
  have ok: "list_ex (ref_fails sample_cds_env (om_Namespace sample_cluster)) (cc_EndpointRefs sample_cluster) = False"
    using sample_cds_facts(4) by (simp add: no_failure_def)
  from endpoints_are_merged [OF n(3) cs gm, of plain_cluster, unfolded ok if_False, unfolded n(1,2) sample_cds_facts(6)]
  obtain m i cds' where
    m: "mergeEndpointRefs sample_cds_env sample_cluster plain_cluster = Inr (m, [''ep''], i, cds')" and
    la: "case m of
       None \<Rightarrow> i = 0 \<and> own_endpoints plain_cluster = [] \<and> concat (map cla_Endpoints [sample_assignment]) = []
     | Some la \<Rightarrow> cla_Endpoints la = own_endpoints plain_cluster @ concat (map cla_Endpoints [sample_assignment]) \<and>
         i = lb_total (concat (map cla_Endpoints [sample_assignment])) \<and>
         cla_ClusterName la = cla_ClusterName (base_assignment sample_cluster plain_cluster) \<and>
         cla_Policy la = last_with cla_Policy [sample_assignment] (cla_Policy (base_assignment sample_cluster plain_cluster)) \<and>
         (\<forall>k. mget (cla_NamedEndpoints la) k = last_with (\<lambda>c. mget (cla_NamedEndpoints c) k) [sample_assignment]
            (mget (cla_NamedEndpoints (base_assignment sample_cluster plain_cluster)) k))"
    by blast
  have s: "concat (map cla_Endpoints [sample_assignment]) = [\<lparr>lo_LbEndpoints = [''a'', ''b''], lo_rest = []\<rparr>]"
    "cla_Policy sample_assignment = Some ''p''" "mget (cla_NamedEndpoints sample_assignment) ''x'' = Some ''1''"
    by (simp_all add: sample_assignment_def mget_def)
  show ?thesis
  proof (cases m)
    case None
    then show ?thesis using la s by simp
  next
    case (Some l)
    then have "i = 2" "cla_Policy l = Some ''p''" "mget (cla_NamedEndpoints l) ''x'' = Some ''1''"
      using la s by (simp_all add: lb_total_def last_with_def)
    then show ?thesis using m Some by blast
  qed
qed

text \<open>A cluster does not wait for ever: when an Endpoint resource it names arrives with endpoints, the watch asks for
  the cluster again, and that request puts it into the store with those endpoints.\<close>

theorem arriving_endpoint_places_cluster:
  assumes "one_home cl_Name (clusters_of r)"
    and "List_Clusters env (om_Namespace ep) = Inr cls" and "cl \<in> set cls" and "om_Namespace cl = om_Namespace ep"
    and "om_Name ep \<in> set (cc_EndpointRefs cl)"
    and "Get_Cluster env (object_key cl) = Found cl" and "ClusterRecast env (cc_CDS cl) = Inr c"
    and "Get_Endpoint env (object_key ep) = Found ep" and "EndpointRecast env (ep_EDS ep) = Inr eds"
    and "0 < lb_total (cla_Endpoints eds)" and "no_failure env cl"
  shows "object_key cl \<in> set (clusters_of_endpoint env ep) \<and>
    (\<exists>r' cds. ReconcileCluster env (object_key cl) r = Some (None, r') \<and>
       cluster_at r' (cluster_nodeid (kr_Config r) cl) (om_Name cl) = Some cds \<and>
       set (cla_Endpoints eds) \<subseteq> set (own_endpoints cds))"
proof
  show "object_key cl \<in> set (clusters_of_endpoint env ep)"
    using assms(2,3,5) by (auto simp: clusters_of_endpoint_def watch_clusters_iff)
  have "eds \<in> set (contributions env (om_Namespace cl) (cc_EndpointRefs cl))"
    by (rule contribution_counts) (use assms in \<open>simp_all add: object_key_def\<close>)
  then have sub: "set (cla_Endpoints eds) \<subseteq> set (referenced_endpoints env cl)"
    by (auto simp: referenced_endpoints_def)
  then have "\<not> waits env cl c"
    using assms(10) unfolding waits_def neq0_conv [symmetric] lb_total_zero by auto
  then show "\<exists>r' cds. ReconcileCluster env (object_key cl) r = Some (None, r') \<and>
      cluster_at r' (cluster_nodeid (kr_Config r) cl) (om_Name cl) = Some cds \<and>
      set (cla_Endpoints eds) \<subseteq> set (own_endpoints cds)"
    using cluster_served [OF assms(1), of env "object_key cl"] sub assms(6,7,11)
    by (auto simp: request_outcome_def object_key_def completed_endpoints)
qed

theorem arriving_endpoint_places_cluster_witness:
  "(''ns'', ''db'') \<in> set (clusters_of_endpoint sample_cds_env sample_endpoint) \<and>
   (\<exists>r' cds. ReconcileCluster sample_cds_env (''ns'', ''db'') fresh_cds = Some (None, r') \<and>
      cluster_at r' (cluster_nodeid (kr_Config fresh_cds) sample_cluster) ''db'' = Some cds \<and>
      \<lparr>lo_LbEndpoints = [''a'', ''b''], lo_rest = []\<rparr> \<in> set (own_endpoints cds))"
proof -
  have "object_key sample_cluster = (''ns'', ''db'')" "om_Name sample_cluster = ''db''"
    "cla_Endpoints sample_assignment = [\<lparr>lo_LbEndpoints = [''a'', ''b''], lo_rest = []\<rparr>]"
    by (simp_all add: object_key_def sample_cluster_def sample_assignment_def)
  moreover have "0 < lb_total (cla_Endpoints sample_assignment)" by (simp add: sample_assignment_def lb_total_def)
  moreover have "List_Clusters sample_cds_env (om_Namespace sample_endpoint) = Inr [sample_cluster]"
    "om_Namespace sample_cluster = om_Namespace sample_endpoint" "om_Name sample_endpoint \<in> set (cc_EndpointRefs sample_cluster)"
    "Get_Cluster sample_cds_env (object_key sample_cluster) = Found sample_cluster"
    "Get_Endpoint sample_cds_env (object_key sample_endpoint) = Found sample_endpoint"
    by (simp_all add: sample_cds_env_def sample_endpoint_def sample_cluster_def object_key_def)
  ultimately show ?thesis
    using arriving_endpoint_places_cluster [OF sample_cds_facts(1), of sample_cds_env sample_endpoint "[sample_cluster]"
        sample_cluster plain_cluster sample_assignment] sample_cds_facts by auto
qed

end
