(* ===== verification/Eds.thy ===== *)
theory Eds
  imports Rds Homes
begin

text \<open>
  The endpoint controller, \<open>src/controllers/eds/endpoint_controller.go\<close>: the handler that keeps the
  load assignment of every Endpoint resource at one node id. Arguments (\<open>env\<close>): the Kubernetes API,
  \<open>json.Marshal\<close> of the generated type and \<open>protojson.Unmarshal\<close>. The slice that comes out of
  \<open>protojson\<close> has no nil localities. \<open>None\<close> as the outcome of the handler: it panics.
\<close>

section \<open>State\<close>

record eds_env =
  Get_Endpoint :: "nsname \<Rightarrow> EndpointCR get"
  json_EDS :: "string \<Rightarrow> string + string"
  protojson_EDS :: "string \<Rightarrow> string + ClusterLoadAssignment"

record eds_status =
  es_name :: nsname
  es_active :: bool
  es_nodes :: "string list"
  es_count :: nat
  es_message :: string

record EndpointReconciler =
  er_Config :: Config
  eds_reconciling :: int
  eds_status_calls :: "eds_status list"
  eds_config_errors :: "(string \<times> string) list"

section \<open>The handler\<close>

definition EndpointRecast :: "eds_env \<Rightarrow> string \<Rightarrow> string + ClusterLoadAssignment" where
  "EndpointRecast env e =
     (case json_EDS env e of
        Inl err \<Rightarrow> Inl (''JSON marshaling failed: '' @ err)
      | Inr edsData \<Rightarrow>
          (case protojson_EDS env edsData of
             Inl err \<Rightarrow> Inl (''proto unmarshaling failed: '' @ err)
           | Inr cla \<Rightarrow> Inr cla))"

definition countEndpoints :: "ClusterLoadAssignment option \<Rightarrow> nat" where
  "countEndpoints cla =
     (case cla of
        None \<Rightarrow> 0
      | Some cla \<Rightarrow> foldl (\<lambda>cnt locality. cnt + length (lo_LbEndpoints locality)) 0 (cla_Endpoints cla))"

definition updateEndpointStatus ::
  "EndpointCR \<Rightarrow> bool \<Rightarrow> string list \<Rightarrow> nat \<Rightarrow> string \<Rightarrow> EndpointReconciler \<Rightarrow> EndpointReconciler" where
  "updateEndpointStatus ep active nodes cnt msg r =
     r\<lparr>eds_status_calls := eds_status_calls r @
        [\<lparr>es_name = object_key ep, es_active = active, es_nodes = nodes, es_count = cnt, es_message = msg\<rparr>]\<rparr>"

definition eds_config :: "(Config \<Rightarrow> Config) \<Rightarrow> EndpointReconciler \<Rightarrow> EndpointReconciler" where
  "eds_config f r = r\<lparr>er_Config := f (er_Config r)\<rparr>"

definition eds_in_status ::
  "(ReconciliationStatus \<Rightarrow> ReconciliationStatus) \<Rightarrow> EndpointReconciler \<Rightarrow> EndpointReconciler" where
  "eds_in_status f r = eds_config (\<lambda>c. c\<lparr>reconciliationStatus := f (reconciliationStatus c)\<rparr>) r"

definition endpoint_nodeid :: "Config \<Rightarrow> EndpointCR \<Rightarrow> string" where
  "endpoint_nodeid c ep = GetNodeID (with_defaults c (om_Annotations ep))"

definition named_assignment :: "EndpointCR \<Rightarrow> ClusterLoadAssignment \<Rightarrow> ClusterLoadAssignment" where
  "named_assignment ep eds = (if cla_ClusterName eds = [] then eds\<lparr>cla_ClusterName := om_Name ep\<rparr> else eds)"

definition remove_endpoint :: "string \<Rightarrow> EndpointReconciler \<Rightarrow> EndpointReconciler option" where
  "remove_endpoint k r =
     map_option (\<lambda>(s, n). eds_config (\<lambda>c. (IncrementConfigCounter ^^ n) (c\<lparr>EndpointConfigs := s\<rparr>)) r)
       (delete_home cla_ClusterName k (mkeys (EndpointConfigs (er_Config r))) (EndpointConfigs (er_Config r)))"

definition put_endpoint :: "string \<Rightarrow> ClusterLoadAssignment \<Rightarrow> Config \<Rightarrow> Config" where
  "put_endpoint nodeid eds c =
     IncrementConfigCounter (c\<lparr>EndpointConfigs := upsert cla_ClusterName nodeid eds (EndpointConfigs c)\<rparr>)"

definition reconcile_endpoint ::
  "eds_env \<Rightarrow> EndpointCR \<Rightarrow> EndpointReconciler \<Rightarrow> string option \<times> EndpointReconciler" where
  "reconcile_endpoint env ep r =
     (let nodeid = endpoint_nodeid (er_Config r) ep in
      case EndpointRecast env (ep_EDS ep) of
        Inl err \<Rightarrow>
          (Some err, updateEndpointStatus ep False [] 0 err
            (r\<lparr>eds_config_errors := eds_config_errors r @ [(om_Name ep, err)]\<rparr>))
      | Inr eds \<Rightarrow>
          let eds = named_assignment ep eds; endpointCount = countEndpoints (Some eds) in
          (None, updateEndpointStatus ep True [nodeid] endpointCount [] (eds_config (put_endpoint nodeid eds) r)))"

definition ReconcileEndpoint ::
  "eds_env \<Rightarrow> nsname \<Rightarrow> EndpointReconciler \<Rightarrow> (string option \<times> EndpointReconciler) option" where
  "ReconcileEndpoint env req r =
     (let r = eds_in_status (SetHasEndpoints True) r;
          r = r\<lparr>eds_reconciling := eds_reconciling r + 1\<rparr>
      in case Get_Endpoint env req of
           GetError e \<Rightarrow> Some (Some e, r)
         | NotFound \<Rightarrow> map_option (Pair None) (remove_endpoint (snd req) r)
         | Found ep \<Rightarrow> Some (reconcile_endpoint env ep r))"

text \<open>The deferred part of the handler's goroutine, and the runnable that runs after the cache has synced.\<close>

definition endpoint_done :: "EndpointReconciler \<Rightarrow> EndpointReconciler" where
  "endpoint_done r =
     (let r = r\<lparr>eds_reconciling := eds_reconciling r - 1\<rparr>
      in if eds_reconciling r = 0 then eds_in_status (SetEndpointsReconciled True) r else r)"

definition initialize_endpoints :: "nat \<Rightarrow> EndpointReconciler \<Rightarrow> EndpointReconciler" where
  "initialize_endpoints found r =
     (let r = (if 0 < found then eds_in_status (SetHasEndpoints True) r else r)
      in eds_in_status (SetEndpointsInitialized True) r)"

section \<open>Facts\<close>

interpretation endpoints: single_home cla_ClusterName "upsert cla_ClusterName"
    "\<lambda>k s. delete_home cla_ClusterName k (mkeys s) s"
  by (rule single_home_named)

definition assignments :: "EndpointReconciler \<Rightarrow> ClusterLoadAssignment store" where
  "assignments r = EndpointConfigs (er_Config r)"

definition assignment_at :: "EndpointReconciler \<Rightarrow> string \<Rightarrow> string \<Rightarrow> ClusterLoadAssignment option" where
  "assignment_at r node k = lookup cla_ClusterName (assignments r) node k"

lemma IncrementConfigCounter_stores [simp]:
  "EndpointConfigs ((IncrementConfigCounter ^^ n) c) = EndpointConfigs c"
  "ClusterConfigs ((IncrementConfigCounter ^^ n) c) = ClusterConfigs c"
  "configChangeCounter ((IncrementConfigCounter ^^ n) c) = configChangeCounter c + of_nat n"
  by (induction n) (simp_all add: IncrementConfigCounter_def)

lemma eds_config_simps [simp]:
  "er_Config (eds_config f r) = f (er_Config r)"
  "er_Config (updateEndpointStatus ep a ns n m r) = er_Config r"
  "assignments (updateEndpointStatus ep a ns n m r) = assignments r"
  "er_Config (eds_in_status g r) = (er_Config r)\<lparr>reconciliationStatus := g (reconciliationStatus (er_Config r))\<rparr>"
  by (simp_all add: eds_config_def eds_in_status_def updateEndpointStatus_def assignments_def)

lemma assignments_simps [simp]:
  "assignments (eds_in_status g r) = assignments r"
  "assignments (r\<lparr>eds_reconciling := n\<rparr>) = assignments r"
  "assignments (eds_config (put_endpoint node eds) r) = upsert cla_ClusterName node eds (assignments r)"
  by (simp_all add: assignments_def put_endpoint_def IncrementConfigCounter_def)

lemma endpoint_nodeid_status [simp]:
  "endpoint_nodeid (c\<lparr>reconciliationStatus := x\<rparr>) ep = endpoint_nodeid c ep"
  by (simp add: endpoint_nodeid_def with_defaults_def)

lemma remove_endpoint_spec:
  assumes "one_home cla_ClusterName (assignments r)"
  shows "\<exists>r'. remove_endpoint k r = Some r' \<and> one_home cla_ClusterName (assignments r') \<and>
    (\<forall>n j. assignment_at r' n j = (if j = k then None else assignment_at r n j)) \<and>
    (assignments r' \<noteq> assignments r \<longrightarrow>
       configChangeCounter (er_Config r') = configChangeCounter (er_Config r) + 1) \<and>
    eds_status_calls r' = eds_status_calls r"
proof -
  from endpoints.del_at [OF assms, of k] obtain s c where
    s: "delete_home cla_ClusterName k (mkeys (assignments r)) (assignments r) = Some (s, c)"
    "\<forall>n j. lookup cla_ClusterName s n j = (if j = k then None else lookup cla_ClusterName (assignments r) n j)"
    "one_home cla_ClusterName s" "s \<noteq> assignments r \<longrightarrow> c = 1" by blast
  let ?r = "eds_config (\<lambda>c'. (IncrementConfigCounter ^^ c) (c'\<lparr>EndpointConfigs := s\<rparr>)) r"
  have "remove_endpoint k r = Some ?r" using s(1) by (simp add: remove_endpoint_def assignments_def)
  moreover have "assignments ?r = s" by (simp add: assignments_def)
  ultimately show ?thesis
    using s(2,3,4) by (simp add: assignment_at_def eds_config_def IncrementConfigCounter_def)
qed

lemma endpoint_served:
  assumes "one_home cla_ClusterName (assignments r)"
  shows "\<exists>res r'. ReconcileEndpoint env req r = Some (res, r') \<and> one_home cla_ClusterName (assignments r') \<and>
    (assignments r' \<noteq> assignments r \<longrightarrow>
       configChangeCounter (er_Config r') = configChangeCounter (er_Config r) + 1) \<and>
    (case Get_Endpoint env req of
       GetError e \<Rightarrow> res = Some e \<and> assignments r' = assignments r
     | NotFound \<Rightarrow> res = None \<and>
         (\<forall>n k. assignment_at r' n k = (if k = snd req then None else assignment_at r n k))
     | Found ep \<Rightarrow>
         (case EndpointRecast env (ep_EDS ep) of
            Inl err \<Rightarrow> res = Some err \<and> assignments r' = assignments r
          | Inr eds \<Rightarrow> res = None \<and> (\<forall>n k. assignment_at r' n k =
              (if k = cla_ClusterName (named_assignment ep eds)
               then if n = endpoint_nodeid (er_Config r) ep then Some (named_assignment ep eds) else None
               else assignment_at r n k))))"
proof -
  let ?r = "(eds_in_status (SetHasEndpoints True) r)\<lparr>eds_reconciling := eds_reconciling r + 1\<rparr>"
  have r: "eds_reconciling (eds_in_status (SetHasEndpoints True) r) = eds_reconciling r"
    "assignments ?r = assignments r" "configChangeCounter (er_Config ?r) = configChangeCounter (er_Config r)"
    "assignment_at ?r = assignment_at r" "endpoint_nodeid (er_Config ?r) = endpoint_nodeid (er_Config r)"
    by (simp_all add: eds_in_status_def eds_config_def fun_eq_iff assignment_at_def assignments_def)
  show ?thesis
  proof (cases "Get_Endpoint env req")
    case NotFound
    from remove_endpoint_spec [of ?r "snd req"] assms obtain r' where
      "remove_endpoint (snd req) ?r = Some r'" "one_home cla_ClusterName (assignments r')"
      "\<forall>n j. assignment_at r' n j = (if j = snd req then None else assignment_at ?r n j)"
      "assignments r' \<noteq> assignments ?r \<longrightarrow>
         configChangeCounter (er_Config r') = configChangeCounter (er_Config ?r) + 1" by (auto simp: r)
    then show ?thesis using NotFound r by (simp add: ReconcileEndpoint_def Let_def)
  next
    case (GetError e)
    then show ?thesis using assms r by (simp add: ReconcileEndpoint_def Let_def)
  next
    case (Found ep)
    let ?home = "endpoint_nodeid (er_Config r) ep"
    show ?thesis
    proof (cases "EndpointRecast env (ep_EDS ep)")
      case (Inl err)
      then show ?thesis
        using Found assms r by (simp add: ReconcileEndpoint_def Let_def reconcile_endpoint_def assignments_def)
    next
      case (Inr eds)
      let ?eds = "named_assignment ep eds"
      let ?r' = "updateEndpointStatus ep True [?home] (countEndpoints (Some ?eds)) []
          (eds_config (put_endpoint ?home ?eds) ?r)"
      have run: "ReconcileEndpoint env req r = Some (None, ?r')"
        using Found Inr r by (simp add: ReconcileEndpoint_def Let_def reconcile_endpoint_def)
      have s: "assignments ?r' = upsert cla_ClusterName ?home ?eds (assignments r)" using r by simp
      have "configChangeCounter (er_Config ?r') = configChangeCounter (er_Config r) + 1"
        using r by (simp add: put_endpoint_def IncrementConfigCounter_def)
      moreover have "one_home cla_ClusterName (assignments ?r')" unfolding s by (rule endpoints.put_home [OF assms])
      moreover have "assignment_at ?r' n k =
          (if k = cla_ClusterName ?eds then if n = ?home then Some ?eds else None else assignment_at r n k)" for n k
        unfolding assignment_at_def s by (rule endpoints.put_at [OF assms])
      ultimately show ?thesis using run Found Inr by simp
    qed
  qed
qed

section \<open>Properties\<close>

text \<open>C36. A request for an Endpoint does not panic and, in a store with every load assignment under at most one node id,
  keeps it that way: a read that fails and a resource whose conversion fails change nothing and are returned as
  errors, a deleted resource takes the assignment of its own name away (whatever name it was stored under), and any
  other one is stored under the node id of its annotations and nowhere else. The other assignments are
  untouched, and a change is counted once for the snapshot loop.\<close>

theorem endpoint_request_served:
  assumes "one_home cla_ClusterName (assignments r)"
  shows "\<exists>res r'. ReconcileEndpoint env req r = Some (res, r') \<and> one_home cla_ClusterName (assignments r') \<and>
    (assignments r' \<noteq> assignments r \<longrightarrow>
       configChangeCounter (er_Config r') = configChangeCounter (er_Config r) + 1) \<and>
    (case Get_Endpoint env req of
       GetError e \<Rightarrow> res = Some e \<and> assignments r' = assignments r
     | NotFound \<Rightarrow> res = None \<and>
         (\<forall>n k. assignment_at r' n k = (if k = snd req then None else assignment_at r n k))
     | Found ep \<Rightarrow>
         (case EndpointRecast env (ep_EDS ep) of
            Inl err \<Rightarrow> res = Some err \<and> assignments r' = assignments r
          | Inr eds \<Rightarrow> res = None \<and> (\<forall>n k. assignment_at r' n k =
              (if k = cla_ClusterName (named_assignment ep eds)
               then if n = endpoint_nodeid (er_Config r) ep then Some (named_assignment ep eds) else None
               else assignment_at r n k))))"
  by (rule endpoint_served [OF assms])

definition sample_endpoint :: EndpointCR where
  "sample_endpoint = \<lparr>om_Name = ''ep'', om_Namespace = ''ns'', om_CreationTimestamp = 1, om_Generation = 1,
     om_Annotations = [], ep_EDS = ''{}''\<rparr>"

definition sample_assignment :: "string \<Rightarrow> ClusterLoadAssignment" where
  "sample_assignment k = \<lparr>cla_ClusterName = k, cla_Endpoints = [\<lparr>lo_LbEndpoints = [''a'', ''b''], lo_rest = []\<rparr>],
     cla_NamedEndpoints = [], cla_Policy = None, cla_rest = []\<rparr>"

definition sample_eds_env :: "EndpointCR get \<Rightarrow> string \<Rightarrow> eds_env" where
  "sample_eds_env found k = \<lparr>Get_Endpoint = (\<lambda>_. found), json_EDS = Inr,
     protojson_EDS = (\<lambda>_. Inr (sample_assignment k))\<rparr>"

definition fresh_eds :: EndpointReconciler where
  "fresh_eds = \<lparr>er_Config = new_Config ''n'' ''c'', eds_reconciling = 0, eds_status_calls = [], eds_config_errors = []\<rparr>"

lemma sample_eds_facts:
  "EndpointRecast (sample_eds_env found k) (ep_EDS sample_endpoint) = Inr (sample_assignment k)"
  "one_home cla_ClusterName (assignments fresh_eds)"
  by (simp_all add: EndpointRecast_def sample_eds_env_def fresh_eds_def assignments_def new_Config_def one_home_def
      unique_names_def lookup_def)

theorem endpoint_request_served_witness:
  "\<exists>r'. ReconcileEndpoint (sample_eds_env (Found sample_endpoint) []) (''ns'', ''ep'') fresh_eds = Some (None, r') \<and>
     assignment_at r' (endpoint_nodeid (er_Config fresh_eds) sample_endpoint) ''ep'' = Some (sample_assignment ''ep'')"
proof -
  have "Get_Endpoint (sample_eds_env (Found sample_endpoint) []) (''ns'', ''ep'') = Found sample_endpoint"
    by (simp add: sample_eds_env_def)
  moreover have "named_assignment sample_endpoint (sample_assignment []) = sample_assignment ''ep''"
    "cla_ClusterName (sample_assignment ''ep'') = ''ep''"
    by (simp_all add: named_assignment_def sample_assignment_def sample_endpoint_def)
  ultimately show ?thesis
    using endpoint_request_served [OF sample_eds_facts(2), of "sample_eds_env (Found sample_endpoint) []" "(''ns'', ''ep'')"]
    by (auto simp: sample_eds_facts)
qed

text \<open>Deletion goes by the name of the resource, storing by the cluster name in it: the load assignment of an
  Endpoint with an explicit cluster name is served on after the resource has been deleted.\<close>

theorem explicit_name_survives_deletion:
  assumes "one_home cla_ClusterName (assignments r)"
    and "Get_Endpoint env req = Found ep" and "EndpointRecast env (ep_EDS ep) = Inr eds"
    and "cla_ClusterName eds \<noteq> []" and "cla_ClusterName eds \<noteq> snd req"
    and "ReconcileEndpoint env req r = Some (res, r1)"
    and "Get_Endpoint env' req = NotFound" and "ReconcileEndpoint env' req r1 = Some (res', r2)"
  shows "assignment_at r2 (endpoint_nodeid (er_Config r) ep) (cla_ClusterName eds) = Some eds"
proof -
  have n: "named_assignment ep eds = eds" using assms(4) by (simp add: named_assignment_def)
  from endpoint_served [OF assms(1), of env req] assms(2,3,6) have
    "one_home cla_ClusterName (assignments r1)"
    and 1: "assignment_at r1 (endpoint_nodeid (er_Config r) ep) (cla_ClusterName eds) = Some eds"
    by (auto simp: n)
  from endpoint_served [OF this(1), of env' req] assms(7,8)
  have "assignment_at r2 n k = (if k = snd req then None else assignment_at r1 n k)" for n k by auto
  then show ?thesis using 1 assms(5) by simp
qed

theorem explicit_name_survives_deletion_witness:
  "\<exists>res r1 res' r2. ReconcileEndpoint (sample_eds_env (Found sample_endpoint) ''db'') (''ns'', ''ep'') fresh_eds = Some (res, r1) \<and>
     ReconcileEndpoint (sample_eds_env NotFound ''db'') (''ns'', ''ep'') r1 = Some (res', r2) \<and>
     assignment_at r2 (endpoint_nodeid (er_Config fresh_eds) sample_endpoint) ''db'' = Some (sample_assignment ''db'')"
proof -
  let ?env = "sample_eds_env (Found sample_endpoint) ''db''"
  let ?env' = "sample_eds_env NotFound ''db''"
  obtain res r1 where r1: "ReconcileEndpoint ?env (''ns'', ''ep'') fresh_eds = Some (res, r1)"
    "one_home cla_ClusterName (assignments r1)"
    using endpoint_served [OF sample_eds_facts(2), of ?env "(''ns'', ''ep'')"] by blast
  obtain res' r2 where r2: "ReconcileEndpoint ?env' (''ns'', ''ep'') r1 = Some (res', r2)"
    using endpoint_served [OF r1(2), of ?env' "(''ns'', ''ep'')"] by blast
  have n: "cla_ClusterName (sample_assignment ''db'') = ''db''" by (simp add: sample_assignment_def)
  have g: "Get_Endpoint ?env (''ns'', ''ep'') = Found sample_endpoint" "Get_Endpoint ?env' (''ns'', ''ep'') = NotFound"
    by (simp_all add: sample_eds_env_def)
  have "assignment_at r2 (endpoint_nodeid (er_Config fresh_eds) sample_endpoint) (cla_ClusterName (sample_assignment ''db'')) =
      Some (sample_assignment ''db'')"
    by (rule explicit_name_survives_deletion [OF sample_eds_facts(2) g(1) sample_eds_facts(1) _ _ r1(1) g(2) r2])
      (simp_all add: n)
  then show ?thesis using r1 r2 n by auto
qed

end
