(* ===== verification/Leader.thy ===== *)
theory Leader
  imports Rds
begin

text \<open>
  Leader election, \<open>src/pkg/leader/leader.go\<close>: the tick of the election loop, the release of
  leadership, and the managers of several replicas working on one lease. The lease API of Kubernetes
  is a parameter: a read gives the lease, its absence or an error, a write succeeds or fails. What the
  system of replicas relies on of it is documented behaviour: a create succeeds only when there is no
  lease, an update only with the current resource version, and each gives a new version. A time is a
  number of microseconds, the precision a lease keeps.
\<close>

section \<open>State\<close>

record Lease =
  HolderIdentity :: "string option"
  RenewTime :: "int option"
  LeaseDurationSeconds :: "int option"
  resourceVersion :: nat

text \<open>\<open>calls\<close>: the calls of \<open>onLeadershipChange\<close>; the flag says that the channel is closed.\<close>

record Manager =
  nodeIdentifier :: string
  LeaseDuration :: int
  isLeader :: bool
  calls :: "bool list"
  initialElectionDone :: bool
  stopped :: bool

definition int32 :: "int \<Rightarrow> int" where
  "int32 x = (x + 2 ^ 31) mod 2 ^ 32 - 2 ^ 31"

definition seconds :: "int \<Rightarrow> int" where
  "seconds d = d * 1000000"

text \<open>The arguments of \<open>NewManager\<close>: the lease duration of the configuration (nil: \<open>None\<close>), the error of
  making the client, \<open>POD_NAME\<close> and the result of \<open>os.Hostname\<close>. The namespace only names the lease.\<close>

definition getNodeIdentifier :: "string \<Rightarrow> string + string \<Rightarrow> string + string" where
  "getNodeIdentifier podName hostname =
     (if podName \<noteq> [] then Inr podName
      else (case hostname of
              Inl e \<Rightarrow> Inl (''failed to get hostname: '' @ e)
            | Inr h \<Rightarrow> Inr h))"

definition NewManager :: "int option \<Rightarrow> string option \<Rightarrow> string \<Rightarrow> string + string \<Rightarrow> string + Manager" where
  "NewManager config clientset podName hostname =
     (case config of
        None \<Rightarrow> Inl ''config cannot be nil''
      | Some d \<Rightarrow>
          (case clientset of
             Some e \<Rightarrow> Inl (''failed to create kubernetes clientset: '' @ e)
           | None \<Rightarrow>
               (case getNodeIdentifier podName hostname of
                  Inl e \<Rightarrow> Inl (''failed to get node identifier: '' @ e)
                | Inr n \<Rightarrow> Inr \<lparr>nodeIdentifier = n, LeaseDuration = d, isLeader = False, calls = [],
                                 initialElectionDone = False, stopped = False\<rparr>)))"

definition setLeaderStatus :: "bool \<Rightarrow> Manager \<Rightarrow> Manager" where
  "setLeaderStatus b m = (if isLeader m \<noteq> b then m\<lparr>isLeader := b, calls := calls m @ [b]\<rparr> else m)"

section \<open>The tick\<close>

text \<open>What a tick decides from the lease it has read: a write, a step down, or nothing. \<open>Panic\<close>: the nil
  duration of a lease with a renew time is dereferenced.\<close>

datatype decision =
    Create Lease
  | Renew Lease
  | Take Lease
  | StepDown
  | Wait
  | Panic

definition leaseExpired :: "int \<Rightarrow> Lease \<Rightarrow> bool option" where
  "leaseExpired now l =
     (case RenewTime l of
        None \<Rightarrow> Some True
      | Some t \<Rightarrow> map_option (\<lambda>d. now - t > seconds d) (LeaseDurationSeconds l))"

definition decide :: "int \<Rightarrow> Lease get \<Rightarrow> Manager \<Rightarrow> decision" where
  "decide now got m =
     (case got of
        NotFound \<Rightarrow>
          Create \<lparr>HolderIdentity = Some (nodeIdentifier m), RenewTime = Some now,
                  LeaseDurationSeconds = Some (int32 (LeaseDuration m div 1000000)), resourceVersion = 0\<rparr>
      | GetError e \<Rightarrow> Wait
      | Found l \<Rightarrow>
          (case leaseExpired now l of
             None \<Rightarrow> Panic
           | Some expired \<Rightarrow>
               if HolderIdentity l = Some (nodeIdentifier m) then Renew (l\<lparr>RenewTime := Some now\<rparr>)
               else if expired then Take (l\<lparr>HolderIdentity := Some (nodeIdentifier m), RenewTime := Some now\<rparr>)
               else if isLeader m then StepDown
               else Wait))"

text \<open>The rest of the tick, given whether the write went through.\<close>

definition conclude :: "decision \<Rightarrow> bool \<Rightarrow> Manager \<Rightarrow> Manager" where
  "conclude d ok m =
     (let m' = (case d of
                  Create l \<Rightarrow> if ok then setLeaderStatus True m else m
                | Renew l \<Rightarrow> setLeaderStatus ok m
                | Take l \<Rightarrow> if ok then setLeaderStatus True m else m
                | StepDown \<Rightarrow> setLeaderStatus False m
                | Wait \<Rightarrow> m
                | Panic \<Rightarrow> m)
      in m'\<lparr>initialElectionDone := True\<rparr>)"

definition tick :: "int \<Rightarrow> Lease get \<Rightarrow> (decision \<Rightarrow> bool) \<Rightarrow> Manager \<Rightarrow> Manager option" where
  "tick now got write m = (let d = decide now got m in if d = Panic then None else Some (conclude d (write d) m))"

section \<open>Release\<close>

datatype release = Released Manager | ReleaseFailed string | Delete Lease

datatype deletion = Deleted | AlreadyDeleted | DeleteFailed string

definition begin_release :: "Lease get \<Rightarrow> Manager \<Rightarrow> release" where
  "begin_release got m =
     (if \<not> isLeader m then Released m
      else (case got of
              NotFound \<Rightarrow> Released (setLeaderStatus False m)
            | GetError e \<Rightarrow> ReleaseFailed (''failed to get lease for release: '' @ e)
            | Found l \<Rightarrow>
                if HolderIdentity l \<noteq> Some (nodeIdentifier m) then Released (setLeaderStatus False m)
                else Delete l))"

text \<open>A lease that cannot be deleted is written with a renew time in the past. \<open>None\<close>: no duration.\<close>

definition expired_lease :: "int \<Rightarrow> Lease \<Rightarrow> Lease option" where
  "expired_lease now l =
     map_option (\<lambda>d. l\<lparr>RenewTime := Some (now - seconds (int32 (d + 1)))\<rparr>) (LeaseDurationSeconds l)"

definition ReleaseLeadership ::
  "int \<Rightarrow> Lease get \<Rightarrow> deletion \<Rightarrow> (Lease \<Rightarrow> string option) \<Rightarrow> Manager \<Rightarrow> (string option \<times> Manager) option" where
  "ReleaseLeadership now got deleted update m =
     (case begin_release got m of
        Released m \<Rightarrow> Some (None, m)
      | ReleaseFailed e \<Rightarrow> Some (Some e, m)
      | Delete l \<Rightarrow>
          (case deleted of
             DeleteFailed e \<Rightarrow>
               (case expired_lease now l of
                  None \<Rightarrow> None
                | Some l \<Rightarrow>
                    (case update l of
                       Some e \<Rightarrow> Some (Some (''failed to expire lease: '' @ e), m)
                     | None \<Rightarrow> Some (None, setLeaderStatus False m)))
           | _ \<Rightarrow> Some (None, setLeaderStatus False m)))"

text \<open>Closing the stop channel ends the loop; closing it twice panics.\<close>

definition Stop :: "Manager \<Rightarrow> Manager option" where
  "Stop m = (if stopped m then None else Some (m\<lparr>stopped := True\<rparr>))"

definition StopAndRelease ::
  "int \<Rightarrow> Lease get \<Rightarrow> deletion \<Rightarrow> (Lease \<Rightarrow> string option) \<Rightarrow> Manager \<Rightarrow> Manager option" where
  "StopAndRelease now got deleted update m =
     (case ReleaseLeadership now got deleted update m of
        None \<Rightarrow> None
      | Some (e, m) \<Rightarrow> Stop m)"

section \<open>One tick\<close>

text \<open>The lease after a write that goes through, for the manager that made it.\<close>

fun written :: "Lease get \<Rightarrow> decision \<Rightarrow> Lease option" where
  "written got (Create l) = Some l"
| "written got (Renew l) = Some l"
| "written got (Take l) = Some l"
| "written (Found l) d = Some l"
| "written got d = None"

text \<open>The callback of the application: the calls, applied to the shared configuration.\<close>

definition leader_config :: "Manager \<Rightarrow> Config \<Rightarrow> Config" where
  "leader_config m c = foldl (\<lambda>c b. SetLeaderStatus b c) c (calls m)"

lemma leader_config_follows:
  assumes "IsLeaderInstance (leader_config m c) = isLeader m"
  shows "IsLeaderInstance (leader_config (setLeaderStatus b m) c) = isLeader (setLeaderStatus b m)"
  using assms by (simp add: setLeaderStatus_def leader_config_def IsLeaderInstance_def SetLeaderStatus_def Let_def)

lemma isLeader_setLeaderStatus [simp]:
  "isLeader (setLeaderStatus b m) = b" "nodeIdentifier (setLeaderStatus b m) = nodeIdentifier m"
  "LeaseDuration (setLeaderStatus b m) = LeaseDuration m"
  by (simp_all add: setLeaderStatus_def)

lemma conclude_simps [simp]:
  "nodeIdentifier (conclude d ok m) = nodeIdentifier m" "LeaseDuration (conclude d ok m) = LeaseDuration m"
  by (simp_all add: conclude_def Let_def split: decision.split)

lemma leader_config_done [simp]: "leader_config (m\<lparr>initialElectionDone := b\<rparr>) = leader_config m"
  by (simp add: leader_config_def fun_eq_iff)

lemma leader_config_conclude:
  assumes "IsLeaderInstance (leader_config m c) = isLeader m"
  shows "IsLeaderInstance (leader_config (conclude d ok m) c) = isLeader (conclude d ok m)"
  using assms leader_config_follows [OF assms] by (simp add: conclude_def Let_def split: decision.split)

section \<open>Replicas\<close>

text \<open>
  The managers of several replicas and their lease. The goroutine of a manager is between ticks, has
  read the lease, or waits for the answer to its write; its release has read the lease and waits for
  the deletion. \<open>renewed\<close>: the renew time of the last write a manager knows to have gone through.
  \<open>in_flight\<close>: the writes of ticks whose answer a manager has given up waiting for, and which may still be
  applied. \<open>unanswered\<close>: a write of the release of the manager, the deletion or the expiry, has lost its
  answer. The replicas have distinct identifiers and read one clock.
\<close>

datatype phase = Idle | Fetched "Lease get" | Pending decision

record replicas =
  lease :: "Lease option"
  revision :: nat
  managers :: "string \<Rightarrow> Manager"
  phase_of :: "string \<Rightarrow> phase"
  releasing :: "string \<Rightarrow> Lease option"
  clock :: int
  renewed :: "string \<Rightarrow> int"
  in_flight :: "(string \<times> decision) list"
  unanswered :: "string \<Rightarrow> bool"

definition store_lease :: "Lease \<Rightarrow> replicas \<Rightarrow> replicas" where
  "store_lease l s = s\<lparr>lease := Some (l\<lparr>resourceVersion := Suc (revision s)\<rparr>), revision := Suc (revision s)\<rparr>"

definition current :: "replicas \<Rightarrow> Lease \<Rightarrow> bool" where
  "current s l \<longleftrightarrow> (case lease s of None \<Rightarrow> False | Some cur \<Rightarrow> resourceVersion cur = resourceVersion l)"

fun admitted :: "replicas \<Rightarrow> decision \<Rightarrow> Lease \<Rightarrow> bool" where
  "admitted s (Create l) l' \<longleftrightarrow> l' = l \<and> lease s = None"
| "admitted s (Renew l) l' \<longleftrightarrow> l' = l \<and> current s l"
| "admitted s (Take l) l' \<longleftrightarrow> l' = l \<and> current s l"
| "admitted s d l' \<longleftrightarrow> False"

definition observed :: "replicas \<Rightarrow> Lease get \<Rightarrow> bool" where
  "observed s got \<longleftrightarrow>
     (case got of GetError e \<Rightarrow> True | NotFound \<Rightarrow> lease s = None | Found l \<Rightarrow> lease s = Some l)"

definition goes :: "string \<Rightarrow> phase \<Rightarrow> Manager \<Rightarrow> replicas \<Rightarrow> replicas" where
  "goes i p m s = s\<lparr>phase_of := (phase_of s)(i := p), managers := (managers s)(i := m)\<rparr>"

definition released :: "string \<Rightarrow> Manager \<Rightarrow> replicas \<Rightarrow> replicas" where
  "released i m s = s\<lparr>releasing := (releasing s)(i := None), managers := (managers s)(i := m)\<rparr>"

definition deletable :: "bool \<Rightarrow> string \<Rightarrow> replicas \<Rightarrow> bool" where
  "deletable late i s \<longleftrightarrow> late \<or> (case lease s of None \<Rightarrow> True | Some cur \<Rightarrow> HolderIdentity cur = Some i)"

text \<open>\<open>late\<close>: a deletion may arrive after another replica has taken the lease over. A tick with nothing to write,
  or whose write is refused, ends with \<open>refused\<close>. \<open>gives_up\<close> is a write that returns an error and may yet be
  applied: at once (it lost its answer) or later (\<open>delivered\<close>). The same of the deletion of a release: \<open>release_gives_up\<close> goes on to the update, and the
  deletion may still be applied at any time.\<close>

inductive sys_step :: "bool \<Rightarrow> replicas \<Rightarrow> replicas \<Rightarrow> bool" for late where
  advance: "0 < d \<Longrightarrow> sys_step late s (s\<lparr>clock := clock s + d\<rparr>)"
| fetch: "phase_of s i = Idle \<Longrightarrow> \<not> stopped (managers s i) \<Longrightarrow> observed s got \<Longrightarrow>
    sys_step late s (goes i (Fetched got) (managers s i) s)"
| decides: "phase_of s i = Fetched got \<Longrightarrow> d = decide (clock s) got (managers s i) \<Longrightarrow> d \<noteq> Panic \<Longrightarrow>
    sys_step late s (goes i (Pending d) (managers s i) s)"
| goes_through: "phase_of s i = Pending d \<Longrightarrow> admitted s d l \<Longrightarrow> RenewTime l = Some t \<Longrightarrow>
    sys_step late s ((store_lease l (goes i Idle (conclude d True (managers s i)) s))\<lparr>renewed := (renewed s)(i := t)\<rparr>)"
| refused: "phase_of s i = Pending d \<Longrightarrow>
    sys_step late s (goes i Idle (conclude d False (managers s i)) s)"
| gives_up: "phase_of s i = Pending d \<Longrightarrow>
    sys_step late s ((goes i Idle (conclude d False (managers s i)) s)\<lparr>in_flight := (i, d) # in_flight s\<rparr>)"
| delivered: "(i, d) \<in> set (in_flight s) \<Longrightarrow> admitted s d l \<Longrightarrow> sys_step late s (store_lease l s)"
| release_read: "releasing s i = None \<Longrightarrow> observed s got \<Longrightarrow> begin_release got (managers s i) = Delete l \<Longrightarrow>
    sys_step late s (s\<lparr>releasing := (releasing s)(i := Some l)\<rparr>)"
| release_done: "releasing s i = None \<Longrightarrow> observed s got \<Longrightarrow> begin_release got (managers s i) = Released m \<Longrightarrow>
    sys_step late s (released i m s)"
| deletes: "releasing s i = Some l \<Longrightarrow> deletable late i s \<Longrightarrow>
    sys_step late s ((released i (setLeaderStatus False (managers s i)) s)\<lparr>lease := None\<rparr>)"
| expires: "releasing s i = Some l \<Longrightarrow> expired_lease (clock s) l = Some l' \<Longrightarrow> current s l' \<Longrightarrow>
    sys_step late s (store_lease l' (released i (setLeaderStatus False (managers s i)) s))"
| release_gives_up: "releasing s i = Some l \<Longrightarrow>
    sys_step late s (s\<lparr>unanswered := (unanswered s)(i := True)\<rparr>)"
| deletion_delivered: "unanswered s i \<Longrightarrow> deletable late i s \<Longrightarrow> sys_step late s (s\<lparr>lease := None\<rparr>)"
| expiry_gives_up: "releasing s i = Some l \<Longrightarrow> expired_lease (clock s) l = Some l' \<Longrightarrow>
    sys_step late s ((released i (managers s i) s)
      \<lparr>in_flight := (i, Renew l') # in_flight s, unanswered := (unanswered s)(i := True)\<rparr>)"
| release_fails: "releasing s i = Some l \<Longrightarrow> sys_step late s (released i (managers s i) s)"

definition initial :: "int \<Rightarrow> replicas \<Rightarrow> bool" where
  "initial d s \<longleftrightarrow> lease s = None \<and>
     (\<forall>i. nodeIdentifier (managers s i) = i \<and> LeaseDuration (managers s i) = d \<and> \<not> isLeader (managers s i) \<and>
          phase_of s i = Idle \<and> releasing s i = None \<and> \<not> unanswered s i) \<and> in_flight s = []"

inductive reachable :: "bool \<Rightarrow> int \<Rightarrow> replicas \<Rightarrow> bool" for late d where
  start: "initial d s \<Longrightarrow> reachable late d s"
| step: "reachable late d s \<Longrightarrow> sys_step late s t \<Longrightarrow> reachable late d t"

section \<open>The invariant\<close>

definition secs :: "int \<Rightarrow> int" where
  "secs d = int32 (d div 1000000)"

text \<open>A manager that leads and renewed less than a lease duration ago.\<close>

definition in_window :: "int \<Rightarrow> replicas \<Rightarrow> string \<Rightarrow> bool" where
  "in_window d s i \<longleftrightarrow> isLeader (managers s i) \<and> clock s \<le> renewed s i + seconds (secs d)"

definition proper :: "int \<Rightarrow> nat \<Rightarrow> Lease \<Rightarrow> bool" where
  "proper d v l \<longleftrightarrow> resourceVersion l \<le> v \<and> LeaseDurationSeconds l = Some (secs d) \<and> RenewTime l \<noteq> None"

definition unexpired :: "int \<Rightarrow> replicas \<Rightarrow> Lease \<Rightarrow> bool" where
  "unexpired d s l \<longleftrightarrow> (\<exists>t. RenewTime l = Some t \<and> clock s \<le> t + seconds (secs d))"

fun phase_ok :: "int \<Rightarrow> replicas \<Rightarrow> string \<Rightarrow> phase \<Rightarrow> bool" where
  "phase_ok d s i (Fetched (Found l)) \<longleftrightarrow> proper d (revision s) l \<and> (current s l \<longrightarrow> lease s = Some l)"
| "phase_ok d s i (Pending (Create l)) \<longleftrightarrow> proper d (revision s) l \<and> HolderIdentity l = Some i"
| "phase_ok d s i (Pending (Renew l)) \<longleftrightarrow> proper d (revision s) l \<and> HolderIdentity l = Some i \<and>
     (\<forall>cur. lease s = Some cur \<longrightarrow> current s l \<longrightarrow> HolderIdentity cur = Some i)"
| "phase_ok d s i (Pending (Take l)) \<longleftrightarrow> proper d (revision s) l \<and> HolderIdentity l = Some i \<and>
     (\<forall>cur. lease s = Some cur \<longrightarrow> current s l \<longrightarrow> \<not> unexpired d s cur)"
| "phase_ok d s i p \<longleftrightarrow> True"






text \<open>What time and writes leave of the knowledge a replica has of the lease: a new lease has a version
  nobody has seen.\<close>

definition later :: "replicas \<Rightarrow> replicas \<Rightarrow> bool" where
  "later s t \<longleftrightarrow> clock s \<le> clock t \<and> revision s \<le> revision t \<and>
     (lease t = lease s \<or> lease t = None \<or> (\<exists>l. lease t = Some l \<and> revision s < resourceVersion l))"


lemma current_iff: "current s l \<longleftrightarrow> (\<exists>cur. lease s = Some cur \<and> resourceVersion cur = resourceVersion l)"
  by (simp add: current_def split: option.split)









lemma move_simps [simp]:
  "lease (goes i p m s) = lease s" "revision (goes i p m s) = revision s" "clock (goes i p m s) = clock s"
  "renewed (goes i p m s) = renewed s" "releasing (goes i p m s) = releasing s"
  "managers (goes i p m s) = (managers s)(i := m)" "phase_of (goes i p m s) = (phase_of s)(i := p)"
  "lease (released i m s) = lease s" "revision (released i m s) = revision s" "clock (released i m s) = clock s"
  "renewed (released i m s) = renewed s" "releasing (released i m s) = (releasing s)(i := None)"
  "managers (released i m s) = (managers s)(i := m)" "phase_of (released i m s) = phase_of s"
  "lease (store_lease l s) = Some (l\<lparr>resourceVersion := Suc (revision s)\<rparr>)"
  "revision (store_lease l s) = Suc (revision s)" "clock (store_lease l s) = clock s"
  "renewed (store_lease l s) = renewed s" "releasing (store_lease l s) = releasing s"
  "managers (store_lease l s) = managers s" "phase_of (store_lease l s) = phase_of s"
  "in_flight (goes i p m s) = in_flight s" "unanswered (goes i p m s) = unanswered s"
  "in_flight (released i m s) = in_flight s" "unanswered (released i m s) = unanswered s"
  "in_flight (store_lease l s) = in_flight s" "unanswered (store_lease l s) = unanswered s"
  by (simp_all add: goes_def released_def store_lease_def)

lemma phase_ok_cong:
  "lease t = lease s \<Longrightarrow> revision t = revision s \<Longrightarrow> clock t = clock s \<Longrightarrow> phase_ok d t i p = phase_ok d s i p"
  by (cases "(d, s, i, p)" rule: phase_ok.cases) (simp_all add: current_def unexpired_def)

lemma phase_ok_goes [simp]: "phase_ok d (goes i p m s) j q = phase_ok d s j q"
  by (rule phase_ok_cong) simp_all

lemma current_RenewTime [simp]:
  "current s (l\<lparr>RenewTime := x\<rparr>) = current s l" "current s (l\<lparr>HolderIdentity := y\<rparr>) = current s l"
  by (simp_all add: current_iff)







lemma later_store: "lease t = lease s \<Longrightarrow> revision t = revision s \<Longrightarrow> clock t = clock s \<Longrightarrow> later s (store_lease l t)"
  by (simp add: later_def)

lemma in_window_cong:
  "isLeader (managers t j) = isLeader (managers s j) \<Longrightarrow> clock t = clock s \<Longrightarrow> renewed t j = renewed s j \<Longrightarrow>
     in_window d t j = in_window d s j"
  by (simp add: in_window_def)











section \<open>Runs\<close>

text \<open>A tick of a replica with nothing in between, one whose read fails, and the start of three replicas.\<close>

definition seen :: "replicas \<Rightarrow> Lease get" where
  "seen s = (case lease s of None \<Rightarrow> NotFound | Some l \<Rightarrow> Found l)"

definition run_tick :: "string \<Rightarrow> replicas \<Rightarrow> replicas" where
  "run_tick i s =
     (let D = decide (clock s) (seen s) (managers s i); ok = goes i Idle (conclude D True (managers s i)) s;
          renew = (\<lambda>s. s\<lparr>renewed := (renewed s)(i := clock s)\<rparr>)
      in case D of
           Create l \<Rightarrow> renew (store_lease l ok)
         | Renew l \<Rightarrow> renew (store_lease l ok)
         | Take l \<Rightarrow> renew (store_lease l ok)
         | D \<Rightarrow> goes i Idle (conclude D False (managers s i)) s)"

definition failing_tick :: "string \<Rightarrow> replicas \<Rightarrow> replicas" where
  "failing_tick i s = goes i Idle (conclude Wait False (managers s i)) s"

definition three_replicas :: replicas where
  "three_replicas = \<lparr>lease = None, revision = 0,
     managers = (\<lambda>i. \<lparr>nodeIdentifier = i, LeaseDuration = 15000000, isLeader = False, calls = [],
                       initialElectionDone = False, stopped = False\<rparr>),
     phase_of = (\<lambda>i. Idle), releasing = (\<lambda>i. None), clock = 0, renewed = (\<lambda>i. 0), in_flight = [],
     unanswered = (\<lambda>i. False)\<rparr>"

lemma goes_goes [simp]: "goes i p m (goes i p' m' s) = goes i p m s"
  by (simp add: goes_def)

lemma observed_seen: "observed s (seen s)"
  by (simp add: observed_def seen_def split: option.split)

lemma decide_writes:
  "decide now (seen s) m = Create l \<Longrightarrow> admitted s (Create l) l \<and> RenewTime l = Some now"
  "decide now (seen s) m = Renew l \<Longrightarrow> admitted s (Renew l) l \<and> RenewTime l = Some now"
  "decide now (seen s) m = Take l \<Longrightarrow> admitted s (Take l) l \<and> RenewTime l = Some now"
  by (auto simp: decide_def seen_def current_iff split: option.splits if_splits)

lemma reachable_pending:
  assumes "reachable late d s" and "phase_of s i = Idle" and "\<not> stopped (managers s i)" and "observed s got"
    and "decide (clock s) got (managers s i) \<noteq> Panic"
  shows "reachable late d (goes i (Pending (decide (clock s) got (managers s i))) (managers s i) s)"
proof -
  have "reachable late d (goes i (Fetched got) (managers s i) s)" by (rule reachable.step [OF assms(1) fetch [OF assms(2-4)]])
  moreover have "sys_step late (goes i (Fetched got) (managers s i) s)
      (goes i (Pending (decide (clock s) got (managers s i))) (managers s i) s)"
    using decides [of "goes i (Fetched got) (managers s i) s" i got "decide (clock s) got (managers s i)" late] assms(5)
    by simp
  ultimately show ?thesis by (rule reachable.step)
qed

lemma reachable_written:
  assumes "reachable late d (goes i (Pending D) (managers s i) s)" and "admitted s D l" and "RenewTime l = Some t"
  shows "reachable late d ((store_lease l (goes i Idle (conclude D True (managers s i)) s))\<lparr>renewed := (renewed s)(i := t)\<rparr>)"
proof -
  have "admitted (goes i (Pending D) (managers s i) s) D l" using assms(2) by (cases D) (simp_all add: current_iff)
  then have "sys_step late (goes i (Pending D) (managers s i) s)
      ((store_lease l (goes i Idle (conclude D True (managers s i)) s))\<lparr>renewed := (renewed s)(i := t)\<rparr>)"
    using goes_through [of "goes i (Pending D) (managers s i) s" i D l t late] assms(3) by simp
  then show ?thesis by (rule reachable.step [OF assms(1)])
qed

lemma reachable_refused:
  assumes "reachable late d (goes i (Pending D) (managers s i) s)"
  shows "reachable late d (goes i Idle (conclude D False (managers s i)) s)"
proof -
  have "sys_step late (goes i (Pending D) (managers s i) s) (goes i Idle (conclude D False (managers s i)) s)"
    using refused [of "goes i (Pending D) (managers s i) s" i D late] by simp
  then show ?thesis by (rule reachable.step [OF assms])
qed

lemma reachable_run_tick:
  assumes "reachable late d s" and "phase_of s i = Idle" and "\<not> stopped (managers s i)"
    and "decide (clock s) (seen s) (managers s i) \<noteq> Panic"
  shows "reachable late d (run_tick i s)"
proof -
  note p = reachable_pending [OF assms(1-3) observed_seen assms(4)]
  show ?thesis
    using reachable_written [OF p] reachable_refused [OF p] decide_writes [where now = "clock s" and s = s and m = "managers s i"] assms(4)
    by (cases "decide (clock s) (seen s) (managers s i)") (simp_all add: run_tick_def)
qed

lemma reachable_failing_tick:
  assumes "reachable late d s" and "phase_of s i = Idle" and "\<not> stopped (managers s i)"
  shows "reachable late d (failing_tick i s)"
proof -
  have "observed s (GetError ''timeout'')" by (simp add: observed_def)
  from reachable_pending [OF assms this] have "reachable late d (goes i (Pending Wait) (managers s i) s)"
    by (simp add: decide_def)
  then show ?thesis unfolding failing_tick_def by (rule reachable_refused)
qed

lemma three_replicas_initial: "reachable late 15000000 three_replicas"
  by (rule start) (simp add: initial_def three_replicas_def)

lemma reachable_advance: "reachable late d s \<Longrightarrow> 0 < x \<Longrightarrow> reachable late d (s\<lparr>clock := clock s + x\<rparr>)"
  by (rule reachable.step) (auto intro: advance)

section \<open>Properties\<close>


definition first_tick :: replicas where
  "first_tick = run_tick ''a'' three_replicas"

lemma first_tick_reachable: "reachable late 15000000 first_tick"
  unfolding first_tick_def
  by (rule reachable_run_tick [OF three_replicas_initial])
    (simp_all add: three_replicas_def seen_def decide_def)




text \<open>A tick that can read the lease and whose write goes through leaves the replica leading exactly when it
  holds the lease, and the shared configuration knows it.\<close>

theorem tick_follows_lease:
  assumes "tick now got write m = Some m'" and "\<And>e. got \<noteq> GetError e" and "write (decide now got m)"
    and "IsLeaderInstance (leader_config m c) = isLeader m"
  shows "(isLeader m' \<longleftrightarrow> Option.bind (written got (decide now got m)) HolderIdentity = Some (nodeIdentifier m)) \<and>
    IsLeaderInstance (leader_config m' c) = isLeader m' \<and> initialElectionDone m'"
proof -
  have m': "m' = conclude (decide now got m) True m" and np: "decide now got m \<noteq> Panic"
    using assms(1,3) by (simp_all add: tick_def Let_def split: if_splits)
  have "IsLeaderInstance (leader_config m' c) = isLeader m'"
    unfolding m' by (rule leader_config_conclude [OF assms(4)])
  moreover have "initialElectionDone m'" by (simp add: m' conclude_def Let_def)
  moreover have "isLeader m' \<longleftrightarrow> Option.bind (written got (decide now got m)) HolderIdentity = Some (nodeIdentifier m)"
    using np assms(2) unfolding m'
    by (auto simp: decide_def conclude_def Let_def split: get.splits option.splits if_splits)
  ultimately show ?thesis by blast
qed

theorem tick_follows_lease_witness:
  "\<exists>m'. tick 5 NotFound (\<lambda>_. True) (managers three_replicas ''a'') = Some m' \<and> isLeader m' \<and>
     IsLeaderInstance (leader_config m' (new_Config ''n'' ''c''))"
proof -
  let ?m = "managers three_replicas ''a''"
  have m: "?m = \<lparr>nodeIdentifier = ''a'', LeaseDuration = 15000000, isLeader = False, calls = [],
      initialElectionDone = False, stopped = False\<rparr>" by (simp add: three_replicas_def)
  have "IsLeaderInstance (leader_config ?m (new_Config ''n'' ''c'')) = isLeader ?m"
    by (simp add: m leader_config_def IsLeaderInstance_def new_Config_def)
  moreover obtain m' where t: "tick 5 NotFound (\<lambda>_. True) ?m = Some m'" by (simp add: tick_def Let_def decide_def)
  ultimately show ?thesis using tick_follows_lease [OF t, of "new_Config ''n'' ''c''"]
    by (auto simp: decide_def)
qed

text \<open>Nothing makes a replica that cannot read the lease give up: after its lease has expired and another replica
  has taken over, its ticks fail and it goes on leading beside the new leader. (The renew deadline of the
  configuration is not used.)\<close>

theorem unreachable_leader_stays:
  "\<exists>s. reachable False 15000000 s \<and> isLeader (managers s ''a'') \<and> isLeader (managers s ''b'') \<and>
     Option.bind (lease s) HolderIdentity = Some ''b'' \<and> clock s > renewed s ''a'' + 15000000 \<and>
     reachable False 15000000 (failing_tick ''a'' s) \<and> isLeader (managers (failing_tick ''a'' s) ''a'')"
proof -
  let ?s1 = "first_tick\<lparr>clock := clock first_tick + 16000000\<rparr>"
  let ?s2 = "run_tick ''b'' ?s1"
  have "reachable False 15000000 ?s1" by (rule reachable_advance [OF first_tick_reachable]) simp
  then have r2: "reachable False 15000000 ?s2" by (rule reachable_run_tick) (code_simp+)
  moreover have "phase_of ?s2 ''a'' = Idle" "\<not> stopped (managers ?s2 ''a'')" by code_simp+
  then have "reachable False 15000000 (failing_tick ''a'' ?s2)" by (rule reachable_failing_tick [OF r2])
  moreover have "isLeader (managers ?s2 ''a'')" "isLeader (managers ?s2 ''b'')"
    "Option.bind (lease ?s2) HolderIdentity = Some ''b''" "clock ?s2 > renewed ?s2 ''a'' + 15000000"
    "isLeader (managers (failing_tick ''a'' ?s2) ''a'')" by code_simp+
  ultimately show ?thesis by blast
qed

text \<open>The deletion of a release names no version: one that arrives after another replica has taken the expired
  lease over deletes the lease of that replica, and a third one then leads beside it, both within their windows.\<close>

theorem late_deletion_makes_two_leaders:
  "\<exists>s. reachable True 15000000 s \<and> in_window 15000000 s ''b'' \<and> in_window 15000000 s ''c''"
proof -
  let ?l = "\<lparr>HolderIdentity = Some ''a'', RenewTime = Some 0, LeaseDurationSeconds = Some 15, resourceVersion = 1\<rparr>"
  let ?s1 = "first_tick\<lparr>releasing := (releasing first_tick)(''a'' := Some ?l)\<rparr>"
  let ?s2 = "?s1\<lparr>clock := clock ?s1 + 16000000\<rparr>"
  let ?s3 = "run_tick ''b'' ?s2"
  let ?s4 = "(released ''a'' (setLeaderStatus False (managers ?s3 ''a'')) ?s3)\<lparr>lease := None\<rparr>"
  let ?s5 = "run_tick ''c'' ?s4"
  have "sys_step True first_tick ?s1"
    by (rule release_read [where got = "Found ?l"]) (code_simp+)
  then have "reachable True 15000000 ?s1" by (rule reachable.step [OF first_tick_reachable])
  then have "reachable True 15000000 ?s2" by (rule reachable_advance) simp
  then have r3: "reachable True 15000000 ?s3" by (rule reachable_run_tick) (code_simp+)
  have "sys_step True ?s3 ?s4" by (rule deletes [where l = ?l]) (code_simp, simp add: deletable_def)
  with r3 have "reachable True 15000000 ?s4" by (rule reachable.step)
  then have "reachable True 15000000 ?s5" by (rule reachable_run_tick) (code_simp+)
  moreover have "in_window 15000000 ?s5 ''b''" "in_window 15000000 ?s5 ''c''" by code_simp+
  ultimately show ?thesis by blast
qed

text \<open>A release whose deletion is applied and loses its answer, and whose update then fails (the lease is gone),
  leaves the replica leading: another one creates the lease at once and leads beside it, both within their
  windows.\<close>

theorem unanswered_release_makes_two_leaders:
  "\<exists>s. reachable False 15000000 s \<and> in_window 15000000 s ''a'' \<and> in_window 15000000 s ''b''"
proof -
  let ?l = "\<lparr>HolderIdentity = Some ''a'', RenewTime = Some 0, LeaseDurationSeconds = Some 15, resourceVersion = 1\<rparr>"
  let ?s1 = "first_tick\<lparr>releasing := (releasing first_tick)(''a'' := Some ?l)\<rparr>"
  let ?s2 = "?s1\<lparr>unanswered := (unanswered ?s1)(''a'' := True)\<rparr>"
  let ?s3 = "?s2\<lparr>lease := None\<rparr>"
  let ?s4 = "released ''a'' (managers ?s3 ''a'') ?s3"
  let ?s5 = "run_tick ''b'' ?s4"
  have "sys_step False first_tick ?s1"
    by (rule release_read [where got = "Found ?l"]) (code_simp+)
  then have "reachable False 15000000 ?s1" by (rule reachable.step [OF first_tick_reachable])
  then have "reachable False 15000000 ?s2" by (rule reachable.step) (rule release_gives_up [where l = ?l], simp)
  moreover have "deletable False ''a'' ?s2" by code_simp
  then have "sys_step False ?s2 ?s3" by (intro deletion_delivered) simp_all
  ultimately have "reachable False 15000000 ?s3" by (rule reachable.step)
  then have "reachable False 15000000 ?s4" by (rule reachable.step) (rule release_fails [where l = ?l], simp)
  then have "reachable False 15000000 ?s5" by (rule reachable_run_tick) (code_simp+)
  moreover have "in_window 15000000 ?s5 ''a''" "in_window 15000000 ?s5 ''b''" by code_simp+
  ultimately show ?thesis by blast
qed

end
