(* ===== verification/GoFloat.thy ===== *)
theory GoFloat
  imports Complex_Main "HOL-Library.Log_Nat"
begin

text \<open>
  The \<open>float64\<close> arithmetic of the retry delays and the renewal times: rounding to 53 significant bits,
  ties to even, the product, the conversion of an integer, and \<open>math.Pow\<close> for an exponent that is
  a natural number (Go squares repeatedly, rounding after every product). Finite values are rationals.
  Nothing here comes near the subnormal numbers, so exponents have no lower bound; above, a value from
  \<open>2 ^ 1024\<close> on is infinite.
\<close>

section \<open>Rounding\<close>

datatype float64 = Fin rat | PosInf | NegInf | NaN

definition ilog2 :: "rat \<Rightarrow> int" where
  "ilog2 x = (case quotient_of x of (n, d) \<Rightarrow>
     let k = bitlen n - bitlen d in if 2 powi k \<le> x then k else k - 1)"

definition round_even :: "rat \<Rightarrow> int" where
  "round_even q =
     (let f = \<lfloor>q\<rfloor>; r = q - of_int f
      in if r < 1 / 2 then f else if 1 / 2 < r then f + 1 else if even f then f else f + 1)"

definition round_pos :: "rat \<Rightarrow> rat" where
  "round_pos x = (let u = 2 powi (ilog2 x - 52) in of_int (round_even (x / u)) * u)"

definition round64 :: "rat \<Rightarrow> rat" where
  "round64 x = (if x = 0 then 0 else if x < 0 then - round_pos (- x) else round_pos x)"

section \<open>Powers\<close>

definition to_float :: "rat \<Rightarrow> float64" where
  "to_float x = (if 2 ^ 1024 \<le> round64 x then PosInf else if round64 x \<le> - (2 ^ 1024) then NegInf else Fin (round64 x))"

fun pow_loop :: "nat \<Rightarrow> rat \<Rightarrow> rat \<Rightarrow> rat option" where
  "pow_loop 0 a x = Some a"
| "pow_loop (Suc i) a x =
     (if 2 ^ 4096 \<le> x then None
      else pow_loop (Suc i div 2) (if odd (Suc i) then round64 (a * x) else a) (round64 (x * x)))"

definition pow64 :: "rat \<Rightarrow> nat \<Rightarrow> float64" where
  "pow64 x y =
     (if y = 0 \<or> x = 1 then Fin 1 else if y = 1 then Fin x
      else (case pow_loop y 1 x of None \<Rightarrow> PosInf | Some a \<Rightarrow> if 2 ^ 1024 \<le> a then PosInf else Fin a))"

text \<open>The product of a positive number with a positive one that may be infinite.\<close>

definition times64 :: "rat \<Rightarrow> float64 \<Rightarrow> float64" where
  "times64 x f = (case f of Fin q \<Rightarrow> to_float (x * q) | _ \<Rightarrow> f)"

section \<open>Facts\<close>

lemma powi_pos [simp]: "0 < (2 :: rat) powi k"
  by (simp add: zero_less_power_int)

lemma ilog2_bounds:
  assumes "0 < x"
  shows "2 powi ilog2 x \<le> x" and "x < 2 powi (ilog2 x + 1)"
proof -
  obtain n d where nd: "quotient_of x = (n, d)" by (cases "quotient_of x")
  then have x: "x = of_int n / of_int d" and d: "0 < d"
    using quotient_of_div quotient_of_denom_pos by auto
  then have n: "0 < n" using assms by (simp add: zero_less_divide_iff)
  let ?k = "bitlen n - bitlen d"
  have bn: "2 ^ nat (bitlen n - 1) \<le> n" "n < 2 ^ nat (bitlen n)"
    and bd: "2 ^ nat (bitlen d - 1) \<le> d" "d < 2 ^ nat (bitlen d)"
    using bitlen_bounds [OF n] bitlen_bounds [OF d] by auto
  have pos: "1 \<le> bitlen n" "1 \<le> bitlen d" using n d by (simp_all add: bitlen_def floorlog_def)
  have low: "(2 :: rat) powi (m - 1) \<le> of_int i" if "1 \<le> m" "2 ^ nat (m - 1) \<le> i" for m i :: int
  proof -
    have "(of_int (2 ^ nat (m - 1)) :: rat) \<le> of_int i" using that(2) by (simp only: of_int_le_iff)
    then show ?thesis using that(1) by (simp add: power_int_def)
  qed
  have high: "of_int i < (2 :: rat) powi m" if "1 \<le> m" "i < 2 ^ nat m" for m i :: int
  proof -
    have "(of_int i :: rat) < of_int (2 ^ nat m)" using that(2) by (simp only: of_int_less_iff)
    then show ?thesis using that(1) by (simp add: power_int_def)
  qed
  note up = high [OF pos(1) bn(2)] low [OF pos(1) bn(1)] high [OF pos(2) bd(2)] low [OF pos(2) bd(1)]
  have "x < 2 powi (?k + 1)"
  proof -
    have "of_int n < 2 powi (?k + 1) * (2 :: rat) powi (bitlen d - 1)"
      using up(1) by (simp flip: power_int_add)
    also have "\<dots> \<le> 2 powi (?k + 1) * of_int d" using up(4) by simp
    finally show ?thesis using d by (simp add: x divide_less_eq)
  qed
  moreover have "2 powi (?k - 1) \<le> x"
  proof -
    have "2 powi (?k - 1) * of_int d \<le> 2 powi (?k - 1) * (2 :: rat) powi bitlen d" using up(3) by simp
    also have "\<dots> \<le> of_int n" using up(2) by (simp flip: power_int_add)
    finally show ?thesis using d by (simp add: x le_divide_eq)
  qed
  ultimately show "2 powi ilog2 x \<le> x" "x < 2 powi (ilog2 x + 1)"
    by (auto simp: ilog2_def nd Let_def)
qed

lemma ilog2_unique: "0 < x \<Longrightarrow> 2 powi k \<le> x \<Longrightarrow> x < 2 powi (k + 1) \<Longrightarrow> ilog2 x = k"
proof -
  assume x: "0 < x" "2 powi k \<le> x" "x < 2 powi (k + 1)"
  note b = ilog2_bounds [OF x(1)]
  have "\<not> ilog2 x < k"
  proof
    assume "ilog2 x < k"
    then have "(2 :: rat) powi (ilog2 x + 1) \<le> 2 powi k" by (intro power_int_increasing) simp_all
    then show False using b(2) x(2) by simp
  qed
  moreover have "\<not> k < ilog2 x"
  proof
    assume "k < ilog2 x"
    then have "(2 :: rat) powi (k + 1) \<le> 2 powi ilog2 x" by (intro power_int_increasing) simp_all
    then show False using b(1) x(3) by simp
  qed
  ultimately show ?thesis by simp
qed

lemma ilog2_mono: "0 < x \<Longrightarrow> x \<le> y \<Longrightarrow> ilog2 x \<le> ilog2 y"
proof (rule ccontr)
  assume x: "0 < x" "x \<le> y" and "\<not> ilog2 x \<le> ilog2 y"
  then have "(2 :: rat) powi (ilog2 y + 1) \<le> 2 powi ilog2 x" by (intro power_int_increasing) simp_all
  moreover have "0 < y" using x by simp
  ultimately show False using ilog2_bounds [of y] ilog2_bounds [OF x(1)] x(2) by linarith
qed

lemma round_even_int [simp]: "round_even (of_int i) = i"
  by (simp add: round_even_def Let_def)

lemma round_even_numeral [simp]: "round_even (numeral n) = numeral n"
  using round_even_int [of "numeral n"] by simp

lemma round_even_mono: "p \<le> q \<Longrightarrow> round_even p \<le> round_even q"
proof -
  assume le: "p \<le> q"
  then have f: "\<lfloor>p\<rfloor> \<le> \<lfloor>q\<rfloor>" by (rule floor_mono)
  show ?thesis
  proof (cases "\<lfloor>p\<rfloor> = \<lfloor>q\<rfloor>")
    case True
    then show ?thesis using le by (auto simp: round_even_def Let_def)
  next
    case False
    then have "\<lfloor>p\<rfloor> + 1 \<le> \<lfloor>q\<rfloor>" using f by simp
    moreover have "round_even p \<le> \<lfloor>p\<rfloor> + 1" "\<lfloor>q\<rfloor> \<le> round_even q" by (simp_all add: round_even_def Let_def)
    ultimately show ?thesis by simp
  qed
qed

lemma unit_split: "(2 :: rat) powi (k - 52) * 2 ^ 52 = 2 powi k"
  using power_int_add [of "2 :: rat" "k - 52" 52] by simp

lemma unit_split53: "of_int (2 ^ 53) * (2 :: rat) powi (k - 52) = 2 powi (k + 1)"
proof -
  have "of_int (2 ^ 53) * (2 :: rat) powi (k - 52) = 2 * (2 powi (k - 52) * 2 ^ 52)" by simp
  then show ?thesis unfolding unit_split by (simp add: power_int_add)
qed

lemma round_pos_range:
  assumes "0 < x"
  shows "2 powi ilog2 x \<le> round_pos x" and "round_pos x \<le> 2 powi (ilog2 x + 1)"
proof -
  let ?u = "2 powi (ilog2 x - 52) :: rat"
  have u: "?u * 2 ^ 52 = 2 powi ilog2 x" by (rule unit_split)
  have u2: "of_int (2 ^ 53) * ?u = 2 powi (ilog2 x + 1)" by (rule unit_split53)
  have "of_int (2 ^ 52) \<le> x / ?u" using ilog2_bounds(1) [OF assms] u by (simp add: le_divide_eq mult.commute)
  then have "2 ^ 52 \<le> round_even (x / ?u)" using round_even_mono [of "of_int (2 ^ 52)" "x / ?u"] by simp
  then have "(of_int (2 ^ 52) :: rat) \<le> of_int (round_even (x / ?u))" by (simp only: of_int_le_iff)
  then have "of_int (2 ^ 52) * ?u \<le> round_pos x" by (simp add: round_pos_def Let_def mult_right_mono)
  then show "2 powi ilog2 x \<le> round_pos x" using u by (simp add: mult.commute)
  have "x / ?u \<le> of_int (2 ^ 53)" using ilog2_bounds(2) [OF assms] u2 by (simp add: divide_le_eq mult.commute)
  then have "round_even (x / ?u) \<le> 2 ^ 53" using round_even_mono [of "x / ?u" "of_int (2 ^ 53)"] by simp
  then have "(of_int (round_even (x / ?u)) :: rat) \<le> of_int (2 ^ 53)" by (simp only: of_int_le_iff)
  then have "round_pos x \<le> of_int (2 ^ 53) * ?u" by (simp add: round_pos_def Let_def mult_right_mono)
  then show "round_pos x \<le> 2 powi (ilog2 x + 1)" using u2 by (simp add: mult.commute)
qed

lemma round_pos_mono:
  assumes "0 < x" and "x \<le> y"
  shows "round_pos x \<le> round_pos y"
proof (cases "ilog2 x = ilog2 y")
  case True
  let ?u = "2 powi (ilog2 y - 52) :: rat"
  have "x / ?u \<le> y / ?u" using assms(2) by (simp add: divide_right_mono)
  then have "round_even (x / ?u) \<le> round_even (y / ?u)" by (rule round_even_mono)
  then show ?thesis unfolding round_pos_def True Let_def by (simp add: mult_right_mono)
next
  case False
  then have "ilog2 x + 1 \<le> ilog2 y" using ilog2_mono [OF assms] by simp
  then have "(2 :: rat) powi (ilog2 x + 1) \<le> 2 powi ilog2 y" by (intro power_int_increasing) simp_all
  moreover have "0 < y" using assms by simp
  ultimately show ?thesis using round_pos_range(2) [OF assms(1)] round_pos_range(1) [of y] by linarith
qed

lemma round64_pos: "0 < x \<Longrightarrow> 0 < round64 x"
  by (simp add: round64_def less_le_trans [OF powi_pos round_pos_range(1)])

lemma round64_mono: "0 < x \<Longrightarrow> x \<le> y \<Longrightarrow> round64 x \<le> round64 y"
  using round_pos_mono by (simp add: round64_def)

text \<open>An integer of at most 53 bits, times any power of two, is kept.\<close>

lemma round64_exact:
  assumes "0 < m" and "m \<le> 2 ^ 53"
  shows "round64 (of_int m * 2 powi k) = of_int m * 2 powi k"
proof -
  let ?x = "of_int m * 2 powi k :: rat"
  let ?u = "2 powi (ilog2 ?x - 52) :: rat"
  have x: "0 < ?x" using assms(1) by simp
  show ?thesis
  proof (cases "m = 2 ^ 53")
    case True
    then have v: "?x = 2 powi (k + 53)" using power_int_add [of "2 :: rat" k 53] by simp
    have l: "ilog2 (2 powi (k + 53)) = k + 53" by (intro ilog2_unique) (simp_all add: power_int_add)
    have "2 powi (k + 53) / (2 :: rat) powi (k + 53 - 52) = of_int (2 ^ 52)"
      using unit_split [of "k + 53"] powi_pos [of "k + 53 - 52"] by (simp add: divide_eq_eq mult.commute)
    then have "?x / ?u = of_int (2 ^ 52)" unfolding v l .
    then have "round_even (?x / ?u) = 2 ^ 52" by (simp only: round_even_int)
    then have "round_pos ?x = of_int (2 ^ 52) * ?u" by (simp add: round_pos_def Let_def)
    also have "\<dots> = ?x" using \<open>?x / ?u = of_int (2 ^ 52)\<close> by (simp add: divide_eq_eq)
    finally show ?thesis using x by (simp add: round64_def)
  next
    case False
    then have "m < 2 ^ 53" using assms(2) by simp
    then have "(of_int m :: rat) < of_int (2 ^ 53)" by (simp only: of_int_less_iff)
    then have "?x < 2 powi (k + 53)" using power_int_add [of "2 :: rat" k 53] by simp
    then have "\<not> k + 53 \<le> ilog2 ?x"
    proof (intro notI)
      assume lt: "?x < 2 powi (k + 53)" and "k + 53 \<le> ilog2 ?x"
      then have "(2 :: rat) powi (k + 53) \<le> 2 powi ilog2 ?x" by (intro power_int_increasing) simp_all
      then show False using ilog2_bounds(1) [OF x] lt by simp
    qed
    then have e: "0 \<le> k - (ilog2 ?x - 52)" by simp
    then have "(2 :: rat) powi (k - (ilog2 ?x - 52)) = of_int (2 ^ nat (k - (ilog2 ?x - 52)))"
      by (simp add: power_int_def)
    moreover have "2 powi k = 2 powi (k - (ilog2 ?x - 52)) * ?u" by (simp flip: power_int_add)
    ultimately have q: "?x = of_int (m * 2 ^ nat (k - (ilog2 ?x - 52))) * ?u" by simp
    then have "?x / ?u = of_int (m * 2 ^ nat (k - (ilog2 ?x - 52)))" by (simp add: divide_eq_eq)
    then have "round_even (?x / ?u) = m * 2 ^ nat (k - (ilog2 ?x - 52))" by (simp only: round_even_int)
    then have "round_pos ?x = ?x" using q by (simp only: round_pos_def Let_def)
    then show ?thesis using x by (simp add: round64_def)
  qed
qed

lemma round64_int: "0 < m \<Longrightarrow> m \<le> 2 ^ 53 \<Longrightarrow> round64 (of_int m) = of_int m"
  using round64_exact [of m 0] by simp

lemma round64_power: "round64 (2 ^ n) = 2 ^ n"
  using round64_exact [of 1 "int n"] by simp

lemma round64_one [simp]: "round64 1 = 1"
  using round64_power [of 0] by simp

lemma round64_idem:
  assumes "0 < x"
  shows "round64 (round64 x) = round64 x"
proof -
  let ?u = "2 powi (ilog2 x - 52) :: rat"
  let ?m = "round_even (x / ?u)"
  have r: "round64 x = of_int ?m * ?u" using assms by (simp add: round64_def round_pos_def Let_def)
  have "0 < of_int ?m * ?u" using round64_pos [OF assms] r by simp
  then have "0 < ?m" using powi_pos [of "ilog2 x - 52"] by (simp add: zero_less_mult_iff not_less_iff_gr_or_eq)
  moreover have "of_int ?m * ?u \<le> of_int (2 ^ 53) * ?u"
    unfolding unit_split53 using round_pos_range(2) [OF assms] by (simp add: round_pos_def Let_def)
  then have "(of_int ?m :: rat) \<le> of_int (2 ^ 53)" by (rule mult_right_le_imp_le) simp
  then have "?m \<le> 2 ^ 53" by (simp only: of_int_le_iff)
  ultimately show ?thesis unfolding r by (rule round64_exact)
qed

lemma round64_ge_one: "1 \<le> x \<Longrightarrow> 1 \<le> round64 x"
  using round64_mono [of 1 x] by simp

lemma round64_ge_int: "0 < m \<Longrightarrow> m \<le> 2 ^ 53 \<Longrightarrow> of_int m \<le> x \<Longrightarrow> of_int m \<le> round64 x"
  using round64_mono [of "of_int m" x] round64_int [of m] by simp

lemma mult_ge_one: "(1 :: rat) \<le> a \<Longrightarrow> 1 \<le> b \<Longrightarrow> 1 \<le> a * b"
  using mult_mono [of 1 a 1 b] by simp

lemma pow_loop_ge_one: "1 \<le> a \<Longrightarrow> 1 \<le> x \<Longrightarrow> pow_loop i a x = Some r \<Longrightarrow> 1 \<le> r"
proof (induction i a x rule: pow_loop.induct)
  case (2 i a x)
  have "1 \<le> (if odd (Suc i) then round64 (a * x) else a)" "1 \<le> round64 (x * x)"
    using 2(2,3) by (simp_all add: round64_ge_one mult_ge_one)
  then show ?case using 2(1,4) by (simp split: if_splits)
qed simp

lemma pow64_ge_one: "1 \<le> x \<Longrightarrow> pow64 x y = PosInf \<or> (\<exists>r. pow64 x y = Fin r \<and> 1 \<le> r)"
  using pow_loop_ge_one [of 1 x y] by (auto simp: pow64_def split: option.split)

lemma pow_loop_two:
  "pow_loop i (2 ^ p) (2 ^ q) = Some (2 ^ (p + q * i)) \<or> pow_loop i (2 ^ p) (2 ^ q) = None \<and> 4096 \<le> p + q * i"
proof (induction i arbitrary: p q rule: less_induct)
  case (less i)
  show ?case
  proof (cases i)
    case (Suc j)
    show ?thesis
    proof (cases "4096 \<le> q")
      case True
      then have "(2 :: rat) ^ 4096 \<le> 2 ^ q" by (rule power_increasing) simp
      moreover have "4096 \<le> p + q * i" using True Suc by simp
      ultimately show ?thesis by (simp add: Suc)
    next
      case False
      then have "\<not> (2 :: rat) ^ 4096 \<le> 2 ^ q" by (simp add: not_le power_strict_increasing del: power_numeral)
      moreover have "round64 ((2 :: rat) ^ q * 2 ^ q) = 2 ^ (q + q)" "round64 ((2 :: rat) ^ p * 2 ^ q) = 2 ^ (p + q)"
        using round64_power [of "q + q"] round64_power [of "p + q"] by (simp_all add: power_add)
      ultimately have step: "pow_loop i (2 ^ p) (2 ^ q) =
          pow_loop (i div 2) (2 ^ (if odd i then p + q else p)) (2 ^ (q + q))"
        by (simp add: Suc)
      have "(if odd i then p + q else p) + (q + q) * (i div 2) = p + q * i"
      proof -
        obtain j where "i = 2 * j \<or> i = Suc (2 * j)" by (metis evenE oddE Suc_eq_plus1)
        then show ?thesis by (auto simp: algebra_simps)
      qed
      moreover have "i div 2 < i" using Suc by simp
      ultimately show ?thesis using less.IH [of "i div 2" "if odd i then p + q else p" "q + q"] unfolding step by simp
    qed
  qed simp
qed

lemma pow64_two: "pow64 2 y = (if 1024 \<le> y then PosInf else Fin (2 ^ y))"
proof -
  have le: "(2 :: rat) ^ 1024 \<le> 2 ^ y \<longleftrightarrow> 1024 \<le> y" by (rule power_increasing_iff) simp
  show ?thesis using pow_loop_two [of y 0 1] le by (auto simp: pow64_def simp del: power_numeral)
qed

end
