(* ===== verification/GoStrconv.thy ===== *)
theory GoStrconv
  imports GoFloat GoStrings
begin

text \<open>
  The parts of Go's \<open>strconv\<close> and \<open>time\<close> that read numbers, booleans and durations, as functions that give
  nothing where Go gives an error (a value out of range is an error). A machine word has 64 bits. A decimal
  or hexadecimal float is the exact value rounded once.
\<close>

section \<open>Characters\<close>

definition ascii :: "char \<Rightarrow> int" where
  "ascii c = of_char c"

definition is_decimal :: "char \<Rightarrow> bool" where
  "is_decimal c \<longleftrightarrow> 48 \<le> ascii c \<and> ascii c \<le> 57"

text \<open>\<open>c | ('x' - 'X')\<close>, compared with a lower case letter.\<close>

definition lower :: "char \<Rightarrow> int" where
  "lower c = (if 65 \<le> ascii c \<and> ascii c \<le> 90 then ascii c + 32 else ascii c)"

definition digit_value :: "char \<Rightarrow> int option" where
  "digit_value c =
     (if is_decimal c then Some (ascii c - 48)
      else if 97 \<le> lower c \<and> lower c \<le> 122 then Some (lower c - 97 + 10)
      else None)"

section \<open>Integers\<close>

text \<open>The base a prefix asks for, and the rest.\<close>

definition base_prefix :: "string \<Rightarrow> int \<times> string" where
  "base_prefix s =
     (case s of
        z # c # d # r \<Rightarrow>
          if z \<noteq> CHR ''0'' then (10, s)
          else if lower c = 98 then (2, d # r)
          else if lower c = 111 then (8, d # r)
          else if lower c = 120 then (16, d # r)
          else (8, c # d # r)
      | z # r \<Rightarrow> if z = CHR ''0'' then (8, r) else (10, s)
      | [] \<Rightarrow> (10, s))"

fun digits_value :: "bool \<Rightarrow> int \<Rightarrow> int \<Rightarrow> string \<Rightarrow> int option" where
  "digits_value base0 base n [] = Some n"
| "digits_value base0 base n (c # s) =
     (if c = CHR ''_'' \<and> base0 then digits_value base0 base n s
      else case digit_value c of
             None \<Rightarrow> None
           | Some d \<Rightarrow>
               if base \<le> d \<or> 2 ^ 64 \<le> n * base + d then None else digits_value base0 base (n * base + d) s)"

text \<open>\<open>underscoreOK\<close>: what was seen last is a digit, an underscore or something else.\<close>

datatype seen = Nothing | Digit | Underscore | Other

fun underscores_ok :: "bool \<Rightarrow> seen \<Rightarrow> string \<Rightarrow> bool" where
  "underscores_ok hex prev [] \<longleftrightarrow> prev \<noteq> Underscore"
| "underscores_ok hex prev (c # s) \<longleftrightarrow>
     (if is_decimal c \<or> hex \<and> 97 \<le> lower c \<and> lower c \<le> 102 then underscores_ok hex Digit s
      else if c = CHR ''_'' then prev = Digit \<and> underscores_ok hex Underscore s
      else prev \<noteq> Underscore \<and> underscores_ok hex Other s)"

definition drop_sign :: "string \<Rightarrow> string" where
  "drop_sign s = (case s of c # r \<Rightarrow> if c = CHR ''-'' \<or> c = CHR ''+'' then r else s | [] \<Rightarrow> [])"

definition underscoreOK :: "string \<Rightarrow> bool" where
  "underscoreOK s0 =
     (let s = drop_sign s0 in
      case s of
        z # c # r \<Rightarrow>
          if z = CHR ''0'' \<and> (lower c = 98 \<or> lower c = 111 \<or> lower c = 120)
          then underscores_ok (lower c = 120) Digit r
          else underscores_ok False Nothing s
      | _ \<Rightarrow> underscores_ok False Nothing s)"

text \<open>\<open>strconv.ParseUint (s, 0, 64)\<close>, \<open>ParseInt (s, 0, 64)\<close> and \<open>Atoi\<close>.\<close>

definition ParseUint :: "string \<Rightarrow> int option" where
  "ParseUint s =
     (if s = [] then None
      else case base_prefix s of
             (base, r) \<Rightarrow>
               (case digits_value True base 0 r of
                  None \<Rightarrow> None
                | Some n \<Rightarrow> if CHR ''_'' \<in> set r \<and> \<not> underscoreOK s then None else Some n))"

definition signed :: "bool \<Rightarrow> int \<Rightarrow> int option" where
  "signed neg n = (if neg then if 2 ^ 63 < n then None else Some (- n) else if 2 ^ 63 \<le> n then None else Some n)"

definition is_negative :: "string \<Rightarrow> bool" where
  "is_negative s \<longleftrightarrow> HasPrefix s ''-''"

definition ParseInt :: "string \<Rightarrow> int option" where
  "ParseInt s = (case ParseUint (drop_sign s) of None \<Rightarrow> None | Some n \<Rightarrow> signed (is_negative s) n)"

definition Atoi :: "string \<Rightarrow> int option" where
  "Atoi s =
     (if drop_sign s = [] then None
      else case digits_value False 10 0 (drop_sign s) of None \<Rightarrow> None | Some n \<Rightarrow> signed (is_negative s) n)"

definition ParseBool :: "string \<Rightarrow> bool option" where
  "ParseBool s =
     (if s \<in> {''1'', ''t'', ''T'', ''true'', ''TRUE'', ''True''} then Some True
      else if s \<in> {''0'', ''f'', ''F'', ''false'', ''FALSE'', ''False''} then Some False
      else None)"

section \<open>Floats\<close>

text \<open>The mantissa: its digits as an integer, how many of them follow the point, whether there were any, and the
  rest of the text.\<close>

fun mantissa :: "int \<Rightarrow> bool \<Rightarrow> int \<Rightarrow> int \<Rightarrow> bool \<Rightarrow> string \<Rightarrow> int \<times> int \<times> bool \<times> string" where
  "mantissa base dot n places some_digits [] = (n, places, some_digits, [])"
| "mantissa base dot n places some_digits (c # s) =
     (if c = CHR ''_'' then mantissa base dot n places some_digits s
      else if c = CHR ''.'' then
        if dot then (n, places, some_digits, c # s) else mantissa base True n places some_digits s
      else case digit_value c of
             None \<Rightarrow> (n, places, some_digits, c # s)
           | Some d \<Rightarrow>
               if base \<le> d then (n, places, some_digits, c # s)
               else mantissa base dot (n * base + d) (if dot then places + 1 else places) True s)"

text \<open>The digits of an exponent, with underscores; a value from 10000 on does not grow any more.\<close>

fun exponent_digits :: "int \<Rightarrow> string \<Rightarrow> int \<times> string" where
  "exponent_digits e [] = (e, [])"
| "exponent_digits e (c # s) =
     (if c = CHR ''_'' then exponent_digits e s
      else if is_decimal c then exponent_digits (if e < 10000 then e * 10 + (ascii c - 48) else e) s
      else (e, c # s))"

definition exponent :: "string \<Rightarrow> (int \<times> string) option" where
  "exponent s =
     (case drop_sign s of
        [] \<Rightarrow> None
      | c # r \<Rightarrow>
          if \<not> is_decimal c then None
          else (case exponent_digits 0 (c # r) of (e, rest) \<Rightarrow> Some (if is_negative s then - e else e, rest)))"

definition float_of :: "bool \<Rightarrow> rat \<Rightarrow> float64 option" where
  "float_of neg q = (case to_float (if neg then - q else q) of Fin x \<Rightarrow> Some (Fin x) | _ \<Rightarrow> None)"

definition read_float :: "string \<Rightarrow> float64 option" where
  "read_float s0 =
     (let s = drop_sign s0;
          hex = (case s of z # c # _ # _ \<Rightarrow> z = CHR ''0'' \<and> lower c = 120 | _ \<Rightarrow> False);
          base = (if hex then 16 else 10)
      in case mantissa base False 0 0 False (if hex then drop 2 s else s) of
           (n, places, some_digits, r) \<Rightarrow>
             if \<not> some_digits then None
             else
               let scale = (if hex then 2 powi (- 4 * places) else 10 powi (- places));
                   found = (case r of
                              c # r \<Rightarrow> if lower c = (if hex then 112 else 101) then exponent r else None
                            | [] \<Rightarrow> if hex then None else Some (0, []))
               in (case found of
                     None \<Rightarrow> None
                   | Some (e, rest) \<Rightarrow>
                       if rest \<noteq> [] \<or> CHR ''_'' \<in> set s \<and> \<not> underscoreOK s0 then None
                       else float_of (is_negative s0) (of_int n * scale * (if hex then 2 powi e else 10 powi e))))"

definition lowered :: "string \<Rightarrow> int list" where
  "lowered s = map lower s"

definition ParseFloat :: "string \<Rightarrow> float64 option" where
  "ParseFloat s =
     (if lowered s = map ascii ''nan'' then Some NaN
      else if lowered (drop_sign s) \<in> {map ascii ''inf'', map ascii ''infinity''}
      then Some (if is_negative s then NegInf else PosInf)
      else read_float s)"

section \<open>Durations\<close>

text \<open>The leading digits with the rest; too large a number is an error.\<close>

fun leadingInt :: "int \<Rightarrow> string \<Rightarrow> (int \<times> string) option" where
  "leadingInt x [] = Some (x, [])"
| "leadingInt x (c # s) =
     (if \<not> is_decimal c then Some (x, c # s)
      else if 2 ^ 63 div 10 < x \<or> 2 ^ 63 < x * 10 + (ascii c - 48) then None
      else leadingInt (x * 10 + (ascii c - 48)) s)"

text \<open>The digits of a fraction, its scale, and the rest; digits beyond the range are skipped.\<close>

fun leadingFraction :: "bool \<Rightarrow> int \<Rightarrow> int \<Rightarrow> string \<Rightarrow> int \<times> int \<times> string" where
  "leadingFraction overflow x scale [] = (x, scale, [])"
| "leadingFraction overflow x scale (c # s) =
     (if \<not> is_decimal c then (x, scale, c # s)
      else if overflow \<or> (2 ^ 63 - 1) div 10 < x \<or> 2 ^ 63 < x * 10 + (ascii c - 48)
      then leadingFraction True x scale s
      else leadingFraction False (x * 10 + (ascii c - 48)) (scale * 10) s)"

definition unit_of :: "string \<Rightarrow> int option" where
  "unit_of u =
     (if u = ''ns'' then Some 1
      else if u = ''us'' \<or> u = [CHR 0xC2, CHR 0xB5, CHR ''s''] \<or> u = [CHR 0xCE, CHR 0xBC, CHR ''s''] then Some 1000
      else if u = ''ms'' then Some 1000000
      else if u = ''s'' then Some 1000000000
      else if u = ''m'' then Some (60 * 1000000000)
      else if u = ''h'' then Some (3600 * 1000000000)
      else None)"

definition unit_char :: "char \<Rightarrow> bool" where
  "unit_char c \<longleftrightarrow> \<not> (c = CHR ''.'' \<or> is_decimal c)"

text \<open>The digits after a point, their scale and whether there are any, with the rest.\<close>

definition fraction_part :: "string \<Rightarrow> int \<times> int \<times> bool \<times> string" where
  "fraction_part s =
     (if HasPrefix s ''.'' then
        (case leadingFraction False 0 1 (tl s) of (f, scale, r) \<Rightarrow> (f, scale, length r \<noteq> length (tl s), r))
      else (0, 1, False, s))"

text \<open>One number with its unit: its nanoseconds and the rest.\<close>

definition duration_part :: "string \<Rightarrow> (int \<times> string) option" where
  "duration_part s =
     (if s = [] \<or> \<not> (hd s = CHR ''.'' \<or> is_decimal (hd s)) then None
      else
        (case leadingInt 0 s of
           None \<Rightarrow> None
         | Some (v, r) \<Rightarrow>
             (case fraction_part r of
                (f, scale, post, q) \<Rightarrow>
                  if length r = length s \<and> \<not> post then None
                  else
                    (case unit_of (takeWhile unit_char q) of
                       None \<Rightarrow> None
                     | Some u \<Rightarrow>
                         if 2 ^ 63 div u < v then None
                         else
                           let w = v * u + (if 0 < f then
                                     \<lfloor>round64 (round64 (of_int f) * round64 (of_int u / of_int scale))\<rfloor> else 0)
                           in if 2 ^ 63 < w then None else Some (w, dropWhile unit_char q)))))"

lemma leadingInt_shorter: "leadingInt x s = Some (v, r) \<Longrightarrow> length r \<le> length s"
  by (induction x s rule: leadingInt.induct) (auto split: if_splits)

lemma leadingFraction_shorter: "leadingFraction ov x k s = (f, scale, r) \<Longrightarrow> length r \<le> length s"
  by (induction ov x k s rule: leadingFraction.induct) (auto split: if_splits)

lemma unit_of_nonempty: "unit_of u = Some n \<Longrightarrow> u \<noteq> []"
  by (auto simp: unit_of_def)

lemma fraction_part_shorter: "fraction_part s = (f, k, p, q) \<Longrightarrow> length q \<le> length s"
  by (auto simp: fraction_part_def dest: leadingFraction_shorter split: if_splits prod.splits)

lemma duration_part_shorter:
  assumes "duration_part s = Some (w, r)"
  shows "length r < length s"
proof -
  obtain v t where t: "leadingInt 0 s = Some (v, t)"
    using assms by (auto simp: duration_part_def split: if_splits option.splits)
  obtain f k p q where q: "fraction_part t = (f, k, p, q)" by (metis prod_cases4)
  have u: "unit_of (takeWhile unit_char q) \<noteq> None" "r = dropWhile unit_char q"
    using assms t q by (auto simp: duration_part_def Let_def split: if_splits option.splits)
  have "length (takeWhile unit_char q) + length r = length q"
    unfolding u(2) by (metis length_append takeWhile_dropWhile_id)
  moreover have "takeWhile unit_char q \<noteq> []" using u(1) unit_of_nonempty by blast
  ultimately have "length r < length q" by (cases "takeWhile unit_char q") auto
  then show ?thesis using leadingInt_shorter [OF t] fraction_part_shorter [OF q] by simp
qed

function duration_sum :: "int \<Rightarrow> string \<Rightarrow> int option" where
  "duration_sum d [] = Some d"
| "duration_sum d (c # s) =
     (case duration_part (c # s) of
        None \<Rightarrow> None
      | Some (v, r) \<Rightarrow>
          let e = (d + v) mod 2 ^ 64 in if 2 ^ 63 < e then None else duration_sum e r)"
  by pat_completeness auto

termination duration_sum
  by (relation "measure (\<lambda>(d, s). length s)") (auto dest: duration_part_shorter)

definition ParseDuration :: "string \<Rightarrow> int option" where
  "ParseDuration s =
     (let r = drop_sign s in
      if r = ''0'' then Some 0
      else if r = [] then None
      else (case duration_sum 0 r of
              None \<Rightarrow> None
            | Some d \<Rightarrow> if is_negative s then Some (- d) else if 2 ^ 63 \<le> d then None else Some d))"

end
