(* ===== verification/Backoff.thy ===== *)
theory Backoff
  imports Util GoStrconv
begin

text \<open>
  The annotations and labels of a TLSSecret and its retry delays, \<open>src/controllers/sds/annotations.go\<close>.
  A duration is a number of nanoseconds, a multiplier a float.
\<close>

section \<open>Retry policy\<close>

record RetryPolicy =
  BaseDelay :: int
  MaxDelay :: int
  Multiplier :: float64

definition minute :: int where
  "minute = 60 * 1000000000"

definition DefaultRetryBaseDelay :: int where
  "DefaultRetryBaseDelay = 10 * minute"

definition DefaultRetryMaxDelay :: int where
  "DefaultRetryMaxDelay = 168 * 60 * minute"

definition DefaultRetryMultiplier :: float64 where
  "DefaultRetryMultiplier = Fin 2"

definition DefaultRetryPolicy :: RetryPolicy where
  "DefaultRetryPolicy =
     \<lparr>BaseDelay = DefaultRetryBaseDelay, MaxDelay = DefaultRetryMaxDelay, Multiplier = DefaultRetryMultiplier\<rparr>"

text \<open>\<open>m < 1 || IsNaN(m) || IsInf(m)\<close>.\<close>

definition bad_multiplier :: "float64 \<Rightarrow> bool" where
  "bad_multiplier m = (case m of Fin q \<Rightarrow> q < 1 | _ \<Rightarrow> True)"

definition normalize :: "RetryPolicy \<Rightarrow> RetryPolicy" where
  "normalize p =
     (let p = (if BaseDelay p \<le> 0 then p\<lparr>BaseDelay := DefaultRetryBaseDelay\<rparr> else p);
          p = (if MaxDelay p \<le> 0 then p\<lparr>MaxDelay := DefaultRetryMaxDelay\<rparr> else p);
          p = (if bad_multiplier (Multiplier p) then p\<lparr>Multiplier := DefaultRetryMultiplier\<rparr> else p)
      in if MaxDelay p < BaseDelay p then p\<lparr>MaxDelay := BaseDelay p\<rparr> else p)"

text \<open>After \<open>normalize\<close> the multiplier is finite; the other cases are what \<open>math.Pow\<close> gives for them.\<close>

definition grown :: "RetryPolicy \<Rightarrow> nat \<Rightarrow> float64" where
  "grown p n =
     times64 (round64 (of_int (BaseDelay p))) (case Multiplier p of Fin q \<Rightarrow> pow64 q n | f \<Rightarrow> f)"

definition DelayFor :: "RetryPolicy \<Rightarrow> int \<Rightarrow> int" where
  "DelayFor p failureCount =
     (let p = normalize p in
      if failureCount \<le> 1 then BaseDelay p
      else (case grown p (nat (failureCount - 1)) of
              Fin delay \<Rightarrow> if round64 (of_int (MaxDelay p)) \<le> delay then MaxDelay p else \<lfloor>delay\<rfloor>
            | _ \<Rightarrow> MaxDelay p))"

section \<open>Annotations and labels\<close>

definition AnnotationForceRenew :: string where
  "AnnotationForceRenew = ''envoyxds.io/force-renew''"

definition AnnotationPause :: string where
  "AnnotationPause = ''envoyxds.io/pause''"

definition AnnotationForceRenewedAt :: string where
  "AnnotationForceRenewedAt = ''envoyxds.io/force-renewed-at''"

definition metaValue :: "(string, string) gmap \<Rightarrow> (string, string) gmap \<Rightarrow> string \<Rightarrow> string option" where
  "metaValue annotations labels key =
     (case mget annotations key of Some v \<Rightarrow> Some v | None \<Rightarrow> mget labels key)"

definition metaDuration ::
  "(string, string) gmap \<Rightarrow> (string, string) gmap \<Rightarrow> string \<Rightarrow> int option" where
  "metaDuration annotations labels key =
     (case metaValue annotations labels key of
        None \<Rightarrow> None
      | Some v \<Rightarrow>
          if v = [] then None
          else (case ParseDuration v of None \<Rightarrow> None | Some d \<Rightarrow> if d \<le> 0 then None else Some d))"

text \<open>\<open>m >= 1\<close> of a parsed multiplier; infinity is let through and normalised away.\<close>

definition at_least_one :: "float64 \<Rightarrow> bool" where
  "at_least_one m = (case m of Fin q \<Rightarrow> 1 \<le> q | PosInf \<Rightarrow> True | _ \<Rightarrow> False)"

definition RetryPolicyFor ::
  "(string, string) gmap \<Rightarrow> (string, string) gmap \<Rightarrow> RetryPolicy \<Rightarrow> RetryPolicy" where
  "RetryPolicyFor annotations labels defaults =
     (let policy = normalize defaults;
          policy = (case metaDuration annotations labels ''envoyxds.io/retry-base-delay'' of
                      Some d \<Rightarrow> policy\<lparr>BaseDelay := d\<rparr> | None \<Rightarrow> policy);
          policy = (case metaDuration annotations labels ''envoyxds.io/retry-max-delay'' of
                      Some d \<Rightarrow> policy\<lparr>MaxDelay := d\<rparr> | None \<Rightarrow> policy);
          policy = (case metaValue annotations labels ''envoyxds.io/retry-multiplier'' of
                      None \<Rightarrow> policy
                    | Some v \<Rightarrow>
                        (case ParseFloat v of
                           None \<Rightarrow> policy
                         | Some m \<Rightarrow> if at_least_one m then policy\<lparr>Multiplier := m\<rparr> else policy))
      in normalize policy)"

definition annotationValue :: "(string, string) gmap \<Rightarrow> string \<Rightarrow> string option" where
  "annotationValue annotations key = mget annotations key"

definition flagSet :: "(string, string) gmap \<Rightarrow> string \<Rightarrow> bool" where
  "flagSet annotations key =
     (case annotationValue annotations key of
        None \<Rightarrow> False
      | Some v \<Rightarrow> if v = [] then True else (case ParseBool v of Some b \<Rightarrow> b | None \<Rightarrow> True))"

definition IsPaused :: "(string, string) gmap \<Rightarrow> bool" where
  "IsPaused annotations = flagSet annotations AnnotationPause"

definition IsForceRenew :: "(string, string) gmap \<Rightarrow> bool" where
  "IsForceRenew annotations = flagSet annotations AnnotationForceRenew"

definition ForceRenewRequest :: "(string, string) gmap \<Rightarrow> string" where
  "ForceRenewRequest annotations =
     (if \<not> IsForceRenew annotations then []
      else (case annotationValue annotations AnnotationForceRenew of
              None \<Rightarrow> ''true''
            | Some v \<Rightarrow> if v = [] then ''true'' else v))"

section \<open>Facts\<close>

lemma normalize_ok:
  "0 < BaseDelay (normalize p)" "BaseDelay (normalize p) \<le> MaxDelay (normalize p)"
  "\<exists>q. Multiplier (normalize p) = Fin q \<and> 1 \<le> q"
  by (auto simp: normalize_def Let_def DefaultRetryBaseDelay_def DefaultRetryMaxDelay_def DefaultRetryMultiplier_def
      minute_def bad_multiplier_def split: float64.splits if_splits)

lemma normalize_idem: "normalize (normalize p) = normalize p"
  using normalize_ok [of p] by (auto simp: normalize_def [of "normalize p"] bad_multiplier_def)

lemma ForceRenewRequest_empty: "ForceRenewRequest an = [] \<longleftrightarrow> \<not> IsForceRenew an"
  by (simp add: ForceRenewRequest_def split: option.split)

text \<open>What the growth gives: infinity, or a float at least the base.\<close>

lemma grown_cases:
  assumes "0 < b" and "1 \<le> q" and "\<exists>x. 0 < x \<and> b = round64 x"
  shows "times64 b (pow64 q n) = PosInf \<or> (\<exists>d. times64 b (pow64 q n) = Fin d \<and> round64 d = d \<and> b \<le> d)"
proof (cases "pow64 q n = PosInf")
  case True
  then show ?thesis by (simp add: times64_def)
next
  case False
  then obtain r where r: "pow64 q n = Fin r" "1 \<le> r" using pow64_ge_one [OF assms(2)] by blast
  then have le: "b \<le> b * r" using assms(1) mult_left_mono [of 1 r b] by simp
  then have pos: "0 < b * r" using assms(1) by simp
  have "round64 b = b" using assms(3) round64_idem by auto
  then have "b \<le> round64 (b * r)" using round64_mono [OF assms(1) le] by simp
  moreover from this have "\<not> round64 (b * r) \<le> - (2 ^ 1024)" using assms(1) by simp
  ultimately show ?thesis using r(1) round64_idem [OF pos] by (auto simp: times64_def to_float_def)
qed

lemma DelayFor_bounds_lemma:
  "DelayFor p n \<le> MaxDelay (normalize p) \<and>
   (BaseDelay (normalize p) \<le> 2 ^ 53 \<longrightarrow> BaseDelay (normalize p) \<le> DelayFor p n) \<and>
   min (BaseDelay (normalize p)) \<lfloor>round64 (of_int (BaseDelay (normalize p)))\<rfloor> \<le> DelayFor p n"
proof (cases "n \<le> 1")
  case True
  then show ?thesis using normalize_ok(2) by (simp add: DelayFor_def Let_def)
next
  case False
  let ?p = "normalize p"
  let ?b = "round64 (of_int (BaseDelay ?p))"
  obtain q where q: "Multiplier ?p = Fin q" "1 \<le> q" using normalize_ok(3) by blast
  have base: "(0 :: rat) < of_int (BaseDelay ?p)" "0 < MaxDelay ?p" "BaseDelay ?p \<le> MaxDelay ?p"
    using normalize_ok(1,2) [of p] by simp_all
  have "times64 ?b (pow64 q (nat (n - 1))) = PosInf \<or>
      (\<exists>d. times64 ?b (pow64 q (nat (n - 1))) = Fin d \<and> round64 d = d \<and> ?b \<le> d)"
    by (rule grown_cases [OF round64_pos [OF base(1)] q(2)]) (use base(1) in blast)
  then have g: "grown ?p (nat (n - 1)) = PosInf \<or> (\<exists>d. grown ?p (nat (n - 1)) = Fin d \<and> round64 d = d \<and> ?b \<le> d)"
    by (simp add: grown_def q(1))
  show ?thesis
  proof (cases "grown ?p (nat (n - 1)) = PosInf")
    case True
    then show ?thesis using False base(3) by (simp add: DelayFor_def Let_def)
  next
    case False': False
    then obtain d where d: "grown ?p (nat (n - 1)) = Fin d" "round64 d = d" "?b \<le> d" using g by blast
    have eq: "DelayFor p n = (if round64 (of_int (MaxDelay ?p)) \<le> d then MaxDelay ?p else \<lfloor>d\<rfloor>)"
      using False d(1) by (simp add: DelayFor_def Let_def)
    have "d \<le> of_int (MaxDelay ?p)" if "\<not> round64 (of_int (MaxDelay ?p)) \<le> d"
      using round64_mono [of "of_int (MaxDelay ?p)" d] base(2) d(2) that by (cases "d \<le> of_int (MaxDelay ?p)") simp_all
    then have "\<lfloor>d\<rfloor> \<le> MaxDelay ?p" if "\<not> round64 (of_int (MaxDelay ?p)) \<le> d"
      using that floor_mono [of d "of_int (MaxDelay ?p)"] by simp
    moreover have "BaseDelay ?p \<le> \<lfloor>d\<rfloor>" if "BaseDelay ?p \<le> 2 ^ 53"
      using that d(3) round64_int [of "BaseDelay ?p"] normalize_ok(1) [of p] by (simp add: le_floor_iff)
    moreover have "\<lfloor>?b\<rfloor> \<le> \<lfloor>d\<rfloor>" using d(3) by (rule floor_mono)
    ultimately show ?thesis using base(3) unfolding eq by auto
  qed
qed

lemma base_rounds_positive: "0 < \<lfloor>round64 (of_int (BaseDelay (normalize p)))\<rfloor>"
proof -
  have "1 \<le> BaseDelay (normalize p)" using normalize_ok(1) [of p] by simp
  then have "round64 (of_int 1) \<le> round64 (of_int (BaseDelay (normalize p)))"
    by (intro round64_mono) simp_all
  then show ?thesis using round64_int [of 1] by (simp add: less_floor_iff le_floor_iff)
qed

section \<open>The built-in schedule\<close>

lemma default_normal: "normalize DefaultRetryPolicy = DefaultRetryPolicy"
  by (simp add: normalize_def Let_def DefaultRetryPolicy_def DefaultRetryBaseDelay_def DefaultRetryMaxDelay_def
      DefaultRetryMultiplier_def minute_def bad_multiplier_def)

lemma default_fields:
  "BaseDelay DefaultRetryPolicy = 600000000000" "MaxDelay DefaultRetryPolicy = 604800000000000"
  "Multiplier DefaultRetryPolicy = Fin 2"
  by (simp_all add: DefaultRetryPolicy_def DefaultRetryBaseDelay_def DefaultRetryMaxDelay_def
      DefaultRetryMultiplier_def minute_def)

lemma default_rounded:
  "round64 (of_int 600000000000) = 600000000000" "round64 (of_int 604800000000000) = 604800000000000"
  using round64_int [of 600000000000] round64_int [of 604800000000000] by simp_all

lemma grown_default:
  "grown DefaultRetryPolicy k =
     (if 1024 \<le> k then PosInf
      else if 2 ^ 1024 \<le> (600000000000 * 2 ^ k :: rat) then PosInf else Fin (600000000000 * 2 ^ k))"
proof -
  have exact: "round64 (600000000000 * 2 ^ k) = 600000000000 * 2 ^ k"
    using round64_exact [of 600000000000 "int k"] by simp
  have "\<not> (600000000000 * 2 ^ k :: rat) \<le> - (2 ^ 1024)"
    using zero_less_power [of "2 :: rat" k] by (simp add: not_le less_trans [of _ 0])
  then show ?thesis by (simp only: grown_def default_fields default_rounded(1) float64.case pow64_two times64_def
        to_float_def exact if_distrib [of "case_float64 _ _ _ _"] split: if_splits) simp
qed

lemma default_in_range:
  assumes "k < 11"
  shows "(600000000000 * 2 ^ k :: rat) < 2 ^ 1024"
proof -
  have "(2 :: rat) ^ k \<le> 2 ^ 11" using assms by (intro power_increasing) simp_all
  then have "(600000000000 * 2 ^ k :: rat) \<le> 600000000000 * 2 ^ 11" by simp
  also have "\<dots> < 2 ^ 64" by simp
  also have "\<dots> \<le> 2 ^ 1024" by (rule power_increasing) simp_all
  finally show ?thesis .
qed

lemma default_low:
  assumes "k < 11" and "0 < k"
  shows "DelayFor DefaultRetryPolicy (int k + 1) = min (600000000000 * 2 ^ k) 604800000000000"
proof -
  have k: "nat (int k + 1 - 1) = k" "\<not> int k + 1 \<le> 1" using assms(2) by simp_all
  have g: "grown DefaultRetryPolicy k = Fin (600000000000 * 2 ^ k)"
    using grown_default [of k] default_in_range [OF assms(1)] assms(1) by simp
  have i: "(600000000000 * 2 ^ k :: rat) = of_int (600000000000 * 2 ^ k)" by simp
  then have f: "\<lfloor>600000000000 * 2 ^ k :: rat\<rfloor> = 600000000000 * 2 ^ k" by (simp only: floor_of_int)
  have "(604800000000000 \<le> (600000000000 * 2 ^ k :: rat)) = (of_int 604800000000000 \<le> (of_int (600000000000 * 2 ^ k) :: rat))"
    by simp
  then have le: "(604800000000000 \<le> (600000000000 * 2 ^ k :: rat)) = (604800000000000 \<le> (600000000000 * 2 ^ k :: int))"
    by (simp only: of_int_le_iff)
  have "DelayFor DefaultRetryPolicy (int k + 1) =
      (if 604800000000000 \<le> (600000000000 * 2 ^ k :: rat) then 604800000000000 else \<lfloor>600000000000 * 2 ^ k :: rat\<rfloor>)"
    by (simp only: DelayFor_def Let_def default_normal k g float64.case default_fields default_rounded if_False)
  then have "DelayFor DefaultRetryPolicy (int k + 1) =
      (if (604800000000000 :: int) \<le> 600000000000 * 2 ^ k then 604800000000000 else 600000000000 * 2 ^ k)"
    unfolding f le .
  moreover have "(if a \<le> b then a else b) = min b a" for a b :: int by simp
  ultimately show ?thesis by (simp only:)
qed

lemma default_high:
  assumes "11 \<le> k"
  shows "DelayFor DefaultRetryPolicy (int k + 1) = 604800000000000"
    and "(604800000000000 :: int) \<le> 600000000000 * 2 ^ k"
proof -
  have two: "(2 :: rat) ^ 11 \<le> 2 ^ k" "(2 :: int) ^ 11 \<le> 2 ^ k"
    using power_increasing [OF assms, of "2 :: rat"] power_increasing [OF assms, of "2 :: int"] by simp_all
  have big: "604800000000000 \<le> (600000000000 * 2 ^ k :: rat)" using two(1) by simp
  show "DelayFor DefaultRetryPolicy (int k + 1) = 604800000000000"
    using big assms default_rounded(2) by (simp add: DelayFor_def Let_def default_normal grown_default default_fields)
  show "(604800000000000 :: int) \<le> 600000000000 * 2 ^ k" using two(2) by simp
qed

lemma DelayFor_first: "n \<le> 1 \<Longrightarrow> DelayFor p n = BaseDelay (normalize p)"
  by (simp add: DelayFor_def Let_def)

section \<open>Properties\<close>

text \<open>C26. Every delay of a policy is positive, at most its cap and at least its base, whatever the number of failures,
  even where the growth leaves the range of a float. The lower bound is the base itself for a base of up to 2^53
  nanoseconds (104 days), which a float holds exactly; above that it is the base or the float next to it, where that is
  smaller, since the delays are computed in floats.\<close>

theorem delay_bounds:
  "0 < DelayFor p n \<and> DelayFor p n \<le> MaxDelay (normalize p) \<and>
   (BaseDelay (normalize p) \<le> 2 ^ 53 \<longrightarrow> BaseDelay (normalize p) \<le> DelayFor p n) \<and>
   min (BaseDelay (normalize p)) \<lfloor>round64 (of_int (BaseDelay (normalize p)))\<rfloor> \<le> DelayFor p n"
  using DelayFor_bounds_lemma [of p n] normalize_ok(1) [of p] base_rounds_positive [of p] by linarith

theorem delay_bounds_witness:
  "DelayFor \<lparr>BaseDelay = 5, MaxDelay = 3, Multiplier = NaN\<rparr> 7 = 5"
proof -
  let ?p = "\<lparr>BaseDelay = 5, MaxDelay = 3, Multiplier = NaN\<rparr>"
  have n: "BaseDelay (normalize ?p) = 5" "MaxDelay (normalize ?p) = 5"
    by (simp_all add: normalize_def Let_def bad_multiplier_def)
  show ?thesis using delay_bounds [of ?p 7] n by simp
qed

text \<open>The built-in policy is the documented schedule: 10, 20, 40, 80, ... minutes, capped at one week, for every
  number of failures.\<close>

theorem default_schedule:
  assumes "0 < n"
  shows "DelayFor DefaultRetryPolicy (int n) = min (10 * minute * 2 ^ (n - 1)) (168 * 60 * minute)"
proof -
  obtain k where n: "n = Suc k" using assms by (cases n) simp_all
  then have i: "int n = int k + 1" by simp
  consider "k = 0" | "0 < k" "k < 11" | "11 \<le> k" by linarith
  then show ?thesis
  proof cases
    case 1
    then show ?thesis by (simp add: n DelayFor_first default_normal default_fields minute_def)
  next
    case 2
    then show ?thesis unfolding i default_low [OF 2(2,1)] by (simp add: n minute_def)
  next
    case 3
    show ?thesis using default_high(2) [OF 3] unfolding i default_high(1) [OF 3] by (simp add: n minute_def)
  qed
qed

theorem default_schedule_witness: "DelayFor DefaultRetryPolicy 4 = 80 * minute"
  using default_schedule [of 4] by (simp add: minute_def)

end
