(* ===== verification/Storage.thy ===== *)
theory Storage
  imports Conditions
begin

text \<open>
  Where certificates are kept, \<open>src/pkg/xds/sds.go\<close> and \<open>src/pkg/xds/types/sds.go\<close>: the three stores
  (files, Vault, Kubernetes secrets), reading and writing them, and the set-up of the Vault client. The
  file system, the Vault API and the Kubernetes API are functions of a world that a call may change
  (record \<open>outside\<close>); their text answers are strings. A byte slice is a string; a Go error is a
  message with the errors it wraps. A panic is \<open>None\<close>.
\<close>

section \<open>Errors\<close>

datatype sentinel =
    ErrGetCert | ErrReadCert | ErrWriteCert | ErrBadKeyData | ErrCertType | ErrCertNotFound | ErrCertNil
  | ErrVaultNotConfigured | ErrK8sClientNotConfigured | ErrCustomEnvReplace | ErrServiceBusy | ErrRateLimited
  | ErrLetsEncryptAccount

fun sentinel_text :: "sentinel \<Rightarrow> string" where
  "sentinel_text ErrGetCert = ''get cert error''"
| "sentinel_text ErrReadCert = ''read cert error''"
| "sentinel_text ErrWriteCert = ''write cert error''"
| "sentinel_text ErrBadKeyData = ''bad key data: not PEM-encoded''"
| "sentinel_text ErrCertType = ''cert type invalid''"
| "sentinel_text ErrCertNotFound = ''cert not found''"
| "sentinel_text ErrCertNil = ''cert config is nil''"
| "sentinel_text ErrVaultNotConfigured = ''vault not configured''"
| "sentinel_text ErrK8sClientNotConfigured = ''kubernetes client not configured''"
| "sentinel_text ErrCustomEnvReplace = ''not even number of envs to replace''"
| "sentinel_text ErrServiceBusy = ''service busy''"
| "sentinel_text ErrRateLimited = ''rate limited''"
| "sentinel_text ErrLetsEncryptAccount = ''lets encrypt account key invalid''"

text \<open>\<open>Wrapped p e\<close> is \<open>fmt.Errorf(p + "%w", e)\<close>.\<close>

datatype gerror = Sentinel sentinel | Plain string | Wrapped string gerror | WrappedTwo string gerror string gerror

fun Error_text :: "gerror \<Rightarrow> string" where
  "Error_text (Sentinel s) = sentinel_text s"
| "Error_text (Plain t) = t"
| "Error_text (Wrapped p e) = p @ Error_text e"
| "Error_text (WrappedTwo p e q f) = p @ Error_text e @ q @ Error_text f"

fun errors_Is :: "gerror \<Rightarrow> sentinel \<Rightarrow> bool" where
  "errors_Is (Sentinel s) t \<longleftrightarrow> s = t"
| "errors_Is (Plain _) t \<longleftrightarrow> False"
| "errors_Is (Wrapped _ e) t \<longleftrightarrow> errors_Is e t"
| "errors_Is (WrappedTwo _ e _ f) t \<longleftrightarrow> errors_Is e t \<or> errors_Is f t"

section \<open>Configuration of a certificate\<close>

record ChallengeConfig =
  ChallengeType :: string
  ACMEEnv :: string
  DNS01Provider :: string
  CustomDNS01ProviderEnvReplace :: "string list"

record LocalStorageConfig =
  lsc_Path :: string
  Base64CACert :: string
  Base64CAKey :: string
  ExpireAfterDays :: int

record VaultStorageConfig =
  vsc_Path :: string
  vsc_URL :: string
  vsc_Token :: string
  vsc_SkipTLSVerify :: bool

record KubernetesStorageConfig =
  ksc_Namespace :: string
  ksc_SecretName :: string

record StorageConfig =
  stc_Type :: string
  stc_Local :: "LocalStorageConfig option"
  stc_Vault :: "VaultStorageConfig option"
  stc_Kubernetes :: "KubernetesStorageConfig option"

record DomainConfig =
  dc_SecretName :: string
  dc_Domains :: "string list"
  dc_Challenge :: "ChallengeConfig option"
  dc_Config :: StorageConfig

record Cert =
  Pub :: string
  Priv :: string

abbreviation Local :: string where "Local \<equiv> ''Local''"
abbreviation Vault :: string where "Vault \<equiv> ''Vault''"
abbreviation Kubernetes :: string where "Kubernetes \<equiv> ''Kubernetes''"

abbreviation no_cert :: Cert where "no_cert \<equiv> \<lparr>Pub = [], Priv = []\<rparr>"

section \<open>State\<close>

text \<open>The fields of \<open>xds.Config\<close> that only the certificate code reads, constant after start-up. The flag says
  whether there is a Kubernetes client.\<close>

record settings =
  DryRun :: bool
  RenewBeforeExpireInMinutes :: int
  DefaultNamespace :: string
  HasK8sClient :: bool
  Storage_Vault :: "VaultStorageConfig option"
  Account_Email :: string
  Account_PrivateKeyBase64 :: string

record vault_client =
  vc_Address :: string
  vc_Token :: string

text \<open>A client of the certificate authority: its directory and the solvers set on it so far.\<close>

record lego_client =
  lc_CADirURL :: string
  lc_HTTP01 :: bool
  lc_DNS01 :: "string option"

record LetsEncrypt =
  le_Email :: string
  le_Key :: string
  le_Registration :: "string option"
  le_client :: "lego_client option"

text \<open>What the certificate code changes: the shared clients of \<open>xds.Config\<close>, the process environment and the
  world.\<close>

record 'w certs =
  LeClient :: "LetsEncrypt option"
  VaultClient :: "vault_client option"
  environ :: "(string, string) gmap"
  world :: 'w

section \<open>The outside\<close>

record k8s_secret =
  ks_Type :: string
  ks_Labels :: "(string, string) gmap"
  ks_Data :: "(string, string) gmap"
  ks_rest :: string

text \<open>A value in Vault's answer: a string, or anything else with its \<open>%T %#v\<close> text.\<close>

datatype vault_value = VString string | VOther string

text \<open>Reading a file: its contents, no such file, or another error with what was read before it.\<close>

datatype file_read = Contents string | Missing | Broken string string

text \<open>\<open>k8s_Get\<close> is the read of the client the manager hands out, which answers from its cache. \<open>k8s_live\<close>, what the
  API server itself has, is there for the statements; the code never reads it.\<close>

record 'w outside =
  k8s_live :: "'w \<Rightarrow> nsname \<Rightarrow> k8s_secret get"
  k8s_Get :: "'w \<Rightarrow> nsname \<Rightarrow> k8s_secret get"
  k8s_Create :: "'w \<Rightarrow> nsname \<Rightarrow> k8s_secret \<Rightarrow> 'w \<times> string option"
  k8s_Update :: "'w \<Rightarrow> nsname \<Rightarrow> k8s_secret \<Rightarrow> 'w \<times> string option"
  kv_Get :: "'w \<Rightarrow> vault_client \<Rightarrow> string \<Rightarrow> string \<Rightarrow> string + (string, vault_value) gmap"
  kv_Put :: "'w \<Rightarrow> vault_client \<Rightarrow> string \<Rightarrow> string \<Rightarrow> (string, vault_value) gmap \<Rightarrow> 'w \<times> string option"
  sys_Mount :: "'w \<Rightarrow> vault_client \<Rightarrow> string \<Rightarrow> 'w \<times> string option"
  vault_NewClient :: "string \<Rightarrow> string option"
  url_JoinPath :: "string \<Rightarrow> string \<Rightarrow> string + string"
  http_NewRequest :: "string \<Rightarrow> string option"
  http_Do :: "'w \<Rightarrow> string \<Rightarrow> string \<Rightarrow> string + int"
  Stat_missing :: "'w \<Rightarrow> string \<Rightarrow> bool"
  ReadFile :: "'w \<Rightarrow> string \<Rightarrow> file_read"
  MkdirAll :: "'w \<Rightarrow> string \<Rightarrow> 'w \<times> string option"
  WriteFile :: "'w \<Rightarrow> string \<Rightarrow> string \<Rightarrow> 'w \<times> string option"

text \<open>The error a context has at the start of a read, and the one it gets while the read waits.\<close>

type_synonym ctx = "string option \<times> string option"

section \<open>File names\<close>

text \<open>\<open>filepath.Clean\<close> on Unix: the elements of the path, the ones so far in reverse.\<close>

fun clean_parts :: "bool \<Rightarrow> string list \<Rightarrow> string list \<Rightarrow> string list" where
  "clean_parts rooted out [] = rev out"
| "clean_parts rooted out (p # ps) =
     (if p = [] \<or> p = ''.'' then clean_parts rooted out ps
      else if p = ''..'' then
        (case out of
           [] \<Rightarrow> clean_parts rooted (if rooted then [] else [p]) ps
         | q # out' \<Rightarrow> clean_parts rooted (if q \<noteq> ''..'' then out' else p # out) ps)
      else clean_parts rooted (p # out) ps)"

definition Clean :: "string \<Rightarrow> string" where
  "Clean path =
     (let rooted = HasPrefix path ''/''; body = Join (clean_parts rooted [] (Split path (CHR ''/''))) ''/''
      in if rooted then CHR ''/'' # body else if body = [] then ''.'' else body)"

definition filepath_Join :: "string \<Rightarrow> string \<Rightarrow> string" where
  "filepath_Join dir name = (if dir \<noteq> [] then Clean (dir @ ''/'' @ name) else if name \<noteq> [] then Clean name else [])"

definition local_path :: "DomainConfig \<Rightarrow> string" where
  "local_path d =
     (case stc_Local (dc_Config d) of
        Some l \<Rightarrow> if lsc_Path l \<noteq> [] then lsc_Path l else ''./''
      | None \<Rightarrow> ''./'')"

definition pubPath :: "DomainConfig \<Rightarrow> string" where
  "pubPath d = filepath_Join (local_path d) (dc_SecretName d @ ''.crt'')"

definition privPath :: "DomainConfig \<Rightarrow> string" where
  "privPath d = filepath_Join (local_path d) (dc_SecretName d @ ''.key'')"

text \<open>The Kubernetes secret of a certificate: its namespace and name.\<close>

definition k8s_key :: "settings \<Rightarrow> DomainConfig \<Rightarrow> nsname" where
  "k8s_key cfg d =
     (case stc_Kubernetes (dc_Config d) of
        None \<Rightarrow> (DefaultNamespace cfg, dc_SecretName d)
      | Some k \<Rightarrow>
          (if ksc_Namespace k \<noteq> [] then ksc_Namespace k else DefaultNamespace cfg,
           if ksc_SecretName k \<noteq> [] then ksc_SecretName k else dc_SecretName d))"

section \<open>Reading\<close>

definition empty_half :: "Cert \<Rightarrow> bool" where
  "empty_half c \<longleftrightarrow> Pub c = [] \<or> Priv c = []"

definition nil_check :: "Cert \<Rightarrow> Cert \<times> gerror option" where
  "nil_check c = (c, if empty_half c then Some (Sentinel ErrCertNil) else None)"

definition read_local :: "'w outside \<Rightarrow> 'w \<Rightarrow> DomainConfig \<Rightarrow> Cert \<times> gerror option" where
  "read_local api w d =
     (if Stat_missing api w (pubPath d) then (no_cert, Some (Sentinel ErrCertNotFound))
      else if Stat_missing api w (privPath d) then (no_cert, Some (Sentinel ErrCertNotFound))
      else (case ReadFile api w (pubPath d) of
              Missing \<Rightarrow> (no_cert, Some (Sentinel ErrCertNotFound))
            | Broken part e \<Rightarrow> (no_cert\<lparr>Pub := part\<rparr>, Some (Plain e))
            | Contents pub \<Rightarrow>
                (case ReadFile api w (privPath d) of
                   Missing \<Rightarrow> (no_cert\<lparr>Pub := pub\<rparr>, Some (Sentinel ErrCertNotFound))
                 | Broken part e \<Rightarrow> (\<lparr>Pub = pub, Priv = part\<rparr>, Some (Plain e))
                 | Contents priv \<Rightarrow> nil_check \<lparr>Pub = pub, Priv = priv\<rparr>)))"

text \<open>The decoder's message is without the offset it reports.\<close>

definition vault_bytes :: "string \<Rightarrow> vault_value \<Rightarrow> gerror + string" where
  "vault_bytes what v =
     (case v of
        VOther t \<Rightarrow> Inl (Plain (''value type assertion failed: '' @ t))
      | VString s \<Rightarrow>
          (case DecodeString s of
             None \<Rightarrow> Inl (Wrapped (''unable to decode '' @ what @ '' key: '') (Plain ''illegal base64 data''))
           | Some b \<Rightarrow> Inr b))"

definition read_vault :: "'w outside \<Rightarrow> vault_client \<Rightarrow> 'w \<Rightarrow> string \<Rightarrow> string \<Rightarrow> Cert \<times> gerror option" where
  "read_vault api client w mount name =
     (case kv_Get api w client mount name of
        Inl e \<Rightarrow>
          (no_cert, Some (if Contains e ''secret not found'' then Sentinel ErrCertNotFound
                          else Wrapped ''unable to read secret: '' (Plain e)))
      | Inr data \<Rightarrow>
          (case (mget data ''Pub'', mget data ''Priv'') of
             (Some p, Some q) \<Rightarrow>
               (case vault_bytes ''public'' p of
                  Inl e \<Rightarrow> (no_cert, Some e)
                | Inr pub \<Rightarrow>
                    (case vault_bytes ''private'' q of
                       Inl e \<Rightarrow> (no_cert\<lparr>Pub := pub\<rparr>, Some e)
                     | Inr priv \<Rightarrow> nil_check \<lparr>Pub = pub, Priv = priv\<rparr>))
           | _ \<Rightarrow> (no_cert, Some (Sentinel ErrCertNil))))"

text \<open>Both kinds of Kubernetes secret have their data under the same two keys.\<close>

definition read_kubernetes :: "'w outside \<Rightarrow> settings \<Rightarrow> 'w \<Rightarrow> DomainConfig \<Rightarrow> Cert \<times> gerror option" where
  "read_kubernetes api cfg w d =
     (case k8s_Get api w (k8s_key cfg d) of
        NotFound \<Rightarrow> (no_cert, Some (Sentinel ErrCertNotFound))
      | GetError e \<Rightarrow> (no_cert, Some (Wrapped ''unable to read kubernetes secret: '' (Plain e)))
      | Found s \<Rightarrow>
          nil_check
            (if ks_Type s = ''kubernetes.io/tls''
             then \<lparr>Pub = mstr (ks_Data s) ''tls.crt'', Priv = mstr (ks_Data s) ''tls.key''\<rparr>
             else \<lparr>Pub = mstr (ks_Data s) ''tls.crt'', Priv = mstr (ks_Data s) ''tls.key''\<rparr>))"

definition StorageConfigRead ::
  "'w outside \<Rightarrow> settings \<Rightarrow> ctx \<Rightarrow> 'w certs \<Rightarrow> DomainConfig \<Rightarrow> (Cert \<times> gerror option) option" where
  "StorageConfigRead api cfg ctx s d =
     (case fst ctx of
        Some e \<Rightarrow> Some (no_cert, Some (Plain e))
      | None \<Rightarrow>
          let t = stc_Type (dc_Config d) in
          if t = Local then Some (read_local api (world s) d)
          else if t = Vault then
            (case stc_Vault (dc_Config d) of
               None \<Rightarrow> Some (no_cert, Some (Sentinel ErrVaultNotConfigured))
             | Some v \<Rightarrow>
                 (case snd ctx of
                    Some e \<Rightarrow> Some (no_cert, Some (Plain e))
                  | None \<Rightarrow>
                      (case VaultClient s of
                         None \<Rightarrow> None
                       | Some client \<Rightarrow> Some (read_vault api client (world s) (vsc_Path v) (dc_SecretName d)))))
          else if t = Kubernetes then
            Some (if \<not> HasK8sClient cfg then (no_cert, Some (Sentinel ErrK8sClientNotConfigured))
                  else read_kubernetes api cfg (world s) d)
          else Some (no_cert, Some (Plain ''unknown storage type'')))"

section \<open>Writing\<close>

definition write_local :: "'w outside \<Rightarrow> 'w \<Rightarrow> DomainConfig \<Rightarrow> Cert \<Rightarrow> 'w \<times> gerror option" where
  "write_local api w d c =
     (case MkdirAll api w (local_path d) of
        (w, Some e) \<Rightarrow> (w, Some (Plain e))
      | (w, None) \<Rightarrow>
          (case WriteFile api w (pubPath d) (Pub c) of
             (w, Some e) \<Rightarrow> (w, Some (Plain e))
           | (w, None) \<Rightarrow>
               (case WriteFile api w (privPath d) (Priv c) of
                  (w, Some e) \<Rightarrow> (w, Some (Plain e))
                | (w, None) \<Rightarrow> (w, None))))"

text \<open>The client sends the data as JSON, where a byte slice is its base64 text.\<close>

definition certificateData :: "Cert \<Rightarrow> (string, vault_value) gmap" where
  "certificateData c =
     [(''Pub'', VString (EncodeToString (Pub c))), (''Priv'', VString (EncodeToString (Priv c)))]"

definition write_vault ::
  "'w outside \<Rightarrow> vault_client \<Rightarrow> 'w \<Rightarrow> string \<Rightarrow> string \<Rightarrow> Cert \<Rightarrow> 'w \<times> gerror option" where
  "write_vault api client w mount name c =
     (case kv_Put api w client mount name (certificateData c) of
        (w, None) \<Rightarrow> (w, None)
      | (w, Some putErr) \<Rightarrow>
          if Contains putErr ''no handler for route'' \<or> Contains putErr ''404'' then
            (case sys_Mount api w client mount of
               (w, Some mountErr) \<Rightarrow>
                 (w, Some (WrappedTwo ''unable to write secret and failed to create KV mount: write error: ''
                             (Plain putErr) '', mount error: '' (Plain mountErr)))
             | (w, None) \<Rightarrow>
                 (case kv_Put api w client mount name (certificateData c) of
                    (w, None) \<Rightarrow> (w, None)
                  | (w, Some retryErr) \<Rightarrow>
                      (w, Some (Wrapped ''unable to write secret after creating mount: '' (Plain retryErr)))))
          else (w, Some (Wrapped ''unable to write secret: '' (Plain putErr))))"

definition tls_secret :: "DomainConfig \<Rightarrow> Cert \<Rightarrow> k8s_secret" where
  "tls_secret d c =
     \<lparr>ks_Type = ''kubernetes.io/tls'',
      ks_Labels = [(''app.kubernetes.io/managed-by'', ''xds-controller''), (''envoyxds.io/secret-name'', dc_SecretName d)],
      ks_Data = [(''tls.crt'', Pub c), (''tls.key'', Priv c)], ks_rest = []\<rparr>"

definition updated_secret :: "DomainConfig \<Rightarrow> Cert \<Rightarrow> k8s_secret \<Rightarrow> k8s_secret" where
  "updated_secret d c old =
     old\<lparr>ks_Data := ks_Data (tls_secret d c), ks_Type := ''kubernetes.io/tls'',
         ks_Labels := mset_at ''envoyxds.io/secret-name'' (dc_SecretName d)
                        (mset_at ''app.kubernetes.io/managed-by'' ''xds-controller'' (ks_Labels old))\<rparr>"

definition write_kubernetes :: "'w outside \<Rightarrow> settings \<Rightarrow> 'w \<Rightarrow> DomainConfig \<Rightarrow> Cert \<Rightarrow> 'w \<times> gerror option" where
  "write_kubernetes api cfg w d c =
     (case k8s_Get api w (k8s_key cfg d) of
        NotFound \<Rightarrow>
          (case k8s_Create api w (k8s_key cfg d) (tls_secret d c) of
             (w, Some e) \<Rightarrow> (w, Some (Wrapped ''unable to create kubernetes secret: '' (Plain e)))
           | (w, None) \<Rightarrow> (w, None))
      | GetError e \<Rightarrow> (w, Some (Wrapped ''unable to get kubernetes secret: '' (Plain e)))
      | Found old \<Rightarrow>
          (case k8s_Update api w (k8s_key cfg d) (updated_secret d c old) of
             (w, Some e) \<Rightarrow> (w, Some (Wrapped ''unable to update kubernetes secret: '' (Plain e)))
           | (w, None) \<Rightarrow> (w, None)))"

definition StorageConfigWrite ::
  "'w outside \<Rightarrow> settings \<Rightarrow> 'w certs \<Rightarrow> DomainConfig \<Rightarrow> Cert \<Rightarrow> ('w certs \<times> gerror option) option" where
  "StorageConfigWrite api cfg s d c =
     (let in_world = (\<lambda>(w, e). Some (s\<lparr>world := w\<rparr>, e)); t = stc_Type (dc_Config d) in
      if DryRun cfg then Some (s, None)
      else if t = Local then in_world (write_local api (world s) d c)
      else if t = Vault then
        (case stc_Vault (dc_Config d) of
           None \<Rightarrow> Some (s, Some (Sentinel ErrVaultNotConfigured))
         | Some v \<Rightarrow>
             if empty_half c then Some (s, None)
             else (case VaultClient s of
                     None \<Rightarrow> None
                   | Some client \<Rightarrow> in_world (write_vault api client (world s) (vsc_Path v) (dc_SecretName d) c)))
      else if t = Kubernetes then
        if \<not> HasK8sClient cfg then Some (s, Some (Sentinel ErrK8sClientNotConfigured))
        else in_world (write_kubernetes api cfg (world s) d c)
      else Some (s, Some (Plain ''unknown storage type'')))"

section \<open>Set-up of Vault\<close>

definition CheckVaultWriteAccess :: "'w certs \<Rightarrow> DomainConfig \<Rightarrow> gerror option" where
  "CheckVaultWriteAccess s d =
     (if stc_Vault (dc_Config d) = None then Some (Sentinel ErrVaultNotConfigured)
      else if VaultClient s = None then Some (Sentinel ErrVaultNotConfigured)
      else None)"

definition check_vault ::
  "'w outside \<Rightarrow> 'w \<Rightarrow> VaultStorageConfig \<Rightarrow> gerror option" where
  "check_vault api w v =
     (case url_JoinPath api (vsc_URL v) (vsc_Path v) of
        Inl e \<Rightarrow> Some (Plain e)
      | Inr url \<Rightarrow>
          (case http_NewRequest api url of
             Some e \<Rightarrow> Some (Plain e)
           | None \<Rightarrow>
               (case http_Do api w url (vsc_Token v) of
                  Inl e \<Rightarrow> Some (Wrapped (''[Vault] error to access path '' @ vsc_Path v @ '': '') (Plain e))
                | Inr answer \<Rightarrow>
                    if answer \<noteq> 200
                    then Some (Plain (''[Vault] error to get vault path '' @ vsc_Path v @ [CHR 0x0A] @
                                '' response code: '' @ decimal (nat answer)))
                    else None)))"

definition InitStorage ::
  "'w outside \<Rightarrow> settings \<Rightarrow> 'w certs \<Rightarrow> StorageConfig \<Rightarrow> ('w certs \<times> gerror option) option" where
  "InitStorage api cfg s cf =
     (if stc_Type cf = Vault then
        (case stc_Vault cf of
           None \<Rightarrow> None
         | Some v \<Rightarrow>
             (case vault_NewClient api (vsc_URL v) of
                Some e \<Rightarrow> Some (s\<lparr>VaultClient := None\<rparr>, Some (Wrapped ''[Vault] unable to initialize client: '' (Plain e)))
              | None \<Rightarrow>
                  Some (s\<lparr>VaultClient := Some \<lparr>vc_Address = vsc_URL v, vc_Token = vsc_Token v\<rparr>\<rparr>,
                        check_vault api (world s) v)))
      else if stc_Type cf = Local then Some (s, None)
      else if stc_Type cf = Kubernetes then
        Some (s, if \<not> HasK8sClient cfg then Some (Sentinel ErrK8sClientNotConfigured) else None)
      else Some (s, Some (Plain ''storage type invalid'')))"

section \<open>Facts about file names\<close>

lemma Split_append: "c \<notin> set e \<Longrightarrow> Split (n @ e) c = butlast (Split n c) @ [last (Split n c) @ e]"
proof (induction n rule: length_induct)
  case (1 n)
  show ?case
  proof (cases "c \<in> set n")
    case False
    then show ?thesis using 1(2) by (simp add: Split_no_sep)
  next
    case True
    then obtain a b where n: "n = a @ c # b" by (metis split_list)
    then have "Split (b @ e) c = butlast (Split b c) @ [last (Split b c) @ e]" using 1 by simp
    then show ?thesis by (simp add: n Split_append_sep butlast_append)
  qed
qed

lemma clean_parts_last:
  "p \<notin> {[], ''.'', ''..''} \<Longrightarrow> \<exists>r. clean_parts rooted out (ps @ [p]) = r @ [p]"
  by (induction rooted out ps rule: clean_parts.induct) (auto split: list.splits)

lemma Join_last: "\<exists>r. Join (ps @ [p]) sep = r @ p"
proof (induction ps rule: induct_list012)
  case (3 p q ps)
  then show ?case by auto
qed auto

lemma Clean_append:
  assumes "\<forall>x. x @ e \<notin> {[], ''.'', ''..''}" and "CHR ''/'' \<notin> set e"
  shows "\<exists>r. Clean (pre @ e) = r @ e"
proof -
  let ?parts = "Split pre (CHR ''/'')"
  let ?rooted = "HasPrefix (pre @ e) ''/''"
  have l: "last ?parts @ e \<notin> {[], ''.'', ''..''}" using assms(1) by blast
  obtain r where r: "clean_parts ?rooted [] (butlast ?parts @ [last ?parts @ e]) = r @ [last ?parts @ e]"
    using clean_parts_last [OF l] by (rule exE)
  obtain q where q: "Join (r @ [last ?parts @ e]) ''/'' = q @ last ?parts @ e"
    using Join_last [of r "last ?parts @ e" "''/''"] by (rule exE)
  have "last ?parts @ e \<noteq> []" using assms(1) by blast
  then have ne: "(q @ last ?parts @ e = []) = False" by blast
  have "Clean (pre @ e) = (if ?rooted then CHR ''/'' # q @ last ?parts @ e else q @ last ?parts @ e)"
    by (simp only: Clean_def Split_append [OF assms(2)] r q Let_def ne if_False)
  also have "\<dots> = ((if ?rooted then ''/'' else []) @ q @ last ?parts) @ e" by simp
  finally show ?thesis by blast
qed

lemma Join_append:
  assumes "\<forall>x. x @ e \<notin> {[], ''.'', ''..''}" and "CHR ''/'' \<notin> set e"
  shows "\<exists>r. filepath_Join dir (name @ e) = r @ e"
proof (cases "dir = []")
  case True
  have "name @ e \<noteq> []" using assms(1) by blast
  then show ?thesis using True Clean_append [OF assms, of name] by (simp only: filepath_Join_def simp_thms if_True if_False)
next
  case False
  then show ?thesis using Clean_append [OF assms, of "dir @ ''/'' @ name"]
    by (simp only: filepath_Join_def simp_thms if_True append.assoc)
qed

lemma cert_paths_differ: "pubPath d \<noteq> privPath d"
proof -
  have a: "\<exists>r. pubPath d = r @ ''.crt''" unfolding pubPath_def
    by (rule Join_append) (auto simp: append_eq_Cons_conv)
  have b: "\<exists>r. privPath d = r @ ''.key''" unfolding privPath_def
    by (rule Join_append) (auto simp: append_eq_Cons_conv)
  from a b show ?thesis by auto
qed

section \<open>Reading what was written\<close>

text \<open>What the three services document. The API server stores the type and the data of a secret as they were sent
  (its metadata is its own, and the cache the client reads from follows later); Vault and the file system give
  back what a successful write stored.\<close>

definition same_data :: "k8s_secret \<Rightarrow> k8s_secret get \<Rightarrow> bool" where
  "same_data s got \<longleftrightarrow> (case got of Found s' \<Rightarrow> ks_Type s' = ks_Type s \<and> ks_Data s' = ks_Data s | _ \<Rightarrow> False)"

definition keeps_writes :: "'w outside \<Rightarrow> bool" where
  "keeps_writes api \<longleftrightarrow>
     (\<forall>w key s w'. k8s_Create api w key s = (w', None) \<longrightarrow> same_data s (k8s_live api w' key)) \<and>
     (\<forall>w key s w'. k8s_Update api w key s = (w', None) \<longrightarrow> same_data s (k8s_live api w' key)) \<and>
     (\<forall>w c m n data w'. kv_Put api w c m n data = (w', None) \<longrightarrow> kv_Get api w' c m n = Inr data) \<and>
     (\<forall>w p t w'. WriteFile api w p t = (w', None) \<longrightarrow>
        ReadFile api w' p = Contents t \<and> \<not> Stat_missing api w' p \<and>
        (\<forall>q. q \<noteq> p \<longrightarrow> ReadFile api w' q = ReadFile api w q \<and> Stat_missing api w' q = Stat_missing api w q))"

text \<open>The same services, read past the cache.\<close>

definition past_cache :: "'w outside \<Rightarrow> 'w outside" where
  "past_cache api = api\<lparr>k8s_Get := k8s_live api\<rparr>"

text \<open>A later state in which the place of a certificate has not been written again.\<close>

definition same_place :: "'w outside \<Rightarrow> settings \<Rightarrow> DomainConfig \<Rightarrow> 'w certs \<Rightarrow> 'w certs \<Rightarrow> bool" where
  "same_place api cfg d s s' \<longleftrightarrow> VaultClient s' = VaultClient s \<and>
     (\<forall>p \<in> {pubPath d, privPath d}. ReadFile api (world s') p = ReadFile api (world s) p \<and>
        Stat_missing api (world s') p = Stat_missing api (world s) p) \<and>
     (\<forall>c m. kv_Get api (world s') c m (dc_SecretName d) = kv_Get api (world s) c m (dc_SecretName d)) \<and>
     k8s_live api (world s') (k8s_key cfg d) = k8s_live api (world s) (k8s_key cfg d)"

text \<open>The cache has caught up with the API server on the secret.\<close>

definition caught_up :: "'w outside \<Rightarrow> settings \<Rightarrow> DomainConfig \<Rightarrow> 'w certs \<Rightarrow> bool" where
  "caught_up api cfg d s \<longleftrightarrow> k8s_Get api (world s) (k8s_key cfg d) = k8s_live api (world s) (k8s_key cfg d)"

lemma keeps_k8s:
  assumes "keeps_writes api"
  shows "k8s_Create api w key s = (w', None) \<Longrightarrow> same_data s (k8s_live api w' key)"
    and "k8s_Update api w key s = (w', None) \<Longrightarrow> same_data s (k8s_live api w' key)"
  using assms unfolding keeps_writes_def by blast+

lemma keeps_vault: "keeps_writes api \<Longrightarrow> kv_Put api w c m n data = (w', None) \<Longrightarrow> kv_Get api w' c m n = Inr data"
  unfolding keeps_writes_def by blast

lemma keeps_files:
  assumes "keeps_writes api" and "WriteFile api w p t = (w', None)"
  shows "ReadFile api w' p = Contents t" and "\<not> Stat_missing api w' p"
    and "q \<noteq> p \<Longrightarrow> ReadFile api w' q = ReadFile api w q"
    and "q \<noteq> p \<Longrightarrow> Stat_missing api w' q = Stat_missing api w q"
  using assms unfolding keeps_writes_def by blast+

lemma read_past_cache [simp]:
  "read_local (past_cache api) w d = read_local api w d" "read_vault (past_cache api) client w mount name = read_vault api client w mount name"
  by (simp_all add: past_cache_def read_local_def read_vault_def split: file_read.split)

lemma nil_check_ok: "\<not> empty_half c \<Longrightarrow> nil_check \<lparr>Pub = Pub c, Priv = Priv c\<rparr> = (c, None)"
  by (simp add: nil_check_def empty_half_def)

lemma read_write_local:
  assumes "keeps_writes api" and "write_local api w d c = (w', None)" and "\<not> empty_half c"
  shows "read_local api w' d = (c, None)"
proof -
  obtain w1 w2 where w: "WriteFile api w1 (pubPath d) (Pub c) = (w2, None)"
    "WriteFile api w2 (privPath d) (Priv c) = (w', None)"
    using assms(2) by (auto simp: write_local_def split: prod.splits option.splits)
  note a = keeps_files [OF assms(1) w(1)] and b = keeps_files [OF assms(1) w(2)]
  have "ReadFile api w' (pubPath d) = Contents (Pub c)" "\<not> Stat_missing api w' (pubPath d)"
    using a(1,2) b(3,4) [OF cert_paths_differ] by simp_all
  then show ?thesis using b(1,2) assms(3) by (simp add: read_local_def nil_check_ok)
qed

lemma read_certificateData:
  assumes "kv_Get api w client mount name = Inr (certificateData c)" and "\<not> empty_half c"
  shows "read_vault api client w mount name = (c, None)"
  using assms by (simp add: read_vault_def certificateData_def mget_def vault_bytes_def nil_check_ok)

lemma read_write_vault:
  assumes "keeps_writes api" and "write_vault api client w mount name c = (w', None)" and "\<not> empty_half c"
  shows "read_vault api client w' mount name = (c, None)"
proof -
  have "\<exists>w0. kv_Put api w0 client mount name (certificateData c) = (w', None)"
    using assms(2) by (auto simp: write_vault_def split: prod.splits option.splits if_splits)
  then obtain w0 where "kv_Put api w0 client mount name (certificateData c) = (w', None)" ..
  from read_certificateData [OF keeps_vault [OF assms(1) this] assms(3)] show ?thesis .
qed

lemma read_write_kubernetes:
  assumes "keeps_writes api" and "write_kubernetes api cfg w d c = (w', None)" and "\<not> empty_half c"
  shows "read_kubernetes (past_cache api) cfg w' d = (c, None)"
proof -
  have "\<exists>s. (k8s_Create api w (k8s_key cfg d) s = (w', None) \<or> k8s_Update api w (k8s_key cfg d) s = (w', None)) \<and>
      ks_Data s = ks_Data (tls_secret d c)"
    using assms(2) by (auto simp: write_kubernetes_def updated_secret_def split: get.splits prod.splits option.splits)
  then obtain s where "same_data s (k8s_live api w' (k8s_key cfg d))" "ks_Data s = ks_Data (tls_secret d c)"
    using keeps_k8s [OF assms(1)] by blast
  then have "\<exists>s. k8s_live api w' (k8s_key cfg d) = Found s \<and> ks_Data s = ks_Data (tls_secret d c)"
    by (auto simp: same_data_def split: get.splits)
  then show ?thesis
    using assms(3) by (auto simp: past_cache_def read_kubernetes_def tls_secret_def mstr_def mget_def nil_check_ok)
qed

lemma write_lands:
  assumes "keeps_writes api" and "StorageConfigWrite api cfg s d c = Some (s', None)"
    and "\<not> DryRun cfg" and "\<not> empty_half c"
  shows "StorageConfigRead (past_cache api) cfg (None, None) s' d = Some (c, None)"
proof -
  let ?t = "stc_Type (dc_Config d)"
  consider "?t = Local" | "?t = Vault" | "?t = Kubernetes"
    using assms(2,3) by (auto simp: StorageConfigWrite_def Let_def split: if_splits)
  then show ?thesis
  proof cases
    case 1
    obtain w where "write_local api (world s) d c = (w, None)" "s' = s\<lparr>world := w\<rparr>"
      using assms(2,3) 1 by (auto simp: StorageConfigWrite_def Let_def split: prod.splits)
    then show ?thesis using read_write_local [OF assms(1) _ assms(4)] 1 by (simp add: StorageConfigRead_def Let_def)
  next
    case 2
    obtain v client w where "stc_Vault (dc_Config d) = Some v" "VaultClient s = Some client"
      "write_vault api client (world s) (vsc_Path v) (dc_SecretName d) c = (w, None)" "s' = s\<lparr>world := w\<rparr>"
      using assms(2,3,4) 2 by (auto simp: StorageConfigWrite_def Let_def split: prod.splits option.splits)
    then show ?thesis using read_write_vault [OF assms(1) _ assms(4)] 2 by (simp add: StorageConfigRead_def Let_def)
  next
    case 3
    obtain w where "HasK8sClient cfg" "write_kubernetes api cfg (world s) d c = (w, None)" "s' = s\<lparr>world := w\<rparr>"
      using assms(2,3) 3 by (auto simp: StorageConfigWrite_def Let_def split: prod.splits if_splits)
    then show ?thesis using read_write_kubernetes [OF assms(1) _ assms(4)] 3 by (simp add: StorageConfigRead_def Let_def)
  qed
qed

text \<open>Later the read of the code gives what was there.\<close>

lemma read_later:
  assumes "same_place api cfg d s s'" and "stc_Type (dc_Config d) = Kubernetes \<longrightarrow> caught_up api cfg d s'"
  shows "StorageConfigRead api cfg ctx s' d = StorageConfigRead (past_cache api) cfg ctx s d"
proof -
  have "read_local api (world s') d = read_local api (world s) d"
    "read_vault api client (world s') mount (dc_SecretName d) = read_vault api client (world s) mount (dc_SecretName d)" for client mount
    using assms(1) by (simp_all add: same_place_def read_local_def read_vault_def split: file_read.split)
  moreover have "read_kubernetes api cfg (world s') d = read_kubernetes (past_cache api) cfg (world s) d"
    if "stc_Type (dc_Config d) = Kubernetes"
    using assms that by (simp add: same_place_def caught_up_def read_kubernetes_def past_cache_def)
  moreover have "VaultClient s' = VaultClient s" using assms(1) by (simp add: same_place_def)
  ultimately show ?thesis by (simp add: StorageConfigRead_def Let_def split: option.split)
qed

text \<open>Three services kept in memory, for concrete runs; the cache of Kubernetes follows when it is told to.\<close>

record memory =
  m_files :: "(string, string) gmap"
  m_vault :: "(vault_client \<times> string \<times> string, (string, vault_value) gmap) gmap"
  m_k8s :: "(nsname, k8s_secret) gmap"
  m_cache :: "(nsname, k8s_secret) gmap"

definition memory_api :: "memory outside" where
  "memory_api =
     \<lparr>k8s_live = \<lambda>w key. case mget (m_k8s w) key of None \<Rightarrow> NotFound | Some s \<Rightarrow> Found s,
      k8s_Get = \<lambda>w key. case mget (m_cache w) key of None \<Rightarrow> NotFound | Some s \<Rightarrow> Found s,
      k8s_Create = \<lambda>w key s. (w\<lparr>m_k8s := mset_at key s (m_k8s w)\<rparr>, None),
      k8s_Update = \<lambda>w key s. (w\<lparr>m_k8s := mset_at key s (m_k8s w)\<rparr>, None),
      kv_Get = \<lambda>w c m n. case mget (m_vault w) (c, m, n) of None \<Rightarrow> Inl ''secret not found'' | Some x \<Rightarrow> Inr x,
      kv_Put = \<lambda>w c m n x. (w\<lparr>m_vault := mset_at (c, m, n) x (m_vault w)\<rparr>, None),
      sys_Mount = \<lambda>w c m. (w, None),
      vault_NewClient = \<lambda>url. None,
      url_JoinPath = \<lambda>url path. Inr (url @ ''/v1/'' @ path @ ''/config''),
      http_NewRequest = \<lambda>url. None,
      http_Do = \<lambda>w url token. Inr 200,
      Stat_missing = \<lambda>w p. mget (m_files w) p = None,
      ReadFile = \<lambda>w p. case mget (m_files w) p of None \<Rightarrow> Missing | Some t \<Rightarrow> Contents t,
      MkdirAll = \<lambda>w p. (w, None),
      WriteFile = \<lambda>w p t. (w\<lparr>m_files := mset_at p t (m_files w)\<rparr>, None)\<rparr>"

definition empty_memory :: memory where
  "empty_memory = \<lparr>m_files = [], m_vault = [], m_k8s = [], m_cache = []\<rparr>"

definition refreshed :: "memory certs \<Rightarrow> memory certs" where
  "refreshed s = s\<lparr>world := (world s)\<lparr>m_cache := m_k8s (world s)\<rparr>\<rparr>"

lemma memory_keeps_writes: "keeps_writes memory_api"
  by (auto simp: keeps_writes_def memory_api_def same_data_def)

lemma refreshed_ok: "same_place memory_api cfg d s (refreshed s)" "caught_up memory_api cfg d (refreshed s)"
  by (simp_all add: same_place_def caught_up_def refreshed_def memory_api_def)

section \<open>Properties\<close>

text \<open>C10. A certificate that was written is read back, byte for byte, whichever of the three stores keeps it: files
  (its two names never coincide, whatever the path), Vault (through base64), a Kubernetes secret (new or updated).
  The write reported no error, was not the empty one of a dry run, and neither half of the certificate was empty;
  the read comes later, with the place not written again in between, and for Kubernetes, whose reads are answered
  from the cache of the manager, once that cache has caught up.\<close>

theorem written_is_read:
  assumes "keeps_writes api" and "StorageConfigWrite api cfg s d c = Some (s', None)"
    and "\<not> DryRun cfg" and "Pub c \<noteq> []" and "Priv c \<noteq> []"
    and "same_place api cfg d s' s''" and "stc_Type (dc_Config d) = Kubernetes \<longrightarrow> caught_up api cfg d s''"
  shows "StorageConfigRead api cfg (None, None) s'' d = Some (c, None)"
proof -
  have "\<not> empty_half c" using assms(4,5) by (simp add: empty_half_def)
  from write_lands [OF assms(1-3) this] read_later [OF assms(6,7)] show ?thesis by metis
qed

definition stored_settings :: settings where
  "stored_settings =
     \<lparr>DryRun = False, RenewBeforeExpireInMinutes = 0, DefaultNamespace = ''ns'', HasK8sClient = True,
      Storage_Vault = None, Account_Email = [], Account_PrivateKeyBase64 = []\<rparr>"

definition stored_domain :: "string \<Rightarrow> DomainConfig" where
  "stored_domain t =
     \<lparr>dc_SecretName = ''web'', dc_Domains = [''a.example''], dc_Challenge = None,
      dc_Config = \<lparr>stc_Type = t, stc_Local = None,
        stc_Vault = Some \<lparr>vsc_Path = ''kv'', vsc_URL = ''u'', vsc_Token = ''t'', vsc_SkipTLSVerify = False\<rparr>,
        stc_Kubernetes = None\<rparr>\<rparr>"

definition stored_certs :: "memory certs" where
  "stored_certs =
     \<lparr>LeClient = None, VaultClient = Some \<lparr>vc_Address = ''u'', vc_Token = ''t''\<rparr>, environ = [], world = empty_memory\<rparr>"

definition stored_cert :: Cert where
  "stored_cert = \<lparr>Pub = ''chain'', Priv = ''key''\<rparr>"

lemma stored_run:
  "t \<in> {Local, Vault, Kubernetes} \<Longrightarrow>
     \<exists>s'. StorageConfigWrite memory_api stored_settings stored_certs (stored_domain t) stored_cert = Some (s', None)"
  by (auto simp: StorageConfigWrite_def Let_def stored_settings_def stored_domain_def stored_certs_def stored_cert_def
      empty_half_def write_local_def write_vault_def write_kubernetes_def memory_api_def empty_memory_def)

definition reads_back :: "string \<Rightarrow> bool" where
  "reads_back t \<longleftrightarrow>
     (\<exists>s'. StorageConfigWrite memory_api stored_settings stored_certs (stored_domain t) stored_cert = Some (s', None) \<and>
       StorageConfigRead memory_api stored_settings (None, None) (refreshed s') (stored_domain t) = Some (stored_cert, None))"

theorem written_is_read_witness:
  "reads_back Local \<and> reads_back Vault \<and> reads_back Kubernetes"
proof -
  have "reads_back t" if t: "t \<in> {Local, Vault, Kubernetes}" for t
  proof -
    obtain s' where w: "StorageConfigWrite memory_api stored_settings stored_certs (stored_domain t) stored_cert = Some (s', None)"
      using stored_run [OF t] by blast
    have "\<not> DryRun stored_settings" "Pub stored_cert \<noteq> []" "Priv stored_cert \<noteq> []"
      by (simp_all add: stored_settings_def stored_cert_def)
    from written_is_read [OF memory_keeps_writes w this refreshed_ok(1)] refreshed_ok(2) w show ?thesis
      unfolding reads_back_def by blast
  qed
  then show ?thesis by simp
qed

end
