(* ===== verification/Issue.thy ===== *)
theory Issue
  imports Storage
begin

text \<open>
  Where certificates come from, \<open>src/pkg/xds/sds.go\<close>: the ACME client shared by all reconciles
  (\<open>LetsEncrypt\<close>) with its DNS credentials taken from the process environment, and the self-signed
  authority. The ACME protocol, key generation and X.509 are functions of the world (record
  \<open>authority\<close>); keys and DNS providers are opaque strings. The clock is read from the world, in
  nanoseconds.
\<close>

section \<open>The outside\<close>

record x509 =
  x_IssuerCN :: string
  x_SubjectCN :: string
  x_DNSNames :: "string list"
  x_NotBefore :: int
  x_NotAfter :: int
  x_SerialNumber :: string
  x_Raw :: string

record template =
  tp_SerialNumber :: int
  tp_CommonName :: string
  tp_NotBefore :: int
  tp_NotAfter :: int
  tp_IsCA :: bool
  tp_KeyUsage :: "string list"
  tp_DNSNames :: "string list"

datatype parent = ParentTemplate template | ParentCertificate x509

record 'w authority =
  Now :: "'w \<Rightarrow> int"
  lego_NewClient :: "'w \<Rightarrow> LetsEncrypt \<Rightarrow> string \<Rightarrow> 'w \<times> string option"
  QueryRegistration :: "'w \<Rightarrow> LetsEncrypt \<Rightarrow> lego_client \<Rightarrow> 'w \<times> string option"
  Register :: "'w \<Rightarrow> LetsEncrypt \<Rightarrow> lego_client \<Rightarrow> 'w \<times> (string + string)"
  SetHTTP01Provider :: "lego_client \<Rightarrow> string option"
  NewDNSChallengeProviderByName :: "string \<Rightarrow> (string, string) gmap \<Rightarrow> string + string"
  SetDNS01Provider :: "lego_client \<Rightarrow> string \<Rightarrow> string option"
  Obtain :: "'w \<Rightarrow> LetsEncrypt \<Rightarrow> lego_client \<Rightarrow> (string, string) gmap \<Rightarrow> string list \<Rightarrow> 'w \<times> (string + Cert)"
  ecdsa_GenerateKey :: "'w \<Rightarrow> 'w \<times> string option"
  rsa_GenerateKey :: "'w \<Rightarrow> 'w \<times> (string + string)"
  rand_Int :: "'w \<Rightarrow> int \<Rightarrow> 'w \<times> (string + int)"
  CreateCertificate :: "'w \<Rightarrow> template \<Rightarrow> parent \<Rightarrow> string \<Rightarrow> string \<Rightarrow> 'w \<times> (string + string)"
  PublicKey :: "string \<Rightarrow> string"
  ParseCertificate :: "string \<Rightarrow> string + x509"
  ParsePKCS1PrivateKey :: "string \<Rightarrow> string + string"
  MarshalPKCS1PrivateKey :: "string \<Rightarrow> string"
  pem_Decode :: "string \<Rightarrow> (string \<times> string) option"
  pem_Encode :: "string \<Rightarrow> string \<Rightarrow> string"

section \<open>The process environment\<close>

definition Getenv :: "(string, string) gmap \<Rightarrow> string \<Rightarrow> string" where
  "Getenv env k = mstr env k"

text \<open>\<open>os.Setenv\<close> refuses an empty name, a name with \<open>=\<close> and a zero byte; the code ignores its error.\<close>

definition Setenv :: "string \<Rightarrow> string \<Rightarrow> (string, string) gmap \<Rightarrow> (string, string) gmap" where
  "Setenv k v env =
     (if k = [] \<or> CHR ''='' \<in> set k \<or> CHR 0x00 \<in> set k \<or> CHR 0x00 \<in> set v then env else mset_at k v env)"

text \<open>The list of variables, two by two: the variable to copy from and the one to replace.\<close>

fun env_pairs :: "string list \<Rightarrow> (string \<times> string) list" where
  "env_pairs (a # b # xs) = (a, b) # env_pairs xs"
| "env_pairs _ = []"

fun replace_env :: "(string \<times> string) list \<Rightarrow> (string, string) gmap \<Rightarrow> (string, string) gmap" where
  "replace_env [] env = env"
| "replace_env ((a, b) # ps) env = replace_env ps (Setenv b (Getenv env a) env)"

definition envsToRestore :: "(string \<times> string) list \<Rightarrow> (string, string) gmap \<Rightarrow> string list" where
  "envsToRestore ps env = map (\<lambda>(a, b). Getenv env b) ps"

fun restore_env :: "(string \<times> string) list \<Rightarrow> string list \<Rightarrow> (string, string) gmap \<Rightarrow> (string, string) gmap" where
  "restore_env ((a, b) # ps) (v # vs) env = restore_env ps vs (Setenv b v env)"
| "restore_env _ _ env = env"

section \<open>The ACME client\<close>

definition ACME_url :: "string \<Rightarrow> string" where
  "ACME_url t =
     (if t = ''Staging'' then ''https://acme-staging-v02.api.letsencrypt.org/directory''
      else if t = ''Production'' then ''https://acme-v02.api.letsencrypt.org/directory''
      else [])"

definition initClient ::
  "'w authority \<Rightarrow> 'w \<Rightarrow> LetsEncrypt \<Rightarrow> string \<Rightarrow> 'w \<times> LetsEncrypt \<times> gerror option" where
  "initClient auth w u caDirURL =
     (let client = \<lparr>lc_CADirURL = caDirURL, lc_HTTP01 = False, lc_DNS01 = None\<rparr> in
      case lego_NewClient auth w u caDirURL of
        (w, Some e) \<Rightarrow> (w, u, Some (Wrapped ''new client: '' (Plain e)))
      | (w, None) \<Rightarrow>
          (case (if le_Registration u \<noteq> None
                 then (case QueryRegistration auth w u client of
                         (w, Some e) \<Rightarrow> (w, u\<lparr>le_Registration := None\<rparr>)
                       | (w, None) \<Rightarrow> (w, u))
                 else (w, u)) of
             (w, u) \<Rightarrow>
               (if le_Registration u = None
                then (case Register auth w u client of
                        (w, Inl e) \<Rightarrow>
                          (w, u, Some (if Contains e ''Service busy'' then Sentinel ErrServiceBusy
                                       else Wrapped ''lets encrypt register: '' (Plain e)))
                      | (w, Inr reg) \<Rightarrow> (w, u\<lparr>le_Registration := Some reg, le_client := Some client\<rparr>, None))
                else (w, u\<lparr>le_client := Some client\<rparr>, None))))"

text \<open>The client at the start of \<open>Get\<close>: made when there is none, and made again when its account is not
  accepted any more. The result has the client when there is no error.\<close>

definition ready_client ::
  "'w authority \<Rightarrow> 'w \<Rightarrow> LetsEncrypt \<Rightarrow> string \<Rightarrow> 'w \<times> LetsEncrypt \<times> (gerror + lego_client)" where
  "ready_client auth w u caDirURL =
     (case (if le_client u = None then initClient auth w u caDirURL else (w, u, None)) of
        (w, u, Some e) \<Rightarrow> (w, u, Inl e)
      | (w, u, None) \<Rightarrow>
          (case QueryRegistration auth w u (the (le_client u)) of
             (w, None) \<Rightarrow> (w, u, Inr (the (le_client u)))
           | (w, Some _) \<Rightarrow>
               (case initClient auth w u caDirURL of
                  (w, u, Some e) \<Rightarrow> (w, u, Inl e)
                | (w, u, None) \<Rightarrow> (w, u, Inr (the (le_client u))))))"

definition obtain_error :: "string \<Rightarrow> gerror" where
  "obtain_error e =
     (if Contains e ''Service busy'' then Sentinel ErrServiceBusy
      else if Contains e ''rateLimited'' then Sentinel ErrRateLimited
      else Wrapped ''lets encrypt obtain: '' (Plain e))"

definition obtain_cert ::
  "'w authority \<Rightarrow> 'w \<Rightarrow> LetsEncrypt \<Rightarrow> lego_client \<Rightarrow> (string, string) gmap \<Rightarrow> string list \<Rightarrow> 'w \<times> (gerror + Cert)" where
  "obtain_cert auth w u client env domains =
     (case Obtain auth w u client env domains of
        (w, Inl e) \<Rightarrow> (w, Inl (obtain_error e))
      | (w, Inr c) \<Rightarrow> (w, Inr c))"

text \<open>The DNS challenge, from the parity check to the deferred restoring of the environment; the result has the
  client with its solver, which stays on the shared client.\<close>

definition dns01 ::
  "'w authority \<Rightarrow> 'w \<Rightarrow> LetsEncrypt \<Rightarrow> lego_client \<Rightarrow> (string, string) gmap \<Rightarrow> DomainConfig \<Rightarrow> ChallengeConfig
   \<Rightarrow> 'w \<times> (string, string) gmap \<times> lego_client \<times> (gerror + Cert)" where
  "dns01 auth w u client env d ch =
     (let names = CustomDNS01ProviderEnvReplace ch; ps = env_pairs names in
      if odd (length names) then (w, env, client, Inl (Sentinel ErrCustomEnvReplace))
      else (case List.find (\<lambda>(a, b). Getenv env a = []) ps of
              Some (a, _) \<Rightarrow> (w, env, client, Inl (Plain (''env variable '' @ a @ '' is not set'')))
            | None \<Rightarrow>
                let env' = replace_env ps env; back = restore_env ps (envsToRestore ps env) env' in
                (case NewDNSChallengeProviderByName auth (DNS01Provider ch) env' of
                   Inl e \<Rightarrow> (w, back, client, Inl (Wrapped ''new dns01 provider: '' (Plain e)))
                 | Inr provider \<Rightarrow>
                     (case SetDNS01Provider auth client provider of
                        Some e \<Rightarrow> (w, back, client, Inl (Wrapped ''set dns01 provider: '' (Plain e)))
                      | None \<Rightarrow>
                          let client' = client\<lparr>lc_DNS01 := Some provider\<rparr>
                          in (case obtain_cert auth w (u\<lparr>le_client := Some client'\<rparr>) client' env' (dc_Domains d) of
                                (w, r) \<Rightarrow> (w, back, client', r))))))"

definition LetsEncrypt_Get ::
  "'w authority \<Rightarrow> 'w certs \<Rightarrow> DomainConfig \<Rightarrow> ('w certs \<times> (gerror + Cert)) option" where
  "LetsEncrypt_Get auth s d =
     (case (LeClient s, dc_Challenge d) of
        (Some u, Some ch) \<Rightarrow>
          (case ready_client auth (world s) u (ACME_url (ACMEEnv ch)) of
             (w, u, Inl e) \<Rightarrow> Some (s\<lparr>LeClient := Some u, world := w\<rparr>, Inl e)
           | (w, u, Inr client) \<Rightarrow>
               if ChallengeType ch = ''HTTP01'' then
                 (case SetHTTP01Provider auth client of
                    Some e \<Rightarrow> Some (s\<lparr>LeClient := Some u, world := w\<rparr>, Inl (Wrapped ''new http provider: '' (Plain e)))
                  | None \<Rightarrow>
                      let u = u\<lparr>le_client := Some (client\<lparr>lc_HTTP01 := True\<rparr>)\<rparr>
                      in (case obtain_cert auth w u (client\<lparr>lc_HTTP01 := True\<rparr>) (environ s) (dc_Domains d) of
                            (w, r) \<Rightarrow> Some (s\<lparr>LeClient := Some u, world := w\<rparr>, r)))
               else if ChallengeType ch = ''DNS01'' then
                 (case dns01 auth w u client (environ s) d ch of
                    (w, env, client, r) \<Rightarrow>
                      Some (s\<lparr>LeClient := Some (u\<lparr>le_client := Some client\<rparr>), environ := env, world := w\<rparr>, r))
               else (case obtain_cert auth w u client (environ s) (dc_Domains d) of
                       (w, r) \<Rightarrow> Some (s\<lparr>LeClient := Some u, world := w\<rparr>, r)))
      | _ \<Rightarrow> None)"

text \<open>The account: a given RSA key, or a fresh one. \<open>None\<close> is the nil client of a bad key.\<close>

definition NewLEA :: "'w authority \<Rightarrow> 'w \<Rightarrow> string \<Rightarrow> string \<Rightarrow> 'w \<times> LetsEncrypt option" where
  "NewLEA auth w e k =
     (let account = (\<lambda>key. \<lparr>le_Email = e, le_Key = key, le_Registration = None, le_client = None\<rparr>) in
      if k \<noteq> [] then
        (w, case DecodeString k of
              None \<Rightarrow> None
            | Some keyBytes \<Rightarrow>
                (case pem_Decode auth keyBytes of
                   None \<Rightarrow> None
                 | Some (t, block) \<Rightarrow>
                     (case ParsePKCS1PrivateKey auth block of Inl _ \<Rightarrow> None | Inr key \<Rightarrow> Some (account key))))
      else (case ecdsa_GenerateKey auth w of
              (w, None) \<Rightarrow> (w, None)
            | (w, Some key) \<Rightarrow> (w, Some (account key))))"

definition EnsureLEClient :: "'w authority \<Rightarrow> settings \<Rightarrow> 'w certs \<Rightarrow> 'w certs \<times> gerror option" where
  "EnsureLEClient auth cfg s =
     (if LeClient s = None
      then (case NewLEA auth (world s) (Account_Email cfg) (Account_PrivateKeyBase64 cfg) of
              (w, None) \<Rightarrow> (s\<lparr>world := w\<rparr>, Some (Sentinel ErrLetsEncryptAccount))
            | (w, Some le) \<Rightarrow> (s\<lparr>LeClient := Some le, world := w\<rparr>, None))
      else (s, None))"

section \<open>The self-signed authority\<close>

text \<open>A \<open>time.Duration\<close> is a signed 64-bit number of nanoseconds.\<close>

definition duration :: "int \<Rightarrow> int" where
  "duration d = signed_take_bit 63 d"

definition hour :: int where
  "hour = 3600 * 1000000000"

definition expireAfterDays :: "DomainConfig \<Rightarrow> int" where
  "expireAfterDays d =
     (case stc_Local (dc_Config d) of
        Some l \<Rightarrow> if ExpireAfterDays l \<noteq> 0 then ExpireAfterDays l else 365
      | None \<Rightarrow> 365)"

text \<open>The configured authority: its certificate and key.\<close>

definition configured_ca :: "'w authority \<Rightarrow> LocalStorageConfig \<Rightarrow> gerror + x509 \<times> string" where
  "configured_ca auth l =
     (case DecodeString (Base64CACert l) of
        None \<Rightarrow> Inl (Wrapped ''failed to decode Base64CACert: '' (Plain ''illegal base64 data''))
      | Some certPem \<Rightarrow>
     (case DecodeString (Base64CAKey l) of
        None \<Rightarrow> Inl (Wrapped ''failed to decode Base64CAKey: '' (Plain ''illegal base64 data''))
      | Some keyPem \<Rightarrow>
     (case pem_Decode auth certPem of
        None \<Rightarrow> Inl (Plain ''failed to decode CA certificate PEM block'')
      | Some (_, certBlock) \<Rightarrow>
     (case pem_Decode auth keyPem of
        None \<Rightarrow> Inl (Plain ''failed to decode CA key PEM block'')
      | Some (_, keyBlock) \<Rightarrow>
     (case ParseCertificate auth certBlock of
        Inl e \<Rightarrow> Inl (Plain e)
      | Inr caCert \<Rightarrow>
     (case ParsePKCS1PrivateKey auth keyBlock of
        Inl e \<Rightarrow> Inl (Plain e)
      | Inr caPriv \<Rightarrow> Inr (caCert, caPriv)))))))"

definition generated_ca :: "'w authority \<Rightarrow> int \<Rightarrow> 'w \<Rightarrow> 'w \<times> (gerror + x509 \<times> string)" where
  "generated_ca auth notBefore w =
     (case rsa_GenerateKey auth w of
        (w, Inl e) \<Rightarrow> (w, Inl (Plain e))
      | (w, Inr caPriv) \<Rightarrow>
          let t = \<lparr>tp_SerialNumber = 1, tp_CommonName = ''Root CA'', tp_NotBefore = notBefore,
                   tp_NotAfter = notBefore + duration (1024 * 24 * hour), tp_IsCA = True,
                   tp_KeyUsage = [''DigitalSignature'', ''CertSign''], tp_DNSNames = []\<rparr>
          in (case CreateCertificate auth w t (ParentTemplate t) (PublicKey auth caPriv) caPriv of
                (w, Inl e) \<Rightarrow> (w, Inl (Plain e))
              | (w, Inr caBytes) \<Rightarrow>
                  (w, case ParseCertificate auth caBytes of Inl e \<Rightarrow> Inl (Plain e) | Inr caCert \<Rightarrow> Inr (caCert, caPriv))))"

definition ca_of :: "'w authority \<Rightarrow> DomainConfig \<Rightarrow> int \<Rightarrow> 'w \<Rightarrow> 'w \<times> (gerror + x509 \<times> string)" where
  "ca_of auth d notBefore w =
     (case stc_Local (dc_Config d) of
        Some l \<Rightarrow>
          if Base64CACert l \<noteq> [] \<and> Base64CAKey l \<noteq> [] then (w, configured_ca auth l)
          else generated_ca auth notBefore w
      | None \<Rightarrow> generated_ca auth notBefore w)"

definition leaf_template :: "DomainConfig \<Rightarrow> int \<Rightarrow> int \<Rightarrow> string \<Rightarrow> template" where
  "leaf_template d notBefore serial name =
     \<lparr>tp_SerialNumber = serial, tp_CommonName = name, tp_NotBefore = notBefore,
      tp_NotAfter = notBefore + duration (expireAfterDays d * 24 * hour), tp_IsCA = False,
      tp_KeyUsage = [''DigitalSignature'', ''KeyEncipherment''], tp_DNSNames = dc_Domains d\<rparr>"

text \<open>\<open>None\<close> is the panic of \<open>d.Domains[0]\<close>.\<close>

definition SelfSigned_Get :: "'w authority \<Rightarrow> 'w certs \<Rightarrow> DomainConfig \<Rightarrow> ('w certs \<times> (gerror + Cert)) option" where
  "SelfSigned_Get auth s d =
     (let notBefore = Now auth (world s); failed = (\<lambda>w e. Some (s\<lparr>world := w\<rparr>, Inl e)) in
      case ca_of auth d notBefore (world s) of
        (w, Inl e) \<Rightarrow> failed w e
      | (w, Inr (caCert, caPriv)) \<Rightarrow>
          (case rsa_GenerateKey auth w of
             (w, Inl e) \<Rightarrow> failed w (Plain e)
           | (w, Inr priv) \<Rightarrow>
               (case rand_Int auth w (2 ^ 128) of
                  (w, Inl e) \<Rightarrow> failed w (Plain e)
                | (w, Inr serial) \<Rightarrow>
                    (case dc_Domains d of
                       [] \<Rightarrow> None
                     | name # _ \<Rightarrow>
                         (case CreateCertificate auth w (leaf_template d notBefore serial name)
                                 (ParentCertificate caCert) (PublicKey auth priv) caPriv of
                            (w, Inl e) \<Rightarrow> failed w (Plain e)
                          | (w, Inr der) \<Rightarrow>
                              Some (s\<lparr>world := w\<rparr>,
                                    Inr \<lparr>Pub = pem_Encode auth ''CERTIFICATE'' der,
                                         Priv = pem_Encode auth ''RSA PRIVATE KEY'' (MarshalPKCS1PrivateKey auth priv)\<rparr>))))))"

section \<open>The environment is put back\<close>

text \<open>A process environment has no zero bytes.\<close>

definition env_ok :: "(string, string) gmap \<Rightarrow> bool" where
  "env_ok env \<longleftrightarrow> (\<forall>k. CHR 0x00 \<notin> set (Getenv env k))"

definition settable :: "string \<Rightarrow> bool" where
  "settable k \<longleftrightarrow> k \<noteq> [] \<and> CHR ''='' \<notin> set k \<and> CHR 0x00 \<notin> set k"

lemma Getenv_Setenv:
  "CHR 0x00 \<notin> set v \<Longrightarrow> Getenv (Setenv k v env) j = (if j = k \<and> settable k then v else Getenv env j)"
  by (auto simp: Getenv_def Setenv_def settable_def mstr_def)

lemma replace_env_ok: "env_ok env \<Longrightarrow> env_ok (replace_env ps env)"
proof (induction ps env rule: replace_env.induct)
  case (2 a b ps env)
  then have "env_ok (Setenv b (Getenv env a) env)" by (simp add: env_ok_def Getenv_Setenv)
  then show ?case using 2 by simp
qed simp

lemma Getenv_replace_env:
  "env_ok env \<Longrightarrow> k \<notin> snd ` set ps \<or> \<not> settable k \<Longrightarrow> Getenv (replace_env ps env) k = Getenv env k"
proof (induction ps env rule: replace_env.induct)
  case (2 a b ps env)
  have v: "CHR 0x00 \<notin> set (Getenv env a)" using 2(2) by (simp add: env_ok_def)
  then have "env_ok (Setenv b (Getenv env a) env)" using 2(2) by (simp add: env_ok_def Getenv_Setenv)
  then show ?case using 2(1,3) v by (auto simp: Getenv_Setenv)
qed simp

lemma Getenv_restore_env:
  assumes "\<forall>v\<in>set vs. CHR 0x00 \<notin> set v" and "length vs = length ps"
    and "\<forall>i<length ps. vs ! i = f (snd (ps ! i))"
  shows "Getenv (restore_env ps vs env) k = (if k \<in> snd ` set ps \<and> settable k then f k else Getenv env k)"
  using assms
proof (induction ps vs env rule: restore_env.induct)
  case (1 a b ps v vs env)
  have "vs ! i = f (snd (ps ! i))" if "i < length ps" for i using 1(4) that by fastforce
  moreover have "v = f b" using 1(4) by fastforce
  ultimately show ?case using 1(1,2,3) by (auto simp: Getenv_Setenv)
qed auto

lemma env_restored_dns01: "env_ok env \<Longrightarrow> Getenv (restore_env ps (envsToRestore ps env) (replace_env ps env)) k = Getenv env k"
proof -
  assume ok: "env_ok env"
  have "Getenv (restore_env ps (envsToRestore ps env) (replace_env ps env)) k =
      (if k \<in> snd ` set ps \<and> settable k then Getenv env k else Getenv (replace_env ps env) k)"
    by (rule Getenv_restore_env) (use ok in \<open>auto simp: envsToRestore_def env_ok_def split: prod.splits\<close>)
  then show ?thesis using Getenv_replace_env [OF ok] by auto
qed

text \<open>An authority for concrete runs: a certificate is its name, valid until the time 10 ^ 18; what the staging
  environment issues is marked.\<close>

definition memory_authority :: "memory authority" where
  "memory_authority =
     \<lparr>Now = \<lambda>w. 0, lego_NewClient = \<lambda>w u url. (w, None), QueryRegistration = \<lambda>w u c. (w, None),
      Register = \<lambda>w u c. (w, Inr ''account''), SetHTTP01Provider = \<lambda>c. None,
      NewDNSChallengeProviderByName = \<lambda>name env. Inr name, SetDNS01Provider = \<lambda>c p. None,
      Obtain = \<lambda>w u c env domains.
        (w, Inr \<lparr>Pub = (if lc_CADirURL c = ACME_url ''Staging'' then ''(STAGING) R3'' else ''R3''), Priv = ''key''\<rparr>),
      ecdsa_GenerateKey = \<lambda>w. (w, Some ''account key''), rsa_GenerateKey = \<lambda>w. (w, Inr ''rsa''),
      rand_Int = \<lambda>w n. (w, Inr 7), CreateCertificate = \<lambda>w t p pub priv. (w, Inr (tp_CommonName t)),
      PublicKey = \<lambda>k. k,
      ParseCertificate = \<lambda>b. Inr \<lparr>x_IssuerCN = b, x_SubjectCN = b, x_DNSNames = [''a.example''], x_NotBefore = 0,
        x_NotAfter = 10 ^ 18, x_SerialNumber = ''7'', x_Raw = b\<rparr>,
      ParsePKCS1PrivateKey = \<lambda>b. Inr b, MarshalPKCS1PrivateKey = \<lambda>k. k,
      pem_Decode = \<lambda>b. if b = [] then None else Some (''CERTIFICATE'', b), pem_Encode = \<lambda>t b. b\<rparr>"

section \<open>Properties\<close>

text \<open>C24. Asking for a certificate leaves the process environment as it was, on success and on every error: the
  DNS credentials put in place for one domain are gone before the next one is served.\<close>

theorem credentials_restored:
  assumes "LetsEncrypt_Get auth s d = Some (s', r)" and "env_ok (environ s)"
  shows "Getenv (environ s') k = Getenv (environ s) k"
proof -
  have *: "Getenv (fst (snd (dns01 auth w u client (environ s) d ch))) k = Getenv (environ s) k" for w u client ch
    by (simp add: dns01_def Let_def env_restored_dns01 [OF assms(2)] split: option.split sum.split prod.split)
  have "environ s' = environ s \<or> (\<exists>w u client ch. environ s' = fst (snd (dns01 auth w u client (environ s) d ch)))"
    using assms(1)
    by (auto simp: LetsEncrypt_Get_def Let_def split: option.splits sum.splits prod.splits if_splits) (metis fst_conv snd_conv)+
  then show ?thesis using * by auto
qed

theorem credentials_restored_witness:
  "\<exists>s' r. LetsEncrypt_Get memory_authority
      \<lparr>LeClient = Some \<lparr>le_Email = [], le_Key = ''k'', le_Registration = None, le_client = None\<rparr>, VaultClient = None,
       environ = [(''MY_TOKEN'', ''secret''), (''CF_TOKEN'', ''shared'')], world = empty_memory\<rparr>
      \<lparr>dc_SecretName = ''web'', dc_Domains = [''a.example''],
       dc_Challenge = Some \<lparr>ChallengeType = ''DNS01'', ACMEEnv = ''Production'', DNS01Provider = ''cf'',
         CustomDNS01ProviderEnvReplace = [''MY_TOKEN'', ''CF_TOKEN'']\<rparr>,
       dc_Config = \<lparr>stc_Type = Vault, stc_Local = None, stc_Vault = None, stc_Kubernetes = None\<rparr>\<rparr> = Some (s', r) \<and>
      Getenv (environ s') ''CF_TOKEN'' = ''shared''"
proof -
  let ?s = "\<lparr>LeClient = Some \<lparr>le_Email = [], le_Key = ''k'', le_Registration = None, le_client = None\<rparr>, VaultClient = None,
     environ = [(''MY_TOKEN'', ''secret''), (''CF_TOKEN'', ''shared'')], world = empty_memory\<rparr>"
  let ?d = "\<lparr>dc_SecretName = ''web'', dc_Domains = [''a.example''],
     dc_Challenge = Some \<lparr>ChallengeType = ''DNS01'', ACMEEnv = ''Production'', DNS01Provider = ''cf'',
       CustomDNS01ProviderEnvReplace = [''MY_TOKEN'', ''CF_TOKEN'']\<rparr>,
     dc_Config = \<lparr>stc_Type = Vault, stc_Local = None, stc_Vault = None, stc_Kubernetes = None\<rparr>\<rparr>"
  obtain s' r where g: "LetsEncrypt_Get memory_authority ?s ?d = Some (s', r)"
    by (simp add: LetsEncrypt_Get_def ready_client_def initClient_def memory_authority_def dns01_def obtain_cert_def
        Getenv_def mstr_def mget_def Let_def)
  have "env_ok (environ ?s)" by (auto simp: env_ok_def Getenv_def mstr_def mget_def)
  from credentials_restored [OF g this, of "''CF_TOKEN''"] g show ?thesis
    by (auto simp: Getenv_def mstr_def mget_def)
qed

lemma dns01_environment:
  "dns01 auth w u client env (d\<lparr>dc_Challenge := c\<rparr>) (ch\<lparr>ACMEEnv := e\<rparr>) = dns01 auth w u client env d ch"
proof -
  have "dc_Domains (d\<lparr>dc_Challenge := c\<rparr>) = dc_Domains d" "DNS01Provider (ch\<lparr>ACMEEnv := e\<rparr>) = DNS01Provider ch"
    "CustomDNS01ProviderEnvReplace (ch\<lparr>ACMEEnv := e\<rparr>) = CustomDNS01ProviderEnvReplace ch" by simp_all
  then show ?thesis by (simp only: dns01_def)
qed

text \<open>The ACME environment a certificate asks for is not looked at once a client is there whose account is
  accepted: the certificate comes from the environment the first certificate asked for.\<close>

theorem environment_ignored:
  assumes "LeClient s = Some u" and "le_client u = Some client"
    and "QueryRegistration auth (world s) u client = (w, None)" and "dc_Challenge d = Some ch"
  shows "LetsEncrypt_Get auth s d = LetsEncrypt_Get auth s (d\<lparr>dc_Challenge := Some (ch\<lparr>ACMEEnv := e\<rparr>)\<rparr>)"
proof -
  let ?d = "d\<lparr>dc_Challenge := Some (ch\<lparr>ACMEEnv := e\<rparr>)\<rparr>"
  have "dns01 auth w u client env ?d (ch\<lparr>ACMEEnv := e\<rparr>) = dns01 auth w u client env d ch" for env
    by (rule dns01_environment)
  then show ?thesis
    using assms by (cases "ChallengeType ch = ''DNS01''")
      (simp_all add: LetsEncrypt_Get_def ready_client_def cong: option.case_cong let_cong)
qed

theorem environment_ignored_witness:
  "let s = \<lparr>LeClient = Some \<lparr>le_Email = [], le_Key = ''k'', le_Registration = Some ''account'',
         le_client = Some \<lparr>lc_CADirURL = ACME_url ''Staging'', lc_HTTP01 = False, lc_DNS01 = None\<rparr>\<rparr>,
         VaultClient = None, environ = [], world = empty_memory\<rparr>;
       d = \<lparr>dc_SecretName = ''web'', dc_Domains = [''a.example''],
         dc_Challenge = Some \<lparr>ChallengeType = ''HTTP01'', ACMEEnv = ''Production'', DNS01Provider = [],
           CustomDNS01ProviderEnvReplace = []\<rparr>,
         dc_Config = \<lparr>stc_Type = Vault, stc_Local = None, stc_Vault = None, stc_Kubernetes = None\<rparr>\<rparr>
   in map_option snd (LetsEncrypt_Get memory_authority s d) = Some (Inr \<lparr>Pub = ''(STAGING) R3'', Priv = ''key''\<rparr>)"
proof -
  let ?c = "\<lparr>lc_CADirURL = ACME_url ''Staging'', lc_HTTP01 = False, lc_DNS01 = None\<rparr>"
  let ?u = "\<lparr>le_Email = [], le_Key = ''k'', le_Registration = Some ''account'', le_client = Some ?c\<rparr>"
  let ?s = "\<lparr>LeClient = Some ?u, VaultClient = None, environ = [], world = empty_memory\<rparr>"
  let ?ch = "\<lparr>ChallengeType = ''HTTP01'', ACMEEnv = ''Production'', DNS01Provider = [], CustomDNS01ProviderEnvReplace = []\<rparr>"
  let ?d = "\<lparr>dc_SecretName = ''web'', dc_Domains = [''a.example''], dc_Challenge = Some ?ch,
     dc_Config = \<lparr>stc_Type = Vault, stc_Local = None, stc_Vault = None, stc_Kubernetes = None\<rparr>\<rparr>"
  have q: "QueryRegistration memory_authority (world ?s) ?u ?c = (empty_memory, None)" by (simp add: memory_authority_def)
  have "LetsEncrypt_Get memory_authority ?s ?d =
      LetsEncrypt_Get memory_authority ?s (?d\<lparr>dc_Challenge := Some (?ch\<lparr>ACMEEnv := ''Staging''\<rparr>)\<rparr>)"
    by (rule environment_ignored [OF _ _ q]) simp_all
  then show ?thesis
    by (simp add: memory_authority_def LetsEncrypt_Get_def ready_client_def obtain_cert_def Let_def)
qed

end
