(* ===== verification/Certs.thy ===== *)
theory Certs
  imports Backoff Issue
begin

text \<open>
  The certificate of one TLSSecret, \<open>src/controllers/sds/sds.go\<close>: which store and which authority serve it
  (\<open>GetSecret\<close>), and whether the stored certificate is served as it is, renewed, or made for the first
  time (\<open>makeSecret\<close>). The result is a secret, the time until the renewal, the expiry and an error, as in
  the code; the zero time is \<open>None\<close>. Times are nanoseconds; the comparison with the renewal threshold is
  in \<open>float64\<close> minutes.
\<close>

section \<open>Times\<close>

definition defaultDuration :: int where
  "defaultDuration = 10 * minute"

text \<open>\<open>time.Until\<close> saturates.\<close>

definition time_Until :: "int \<Rightarrow> int \<Rightarrow> int" where
  "time_Until now t = max (- (2 ^ 63)) (min (2 ^ 63 - 1) (t - now))"

definition trunc_div :: "int \<Rightarrow> int \<Rightarrow> int" where
  "trunc_div a b = (if a < 0 then - ((- a) div b) else a div b)"

definition trunc_mod :: "int \<Rightarrow> int \<Rightarrow> int" where
  "trunc_mod a b = a - trunc_div a b * b"

text \<open>\<open>Duration.Minutes\<close>, and the truncation of a float to an integer.\<close>

definition Minutes :: "int \<Rightarrow> rat" where
  "Minutes d =
     round64 (round64 (of_int (trunc_div d minute)) + round64 (round64 (of_int (trunc_mod d minute)) / of_int minute))"

definition trunc :: "rat \<Rightarrow> int" where
  "trunc q = (if q < 0 then - \<lfloor>- q\<rfloor> else \<lfloor>q\<rfloor>)"

section \<open>The decisions\<close>

record outcome =
  o_Secret :: "Secret option"
  o_RenewIn :: int
  o_Expires :: "int option"
  o_Err :: "gerror option"

definition get509Cert :: "'w authority \<Rightarrow> Cert \<Rightarrow> gerror + x509" where
  "get509Cert auth c =
     (case pem_Decode auth (Pub c) of
        None \<Rightarrow> Inl (Sentinel ErrBadKeyData)
      | Some (t, block) \<Rightarrow>
          if t \<noteq> ''CERTIFICATE'' then Inl (Sentinel ErrCertType)
          else (case ParseCertificate auth block of Inl e \<Rightarrow> Inl (Plain e) | Inr x \<Rightarrow> Inr x))"

definition secret_of :: "DomainConfig \<Rightarrow> Cert \<Rightarrow> Secret" where
  "secret_of d c = \<lparr>sec_Name = dc_SecretName d, sec_TlsCertificate = Some (Pub c, Priv c)\<rparr>"

definition bare_secret :: "DomainConfig \<Rightarrow> Secret" where
  "bare_secret d = \<lparr>sec_Name = dc_SecretName d, sec_TlsCertificate = None\<rparr>"

definition read_secret :: "DomainConfig \<Rightarrow> Cert \<Rightarrow> Secret" where
  "read_secret d c = (if Priv c \<noteq> [] \<and> Pub c \<noteq> [] then secret_of d c else bare_secret d)"

definition manual :: "DomainConfig \<Rightarrow> bool" where
  "manual d \<longleftrightarrow> (case dc_Challenge d of None \<Rightarrow> False | Some ch \<Rightarrow> ChallengeType ch = ''MANUAL'')"

definition certEnv :: "x509 \<Rightarrow> string" where
  "certEnv x = (if Contains (x_IssuerCN x) ''STAGING'' then ''Staging'' else ''Production'')"

definition forceRegenerate :: "DomainConfig \<Rightarrow> x509 \<Rightarrow> bool \<Rightarrow> bool" where
  "forceRegenerate d x forceRenew =
     (let f = (case dc_Challenge d of
                 None \<Rightarrow> False
               | Some ch \<Rightarrow> ACMEEnv ch \<noteq> certEnv x \<and> ChallengeType ch \<noteq> ''MANUAL'');
          f = (length (x_DNSNames x) \<noteq> length (dc_Domains d) \<and> dc_Challenge d \<noteq> None \<and> \<not> manual d \<or> f);
          f = (if stc_Type (dc_Config d) = Local then False else f)
      in if forceRenew \<and> \<not> manual d then True else f)"

definition renewBefore :: "settings \<Rightarrow> rat" where
  "renewBefore cfg = round64 (of_int (RenewBeforeExpireInMinutes cfg))"

definition due :: "settings \<Rightarrow> DomainConfig \<Rightarrow> x509 \<Rightarrow> int \<Rightarrow> bool" where
  "due cfg d x now \<longleftrightarrow> Minutes (time_Until now (x_NotAfter x)) \<le> renewBefore cfg \<and> \<not> manual d"

definition renewIn :: "settings \<Rightarrow> x509 \<Rightarrow> int \<Rightarrow> int" where
  "renewIn cfg x now =
     duration (trunc (round64 (Minutes (time_Until now (x_NotAfter x)) - renewBefore cfg)) * minute)"

section \<open>Error results\<close>

definition fail :: "Secret option \<Rightarrow> gerror \<Rightarrow> outcome" where
  "fail sec e = \<lparr>o_Secret = sec, o_RenewIn = defaultDuration, o_Expires = None, o_Err = Some e\<rparr>"

text \<open>Success without looking at a certificate.\<close>

definition skipped :: "Secret \<Rightarrow> outcome" where
  "skipped sec = \<lparr>o_Secret = Some sec, o_RenewIn = defaultDuration, o_Expires = None, o_Err = None\<rparr>"

definition get_error :: "gerror \<Rightarrow> gerror" where
  "get_error e =
     (if Contains (Error_text e) ''zone could not be found''
         \<or> Contains (Error_text e) (sentinel_text ErrCustomEnvReplace) \<or> Contains (Error_text e) ''is not set'' then e
      else if errors_Is e ErrServiceBusy then Sentinel ErrServiceBusy
      else if errors_Is e ErrRateLimited then Sentinel ErrRateLimited
      else Wrapped ''get cert error: '' e)"

text \<open>The access check before an order, for Vault only.\<close>

definition access_failure :: "'w certs \<Rightarrow> DomainConfig \<Rightarrow> Secret \<Rightarrow> outcome option" where
  "access_failure s d sec =
     (if stc_Type (dc_Config d) = Vault then
        (case CheckVaultWriteAccess s d of
           None \<Rightarrow> None
         | Some e \<Rightarrow>
             Some (if errors_Is e ErrVaultNotConfigured then fail None e
                   else fail (Some sec) (Wrapped ''vault access check failed: '' e)))
      else None)"

section \<open>makeSecret\<close>

type_synonym 'w getter = "'w certs \<Rightarrow> DomainConfig \<Rightarrow> ('w certs \<times> (gerror + Cert)) option"

text \<open>An order and the write of what it gives (a dry run has ended before a renewal gets here). An error of the order comes with \<open>old\<close>, one of the write with
  \<open>sec\<close>; when no Vault is configured for the write, with \<open>gone\<close>.\<close>

definition order ::
  "'w outside \<Rightarrow> settings \<Rightarrow> 'w getter \<Rightarrow> 'w certs \<Rightarrow> DomainConfig \<Rightarrow> Secret \<Rightarrow> Secret \<Rightarrow> Secret option
   \<Rightarrow> ('w certs \<times> (outcome + Cert)) option" where
  "order api cfg get s d old sec gone =
     (case get s d of
        None \<Rightarrow> None
      | Some (s, Inl e) \<Rightarrow> Some (s, Inl (fail (Some old) (get_error e)))
      | Some (s, Inr c) \<Rightarrow>
          if DryRun cfg then Some (s, Inl (skipped sec))
          else (case StorageConfigWrite api cfg s d c of
                  None \<Rightarrow> None
                | Some (s, None) \<Rightarrow> Some (s, Inr c)
                | Some (s, Some e) \<Rightarrow>
                    Some (s, Inl (if errors_Is e ErrVaultNotConfigured then fail gone e
                                  else fail (Some sec) (Wrapped ''write cert error: '' e)))))"

text \<open>No certificate in the store: make the first one.\<close>

definition first_cert ::
  "'w outside \<Rightarrow> settings \<Rightarrow> 'w getter \<Rightarrow> 'w certs \<Rightarrow> DomainConfig \<Rightarrow> bool \<Rightarrow> Secret \<Rightarrow> gerror
   \<Rightarrow> ('w certs \<times> (outcome + Cert)) option" where
  "first_cert api cfg get s d isLeader sec err =
     (if \<not> isLeader then Some (s, Inl (fail None err))
      else if manual d then Some (s, Inl (skipped sec))
      else if DryRun cfg then Some (s, Inl (skipped sec))
      else (case access_failure s d sec of
              Some r \<Rightarrow> Some (s, Inl r)
            | None \<Rightarrow> order api cfg get s d sec sec None))"

definition finish :: "settings \<Rightarrow> DomainConfig \<Rightarrow> Secret \<Rightarrow> Cert \<Rightarrow> x509 \<Rightarrow> int \<Rightarrow> outcome" where
  "finish cfg d sec c x now =
     (if Priv c = [] \<and> Pub c = [] then fail (Some sec) (Sentinel ErrBadKeyData)
      else \<lparr>o_Secret = Some (secret_of d c), o_RenewIn = renewIn cfg x now, o_Expires = Some (x_NotAfter x),
            o_Err = None\<rparr>)"

text \<open>A certificate is at hand: serve it or renew it.\<close>

definition renewed ::
  "'w outside \<Rightarrow> 'w authority \<Rightarrow> settings \<Rightarrow> 'w getter \<Rightarrow> 'w certs \<Rightarrow> DomainConfig \<Rightarrow> bool \<Rightarrow> Secret \<Rightarrow> Cert
   \<Rightarrow> x509 \<Rightarrow> ('w certs \<times> outcome) option" where
  "renewed api auth cfg get s d isLeader sec c x =
     (if \<not> isLeader then
        Some (s, \<lparr>o_Secret = Some (secret_of d c), o_RenewIn = 5 * minute, o_Expires = Some (x_NotAfter x), o_Err = None\<rparr>)
      else if DryRun cfg then Some (s, skipped sec)
      else if Priv c = [] \<and> Pub c = [] then Some (s, fail (Some sec) (Sentinel ErrBadKeyData))
      else (case access_failure s d sec of
              Some r \<Rightarrow> Some (s, r)
            | None \<Rightarrow>
                (case order api cfg get s d (secret_of d c) sec (Some sec) of
                   None \<Rightarrow> None
                 | Some (s, Inl r) \<Rightarrow> Some (s, r)
                 | Some (s, Inr c) \<Rightarrow>
                     (case get509Cert auth c of
                        Inl e \<Rightarrow> Some (s, fail (Some sec) e)
                      | Inr x \<Rightarrow> Some (s, finish cfg d sec c x (Now auth (world s)))))))"

definition serve ::
  "'w outside \<Rightarrow> 'w authority \<Rightarrow> settings \<Rightarrow> 'w getter \<Rightarrow> 'w certs \<Rightarrow> DomainConfig \<Rightarrow> bool \<Rightarrow> bool \<Rightarrow> Secret
   \<Rightarrow> Cert \<Rightarrow> ('w certs \<times> outcome) option" where
  "serve api auth cfg get s d isLeader forceRenew sec c =
     (case get509Cert auth c of
        Inl e \<Rightarrow> Some (s, fail (Some sec) e)
      | Inr x \<Rightarrow>
          if forceRegenerate d x forceRenew \<or> due cfg d x (Now auth (world s))
          then renewed api auth cfg get s d isLeader sec c x
          else Some (s, finish cfg d sec c x (Now auth (world s))))"

definition makeSecret ::
  "'w outside \<Rightarrow> 'w authority \<Rightarrow> settings \<Rightarrow> ctx \<Rightarrow> 'w getter \<Rightarrow> 'w certs \<Rightarrow> DomainConfig \<Rightarrow> bool \<Rightarrow> bool
   \<Rightarrow> ('w certs \<times> outcome) option" where
  "makeSecret api auth cfg ctx get s d isLeader forceRenew =
     (case StorageConfigRead api cfg ctx s d of
        None \<Rightarrow> None
      | Some (c, None) \<Rightarrow> serve api auth cfg get s d isLeader forceRenew (read_secret d c) c
      | Some (c, Some err) \<Rightarrow>
          if errors_Is err ErrVaultNotConfigured then Some (s, fail None err)
          else if errors_Is err ErrCertNotFound \<or> errors_Is err ErrCertNil then
            (case first_cert api cfg get s d isLeader (read_secret d c) err of
               None \<Rightarrow> None
             | Some (s, Inl r) \<Rightarrow> Some (s, r)
             | Some (s, Inr c') \<Rightarrow> serve api auth cfg get s d isLeader forceRenew (read_secret d c) c')
          else Some (s, fail (Some (read_secret d c)) (Wrapped ''read cert error: '' err)))"

section \<open>GetSecret\<close>

definition storage_type :: "settings \<Rightarrow> DomainConfig \<Rightarrow> string" where
  "storage_type cfg d =
     (if dc_Challenge d \<noteq> None then
        if stc_Vault (dc_Config d) \<noteq> None then Vault
        else if Storage_Vault cfg \<noteq> None then Vault
        else Kubernetes
      else if stc_Kubernetes (dc_Config d) \<noteq> None then Kubernetes
      else if (case stc_Local (dc_Config d) of None \<Rightarrow> False | Some l \<Rightarrow> lsc_Path l \<noteq> []) then Local
      else if HasK8sClient cfg then Kubernetes
      else Local)"

definition with_type :: "string \<Rightarrow> DomainConfig \<Rightarrow> DomainConfig" where
  "with_type t d = d\<lparr>dc_Config := (dc_Config d)\<lparr>stc_Type := t\<rparr>\<rparr>"

definition with_kubernetes :: "settings \<Rightarrow> DomainConfig \<Rightarrow> DomainConfig" where
  "with_kubernetes cfg d =
     (if stc_Kubernetes (dc_Config d) = None
      then d\<lparr>dc_Config := (dc_Config d)\<lparr>stc_Kubernetes :=
               Some \<lparr>ksc_Namespace = DefaultNamespace cfg, ksc_SecretName = dc_SecretName d\<rparr>\<rparr>\<rparr>
      else d)"

definition with_vault :: "settings \<Rightarrow> DomainConfig \<Rightarrow> DomainConfig" where
  "with_vault cfg d =
     (if stc_Vault (dc_Config d) = None then d\<lparr>dc_Config := (dc_Config d)\<lparr>stc_Vault := Storage_Vault cfg\<rparr>\<rparr> else d)"

definition vault_storage :: "VaultStorageConfig \<Rightarrow> StorageConfig" where
  "vault_storage v = \<lparr>stc_Type = Vault, stc_Local = None, stc_Vault = Some v, stc_Kubernetes = None\<rparr>"

text \<open>A result with an error loses its secret.\<close>

definition report :: "'w certs \<times> outcome \<Rightarrow> 'w certs \<times> outcome" where
  "report r = (case r of (s, oc) \<Rightarrow> (s, if o_Err oc \<noteq> None then oc\<lparr>o_Secret := None\<rparr> else oc))"

definition GetSecret ::
  "'w outside \<Rightarrow> 'w authority \<Rightarrow> settings \<Rightarrow> ctx \<Rightarrow> 'w certs \<Rightarrow> DomainConfig \<Rightarrow> bool \<Rightarrow> bool
   \<Rightarrow> ('w certs \<times> outcome) option" where
  "GetSecret api auth cfg ctx s d isLeader forceRenew =
     (let t = storage_type cfg d; d = with_type t d;
          make = (\<lambda>get s d. map_option report (makeSecret api auth cfg ctx get s d isLeader forceRenew));
          make_le = (\<lambda>s d. case EnsureLEClient auth cfg s of
                             (s, Some e) \<Rightarrow> Some (s, fail None e)
                           | (s, None) \<Rightarrow> make (LetsEncrypt_Get auth) s d)
      in if t = Local then make (SelfSigned_Get auth) s d
         else if t = Kubernetes then
           if \<not> HasK8sClient cfg then Some (s, fail None (Sentinel ErrK8sClientNotConfigured))
           else let d = with_kubernetes cfg d
                in if dc_Challenge d \<noteq> None then make_le s d else make (SelfSigned_Get auth) s d
         else (case stc_Vault (dc_Config (with_vault cfg d)) of
                 None \<Rightarrow> Some (s, fail None (Sentinel ErrVaultNotConfigured))
               | Some v \<Rightarrow>
                   (case InitStorage api cfg s (vault_storage v) of
                      None \<Rightarrow> None
                    | Some (s, Some e) \<Rightarrow> Some (s, fail None e)
                    | Some (s, None) \<Rightarrow> make_le s (with_vault cfg d))))"

end
