(* ===== verification/CertFacts.thy ===== *)
theory CertFacts
  imports Certs
begin

text \<open>
  Facts about the certificates of \<open>Certs\<close>: when an order is placed, that what is published is stored, and
  that no input makes the code panic as long as a domain is named.
\<close>

section \<open>Facts\<close>

lemma manual_never_forced: "forceRegenerate d x force \<Longrightarrow> \<not> manual d"
  by (auto simp: forceRegenerate_def manual_def Let_def split: if_splits option.splits)

lemma manual_never_due: "due cfg d x now \<Longrightarrow> \<not> manual d"
  by (simp add: due_def)

lemma first_cert_changes:
  "first_cert api cfg get s d isLeader sec err = Some (s', r) \<Longrightarrow> s' \<noteq> s \<or> \<not> isl r \<Longrightarrow>
     isLeader \<and> \<not> DryRun cfg \<and> \<not> manual d"
  by (auto simp: first_cert_def split: if_splits option.splits)

lemma renewed_changes:
  "renewed api auth cfg get s d isLeader sec c x = Some (s', oc) \<Longrightarrow> s' \<noteq> s \<Longrightarrow> isLeader \<and> \<not> DryRun cfg"
  by (auto simp: renewed_def split: if_splits option.splits)

lemma serve_changes:
  assumes "serve api auth cfg get s d isLeader force sec c = Some (s', oc)" and "s' \<noteq> s"
  shows "isLeader \<and> \<not> DryRun cfg \<and> \<not> manual d \<and>
     (\<exists>x. get509Cert auth c = Inr x \<and> (forceRegenerate d x force \<or> due cfg d x (Now auth (world s))))"
  using assms renewed_changes manual_never_forced manual_never_due
  by (fastforce simp: serve_def split: sum.splits if_splits)

definition whole_certs :: "'w getter \<Rightarrow> bool" where
  "whole_certs get \<longleftrightarrow> (\<forall>s d s' c. get s d = Some (s', Inr c) \<longrightarrow> Pub c \<noteq> [] \<and> Priv c \<noteq> [])"

text \<open>What the authorities document: a PEM text is never empty, and an order that succeeds gives a certificate and its
  key.\<close>

definition whole_authority :: "'w authority \<Rightarrow> bool" where
  "whole_authority auth \<longleftrightarrow> (\<forall>t b. pem_Encode auth t b \<noteq> []) \<and>
     (\<forall>w u client env domains w' c. Obtain auth w u client env domains = (w', Inr c) \<longrightarrow> Pub c \<noteq> [] \<and> Priv c \<noteq> [])"

lemma whole_SelfSigned: "whole_authority auth \<Longrightarrow> whole_certs (SelfSigned_Get auth)"
  by (auto simp: whole_certs_def whole_authority_def SelfSigned_Get_def Let_def
      split: prod.splits sum.splits list.splits)

lemma whole_obtained:
  "whole_authority auth \<Longrightarrow> obtain_cert auth w u client env domains = (w', Inr c) \<Longrightarrow> Pub c \<noteq> [] \<and> Priv c \<noteq> []"
  by (auto simp: whole_authority_def obtain_cert_def split: prod.splits sum.splits)

lemma whole_dns01:
  "whole_authority auth \<Longrightarrow> dns01 auth w u client env d ch = (w', env', client', Inr c) \<Longrightarrow> Pub c \<noteq> [] \<and> Priv c \<noteq> []"
  by (auto simp: dns01_def Let_def split: if_splits option.splits sum.splits prod.splits dest: whole_obtained)

lemma whole_LetsEncrypt: "whole_authority auth \<Longrightarrow> whole_certs (LetsEncrypt_Get auth)"
  by (auto simp: whole_certs_def LetsEncrypt_Get_def Let_def
      split: prod.splits sum.splits option.splits if_splits dest: whole_obtained whole_dns01)

text \<open>A certificate is in its store, whatever the cache of the client says.\<close>

definition stored :: "'w outside \<Rightarrow> settings \<Rightarrow> 'w certs \<Rightarrow> DomainConfig \<Rightarrow> Cert \<Rightarrow> bool" where
  "stored api cfg s d c \<longleftrightarrow> StorageConfigRead (past_cache api) cfg (None, None) s d = Some (c, None)"

text \<open>It is there, or it is what was read from there in a state nothing has changed since.\<close>

definition backed ::
  "'w outside \<Rightarrow> settings \<Rightarrow> ctx \<Rightarrow> DomainConfig \<Rightarrow> 'w certs \<Rightarrow> 'w certs \<Rightarrow> Cert \<Rightarrow> bool" where
  "backed api cfg ctx d s0 s c \<longleftrightarrow>
     s = s0 \<and> StorageConfigRead api cfg ctx s0 d = Some (c, None) \<or> stored api cfg s d c"

lemma order_stored:
  assumes "keeps_writes api" and "whole_certs get"
    and "order api cfg get s d old sec gone = Some (s', Inr c)"
  shows "stored api cfg s' d c" and "\<not> DryRun cfg"
proof -
  obtain s1 where o: "get s d = Some (s1, Inr c)" "StorageConfigWrite api cfg s1 d c = Some (s', None)" "\<not> DryRun cfg"
    using assms(3) by (auto simp: order_def split: option.splits sum.splits prod.splits if_splits)
  then have "\<not> empty_half c" using assms(2) unfolding whole_certs_def empty_half_def by blast
  from write_lands [OF assms(1) o(2,3) this] o(3) show "stored api cfg s' d c" "\<not> DryRun cfg"
    by (simp_all add: stored_def)
qed

lemma order_fails: "order api cfg get s d old sec gone = Some (s', Inl r) \<Longrightarrow> \<not> DryRun cfg \<Longrightarrow> o_Err r \<noteq> None"
  by (auto simp: order_def fail_def split: option.splits sum.splits prod.splits if_splits)

lemma access_fails: "access_failure s d sec = Some r \<Longrightarrow> o_Err r \<noteq> None"
  by (auto simp: access_failure_def fail_def split: option.splits if_splits)

lemma finish_ok:
  "o_Err (finish cfg d sec c x now) = None \<Longrightarrow> o_Secret (finish cfg d sec c x now) = Some (secret_of d c)"
  by (auto simp: finish_def fail_def split: if_splits)

lemma renewed_stored:
  assumes "keeps_writes api" and "whole_certs get" and "DryRun cfg \<longrightarrow> sec = secret_of d c" and "backed api cfg ctx d s0 s c"
    and "renewed api auth cfg get s d isLeader sec c x = Some (s', oc)" and "o_Err oc = None"
  shows "\<exists>c'. o_Secret oc = Some (secret_of d c') \<and> backed api cfg ctx d s0 s' c'"
proof (cases "isLeader \<and> \<not> DryRun cfg")
  case False
  then show ?thesis using assms(3-5) by (auto simp: renewed_def skipped_def split: if_splits)
next
  case True
  then obtain c' x' where "order api cfg get s d (secret_of d c) sec (Some sec) = Some (s', Inr c')"
    "oc = finish cfg d sec c' x' (Now auth (world s'))"
    using assms(5,6)
    by (auto simp: renewed_def fail_def dest: order_fails access_fails
        split: if_splits option.splits sum.splits prod.splits)
  then show ?thesis using order_stored(1) [OF assms(1,2)] finish_ok assms(6) unfolding backed_def by blast
qed

lemma serve_stored:
  assumes "keeps_writes api" and "whole_certs get" and "DryRun cfg \<longrightarrow> sec = secret_of d c" and "backed api cfg ctx d s0 s c"
    and "serve api auth cfg get s d isLeader force sec c = Some (s', oc)" and "o_Err oc = None"
  shows "\<exists>c'. o_Secret oc = Some (secret_of d c') \<and> backed api cfg ctx d s0 s' c'"
proof -
  obtain x where x: "get509Cert auth c = Inr x" using assms(5,6) by (auto simp: serve_def fail_def split: sum.splits)
  show ?thesis
  proof (cases "forceRegenerate d x force \<or> due cfg d x (Now auth (world s))")
    case True
    then show ?thesis using renewed_stored [OF assms(1-4) _ assms(6)] assms(5) x by (simp add: serve_def)
  next
    case False
    then show ?thesis using assms(4-6) x finish_ok by (auto simp: serve_def)
  qed
qed

lemma nil_check_half: "nil_check c0 = (c, Some e) \<Longrightarrow> empty_half c"
  by (auto simp: nil_check_def split: if_splits)

lemma found_is_whole:
  assumes "StorageConfigRead api cfg ctx s d = Some (c, None)"
  shows "read_secret d c = secret_of d c"
proof -
  have n: "nil_check c0 = (c, None) \<Longrightarrow> \<not> empty_half c" for c0
    by (auto simp: nil_check_def split: if_splits)
  have "read_local api w d = (c, None) \<Longrightarrow> \<not> empty_half c" "read_vault api k w m x = (c, None) \<Longrightarrow> \<not> empty_half c"
    "read_kubernetes api cfg w d = (c, None) \<Longrightarrow> \<not> empty_half c" for w k m x
    using n by (auto simp: read_local_def read_vault_def read_kubernetes_def
        split: if_splits file_read.splits sum.splits option.splits get.splits)
  then have "\<not> empty_half c"
    using assms by (auto simp: StorageConfigRead_def Let_def split: option.splits if_splits)
  then show ?thesis by (simp add: read_secret_def empty_half_def)
qed

lemma missing_is_half:
  assumes "StorageConfigRead api cfg ctx s d = Some (c, Some e)" and "errors_Is e ErrCertNotFound \<or> errors_Is e ErrCertNil"
  shows "read_secret d c = bare_secret d"
proof -
  have l: "read_local api w d = (c, Some e) \<Longrightarrow> empty_half c" for w
    using assms(2) nil_check_half
    by (auto simp: read_local_def empty_half_def split: if_splits file_read.splits)
  have v: "read_vault api k w m n = (c, Some e) \<Longrightarrow> empty_half c" for k w m n
    using assms(2) nil_check_half
    by (auto simp: read_vault_def empty_half_def split: if_splits option.splits sum.splits)
  have k: "read_kubernetes api cfg w d = (c, Some e) \<Longrightarrow> empty_half c" for w
    using assms(2) nil_check_half by (auto simp: read_kubernetes_def empty_half_def split: get.splits)
  have "empty_half c"
    using assms l v k
    by (auto simp: StorageConfigRead_def Let_def empty_half_def split: option.splits if_splits)
  then show ?thesis by (auto simp: read_secret_def empty_half_def)
qed

lemma first_cert_stored:
  assumes "keeps_writes api" and "whole_certs get"
    and "first_cert api cfg get s d isLeader sec err = Some (s', r)"
  shows "case r of Inr c \<Rightarrow> stored api cfg s' d c \<and> \<not> DryRun cfg
         | Inl oc \<Rightarrow> o_Err oc = None \<longrightarrow> (manual d \<or> DryRun cfg) \<and> s' = s \<and> oc = skipped sec"
proof (cases "isLeader \<and> \<not> manual d \<and> \<not> DryRun cfg \<and> access_failure s d sec = None")
  case True
  then have "order api cfg get s d sec sec None = Some (s', r)" using assms(3) by (simp add: first_cert_def)
  then show ?thesis
    using order_stored [OF assms(1,2)] True by (auto dest: order_fails split: sum.split)
next
  case False
  then show ?thesis
    using assms(3) by (auto simp: first_cert_def fail_def dest: access_fails split: if_splits option.splits)
qed

section \<open>Properties\<close>

text \<open>C5. Certificates are ordered only when that is needed: when nothing but a read has happened unless this replica
  leads, no dry run is on, the certificate is not supplied by hand, and either none is stored or the stored one
  is asked to be made again or is due.\<close>

theorem orders_only_when_needed:
  assumes "makeSecret api auth cfg ctx get s d isLeader force = Some (s', oc)" and "s' \<noteq> s"
  shows "isLeader \<and> \<not> DryRun cfg \<and> \<not> manual d \<and>
    (\<exists>c. (\<exists>e. StorageConfigRead api cfg ctx s d = Some (c, Some e) \<and>
              (errors_Is e ErrCertNotFound \<or> errors_Is e ErrCertNil)) \<or>
         StorageConfigRead api cfg ctx s d = Some (c, None) \<and>
         (\<exists>x. get509Cert auth c = Inr x \<and> (forceRegenerate d x force \<or> due cfg d x (Now auth (world s)))))"
proof -
  obtain c err where r: "StorageConfigRead api cfg ctx s d = Some (c, err)"
    using assms(1) by (auto simp: makeSecret_def split: option.splits)
  show ?thesis
  proof (cases err)
    case None
    then show ?thesis using assms serve_changes r by (fastforce simp: makeSecret_def)
  next
    case (Some e)
    then have e: "errors_Is e ErrCertNotFound \<or> errors_Is e ErrCertNil"
      using assms r by (auto simp: makeSecret_def split: if_splits)
    then obtain s1 r1 where "first_cert api cfg get s d isLeader (read_secret d c) e = Some (s1, r1)" "s1 \<noteq> s \<or> \<not> isl r1"
      using assms r Some by (auto simp: makeSecret_def split: if_splits option.splits sum.splits)
    then show ?thesis using first_cert_changes r Some e by blast
  qed
qed

text \<open>C6. What is published is what is stored. When the certificate of a secret is reported without an error, by
  either authority, it is the one a read of the store gave, with nothing changed since, or it has just been made
  (for the first time or as a renewal) and the store itself holds exactly it: the read past the cache gives it.
  The exceptions change nothing and carry no certificate: one to be supplied by hand that is not there yet, and a
  dry run without a stored certificate.\<close>

theorem published_is_stored:
  assumes "keeps_writes api" and "whole_authority auth" and "get = SelfSigned_Get auth \<or> get = LetsEncrypt_Get auth"
    and "makeSecret api auth cfg ctx get s d isLeader force = Some (s', oc)" and "o_Err oc = None"
  shows "(\<exists>c. o_Secret oc = Some (secret_of d c) \<and>
      (s' = s \<and> StorageConfigRead api cfg ctx s d = Some (c, None) \<or>
       StorageConfigRead (past_cache api) cfg (None, None) s' d = Some (c, None))) \<or>
    (manual d \<or> DryRun cfg) \<and> s' = s \<and> oc = skipped (bare_secret d)"
proof -
  note kw = assms(1)
  have w: "whole_certs get" using assms(2,3) whole_SelfSigned whole_LetsEncrypt by blast
  obtain c err where r: "StorageConfigRead api cfg ctx s d = Some (c, err)"
    using assms(4) by (auto simp: makeSecret_def split: option.splits)
  have "(\<exists>c. o_Secret oc = Some (secret_of d c) \<and> backed api cfg ctx d s s' c) \<or>
    (manual d \<or> DryRun cfg) \<and> s' = s \<and> oc = skipped (bare_secret d)"
  proof (cases err)
    case None
    then have b: "backed api cfg ctx d s s c" using r by (simp add: backed_def)
    have "serve api auth cfg get s d isLeader force (secret_of d c) c = Some (s', oc)"
      using assms(4) None r found_is_whole [OF r [unfolded None]] by (simp add: makeSecret_def)
    from serve_stored [OF kw w _ b this assms(5)] show ?thesis by blast
  next
    case (Some e)
    then have e: "errors_Is e ErrCertNotFound \<or> errors_Is e ErrCertNil" "\<not> errors_Is e ErrVaultNotConfigured"
      using assms(4,5) r by (auto simp: makeSecret_def fail_def split: if_splits)
    then obtain s1 r1 where f: "first_cert api cfg get s d isLeader (read_secret d c) e = Some (s1, r1)"
      "case r1 of Inl oc' \<Rightarrow> s' = s1 \<and> oc = oc'
       | Inr c' \<Rightarrow> serve api auth cfg get s1 d isLeader force (read_secret d c) c' = Some (s', oc)"
      using assms(4) r Some by (auto simp: makeSecret_def split: if_splits option.splits sum.splits)
    show ?thesis
    proof (cases r1)
      case (Inl oc')
      then show ?thesis
        using first_cert_stored [OF kw w f(1)] f(2) assms(5) missing_is_half [OF r [unfolded Some] e(1)] by simp
    next
      case (Inr c')
      then have b: "backed api cfg ctx d s s1 c'" "\<not> DryRun cfg"
        using first_cert_stored [OF kw w f(1)] by (simp_all add: backed_def)
      show ?thesis using serve_stored [OF kw w _ b(1)] f(2) assms(5) Inr b(2) by simp
    qed
  qed
  then show ?thesis unfolding backed_def stored_def .
qed

section \<open>No panic\<close>

text \<open>The shared clients an authority relies on stay once they are there.\<close>

definition keeps_clients :: "'w getter \<Rightarrow> bool \<Rightarrow> bool" where
  "keeps_clients get le \<longleftrightarrow> (\<forall>s d. (le \<longrightarrow> LeClient s \<noteq> None \<and> dc_Challenge d \<noteq> None) \<longrightarrow> dc_Domains d \<noteq> [] \<longrightarrow>
     (\<exists>s' r. get s d = Some (s', r) \<and> (le \<longrightarrow> LeClient s' \<noteq> None) \<and> VaultClient s' = VaultClient s))"

lemma keeps_clients_SelfSigned: "keeps_clients (SelfSigned_Get auth) False"
  unfolding keeps_clients_def
  by (auto simp: SelfSigned_Get_def Let_def split: prod.split sum.split list.split)

lemma keeps_clients_LetsEncrypt: "keeps_clients (LetsEncrypt_Get auth) True"
  unfolding keeps_clients_def
  by (auto simp: LetsEncrypt_Get_def Let_def split: prod.split sum.split option.split)

definition usable :: "bool \<Rightarrow> 'w certs \<Rightarrow> DomainConfig \<Rightarrow> bool" where
  "usable le s d \<longleftrightarrow> (stc_Type (dc_Config d) = Vault \<longrightarrow> VaultClient s \<noteq> None) \<and>
     (le \<longrightarrow> LeClient s \<noteq> None \<and> dc_Challenge d \<noteq> None) \<and> dc_Domains d \<noteq> []"

lemma read_total: "usable le s d \<Longrightarrow> \<exists>c e. StorageConfigRead api cfg ctx s d = Some (c, e)"
  by (auto simp: usable_def StorageConfigRead_def Let_def split: option.split)

lemma write_total: "usable le s d \<Longrightarrow> \<exists>s' e. StorageConfigWrite api cfg s d c = Some (s', e) \<and> usable le s' d"
  by (auto simp: usable_def StorageConfigWrite_def Let_def split: option.split prod.split)

lemma get_total: "keeps_clients get le \<Longrightarrow> usable le s d \<Longrightarrow> \<exists>s' r. get s d = Some (s', r) \<and> usable le s' d"
  unfolding keeps_clients_def usable_def by metis

lemma order_total:
  assumes "keeps_clients get le" and "usable le s d"
  shows "\<exists>s' r. order api cfg get s d old sec gone = Some (s', r) \<and> usable le s' d"
proof -
  obtain s1 r where g: "get s d = Some (s1, r)" "usable le s1 d" using get_total [OF assms] by blast
  show ?thesis
  proof (cases r)
    case (Inl e)
    then show ?thesis using g by (simp add: order_def)
  next
    case (Inr c)
    obtain s2 e where "StorageConfigWrite api cfg s1 d c = Some (s2, e)" "usable le s2 d"
      using write_total [OF g(2)] by blast
    then show ?thesis using g Inr by (auto simp: order_def split: option.split)
  qed
qed

lemma first_cert_total:
  assumes "keeps_clients get le" and "usable le s d"
  shows "\<exists>s' r. first_cert api cfg get s d isLeader sec err = Some (s', r) \<and> usable le s' d"
  using order_total [OF assms] assms(2) by (auto simp: first_cert_def split: option.split)

lemma serve_total:
  assumes "keeps_clients get le" and "usable le s d"
  shows "serve api auth cfg get s d isLeader force sec c \<noteq> None"
proof -
  have "renewed api auth cfg get s d isLeader sec c x \<noteq> None" for x
  proof -
    obtain s' r where "order api cfg get s d (secret_of d c) sec (Some sec) = Some (s', r)"
      using order_total [OF assms] by blast
    then show ?thesis by (auto simp: renewed_def split: option.split sum.split)
  qed
  then show ?thesis by (simp add: serve_def split: sum.split)
qed

lemma makeSecret_total:
  assumes "keeps_clients get le" and "usable le s d"
  shows "makeSecret api auth cfg ctx get s d isLeader force \<noteq> None"
proof -
  obtain c e where r: "StorageConfigRead api cfg ctx s d = Some (c, e)" using read_total [OF assms(2)] by blast
  have "(case first_cert api cfg get s d isLeader (read_secret d c) err of
       None \<Rightarrow> None
     | Some (s, Inl r) \<Rightarrow> Some (s, r)
     | Some (s, Inr c') \<Rightarrow> serve api auth cfg get s d isLeader force (read_secret d c) c') \<noteq> None" for err
  proof -
    obtain s' r where f: "first_cert api cfg get s d isLeader (read_secret d c) err = Some (s', r)" "usable le s' d"
      using first_cert_total [OF assms] by blast
    then show ?thesis using serve_total [OF assms(1) f(2)] by (simp split: sum.split)
  qed
  then show ?thesis using serve_total [OF assms] r by (simp add: makeSecret_def split: option.split)
qed

lemma EnsureLEClient_client:
  "EnsureLEClient auth cfg s = (s', None) \<Longrightarrow> LeClient s' \<noteq> None \<and> VaultClient s' = VaultClient s"
  by (auto simp: EnsureLEClient_def split: if_splits prod.splits option.splits)

lemma InitStorage_client:
  "\<exists>s' e. InitStorage api cfg s (vault_storage v) = Some (s', e) \<and> (e = None \<longrightarrow> VaultClient s' \<noteq> None)"
  by (auto simp: InitStorage_def vault_storage_def split: option.split)

lemma storage_type_cases:
  "storage_type cfg d = Vault \<longrightarrow> dc_Challenge d \<noteq> None"
  "storage_type cfg d = Vault \<or> storage_type cfg d = Kubernetes \<or> storage_type cfg d = Local"
  by (simp_all add: storage_type_def)

text \<open>Without a panic there is a secret or an error, never neither; an error comes without an expiry.\<close>

definition answers :: "outcome \<Rightarrow> bool" where
  "answers oc \<longleftrightarrow> (o_Err oc = None \<longrightarrow> o_Secret oc \<noteq> None) \<and> (o_Err oc \<noteq> None \<longrightarrow> o_Expires oc = None)"

definition conclusive :: "outcome \<Rightarrow> bool" where
  "conclusive oc \<longleftrightarrow> (o_Err oc = None \<longleftrightarrow> o_Secret oc \<noteq> None) \<and> (o_Err oc \<noteq> None \<longrightarrow> o_Expires oc = None)"

lemma answers_simps [simp]: "answers (fail sec e)" "answers (skipped sec')" "answers (finish cfg d sec' c x now)"
  by (simp_all add: answers_def fail_def skipped_def finish_def)

lemma access_answers: "access_failure s d sec = Some oc \<Longrightarrow> answers oc"
  by (auto simp: access_failure_def split: if_splits option.splits)

lemma order_answers: "order api cfg get s d old sec gone = Some (s', Inl oc) \<Longrightarrow> answers oc"
  by (auto simp: order_def split: option.splits sum.splits prod.splits if_splits)

lemma first_cert_answers: "first_cert api cfg get s d isLeader sec err = Some (s', Inl oc) \<Longrightarrow> answers oc"
  by (auto simp: first_cert_def split: if_splits option.splits dest: access_answers order_answers)

lemma renewed_answers: "renewed api auth cfg get s d isLeader sec c x = Some (s', oc) \<Longrightarrow> answers oc"
  by (auto simp: renewed_def split: if_splits option.splits sum.splits prod.splits dest: access_answers order_answers)
    (simp_all add: answers_def)

lemma serve_answers: "serve api auth cfg get s d isLeader force sec c = Some (s', oc) \<Longrightarrow> answers oc"
  by (auto simp: serve_def split: sum.splits if_splits dest: renewed_answers)

lemma makeSecret_answers: "makeSecret api auth cfg ctx get s d isLeader force = Some (s', oc) \<Longrightarrow> answers oc"
  by (auto simp: makeSecret_def split: option.splits sum.splits prod.splits if_splits
      dest: serve_answers first_cert_answers)

lemma report_conclusive: "answers oc \<Longrightarrow> conclusive (snd (report (s, oc)))"
  by (cases "o_Err oc") (auto simp: report_def conclusive_def answers_def)

lemma conclusive_fail [simp]: "conclusive (fail None e)"
  by (simp add: conclusive_def fail_def)

lemma made_conclusive:
  assumes "makeSecret api auth cfg ctx get s d isLeader force \<noteq> None"
  shows "\<exists>s' oc. map_option report (makeSecret api auth cfg ctx get s d isLeader force) = Some (s', oc) \<and> conclusive oc"
proof -
  obtain s1 oc where m: "makeSecret api auth cfg ctx get s d isLeader force = Some (s1, oc)" using assms by auto
  from report_conclusive [OF makeSecret_answers [OF m]] have "conclusive (snd (report (s1, oc)))" .
  then show ?thesis using m by (metis option.simps(9) prod.collapse)
qed

lemma made_result:
  "makeSecret api auth cfg ctx get s d isLeader force = Some r \<Longrightarrow> report r = (s', oc) \<Longrightarrow> conclusive oc"
  using report_conclusive [OF makeSecret_answers] by (metis prod.collapse snd_conv)

lemma GetSecret_result: "GetSecret api auth cfg ctx s d isLeader force = Some (s', oc) \<Longrightarrow> conclusive oc"
  by (auto simp: GetSecret_def Let_def split: if_splits option.splits prod.splits dest: made_result)

lemma GetSecret_conclusive:
  assumes d: "dc_Domains d \<noteq> []"
  shows "\<exists>s' oc. GetSecret api auth cfg ctx s d isLeader force = Some (s', oc) \<and> conclusive oc"
proof -
  let ?make = "\<lambda>get s d. map_option report (makeSecret api auth cfg ctx get s d isLeader force)"
  let ?ok = "\<lambda>r. \<exists>s' oc. r = Some (s', oc) \<and> conclusive oc"
  have self: "?ok (?make (SelfSigned_Get auth) s d)" if "stc_Type (dc_Config d) \<noteq> Vault" "dc_Domains d \<noteq> []" for d
  proof -
    have "usable False s d" using that by (simp add: usable_def)
    from made_conclusive [OF makeSecret_total [OF keeps_clients_SelfSigned this]] show ?thesis .
  qed
  have le: "?ok (case EnsureLEClient auth cfg s of
      (s, Some e) \<Rightarrow> Some (s, fail None e) | (s, None) \<Rightarrow> ?make (LetsEncrypt_Get auth) s d)"
    if "stc_Type (dc_Config d) = Vault \<longrightarrow> VaultClient s \<noteq> None" "dc_Challenge d \<noteq> None" "dc_Domains d \<noteq> []" for s d
  proof -
    obtain s1 e where e: "EnsureLEClient auth cfg s = (s1, e)" by (cases "EnsureLEClient auth cfg s")
    show ?thesis
    proof (cases e)
      case None
      have "usable True s1 d" using EnsureLEClient_client [OF e [unfolded None]] that by (simp add: usable_def)
      from made_conclusive [OF makeSecret_total [OF keeps_clients_LetsEncrypt this]] show ?thesis by (simp add: e None)
    qed (simp add: e)
  qed
  show ?thesis
  proof -
    consider "storage_type cfg d = Local" | "storage_type cfg d = Kubernetes" | "storage_type cfg d = Vault"
      using storage_type_cases by blast
    then show ?thesis
    proof cases
      case 1
      then show ?thesis using self [of "with_type Local d"] d by (simp add: GetSecret_def Let_def with_type_def)
    next
      case 2
      let ?d = "with_kubernetes cfg (with_type Kubernetes d)"
      have "stc_Type (dc_Config ?d) \<noteq> Vault" "dc_Domains ?d \<noteq> []"
        using d by (simp_all add: with_kubernetes_def with_type_def)
      then show ?thesis using self [of ?d] le [of ?d s] 2
        by (cases "dc_Challenge ?d = None") (simp_all add: GetSecret_def Let_def del: not_None_eq)
    next
      case 3
      let ?d = "with_vault cfg (with_type Vault d)"
      have ch: "dc_Challenge d \<noteq> None" using storage_type_cases(1) 3 by blast
      show ?thesis
      proof (cases "stc_Vault (dc_Config ?d)")
        case None
        then show ?thesis using 3 by (simp add: GetSecret_def Let_def)
      next
        case (Some v)
        obtain s' e where i: "InitStorage api cfg s (vault_storage v) = Some (s', e)" "e = None \<longrightarrow> VaultClient s' \<noteq> None"
          using InitStorage_client by blast
        have "stc_Type (dc_Config ?d) = Vault" "dc_Challenge ?d \<noteq> None" "dc_Domains ?d \<noteq> []"
          using ch d by (simp_all add: with_vault_def with_type_def)
        then show ?thesis using 3 Some i le [of ?d s'] by (cases e) (simp_all add: GetSecret_def Let_def)
      qed
    qed
  qed
qed

text \<open>C25. Getting a certificate never panics when a domain is named: every other input ends either in a secret and no
  error, or in an error and no secret, so that the handler, which uses the secret when there is no error, has one;
  the clients are in place whenever they are used. This is one call on its own: with several reconciles at a time
  one of them can take the shared Vault client away between the set-up and the use of another.\<close>

theorem GetSecret_never_panics:
  assumes "dc_Domains d \<noteq> []"
  shows "\<exists>s' oc. GetSecret api auth cfg ctx s d isLeader force = Some (s', oc) \<and>
    (o_Err oc = None \<and> o_Secret oc \<noteq> None \<or> o_Err oc \<noteq> None \<and> o_Secret oc = None)"
proof -
  obtain s' oc where "GetSecret api auth cfg ctx s d isLeader force = Some (s', oc)" "conclusive oc"
    using GetSecret_conclusive [OF assms] by blast
  then show ?thesis by (cases "o_Err oc") (auto simp: conclusive_def)
qed

section \<open>A concrete run\<close>

text \<open>A self-signed certificate in Kubernetes that is not there yet, with a renewal asked for.\<close>

definition sample_settings :: settings where
  "sample_settings =
     \<lparr>DryRun = False, RenewBeforeExpireInMinutes = 43200, DefaultNamespace = ''ns'', HasK8sClient = True,
      Storage_Vault = None, Account_Email = [], Account_PrivateKeyBase64 = []\<rparr>"

definition sample_domain :: DomainConfig where
  "sample_domain =
     \<lparr>dc_SecretName = ''web'', dc_Domains = [''a.example''], dc_Challenge = None,
      dc_Config = \<lparr>stc_Type = Kubernetes, stc_Local = None, stc_Vault = None, stc_Kubernetes = None\<rparr>\<rparr>"

definition sample_certs :: "memory certs" where
  "sample_certs = \<lparr>LeClient = None, VaultClient = None, environ = [], world = empty_memory\<rparr>"

definition sample_cert :: Cert where
  "sample_cert = \<lparr>Pub = ''R3'', Priv = ''key''\<rparr>"

definition sample_get :: "memory getter" where
  "sample_get s d = Some (s, Inr sample_cert)"

lemma sample_run:
  "\<exists>s' oc. makeSecret memory_api memory_authority sample_settings (None, None) sample_get sample_certs sample_domain True True =
     Some (s', oc) \<and> s' \<noteq> sample_certs \<and> o_Err oc = None \<and> o_Secret oc = Some (secret_of sample_domain sample_cert)"
  by (simp add: makeSecret_def first_cert_def order_def serve_def renewed_def finish_def get509Cert_def sample_get_def
      StorageConfigRead_def StorageConfigWrite_def read_kubernetes_def write_kubernetes_def memory_api_def
      memory_authority_def sample_settings_def sample_certs_def sample_domain_def sample_cert_def empty_memory_def
      k8s_key_def manual_def forceRegenerate_def access_failure_def mset_at_def mget_def Let_def)

theorem orders_only_when_needed_witness:
  "\<not> manual sample_domain \<and>
   (\<exists>c e. StorageConfigRead memory_api sample_settings (None, None) sample_certs sample_domain = Some (c, e))"
proof -
  obtain s' oc where run: "makeSecret memory_api memory_authority sample_settings (None, None) sample_get sample_certs
      sample_domain True True = Some (s', oc)" "s' \<noteq> sample_certs" using sample_run by blast
  from orders_only_when_needed [OF run] show ?thesis by blast
qed

text \<open>The same with the self-signed authority, whose PEM texts have a first line.\<close>

definition pem_authority :: "memory authority" where
  "pem_authority =
     memory_authority\<lparr>pem_Encode := \<lambda>t b. CHR ''-'' # b,
       pem_Decode := \<lambda>p. if p = [] then None else Some (''CERTIFICATE'', tl p)\<rparr>"

lemma pem_whole: "whole_authority pem_authority"
  by (auto simp: whole_authority_def pem_authority_def memory_authority_def)

lemma pem_run:
  "\<exists>s' oc. makeSecret memory_api pem_authority sample_settings (None, None) (SelfSigned_Get pem_authority) sample_certs
      sample_domain True True = Some (s', oc) \<and> s' \<noteq> sample_certs \<and> o_Err oc = None \<and>
      o_Secret oc = Some (secret_of sample_domain \<lparr>Pub = ''-a.example'', Priv = ''-rsa''\<rparr>)"
  by (simp add: makeSecret_def first_cert_def order_def serve_def renewed_def finish_def get509Cert_def
      SelfSigned_Get_def ca_of_def generated_ca_def leaf_template_def pem_authority_def
      StorageConfigRead_def StorageConfigWrite_def read_kubernetes_def write_kubernetes_def memory_api_def
      memory_authority_def sample_settings_def sample_certs_def sample_domain_def empty_memory_def
      k8s_key_def manual_def forceRegenerate_def access_failure_def mset_at_def mget_def Let_def)

theorem published_is_stored_witness:
  "\<exists>s' oc. makeSecret memory_api pem_authority sample_settings (None, None) (SelfSigned_Get pem_authority) sample_certs
      sample_domain True True = Some (s', oc) \<and>
     StorageConfigRead (past_cache memory_api) sample_settings (None, None) s' sample_domain =
       Some (\<lparr>Pub = ''-a.example'', Priv = ''-rsa''\<rparr>, None)"
proof -
  obtain s' oc where run: "makeSecret memory_api pem_authority sample_settings (None, None) (SelfSigned_Get pem_authority)
      sample_certs sample_domain True True = Some (s', oc)" "o_Err oc = None"
    "o_Secret oc = Some (secret_of sample_domain \<lparr>Pub = ''-a.example'', Priv = ''-rsa''\<rparr>)" "s' \<noteq> sample_certs"
    using pem_run by blast
  obtain c where c: "o_Secret oc = Some (secret_of sample_domain c)"
    "StorageConfigRead (past_cache memory_api) sample_settings (None, None) s' sample_domain = Some (c, None)"
    using published_is_stored [OF memory_keeps_writes pem_whole disjI1 [OF refl] run(1,2)] run(4) by blast
  have "c = \<lparr>Pub = ''-a.example'', Priv = ''-rsa''\<rparr>" using c(1) run(3) by (simp add: secret_of_def)
  then show ?thesis using run(1) c(2) by blast
qed

theorem GetSecret_never_panics_witness:
  "\<exists>s' oc. GetSecret memory_api memory_authority sample_settings (None, None) sample_certs sample_domain True False =
      Some (s', oc) \<and> (o_Err oc = None \<and> o_Secret oc \<noteq> None \<or> o_Err oc \<noteq> None \<and> o_Secret oc = None)"
  by (rule GetSecret_never_panics) (simp add: sample_domain_def)

end
