(* ===== verification/SecretStatus.thy ===== *)
theory SecretStatus
  imports CertFacts
begin

text \<open>
  The TLSSecret resource and the status its controller writes, \<open>src/apis/v1alpha1/tlssecret_types.go\<close> and
  the status part of \<open>src/controllers/sds/tlssecret_controller.go\<close>. Times and durations are nanoseconds
  while the code computes with them; a status that is written keeps whole seconds (\<open>stored_status\<close>). The
  failure count is a 32-bit integer.
\<close>

section \<open>The resource\<close>

record CertificateInfo =
  ci_Issuer :: string
  ci_Subject :: string
  ci_DNSNames :: "string list"
  ci_NotBefore :: int
  ci_NotAfter :: int
  ci_DaysUntilExpiry :: int
  ci_SerialNumber :: string
  ci_Fingerprint :: string

record TLSSecretStatus = Status +
  ts_CertificateInfo :: "CertificateInfo option"
  ts_NextRenewal :: string
  ts_FailureCount :: u32
  ts_LastFailureTime :: "int option"
  ts_BackoffUntil :: "int option"
  ts_NextRetryDelay :: string
  ts_Paused :: bool
  ts_ForceRenewRequest :: string

record TLSSecretCR = ObjectMeta +
  tls_Labels :: "(string, string) gmap"
  tls_Spec :: DomainConfig
  tls_Status :: TLSSecretStatus

section \<open>Certificate information\<close>

text \<open>\<open>strings.ToLower\<close> as far as a search for ASCII text can see it: the letters, and the two characters
  beyond ASCII whose lower case is ASCII (the dotted I and the Kelvin sign).\<close>

fun ToLower :: "string \<Rightarrow> string" where
  "ToLower [] = []"
| "ToLower [c] = [asciiLower_char c]"
| "ToLower [c, d] = (if c = CHR 0xC4 \<and> d = CHR 0xB0 then ''i'' else asciiLower_char c # ToLower [d])"
| "ToLower (c # d # e # s) =
     (if c = CHR 0xC4 \<and> d = CHR 0xB0 then CHR ''i'' # ToLower (e # s)
      else if c = CHR 0xE2 \<and> d = CHR 0x84 \<and> e = CHR 0xAA then CHR ''k'' # ToLower s
      else asciiLower_char c # ToLower (d # e # s))"

definition issuer_name :: "x509 \<Rightarrow> string" where
  "issuer_name x =
     (let l = ToLower (x_IssuerCN x) in
      if Contains l ''let's encrypt'' \<or> Contains l ''letsencrypt'' then ''Let's Encrypt''
      else if Contains l ''staging'' then ''Let's Encrypt (Staging)''
      else if x_IssuerCN x = x_SubjectCN x then ''Self-Signed''
      else x_IssuerCN x)"

definition Hours :: "int \<Rightarrow> rat" where
  "Hours d =
     round64 (round64 (of_int (trunc_div d hour)) + round64 (round64 (of_int (trunc_mod d hour)) / of_int hour))"

definition daysUntilExpiry :: "int \<Rightarrow> x509 \<Rightarrow> int" where
  "daysUntilExpiry now x =
     (let days = trunc (round64 (Hours (time_Until now (x_NotAfter x)) / 24)) in if days < 0 then 0 else days)"

definition extractCertificateInfo :: "'w authority \<Rightarrow> int \<Rightarrow> Secret \<Rightarrow> CertificateInfo option" where
  "extractCertificateInfo auth now secret =
     (case sec_TlsCertificate secret of
        None \<Rightarrow> None
      | Some (certBytes, _) \<Rightarrow>
          if certBytes = [] then None
          else (case pem_Decode auth certBytes of
                  None \<Rightarrow> None
                | Some (t, block) \<Rightarrow>
                    if t \<noteq> ''CERTIFICATE'' then None
                    else (case ParseCertificate auth block of
                            Inl _ \<Rightarrow> None
                          | Inr x \<Rightarrow>
                              Some \<lparr>ci_Issuer = issuer_name x, ci_Subject = x_SubjectCN x, ci_DNSNames = x_DNSNames x,
                                    ci_NotBefore = x_NotBefore x, ci_NotAfter = x_NotAfter x,
                                    ci_DaysUntilExpiry = daysUntilExpiry now x, ci_SerialNumber = x_SerialNumber x,
                                    ci_Fingerprint = hex_encode (sha256 (x_Raw x))\<rparr>)))"

definition certificateChanged :: "CertificateInfo option \<Rightarrow> CertificateInfo option \<Rightarrow> bool" where
  "certificateChanged old current =
     (case current of
        None \<Rightarrow> False
      | Some c \<Rightarrow> (case old of None \<Rightarrow> True | Some ci \<Rightarrow> ci_Fingerprint ci \<noteq> ci_Fingerprint c))"

section \<open>What a reconcile records\<close>

record tlsSecretStatusPatch =
  pt_active :: bool
  pt_activeNodes :: "string list"
  pt_nextRenewal :: string
  pt_certInfo :: "CertificateInfo option"
  pt_message :: string
  pt_paused :: bool
  pt_failureCount :: u32
  pt_lastFailure :: "int option"
  pt_backoffUntil :: "int option"
  pt_nextRetry :: string
  pt_forceRenewRequest :: string
  pt_preserveExisting :: bool
  pt_preserveBackoff :: bool

definition empty_patch :: tlsSecretStatusPatch where
  "empty_patch =
     \<lparr>pt_active = False, pt_activeNodes = [], pt_nextRenewal = [], pt_certInfo = None, pt_message = [],
      pt_paused = False, pt_failureCount = 0, pt_lastFailure = None, pt_backoffUntil = None, pt_nextRetry = [],
      pt_forceRenewRequest = [], pt_preserveExisting = False, pt_preserveBackoff = False\<rparr>"

definition pausedCondition :: "int \<Rightarrow> int \<Rightarrow> tlsSecretStatusPatch \<Rightarrow> Condition" where
  "pausedCondition now generation p =
     \<lparr>co_Type = ''Paused'', co_Status = bool_status (pt_paused p),
      co_Reason = (if pt_paused p then ''Paused'' else ''NotPaused''),
      co_Message = (if pt_paused p then pt_message p else []), co_LastTransitionTime = now,
      co_ObservedGeneration = generation\<rparr>"

text \<open>The code compares the failure count as a signed integer.\<close>

definition failed :: "tlsSecretStatusPatch \<Rightarrow> bool" where
  "failed p \<longleftrightarrow> 0 < sint (pt_failureCount p)"

definition sds_errorCondition :: "int \<Rightarrow> int \<Rightarrow> tlsSecretStatusPatch \<Rightarrow> Condition" where
  "sds_errorCondition now generation p =
     \<lparr>co_Type = ''Error'', co_Status = bool_status (failed p),
      co_Reason = (if failed p then ''Error'' else ''NoError''),
      co_Message = (if failed p then pt_message p else []), co_LastTransitionTime = now,
      co_ObservedGeneration = generation\<rparr>"

definition expiringCondition :: "int \<Rightarrow> int \<Rightarrow> CertificateInfo option \<Rightarrow> Condition" where
  "expiringCondition now generation info =
     (let (st, reason, msg) =
        (case info of
           Some ci \<Rightarrow>
             if ci_DaysUntilExpiry ci < 30
             then (''True'', ''CertExpiring'', ''Certificate expires in '' @ decimal (nat (ci_DaysUntilExpiry ci)) @ '' days'')
             else (''False'', ''CertValid'', [])
         | None \<Rightarrow> (''False'', ''CertValid'', []))
      in \<lparr>co_Type = ''CertExpiring'', co_Status = st, co_Reason = reason, co_Message = msg,
          co_LastTransitionTime = now, co_ObservedGeneration = generation\<rparr>)"

definition newStatus :: "int \<Rightarrow> int \<Rightarrow> tlsSecretStatusPatch \<Rightarrow> TLSSecretStatus \<Rightarrow> TLSSecretStatus" where
  "newStatus now generation p latest =
     (let snapshots = snapshots_of now (pt_activeNodes p);
          keep = pt_preserveExisting p;
          keep_snapshots = keep \<and> snapshots = [];
          effCertInfo = (if keep \<and> pt_certInfo p = None then ts_CertificateInfo latest else pt_certInfo p);
          effSnapshots = (if keep_snapshots then st_Snapshots latest else snapshots);
          effNodes = (if keep_snapshots then ParseCSV (st_Nodes latest) else nodesList (pt_activeNodes p));
          effClusters = (if keep_snapshots then ParseCSV (st_Clusters latest) else clustersList (pt_activeNodes p));
          effNextRenewal = (if keep \<and> pt_nextRenewal p = [] then ts_NextRenewal latest else pt_nextRenewal p);
          effActive = (if keep then pt_active p \<or> st_Active latest else pt_active p);
          back = pt_preserveBackoff p;
          conditions = st_Conditions latest;
          conditions = updateCondition conditions
            (readyCondition now generation effActive
               (''Secret is active in '' @ decimal (length effSnapshots) @ '' snapshots'') (pt_message p));
          conditions = updateCondition conditions (reconciledCondition now generation);
          conditions = updateCondition conditions (pausedCondition now generation p);
          conditions = (if \<not> back then updateCondition conditions (sds_errorCondition now generation p) else conditions);
          conditions = updateCondition conditions (expiringCondition now generation effCertInfo)
      in \<lparr>st_Active = effActive, st_Snapshots = effSnapshots, st_Nodes = Join effNodes '','',
          st_Clusters = Join effClusters '','', st_LastReconciled = now, st_ObservedGeneration = generation,
          st_Conditions = conditions, st_Message = pt_message p, ts_CertificateInfo = effCertInfo,
          ts_NextRenewal = effNextRenewal,
          ts_FailureCount = (if back then ts_FailureCount latest else pt_failureCount p),
          ts_LastFailureTime = (if back then ts_LastFailureTime latest else pt_lastFailure p),
          ts_BackoffUntil = (if back then ts_BackoffUntil latest else pt_backoffUntil p),
          ts_NextRetryDelay = (if back then ts_NextRetryDelay latest else pt_nextRetry p),
          ts_Paused = pt_paused p,
          ts_ForceRenewRequest = (if back then ts_ForceRenewRequest latest else pt_forceRenewRequest p)\<rparr>)"

text \<open>The comparison leaves out the times that move with every reconcile; the zero time is 0 here.\<close>

definition normalizeStatusForCompare :: "TLSSecretStatus \<Rightarrow> TLSSecretStatus" where
  "normalizeStatusForCompare s =
     s\<lparr>st_LastReconciled := 0,
       st_Snapshots := map (\<lambda>i. i\<lparr>si_LastUpdated := 0\<rparr>) (st_Snapshots s),
       st_Conditions := map (\<lambda>c. c\<lparr>co_LastTransitionTime := 0\<rparr>) (st_Conditions s),
       ts_BackoffUntil := None, ts_LastFailureTime := None\<rparr>"

definition tlsSecretStatusEqual :: "TLSSecretStatus \<Rightarrow> TLSSecretStatus \<Rightarrow> bool" where
  "tlsSecretStatusEqual a b \<longleftrightarrow> normalizeStatusForCompare a = normalizeStatusForCompare b"

definition minStatusHeartbeat :: int where
  "minStatusHeartbeat = 5 * 1000000000"

text \<open>The argument is \<open>StatusRefreshInterval\<close>.\<close>

definition statusHeartbeat :: "int \<Rightarrow> int" where
  "statusHeartbeat interval =
     (let refresh = (if interval \<le> 0 then hour else interval); heartbeat = refresh - trunc_div refresh 10
      in if heartbeat < minStatusHeartbeat then minStatusHeartbeat else heartbeat)"

definition stale :: "int \<Rightarrow> int \<Rightarrow> TLSSecretStatus \<Rightarrow> bool" where
  "stale interval now latest \<longleftrightarrow> statusHeartbeat interval \<le> time_Until (st_LastReconciled latest) now"

text \<open>The conditions of the latest status are updated in place before it is compared: what is compared with the
  new status has the new conditions as far as it had any (one that is appended makes the new list longer).\<close>

definition overwritten :: "TLSSecretStatus \<Rightarrow> TLSSecretStatus \<Rightarrow> TLSSecretStatus" where
  "overwritten old new = old\<lparr>st_Conditions := take (length (st_Conditions old)) (st_Conditions new)\<rparr>"

text \<open>A \<open>metav1.Time\<close> is sent as RFC 3339 text without fractions of a second: what is written, and read again, has
  whole seconds. (The times of a certificate have no finer ones to begin with.)\<close>

definition whole_seconds :: "int \<Rightarrow> int" where
  "whole_seconds t = t div 1000000000 * 1000000000"

definition stored_status :: "TLSSecretStatus \<Rightarrow> TLSSecretStatus" where
  "stored_status s =
     s\<lparr>st_LastReconciled := whole_seconds (st_LastReconciled s),
       st_Snapshots := map (\<lambda>i. i\<lparr>si_LastUpdated := whole_seconds (si_LastUpdated i)\<rparr>) (st_Snapshots s),
       st_Conditions := map (\<lambda>c. c\<lparr>co_LastTransitionTime := whole_seconds (co_LastTransitionTime c)\<rparr>) (st_Conditions s),
       ts_LastFailureTime := map_option whole_seconds (ts_LastFailureTime s),
       ts_BackoffUntil := map_option whole_seconds (ts_BackoffUntil s)\<rparr>"

text \<open>One attempt: the error, or the status that was sent.\<close>

definition write_secret_status ::
  "int \<Rightarrow> int \<Rightarrow> int \<Rightarrow> tlsSecretStatusPatch \<Rightarrow> TLSSecretStatus get \<Rightarrow> (TLSSecretStatus \<Rightarrow> string option)
   \<Rightarrow> string option \<times> TLSSecretStatus option" where
  "write_secret_status interval now generation p latest update =
     attempt (\<lambda>old new. \<not> stale interval now old \<and> tlsSecretStatusEqual (overwritten old new) new) (newStatus now generation p) latest update"

end
