(* ===== verification/Secrets.thy ===== *)
theory Secrets
  imports SecretStatus Homes
begin

text \<open>
  The TLSSecret controller, \<open>src/controllers/sds/tlssecret_controller.go\<close>: the handler with its back-off,
  pause and force-renew annotations, the loops that keep a secret at one node id, the watch on Kubernetes
  secrets. Arguments: the storage and the authorities of \<open>Certs\<close>, the Kubernetes API, the
  formatters of times (\<open>env\<close>). A patch that succeeds gives the object as the server has it; the state has
  the objects sent and whether they were accepted. Leadership is
  read once per request.
\<close>

section \<open>State\<close>

record sds_settings =
  sx_Settings :: settings
  RetryBaseDelay :: int
  RetryMaxDelay :: int
  RetryMultiplier :: float64
  StatusRefreshInterval :: int

record sds_env =
  Get_TLSSecret :: "nsname \<Rightarrow> TLSSecretCR get"
  List_TLSSecrets :: "string + TLSSecretCR list"
  Patch_TLSSecret :: "TLSSecretCR \<Rightarrow> TLSSecretCR \<Rightarrow> string + TLSSecretCR"
  Refetch_Status :: "nsname \<Rightarrow> TLSSecretStatus get"
  Update_Status :: "nsname \<Rightarrow> TLSSecretStatus \<Rightarrow> string option"
  Format_RFC3339 :: "int \<Rightarrow> string"
  Duration_String :: "int \<Rightarrow> string"

record 'w TLSSecretReconciler =
  tr_Config :: Config
  tr_certs :: "'w certs"
  sds_reconciling :: int
  sds_status_writes :: "(nsname \<times> TLSSecretStatus) list"
  sds_config_errors :: "(string \<times> string) list"
  sds_patches :: "(TLSSecretCR \<times> bool) list"

definition sds_config :: "(Config \<Rightarrow> Config) \<Rightarrow> 'w TLSSecretReconciler \<Rightarrow> 'w TLSSecretReconciler" where
  "sds_config f r = r\<lparr>tr_Config := f (tr_Config r)\<rparr>"

definition sds_in_status ::
  "(ReconciliationStatus \<Rightarrow> ReconciliationStatus) \<Rightarrow> 'w TLSSecretReconciler \<Rightarrow> 'w TLSSecretReconciler" where
  "sds_in_status f r = sds_config (\<lambda>c. c\<lparr>reconciliationStatus := f (reconciliationStatus c)\<rparr>) r"

section \<open>The store\<close>

text \<open>\<open>removeSecretByName\<close>: the new map and the number of secrets dropped.\<close>

definition removeSecretByName :: "string \<Rightarrow> string \<Rightarrow> Secret store \<Rightarrow> Secret store \<times> nat" where
  "removeSecretByName node name s =
     (let secrets = mlist s node; kept = filter (\<lambda>x. sec_Name x \<noteq> name) secrets;
          removed = length secrets - length kept
      in (if 0 < removed then mset_at node kept s else s, removed))"

text \<open>The loop over some nodes; the result has the number of nodes where something was dropped.\<close>

fun remove_from :: "string list \<Rightarrow> string \<Rightarrow> Secret store \<Rightarrow> Secret store \<times> nat" where
  "remove_from [] name s = (s, 0)"
| "remove_from (node # nodes) name s =
     (case removeSecretByName node name s of
        (s, removed) \<Rightarrow> apsnd ((+) (if 0 < removed then 1 else 0)) (remove_from nodes name s))"

definition secretsEqual :: "Secret \<Rightarrow> Secret \<Rightarrow> bool" where
  "secretsEqual a b =
     (if sec_Name a \<noteq> sec_Name b then False
      else (case (sec_TlsCertificate a, sec_TlsCertificate b) of
              (Some (pubA, privA), Some (pubB, privB)) \<Rightarrow> pubA = pubB \<and> privA = privB
            | (None, None) \<Rightarrow> True
            | _ \<Rightarrow> False))"

text \<open>The first secret of that name at the node, with whether it is there and whether it was replaced.\<close>

fun update_first :: "Secret \<Rightarrow> Secret list \<Rightarrow> Secret list \<times> bool \<times> bool" where
  "update_first sds [] = ([], False, False)"
| "update_first sds (v # vs) =
     (if sec_Name v \<noteq> sec_Name sds then apfst ((#) v) (update_first sds vs)
      else if secretsEqual v sds then (v # vs, True, False)
      else (sds # vs, True, True))"

text \<open>The part under the lock: the store and by how much the counter grows.\<close>

definition place_secret :: "string \<Rightarrow> Secret \<Rightarrow> Secret store \<Rightarrow> Secret store \<times> nat" where
  "place_secret nodeid sds s =
     (case remove_from (filter (\<lambda>n. n \<noteq> nodeid) (mkeys s)) (sec_Name sds) s of
        (s, moved) \<Rightarrow>
          (case update_first sds (mlist s nodeid) of
             (vs, there, changed) \<Rightarrow>
               if there then (if changed then (mset_at nodeid vs s, moved + 1) else (s, moved))
               else (mset_at nodeid (mlist s nodeid @ [sds]) s, moved + 1)))"

definition set_secrets :: "Secret store \<times> nat \<Rightarrow> 'w TLSSecretReconciler \<Rightarrow> 'w TLSSecretReconciler" where
  "set_secrets sn r = sds_config (\<lambda>c. (IncrementConfigCounter ^^ snd sn) (c\<lparr>SecretConfigs := fst sn\<rparr>)) r"

definition removeSecretFromConfigs :: "string \<Rightarrow> 'w TLSSecretReconciler \<Rightarrow> 'w TLSSecretReconciler" where
  "removeSecretFromConfigs name r =
     set_secrets (remove_from (mkeys (SecretConfigs (tr_Config r))) name (SecretConfigs (tr_Config r))) r"

section \<open>Small decisions\<close>

definition retryDefaults :: "sds_settings \<Rightarrow> RetryPolicy" where
  "retryDefaults sx = \<lparr>BaseDelay = RetryBaseDelay sx, MaxDelay = RetryMaxDelay sx, Multiplier = RetryMultiplier sx\<rparr>"

definition requeueInterval :: "sds_settings \<Rightarrow> int \<Rightarrow> int" where
  "requeueInterval sx renew_in =
     (let refresh = (if StatusRefreshInterval sx \<le> 0 then hour else StatusRefreshInterval sx) in
      if renew_in \<le> 0 then 30 * 1000000000
      else if refresh < renew_in then refresh
      else renew_in)"

text \<open>The wait that is left, when there is one.\<close>

definition backoffRemaining :: "int \<Rightarrow> TLSSecretStatus \<Rightarrow> int option" where
  "backoffRemaining now st =
     (case ts_BackoffUntil st of
        None \<Rightarrow> None
      | Some until \<Rightarrow> let wait = time_Until now until in if wait \<le> 0 then None else Some wait)"

definition formatRenewIn :: "int \<Rightarrow> string" where
  "formatRenewIn renew_in =
     (if renew_in \<le> 0 then ''0d 0h 0m''
      else decimal (nat (trunc (Hours renew_in) div 24)) @ ''d '' @ decimal (nat (trunc (Hours renew_in) mod 24)) @ ''h '' @
           decimal (nat (trunc (Minutes renew_in) mod 60)) @ ''m'')"

definition errorClass :: "gerror \<Rightarrow> string" where
  "errorClass e =
     (if errors_Is e ErrRateLimited then ''rate limited''
      else if errors_Is e ErrServiceBusy then ''service busy''
      else if errors_Is e ErrCertNotFound then ''cert not found''
      else if errors_Is e ErrCertNil then ''cert nil''
      else if errors_Is e ErrBadKeyData then ''bad key data''
      else if errors_Is e ErrVaultNotConfigured then ''vault not configured''
      else if errors_Is e ErrK8sClientNotConfigured then ''kubernetes client not configured''
      else if errors_Is e ErrLetsEncryptAccount then ''lets encrypt account invalid''
      else if errors_Is e ErrCustomEnvReplace then ''custom env replace''
      else if Contains (Error_text e) (sentinel_text ErrWriteCert) then ''write cert''
      else if Contains (Error_text e) (sentinel_text ErrReadCert) then ''read cert''
      else if Contains (Error_text e) (sentinel_text ErrGetCert) then ''get cert''
      else ''other'')"

section \<open>Effects on the resource\<close>

definition updateTLSSecretStatus ::
  "'w authority \<Rightarrow> sds_settings \<Rightarrow> sds_env \<Rightarrow> TLSSecretCR \<Rightarrow> tlsSecretStatusPatch \<Rightarrow> 'w TLSSecretReconciler
   \<Rightarrow> 'w TLSSecretReconciler" where
  "updateTLSSecretStatus auth sx env ts p r =
     (case write_secret_status (StatusRefreshInterval sx) (Now auth (world (tr_certs r))) (om_Generation ts) p
             (Refetch_Status env (object_key ts)) (Update_Status env (object_key ts)) of
        (_, Some st) \<Rightarrow> r\<lparr>sds_status_writes := sds_status_writes r @ [(object_key ts, stored_status st)]\<rparr>
      | (_, None) \<Rightarrow> r)"

text \<open>A patch that fails leaves the change in memory. The result has the resource and whether it was accepted.\<close>

definition patch_resource ::
  "sds_env \<Rightarrow> TLSSecretCR \<Rightarrow> TLSSecretCR \<Rightarrow> 'w TLSSecretReconciler \<Rightarrow> TLSSecretCR \<times> bool \<times> 'w TLSSecretReconciler" where
  "patch_resource env old new r =
     (case Patch_TLSSecret env old new of
        Inl _ \<Rightarrow> (new, False, r\<lparr>sds_patches := sds_patches r @ [(new, False)]\<rparr>)
      | Inr obj \<Rightarrow> (obj, True, r\<lparr>sds_patches := sds_patches r @ [(new, True)]\<rparr>))"

definition note_expiration ::
  "sds_env \<Rightarrow> int option \<Rightarrow> TLSSecretCR \<Rightarrow> 'w TLSSecretReconciler \<Rightarrow> TLSSecretCR \<times> 'w TLSSecretReconciler" where
  "note_expiration env expiration ts r =
     (case expiration of
        None \<Rightarrow> (ts, r)
      | Some t \<Rightarrow>
          let newExp = Format_RFC3339 env t in
          if mstr (om_Annotations ts) ''cert-expiration'' \<noteq> newExp
          then (case patch_resource env ts
                       (ts\<lparr>om_Annotations := mset_at ''cert-expiration'' newExp (om_Annotations ts)\<rparr>) r of
                  (ts, _, r) \<Rightarrow> (ts, r))
          else (ts, r))"

definition without_force_renew :: "string \<Rightarrow> TLSSecretCR \<Rightarrow> TLSSecretCR" where
  "without_force_renew stamp ts =
     ts\<lparr>om_Annotations := mset_at AnnotationForceRenewedAt stamp (mdelete AnnotationForceRenew (om_Annotations ts)),
        tls_Labels := mdelete AnnotationForceRenew (tls_Labels ts)\<rparr>"

definition clearForceRenew ::
  "sds_env \<Rightarrow> int \<Rightarrow> TLSSecretCR \<Rightarrow> 'w TLSSecretReconciler \<Rightarrow> TLSSecretCR \<times> bool \<times> 'w TLSSecretReconciler" where
  "clearForceRenew env now ts r = patch_resource env ts (without_force_renew (Format_RFC3339 env now) ts) r"

section \<open>The handler\<close>

definition with_sds_defaults :: "Config \<Rightarrow> TLSSecretCR \<Rightarrow> TLSSecretCR" where
  "with_sds_defaults c ts = ts\<lparr>om_Annotations := with_defaults c (om_Annotations ts)\<rparr>"

text \<open>The result of a request: after how long to run again (0: not by time), and an error.\<close>

type_synonym 'w answer = "(int \<times> string option) \<times> 'w TLSSecretReconciler"

definition reconcile_paused ::
  "'w authority \<Rightarrow> sds_settings \<Rightarrow> sds_env \<Rightarrow> TLSSecretCR \<Rightarrow> 'w TLSSecretReconciler \<Rightarrow> 'w answer" where
  "reconcile_paused auth sx env ts r =
     ((0, None),
      updateTLSSecretStatus auth sx env ts
        (empty_patch\<lparr>pt_paused := True, pt_message := ''Paused by '' @ AnnotationPause @ '' annotation'',
           pt_preserveExisting := True, pt_preserveBackoff := True\<rparr>) r)"

definition reconcile_failed ::
  "'w authority \<Rightarrow> sds_settings \<Rightarrow> sds_env \<Rightarrow> RetryPolicy \<Rightarrow> string \<Rightarrow> TLSSecretCR \<Rightarrow> gerror
   \<Rightarrow> 'w TLSSecretReconciler \<Rightarrow> 'w answer" where
  "reconcile_failed auth sx env policy forceRenewRequest ts err r =
     (let failureCount = ts_FailureCount (tls_Status ts) + 1;
          retryIn = DelayFor policy (sint failureCount);
          now = Now auth (world (tr_certs r));
          r = r\<lparr>sds_config_errors := sds_config_errors r @ [(dc_SecretName (tls_Spec ts), errorClass err)]\<rparr>
      in ((retryIn, None),
          updateTLSSecretStatus auth sx env ts
            (empty_patch\<lparr>pt_message := Error_text err, pt_failureCount := failureCount, pt_lastFailure := Some now,
               pt_backoffUntil := Some (now + retryIn), pt_nextRetry := Duration_String env retryIn,
               pt_preserveExisting := True, pt_forceRenewRequest := forceRenewRequest\<rparr>) r))"

text \<open>From a secret on: the force-renew request is closed when it has been served, the secret is placed, the
  status written.\<close>

definition reconcile_secret ::
  "'w authority \<Rightarrow> sds_settings \<Rightarrow> sds_env \<Rightarrow> string \<Rightarrow> bool \<Rightarrow> string \<Rightarrow> bool \<Rightarrow> TLSSecretCR \<Rightarrow> Secret \<Rightarrow> int
   \<Rightarrow> 'w TLSSecretReconciler \<Rightarrow> 'w answer" where
  "reconcile_secret auth sx env nodeid forceRenew forceRenewRequest newRequest ts sds renew_in r =
     (let now = Now auth (world (tr_certs r));
          certInfo = extractCertificateInfo auth now sds;
          servedNow = newRequest \<and> certificateChanged (ts_CertificateInfo (tls_Status ts)) certInfo;
          alreadyServed = forceRenew \<and> forceRenewRequest = ts_ForceRenewRequest (tls_Status ts);
          served = servedNow \<or> alreadyServed;
          (ts, cleared, r) = (if forceRenew \<and> served then clearForceRenew env now ts r else (ts, False, r));
          forceRenewRequest = (if cleared then [] else forceRenewRequest);
          forceRenewRequest = (if forceRenew \<and> \<not> served then ts_ForceRenewRequest (tls_Status ts) else forceRenewRequest);
          sds = sds\<lparr>sec_Name := om_Name ts\<rparr>;
          r = set_secrets (place_secret nodeid sds (SecretConfigs (tr_Config r))) r
      in ((requeueInterval sx renew_in, None),
          updateTLSSecretStatus auth sx env ts
            (empty_patch\<lparr>pt_active := True, pt_activeNodes := [nodeid], pt_nextRenewal := formatRenewIn renew_in,
               pt_certInfo := certInfo, pt_forceRenewRequest := forceRenewRequest\<rparr>) r))"

definition reconcile_active ::
  "'w outside \<Rightarrow> 'w authority \<Rightarrow> sds_settings \<Rightarrow> sds_env \<Rightarrow> ctx \<Rightarrow> nsname \<Rightarrow> TLSSecretCR \<Rightarrow> 'w TLSSecretReconciler
   \<Rightarrow> 'w answer option" where
  "reconcile_active api auth sx env ctx req ts r =
     (let an = om_Annotations ts; nodeid = GetNodeID an;
          policy = RetryPolicyFor an (tls_Labels ts) (retryDefaults sx);
          forceRenew = IsForceRenew an;
          forceRenewRequest = ForceRenewRequest an;
          newRequest = (forceRenew \<and> forceRenewRequest \<noteq> ts_ForceRenewRequest (tls_Status ts))
      in case (if newRequest then None else backoffRemaining (Now auth (world (tr_certs r))) (tls_Status ts)) of
           Some wait \<Rightarrow> Some ((wait, None), r)
         | None \<Rightarrow>
             let ts = ts\<lparr>tls_Spec := (tls_Spec ts)\<lparr>dc_SecretName := snd req\<rparr>\<rparr>;
                 leader = IsLeaderInstance (tr_Config r)
             in (case GetSecret api auth (sx_Settings sx) ctx (tr_certs r) (tls_Spec ts) leader newRequest of
                   None \<Rightarrow> None
                 | Some (s, oc) \<Rightarrow>
                     let (ts, r) = note_expiration env (o_Expires oc) ts (r\<lparr>tr_certs := s\<rparr>) in
                     (case o_Err oc of
                        Some e \<Rightarrow>
                          Some (if \<not> leader \<and> (errors_Is e ErrCertNotFound \<or> errors_Is e ErrCertNil)
                                then ((requeueInterval sx (o_RenewIn oc), None), r)
                                else reconcile_failed auth sx env policy forceRenewRequest ts e r)
                      | None \<Rightarrow>
                          (case o_Secret oc of
                             None \<Rightarrow> None
                           | Some sds \<Rightarrow>
                               Some (reconcile_secret auth sx env nodeid forceRenew forceRenewRequest newRequest ts sds
                                       (o_RenewIn oc) r)))))"

definition ReconcileSecret ::
  "'w outside \<Rightarrow> 'w authority \<Rightarrow> sds_settings \<Rightarrow> sds_env \<Rightarrow> bool \<Rightarrow> ctx \<Rightarrow> nsname \<Rightarrow> 'w TLSSecretReconciler
   \<Rightarrow> 'w answer option" where
  "ReconcileSecret api auth sx env shutdown ctx req r =
     (if shutdown then Some ((0, None), r)
      else
        let r = sds_in_status (SetHasDomainConfigs True) r; r = r\<lparr>sds_reconciling := sds_reconciling r + 1\<rparr>
        in (case Get_TLSSecret env req of
              GetError e \<Rightarrow> Some ((0, Some e), r)
            | NotFound \<Rightarrow> Some ((0, None), removeSecretFromConfigs (snd req) r)
            | Found ts \<Rightarrow>
                let ts = with_sds_defaults (tr_Config r) ts in
                if IsPaused (om_Annotations ts) then Some (reconcile_paused auth sx env ts r)
                else reconcile_active api auth sx env ctx req ts r))"

text \<open>The goroutine that ends a request, and the runnable that runs after the cache has synced (the number of
  resources it finds, or an error).\<close>

definition secret_done :: "'w TLSSecretReconciler \<Rightarrow> 'w TLSSecretReconciler" where
  "secret_done r =
     (let r = r\<lparr>sds_reconciling := sds_reconciling r - 1\<rparr>
      in if sds_reconciling r = 0 then sds_in_status (SetDomainConfigsReconciled True) r else r)"

definition initialize_secrets :: "sds_env \<Rightarrow> 'w TLSSecretReconciler \<Rightarrow> string option \<times> 'w TLSSecretReconciler" where
  "initialize_secrets env r =
     (case List_TLSSecrets env of
        Inl e \<Rightarrow> (Some (''unable to list TLSSecrets: '' @ e), r)
      | Inr items \<Rightarrow>
          let r = (if 0 < length items then sds_in_status (SetHasDomainConfigs True) r else r)
          in (None, sds_in_status (SetDomainConfigsInitialized True) r))"

section \<open>The watch on Kubernetes secrets\<close>

definition ref_type :: "TLSSecretCR \<Rightarrow> VaultStorageConfig option \<Rightarrow> string" where
  "ref_type ts globalVault =
     (let cf = dc_Config (tls_Spec ts) in
      if stc_Type cf \<noteq> [] then stc_Type cf
      else if dc_Challenge (tls_Spec ts) \<noteq> None then
        if stc_Vault cf \<noteq> None then [] else if globalVault \<noteq> None then [] else Kubernetes
      else if stc_Kubernetes cf \<noteq> None then Kubernetes
      else if (case stc_Local cf of None \<Rightarrow> False | Some l \<Rightarrow> lsc_Path l \<noteq> []) then []
      else Kubernetes)"

definition resolveK8sSecretRef :: "TLSSecretCR \<Rightarrow> string \<Rightarrow> VaultStorageConfig option \<Rightarrow> string \<times> string" where
  "resolveK8sSecretRef ts defaultNamespace globalVault =
     (if ref_type ts globalVault \<noteq> Kubernetes then ([], [])
      else
        let name = om_Name ts;
            namespace = (if om_Namespace ts \<noteq> [] then om_Namespace ts else defaultNamespace)
        in (case stc_Kubernetes (dc_Config (tls_Spec ts)) of
              None \<Rightarrow> (name, namespace)
            | Some k \<Rightarrow>
                (if ksc_SecretName k \<noteq> [] then ksc_SecretName k else name,
                 if ksc_Namespace k \<noteq> [] then ksc_Namespace k else namespace)))"

fun secrets_referring :: "string \<Rightarrow> VaultStorageConfig option \<Rightarrow> nsname \<Rightarrow> TLSSecretCR list \<Rightarrow> nsname list" where
  "secrets_referring ns vault key [] = []"
| "secrets_referring ns vault key (ts # items) =
     (case resolveK8sSecretRef ts ns vault of
        (refName, refNamespace) \<Rightarrow>
          if refName = [] then secrets_referring ns vault key items
          else if refName = snd key \<and> refNamespace = fst key
          then object_key ts # secrets_referring ns vault key items
          else secrets_referring ns vault key items)"

definition findTLSSecretsForK8sSecret :: "sds_settings \<Rightarrow> sds_env \<Rightarrow> nsname \<Rightarrow> nsname list" where
  "findTLSSecretsForK8sSecret sx env key =
     (case List_TLSSecrets env of
        Inl _ \<Rightarrow> []
      | Inr items \<Rightarrow>
          secrets_referring (DefaultNamespace (sx_Settings sx)) (Storage_Vault (sx_Settings sx)) key items)"

end
