(* ===== verification/SecretFacts.thy ===== *)
theory SecretFacts
  imports Secrets
begin

text \<open>
  Facts about the TLSSecret controller: its loops keep the contract \<open>single_home\<close> of the other
  single-node controllers, and repair a store that breaks it; what every request does to the store, the
  certificates and the status.
\<close>

section \<open>The store\<close>

lemma secretsEqual_iff: "secretsEqual a b \<longleftrightarrow> a = b"
  by (auto simp: secretsEqual_def split: option.split)

lemma lookup_filter: "find_named name k (filter (\<lambda>x. name x \<noteq> j) xs) = (if k = j then None else find_named name k xs)"
  by (induction xs) auto

lemma filter_none: "find_named name j xs = None \<Longrightarrow> filter (\<lambda>x. name x \<noteq> j) xs = xs"
  by (induction xs) (auto split: if_splits)

lemma removed_iff: "length (filter (\<lambda>x. name x \<noteq> j) xs) < length xs \<longleftrightarrow> find_named name j xs \<noteq> None"
proof (cases "find_named name j xs")
  case None
  then show ?thesis by (simp add: filter_none)
next
  case (Some x)
  then have "x \<in> set xs" "\<not> name x \<noteq> j" using find_named_Some [OF Some] by simp_all
  from length_filter_less [where P = "\<lambda>x. name x \<noteq> j", OF this] Some show ?thesis by simp
qed

lemma removeSecretByName_eq:
  "removeSecretByName node name s =
     (if lookup sec_Name s node name = None then (s, 0)
      else (mset_at node (filter (\<lambda>x. sec_Name x \<noteq> name) (mlist s node)) s,
            length (mlist s node) - length (filter (\<lambda>x. sec_Name x \<noteq> name) (mlist s node))))"
  using removed_iff [of sec_Name name "mlist s node"] filter_none [of sec_Name name "mlist s node"]
  by (simp add: removeSecretByName_def Let_def lookup_def)

lemma removed_pos:
  "0 < snd (removeSecretByName node name s) \<longleftrightarrow> lookup sec_Name s node name \<noteq> None"
  using removed_iff [of sec_Name name "mlist s node"] by (simp add: removeSecretByName_eq lookup_def)

lemma lookup_removeSecretByName:
  "lookup sec_Name (fst (removeSecretByName node name s)) n k =
     (if n = node \<and> k = name then None else lookup sec_Name s n k)"
  by (auto simp: removeSecretByName_eq lookup_def lookup_filter)

lemma remove_from_Cons:
  "remove_from (node # nodes) name s =
     (let p = removeSecretByName node name s; t = remove_from nodes name (fst p)
      in (fst t, (if lookup sec_Name s node name \<noteq> None then 1 else 0) + snd t))"
  using removed_pos [of node name s] by (simp add: Let_def case_prod_beta apsnd_def map_prod_def)

declare remove_from.simps(2) [simp del]

lemma lookup_remove_from:
  "lookup sec_Name (fst (remove_from nodes name s)) n k = (if n \<in> set nodes \<and> k = name then None else lookup sec_Name s n k)"
  by (induction nodes arbitrary: s) (auto simp: remove_from_Cons Let_def lookup_removeSecretByName)

lemma remove_from_ok: "gmap_ok s \<Longrightarrow> gmap_ok (fst (remove_from nodes name s))"
  by (induction nodes arbitrary: s) (auto simp: remove_from_Cons Let_def removeSecretByName_eq)

lemma remove_from_count:
  "0 < snd (remove_from nodes name s) \<longleftrightarrow> (\<exists>n\<in>set nodes. lookup sec_Name s n name \<noteq> None)"
proof (induction nodes arbitrary: s)
  case (Cons node nodes)
  show ?case
  proof (cases "lookup sec_Name s node name = None")
    case True
    then show ?thesis using Cons [of s] by (simp add: remove_from_Cons Let_def removeSecretByName_eq)
  next
    case False
    then show ?thesis by (auto simp: remove_from_Cons Let_def)
  qed
qed simp

lemma remove_from_none: "snd (remove_from nodes name s) = 0 \<Longrightarrow> fst (remove_from nodes name s) = s"
  by (induction nodes arbitrary: s) (auto simp: remove_from_Cons Let_def removeSecretByName_eq split: if_splits)

lemma remove_from_unchanged: "snd (remove_from nodes name s) = 0 \<longleftrightarrow> fst (remove_from nodes name s) = s"
proof
  assume "fst (remove_from nodes name s) = s"
  then have "lookup sec_Name s n name = None" if "n \<in> set nodes" for n
    using lookup_remove_from [of nodes name s n name] that by simp
  then show "snd (remove_from nodes name s) = 0" using remove_from_count [of nodes name s] by auto
qed (rule remove_from_none)

lemma mlist_remove_from: "n \<notin> set nodes \<Longrightarrow> mlist (fst (remove_from nodes name s)) n = mlist s n"
  by (induction nodes arbitrary: s) (auto simp: remove_from_Cons Let_def removeSecretByName_eq)

text \<open>At its own node the secret ends up as the first of its name.\<close>

lemma update_first_eq:
  "update_first sds vs =
     (if find_named sec_Name (sec_Name sds) vs = None then (vs, False, False)
      else (put_named sec_Name sds vs, True, find_named sec_Name (sec_Name sds) vs \<noteq> Some sds))"
  by (induction vs) (auto simp: secretsEqual_iff)

lemma put_named_same: "find_named name (name v) vs = Some v \<Longrightarrow> put_named name v vs = vs"
  by (induction vs) (auto split: if_splits)

lemma put_named_append: "find_named name (name v) vs = None \<Longrightarrow> put_named name v vs = vs @ [v]"
  by (induction vs) (auto split: if_splits)

definition elsewhere :: "string \<Rightarrow> Secret \<Rightarrow> Secret store \<Rightarrow> Secret store \<times> nat" where
  "elsewhere nodeid sds s = remove_from (filter (\<lambda>n. n \<noteq> nodeid) (mkeys s)) (sec_Name sds) s"

lemma place_secret_eq:
  "place_secret nodeid sds s =
     (let t = elsewhere nodeid sds s in
      if lookup sec_Name s nodeid (sec_Name sds) = Some sds then t
      else (mset_at nodeid (put_named sec_Name sds (mlist s nodeid)) (fst t), snd t + 1))"
proof -
  have "mlist (fst (elsewhere nodeid sds s)) nodeid = mlist s nodeid"
    unfolding elsewhere_def by (rule mlist_remove_from) simp
  then show ?thesis
    by (auto simp: place_secret_def Let_def update_first_eq lookup_def put_named_append
        case_prod_beta simp flip: elsewhere_def)
qed

lemma lookup_missing_node: "n \<notin> set (mkeys s) \<Longrightarrow> lookup name s n k = None"
  using map_of_eq_None_iff [of s n] by (simp add: lookup_def mlist_def mget_def mkeys_def)

lemma lookup_elsewhere:
  "lookup sec_Name (fst (elsewhere nodeid sds s)) n k =
     (if n \<noteq> nodeid \<and> k = sec_Name sds then None else lookup sec_Name s n k)"
  using lookup_missing_node [of n s sec_Name k] by (auto simp: elsewhere_def lookup_remove_from)

lemma lookup_place_secret:
  "lookup sec_Name (fst (place_secret nodeid sds s)) n k =
     (if k = sec_Name sds then if n = nodeid then Some sds else None else lookup sec_Name s n k)"
proof -
  have "mlist (fst (elsewhere nodeid sds s)) nodeid = mlist s nodeid"
    unfolding elsewhere_def by (rule mlist_remove_from) simp
  then show ?thesis
    using lookup_elsewhere [of nodeid sds s n k]
    by (auto simp: place_secret_eq Let_def lookup_def find_put_named)
qed

lemma place_secret_ok: "gmap_ok s \<Longrightarrow> gmap_ok (fst (place_secret nodeid sds s))"
  by (simp add: place_secret_eq Let_def elsewhere_def remove_from_ok)

lemma place_secret_unchanged: "snd (place_secret nodeid sds s) = 0 \<longleftrightarrow> fst (place_secret nodeid sds s) = s"
proof (cases "lookup sec_Name s nodeid (sec_Name sds) = Some sds")
  case True
  then show ?thesis by (simp add: place_secret_eq Let_def elsewhere_def remove_from_unchanged)
next
  case False
  then have "fst (place_secret nodeid sds s) \<noteq> s"
    using lookup_place_secret [of nodeid sds s nodeid "sec_Name sds"] by auto
  then show ?thesis using False by (simp add: place_secret_eq Let_def)
qed
section \<open>The contract of a single home\<close>

lemma distinct_filter_names: "distinct (map name xs) \<Longrightarrow> distinct (map name (filter P xs))"
  by (induction xs) auto

lemma unique_remove_from:
  "unique_names sec_Name s \<Longrightarrow> unique_names sec_Name (fst (remove_from nodes name s))"
proof (induction nodes arbitrary: s)
  case (Cons node nodes)
  have "unique_names sec_Name (fst (removeSecretByName node name s))"
    using Cons.prems by (auto simp: removeSecretByName_eq unique_names_def distinct_filter_names)
  then show ?case using Cons.IH by (simp add: remove_from_Cons Let_def)
qed simp

lemma remove_from_length:
  "distinct nodes \<Longrightarrow> snd (remove_from nodes name s) = length (filter (\<lambda>n. lookup sec_Name s n name \<noteq> None) nodes)"
proof (induction nodes arbitrary: s)
  case (Cons node nodes)
  have "filter (\<lambda>n. lookup sec_Name (fst (removeSecretByName node name s)) n name \<noteq> None) nodes =
      filter (\<lambda>n. lookup sec_Name s n name \<noteq> None) nodes"
    using Cons.prems by (intro filter_cong refl) (auto simp: lookup_removeSecretByName)
  then show ?case using Cons by (simp add: remove_from_Cons Let_def)
qed simp

lemma filter_at_most_one: "distinct xs \<Longrightarrow> (\<And>x y. P x \<Longrightarrow> P y \<Longrightarrow> x = y) \<Longrightarrow> length (filter P xs) \<le> 1"
proof (induction xs)
  case (Cons x xs)
  show ?case
  proof (cases "P x")
    case True
    then have "filter P xs = []" using Cons.prems by (auto simp: filter_empty_conv)
    then show ?thesis by simp
  next
    case False
    then show ?thesis using Cons by auto
  qed
qed simp

lemma one_home_place: "one_home sec_Name s \<Longrightarrow> one_home sec_Name (fst (place_secret node v s))"
proof -
  assume s: "one_home sec_Name s"
  have u: "unique_names sec_Name (fst (elsewhere node v s))"
    using s unique_remove_from by (simp add: one_home_def elsewhere_def)
  have "unique_names sec_Name (fst (place_secret node v s))"
    using s u by (simp add: place_secret_eq Let_def one_home_def unique_names_def distinct_put_named)
  moreover have "n = n'"
    if "lookup sec_Name (fst (place_secret node v s)) n k \<noteq> None"
      "lookup sec_Name (fst (place_secret node v s)) n' k \<noteq> None" for n n' k
    using that s unfolding one_home_def lookup_place_secret
    by (cases "k = sec_Name v") (auto simp del: not_None_eq split: if_splits)
  ultimately show ?thesis using s by (simp add: one_home_def place_secret_ok del: not_None_eq)
qed

lemma one_home_remove:
  "one_home sec_Name s \<Longrightarrow> one_home sec_Name (fst (remove_from nodes name s))"
  by (auto simp: one_home_def remove_from_ok unique_remove_from lookup_remove_from split: if_splits)

interpretation secrets: single_home sec_Name "\<lambda>node v s. fst (place_secret node v s)"
  "\<lambda>k s. Some (remove_from (mkeys s) k s)"
proof
  show "lookup sec_Name (fst (place_secret node v s)) n k =
      (if k = sec_Name v then if n = node then Some v else None else lookup sec_Name s n k)" for s node v n k
    by (rule lookup_place_secret)
  show "one_home sec_Name (fst (place_secret node v s))" if "one_home sec_Name s" for s node v
    using that by (rule one_home_place)
  show "\<exists>s' c. Some (remove_from (mkeys s) k s) = Some (s', c) \<and>
      (\<forall>n j. lookup sec_Name s' n j = (if j = k then None else lookup sec_Name s n j)) \<and> one_home sec_Name s' \<and>
      (s' \<noteq> s \<longrightarrow> c = 1) \<and> (c = 0 \<or> c = 1)" if s: "one_home sec_Name s" for s k
  proof (intro exI conjI)
    let ?p = "remove_from (mkeys s) k s"
    show "Some ?p = Some (fst ?p, snd ?p)" by simp
    show "\<forall>n j. lookup sec_Name (fst ?p) n j = (if j = k then None else lookup sec_Name s n j)"
      using lookup_missing_node by (auto simp: lookup_remove_from)
    show "one_home sec_Name (fst ?p)" using s by (rule one_home_remove)
    have "distinct (mkeys s)" using s by (simp add: one_home_def gmap_ok_def mkeys_def)
    then have "snd ?p \<le> 1"
      unfolding remove_from_length [OF \<open>distinct (mkeys s)\<close>]
      by (rule filter_at_most_one) (use s in \<open>auto simp: one_home_def\<close>)
    then show "snd ?p = 0 \<or> snd ?p = 1" by auto
    then show "fst ?p \<noteq> s \<longrightarrow> snd ?p = 1" using remove_from_none by blast
  qed
qed
section \<open>What the parts of the handler leave alone\<close>

lemma update_status_frame [simp]:
  "tr_Config (updateTLSSecretStatus auth sx env ts p r) = tr_Config r"
  "tr_certs (updateTLSSecretStatus auth sx env ts p r) = tr_certs r"
  "sds_patches (updateTLSSecretStatus auth sx env ts p r) = sds_patches r"
  by (simp_all add: updateTLSSecretStatus_def split: prod.split option.split)

lemma patch_frame:
  assumes "patch_resource env old new r = (obj, ok, r')"
  shows "tr_Config r' = tr_Config r" and "tr_certs r' = tr_certs r" and "sds_patches r' = sds_patches r @ [(new, ok)]"
    and "sds_status_writes r' = sds_status_writes r" and "sds_config_errors r' = sds_config_errors r"
    and "ok \<Longrightarrow> Patch_TLSSecret env old new = Inr obj" and "\<not> ok \<Longrightarrow> obj = new"
  using assms by (auto simp: patch_resource_def split: sum.splits)

lemma note_expiration_frame:
  assumes "note_expiration env t ts r = (ts', r')"
  shows "tr_Config r' = tr_Config r" and "tr_certs r' = tr_certs r" and "sds_status_writes r' = sds_status_writes r"
    and "sds_config_errors r' = sds_config_errors r"
  using assms by (auto simp: note_expiration_def Let_def split: option.splits if_splits prod.splits dest: patch_frame)

lemma note_expiration_None [simp]: "note_expiration env None ts r = (ts, r)"
  by (simp add: note_expiration_def)

lemma set_secrets_frame [simp]:
  "tr_certs (set_secrets sn r) = tr_certs r" "sds_patches (set_secrets sn r) = sds_patches r"
  "sds_status_writes (set_secrets sn r) = sds_status_writes r"
  by (simp_all add: set_secrets_def sds_config_def)

lemma IncrementConfigCounter_pow:
  "(IncrementConfigCounter ^^ n) c = c\<lparr>configChangeCounter := configChangeCounter c + of_nat n\<rparr>"
  by (induction n arbitrary: c) (simp_all add: IncrementConfigCounter_def funpow_swap1 add.commute add.left_commute)

lemma set_secrets_config:
  "tr_Config (set_secrets (s, n) r) =
     (tr_Config r)\<lparr>SecretConfigs := s, configChangeCounter := configChangeCounter (tr_Config r) + of_nat n\<rparr>"
  by (simp add: set_secrets_def sds_config_def IncrementConfigCounter_pow)

text \<open>The state in which the handler looks at the resource.\<close>

definition entered :: "'w TLSSecretReconciler \<Rightarrow> 'w TLSSecretReconciler" where
  "entered r = (sds_in_status (SetHasDomainConfigs True) r)\<lparr>sds_reconciling := sds_reconciling r + 1\<rparr>"

lemma entered_frame [simp]:
  "tr_certs (entered r) = tr_certs r" "sds_patches (entered r) = sds_patches r"
  "sds_status_writes (entered r) = sds_status_writes r" "sds_config_errors (entered r) = sds_config_errors r"
  "SecretConfigs (tr_Config (entered r)) = SecretConfigs (tr_Config r)"
  "configChangeCounter (tr_Config (entered r)) = configChangeCounter (tr_Config r)"
  "IsLeader (tr_Config (entered r)) = IsLeader (tr_Config r)"
  "NodeID (tr_Config (entered r)) = NodeID (tr_Config r)"
  "ClusterName (tr_Config (entered r)) = ClusterName (tr_Config r)"
  by (simp_all add: entered_def sds_in_status_def sds_config_def)

lemma with_sds_defaults_entered [simp]: "with_sds_defaults (tr_Config (entered r)) ts = with_sds_defaults (tr_Config r) ts"
  by (simp add: with_sds_defaults_def with_defaults_def)

lemma ReconcileSecret_eq:
  "ReconcileSecret api auth sx env False ctx req r =
     (case Get_TLSSecret env req of
        GetError e \<Rightarrow> Some ((0, Some e), entered r)
      | NotFound \<Rightarrow> Some ((0, None), removeSecretFromConfigs (snd req) (entered r))
      | Found ts \<Rightarrow>
          let ts = with_sds_defaults (tr_Config r) ts in
          if IsPaused (om_Annotations ts) then Some (reconcile_paused auth sx env ts (entered r))
          else reconcile_active api auth sx env ctx req ts (entered r))"
proof -
  have "sds_reconciling (sds_in_status f r) = sds_reconciling r" for f by (simp add: sds_in_status_def sds_config_def)
  then show ?thesis
    by (simp add: ReconcileSecret_def Let_def split: get.split flip: entered_def)
qed

text \<open>The defaults only fill in where a resource goes.\<close>

lemma mget_with_defaults: "k \<noteq> ''nodes'' \<Longrightarrow> k \<noteq> ''clusters'' \<Longrightarrow> mget (with_defaults c an) k = mget an k"
  by (simp add: with_defaults_def set_default_def)

lemma flags_with_defaults [simp]:
  "IsPaused (with_defaults c an) = IsPaused an" "IsForceRenew (with_defaults c an) = IsForceRenew an"
  "ForceRenewRequest (with_defaults c an) = ForceRenewRequest an"
  by (simp_all add: IsPaused_def IsForceRenew_def ForceRenewRequest_def flagSet_def annotationValue_def
      mget_with_defaults AnnotationPause_def AnnotationForceRenew_def)

lemma with_sds_defaults_frame [simp]:
  "tls_Status (with_sds_defaults c ts) = tls_Status ts" "tls_Spec (with_sds_defaults c ts) = tls_Spec ts"
  "om_Annotations (with_sds_defaults c ts) = with_defaults c (om_Annotations ts)"
  "object_key (with_sds_defaults c ts) = object_key ts" "om_Name (with_sds_defaults c ts) = om_Name ts"
  "om_Generation (with_sds_defaults c ts) = om_Generation ts" "tls_Labels (with_sds_defaults c ts) = tls_Labels ts"
  by (simp_all add: with_sds_defaults_def object_key_def)

definition has_types :: "string set \<Rightarrow> Condition list \<Rightarrow> bool" where
  "has_types T cs \<longleftrightarrow> T \<subseteq> co_Type ` set cs"

text \<open>Storing a status rounds its times down, and changes nothing else.\<close>

lemma whole_seconds_bounds: "whole_seconds t \<le> t" "t < whole_seconds t + 1000000000"
  by (simp_all add: whole_seconds_def minus_mod_eq_div_mult [symmetric])

lemma stored_status_fields [simp]:
  "st_Active (stored_status s) = st_Active s" "st_Nodes (stored_status s) = st_Nodes s"
  "st_Clusters (stored_status s) = st_Clusters s" "st_Message (stored_status s) = st_Message s"
  "st_ObservedGeneration (stored_status s) = st_ObservedGeneration s"
  "st_LastReconciled (stored_status s) = whole_seconds (st_LastReconciled s)"
  "ts_CertificateInfo (stored_status s) = ts_CertificateInfo s" "ts_NextRenewal (stored_status s) = ts_NextRenewal s"
  "ts_FailureCount (stored_status s) = ts_FailureCount s" "ts_NextRetryDelay (stored_status s) = ts_NextRetryDelay s"
  "ts_LastFailureTime (stored_status s) = map_option whole_seconds (ts_LastFailureTime s)"
  "ts_BackoffUntil (stored_status s) = map_option whole_seconds (ts_BackoffUntil s)"
  "ts_Paused (stored_status s) = ts_Paused s" "ts_ForceRenewRequest (stored_status s) = ts_ForceRenewRequest s"
  "length (st_Conditions (stored_status s)) = length (st_Conditions s)"
  "length (st_Snapshots (stored_status s)) = length (st_Snapshots s)"
  by (simp_all add: stored_status_def)

lemma stored_conditions:
  "map_option co_Status (condition_at k (st_Conditions (stored_status s))) = map_option co_Status (condition_at k (st_Conditions s))"
  "has_types T (st_Conditions (stored_status s)) = has_types T (st_Conditions s)"
proof -
  have "map_option co_Status (condition_at k (map (\<lambda>c. c\<lparr>co_LastTransitionTime := f c\<rparr>) cs)) =
      map_option co_Status (condition_at k cs)" for f cs
    by (induction cs) (auto simp: condition_at_def)
  then show "map_option co_Status (condition_at k (st_Conditions (stored_status s))) =
      map_option co_Status (condition_at k (st_Conditions s))" by (simp add: stored_status_def)
  show "has_types T (st_Conditions (stored_status s)) = has_types T (st_Conditions s)"
    by (simp add: has_types_def stored_status_def image_image)
qed

text \<open>A status is written or not; the one written is made from the re-read resource.\<close>

lemma status_written:
  "sds_status_writes (updateTLSSecretStatus auth sx env ts p r) = sds_status_writes r \<or>
   (\<exists>l. Refetch_Status env (object_key ts) = Found l \<and>
      sds_status_writes (updateTLSSecretStatus auth sx env ts p r) =
        sds_status_writes r @
          [(object_key ts, stored_status (newStatus (Now auth (world (tr_certs r))) (om_Generation ts) p l))])"
  by (auto simp: updateTLSSecretStatus_def write_secret_status_def attempt_def Let_def
      split: prod.splits option.splits get.splits if_splits)

lemma paused_status:
  assumes "pt_activeNodes p = []" and "pt_active p = False" and "pt_certInfo p = None" and "pt_paused p"
    and "pt_preserveExisting p" and "pt_preserveBackoff p"
  shows "ts_Paused (newStatus now g p l) \<and> ts_FailureCount (newStatus now g p l) = ts_FailureCount l \<and>
    ts_BackoffUntil (newStatus now g p l) = ts_BackoffUntil l \<and>
    ts_ForceRenewRequest (newStatus now g p l) = ts_ForceRenewRequest l \<and>
    ts_CertificateInfo (newStatus now g p l) = ts_CertificateInfo l \<and>
    st_Active (newStatus now g p l) = st_Active l \<and> st_Snapshots (newStatus now g p l) = st_Snapshots l \<and>
    condition_at ''Error'' (st_Conditions (newStatus now g p l)) = condition_at ''Error'' (st_Conditions l)"
  using assms
  by (simp add: newStatus_def Let_def snapshots_of_def condition_at_update pausedCondition_def
      expiringCondition_def split: prod.split)

section \<open>A resource that is not paused\<close>

definition new_request :: "TLSSecretCR \<Rightarrow> bool" where
  "new_request ts \<longleftrightarrow>
     IsForceRenew (om_Annotations ts) \<and> ForceRenewRequest (om_Annotations ts) \<noteq> ts_ForceRenewRequest (tls_Status ts)"

definition wait_left :: "'w authority \<Rightarrow> TLSSecretCR \<Rightarrow> 'w TLSSecretReconciler \<Rightarrow> int option" where
  "wait_left auth ts r =
     (if new_request ts then None else backoffRemaining (Now auth (world (tr_certs r))) (tls_Status ts))"

definition policy_of :: "sds_settings \<Rightarrow> TLSSecretCR \<Rightarrow> RetryPolicy" where
  "policy_of sx ts =
     RetryPolicyFor (om_Annotations ts) (tls_Labels ts) (retryDefaults sx)"

definition node_of :: "'w TLSSecretReconciler \<Rightarrow> TLSSecretCR \<Rightarrow> string" where
  "node_of r ts = GetNodeID (with_defaults (tr_Config r) (om_Annotations ts))"

text \<open>The certificate a request asks for.\<close>

definition answer_of ::
  "'w outside \<Rightarrow> 'w authority \<Rightarrow> sds_settings \<Rightarrow> ctx \<Rightarrow> nsname \<Rightarrow> TLSSecretCR \<Rightarrow> 'w TLSSecretReconciler
   \<Rightarrow> ('w certs \<times> outcome) option" where
  "answer_of api auth sx ctx req ts r =
     GetSecret api auth (sx_Settings sx) ctx (tr_certs r) ((tls_Spec ts)\<lparr>dc_SecretName := snd req\<rparr>)
       (IsLeader (tr_Config r)) (new_request ts)"

lemma answer_conclusive: "answer_of api auth sx ctx req ts r = Some (s, oc) \<Longrightarrow> conclusive oc"
  unfolding answer_of_def by (rule GetSecret_result)

lemma policy_with_defaults:
  "RetryPolicyFor (with_defaults c an) lb p = RetryPolicyFor an lb p"
  by (simp add: RetryPolicyFor_def metaDuration_def metaValue_def mget_with_defaults)

lemma ReconcileSecret_active:
  assumes "Get_TLSSecret env req = Found ts" and "\<not> IsPaused (om_Annotations ts)"
  shows "ReconcileSecret api auth sx env False ctx req r =
     reconcile_active api auth sx env ctx req (with_sds_defaults (tr_Config r) ts) (entered r)"
  using assms by (simp add: ReconcileSecret_eq Let_def)

lemma reconcile_active_waits:
  assumes "wait_left auth ts r = Some w"
  shows "reconcile_active api auth sx env ctx req (with_sds_defaults c ts) (entered r) = Some ((w, None), entered r)"
proof -
  let ?ts = "with_sds_defaults c ts"
  have f: "(IsForceRenew (om_Annotations ?ts) \<and> ForceRenewRequest (om_Annotations ?ts) \<noteq> ts_ForceRenewRequest (tls_Status ?ts)) =
      new_request ts" by (simp add: new_request_def)
  have w: "(if new_request ts then None else backoffRemaining (Now auth (world (tr_certs (entered r)))) (tls_Status ?ts)) = Some w"
    using assms by (auto simp: wait_left_def split: if_splits)
  show ?thesis unfolding reconcile_active_def Let_def f w option.case ..
qed

lemma reconcile_active_goes:
  assumes "wait_left auth ts r = None" and "answer_of api auth sx ctx req ts r = Some (s, oc)"
    and "note_expiration env (o_Expires oc)
           ((with_sds_defaults (tr_Config r) ts)\<lparr>tls_Spec := (tls_Spec ts)\<lparr>dc_SecretName := snd req\<rparr>\<rparr>)
           ((entered r)\<lparr>tr_certs := s\<rparr>) = (ts', r1)"
  shows "reconcile_active api auth sx env ctx req (with_sds_defaults (tr_Config r) ts) (entered r) =
     (case o_Err oc of
        Some e \<Rightarrow>
          Some (if \<not> IsLeader (tr_Config r) \<and> (errors_Is e ErrCertNotFound \<or> errors_Is e ErrCertNil)
                then ((requeueInterval sx (o_RenewIn oc), None), r1)
                else reconcile_failed auth sx env (policy_of sx ts) (ForceRenewRequest (om_Annotations ts)) ts' e r1)
      | None \<Rightarrow>
          (case o_Secret oc of
             None \<Rightarrow> None
           | Some sds \<Rightarrow>
               Some (reconcile_secret auth sx env (node_of r ts) (IsForceRenew (om_Annotations ts))
                       (ForceRenewRequest (om_Annotations ts)) (new_request ts) ts' sds (o_RenewIn oc) r1)))"
proof -
  let ?ts = "with_sds_defaults (tr_Config r) ts"
  have f: "(IsForceRenew (om_Annotations ?ts) \<and> ForceRenewRequest (om_Annotations ?ts) \<noteq> ts_ForceRenewRequest (tls_Status ?ts)) =
      new_request ts" by (simp add: new_request_def)
  have w: "(if new_request ts then None else backoffRemaining (Now auth (world (tr_certs (entered r)))) (tls_Status ?ts)) = None"
    using assms(1) by (auto simp: wait_left_def split: if_splits)
  have g: "GetSecret api auth (sx_Settings sx) ctx (tr_certs (entered r)) ((tls_Spec ?ts)\<lparr>dc_SecretName := snd req\<rparr>)
      (IsLeaderInstance (tr_Config (entered r))) (new_request ts) = Some (s, oc)"
    using assms(2) by (simp add: answer_of_def IsLeaderInstance_def)
  show ?thesis
    unfolding reconcile_active_def Let_def f w option.case
    using g assms(3) by (simp add: policy_of_def policy_with_defaults node_of_def IsLeaderInstance_def split: option.split)
qed

lemma DelayFor_pos: "0 < DelayFor p n"
proof -
  let ?p = "normalize p" and ?b = "round64 (of_int (BaseDelay (normalize p)))"
  have base: "0 < BaseDelay ?p" "0 < MaxDelay ?p" using normalize_ok(1,2) [of p] by simp_all
  then have "1 \<le> ?b" using round64_mono [of 1 "of_int (BaseDelay ?p)"] by simp
  obtain q where q: "Multiplier ?p = Fin q" "1 \<le> q" using normalize_ok(3) by blast
  have "times64 ?b (pow64 q (nat (n - 1))) = PosInf \<or>
      (\<exists>d. times64 ?b (pow64 q (nat (n - 1))) = Fin d \<and> round64 d = d \<and> ?b \<le> d)"
  proof (rule grown_cases [OF _ q(2)])
    show "0 < ?b" using \<open>1 \<le> ?b\<close> by simp
    show "\<exists>x>0. ?b = round64 x" using base(1) by (intro exI [of _ "of_int (BaseDelay ?p)"]) simp
  qed
  then have "grown ?p (nat (n - 1)) = PosInf \<or> (\<exists>d. grown ?p (nat (n - 1)) = Fin d \<and> 1 \<le> d)"
    using \<open>1 \<le> ?b\<close> by (auto simp: grown_def q(1))
  then show ?thesis using base by (auto simp: DelayFor_def Let_def)
qed

lemma wait_over: "backoffRemaining t st = None \<longleftrightarrow> (case ts_BackoffUntil st of None \<Rightarrow> True | Some u \<Rightarrow> u \<le> t)"
  by (auto simp: backoffRemaining_def Let_def time_Until_def split: option.split)

section \<open>The conditions of a status\<close>

lemma condition_types:
  "co_Type (readyCondition now g active m1 m2) = ''Ready''"
  "co_Type (reconciledCondition now g) = ''Reconciled''"
  "co_Type (pausedCondition now g p) = ''Paused''"
  "co_Type (sds_errorCondition now g p) = ''Error''"
  "co_Type (expiringCondition now g info) = ''CertExpiring''"
  by (simp_all add: readyCondition_def reconciledCondition_def pausedCondition_def sds_errorCondition_def
      expiringCondition_def split: prod.split)

lemma condition_at_newStatus:
  "map_option co_Status (condition_at ''Ready'' (st_Conditions (newStatus now g p l))) =
     Some (bool_status (st_Active (newStatus now g p l)))"
  "map_option co_Status (condition_at ''Paused'' (st_Conditions (newStatus now g p l))) = Some (bool_status (pt_paused p))"
  "\<not> pt_preserveBackoff p \<Longrightarrow>
     map_option co_Status (condition_at ''Error'' (st_Conditions (newStatus now g p l))) = Some (bool_status (failed p))"
proof -
  have c: "co_Status (readyCondition now g active m1 m2) = bool_status active"
    "co_Status (pausedCondition now g p) = bool_status (pt_paused p)"
    "co_Status (sds_errorCondition now g p) = bool_status (failed p)" for active m1 m2
    by (simp_all add: readyCondition_def pausedCondition_def sds_errorCondition_def)
  note look = newStatus_def Let_def Status.simps TLSSecretStatus.simps condition_at_update condition_types
  show "map_option co_Status (condition_at ''Ready'' (st_Conditions (newStatus now g p l))) =
      Some (bool_status (st_Active (newStatus now g p l)))"
    by (cases "pt_preserveBackoff p") (simp_all add: look c cong del: if_weak_cong)
  show "map_option co_Status (condition_at ''Paused'' (st_Conditions (newStatus now g p l))) = Some (bool_status (pt_paused p))"
    by (cases "pt_preserveBackoff p") (simp_all add: look c)
  show "map_option co_Status (condition_at ''Error'' (st_Conditions (newStatus now g p l))) = Some (bool_status (failed p))"
    if "\<not> pt_preserveBackoff p" using that by (simp add: look c)
qed

section \<open>A status that is written\<close>

text \<open>When the failure count changes and the API accepts the update, the status is written.\<close>

lemma status_is_written:
  assumes "Refetch_Status env (object_key ts) = Found l" and "\<And>st. Update_Status env (object_key ts) st = None"
    and "ts_FailureCount l \<noteq> pt_failureCount p" and "\<not> pt_preserveBackoff p"
  shows "sds_status_writes (updateTLSSecretStatus auth sx env ts p r) =
     sds_status_writes r @ [(object_key ts, stored_status (newStatus (Now auth (world (tr_certs r))) (om_Generation ts) p l))]"
proof -
  have "\<not> tlsSecretStatusEqual (overwritten l (newStatus now g p l)) (newStatus now g p l)" for now g
  proof
    assume "tlsSecretStatusEqual (overwritten l (newStatus now g p l)) (newStatus now g p l)"
    then have "ts_FailureCount (normalizeStatusForCompare (overwritten l (newStatus now g p l))) =
        ts_FailureCount (normalizeStatusForCompare (newStatus now g p l))"
      by (simp add: tlsSecretStatusEqual_def)
    then show False using assms(3,4) by (simp add: normalizeStatusForCompare_def overwritten_def newStatus_def Let_def)
  qed
  then show ?thesis
    using assms(1,2) by (simp add: updateTLSSecretStatus_def write_secret_status_def attempt_def Let_def)
qed

section \<open>Writing the status again\<close>

lemma types_updateCondition: "co_Type ` set (updateCondition cs new) = insert (co_Type new) (co_Type ` set cs)"
  by (induction cs) auto

lemma length_updateCondition:
  "co_Type new \<in> co_Type ` set cs \<Longrightarrow> length (updateCondition cs new) = length cs"
  by (induction cs) auto

definition status_types :: "bool \<Rightarrow> string set" where
  "status_types back = {''Ready'', ''Reconciled'', ''Paused'', ''CertExpiring''} \<union> (if back then {} else {''Error''})"

lemma newStatus_has_types: "has_types (status_types (pt_preserveBackoff p)) (st_Conditions (newStatus now g p l))"
  by (cases "pt_preserveBackoff p")
    (simp_all add: has_types_def status_types_def newStatus_def Let_def types_updateCondition condition_types)

lemma newStatus_keeps_length:
  assumes "has_types (status_types (pt_preserveBackoff p)) (st_Conditions l)"
  shows "length (st_Conditions (newStatus now g p l)) = length (st_Conditions l)"
  using assms
  by (cases "pt_preserveBackoff p")
    (simp_all add: has_types_def status_types_def newStatus_def Let_def types_updateCondition condition_types
      length_updateCondition)

lemma ParseCSV_again: "ParseCSV (Join (ParseCSV s) '','') = ParseCSV s"
  by (rule ParseCSV_Join) (auto dest: ParseCSV_parts)

text \<open>Apart from the conditions and the times, a status derived from one with the same outcome is that one.\<close>

lemma newStatus_again:
  "normalizeStatusForCompare ((newStatus t g p (newStatus now g p l))\<lparr>st_Conditions := cs\<rparr>) =
   normalizeStatusForCompare ((newStatus now g p l)\<lparr>st_Conditions := cs\<rparr>)"
  by (cases "pt_preserveExisting p"; cases "pt_preserveBackoff p"; cases "pt_activeNodes p")
    (simp_all add: normalizeStatusForCompare_def newStatus_def Let_def ParseCSV_again snapshots_of_def)

lemma normalize_stored:
  "normalizeStatusForCompare ((stored_status s)\<lparr>st_Conditions := cs\<rparr>) = normalizeStatusForCompare (s\<lparr>st_Conditions := cs\<rparr>)"
  by (simp add: normalizeStatusForCompare_def stored_status_def)

lemma newStatus_stored:
  "normalizeStatusForCompare ((newStatus t g p (stored_status l))\<lparr>st_Conditions := cs\<rparr>) =
   normalizeStatusForCompare ((newStatus t g p l)\<lparr>st_Conditions := cs\<rparr>)"
  by (cases "pt_preserveExisting p"; cases "pt_preserveBackoff p"; cases "pt_activeNodes p")
    (simp_all add: normalizeStatusForCompare_def newStatus_def Let_def snapshots_of_def,
     simp_all add: stored_status_def)

end
