(* ===== verification/SecretSpec.thy ===== *)
theory SecretSpec
  imports SecretFacts
begin

text \<open>
  What the TLSSecret controller promises: where a secret is served, what a pause, a back-off and a failure
  leave alone, when a request comes back, and what becomes of a force-renew request.
\<close>

section \<open>Properties\<close>

text \<open>C8. Placing a secret leaves it at its node id and nowhere else, even in a store where earlier versions were
  left behind under several node ids; no secret of another name is touched; the change counter grows exactly
  when the store changes.\<close>

theorem secret_has_one_home:
  "lookup sec_Name (fst (place_secret nodeid sds s)) n k =
     (if k = sec_Name sds then if n = nodeid then Some sds else None else lookup sec_Name s n k) \<and>
   (snd (place_secret nodeid sds s) = 0 \<longleftrightarrow> fst (place_secret nodeid sds s) = s) \<and>
   (one_home sec_Name s \<longrightarrow> one_home sec_Name (fst (place_secret nodeid sds s)))"
  using lookup_place_secret place_secret_unchanged secrets.put_home by blast

theorem secret_has_one_home_witness:
  "lookup sec_Name (fst (place_secret ''n'' \<lparr>sec_Name = ''web'', sec_TlsCertificate = None\<rparr>
     [(''old'', [\<lparr>sec_Name = ''web'', sec_TlsCertificate = Some (''a'', ''b'')\<rparr>])])) ''old'' ''web'' = None"
proof -
  let ?v = "\<lparr>sec_Name = ''web'', sec_TlsCertificate = None\<rparr>"
  let ?s = "[(''old'', [\<lparr>sec_Name = ''web'', sec_TlsCertificate = Some (''a'', ''b'')\<rparr>])]"
  show ?thesis using secret_has_one_home [of "''n''" ?v ?s "''old''" "''web''"] by simp
qed

text \<open>A deleted TLSSecret is gone from every node, copies included; everything else stays, no certificate is
  touched, and the change is counted when there was something to remove.\<close>

theorem deleted_secret_is_gone:
  assumes "Get_TLSSecret env req = NotFound"
    and "ReconcileSecret api auth sx env False ctx req r = Some (answer, r')"
  shows "answer = (0, None) \<and> tr_certs r' = tr_certs r \<and>
    (\<forall>n k. lookup sec_Name (SecretConfigs (tr_Config r')) n k =
       (if k = snd req then None else lookup sec_Name (SecretConfigs (tr_Config r)) n k)) \<and>
    (\<exists>c. configChangeCounter (tr_Config r') = configChangeCounter (tr_Config r) + of_nat c \<and>
       (c = 0 \<longleftrightarrow> SecretConfigs (tr_Config r') = SecretConfigs (tr_Config r)))"
proof -
  let ?s = "SecretConfigs (tr_Config r)"
  let ?p = "remove_from (mkeys ?s) (snd req) ?s"
  have r': "r' = set_secrets (fst ?p, snd ?p) (entered r)" and a: "answer = (0, None)"
    using assms by (simp_all add: ReconcileSecret_eq removeSecretFromConfigs_def)
  have c: "SecretConfigs (tr_Config r') = fst ?p"
    "configChangeCounter (tr_Config r') = configChangeCounter (tr_Config r) + of_nat (snd ?p)"
    unfolding r' set_secrets_config by simp_all
  have "lookup sec_Name (fst ?p) n k = (if k = snd req then None else lookup sec_Name ?s n k)" for n k
    using lookup_missing_node [of n ?s sec_Name k] by (auto simp: lookup_remove_from)
  then show ?thesis using a c remove_from_unchanged unfolding r' by auto
qed

text \<open>A resource, an API and a controller for concrete runs.\<close>

definition no_status :: TLSSecretStatus where
  "no_status =
     \<lparr>st_Active = False, st_Snapshots = [], st_Nodes = [], st_Clusters = [], st_LastReconciled = 0,
      st_ObservedGeneration = 0, st_Conditions = [], st_Message = [], ts_CertificateInfo = None, ts_NextRenewal = [],
      ts_FailureCount = 0, ts_LastFailureTime = None, ts_BackoffUntil = None, ts_NextRetryDelay = [], ts_Paused = False,
      ts_ForceRenewRequest = []\<rparr>"

definition sample_tls :: "(string, string) gmap \<Rightarrow> TLSSecretStatus \<Rightarrow> TLSSecretCR" where
  "sample_tls an st =
     \<lparr>om_Name = ''web'', om_Namespace = ''ns'', om_CreationTimestamp = 0, om_Generation = 1, om_Annotations = an,
      tls_Labels = [], tls_Spec = sample_domain, tls_Status = st\<rparr>"

definition sample_sds_env :: "TLSSecretCR \<Rightarrow> sds_env" where
  "sample_sds_env ts =
     \<lparr>Get_TLSSecret = \<lambda>key. if key = object_key ts then Found ts else NotFound, List_TLSSecrets = Inr [ts],
      Patch_TLSSecret = \<lambda>old new. Inr new, Refetch_Status = \<lambda>key. Found (tls_Status ts),
      Update_Status = \<lambda>key st. None,
      Format_RFC3339 = \<lambda>t. ''t'', Duration_String = \<lambda>d. ''d''\<rparr>"

definition sample_sds_settings :: sds_settings where
  "sample_sds_settings =
     \<lparr>sx_Settings = sample_settings, RetryBaseDelay = 0, RetryMaxDelay = 0, RetryMultiplier = NaN,
      StatusRefreshInterval = 0\<rparr>"

definition sample_secret_state :: "bool \<Rightarrow> memory TLSSecretReconciler" where
  "sample_secret_state leads =
     \<lparr>tr_Config = SetLeaderStatus leads (new_Config ''n'' ''c''), tr_certs = sample_certs, sds_reconciling = 0,
      sds_status_writes = [], sds_config_errors = [], sds_patches = []\<rparr>"

theorem deleted_secret_is_gone_witness:
  "\<exists>r'. ReconcileSecret memory_api memory_authority sample_sds_settings (sample_sds_env (sample_tls [] no_status)) False
      (None, None) (''ns'', ''gone'') (sample_secret_state True) = Some ((0, None), r') \<and>
    lookup sec_Name (SecretConfigs (tr_Config r')) ''n'' ''gone'' = None"
proof -
  let ?env = "sample_sds_env (sample_tls [] no_status)"
  have g: "Get_TLSSecret ?env (''ns'', ''gone'') = NotFound" by (simp add: sample_sds_env_def sample_tls_def object_key_def)
  obtain a r' where r: "ReconcileSecret memory_api memory_authority sample_sds_settings ?env False (None, None)
      (''ns'', ''gone'') (sample_secret_state True) = Some (a, r')" by (simp add: ReconcileSecret_eq g)
  then show ?thesis using deleted_secret_is_gone [OF g r] by simp
qed

text \<open>A paused TLSSecret is left alone: no certificate is read, ordered or written, the snapshots keep the secret,
  and the status keeps the back-off, the served certificate and the open force-renew request.\<close>

theorem paused_secret_untouched:
  assumes "Get_TLSSecret env req = Found ts" and "IsPaused (om_Annotations ts)"
    and "ReconcileSecret api auth sx env False ctx req r = Some (answer, r')"
  shows "answer = (0, None) \<and> tr_certs r' = tr_certs r \<and> sds_patches r' = sds_patches r \<and>
    SecretConfigs (tr_Config r') = SecretConfigs (tr_Config r) \<and>
    configChangeCounter (tr_Config r') = configChangeCounter (tr_Config r) \<and>
    (sds_status_writes r' = sds_status_writes r \<or>
     (\<exists>l st. Refetch_Status env (object_key ts) = Found l \<and>
        sds_status_writes r' = sds_status_writes r @ [(object_key ts, stored_status st)] \<and> ts_Paused st \<and>
        ts_FailureCount st = ts_FailureCount l \<and> ts_BackoffUntil st = ts_BackoffUntil l \<and>
        ts_ForceRenewRequest st = ts_ForceRenewRequest l \<and> ts_CertificateInfo st = ts_CertificateInfo l \<and>
        st_Active st = st_Active l \<and> st_Snapshots st = st_Snapshots l \<and>
        condition_at ''Error'' (st_Conditions st) = condition_at ''Error'' (st_Conditions l)))"
proof -
  define ts' where "ts' = with_sds_defaults (tr_Config r) ts"
  define p where "p = empty_patch\<lparr>pt_paused := True, pt_message := ''Paused by '' @ AnnotationPause @ '' annotation'',
     pt_preserveExisting := True, pt_preserveBackoff := True\<rparr>"
  have r': "r' = updateTLSSecretStatus auth sx env ts' p (entered r)" and a: "answer = (0, None)"
    using assms by (simp_all add: ReconcileSecret_eq Let_def reconcile_paused_def ts'_def p_def)
  have key: "object_key ts' = object_key ts" by (simp add: ts'_def)
  have frame: "tr_certs r' = tr_certs r" "sds_patches r' = sds_patches r"
    "SecretConfigs (tr_Config r') = SecretConfigs (tr_Config r)"
    "configChangeCounter (tr_Config r') = configChangeCounter (tr_Config r)" unfolding r' by simp_all
  have kept: "ts_Paused (newStatus now g p l) \<and> ts_FailureCount (newStatus now g p l) = ts_FailureCount l \<and>
    ts_BackoffUntil (newStatus now g p l) = ts_BackoffUntil l \<and>
    ts_ForceRenewRequest (newStatus now g p l) = ts_ForceRenewRequest l \<and>
    ts_CertificateInfo (newStatus now g p l) = ts_CertificateInfo l \<and>
    st_Active (newStatus now g p l) = st_Active l \<and> st_Snapshots (newStatus now g p l) = st_Snapshots l \<and>
    condition_at ''Error'' (st_Conditions (newStatus now g p l)) = condition_at ''Error'' (st_Conditions l)" for now g l
    by (rule paused_status) (simp_all add: p_def empty_patch_def)
  from status_written [of auth sx env ts' p "entered r", folded r', unfolded key] show ?thesis
    using a frame kept by (elim disjE exE conjE) (simp, auto)
qed

theorem paused_secret_untouched_witness:
  "\<exists>r'. ReconcileSecret memory_api memory_authority sample_sds_settings
      (sample_sds_env (sample_tls [(AnnotationPause, [])] no_status)) False (None, None) (''ns'', ''web'')
      (sample_secret_state True) = Some ((0, None), r') \<and> tr_certs r' = sample_certs"
proof -
  let ?ts = "sample_tls [(AnnotationPause, [])] no_status"
  have g: "Get_TLSSecret (sample_sds_env ?ts) (''ns'', ''web'') = Found ?ts"
    by (simp add: sample_sds_env_def sample_tls_def object_key_def)
  have p: "IsPaused (om_Annotations ?ts)"
    by (simp add: sample_tls_def IsPaused_def flagSet_def annotationValue_def mget_def)
  obtain a r' where r: "ReconcileSecret memory_api memory_authority sample_sds_settings (sample_sds_env ?ts) False
      (None, None) (''ns'', ''web'') (sample_secret_state True) = Some (a, r')"
    using p by (simp add: ReconcileSecret_eq g Let_def reconcile_paused_def)
  then show ?thesis using paused_secret_untouched [OF g p r] by (simp add: sample_secret_state_def)
qed
text \<open>A back-off is waited out: until it ends nothing happens to the certificate, the store, the resource or the
  status, and the request comes back exactly at its end. Only a force-renew request that has not been acted on
  cuts it short.\<close>

theorem backoff_is_waited_out:
  assumes "Get_TLSSecret env req = Found ts" and "\<not> IsPaused (om_Annotations ts)" and "\<not> new_request ts"
    and "ts_BackoffUntil (tls_Status ts) = Some u" and "now = Now auth (world (tr_certs r))" and "now < u"
    and "u - now < 2 ^ 63" and "ReconcileSecret api auth sx env False ctx req r = Some (answer, r')"
  shows "answer = (u - now, None) \<and> tr_certs r' = tr_certs r \<and> sds_patches r' = sds_patches r \<and>
    sds_status_writes r' = sds_status_writes r \<and> SecretConfigs (tr_Config r') = SecretConfigs (tr_Config r)"
proof -
  have "wait_left auth ts r = Some (u - now)"
    using assms(3-7) by (simp add: wait_left_def backoffRemaining_def Let_def time_Until_def)
  from reconcile_active_waits [OF this] assms(8) show ?thesis
    by (auto simp: ReconcileSecret_active [OF assms(1,2)])
qed

definition backed_off :: TLSSecretStatus where
  "backed_off = no_status\<lparr>ts_FailureCount := 1, ts_BackoffUntil := Some 60\<rparr>"

lemma sample_found:
  "Get_TLSSecret (sample_sds_env (sample_tls an st)) (''ns'', ''web'') = Found (sample_tls an st)"
  by (simp add: sample_sds_env_def sample_tls_def object_key_def)

lemma sample_plain:
  "\<not> IsPaused (om_Annotations (sample_tls [] st))" "\<not> new_request (sample_tls [] st)"
  "tls_Status (sample_tls an st) = st" "tls_Spec (sample_tls an st) = sample_domain"
  by (simp_all add: sample_tls_def IsPaused_def flagSet_def annotationValue_def new_request_def IsForceRenew_def)

theorem backoff_is_waited_out_witness:
  "\<exists>r'. ReconcileSecret memory_api memory_authority sample_sds_settings (sample_sds_env (sample_tls [] backed_off)) False
      (None, None) (''ns'', ''web'') (sample_secret_state True) = Some ((60, None), r') \<and> tr_certs r' = sample_certs"
proof -
  let ?ts = "sample_tls [] backed_off" and ?r = "sample_secret_state True"
  let ?run = "ReconcileSecret memory_api memory_authority sample_sds_settings (sample_sds_env ?ts) False (None, None)
     (''ns'', ''web'') ?r"
  have u: "ts_BackoffUntil (tls_Status ?ts) = Some 60" by (simp add: sample_plain backed_off_def)
  have n: "0 = Now memory_authority (world (tr_certs ?r))" by (simp add: memory_authority_def)
  have "wait_left memory_authority ?ts ?r = Some 60"
    using u n by (simp add: wait_left_def sample_plain backoffRemaining_def time_Until_def)
  from reconcile_active_waits [OF this] obtain a r' where r: "?run = Some (a, r')"
    by (auto simp: ReconcileSecret_active [OF sample_found sample_plain(1)])
  from backoff_is_waited_out [OF sample_found sample_plain(1,2) u n _ _ r] r show ?thesis
    by (simp add: sample_secret_state_def)
qed

text \<open>C9. A failure is retried: the secret that is served stays, and the next attempt is scheduled after the delay of
  the policy for the number of failures so far. If the resource can be read again with the count it had and the
  API accepts the update, the failure is written to its status: the count is one higher, the message is that of
  the error, the certificate and the activity are kept, and a back-off is recorded which ends at the scheduled
  moment, rounded down to the whole second a status can hold, so that it is over when the attempt comes back and
  no later request waits longer. (On a replica that does not lead, a missing certificate is not a failure.)\<close>

theorem failure_is_retried:
  assumes "Get_TLSSecret env req = Found ts" and "\<not> IsPaused (om_Annotations ts)" and "wait_left auth ts r = None"
    and "answer_of api auth sx ctx req ts r = Some (s, oc)" and "o_Err oc = Some e"
    and "IsLeader (tr_Config r) \<or> \<not> errors_Is e ErrCertNotFound \<and> \<not> errors_Is e ErrCertNil"
    and "ReconcileSecret api auth sx env False ctx req r = Some (answer, r')"
    and "n = ts_FailureCount (tls_Status ts) + 1" and "d = DelayFor (policy_of sx ts) (sint n)"
  shows "answer = (d, None) \<and> 0 < d \<and> tr_certs r' = s \<and> SecretConfigs (tr_Config r') = SecretConfigs (tr_Config r) \<and>
    (\<forall>l. Refetch_Status env (object_key ts) = Found l \<and> ts_FailureCount l = ts_FailureCount (tls_Status ts) \<and>
       (\<forall>st. Update_Status env (object_key ts) st = None) \<longrightarrow>
       (\<exists>st. sds_status_writes r' = sds_status_writes r @ [(object_key ts, st)] \<and>
          ts_FailureCount st = n \<and> st_Message st = Error_text e \<and> ts_CertificateInfo st = ts_CertificateInfo l \<and>
          st_Active st = st_Active l \<and> backoffRemaining (Now auth (world s) + d) st = None \<and>
          (\<forall>t. backoffRemaining t st = None \<longleftrightarrow> whole_seconds (Now auth (world s) + d) \<le> t)))"
proof -
  define ts' where "ts' = (with_sds_defaults (tr_Config r) ts)\<lparr>tls_Spec := (tls_Spec ts)\<lparr>dc_SecretName := snd req\<rparr>\<rparr>"
  define r1 where "r1 = (entered r)\<lparr>tr_certs := s\<rparr>"
  have key: "object_key ts' = object_key ts" and st: "tls_Status ts' = tls_Status ts"
    by (simp_all add: ts'_def object_key_def with_sds_defaults_def)
  have frame: "tr_certs r1 = s" "SecretConfigs (tr_Config r1) = SecretConfigs (tr_Config r)"
    "sds_status_writes r1 = sds_status_writes r" by (simp_all add: r1_def)
  have "o_Expires oc = None" using answer_conclusive [OF assms(4)] assms(5) by (simp add: conclusive_def)
  then have go: "(answer, r') =
      reconcile_failed auth sx env (policy_of sx ts) (ForceRenewRequest (om_Annotations ts)) ts' e r1"
    using reconcile_active_goes [OF assms(3,4), of env ts' r1] assms(5-7)
    by (auto simp: ReconcileSecret_active [OF assms(1,2)] ts'_def r1_def)
  define p where "p = empty_patch\<lparr>pt_message := Error_text e, pt_failureCount := n,
      pt_lastFailure := Some (Now auth (world s)), pt_backoffUntil := Some (Now auth (world s) + d),
      pt_nextRetry := Duration_String env d, pt_preserveExisting := True,
      pt_forceRenewRequest := ForceRenewRequest (om_Annotations ts)\<rparr>"
  define r2 where "r2 = r1\<lparr>sds_config_errors := sds_config_errors r1 @ [(dc_SecretName (tls_Spec ts'), errorClass e)]\<rparr>"
  have r': "r' = updateTLSSecretStatus auth sx env ts' p r2" and a: "answer = (d, None)"
    using go by (simp_all add: reconcile_failed_def Let_def st frame assms(8,9) p_def r2_def)
  have frame2: "tr_certs r2 = s" "SecretConfigs (tr_Config r2) = SecretConfigs (tr_Config r)"
    "sds_status_writes r2 = sds_status_writes r" by (simp_all add: r2_def frame)
  have kept: "ts_FailureCount (newStatus now g p l) = n" "st_Message (newStatus now g p l) = Error_text e"
    "ts_CertificateInfo (newStatus now g p l) = ts_CertificateInfo l" "st_Active (newStatus now g p l) = st_Active l"
    "ts_BackoffUntil (newStatus now g p l) = Some (Now auth (world s) + d)" for now g l
    by (simp_all add: newStatus_def Let_def p_def empty_patch_def)
  have "\<exists>st. sds_status_writes r' = sds_status_writes r @ [(object_key ts, st)] \<and>
      ts_FailureCount st = n \<and> st_Message st = Error_text e \<and> ts_CertificateInfo st = ts_CertificateInfo l \<and>
      st_Active st = st_Active l \<and> backoffRemaining (Now auth (world s) + d) st = None \<and>
      (\<forall>t. backoffRemaining t st = None \<longleftrightarrow> whole_seconds (Now auth (world s) + d) \<le> t)"
    if l: "Refetch_Status env (object_key ts) = Found l" "ts_FailureCount l = ts_FailureCount (tls_Status ts)"
      "\<And>st. Update_Status env (object_key ts) st = None" for l
  proof -
    have "ts_FailureCount l \<noteq> pt_failureCount p" "\<not> pt_preserveBackoff p"
      using l(2) assms(8) by (simp_all add: p_def empty_patch_def)
    from status_is_written [of env ts' l p auth sx r2, unfolded key, OF l(1,3) this] show ?thesis
      unfolding r' frame2 by (intro exI conjI, assumption) (simp_all add: kept wait_over whole_seconds_bounds)
  qed
  moreover have "0 < d" using assms(9) DelayFor_pos by simp
  moreover have "tr_certs r' = s \<and> SecretConfigs (tr_Config r') = SecretConfigs (tr_Config r)" unfolding r' by (simp add: frame2)
  ultimately show ?thesis using a by blast
qed

definition broken_domain :: DomainConfig where
  "broken_domain =
     sample_domain\<lparr>dc_Config := (dc_Config sample_domain)\<lparr>stc_Kubernetes := Some \<lparr>ksc_Namespace = [], ksc_SecretName = []\<rparr>\<rparr>\<rparr>"

definition no_client_settings :: sds_settings where
  "no_client_settings = sample_sds_settings\<lparr>sx_Settings := sample_settings\<lparr>HasK8sClient := False\<rparr>\<rparr>"

theorem failure_is_retried_witness:
  "\<exists>r'. ReconcileSecret memory_api memory_authority no_client_settings
      (sample_sds_env ((sample_tls [] no_status)\<lparr>tls_Spec := broken_domain\<rparr>)) False (None, None) (''ns'', ''web'')
      (sample_secret_state True) = Some ((10 * minute, None), r') \<and>
    (\<exists>st. sds_status_writes r' = [((''ns'', ''web''), st)] \<and> ts_FailureCount st = 1)"
proof -
  let ?ts = "(sample_tls [] no_status)\<lparr>tls_Spec := broken_domain\<rparr>" and ?r = "sample_secret_state True"
  let ?env = "sample_sds_env ?ts"
  let ?e = "Sentinel ErrK8sClientNotConfigured"
  let ?run = "ReconcileSecret memory_api memory_authority no_client_settings ?env False (None, None) (''ns'', ''web'') ?r"
  have g: "Get_TLSSecret ?env (''ns'', ''web'') = Found ?ts" by (simp add: sample_sds_env_def sample_tls_def object_key_def)
  have p: "\<not> IsPaused (om_Annotations ?ts)" and n: "\<not> new_request ?ts"
    by (simp_all add: sample_tls_def IsPaused_def flagSet_def annotationValue_def new_request_def IsForceRenew_def)
  have w: "wait_left memory_authority ?ts ?r = None"
    using n by (simp add: wait_left_def sample_tls_def no_status_def backoffRemaining_def)
  have a: "answer_of memory_api memory_authority no_client_settings (None, None) (''ns'', ''web'') ?ts ?r =
      Some (sample_certs, fail None ?e)"
    by (simp add: answer_of_def GetSecret_def Let_def storage_type_def broken_domain_def sample_domain_def
        no_client_settings_def sample_settings_def sample_secret_state_def)
  have l: "IsLeader (tr_Config ?r)" by (simp add: sample_secret_state_def SetLeaderStatus_def Let_def)
  have d: "DelayFor (policy_of no_client_settings ?ts) (sint (ts_FailureCount (tls_Status ?ts) + 1)) = 10 * minute"
    by (simp add: policy_of_def RetryPolicyFor_def metaDuration_def metaValue_def sample_tls_def sample_sds_env_def
        no_status_def no_client_settings_def sample_sds_settings_def retryDefaults_def DelayFor_first normalize_def
        bad_multiplier_def Let_def DefaultRetryBaseDelay_def DefaultRetryMaxDelay_def minute_def)
  have c: "o_Err (fail None ?e) = Some ?e" "o_Expires (fail None ?e) = None" by (simp_all add: fail_def)
  have l': "Refetch_Status ?env (object_key ?ts) = Found no_status" "ts_FailureCount no_status = ts_FailureCount (tls_Status ?ts)"
    "Update_Status ?env (object_key ?ts) st = None" "object_key ?ts = (''ns'', ''web'')" "ts_FailureCount no_status = 0"
    "sds_status_writes ?r = []" for st
    by (simp_all add: sample_sds_env_def sample_tls_def no_status_def object_key_def sample_secret_state_def)
  have "?run \<noteq> None" using reconcile_active_goes [OF w a] c by (simp add: ReconcileSecret_active [OF g p] l)
  then obtain b r' where r: "?run = Some (b, r')" by auto
  note f = failure_is_retried [OF g p w a c(1) disjI1 [OF l] r refl refl]
  have "b = (10 * minute, None)" using f d by simp
  moreover have "\<exists>st. sds_status_writes r' = sds_status_writes ?r @ [(object_key ?ts, st)] \<and>
      ts_FailureCount st = ts_FailureCount (tls_Status ?ts) + 1"
    using f [THEN conjunct2, THEN conjunct2, THEN conjunct2, THEN conjunct2, rule_format, of no_status] l'(1-3) by blast
  ultimately show ?thesis using r unfolding l'(2) [symmetric] l'(4-6) append_Nil by simp
qed

section \<open>A served secret\<close>

text \<open>What a patch documents: the object that comes back is the one that was sent.\<close>

definition patch_keeps_key :: "sds_env \<Rightarrow> bool" where
  "patch_keeps_key env \<longleftrightarrow> (\<forall>old new obj. Patch_TLSSecret env old new = Inr obj \<longrightarrow> object_key obj = object_key new)"

lemma key_name: "object_key a = object_key b \<Longrightarrow> om_Name a = om_Name b"
  by (simp add: object_key_def)

lemma patch_key:
  assumes "patch_keeps_key env" and "patch_resource env old new r = (obj, ok, r')"
  shows "object_key obj = object_key new"
  using assms patch_frame(6,7) [OF assms(2)] unfolding patch_keeps_key_def by (cases ok) auto

lemma note_expiration_key:
  assumes "patch_keeps_key env" and "note_expiration env t ts r = (ts', r')"
  shows "object_key ts' = object_key ts"
proof -
  have "object_key (ts\<lparr>om_Annotations := an\<rparr>) = object_key ts" for an by (simp add: object_key_def)
  then show ?thesis
    using assms(2)
    by (auto simp: note_expiration_def Let_def dest: patch_key [OF assms(1)] split: option.splits if_splits prod.splits)
qed

lemma clear_key:
  assumes "patch_keeps_key env" and "clearForceRenew env now ts r = (ts', ok, r')"
  shows "object_key ts' = object_key ts"
proof -
  have "object_key (without_force_renew (Format_RFC3339 env now) ts) = object_key ts"
    by (simp add: without_force_renew_def object_key_def)
  then show ?thesis using patch_key [OF assms(1) assms(2) [unfolded clearForceRenew_def]] by simp
qed

lemma reconcile_secret_parts:
  assumes "patch_keeps_key env"
    and "reconcile_secret auth sx env nodeid fr req new ts sds renew r = (answer, r')"
  shows "\<exists>ts1 r1 p. object_key ts1 = object_key ts \<and> tr_certs r1 = tr_certs r \<and> tr_Config r1 = tr_Config r \<and>
     sds_status_writes r1 = sds_status_writes r \<and> answer = (requeueInterval sx renew, None) \<and>
     pt_active p \<and> pt_activeNodes p = [nodeid] \<and> pt_message p = [] \<and> pt_failureCount p = 0 \<and> pt_backoffUntil p = None \<and>
     \<not> pt_preserveBackoff p \<and>
     r' = updateTLSSecretStatus auth sx env ts1 p
            (set_secrets (place_secret nodeid (sds\<lparr>sec_Name := om_Name ts1\<rparr>) (SecretConfigs (tr_Config r1))) r1)"
proof -
  obtain ts1 ok r1 where c: "(if fr \<and> (new \<and> certificateChanged (ts_CertificateInfo (tls_Status ts))
        (extractCertificateInfo auth (Now auth (world (tr_certs r))) sds) \<or>
        fr \<and> req = ts_ForceRenewRequest (tls_Status ts))
      then clearForceRenew env (Now auth (world (tr_certs r))) ts r else (ts, False, r)) = (ts1, ok, r1)"
    by (metis prod_cases3)
  have k: "object_key ts1 = object_key ts" "tr_certs r1 = tr_certs r" "tr_Config r1 = tr_Config r"
    "sds_status_writes r1 = sds_status_writes r"
    using c clear_key [OF assms(1)] patch_frame
    by (auto simp: clearForceRenew_def split: if_splits)
  show ?thesis
    using assms(2) k unfolding reconcile_secret_def Let_def c prod.case
    by (intro exI [of _ ts1] exI [of _ r1] exI) (auto simp: empty_patch_def)
qed
text \<open>A request that is answered with a secret: what is placed, and what the status is made from.\<close>

lemma served_parts:
  assumes "Get_TLSSecret env req = Found ts" and "\<not> IsPaused (om_Annotations ts)" and "wait_left auth ts r = None"
    and "answer_of api auth sx ctx req ts r = Some (s, oc)" and "o_Err oc = None" and "o_Secret oc = Some sds"
    and "patch_keeps_key env" and "ReconcileSecret api auth sx env False ctx req r = Some (answer, r')"
  shows "\<exists>ts1 p r2. object_key ts1 = object_key ts \<and> answer = (requeueInterval sx (o_RenewIn oc), None) \<and>
     tr_certs r2 = s \<and> tr_Config r2 = tr_Config (entered r) \<and> sds_status_writes r2 = sds_status_writes r \<and>
     pt_active p \<and> pt_message p = [] \<and> pt_failureCount p = 0 \<and> pt_backoffUntil p = None \<and> \<not> pt_preserveBackoff p \<and>
     r' = updateTLSSecretStatus auth sx env ts1 p
            (set_secrets (place_secret (node_of r ts) (sds\<lparr>sec_Name := om_Name ts\<rparr>) (SecretConfigs (tr_Config r))) r2)"
proof -
  define ts0 where "ts0 = (with_sds_defaults (tr_Config r) ts)\<lparr>tls_Spec := (tls_Spec ts)\<lparr>dc_SecretName := snd req\<rparr>\<rparr>"
  define r0 where "r0 = (entered r)\<lparr>tr_certs := s\<rparr>"
  obtain ts' r1 where ne: "note_expiration env (o_Expires oc) ts0 r0 = (ts', r1)" by fastforce
  have key: "object_key ts' = object_key ts"
    using note_expiration_key [OF assms(7) ne] by (simp add: ts0_def object_key_def with_sds_defaults_def)
  note f0 = note_expiration_frame [OF ne]
  have "(answer, r') = reconcile_secret auth sx env (node_of r ts) (IsForceRenew (om_Annotations ts))
      (ForceRenewRequest (om_Annotations ts)) (new_request ts) ts' sds (o_RenewIn oc) r1"
    using reconcile_active_goes [OF assms(3,4), of env ts' r1] assms(5,6,8) ne
    by (simp add: ReconcileSecret_active [OF assms(1,2)] ts0_def r0_def)
  from reconcile_secret_parts [OF assms(7) this [symmetric]] obtain ts1 r2 p where q:
    "object_key ts1 = object_key ts'" "tr_certs r2 = tr_certs r1" "tr_Config r2 = tr_Config r1"
    "sds_status_writes r2 = sds_status_writes r1" "answer = (requeueInterval sx (o_RenewIn oc), None)"
    "pt_active p" "pt_message p = []" "pt_failureCount p = 0" "pt_backoffUntil p = None" "\<not> pt_preserveBackoff p"
    "r' = updateTLSSecretStatus auth sx env ts1 p
       (set_secrets (place_secret (node_of r ts) (sds\<lparr>sec_Name := om_Name ts1\<rparr>) (SecretConfigs (tr_Config r2))) r2)"
    by blast
  have "om_Name ts1 = om_Name ts" using q(1) key key_name by metis
  moreover have "tr_Config r2 = tr_Config (entered r)" "sds_status_writes r2 = sds_status_writes r" "tr_certs r2 = s"
    using q(2-4) f0 by (simp_all add: r0_def)
  moreover have "object_key ts1 = object_key ts" using q(1) key by simp
  ultimately show ?thesis using q(5-11) by (intro exI [of _ ts1] exI [of _ p] exI [of _ r2]) simp
qed

text \<open>C7. A TLSSecret whose certificate is at hand is served: it is at its node id and at no other (copies left
  elsewhere are dropped), nothing else in the store changes, and the change is counted exactly when there is one.
  The request comes back in time: when the certificate is to be renewed, or after the refresh interval (an hour
  unless it is set) if that is sooner, and after half a minute when the renewal is already due. If a failure was
  recorded, the resource can be read again and the API accepts the update, the failure is cleared: the status
  written has no failures, no back-off, no message, and says the secret is active. (A patch of the resource gives
  back the object that was sent, by its namespace and name.)\<close>

theorem secret_is_served:
  assumes "Get_TLSSecret env req = Found ts" and "\<not> IsPaused (om_Annotations ts)" and "wait_left auth ts r = None"
    and "answer_of api auth sx ctx req ts r = Some (s, oc)" and "o_Err oc = None" and "o_Secret oc = Some sds"
    and "patch_keeps_key env" and "ReconcileSecret api auth sx env False ctx req r = Some (answer, r')"
    and "refresh = (if StatusRefreshInterval sx \<le> 0 then hour else StatusRefreshInterval sx)"
  shows "answer = (if o_RenewIn oc \<le> 0 then 30 * 1000000000 else min (o_RenewIn oc) refresh, None) \<and> tr_certs r' = s \<and>
    (\<forall>n k. lookup sec_Name (SecretConfigs (tr_Config r')) n k =
       (if k = om_Name ts then if n = node_of r ts then Some (sds\<lparr>sec_Name := om_Name ts\<rparr>) else None
        else lookup sec_Name (SecretConfigs (tr_Config r)) n k)) \<and>
    (\<exists>c. configChangeCounter (tr_Config r') = configChangeCounter (tr_Config r) + of_nat c \<and>
       (c = 0 \<longleftrightarrow> SecretConfigs (tr_Config r') = SecretConfigs (tr_Config r))) \<and>
    (\<forall>l. Refetch_Status env (object_key ts) = Found l \<and> ts_FailureCount l \<noteq> 0 \<and>
       (\<forall>st. Update_Status env (object_key ts) st = None) \<longrightarrow>
       (\<exists>st. sds_status_writes r' = sds_status_writes r @ [(object_key ts, st)] \<and> st_Active st \<and> st_Message st = [] \<and>
          ts_FailureCount st = 0 \<and> ts_BackoffUntil st = None))"
proof -
  define v where "v = sds\<lparr>sec_Name := om_Name ts\<rparr>"
  let ?p = "place_secret (node_of r ts) v (SecretConfigs (tr_Config r))"
  obtain ts1 p r2 where q: "object_key ts1 = object_key ts" "answer = (requeueInterval sx (o_RenewIn oc), None)"
    "tr_certs r2 = s" "tr_Config r2 = tr_Config (entered r)" "sds_status_writes r2 = sds_status_writes r" "pt_active p"
    "pt_message p = []" "pt_failureCount p = 0" "pt_backoffUntil p = None" "\<not> pt_preserveBackoff p"
    "r' = updateTLSSecretStatus auth sx env ts1 p (set_secrets (fst ?p, snd ?p) r2)"
    using served_parts [OF assms(1-8)] unfolding v_def prod.collapse by blast
  have c: "SecretConfigs (tr_Config r') = fst ?p"
    "configChangeCounter (tr_Config r') = configChangeCounter (tr_Config r) + of_nat (snd ?p)"
    unfolding q(11) update_status_frame set_secrets_config by (simp_all add: q(4))
  have new: "st_Active (newStatus now g p l)" "st_Message (newStatus now g p l) = []"
    "ts_FailureCount (newStatus now g p l) = 0" "ts_BackoffUntil (newStatus now g p l) = None" for now g l
    using q(6-10) by (simp_all add: newStatus_def Let_def)
  have writes: "\<exists>st. sds_status_writes r' = sds_status_writes r @ [(object_key ts, st)] \<and> st_Active st \<and> st_Message st = [] \<and>
      ts_FailureCount st = 0 \<and> ts_BackoffUntil st = None"
    if l: "Refetch_Status env (object_key ts) = Found l" "ts_FailureCount l \<noteq> 0"
      "\<And>st. Update_Status env (object_key ts) st = None" for l
  proof -
    have "ts_FailureCount l \<noteq> pt_failureCount p" using l(2) q(8) by simp
    from status_is_written [of env ts1 l p auth sx "set_secrets (fst ?p, snd ?p) r2", unfolded q(1), OF l(1,3) this q(10)]
    show ?thesis unfolding q(11) set_secrets_frame q(5) by (intro exI conjI, assumption) (simp_all add: new)
  qed
  have look: "lookup sec_Name (SecretConfigs (tr_Config r')) n k =
      (if k = om_Name ts then if n = node_of r ts then Some v else None else lookup sec_Name (SecretConfigs (tr_Config r)) n k)"
    for n k unfolding c(1) lookup_place_secret by (simp add: v_def)
  have cnt: "\<exists>c. configChangeCounter (tr_Config r') = configChangeCounter (tr_Config r) + of_nat c \<and>
      (c = 0 \<longleftrightarrow> SecretConfigs (tr_Config r') = SecretConfigs (tr_Config r))"
    using c(2) place_secret_unchanged unfolding c(1) by blast
  have "tr_certs r' = s" unfolding q(11) by (simp add: q(3))
  moreover have "answer = (if o_RenewIn oc \<le> 0 then 30 * 1000000000 else min (o_RenewIn oc) refresh, None)"
    using q(2) assms(9) by (simp add: requeueInterval_def Let_def min_def)
  ultimately show ?thesis unfolding v_def [symmetric] using look cnt writes by blast
qed
text \<open>A run with a renewal asked for.\<close>

definition renew_tls :: TLSSecretCR where
  "renew_tls = sample_tls [(AnnotationForceRenew, ''1'')] no_status"

lemma renew_flags:
  "\<not> IsPaused (om_Annotations renew_tls)" "new_request renew_tls" "om_Name renew_tls = ''web''"
  by (simp_all add: renew_tls_def sample_tls_def IsPaused_def new_request_def IsForceRenew_def ForceRenewRequest_def
      flagSet_def annotationValue_def mget_def AnnotationPause_def AnnotationForceRenew_def ParseBool_def no_status_def)

lemma renew_answer:
  "\<exists>s oc. answer_of memory_api memory_authority sample_sds_settings (None, None) (''ns'', ''web'') renew_tls
     (sample_secret_state True) = Some (s, oc) \<and> o_Err oc = None \<and>
     o_Secret oc = Some \<lparr>sec_Name = ''web'', sec_TlsCertificate = Some (''a.example'', ''rsa'')\<rparr>"
proof -
  have n: "new_request renew_tls" by (rule renew_flags)
  show ?thesis
    by (simp add: answer_of_def n GetSecret_def storage_type_def with_type_def with_kubernetes_def report_def
        makeSecret_def first_cert_def order_def serve_def renewed_def finish_def get509Cert_def
        SelfSigned_Get_def ca_of_def generated_ca_def leaf_template_def
        StorageConfigRead_def StorageConfigWrite_def read_kubernetes_def write_kubernetes_def memory_api_def
        memory_authority_def sample_sds_settings_def sample_settings_def sample_certs_def sample_domain_def
        empty_memory_def sample_secret_state_def SetLeaderStatus_def renew_tls_def sample_tls_def secret_of_def
        k8s_key_def manual_def forceRegenerate_def access_failure_def mset_at_def mget_def Let_def)
qed

lemma sample_patch_keeps_key: "patch_keeps_key (sample_sds_env ts)"
  by (simp add: patch_keeps_key_def sample_sds_env_def)

theorem secret_is_served_witness:
  "\<exists>answer r'. ReconcileSecret memory_api memory_authority sample_sds_settings (sample_sds_env renew_tls) False
      (None, None) (''ns'', ''web'') (sample_secret_state True) = Some (answer, r') \<and>
    lookup sec_Name (SecretConfigs (tr_Config r')) (node_of (sample_secret_state True) renew_tls) ''web'' =
      Some \<lparr>sec_Name = ''web'', sec_TlsCertificate = Some (''a.example'', ''rsa'')\<rparr>"
proof -
  let ?r = "sample_secret_state True" and ?env = "sample_sds_env renew_tls"
  let ?run = "ReconcileSecret memory_api memory_authority sample_sds_settings ?env False (None, None) (''ns'', ''web'') ?r"
  obtain s oc where a: "answer_of memory_api memory_authority sample_sds_settings (None, None) (''ns'', ''web'') renew_tls ?r =
      Some (s, oc)" "o_Err oc = None"
    "o_Secret oc = Some \<lparr>sec_Name = ''web'', sec_TlsCertificate = Some (''a.example'', ''rsa'')\<rparr>"
    using renew_answer by blast
  have g: "Get_TLSSecret ?env (''ns'', ''web'') = Found renew_tls" unfolding renew_tls_def by (rule sample_found)
  have w: "wait_left memory_authority renew_tls ?r = None" by (simp add: wait_left_def renew_flags)
  obtain ts' r1 where ne: "note_expiration ?env (o_Expires oc)
      ((with_sds_defaults (tr_Config ?r) renew_tls)\<lparr>tls_Spec := (tls_Spec renew_tls)\<lparr>dc_SecretName := snd (''ns'', ''web'')\<rparr>\<rparr>)
      ((entered ?r)\<lparr>tr_certs := s\<rparr>) = (ts', r1)" by fastforce
  have "?run \<noteq> None"
    using reconcile_active_goes [OF w a(1) ne] a(2,3) by (simp add: ReconcileSecret_active [OF g renew_flags(1)] option.case)
  then obtain b r' where r: "?run = Some (b, r')" by auto
  from secret_is_served [OF g renew_flags(1) w a sample_patch_keeps_key r refl] r show ?thesis
    by (simp add: renew_flags)
qed
lemma requeueInterval_pos: "0 < requeueInterval sx d"
  by (simp add: requeueInterval_def Let_def hour_def)

text \<open>No TLSSecret is forgotten: as long as it is there and not paused, every request ends without an error and is
  run again after a positive time, whether a certificate is served, waited for, or failed.\<close>

theorem request_comes_back:
  assumes "Get_TLSSecret env req = Found ts" and "\<not> IsPaused (om_Annotations ts)"
    and "ReconcileSecret api auth sx env False ctx req r = Some ((after, err), r')"
  shows "err = None \<and> 0 < after"
proof (cases "wait_left auth ts r")
  case (Some w)
  then have "0 < w" by (auto simp: wait_left_def backoffRemaining_def Let_def split: if_splits option.splits)
  then show ?thesis using reconcile_active_waits [OF Some] assms(3) by (simp add: ReconcileSecret_active [OF assms(1,2)])
next
  case None
  let ?ts = "(with_sds_defaults (tr_Config r) ts)\<lparr>tls_Spec := (tls_Spec ts)\<lparr>dc_SecretName := snd req\<rparr>\<rparr>"
  show ?thesis
  proof (cases "answer_of api auth sx ctx req ts r")
    case None': None
    have "GetSecret api auth (sx_Settings sx) ctx (tr_certs r) ((tls_Spec ts)\<lparr>dc_SecretName := snd req\<rparr>)
        (IsLeader (tr_Config r)) (new_request ts) = None" using None' by (simp add: answer_of_def)
    then have "reconcile_active api auth sx env ctx req (with_sds_defaults (tr_Config r) ts) (entered r) = None"
      using None by (auto simp: reconcile_active_def Let_def wait_left_def new_request_def IsLeaderInstance_def split: if_splits)
    then show ?thesis using assms(3) by (simp add: ReconcileSecret_active [OF assms(1,2)])
  next
    case (Some a)
    obtain s oc where a: "a = (s, oc)" by (cases a)
    obtain ts' r1 where ne: "note_expiration env (o_Expires oc) ?ts ((entered r)\<lparr>tr_certs := s\<rparr>) = (ts', r1)" by fastforce
    have f: "reconcile_failed auth sx env p q t e r1 = ((x, y), z) \<Longrightarrow> y = None \<and> 0 < x" for p q t e x y z
      by (auto simp: reconcile_failed_def Let_def DelayFor_pos)
    have g: "reconcile_secret auth sx env nd fr rq nw t sd rn r1 = ((x, y), z) \<Longrightarrow> y = None \<and> 0 < x"
      for nd fr rq nw t sd rn x y z
      by (auto simp: reconcile_secret_def Let_def requeueInterval_pos split: prod.splits)
    note run = assms(3) [unfolded ReconcileSecret_active [OF assms(1,2)] reconcile_active_goes [OF None Some [unfolded a] ne]]
    show ?thesis
    proof (cases "o_Err oc")
      case None
      then show ?thesis using run g by (auto split: option.splits)
    next
      case (Some e)
      then show ?thesis using run f requeueInterval_pos by (auto split: if_splits)
    qed
  qed
qed

theorem request_comes_back_witness:
  "\<exists>after r'. ReconcileSecret memory_api memory_authority sample_sds_settings (sample_sds_env (sample_tls [] backed_off)) False
      (None, None) (''ns'', ''web'') (sample_secret_state False) = Some ((after, None), r') \<and> 0 < after"
proof -
  let ?ts = "sample_tls [] backed_off" and ?r = "sample_secret_state False"
  let ?run = "ReconcileSecret memory_api memory_authority sample_sds_settings (sample_sds_env ?ts) False (None, None)
     (''ns'', ''web'') ?r"
  have "wait_left memory_authority ?ts ?r = Some 60"
    by (simp add: wait_left_def sample_plain backoffRemaining_def time_Until_def backed_off_def memory_authority_def Let_def)
  from reconcile_active_waits [OF this] obtain a e r' where r: "?run = Some ((a, e), r')"
    by (auto simp: ReconcileSecret_active [OF sample_found sample_plain(1)])
  from request_comes_back [OF sample_found sample_plain(1) r] r show ?thesis by simp
qed
section \<open>Force-renew requests\<close>

text \<open>What a patch of the annotations documents of the status: it stays.\<close>

definition patch_keeps_status :: "sds_env \<Rightarrow> bool" where
  "patch_keeps_status env \<longleftrightarrow> (\<forall>old new obj. Patch_TLSSecret env old new = Inr obj \<longrightarrow> tls_Status obj = tls_Status new)"

lemma note_expiration_status:
  assumes "patch_keeps_status env" and "note_expiration env t ts r = (ts', r')"
  shows "tls_Status ts' = tls_Status ts"
proof -
  have "tls_Status obj = tls_Status new" if "patch_resource env old new r = (obj, ok, r1)" for old new obj ok r1
    using patch_frame(6,7) [OF that] assms(1) unfolding patch_keeps_status_def by (cases ok) auto
  then show ?thesis
    using assms(2) by (fastforce simp: note_expiration_def Let_def split: option.splits if_splits prod.splits)
qed

lemma annotation_removed: "\<not> IsForceRenew (om_Annotations (without_force_renew stamp ts))"
  by (simp add: without_force_renew_def IsForceRenew_def flagSet_def annotationValue_def AnnotationForceRenew_def
      AnnotationForceRenewedAt_def)

lemma already_served_clears:
  assumes "reconcile_secret auth sx env nodeid True req new ts sds renew r = (answer, r')"
    and "req = ts_ForceRenewRequest (tls_Status ts)"
  shows "\<exists>stamp ok. sds_patches r' = sds_patches r @ [(without_force_renew stamp ts, ok)]"
proof -
  obtain ts1 ok r1 where c: "clearForceRenew env (Now auth (world (tr_certs r))) ts r = (ts1, ok, r1)" by (metis prod_cases3)
  then have "sds_patches r1 = sds_patches r @ [(without_force_renew (Format_RFC3339 env (Now auth (world (tr_certs r)))) ts, ok)]"
    unfolding clearForceRenew_def by (rule patch_frame(3))
  then show ?thesis using assms c by (auto simp: reconcile_secret_def Let_def)
qed

lemma failed_status_request:
  assumes "Get_TLSSecret env req = Found ts" and "\<not> IsPaused (om_Annotations ts)" and "wait_left auth ts r = None"
    and "answer_of api auth sx ctx req ts r = Some (s, oc)" and "o_Err oc = Some e" and "o_Expires oc = None"
    and "IsLeader (tr_Config r)" and "ReconcileSecret api auth sx env False ctx req r = Some (answer, r')"
    and "sds_status_writes r' = sds_status_writes r @ [(key, st)]"
  shows "ts_ForceRenewRequest st = ForceRenewRequest (om_Annotations ts)"
proof -
  let ?ts = "(with_sds_defaults (tr_Config r) ts)\<lparr>tls_Spec := (tls_Spec ts)\<lparr>dc_SecretName := snd req\<rparr>\<rparr>"
  let ?r1 = "(entered r)\<lparr>tr_certs := s\<rparr>"
  have "(answer, r') =
      reconcile_failed auth sx env (policy_of sx ts) (ForceRenewRequest (om_Annotations ts)) ?ts e ?r1"
    using reconcile_active_goes [OF assms(3,4), of env ?ts ?r1] assms(5-8)
    by (auto simp: ReconcileSecret_active [OF assms(1,2)])
  then obtain p r2 where r': "r' = updateTLSSecretStatus auth sx env ?ts p r2" "sds_status_writes r2 = sds_status_writes r"
    "pt_forceRenewRequest p = ForceRenewRequest (om_Annotations ts)" "\<not> pt_preserveBackoff p"
    by (auto simp: reconcile_failed_def Let_def empty_patch_def)
  from status_written [of auth sx env ?ts p r2, folded r'(1), unfolded r'(2) assms(9)] obtain l where
    "st = stored_status (newStatus (Now auth (world (tr_certs r2))) (om_Generation ?ts) p l)" by auto
  then show ?thesis using r'(3,4) by (simp add: newStatus_def Let_def)
qed

text \<open>C28. A force-renew request whose order failed is dropped: the failure already records the request as acted on, so
  the next attempt no longer asks for a renewal, and when it finds the old certificate good it removes the
  annotation. (The annotation's documentation has it stay until a new certificate is stored.)\<close>

theorem failed_renewal_is_dropped:
  assumes "Get_TLSSecret env req = Found ts" and "\<not> IsPaused (om_Annotations ts)" and "new_request ts"
    and "answer_of api auth sx ctx req ts r = Some (s, oc)" and "o_Err oc = Some e" and "o_Expires oc = None"
    and "IsLeader (tr_Config r)" and "ReconcileSecret api auth sx env False ctx req r = Some (answer, r')"
    and "sds_status_writes r' = sds_status_writes r @ [(key, st)]"
    and "ts' = ts\<lparr>tls_Status := st\<rparr>" and "Get_TLSSecret env' req = Found ts'" and "patch_keeps_status env'"
    and "wait_left auth' ts' q = None" and "answer_of api' auth' sx' ctx' req ts' q = Some (s', oc')"
    and "o_Err oc' = None" and "ReconcileSecret api' auth' sx' env' False ctx' req q = Some (answer', q')"
  shows "\<not> new_request ts' \<and> (\<exists>t ok. last (sds_patches q') = (t, ok) \<and> \<not> IsForceRenew (om_Annotations t))"
proof
  have w: "wait_left auth ts r = None" using assms(3) by (simp add: wait_left_def)
  have st: "ts_ForceRenewRequest st = ForceRenewRequest (om_Annotations ts)"
    by (rule failed_status_request [OF assms(1,2) w assms(4-9)])
  show "\<not> new_request ts'" by (simp add: new_request_def assms(10) st)
  have an: "om_Annotations ts' = om_Annotations ts" "tls_Status ts' = st" by (simp_all add: assms(10))
  have fr: "IsForceRenew (om_Annotations ts)" using assms(3) by (simp add: new_request_def)
  obtain u q1 where ne: "note_expiration env' (o_Expires oc')
      ((with_sds_defaults (tr_Config q) ts')\<lparr>tls_Spec := (tls_Spec ts')\<lparr>dc_SecretName := snd req\<rparr>\<rparr>)
      ((entered q)\<lparr>tr_certs := s'\<rparr>) = (u, q1)" by fastforce
  have u: "tls_Status u = st" using note_expiration_status [OF assms(12) ne] an(2) by simp
  have p: "\<not> IsPaused (om_Annotations ts')" using assms(2) an by simp
  obtain sds where "reconcile_secret auth' sx' env' (node_of q ts') True (ForceRenewRequest (om_Annotations ts)) (new_request ts')
      u sds (o_RenewIn oc') q1 = (answer', q')"
    using assms(16) reconcile_active_goes [OF assms(13,14) ne] assms(15) an fr
    by (auto simp: ReconcileSecret_active [OF assms(11) p] split: option.splits)
  from already_served_clears [OF this] st u annotation_removed
  show "\<exists>t ok. last (sds_patches q') = (t, ok) \<and> \<not> IsForceRenew (om_Annotations t)" by fastforce
qed
text \<open>A request that fails for want of a client, and a later dry run.\<close>

definition broken_tls :: TLSSecretCR where
  "broken_tls = renew_tls\<lparr>tls_Spec := broken_domain\<rparr>"

definition later_authority :: "memory authority" where
  "later_authority = memory_authority\<lparr>Now := \<lambda>w. 10 ^ 15\<rparr>"

definition dry_settings :: sds_settings where
  "dry_settings = sample_sds_settings\<lparr>sx_Settings := sample_settings\<lparr>DryRun := True\<rparr>\<rparr>"

lemma broken_flags:
  "\<not> IsPaused (om_Annotations broken_tls)" "new_request broken_tls"
  using renew_flags by (simp_all add: broken_tls_def new_request_def)

lemma broken_found:
  "Get_TLSSecret (sample_sds_env (broken_tls\<lparr>tls_Status := st\<rparr>)) (''ns'', ''web'') = Found (broken_tls\<lparr>tls_Status := st\<rparr>)"
  "Get_TLSSecret (sample_sds_env broken_tls) (''ns'', ''web'') = Found broken_tls"
  by (simp_all add: sample_sds_env_def broken_tls_def renew_tls_def sample_tls_def object_key_def)

lemma broken_answer:
  "answer_of memory_api memory_authority no_client_settings (None, None) (''ns'', ''web'') broken_tls
     (sample_secret_state True) = Some (sample_certs, fail None (Sentinel ErrK8sClientNotConfigured))"
  by (simp add: answer_of_def GetSecret_def Let_def storage_type_def broken_domain_def sample_domain_def broken_tls_def
      no_client_settings_def sample_settings_def sample_secret_state_def)

lemma dry_answer:
  "answer_of memory_api later_authority dry_settings (None, None) (''ns'', ''web'') (broken_tls\<lparr>tls_Status := st\<rparr>)
     (sample_secret_state True) = Some (sample_certs, skipped \<lparr>sec_Name = ''web'', sec_TlsCertificate = None\<rparr>)"
  by (simp add: answer_of_def GetSecret_def Let_def storage_type_def with_type_def with_kubernetes_def report_def
      makeSecret_def first_cert_def broken_domain_def sample_domain_def broken_tls_def dry_settings_def sample_settings_def
      sample_secret_state_def sample_certs_def empty_memory_def memory_api_def k8s_key_def StorageConfigRead_def
      read_kubernetes_def SetLeaderStatus_def manual_def skipped_def read_secret_def bare_secret_def)

lemma broken_delay:
  "DelayFor (policy_of no_client_settings broken_tls) 1 = 10 * minute"
  by (simp add: policy_of_def RetryPolicyFor_def metaDuration_def metaValue_def broken_tls_def renew_tls_def
      sample_tls_def sample_sds_env_def mget_def AnnotationForceRenew_def
      no_client_settings_def sample_sds_settings_def retryDefaults_def DelayFor_first normalize_def
      bad_multiplier_def Let_def DefaultRetryBaseDelay_def DefaultRetryMaxDelay_def minute_def)

lemma broken_run:
  "\<exists>answer r' st. ReconcileSecret memory_api memory_authority no_client_settings (sample_sds_env broken_tls) False
      (None, None) (''ns'', ''web'') (sample_secret_state True) = Some (answer, r') \<and>
    sds_status_writes r' = sds_status_writes (sample_secret_state True) @ [((''ns'', ''web''), st)] \<and>
    ts_BackoffUntil st = Some (10 * minute)"
proof -
  let ?r = "sample_secret_state True" and ?env = "sample_sds_env broken_tls" and ?e = "Sentinel ErrK8sClientNotConfigured"
  let ?ts = "(with_sds_defaults (tr_Config ?r) broken_tls)\<lparr>tls_Spec := (tls_Spec broken_tls)\<lparr>dc_SecretName := ''web''\<rparr>\<rparr>"
  let ?r1 = "(entered ?r)\<lparr>tr_certs := sample_certs\<rparr>"
  have w: "wait_left memory_authority broken_tls ?r = None" by (simp add: wait_left_def broken_flags)
  have c: "o_Err (fail None ?e) = Some ?e" "o_Expires (fail None ?e) = None" by (simp_all add: fail_def)
  have l: "IsLeader (tr_Config ?r)" by (simp add: sample_secret_state_def SetLeaderStatus_def Let_def)
  have run: "ReconcileSecret memory_api memory_authority no_client_settings ?env False (None, None) (''ns'', ''web'') ?r =
      Some (reconcile_failed memory_authority no_client_settings ?env (policy_of no_client_settings broken_tls)
        (ForceRenewRequest (om_Annotations broken_tls)) ?ts ?e ?r1)"
    using reconcile_active_goes [OF w broken_answer, of ?env ?ts ?r1] c l
    by (simp add: ReconcileSecret_active [OF broken_found(2) broken_flags(1)])
  have one: "ts_FailureCount (tls_Status broken_tls) = 0" "Now memory_authority m = 0" for m
    by (simp_all add: broken_tls_def renew_tls_def sample_tls_def no_status_def memory_authority_def)
  obtain p r2 where p: "snd (reconcile_failed memory_authority no_client_settings ?env
        (policy_of no_client_settings broken_tls) (ForceRenewRequest (om_Annotations broken_tls)) ?ts ?e ?r1) =
      updateTLSSecretStatus memory_authority no_client_settings ?env ?ts p r2"
    "sds_status_writes r2 = []" "pt_failureCount p = 1" "pt_backoffUntil p = Some (10 * minute)" "\<not> pt_preserveBackoff p"
    by (simp add: reconcile_failed_def Let_def one empty_patch_def broken_delay sample_secret_state_def)
  have f: "Refetch_Status ?env (object_key ?ts) = Found no_status" "Update_Status ?env (object_key ?ts) st = None"
    "object_key ?ts = (''ns'', ''web'')" "ts_FailureCount no_status \<noteq> pt_failureCount p" for st
    using p(3) by (simp_all add: sample_sds_env_def broken_tls_def renew_tls_def sample_tls_def no_status_def
        object_key_def with_sds_defaults_def)
  note status_is_written [OF f(1,2,4) p(5), of memory_authority no_client_settings r2, folded p(1), unfolded p(2) f(3)]
  moreover have "ts_BackoffUntil (stored_status (newStatus now g p l)) = Some (10 * minute)" for now g l
    using p(4,5) by (simp add: newStatus_def Let_def whole_seconds_def minute_def)
  moreover have "sds_status_writes ?r = []" by (simp add: sample_secret_state_def)
  ultimately show ?thesis unfolding run by (metis append_Nil prod.collapse)
qed

theorem failed_renewal_is_dropped_witness:
  "\<exists>ts' q' t ok. \<not> new_request ts' \<and> IsForceRenew (om_Annotations ts') \<and>
     last (sds_patches (q' :: memory TLSSecretReconciler)) = (t, ok) \<and> \<not> IsForceRenew (om_Annotations t)"
proof -
  let ?r = "sample_secret_state True" and ?env = "sample_sds_env broken_tls" and ?e = "Sentinel ErrK8sClientNotConfigured"
  obtain answer r' st where run: "ReconcileSecret memory_api memory_authority no_client_settings ?env False
      (None, None) (''ns'', ''web'') ?r = Some (answer, r')"
    "sds_status_writes r' = sds_status_writes ?r @ [((''ns'', ''web''), st)]"
    "ts_BackoffUntil st = Some (10 * minute)" using broken_run by blast
  let ?ts = "broken_tls\<lparr>tls_Status := st\<rparr>"
  have c: "o_Err (fail None ?e) = Some ?e" "o_Expires (fail None ?e) = None" by (simp_all add: fail_def)
  have l: "IsLeader (tr_Config ?r)" by (simp add: sample_secret_state_def SetLeaderStatus_def Let_def)
  have k: "patch_keeps_status (sample_sds_env ?ts)" by (simp add: patch_keeps_status_def sample_sds_env_def)
  have w: "wait_left later_authority ?ts ?r = None"
    using run(3) by (simp add: wait_left_def wait_over later_authority_def minute_def)
  have p: "\<not> IsPaused (om_Annotations ?ts)" using broken_flags(1) by simp
  have o: "o_Err (skipped sec) = None" for sec by (simp add: skipped_def)
  obtain u q1 where ne: "note_expiration (sample_sds_env ?ts) (o_Expires (skipped \<lparr>sec_Name = ''web'', sec_TlsCertificate = None\<rparr>))
      ((with_sds_defaults (tr_Config ?r) ?ts)\<lparr>tls_Spec := (tls_Spec ?ts)\<lparr>dc_SecretName := snd (''ns'', ''web'')\<rparr>\<rparr>)
      ((entered ?r)\<lparr>tr_certs := sample_certs\<rparr>) = (u, q1)" by fastforce
  have "ReconcileSecret memory_api later_authority dry_settings (sample_sds_env ?ts) False (None, None) (''ns'', ''web'') ?r \<noteq> None"
    using reconcile_active_goes [OF w dry_answer ne]
    by (simp add: ReconcileSecret_active [OF broken_found(1) p] skipped_def)
  then obtain answer' q' where run': "ReconcileSecret memory_api later_authority dry_settings (sample_sds_env ?ts) False
      (None, None) (''ns'', ''web'') ?r = Some (answer', q')" by auto
  from failed_renewal_is_dropped [OF broken_found(2) broken_flags broken_answer c l run(1,2) refl broken_found(1) k w
      dry_answer o run']
  obtain t ok where "\<not> new_request ?ts" "last (sds_patches q') = (t, ok)" "\<not> IsForceRenew (om_Annotations t)" by blast
  moreover have "IsForceRenew (om_Annotations ?ts)" using broken_flags(2) by (simp add: new_request_def)
  ultimately show ?thesis by blast
qed

section \<open>Success without a certificate\<close>

text \<open>In a dry run a self-signed TLSSecret without a stored certificate is published all the same: its node is
  given a secret with no certificate in it, and the status says it is active. (The comments of the code give just
  this as the reason why errors are not swallowed.)\<close>

theorem dry_run_publishes_empty_secret:
  assumes "Get_TLSSecret env req = Found ts" and "\<not> IsPaused (om_Annotations ts)" and "wait_left auth ts r = None"
    and "patch_keeps_key env" and "ReconcileSecret api auth sx env False (None, None) req r = Some (answer, r')"
    and "cfg = sx_Settings sx" and "DryRun cfg" and "HasK8sClient cfg" and "IsLeader (tr_Config r)"
    and "dc_Challenge (tls_Spec ts) = None" and "stc_Local (dc_Config (tls_Spec ts)) = None"
    and "\<forall>key. k8s_Get api (world (tr_certs r)) key = NotFound"
  shows "lookup sec_Name (SecretConfigs (tr_Config r')) (node_of r ts) (om_Name ts) =
      Some \<lparr>sec_Name = om_Name ts, sec_TlsCertificate = None\<rparr> \<and>
    (\<forall>key st. sds_status_writes r' = sds_status_writes r @ [(key, st)] \<longrightarrow>
       st_Active st \<and> map_option co_Status (condition_at ''Ready'' (st_Conditions st)) = Some ''True'')"
proof -
  let ?d = "(tls_Spec ts)\<lparr>dc_SecretName := snd req\<rparr>"
  define d where "d = with_kubernetes cfg (with_type Kubernetes ?d)"
  have d: "dc_Challenge d = None" "stc_Type (dc_Config d) = Kubernetes" "dc_SecretName d = snd req" "\<not> manual d"
    using assms(10) by (simp_all add: d_def with_kubernetes_def with_type_def manual_def)
  have t: "storage_type cfg ?d = Kubernetes" using assms(8,10,11) by (simp add: storage_type_def)
  let ?sec = "\<lparr>sec_Name = snd req, sec_TlsCertificate = None\<rparr>"
  have nf: "k8s_Get api (world (tr_certs r)) (k8s_key cfg d) = NotFound" using assms(12) by blast
  have m: "makeSecret api auth cfg (None, None) get (tr_certs r) d True force = Some (tr_certs r, skipped ?sec)" for get force
    using assms(7,8) nf d
    by (simp add: makeSecret_def first_cert_def StorageConfigRead_def Let_def read_kubernetes_def read_secret_def bare_secret_def)
  have a: "answer_of api auth sx (None, None) req ts r = Some (tr_certs r, skipped ?sec)"
    unfolding answer_of_def assms(6) [symmetric]
    using assms(8,9) t d(1) m by (simp add: GetSecret_def Let_def report_def skipped_def flip: d_def)
  define v where "v = ?sec\<lparr>sec_Name := om_Name ts\<rparr>"
  have o: "o_Err (skipped ?sec) = None" "o_Secret (skipped ?sec) = Some ?sec" by (simp_all add: skipped_def)
  obtain ts1 p r2 where q: "object_key ts1 = object_key ts" "tr_Config r2 = tr_Config (entered r)"
    "sds_status_writes r2 = sds_status_writes r" "pt_active p"
    "r' = updateTLSSecretStatus auth sx env ts1 p (set_secrets (place_secret (node_of r ts) v (SecretConfigs (tr_Config r))) r2)"
    using served_parts [OF assms(1-3) a o assms(4,5)] unfolding v_def by blast
  have "SecretConfigs (tr_Config r') = fst (place_secret (node_of r ts) v (SecretConfigs (tr_Config r)))"
    unfolding q(5) update_status_frame
    using set_secrets_config [of "fst (place_secret (node_of r ts) v (SecretConfigs (tr_Config r)))"
        "snd (place_secret (node_of r ts) v (SecretConfigs (tr_Config r)))" r2] by simp
  then have one: "lookup sec_Name (SecretConfigs (tr_Config r')) (node_of r ts) (om_Name ts) =
      Some \<lparr>sec_Name = om_Name ts, sec_TlsCertificate = None\<rparr>"
    by (simp add: lookup_place_secret v_def)
  have "st_Active (newStatus now g p l)" for now g l using q(4) by (simp add: newStatus_def Let_def)
  then have "st_Active (stored_status (newStatus now g p l)) \<and>
      map_option co_Status (condition_at ''Ready'' (st_Conditions (stored_status (newStatus now g p l)))) = Some ''True''" for now g l
    by (simp add: stored_conditions condition_at_newStatus bool_status_def)
  then show ?thesis
    using one status_written [of auth sx env ts1 p "set_secrets (place_secret (node_of r ts) v (SecretConfigs (tr_Config r))) r2",
        folded q(5), unfolded set_secrets_frame q(3)] by auto
qed

theorem dry_run_publishes_empty_secret_witness:
  "\<exists>answer r'. ReconcileSecret memory_api memory_authority dry_settings (sample_sds_env (sample_tls [] no_status)) False
      (None, None) (''ns'', ''web'') (sample_secret_state True) = Some (answer, r') \<and>
    lookup sec_Name (SecretConfigs (tr_Config r')) (node_of (sample_secret_state True) (sample_tls [] no_status)) ''web'' =
      Some \<lparr>sec_Name = ''web'', sec_TlsCertificate = None\<rparr>"
proof -
  let ?ts = "sample_tls [] no_status" and ?r = "sample_secret_state True"
  let ?run = "ReconcileSecret memory_api memory_authority dry_settings (sample_sds_env ?ts) False (None, None) (''ns'', ''web'') ?r"
  have w: "wait_left memory_authority ?ts ?r = None" by (simp add: wait_left_def sample_plain wait_over no_status_def)
  have s: "DryRun (sx_Settings dry_settings)" "HasK8sClient (sx_Settings dry_settings)" "IsLeader (tr_Config ?r)"
    "dc_Challenge (tls_Spec ?ts) = None" "stc_Local (dc_Config (tls_Spec ?ts)) = None"
    "\<forall>key. k8s_Get memory_api (world (tr_certs ?r)) key = NotFound" "om_Name ?ts = ''web''"
    by (simp_all add: dry_settings_def sample_settings_def sample_sds_settings_def sample_secret_state_def SetLeaderStatus_def
        Let_def sample_plain sample_domain_def memory_api_def sample_certs_def empty_memory_def sample_tls_def)
  have a: "answer_of memory_api memory_authority dry_settings (None, None) (''ns'', ''web'') ?ts ?r =
      Some (sample_certs, skipped \<lparr>sec_Name = ''web'', sec_TlsCertificate = None\<rparr>)"
    by (simp add: answer_of_def GetSecret_def Let_def storage_type_def with_type_def with_kubernetes_def report_def
      makeSecret_def first_cert_def sample_domain_def sample_plain dry_settings_def sample_settings_def
      sample_secret_state_def sample_certs_def empty_memory_def memory_api_def k8s_key_def StorageConfigRead_def
      read_kubernetes_def SetLeaderStatus_def manual_def skipped_def read_secret_def bare_secret_def)
  obtain u q1 where ne: "note_expiration (sample_sds_env ?ts) (o_Expires (skipped \<lparr>sec_Name = ''web'', sec_TlsCertificate = None\<rparr>))
      ((with_sds_defaults (tr_Config ?r) ?ts)\<lparr>tls_Spec := (tls_Spec ?ts)\<lparr>dc_SecretName := snd (''ns'', ''web'')\<rparr>\<rparr>)
      ((entered ?r)\<lparr>tr_certs := sample_certs\<rparr>) = (u, q1)" by fastforce
  have "?run \<noteq> None"
    using reconcile_active_goes [OF w a ne] by (simp add: ReconcileSecret_active [OF sample_found sample_plain(1)] skipped_def)
  then obtain b r' where r: "?run = Some (b, r')" by auto
  from dry_run_publishes_empty_secret [OF sample_found sample_plain(1) w sample_patch_keeps_key r refl s(1-6)] r s(7)
  show ?thesis by simp
qed

section \<open>The status settles\<close>

lemma statusHeartbeat_pos: "minStatusHeartbeat \<le> statusHeartbeat interval"
  by (simp add: statusHeartbeat_def Let_def)

text \<open>C29. The status of a TLSSecret settles, with a heartbeat: a status is not written again with the same outcome until
  its time stamp is as old as the heartbeat (at least five seconds), and then it is. That holds for the status as
  it was made, and as it comes back from the API, with its times rounded down to whole seconds.\<close>

theorem secret_status_settles:
  "write_secret_status interval t g p (Found (newStatus now g p l)) (\<lambda>st. None) =
     (None, if statusHeartbeat interval \<le> time_Until now t then Some (newStatus t g p (newStatus now g p l)) else None) \<and>
   write_secret_status interval t g p (Found (stored_status (newStatus now g p l))) (\<lambda>st. None) =
     (None, if statusHeartbeat interval \<le> time_Until (whole_seconds now) t
            then Some (newStatus t g p (stored_status (newStatus now g p l))) else None) \<and>
   minStatusHeartbeat \<le> statusHeartbeat interval"
proof -
  let ?made = "newStatus now g p l"
  have last: "st_LastReconciled ?made = now" by (simp add: newStatus_def Let_def)
  have eq: "tlsSecretStatusEqual (overwritten old (newStatus t g p old)) (newStatus t g p old)"
    if o: "old = ?made \<or> old = stored_status ?made" for old
  proof -
    have ty: "has_types (status_types (pt_preserveBackoff p)) (st_Conditions old)"
      using o newStatus_has_types by (auto simp: stored_conditions)
    have "overwritten old (newStatus t g p old) = old\<lparr>st_Conditions := st_Conditions (newStatus t g p old)\<rparr>"
      by (simp add: overwritten_def flip: newStatus_keeps_length [OF ty, of t g])
    moreover have "normalizeStatusForCompare (old\<lparr>st_Conditions := cs\<rparr>) =
        normalizeStatusForCompare ((newStatus t g p old)\<lparr>st_Conditions := cs\<rparr>)" for cs
      using o by (auto simp: newStatus_stored newStatus_again normalize_stored)
    from this [of "st_Conditions (newStatus t g p old)"]
    have "normalizeStatusForCompare (old\<lparr>st_Conditions := st_Conditions (newStatus t g p old)\<rparr>) =
        normalizeStatusForCompare (newStatus t g p old)" by simp
    ultimately show ?thesis by (simp add: tlsSecretStatusEqual_def)
  qed
  from eq [of ?made] eq [of "stored_status ?made"] last show ?thesis
    by (simp add: write_secret_status_def attempt_def Let_def stale_def statusHeartbeat_pos)
qed

text \<open>A change of the conditions alone is not written. The comparison is documented to notice a change to a
  condition, but it is handed conditions that were already updated in place: a status that has all five
  conditions and differs from the new one only in them is left as it is.\<close>

theorem condition_change_not_written:
  assumes "has_types (status_types False) (st_Conditions l)"
    and "normalizeStatusForCompare (l\<lparr>st_Conditions := []\<rparr>) =
      normalizeStatusForCompare ((newStatus now g p l)\<lparr>st_Conditions := []\<rparr>)"
    and "\<not> stale interval now l"
  shows "write_secret_status interval now g p (Found l) update = (None, None)"
proof -
  let ?new = "newStatus now g p l"
  have len: "length (st_Conditions ?new) = length (st_Conditions l)"
    using assms(1) by (auto intro!: newStatus_keeps_length simp: has_types_def status_types_def)
  have "overwritten l ?new = l\<lparr>st_Conditions := st_Conditions ?new\<rparr>"
    by (simp add: overwritten_def flip: len)
  moreover have "normalizeStatusForCompare (l\<lparr>st_Conditions := st_Conditions ?new\<rparr>) = normalizeStatusForCompare ?new"
    using assms(2) unfolding normalizeStatusForCompare_def
    by (cases l, cases ?new) simp
  ultimately have "tlsSecretStatusEqual (overwritten l ?new) ?new" by (simp add: tlsSecretStatusEqual_def)
  then show ?thesis using assms(3) by (simp add: write_secret_status_def attempt_def)
qed

text \<open>Conditions that claim an error the last attempt did not have.\<close>

definition wrong_conditions :: "Condition list" where
  "wrong_conditions =
     map (\<lambda>t. \<lparr>co_Type = t, co_Status = ''True'', co_Reason = [], co_Message = [], co_LastTransitionTime = 0,
               co_ObservedGeneration = 1\<rparr>) [''Ready'', ''Reconciled'', ''Paused'', ''Error'', ''CertExpiring'']"

theorem condition_change_not_written_witness:
  "write_secret_status 0 1 1 empty_patch (Found ((newStatus 0 1 empty_patch no_status)\<lparr>st_Conditions := wrong_conditions\<rparr>))
     (\<lambda>st. None) = (None, None) \<and>
   map_option co_Status (condition_at ''Error'' wrong_conditions) = Some ''True'' \<and> \<not> failed empty_patch"
proof -
  let ?l = "(newStatus 0 1 empty_patch no_status)\<lparr>st_Conditions := wrong_conditions\<rparr>"
  have t: "has_types (status_types False) (st_Conditions ?l)"
    by (simp add: has_types_def status_types_def wrong_conditions_def)
  have n: "normalizeStatusForCompare (?l\<lparr>st_Conditions := []\<rparr>) =
      normalizeStatusForCompare ((newStatus 1 1 empty_patch ?l)\<lparr>st_Conditions := []\<rparr>)"
    by (simp add: normalizeStatusForCompare_def newStatus_def Let_def empty_patch_def snapshots_of_def)
  have s: "\<not> stale 0 1 ?l"
    using statusHeartbeat_pos [of 0] by (simp add: stale_def newStatus_def Let_def time_Until_def minStatusHeartbeat_def)
  show ?thesis
    by (rule conjI [OF condition_change_not_written [OF t n s]])
      (simp add: wrong_conditions_def condition_at_def failed_def empty_patch_def)
qed

end
