(* ===== verification/SecretWatch.thy ===== *)
theory SecretWatch
  imports SecretSpec
begin

text \<open>
  The watch on Kubernetes secrets of the TLSSecret controller: which secrets start which requests, against what
  a request reads.
\<close>

section \<open>The watch on Kubernetes secrets\<close>

lemma referring_set:
  "set (secrets_referring ns vault key items) =
     object_key ` {ts \<in> set items. fst (resolveK8sSecretRef ts ns vault) \<noteq> [] \<and>
        prod.swap (resolveK8sSecretRef ts ns vault) = key}"
proof (induction items)
  case (Cons ts items)
  obtain n s where "resolveK8sSecretRef ts ns vault = (n, s)" by fastforce
  moreover have "object_key ` {t. (t = ts \<or> t \<in> set items) \<and> P t} =
      (if P ts then insert (object_key ts) else id) (object_key ` {t \<in> set items. P t})" for P by auto
  ultimately show ?case using Cons by (cases key) auto
qed simp

text \<open>What the handler reads for a TLSSecret: its spec under its own name.\<close>

definition own_domain :: "TLSSecretCR \<Rightarrow> DomainConfig" where
  "own_domain ts = (tls_Spec ts)\<lparr>dc_SecretName := om_Name ts\<rparr>"

lemma ref_type_infers:
  assumes "stc_Type (dc_Config (tls_Spec ts)) = []" and "HasK8sClient cfg"
  shows "ref_type ts (Storage_Vault cfg) = Kubernetes \<longleftrightarrow> storage_type cfg (own_domain ts) = Kubernetes"
  using assms by (simp add: ref_type_def storage_type_def own_domain_def Let_def split: option.split)

lemma resolve_reads:
  assumes "ref_type ts (Storage_Vault cfg) = Kubernetes" and "om_Namespace ts \<in> {[], DefaultNamespace cfg}"
  shows "prod.swap (resolveK8sSecretRef ts (DefaultNamespace cfg) (Storage_Vault cfg)) =
    k8s_key cfg (with_kubernetes cfg (with_type Kubernetes (own_domain ts)))"
  using assms
  by (auto simp: resolveK8sSecretRef_def k8s_key_def with_kubernetes_def with_type_def own_domain_def Let_def
      split: option.split)

text \<open>C27. The watch on Kubernetes secrets agrees with the reading: an event on a secret starts exactly the requests
  of the TLSSecrets that keep their certificate in it, when their storage type is left to be inferred and they
  live in the namespace of the controller (the one its cache is restricted to).\<close>

theorem watch_finds_readers:
  assumes "List_TLSSecrets env = Inr items" and "distinct (map object_key items)" and "cfg = sx_Settings sx"
    and "HasK8sClient cfg" and "ts \<in> set items" and "om_Name ts \<noteq> []"
    and "stc_Type (dc_Config (tls_Spec ts)) = []" and "om_Namespace ts \<in> {[], DefaultNamespace cfg}"
  shows "object_key ts \<in> set (findTLSSecretsForK8sSecret sx env key) \<longleftrightarrow>
    storage_type cfg (own_domain ts) = Kubernetes \<and>
    key = k8s_key cfg (with_kubernetes cfg (with_type Kubernetes (own_domain ts)))"
proof -
  let ?ref = "resolveK8sSecretRef ts (DefaultNamespace cfg) (Storage_Vault cfg)"
  have "object_key ts \<in> object_key ` {t \<in> set items. P t} \<longleftrightarrow> P ts" for P
    using assms(2,5) by (auto simp: distinct_map inj_on_def)
  then have m: "object_key ts \<in> set (findTLSSecretsForK8sSecret sx env key) \<longleftrightarrow> fst ?ref \<noteq> [] \<and> prod.swap ?ref = key"
    using assms(1,3) by (simp add: findTLSSecretsForK8sSecret_def referring_set)
  show ?thesis
  proof (cases "ref_type ts (Storage_Vault cfg) = Kubernetes")
    case True
    then have "fst ?ref \<noteq> []" using assms(6) by (auto simp: resolveK8sSecretRef_def Let_def split: option.split)
    then show ?thesis unfolding m resolve_reads [OF True assms(8)] using ref_type_infers [OF assms(7,4)] True by auto
  next
    case False
    then show ?thesis unfolding m using ref_type_infers [OF assms(7,4)] by (simp add: resolveK8sSecretRef_def)
  qed
qed

definition watched_tls :: TLSSecretCR where
  "watched_tls = (sample_tls [] no_status)\<lparr>tls_Spec := with_type [] sample_domain\<rparr>"

theorem watch_finds_readers_witness:
  "(''ns'', ''web'') \<in> set (findTLSSecretsForK8sSecret sample_sds_settings (sample_sds_env watched_tls) (''ns'', ''web''))"
proof -
  let ?cfg = "sx_Settings sample_sds_settings"
  note parts = watched_tls_def sample_tls_def with_type_def sample_domain_def sample_sds_settings_def sample_settings_def
  have l: "List_TLSSecrets (sample_sds_env watched_tls) = Inr [watched_tls]" "distinct (map object_key [watched_tls])"
    "HasK8sClient ?cfg" "watched_tls \<in> set [watched_tls]" "om_Name watched_tls \<noteq> []"
    "stc_Type (dc_Config (tls_Spec watched_tls)) = []" "om_Namespace watched_tls \<in> {[], DefaultNamespace ?cfg}"
    by (simp_all add: sample_sds_env_def parts)
  have "object_key watched_tls = (''ns'', ''web'')" "storage_type ?cfg (own_domain watched_tls) = Kubernetes"
    "k8s_key ?cfg (with_kubernetes ?cfg (with_type Kubernetes (own_domain watched_tls))) = (''ns'', ''web'')"
    by (simp_all add: object_key_def storage_type_def own_domain_def k8s_key_def with_kubernetes_def parts)
  then show ?thesis using watch_finds_readers [OF l(1,2) refl l(3-7), of "(''ns'', ''web'')"] by simp
qed

text \<open>A storage type set in the resource is overruled by the reading but not by the watch: with one that is not
  Kubernetes the secret the certificate is read from is not watched.\<close>

theorem explicit_type_is_not_watched:
  assumes "stc_Type (dc_Config (tls_Spec ts)) = t" and "t \<noteq> []" and "t \<noteq> Kubernetes"
  shows "resolveK8sSecretRef ts ns vault = ([], []) \<and>
    storage_type cfg (own_domain ts) = storage_type cfg (with_type [] (own_domain ts))"
  using assms by (simp add: resolveK8sSecretRef_def ref_type_def Let_def storage_type_def with_type_def)

end
