(* ===== verification/RouteAudit.thy ===== *)
theory RouteAudit
  imports Rds
begin

text \<open>
  The command that audits routes before they are applied, \<open>src/cmd/route-audit/main.go\<close>: it reads Route and
  Listener manifests, replays the placement of the route controller from the oldest route to the newest, and
  reports every route the controller would refuse. Arguments: the YAML decoder (\<open>yaml\<close>), the files, and the
  generated functions of \<open>rds_env\<close>. Report lines are kept structured instead of formatted. A creation time is
  in seconds; the zero time of Go is the year 1.
\<close>

section \<open>Reading manifests\<close>

record object =
  ob_APIVersion :: string
  ob_Kind :: string
  ob_Items :: "string list"

record yaml =
  Unmarshal_object :: "string \<Rightarrow> string + object"
  Unmarshal_Route :: "string \<Rightarrow> string + Route"
  Unmarshal_Listener :: "string \<Rightarrow> string + ListenerCR"

type_synonym manifests = "Route list \<times> (string, ListenerCR) gmap"

definition addObject :: "yaml \<Rightarrow> string \<Rightarrow> manifests \<Rightarrow> string + manifests" where
  "addObject y raw ms =
     (case Unmarshal_object y raw of
        Inl e \<Rightarrow> Inl e
      | Inr head \<Rightarrow>
          if \<not> HasPrefix (ob_APIVersion head) (''envoyxds.io'' @ ''/'') then Inr ms
          else if ob_Kind head = ''Route'' then
            (case Unmarshal_Route y raw of Inl e \<Rightarrow> Inl e | Inr r \<Rightarrow> Inr (fst ms @ [r], snd ms))
          else if ob_Kind head = ''Listener'' then
            (case Unmarshal_Listener y raw of Inl e \<Rightarrow> Inl e | Inr l \<Rightarrow> Inr (fst ms, mset_at (om_Name l) l (snd ms)))
          else Inr ms)"

fun addObjects :: "yaml \<Rightarrow> string list \<Rightarrow> manifests \<Rightarrow> string + manifests" where
  "addObjects y [] ms = Inr ms"
| "addObjects y (raw # raws) ms = (case addObject y raw ms of Inl e \<Rightarrow> Inl e | Inr ms \<Rightarrow> addObjects y raws ms)"

definition add_document :: "yaml \<Rightarrow> string \<Rightarrow> manifests \<Rightarrow> string + manifests" where
  "add_document y raw ms =
     (case Unmarshal_object y raw of
        Inl e \<Rightarrow> Inl e
      | Inr head \<Rightarrow>
          if ob_Kind head = ''List'' \<or> HasSuffix (ob_Kind head) ''List'' then addObjects y (ob_Items head) ms
          else addObject y raw ms)"

text \<open>\<open>bytes.SplitSeq\<close> at a newline followed by three dashes; the part so far is in reverse.\<close>

fun split_docs :: "string \<Rightarrow> string \<Rightarrow> string list" where
  "split_docs part [] = [rev part]"
| "split_docs part (c # s) =
     (if c = CHR 0x0A \<and> take 3 s = ''---'' then rev part # split_docs [] (drop 3 s) else split_docs (c # part) s)"

fun add_documents :: "yaml \<Rightarrow> string list \<Rightarrow> manifests \<Rightarrow> string + manifests" where
  "add_documents y [] ms = Inr ms"
| "add_documents y (doc # docs) ms =
     (case add_document y doc ms of Inl e \<Rightarrow> Inl e | Inr ms \<Rightarrow> add_documents y docs ms)"

definition decode :: "yaml \<Rightarrow> string \<Rightarrow> string + manifests" where
  "decode y data = add_documents y (split_docs [] data) ([], [])"

text \<open>Reading a file gives an error or its contents; the dash stands for standard input.\<close>

fun read_files :: "(string \<Rightarrow> string + string) \<Rightarrow> string list \<Rightarrow> string + string" where
  "read_files read [] = Inr []"
| "read_files read (f # fs) =
     (case read f of
        Inl e \<Rightarrow> Inl e
      | Inr data \<Rightarrow>
          (case read_files read fs of Inl e \<Rightarrow> Inl e | Inr rest \<Rightarrow> Inr ([CHR 0x0A] @ ''---'' @ [CHR 0x0A] @ data @ rest)))"

definition readInputs :: "(string \<Rightarrow> string + string) \<Rightarrow> string list \<Rightarrow> string + string" where
  "readInputs read files = read_files read (if files = [] then [''-''] else files)"

section \<open>Replaying the placement\<close>

definition IsZero :: "int \<Rightarrow> bool" where
  "IsZero t \<longleftrightarrow> t = - 62135596800"

text \<open>The order of the replay: what is not applied yet comes last.\<close>

definition comes_before :: "'a ObjectMeta_scheme \<Rightarrow> 'a ObjectMeta_scheme \<Rightarrow> bool" where
  "comes_before a b =
     (if IsZero (om_CreationTimestamp a) \<noteq> IsZero (om_CreationTimestamp b) then \<not> IsZero (om_CreationTimestamp a)
      else OlderRoute a b)"

record placed =
  pd_route :: Route
  pd_matcher :: Matcher
  pd_nodes :: "string list"

datatype line =
    Invalid string fcm_error
  | ChainEvicts string string "string list"
  | RouteEvicts string string Verdict "string list"
  | Summary nat nat

definition listener_nodes :: "string \<Rightarrow> string \<Rightarrow> ListenerCR \<Rightarrow> string list" where
  "listener_nodes dn dc l = NodeIDs (om_Annotations l) dn dc"

definition routeNodes :: "Route \<Rightarrow> (string, ListenerCR) gmap \<Rightarrow> string \<Rightarrow> string \<Rightarrow> string list" where
  "routeNodes r listeners dn dc =
     (let nodes = NodeIDs (om_Annotations r) dn dc in
      if listeners = [] then nodes
      else filter (\<lambda>n. list_ex (\<lambda>name. case mget listeners name of
                                          None \<Rightarrow> False
                                        | Some l \<Rightarrow> n \<in> set (listener_nodes dn dc l)) (rt_ListenerRefs r)) nodes)"

fun sharedNodes :: "string list \<Rightarrow> string list \<Rightarrow> string list" where
  "sharedNodes [] b = []"
| "sharedNodes (n # a) b =
     (if n \<notin> set b then sharedNodes a b
      else case GetNodeInfo n of
             None \<Rightarrow> sharedNodes a b
           | Some i \<Rightarrow> (Join (Clusters i) '','' @ ''/'' @ Join (Nodes i) '','') # sharedNodes a b)"

fun chain_conflict ::
  "rds_env \<Rightarrow> placed \<Rightarrow> (string, ListenerCR) gmap \<Rightarrow> string \<Rightarrow> string \<Rightarrow> string list \<Rightarrow> line option" where
  "chain_conflict env p listeners dn dc [] = None"
| "chain_conflict env p listeners dn dc (name # names) =
     (case mget listeners name of
        None \<Rightarrow> chain_conflict env p listeners dn dc names
      | Some l \<Rightarrow>
          let shared = sharedNodes (pd_nodes p) (listener_nodes dn dc l) in
          if shared = [] then chain_conflict env p listeners dn dc names
          else if list_ex (static_duplicate env (pd_matcher p)) (case li_FilterChains l of None \<Rightarrow> [] | Some fcs \<Rightarrow> fcs)
          then Some (ChainEvicts name (om_Name (pd_route p)) shared)
          else chain_conflict env p listeners dn dc names)"

fun served_conflict :: "placed \<Rightarrow> placed list \<Rightarrow> line option" where
  "served_conflict p [] = None"
| "served_conflict p (s # ss) =
     (let shared = sharedNodes (pd_nodes p) (pd_nodes s);
          v = RouteConflict (pd_route s) (pd_route p) (pd_matcher s) (pd_matcher p)
      in if shared = [] then served_conflict p ss
         else if v \<noteq> VNone then Some (RouteEvicts (om_Name (pd_route s)) (om_Name (pd_route p)) v shared)
         else served_conflict p ss)"

definition audit_conflict ::
  "rds_env \<Rightarrow> placed \<Rightarrow> placed list \<Rightarrow> (string, ListenerCR) gmap \<Rightarrow> string \<Rightarrow> string \<Rightarrow> line option" where
  "audit_conflict env p ss listeners dn dc =
     (case chain_conflict env p listeners dn dc (rt_ListenerRefs (pd_route p)) of
        Some l \<Rightarrow> Some l
      | None \<Rightarrow> served_conflict p ss)"

fun replay ::
  "rds_env \<Rightarrow> (string, ListenerCR) gmap \<Rightarrow> string \<Rightarrow> string \<Rightarrow> Route list \<Rightarrow> placed list \<times> line list
   \<Rightarrow> placed list \<times> line list" where
  "replay env listeners dn dc [] st = st"
| "replay env listeners dn dc (r # rs) (ss, report) =
     (case fcm_Compile env (rt_FilterChainMatch r) of
        Inl e \<Rightarrow> replay env listeners dn dc rs (ss, report @ [Invalid (om_Name r) e])
      | Inr m \<Rightarrow>
          let p = \<lparr>pd_route = r, pd_matcher = m, pd_nodes = routeNodes r listeners dn dc\<rparr> in
          if pd_nodes p = [] then replay env listeners dn dc rs (ss, report)
          else (case audit_conflict env p ss listeners dn dc of
                  Some l \<Rightarrow> replay env listeners dn dc rs (ss, report @ [l])
                | None \<Rightarrow> replay env listeners dn dc rs (ss @ [p], report)))"

definition audit :: "rds_env \<Rightarrow> yaml \<Rightarrow> string \<Rightarrow> string \<Rightarrow> string \<Rightarrow> string + line list \<times> nat" where
  "audit env y data dn dc =
     (case decode y data of
        Inl e \<Rightarrow> Inl e
      | Inr (routes, listeners) \<Rightarrow>
          (case replay env listeners dn dc (sort_by comes_before routes) ([], []) of
             (ss, report) \<Rightarrow>
               let problems = length report in Inr (report @ [Summary (length routes) problems], problems)))"

text \<open>The command after its flags are parsed: the exit code, the lines printed and the error printed.\<close>

definition run ::
  "rds_env \<Rightarrow> yaml \<Rightarrow> (string \<Rightarrow> string + string) \<Rightarrow> string \<Rightarrow> string \<Rightarrow> string \<Rightarrow> string list
   \<Rightarrow> int \<times> line list \<times> string option" where
  "run env y read file nodeID cluster args =
     (let files = (if file \<noteq> [] then file # args else args) in
      case readInputs read files of
        Inl e \<Rightarrow> (2, [], Some e)
      | Inr data \<Rightarrow>
          (case audit env y data nodeID cluster of
             Inl e \<Rightarrow> (2, [], Some e)
           | Inr (report, problems) \<Rightarrow> (if 0 < problems then 1 else 0, report, None)))"

end
