(* ===== verification/AuditFacts.thy ===== *)
theory AuditFacts
  imports RouteAudit RdsSpec
begin

text \<open>
  Facts about the audit: choosing in order is the only stable choice (locale \<open>stable_choice\<close>), the replay chooses
  so and reports what it leaves out, and a route controller with nothing left to do has made the same choice.
\<close>

section \<open>Choosing in order\<close>

text \<open>Elements that come in an order, an element being taken when it is fit and clashes with none taken before
  it. The choice that does this in one pass over the sorted elements is the only stable one.\<close>

lemma drop_last: "x \<notin> C \<Longrightarrow> S - {x} = C \<and> (x \<in> S \<longleftrightarrow> a) \<longleftrightarrow> S = (if a then insert x C else C)"
  by auto

locale stable_choice = weak_order lt for lt :: "'a \<Rightarrow> 'a \<Rightarrow> bool" +
  fixes fit :: "'a \<Rightarrow> bool" and clash :: "'a \<Rightarrow> 'a \<Rightarrow> bool"
begin

definition takes :: "'a set \<Rightarrow> 'a \<Rightarrow> bool" where
  "takes S x \<longleftrightarrow> fit x \<and> \<not> (\<exists>s\<in>S. lt s x \<and> clash s x)"

definition stable :: "'a set \<Rightarrow> 'a set \<Rightarrow> bool" where
  "stable X S \<longleftrightarrow> S \<subseteq> X \<and> (\<forall>x\<in>X. x \<in> S \<longleftrightarrow> takes S x)"

definition chosen :: "'a list \<Rightarrow> 'a list" where
  "chosen xs = foldl (\<lambda>acc x. if fit x \<and> \<not> list_ex (\<lambda>s. clash s x) acc then acc @ [x] else acc) [] xs"

lemma chosen_snoc:
  "chosen (xs @ [x]) = (if fit x \<and> \<not> list_ex (\<lambda>s. clash s x) (chosen xs) then chosen xs @ [x] else chosen xs)"
  by (simp add: chosen_def)

lemma chosen_subset: "set (chosen xs) \<subseteq> set xs"
  by (induction xs rule: rev_induct) (auto simp: chosen_snoc chosen_def)

lemma stable_iff_chosen: "sorted_wrt lt xs \<Longrightarrow> stable (set xs) S \<longleftrightarrow> S = set (chosen xs)"
proof (induction xs arbitrary: S rule: rev_induct)
  case Nil
  then show ?case by (auto simp: stable_def chosen_def)
next
  case (snoc x xs)
  then have before: "\<forall>y\<in>set xs. lt y x" and IH: "stable (set xs) T \<longleftrightarrow> T = set (chosen xs)" for T
    by (simp_all add: sorted_wrt_append)
  have after: "\<not> lt x x" "\<forall>y\<in>set xs. \<not> lt x y" "x \<notin> set xs" using before lt_asym lt_irrefl by blast+
  have last: "takes S x \<longleftrightarrow> takes (S - {x}) x" "y \<in> set xs \<Longrightarrow> takes S y \<longleftrightarrow> takes (S - {x}) y" for y
    using after by (auto simp: takes_def)
  have "stable (set (xs @ [x])) S \<longleftrightarrow> stable (set xs) (S - {x}) \<and> (x \<in> S \<longleftrightarrow> takes (S - {x}) x)"
  proof -
    have one: "(y \<in> S \<longleftrightarrow> takes S y) \<longleftrightarrow> (y \<in> S - {x} \<longleftrightarrow> takes (S - {x}) y)" if "y \<in> set xs" for y
      using last(2) [OF that] that after(3) by auto
    have sub: "S \<subseteq> set (xs @ [x]) \<longleftrightarrow> S - {x} \<subseteq> set xs" by auto
    show ?thesis unfolding stable_def sub using one last(1) by simp blast
  qed
  also have "\<dots> \<longleftrightarrow> S - {x} = set (chosen xs) \<and> (x \<in> S \<longleftrightarrow> takes (set (chosen xs)) x)" unfolding IH by (simp cong: conj_cong)
  also have "takes (set (chosen xs)) x \<longleftrightarrow> fit x \<and> \<not> list_ex (\<lambda>s. clash s x) (chosen xs)"
    using before chosen_subset [of xs] by (auto simp: takes_def list_ex_iff)
  also have "S - {x} = set (chosen xs) \<and> (x \<in> S \<longleftrightarrow> fit x \<and> \<not> list_ex (\<lambda>s. clash s x) (chosen xs)) \<longleftrightarrow>
      S = set (chosen (xs @ [x]))"
    using chosen_subset [of xs] after(3) by (subst drop_last) (auto simp: chosen_snoc)
  finally show ?case .
qed

end

section \<open>The replay\<close>

interpretation arrival: weak_order comes_before
  by unfold_locales (auto simp: comes_before_def OlderRoute_def split: if_splits)

definition matcher_of :: "rds_env \<Rightarrow> Route \<Rightarrow> Matcher option" where
  "matcher_of env r = (case fcm_Compile env (rt_FilterChainMatch r) of Inl e \<Rightarrow> None | Inr m \<Rightarrow> Some m)"

definition placed_of :: "rds_env \<Rightarrow> (string, ListenerCR) gmap \<Rightarrow> string \<Rightarrow> string \<Rightarrow> Route \<Rightarrow> placed" where
  "placed_of env ls dn dc r =
     \<lparr>pd_route = r, pd_matcher = the (matcher_of env r), pd_nodes = routeNodes r ls dn dc\<rparr>"

text \<open>A route that has a place to be served at.\<close>

definition has_place :: "rds_env \<Rightarrow> (string, ListenerCR) gmap \<Rightarrow> string \<Rightarrow> string \<Rightarrow> Route \<Rightarrow> bool" where
  "has_place env ls dn dc r \<longleftrightarrow> matcher_of env r \<noteq> None \<and> routeNodes r ls dn dc \<noteq> []"

definition audit_fit :: "rds_env \<Rightarrow> (string, ListenerCR) gmap \<Rightarrow> string \<Rightarrow> string \<Rightarrow> Route \<Rightarrow> bool" where
  "audit_fit env ls dn dc r \<longleftrightarrow> has_place env ls dn dc r \<and>
     chain_conflict env (placed_of env ls dn dc r) ls dn dc (rt_ListenerRefs r) = None"

definition audit_clash :: "rds_env \<Rightarrow> (string, ListenerCR) gmap \<Rightarrow> string \<Rightarrow> string \<Rightarrow> Route \<Rightarrow> Route \<Rightarrow> bool" where
  "audit_clash env ls dn dc s r \<longleftrightarrow>
     sharedNodes (routeNodes r ls dn dc) (routeNodes s ls dn dc) \<noteq> [] \<and>
     RouteConflict s r (the (matcher_of env s)) (the (matcher_of env r)) \<noteq> VNone"

interpretation audits: stable_choice comes_before "audit_fit env ls dn dc" "audit_clash env ls dn dc" for env ls dn dc
  by unfold_locales

lemma served_conflict_iff:
  "served_conflict (placed_of env ls dn dc r) (map (placed_of env ls dn dc) ss) = None \<longleftrightarrow>
     \<not> list_ex (\<lambda>s. audit_clash env ls dn dc s r) ss"
  by (induction ss) (auto simp: placed_of_def audit_clash_def Let_def)

text \<open>A line for a route that is refused, none for the others.\<close>

definition refused :: "rds_env \<Rightarrow> (string, ListenerCR) gmap \<Rightarrow> string \<Rightarrow> string \<Rightarrow> Route set \<Rightarrow> Route \<Rightarrow> bool" where
  "refused env ls dn dc S r \<longleftrightarrow> r \<notin> S \<and> (matcher_of env r = None \<or> has_place env ls dn dc r)"

fun subject :: "line \<Rightarrow> string" where
  "subject (Invalid n e) = n"
| "subject (ChainEvicts l n shared) = n"
| "subject (RouteEvicts w n v shared) = n"
| "subject (Summary n k) = []"

lemma chain_conflict_subject:
  "chain_conflict env p ls dn dc names = Some l \<Longrightarrow> subject l = om_Name (pd_route p)"
  by (induction env p ls dn dc names rule: chain_conflict.induct) (auto simp: Let_def split: option.splits if_splits)

lemma served_conflict_subject: "served_conflict p ss = Some l \<Longrightarrow> subject l = om_Name (pd_route p)"
  by (induction p ss rule: served_conflict.induct) (auto simp: Let_def split: if_splits)

lemma foldl_keeps:
  "set (foldl (\<lambda>acc x. if g x acc then acc @ [x] else acc) acc xs) \<subseteq> set acc \<union> set xs"
  "set acc \<subseteq> set (foldl (\<lambda>acc x. if g x acc then acc @ [x] else acc) acc xs)"
  by (induction xs arbitrary: acc) (simp_all, fastforce+)

lemma foldl_takes:
  "x \<notin> set acc \<Longrightarrow> x \<notin> set xs \<Longrightarrow>
   x \<in> set (foldl (\<lambda>acc x. if g x acc then acc @ [x] else acc) (if g x acc then acc @ [x] else acc) xs) \<longleftrightarrow> g x acc"
  using foldl_keeps(1) [of g acc xs] foldl_keeps(2) [of "acc @ [x]" g xs] by auto

text \<open>The replay chooses in order, with one line for each refused route.\<close>

lemma replay_reports:
  fixes env ls dn dc
  defines "fits \<equiv> audit_fit env ls dn dc" and "clash \<equiv> audit_clash env ls dn dc"
  defines "kept \<equiv> \<lambda>ss rs. foldl (\<lambda>acc x. if fits x \<and> \<not> list_ex (\<lambda>s. clash s x) acc then acc @ [x] else acc) ss rs"
  assumes "replay env ls dn dc rs (map (placed_of env ls dn dc) ss, report) = (ss', report')" and "distinct (ss @ rs)"
  shows "ss' = map (placed_of env ls dn dc) (kept ss rs) \<and>
    map subject report' = map subject report @ map om_Name (filter (refused env ls dn dc (set (kept ss rs))) rs)"
  using assms(4,5)
proof (induction rs arbitrary: ss report)
  case (Cons r rs)
  let ?p = "placed_of env ls dn dc r" and ?ss = "map (placed_of env ls dn dc) ss"
  have d: "r \<notin> set ss" "r \<notin> set rs" "distinct (ss @ rs)" "distinct ((ss @ [r]) @ rs)" using Cons.prems(2) by auto
  define g where "g \<longleftrightarrow> fits r \<and> \<not> list_ex (\<lambda>s. clash s r) ss"
  have k: "kept ss (r # rs) = kept (if g then ss @ [r] else ss) rs" by (simp add: kept_def g_def)
  have rk: "r \<in> set (kept ss (r # rs)) \<longleftrightarrow> g"
    unfolding k g_def kept_def
    using foldl_takes [OF d(1,2), of "\<lambda>x acc. fits x \<and> \<not> list_ex (\<lambda>s. clash s x) acc"] by simp
  show ?case
  proof (cases "fcm_Compile env (rt_FilterChainMatch r)")
    case (Inl e)
    then have "matcher_of env r = None" "\<not> g" by (simp_all add: g_def fits_def audit_fit_def has_place_def matcher_of_def)
    then show ?thesis using Cons.IH [OF _ d(3)] Cons.prems(1) Inl rk by (simp add: k refused_def)
  next
    case (Inr m)
    then have m: "matcher_of env r = Some m" by (simp add: matcher_of_def)
    have p: "\<lparr>pd_route = r, pd_matcher = m, pd_nodes = routeNodes r ls dn dc\<rparr> = ?p" "pd_nodes ?p = routeNodes r ls dn dc"
      "pd_route ?p = r" by (simp_all add: placed_of_def m)
    have c: "audit_conflict env ?p ?ss ls dn dc = None \<longleftrightarrow>
        chain_conflict env ?p ls dn dc (rt_ListenerRefs r) = None \<and> \<not> list_ex (\<lambda>s. clash s r) ss"
      using served_conflict_iff [of env ls dn dc r ss] by (auto simp: audit_conflict_def clash_def p split: option.split)
    have g: "g \<longleftrightarrow> routeNodes r ls dn dc \<noteq> [] \<and> audit_conflict env ?p ?ss ls dn dc = None"
      unfolding c by (auto simp: g_def fits_def audit_fit_def has_place_def m)
    have s: "subject l = om_Name r" if "audit_conflict env ?p ?ss ls dn dc = Some l" for l
      using that chain_conflict_subject [of env ?p ls dn dc] served_conflict_subject [of ?p ?ss]
      by (auto simp: audit_conflict_def p split: option.splits)
    consider "routeNodes r ls dn dc = []" | "g" | l where "routeNodes r ls dn dc \<noteq> []" "\<not> g"
        "audit_conflict env ?p ?ss ls dn dc = Some l" using g by (cases "audit_conflict env ?p ?ss ls dn dc") auto
    then show ?thesis
    proof cases
      case 1
      then have "\<not> g" using g by simp
      then show ?thesis using Cons.IH [OF _ d(3)] Cons.prems(1) Inr rk 1
        by (simp add: k refused_def has_place_def m p Let_def)
    next
      case 2
      then show ?thesis using Cons.IH [OF _ d(4)] Cons.prems(1) Inr rk g
        by (simp add: k refused_def p Let_def)
    next
      case 3
      then show ?thesis using Cons.IH [OF _ d(3)] Cons.prems(1) Inr rk s
        by (simp add: k refused_def has_place_def m p Let_def)
    qed
  qed
qed (simp add: kept_def)

lemma arrival_total: "om_Name a \<noteq> om_Name b \<Longrightarrow> comes_before a b \<or> comes_before b a"
  by (auto simp: comes_before_def OlderRoute_def)

lemma arrival_strict:
  "sorted_wrt (\<lambda>a b. \<not> comes_before b a) rs \<Longrightarrow> distinct (map om_Name rs) \<Longrightarrow> sorted_wrt comes_before rs"
proof (induction rs)
  case (Cons a rs)
  then have "comes_before a b" if "b \<in> set rs" for b using that arrival_total [of a b] by auto
  then show ?case using Cons by simp
qed simp

lemma arrival_sorted:
  assumes "distinct (map om_Name rs)"
  shows "sorted_wrt comes_before (sort_by comes_before rs)"
proof (rule arrival_strict)
  show "sorted_wrt (\<lambda>a b. \<not> comes_before b a) (sort_by comes_before rs)"
    using arrival.ordered_sort_by by (simp add: arrival.ordered_def)
  have "mset (map om_Name (sort_by comes_before rs)) = mset (map om_Name rs)" unfolding mset_map mset_sort_by ..
  then show "distinct (map om_Name (sort_by comes_before rs))" using assms mset_eq_imp_distinct_iff by blast
qed

section \<open>The stable placement\<close>

definition stable_placement ::
  "rds_env \<Rightarrow> (string, ListenerCR) gmap \<Rightarrow> string \<Rightarrow> string \<Rightarrow> Route list \<Rightarrow> Route set \<Rightarrow> bool" where
  "stable_placement env ls dn dc routes S \<longleftrightarrow>
     S \<subseteq> set routes \<and>
     (\<forall>r\<in>set routes. r \<in> S \<longleftrightarrow>
        audit_fit env ls dn dc r \<and> \<not> (\<exists>s\<in>S. comes_before s r \<and> audit_clash env ls dn dc s r))"

lemma stable_placement_iff:
  assumes "distinct (map om_Name routes)"
  shows "stable_placement env ls dn dc routes S \<longleftrightarrow>
    S = set (audits.chosen env ls dn dc (sort_by comes_before routes))"
  using audits.stable_iff_chosen [OF arrival_sorted [OF assms], of env ls dn dc S]
  by (simp add: stable_placement_def audits.stable_def audits.takes_def)

lemma audit_lines:
  assumes "decode y data = Inr (routes, ls)" and "distinct (map om_Name routes)"
    and "stable_placement env ls dn dc routes S"
  obtains lines where "audit env y data dn dc = Inr (lines @ [Summary (length routes) (length lines)], length lines)"
    and "map subject lines = map om_Name (filter (refused env ls dn dc S) (sort_by comes_before routes))"
proof -
  let ?rs = "sort_by comes_before routes"
  have S: "S = set (audits.chosen env ls dn dc ?rs)" using assms(3) stable_placement_iff [OF assms(2)] by simp
  obtain ss lines where run: "replay env ls dn dc ?rs ([], []) = (ss, lines)" by fastforce
  have "distinct ([] @ ?rs)" using assms(2) by (simp add: distinct_map)
  from replay_reports [where ss = "[]" and report = "[]", OF _ this] run
  have "map subject lines = map om_Name (filter (refused env ls dn dc S) ?rs)"
    by (simp add: audits.chosen_def S)
  moreover have "audit env y data dn dc = Inr (lines @ [Summary (length routes) (length lines)], length lines)"
    by (simp add: audit_def assms(1) run Let_def)
  ultimately show ?thesis by (rule that [rotated])
qed

section \<open>Where a route is placed\<close>

lemma mstr_set_default: "mstr (set_default k v an) j = (if j = k \<and> mstr an k = [] then v else mstr an j)"
  by (simp add: set_default_def mstr_def mget_def mset_at_def update_conv')

lemma mstr_with_defaults:
  "mstr (with_defaults c an) ''nodes'' = (if mstr an ''nodes'' = [] then NodeID c else mstr an ''nodes'')"
  "mstr (with_defaults c an) ''clusters'' = (if mstr an ''clusters'' = [] then ClusterName c else mstr an ''clusters'')"
  by (simp_all add: with_defaults_def mstr_set_default)

lemma NodeIDs_with_defaults: "NodeIDs (with_defaults c an) (NodeID c) (ClusterName c) = NodeIDs an (NodeID c) (ClusterName c)"
  by (simp add: NodeIDs_def Let_def mstr_with_defaults)

text \<open>Annotations both programs read the same way: valid text, and no list that has only separators in it.\<close>

definition same_annotations :: "(string, string) gmap \<Rightarrow> bool" where
  "same_annotations an \<longleftrightarrow> text_ok an \<and>
     (\<forall>k\<in>{''nodes'', ''clusters''}. mstr an k \<noteq> [] \<longrightarrow> ParseCSV (mstr an k) \<noteq> [])"

definition same_defaults :: "Config \<Rightarrow> bool" where
  "same_defaults c \<longleftrightarrow> valid_utf8 (NodeID c) \<and> valid_utf8 (ClusterName c)"

lemma NodeIDs_pairs:
  assumes "same_annotations an" and "same_defaults c"
  shows "n \<in> set (NodeIDs an (NodeID c) (ClusterName c)) \<longleftrightarrow>
    (\<exists>x y. n = pair_id y x \<and> plain x \<and> plain y \<and>
       x \<in> set (ParseCSV (mstr (with_defaults c an) ''nodes'')) \<and> y \<in> set (ParseCSV (mstr (with_defaults c an) ''clusters'')))"
proof -
  have "valid_utf8 (mstr (with_defaults c an) ''nodes'')" "valid_utf8 (mstr (with_defaults c an) ''clusters'')"
    using assms by (simp_all add: mstr_with_defaults same_annotations_def text_ok_def same_defaults_def)
  then have "x \<in> set (ParseCSV (mstr (with_defaults c an) ''nodes'')) \<Longrightarrow> plain x"
    "x \<in> set (ParseCSV (mstr (with_defaults c an) ''clusters'')) \<Longrightarrow> plain x" for x
    using plain_part by blast+
  moreover have "ParseCSV (mstr (with_defaults c an) ''nodes'') =
      (if ParseCSV (mstr an ''nodes'') = [] then ParseCSV (NodeID c) else ParseCSV (mstr an ''nodes''))"
    "ParseCSV (mstr (with_defaults c an) ''clusters'') =
      (if ParseCSV (mstr an ''clusters'') = [] then ParseCSV (ClusterName c) else ParseCSV (mstr an ''clusters''))"
    using assms(1) by (auto simp: mstr_with_defaults same_annotations_def)
  moreover from this have "NodeIDs an (NodeID c) (ClusterName c) =
      concat (map (\<lambda>y. map (pair_id y) (sort (ParseCSV (mstr (with_defaults c an) ''nodes''))))
        (sort (ParseCSV (mstr (with_defaults c an) ''clusters''))))"
    unfolding NodeIDs_def Let_def by presburger
  ultimately show ?thesis by fastforce
qed

text \<open>The controller's test whether a listener is at the node id of a pair.\<close>

definition at_listener :: "Config \<Rightarrow> NodeInfo \<Rightarrow> ListenerCR \<Rightarrow> bool" where
  "at_listener c nodeInfo l \<longleftrightarrow>
     (let info = NodeInfo_or_empty (GetNodeID (with_defaults c (om_Annotations l)))
      in list_ex (\<lambda>n. n \<in> set (Nodes info)) (Nodes nodeInfo) \<and> list_ex (\<lambda>x. x \<in> set (Clusters info)) (Clusters nodeInfo))"

lemma at_listener_iff:
  assumes "plain x" and "plain y" and "same_annotations (om_Annotations l)" and "same_defaults c"
  shows "at_listener c (NodeInfo_or_empty (pair_id y x)) l \<longleftrightarrow>
    pair_id y x \<in> set (listener_nodes (NodeID c) (ClusterName c) l)"
proof -
  have "text_ok (with_defaults c (om_Annotations l))"
    using assms(3,4) by (simp add: text_ok_def mstr_with_defaults same_annotations_def same_defaults_def)
  then have "NodeInfo_or_empty (GetNodeID (with_defaults c (om_Annotations l))) =
      \<lparr>Nodes = sort (ParseCSV (mstr (with_defaults c (om_Annotations l)) ''nodes'')),
       Clusters = sort (ParseCSV (mstr (with_defaults c (om_Annotations l)) ''clusters''))\<rparr>"
    by (simp add: NodeInfo_or_empty_def decode_GetNodeID)
  moreover have "NodeInfo_or_empty (pair_id y x) = \<lparr>Nodes = [x], Clusters = [y]\<rparr>"
    using decode_pair_id [OF assms(2,1)] by (simp add: NodeInfo_or_empty_def)
  ultimately show ?thesis
    using NodeIDs_pairs [OF assms(3,4), of "pair_id y x"] assms(1,2) pair_id_inj
    by (auto simp: at_listener_def Let_def listener_nodes_def)
qed

text \<open>When every listener is there, the variable the controller carries over does not matter.\<close>

lemma match_listeners_found:
  assumes "\<forall>name\<in>set names. \<exists>l. Get_Listener env (ns, name) = Found l"
  shows "fst (match_listeners env c ns info names li ex) \<longleftrightarrow>
    (\<exists>name\<in>set names. \<exists>l. Get_Listener env (ns, name) = Found l \<and> at_listener c info l)"
    and "names \<noteq> [] \<Longrightarrow> snd (snd (match_listeners env c ns info names li ex))"
    and "ex \<Longrightarrow> snd (snd (match_listeners env c ns info names li ex))"
proof -
  have "(fst (match_listeners env c ns info names li ex) \<longleftrightarrow>
      (\<exists>name\<in>set names. \<exists>l. Get_Listener env (ns, name) = Found l \<and> at_listener c info l)) \<and>
    (names \<noteq> [] \<or> ex \<longrightarrow> snd (snd (match_listeners env c ns info names li ex)))"
    using assms
  proof (induction names arbitrary: li ex)
    case (Cons name names)
    then obtain l where l: "Get_Listener env (ns, name) = Found l" by auto
    have "list_ex (\<lambda>n. n \<in> set (Nodes (NodeInfo_or_empty (GetNodeID (with_defaults c (om_Annotations l)))))) (Nodes info) \<and>
        list_ex (\<lambda>x. x \<in> set (Clusters (NodeInfo_or_empty (GetNodeID (with_defaults c (om_Annotations l)))))) (Clusters info)
        \<longleftrightarrow> at_listener c info l" by (simp add: at_listener_def Let_def)
    then show ?case using Cons l by (simp add: Let_def)
  qed simp
  then show "fst (match_listeners env c ns info names li ex) \<longleftrightarrow>
      (\<exists>name\<in>set names. \<exists>l. Get_Listener env (ns, name) = Found l \<and> at_listener c info l)"
    "names \<noteq> [] \<Longrightarrow> snd (snd (match_listeners env c ns info names li ex))"
    "ex \<Longrightarrow> snd (snd (match_listeners env c ns info names li ex))" by blast+
qed

lemma match_nodes_found:
  assumes "\<forall>name\<in>set names. \<exists>l. Get_Listener env (ns, name) = Found l" and "names \<noteq> []"
  shows "match_nodes env c ns names nodes li ex =
    (ex \<or> nodes \<noteq> [],
     filter (\<lambda>n. \<not> (\<exists>name\<in>set names. \<exists>l. Get_Listener env (ns, name) = Found l \<and> at_listener c (NodeInfo_or_empty n) l)) nodes)"
proof (induction nodes arbitrary: li ex)
  case (Cons n nodes)
  obtain m li' ex' where ml: "match_listeners env c ns (NodeInfo_or_empty n) names li ex = (m, li', ex')" by (metis prod_cases3)
  then have "m \<longleftrightarrow> (\<exists>name\<in>set names. \<exists>l. Get_Listener env (ns, name) = Found l \<and> at_listener c (NodeInfo_or_empty n) l)" "ex'"
    using match_listeners_found [OF assms(1), where c = c and info = "NodeInfo_or_empty n" and li = li and ex = ex] assms(2) by simp_all
  then show ?case using Cons by (simp add: ml)
qed simp

section \<open>The controller's view\<close>

text \<open>A route the controller can place: applied, valid, its listeners there.\<close>

definition same_route :: "rds_env \<Rightarrow> string \<Rightarrow> (string, ListenerCR) gmap \<Rightarrow> Route \<Rightarrow> bool" where
  "same_route env ns ls rd \<longleftrightarrow>
     Get_Route env (ns, om_Name rd) = Found rd \<and> \<not> IsZero (om_CreationTimestamp rd) \<and> rt_ListenerRefs rd \<noteq> [] \<and>
     same_annotations (om_Annotations rd) \<and> matcher_of env rd \<noteq> None \<and> (\<exists>rds. recast_route env (rt_RouteConfig rd) = Inr rds) \<and>
     (\<forall>name\<in>set (rt_ListenerRefs rd). name \<noteq> [] \<and>
        (\<exists>l. mget ls name = Some l \<and> Get_Listener env (ns, name) = Found l \<and> same_annotations (om_Annotations l)))"

text \<open>What both see of any route: it is applied, and the listeners it names are all listed and applied, or none is. It may
  name no listener, its match may be invalid, and its configuration may be invalid where the route has no place; the
  audit does not convert the configuration of a route.\<close>

definition seen_route :: "rds_env \<Rightarrow> Config \<Rightarrow> string \<Rightarrow> (string, ListenerCR) gmap \<Rightarrow> Route \<Rightarrow> bool" where
  "seen_route env c ns ls rd \<longleftrightarrow>
     Get_Route env (ns, om_Name rd) = Found rd \<and> \<not> IsZero (om_CreationTimestamp rd) \<and>
     same_annotations (om_Annotations rd) \<and>
     (has_place env ls (NodeID c) (ClusterName c) rd \<longrightarrow> (\<exists>rds. recast_route env (rt_RouteConfig rd) = Inr rds)) \<and>
     ((\<forall>name\<in>set (rt_ListenerRefs rd). name \<noteq> [] \<and>
         (\<exists>l. mget ls name = Some l \<and> Get_Listener env (ns, name) = Found l \<and> same_annotations (om_Annotations l))) \<or>
      (\<forall>name\<in>set (rt_ListenerRefs rd). mget ls name = None \<and> (\<forall>l. Get_Listener env (ns, name) \<noteq> Found l)))"

text \<open>The audit is given what the controller sees: some listeners and all routes of the namespace.\<close>

definition same_cluster ::
  "rds_env \<Rightarrow> Config \<Rightarrow> string \<Rightarrow> (string, ListenerCR) gmap \<Rightarrow> Route list \<Rightarrow> bool" where
  "same_cluster env c ns ls routes \<longleftrightarrow> api_ok env \<and> same_defaults c \<and> ls \<noteq> [] \<and> (\<forall>rd\<in>set routes. seen_route env c ns ls rd) \<and>
     (\<forall>k. k \<notin> om_Name ` set routes \<longrightarrow> Get_Route env (ns, k) = NotFound)"

text \<open>The controller stops at a match or a configuration it cannot read and leaves an earlier version of the route
  where it is.\<close>

definition unreadable :: "rds_env \<Rightarrow> Route \<Rightarrow> bool" where
  "unreadable env rd \<longleftrightarrow> rt_ListenerRefs rd \<noteq> [] \<and>
     (matcher_of env rd = None \<or> \<not> (\<exists>rds. recast_route env (rt_RouteConfig rd) = Inr rds))"

definition no_leftovers :: "rds_env \<Rightarrow> RouteReconciler \<Rightarrow> Route list \<Rightarrow> bool" where
  "no_leftovers env r routes \<longleftrightarrow>
     (\<forall>rd\<in>set routes. unreadable env rd \<longrightarrow> (\<forall>n. served r n (om_Name rd) = None))"

text \<open>Nothing is left to do for any route of the namespace.\<close>

definition settled :: "rds_env \<Rightarrow> string \<Rightarrow> RouteReconciler \<Rightarrow> bool" where
  "settled env ns r \<longleftrightarrow> (\<forall>k. served (snd (Reconcile env (ns, k) r)) = served r)"

definition nodes_at :: "Config \<Rightarrow> (string, ListenerCR) gmap \<Rightarrow> Route \<Rightarrow> string list" where
  "nodes_at c ls rd = routeNodes rd ls (NodeID c) (ClusterName c)"

definition defaulted :: "Config \<Rightarrow> Route \<Rightarrow> Route" where
  "defaulted c rd = rd\<lparr>om_Annotations := with_defaults c (om_Annotations rd)\<rparr>"

lemma getNodesForRoute_audited:
  assumes "same_route env ns ls rd" and "same_defaults c"
  shows "getNodesForRoute env c rd (rt_ListenerRefs rd) ns = (nodes_at c ls rd, defaulted c rd)"
proof -
  let ?nodes = "NodeIDs (om_Annotations rd) (NodeID c) (ClusterName c)" and ?refs = "rt_ListenerRefs rd"
  let ?at = "\<lambda>n. \<exists>name\<in>set ?refs. \<exists>l. Get_Listener env (ns, name) = Found l \<and> at_listener c (NodeInfo_or_empty n) l"
  have f: "\<forall>name\<in>set ?refs. \<exists>l. Get_Listener env (ns, name) = Found l" "?refs \<noteq> []"
    using assms(1) by (auto simp: same_route_def)
  have an: "same_annotations (om_Annotations rd)" using assms(1) by (simp add: same_route_def)
  have "ls \<noteq> []" using assms(1) by (auto simp: same_route_def mget_def)
  then have r: "nodes_at c ls rd = filter (\<lambda>n. list_ex (\<lambda>name. case mget ls name of None \<Rightarrow> False
      | Some l \<Rightarrow> n \<in> set (listener_nodes (NodeID c) (ClusterName c) l)) ?refs) ?nodes"
    by (simp add: nodes_at_def routeNodes_def Let_def)
  have at: "?at n \<longleftrightarrow> list_ex (\<lambda>name. case mget ls name of None \<Rightarrow> False
      | Some l \<Rightarrow> n \<in> set (listener_nodes (NodeID c) (ClusterName c) l)) ?refs" if n: "n \<in> set ?nodes" for n
  proof -
    obtain x y where xy: "n = pair_id y x" "plain x" "plain y" using n NodeIDs_pairs [OF an assms(2)] by blast
    have "(\<exists>l. Get_Listener env (ns, name) = Found l \<and> at_listener c (NodeInfo_or_empty n) l) \<longleftrightarrow>
        (case mget ls name of None \<Rightarrow> False | Some l \<Rightarrow> n \<in> set (listener_nodes (NodeID c) (ClusterName c) l))"
      if "name \<in> set ?refs" for name
    proof -
      have "\<forall>name\<in>set ?refs. name \<noteq> [] \<and>
          (\<exists>l. mget ls name = Some l \<and> Get_Listener env (ns, name) = Found l \<and> same_annotations (om_Annotations l))"
        using assms(1) by (simp add: same_route_def)
      with that obtain l where "mget ls name = Some l" "Get_Listener env (ns, name) = Found l"
        "same_annotations (om_Annotations l)" by blast
      then show ?thesis using at_listener_iff [OF xy(2,3) _ assms(2)] xy(1) by simp
    qed
    then show ?thesis by (auto simp: list_ex_iff)
  qed
  then have k: "filter ?at ?nodes = nodes_at c ls rd" unfolding r by (rule filter_cong [OF refl])
  show ?thesis
  proof (cases "filter (\<lambda>n. \<not> ?at n) ?nodes = []")
    case True
    then have "filter ?at ?nodes = ?nodes" by (simp add: filter_empty_conv)
    then show ?thesis using True k
      by (simp add: getNodesForRoute_def isListenerExists_def match_nodes_found [OF f] NodeIDs_with_defaults defaulted_def
          Let_def)
  next
    case False
    have "filter (\<lambda>n. n \<notin> set (filter (\<lambda>n. \<not> ?at n) ?nodes)) ?nodes = filter ?at ?nodes" by (rule filter_cong) auto
    moreover have "?nodes \<noteq> []" using False by auto
    ultimately show ?thesis using False k
      by (simp add: getNodesForRoute_def isListenerExists_def match_nodes_found [OF f] NodeIDs_with_defaults defaulted_def
          Let_def)
  qed
qed

lemma sharedNodes_iff:
  assumes "\<forall>n\<in>set a. GetNodeInfo n \<noteq> None"
  shows "sharedNodes a b \<noteq> [] \<longleftrightarrow> list_ex (\<lambda>n. n \<in> set b) a"
  using assms by (induction a) (auto split: option.split)

lemma nodes_at_decode:
  assumes "same_route env ns ls rd" and "same_defaults c"
  shows "\<forall>n\<in>set (nodes_at c ls rd). GetNodeInfo n \<noteq> None"
proof
  have an: "same_annotations (om_Annotations rd)" using assms(1) by (simp add: same_route_def)
  fix n assume "n \<in> set (nodes_at c ls rd)"
  then have "n \<in> set (NodeIDs (om_Annotations rd) (NodeID c) (ClusterName c))"
    by (auto simp: nodes_at_def routeNodes_def Let_def split: if_splits)
  then obtain x y where "n = pair_id y x" "plain x" "plain y"
    using NodeIDs_pairs [OF an assms(2)] by blast
  then show "GetNodeInfo n \<noteq> None" by (simp add: decode_pair_id)
qed

lemma static_chain_audited:
  assumes "pd_nodes p = nodes" and "\<forall>n\<in>set nodes. GetNodeInfo n \<noteq> None"
    and "\<forall>name\<in>set names. name \<noteq> [] \<and> (\<exists>l. mget ls name = Some l \<and> Get_Listener env (ns, name) = Found l)"
  shows "static_conflict env c ns (pd_matcher p) (remdups nodes) names = [] \<longleftrightarrow>
    chain_conflict env p ls (NodeID c) (ClusterName c) names = None"
  using assms(3)
proof (induction names)
  case (Cons name names)
  then obtain l where l: "name \<noteq> []" "mget ls name = Some l" "Get_Listener env (ns, name) = Found l" by auto
  have "sharedNodes nodes (listener_nodes (NodeID c) (ClusterName c) l) \<noteq> [] \<longleftrightarrow>
      list_ex (\<lambda>id. id \<in> set (remdups nodes)) (NodeIDs (om_Annotations l) (NodeID c) (ClusterName c))"
    using sharedNodes_iff [OF assms(2)] by (auto simp: list_ex_iff listener_nodes_def)
  then show ?case using Cons l assms(1)
    by (auto simp: Let_def split: option.split list.split)
qed simp

section \<open>The settled controller\<close>

lemma RouteConflict_defaulted [simp]: "RouteConflict (defaulted c a) (defaulted c b) ma mb = RouteConflict a b ma mb"
  by (simp add: RouteConflict_def defaulted_def)

lemma chain_audited:
  assumes "same_route env ns ls rd" and "same_defaults c" and "om_Namespace rd = ns"
  shows "staticChainConflict env c (defaulted c rd) (the (matcher_of env rd)) (remdups (nodes_at c ls rd)) = [] \<longleftrightarrow>
    chain_conflict env (placed_of env ls (NodeID c) (ClusterName c) rd) ls (NodeID c) (ClusterName c) (rt_ListenerRefs rd) = None"
proof -
  have "\<forall>name\<in>set (rt_ListenerRefs rd). name \<noteq> [] \<and> (\<exists>l. mget ls name = Some l \<and> Get_Listener env (ns, name) = Found l)"
    using assms(1) by (auto simp: same_route_def)
  from static_chain_audited [OF _ nodes_at_decode [OF assms(1,2)] this, of "placed_of env ls (NodeID c) (ClusterName c) rd" c]
    assms(3) show ?thesis
    by (simp add: staticChainConflict_def placed_of_def defaulted_def nodes_at_def)
qed

text \<open>In a settled state a route is served on all its nodes or nowhere.\<close>

definition entry_of :: "rds_env \<Rightarrow> Config \<Rightarrow> Route \<Rightarrow> RouteConfig" where
  "entry_of env c rd =
     (case recast_route env (rt_RouteConfig rd) of
        Inr rds \<Rightarrow> new_entry (defaulted c rd) (rds\<lparr>rcf_Name := om_Name rd\<rparr>) (the (matcher_of env rd)))"

definition sits :: "rds_env \<Rightarrow> string \<Rightarrow> (string, ListenerCR) gmap \<Rightarrow> RouteReconciler \<Rightarrow> Route \<Rightarrow> bool" where
  "sits env ns ls r rd \<longleftrightarrow>
     audit_fit env ls (NodeID (rr_Config r)) (ClusterName (rr_Config r)) rd \<and>
     \<not> older_conflict r (entry_of env (rr_Config r) rd) (nodes_at (rr_Config r) ls rd)"

lemma settled_placed:
  assumes "api_ok env" and "same_defaults (rr_Config r)" and "rds_inv env r" and "settled env ns r" and "same_route env ns ls rd"
  shows "served r n (om_Name rd) =
    (if sits env ns ls r rd \<and> n \<in> set (nodes_at (rr_Config r) ls rd) then Some (entry_of env (rr_Config r) rd) else None)"
proof -
  let ?c = "rr_Config r"
  note api = assms(1) and sd = assms(2) and sr = assms(5)
  have found: "Get_Route env (ns, om_Name rd) = Found rd" and refs: "rt_ListenerRefs rd \<noteq> []"
    using sr by (simp_all add: same_route_def)
  then have ns: "om_Namespace rd = ns" using api by (auto simp: api_ok_def object_key_def)
  obtain m where m: "matcher_of env rd = Some m" using sr by (auto simp: same_route_def)
  then have fm: "fcm_Compile env (rt_FilterChainMatch rd) = Inr m" by (auto simp: matcher_of_def split: sum.splits)
  obtain rds where rds: "recast_route env (rt_RouteConfig rd) = Inr rds" using sr by (auto simp: same_route_def)
  have e: "entry_of env ?c rd = new_entry (defaulted ?c rd) (rds\<lparr>rcf_Name := om_Name rd\<rparr>) m"
    by (simp add: entry_of_def rds m)
  note nodes = getNodesForRoute_audited [OF sr sd]
  have chain: "staticChainConflict env ?c (defaulted ?c rd) m (remdups (nodes_at ?c ls rd)) = [] \<longleftrightarrow>
      chain_conflict env (placed_of env ls (NodeID ?c) (ClusterName ?c) rd) ls (NodeID ?c) (ClusterName ?c) (rt_ListenerRefs rd) = None"
    using chain_audited [OF sr sd ns] m by simp
  have s: "served r n (om_Name rd) = served (snd (Reconcile env (ns, om_Name rd) r)) n (om_Name rd)"
    using assms(4) by (simp add: settled_def)
  show ?thesis
  proof (cases "nodes_at ?c ls rd = []")
    case True
    then show ?thesis
      using Reconcile_unplaced [OF api assms(3), where req = "(ns, om_Name rd)" and rd = rd and rds = rds and m = m
        and rd' = "defaulted ?c rd" and n = n] found refs rds fm nodes s
      by simp
  next
    case False
    then have "audit_fit env ls (NodeID ?c) (ClusterName ?c) rd \<longleftrightarrow>
        staticChainConflict env ?c (defaulted ?c rd) m (remdups (nodes_at ?c ls rd)) = []"
      unfolding chain by (simp add: audit_fit_def has_place_def m nodes_at_def)
    then show ?thesis
      using Reconcile_served [OF api assms(3) _ refs rds fm _ False e, where req = "(ns, om_Name rd)" and n = n] found nodes s
      by (simp add: sits_def)
  qed
qed

text \<open>A route that cannot be placed has no place in the audit, and in a settled state it is served nowhere.\<close>

lemma match_listeners_missing:
  assumes "\<forall>name\<in>set names. \<forall>l. Get_Listener env (ns, name) \<noteq> Found l"
  shows "snd (snd (match_listeners env c ns info names li ex)) = ex"
  using assms
proof (induction names arbitrary: li)
  case (Cons name names)
  then have "Get_Listener env (ns, name) = NotFound \<or> (\<exists>e. Get_Listener env (ns, name) = GetError e)"
    by (cases "Get_Listener env (ns, name)") auto
  then show ?case using Cons by (auto simp: Let_def split: if_splits)
qed simp

lemma match_nodes_missing:
  assumes "\<forall>name\<in>set names. \<forall>l. Get_Listener env (ns, name) \<noteq> Found l"
  shows "fst (match_nodes env c ns names nodes li ex) = ex"
proof (induction nodes arbitrary: li)
  case (Cons n nodes)
  obtain m li' ex' where ml: "match_listeners env c ns (NodeInfo_or_empty n) names li ex = (m, li', ex')" by (metis prod_cases3)
  then have "ex' = ex" using match_listeners_missing [OF assms, of c "NodeInfo_or_empty n" li ex] by simp
  moreover obtain ex2 un where "match_nodes env c ns names nodes li' ex = (ex2, un)" by force
  ultimately show ?case using Cons [of li'] by (simp add: ml)
qed simp

lemma getNodesForRoute_missing:
  assumes "\<forall>name\<in>set names. \<forall>l. Get_Listener env (ns, name) \<noteq> Found l"
  shows "getNodesForRoute env c rd names ns = ([], defaulted c rd)"
proof -
  let ?nodes = "NodeIDs (with_defaults c (om_Annotations rd)) (NodeID c) (ClusterName c)"
  obtain ex un where m: "match_nodes env c ns names ?nodes [] False = (ex, un)" by force
  then have "\<not> ex" using match_nodes_missing [OF assms, of c ?nodes "[]" False] by simp
  then show ?thesis by (simp add: getNodesForRoute_def isListenerExists_def defaulted_def Let_def m)
qed

lemma not_placed:
  assumes "ls \<noteq> []" and "seen_route env c ns ls rd" and "\<not> same_route env ns ls rd"
  shows "\<not> has_place env ls (NodeID c) (ClusterName c) rd"
proof
  assume p: "has_place env ls (NodeID c) (ClusterName c) rd"
  then have "\<exists>name\<in>set (rt_ListenerRefs rd). mget ls name \<noteq> None"
    using assms(1) by (auto simp: has_place_def routeNodes_def Let_def filter_empty_conv list_ex_iff split: option.splits)
  then show False using p assms(2,3) by (force simp: seen_route_def same_route_def has_place_def)
qed

lemma Reconcile_unreferenced:
  assumes "api_ok env" and inv: "rds_inv env r" and found: "Get_Route env req = Found rd" and "rt_ListenerRefs rd = []"
  shows "served (snd (Reconcile env req r)) n (snd req) = None"
proof -
  obtain r1 where r1: "stored r1 = stored r" and eq: "stored (snd (Reconcile env req r)) =
      stored (reconcile_found env req (routePlacement (rr_Config r1) (snd req)) rd r1)"
    using Reconcile_Found [OF found] by metis
  let ?p = "routePlacement (rr_Config r1) (snd req)"
  obtain l r2 where rm: "removeRouteFromNodes (snd req) (pl_nodes ?p) r1 = (l, r2)" by force
  have "om_Name rd = snd req" using found assms(1) by (cases req) (auto simp: api_ok_def object_key_def)
  then have "stored (reconcile_found env req ?p rd r1) = stored r2"
    using assms(4) rm by (simp add: reconcile_found_def Let_def unplace_def frame_simps)
  moreover have "served r2 n (snd req) = None"
    using leave_nodes [OF _ refl, of r1 "snd req" "[]" l r2] inv_frame [OF inv r1] rm by (simp add: rds_inv_def)
  ultimately show ?thesis using frame_served eq by metis
qed

text \<open>A route that cannot be read changes nothing, not even for its own earlier version.\<close>

lemma Reconcile_unreadable:
  assumes "Get_Route env req = Found rd" and "unreadable env rd"
  shows "served (snd (Reconcile env req r)) = served r"
proof -
  obtain r1 where r1: "stored r1 = stored r" and eq: "stored (snd (Reconcile env req r)) =
      stored (reconcile_found env req (routePlacement (rr_Config r1) (snd req)) rd r1)"
    using Reconcile_Found [OF assms(1)] by metis
  have "stored (reconcile_found env req p rd r1) = stored r1" for p
    using assms(2) by (auto simp: reconcile_found_def unreadable_def matcher_of_def frame_simps Let_def split: sum.splits)
  then have "served (snd (Reconcile env req r)) n k = served r n k" for n k using frame_served r1 eq by metis
  then show ?thesis by blast
qed

lemma settled_unplaced:
  assumes "api_ok env" and "rds_inv env r" and "settled env ns r"
    and seen: "seen_route env (rr_Config r) ns ls rd" and "\<not> same_route env ns ls rd"
    and left: "unreadable env rd \<longrightarrow> (\<forall>n. served r n (om_Name rd) = None)"
  shows "served r n (om_Name rd) = None"
proof -
  have found: "Get_Route env (ns, om_Name rd) = Found rd" using seen by (simp add: seen_route_def)
  have s: "served r n (om_Name rd) = served (snd (Reconcile env (ns, om_Name rd) r)) n (om_Name rd)"
    using assms(3) by (simp add: settled_def)
  consider "rt_ListenerRefs rd = []" | "unreadable env rd"
    | rds m where "rt_ListenerRefs rd \<noteq> []" "recast_route env (rt_RouteConfig rd) = Inr rds" "matcher_of env rd = Some m"
    by (cases "matcher_of env rd") (auto simp: unreadable_def)
  then show ?thesis
  proof cases
    case 1
    then show ?thesis using Reconcile_unreferenced [OF assms(1,2), where req = "(ns, om_Name rd)"] found s by simp
  next
    case 2
    then show ?thesis using left by blast
  next
    case 3
    then have "\<forall>name\<in>set (rt_ListenerRefs rd). \<forall>l. Get_Listener env (ns, name) \<noteq> Found l"
      using seen assms(5) by (auto simp: seen_route_def same_route_def)
    moreover have "fcm_Compile env (rt_FilterChainMatch rd) = Inr m" using 3(3) by (auto simp: matcher_of_def split: sum.splits)
    ultimately show ?thesis
      using Reconcile_unplaced [OF assms(1,2), where req = "(ns, om_Name rd)" and rd = rd and rds = rds and m = m and n = n]
        getNodesForRoute_missing 3 found s by simp
  qed
qed

lemma settled_served:
  assumes "same_cluster env (rr_Config r) ns ls routes" and "no_leftovers env r routes" and "rds_inv env r"
    and "settled env ns r" and "rd \<in> set routes"
  shows "served r n (om_Name rd) =
    (if sits env ns ls r rd \<and> n \<in> set (nodes_at (rr_Config r) ls rd) then Some (entry_of env (rr_Config r) rd) else None)"
proof -
  have c: "api_ok env" "same_defaults (rr_Config r)" "ls \<noteq> []" "seen_route env (rr_Config r) ns ls rd"
    using assms(1,5) by (simp_all add: same_cluster_def)
  show ?thesis
  proof (cases "same_route env ns ls rd")
    case True
    then show ?thesis by (rule settled_placed [OF c(1,2) assms(3,4)])
  next
    case False
    have "\<not> sits env ns ls r rd" using not_placed [OF c(3,4) False] by (simp add: sits_def audit_fit_def)
    moreover have "served r n (om_Name rd) = None"
      using settled_unplaced [OF c(1) assms(3,4) c(4) False] assms(2,5) by (simp add: no_leftovers_def)
    ultimately show ?thesis by simp
  qed
qed

lemma settled_others:
  assumes "same_cluster env (rr_Config r) ns ls routes" and "rds_inv env r" and "settled env ns r"
    and "k \<notin> om_Name ` set routes"
  shows "served r n k = None"
proof -
  have a: "api_ok env" "Get_Route env (ns, k) = NotFound" using assms(1,4) by (auto simp: same_cluster_def)
  from Reconcile_unplaced [OF a(1) assms(2), where req = "(ns, k)"] a(2) show ?thesis using assms(3) by (simp add: settled_def)
qed

lemma OlderRoute_defaulted [simp]: "OlderRoute (defaulted c a) (defaulted c b) \<longleftrightarrow> OlderRoute a b"
  by (simp add: OlderRoute_def defaulted_def)

lemma entry_parts:
  assumes "same_route env ns ls rd"
  shows "rc_Route (entry_of env c rd) = defaulted c rd" and "rc_Matcher (entry_of env c rd) = matcher_of env rd"
    and "rc_name (entry_of env c rd) = om_Name rd"
proof -
  obtain rds m where "recast_route env (rt_RouteConfig rd) = Inr rds" "matcher_of env rd = Some m"
    using assms by (auto simp: same_route_def)
  then show "rc_Route (entry_of env c rd) = defaulted c rd" "rc_Matcher (entry_of env c rd) = matcher_of env rd"
    "rc_name (entry_of env c rd) = om_Name rd"
    by (simp_all add: entry_of_def new_entry_def rc_name_def defaulted_def)
qed

lemma clash_audited:
  assumes "same_route env ns ls s" and "same_route env ns ls rd" and "same_defaults c"
  shows "audit_clash env ls (NodeID c) (ClusterName c) s rd \<longleftrightarrow>
    (\<exists>n\<in>set (nodes_at c ls rd). n \<in> set (nodes_at c ls s)) \<and> conflict (entry_of env c rd) (entry_of env c s) \<noteq> VNone"
proof -
  have "conflict (entry_of env c rd) (entry_of env c s) = conflict (entry_of env c s) (entry_of env c rd)" by (rule conflict_sym)
  then show ?thesis
    using sharedNodes_iff [OF nodes_at_decode [OF assms(2,3)], of "nodes_at c ls s"] entry_parts [OF assms(1)] entry_parts [OF assms(2)]
    by (simp add: audit_clash_def conflict_def list_ex_iff flip: nodes_at_def)
qed

lemma settled_is_stable:
  assumes "same_cluster env (rr_Config r) ns ls routes" and "no_leftovers env r routes" and "rds_inv env r" and "settled env ns r"
    and "distinct (map om_Name routes)" and "c = rr_Config r"
  shows "stable_placement env ls (NodeID c) (ClusterName c) routes {rd \<in> set routes. sits env ns ls r rd}"
proof -
  let ?S = "{rd \<in> set routes. sits env ns ls r rd}" and ?fit = "audit_fit env ls (NodeID c) (ClusterName c)"
  have sd: "same_defaults c" and ls: "ls \<noteq> []" using assms(1,6) by (simp_all add: same_cluster_def)
  have sr: "same_route env ns ls s" if "s \<in> set routes" "?fit s" for s
    using not_placed [OF ls, of env c ns s] assms(1,6) that by (auto simp: same_cluster_def audit_fit_def)
  have fit: "?fit s" if "sits env ns ls r s" for s using that assms(6) by (simp add: sits_def)
  have home: "(\<exists>k a. k \<noteq> m \<and> served r n k = Some a \<and> P a) \<longleftrightarrow>
      (\<exists>s\<in>set routes. \<exists>a. om_Name s \<noteq> m \<and> served r n (om_Name s) = Some a \<and> P a)" for n m P
  proof
    assume "\<exists>k a. k \<noteq> m \<and> served r n k = Some a \<and> P a"
    then obtain k a where k: "k \<noteq> m" "served r n k = Some a" "P a" by blast
    then have "k \<in> om_Name ` set routes" using settled_others [OF assms(1,3,4), of k n] by auto
    then show "\<exists>s\<in>set routes. \<exists>a. om_Name s \<noteq> m \<and> served r n (om_Name s) = Some a \<and> P a" using k by auto
  qed blast
  have "older_conflict r (entry_of env c rd) (nodes_at c ls rd) \<longleftrightarrow>
      (\<exists>s\<in>?S. comes_before s rd \<and> audit_clash env ls (NodeID c) (ClusterName c) s rd)"
    if rd: "rd \<in> set routes" "?fit rd" for rd
  proof -
    have r': "same_route env ns ls rd" by (rule sr [OF rd])
    have one: "served r n (om_Name s) = Some a \<and> OlderRoute (rc_Route a) (rc_Route (entry_of env c rd)) \<and>
          conflict (entry_of env c rd) a \<noteq> VNone \<longleftrightarrow>
        a = entry_of env c s \<and> sits env ns ls r s \<and> n \<in> set (nodes_at c ls s) \<and> comes_before s rd \<and>
          conflict (entry_of env c rd) (entry_of env c s) \<noteq> VNone" if s: "s \<in> set routes" for n s a
    proof (cases "sits env ns ls r s")
      case True
      have s': "same_route env ns ls s" by (rule sr [OF s fit [OF True]])
      then have "comes_before s rd \<longleftrightarrow> OlderRoute s rd" using r' by (simp add: comes_before_def same_route_def)
      then show ?thesis
        using settled_served [OF assms(1-4) s, of n] entry_parts [OF s', of c] entry_parts [OF r', of c] assms(6) by auto
    qed (use settled_served [OF assms(1-4) s, of n] in simp)
    have "older_conflict r (entry_of env c rd) (nodes_at c ls rd) \<longleftrightarrow>
        (\<exists>n\<in>set (nodes_at c ls rd). \<exists>s\<in>set routes. \<exists>a. om_Name s \<noteq> om_Name rd \<and> served r n (om_Name s) = Some a \<and>
          OlderRoute (rc_Route a) (rc_Route (entry_of env c rd)) \<and> conflict (entry_of env c rd) a \<noteq> VNone)"
      unfolding older_conflict_def entry_parts(3) [OF r'] home ..
    also have "\<dots> \<longleftrightarrow> (\<exists>s\<in>?S. om_Name s \<noteq> om_Name rd \<and> comes_before s rd \<and> (\<exists>n\<in>set (nodes_at c ls rd). n \<in> set (nodes_at c ls s)) \<and>
        conflict (entry_of env c rd) (entry_of env c s) \<noteq> VNone)"
      using one by blast
    also have "\<dots> \<longleftrightarrow> (\<exists>s\<in>?S. om_Name s \<noteq> om_Name rd \<and> comes_before s rd \<and> audit_clash env ls (NodeID c) (ClusterName c) s rd)"
      using clash_audited [OF sr r' sd] fit by auto
    also have "\<dots> \<longleftrightarrow> (\<exists>s\<in>?S. comes_before s rd \<and> audit_clash env ls (NodeID c) (ClusterName c) s rd)"
      using assms(5) rd arrival.lt_irrefl by (auto simp: distinct_map inj_on_def)
    finally show ?thesis .
  qed
  then show ?thesis using assms(6) by (auto simp: stable_placement_def sits_def)
qed

text \<open>A state that serves at most one route stays one; a route that is not there changes nothing.\<close>

definition only :: "string \<Rightarrow> RouteReconciler \<Rightarrow> bool" where
  "only name r \<longleftrightarrow> (\<forall>n k. k \<noteq> name \<longrightarrow> served r n k = None)"

lemma Reconcile_only:
  assumes "api_ok env" and inv: "rds_inv env r" and found: "Get_Route env req = Found rd" and lone: "only (snd req) r"
  shows "only (snd req) (snd (Reconcile env req r))"
  unfolding only_def
proof (intro allI impI)
  fix n k assume k: "k \<noteq> snd req"
  obtain r1 where r1: "stored r1 = stored r" and eq: "stored (snd (Reconcile env req r)) =
      stored (reconcile_found env req (routePlacement (rr_Config r1) (snd req)) rd r1)"
    using Reconcile_Found [OF found] by metis
  let ?p = "routePlacement (rr_Config r1) (snd req)"
  have inv1: "rds_inv env r1" and none: "served r1 n k = None"
    using inv_frame [OF inv r1] frame_served [OF r1] lone k by (simp_all add: only_def)
  have wf: "store_wf r1" using inv1 by (simp add: rds_inv_def)
  have req: "om_Name rd = snd req" using found assms(1) by (cases req) (auto simp: api_ok_def object_key_def)
  obtain nodes rd' where g: "getNodesForRoute env (rr_Config r1) rd (rt_ListenerRefs rd) (fst req) = (nodes, rd')" by force
  have rd': "om_Name rd' = snd req" using getNodesForRoute_route [OF g] req by simp
  have placed: "served (reconcile_placed env req ?p rd' rds m nodes r1) n k = None" for rds m
  proof -
    obtain r2 where r2: "rds_inv env r2" "\<And>n j. j \<noteq> snd req \<Longrightarrow> served r2 n j = served r1 n j"
      and e: "reconcile_placed env req ?p rd' rds m nodes r1 =
        (let l = staticChainConflict env (rr_Config r2) rd' m (remdups nodes)
         in if l \<noteq> [] then reject rd' ?p (DuplicatesStatic l) r2 else resolve env req ?p rd' rds m nodes r2)"
      using reconcile_placed_cases [OF inv1 refl, where nodes = nodes and rd = rd' and rds = rds and m = m and req = req] by metis
    have wf2: "store_wf r2" and n2: "served r2 n k = None" using r2 none k by (simp_all add: rds_inv_def)
    have "served (resolve env req ?p rd' rds m nodes r2) n k = None"
    proof (cases rule: resolve_cases [OF r2(1), of rd' m nodes req ?p rds])
      case (1 w rest r3 msg)
      then show ?thesis using reject_served [of r3 rd' ?p msg n k] frame_served [OF 1(3)] wf2 n2 by simp
    next
      case 2
      let ?r = "foldl (\<lambda>r cf. evict rd' cf r) r2 (findConflicts env (rr_Config r2) rd' m (remdups nodes))"
      have "store_wf ?r" "served ?r n k = None" using evict_all_served [OF wf2] n2 by simp_all
      then show ?thesis unfolding 2(2) using placed [of ?r "fst req" ?p rd' rds m nodes n k] k rd' by simp
    qed
    then show ?thesis using reject_served [OF wf2, of rd' ?p _ n k] n2 unfolding e by (simp add: Let_def)
  qed
  have same: "served (updateRouteStatus u v w x y z (RecordRouteError e msg r1)) n k = None" for u v w x y z e msg
    using frame_served [of "updateRouteStatus u v w x y z (RecordRouteError e msg r1)" r1] none by (simp add: frame_simps)
  have "served (reconcile_found env req ?p rd r1) n k = None"
    using unplace_keeps [OF wf, of k] k req rd' none same placed g
    by (auto simp: reconcile_found_def Let_def split: sum.splits)
  then show "served (snd (Reconcile env req r)) n k = None" using frame_served [OF eq] by simp
qed

lemma Reconcile_absent:
  assumes "rds_inv env r" and "Get_Route env req = NotFound" and "\<And>n. served r n (snd req) = None"
  shows "served (snd (Reconcile env req r)) = served r"
proof -
  let ?r = "(with_Status (SetHasRoutes True) r)\<lparr>rds_reconciling := rds_reconciling (with_Status (SetHasRoutes True) r) + 1\<rparr>"
  obtain ls r1 where rm: "removeRouteFromNodes (snd req) (pl_nodes (routePlacement (rr_Config ?r) (snd req))) ?r = (ls, r1)"
    by force
  have wf: "store_wf ?r" using inv_frame [OF assms(1) Reconcile_start] by (simp add: rds_inv_def)
  have "stored (snd (Reconcile env req r)) = stored r1" using assms(2) rm by (simp add: Reconcile_def Let_def frame_simps)
  then have "served (snd (Reconcile env req r)) n k = served r n k" for n k
    using removed_nodes [OF wf rm, of n k] frame_served [OF Reconcile_start] frame_served assms(3) by metis
  then show ?thesis by blast
qed

end
