(* ===== verification/AuditSpec.thy ===== *)
theory AuditSpec
  imports AuditFacts
begin

text \<open>
  What the audit guarantees: it reports exactly the routes left out of the one stable placement, and this is the
  placement the route controller settles on.
\<close>

section \<open>Properties\<close>

text \<open>C23. The audit reports exactly the routes that are refused: there is one placement in which a route is served
  when it has a place (its match is valid and it has a node), no static chain is in its way and no route before it
  that is served conflicts with it; the report has one line, in order, for every route whose match is invalid and for
  every route with a place that this placement leaves out. A route without a node is left out and gets no line. The
  number of lines decides the exit code. The routes listed are assumed to have distinct names (as the routes of one
  namespace have), since otherwise the order of the replay is not fixed by the routes.\<close>

theorem audit_reports_the_refused:
  assumes "decode y data = Inr (routes, ls)" and "distinct (map om_Name routes)"
  shows "\<exists>S lines. (\<forall>T. stable_placement env ls dn dc routes T \<longleftrightarrow> T = S) \<and>
    audit env y data dn dc = Inr (lines @ [Summary (length routes) (length lines)], length lines) \<and>
    map subject lines = map om_Name (filter (refused env ls dn dc S) (sort_by comes_before routes)) \<and>
    (readInputs read (if file \<noteq> [] then file # args else args) = Inr data \<longrightarrow>
      fst (run env y read file dn dc args) = (if filter (refused env ls dn dc S) routes = [] then 0 else 1))"
proof -
  let ?S = "set (audits.chosen env ls dn dc (sort_by comes_before routes))"
  have S: "stable_placement env ls dn dc routes ?S" using stable_placement_iff [OF assms(2)] by simp
  obtain lines where a: "audit env y data dn dc = Inr (lines @ [Summary (length routes) (length lines)], length lines)"
    and l: "map subject lines = map om_Name (filter (refused env ls dn dc ?S) (sort_by comes_before routes))"
    using audit_lines [OF assms S] by blast
  have "lines = [] \<longleftrightarrow> filter (refused env ls dn dc ?S) routes = []"
    using arg_cong [OF l, of "\<lambda>xs. xs = []"] by (simp add: filter_empty_conv)
  then have "fst (run env y read file dn dc args) = (if filter (refused env ls dn dc ?S) routes = [] then 0 else 1)"
    if "readInputs read (if file \<noteq> [] then file # args else args) = Inr data"
    using that by (simp add: run_def Let_def a)
  then show ?thesis
    using l a stable_placement_iff [OF assms(2)] by (intro exI [of _ ?S] exI [of _ lines]) simp
qed

text \<open>C22. The audit predicts the controller, routes with an invalid match, without listener references or with no listener
  that exists included: it reports exactly the routes that a controller with nothing left to do does not serve
  where they belong; every other route is served on exactly the nodes the audit gives it. This is for a listing
  that shows what the controller sees (its listeners, at least one, and all routes of the namespace, with distinct
  names, all applied; the listeners a route names are all there or all missing; no annotation holds separators
  only) and where the two programs do not read different things: the audit does not convert the configuration of a
  route, so a route with a place must have one that converts, and of a route that has become invalid the controller
  keeps an earlier version in place, so no such version may be left.\<close>

theorem audit_predicts_the_controller:
  assumes "decode y data = Inr (routes, ls)" and "distinct (map om_Name routes)" and "c = rr_Config r"
    and "same_cluster env c ns ls routes" and "no_leftovers env r routes" and "rds_inv env r" and "settled env ns r"
  shows "\<exists>lines. audit env y data (NodeID c) (ClusterName c) =
      Inr (lines @ [Summary (length routes) (length lines)], length lines) \<and>
    (\<forall>rd\<in>set routes. \<forall>n. served r n (om_Name rd) \<noteq> None \<longleftrightarrow>
       n \<in> set (routeNodes rd ls (NodeID c) (ClusterName c)) \<and> om_Name rd \<notin> subject ` set lines)"
proof -
  let ?S = "{rd \<in> set routes. sits env ns ls r rd}" and ?dn = "NodeID c" and ?dc = "ClusterName c"
  note sc = assms(4) [unfolded assms(3)]
  obtain lines where a: "audit env y data ?dn ?dc = Inr (lines @ [Summary (length routes) (length lines)], length lines)"
    and l: "map subject lines = map om_Name (filter (refused env ls ?dn ?dc ?S) (sort_by comes_before routes))"
    using audit_lines [OF assms(1,2) settled_is_stable [OF sc assms(5-7,2,3)]] by blast
  have "subject ` set lines = om_Name ` {rd \<in> set routes. refused env ls ?dn ?dc ?S rd}"
    using arg_cong [OF l, of set] by auto
  then have s: "om_Name rd \<in> subject ` set lines \<longleftrightarrow> refused env ls ?dn ?dc ?S rd" if "rd \<in> set routes" for rd
    using assms(2) that by (auto simp: distinct_map inj_on_def)
  have "served r n (om_Name rd) \<noteq> None \<longleftrightarrow> n \<in> set (routeNodes rd ls ?dn ?dc) \<and> om_Name rd \<notin> subject ` set lines"
    if rd: "rd \<in> set routes" for rd n
  proof -
    have "refused env ls ?dn ?dc ?S rd \<longleftrightarrow> \<not> sits env ns ls r rd" if "n \<in> set (routeNodes rd ls ?dn ?dc)"
      using that rd assms(3) by (auto simp: refused_def has_place_def sits_def audit_fit_def)
    then show ?thesis
      using settled_served [OF sc assms(5-7) rd, of n] s [OF rd] assms(3) by (auto simp: nodes_at_def)
  qed
  then show ?thesis using a by blast
qed

section \<open>A listing with two routes\<close>

definition sample_yaml :: yaml where
  "sample_yaml =
     \<lparr>Unmarshal_object = (\<lambda>s. Inr \<lparr>ob_APIVersion = ''envoyxds.io/v1alpha1'',
        ob_Kind = (if s = [] then ''List'' else if s = ''l'' then ''Listener'' else ''Route''),
        ob_Items = (if s = [] then [''b'', ''l'', ''a''] else [])\<rparr>),
      Unmarshal_Route = (\<lambda>s. Inr (sample_route s (if s = ''a'' then 1 else 2))),
      Unmarshal_Listener = (\<lambda>s. Inr sample_listener)\<rparr>"

lemma sample_decode:
  "decode sample_yaml [] = Inr ([sample_route ''b'' 2, sample_route ''a'' 1], [(''l'', sample_listener)])"
  by (simp add: decode_def sample_yaml_def add_document_def addObject_def HasPrefix_def HasSuffix_def mset_at_def
      sample_listener_def)

lemma sample_names: "distinct (map om_Name [sample_route ''b'' 2, sample_route ''a'' 1])"
  by (simp add: sample_route_def)

theorem audit_reports_the_refused_witness:
  "\<exists>lines. audit sample_rds sample_yaml [] ''n'' ''c'' = Inr (lines @ [Summary 2 (length lines)], length lines)"
proof -
  obtain lines where "audit sample_rds sample_yaml [] ''n'' ''c'' =
      Inr (lines @ [Summary (length [sample_route ''b'' 2, sample_route ''a'' 1]) (length lines)], length lines)"
    using audit_reports_the_refused [OF sample_decode sample_names, of sample_rds "''n''" "''c''"] by blast
  then show ?thesis by auto
qed

text \<open>A namespace with two routes: b is served, the match of x is invalid.\<close>

definition broken_route :: Route where
  "broken_route = (sample_route ''x'' 3)\<lparr>rt_FilterChainMatch := Some
     \<lparr>DestinationPort = None, PrefixRanges = [], AddressSuffix = [], SuffixLen = None, DirectSourcePrefixRanges = [],
      SourceType = ''NOWHERE'', SourcePrefixRanges = [], SourcePorts = [], ServerNames = [], TransportProtocol = [],
      ApplicationProtocols = []\<rparr>\<rparr>"

definition lone_rds :: rds_env where
  "lone_rds = sample_rds\<lparr>Get_Route := (\<lambda>k. if k = (''ns'', ''b'') then Found (sample_route ''b'' 2)
     else if k = (''ns'', ''x'') then Found broken_route else NotFound)\<rparr>"

definition lone_b :: RouteReconciler where
  "lone_b = fresh_rds\<lparr>rr_Config := (new_Config ''n'' ''c'')\<lparr>RouteConfigs :=
     [(pair_id ''c'' ''n'', [entry_of lone_rds (new_Config ''n'' ''c'') (sample_route ''b'' 2)])]\<rparr>\<rparr>"

definition lone_listeners :: "(string, ListenerCR) gmap" where
  "lone_listeners = [(''l'', sample_listener)]"

lemma lone_names [simp]: "NodeID (rr_Config lone_b) = ''n''" "ClusterName (rr_Config lone_b) = ''c''"
  by (simp_all add: lone_b_def new_Config_def)

lemma lone_entry [simp]: "entry_of lone_rds (rr_Config lone_b) = entry_of lone_rds (new_Config ''n'' ''c'')"
proof (rule ext)
  fix rd
  have "same_names (rr_Config lone_b) (new_Config ''n'' ''c'')" by (simp add: same_names_def lone_b_def)
  note same = with_defaults_names [OF this]
  show "entry_of lone_rds (rr_Config lone_b) rd = entry_of lone_rds (new_Config ''n'' ''c'') rd"
    unfolding entry_of_def defaulted_def same ..
qed

lemma default_ids: "NodeIDs [] ''n'' ''c'' = [pair_id ''c'' ''n'']"
proof -
  have "ParseCSV (mstr [] ''nodes'') = []" "ParseCSV (mstr [] ''clusters'') = []" "ParseCSV ''n'' = [''n'']"
    "ParseCSV ''c'' = [''c'']" by code_simp+
  then show ?thesis by (simp add: NodeIDs_def Let_def)
qed

lemma lone_nodes: "nodes_at (rr_Config lone_b) lone_listeners (sample_route ''b'' 2) = [pair_id ''c'' ''n'']"
  by (simp add: nodes_at_def routeNodes_def Let_def lone_listeners_def sample_route_def listener_nodes_def sample_listener_def
      mget_def default_ids)

lemma lone_route: "same_route lone_rds ''ns'' lone_listeners (sample_route ''b'' 2)"
proof -
  have "text_ok []" by code_simp
  then have "same_annotations []" by (simp add: same_annotations_def mstr_def mget_def)
  moreover have "case fcm_Compile lone_rds None of Inl e \<Rightarrow> False | Inr m \<Rightarrow> True" by code_simp
  ultimately show ?thesis
    by (auto simp: same_route_def lone_rds_def sample_rds_def sample_route_def IsZero_def matcher_of_def lone_listeners_def
        sample_listener_def mget_def split: sum.splits)
qed

lemma broken_parts: "om_Name broken_route = ''x''" "om_Namespace broken_route = ''ns''" "rt_ListenerRefs broken_route = [''l'']"
  by (simp_all add: broken_route_def sample_route_def)

lemma broken_match: "matcher_of lone_rds broken_route = None"
  by (simp add: matcher_of_def fcm_Compile_def Compile_def broken_route_def lone_rds_def sample_rds_def)

lemma lone_b_seen: "seen_route lone_rds (rr_Config lone_b) ''ns'' lone_listeners (sample_route ''b'' 2)"
  using lone_route by (simp add: seen_route_def same_route_def)

lemma broken_seen: "seen_route lone_rds (rr_Config lone_b) ''ns'' lone_listeners broken_route"
  using lone_route broken_match
  by (simp add: seen_route_def same_route_def has_place_def broken_route_def sample_route_def lone_rds_def IsZero_def)

lemma lone_api: "api_ok lone_rds"
  by (simp add: api_ok_def lone_rds_def object_key_def sample_route_def broken_parts)

lemma lone_cluster: "same_cluster lone_rds (rr_Config lone_b) ''ns'' lone_listeners [sample_route ''b'' 2, broken_route]"
proof -
  have "valid_utf8 ''n'' \<and> valid_utf8 ''c''" by code_simp
  then have "same_defaults (rr_Config lone_b)" by (simp add: same_defaults_def)
  moreover have "om_Name (sample_route ''b'' 2) = ''b''" by (simp add: sample_route_def)
  moreover have "Get_Route lone_rds (''ns'', k) = NotFound" if "k \<noteq> ''b''" "k \<noteq> ''x''" for k
    using that by (simp add: lone_rds_def)
  ultimately show ?thesis
    using lone_api lone_b_seen broken_seen unfolding same_cluster_def
    by (simp add: broken_parts) (simp add: lone_listeners_def)
qed

lemma lone_served:
  "served lone_b n k = (if n = pair_id ''c'' ''n'' \<and> k = ''b''
     then Some (entry_of lone_rds (rr_Config lone_b) (sample_route ''b'' 2)) else None)"
proof -
  have "rc_name (entry_of lone_rds (new_Config ''n'' ''c'') (sample_route ''b'' 2)) = ''b''"
    using entry_parts(3) [OF lone_route] by (simp add: sample_route_def)
  moreover have "stored lone_b = [(pair_id ''c'' ''n'', [entry_of lone_rds (new_Config ''n'' ''c'') (sample_route ''b'' 2)])]"
    by (simp add: lone_b_def)
  ultimately show ?thesis by (simp add: served_def lookup_def mlist_def mget_def)
qed

lemma lone_inv: "rds_inv lone_rds lone_b"
proof -
  let ?e = "entry_of lone_rds (new_Config ''n'' ''c'') (sample_route ''b'' 2)"
  obtain m rds where m: "matcher_of lone_rds (sample_route ''b'' 2) = Some m"
    and rds: "recast_route lone_rds (rt_RouteConfig (sample_route ''b'' 2)) = Inr rds"
    using lone_route by (auto simp: same_route_def)
  have "fcm_Compile lone_rds (rt_FilterChainMatch (sample_route ''b'' 2)) = Inr m"
    using m by (auto simp: matcher_of_def split: sum.splits)
  then have "entry_ok lone_rds ?e"
    using entry_ok_new [of lone_rds "sample_route ''b'' 2" m "defaulted (new_Config ''n'' ''c'') (sample_route ''b'' 2)"]
    by (simp add: entry_of_def rds m defaulted_def)
  moreover have "stored lone_b = [(pair_id ''c'' ''n'', [?e])]" by (simp add: lone_b_def)
  ultimately show ?thesis
    by (auto simp: rds_inv_def store_wf_def gmap_ok_def unique_names_def uniform_def entries_ok_def no_conflicts_def lone_served
        mlist_def mget_def)
qed

lemma lone_leftovers: "no_leftovers lone_rds lone_b [sample_route ''b'' 2, broken_route]"
proof -
  have "\<not> unreadable lone_rds (sample_route ''b'' 2)" using lone_route by (simp add: unreadable_def same_route_def)
  then show ?thesis by (simp add: no_leftovers_def lone_served broken_parts)
qed

lemma lone_settled: "settled lone_rds ''ns'' lone_b"
  unfolding settled_def
proof
  fix k
  let ?b = "sample_route ''b'' 2" and ?c = "rr_Config lone_b"
  have api: "api_ok lone_rds" by (rule lone_api)
  have name: "om_Name ?b = ''b''" by (simp add: sample_route_def)
  show "served (snd (Reconcile lone_rds (''ns'', k) lone_b)) = served lone_b"
  proof (cases "k = ''b''")
    case False
    show ?thesis
    proof (cases "k = ''x''")
      case True
      have "Get_Route lone_rds (''ns'', ''x'') = Found broken_route" by (simp add: lone_rds_def)
      from Reconcile_unreadable [OF this] True show ?thesis by (simp add: unreadable_def broken_match broken_parts)
    next
      case other: False
      with False have "Get_Route lone_rds (''ns'', k) = NotFound" by (simp add: lone_rds_def)
      from Reconcile_absent [OF lone_inv this] False show ?thesis by (simp add: lone_served)
    qed
  next
    case True
    have found: "Get_Route lone_rds (''ns'', ''b'') = Found ?b" and refs: "rt_ListenerRefs ?b \<noteq> []"
      by (simp_all add: lone_rds_def sample_route_def)
    obtain m rds where m: "matcher_of lone_rds ?b = Some m" and rds: "recast_route lone_rds (rt_RouteConfig ?b) = Inr rds"
      using lone_route by (auto simp: same_route_def)
    then have fm: "fcm_Compile lone_rds (rt_FilterChainMatch ?b) = Inr m" by (auto simp: matcher_of_def split: sum.splits)
    have sd: "same_defaults ?c" using lone_cluster by (simp add: same_cluster_def)
    have e: "entry_of lone_rds ?c ?b = new_entry (defaulted ?c ?b) (rds\<lparr>rcf_Name := om_Name ?b\<rparr>) m"
      unfolding entry_of_def by (simp add: rds m)
    note nodes = getNodesForRoute_audited [OF lone_route sd, unfolded lone_nodes]
    have static: "staticChainConflict lone_rds ?c (defaulted ?c ?b) m (remdups [pair_id ''c'' ''n'']) = []"
      by (simp add: staticChainConflict_def lone_rds_def sample_rds_def sample_listener_def defaulted_def sample_route_def)
    have alone: "\<not> older_conflict lone_b (entry_of lone_rds ?c ?b) [pair_id ''c'' ''n'']"
      using entry_parts(3) [OF lone_route] name by (auto simp: older_conflict_def lone_served)
    have own: "served (snd (Reconcile lone_rds (''ns'', ''b'') lone_b)) n ''b'' = served lone_b n ''b''" for n
      using Reconcile_served [OF api lone_inv _ refs rds fm _ _ e, where req = "(''ns'', ''b'')" and n = n] found nodes static alone
      by (simp add: lone_served del: lone_entry)
    have "only ''b'' lone_b" by (simp add: only_def lone_served)
    with Reconcile_only [OF api lone_inv, where req = "(''ns'', ''b'')"] found
    have "only ''b'' (snd (Reconcile lone_rds (''ns'', ''b'') lone_b))" by simp
    then have "served (snd (Reconcile lone_rds (''ns'', ''b'') lone_b)) n j = served lone_b n j" for n j
      using own by (cases "j = ''b''") (simp_all add: only_def lone_served)
    then show ?thesis using True by blast
  qed
qed

definition lone_yaml :: yaml where
  "lone_yaml = sample_yaml\<lparr>Unmarshal_object := (\<lambda>s. Inr \<lparr>ob_APIVersion = ''envoyxds.io/v1alpha1'',
     ob_Kind = (if s = [] then ''List'' else if s = ''l'' then ''Listener'' else ''Route''),
     ob_Items = (if s = [] then [''b'', ''l'', ''x''] else [])\<rparr>),
     Unmarshal_Route := (\<lambda>s. Inr (if s = ''x'' then broken_route else sample_route ''b'' 2))\<rparr>"

lemma lone_decode: "decode lone_yaml [] = Inr ([sample_route ''b'' 2, broken_route], lone_listeners)"
  by (simp add: decode_def lone_yaml_def sample_yaml_def add_document_def addObject_def HasPrefix_def HasSuffix_def mset_at_def
      sample_listener_def lone_listeners_def)

theorem audit_predicts_the_controller_witness:
  "\<exists>lines. audit lone_rds lone_yaml [] ''n'' ''c'' = Inr (lines @ [Summary 2 (length lines)], length lines) \<and>
     ''b'' \<notin> subject ` set lines \<and> ''x'' \<in> subject ` set lines"
proof -
  have b: "om_Name (sample_route ''b'' 2) = ''b''" by (simp add: sample_route_def)
  have "distinct (map om_Name [sample_route ''b'' 2, broken_route])" by (simp add: b broken_parts)
  from audit_predicts_the_controller [OF lone_decode this refl lone_cluster lone_leftovers lone_inv lone_settled]
  obtain lines where a: "audit lone_rds lone_yaml [] ''n'' ''c'' = Inr (lines @ [Summary 2 (length lines)], length lines)"
    and l: "\<forall>rd\<in>set [sample_route ''b'' 2, broken_route]. \<forall>n. served lone_b n (om_Name rd) \<noteq> None \<longleftrightarrow>
       n \<in> set (routeNodes rd lone_listeners ''n'' ''c'') \<and> om_Name rd \<notin> subject ` set lines" by auto
  have "served lone_b (pair_id ''c'' ''n'') ''b'' \<noteq> None" by (simp add: lone_served)
  with l b have kept: "''b'' \<notin> subject ` set lines" by force
  have "served lone_b (pair_id ''c'' ''n'') ''x'' = None" by (simp add: lone_served)
  with l broken_parts(1) have
    "\<not> (pair_id ''c'' ''n'' \<in> set (routeNodes broken_route lone_listeners ''n'' ''c'') \<and> ''x'' \<notin> subject ` set lines)" by force
  moreover have "routeNodes broken_route lone_listeners ''n'' ''c'' = [pair_id ''c'' ''n'']"
    by (simp add: routeNodes_def Let_def lone_listeners_def broken_route_def sample_route_def listener_nodes_def
        sample_listener_def mget_def default_ids)
  ultimately show ?thesis using a kept by auto
qed

section \<open>What the audit does not look at\<close>

lemma chain_conflict_converts:
  "chain_conflict (env\<lparr>recast_route := f\<rparr>) p ls dn dc names = chain_conflict env p ls dn dc names"
proof -
  have "static_duplicate (env\<lparr>recast_route := f\<rparr>) m = static_duplicate env m" for m
    by (rule ext) (simp add: static_duplicate_def fcm_Compile_def split: option.split)
  then show ?thesis by (induction names) (simp_all add: Let_def split: option.split)
qed

text \<open>The audit never converts the configuration of a route: it reports the same whether the configurations are valid
  or not, while the controller serves no route whose configuration it cannot convert
  (\<open>Reconcile_unreadable\<close>).\<close>

theorem unconvertible_route_goes_unreported:
  "audit (env\<lparr>recast_route := f\<rparr>) y data dn dc = audit env y data dn dc"
proof -
  have "replay (env\<lparr>recast_route := f\<rparr>) ls dn dc rs (ss, report) = replay env ls dn dc rs (ss, report)" for ls rs ss report
    by (induction rs arbitrary: ss report)
      (auto simp: audit_conflict_def chain_conflict_converts fcm_Compile_def Let_def split: sum.split option.split)
  then show ?thesis by (simp add: audit_def split: sum.split prod.split)
qed

section \<open>Several files\<close>

lemma no_straddle: "take 3 s \<noteq> ''---'' \<Longrightarrow> take 3 (s @ CHR 0x0A # t) \<noteq> ''---''"
  by (cases s; cases "tl s"; cases "tl (tl s)") (auto simp: numeral_3_eq_3)

lemma take_three: "take 3 s = ''---'' \<Longrightarrow> take 3 (s @ t) = ''---'' \<and> drop 3 (s @ t) = drop 3 s @ t"
proof -
  assume a: "take 3 s = ''---''"
  then have "length (take 3 s) = 3" by simp
  then have "3 \<le> length s" by simp
  then show ?thesis using a by simp
qed

lemma split_docs_append:
  "split_docs part (a @ [CHR 0x0A] @ ''---'' @ b) = split_docs part a @ split_docs [] b"
proof (induction part a rule: split_docs.induct)
  case (2 part c s)
  then show ?case
    using no_straddle [of s "''---'' @ b"] take_three [of s "[CHR 0x0A] @ ''---'' @ b"] by auto
qed simp

text \<open>The files are read as separate documents: joining them runs no document into the next file.\<close>

theorem files_are_separate:
  assumes "\<forall>f\<in>set fs. read f = Inr (contents f)" and "fs \<noteq> []"
  shows "\<exists>data. read_files read fs = Inr data \<and>
    split_docs [] data = [] # concat (map (\<lambda>f. split_docs [] (CHR 0x0A # contents f)) fs)"
proof -
  have "\<exists>data. read_files read fs = Inr data \<and>
      (\<forall>part a. split_docs part (a @ data) =
        split_docs part a @ concat (map (\<lambda>f. split_docs [] (CHR 0x0A # contents f)) fs))" if "fs \<noteq> []"
    using assms(1) that
  proof (induction fs rule: induct_list012)
    case (2 f)
    then show ?case using split_docs_append by (simp del: split_docs.simps)
  next
    case (3 f g fs)
    then obtain data where d: "read_files read (g # fs) = Inr data" "\<And>part a. split_docs part (a @ data) =
        split_docs part a @ concat (map (\<lambda>f. split_docs [] (CHR 0x0A # contents f)) (g # fs))" by auto
    have "split_docs part (a @ [CHR 0x0A] @ ''---'' @ [CHR 0x0A] @ contents f @ data) =
        split_docs part a @ concat (map (\<lambda>f. split_docs [] (CHR 0x0A # contents f)) (f # g # fs))" for part a
      using split_docs_append [of part a "CHR 0x0A # contents f @ data"] d(2) [of "[]" "CHR 0x0A # contents f"]
      by (simp del: split_docs.simps)
    then show ?case using d(1) 3(3) by (simp del: split_docs.simps)
  qed simp
  then obtain data where "read_files read fs = Inr data" "split_docs [] ([] @ data) =
      split_docs [] [] @ concat (map (\<lambda>f. split_docs [] (CHR 0x0A # contents f)) fs)" using assms(2) by blast
  then show ?thesis by auto
qed

end
