(* ===== verification/GoTypes.thy ===== *)
theory GoTypes
  imports GoJson Base64 GoFloat
begin

text \<open>
  The Go types that \<open>tools/typegen\<close> generates, as data: a struct with its fields, the tags of its fields and the
  statements of its \<open>DeepCopyInto\<close>, an enum with its tables. A type refers to the types of its fields directly, so
  a generated file becomes a list of definitions, in which no type can be recursive. Every field of the generated
  files has the option \<open>omitempty\<close>, so the name in the tag represents the tag.
\<close>

section \<open>Types\<close>

datatype basic = Bool | Int32 | Int64 | Uint32 | Uint64 | Float64 | String

text \<open>The constants of an enum type, and its tables in both directions.\<close>

datatype goenum = GoEnum (enum_name: string) (enum_consts: "(string \<times> string) list")
  (names_of: "(int, string) gmap") (values_of: "(string, int) gmap")

text \<open>The statement of a \<open>DeepCopyInto\<close> for one field, \<open>if in.F != nil { ... }\<close>: \<open>CopyValue\<close> assigns the value behind
  a pointer (\<open>**out = **in\<close>), \<open>CopyInto\<close> calls its \<open>DeepCopyInto\<close>, \<open>CopySlice\<close> copies a slice (\<open>copy(*out, *in)\<close>),
  \<open>CopyElems\<close> assigns the values behind the pointers of a slice, \<open>CopyElemsInto\<close> calls their \<open>DeepCopyInto\<close>, and
  \<open>CopyMap\<close> copies the entries of a map. The statements of a function come in the order of the fields.\<close>

datatype copying = CopyValue | CopyInto | CopySlice | CopyElems | CopyElemsInto | CopyMap

datatype gotype =
    Basic basic
  | Enum goenum
  | Bytes
  | RawExtension
  | Ptr gotype
  | Slice gotype
  | Map gotype
  | Struct gostruct
and gostruct = GoStruct string "gofield list"
and gofield = Field string gotype string "copying option"

section \<open>Well-formed types\<close>

text \<open>The types the statements can copy: a pointer points to a basic value, a raw extension or a struct, a slice
  holds basic values, strings of an enum, or pointers to structs or raw extensions, a map holds pointers.\<close>

definition is_target :: "gotype \<Rightarrow> bool" where
  "is_target t = (case t of RawExtension \<Rightarrow> True | Struct S \<Rightarrow> True | _ \<Rightarrow> False)"

definition is_plain :: "gotype \<Rightarrow> bool" where
  "is_plain t = (case t of Basic b \<Rightarrow> True | Enum e \<Rightarrow> True | _ \<Rightarrow> False)"

definition shape_ok :: "gotype \<Rightarrow> bool" where
  "shape_ok t =
     (case t of
        Ptr u \<Rightarrow> is_target u \<or> (case u of Basic b \<Rightarrow> True | _ \<Rightarrow> False)
      | Slice (Ptr u) \<Rightarrow> is_target u
      | Slice u \<Rightarrow> is_plain u
      | Map (Ptr u) \<Rightarrow> is_target u
      | Bytes \<Rightarrow> True
      | _ \<Rightarrow> is_plain t)"
text \<open>What \<open>isPrimitiveType\<close> accepts; the five generators differ in whether it has \<open>runtime.RawExtension\<close> (\<open>raw\<close>).\<close>

definition isPrimitiveType :: "bool \<Rightarrow> gotype \<Rightarrow> bool" where
  "isPrimitiveType raw t = (case t of Basic b \<Rightarrow> True | RawExtension \<Rightarrow> raw | _ \<Rightarrow> False)"

text \<open>The statement \<open>writeDeepCopyField\<close> writes for a field of a type.\<close>

definition writeDeepCopyField :: "bool \<Rightarrow> gotype \<Rightarrow> copying option" where
  "writeDeepCopyField raw t =
     (case t of
        Ptr u \<Rightarrow> Some (if isPrimitiveType raw u then CopyValue else CopyInto)
      | Slice (Ptr u) \<Rightarrow> Some (if isPrimitiveType raw u then CopyElems else CopyElemsInto)
      | Slice u \<Rightarrow> Some CopySlice
      | Bytes \<Rightarrow> Some CopySlice
      | Map u \<Rightarrow> Some CopyMap
      | _ \<Rightarrow> None)"

text \<open>A text compared character by character, and a list of fields whose names in JSON differ.\<close>

fun same_text :: "string \<Rightarrow> string \<Rightarrow> bool" where
  "same_text [] [] = True"
| "same_text [] (d # t) = False"
| "same_text (c # s) [] = False"
| "same_text (c # s) (d # t) = (if c = d then same_text s t else False)"

fun tagged :: "string \<Rightarrow> gofield list \<Rightarrow> bool" where
  "tagged s [] = False"
| "tagged s (Field n t j c # fs) = (if same_text s j then True else tagged s fs)"

fun tags_differ :: "gofield list \<Rightarrow> bool" where
  "tags_differ [] = True"
| "tags_differ (Field n t j c # fs) = (if tagged j fs then False else tags_differ fs)"

text \<open>A struct that is generated: its tags differ, each field has a type that can be copied and the statement the
  generator writes for it, and so for every struct it mentions.\<close>

fun generated_type :: "bool \<Rightarrow> gotype \<Rightarrow> bool"
  and generated :: "bool \<Rightarrow> gostruct \<Rightarrow> bool"
  and generated_fields :: "bool \<Rightarrow> gofield list \<Rightarrow> bool" where
  "generated_type raw (Struct S) = generated raw S"
| "generated_type raw (Ptr t) = generated_type raw t"
| "generated_type raw (Slice t) = generated_type raw t"
| "generated_type raw (Map t) = generated_type raw t"
| "generated_type raw (Basic b) = True"
| "generated_type raw (Enum e) = True"
| "generated_type raw Bytes = True"
| "generated_type raw RawExtension = True"
| "generated raw (GoStruct n fs) = (if tags_differ fs then generated_fields raw fs else False)"
| "generated_fields raw [] = True"
| "generated_fields raw (Field n t j c # fs) =
     (if shape_ok t \<and> c = writeDeepCopyField raw t then
        if generated_type raw t then generated_fields raw fs else False
      else False)"

lemma same_text_iff [simp]: "same_text s t \<longleftrightarrow> s = t"
  by (induction s t rule: same_text.induct) auto

primrec field_tag :: "gofield \<Rightarrow> string" where
  "field_tag (Field n t j c) = j"

lemma tagged_iff [simp]: "tagged s fs \<longleftrightarrow> s \<in> field_tag ` set fs"
  by (induction s fs rule: tagged.induct) auto

lemma tags_differ_iff [simp]: "tags_differ fs \<longleftrightarrow> distinct (map field_tag fs)"
  by (induction fs rule: tags_differ.induct) auto

section \<open>Enums\<close>

text \<open>What \<open>writeEnum\<close> writes for an enum and its values.\<close>

definition writeEnum :: "string \<Rightarrow> (string, int) gmap \<Rightarrow> goenum" where
  "writeEnum n vs = GoEnum n (map (\<lambda>(s, i). (n @ ''_'' @ s, s)) vs) (map (\<lambda>(s, i). (i, s)) vs) vs"

text \<open>\<open>ToInt\<close>: the number of a name in any case, zero for a name the table does not have. Argument:
  \<open>strings.ToUpper\<close>.\<close>

definition ToInt :: "(string \<Rightarrow> string) \<Rightarrow> goenum \<Rightarrow> string \<Rightarrow> int" where
  "ToInt upper E x = (case mget (values_of E) (upper x) of None \<Rightarrow> 0 | Some i \<Rightarrow> i)"

text \<open>An enum as the generator writes it, with names in upper case and one number for each.\<close>

definition upper_text :: "string \<Rightarrow> bool" where
  "upper_text s = list_all (\<lambda>c. code c < 97) s"

fun enum_ok :: "goenum \<Rightarrow> bool" where
  "enum_ok (GoEnum n cs ns vs) \<longleftrightarrow>
     writeEnum n vs = GoEnum n cs ns vs \<and> distinct (map fst vs) \<and> distinct (map snd vs) \<and>
     list_all upper_text (map fst vs)"

end
