(* ===== verification/GenCds.thy ===== *)
theory GenCds
  imports GoTypes
begin

text \<open>
  The types of \<open>src/pkg/xds/types/cds/cds_generated.go\<close> in the order in which they refer to each other: the enums with
  their tables, then every struct with its fields and the statements of its \<open>DeepCopyInto\<close>.
\<close>

named_theorems cds_defs "the structs of the file"

section \<open>Enums\<close>

definition ApiConfigSource_ApiType :: goenum where
  "ApiConfigSource_ApiType = GoEnum ''ApiConfigSource_ApiType''
    [(''ApiConfigSource_ApiType_DEPRECATED_AND_UNAVAILABLE_DO_NOT_USE'', ''DEPRECATED_AND_UNAVAILABLE_DO_NOT_USE''),
     (''ApiConfigSource_ApiType_REST'', ''REST''), (''ApiConfigSource_ApiType_GRPC'', ''GRPC''),
     (''ApiConfigSource_ApiType_DELTA_GRPC'', ''DELTA_GRPC''),
     (''ApiConfigSource_ApiType_AGGREGATED_GRPC'', ''AGGREGATED_GRPC''),
     (''ApiConfigSource_ApiType_AGGREGATED_DELTA_GRPC'', ''AGGREGATED_DELTA_GRPC'')]
    [(0, ''DEPRECATED_AND_UNAVAILABLE_DO_NOT_USE''), (1, ''REST''), (2, ''GRPC''), (3, ''DELTA_GRPC''),
     (5, ''AGGREGATED_GRPC''), (6, ''AGGREGATED_DELTA_GRPC'')]
    [(''DEPRECATED_AND_UNAVAILABLE_DO_NOT_USE'', 0), (''REST'', 1), (''GRPC'', 2), (''DELTA_GRPC'', 3),
     (''AGGREGATED_GRPC'', 5), (''AGGREGATED_DELTA_GRPC'', 6)]"

definition ApiVersion :: goenum where
  "ApiVersion = GoEnum ''ApiVersion''
    [(''ApiVersion_AUTO'', ''AUTO''), (''ApiVersion_V2'', ''V2''), (''ApiVersion_V3'', ''V3'')]
    [(0, ''AUTO''), (1, ''V2''), (2, ''V3'')]
    [(''AUTO'', 0), (''V2'', 1), (''V3'', 2)]"

definition Cluster_ClusterProtocolSelection :: goenum where
  "Cluster_ClusterProtocolSelection = GoEnum ''Cluster_ClusterProtocolSelection''
    [(''Cluster_ClusterProtocolSelection_USE_CONFIGURED_PROTOCOL'', ''USE_CONFIGURED_PROTOCOL''),
     (''Cluster_ClusterProtocolSelection_USE_DOWNSTREAM_PROTOCOL'', ''USE_DOWNSTREAM_PROTOCOL'')]
    [(0, ''USE_CONFIGURED_PROTOCOL''), (1, ''USE_DOWNSTREAM_PROTOCOL'')]
    [(''USE_CONFIGURED_PROTOCOL'', 0), (''USE_DOWNSTREAM_PROTOCOL'', 1)]"

definition Cluster_DiscoveryType :: goenum where
  "Cluster_DiscoveryType = GoEnum ''Cluster_DiscoveryType''
    [(''Cluster_DiscoveryType_STATIC'', ''STATIC''), (''Cluster_DiscoveryType_STRICT_DNS'', ''STRICT_DNS''),
     (''Cluster_DiscoveryType_LOGICAL_DNS'', ''LOGICAL_DNS''), (''Cluster_DiscoveryType_EDS'', ''EDS''),
     (''Cluster_DiscoveryType_ORIGINAL_DST'', ''ORIGINAL_DST'')]
    [(0, ''STATIC''), (1, ''STRICT_DNS''), (2, ''LOGICAL_DNS''), (3, ''EDS''), (4, ''ORIGINAL_DST'')]
    [(''STATIC'', 0), (''STRICT_DNS'', 1), (''LOGICAL_DNS'', 2), (''EDS'', 3), (''ORIGINAL_DST'', 4)]"

definition Cluster_DnsLookupFamily :: goenum where
  "Cluster_DnsLookupFamily = GoEnum ''Cluster_DnsLookupFamily''
    [(''Cluster_DnsLookupFamily_AUTO'', ''AUTO''), (''Cluster_DnsLookupFamily_V4_ONLY'', ''V4_ONLY''),
     (''Cluster_DnsLookupFamily_V6_ONLY'', ''V6_ONLY''),
     (''Cluster_DnsLookupFamily_V4_PREFERRED'', ''V4_PREFERRED''), (''Cluster_DnsLookupFamily_ALL'', ''ALL'')]
    [(0, ''AUTO''), (1, ''V4_ONLY''), (2, ''V6_ONLY''), (3, ''V4_PREFERRED''), (4, ''ALL'')]
    [(''AUTO'', 0), (''V4_ONLY'', 1), (''V6_ONLY'', 2), (''V4_PREFERRED'', 3), (''ALL'', 4)]"

definition Cluster_LbPolicy :: goenum where
  "Cluster_LbPolicy = GoEnum ''Cluster_LbPolicy''
    [(''Cluster_LbPolicy_ROUND_ROBIN'', ''ROUND_ROBIN''), (''Cluster_LbPolicy_LEAST_REQUEST'', ''LEAST_REQUEST''),
     (''Cluster_LbPolicy_RING_HASH'', ''RING_HASH''), (''Cluster_LbPolicy_RANDOM'', ''RANDOM''),
     (''Cluster_LbPolicy_MAGLEV'', ''MAGLEV''), (''Cluster_LbPolicy_CLUSTER_PROVIDED'', ''CLUSTER_PROVIDED''),
     (''Cluster_LbPolicy_LOAD_BALANCING_POLICY_CONFIG'', ''LOAD_BALANCING_POLICY_CONFIG'')]
    [(0, ''ROUND_ROBIN''), (1, ''LEAST_REQUEST''), (2, ''RING_HASH''), (3, ''RANDOM''), (5, ''MAGLEV''),
     (6, ''CLUSTER_PROVIDED''), (7, ''LOAD_BALANCING_POLICY_CONFIG'')]
    [(''ROUND_ROBIN'', 0), (''LEAST_REQUEST'', 1), (''RING_HASH'', 2), (''RANDOM'', 3), (''MAGLEV'', 5),
     (''CLUSTER_PROVIDED'', 6), (''LOAD_BALANCING_POLICY_CONFIG'', 7)]"

definition Cluster_LbSubsetConfig_LbSubsetFallbackPolicy :: goenum where
  "Cluster_LbSubsetConfig_LbSubsetFallbackPolicy = GoEnum ''Cluster_LbSubsetConfig_LbSubsetFallbackPolicy''
    [(''Cluster_LbSubsetConfig_LbSubsetFallbackPolicy_NO_FALLBACK'', ''NO_FALLBACK''),
     (''Cluster_LbSubsetConfig_LbSubsetFallbackPolicy_ANY_ENDPOINT'', ''ANY_ENDPOINT''),
     (''Cluster_LbSubsetConfig_LbSubsetFallbackPolicy_DEFAULT_SUBSET'', ''DEFAULT_SUBSET'')]
    [(0, ''NO_FALLBACK''), (1, ''ANY_ENDPOINT''), (2, ''DEFAULT_SUBSET'')]
    [(''NO_FALLBACK'', 0), (''ANY_ENDPOINT'', 1), (''DEFAULT_SUBSET'', 2)]"

definition Cluster_LbSubsetConfig_LbSubsetMetadataFallbackPolicy :: goenum where
  "Cluster_LbSubsetConfig_LbSubsetMetadataFallbackPolicy = GoEnum ''Cluster_LbSubsetConfig_LbSubsetMetadataFallbackPolicy''
    [(''Cluster_LbSubsetConfig_LbSubsetMetadataFallbackPolicy_METADATA_NO_FALLBACK'', ''METADATA_NO_FALLBACK''),
     (''Cluster_LbSubsetConfig_LbSubsetMetadataFallbackPolicy_FALLBACK_LIST'', ''FALLBACK_LIST'')]
    [(0, ''METADATA_NO_FALLBACK''), (1, ''FALLBACK_LIST'')]
    [(''METADATA_NO_FALLBACK'', 0), (''FALLBACK_LIST'', 1)]"

definition Cluster_LbSubsetConfig_LbSubsetSelector_LbSubsetSelectorFallbackPolicy :: goenum where
  "Cluster_LbSubsetConfig_LbSubsetSelector_LbSubsetSelectorFallbackPolicy = GoEnum ''Cluster_LbSubsetConfig_LbSubsetSelector_LbSubsetSelectorFallbackPolicy''
    [(''Cluster_LbSubsetConfig_LbSubsetSelector_LbSubsetSelectorFallbackPolicy_NOT_DEFINED'', ''NOT_DEFINED''),
     (''Cluster_LbSubsetConfig_LbSubsetSelector_LbSubsetSelectorFallbackPolicy_NO_FALLBACK'', ''NO_FALLBACK''),
     (''Cluster_LbSubsetConfig_LbSubsetSelector_LbSubsetSelectorFallbackPolicy_ANY_ENDPOINT'', ''ANY_ENDPOINT''),
     (''Cluster_LbSubsetConfig_LbSubsetSelector_LbSubsetSelectorFallbackPolicy_DEFAULT_SUBSET'', ''DEFAULT_SUBSET''),
     (''Cluster_LbSubsetConfig_LbSubsetSelector_LbSubsetSelectorFallbackPolicy_KEYS_SUBSET'', ''KEYS_SUBSET'')]
    [(0, ''NOT_DEFINED''), (1, ''NO_FALLBACK''), (2, ''ANY_ENDPOINT''), (3, ''DEFAULT_SUBSET''), (4, ''KEYS_SUBSET'')]
    [(''NOT_DEFINED'', 0), (''NO_FALLBACK'', 1), (''ANY_ENDPOINT'', 2), (''DEFAULT_SUBSET'', 3), (''KEYS_SUBSET'', 4)]"

definition Cluster_RingHashLbConfig_HashFunction :: goenum where
  "Cluster_RingHashLbConfig_HashFunction = GoEnum ''Cluster_RingHashLbConfig_HashFunction''
    [(''Cluster_RingHashLbConfig_HashFunction_XX_HASH'', ''XX_HASH''),
     (''Cluster_RingHashLbConfig_HashFunction_MURMUR_HASH_2'', ''MURMUR_HASH_2'')]
    [(0, ''XX_HASH''), (1, ''MURMUR_HASH_2'')]
    [(''XX_HASH'', 0), (''MURMUR_HASH_2'', 1)]"

definition CodecClientType :: goenum where
  "CodecClientType = GoEnum ''CodecClientType''
    []
    []
    []"

definition FractionalPercent_DenominatorType :: goenum where
  "FractionalPercent_DenominatorType = GoEnum ''FractionalPercent_DenominatorType''
    [(''FractionalPercent_DenominatorType_HUNDRED'', ''HUNDRED''),
     (''FractionalPercent_DenominatorType_TEN_THOUSAND'', ''TEN_THOUSAND''),
     (''FractionalPercent_DenominatorType_MILLION'', ''MILLION'')]
    [(0, ''HUNDRED''), (1, ''TEN_THOUSAND''), (2, ''MILLION'')]
    [(''HUNDRED'', 0), (''TEN_THOUSAND'', 1), (''MILLION'', 2)]"

definition HeaderValueOption_HeaderAppendAction :: goenum where
  "HeaderValueOption_HeaderAppendAction = GoEnum ''HeaderValueOption_HeaderAppendAction''
    [(''HeaderValueOption_HeaderAppendAction_APPEND_IF_EXISTS_OR_ADD'', ''APPEND_IF_EXISTS_OR_ADD''),
     (''HeaderValueOption_HeaderAppendAction_ADD_IF_ABSENT'', ''ADD_IF_ABSENT''),
     (''HeaderValueOption_HeaderAppendAction_OVERWRITE_IF_EXISTS_OR_ADD'', ''OVERWRITE_IF_EXISTS_OR_ADD''),
     (''HeaderValueOption_HeaderAppendAction_OVERWRITE_IF_EXISTS'', ''OVERWRITE_IF_EXISTS'')]
    [(0, ''APPEND_IF_EXISTS_OR_ADD''), (1, ''ADD_IF_ABSENT''), (2, ''OVERWRITE_IF_EXISTS_OR_ADD''),
     (3, ''OVERWRITE_IF_EXISTS'')]
    [(''APPEND_IF_EXISTS_OR_ADD'', 0), (''ADD_IF_ABSENT'', 1), (''OVERWRITE_IF_EXISTS_OR_ADD'', 2),
     (''OVERWRITE_IF_EXISTS'', 3)]"

definition HealthStatus :: goenum where
  "HealthStatus = GoEnum ''HealthStatus''
    [(''HealthStatus_UNKNOWN'', ''UNKNOWN''), (''HealthStatus_HEALTHY'', ''HEALTHY''),
     (''HealthStatus_UNHEALTHY'', ''UNHEALTHY''), (''HealthStatus_DRAINING'', ''DRAINING''),
     (''HealthStatus_TIMEOUT'', ''TIMEOUT''), (''HealthStatus_DEGRADED'', ''DEGRADED'')]
    [(0, ''UNKNOWN''), (1, ''HEALTHY''), (2, ''UNHEALTHY''), (3, ''DRAINING''), (4, ''TIMEOUT''), (5, ''DEGRADED'')]
    [(''UNKNOWN'', 0), (''HEALTHY'', 1), (''UNHEALTHY'', 2), (''DRAINING'', 3), (''TIMEOUT'', 4), (''DEGRADED'', 5)]"

definition HttpProtocolOptions_HeadersWithUnderscoresAction :: goenum where
  "HttpProtocolOptions_HeadersWithUnderscoresAction = GoEnum ''HttpProtocolOptions_HeadersWithUnderscoresAction''
    [(''HttpProtocolOptions_HeadersWithUnderscoresAction_ALLOW'', ''ALLOW''),
     (''HttpProtocolOptions_HeadersWithUnderscoresAction_REJECT_REQUEST'', ''REJECT_REQUEST''),
     (''HttpProtocolOptions_HeadersWithUnderscoresAction_DROP_HEADER'', ''DROP_HEADER'')]
    [(0, ''ALLOW''), (1, ''REJECT_REQUEST''), (2, ''DROP_HEADER'')]
    [(''ALLOW'', 0), (''REJECT_REQUEST'', 1), (''DROP_HEADER'', 2)]"

definition KeyValueAppend_KeyValueAppendAction :: goenum where
  "KeyValueAppend_KeyValueAppendAction = GoEnum ''KeyValueAppend_KeyValueAppendAction''
    [(''KeyValueAppend_KeyValueAppendAction_APPEND_IF_EXISTS_OR_ADD'', ''APPEND_IF_EXISTS_OR_ADD''),
     (''KeyValueAppend_KeyValueAppendAction_ADD_IF_ABSENT'', ''ADD_IF_ABSENT''),
     (''KeyValueAppend_KeyValueAppendAction_OVERWRITE_IF_EXISTS_OR_ADD'', ''OVERWRITE_IF_EXISTS_OR_ADD''),
     (''KeyValueAppend_KeyValueAppendAction_OVERWRITE_IF_EXISTS'', ''OVERWRITE_IF_EXISTS'')]
    [(0, ''APPEND_IF_EXISTS_OR_ADD''), (1, ''ADD_IF_ABSENT''), (2, ''OVERWRITE_IF_EXISTS_OR_ADD''),
     (3, ''OVERWRITE_IF_EXISTS'')]
    [(''APPEND_IF_EXISTS_OR_ADD'', 0), (''ADD_IF_ABSENT'', 1), (''OVERWRITE_IF_EXISTS_OR_ADD'', 2),
     (''OVERWRITE_IF_EXISTS'', 3)]"

definition ProxyProtocolConfig_Version :: goenum where
  "ProxyProtocolConfig_Version = GoEnum ''ProxyProtocolConfig_Version''
    []
    []
    []"

definition ProxyProtocolPassThroughTLVs_PassTLVsMatchType :: goenum where
  "ProxyProtocolPassThroughTLVs_PassTLVsMatchType = GoEnum ''ProxyProtocolPassThroughTLVs_PassTLVsMatchType''
    []
    []
    []"

definition RequestMethod :: goenum where
  "RequestMethod = GoEnum ''RequestMethod''
    [(''RequestMethod_METHOD_UNSPECIFIED'', ''METHOD_UNSPECIFIED''), (''RequestMethod_GET'', ''GET''),
     (''RequestMethod_HEAD'', ''HEAD''), (''RequestMethod_POST'', ''POST''), (''RequestMethod_PUT'', ''PUT''),
     (''RequestMethod_DELETE'', ''DELETE''), (''RequestMethod_CONNECT'', ''CONNECT''),
     (''RequestMethod_OPTIONS'', ''OPTIONS''), (''RequestMethod_TRACE'', ''TRACE''),
     (''RequestMethod_PATCH'', ''PATCH'')]
    [(0, ''METHOD_UNSPECIFIED''), (1, ''GET''), (2, ''HEAD''), (3, ''POST''), (4, ''PUT''), (5, ''DELETE''),
     (6, ''CONNECT''), (7, ''OPTIONS''), (8, ''TRACE''), (9, ''PATCH'')]
    [(''METHOD_UNSPECIFIED'', 0), (''GET'', 1), (''HEAD'', 2), (''POST'', 3), (''PUT'', 4), (''DELETE'', 5),
     (''CONNECT'', 6), (''OPTIONS'', 7), (''TRACE'', 8), (''PATCH'', 9)]"

definition RoutingPriority :: goenum where
  "RoutingPriority = GoEnum ''RoutingPriority''
    [(''RoutingPriority_DEFAULT'', ''DEFAULT''), (''RoutingPriority_HIGH'', ''HIGH'')]
    [(0, ''DEFAULT''), (1, ''HIGH'')]
    [(''DEFAULT'', 0), (''HIGH'', 1)]"

definition SocketAddress_Protocol :: goenum where
  "SocketAddress_Protocol = GoEnum ''SocketAddress_Protocol''
    [(''SocketAddress_Protocol_TCP'', ''TCP''), (''SocketAddress_Protocol_UDP'', ''UDP'')]
    [(0, ''TCP''), (1, ''UDP'')]
    [(''TCP'', 0), (''UDP'', 1)]"

definition SocketOption_SocketState :: goenum where
  "SocketOption_SocketState = GoEnum ''SocketOption_SocketState''
    [(''SocketOption_SocketState_STATE_PREBIND'', ''STATE_PREBIND''),
     (''SocketOption_SocketState_STATE_BOUND'', ''STATE_BOUND''),
     (''SocketOption_SocketState_STATE_LISTENING'', ''STATE_LISTENING'')]
    [(0, ''STATE_PREBIND''), (1, ''STATE_BOUND''), (2, ''STATE_LISTENING'')]
    [(''STATE_PREBIND'', 0), (''STATE_BOUND'', 1), (''STATE_LISTENING'', 2)]"

definition TrafficDirection :: goenum where
  "TrafficDirection = GoEnum ''TrafficDirection''
    [(''TrafficDirection_UNSPECIFIED'', ''UNSPECIFIED''), (''TrafficDirection_INBOUND'', ''INBOUND''),
     (''TrafficDirection_OUTBOUND'', ''OUTBOUND'')]
    [(0, ''UNSPECIFIED''), (1, ''INBOUND''), (2, ''OUTBOUND'')]
    [(''UNSPECIFIED'', 0), (''INBOUND'', 1), (''OUTBOUND'', 2)]"

definition UpstreamConnectionOptions_FirstAddressFamilyVersion :: goenum where
  "UpstreamConnectionOptions_FirstAddressFamilyVersion = GoEnum ''UpstreamConnectionOptions_FirstAddressFamilyVersion''
    [(''UpstreamConnectionOptions_FirstAddressFamilyVersion_DEFAULT'', ''DEFAULT''),
     (''UpstreamConnectionOptions_FirstAddressFamilyVersion_V4'', ''V4''),
     (''UpstreamConnectionOptions_FirstAddressFamilyVersion_V6'', ''V6'')]
    [(0, ''DEFAULT''), (1, ''V4''), (2, ''V6'')]
    [(''DEFAULT'', 0), (''V4'', 1), (''V6'', 2)]"

section \<open>Structs\<close>

definition TransportSocket :: gostruct where [cds_defs]:
  "TransportSocket = GoStruct ''TransportSocket''
    [Field ''TypedConfig'' (Ptr RawExtension) ''typed_config'' (Some CopyValue),
     Field ''Name'' (Basic String) ''name'' None]"

definition Cluster_TransportSocketMatch :: gostruct where [cds_defs]:
  "Cluster_TransportSocketMatch = GoStruct ''Cluster_TransportSocketMatch''
    [Field ''Name'' (Basic String) ''name'' None, Field ''Match'' (Ptr RawExtension) ''match'' (Some CopyValue),
     Field ''TransportSocket'' (Ptr (Struct TransportSocket)) ''transport_socket'' (Some CopyInto)]"

definition WatchedDirectory :: gostruct where [cds_defs]:
  "WatchedDirectory = GoStruct ''WatchedDirectory''
    [Field ''Path'' (Basic String) ''path'' None]"

definition PathConfigSource :: gostruct where [cds_defs]:
  "PathConfigSource = GoStruct ''PathConfigSource''
    [Field ''Path'' (Basic String) ''path'' None,
     Field ''WatchedDirectory'' (Ptr (Struct WatchedDirectory)) ''watched_directory'' (Some CopyInto)]"

definition HeaderValue :: gostruct where [cds_defs]:
  "HeaderValue = GoStruct ''HeaderValue''
    [Field ''Key'' (Basic String) ''key'' None, Field ''Value'' (Basic String) ''value'' None,
     Field ''RawValue'' Bytes ''raw_value'' (Some CopySlice)]"

definition BackoffStrategy :: gostruct where [cds_defs]:
  "BackoffStrategy = GoStruct ''BackoffStrategy''
    [Field ''BaseInterval'' (Ptr (Basic String)) ''base_interval'' (Some CopyValue),
     Field ''MaxInterval'' (Ptr (Basic String)) ''max_interval'' (Some CopyValue)]"

definition RetryPolicy_RetryPriority :: gostruct where [cds_defs]:
  "RetryPolicy_RetryPriority = GoStruct ''RetryPolicy_RetryPriority''
    [Field ''Name'' (Basic String) ''name'' None,
     Field ''TypedConfig'' (Ptr RawExtension) ''typed_config'' (Some CopyValue)]"

definition RetryPolicy_RetryHostPredicate :: gostruct where [cds_defs]:
  "RetryPolicy_RetryHostPredicate = GoStruct ''RetryPolicy_RetryHostPredicate''
    [Field ''Name'' (Basic String) ''name'' None,
     Field ''TypedConfig'' (Ptr RawExtension) ''typed_config'' (Some CopyValue)]"

definition RetryPolicy :: gostruct where [cds_defs]:
  "RetryPolicy = GoStruct ''RetryPolicy''
    [Field ''RetryBackOff'' (Ptr (Struct BackoffStrategy)) ''retry_back_off'' (Some CopyInto),
     Field ''NumRetries'' (Ptr (Basic Uint32)) ''num_retries'' (Some CopyValue),
     Field ''RetryOn'' (Basic String) ''retry_on'' None,
     Field ''RetryPriority'' (Ptr (Struct RetryPolicy_RetryPriority)) ''retry_priority'' (Some CopyInto),
     Field ''RetryHostPredicate'' (Slice (Ptr (Struct RetryPolicy_RetryHostPredicate))) ''retry_host_predicate'' (Some CopyElemsInto),
     Field ''HostSelectionRetryMaxAttempts'' (Basic Int64) ''host_selection_retry_max_attempts'' None]"

definition GrpcService :: gostruct where [cds_defs]:
  "GrpcService = GoStruct ''GrpcService''
    [Field ''EnvoyGrpc'' (Ptr RawExtension) ''envoy_grpc'' (Some CopyValue),
     Field ''GoogleGrpc'' (Ptr RawExtension) ''google_grpc'' (Some CopyValue),
     Field ''SslCredentials'' (Ptr RawExtension) ''ssl_credentials'' (Some CopyValue),
     Field ''GoogleDefault'' (Ptr (Basic Bool)) ''google_default'' (Some CopyValue),
     Field ''GoogleComputeEngine'' (Ptr (Basic Bool)) ''google_compute_engine'' (Some CopyValue),
     Field ''GoogleIam'' (Ptr RawExtension) ''google_iam'' (Some CopyValue),
     Field ''FromPlugin'' (Ptr RawExtension) ''from_plugin'' (Some CopyValue),
     Field ''TypedConfig'' (Ptr RawExtension) ''typed_config'' (Some CopyValue),
     Field ''StringValue'' (Basic String) ''string_value'' None, Field ''IntValue'' (Basic Int64) ''int_value'' None,
     Field ''Timeout'' (Ptr (Basic String)) ''timeout'' (Some CopyValue),
     Field ''InitialMetadata'' (Slice (Ptr (Struct HeaderValue))) ''initial_metadata'' (Some CopyElemsInto),
     Field ''RetryPolicy'' (Ptr (Struct RetryPolicy)) ''retry_policy'' (Some CopyInto)]"

definition RateLimitSettings :: gostruct where [cds_defs]:
  "RateLimitSettings = GoStruct ''RateLimitSettings''
    [Field ''MaxTokens'' (Ptr (Basic Uint32)) ''max_tokens'' (Some CopyValue),
     Field ''FillRate'' (Ptr (Basic Float64)) ''fill_rate'' (Some CopyValue)]"

definition TypedExtensionConfig :: gostruct where [cds_defs]:
  "TypedExtensionConfig = GoStruct ''TypedExtensionConfig''
    [Field ''Name'' (Basic String) ''name'' None,
     Field ''TypedConfig'' (Ptr RawExtension) ''typed_config'' (Some CopyValue)]"

definition ApiConfigSource :: gostruct where [cds_defs]:
  "ApiConfigSource = GoStruct ''ApiConfigSource''
    [Field ''ApiType'' (Enum ApiConfigSource_ApiType) ''api_type'' None,
     Field ''TransportApiVersion'' (Enum ApiVersion) ''transport_api_version'' None,
     Field ''ClusterNames'' (Slice (Basic String)) ''cluster_names'' (Some CopySlice),
     Field ''GrpcServices'' (Slice (Ptr (Struct GrpcService))) ''grpc_services'' (Some CopyElemsInto),
     Field ''RefreshDelay'' (Ptr (Basic String)) ''refresh_delay'' (Some CopyValue),
     Field ''RequestTimeout'' (Ptr (Basic String)) ''request_timeout'' (Some CopyValue),
     Field ''RateLimitSettings'' (Ptr (Struct RateLimitSettings)) ''rate_limit_settings'' (Some CopyInto),
     Field ''SetNodeOnFirstMessageOnly'' (Basic Bool) ''set_node_on_first_message_only'' None,
     Field ''ConfigValidators'' (Slice (Ptr (Struct TypedExtensionConfig))) ''config_validators'' (Some CopyElemsInto)]"

definition SelfConfigSource :: gostruct where [cds_defs]:
  "SelfConfigSource = GoStruct ''SelfConfigSource''
    [Field ''TransportApiVersion'' (Enum ApiVersion) ''transport_api_version'' None]"

definition ConfigSource :: gostruct where [cds_defs]:
  "ConfigSource = GoStruct ''ConfigSource''
    [Field ''Path'' (Basic String) ''path'' None,
     Field ''PathConfigSource'' (Ptr (Struct PathConfigSource)) ''path_config_source'' (Some CopyInto),
     Field ''ApiConfigSource'' (Ptr (Struct ApiConfigSource)) ''api_config_source'' (Some CopyInto),
     Field ''Ads'' (Ptr RawExtension) ''ads'' (Some CopyValue),
     Field ''Self'' (Ptr (Struct SelfConfigSource)) ''self'' (Some CopyInto),
     Field ''InitialFetchTimeout'' (Ptr (Basic String)) ''initial_fetch_timeout'' (Some CopyValue),
     Field ''ResourceApiVersion'' (Enum ApiVersion) ''resource_api_version'' None]"

definition Cluster_EdsClusterConfig :: gostruct where [cds_defs]:
  "Cluster_EdsClusterConfig = GoStruct ''Cluster_EdsClusterConfig''
    [Field ''EdsConfig'' (Ptr (Struct ConfigSource)) ''eds_config'' (Some CopyInto),
     Field ''ServiceName'' (Basic String) ''service_name'' None]"

definition Locality :: gostruct where [cds_defs]:
  "Locality = GoStruct ''Locality''
    [Field ''Region'' (Basic String) ''region'' None, Field ''Zone'' (Basic String) ''zone'' None,
     Field ''SubZone'' (Basic String) ''sub_zone'' None]"

definition Metadata :: gostruct where [cds_defs]:
  "Metadata = GoStruct ''Metadata''
    [Field ''FilterMetadata'' (Map (Ptr RawExtension)) ''filter_metadata'' (Some CopyMap),
     Field ''TypedFilterMetadata'' (Map (Ptr RawExtension)) ''typed_filter_metadata'' (Some CopyMap)]"

definition SocketAddress :: gostruct where [cds_defs]:
  "SocketAddress = GoStruct ''SocketAddress''
    [Field ''Protocol'' (Enum SocketAddress_Protocol) ''protocol'' None,
     Field ''Address'' (Basic String) ''address'' None, Field ''PortValue'' (Basic Uint32) ''port_value'' None,
     Field ''NamedPort'' (Basic String) ''named_port'' None,
     Field ''ResolverName'' (Basic String) ''resolver_name'' None,
     Field ''Ipv4Compat'' (Basic Bool) ''ipv4_compat'' None,
     Field ''NetworkNamespaceFilepath'' (Basic String) ''network_namespace_filepath'' None]"

definition Pipe :: gostruct where [cds_defs]:
  "Pipe = GoStruct ''Pipe''
    [Field ''Path'' (Basic String) ''path'' None, Field ''Mode'' (Basic Uint32) ''mode'' None]"

definition EnvoyInternalAddress :: gostruct where [cds_defs]:
  "EnvoyInternalAddress = GoStruct ''EnvoyInternalAddress''
    [Field ''ServerListenerName'' (Basic String) ''server_listener_name'' None,
     Field ''EndpointId'' (Basic String) ''endpoint_id'' None]"

definition Address :: gostruct where [cds_defs]:
  "Address = GoStruct ''Address''
    [Field ''SocketAddress'' (Ptr (Struct SocketAddress)) ''socket_address'' (Some CopyInto),
     Field ''Pipe'' (Ptr (Struct Pipe)) ''pipe'' (Some CopyInto),
     Field ''EnvoyInternalAddress'' (Ptr (Struct EnvoyInternalAddress)) ''envoy_internal_address'' (Some CopyInto)]"

definition Endpoint_HealthCheckConfig :: gostruct where [cds_defs]:
  "Endpoint_HealthCheckConfig = GoStruct ''Endpoint_HealthCheckConfig''
    [Field ''PortValue'' (Basic Uint32) ''port_value'' None, Field ''Hostname'' (Basic String) ''hostname'' None,
     Field ''Address'' (Ptr (Struct Address)) ''address'' (Some CopyInto),
     Field ''DisableActiveHealthCheck'' (Basic Bool) ''disable_active_health_check'' None]"

definition Endpoint_AdditionalAddress :: gostruct where [cds_defs]:
  "Endpoint_AdditionalAddress = GoStruct ''Endpoint_AdditionalAddress''
    [Field ''Address'' (Ptr (Struct Address)) ''address'' (Some CopyInto)]"

definition Endpoint :: gostruct where [cds_defs]:
  "Endpoint = GoStruct ''Endpoint''
    [Field ''Address'' (Ptr (Struct Address)) ''address'' (Some CopyInto),
     Field ''HealthCheckConfig'' (Ptr (Struct Endpoint_HealthCheckConfig)) ''health_check_config'' (Some CopyInto),
     Field ''Hostname'' (Basic String) ''hostname'' None,
     Field ''AdditionalAddresses'' (Slice (Ptr (Struct Endpoint_AdditionalAddress))) ''additional_addresses'' (Some CopyElemsInto)]"

definition LbEndpoint :: gostruct where [cds_defs]:
  "LbEndpoint = GoStruct ''LbEndpoint''
    [Field ''Endpoint'' (Ptr (Struct Endpoint)) ''endpoint'' (Some CopyInto),
     Field ''EndpointName'' (Basic String) ''endpoint_name'' None,
     Field ''HealthStatus'' (Enum HealthStatus) ''health_status'' None,
     Field ''Metadata'' (Ptr (Struct Metadata)) ''metadata'' (Some CopyInto),
     Field ''LoadBalancingWeight'' (Ptr (Basic Uint32)) ''load_balancing_weight'' (Some CopyValue)]"

definition LedsClusterLocalityConfig :: gostruct where [cds_defs]:
  "LedsClusterLocalityConfig = GoStruct ''LedsClusterLocalityConfig''
    [Field ''LedsConfig'' (Ptr (Struct ConfigSource)) ''leds_config'' (Some CopyInto),
     Field ''LedsCollectionName'' (Basic String) ''leds_collection_name'' None]"

definition LocalityLbEndpoints :: gostruct where [cds_defs]:
  "LocalityLbEndpoints = GoStruct ''LocalityLbEndpoints''
    [Field ''Locality'' (Ptr (Struct Locality)) ''locality'' (Some CopyInto),
     Field ''Metadata'' (Ptr (Struct Metadata)) ''metadata'' (Some CopyInto),
     Field ''LbEndpoints'' (Slice (Ptr (Struct LbEndpoint))) ''lb_endpoints'' (Some CopyElemsInto),
     Field ''LoadBalancerEndpoints'' (Ptr RawExtension) ''load_balancer_endpoints'' (Some CopyValue),
     Field ''LedsClusterLocalityConfig'' (Ptr (Struct LedsClusterLocalityConfig)) ''leds_cluster_locality_config'' (Some CopyInto),
     Field ''LoadBalancingWeight'' (Ptr (Basic Uint32)) ''load_balancing_weight'' (Some CopyValue),
     Field ''Priority'' (Basic Uint32) ''priority'' None,
     Field ''Proximity'' (Ptr (Basic Uint32)) ''proximity'' (Some CopyValue)]"

definition ClusterLoadAssignment :: gostruct where [cds_defs]:
  "ClusterLoadAssignment = GoStruct ''ClusterLoadAssignment''
    [Field ''ClusterName'' (Basic String) ''cluster_name'' None,
     Field ''Endpoints'' (Slice (Ptr (Struct LocalityLbEndpoints))) ''endpoints'' (Some CopyElemsInto),
     Field ''NamedEndpoints'' (Map (Ptr (Struct Endpoint))) ''named_endpoints'' (Some CopyMap),
     Field ''Policy'' (Ptr RawExtension) ''policy'' (Some CopyValue)]"

definition EventServiceConfig :: gostruct where [cds_defs]:
  "EventServiceConfig = GoStruct ''EventServiceConfig''
    [Field ''TypedConfig'' (Ptr RawExtension) ''typed_config'' (Some CopyValue)]"

definition HealthCheck_TlsOptions :: gostruct where [cds_defs]:
  "HealthCheck_TlsOptions = GoStruct ''HealthCheck_TlsOptions''
    [Field ''AlpnProtocols'' (Slice (Basic String)) ''alpn_protocols'' (Some CopySlice)]"

definition HealthCheck :: gostruct where [cds_defs]:
  "HealthCheck = GoStruct ''HealthCheck''
    [Field ''TypedConfig'' (Ptr RawExtension) ''typed_config'' (Some CopyValue),
     Field ''Timeout'' (Ptr (Basic String)) ''timeout'' (Some CopyValue),
     Field ''Interval'' (Ptr (Basic String)) ''interval'' (Some CopyValue),
     Field ''InitialJitter'' (Ptr (Basic String)) ''initial_jitter'' (Some CopyValue),
     Field ''IntervalJitter'' (Ptr (Basic String)) ''interval_jitter'' (Some CopyValue),
     Field ''IntervalJitterPercent'' (Basic Uint32) ''interval_jitter_percent'' None,
     Field ''UnhealthyThreshold'' (Ptr (Basic Uint32)) ''unhealthy_threshold'' (Some CopyValue),
     Field ''HealthyThreshold'' (Ptr (Basic Uint32)) ''healthy_threshold'' (Some CopyValue),
     Field ''AltPort'' (Ptr (Basic Uint32)) ''alt_port'' (Some CopyValue),
     Field ''ReuseConnection'' (Ptr (Basic Bool)) ''reuse_connection'' (Some CopyValue),
     Field ''HttpHealthCheck'' (Ptr RawExtension) ''http_health_check'' (Some CopyValue),
     Field ''TcpHealthCheck'' (Ptr RawExtension) ''tcp_health_check'' (Some CopyValue),
     Field ''GrpcHealthCheck'' (Ptr RawExtension) ''grpc_health_check'' (Some CopyValue),
     Field ''CustomHealthCheck'' (Ptr RawExtension) ''custom_health_check'' (Some CopyValue),
     Field ''NoTrafficInterval'' (Ptr (Basic String)) ''no_traffic_interval'' (Some CopyValue),
     Field ''NoTrafficHealthyInterval'' (Ptr (Basic String)) ''no_traffic_healthy_interval'' (Some CopyValue),
     Field ''UnhealthyInterval'' (Ptr (Basic String)) ''unhealthy_interval'' (Some CopyValue),
     Field ''UnhealthyEdgeInterval'' (Ptr (Basic String)) ''unhealthy_edge_interval'' (Some CopyValue),
     Field ''HealthyEdgeInterval'' (Ptr (Basic String)) ''healthy_edge_interval'' (Some CopyValue),
     Field ''EventLogPath'' (Basic String) ''event_log_path'' None,
     Field ''EventLogger'' (Slice (Ptr (Struct TypedExtensionConfig))) ''event_logger'' (Some CopyElemsInto),
     Field ''EventService'' (Ptr (Struct EventServiceConfig)) ''event_service'' (Some CopyInto),
     Field ''AlwaysLogHealthCheckFailures'' (Basic Bool) ''always_log_health_check_failures'' None,
     Field ''AlwaysLogHealthCheckSuccess'' (Basic Bool) ''always_log_health_check_success'' None,
     Field ''TlsOptions'' (Ptr (Struct HealthCheck_TlsOptions)) ''tls_options'' (Some CopyInto),
     Field ''TransportSocketMatchCriteria'' (Ptr RawExtension) ''transport_socket_match_criteria'' (Some CopyValue)]"

definition CircuitBreakers :: gostruct where [cds_defs]:
  "CircuitBreakers = GoStruct ''CircuitBreakers''
    [Field ''Thresholds'' (Slice (Ptr RawExtension)) ''thresholds'' (Some CopyElems),
     Field ''PerHostThresholds'' (Slice (Ptr RawExtension)) ''per_host_thresholds'' (Some CopyElems)]"

definition UpstreamHttpProtocolOptions :: gostruct where [cds_defs]:
  "UpstreamHttpProtocolOptions = GoStruct ''UpstreamHttpProtocolOptions''
    [Field ''AutoSni'' (Basic Bool) ''auto_sni'' None,
     Field ''AutoSanValidation'' (Basic Bool) ''auto_san_validation'' None,
     Field ''OverrideAutoSniHeader'' (Basic String) ''override_auto_sni_header'' None]"

definition HttpProtocolOptions :: gostruct where [cds_defs]:
  "HttpProtocolOptions = GoStruct ''HttpProtocolOptions''
    [Field ''IdleTimeout'' (Ptr (Basic String)) ''idle_timeout'' (Some CopyValue),
     Field ''MaxConnectionDuration'' (Ptr (Basic String)) ''max_connection_duration'' (Some CopyValue),
     Field ''MaxHeadersCount'' (Ptr (Basic Uint32)) ''max_headers_count'' (Some CopyValue),
     Field ''MaxResponseHeadersKb'' (Ptr (Basic Uint32)) ''max_response_headers_kb'' (Some CopyValue),
     Field ''MaxStreamDuration'' (Ptr (Basic String)) ''max_stream_duration'' (Some CopyValue),
     Field ''HeadersWithUnderscoresAction'' (Enum HttpProtocolOptions_HeadersWithUnderscoresAction) ''headers_with_underscores_action'' None,
     Field ''MaxRequestsPerConnection'' (Ptr (Basic Uint32)) ''max_requests_per_connection'' (Some CopyValue)]"

definition Http1ProtocolOptions_HeaderKeyFormat :: gostruct where [cds_defs]:
  "Http1ProtocolOptions_HeaderKeyFormat = GoStruct ''Http1ProtocolOptions_HeaderKeyFormat''
    [Field ''ProperCaseWords'' (Ptr RawExtension) ''proper_case_words'' (Some CopyValue),
     Field ''StatefulFormatter'' (Ptr (Struct TypedExtensionConfig)) ''stateful_formatter'' (Some CopyInto)]"

definition StringMatcher :: gostruct where [cds_defs]:
  "StringMatcher = GoStruct ''StringMatcher''
    [Field ''Exact'' (Basic String) ''exact'' None, Field ''Prefix'' (Basic String) ''prefix'' None,
     Field ''Suffix'' (Basic String) ''suffix'' None,
     Field ''SafeRegex'' (Ptr RawExtension) ''safe_regex'' (Some CopyValue),
     Field ''Contains'' (Basic String) ''contains'' None,
     Field ''Custom'' (Ptr (Struct TypedExtensionConfig)) ''custom'' (Some CopyInto),
     Field ''IgnoreCase'' (Basic Bool) ''ignore_case'' None]"

definition Http1ProtocolOptions :: gostruct where [cds_defs]:
  "Http1ProtocolOptions = GoStruct ''Http1ProtocolOptions''
    [Field ''AllowAbsoluteUrl'' (Ptr (Basic Bool)) ''allow_absolute_url'' (Some CopyValue),
     Field ''AcceptHttp_10'' (Basic Bool) ''accept_http_10'' None,
     Field ''DefaultHostForHttp_10'' (Basic String) ''default_host_for_http_10'' None,
     Field ''HeaderKeyFormat'' (Ptr (Struct Http1ProtocolOptions_HeaderKeyFormat)) ''header_key_format'' (Some CopyInto),
     Field ''EnableTrailers'' (Basic Bool) ''enable_trailers'' None,
     Field ''AllowChunkedLength'' (Basic Bool) ''allow_chunked_length'' None,
     Field ''OverrideStreamErrorOnInvalidHttpMessage'' (Ptr (Basic Bool)) ''override_stream_error_on_invalid_http_message'' (Some CopyValue),
     Field ''SendFullyQualifiedUrl'' (Basic Bool) ''send_fully_qualified_url'' None,
     Field ''UseBalsaParser'' (Ptr (Basic Bool)) ''use_balsa_parser'' (Some CopyValue),
     Field ''AllowCustomMethods'' (Basic Bool) ''allow_custom_methods'' None,
     Field ''IgnoreHttp_11Upgrade'' (Slice (Ptr (Struct StringMatcher))) ''ignore_http_11_upgrade'' (Some CopyElemsInto)]"

definition Http2ProtocolOptions_SettingsParameter :: gostruct where [cds_defs]:
  "Http2ProtocolOptions_SettingsParameter = GoStruct ''Http2ProtocolOptions_SettingsParameter''
    [Field ''Identifier'' (Ptr (Basic Uint32)) ''identifier'' (Some CopyValue),
     Field ''Value'' (Ptr (Basic Uint32)) ''value'' (Some CopyValue)]"

definition Percent :: gostruct where [cds_defs]:
  "Percent = GoStruct ''Percent''
    [Field ''Value'' (Basic Float64) ''value'' None]"

definition KeepaliveSettings :: gostruct where [cds_defs]:
  "KeepaliveSettings = GoStruct ''KeepaliveSettings''
    [Field ''Interval'' (Ptr (Basic String)) ''interval'' (Some CopyValue),
     Field ''Timeout'' (Ptr (Basic String)) ''timeout'' (Some CopyValue),
     Field ''IntervalJitter'' (Ptr (Struct Percent)) ''interval_jitter'' (Some CopyInto),
     Field ''ConnectionIdleInterval'' (Ptr (Basic String)) ''connection_idle_interval'' (Some CopyValue)]"

definition Http2ProtocolOptions :: gostruct where [cds_defs]:
  "Http2ProtocolOptions = GoStruct ''Http2ProtocolOptions''
    [Field ''HpackTableSize'' (Ptr (Basic Uint32)) ''hpack_table_size'' (Some CopyValue),
     Field ''MaxConcurrentStreams'' (Ptr (Basic Uint32)) ''max_concurrent_streams'' (Some CopyValue),
     Field ''InitialStreamWindowSize'' (Ptr (Basic Uint32)) ''initial_stream_window_size'' (Some CopyValue),
     Field ''InitialConnectionWindowSize'' (Ptr (Basic Uint32)) ''initial_connection_window_size'' (Some CopyValue),
     Field ''AllowConnect'' (Basic Bool) ''allow_connect'' None,
     Field ''AllowMetadata'' (Basic Bool) ''allow_metadata'' None,
     Field ''MaxOutboundFrames'' (Ptr (Basic Uint32)) ''max_outbound_frames'' (Some CopyValue),
     Field ''MaxOutboundControlFrames'' (Ptr (Basic Uint32)) ''max_outbound_control_frames'' (Some CopyValue),
     Field ''MaxConsecutiveInboundFramesWithEmptyPayload'' (Ptr (Basic Uint32)) ''max_consecutive_inbound_frames_with_empty_payload'' (Some CopyValue),
     Field ''MaxInboundPriorityFramesPerStream'' (Ptr (Basic Uint32)) ''max_inbound_priority_frames_per_stream'' (Some CopyValue),
     Field ''MaxInboundWindowUpdateFramesPerDataFrameSent'' (Ptr (Basic Uint32)) ''max_inbound_window_update_frames_per_data_frame_sent'' (Some CopyValue),
     Field ''StreamErrorOnInvalidHttpMessaging'' (Basic Bool) ''stream_error_on_invalid_http_messaging'' None,
     Field ''OverrideStreamErrorOnInvalidHttpMessage'' (Ptr (Basic Bool)) ''override_stream_error_on_invalid_http_message'' (Some CopyValue),
     Field ''CustomSettingsParameters'' (Slice (Ptr (Struct Http2ProtocolOptions_SettingsParameter))) ''custom_settings_parameters'' (Some CopyElemsInto),
     Field ''ConnectionKeepalive'' (Ptr (Struct KeepaliveSettings)) ''connection_keepalive'' (Some CopyInto),
     Field ''UseOghttp2Codec'' (Ptr (Basic Bool)) ''use_oghttp2_codec'' (Some CopyValue),
     Field ''MaxMetadataSize'' (Ptr (Basic Uint64)) ''max_metadata_size'' (Some CopyValue)]"

definition Cluster_RefreshRate :: gostruct where [cds_defs]:
  "Cluster_RefreshRate = GoStruct ''Cluster_RefreshRate''
    [Field ''BaseInterval'' (Ptr (Basic String)) ''base_interval'' (Some CopyValue),
     Field ''MaxInterval'' (Ptr (Basic String)) ''max_interval'' (Some CopyValue)]"

definition DnsResolverOptions :: gostruct where [cds_defs]:
  "DnsResolverOptions = GoStruct ''DnsResolverOptions''
    [Field ''UseTcpForDnsLookups'' (Basic Bool) ''use_tcp_for_dns_lookups'' None,
     Field ''NoDefaultSearchDomain'' (Basic Bool) ''no_default_search_domain'' None]"

definition DnsResolutionConfig :: gostruct where [cds_defs]:
  "DnsResolutionConfig = GoStruct ''DnsResolutionConfig''
    [Field ''Resolvers'' (Slice (Ptr (Struct Address))) ''resolvers'' (Some CopyElemsInto),
     Field ''DnsResolverOptions'' (Ptr (Struct DnsResolverOptions)) ''dns_resolver_options'' (Some CopyInto)]"

definition OutlierDetection :: gostruct where [cds_defs]:
  "OutlierDetection = GoStruct ''OutlierDetection''
    [Field ''Consecutive_5Xx'' (Ptr (Basic Uint32)) ''consecutive_5xx'' (Some CopyValue),
     Field ''Interval'' (Ptr (Basic String)) ''interval'' (Some CopyValue),
     Field ''BaseEjectionTime'' (Ptr (Basic String)) ''base_ejection_time'' (Some CopyValue),
     Field ''MaxEjectionPercent'' (Ptr (Basic Uint32)) ''max_ejection_percent'' (Some CopyValue),
     Field ''EnforcingConsecutive_5Xx'' (Ptr (Basic Uint32)) ''enforcing_consecutive_5xx'' (Some CopyValue),
     Field ''EnforcingSuccessRate'' (Ptr (Basic Uint32)) ''enforcing_success_rate'' (Some CopyValue),
     Field ''SuccessRateMinimumHosts'' (Ptr (Basic Uint32)) ''success_rate_minimum_hosts'' (Some CopyValue),
     Field ''SuccessRateRequestVolume'' (Ptr (Basic Uint32)) ''success_rate_request_volume'' (Some CopyValue),
     Field ''SuccessRateStdevFactor'' (Ptr (Basic Uint32)) ''success_rate_stdev_factor'' (Some CopyValue),
     Field ''ConsecutiveGatewayFailure'' (Ptr (Basic Uint32)) ''consecutive_gateway_failure'' (Some CopyValue),
     Field ''EnforcingConsecutiveGatewayFailure'' (Ptr (Basic Uint32)) ''enforcing_consecutive_gateway_failure'' (Some CopyValue),
     Field ''SplitExternalLocalOriginErrors'' (Basic Bool) ''split_external_local_origin_errors'' None,
     Field ''ConsecutiveLocalOriginFailure'' (Ptr (Basic Uint32)) ''consecutive_local_origin_failure'' (Some CopyValue),
     Field ''EnforcingConsecutiveLocalOriginFailure'' (Ptr (Basic Uint32)) ''enforcing_consecutive_local_origin_failure'' (Some CopyValue),
     Field ''EnforcingLocalOriginSuccessRate'' (Ptr (Basic Uint32)) ''enforcing_local_origin_success_rate'' (Some CopyValue),
     Field ''FailurePercentageThreshold'' (Ptr (Basic Uint32)) ''failure_percentage_threshold'' (Some CopyValue),
     Field ''EnforcingFailurePercentage'' (Ptr (Basic Uint32)) ''enforcing_failure_percentage'' (Some CopyValue),
     Field ''EnforcingFailurePercentageLocalOrigin'' (Ptr (Basic Uint32)) ''enforcing_failure_percentage_local_origin'' (Some CopyValue),
     Field ''FailurePercentageMinimumHosts'' (Ptr (Basic Uint32)) ''failure_percentage_minimum_hosts'' (Some CopyValue),
     Field ''FailurePercentageRequestVolume'' (Ptr (Basic Uint32)) ''failure_percentage_request_volume'' (Some CopyValue),
     Field ''MaxEjectionTime'' (Ptr (Basic String)) ''max_ejection_time'' (Some CopyValue),
     Field ''MaxEjectionTimeJitter'' (Ptr (Basic String)) ''max_ejection_time_jitter'' (Some CopyValue),
     Field ''SuccessfulActiveHealthCheckUnejectHost'' (Ptr (Basic Bool)) ''successful_active_health_check_uneject_host'' (Some CopyValue),
     Field ''Monitors'' (Slice (Ptr (Struct TypedExtensionConfig))) ''monitors'' (Some CopyElemsInto),
     Field ''AlwaysEjectOneHost'' (Ptr (Basic Bool)) ''always_eject_one_host'' (Some CopyValue)]"

definition SocketOption_SocketType :: gostruct where [cds_defs]:
  "SocketOption_SocketType = GoStruct ''SocketOption_SocketType''
    [Field ''Stream'' (Ptr RawExtension) ''stream'' (Some CopyValue),
     Field ''Datagram'' (Ptr RawExtension) ''datagram'' (Some CopyValue)]"

definition SocketOption :: gostruct where [cds_defs]:
  "SocketOption = GoStruct ''SocketOption''
    [Field ''Description'' (Basic String) ''description'' None, Field ''Level'' (Basic Int64) ''level'' None,
     Field ''Name'' (Basic Int64) ''name'' None, Field ''IntValue'' (Basic Int64) ''int_value'' None,
     Field ''BufValue'' Bytes ''buf_value'' (Some CopySlice),
     Field ''State'' (Enum SocketOption_SocketState) ''state'' None,
     Field ''Type'' (Ptr (Struct SocketOption_SocketType)) ''type'' (Some CopyInto)]"

definition SocketOptionsOverride :: gostruct where [cds_defs]:
  "SocketOptionsOverride = GoStruct ''SocketOptionsOverride''
    [Field ''SocketOptions'' (Slice (Ptr (Struct SocketOption))) ''socket_options'' (Some CopyElemsInto)]"

definition ExtraSourceAddress :: gostruct where [cds_defs]:
  "ExtraSourceAddress = GoStruct ''ExtraSourceAddress''
    [Field ''Address'' (Ptr (Struct SocketAddress)) ''address'' (Some CopyInto),
     Field ''SocketOptions'' (Ptr (Struct SocketOptionsOverride)) ''socket_options'' (Some CopyInto)]"

definition BindConfig :: gostruct where [cds_defs]:
  "BindConfig = GoStruct ''BindConfig''
    [Field ''SourceAddress'' (Ptr (Struct SocketAddress)) ''source_address'' (Some CopyInto),
     Field ''Freebind'' (Ptr (Basic Bool)) ''freebind'' (Some CopyValue),
     Field ''SocketOptions'' (Slice (Ptr (Struct SocketOption))) ''socket_options'' (Some CopyElemsInto),
     Field ''ExtraSourceAddresses'' (Slice (Ptr (Struct ExtraSourceAddress))) ''extra_source_addresses'' (Some CopyElemsInto),
     Field ''AdditionalSourceAddresses'' (Slice (Ptr (Struct SocketAddress))) ''additional_source_addresses'' (Some CopyElemsInto),
     Field ''LocalAddressSelector'' (Ptr (Struct TypedExtensionConfig)) ''local_address_selector'' (Some CopyInto)]"

definition Cluster_LbSubsetConfig_LbSubsetSelector :: gostruct where [cds_defs]:
  "Cluster_LbSubsetConfig_LbSubsetSelector = GoStruct ''Cluster_LbSubsetConfig_LbSubsetSelector''
    [Field ''Keys'' (Slice (Basic String)) ''keys'' (Some CopySlice),
     Field ''SingleHostPerSubset'' (Basic Bool) ''single_host_per_subset'' None,
     Field ''FallbackPolicy'' (Enum Cluster_LbSubsetConfig_LbSubsetSelector_LbSubsetSelectorFallbackPolicy) ''fallback_policy'' None,
     Field ''FallbackKeysSubset'' (Slice (Basic String)) ''fallback_keys_subset'' (Some CopySlice)]"

definition Cluster_LbSubsetConfig :: gostruct where [cds_defs]:
  "Cluster_LbSubsetConfig = GoStruct ''Cluster_LbSubsetConfig''
    [Field ''FallbackPolicy'' (Enum Cluster_LbSubsetConfig_LbSubsetFallbackPolicy) ''fallback_policy'' None,
     Field ''DefaultSubset'' (Ptr RawExtension) ''default_subset'' (Some CopyValue),
     Field ''SubsetSelectors'' (Slice (Ptr (Struct Cluster_LbSubsetConfig_LbSubsetSelector))) ''subset_selectors'' (Some CopyElemsInto),
     Field ''LocalityWeightAware'' (Basic Bool) ''locality_weight_aware'' None,
     Field ''ScaleLocalityWeight'' (Basic Bool) ''scale_locality_weight'' None,
     Field ''PanicModeAny'' (Basic Bool) ''panic_mode_any'' None,
     Field ''ListAsAny'' (Basic Bool) ''list_as_any'' None,
     Field ''MetadataFallbackPolicy'' (Enum Cluster_LbSubsetConfig_LbSubsetMetadataFallbackPolicy) ''metadata_fallback_policy'' None]"

definition Cluster_CommonLbConfig_ConsistentHashingLbConfig :: gostruct where [cds_defs]:
  "Cluster_CommonLbConfig_ConsistentHashingLbConfig = GoStruct ''Cluster_CommonLbConfig_ConsistentHashingLbConfig''
    [Field ''UseHostnameForHashing'' (Basic Bool) ''use_hostname_for_hashing'' None,
     Field ''HashBalanceFactor'' (Ptr (Basic Uint32)) ''hash_balance_factor'' (Some CopyValue)]"

definition HealthStatusSet :: gostruct where [cds_defs]:
  "HealthStatusSet = GoStruct ''HealthStatusSet''
    [Field ''Statuses'' (Slice (Enum HealthStatus)) ''statuses'' (Some CopySlice)]"

definition Cluster_CommonLbConfig :: gostruct where [cds_defs]:
  "Cluster_CommonLbConfig = GoStruct ''Cluster_CommonLbConfig''
    [Field ''HealthyPanicThreshold'' (Ptr (Struct Percent)) ''healthy_panic_threshold'' (Some CopyInto),
     Field ''ZoneAwareLbConfig'' (Ptr RawExtension) ''zone_aware_lb_config'' (Some CopyValue),
     Field ''UpdateMergeWindow'' (Ptr (Basic String)) ''update_merge_window'' (Some CopyValue),
     Field ''IgnoreNewHostsUntilFirstHc'' (Basic Bool) ''ignore_new_hosts_until_first_hc'' None,
     Field ''CloseConnectionsOnHostSetChange'' (Basic Bool) ''close_connections_on_host_set_change'' None,
     Field ''ConsistentHashingLbConfig'' (Ptr (Struct Cluster_CommonLbConfig_ConsistentHashingLbConfig)) ''consistent_hashing_lb_config'' (Some CopyInto),
     Field ''OverrideHostStatus'' (Ptr (Struct HealthStatusSet)) ''override_host_status'' (Some CopyInto)]"

definition TcpKeepalive :: gostruct where [cds_defs]:
  "TcpKeepalive = GoStruct ''TcpKeepalive''
    [Field ''KeepaliveProbes'' (Ptr (Basic Uint32)) ''keepalive_probes'' (Some CopyValue),
     Field ''KeepaliveTime'' (Ptr (Basic Uint32)) ''keepalive_time'' (Some CopyValue),
     Field ''KeepaliveInterval'' (Ptr (Basic Uint32)) ''keepalive_interval'' (Some CopyValue)]"

definition UpstreamConnectionOptions_HappyEyeballsConfig :: gostruct where [cds_defs]:
  "UpstreamConnectionOptions_HappyEyeballsConfig = GoStruct ''UpstreamConnectionOptions_HappyEyeballsConfig''
    [Field ''FirstAddressFamilyVersion'' (Enum UpstreamConnectionOptions_FirstAddressFamilyVersion) ''first_address_family_version'' None,
     Field ''FirstAddressFamilyCount'' (Ptr (Basic Uint32)) ''first_address_family_count'' (Some CopyValue)]"

definition UpstreamConnectionOptions :: gostruct where [cds_defs]:
  "UpstreamConnectionOptions = GoStruct ''UpstreamConnectionOptions''
    [Field ''TcpKeepalive'' (Ptr (Struct TcpKeepalive)) ''tcp_keepalive'' (Some CopyInto),
     Field ''SetLocalInterfaceNameOnUpstreamConnections'' (Basic Bool) ''set_local_interface_name_on_upstream_connections'' None,
     Field ''HappyEyeballsConfig'' (Ptr (Struct UpstreamConnectionOptions_HappyEyeballsConfig)) ''happy_eyeballs_config'' (Some CopyInto)]"

definition ExtensionConfigSource :: gostruct where [cds_defs]:
  "ExtensionConfigSource = GoStruct ''ExtensionConfigSource''
    [Field ''ConfigSource'' (Ptr (Struct ConfigSource)) ''config_source'' (Some CopyInto),
     Field ''DefaultConfig'' (Ptr RawExtension) ''default_config'' (Some CopyValue),
     Field ''ApplyDefaultConfigWithoutWarming'' (Basic Bool) ''apply_default_config_without_warming'' None,
     Field ''TypeUrls'' (Slice (Basic String)) ''type_urls'' (Some CopySlice)]"

definition Filter :: gostruct where [cds_defs]:
  "Filter = GoStruct ''Filter''
    [Field ''Name'' (Basic String) ''name'' None,
     Field ''TypedConfig'' (Ptr RawExtension) ''typed_config'' (Some CopyValue),
     Field ''ConfigDiscovery'' (Ptr (Struct ExtensionConfigSource)) ''config_discovery'' (Some CopyInto)]"

definition LoadBalancingPolicy_Policy :: gostruct where [cds_defs]:
  "LoadBalancingPolicy_Policy = GoStruct ''LoadBalancingPolicy_Policy''
    [Field ''TypedExtensionConfig'' (Ptr (Struct TypedExtensionConfig)) ''typed_extension_config'' (Some CopyInto)]"

definition LoadBalancingPolicy :: gostruct where [cds_defs]:
  "LoadBalancingPolicy = GoStruct ''LoadBalancingPolicy''
    [Field ''Policies'' (Slice (Ptr (Struct LoadBalancingPolicy_Policy))) ''policies'' (Some CopyElemsInto)]"

definition TrackClusterStats :: gostruct where [cds_defs]:
  "TrackClusterStats = GoStruct ''TrackClusterStats''
    [Field ''TimeoutBudgets'' (Basic Bool) ''timeout_budgets'' None,
     Field ''RequestResponseSizes'' (Basic Bool) ''request_response_sizes'' None,
     Field ''PerEndpointStats'' (Basic Bool) ''per_endpoint_stats'' None]"

definition Cluster_PreconnectPolicy :: gostruct where [cds_defs]:
  "Cluster_PreconnectPolicy = GoStruct ''Cluster_PreconnectPolicy''
    [Field ''PerUpstreamPreconnectRatio'' (Ptr (Basic Float64)) ''per_upstream_preconnect_ratio'' (Some CopyValue),
     Field ''PredictivePreconnectRatio'' (Ptr (Basic Float64)) ''predictive_preconnect_ratio'' (Some CopyValue)]"

definition CDS :: gostruct where [cds_defs]:
  "CDS = GoStruct ''CDS''
    [Field ''TransportSocketMatches'' (Slice (Ptr (Struct Cluster_TransportSocketMatch))) ''transport_socket_matches'' (Some CopyElemsInto),
     Field ''Name'' (Basic String) ''name'' None, Field ''AltStatName'' (Basic String) ''alt_stat_name'' None,
     Field ''Type'' (Enum Cluster_DiscoveryType) ''type'' None,
     Field ''ClusterType'' (Ptr RawExtension) ''cluster_type'' (Some CopyValue),
     Field ''EdsClusterConfig'' (Ptr (Struct Cluster_EdsClusterConfig)) ''eds_cluster_config'' (Some CopyInto),
     Field ''ConnectTimeout'' (Ptr (Basic String)) ''connect_timeout'' (Some CopyValue),
     Field ''PerConnectionBufferLimitBytes'' (Ptr (Basic Uint32)) ''per_connection_buffer_limit_bytes'' (Some CopyValue),
     Field ''LbPolicy'' (Enum Cluster_LbPolicy) ''lb_policy'' None,
     Field ''LoadAssignment'' (Ptr (Struct ClusterLoadAssignment)) ''load_assignment'' (Some CopyInto),
     Field ''HealthChecks'' (Slice (Ptr (Struct HealthCheck))) ''health_checks'' (Some CopyElemsInto),
     Field ''MaxRequestsPerConnection'' (Ptr (Basic Uint32)) ''max_requests_per_connection'' (Some CopyValue),
     Field ''CircuitBreakers'' (Ptr (Struct CircuitBreakers)) ''circuit_breakers'' (Some CopyInto),
     Field ''UpstreamHttpProtocolOptions'' (Ptr (Struct UpstreamHttpProtocolOptions)) ''upstream_http_protocol_options'' (Some CopyInto),
     Field ''CommonHttpProtocolOptions'' (Ptr (Struct HttpProtocolOptions)) ''common_http_protocol_options'' (Some CopyInto),
     Field ''HttpProtocolOptions'' (Ptr (Struct Http1ProtocolOptions)) ''http_protocol_options'' (Some CopyInto),
     Field ''Http2ProtocolOptions'' (Ptr (Struct Http2ProtocolOptions)) ''http2_protocol_options'' (Some CopyInto),
     Field ''TypedExtensionProtocolOptions'' (Map (Ptr RawExtension)) ''typed_extension_protocol_options'' (Some CopyMap),
     Field ''DnsRefreshRate'' (Ptr (Basic String)) ''dns_refresh_rate'' (Some CopyValue),
     Field ''DnsJitter'' (Ptr (Basic String)) ''dns_jitter'' (Some CopyValue),
     Field ''DnsFailureRefreshRate'' (Ptr (Struct Cluster_RefreshRate)) ''dns_failure_refresh_rate'' (Some CopyInto),
     Field ''RespectDnsTtl'' (Basic Bool) ''respect_dns_ttl'' None,
     Field ''DnsLookupFamily'' (Enum Cluster_DnsLookupFamily) ''dns_lookup_family'' None,
     Field ''DnsResolvers'' (Slice (Ptr (Struct Address))) ''dns_resolvers'' (Some CopyElemsInto),
     Field ''UseTcpForDnsLookups'' (Basic Bool) ''use_tcp_for_dns_lookups'' None,
     Field ''DnsResolutionConfig'' (Ptr (Struct DnsResolutionConfig)) ''dns_resolution_config'' (Some CopyInto),
     Field ''TypedDnsResolverConfig'' (Ptr (Struct TypedExtensionConfig)) ''typed_dns_resolver_config'' (Some CopyInto),
     Field ''WaitForWarmOnInit'' (Ptr (Basic Bool)) ''wait_for_warm_on_init'' (Some CopyValue),
     Field ''OutlierDetection'' (Ptr (Struct OutlierDetection)) ''outlier_detection'' (Some CopyInto),
     Field ''CleanupInterval'' (Ptr (Basic String)) ''cleanup_interval'' (Some CopyValue),
     Field ''UpstreamBindConfig'' (Ptr (Struct BindConfig)) ''upstream_bind_config'' (Some CopyInto),
     Field ''LbSubsetConfig'' (Ptr (Struct Cluster_LbSubsetConfig)) ''lb_subset_config'' (Some CopyInto),
     Field ''RingHashLbConfig'' (Ptr RawExtension) ''ring_hash_lb_config'' (Some CopyValue),
     Field ''MaglevLbConfig'' (Ptr RawExtension) ''maglev_lb_config'' (Some CopyValue),
     Field ''OriginalDstLbConfig'' (Ptr RawExtension) ''original_dst_lb_config'' (Some CopyValue),
     Field ''LeastRequestLbConfig'' (Ptr RawExtension) ''least_request_lb_config'' (Some CopyValue),
     Field ''RoundRobinLbConfig'' (Ptr RawExtension) ''round_robin_lb_config'' (Some CopyValue),
     Field ''LocalityWeightedLbConfig'' (Ptr RawExtension) ''locality_weighted_lb_config'' (Some CopyValue),
     Field ''CommonLbConfig'' (Ptr (Struct Cluster_CommonLbConfig)) ''common_lb_config'' (Some CopyInto),
     Field ''TransportSocket'' (Ptr (Struct TransportSocket)) ''transport_socket'' (Some CopyInto),
     Field ''Metadata'' (Ptr (Struct Metadata)) ''metadata'' (Some CopyInto),
     Field ''ProtocolSelection'' (Enum Cluster_ClusterProtocolSelection) ''protocol_selection'' None,
     Field ''UpstreamConnectionOptions'' (Ptr (Struct UpstreamConnectionOptions)) ''upstream_connection_options'' (Some CopyInto),
     Field ''CloseConnectionsOnHostHealthFailure'' (Basic Bool) ''close_connections_on_host_health_failure'' None,
     Field ''IgnoreHealthOnHostRemoval'' (Basic Bool) ''ignore_health_on_host_removal'' None,
     Field ''Filters'' (Slice (Ptr (Struct Filter))) ''filters'' (Some CopyElemsInto),
     Field ''LoadBalancingPolicy'' (Ptr (Struct LoadBalancingPolicy)) ''load_balancing_policy'' (Some CopyInto),
     Field ''LrsServer'' (Ptr (Struct ConfigSource)) ''lrs_server'' (Some CopyInto),
     Field ''LrsReportEndpointMetrics'' (Slice (Basic String)) ''lrs_report_endpoint_metrics'' (Some CopySlice),
     Field ''TrackTimeoutBudgets'' (Basic Bool) ''track_timeout_budgets'' None,
     Field ''UpstreamConfig'' (Ptr (Struct TypedExtensionConfig)) ''upstream_config'' (Some CopyInto),
     Field ''TrackClusterStats'' (Ptr (Struct TrackClusterStats)) ''track_cluster_stats'' (Some CopyInto),
     Field ''PreconnectPolicy'' (Ptr (Struct Cluster_PreconnectPolicy)) ''preconnect_policy'' (Some CopyInto),
     Field ''ConnectionPoolPerDownstreamConnection'' (Basic Bool) ''connection_pool_per_downstream_connection'' None]"

definition SemanticVersion :: gostruct where [cds_defs]:
  "SemanticVersion = GoStruct ''SemanticVersion''
    [Field ''MajorNumber'' (Basic Uint32) ''major_number'' None,
     Field ''MinorNumber'' (Basic Uint32) ''minor_number'' None, Field ''Patch'' (Basic Uint32) ''patch'' None]"

definition BuildVersion :: gostruct where [cds_defs]:
  "BuildVersion = GoStruct ''BuildVersion''
    [Field ''Version'' (Ptr (Struct SemanticVersion)) ''version'' (Some CopyInto),
     Field ''Metadata'' (Ptr RawExtension) ''metadata'' (Some CopyValue)]"

definition CircuitBreakers_Thresholds_RetryBudget :: gostruct where [cds_defs]:
  "CircuitBreakers_Thresholds_RetryBudget = GoStruct ''CircuitBreakers_Thresholds_RetryBudget''
    [Field ''BudgetPercent'' (Ptr (Struct Percent)) ''budget_percent'' (Some CopyInto),
     Field ''MinRetryConcurrency'' (Ptr (Basic Uint32)) ''min_retry_concurrency'' (Some CopyValue)]"

definition CircuitBreakers_Thresholds :: gostruct where [cds_defs]:
  "CircuitBreakers_Thresholds = GoStruct ''CircuitBreakers_Thresholds''
    [Field ''Priority'' (Enum RoutingPriority) ''priority'' None,
     Field ''MaxConnections'' (Ptr (Basic Uint32)) ''max_connections'' (Some CopyValue),
     Field ''MaxPendingRequests'' (Ptr (Basic Uint32)) ''max_pending_requests'' (Some CopyValue),
     Field ''MaxRequests'' (Ptr (Basic Uint32)) ''max_requests'' (Some CopyValue),
     Field ''MaxRetries'' (Ptr (Basic Uint32)) ''max_retries'' (Some CopyValue),
     Field ''RetryBudget'' (Ptr (Struct CircuitBreakers_Thresholds_RetryBudget)) ''retry_budget'' (Some CopyInto),
     Field ''TrackRemaining'' (Basic Bool) ''track_remaining'' None,
     Field ''MaxConnectionPools'' (Ptr (Basic Uint32)) ''max_connection_pools'' (Some CopyValue)]"

definition FractionalPercent :: gostruct where [cds_defs]:
  "FractionalPercent = GoStruct ''FractionalPercent''
    [Field ''Numerator'' (Basic Uint32) ''numerator'' None,
     Field ''Denominator'' (Enum FractionalPercent_DenominatorType) ''denominator'' None]"

definition ClusterLoadAssignment_Policy_DropOverload :: gostruct where [cds_defs]:
  "ClusterLoadAssignment_Policy_DropOverload = GoStruct ''ClusterLoadAssignment_Policy_DropOverload''
    [Field ''Category'' (Basic String) ''category'' None,
     Field ''DropPercentage'' (Ptr (Struct FractionalPercent)) ''drop_percentage'' (Some CopyInto)]"

definition ClusterLoadAssignment_Policy :: gostruct where [cds_defs]:
  "ClusterLoadAssignment_Policy = GoStruct ''ClusterLoadAssignment_Policy''
    [Field ''DropOverloads'' (Slice (Ptr (Struct ClusterLoadAssignment_Policy_DropOverload))) ''drop_overloads'' (Some CopyElemsInto),
     Field ''OverprovisioningFactor'' (Ptr (Basic Uint32)) ''overprovisioning_factor'' (Some CopyValue),
     Field ''EndpointStaleAfter'' (Ptr (Basic String)) ''endpoint_stale_after'' (Some CopyValue),
     Field ''WeightedPriorityHealth'' (Basic Bool) ''weighted_priority_health'' None]"

definition Cluster_CommonLbConfig_ZoneAwareLbConfig :: gostruct where [cds_defs]:
  "Cluster_CommonLbConfig_ZoneAwareLbConfig = GoStruct ''Cluster_CommonLbConfig_ZoneAwareLbConfig''
    [Field ''RoutingEnabled'' (Ptr (Struct Percent)) ''routing_enabled'' (Some CopyInto),
     Field ''MinClusterSize'' (Ptr (Basic Uint64)) ''min_cluster_size'' (Some CopyValue),
     Field ''FailTrafficOnPanic'' (Basic Bool) ''fail_traffic_on_panic'' None]"

definition Cluster_CustomClusterType :: gostruct where [cds_defs]:
  "Cluster_CustomClusterType = GoStruct ''Cluster_CustomClusterType''
    [Field ''Name'' (Basic String) ''name'' None,
     Field ''TypedConfig'' (Ptr RawExtension) ''typed_config'' (Some CopyValue)]"

definition RuntimeDouble :: gostruct where [cds_defs]:
  "RuntimeDouble = GoStruct ''RuntimeDouble''
    [Field ''DefaultValue'' (Basic Float64) ''default_value'' None,
     Field ''RuntimeKey'' (Basic String) ''runtime_key'' None]"

definition Cluster_SlowStartConfig :: gostruct where [cds_defs]:
  "Cluster_SlowStartConfig = GoStruct ''Cluster_SlowStartConfig''
    [Field ''SlowStartWindow'' (Ptr (Basic String)) ''slow_start_window'' (Some CopyValue),
     Field ''Aggression'' (Ptr (Struct RuntimeDouble)) ''aggression'' (Some CopyInto),
     Field ''MinWeightPercent'' (Ptr (Struct Percent)) ''min_weight_percent'' (Some CopyInto)]"

definition Cluster_LeastRequestLbConfig :: gostruct where [cds_defs]:
  "Cluster_LeastRequestLbConfig = GoStruct ''Cluster_LeastRequestLbConfig''
    [Field ''ChoiceCount'' (Ptr (Basic Uint32)) ''choice_count'' (Some CopyValue),
     Field ''ActiveRequestBias'' (Ptr (Struct RuntimeDouble)) ''active_request_bias'' (Some CopyInto),
     Field ''SlowStartConfig'' (Ptr (Struct Cluster_SlowStartConfig)) ''slow_start_config'' (Some CopyInto)]"

definition Cluster_MaglevLbConfig :: gostruct where [cds_defs]:
  "Cluster_MaglevLbConfig = GoStruct ''Cluster_MaglevLbConfig''
    [Field ''TableSize'' (Ptr (Basic Uint64)) ''table_size'' (Some CopyValue)]"

definition MetadataKey :: gostruct where [cds_defs]:
  "MetadataKey = GoStruct ''MetadataKey''
    [Field ''Key'' (Basic String) ''key'' None, Field ''Path'' (Slice (Ptr RawExtension)) ''path'' (Some CopyElems)]"

definition Cluster_OriginalDstLbConfig :: gostruct where [cds_defs]:
  "Cluster_OriginalDstLbConfig = GoStruct ''Cluster_OriginalDstLbConfig''
    [Field ''UseHttpHeader'' (Basic Bool) ''use_http_header'' None,
     Field ''HttpHeaderName'' (Basic String) ''http_header_name'' None,
     Field ''UpstreamPortOverride'' (Ptr (Basic Uint32)) ''upstream_port_override'' (Some CopyValue),
     Field ''MetadataKey'' (Ptr (Struct MetadataKey)) ''metadata_key'' (Some CopyInto)]"

definition Cluster_RingHashLbConfig :: gostruct where [cds_defs]:
  "Cluster_RingHashLbConfig = GoStruct ''Cluster_RingHashLbConfig''
    [Field ''MinimumRingSize'' (Ptr (Basic Uint64)) ''minimum_ring_size'' (Some CopyValue),
     Field ''HashFunction'' (Enum Cluster_RingHashLbConfig_HashFunction) ''hash_function'' None,
     Field ''MaximumRingSize'' (Ptr (Basic Uint64)) ''maximum_ring_size'' (Some CopyValue)]"

definition Cluster_RoundRobinLbConfig :: gostruct where [cds_defs]:
  "Cluster_RoundRobinLbConfig = GoStruct ''Cluster_RoundRobinLbConfig''
    [Field ''SlowStartConfig'' (Ptr (Struct Cluster_SlowStartConfig)) ''slow_start_config'' (Some CopyInto)]"

definition DataSource :: gostruct where [cds_defs]:
  "DataSource = GoStruct ''DataSource''
    [Field ''Filename'' (Basic String) ''filename'' None,
     Field ''InlineBytes'' Bytes ''inline_bytes'' (Some CopySlice),
     Field ''InlineString'' (Basic String) ''inline_string'' None,
     Field ''EnvironmentVariable'' (Basic String) ''environment_variable'' None,
     Field ''WatchedDirectory'' (Ptr (Struct WatchedDirectory)) ''watched_directory'' (Some CopyInto)]"

definition GrpcService_EnvoyGrpc :: gostruct where [cds_defs]:
  "GrpcService_EnvoyGrpc = GoStruct ''GrpcService_EnvoyGrpc''
    [Field ''ClusterName'' (Basic String) ''cluster_name'' None,
     Field ''Authority'' (Basic String) ''authority'' None,
     Field ''RetryPolicy'' (Ptr (Struct RetryPolicy)) ''retry_policy'' (Some CopyInto),
     Field ''MaxReceiveMessageLength'' (Ptr (Basic Uint32)) ''max_receive_message_length'' (Some CopyValue),
     Field ''SkipEnvoyHeaders'' (Basic Bool) ''skip_envoy_headers'' None]"

definition GrpcService_GoogleGrpc_ChannelCredentials :: gostruct where [cds_defs]:
  "GrpcService_GoogleGrpc_ChannelCredentials = GoStruct ''GrpcService_GoogleGrpc_ChannelCredentials''
    [Field ''GoogleRefreshToken'' (Basic String) ''google_refresh_token'' None]"

definition GrpcService_GoogleGrpc_CallCredentials :: gostruct where [cds_defs]:
  "GrpcService_GoogleGrpc_CallCredentials = GoStruct ''GrpcService_GoogleGrpc_CallCredentials''
    [Field ''LocalCredentials'' (Ptr RawExtension) ''local_credentials'' (Some CopyValue),
     Field ''AccessToken'' (Basic String) ''access_token'' None,
     Field ''ServiceAccountJwtAccess'' (Ptr RawExtension) ''service_account_jwt_access'' (Some CopyValue)]"

definition GrpcService_GoogleGrpc :: gostruct where [cds_defs]:
  "GrpcService_GoogleGrpc = GoStruct ''GrpcService_GoogleGrpc''
    [Field ''TargetUri'' (Basic String) ''target_uri'' None,
     Field ''ChannelCredentials'' (Ptr (Struct GrpcService_GoogleGrpc_ChannelCredentials)) ''channel_credentials'' (Some CopyInto),
     Field ''ChannelCredentialsPlugin'' (Slice (Ptr RawExtension)) ''channel_credentials_plugin'' (Some CopyElems),
     Field ''CallCredentials'' (Slice (Ptr (Struct GrpcService_GoogleGrpc_CallCredentials))) ''call_credentials'' (Some CopyElemsInto),
     Field ''CallCredentialsPlugin'' (Slice (Ptr RawExtension)) ''call_credentials_plugin'' (Some CopyElems),
     Field ''StatPrefix'' (Basic String) ''stat_prefix'' None,
     Field ''CredentialsFactoryName'' (Basic String) ''credentials_factory_name'' None,
     Field ''Config'' (Ptr RawExtension) ''config'' (Some CopyValue),
     Field ''PerStreamBufferLimitBytes'' (Ptr (Basic Uint32)) ''per_stream_buffer_limit_bytes'' (Some CopyValue),
     Field ''ChannelArgs'' (Ptr RawExtension) ''channel_args'' (Some CopyValue)]"

definition GrpcService_GoogleGrpc_ChannelArgs_Value :: gostruct where [cds_defs]:
  "GrpcService_GoogleGrpc_ChannelArgs_Value = GoStruct ''GrpcService_GoogleGrpc_ChannelArgs_Value''
    [Field ''StsService'' (Ptr RawExtension) ''sts_service'' (Some CopyValue)]"

definition GrpcService_GoogleGrpc_ChannelArgs :: gostruct where [cds_defs]:
  "GrpcService_GoogleGrpc_ChannelArgs = GoStruct ''GrpcService_GoogleGrpc_ChannelArgs''
    [Field ''Args'' (Map (Ptr (Struct GrpcService_GoogleGrpc_ChannelArgs_Value))) ''args'' (Some CopyMap)]"

definition HeaderValueOption :: gostruct where [cds_defs]:
  "HeaderValueOption = GoStruct ''HeaderValueOption''
    [Field ''Header'' (Ptr (Struct HeaderValue)) ''header'' (Some CopyInto),
     Field ''Append'' (Ptr (Basic Bool)) ''append'' (Some CopyValue),
     Field ''AppendAction'' (Enum HeaderValueOption_HeaderAppendAction) ''append_action'' None,
     Field ''KeepEmptyValue'' (Basic Bool) ''keep_empty_value'' None]"

definition HealthCheck_CustomHealthCheck :: gostruct where [cds_defs]:
  "HealthCheck_CustomHealthCheck = GoStruct ''HealthCheck_CustomHealthCheck''
    [Field ''Name'' (Basic String) ''name'' None,
     Field ''TypedConfig'' (Ptr RawExtension) ''typed_config'' (Some CopyValue)]"

definition HealthCheck_GrpcHealthCheck :: gostruct where [cds_defs]:
  "HealthCheck_GrpcHealthCheck = GoStruct ''HealthCheck_GrpcHealthCheck''
    [Field ''ServiceName'' (Basic String) ''service_name'' None,
     Field ''Authority'' (Basic String) ''authority'' None,
     Field ''InitialMetadata'' (Slice (Ptr (Struct HeaderValueOption))) ''initial_metadata'' (Some CopyElemsInto)]"

definition HealthCheck_Payload :: gostruct where [cds_defs]:
  "HealthCheck_Payload = GoStruct ''HealthCheck_Payload''
    [Field ''Text'' (Basic String) ''text'' None, Field ''Binary'' Bytes ''binary'' (Some CopySlice)]"

definition Int64Range :: gostruct where [cds_defs]:
  "Int64Range = GoStruct ''Int64Range''
    [Field ''Start'' (Basic Int64) ''start'' None, Field ''End'' (Basic Int64) ''end'' None]"

definition HealthCheck_HttpHealthCheck :: gostruct where [cds_defs]:
  "HealthCheck_HttpHealthCheck = GoStruct ''HealthCheck_HttpHealthCheck''
    [Field ''Host'' (Basic String) ''host'' None, Field ''Path'' (Basic String) ''path'' None,
     Field ''Send'' (Ptr (Struct HealthCheck_Payload)) ''send'' (Some CopyInto),
     Field ''Receive'' (Slice (Ptr (Struct HealthCheck_Payload))) ''receive'' (Some CopyElemsInto),
     Field ''ResponseBufferSize'' (Ptr (Basic Uint64)) ''response_buffer_size'' (Some CopyValue),
     Field ''RequestHeadersToAdd'' (Slice (Ptr (Struct HeaderValueOption))) ''request_headers_to_add'' (Some CopyElemsInto),
     Field ''RequestHeadersToRemove'' (Slice (Basic String)) ''request_headers_to_remove'' (Some CopySlice),
     Field ''ExpectedStatuses'' (Slice (Ptr (Struct Int64Range))) ''expected_statuses'' (Some CopyElemsInto),
     Field ''RetriableStatuses'' (Slice (Ptr (Struct Int64Range))) ''retriable_statuses'' (Some CopyElemsInto),
     Field ''CodecClientType'' (Enum CodecClientType) ''codec_client_type'' None,
     Field ''ServiceNameMatcher'' (Ptr (Struct StringMatcher)) ''service_name_matcher'' (Some CopyInto),
     Field ''Method'' (Enum RequestMethod) ''method'' None]"

definition ProxyProtocolPassThroughTLVs :: gostruct where [cds_defs]:
  "ProxyProtocolPassThroughTLVs = GoStruct ''ProxyProtocolPassThroughTLVs''
    [Field ''MatchType'' (Enum ProxyProtocolPassThroughTLVs_PassTLVsMatchType) ''match_type'' None,
     Field ''TlvType'' (Slice (Basic Uint32)) ''tlv_type'' (Some CopySlice)]"

definition JsonFormatOptions :: gostruct where [cds_defs]:
  "JsonFormatOptions = GoStruct ''JsonFormatOptions''
    [Field ''SortProperties'' (Basic Bool) ''sort_properties'' None]"

definition SubstitutionFormatString :: gostruct where [cds_defs]:
  "SubstitutionFormatString = GoStruct ''SubstitutionFormatString''
    [Field ''OmitEmptyValues'' (Basic Bool) ''omit_empty_values'' None,
     Field ''ContentType'' (Basic String) ''content_type'' None,
     Field ''Formatters'' (Slice (Ptr (Struct TypedExtensionConfig))) ''formatters'' (Some CopyElemsInto),
     Field ''JsonFormatOptions'' (Ptr (Struct JsonFormatOptions)) ''json_format_options'' (Some CopyInto)]"

definition TlvEntry :: gostruct where [cds_defs]:
  "TlvEntry = GoStruct ''TlvEntry''
    [Field ''Type'' (Basic Uint32) ''type'' None, Field ''Value'' Bytes ''value'' (Some CopySlice),
     Field ''FormatString'' (Ptr (Struct SubstitutionFormatString)) ''format_string'' (Some CopyInto)]"

definition ProxyProtocolConfig :: gostruct where [cds_defs]:
  "ProxyProtocolConfig = GoStruct ''ProxyProtocolConfig''
    [Field ''Version'' (Enum ProxyProtocolConfig_Version) ''version'' None,
     Field ''PassThroughTlvs'' (Ptr (Struct ProxyProtocolPassThroughTLVs)) ''pass_through_tlvs'' (Some CopyInto),
     Field ''AddedTlvs'' (Slice (Ptr (Struct TlvEntry))) ''added_tlvs'' (Some CopyElemsInto)]"

definition HealthCheck_TcpHealthCheck :: gostruct where [cds_defs]:
  "HealthCheck_TcpHealthCheck = GoStruct ''HealthCheck_TcpHealthCheck''
    [Field ''Send'' (Ptr (Struct HealthCheck_Payload)) ''send'' (Some CopyInto),
     Field ''Receive'' (Slice (Ptr (Struct HealthCheck_Payload))) ''receive'' (Some CopyElemsInto),
     Field ''ProxyProtocolConfig'' (Ptr (Struct ProxyProtocolConfig)) ''proxy_protocol_config'' (Some CopyInto)]"

definition HttpUri :: gostruct where [cds_defs]:
  "HttpUri = GoStruct ''HttpUri''
    [Field ''Uri'' (Basic String) ''uri'' None, Field ''Timeout'' (Ptr (Basic String)) ''timeout'' (Some CopyValue)]"

definition LocalityLbEndpoints_LbEndpointList :: gostruct where [cds_defs]:
  "LocalityLbEndpoints_LbEndpointList = GoStruct ''LocalityLbEndpoints_LbEndpointList''
    [Field ''LbEndpoints'' (Slice (Ptr (Struct LbEndpoint))) ''lb_endpoints'' (Some CopyElemsInto)]"

definition RemoteDataSource :: gostruct where [cds_defs]:
  "RemoteDataSource = GoStruct ''RemoteDataSource''
    [Field ''HttpUri'' (Ptr (Struct HttpUri)) ''http_uri'' (Some CopyInto),
     Field ''Sha256'' (Basic String) ''sha256'' None,
     Field ''RetryPolicy'' (Ptr (Struct RetryPolicy)) ''retry_policy'' (Some CopyInto)]"

section \<open>All of them\<close>

definition cds_enums :: "goenum list" where
  "cds_enums =
     [ApiConfigSource_ApiType, ApiVersion, Cluster_ClusterProtocolSelection, Cluster_DiscoveryType,
      Cluster_DnsLookupFamily, Cluster_LbPolicy, Cluster_LbSubsetConfig_LbSubsetFallbackPolicy,
      Cluster_LbSubsetConfig_LbSubsetMetadataFallbackPolicy,
      Cluster_LbSubsetConfig_LbSubsetSelector_LbSubsetSelectorFallbackPolicy, Cluster_RingHashLbConfig_HashFunction,
      CodecClientType, FractionalPercent_DenominatorType, HeaderValueOption_HeaderAppendAction, HealthStatus,
      HttpProtocolOptions_HeadersWithUnderscoresAction, KeyValueAppend_KeyValueAppendAction,
      ProxyProtocolConfig_Version, ProxyProtocolPassThroughTLVs_PassTLVsMatchType, RequestMethod, RoutingPriority,
      SocketAddress_Protocol, SocketOption_SocketState, TrafficDirection,
      UpstreamConnectionOptions_FirstAddressFamilyVersion]"

definition cds_structs :: "gostruct list" where
  "cds_structs =
     [TransportSocket, Cluster_TransportSocketMatch, WatchedDirectory, PathConfigSource, HeaderValue,
      BackoffStrategy, RetryPolicy_RetryPriority, RetryPolicy_RetryHostPredicate, RetryPolicy, GrpcService,
      RateLimitSettings, TypedExtensionConfig, ApiConfigSource, SelfConfigSource, ConfigSource,
      Cluster_EdsClusterConfig, Locality, Metadata, SocketAddress, Pipe, EnvoyInternalAddress, Address,
      Endpoint_HealthCheckConfig, Endpoint_AdditionalAddress, Endpoint, LbEndpoint, LedsClusterLocalityConfig,
      LocalityLbEndpoints, ClusterLoadAssignment, EventServiceConfig, HealthCheck_TlsOptions, HealthCheck,
      CircuitBreakers, UpstreamHttpProtocolOptions, HttpProtocolOptions, Http1ProtocolOptions_HeaderKeyFormat,
      StringMatcher, Http1ProtocolOptions, Http2ProtocolOptions_SettingsParameter, Percent, KeepaliveSettings,
      Http2ProtocolOptions, Cluster_RefreshRate, DnsResolverOptions, DnsResolutionConfig, OutlierDetection,
      SocketOption_SocketType, SocketOption, SocketOptionsOverride, ExtraSourceAddress, BindConfig,
      Cluster_LbSubsetConfig_LbSubsetSelector, Cluster_LbSubsetConfig,
      Cluster_CommonLbConfig_ConsistentHashingLbConfig, HealthStatusSet, Cluster_CommonLbConfig, TcpKeepalive,
      UpstreamConnectionOptions_HappyEyeballsConfig, UpstreamConnectionOptions, ExtensionConfigSource, Filter,
      LoadBalancingPolicy_Policy, LoadBalancingPolicy, TrackClusterStats, Cluster_PreconnectPolicy, CDS,
      SemanticVersion, BuildVersion, CircuitBreakers_Thresholds_RetryBudget, CircuitBreakers_Thresholds,
      FractionalPercent, ClusterLoadAssignment_Policy_DropOverload, ClusterLoadAssignment_Policy,
      Cluster_CommonLbConfig_ZoneAwareLbConfig, Cluster_CustomClusterType, RuntimeDouble, Cluster_SlowStartConfig,
      Cluster_LeastRequestLbConfig, Cluster_MaglevLbConfig, MetadataKey, Cluster_OriginalDstLbConfig,
      Cluster_RingHashLbConfig, Cluster_RoundRobinLbConfig, DataSource, GrpcService_EnvoyGrpc,
      GrpcService_GoogleGrpc_ChannelCredentials, GrpcService_GoogleGrpc_CallCredentials, GrpcService_GoogleGrpc,
      GrpcService_GoogleGrpc_ChannelArgs_Value, GrpcService_GoogleGrpc_ChannelArgs, HeaderValueOption,
      HealthCheck_CustomHealthCheck, HealthCheck_GrpcHealthCheck, HealthCheck_Payload, Int64Range,
      HealthCheck_HttpHealthCheck, ProxyProtocolPassThroughTLVs, JsonFormatOptions, SubstitutionFormatString,
      TlvEntry, ProxyProtocolConfig, HealthCheck_TcpHealthCheck, HttpUri, LocalityLbEndpoints_LbEndpointList,
      RemoteDataSource]"

end
