(* ===== verification/GenEds.thy ===== *)
theory GenEds
  imports GoTypes
begin

text \<open>
  The types of \<open>src/pkg/xds/types/eds/eds_generated.go\<close> in the order in which they refer to each other: the enums with
  their tables, then every struct with its fields and the statements of its \<open>DeepCopyInto\<close>.
\<close>

named_theorems eds_defs "the structs of the file"

section \<open>Enums\<close>

definition ApiConfigSource_ApiType :: goenum where
  "ApiConfigSource_ApiType = GoEnum ''ApiConfigSource_ApiType''
    [(''ApiConfigSource_ApiType_DEPRECATED_AND_UNAVAILABLE_DO_NOT_USE'', ''DEPRECATED_AND_UNAVAILABLE_DO_NOT_USE''),
     (''ApiConfigSource_ApiType_REST'', ''REST''), (''ApiConfigSource_ApiType_GRPC'', ''GRPC''),
     (''ApiConfigSource_ApiType_DELTA_GRPC'', ''DELTA_GRPC''),
     (''ApiConfigSource_ApiType_AGGREGATED_GRPC'', ''AGGREGATED_GRPC''),
     (''ApiConfigSource_ApiType_AGGREGATED_DELTA_GRPC'', ''AGGREGATED_DELTA_GRPC'')]
    [(0, ''DEPRECATED_AND_UNAVAILABLE_DO_NOT_USE''), (1, ''REST''), (2, ''GRPC''), (3, ''DELTA_GRPC''),
     (5, ''AGGREGATED_GRPC''), (6, ''AGGREGATED_DELTA_GRPC'')]
    [(''DEPRECATED_AND_UNAVAILABLE_DO_NOT_USE'', 0), (''REST'', 1), (''GRPC'', 2), (''DELTA_GRPC'', 3),
     (''AGGREGATED_GRPC'', 5), (''AGGREGATED_DELTA_GRPC'', 6)]"

definition ApiVersion :: goenum where
  "ApiVersion = GoEnum ''ApiVersion''
    [(''ApiVersion_AUTO'', ''AUTO''), (''ApiVersion_V2'', ''V2''), (''ApiVersion_V3'', ''V3'')]
    [(0, ''AUTO''), (1, ''V2''), (2, ''V3'')]
    [(''AUTO'', 0), (''V2'', 1), (''V3'', 2)]"

definition CodecClientType :: goenum where
  "CodecClientType = GoEnum ''CodecClientType''
    []
    []
    []"

definition FractionalPercent_DenominatorType :: goenum where
  "FractionalPercent_DenominatorType = GoEnum ''FractionalPercent_DenominatorType''
    []
    []
    []"

definition HeaderValueOption_HeaderAppendAction :: goenum where
  "HeaderValueOption_HeaderAppendAction = GoEnum ''HeaderValueOption_HeaderAppendAction''
    [(''HeaderValueOption_HeaderAppendAction_APPEND_IF_EXISTS_OR_ADD'', ''APPEND_IF_EXISTS_OR_ADD''),
     (''HeaderValueOption_HeaderAppendAction_ADD_IF_ABSENT'', ''ADD_IF_ABSENT''),
     (''HeaderValueOption_HeaderAppendAction_OVERWRITE_IF_EXISTS_OR_ADD'', ''OVERWRITE_IF_EXISTS_OR_ADD''),
     (''HeaderValueOption_HeaderAppendAction_OVERWRITE_IF_EXISTS'', ''OVERWRITE_IF_EXISTS'')]
    [(0, ''APPEND_IF_EXISTS_OR_ADD''), (1, ''ADD_IF_ABSENT''), (2, ''OVERWRITE_IF_EXISTS_OR_ADD''),
     (3, ''OVERWRITE_IF_EXISTS'')]
    [(''APPEND_IF_EXISTS_OR_ADD'', 0), (''ADD_IF_ABSENT'', 1), (''OVERWRITE_IF_EXISTS_OR_ADD'', 2),
     (''OVERWRITE_IF_EXISTS'', 3)]"

definition HealthStatus :: goenum where
  "HealthStatus = GoEnum ''HealthStatus''
    [(''HealthStatus_UNKNOWN'', ''UNKNOWN''), (''HealthStatus_HEALTHY'', ''HEALTHY''),
     (''HealthStatus_UNHEALTHY'', ''UNHEALTHY''), (''HealthStatus_DRAINING'', ''DRAINING''),
     (''HealthStatus_TIMEOUT'', ''TIMEOUT''), (''HealthStatus_DEGRADED'', ''DEGRADED'')]
    [(0, ''UNKNOWN''), (1, ''HEALTHY''), (2, ''UNHEALTHY''), (3, ''DRAINING''), (4, ''TIMEOUT''), (5, ''DEGRADED'')]
    [(''UNKNOWN'', 0), (''HEALTHY'', 1), (''UNHEALTHY'', 2), (''DRAINING'', 3), (''TIMEOUT'', 4), (''DEGRADED'', 5)]"

definition HttpProtocolOptions_HeadersWithUnderscoresAction :: goenum where
  "HttpProtocolOptions_HeadersWithUnderscoresAction = GoEnum ''HttpProtocolOptions_HeadersWithUnderscoresAction''
    [(''HttpProtocolOptions_HeadersWithUnderscoresAction_ALLOW'', ''ALLOW''),
     (''HttpProtocolOptions_HeadersWithUnderscoresAction_REJECT_REQUEST'', ''REJECT_REQUEST''),
     (''HttpProtocolOptions_HeadersWithUnderscoresAction_DROP_HEADER'', ''DROP_HEADER'')]
    [(0, ''ALLOW''), (1, ''REJECT_REQUEST''), (2, ''DROP_HEADER'')]
    [(''ALLOW'', 0), (''REJECT_REQUEST'', 1), (''DROP_HEADER'', 2)]"

definition KeyValueAppend_KeyValueAppendAction :: goenum where
  "KeyValueAppend_KeyValueAppendAction = GoEnum ''KeyValueAppend_KeyValueAppendAction''
    [(''KeyValueAppend_KeyValueAppendAction_APPEND_IF_EXISTS_OR_ADD'', ''APPEND_IF_EXISTS_OR_ADD''),
     (''KeyValueAppend_KeyValueAppendAction_ADD_IF_ABSENT'', ''ADD_IF_ABSENT''),
     (''KeyValueAppend_KeyValueAppendAction_OVERWRITE_IF_EXISTS_OR_ADD'', ''OVERWRITE_IF_EXISTS_OR_ADD''),
     (''KeyValueAppend_KeyValueAppendAction_OVERWRITE_IF_EXISTS'', ''OVERWRITE_IF_EXISTS'')]
    [(0, ''APPEND_IF_EXISTS_OR_ADD''), (1, ''ADD_IF_ABSENT''), (2, ''OVERWRITE_IF_EXISTS_OR_ADD''),
     (3, ''OVERWRITE_IF_EXISTS'')]
    [(''APPEND_IF_EXISTS_OR_ADD'', 0), (''ADD_IF_ABSENT'', 1), (''OVERWRITE_IF_EXISTS_OR_ADD'', 2),
     (''OVERWRITE_IF_EXISTS'', 3)]"

definition ProxyProtocolConfig_Version :: goenum where
  "ProxyProtocolConfig_Version = GoEnum ''ProxyProtocolConfig_Version''
    []
    []
    []"

definition ProxyProtocolPassThroughTLVs_PassTLVsMatchType :: goenum where
  "ProxyProtocolPassThroughTLVs_PassTLVsMatchType = GoEnum ''ProxyProtocolPassThroughTLVs_PassTLVsMatchType''
    []
    []
    []"

definition RequestMethod :: goenum where
  "RequestMethod = GoEnum ''RequestMethod''
    [(''RequestMethod_METHOD_UNSPECIFIED'', ''METHOD_UNSPECIFIED''), (''RequestMethod_GET'', ''GET''),
     (''RequestMethod_HEAD'', ''HEAD''), (''RequestMethod_POST'', ''POST''), (''RequestMethod_PUT'', ''PUT''),
     (''RequestMethod_DELETE'', ''DELETE''), (''RequestMethod_CONNECT'', ''CONNECT''),
     (''RequestMethod_OPTIONS'', ''OPTIONS''), (''RequestMethod_TRACE'', ''TRACE''),
     (''RequestMethod_PATCH'', ''PATCH'')]
    [(0, ''METHOD_UNSPECIFIED''), (1, ''GET''), (2, ''HEAD''), (3, ''POST''), (4, ''PUT''), (5, ''DELETE''),
     (6, ''CONNECT''), (7, ''OPTIONS''), (8, ''TRACE''), (9, ''PATCH'')]
    [(''METHOD_UNSPECIFIED'', 0), (''GET'', 1), (''HEAD'', 2), (''POST'', 3), (''PUT'', 4), (''DELETE'', 5),
     (''CONNECT'', 6), (''OPTIONS'', 7), (''TRACE'', 8), (''PATCH'', 9)]"

definition RoutingPriority :: goenum where
  "RoutingPriority = GoEnum ''RoutingPriority''
    [(''RoutingPriority_DEFAULT'', ''DEFAULT''), (''RoutingPriority_HIGH'', ''HIGH'')]
    [(0, ''DEFAULT''), (1, ''HIGH'')]
    [(''DEFAULT'', 0), (''HIGH'', 1)]"

definition SocketAddress_Protocol :: goenum where
  "SocketAddress_Protocol = GoEnum ''SocketAddress_Protocol''
    [(''SocketAddress_Protocol_TCP'', ''TCP''), (''SocketAddress_Protocol_UDP'', ''UDP'')]
    [(0, ''TCP''), (1, ''UDP'')]
    [(''TCP'', 0), (''UDP'', 1)]"

definition SocketOption_SocketState :: goenum where
  "SocketOption_SocketState = GoEnum ''SocketOption_SocketState''
    [(''SocketOption_SocketState_STATE_PREBIND'', ''STATE_PREBIND''),
     (''SocketOption_SocketState_STATE_BOUND'', ''STATE_BOUND''),
     (''SocketOption_SocketState_STATE_LISTENING'', ''STATE_LISTENING'')]
    [(0, ''STATE_PREBIND''), (1, ''STATE_BOUND''), (2, ''STATE_LISTENING'')]
    [(''STATE_PREBIND'', 0), (''STATE_BOUND'', 1), (''STATE_LISTENING'', 2)]"

definition TrafficDirection :: goenum where
  "TrafficDirection = GoEnum ''TrafficDirection''
    [(''TrafficDirection_UNSPECIFIED'', ''UNSPECIFIED''), (''TrafficDirection_INBOUND'', ''INBOUND''),
     (''TrafficDirection_OUTBOUND'', ''OUTBOUND'')]
    [(0, ''UNSPECIFIED''), (1, ''INBOUND''), (2, ''OUTBOUND'')]
    [(''UNSPECIFIED'', 0), (''INBOUND'', 1), (''OUTBOUND'', 2)]"

section \<open>Structs\<close>

definition Locality :: gostruct where [eds_defs]:
  "Locality = GoStruct ''Locality''
    [Field ''Region'' (Basic String) ''region'' None, Field ''Zone'' (Basic String) ''zone'' None,
     Field ''SubZone'' (Basic String) ''sub_zone'' None]"

definition Metadata :: gostruct where [eds_defs]:
  "Metadata = GoStruct ''Metadata''
    [Field ''FilterMetadata'' (Map (Ptr RawExtension)) ''filter_metadata'' (Some CopyMap),
     Field ''TypedFilterMetadata'' (Map (Ptr RawExtension)) ''typed_filter_metadata'' (Some CopyMap)]"

definition SocketAddress :: gostruct where [eds_defs]:
  "SocketAddress = GoStruct ''SocketAddress''
    [Field ''Protocol'' (Enum SocketAddress_Protocol) ''protocol'' None,
     Field ''Address'' (Basic String) ''address'' None, Field ''PortValue'' (Basic Uint32) ''port_value'' None,
     Field ''NamedPort'' (Basic String) ''named_port'' None,
     Field ''ResolverName'' (Basic String) ''resolver_name'' None,
     Field ''Ipv4Compat'' (Basic Bool) ''ipv4_compat'' None,
     Field ''NetworkNamespaceFilepath'' (Basic String) ''network_namespace_filepath'' None]"

definition Pipe :: gostruct where [eds_defs]:
  "Pipe = GoStruct ''Pipe''
    [Field ''Path'' (Basic String) ''path'' None, Field ''Mode'' (Basic Uint32) ''mode'' None]"

definition EnvoyInternalAddress :: gostruct where [eds_defs]:
  "EnvoyInternalAddress = GoStruct ''EnvoyInternalAddress''
    [Field ''ServerListenerName'' (Basic String) ''server_listener_name'' None,
     Field ''EndpointId'' (Basic String) ''endpoint_id'' None]"

definition Address :: gostruct where [eds_defs]:
  "Address = GoStruct ''Address''
    [Field ''SocketAddress'' (Ptr (Struct SocketAddress)) ''socket_address'' (Some CopyInto),
     Field ''Pipe'' (Ptr (Struct Pipe)) ''pipe'' (Some CopyInto),
     Field ''EnvoyInternalAddress'' (Ptr (Struct EnvoyInternalAddress)) ''envoy_internal_address'' (Some CopyInto)]"

definition Endpoint_HealthCheckConfig :: gostruct where [eds_defs]:
  "Endpoint_HealthCheckConfig = GoStruct ''Endpoint_HealthCheckConfig''
    [Field ''PortValue'' (Basic Uint32) ''port_value'' None, Field ''Hostname'' (Basic String) ''hostname'' None,
     Field ''Address'' (Ptr (Struct Address)) ''address'' (Some CopyInto),
     Field ''DisableActiveHealthCheck'' (Basic Bool) ''disable_active_health_check'' None]"

definition Endpoint_AdditionalAddress :: gostruct where [eds_defs]:
  "Endpoint_AdditionalAddress = GoStruct ''Endpoint_AdditionalAddress''
    [Field ''Address'' (Ptr (Struct Address)) ''address'' (Some CopyInto)]"

definition Endpoint :: gostruct where [eds_defs]:
  "Endpoint = GoStruct ''Endpoint''
    [Field ''Address'' (Ptr (Struct Address)) ''address'' (Some CopyInto),
     Field ''HealthCheckConfig'' (Ptr (Struct Endpoint_HealthCheckConfig)) ''health_check_config'' (Some CopyInto),
     Field ''Hostname'' (Basic String) ''hostname'' None,
     Field ''AdditionalAddresses'' (Slice (Ptr (Struct Endpoint_AdditionalAddress))) ''additional_addresses'' (Some CopyElemsInto)]"

definition LbEndpoint :: gostruct where [eds_defs]:
  "LbEndpoint = GoStruct ''LbEndpoint''
    [Field ''Endpoint'' (Ptr (Struct Endpoint)) ''endpoint'' (Some CopyInto),
     Field ''EndpointName'' (Basic String) ''endpoint_name'' None,
     Field ''HealthStatus'' (Enum HealthStatus) ''health_status'' None,
     Field ''Metadata'' (Ptr (Struct Metadata)) ''metadata'' (Some CopyInto),
     Field ''LoadBalancingWeight'' (Ptr (Basic Uint32)) ''load_balancing_weight'' (Some CopyValue)]"

definition WatchedDirectory :: gostruct where [eds_defs]:
  "WatchedDirectory = GoStruct ''WatchedDirectory''
    [Field ''Path'' (Basic String) ''path'' None]"

definition PathConfigSource :: gostruct where [eds_defs]:
  "PathConfigSource = GoStruct ''PathConfigSource''
    [Field ''Path'' (Basic String) ''path'' None,
     Field ''WatchedDirectory'' (Ptr (Struct WatchedDirectory)) ''watched_directory'' (Some CopyInto)]"

definition HeaderValue :: gostruct where [eds_defs]:
  "HeaderValue = GoStruct ''HeaderValue''
    [Field ''Key'' (Basic String) ''key'' None, Field ''Value'' (Basic String) ''value'' None,
     Field ''RawValue'' Bytes ''raw_value'' (Some CopySlice)]"

definition BackoffStrategy :: gostruct where [eds_defs]:
  "BackoffStrategy = GoStruct ''BackoffStrategy''
    [Field ''BaseInterval'' (Ptr (Basic String)) ''base_interval'' (Some CopyValue),
     Field ''MaxInterval'' (Ptr (Basic String)) ''max_interval'' (Some CopyValue)]"

definition RetryPolicy_RetryPriority :: gostruct where [eds_defs]:
  "RetryPolicy_RetryPriority = GoStruct ''RetryPolicy_RetryPriority''
    [Field ''Name'' (Basic String) ''name'' None,
     Field ''TypedConfig'' (Ptr RawExtension) ''typed_config'' (Some CopyValue)]"

definition RetryPolicy_RetryHostPredicate :: gostruct where [eds_defs]:
  "RetryPolicy_RetryHostPredicate = GoStruct ''RetryPolicy_RetryHostPredicate''
    [Field ''Name'' (Basic String) ''name'' None,
     Field ''TypedConfig'' (Ptr RawExtension) ''typed_config'' (Some CopyValue)]"

definition RetryPolicy :: gostruct where [eds_defs]:
  "RetryPolicy = GoStruct ''RetryPolicy''
    [Field ''RetryBackOff'' (Ptr (Struct BackoffStrategy)) ''retry_back_off'' (Some CopyInto),
     Field ''NumRetries'' (Ptr (Basic Uint32)) ''num_retries'' (Some CopyValue),
     Field ''RetryOn'' (Basic String) ''retry_on'' None,
     Field ''RetryPriority'' (Ptr (Struct RetryPolicy_RetryPriority)) ''retry_priority'' (Some CopyInto),
     Field ''RetryHostPredicate'' (Slice (Ptr (Struct RetryPolicy_RetryHostPredicate))) ''retry_host_predicate'' (Some CopyElemsInto),
     Field ''HostSelectionRetryMaxAttempts'' (Basic Int64) ''host_selection_retry_max_attempts'' None]"

definition GrpcService :: gostruct where [eds_defs]:
  "GrpcService = GoStruct ''GrpcService''
    [Field ''EnvoyGrpc'' (Ptr RawExtension) ''envoy_grpc'' (Some CopyValue),
     Field ''GoogleGrpc'' (Ptr RawExtension) ''google_grpc'' (Some CopyValue),
     Field ''SslCredentials'' (Ptr RawExtension) ''ssl_credentials'' (Some CopyValue),
     Field ''LocalCredentials'' (Ptr RawExtension) ''local_credentials'' (Some CopyValue),
     Field ''FromPlugin'' (Ptr RawExtension) ''from_plugin'' (Some CopyValue),
     Field ''StsService'' (Ptr RawExtension) ''sts_service'' (Some CopyValue),
     Field ''StringValue'' (Basic String) ''string_value'' None, Field ''IntValue'' (Basic Int64) ''int_value'' None,
     Field ''Timeout'' (Ptr (Basic String)) ''timeout'' (Some CopyValue),
     Field ''InitialMetadata'' (Slice (Ptr (Struct HeaderValue))) ''initial_metadata'' (Some CopyElemsInto),
     Field ''RetryPolicy'' (Ptr (Struct RetryPolicy)) ''retry_policy'' (Some CopyInto)]"

definition RateLimitSettings :: gostruct where [eds_defs]:
  "RateLimitSettings = GoStruct ''RateLimitSettings''
    [Field ''MaxTokens'' (Ptr (Basic Uint32)) ''max_tokens'' (Some CopyValue),
     Field ''FillRate'' (Ptr (Basic Float64)) ''fill_rate'' (Some CopyValue)]"

definition TypedExtensionConfig :: gostruct where [eds_defs]:
  "TypedExtensionConfig = GoStruct ''TypedExtensionConfig''
    [Field ''Name'' (Basic String) ''name'' None,
     Field ''TypedConfig'' (Ptr RawExtension) ''typed_config'' (Some CopyValue)]"

definition ApiConfigSource :: gostruct where [eds_defs]:
  "ApiConfigSource = GoStruct ''ApiConfigSource''
    [Field ''ApiType'' (Enum ApiConfigSource_ApiType) ''api_type'' None,
     Field ''TransportApiVersion'' (Enum ApiVersion) ''transport_api_version'' None,
     Field ''ClusterNames'' (Slice (Basic String)) ''cluster_names'' (Some CopySlice),
     Field ''GrpcServices'' (Slice (Ptr (Struct GrpcService))) ''grpc_services'' (Some CopyElemsInto),
     Field ''RefreshDelay'' (Ptr (Basic String)) ''refresh_delay'' (Some CopyValue),
     Field ''RequestTimeout'' (Ptr (Basic String)) ''request_timeout'' (Some CopyValue),
     Field ''RateLimitSettings'' (Ptr (Struct RateLimitSettings)) ''rate_limit_settings'' (Some CopyInto),
     Field ''SetNodeOnFirstMessageOnly'' (Basic Bool) ''set_node_on_first_message_only'' None,
     Field ''ConfigValidators'' (Slice (Ptr (Struct TypedExtensionConfig))) ''config_validators'' (Some CopyElemsInto)]"

definition SelfConfigSource :: gostruct where [eds_defs]:
  "SelfConfigSource = GoStruct ''SelfConfigSource''
    [Field ''TransportApiVersion'' (Enum ApiVersion) ''transport_api_version'' None]"

definition ConfigSource :: gostruct where [eds_defs]:
  "ConfigSource = GoStruct ''ConfigSource''
    [Field ''Path'' (Basic String) ''path'' None,
     Field ''PathConfigSource'' (Ptr (Struct PathConfigSource)) ''path_config_source'' (Some CopyInto),
     Field ''ApiConfigSource'' (Ptr (Struct ApiConfigSource)) ''api_config_source'' (Some CopyInto),
     Field ''Ads'' (Ptr RawExtension) ''ads'' (Some CopyValue),
     Field ''Self'' (Ptr (Struct SelfConfigSource)) ''self'' (Some CopyInto),
     Field ''InitialFetchTimeout'' (Ptr (Basic String)) ''initial_fetch_timeout'' (Some CopyValue),
     Field ''ResourceApiVersion'' (Enum ApiVersion) ''resource_api_version'' None]"

definition LedsClusterLocalityConfig :: gostruct where [eds_defs]:
  "LedsClusterLocalityConfig = GoStruct ''LedsClusterLocalityConfig''
    [Field ''LedsConfig'' (Ptr (Struct ConfigSource)) ''leds_config'' (Some CopyInto),
     Field ''LedsCollectionName'' (Basic String) ''leds_collection_name'' None]"

definition LocalityLbEndpoints :: gostruct where [eds_defs]:
  "LocalityLbEndpoints = GoStruct ''LocalityLbEndpoints''
    [Field ''Locality'' (Ptr (Struct Locality)) ''locality'' (Some CopyInto),
     Field ''Metadata'' (Ptr (Struct Metadata)) ''metadata'' (Some CopyInto),
     Field ''LbEndpoints'' (Slice (Ptr (Struct LbEndpoint))) ''lb_endpoints'' (Some CopyElemsInto),
     Field ''LoadBalancerEndpoints'' (Ptr RawExtension) ''load_balancer_endpoints'' (Some CopyValue),
     Field ''LedsClusterLocalityConfig'' (Ptr (Struct LedsClusterLocalityConfig)) ''leds_cluster_locality_config'' (Some CopyInto),
     Field ''LoadBalancingWeight'' (Ptr (Basic Uint32)) ''load_balancing_weight'' (Some CopyValue),
     Field ''Priority'' (Basic Uint32) ''priority'' None,
     Field ''Proximity'' (Ptr (Basic Uint32)) ''proximity'' (Some CopyValue)]"

definition FractionalPercent :: gostruct where [eds_defs]:
  "FractionalPercent = GoStruct ''FractionalPercent''
    [Field ''Numerator'' (Basic Uint32) ''numerator'' None,
     Field ''Denominator'' (Enum FractionalPercent_DenominatorType) ''denominator'' None]"

definition ClusterLoadAssignment_Policy_DropOverload :: gostruct where [eds_defs]:
  "ClusterLoadAssignment_Policy_DropOverload = GoStruct ''ClusterLoadAssignment_Policy_DropOverload''
    [Field ''Category'' (Basic String) ''category'' None,
     Field ''DropPercentage'' (Ptr (Struct FractionalPercent)) ''drop_percentage'' (Some CopyInto)]"

definition ClusterLoadAssignment_Policy :: gostruct where [eds_defs]:
  "ClusterLoadAssignment_Policy = GoStruct ''ClusterLoadAssignment_Policy''
    [Field ''DropOverloads'' (Slice (Ptr (Struct ClusterLoadAssignment_Policy_DropOverload))) ''drop_overloads'' (Some CopyElemsInto),
     Field ''OverprovisioningFactor'' (Ptr (Basic Uint32)) ''overprovisioning_factor'' (Some CopyValue),
     Field ''EndpointStaleAfter'' (Ptr (Basic String)) ''endpoint_stale_after'' (Some CopyValue),
     Field ''WeightedPriorityHealth'' (Basic Bool) ''weighted_priority_health'' None]"

definition EDS :: gostruct where [eds_defs]:
  "EDS = GoStruct ''EDS''
    [Field ''ClusterName'' (Basic String) ''cluster_name'' None,
     Field ''Endpoints'' (Slice (Ptr (Struct LocalityLbEndpoints))) ''endpoints'' (Some CopyElemsInto),
     Field ''NamedEndpoints'' (Map (Ptr (Struct Endpoint))) ''named_endpoints'' (Some CopyMap),
     Field ''Policy'' (Ptr (Struct ClusterLoadAssignment_Policy)) ''policy'' (Some CopyInto)]"

definition SemanticVersion :: gostruct where [eds_defs]:
  "SemanticVersion = GoStruct ''SemanticVersion''
    [Field ''MajorNumber'' (Basic Uint32) ''major_number'' None,
     Field ''MinorNumber'' (Basic Uint32) ''minor_number'' None, Field ''Patch'' (Basic Uint32) ''patch'' None]"

definition BuildVersion :: gostruct where [eds_defs]:
  "BuildVersion = GoStruct ''BuildVersion''
    [Field ''Version'' (Ptr (Struct SemanticVersion)) ''version'' (Some CopyInto),
     Field ''Metadata'' (Ptr RawExtension) ''metadata'' (Some CopyValue)]"

definition DataSource :: gostruct where [eds_defs]:
  "DataSource = GoStruct ''DataSource''
    [Field ''Filename'' (Basic String) ''filename'' None,
     Field ''InlineBytes'' Bytes ''inline_bytes'' (Some CopySlice),
     Field ''InlineString'' (Basic String) ''inline_string'' None,
     Field ''EnvironmentVariable'' (Basic String) ''environment_variable'' None,
     Field ''WatchedDirectory'' (Ptr (Struct WatchedDirectory)) ''watched_directory'' (Some CopyInto)]"

definition GrpcService_EnvoyGrpc :: gostruct where [eds_defs]:
  "GrpcService_EnvoyGrpc = GoStruct ''GrpcService_EnvoyGrpc''
    [Field ''ClusterName'' (Basic String) ''cluster_name'' None,
     Field ''Authority'' (Basic String) ''authority'' None,
     Field ''RetryPolicy'' (Ptr (Struct RetryPolicy)) ''retry_policy'' (Some CopyInto),
     Field ''MaxReceiveMessageLength'' (Ptr (Basic Uint32)) ''max_receive_message_length'' (Some CopyValue),
     Field ''SkipEnvoyHeaders'' (Basic Bool) ''skip_envoy_headers'' None]"

definition GrpcService_GoogleGrpc_ChannelCredentials :: gostruct where [eds_defs]:
  "GrpcService_GoogleGrpc_ChannelCredentials = GoStruct ''GrpcService_GoogleGrpc_ChannelCredentials''
    [Field ''AccessToken'' (Basic String) ''access_token'' None]"

definition GrpcService_GoogleGrpc_CallCredentials :: gostruct where [eds_defs]:
  "GrpcService_GoogleGrpc_CallCredentials = GoStruct ''GrpcService_GoogleGrpc_CallCredentials''
    [Field ''GoogleComputeEngine'' (Ptr (Basic Bool)) ''google_compute_engine'' (Some CopyValue),
     Field ''GoogleIam'' (Ptr RawExtension) ''google_iam'' (Some CopyValue)]"

definition GrpcService_GoogleGrpc :: gostruct where [eds_defs]:
  "GrpcService_GoogleGrpc = GoStruct ''GrpcService_GoogleGrpc''
    [Field ''TargetUri'' (Basic String) ''target_uri'' None,
     Field ''ChannelCredentials'' (Ptr (Struct GrpcService_GoogleGrpc_ChannelCredentials)) ''channel_credentials'' (Some CopyInto),
     Field ''ChannelCredentialsPlugin'' (Slice (Ptr RawExtension)) ''channel_credentials_plugin'' (Some CopyElems),
     Field ''CallCredentials'' (Slice (Ptr (Struct GrpcService_GoogleGrpc_CallCredentials))) ''call_credentials'' (Some CopyElemsInto),
     Field ''CallCredentialsPlugin'' (Slice (Ptr RawExtension)) ''call_credentials_plugin'' (Some CopyElems),
     Field ''StatPrefix'' (Basic String) ''stat_prefix'' None,
     Field ''CredentialsFactoryName'' (Basic String) ''credentials_factory_name'' None,
     Field ''Config'' (Ptr RawExtension) ''config'' (Some CopyValue),
     Field ''PerStreamBufferLimitBytes'' (Ptr (Basic Uint32)) ''per_stream_buffer_limit_bytes'' (Some CopyValue),
     Field ''ChannelArgs'' (Ptr RawExtension) ''channel_args'' (Some CopyValue)]"

definition GrpcService_GoogleGrpc_ChannelArgs_Value :: gostruct where [eds_defs]:
  "GrpcService_GoogleGrpc_ChannelArgs_Value = GoStruct ''GrpcService_GoogleGrpc_ChannelArgs_Value''
    [Field ''GoogleDefault'' (Ptr (Basic Bool)) ''google_default'' (Some CopyValue),
     Field ''ServiceAccountJwtAccess'' (Ptr RawExtension) ''service_account_jwt_access'' (Some CopyValue),
     Field ''TypedConfig'' (Ptr RawExtension) ''typed_config'' (Some CopyValue)]"

definition GrpcService_GoogleGrpc_ChannelArgs :: gostruct where [eds_defs]:
  "GrpcService_GoogleGrpc_ChannelArgs = GoStruct ''GrpcService_GoogleGrpc_ChannelArgs''
    [Field ''Args'' (Map (Ptr (Struct GrpcService_GoogleGrpc_ChannelArgs_Value))) ''args'' (Some CopyMap)]"

definition HeaderValueOption :: gostruct where [eds_defs]:
  "HeaderValueOption = GoStruct ''HeaderValueOption''
    [Field ''Header'' (Ptr (Struct HeaderValue)) ''header'' (Some CopyInto),
     Field ''Append'' (Ptr (Basic Bool)) ''append'' (Some CopyValue),
     Field ''AppendAction'' (Enum HeaderValueOption_HeaderAppendAction) ''append_action'' None,
     Field ''KeepEmptyValue'' (Basic Bool) ''keep_empty_value'' None]"

definition HealthCheck_CustomHealthCheck :: gostruct where [eds_defs]:
  "HealthCheck_CustomHealthCheck = GoStruct ''HealthCheck_CustomHealthCheck''
    [Field ''Name'' (Basic String) ''name'' None,
     Field ''TypedConfig'' (Ptr RawExtension) ''typed_config'' (Some CopyValue)]"

definition HealthCheck_GrpcHealthCheck :: gostruct where [eds_defs]:
  "HealthCheck_GrpcHealthCheck = GoStruct ''HealthCheck_GrpcHealthCheck''
    [Field ''ServiceName'' (Basic String) ''service_name'' None,
     Field ''Authority'' (Basic String) ''authority'' None,
     Field ''InitialMetadata'' (Slice (Ptr (Struct HeaderValueOption))) ''initial_metadata'' (Some CopyElemsInto)]"

definition HealthCheck_Payload :: gostruct where [eds_defs]:
  "HealthCheck_Payload = GoStruct ''HealthCheck_Payload''
    [Field ''Text'' (Basic String) ''text'' None, Field ''Binary'' Bytes ''binary'' (Some CopySlice)]"

definition Int64Range :: gostruct where [eds_defs]:
  "Int64Range = GoStruct ''Int64Range''
    [Field ''Start'' (Basic Int64) ''start'' None, Field ''End'' (Basic Int64) ''end'' None]"

definition StringMatcher :: gostruct where [eds_defs]:
  "StringMatcher = GoStruct ''StringMatcher''
    [Field ''IgnoreCase'' (Basic Bool) ''ignore_case'' None]"

definition HealthCheck_HttpHealthCheck :: gostruct where [eds_defs]:
  "HealthCheck_HttpHealthCheck = GoStruct ''HealthCheck_HttpHealthCheck''
    [Field ''Host'' (Basic String) ''host'' None, Field ''Path'' (Basic String) ''path'' None,
     Field ''Send'' (Ptr (Struct HealthCheck_Payload)) ''send'' (Some CopyInto),
     Field ''Receive'' (Slice (Ptr (Struct HealthCheck_Payload))) ''receive'' (Some CopyElemsInto),
     Field ''ResponseBufferSize'' (Ptr (Basic Uint64)) ''response_buffer_size'' (Some CopyValue),
     Field ''RequestHeadersToAdd'' (Slice (Ptr (Struct HeaderValueOption))) ''request_headers_to_add'' (Some CopyElemsInto),
     Field ''RequestHeadersToRemove'' (Slice (Basic String)) ''request_headers_to_remove'' (Some CopySlice),
     Field ''ExpectedStatuses'' (Slice (Ptr (Struct Int64Range))) ''expected_statuses'' (Some CopyElemsInto),
     Field ''RetriableStatuses'' (Slice (Ptr (Struct Int64Range))) ''retriable_statuses'' (Some CopyElemsInto),
     Field ''CodecClientType'' (Enum CodecClientType) ''codec_client_type'' None,
     Field ''ServiceNameMatcher'' (Ptr (Struct StringMatcher)) ''service_name_matcher'' (Some CopyInto),
     Field ''Method'' (Enum RequestMethod) ''method'' None]"

definition ProxyProtocolPassThroughTLVs :: gostruct where [eds_defs]:
  "ProxyProtocolPassThroughTLVs = GoStruct ''ProxyProtocolPassThroughTLVs''
    [Field ''MatchType'' (Enum ProxyProtocolPassThroughTLVs_PassTLVsMatchType) ''match_type'' None,
     Field ''TlvType'' (Slice (Basic Uint32)) ''tlv_type'' (Some CopySlice)]"

definition JsonFormatOptions :: gostruct where [eds_defs]:
  "JsonFormatOptions = GoStruct ''JsonFormatOptions''
    [Field ''SortProperties'' (Basic Bool) ''sort_properties'' None]"

definition SubstitutionFormatString :: gostruct where [eds_defs]:
  "SubstitutionFormatString = GoStruct ''SubstitutionFormatString''
    [Field ''OmitEmptyValues'' (Basic Bool) ''omit_empty_values'' None,
     Field ''ContentType'' (Basic String) ''content_type'' None,
     Field ''Formatters'' (Slice (Ptr (Struct TypedExtensionConfig))) ''formatters'' (Some CopyElemsInto),
     Field ''JsonFormatOptions'' (Ptr (Struct JsonFormatOptions)) ''json_format_options'' (Some CopyInto)]"

definition TlvEntry :: gostruct where [eds_defs]:
  "TlvEntry = GoStruct ''TlvEntry''
    [Field ''Type'' (Basic Uint32) ''type'' None, Field ''Value'' Bytes ''value'' (Some CopySlice),
     Field ''FormatString'' (Ptr (Struct SubstitutionFormatString)) ''format_string'' (Some CopyInto)]"

definition ProxyProtocolConfig :: gostruct where [eds_defs]:
  "ProxyProtocolConfig = GoStruct ''ProxyProtocolConfig''
    [Field ''Version'' (Enum ProxyProtocolConfig_Version) ''version'' None,
     Field ''PassThroughTlvs'' (Ptr (Struct ProxyProtocolPassThroughTLVs)) ''pass_through_tlvs'' (Some CopyInto),
     Field ''AddedTlvs'' (Slice (Ptr (Struct TlvEntry))) ''added_tlvs'' (Some CopyElemsInto)]"

definition HealthCheck_TcpHealthCheck :: gostruct where [eds_defs]:
  "HealthCheck_TcpHealthCheck = GoStruct ''HealthCheck_TcpHealthCheck''
    [Field ''Send'' (Ptr (Struct HealthCheck_Payload)) ''send'' (Some CopyInto),
     Field ''Receive'' (Slice (Ptr (Struct HealthCheck_Payload))) ''receive'' (Some CopyElemsInto),
     Field ''ProxyProtocolConfig'' (Ptr (Struct ProxyProtocolConfig)) ''proxy_protocol_config'' (Some CopyInto)]"

definition HttpUri :: gostruct where [eds_defs]:
  "HttpUri = GoStruct ''HttpUri''
    [Field ''Uri'' (Basic String) ''uri'' None, Field ''Timeout'' (Ptr (Basic String)) ''timeout'' (Some CopyValue)]"

definition LocalityLbEndpoints_LbEndpointList :: gostruct where [eds_defs]:
  "LocalityLbEndpoints_LbEndpointList = GoStruct ''LocalityLbEndpoints_LbEndpointList''
    [Field ''LbEndpoints'' (Slice (Ptr (Struct LbEndpoint))) ''lb_endpoints'' (Some CopyElemsInto)]"

definition RemoteDataSource :: gostruct where [eds_defs]:
  "RemoteDataSource = GoStruct ''RemoteDataSource''
    [Field ''HttpUri'' (Ptr (Struct HttpUri)) ''http_uri'' (Some CopyInto),
     Field ''Sha256'' (Basic String) ''sha256'' None,
     Field ''RetryPolicy'' (Ptr (Struct RetryPolicy)) ''retry_policy'' (Some CopyInto)]"

section \<open>All of them\<close>

definition eds_enums :: "goenum list" where
  "eds_enums =
     [ApiConfigSource_ApiType, ApiVersion, CodecClientType, FractionalPercent_DenominatorType,
      HeaderValueOption_HeaderAppendAction, HealthStatus, HttpProtocolOptions_HeadersWithUnderscoresAction,
      KeyValueAppend_KeyValueAppendAction, ProxyProtocolConfig_Version,
      ProxyProtocolPassThroughTLVs_PassTLVsMatchType, RequestMethod, RoutingPriority, SocketAddress_Protocol,
      SocketOption_SocketState, TrafficDirection]"

definition eds_structs :: "gostruct list" where
  "eds_structs =
     [Locality, Metadata, SocketAddress, Pipe, EnvoyInternalAddress, Address, Endpoint_HealthCheckConfig,
      Endpoint_AdditionalAddress, Endpoint, LbEndpoint, WatchedDirectory, PathConfigSource, HeaderValue,
      BackoffStrategy, RetryPolicy_RetryPriority, RetryPolicy_RetryHostPredicate, RetryPolicy, GrpcService,
      RateLimitSettings, TypedExtensionConfig, ApiConfigSource, SelfConfigSource, ConfigSource,
      LedsClusterLocalityConfig, LocalityLbEndpoints, FractionalPercent, ClusterLoadAssignment_Policy_DropOverload,
      ClusterLoadAssignment_Policy, EDS, SemanticVersion, BuildVersion, DataSource, GrpcService_EnvoyGrpc,
      GrpcService_GoogleGrpc_ChannelCredentials, GrpcService_GoogleGrpc_CallCredentials, GrpcService_GoogleGrpc,
      GrpcService_GoogleGrpc_ChannelArgs_Value, GrpcService_GoogleGrpc_ChannelArgs, HeaderValueOption,
      HealthCheck_CustomHealthCheck, HealthCheck_GrpcHealthCheck, HealthCheck_Payload, Int64Range, StringMatcher,
      HealthCheck_HttpHealthCheck, ProxyProtocolPassThroughTLVs, JsonFormatOptions, SubstitutionFormatString,
      TlvEntry, ProxyProtocolConfig, HealthCheck_TcpHealthCheck, HttpUri, LocalityLbEndpoints_LbEndpointList,
      RemoteDataSource]"

end
