(* ===== verification/GenHcm.thy ===== *)
theory GenHcm
  imports GoTypes
begin

text \<open>
  The types of \<open>src/pkg/xds/types/hcm/hcm_generated.go\<close> in the order in which they refer to each other: the enums with
  their tables, then every struct with its fields and the statements of its \<open>DeepCopyInto\<close>.
\<close>

named_theorems hcm_defs "the structs of the file"

section \<open>Enums\<close>

definition AccessLogType :: goenum where
  "AccessLogType = GoEnum ''AccessLogType''
    []
    []
    []"

definition ApiConfigSource_ApiType :: goenum where
  "ApiConfigSource_ApiType = GoEnum ''ApiConfigSource_ApiType''
    [(''ApiConfigSource_ApiType_DEPRECATED_AND_UNAVAILABLE_DO_NOT_USE'', ''DEPRECATED_AND_UNAVAILABLE_DO_NOT_USE''),
     (''ApiConfigSource_ApiType_REST'', ''REST''), (''ApiConfigSource_ApiType_GRPC'', ''GRPC''),
     (''ApiConfigSource_ApiType_DELTA_GRPC'', ''DELTA_GRPC''),
     (''ApiConfigSource_ApiType_AGGREGATED_GRPC'', ''AGGREGATED_GRPC''),
     (''ApiConfigSource_ApiType_AGGREGATED_DELTA_GRPC'', ''AGGREGATED_DELTA_GRPC'')]
    [(0, ''DEPRECATED_AND_UNAVAILABLE_DO_NOT_USE''), (1, ''REST''), (2, ''GRPC''), (3, ''DELTA_GRPC''),
     (5, ''AGGREGATED_GRPC''), (6, ''AGGREGATED_DELTA_GRPC'')]
    [(''DEPRECATED_AND_UNAVAILABLE_DO_NOT_USE'', 0), (''REST'', 1), (''GRPC'', 2), (''DELTA_GRPC'', 3),
     (''AGGREGATED_GRPC'', 5), (''AGGREGATED_DELTA_GRPC'', 6)]"

definition ApiVersion :: goenum where
  "ApiVersion = GoEnum ''ApiVersion''
    [(''ApiVersion_AUTO'', ''AUTO''), (''ApiVersion_V2'', ''V2''), (''ApiVersion_V3'', ''V3'')]
    [(0, ''AUTO''), (1, ''V2''), (2, ''V3'')]
    [(''AUTO'', 0), (''V2'', 1), (''V3'', 2)]"

definition ComparisonFilter_Op :: goenum where
  "ComparisonFilter_Op = GoEnum ''ComparisonFilter_Op''
    [(''ComparisonFilter_Op_EQ'', ''EQ''), (''ComparisonFilter_Op_GE'', ''GE''), (''ComparisonFilter_Op_LE'', ''LE'')]
    [(0, ''EQ''), (1, ''GE''), (2, ''LE'')]
    [(''EQ'', 0), (''GE'', 1), (''LE'', 2)]"

definition FractionalPercent_DenominatorType :: goenum where
  "FractionalPercent_DenominatorType = GoEnum ''FractionalPercent_DenominatorType''
    [(''FractionalPercent_DenominatorType_HUNDRED'', ''HUNDRED''),
     (''FractionalPercent_DenominatorType_TEN_THOUSAND'', ''TEN_THOUSAND''),
     (''FractionalPercent_DenominatorType_MILLION'', ''MILLION'')]
    [(0, ''HUNDRED''), (1, ''TEN_THOUSAND''), (2, ''MILLION'')]
    [(''HUNDRED'', 0), (''TEN_THOUSAND'', 1), (''MILLION'', 2)]"

definition GrpcStatusFilter_Status :: goenum where
  "GrpcStatusFilter_Status = GoEnum ''GrpcStatusFilter_Status''
    [(''GrpcStatusFilter_Status_OK'', ''OK''), (''GrpcStatusFilter_Status_CANCELED'', ''CANCELED''),
     (''GrpcStatusFilter_Status_UNKNOWN'', ''UNKNOWN''),
     (''GrpcStatusFilter_Status_INVALID_ARGUMENT'', ''INVALID_ARGUMENT''),
     (''GrpcStatusFilter_Status_DEADLINE_EXCEEDED'', ''DEADLINE_EXCEEDED''),
     (''GrpcStatusFilter_Status_NOT_FOUND'', ''NOT_FOUND''),
     (''GrpcStatusFilter_Status_ALREADY_EXISTS'', ''ALREADY_EXISTS''),
     (''GrpcStatusFilter_Status_PERMISSION_DENIED'', ''PERMISSION_DENIED''),
     (''GrpcStatusFilter_Status_RESOURCE_EXHAUSTED'', ''RESOURCE_EXHAUSTED''),
     (''GrpcStatusFilter_Status_FAILED_PRECONDITION'', ''FAILED_PRECONDITION''),
     (''GrpcStatusFilter_Status_ABORTED'', ''ABORTED''),
     (''GrpcStatusFilter_Status_OUT_OF_RANGE'', ''OUT_OF_RANGE''),
     (''GrpcStatusFilter_Status_UNIMPLEMENTED'', ''UNIMPLEMENTED''),
     (''GrpcStatusFilter_Status_INTERNAL'', ''INTERNAL''),
     (''GrpcStatusFilter_Status_UNAVAILABLE'', ''UNAVAILABLE''),
     (''GrpcStatusFilter_Status_DATA_LOSS'', ''DATA_LOSS''),
     (''GrpcStatusFilter_Status_UNAUTHENTICATED'', ''UNAUTHENTICATED'')]
    [(0, ''OK''), (1, ''CANCELED''), (2, ''UNKNOWN''), (3, ''INVALID_ARGUMENT''), (4, ''DEADLINE_EXCEEDED''),
     (5, ''NOT_FOUND''), (6, ''ALREADY_EXISTS''), (7, ''PERMISSION_DENIED''), (8, ''RESOURCE_EXHAUSTED''),
     (9, ''FAILED_PRECONDITION''), (10, ''ABORTED''), (11, ''OUT_OF_RANGE''), (12, ''UNIMPLEMENTED''),
     (13, ''INTERNAL''), (14, ''UNAVAILABLE''), (15, ''DATA_LOSS''), (16, ''UNAUTHENTICATED'')]
    [(''OK'', 0), (''CANCELED'', 1), (''UNKNOWN'', 2), (''INVALID_ARGUMENT'', 3), (''DEADLINE_EXCEEDED'', 4),
     (''NOT_FOUND'', 5), (''ALREADY_EXISTS'', 6), (''PERMISSION_DENIED'', 7), (''RESOURCE_EXHAUSTED'', 8),
     (''FAILED_PRECONDITION'', 9), (''ABORTED'', 10), (''OUT_OF_RANGE'', 11), (''UNIMPLEMENTED'', 12),
     (''INTERNAL'', 13), (''UNAVAILABLE'', 14), (''DATA_LOSS'', 15), (''UNAUTHENTICATED'', 16)]"

definition HeaderValueOption_HeaderAppendAction :: goenum where
  "HeaderValueOption_HeaderAppendAction = GoEnum ''HeaderValueOption_HeaderAppendAction''
    [(''HeaderValueOption_HeaderAppendAction_APPEND_IF_EXISTS_OR_ADD'', ''APPEND_IF_EXISTS_OR_ADD''),
     (''HeaderValueOption_HeaderAppendAction_ADD_IF_ABSENT'', ''ADD_IF_ABSENT''),
     (''HeaderValueOption_HeaderAppendAction_OVERWRITE_IF_EXISTS_OR_ADD'', ''OVERWRITE_IF_EXISTS_OR_ADD''),
     (''HeaderValueOption_HeaderAppendAction_OVERWRITE_IF_EXISTS'', ''OVERWRITE_IF_EXISTS'')]
    [(0, ''APPEND_IF_EXISTS_OR_ADD''), (1, ''ADD_IF_ABSENT''), (2, ''OVERWRITE_IF_EXISTS_OR_ADD''),
     (3, ''OVERWRITE_IF_EXISTS'')]
    [(''APPEND_IF_EXISTS_OR_ADD'', 0), (''ADD_IF_ABSENT'', 1), (''OVERWRITE_IF_EXISTS_OR_ADD'', 2),
     (''OVERWRITE_IF_EXISTS'', 3)]"

definition HttpConnectionManager_CodecType :: goenum where
  "HttpConnectionManager_CodecType = GoEnum ''HttpConnectionManager_CodecType''
    [(''HttpConnectionManager_CodecType_AUTO'', ''AUTO''), (''HttpConnectionManager_CodecType_HTTP1'', ''HTTP1''),
     (''HttpConnectionManager_CodecType_HTTP2'', ''HTTP2''), (''HttpConnectionManager_CodecType_HTTP3'', ''HTTP3'')]
    [(0, ''AUTO''), (1, ''HTTP1''), (2, ''HTTP2''), (3, ''HTTP3'')]
    [(''AUTO'', 0), (''HTTP1'', 1), (''HTTP2'', 2), (''HTTP3'', 3)]"

definition HttpConnectionManager_ForwardClientCertDetails :: goenum where
  "HttpConnectionManager_ForwardClientCertDetails = GoEnum ''HttpConnectionManager_ForwardClientCertDetails''
    [(''HttpConnectionManager_ForwardClientCertDetails_SANITIZE'', ''SANITIZE''),
     (''HttpConnectionManager_ForwardClientCertDetails_FORWARD_ONLY'', ''FORWARD_ONLY''),
     (''HttpConnectionManager_ForwardClientCertDetails_APPEND_FORWARD'', ''APPEND_FORWARD''),
     (''HttpConnectionManager_ForwardClientCertDetails_SANITIZE_SET'', ''SANITIZE_SET''),
     (''HttpConnectionManager_ForwardClientCertDetails_ALWAYS_FORWARD_ONLY'', ''ALWAYS_FORWARD_ONLY'')]
    [(0, ''SANITIZE''), (1, ''FORWARD_ONLY''), (2, ''APPEND_FORWARD''), (3, ''SANITIZE_SET''),
     (4, ''ALWAYS_FORWARD_ONLY'')]
    [(''SANITIZE'', 0), (''FORWARD_ONLY'', 1), (''APPEND_FORWARD'', 2), (''SANITIZE_SET'', 3),
     (''ALWAYS_FORWARD_ONLY'', 4)]"

definition HttpConnectionManager_PathWithEscapedSlashesAction :: goenum where
  "HttpConnectionManager_PathWithEscapedSlashesAction = GoEnum ''HttpConnectionManager_PathWithEscapedSlashesAction''
    [(''HttpConnectionManager_PathWithEscapedSlashesAction_IMPLEMENTATION_SPECIFIC_DEFAULT'', ''IMPLEMENTATION_SPECIFIC_DEFAULT''),
     (''HttpConnectionManager_PathWithEscapedSlashesAction_KEEP_UNCHANGED'', ''KEEP_UNCHANGED''),
     (''HttpConnectionManager_PathWithEscapedSlashesAction_REJECT_REQUEST'', ''REJECT_REQUEST''),
     (''HttpConnectionManager_PathWithEscapedSlashesAction_UNESCAPE_AND_REDIRECT'', ''UNESCAPE_AND_REDIRECT''),
     (''HttpConnectionManager_PathWithEscapedSlashesAction_UNESCAPE_AND_FORWARD'', ''UNESCAPE_AND_FORWARD'')]
    [(0, ''IMPLEMENTATION_SPECIFIC_DEFAULT''), (1, ''KEEP_UNCHANGED''), (2, ''REJECT_REQUEST''),
     (3, ''UNESCAPE_AND_REDIRECT''), (4, ''UNESCAPE_AND_FORWARD'')]
    [(''IMPLEMENTATION_SPECIFIC_DEFAULT'', 0), (''KEEP_UNCHANGED'', 1), (''REJECT_REQUEST'', 2),
     (''UNESCAPE_AND_REDIRECT'', 3), (''UNESCAPE_AND_FORWARD'', 4)]"

definition HttpConnectionManager_ServerHeaderTransformation :: goenum where
  "HttpConnectionManager_ServerHeaderTransformation = GoEnum ''HttpConnectionManager_ServerHeaderTransformation''
    [(''HttpConnectionManager_ServerHeaderTransformation_OVERWRITE'', ''OVERWRITE''),
     (''HttpConnectionManager_ServerHeaderTransformation_APPEND_IF_ABSENT'', ''APPEND_IF_ABSENT''),
     (''HttpConnectionManager_ServerHeaderTransformation_PASS_THROUGH'', ''PASS_THROUGH'')]
    [(0, ''OVERWRITE''), (1, ''APPEND_IF_ABSENT''), (2, ''PASS_THROUGH'')]
    [(''OVERWRITE'', 0), (''APPEND_IF_ABSENT'', 1), (''PASS_THROUGH'', 2)]"

definition HttpConnectionManager_Tracing_OperationName :: goenum where
  "HttpConnectionManager_Tracing_OperationName = GoEnum ''HttpConnectionManager_Tracing_OperationName''
    [(''HttpConnectionManager_Tracing_OperationName_INGRESS'', ''INGRESS''),
     (''HttpConnectionManager_Tracing_OperationName_EGRESS'', ''EGRESS'')]
    [(0, ''INGRESS''), (1, ''EGRESS'')]
    [(''INGRESS'', 0), (''EGRESS'', 1)]"

definition HttpProtocolOptions_HeadersWithUnderscoresAction :: goenum where
  "HttpProtocolOptions_HeadersWithUnderscoresAction = GoEnum ''HttpProtocolOptions_HeadersWithUnderscoresAction''
    [(''HttpProtocolOptions_HeadersWithUnderscoresAction_ALLOW'', ''ALLOW''),
     (''HttpProtocolOptions_HeadersWithUnderscoresAction_REJECT_REQUEST'', ''REJECT_REQUEST''),
     (''HttpProtocolOptions_HeadersWithUnderscoresAction_DROP_HEADER'', ''DROP_HEADER'')]
    [(0, ''ALLOW''), (1, ''REJECT_REQUEST''), (2, ''DROP_HEADER'')]
    [(''ALLOW'', 0), (''REJECT_REQUEST'', 1), (''DROP_HEADER'', 2)]"

definition KeyValueAppend_KeyValueAppendAction :: goenum where
  "KeyValueAppend_KeyValueAppendAction = GoEnum ''KeyValueAppend_KeyValueAppendAction''
    [(''KeyValueAppend_KeyValueAppendAction_APPEND_IF_EXISTS_OR_ADD'', ''APPEND_IF_EXISTS_OR_ADD''),
     (''KeyValueAppend_KeyValueAppendAction_ADD_IF_ABSENT'', ''ADD_IF_ABSENT''),
     (''KeyValueAppend_KeyValueAppendAction_OVERWRITE_IF_EXISTS_OR_ADD'', ''OVERWRITE_IF_EXISTS_OR_ADD''),
     (''KeyValueAppend_KeyValueAppendAction_OVERWRITE_IF_EXISTS'', ''OVERWRITE_IF_EXISTS'')]
    [(0, ''APPEND_IF_EXISTS_OR_ADD''), (1, ''ADD_IF_ABSENT''), (2, ''OVERWRITE_IF_EXISTS_OR_ADD''),
     (3, ''OVERWRITE_IF_EXISTS'')]
    [(''APPEND_IF_EXISTS_OR_ADD'', 0), (''ADD_IF_ABSENT'', 1), (''OVERWRITE_IF_EXISTS_OR_ADD'', 2),
     (''OVERWRITE_IF_EXISTS'', 3)]"

definition ProxyProtocolConfig_Version :: goenum where
  "ProxyProtocolConfig_Version = GoEnum ''ProxyProtocolConfig_Version''
    []
    []
    []"

definition ProxyProtocolPassThroughTLVs_PassTLVsMatchType :: goenum where
  "ProxyProtocolPassThroughTLVs_PassTLVsMatchType = GoEnum ''ProxyProtocolPassThroughTLVs_PassTLVsMatchType''
    []
    []
    []"

definition RateLimit_Action_MetaData_Source :: goenum where
  "RateLimit_Action_MetaData_Source = GoEnum ''RateLimit_Action_MetaData_Source''
    [(''RateLimit_Action_MetaData_Source_DYNAMIC'', ''DYNAMIC''),
     (''RateLimit_Action_MetaData_Source_ROUTE_ENTRY'', ''ROUTE_ENTRY'')]
    [(0, ''DYNAMIC''), (1, ''ROUTE_ENTRY'')]
    [(''DYNAMIC'', 0), (''ROUTE_ENTRY'', 1)]"

definition RedirectAction_RedirectResponseCode :: goenum where
  "RedirectAction_RedirectResponseCode = GoEnum ''RedirectAction_RedirectResponseCode''
    [(''RedirectAction_RedirectResponseCode_MOVED_PERMANENTLY'', ''MOVED_PERMANENTLY''),
     (''RedirectAction_RedirectResponseCode_FOUND'', ''FOUND''),
     (''RedirectAction_RedirectResponseCode_SEE_OTHER'', ''SEE_OTHER''),
     (''RedirectAction_RedirectResponseCode_TEMPORARY_REDIRECT'', ''TEMPORARY_REDIRECT''),
     (''RedirectAction_RedirectResponseCode_PERMANENT_REDIRECT'', ''PERMANENT_REDIRECT'')]
    [(0, ''MOVED_PERMANENTLY''), (1, ''FOUND''), (2, ''SEE_OTHER''), (3, ''TEMPORARY_REDIRECT''),
     (4, ''PERMANENT_REDIRECT'')]
    [(''MOVED_PERMANENTLY'', 0), (''FOUND'', 1), (''SEE_OTHER'', 2), (''TEMPORARY_REDIRECT'', 3),
     (''PERMANENT_REDIRECT'', 4)]"

definition RequestMethod :: goenum where
  "RequestMethod = GoEnum ''RequestMethod''
    [(''RequestMethod_METHOD_UNSPECIFIED'', ''METHOD_UNSPECIFIED''), (''RequestMethod_GET'', ''GET''),
     (''RequestMethod_HEAD'', ''HEAD''), (''RequestMethod_POST'', ''POST''), (''RequestMethod_PUT'', ''PUT''),
     (''RequestMethod_DELETE'', ''DELETE''), (''RequestMethod_CONNECT'', ''CONNECT''),
     (''RequestMethod_OPTIONS'', ''OPTIONS''), (''RequestMethod_TRACE'', ''TRACE''),
     (''RequestMethod_PATCH'', ''PATCH'')]
    [(0, ''METHOD_UNSPECIFIED''), (1, ''GET''), (2, ''HEAD''), (3, ''POST''), (4, ''PUT''), (5, ''DELETE''),
     (6, ''CONNECT''), (7, ''OPTIONS''), (8, ''TRACE''), (9, ''PATCH'')]
    [(''METHOD_UNSPECIFIED'', 0), (''GET'', 1), (''HEAD'', 2), (''POST'', 3), (''PUT'', 4), (''DELETE'', 5),
     (''CONNECT'', 6), (''OPTIONS'', 7), (''TRACE'', 8), (''PATCH'', 9)]"

definition RetryPolicy_ResetHeaderFormat :: goenum where
  "RetryPolicy_ResetHeaderFormat = GoEnum ''RetryPolicy_ResetHeaderFormat''
    [(''RetryPolicy_ResetHeaderFormat_SECONDS'', ''SECONDS''),
     (''RetryPolicy_ResetHeaderFormat_UNIX_TIMESTAMP'', ''UNIX_TIMESTAMP'')]
    [(0, ''SECONDS''), (1, ''UNIX_TIMESTAMP'')]
    [(''SECONDS'', 0), (''UNIX_TIMESTAMP'', 1)]"

definition RouteAction_ClusterNotFoundResponseCode :: goenum where
  "RouteAction_ClusterNotFoundResponseCode = GoEnum ''RouteAction_ClusterNotFoundResponseCode''
    [(''RouteAction_ClusterNotFoundResponseCode_SERVICE_UNAVAILABLE'', ''SERVICE_UNAVAILABLE''),
     (''RouteAction_ClusterNotFoundResponseCode_NOT_FOUND'', ''NOT_FOUND''),
     (''RouteAction_ClusterNotFoundResponseCode_INTERNAL_SERVER_ERROR'', ''INTERNAL_SERVER_ERROR'')]
    [(0, ''SERVICE_UNAVAILABLE''), (1, ''NOT_FOUND''), (2, ''INTERNAL_SERVER_ERROR'')]
    [(''SERVICE_UNAVAILABLE'', 0), (''NOT_FOUND'', 1), (''INTERNAL_SERVER_ERROR'', 2)]"

definition RouteAction_InternalRedirectAction :: goenum where
  "RouteAction_InternalRedirectAction = GoEnum ''RouteAction_InternalRedirectAction''
    [(''RouteAction_InternalRedirectAction_PASS_THROUGH_INTERNAL_REDIRECT'', ''PASS_THROUGH_INTERNAL_REDIRECT''),
     (''RouteAction_InternalRedirectAction_HANDLE_INTERNAL_REDIRECT'', ''HANDLE_INTERNAL_REDIRECT'')]
    [(0, ''PASS_THROUGH_INTERNAL_REDIRECT''), (1, ''HANDLE_INTERNAL_REDIRECT'')]
    [(''PASS_THROUGH_INTERNAL_REDIRECT'', 0), (''HANDLE_INTERNAL_REDIRECT'', 1)]"

definition RoutingPriority :: goenum where
  "RoutingPriority = GoEnum ''RoutingPriority''
    [(''RoutingPriority_DEFAULT'', ''DEFAULT''), (''RoutingPriority_HIGH'', ''HIGH'')]
    [(0, ''DEFAULT''), (1, ''HIGH'')]
    [(''DEFAULT'', 0), (''HIGH'', 1)]"

definition SocketAddress_Protocol :: goenum where
  "SocketAddress_Protocol = GoEnum ''SocketAddress_Protocol''
    [(''SocketAddress_Protocol_TCP'', ''TCP''), (''SocketAddress_Protocol_UDP'', ''UDP'')]
    [(0, ''TCP''), (1, ''UDP'')]
    [(''TCP'', 0), (''UDP'', 1)]"

definition TrafficDirection :: goenum where
  "TrafficDirection = GoEnum ''TrafficDirection''
    [(''TrafficDirection_UNSPECIFIED'', ''UNSPECIFIED''), (''TrafficDirection_INBOUND'', ''INBOUND''),
     (''TrafficDirection_OUTBOUND'', ''OUTBOUND'')]
    [(0, ''UNSPECIFIED''), (1, ''INBOUND''), (2, ''OUTBOUND'')]
    [(''UNSPECIFIED'', 0), (''INBOUND'', 1), (''OUTBOUND'', 2)]"

definition VirtualHost_TlsRequirementType :: goenum where
  "VirtualHost_TlsRequirementType = GoEnum ''VirtualHost_TlsRequirementType''
    [(''VirtualHost_TlsRequirementType_NONE'', ''NONE''),
     (''VirtualHost_TlsRequirementType_EXTERNAL_ONLY'', ''EXTERNAL_ONLY''),
     (''VirtualHost_TlsRequirementType_ALL'', ''ALL'')]
    [(0, ''NONE''), (1, ''EXTERNAL_ONLY''), (2, ''ALL'')]
    [(''NONE'', 0), (''EXTERNAL_ONLY'', 1), (''ALL'', 2)]"

section \<open>Structs\<close>

definition WatchedDirectory :: gostruct where [hcm_defs]:
  "WatchedDirectory = GoStruct ''WatchedDirectory''
    [Field ''Path'' (Basic String) ''path'' None]"

definition PathConfigSource :: gostruct where [hcm_defs]:
  "PathConfigSource = GoStruct ''PathConfigSource''
    [Field ''Path'' (Basic String) ''path'' None,
     Field ''WatchedDirectory'' (Ptr (Struct WatchedDirectory)) ''watched_directory'' (Some CopyInto)]"

definition HeaderValue :: gostruct where [hcm_defs]:
  "HeaderValue = GoStruct ''HeaderValue''
    [Field ''Key'' (Basic String) ''key'' None, Field ''Value'' (Basic String) ''value'' None,
     Field ''RawValue'' Bytes ''raw_value'' (Some CopySlice)]"

definition RetryPolicy_RetryPriority :: gostruct where [hcm_defs]:
  "RetryPolicy_RetryPriority = GoStruct ''RetryPolicy_RetryPriority''
    [Field ''Name'' (Basic String) ''name'' None,
     Field ''TypedConfig'' (Ptr RawExtension) ''typed_config'' (Some CopyInto)]"

definition RetryPolicy_RetryHostPredicate :: gostruct where [hcm_defs]:
  "RetryPolicy_RetryHostPredicate = GoStruct ''RetryPolicy_RetryHostPredicate''
    [Field ''Name'' (Basic String) ''name'' None,
     Field ''TypedConfig'' (Ptr RawExtension) ''typed_config'' (Some CopyInto)]"

definition TypedExtensionConfig :: gostruct where [hcm_defs]:
  "TypedExtensionConfig = GoStruct ''TypedExtensionConfig''
    [Field ''Name'' (Basic String) ''name'' None,
     Field ''TypedConfig'' (Ptr RawExtension) ''typed_config'' (Some CopyInto)]"

definition RetryPolicy_RetryBackOff :: gostruct where [hcm_defs]:
  "RetryPolicy_RetryBackOff = GoStruct ''RetryPolicy_RetryBackOff''
    [Field ''BaseInterval'' (Ptr (Basic String)) ''base_interval'' (Some CopyValue),
     Field ''MaxInterval'' (Ptr (Basic String)) ''max_interval'' (Some CopyValue)]"

definition RegexMatcher :: gostruct where [hcm_defs]:
  "RegexMatcher = GoStruct ''RegexMatcher''
    [Field ''Regex'' (Basic String) ''regex'' None]"

definition Int64Range :: gostruct where [hcm_defs]:
  "Int64Range = GoStruct ''Int64Range''
    [Field ''Start'' (Basic Int64) ''start'' None, Field ''End'' (Basic Int64) ''end'' None]"

definition StringMatcher :: gostruct where [hcm_defs]:
  "StringMatcher = GoStruct ''StringMatcher''
    [Field ''TypedConfig'' (Ptr RawExtension) ''typed_config'' (Some CopyInto),
     Field ''IgnoreCase'' (Basic Bool) ''ignore_case'' None]"

definition HeaderMatcher :: gostruct where [hcm_defs]:
  "HeaderMatcher = GoStruct ''HeaderMatcher''
    [Field ''Name'' (Basic String) ''name'' None, Field ''ExactMatch'' (Basic String) ''exact_match'' None,
     Field ''SafeRegexMatch'' (Ptr (Struct RegexMatcher)) ''safe_regex_match'' (Some CopyInto),
     Field ''RangeMatch'' (Ptr (Struct Int64Range)) ''range_match'' (Some CopyInto),
     Field ''PresentMatch'' (Basic Bool) ''present_match'' None,
     Field ''PrefixMatch'' (Basic String) ''prefix_match'' None,
     Field ''SuffixMatch'' (Basic String) ''suffix_match'' None,
     Field ''ContainsMatch'' (Basic String) ''contains_match'' None,
     Field ''StringMatch'' (Ptr (Struct StringMatcher)) ''string_match'' (Some CopyInto),
     Field ''InvertMatch'' (Basic Bool) ''invert_match'' None,
     Field ''TreatMissingHeaderAsEmpty'' (Basic Bool) ''treat_missing_header_as_empty'' None]"

definition RetryPolicy :: gostruct where [hcm_defs]:
  "RetryPolicy = GoStruct ''RetryPolicy''
    [Field ''RetryOn'' (Basic String) ''retry_on'' None,
     Field ''NumRetries'' (Ptr (Basic Uint32)) ''num_retries'' (Some CopyValue),
     Field ''PerTryTimeout'' (Ptr (Basic String)) ''per_try_timeout'' (Some CopyValue),
     Field ''PerTryIdleTimeout'' (Ptr (Basic String)) ''per_try_idle_timeout'' (Some CopyValue),
     Field ''RetryPriority'' (Ptr (Struct RetryPolicy_RetryPriority)) ''retry_priority'' (Some CopyInto),
     Field ''RetryHostPredicate'' (Slice (Ptr (Struct RetryPolicy_RetryHostPredicate))) ''retry_host_predicate'' (Some CopyElemsInto),
     Field ''RetryOptionsPredicates'' (Slice (Ptr (Struct TypedExtensionConfig))) ''retry_options_predicates'' (Some CopyElemsInto),
     Field ''HostSelectionRetryMaxAttempts'' (Basic Int64) ''host_selection_retry_max_attempts'' None,
     Field ''RetriableStatusCodes'' (Slice (Basic Uint32)) ''retriable_status_codes'' (Some CopySlice),
     Field ''RetryBackOff'' (Ptr (Struct RetryPolicy_RetryBackOff)) ''retry_back_off'' (Some CopyInto),
     Field ''RateLimitedRetryBackOff'' (Ptr RawExtension) ''rate_limited_retry_back_off'' (Some CopyInto),
     Field ''RetriableHeaders'' (Slice (Ptr (Struct HeaderMatcher))) ''retriable_headers'' (Some CopyElemsInto),
     Field ''RetriableRequestHeaders'' (Slice (Ptr (Struct HeaderMatcher))) ''retriable_request_headers'' (Some CopyElemsInto)]"

definition GrpcService :: gostruct where [hcm_defs]:
  "GrpcService = GoStruct ''GrpcService''
    [Field ''EnvoyGrpc'' (Ptr RawExtension) ''envoy_grpc'' (Some CopyInto),
     Field ''GoogleGrpc'' (Ptr RawExtension) ''google_grpc'' (Some CopyInto),
     Field ''GoogleDefault'' (Ptr (Basic Bool)) ''google_default'' (Some CopyValue),
     Field ''LocalCredentials'' (Ptr RawExtension) ''local_credentials'' (Some CopyInto),
     Field ''GoogleIam'' (Ptr RawExtension) ''google_iam'' (Some CopyInto),
     Field ''FromPlugin'' (Ptr RawExtension) ''from_plugin'' (Some CopyInto),
     Field ''StsService'' (Ptr RawExtension) ''sts_service'' (Some CopyInto),
     Field ''IntValue'' (Basic Int64) ''int_value'' None,
     Field ''Timeout'' (Ptr (Basic String)) ''timeout'' (Some CopyValue),
     Field ''InitialMetadata'' (Slice (Ptr (Struct HeaderValue))) ''initial_metadata'' (Some CopyElemsInto),
     Field ''RetryPolicy'' (Ptr (Struct RetryPolicy)) ''retry_policy'' (Some CopyInto)]"

definition RateLimitSettings :: gostruct where [hcm_defs]:
  "RateLimitSettings = GoStruct ''RateLimitSettings''
    [Field ''MaxTokens'' (Ptr (Basic Uint32)) ''max_tokens'' (Some CopyValue),
     Field ''FillRate'' (Ptr (Basic Float64)) ''fill_rate'' (Some CopyValue)]"

definition ApiConfigSource :: gostruct where [hcm_defs]:
  "ApiConfigSource = GoStruct ''ApiConfigSource''
    [Field ''ApiType'' (Enum ApiConfigSource_ApiType) ''api_type'' None,
     Field ''TransportApiVersion'' (Enum ApiVersion) ''transport_api_version'' None,
     Field ''ClusterNames'' (Slice (Basic String)) ''cluster_names'' (Some CopySlice),
     Field ''GrpcServices'' (Slice (Ptr (Struct GrpcService))) ''grpc_services'' (Some CopyElemsInto),
     Field ''RefreshDelay'' (Ptr (Basic String)) ''refresh_delay'' (Some CopyValue),
     Field ''RequestTimeout'' (Ptr (Basic String)) ''request_timeout'' (Some CopyValue),
     Field ''RateLimitSettings'' (Ptr (Struct RateLimitSettings)) ''rate_limit_settings'' (Some CopyInto),
     Field ''SetNodeOnFirstMessageOnly'' (Basic Bool) ''set_node_on_first_message_only'' None,
     Field ''ConfigValidators'' (Slice (Ptr (Struct TypedExtensionConfig))) ''config_validators'' (Some CopyElemsInto)]"

definition SelfConfigSource :: gostruct where [hcm_defs]:
  "SelfConfigSource = GoStruct ''SelfConfigSource''
    [Field ''TransportApiVersion'' (Enum ApiVersion) ''transport_api_version'' None]"

definition ConfigSource :: gostruct where [hcm_defs]:
  "ConfigSource = GoStruct ''ConfigSource''
    [Field ''Path'' (Basic String) ''path'' None,
     Field ''PathConfigSource'' (Ptr (Struct PathConfigSource)) ''path_config_source'' (Some CopyInto),
     Field ''ApiConfigSource'' (Ptr (Struct ApiConfigSource)) ''api_config_source'' (Some CopyInto),
     Field ''Ads'' (Ptr RawExtension) ''ads'' (Some CopyInto),
     Field ''Self'' (Ptr (Struct SelfConfigSource)) ''self'' (Some CopyInto),
     Field ''InitialFetchTimeout'' (Ptr (Basic String)) ''initial_fetch_timeout'' (Some CopyValue),
     Field ''ResourceApiVersion'' (Enum ApiVersion) ''resource_api_version'' None]"

definition Rds :: gostruct where [hcm_defs]:
  "Rds = GoStruct ''Rds''
    [Field ''ConfigSource'' (Ptr (Struct ConfigSource)) ''config_source'' (Some CopyInto),
     Field ''RouteConfigName'' (Basic String) ''route_config_name'' None]"

definition RegexMatchAndSubstitute :: gostruct where [hcm_defs]:
  "RegexMatchAndSubstitute = GoStruct ''RegexMatchAndSubstitute''
    [Field ''Pattern'' (Ptr (Struct RegexMatcher)) ''pattern'' (Some CopyInto),
     Field ''Substitution'' (Basic String) ''substitution'' None]"

definition RedirectAction :: gostruct where [hcm_defs]:
  "RedirectAction = GoStruct ''RedirectAction''
    [Field ''HttpsRedirect'' (Basic Bool) ''https_redirect'' None,
     Field ''SchemeRedirect'' (Basic String) ''scheme_redirect'' None,
     Field ''HostRedirect'' (Basic String) ''host_redirect'' None,
     Field ''PortRedirect'' (Basic Uint32) ''port_redirect'' None,
     Field ''PathRedirect'' (Basic String) ''path_redirect'' None,
     Field ''PrefixRewrite'' (Basic String) ''prefix_rewrite'' None,
     Field ''RegexRewrite'' (Ptr (Struct RegexMatchAndSubstitute)) ''regex_rewrite'' (Some CopyInto),
     Field ''ResponseCode'' (Enum RedirectAction_RedirectResponseCode) ''response_code'' None,
     Field ''StripQuery'' (Basic Bool) ''strip_query'' None]"

definition DataSource :: gostruct where [hcm_defs]:
  "DataSource = GoStruct ''DataSource''
    [Field ''Filename'' (Basic String) ''filename'' None,
     Field ''InlineBytes'' Bytes ''inline_bytes'' (Some CopySlice),
     Field ''InlineString'' (Basic String) ''inline_string'' None,
     Field ''EnvironmentVariable'' (Basic String) ''environment_variable'' None,
     Field ''WatchedDirectory'' (Ptr (Struct WatchedDirectory)) ''watched_directory'' (Some CopyInto)]"

definition DirectResponseAction :: gostruct where [hcm_defs]:
  "DirectResponseAction = GoStruct ''DirectResponseAction''
    [Field ''Status'' (Basic Uint32) ''status'' None,
     Field ''Body'' (Ptr (Struct DataSource)) ''body'' (Some CopyInto)]"

definition FilterAction :: gostruct where [hcm_defs]:
  "FilterAction = GoStruct ''FilterAction''
    [Field ''Action'' (Ptr RawExtension) ''action'' (Some CopyInto)]"

definition Metadata :: gostruct where [hcm_defs]:
  "Metadata = GoStruct ''Metadata''
    [Field ''FilterMetadata'' (Map (Ptr RawExtension)) ''filter_metadata'' (Some CopyMap),
     Field ''TypedFilterMetadata'' (Map (Ptr RawExtension)) ''typed_filter_metadata'' (Some CopyMap)]"

definition Decorator :: gostruct where [hcm_defs]:
  "Decorator = GoStruct ''Decorator''
    [Field ''Operation'' (Basic String) ''operation'' None,
     Field ''Propagate'' (Ptr (Basic Bool)) ''propagate'' (Some CopyValue)]"

definition HeaderValueOption :: gostruct where [hcm_defs]:
  "HeaderValueOption = GoStruct ''HeaderValueOption''
    [Field ''Header'' (Ptr (Struct HeaderValue)) ''header'' (Some CopyInto),
     Field ''Append'' (Ptr (Basic Bool)) ''append'' (Some CopyValue),
     Field ''AppendAction'' (Enum HeaderValueOption_HeaderAppendAction) ''append_action'' None,
     Field ''KeepEmptyValue'' (Basic Bool) ''keep_empty_value'' None]"

definition FractionalPercent :: gostruct where [hcm_defs]:
  "FractionalPercent = GoStruct ''FractionalPercent''
    [Field ''Numerator'' (Basic Uint32) ''numerator'' None,
     Field ''Denominator'' (Enum FractionalPercent_DenominatorType) ''denominator'' None]"

definition CustomTag :: gostruct where [hcm_defs]:
  "CustomTag = GoStruct ''CustomTag''
    [Field ''Tag'' (Basic String) ''tag'' None]"

definition Tracing :: gostruct where [hcm_defs]:
  "Tracing = GoStruct ''Tracing''
    [Field ''ClientSampling'' (Ptr (Struct FractionalPercent)) ''client_sampling'' (Some CopyInto),
     Field ''RandomSampling'' (Ptr (Struct FractionalPercent)) ''random_sampling'' (Some CopyInto),
     Field ''OverallSampling'' (Ptr (Struct FractionalPercent)) ''overall_sampling'' (Some CopyInto),
     Field ''CustomTags'' (Slice (Ptr (Struct CustomTag))) ''custom_tags'' (Some CopyElemsInto)]"

definition Route :: gostruct where [hcm_defs]:
  "Route = GoStruct ''Route''
    [Field ''Name'' (Basic String) ''name'' None, Field ''Match'' (Ptr RawExtension) ''match'' (Some CopyInto),
     Field ''Route'' (Ptr RawExtension) ''route'' (Some CopyInto),
     Field ''Redirect'' (Ptr (Struct RedirectAction)) ''redirect'' (Some CopyInto),
     Field ''DirectResponse'' (Ptr (Struct DirectResponseAction)) ''direct_response'' (Some CopyInto),
     Field ''FilterAction'' (Ptr (Struct FilterAction)) ''filter_action'' (Some CopyInto),
     Field ''NonForwardingAction'' (Ptr RawExtension) ''non_forwarding_action'' (Some CopyInto),
     Field ''Metadata'' (Ptr (Struct Metadata)) ''metadata'' (Some CopyInto),
     Field ''Decorator'' (Ptr (Struct Decorator)) ''decorator'' (Some CopyInto),
     Field ''TypedPerFilterConfig'' (Map (Ptr RawExtension)) ''typed_per_filter_config'' (Some CopyMap),
     Field ''RequestHeadersToAdd'' (Slice (Ptr (Struct HeaderValueOption))) ''request_headers_to_add'' (Some CopyElemsInto),
     Field ''RequestHeadersToRemove'' (Slice (Basic String)) ''request_headers_to_remove'' (Some CopySlice),
     Field ''ResponseHeadersToAdd'' (Slice (Ptr (Struct HeaderValueOption))) ''response_headers_to_add'' (Some CopyElemsInto),
     Field ''ResponseHeadersToRemove'' (Slice (Basic String)) ''response_headers_to_remove'' (Some CopySlice),
     Field ''Tracing'' (Ptr (Struct Tracing)) ''tracing'' (Some CopyInto),
     Field ''PerRequestBufferLimitBytes'' (Ptr (Basic Uint32)) ''per_request_buffer_limit_bytes'' (Some CopyValue),
     Field ''StatPrefix'' (Basic String) ''stat_prefix'' None,
     Field ''RequestBodyBufferLimit'' (Ptr (Basic Uint64)) ''request_body_buffer_limit'' (Some CopyValue)]"

definition VirtualCluster :: gostruct where [hcm_defs]:
  "VirtualCluster = GoStruct ''VirtualCluster''
    [Field ''Headers'' (Slice (Ptr (Struct HeaderMatcher))) ''headers'' (Some CopyElemsInto),
     Field ''Name'' (Basic String) ''name'' None]"

definition RateLimit_Action :: gostruct where [hcm_defs]:
  "RateLimit_Action = GoStruct ''RateLimit_Action''
    [Field ''SourceCluster'' (Ptr RawExtension) ''source_cluster'' (Some CopyInto),
     Field ''DestinationCluster'' (Ptr RawExtension) ''destination_cluster'' (Some CopyInto),
     Field ''RequestHeaders'' (Ptr RawExtension) ''request_headers'' (Some CopyInto),
     Field ''QueryParameters'' (Ptr RawExtension) ''query_parameters'' (Some CopyInto),
     Field ''RemoteAddress'' (Ptr RawExtension) ''remote_address'' (Some CopyInto),
     Field ''GenericKey'' (Ptr RawExtension) ''generic_key'' (Some CopyInto),
     Field ''HeaderValueMatch'' (Ptr RawExtension) ''header_value_match'' (Some CopyInto),
     Field ''DynamicMetadata'' (Ptr RawExtension) ''dynamic_metadata'' (Some CopyInto),
     Field ''Metadata'' (Ptr RawExtension) ''metadata'' (Some CopyInto),
     Field ''Extension'' (Ptr (Struct TypedExtensionConfig)) ''extension'' (Some CopyInto),
     Field ''MaskedRemoteAddress'' (Ptr RawExtension) ''masked_remote_address'' (Some CopyInto),
     Field ''QueryParameterValueMatch'' (Ptr RawExtension) ''query_parameter_value_match'' (Some CopyInto)]"

definition RateLimit_Override :: gostruct where [hcm_defs]:
  "RateLimit_Override = GoStruct ''RateLimit_Override''
    [Field ''DynamicMetadata'' (Ptr RawExtension) ''dynamic_metadata'' (Some CopyInto)]"

definition RateLimit_HitsAddend :: gostruct where [hcm_defs]:
  "RateLimit_HitsAddend = GoStruct ''RateLimit_HitsAddend''
    [Field ''Number'' (Ptr (Basic Uint64)) ''number'' (Some CopyValue),
     Field ''Format'' (Basic String) ''format'' None]"

definition RateLimit :: gostruct where [hcm_defs]:
  "RateLimit = GoStruct ''RateLimit''
    [Field ''Stage'' (Ptr (Basic Uint32)) ''stage'' (Some CopyValue),
     Field ''DisableKey'' (Basic String) ''disable_key'' None,
     Field ''Actions'' (Slice (Ptr (Struct RateLimit_Action))) ''actions'' (Some CopyElemsInto),
     Field ''Limit'' (Ptr (Struct RateLimit_Override)) ''limit'' (Some CopyInto),
     Field ''HitsAddend'' (Ptr (Struct RateLimit_HitsAddend)) ''hits_addend'' (Some CopyInto),
     Field ''ApplyOnStreamDone'' (Basic Bool) ''apply_on_stream_done'' None]"

definition RuntimeFractionalPercent :: gostruct where [hcm_defs]:
  "RuntimeFractionalPercent = GoStruct ''RuntimeFractionalPercent''
    [Field ''DefaultValue'' (Ptr (Struct FractionalPercent)) ''default_value'' (Some CopyInto),
     Field ''RuntimeKey'' (Basic String) ''runtime_key'' None]"

definition CorsPolicy :: gostruct where [hcm_defs]:
  "CorsPolicy = GoStruct ''CorsPolicy''
    [Field ''AllowOriginStringMatch'' (Slice (Ptr (Struct StringMatcher))) ''allow_origin_string_match'' (Some CopyElemsInto),
     Field ''AllowMethods'' (Basic String) ''allow_methods'' None,
     Field ''AllowHeaders'' (Basic String) ''allow_headers'' None,
     Field ''ExposeHeaders'' (Basic String) ''expose_headers'' None,
     Field ''MaxAge'' (Basic String) ''max_age'' None,
     Field ''AllowCredentials'' (Ptr (Basic Bool)) ''allow_credentials'' (Some CopyValue),
     Field ''FilterEnabled'' (Ptr (Struct RuntimeFractionalPercent)) ''filter_enabled'' (Some CopyInto),
     Field ''ShadowEnabled'' (Ptr (Struct RuntimeFractionalPercent)) ''shadow_enabled'' (Some CopyInto),
     Field ''AllowPrivateNetworkAccess'' (Ptr (Basic Bool)) ''allow_private_network_access'' (Some CopyValue),
     Field ''ForwardNotMatchingPreflights'' (Ptr (Basic Bool)) ''forward_not_matching_preflights'' (Some CopyValue)]"

definition HedgePolicy :: gostruct where [hcm_defs]:
  "HedgePolicy = GoStruct ''HedgePolicy''
    [Field ''InitialRequests'' (Ptr (Basic Uint32)) ''initial_requests'' (Some CopyValue),
     Field ''AdditionalRequestChance'' (Ptr (Struct FractionalPercent)) ''additional_request_chance'' (Some CopyInto),
     Field ''HedgeOnPerTryTimeout'' (Basic Bool) ''hedge_on_per_try_timeout'' None]"

definition RouteAction_RequestMirrorPolicy :: gostruct where [hcm_defs]:
  "RouteAction_RequestMirrorPolicy = GoStruct ''RouteAction_RequestMirrorPolicy''
    [Field ''Cluster'' (Basic String) ''cluster'' None,
     Field ''ClusterHeader'' (Basic String) ''cluster_header'' None,
     Field ''RuntimeFraction'' (Ptr (Struct RuntimeFractionalPercent)) ''runtime_fraction'' (Some CopyInto),
     Field ''TraceSampled'' (Ptr (Basic Bool)) ''trace_sampled'' (Some CopyValue),
     Field ''DisableShadowHostSuffixAppend'' (Basic Bool) ''disable_shadow_host_suffix_append'' None,
     Field ''RequestHeadersMutations'' (Slice (Ptr RawExtension)) ''request_headers_mutations'' (Some CopyElemsInto),
     Field ''HostRewriteLiteral'' (Basic String) ''host_rewrite_literal'' None]"

definition VirtualHost :: gostruct where [hcm_defs]:
  "VirtualHost = GoStruct ''VirtualHost''
    [Field ''Name'' (Basic String) ''name'' None,
     Field ''Domains'' (Slice (Basic String)) ''domains'' (Some CopySlice),
     Field ''Routes'' (Slice (Ptr (Struct Route))) ''routes'' (Some CopyElemsInto),
     Field ''RequireTls'' (Enum VirtualHost_TlsRequirementType) ''require_tls'' None,
     Field ''VirtualClusters'' (Slice (Ptr (Struct VirtualCluster))) ''virtual_clusters'' (Some CopyElemsInto),
     Field ''RateLimits'' (Slice (Ptr (Struct RateLimit))) ''rate_limits'' (Some CopyElemsInto),
     Field ''RequestHeadersToAdd'' (Slice (Ptr (Struct HeaderValueOption))) ''request_headers_to_add'' (Some CopyElemsInto),
     Field ''RequestHeadersToRemove'' (Slice (Basic String)) ''request_headers_to_remove'' (Some CopySlice),
     Field ''ResponseHeadersToAdd'' (Slice (Ptr (Struct HeaderValueOption))) ''response_headers_to_add'' (Some CopyElemsInto),
     Field ''ResponseHeadersToRemove'' (Slice (Basic String)) ''response_headers_to_remove'' (Some CopySlice),
     Field ''Cors'' (Ptr (Struct CorsPolicy)) ''cors'' (Some CopyInto),
     Field ''TypedPerFilterConfig'' (Map (Ptr RawExtension)) ''typed_per_filter_config'' (Some CopyMap),
     Field ''IncludeRequestAttemptCount'' (Basic Bool) ''include_request_attempt_count'' None,
     Field ''IncludeAttemptCountInResponse'' (Basic Bool) ''include_attempt_count_in_response'' None,
     Field ''RetryPolicy'' (Ptr (Struct RetryPolicy)) ''retry_policy'' (Some CopyInto),
     Field ''RetryPolicyTypedConfig'' (Ptr RawExtension) ''retry_policy_typed_config'' (Some CopyInto),
     Field ''HedgePolicy'' (Ptr (Struct HedgePolicy)) ''hedge_policy'' (Some CopyInto),
     Field ''IncludeIsTimeoutRetryHeader'' (Basic Bool) ''include_is_timeout_retry_header'' None,
     Field ''PerRequestBufferLimitBytes'' (Ptr (Basic Uint32)) ''per_request_buffer_limit_bytes'' (Some CopyValue),
     Field ''RequestBodyBufferLimit'' (Ptr (Basic Uint64)) ''request_body_buffer_limit'' (Some CopyValue),
     Field ''RequestMirrorPolicies'' (Slice (Ptr (Struct RouteAction_RequestMirrorPolicy))) ''request_mirror_policies'' (Some CopyElemsInto),
     Field ''Metadata'' (Ptr (Struct Metadata)) ''metadata'' (Some CopyInto)]"

definition Vhds :: gostruct where [hcm_defs]:
  "Vhds = GoStruct ''Vhds''
    [Field ''ConfigSource'' (Ptr (Struct ConfigSource)) ''config_source'' (Some CopyInto)]"

definition ClusterSpecifierPlugin :: gostruct where [hcm_defs]:
  "ClusterSpecifierPlugin = GoStruct ''ClusterSpecifierPlugin''
    [Field ''Extension'' (Ptr (Struct TypedExtensionConfig)) ''extension'' (Some CopyInto),
     Field ''IsOptional'' (Basic Bool) ''is_optional'' None]"

definition RouteConfiguration :: gostruct where [hcm_defs]:
  "RouteConfiguration = GoStruct ''RouteConfiguration''
    [Field ''Name'' (Basic String) ''name'' None,
     Field ''VirtualHosts'' (Slice (Ptr (Struct VirtualHost))) ''virtual_hosts'' (Some CopyElemsInto),
     Field ''Vhds'' (Ptr (Struct Vhds)) ''vhds'' (Some CopyInto),
     Field ''InternalOnlyHeaders'' (Slice (Basic String)) ''internal_only_headers'' (Some CopySlice),
     Field ''ResponseHeadersToAdd'' (Slice (Ptr (Struct HeaderValueOption))) ''response_headers_to_add'' (Some CopyElemsInto),
     Field ''ResponseHeadersToRemove'' (Slice (Basic String)) ''response_headers_to_remove'' (Some CopySlice),
     Field ''RequestHeadersToAdd'' (Slice (Ptr (Struct HeaderValueOption))) ''request_headers_to_add'' (Some CopyElemsInto),
     Field ''RequestHeadersToRemove'' (Slice (Basic String)) ''request_headers_to_remove'' (Some CopySlice),
     Field ''MostSpecificHeaderMutationsWins'' (Basic Bool) ''most_specific_header_mutations_wins'' None,
     Field ''ValidateClusters'' (Ptr (Basic Bool)) ''validate_clusters'' (Some CopyValue),
     Field ''MaxDirectResponseBodySizeBytes'' (Ptr (Basic Uint32)) ''max_direct_response_body_size_bytes'' (Some CopyValue),
     Field ''ClusterSpecifierPlugins'' (Slice (Ptr (Struct ClusterSpecifierPlugin))) ''cluster_specifier_plugins'' (Some CopyElemsInto),
     Field ''RequestMirrorPolicies'' (Slice (Ptr (Struct RouteAction_RequestMirrorPolicy))) ''request_mirror_policies'' (Some CopyElemsInto),
     Field ''IgnorePortInHostMatching'' (Basic Bool) ''ignore_port_in_host_matching'' None,
     Field ''IgnorePathParametersInPathMatching'' (Basic Bool) ''ignore_path_parameters_in_path_matching'' None,
     Field ''TypedPerFilterConfig'' (Map (Ptr RawExtension)) ''typed_per_filter_config'' (Some CopyMap),
     Field ''Metadata'' (Ptr (Struct Metadata)) ''metadata'' (Some CopyInto)]"

definition ScopedRouteConfiguration_Key :: gostruct where [hcm_defs]:
  "ScopedRouteConfiguration_Key = GoStruct ''ScopedRouteConfiguration_Key''
    [Field ''Fragments'' (Slice (Ptr RawExtension)) ''fragments'' (Some CopyElemsInto)]"

definition ScopedRouteConfiguration :: gostruct where [hcm_defs]:
  "ScopedRouteConfiguration = GoStruct ''ScopedRouteConfiguration''
    [Field ''OnDemand'' (Basic Bool) ''on_demand'' None, Field ''Name'' (Basic String) ''name'' None,
     Field ''RouteConfigurationName'' (Basic String) ''route_configuration_name'' None,
     Field ''RouteConfiguration'' (Ptr (Struct RouteConfiguration)) ''route_configuration'' (Some CopyInto),
     Field ''Key'' (Ptr (Struct ScopedRouteConfiguration_Key)) ''key'' (Some CopyInto)]"

definition ScopedRouteConfigurationsList :: gostruct where [hcm_defs]:
  "ScopedRouteConfigurationsList = GoStruct ''ScopedRouteConfigurationsList''
    [Field ''ScopedRouteConfigurations'' (Slice (Ptr (Struct ScopedRouteConfiguration))) ''scoped_route_configurations'' (Some CopyElemsInto)]"

definition ScopedRds :: gostruct where [hcm_defs]:
  "ScopedRds = GoStruct ''ScopedRds''
    [Field ''ScopedRdsConfigSource'' (Ptr (Struct ConfigSource)) ''scoped_rds_config_source'' (Some CopyInto),
     Field ''SrdsResourcesLocator'' (Basic String) ''srds_resources_locator'' None]"

definition ScopedRoutes :: gostruct where [hcm_defs]:
  "ScopedRoutes = GoStruct ''ScopedRoutes''
    [Field ''Name'' (Basic String) ''name'' None,
     Field ''ScopeKeyBuilder'' (Ptr RawExtension) ''scope_key_builder'' (Some CopyInto),
     Field ''RdsConfigSource'' (Ptr (Struct ConfigSource)) ''rds_config_source'' (Some CopyInto),
     Field ''ScopedRouteConfigurationsList'' (Ptr (Struct ScopedRouteConfigurationsList)) ''scoped_route_configurations_list'' (Some CopyInto),
     Field ''ScopedRds'' (Ptr (Struct ScopedRds)) ''scoped_rds'' (Some CopyInto),
     Field ''Index'' (Basic Uint32) ''index'' None]"

definition ExtensionConfigSource :: gostruct where [hcm_defs]:
  "ExtensionConfigSource = GoStruct ''ExtensionConfigSource''
    [Field ''ConfigSource'' (Ptr (Struct ConfigSource)) ''config_source'' (Some CopyInto),
     Field ''DefaultConfig'' (Ptr RawExtension) ''default_config'' (Some CopyInto),
     Field ''ApplyDefaultConfigWithoutWarming'' (Basic Bool) ''apply_default_config_without_warming'' None,
     Field ''TypeUrls'' (Slice (Basic String)) ''type_urls'' (Some CopySlice)]"

definition HttpFilter :: gostruct where [hcm_defs]:
  "HttpFilter = GoStruct ''HttpFilter''
    [Field ''TypedConfig'' (Ptr RawExtension) ''typed_config'' (Some CopyInto),
     Field ''Name'' (Basic String) ''name'' None,
     Field ''ConfigDiscovery'' (Ptr (Struct ExtensionConfigSource)) ''config_discovery'' (Some CopyInto),
     Field ''IsOptional'' (Basic Bool) ''is_optional'' None, Field ''Disabled'' (Basic Bool) ''disabled'' None]"

definition Percent :: gostruct where [hcm_defs]:
  "Percent = GoStruct ''Percent''
    [Field ''Value'' (Basic Float64) ''value'' None]"

definition Tracing_Http :: gostruct where [hcm_defs]:
  "Tracing_Http = GoStruct ''Tracing_Http''
    [Field ''Name'' (Basic String) ''name'' None,
     Field ''TypedConfig'' (Ptr RawExtension) ''typed_config'' (Some CopyInto)]"

definition HttpConnectionManager_Tracing :: gostruct where [hcm_defs]:
  "HttpConnectionManager_Tracing = GoStruct ''HttpConnectionManager_Tracing''
    [Field ''ClientSampling'' (Ptr (Struct Percent)) ''client_sampling'' (Some CopyInto),
     Field ''RandomSampling'' (Ptr (Struct Percent)) ''random_sampling'' (Some CopyInto),
     Field ''OverallSampling'' (Ptr (Struct Percent)) ''overall_sampling'' (Some CopyInto),
     Field ''Verbose'' (Basic Bool) ''verbose'' None,
     Field ''MaxPathTagLength'' (Ptr (Basic Uint32)) ''max_path_tag_length'' (Some CopyValue),
     Field ''CustomTags'' (Slice (Ptr (Struct CustomTag))) ''custom_tags'' (Some CopyElemsInto),
     Field ''Provider'' (Ptr (Struct Tracing_Http)) ''provider'' (Some CopyInto),
     Field ''SpawnUpstreamSpan'' (Ptr (Basic Bool)) ''spawn_upstream_span'' (Some CopyValue)]"

definition HttpProtocolOptions :: gostruct where [hcm_defs]:
  "HttpProtocolOptions = GoStruct ''HttpProtocolOptions''
    [Field ''IdleTimeout'' (Ptr (Basic String)) ''idle_timeout'' (Some CopyValue),
     Field ''MaxConnectionDuration'' (Ptr (Basic String)) ''max_connection_duration'' (Some CopyValue),
     Field ''MaxHeadersCount'' (Ptr (Basic Uint32)) ''max_headers_count'' (Some CopyValue),
     Field ''MaxResponseHeadersKb'' (Ptr (Basic Uint32)) ''max_response_headers_kb'' (Some CopyValue),
     Field ''MaxStreamDuration'' (Ptr (Basic String)) ''max_stream_duration'' (Some CopyValue),
     Field ''HeadersWithUnderscoresAction'' (Enum HttpProtocolOptions_HeadersWithUnderscoresAction) ''headers_with_underscores_action'' None,
     Field ''MaxRequestsPerConnection'' (Ptr (Basic Uint32)) ''max_requests_per_connection'' (Some CopyValue)]"

definition Http1ProtocolOptions_HeaderKeyFormat :: gostruct where [hcm_defs]:
  "Http1ProtocolOptions_HeaderKeyFormat = GoStruct ''Http1ProtocolOptions_HeaderKeyFormat''
    [Field ''ProperCaseWords'' (Ptr RawExtension) ''proper_case_words'' (Some CopyInto),
     Field ''StatefulFormatter'' (Ptr (Struct TypedExtensionConfig)) ''stateful_formatter'' (Some CopyInto)]"

definition Http1ProtocolOptions :: gostruct where [hcm_defs]:
  "Http1ProtocolOptions = GoStruct ''Http1ProtocolOptions''
    [Field ''AllowAbsoluteUrl'' (Ptr (Basic Bool)) ''allow_absolute_url'' (Some CopyValue),
     Field ''AcceptHttp_10'' (Basic Bool) ''accept_http_10'' None,
     Field ''DefaultHostForHttp_10'' (Basic String) ''default_host_for_http_10'' None,
     Field ''HeaderKeyFormat'' (Ptr (Struct Http1ProtocolOptions_HeaderKeyFormat)) ''header_key_format'' (Some CopyInto),
     Field ''EnableTrailers'' (Basic Bool) ''enable_trailers'' None,
     Field ''AllowChunkedLength'' (Basic Bool) ''allow_chunked_length'' None,
     Field ''OverrideStreamErrorOnInvalidHttpMessage'' (Ptr (Basic Bool)) ''override_stream_error_on_invalid_http_message'' (Some CopyValue),
     Field ''SendFullyQualifiedUrl'' (Basic Bool) ''send_fully_qualified_url'' None,
     Field ''UseBalsaParser'' (Ptr (Basic Bool)) ''use_balsa_parser'' (Some CopyValue),
     Field ''AllowCustomMethods'' (Basic Bool) ''allow_custom_methods'' None,
     Field ''IgnoreHttp_11Upgrade'' (Slice (Ptr (Struct StringMatcher))) ''ignore_http_11_upgrade'' (Some CopyElemsInto)]"

definition Http2ProtocolOptions_SettingsParameter :: gostruct where [hcm_defs]:
  "Http2ProtocolOptions_SettingsParameter = GoStruct ''Http2ProtocolOptions_SettingsParameter''
    [Field ''Identifier'' (Ptr (Basic Uint32)) ''identifier'' (Some CopyValue),
     Field ''Value'' (Ptr (Basic Uint32)) ''value'' (Some CopyValue)]"

definition KeepaliveSettings :: gostruct where [hcm_defs]:
  "KeepaliveSettings = GoStruct ''KeepaliveSettings''
    [Field ''Interval'' (Ptr (Basic String)) ''interval'' (Some CopyValue),
     Field ''Timeout'' (Ptr (Basic String)) ''timeout'' (Some CopyValue),
     Field ''IntervalJitter'' (Ptr (Struct Percent)) ''interval_jitter'' (Some CopyInto),
     Field ''ConnectionIdleInterval'' (Ptr (Basic String)) ''connection_idle_interval'' (Some CopyValue)]"

definition Http2ProtocolOptions :: gostruct where [hcm_defs]:
  "Http2ProtocolOptions = GoStruct ''Http2ProtocolOptions''
    [Field ''HpackTableSize'' (Ptr (Basic Uint32)) ''hpack_table_size'' (Some CopyValue),
     Field ''MaxConcurrentStreams'' (Ptr (Basic Uint32)) ''max_concurrent_streams'' (Some CopyValue),
     Field ''InitialStreamWindowSize'' (Ptr (Basic Uint32)) ''initial_stream_window_size'' (Some CopyValue),
     Field ''InitialConnectionWindowSize'' (Ptr (Basic Uint32)) ''initial_connection_window_size'' (Some CopyValue),
     Field ''AllowConnect'' (Basic Bool) ''allow_connect'' None,
     Field ''AllowMetadata'' (Basic Bool) ''allow_metadata'' None,
     Field ''MaxOutboundFrames'' (Ptr (Basic Uint32)) ''max_outbound_frames'' (Some CopyValue),
     Field ''MaxOutboundControlFrames'' (Ptr (Basic Uint32)) ''max_outbound_control_frames'' (Some CopyValue),
     Field ''MaxConsecutiveInboundFramesWithEmptyPayload'' (Ptr (Basic Uint32)) ''max_consecutive_inbound_frames_with_empty_payload'' (Some CopyValue),
     Field ''MaxInboundPriorityFramesPerStream'' (Ptr (Basic Uint32)) ''max_inbound_priority_frames_per_stream'' (Some CopyValue),
     Field ''MaxInboundWindowUpdateFramesPerDataFrameSent'' (Ptr (Basic Uint32)) ''max_inbound_window_update_frames_per_data_frame_sent'' (Some CopyValue),
     Field ''StreamErrorOnInvalidHttpMessaging'' (Basic Bool) ''stream_error_on_invalid_http_messaging'' None,
     Field ''OverrideStreamErrorOnInvalidHttpMessage'' (Ptr (Basic Bool)) ''override_stream_error_on_invalid_http_message'' (Some CopyValue),
     Field ''CustomSettingsParameters'' (Slice (Ptr (Struct Http2ProtocolOptions_SettingsParameter))) ''custom_settings_parameters'' (Some CopyElemsInto),
     Field ''ConnectionKeepalive'' (Ptr (Struct KeepaliveSettings)) ''connection_keepalive'' (Some CopyInto),
     Field ''UseOghttp2Codec'' (Ptr (Basic Bool)) ''use_oghttp2_codec'' (Some CopyValue),
     Field ''MaxMetadataSize'' (Ptr (Basic Uint64)) ''max_metadata_size'' (Some CopyValue)]"

definition QuicKeepAliveSettings :: gostruct where [hcm_defs]:
  "QuicKeepAliveSettings = GoStruct ''QuicKeepAliveSettings''
    [Field ''MaxInterval'' (Ptr (Basic String)) ''max_interval'' (Some CopyValue),
     Field ''InitialInterval'' (Ptr (Basic String)) ''initial_interval'' (Some CopyValue)]"

definition QuicProtocolOptions :: gostruct where [hcm_defs]:
  "QuicProtocolOptions = GoStruct ''QuicProtocolOptions''
    [Field ''MaxConcurrentStreams'' (Ptr (Basic Uint32)) ''max_concurrent_streams'' (Some CopyValue),
     Field ''InitialStreamWindowSize'' (Ptr (Basic Uint32)) ''initial_stream_window_size'' (Some CopyValue),
     Field ''InitialConnectionWindowSize'' (Ptr (Basic Uint32)) ''initial_connection_window_size'' (Some CopyValue),
     Field ''NumTimeoutsToTriggerPortMigration'' (Ptr (Basic Uint32)) ''num_timeouts_to_trigger_port_migration'' (Some CopyValue),
     Field ''ConnectionKeepalive'' (Ptr (Struct QuicKeepAliveSettings)) ''connection_keepalive'' (Some CopyInto),
     Field ''ConnectionOptions'' (Basic String) ''connection_options'' None,
     Field ''ClientConnectionOptions'' (Basic String) ''client_connection_options'' None,
     Field ''IdleNetworkTimeout'' (Ptr (Basic String)) ''idle_network_timeout'' (Some CopyValue),
     Field ''MaxPacketLength'' (Ptr (Basic Uint64)) ''max_packet_length'' (Some CopyValue)]"

definition Http3ProtocolOptions :: gostruct where [hcm_defs]:
  "Http3ProtocolOptions = GoStruct ''Http3ProtocolOptions''
    [Field ''QuicProtocolOptions'' (Ptr (Struct QuicProtocolOptions)) ''quic_protocol_options'' (Some CopyInto),
     Field ''OverrideStreamErrorOnInvalidHttpMessage'' (Ptr (Basic Bool)) ''override_stream_error_on_invalid_http_message'' (Some CopyValue),
     Field ''AllowExtendedConnect'' (Basic Bool) ''allow_extended_connect'' None,
     Field ''AllowMetadata'' (Basic Bool) ''allow_metadata'' None,
     Field ''DisableQpack'' (Basic Bool) ''disable_qpack'' None,
     Field ''DisableConnectionFlowControlForStreams'' (Basic Bool) ''disable_connection_flow_control_for_streams'' None]"

definition SchemeHeaderTransformation :: gostruct where [hcm_defs]:
  "SchemeHeaderTransformation = GoStruct ''SchemeHeaderTransformation''
    [Field ''SchemeToOverwrite'' (Basic String) ''scheme_to_overwrite'' None,
     Field ''MatchUpstream'' (Basic Bool) ''match_upstream'' None]"

definition RuntimeUInt32 :: gostruct where [hcm_defs]:
  "RuntimeUInt32 = GoStruct ''RuntimeUInt32''
    [Field ''DefaultValue'' (Basic Uint32) ''default_value'' None,
     Field ''RuntimeKey'' (Basic String) ''runtime_key'' None]"

definition ComparisonFilter :: gostruct where [hcm_defs]:
  "ComparisonFilter = GoStruct ''ComparisonFilter''
    [Field ''Op'' (Enum ComparisonFilter_Op) ''op'' None,
     Field ''Value'' (Ptr (Struct RuntimeUInt32)) ''value'' (Some CopyInto)]"

definition StatusCodeFilter :: gostruct where [hcm_defs]:
  "StatusCodeFilter = GoStruct ''StatusCodeFilter''
    [Field ''Comparison'' (Ptr (Struct ComparisonFilter)) ''comparison'' (Some CopyInto)]"

definition DurationFilter :: gostruct where [hcm_defs]:
  "DurationFilter = GoStruct ''DurationFilter''
    [Field ''Comparison'' (Ptr (Struct ComparisonFilter)) ''comparison'' (Some CopyInto)]"

definition RuntimeFilter :: gostruct where [hcm_defs]:
  "RuntimeFilter = GoStruct ''RuntimeFilter''
    [Field ''RuntimeKey'' (Basic String) ''runtime_key'' None,
     Field ''PercentSampled'' (Ptr (Struct FractionalPercent)) ''percent_sampled'' (Some CopyInto),
     Field ''UseIndependentRandomness'' (Basic Bool) ''use_independent_randomness'' None]"

definition HeaderFilter :: gostruct where [hcm_defs]:
  "HeaderFilter = GoStruct ''HeaderFilter''
    [Field ''Header'' (Ptr (Struct HeaderMatcher)) ''header'' (Some CopyInto)]"

definition ResponseFlagFilter :: gostruct where [hcm_defs]:
  "ResponseFlagFilter = GoStruct ''ResponseFlagFilter''
    [Field ''Flags'' (Slice (Basic String)) ''flags'' (Some CopySlice)]"

definition GrpcStatusFilter :: gostruct where [hcm_defs]:
  "GrpcStatusFilter = GoStruct ''GrpcStatusFilter''
    [Field ''Statuses'' (Slice (Enum GrpcStatusFilter_Status)) ''statuses'' (Some CopySlice),
     Field ''Exclude'' (Basic Bool) ''exclude'' None]"

definition ExtensionFilter :: gostruct where [hcm_defs]:
  "ExtensionFilter = GoStruct ''ExtensionFilter''
    [Field ''TypedConfig'' (Ptr RawExtension) ''typed_config'' (Some CopyInto),
     Field ''Name'' (Basic String) ''name'' None]"

definition ValueMatcher :: gostruct where [hcm_defs]:
  "ValueMatcher = GoStruct ''ValueMatcher''
    [Field ''TypedConfig'' (Ptr RawExtension) ''typed_config'' (Some CopyInto)]"

definition MetadataMatcher :: gostruct where [hcm_defs]:
  "MetadataMatcher = GoStruct ''MetadataMatcher''
    [Field ''Filter'' (Basic String) ''filter'' None,
     Field ''Path'' (Slice (Ptr RawExtension)) ''path'' (Some CopyElemsInto),
     Field ''Value'' (Ptr (Struct ValueMatcher)) ''value'' (Some CopyInto),
     Field ''Invert'' (Basic Bool) ''invert'' None]"

definition MetadataFilter :: gostruct where [hcm_defs]:
  "MetadataFilter = GoStruct ''MetadataFilter''
    [Field ''Matcher'' (Ptr (Struct MetadataMatcher)) ''matcher'' (Some CopyInto),
     Field ''MatchIfKeyNotFound'' (Ptr (Basic Bool)) ''match_if_key_not_found'' (Some CopyValue)]"

definition LogTypeFilter :: gostruct where [hcm_defs]:
  "LogTypeFilter = GoStruct ''LogTypeFilter''
    [Field ''Types'' (Slice (Enum AccessLogType)) ''types'' (Some CopySlice),
     Field ''Exclude'' (Basic Bool) ''exclude'' None]"

definition AccessLogFilter :: gostruct where [hcm_defs]:
  "AccessLogFilter = GoStruct ''AccessLogFilter''
    [Field ''StatusCodeFilter'' (Ptr (Struct StatusCodeFilter)) ''status_code_filter'' (Some CopyInto),
     Field ''DurationFilter'' (Ptr (Struct DurationFilter)) ''duration_filter'' (Some CopyInto),
     Field ''NotHealthCheckFilter'' (Ptr RawExtension) ''not_health_check_filter'' (Some CopyInto),
     Field ''TraceableFilter'' (Ptr RawExtension) ''traceable_filter'' (Some CopyInto),
     Field ''RuntimeFilter'' (Ptr (Struct RuntimeFilter)) ''runtime_filter'' (Some CopyInto),
     Field ''AndFilter'' (Ptr RawExtension) ''and_filter'' (Some CopyInto),
     Field ''OrFilter'' (Ptr RawExtension) ''or_filter'' (Some CopyInto),
     Field ''HeaderFilter'' (Ptr (Struct HeaderFilter)) ''header_filter'' (Some CopyInto),
     Field ''ResponseFlagFilter'' (Ptr (Struct ResponseFlagFilter)) ''response_flag_filter'' (Some CopyInto),
     Field ''GrpcStatusFilter'' (Ptr (Struct GrpcStatusFilter)) ''grpc_status_filter'' (Some CopyInto),
     Field ''ExtensionFilter'' (Ptr (Struct ExtensionFilter)) ''extension_filter'' (Some CopyInto),
     Field ''MetadataFilter'' (Ptr (Struct MetadataFilter)) ''metadata_filter'' (Some CopyInto),
     Field ''LogTypeFilter'' (Ptr (Struct LogTypeFilter)) ''log_type_filter'' (Some CopyInto)]"

definition AccessLog :: gostruct where [hcm_defs]:
  "AccessLog = GoStruct ''AccessLog''
    [Field ''TypedConfig'' (Ptr RawExtension) ''typed_config'' (Some CopyInto),
     Field ''Name'' (Basic String) ''name'' None,
     Field ''Filter'' (Ptr (Struct AccessLogFilter)) ''filter'' (Some CopyInto)]"

definition HttpConnectionManager_HcmAccessLogOptions :: gostruct where [hcm_defs]:
  "HttpConnectionManager_HcmAccessLogOptions = GoStruct ''HttpConnectionManager_HcmAccessLogOptions''
    [Field ''AccessLogFlushInterval'' (Ptr (Basic String)) ''access_log_flush_interval'' (Some CopyValue),
     Field ''FlushAccessLogOnNewRequest'' (Basic Bool) ''flush_access_log_on_new_request'' None,
     Field ''FlushLogOnTunnelSuccessfullyEstablished'' (Basic Bool) ''flush_log_on_tunnel_successfully_established'' None]"

definition CidrRange :: gostruct where [hcm_defs]:
  "CidrRange = GoStruct ''CidrRange''
    [Field ''AddressPrefix'' (Basic String) ''address_prefix'' None,
     Field ''PrefixLen'' (Ptr (Basic Uint32)) ''prefix_len'' (Some CopyValue)]"

definition HttpConnectionManager_InternalAddressConfig :: gostruct where [hcm_defs]:
  "HttpConnectionManager_InternalAddressConfig = GoStruct ''HttpConnectionManager_InternalAddressConfig''
    [Field ''UnixSockets'' (Basic Bool) ''unix_sockets'' None,
     Field ''CidrRanges'' (Slice (Ptr (Struct CidrRange))) ''cidr_ranges'' (Some CopyElemsInto)]"

definition HttpConnectionManager_SetCurrentClientCertDetails :: gostruct where [hcm_defs]:
  "HttpConnectionManager_SetCurrentClientCertDetails = GoStruct ''HttpConnectionManager_SetCurrentClientCertDetails''
    [Field ''Subject'' (Ptr (Basic Bool)) ''subject'' (Some CopyValue), Field ''Cert'' (Basic Bool) ''cert'' None,
     Field ''Chain'' (Basic Bool) ''chain'' None, Field ''Dns'' (Basic Bool) ''dns'' None,
     Field ''Uri'' (Basic Bool) ''uri'' None]"

definition HttpConnectionManager_UpgradeConfig :: gostruct where [hcm_defs]:
  "HttpConnectionManager_UpgradeConfig = GoStruct ''HttpConnectionManager_UpgradeConfig''
    [Field ''UpgradeType'' (Basic String) ''upgrade_type'' None,
     Field ''Filters'' (Slice (Ptr (Struct HttpFilter))) ''filters'' (Some CopyElemsInto),
     Field ''Enabled'' (Ptr (Basic Bool)) ''enabled'' (Some CopyValue)]"

definition RequestIDExtension :: gostruct where [hcm_defs]:
  "RequestIDExtension = GoStruct ''RequestIDExtension''
    [Field ''TypedConfig'' (Ptr RawExtension) ''typed_config'' (Some CopyInto)]"

definition JsonFormatOptions :: gostruct where [hcm_defs]:
  "JsonFormatOptions = GoStruct ''JsonFormatOptions''
    [Field ''SortProperties'' (Basic Bool) ''sort_properties'' None]"

definition SubstitutionFormatString :: gostruct where [hcm_defs]:
  "SubstitutionFormatString = GoStruct ''SubstitutionFormatString''
    [Field ''OmitEmptyValues'' (Basic Bool) ''omit_empty_values'' None,
     Field ''ContentType'' (Basic String) ''content_type'' None,
     Field ''Formatters'' (Slice (Ptr (Struct TypedExtensionConfig))) ''formatters'' (Some CopyElemsInto),
     Field ''JsonFormatOptions'' (Ptr (Struct JsonFormatOptions)) ''json_format_options'' (Some CopyInto)]"

definition ResponseMapper :: gostruct where [hcm_defs]:
  "ResponseMapper = GoStruct ''ResponseMapper''
    [Field ''Filter'' (Ptr (Struct AccessLogFilter)) ''filter'' (Some CopyInto),
     Field ''StatusCode'' (Ptr (Basic Uint32)) ''status_code'' (Some CopyValue),
     Field ''Body'' (Ptr (Struct DataSource)) ''body'' (Some CopyInto),
     Field ''BodyFormatOverride'' (Ptr (Struct SubstitutionFormatString)) ''body_format_override'' (Some CopyInto),
     Field ''HeadersToAdd'' (Slice (Ptr (Struct HeaderValueOption))) ''headers_to_add'' (Some CopyElemsInto)]"

definition LocalReplyConfig :: gostruct where [hcm_defs]:
  "LocalReplyConfig = GoStruct ''LocalReplyConfig''
    [Field ''Mappers'' (Slice (Ptr (Struct ResponseMapper))) ''mappers'' (Some CopyElemsInto),
     Field ''BodyFormat'' (Ptr (Struct SubstitutionFormatString)) ''body_format'' (Some CopyInto)]"

definition PathTransformation :: gostruct where [hcm_defs]:
  "PathTransformation = GoStruct ''PathTransformation''
    [Field ''Operations'' (Slice (Ptr RawExtension)) ''operations'' (Some CopyElemsInto)]"

definition HttpConnectionManager_PathNormalizationOptions :: gostruct where [hcm_defs]:
  "HttpConnectionManager_PathNormalizationOptions = GoStruct ''HttpConnectionManager_PathNormalizationOptions''
    [Field ''ForwardingTransformation'' (Ptr (Struct PathTransformation)) ''forwarding_transformation'' (Some CopyInto),
     Field ''HttpFilterTransformation'' (Ptr (Struct PathTransformation)) ''http_filter_transformation'' (Some CopyInto)]"

definition HttpConnectionManager_ProxyStatusConfig :: gostruct where [hcm_defs]:
  "HttpConnectionManager_ProxyStatusConfig = GoStruct ''HttpConnectionManager_ProxyStatusConfig''
    [Field ''RemoveDetails'' (Basic Bool) ''remove_details'' None,
     Field ''RemoveConnectionTerminationDetails'' (Basic Bool) ''remove_connection_termination_details'' None,
     Field ''RemoveResponseFlags'' (Basic Bool) ''remove_response_flags'' None,
     Field ''SetRecommendedResponseCode'' (Basic Bool) ''set_recommended_response_code'' None,
     Field ''LiteralProxyName'' (Basic String) ''literal_proxy_name'' None]"

definition HCM :: gostruct where [hcm_defs]:
  "HCM = GoStruct ''HCM''
    [Field ''CodecType'' (Enum HttpConnectionManager_CodecType) ''codec_type'' None,
     Field ''StatPrefix'' (Basic String) ''stat_prefix'' None,
     Field ''Rds'' (Ptr (Struct Rds)) ''rds'' (Some CopyInto),
     Field ''RouteConfig'' (Ptr RawExtension) ''route_config'' (Some CopyInto),
     Field ''ScopedRoutes'' (Ptr (Struct ScopedRoutes)) ''scoped_routes'' (Some CopyInto),
     Field ''UseNodeId'' (Basic Bool) ''use_node_id'' None,
     Field ''LiteralProxyName'' (Basic String) ''literal_proxy_name'' None,
     Field ''HttpFilters'' (Slice (Ptr (Struct HttpFilter))) ''http_filters'' (Some CopyElemsInto),
     Field ''AddUserAgent'' (Ptr (Basic Bool)) ''add_user_agent'' (Some CopyValue),
     Field ''Tracing'' (Ptr (Struct HttpConnectionManager_Tracing)) ''tracing'' (Some CopyInto),
     Field ''CommonHttpProtocolOptions'' (Ptr (Struct HttpProtocolOptions)) ''common_http_protocol_options'' (Some CopyInto),
     Field ''Http1SafeMaxConnectionDuration'' (Basic Bool) ''http1_safe_max_connection_duration'' None,
     Field ''HttpProtocolOptions'' (Ptr (Struct Http1ProtocolOptions)) ''http_protocol_options'' (Some CopyInto),
     Field ''Http2ProtocolOptions'' (Ptr (Struct Http2ProtocolOptions)) ''http2_protocol_options'' (Some CopyInto),
     Field ''Http3ProtocolOptions'' (Ptr (Struct Http3ProtocolOptions)) ''http3_protocol_options'' (Some CopyInto),
     Field ''ServerName'' (Basic String) ''server_name'' None,
     Field ''ServerHeaderTransformation'' (Enum HttpConnectionManager_ServerHeaderTransformation) ''server_header_transformation'' None,
     Field ''SchemeHeaderTransformation'' (Ptr (Struct SchemeHeaderTransformation)) ''scheme_header_transformation'' (Some CopyInto),
     Field ''MaxRequestHeadersKb'' (Ptr (Basic Uint32)) ''max_request_headers_kb'' (Some CopyValue),
     Field ''StreamIdleTimeout'' (Ptr (Basic String)) ''stream_idle_timeout'' (Some CopyValue),
     Field ''StreamFlushTimeout'' (Ptr (Basic String)) ''stream_flush_timeout'' (Some CopyValue),
     Field ''RequestTimeout'' (Ptr (Basic String)) ''request_timeout'' (Some CopyValue),
     Field ''RequestHeadersTimeout'' (Ptr (Basic String)) ''request_headers_timeout'' (Some CopyValue),
     Field ''DrainTimeout'' (Ptr (Basic String)) ''drain_timeout'' (Some CopyValue),
     Field ''DelayedCloseTimeout'' (Ptr (Basic String)) ''delayed_close_timeout'' (Some CopyValue),
     Field ''AccessLog'' (Slice (Ptr (Struct AccessLog))) ''access_log'' (Some CopyElemsInto),
     Field ''AccessLogFlushInterval'' (Ptr (Basic String)) ''access_log_flush_interval'' (Some CopyValue),
     Field ''FlushAccessLogOnNewRequest'' (Basic Bool) ''flush_access_log_on_new_request'' None,
     Field ''AccessLogOptions'' (Ptr (Struct HttpConnectionManager_HcmAccessLogOptions)) ''access_log_options'' (Some CopyInto),
     Field ''UseRemoteAddress'' (Ptr (Basic Bool)) ''use_remote_address'' (Some CopyValue),
     Field ''XffNumTrustedHops'' (Basic Uint32) ''xff_num_trusted_hops'' None,
     Field ''OriginalIpDetectionExtensions'' (Slice (Ptr (Struct TypedExtensionConfig))) ''original_ip_detection_extensions'' (Some CopyElemsInto),
     Field ''EarlyHeaderMutationExtensions'' (Slice (Ptr (Struct TypedExtensionConfig))) ''early_header_mutation_extensions'' (Some CopyElemsInto),
     Field ''InternalAddressConfig'' (Ptr (Struct HttpConnectionManager_InternalAddressConfig)) ''internal_address_config'' (Some CopyInto),
     Field ''SkipXffAppend'' (Basic Bool) ''skip_xff_append'' None, Field ''Via'' (Basic String) ''via'' None,
     Field ''GenerateRequestId'' (Ptr (Basic Bool)) ''generate_request_id'' (Some CopyValue),
     Field ''PreserveExternalRequestId'' (Basic Bool) ''preserve_external_request_id'' None,
     Field ''AlwaysSetRequestIdInResponse'' (Basic Bool) ''always_set_request_id_in_response'' None,
     Field ''ForwardClientCertDetails'' (Enum HttpConnectionManager_ForwardClientCertDetails) ''forward_client_cert_details'' None,
     Field ''SetCurrentClientCertDetails'' (Ptr (Struct HttpConnectionManager_SetCurrentClientCertDetails)) ''set_current_client_cert_details'' (Some CopyInto),
     Field ''Proxy_100Continue'' (Basic Bool) ''proxy_100_continue'' None,
     Field ''RepresentIpv4RemoteAddressAsIpv4MappedIpv6'' (Basic Bool) ''represent_ipv4_remote_address_as_ipv4_mapped_ipv6'' None,
     Field ''UpgradeConfigs'' (Slice (Ptr (Struct HttpConnectionManager_UpgradeConfig))) ''upgrade_configs'' (Some CopyElemsInto),
     Field ''NormalizePath'' (Ptr (Basic Bool)) ''normalize_path'' (Some CopyValue),
     Field ''MergeSlashes'' (Basic Bool) ''merge_slashes'' None,
     Field ''PathWithEscapedSlashesAction'' (Enum HttpConnectionManager_PathWithEscapedSlashesAction) ''path_with_escaped_slashes_action'' None,
     Field ''RequestIdExtension'' (Ptr (Struct RequestIDExtension)) ''request_id_extension'' (Some CopyInto),
     Field ''LocalReplyConfig'' (Ptr (Struct LocalReplyConfig)) ''local_reply_config'' (Some CopyInto),
     Field ''StripMatchingHostPort'' (Basic Bool) ''strip_matching_host_port'' None,
     Field ''StripAnyHostPort'' (Basic Bool) ''strip_any_host_port'' None,
     Field ''StreamErrorOnInvalidHttpMessage'' (Ptr (Basic Bool)) ''stream_error_on_invalid_http_message'' (Some CopyValue),
     Field ''PathNormalizationOptions'' (Ptr (Struct HttpConnectionManager_PathNormalizationOptions)) ''path_normalization_options'' (Some CopyInto),
     Field ''StripTrailingHostDot'' (Basic Bool) ''strip_trailing_host_dot'' None,
     Field ''ProxyStatusConfig'' (Ptr (Struct HttpConnectionManager_ProxyStatusConfig)) ''proxy_status_config'' (Some CopyInto),
     Field ''TypedHeaderValidationConfig'' (Ptr (Struct TypedExtensionConfig)) ''typed_header_validation_config'' (Some CopyInto),
     Field ''AppendXForwardedPort'' (Basic Bool) ''append_x_forwarded_port'' None,
     Field ''AppendLocalOverload'' (Basic Bool) ''append_local_overload'' None,
     Field ''AddProxyProtocolConnectionState'' (Ptr (Basic Bool)) ''add_proxy_protocol_connection_state'' (Some CopyValue)]"

definition AndFilter :: gostruct where [hcm_defs]:
  "AndFilter = GoStruct ''AndFilter''
    [Field ''Filters'' (Slice (Ptr (Struct AccessLogFilter))) ''filters'' (Some CopyElemsInto)]"

definition EnvoyInternalAddress :: gostruct where [hcm_defs]:
  "EnvoyInternalAddress = GoStruct ''EnvoyInternalAddress''
    [Field ''ServerListenerName'' (Basic String) ''server_listener_name'' None,
     Field ''EndpointId'' (Basic String) ''endpoint_id'' None]"

definition FilterStateMatcher :: gostruct where [hcm_defs]:
  "FilterStateMatcher = GoStruct ''FilterStateMatcher''
    [Field ''Key'' (Basic String) ''key'' None]"

definition GrpcService_EnvoyGrpc :: gostruct where [hcm_defs]:
  "GrpcService_EnvoyGrpc = GoStruct ''GrpcService_EnvoyGrpc''
    [Field ''ClusterName'' (Basic String) ''cluster_name'' None,
     Field ''Authority'' (Basic String) ''authority'' None,
     Field ''RetryPolicy'' (Ptr (Struct RetryPolicy)) ''retry_policy'' (Some CopyInto),
     Field ''MaxReceiveMessageLength'' (Ptr (Basic Uint32)) ''max_receive_message_length'' (Some CopyValue),
     Field ''SkipEnvoyHeaders'' (Basic Bool) ''skip_envoy_headers'' None]"

definition GrpcService_GoogleGrpc_ChannelCredentials :: gostruct where [hcm_defs]:
  "GrpcService_GoogleGrpc_ChannelCredentials = GoStruct ''GrpcService_GoogleGrpc_ChannelCredentials''
    [Field ''GoogleComputeEngine'' (Ptr (Basic Bool)) ''google_compute_engine'' (Some CopyValue)]"

definition GrpcService_GoogleGrpc :: gostruct where [hcm_defs]:
  "GrpcService_GoogleGrpc = GoStruct ''GrpcService_GoogleGrpc''
    [Field ''TargetUri'' (Basic String) ''target_uri'' None,
     Field ''ChannelCredentials'' (Ptr (Struct GrpcService_GoogleGrpc_ChannelCredentials)) ''channel_credentials'' (Some CopyInto),
     Field ''ChannelCredentialsPlugin'' (Slice (Ptr RawExtension)) ''channel_credentials_plugin'' (Some CopyElemsInto),
     Field ''CallCredentials'' (Slice (Ptr RawExtension)) ''call_credentials'' (Some CopyElemsInto),
     Field ''CallCredentialsPlugin'' (Slice (Ptr RawExtension)) ''call_credentials_plugin'' (Some CopyElemsInto),
     Field ''StatPrefix'' (Basic String) ''stat_prefix'' None,
     Field ''CredentialsFactoryName'' (Basic String) ''credentials_factory_name'' None,
     Field ''Config'' (Ptr RawExtension) ''config'' (Some CopyInto),
     Field ''PerStreamBufferLimitBytes'' (Ptr (Basic Uint32)) ''per_stream_buffer_limit_bytes'' (Some CopyValue),
     Field ''ChannelArgs'' (Ptr RawExtension) ''channel_args'' (Some CopyInto)]"

definition GrpcService_GoogleGrpc_ChannelArgs_Value :: gostruct where [hcm_defs]:
  "GrpcService_GoogleGrpc_ChannelArgs_Value = GoStruct ''GrpcService_GoogleGrpc_ChannelArgs_Value''
    [Field ''SslCredentials'' (Ptr RawExtension) ''ssl_credentials'' (Some CopyInto),
     Field ''AccessToken'' (Basic String) ''access_token'' None,
     Field ''GoogleRefreshToken'' (Basic String) ''google_refresh_token'' None,
     Field ''ServiceAccountJwtAccess'' (Ptr RawExtension) ''service_account_jwt_access'' (Some CopyInto),
     Field ''StringValue'' (Basic String) ''string_value'' None]"

definition GrpcService_GoogleGrpc_ChannelArgs :: gostruct where [hcm_defs]:
  "GrpcService_GoogleGrpc_ChannelArgs = GoStruct ''GrpcService_GoogleGrpc_ChannelArgs''
    [Field ''Args'' (Map (Ptr (Struct GrpcService_GoogleGrpc_ChannelArgs_Value))) ''args'' (Some CopyMap)]"

definition InternalRedirectPolicy :: gostruct where [hcm_defs]:
  "InternalRedirectPolicy = GoStruct ''InternalRedirectPolicy''
    [Field ''MaxInternalRedirects'' (Ptr (Basic Uint32)) ''max_internal_redirects'' (Some CopyValue),
     Field ''RedirectResponseCodes'' (Slice (Basic Uint32)) ''redirect_response_codes'' (Some CopySlice),
     Field ''Predicates'' (Slice (Ptr (Struct TypedExtensionConfig))) ''predicates'' (Some CopyElemsInto),
     Field ''AllowCrossSchemeRedirect'' (Basic Bool) ''allow_cross_scheme_redirect'' None,
     Field ''ResponseHeadersToCopy'' (Slice (Basic String)) ''response_headers_to_copy'' (Some CopySlice)]"

definition OrFilter :: gostruct where [hcm_defs]:
  "OrFilter = GoStruct ''OrFilter''
    [Field ''Filters'' (Slice (Ptr (Struct AccessLogFilter))) ''filters'' (Some CopyElemsInto)]"

definition Pipe :: gostruct where [hcm_defs]:
  "Pipe = GoStruct ''Pipe''
    [Field ''Path'' (Basic String) ''path'' None, Field ''Mode'' (Basic Uint32) ''mode'' None]"

definition ProxyProtocolPassThroughTLVs :: gostruct where [hcm_defs]:
  "ProxyProtocolPassThroughTLVs = GoStruct ''ProxyProtocolPassThroughTLVs''
    [Field ''MatchType'' (Enum ProxyProtocolPassThroughTLVs_PassTLVsMatchType) ''match_type'' None,
     Field ''TlvType'' (Slice (Basic Uint32)) ''tlv_type'' (Some CopySlice)]"

definition TlvEntry :: gostruct where [hcm_defs]:
  "TlvEntry = GoStruct ''TlvEntry''
    [Field ''Type'' (Basic Uint32) ''type'' None, Field ''Value'' Bytes ''value'' (Some CopySlice),
     Field ''FormatString'' (Ptr (Struct SubstitutionFormatString)) ''format_string'' (Some CopyInto)]"

definition ProxyProtocolConfig :: gostruct where [hcm_defs]:
  "ProxyProtocolConfig = GoStruct ''ProxyProtocolConfig''
    [Field ''Version'' (Enum ProxyProtocolConfig_Version) ''version'' None,
     Field ''PassThroughTlvs'' (Ptr (Struct ProxyProtocolPassThroughTLVs)) ''pass_through_tlvs'' (Some CopyInto),
     Field ''AddedTlvs'' (Slice (Ptr (Struct TlvEntry))) ''added_tlvs'' (Some CopyElemsInto)]"

definition QueryParameterMatcher :: gostruct where [hcm_defs]:
  "QueryParameterMatcher = GoStruct ''QueryParameterMatcher''
    [Field ''Name'' (Basic String) ''name'' None,
     Field ''StringMatch'' (Ptr (Struct StringMatcher)) ''string_match'' (Some CopyInto),
     Field ''PresentMatch'' (Basic Bool) ''present_match'' None]"

definition RetryPolicy_ResetHeader :: gostruct where [hcm_defs]:
  "RetryPolicy_ResetHeader = GoStruct ''RetryPolicy_ResetHeader''
    [Field ''Name'' (Basic String) ''name'' None,
     Field ''Format'' (Enum RetryPolicy_ResetHeaderFormat) ''format'' None]"

definition RetryPolicy_RateLimitedRetryBackOff :: gostruct where [hcm_defs]:
  "RetryPolicy_RateLimitedRetryBackOff = GoStruct ''RetryPolicy_RateLimitedRetryBackOff''
    [Field ''ResetHeaders'' (Slice (Ptr (Struct RetryPolicy_ResetHeader))) ''reset_headers'' (Some CopyElemsInto),
     Field ''MaxInterval'' (Ptr (Basic String)) ''max_interval'' (Some CopyValue)]"

definition WeightedCluster_ClusterWeight :: gostruct where [hcm_defs]:
  "WeightedCluster_ClusterWeight = GoStruct ''WeightedCluster_ClusterWeight''
    [Field ''Name'' (Basic String) ''name'' None, Field ''ClusterHeader'' (Basic String) ''cluster_header'' None,
     Field ''Weight'' (Ptr (Basic Uint32)) ''weight'' (Some CopyValue),
     Field ''MetadataMatch'' (Ptr (Struct Metadata)) ''metadata_match'' (Some CopyInto),
     Field ''RequestHeadersToAdd'' (Slice (Ptr (Struct HeaderValueOption))) ''request_headers_to_add'' (Some CopyElemsInto),
     Field ''RequestHeadersToRemove'' (Slice (Basic String)) ''request_headers_to_remove'' (Some CopySlice),
     Field ''ResponseHeadersToAdd'' (Slice (Ptr (Struct HeaderValueOption))) ''response_headers_to_add'' (Some CopyElemsInto),
     Field ''ResponseHeadersToRemove'' (Slice (Basic String)) ''response_headers_to_remove'' (Some CopySlice),
     Field ''TypedPerFilterConfig'' (Map (Ptr RawExtension)) ''typed_per_filter_config'' (Some CopyMap)]"

definition WeightedCluster :: gostruct where [hcm_defs]:
  "WeightedCluster = GoStruct ''WeightedCluster''
    [Field ''Clusters'' (Slice (Ptr (Struct WeightedCluster_ClusterWeight))) ''clusters'' (Some CopyElemsInto),
     Field ''TotalWeight'' (Ptr (Basic Uint32)) ''total_weight'' (Some CopyValue),
     Field ''RuntimeKeyPrefix'' (Basic String) ''runtime_key_prefix'' None,
     Field ''HeaderName'' (Basic String) ''header_name'' None,
     Field ''UseHashPolicy'' (Ptr (Basic Bool)) ''use_hash_policy'' (Some CopyValue),
     Field ''HostRewriteLiteral'' (Basic String) ''host_rewrite_literal'' None]"

definition RouteAction_HashPolicy :: gostruct where [hcm_defs]:
  "RouteAction_HashPolicy = GoStruct ''RouteAction_HashPolicy''
    [Field ''Header'' (Ptr RawExtension) ''header'' (Some CopyInto),
     Field ''Cookie'' (Ptr RawExtension) ''cookie'' (Some CopyInto),
     Field ''ConnectionProperties'' (Ptr RawExtension) ''connection_properties'' (Some CopyInto),
     Field ''QueryParameter'' (Ptr RawExtension) ''query_parameter'' (Some CopyInto),
     Field ''FilterState'' (Ptr RawExtension) ''filter_state'' (Some CopyInto),
     Field ''Terminal'' (Basic Bool) ''terminal'' None]"

definition RouteAction_MaxStreamDuration :: gostruct where [hcm_defs]:
  "RouteAction_MaxStreamDuration = GoStruct ''RouteAction_MaxStreamDuration''
    [Field ''MaxStreamDuration'' (Ptr (Basic String)) ''max_stream_duration'' (Some CopyValue),
     Field ''GrpcTimeoutHeaderMax'' (Ptr (Basic String)) ''grpc_timeout_header_max'' (Some CopyValue),
     Field ''GrpcTimeoutHeaderOffset'' (Ptr (Basic String)) ''grpc_timeout_header_offset'' (Some CopyValue)]"

definition RouteAction :: gostruct where [hcm_defs]:
  "RouteAction = GoStruct ''RouteAction''
    [Field ''Cluster'' (Basic String) ''cluster'' None,
     Field ''ClusterHeader'' (Basic String) ''cluster_header'' None,
     Field ''WeightedClusters'' (Ptr (Struct WeightedCluster)) ''weighted_clusters'' (Some CopyInto),
     Field ''ClusterSpecifierPlugin'' (Basic String) ''cluster_specifier_plugin'' None,
     Field ''InlineClusterSpecifierPlugin'' (Ptr (Struct ClusterSpecifierPlugin)) ''inline_cluster_specifier_plugin'' (Some CopyInto),
     Field ''ClusterNotFoundResponseCode'' (Enum RouteAction_ClusterNotFoundResponseCode) ''cluster_not_found_response_code'' None,
     Field ''MetadataMatch'' (Ptr (Struct Metadata)) ''metadata_match'' (Some CopyInto),
     Field ''PrefixRewrite'' (Basic String) ''prefix_rewrite'' None,
     Field ''RegexRewrite'' (Ptr (Struct RegexMatchAndSubstitute)) ''regex_rewrite'' (Some CopyInto),
     Field ''PathRewritePolicy'' (Ptr (Struct TypedExtensionConfig)) ''path_rewrite_policy'' (Some CopyInto),
     Field ''HostRewriteLiteral'' (Basic String) ''host_rewrite_literal'' None,
     Field ''AutoHostRewrite'' (Ptr (Basic Bool)) ''auto_host_rewrite'' (Some CopyValue),
     Field ''HostRewriteHeader'' (Basic String) ''host_rewrite_header'' None,
     Field ''HostRewritePathRegex'' (Ptr (Struct RegexMatchAndSubstitute)) ''host_rewrite_path_regex'' (Some CopyInto),
     Field ''AppendXForwardedHost'' (Basic Bool) ''append_x_forwarded_host'' None,
     Field ''Timeout'' (Ptr (Basic String)) ''timeout'' (Some CopyValue),
     Field ''IdleTimeout'' (Ptr (Basic String)) ''idle_timeout'' (Some CopyValue),
     Field ''FlushTimeout'' (Ptr (Basic String)) ''flush_timeout'' (Some CopyValue),
     Field ''EarlyDataPolicy'' (Ptr (Struct TypedExtensionConfig)) ''early_data_policy'' (Some CopyInto),
     Field ''RetryPolicy'' (Ptr (Struct RetryPolicy)) ''retry_policy'' (Some CopyInto),
     Field ''RetryPolicyTypedConfig'' (Ptr RawExtension) ''retry_policy_typed_config'' (Some CopyInto),
     Field ''RequestMirrorPolicies'' (Slice (Ptr (Struct RouteAction_RequestMirrorPolicy))) ''request_mirror_policies'' (Some CopyElemsInto),
     Field ''Priority'' (Enum RoutingPriority) ''priority'' None,
     Field ''RateLimits'' (Slice (Ptr (Struct RateLimit))) ''rate_limits'' (Some CopyElemsInto),
     Field ''IncludeVhRateLimits'' (Ptr (Basic Bool)) ''include_vh_rate_limits'' (Some CopyValue),
     Field ''HashPolicy'' (Slice (Ptr (Struct RouteAction_HashPolicy))) ''hash_policy'' (Some CopyElemsInto),
     Field ''Cors'' (Ptr (Struct CorsPolicy)) ''cors'' (Some CopyInto),
     Field ''MaxGrpcTimeout'' (Ptr (Basic String)) ''max_grpc_timeout'' (Some CopyValue),
     Field ''GrpcTimeoutOffset'' (Ptr (Basic String)) ''grpc_timeout_offset'' (Some CopyValue),
     Field ''UpgradeConfigs'' (Slice (Ptr RawExtension)) ''upgrade_configs'' (Some CopyElemsInto),
     Field ''InternalRedirectPolicy'' (Ptr (Struct InternalRedirectPolicy)) ''internal_redirect_policy'' (Some CopyInto),
     Field ''InternalRedirectAction'' (Enum RouteAction_InternalRedirectAction) ''internal_redirect_action'' None,
     Field ''MaxInternalRedirects'' (Ptr (Basic Uint32)) ''max_internal_redirects'' (Some CopyValue),
     Field ''HedgePolicy'' (Ptr (Struct HedgePolicy)) ''hedge_policy'' (Some CopyInto),
     Field ''MaxStreamDuration'' (Ptr (Struct RouteAction_MaxStreamDuration)) ''max_stream_duration'' (Some CopyInto)]"

definition RouteAction_UpgradeConfig_ConnectConfig :: gostruct where [hcm_defs]:
  "RouteAction_UpgradeConfig_ConnectConfig = GoStruct ''RouteAction_UpgradeConfig_ConnectConfig''
    [Field ''ProxyProtocolConfig'' (Ptr (Struct ProxyProtocolConfig)) ''proxy_protocol_config'' (Some CopyInto),
     Field ''AllowPost'' (Basic Bool) ''allow_post'' None]"

definition RouteAction_UpgradeConfig :: gostruct where [hcm_defs]:
  "RouteAction_UpgradeConfig = GoStruct ''RouteAction_UpgradeConfig''
    [Field ''UpgradeType'' (Basic String) ''upgrade_type'' None,
     Field ''Enabled'' (Ptr (Basic Bool)) ''enabled'' (Some CopyValue),
     Field ''ConnectConfig'' (Ptr (Struct RouteAction_UpgradeConfig_ConnectConfig)) ''connect_config'' (Some CopyInto)]"

definition RouteMatch_TlsContextMatchOptions :: gostruct where [hcm_defs]:
  "RouteMatch_TlsContextMatchOptions = GoStruct ''RouteMatch_TlsContextMatchOptions''
    [Field ''Presented'' (Ptr (Basic Bool)) ''presented'' (Some CopyValue),
     Field ''Validated'' (Ptr (Basic Bool)) ''validated'' (Some CopyValue)]"

definition RouteMatch :: gostruct where [hcm_defs]:
  "RouteMatch = GoStruct ''RouteMatch''
    [Field ''Prefix'' (Basic String) ''prefix'' None, Field ''Path'' (Basic String) ''path'' None,
     Field ''SafeRegex'' (Ptr (Struct RegexMatcher)) ''safe_regex'' (Some CopyInto),
     Field ''ConnectMatcher'' (Ptr RawExtension) ''connect_matcher'' (Some CopyInto),
     Field ''PathSeparatedPrefix'' (Basic String) ''path_separated_prefix'' None,
     Field ''PathMatchPolicy'' (Ptr (Struct TypedExtensionConfig)) ''path_match_policy'' (Some CopyInto),
     Field ''CaseSensitive'' (Ptr (Basic Bool)) ''case_sensitive'' (Some CopyValue),
     Field ''RuntimeFraction'' (Ptr (Struct RuntimeFractionalPercent)) ''runtime_fraction'' (Some CopyInto),
     Field ''Headers'' (Slice (Ptr (Struct HeaderMatcher))) ''headers'' (Some CopyElemsInto),
     Field ''QueryParameters'' (Slice (Ptr (Struct QueryParameterMatcher))) ''query_parameters'' (Some CopyElemsInto),
     Field ''Grpc'' (Ptr RawExtension) ''grpc'' (Some CopyInto),
     Field ''TlsContext'' (Ptr (Struct RouteMatch_TlsContextMatchOptions)) ''tls_context'' (Some CopyInto),
     Field ''DynamicMetadata'' (Slice (Ptr (Struct MetadataMatcher))) ''dynamic_metadata'' (Some CopyElemsInto),
     Field ''FilterState'' (Slice (Ptr (Struct FilterStateMatcher))) ''filter_state'' (Some CopyElemsInto)]"

definition ScopedRoutes_ScopeKeyBuilder_FragmentBuilder :: gostruct where [hcm_defs]:
  "ScopedRoutes_ScopeKeyBuilder_FragmentBuilder = GoStruct ''ScopedRoutes_ScopeKeyBuilder_FragmentBuilder''
    [Field ''HeaderValueExtractor'' (Ptr RawExtension) ''header_value_extractor'' (Some CopyInto),
     Field ''Index'' (Basic Uint32) ''index'' None, Field ''Element'' (Ptr RawExtension) ''element'' (Some CopyInto)]"

definition ScopedRoutes_ScopeKeyBuilder :: gostruct where [hcm_defs]:
  "ScopedRoutes_ScopeKeyBuilder = GoStruct ''ScopedRoutes_ScopeKeyBuilder''
    [Field ''Fragments'' (Slice (Ptr (Struct ScopedRoutes_ScopeKeyBuilder_FragmentBuilder))) ''fragments'' (Some CopyElemsInto)]"

definition ScopedRoutes_ScopeKeyBuilder_FragmentBuilder_HeaderValueExtractor :: gostruct where [hcm_defs]:
  "ScopedRoutes_ScopeKeyBuilder_FragmentBuilder_HeaderValueExtractor = GoStruct ''ScopedRoutes_ScopeKeyBuilder_FragmentBuilder_HeaderValueExtractor''
    [Field ''Name'' (Basic String) ''name'' None,
     Field ''ElementSeparator'' (Basic String) ''element_separator'' None]"

definition SocketAddress :: gostruct where [hcm_defs]:
  "SocketAddress = GoStruct ''SocketAddress''
    [Field ''Protocol'' (Enum SocketAddress_Protocol) ''protocol'' None,
     Field ''Address'' (Basic String) ''address'' None, Field ''PortValue'' (Basic Uint32) ''port_value'' None,
     Field ''NamedPort'' (Basic String) ''named_port'' None,
     Field ''ResolverName'' (Basic String) ''resolver_name'' None,
     Field ''Ipv4Compat'' (Basic Bool) ''ipv4_compat'' None,
     Field ''NetworkNamespaceFilepath'' (Basic String) ''network_namespace_filepath'' None]"

section \<open>All of them\<close>

definition hcm_enums :: "goenum list" where
  "hcm_enums =
     [AccessLogType, ApiConfigSource_ApiType, ApiVersion, ComparisonFilter_Op, FractionalPercent_DenominatorType,
      GrpcStatusFilter_Status, HeaderValueOption_HeaderAppendAction, HttpConnectionManager_CodecType,
      HttpConnectionManager_ForwardClientCertDetails, HttpConnectionManager_PathWithEscapedSlashesAction,
      HttpConnectionManager_ServerHeaderTransformation, HttpConnectionManager_Tracing_OperationName,
      HttpProtocolOptions_HeadersWithUnderscoresAction, KeyValueAppend_KeyValueAppendAction,
      ProxyProtocolConfig_Version, ProxyProtocolPassThroughTLVs_PassTLVsMatchType, RateLimit_Action_MetaData_Source,
      RedirectAction_RedirectResponseCode, RequestMethod, RetryPolicy_ResetHeaderFormat,
      RouteAction_ClusterNotFoundResponseCode, RouteAction_InternalRedirectAction, RoutingPriority,
      SocketAddress_Protocol, TrafficDirection, VirtualHost_TlsRequirementType]"

definition hcm_structs :: "gostruct list" where
  "hcm_structs =
     [WatchedDirectory, PathConfigSource, HeaderValue, RetryPolicy_RetryPriority, RetryPolicy_RetryHostPredicate,
      TypedExtensionConfig, RetryPolicy_RetryBackOff, RegexMatcher, Int64Range, StringMatcher, HeaderMatcher,
      RetryPolicy, GrpcService, RateLimitSettings, ApiConfigSource, SelfConfigSource, ConfigSource, Rds,
      RegexMatchAndSubstitute, RedirectAction, DataSource, DirectResponseAction, FilterAction, Metadata, Decorator,
      HeaderValueOption, FractionalPercent, CustomTag, Tracing, Route, VirtualCluster, RateLimit_Action,
      RateLimit_Override, RateLimit_HitsAddend, RateLimit, RuntimeFractionalPercent, CorsPolicy, HedgePolicy,
      RouteAction_RequestMirrorPolicy, VirtualHost, Vhds, ClusterSpecifierPlugin, RouteConfiguration,
      ScopedRouteConfiguration_Key, ScopedRouteConfiguration, ScopedRouteConfigurationsList, ScopedRds, ScopedRoutes,
      ExtensionConfigSource, HttpFilter, Percent, Tracing_Http, HttpConnectionManager_Tracing, HttpProtocolOptions,
      Http1ProtocolOptions_HeaderKeyFormat, Http1ProtocolOptions, Http2ProtocolOptions_SettingsParameter,
      KeepaliveSettings, Http2ProtocolOptions, QuicKeepAliveSettings, QuicProtocolOptions, Http3ProtocolOptions,
      SchemeHeaderTransformation, RuntimeUInt32, ComparisonFilter, StatusCodeFilter, DurationFilter, RuntimeFilter,
      HeaderFilter, ResponseFlagFilter, GrpcStatusFilter, ExtensionFilter, ValueMatcher, MetadataMatcher,
      MetadataFilter, LogTypeFilter, AccessLogFilter, AccessLog, HttpConnectionManager_HcmAccessLogOptions,
      CidrRange, HttpConnectionManager_InternalAddressConfig, HttpConnectionManager_SetCurrentClientCertDetails,
      HttpConnectionManager_UpgradeConfig, RequestIDExtension, JsonFormatOptions, SubstitutionFormatString,
      ResponseMapper, LocalReplyConfig, PathTransformation, HttpConnectionManager_PathNormalizationOptions,
      HttpConnectionManager_ProxyStatusConfig, HCM, AndFilter, EnvoyInternalAddress, FilterStateMatcher,
      GrpcService_EnvoyGrpc, GrpcService_GoogleGrpc_ChannelCredentials, GrpcService_GoogleGrpc,
      GrpcService_GoogleGrpc_ChannelArgs_Value, GrpcService_GoogleGrpc_ChannelArgs, InternalRedirectPolicy, OrFilter,
      Pipe, ProxyProtocolPassThroughTLVs, TlvEntry, ProxyProtocolConfig, QueryParameterMatcher,
      RetryPolicy_ResetHeader, RetryPolicy_RateLimitedRetryBackOff, WeightedCluster_ClusterWeight, WeightedCluster,
      RouteAction_HashPolicy, RouteAction_MaxStreamDuration, RouteAction, RouteAction_UpgradeConfig_ConnectConfig,
      RouteAction_UpgradeConfig, RouteMatch_TlsContextMatchOptions, RouteMatch,
      ScopedRoutes_ScopeKeyBuilder_FragmentBuilder, ScopedRoutes_ScopeKeyBuilder,
      ScopedRoutes_ScopeKeyBuilder_FragmentBuilder_HeaderValueExtractor, SocketAddress]"

end
