(* ===== verification/GenLds.thy ===== *)
theory GenLds
  imports GoTypes
begin

text \<open>
  The types of \<open>src/pkg/xds/types/lds/lds_generated.go\<close> in the order in which they refer to each other: the enums with
  their tables, then every struct with its fields and the statements of its \<open>DeepCopyInto\<close>.
\<close>

named_theorems lds_defs "the structs of the file"

section \<open>Enums\<close>

definition AccessLogType :: goenum where
  "AccessLogType = GoEnum ''AccessLogType''
    []
    []
    []"

definition ApiConfigSource_ApiType :: goenum where
  "ApiConfigSource_ApiType = GoEnum ''ApiConfigSource_ApiType''
    [(''ApiConfigSource_ApiType_DEPRECATED_AND_UNAVAILABLE_DO_NOT_USE'', ''DEPRECATED_AND_UNAVAILABLE_DO_NOT_USE''),
     (''ApiConfigSource_ApiType_REST'', ''REST''), (''ApiConfigSource_ApiType_GRPC'', ''GRPC''),
     (''ApiConfigSource_ApiType_DELTA_GRPC'', ''DELTA_GRPC''),
     (''ApiConfigSource_ApiType_AGGREGATED_GRPC'', ''AGGREGATED_GRPC''),
     (''ApiConfigSource_ApiType_AGGREGATED_DELTA_GRPC'', ''AGGREGATED_DELTA_GRPC'')]
    [(0, ''DEPRECATED_AND_UNAVAILABLE_DO_NOT_USE''), (1, ''REST''), (2, ''GRPC''), (3, ''DELTA_GRPC''),
     (5, ''AGGREGATED_GRPC''), (6, ''AGGREGATED_DELTA_GRPC'')]
    [(''DEPRECATED_AND_UNAVAILABLE_DO_NOT_USE'', 0), (''REST'', 1), (''GRPC'', 2), (''DELTA_GRPC'', 3),
     (''AGGREGATED_GRPC'', 5), (''AGGREGATED_DELTA_GRPC'', 6)]"

definition ApiVersion :: goenum where
  "ApiVersion = GoEnum ''ApiVersion''
    [(''ApiVersion_AUTO'', ''AUTO''), (''ApiVersion_V2'', ''V2''), (''ApiVersion_V3'', ''V3'')]
    [(0, ''AUTO''), (1, ''V2''), (2, ''V3'')]
    [(''AUTO'', 0), (''V2'', 1), (''V3'', 2)]"

definition ComparisonFilter_Op :: goenum where
  "ComparisonFilter_Op = GoEnum ''ComparisonFilter_Op''
    [(''ComparisonFilter_Op_EQ'', ''EQ''), (''ComparisonFilter_Op_GE'', ''GE''), (''ComparisonFilter_Op_LE'', ''LE'')]
    [(0, ''EQ''), (1, ''GE''), (2, ''LE'')]
    [(''EQ'', 0), (''GE'', 1), (''LE'', 2)]"

definition FilterChainMatch_ConnectionSourceType :: goenum where
  "FilterChainMatch_ConnectionSourceType = GoEnum ''FilterChainMatch_ConnectionSourceType''
    [(''FilterChainMatch_ConnectionSourceType_ANY'', ''ANY''),
     (''FilterChainMatch_ConnectionSourceType_SAME_IP_OR_LOOPBACK'', ''SAME_IP_OR_LOOPBACK''),
     (''FilterChainMatch_ConnectionSourceType_EXTERNAL'', ''EXTERNAL'')]
    [(0, ''ANY''), (1, ''SAME_IP_OR_LOOPBACK''), (2, ''EXTERNAL'')]
    [(''ANY'', 0), (''SAME_IP_OR_LOOPBACK'', 1), (''EXTERNAL'', 2)]"

definition FractionalPercent_DenominatorType :: goenum where
  "FractionalPercent_DenominatorType = GoEnum ''FractionalPercent_DenominatorType''
    [(''FractionalPercent_DenominatorType_HUNDRED'', ''HUNDRED''),
     (''FractionalPercent_DenominatorType_TEN_THOUSAND'', ''TEN_THOUSAND''),
     (''FractionalPercent_DenominatorType_MILLION'', ''MILLION'')]
    [(0, ''HUNDRED''), (1, ''TEN_THOUSAND''), (2, ''MILLION'')]
    [(''HUNDRED'', 0), (''TEN_THOUSAND'', 1), (''MILLION'', 2)]"

definition GrpcStatusFilter_Status :: goenum where
  "GrpcStatusFilter_Status = GoEnum ''GrpcStatusFilter_Status''
    [(''GrpcStatusFilter_Status_OK'', ''OK''), (''GrpcStatusFilter_Status_CANCELED'', ''CANCELED''),
     (''GrpcStatusFilter_Status_UNKNOWN'', ''UNKNOWN''),
     (''GrpcStatusFilter_Status_INVALID_ARGUMENT'', ''INVALID_ARGUMENT''),
     (''GrpcStatusFilter_Status_DEADLINE_EXCEEDED'', ''DEADLINE_EXCEEDED''),
     (''GrpcStatusFilter_Status_NOT_FOUND'', ''NOT_FOUND''),
     (''GrpcStatusFilter_Status_ALREADY_EXISTS'', ''ALREADY_EXISTS''),
     (''GrpcStatusFilter_Status_PERMISSION_DENIED'', ''PERMISSION_DENIED''),
     (''GrpcStatusFilter_Status_RESOURCE_EXHAUSTED'', ''RESOURCE_EXHAUSTED''),
     (''GrpcStatusFilter_Status_FAILED_PRECONDITION'', ''FAILED_PRECONDITION''),
     (''GrpcStatusFilter_Status_ABORTED'', ''ABORTED''),
     (''GrpcStatusFilter_Status_OUT_OF_RANGE'', ''OUT_OF_RANGE''),
     (''GrpcStatusFilter_Status_UNIMPLEMENTED'', ''UNIMPLEMENTED''),
     (''GrpcStatusFilter_Status_INTERNAL'', ''INTERNAL''),
     (''GrpcStatusFilter_Status_UNAVAILABLE'', ''UNAVAILABLE''),
     (''GrpcStatusFilter_Status_DATA_LOSS'', ''DATA_LOSS''),
     (''GrpcStatusFilter_Status_UNAUTHENTICATED'', ''UNAUTHENTICATED'')]
    [(0, ''OK''), (1, ''CANCELED''), (2, ''UNKNOWN''), (3, ''INVALID_ARGUMENT''), (4, ''DEADLINE_EXCEEDED''),
     (5, ''NOT_FOUND''), (6, ''ALREADY_EXISTS''), (7, ''PERMISSION_DENIED''), (8, ''RESOURCE_EXHAUSTED''),
     (9, ''FAILED_PRECONDITION''), (10, ''ABORTED''), (11, ''OUT_OF_RANGE''), (12, ''UNIMPLEMENTED''),
     (13, ''INTERNAL''), (14, ''UNAVAILABLE''), (15, ''DATA_LOSS''), (16, ''UNAUTHENTICATED'')]
    [(''OK'', 0), (''CANCELED'', 1), (''UNKNOWN'', 2), (''INVALID_ARGUMENT'', 3), (''DEADLINE_EXCEEDED'', 4),
     (''NOT_FOUND'', 5), (''ALREADY_EXISTS'', 6), (''PERMISSION_DENIED'', 7), (''RESOURCE_EXHAUSTED'', 8),
     (''FAILED_PRECONDITION'', 9), (''ABORTED'', 10), (''OUT_OF_RANGE'', 11), (''UNIMPLEMENTED'', 12),
     (''INTERNAL'', 13), (''UNAVAILABLE'', 14), (''DATA_LOSS'', 15), (''UNAUTHENTICATED'', 16)]"

definition HeaderValueOption_HeaderAppendAction :: goenum where
  "HeaderValueOption_HeaderAppendAction = GoEnum ''HeaderValueOption_HeaderAppendAction''
    [(''HeaderValueOption_HeaderAppendAction_APPEND_IF_EXISTS_OR_ADD'', ''APPEND_IF_EXISTS_OR_ADD''),
     (''HeaderValueOption_HeaderAppendAction_ADD_IF_ABSENT'', ''ADD_IF_ABSENT''),
     (''HeaderValueOption_HeaderAppendAction_OVERWRITE_IF_EXISTS_OR_ADD'', ''OVERWRITE_IF_EXISTS_OR_ADD''),
     (''HeaderValueOption_HeaderAppendAction_OVERWRITE_IF_EXISTS'', ''OVERWRITE_IF_EXISTS'')]
    [(0, ''APPEND_IF_EXISTS_OR_ADD''), (1, ''ADD_IF_ABSENT''), (2, ''OVERWRITE_IF_EXISTS_OR_ADD''),
     (3, ''OVERWRITE_IF_EXISTS'')]
    [(''APPEND_IF_EXISTS_OR_ADD'', 0), (''ADD_IF_ABSENT'', 1), (''OVERWRITE_IF_EXISTS_OR_ADD'', 2),
     (''OVERWRITE_IF_EXISTS'', 3)]"

definition KeyValueAppend_KeyValueAppendAction :: goenum where
  "KeyValueAppend_KeyValueAppendAction = GoEnum ''KeyValueAppend_KeyValueAppendAction''
    [(''KeyValueAppend_KeyValueAppendAction_APPEND_IF_EXISTS_OR_ADD'', ''APPEND_IF_EXISTS_OR_ADD''),
     (''KeyValueAppend_KeyValueAppendAction_ADD_IF_ABSENT'', ''ADD_IF_ABSENT''),
     (''KeyValueAppend_KeyValueAppendAction_OVERWRITE_IF_EXISTS_OR_ADD'', ''OVERWRITE_IF_EXISTS_OR_ADD''),
     (''KeyValueAppend_KeyValueAppendAction_OVERWRITE_IF_EXISTS'', ''OVERWRITE_IF_EXISTS'')]
    [(0, ''APPEND_IF_EXISTS_OR_ADD''), (1, ''ADD_IF_ABSENT''), (2, ''OVERWRITE_IF_EXISTS_OR_ADD''),
     (3, ''OVERWRITE_IF_EXISTS'')]
    [(''APPEND_IF_EXISTS_OR_ADD'', 0), (''ADD_IF_ABSENT'', 1), (''OVERWRITE_IF_EXISTS_OR_ADD'', 2),
     (''OVERWRITE_IF_EXISTS'', 3)]"

definition Listener_DrainType :: goenum where
  "Listener_DrainType = GoEnum ''Listener_DrainType''
    [(''Listener_DrainType_DEFAULT'', ''DEFAULT''), (''Listener_DrainType_MODIFY_ONLY'', ''MODIFY_ONLY'')]
    [(0, ''DEFAULT''), (1, ''MODIFY_ONLY'')]
    [(''DEFAULT'', 0), (''MODIFY_ONLY'', 1)]"

definition RequestMethod :: goenum where
  "RequestMethod = GoEnum ''RequestMethod''
    [(''RequestMethod_METHOD_UNSPECIFIED'', ''METHOD_UNSPECIFIED''), (''RequestMethod_GET'', ''GET''),
     (''RequestMethod_HEAD'', ''HEAD''), (''RequestMethod_POST'', ''POST''), (''RequestMethod_PUT'', ''PUT''),
     (''RequestMethod_DELETE'', ''DELETE''), (''RequestMethod_CONNECT'', ''CONNECT''),
     (''RequestMethod_OPTIONS'', ''OPTIONS''), (''RequestMethod_TRACE'', ''TRACE''),
     (''RequestMethod_PATCH'', ''PATCH'')]
    [(0, ''METHOD_UNSPECIFIED''), (1, ''GET''), (2, ''HEAD''), (3, ''POST''), (4, ''PUT''), (5, ''DELETE''),
     (6, ''CONNECT''), (7, ''OPTIONS''), (8, ''TRACE''), (9, ''PATCH'')]
    [(''METHOD_UNSPECIFIED'', 0), (''GET'', 1), (''HEAD'', 2), (''POST'', 3), (''PUT'', 4), (''DELETE'', 5),
     (''CONNECT'', 6), (''OPTIONS'', 7), (''TRACE'', 8), (''PATCH'', 9)]"

definition RoutingPriority :: goenum where
  "RoutingPriority = GoEnum ''RoutingPriority''
    [(''RoutingPriority_DEFAULT'', ''DEFAULT''), (''RoutingPriority_HIGH'', ''HIGH'')]
    [(0, ''DEFAULT''), (1, ''HIGH'')]
    [(''DEFAULT'', 0), (''HIGH'', 1)]"

definition SocketAddress_Protocol :: goenum where
  "SocketAddress_Protocol = GoEnum ''SocketAddress_Protocol''
    [(''SocketAddress_Protocol_TCP'', ''TCP''), (''SocketAddress_Protocol_UDP'', ''UDP'')]
    [(0, ''TCP''), (1, ''UDP'')]
    [(''TCP'', 0), (''UDP'', 1)]"

definition SocketOption_SocketState :: goenum where
  "SocketOption_SocketState = GoEnum ''SocketOption_SocketState''
    [(''SocketOption_SocketState_STATE_PREBIND'', ''STATE_PREBIND''),
     (''SocketOption_SocketState_STATE_BOUND'', ''STATE_BOUND''),
     (''SocketOption_SocketState_STATE_LISTENING'', ''STATE_LISTENING'')]
    [(0, ''STATE_PREBIND''), (1, ''STATE_BOUND''), (2, ''STATE_LISTENING'')]
    [(''STATE_PREBIND'', 0), (''STATE_BOUND'', 1), (''STATE_LISTENING'', 2)]"

definition TrafficDirection :: goenum where
  "TrafficDirection = GoEnum ''TrafficDirection''
    [(''TrafficDirection_UNSPECIFIED'', ''UNSPECIFIED''), (''TrafficDirection_INBOUND'', ''INBOUND''),
     (''TrafficDirection_OUTBOUND'', ''OUTBOUND'')]
    [(0, ''UNSPECIFIED''), (1, ''INBOUND''), (2, ''OUTBOUND'')]
    [(''UNSPECIFIED'', 0), (''INBOUND'', 1), (''OUTBOUND'', 2)]"

section \<open>Structs\<close>

definition SocketAddress :: gostruct where [lds_defs]:
  "SocketAddress = GoStruct ''SocketAddress''
    [Field ''Protocol'' (Enum SocketAddress_Protocol) ''protocol'' None,
     Field ''Address'' (Basic String) ''address'' None, Field ''PortValue'' (Basic Uint32) ''port_value'' None,
     Field ''NamedPort'' (Basic String) ''named_port'' None,
     Field ''ResolverName'' (Basic String) ''resolver_name'' None,
     Field ''Ipv4Compat'' (Basic Bool) ''ipv4_compat'' None,
     Field ''NetworkNamespaceFilepath'' (Basic String) ''network_namespace_filepath'' None]"

definition Pipe :: gostruct where [lds_defs]:
  "Pipe = GoStruct ''Pipe''
    [Field ''Path'' (Basic String) ''path'' None, Field ''Mode'' (Basic Uint32) ''mode'' None]"

definition EnvoyInternalAddress :: gostruct where [lds_defs]:
  "EnvoyInternalAddress = GoStruct ''EnvoyInternalAddress''
    [Field ''ServerListenerName'' (Basic String) ''server_listener_name'' None,
     Field ''EndpointId'' (Basic String) ''endpoint_id'' None]"

definition Address :: gostruct where [lds_defs]:
  "Address = GoStruct ''Address''
    [Field ''SocketAddress'' (Ptr (Struct SocketAddress)) ''socket_address'' (Some CopyInto),
     Field ''Pipe'' (Ptr (Struct Pipe)) ''pipe'' (Some CopyInto),
     Field ''EnvoyInternalAddress'' (Ptr (Struct EnvoyInternalAddress)) ''envoy_internal_address'' (Some CopyInto)]"

definition SocketOption_SocketType :: gostruct where [lds_defs]:
  "SocketOption_SocketType = GoStruct ''SocketOption_SocketType''
    [Field ''Stream'' (Ptr RawExtension) ''stream'' (Some CopyValue),
     Field ''Datagram'' (Ptr RawExtension) ''datagram'' (Some CopyValue)]"

definition SocketOption :: gostruct where [lds_defs]:
  "SocketOption = GoStruct ''SocketOption''
    [Field ''Description'' (Basic String) ''description'' None, Field ''Level'' (Basic Int64) ''level'' None,
     Field ''Name'' (Basic Int64) ''name'' None, Field ''IntValue'' (Basic Int64) ''int_value'' None,
     Field ''BufValue'' Bytes ''buf_value'' (Some CopySlice),
     Field ''State'' (Enum SocketOption_SocketState) ''state'' None,
     Field ''Type'' (Ptr (Struct SocketOption_SocketType)) ''type'' (Some CopyInto)]"

definition SocketOptionsOverride :: gostruct where [lds_defs]:
  "SocketOptionsOverride = GoStruct ''SocketOptionsOverride''
    [Field ''SocketOptions'' (Slice (Ptr (Struct SocketOption))) ''socket_options'' (Some CopyElemsInto)]"

definition AdditionalAddress :: gostruct where [lds_defs]:
  "AdditionalAddress = GoStruct ''AdditionalAddress''
    [Field ''Address'' (Ptr (Struct Address)) ''address'' (Some CopyInto),
     Field ''SocketOptions'' (Ptr (Struct SocketOptionsOverride)) ''socket_options'' (Some CopyInto)]"

definition CidrRange :: gostruct where [lds_defs]:
  "CidrRange = GoStruct ''CidrRange''
    [Field ''AddressPrefix'' (Basic String) ''address_prefix'' None,
     Field ''PrefixLen'' (Ptr (Basic Uint32)) ''prefix_len'' (Some CopyValue)]"

definition FilterChainMatch :: gostruct where [lds_defs]:
  "FilterChainMatch = GoStruct ''FilterChainMatch''
    [Field ''DestinationPort'' (Ptr (Basic Uint32)) ''destination_port'' (Some CopyValue),
     Field ''PrefixRanges'' (Slice (Ptr (Struct CidrRange))) ''prefix_ranges'' (Some CopyElemsInto),
     Field ''AddressSuffix'' (Basic String) ''address_suffix'' None,
     Field ''SuffixLen'' (Ptr (Basic Uint32)) ''suffix_len'' (Some CopyValue),
     Field ''DirectSourcePrefixRanges'' (Slice (Ptr (Struct CidrRange))) ''direct_source_prefix_ranges'' (Some CopyElemsInto),
     Field ''SourceType'' (Enum FilterChainMatch_ConnectionSourceType) ''source_type'' None,
     Field ''SourcePrefixRanges'' (Slice (Ptr (Struct CidrRange))) ''source_prefix_ranges'' (Some CopyElemsInto),
     Field ''SourcePorts'' (Slice (Basic Uint32)) ''source_ports'' (Some CopySlice),
     Field ''ServerNames'' (Slice (Basic String)) ''server_names'' (Some CopySlice),
     Field ''TransportProtocol'' (Basic String) ''transport_protocol'' None,
     Field ''ApplicationProtocols'' (Slice (Basic String)) ''application_protocols'' (Some CopySlice)]"

definition WatchedDirectory :: gostruct where [lds_defs]:
  "WatchedDirectory = GoStruct ''WatchedDirectory''
    [Field ''Path'' (Basic String) ''path'' None]"

definition PathConfigSource :: gostruct where [lds_defs]:
  "PathConfigSource = GoStruct ''PathConfigSource''
    [Field ''Path'' (Basic String) ''path'' None,
     Field ''WatchedDirectory'' (Ptr (Struct WatchedDirectory)) ''watched_directory'' (Some CopyInto)]"

definition HeaderValue :: gostruct where [lds_defs]:
  "HeaderValue = GoStruct ''HeaderValue''
    [Field ''Key'' (Basic String) ''key'' None, Field ''Value'' (Basic String) ''value'' None,
     Field ''RawValue'' Bytes ''raw_value'' (Some CopySlice)]"

definition BackoffStrategy :: gostruct where [lds_defs]:
  "BackoffStrategy = GoStruct ''BackoffStrategy''
    [Field ''BaseInterval'' (Ptr (Basic String)) ''base_interval'' (Some CopyValue),
     Field ''MaxInterval'' (Ptr (Basic String)) ''max_interval'' (Some CopyValue)]"

definition RetryPolicy_RetryPriority :: gostruct where [lds_defs]:
  "RetryPolicy_RetryPriority = GoStruct ''RetryPolicy_RetryPriority''
    [Field ''Name'' (Basic String) ''name'' None,
     Field ''TypedConfig'' (Ptr RawExtension) ''typed_config'' (Some CopyValue)]"

definition RetryPolicy_RetryHostPredicate :: gostruct where [lds_defs]:
  "RetryPolicy_RetryHostPredicate = GoStruct ''RetryPolicy_RetryHostPredicate''
    [Field ''Name'' (Basic String) ''name'' None,
     Field ''TypedConfig'' (Ptr RawExtension) ''typed_config'' (Some CopyValue)]"

definition RetryPolicy :: gostruct where [lds_defs]:
  "RetryPolicy = GoStruct ''RetryPolicy''
    [Field ''RetryBackOff'' (Ptr (Struct BackoffStrategy)) ''retry_back_off'' (Some CopyInto),
     Field ''NumRetries'' (Ptr (Basic Uint32)) ''num_retries'' (Some CopyValue),
     Field ''RetryOn'' (Basic String) ''retry_on'' None,
     Field ''RetryPriority'' (Ptr (Struct RetryPolicy_RetryPriority)) ''retry_priority'' (Some CopyInto),
     Field ''RetryHostPredicate'' (Slice (Ptr (Struct RetryPolicy_RetryHostPredicate))) ''retry_host_predicate'' (Some CopyElemsInto),
     Field ''HostSelectionRetryMaxAttempts'' (Basic Int64) ''host_selection_retry_max_attempts'' None]"

definition GrpcService :: gostruct where [lds_defs]:
  "GrpcService = GoStruct ''GrpcService''
    [Field ''Timeout'' (Ptr (Basic String)) ''timeout'' (Some CopyValue),
     Field ''InitialMetadata'' (Slice (Ptr (Struct HeaderValue))) ''initial_metadata'' (Some CopyElemsInto),
     Field ''RetryPolicy'' (Ptr (Struct RetryPolicy)) ''retry_policy'' (Some CopyInto)]"

definition RateLimitSettings :: gostruct where [lds_defs]:
  "RateLimitSettings = GoStruct ''RateLimitSettings''
    [Field ''MaxTokens'' (Ptr (Basic Uint32)) ''max_tokens'' (Some CopyValue),
     Field ''FillRate'' (Ptr (Basic Float64)) ''fill_rate'' (Some CopyValue)]"

definition TypedExtensionConfig :: gostruct where [lds_defs]:
  "TypedExtensionConfig = GoStruct ''TypedExtensionConfig''
    [Field ''Name'' (Basic String) ''name'' None,
     Field ''TypedConfig'' (Ptr RawExtension) ''typed_config'' (Some CopyValue)]"

definition ApiConfigSource :: gostruct where [lds_defs]:
  "ApiConfigSource = GoStruct ''ApiConfigSource''
    [Field ''ApiType'' (Enum ApiConfigSource_ApiType) ''api_type'' None,
     Field ''TransportApiVersion'' (Enum ApiVersion) ''transport_api_version'' None,
     Field ''ClusterNames'' (Slice (Basic String)) ''cluster_names'' (Some CopySlice),
     Field ''GrpcServices'' (Slice (Ptr (Struct GrpcService))) ''grpc_services'' (Some CopyElemsInto),
     Field ''RefreshDelay'' (Ptr (Basic String)) ''refresh_delay'' (Some CopyValue),
     Field ''RequestTimeout'' (Ptr (Basic String)) ''request_timeout'' (Some CopyValue),
     Field ''RateLimitSettings'' (Ptr (Struct RateLimitSettings)) ''rate_limit_settings'' (Some CopyInto),
     Field ''SetNodeOnFirstMessageOnly'' (Basic Bool) ''set_node_on_first_message_only'' None,
     Field ''ConfigValidators'' (Slice (Ptr (Struct TypedExtensionConfig))) ''config_validators'' (Some CopyElemsInto)]"

definition SelfConfigSource :: gostruct where [lds_defs]:
  "SelfConfigSource = GoStruct ''SelfConfigSource''
    [Field ''TransportApiVersion'' (Enum ApiVersion) ''transport_api_version'' None]"

definition ConfigSource :: gostruct where [lds_defs]:
  "ConfigSource = GoStruct ''ConfigSource''
    [Field ''Path'' (Basic String) ''path'' None,
     Field ''PathConfigSource'' (Ptr (Struct PathConfigSource)) ''path_config_source'' (Some CopyInto),
     Field ''ApiConfigSource'' (Ptr (Struct ApiConfigSource)) ''api_config_source'' (Some CopyInto),
     Field ''Ads'' (Ptr RawExtension) ''ads'' (Some CopyValue),
     Field ''Self'' (Ptr (Struct SelfConfigSource)) ''self'' (Some CopyInto),
     Field ''InitialFetchTimeout'' (Ptr (Basic String)) ''initial_fetch_timeout'' (Some CopyValue),
     Field ''ResourceApiVersion'' (Enum ApiVersion) ''resource_api_version'' None]"

definition ExtensionConfigSource :: gostruct where [lds_defs]:
  "ExtensionConfigSource = GoStruct ''ExtensionConfigSource''
    [Field ''ConfigSource'' (Ptr (Struct ConfigSource)) ''config_source'' (Some CopyInto),
     Field ''DefaultConfig'' (Ptr RawExtension) ''default_config'' (Some CopyValue),
     Field ''ApplyDefaultConfigWithoutWarming'' (Basic Bool) ''apply_default_config_without_warming'' None,
     Field ''TypeUrls'' (Slice (Basic String)) ''type_urls'' (Some CopySlice)]"

definition Filter :: gostruct where [lds_defs]:
  "Filter = GoStruct ''Filter''
    [Field ''TypedConfig'' (Ptr RawExtension) ''typed_config'' (Some CopyValue),
     Field ''Name'' (Basic String) ''name'' None,
     Field ''ConfigDiscovery'' (Ptr (Struct ExtensionConfigSource)) ''config_discovery'' (Some CopyInto)]"

definition Metadata :: gostruct where [lds_defs]:
  "Metadata = GoStruct ''Metadata''
    [Field ''FilterMetadata'' (Map (Ptr RawExtension)) ''filter_metadata'' (Some CopyMap),
     Field ''TypedFilterMetadata'' (Map (Ptr RawExtension)) ''typed_filter_metadata'' (Some CopyMap)]"

definition TransportSocket :: gostruct where [lds_defs]:
  "TransportSocket = GoStruct ''TransportSocket''
    [Field ''TypedConfig'' (Ptr RawExtension) ''typed_config'' (Some CopyValue),
     Field ''Name'' (Basic String) ''name'' None]"

definition FilterChain :: gostruct where [lds_defs]:
  "FilterChain = GoStruct ''FilterChain''
    [Field ''FilterChainMatch'' (Ptr (Struct FilterChainMatch)) ''filter_chain_match'' (Some CopyInto),
     Field ''Filters'' (Slice (Ptr (Struct Filter))) ''filters'' (Some CopyElemsInto),
     Field ''UseProxyProto'' (Ptr (Basic Bool)) ''use_proxy_proto'' (Some CopyValue),
     Field ''Metadata'' (Ptr (Struct Metadata)) ''metadata'' (Some CopyInto),
     Field ''TransportSocket'' (Ptr (Struct TransportSocket)) ''transport_socket'' (Some CopyInto),
     Field ''TransportSocketConnectTimeout'' (Ptr (Basic String)) ''transport_socket_connect_timeout'' (Some CopyValue),
     Field ''Name'' (Basic String) ''name'' None]"

definition Listener_FcdsConfig :: gostruct where [lds_defs]:
  "Listener_FcdsConfig = GoStruct ''Listener_FcdsConfig''
    [Field ''Name'' (Basic String) ''name'' None,
     Field ''ConfigSource'' (Ptr (Struct ConfigSource)) ''config_source'' (Some CopyInto)]"

definition Listener_DeprecatedV1 :: gostruct where [lds_defs]:
  "Listener_DeprecatedV1 = GoStruct ''Listener_DeprecatedV1''
    [Field ''BindToPort'' (Ptr (Basic Bool)) ''bind_to_port'' (Some CopyValue)]"

definition Int32Range :: gostruct where [lds_defs]:
  "Int32Range = GoStruct ''Int32Range''
    [Field ''Start'' (Basic Int32) ''start'' None, Field ''End'' (Basic Int32) ''end'' None]"

definition ListenerFilterChainMatchPredicate :: gostruct where [lds_defs]:
  "ListenerFilterChainMatchPredicate = GoStruct ''ListenerFilterChainMatchPredicate''
    [Field ''OrMatch'' (Ptr RawExtension) ''or_match'' (Some CopyValue),
     Field ''AndMatch'' (Ptr RawExtension) ''and_match'' (Some CopyValue),
     Field ''NotMatch'' (Ptr RawExtension) ''not_match'' (Some CopyValue),
     Field ''AnyMatch'' (Basic Bool) ''any_match'' None,
     Field ''DestinationPortRange'' (Ptr (Struct Int32Range)) ''destination_port_range'' (Some CopyInto)]"

definition ListenerFilter :: gostruct where [lds_defs]:
  "ListenerFilter = GoStruct ''ListenerFilter''
    [Field ''TypedConfig'' (Ptr RawExtension) ''typed_config'' (Some CopyValue),
     Field ''Name'' (Basic String) ''name'' None,
     Field ''ConfigDiscovery'' (Ptr (Struct ExtensionConfigSource)) ''config_discovery'' (Some CopyInto),
     Field ''FilterDisabled'' (Ptr (Struct ListenerFilterChainMatchPredicate)) ''filter_disabled'' (Some CopyInto)]"

definition UdpSocketConfig :: gostruct where [lds_defs]:
  "UdpSocketConfig = GoStruct ''UdpSocketConfig''
    [Field ''MaxRxDatagramSize'' (Ptr (Basic Uint64)) ''max_rx_datagram_size'' (Some CopyValue),
     Field ''PreferGro'' (Ptr (Basic Bool)) ''prefer_gro'' (Some CopyValue)]"

definition RuntimeFeatureFlag :: gostruct where [lds_defs]:
  "RuntimeFeatureFlag = GoStruct ''RuntimeFeatureFlag''
    [Field ''DefaultValue'' (Ptr (Basic Bool)) ''default_value'' (Some CopyValue),
     Field ''RuntimeKey'' (Basic String) ''runtime_key'' None]"

definition SocketCmsgHeaders :: gostruct where [lds_defs]:
  "SocketCmsgHeaders = GoStruct ''SocketCmsgHeaders''
    [Field ''Level'' (Ptr (Basic Uint32)) ''level'' (Some CopyValue),
     Field ''Type'' (Ptr (Basic Uint32)) ''type'' (Some CopyValue),
     Field ''ExpectedSize'' (Basic Uint32) ''expected_size'' None]"

definition QuicProtocolOptions :: gostruct where [lds_defs]:
  "QuicProtocolOptions = GoStruct ''QuicProtocolOptions''
    [Field ''IdleTimeout'' (Ptr (Basic String)) ''idle_timeout'' (Some CopyValue),
     Field ''CryptoHandshakeTimeout'' (Ptr (Basic String)) ''crypto_handshake_timeout'' (Some CopyValue),
     Field ''Enabled'' (Ptr (Struct RuntimeFeatureFlag)) ''enabled'' (Some CopyInto),
     Field ''PacketsToReadToConnectionCountRatio'' (Ptr (Basic Uint32)) ''packets_to_read_to_connection_count_ratio'' (Some CopyValue),
     Field ''CryptoStreamConfig'' (Ptr (Struct TypedExtensionConfig)) ''crypto_stream_config'' (Some CopyInto),
     Field ''ProofSourceConfig'' (Ptr (Struct TypedExtensionConfig)) ''proof_source_config'' (Some CopyInto),
     Field ''ConnectionIdGeneratorConfig'' (Ptr (Struct TypedExtensionConfig)) ''connection_id_generator_config'' (Some CopyInto),
     Field ''ServerPreferredAddressConfig'' (Ptr (Struct TypedExtensionConfig)) ''server_preferred_address_config'' (Some CopyInto),
     Field ''SendDisableActiveMigration'' (Ptr (Basic Bool)) ''send_disable_active_migration'' (Some CopyValue),
     Field ''ConnectionDebugVisitorConfig'' (Ptr (Struct TypedExtensionConfig)) ''connection_debug_visitor_config'' (Some CopyInto),
     Field ''SaveCmsgConfig'' (Slice (Ptr (Struct SocketCmsgHeaders))) ''save_cmsg_config'' (Some CopyElemsInto),
     Field ''RejectNewConnections'' (Basic Bool) ''reject_new_connections'' None]"

definition UdpListenerConfig :: gostruct where [lds_defs]:
  "UdpListenerConfig = GoStruct ''UdpListenerConfig''
    [Field ''DownstreamSocketConfig'' (Ptr (Struct UdpSocketConfig)) ''downstream_socket_config'' (Some CopyInto),
     Field ''QuicOptions'' (Ptr (Struct QuicProtocolOptions)) ''quic_options'' (Some CopyInto),
     Field ''UdpPacketPacketWriterConfig'' (Ptr (Struct TypedExtensionConfig)) ''udp_packet_packet_writer_config'' (Some CopyInto)]"

definition ApiListener :: gostruct where [lds_defs]:
  "ApiListener = GoStruct ''ApiListener''
    [Field ''ApiListener'' (Ptr RawExtension) ''api_listener'' (Some CopyValue)]"

definition RuntimeUInt32 :: gostruct where [lds_defs]:
  "RuntimeUInt32 = GoStruct ''RuntimeUInt32''
    [Field ''DefaultValue'' (Basic Uint32) ''default_value'' None,
     Field ''RuntimeKey'' (Basic String) ''runtime_key'' None]"

definition ComparisonFilter :: gostruct where [lds_defs]:
  "ComparisonFilter = GoStruct ''ComparisonFilter''
    [Field ''Op'' (Enum ComparisonFilter_Op) ''op'' None,
     Field ''Value'' (Ptr (Struct RuntimeUInt32)) ''value'' (Some CopyInto)]"

definition StatusCodeFilter :: gostruct where [lds_defs]:
  "StatusCodeFilter = GoStruct ''StatusCodeFilter''
    [Field ''Comparison'' (Ptr (Struct ComparisonFilter)) ''comparison'' (Some CopyInto)]"

definition DurationFilter :: gostruct where [lds_defs]:
  "DurationFilter = GoStruct ''DurationFilter''
    [Field ''Comparison'' (Ptr (Struct ComparisonFilter)) ''comparison'' (Some CopyInto)]"

definition FractionalPercent :: gostruct where [lds_defs]:
  "FractionalPercent = GoStruct ''FractionalPercent''
    [Field ''Numerator'' (Basic Uint32) ''numerator'' None,
     Field ''Denominator'' (Enum FractionalPercent_DenominatorType) ''denominator'' None]"

definition RuntimeFilter :: gostruct where [lds_defs]:
  "RuntimeFilter = GoStruct ''RuntimeFilter''
    [Field ''RuntimeKey'' (Basic String) ''runtime_key'' None,
     Field ''PercentSampled'' (Ptr (Struct FractionalPercent)) ''percent_sampled'' (Some CopyInto),
     Field ''UseIndependentRandomness'' (Basic Bool) ''use_independent_randomness'' None]"

definition HeaderMatcher :: gostruct where [lds_defs]:
  "HeaderMatcher = GoStruct ''HeaderMatcher''
    [Field ''Name'' (Basic String) ''name'' None, Field ''InvertMatch'' (Basic Bool) ''invert_match'' None,
     Field ''TreatMissingHeaderAsEmpty'' (Basic Bool) ''treat_missing_header_as_empty'' None]"

definition HeaderFilter :: gostruct where [lds_defs]:
  "HeaderFilter = GoStruct ''HeaderFilter''
    [Field ''Header'' (Ptr (Struct HeaderMatcher)) ''header'' (Some CopyInto)]"

definition ResponseFlagFilter :: gostruct where [lds_defs]:
  "ResponseFlagFilter = GoStruct ''ResponseFlagFilter''
    [Field ''Flags'' (Slice (Basic String)) ''flags'' (Some CopySlice)]"

definition GrpcStatusFilter :: gostruct where [lds_defs]:
  "GrpcStatusFilter = GoStruct ''GrpcStatusFilter''
    [Field ''Statuses'' (Slice (Enum GrpcStatusFilter_Status)) ''statuses'' (Some CopySlice),
     Field ''Exclude'' (Basic Bool) ''exclude'' None]"

definition ExtensionFilter :: gostruct where [lds_defs]:
  "ExtensionFilter = GoStruct ''ExtensionFilter''
    [Field ''TypedConfig'' (Ptr RawExtension) ''typed_config'' (Some CopyValue),
     Field ''Name'' (Basic String) ''name'' None]"

definition MetadataMatcher :: gostruct where [lds_defs]:
  "MetadataMatcher = GoStruct ''MetadataMatcher''
    [Field ''Filter'' (Basic String) ''filter'' None,
     Field ''Path'' (Slice (Ptr RawExtension)) ''path'' (Some CopyElems),
     Field ''Value'' (Ptr RawExtension) ''value'' (Some CopyValue), Field ''Invert'' (Basic Bool) ''invert'' None]"

definition MetadataFilter :: gostruct where [lds_defs]:
  "MetadataFilter = GoStruct ''MetadataFilter''
    [Field ''Matcher'' (Ptr (Struct MetadataMatcher)) ''matcher'' (Some CopyInto),
     Field ''MatchIfKeyNotFound'' (Ptr (Basic Bool)) ''match_if_key_not_found'' (Some CopyValue)]"

definition LogTypeFilter :: gostruct where [lds_defs]:
  "LogTypeFilter = GoStruct ''LogTypeFilter''
    [Field ''Types'' (Slice (Enum AccessLogType)) ''types'' (Some CopySlice),
     Field ''Exclude'' (Basic Bool) ''exclude'' None]"

definition AccessLogFilter :: gostruct where [lds_defs]:
  "AccessLogFilter = GoStruct ''AccessLogFilter''
    [Field ''StatusCodeFilter'' (Ptr (Struct StatusCodeFilter)) ''status_code_filter'' (Some CopyInto),
     Field ''DurationFilter'' (Ptr (Struct DurationFilter)) ''duration_filter'' (Some CopyInto),
     Field ''NotHealthCheckFilter'' (Ptr RawExtension) ''not_health_check_filter'' (Some CopyValue),
     Field ''TraceableFilter'' (Ptr RawExtension) ''traceable_filter'' (Some CopyValue),
     Field ''RuntimeFilter'' (Ptr (Struct RuntimeFilter)) ''runtime_filter'' (Some CopyInto),
     Field ''AndFilter'' (Ptr RawExtension) ''and_filter'' (Some CopyValue),
     Field ''OrFilter'' (Ptr RawExtension) ''or_filter'' (Some CopyValue),
     Field ''HeaderFilter'' (Ptr (Struct HeaderFilter)) ''header_filter'' (Some CopyInto),
     Field ''ResponseFlagFilter'' (Ptr (Struct ResponseFlagFilter)) ''response_flag_filter'' (Some CopyInto),
     Field ''GrpcStatusFilter'' (Ptr (Struct GrpcStatusFilter)) ''grpc_status_filter'' (Some CopyInto),
     Field ''ExtensionFilter'' (Ptr (Struct ExtensionFilter)) ''extension_filter'' (Some CopyInto),
     Field ''MetadataFilter'' (Ptr (Struct MetadataFilter)) ''metadata_filter'' (Some CopyInto),
     Field ''LogTypeFilter'' (Ptr (Struct LogTypeFilter)) ''log_type_filter'' (Some CopyInto)]"

definition AccessLog :: gostruct where [lds_defs]:
  "AccessLog = GoStruct ''AccessLog''
    [Field ''TypedConfig'' (Ptr RawExtension) ''typed_config'' (Some CopyValue),
     Field ''Name'' (Basic String) ''name'' None,
     Field ''Filter'' (Ptr (Struct AccessLogFilter)) ''filter'' (Some CopyInto)]"

definition LDS :: gostruct where [lds_defs]:
  "LDS = GoStruct ''LDS''
    [Field ''Name'' (Basic String) ''name'' None,
     Field ''Address'' (Ptr (Struct Address)) ''address'' (Some CopyInto),
     Field ''AdditionalAddresses'' (Slice (Ptr (Struct AdditionalAddress))) ''additional_addresses'' (Some CopyElemsInto),
     Field ''StatPrefix'' (Basic String) ''stat_prefix'' None,
     Field ''FilterChains'' (Slice (Ptr (Struct FilterChain))) ''filter_chains'' (Some CopyElemsInto),
     Field ''FcdsConfig'' (Ptr (Struct Listener_FcdsConfig)) ''fcds_config'' (Some CopyInto),
     Field ''UseOriginalDst'' (Ptr (Basic Bool)) ''use_original_dst'' (Some CopyValue),
     Field ''DefaultFilterChain'' (Ptr (Struct FilterChain)) ''default_filter_chain'' (Some CopyInto),
     Field ''PerConnectionBufferLimitBytes'' (Ptr (Basic Uint32)) ''per_connection_buffer_limit_bytes'' (Some CopyValue),
     Field ''Metadata'' (Ptr (Struct Metadata)) ''metadata'' (Some CopyInto),
     Field ''DeprecatedV1'' (Ptr (Struct Listener_DeprecatedV1)) ''deprecated_v1'' (Some CopyInto),
     Field ''DrainType'' (Enum Listener_DrainType) ''drain_type'' None,
     Field ''ListenerFilters'' (Slice (Ptr (Struct ListenerFilter))) ''listener_filters'' (Some CopyElemsInto),
     Field ''ListenerFiltersTimeout'' (Ptr (Basic String)) ''listener_filters_timeout'' (Some CopyValue),
     Field ''ContinueOnListenerFiltersTimeout'' (Basic Bool) ''continue_on_listener_filters_timeout'' None,
     Field ''Transparent'' (Ptr (Basic Bool)) ''transparent'' (Some CopyValue),
     Field ''Freebind'' (Ptr (Basic Bool)) ''freebind'' (Some CopyValue),
     Field ''SocketOptions'' (Slice (Ptr (Struct SocketOption))) ''socket_options'' (Some CopyElemsInto),
     Field ''TcpFastOpenQueueLength'' (Ptr (Basic Uint32)) ''tcp_fast_open_queue_length'' (Some CopyValue),
     Field ''TrafficDirection'' (Enum TrafficDirection) ''traffic_direction'' None,
     Field ''UdpListenerConfig'' (Ptr (Struct UdpListenerConfig)) ''udp_listener_config'' (Some CopyInto),
     Field ''ApiListener'' (Ptr (Struct ApiListener)) ''api_listener'' (Some CopyInto),
     Field ''ConnectionBalanceConfig'' (Ptr RawExtension) ''connection_balance_config'' (Some CopyValue),
     Field ''ReusePort'' (Basic Bool) ''reuse_port'' None,
     Field ''EnableReusePort'' (Ptr (Basic Bool)) ''enable_reuse_port'' (Some CopyValue),
     Field ''AccessLog'' (Slice (Ptr (Struct AccessLog))) ''access_log'' (Some CopyElemsInto),
     Field ''TcpBacklogSize'' (Ptr (Basic Uint32)) ''tcp_backlog_size'' (Some CopyValue),
     Field ''MaxConnectionsToAcceptPerSocketEvent'' (Ptr (Basic Uint32)) ''max_connections_to_accept_per_socket_event'' (Some CopyValue),
     Field ''BindToPort'' (Ptr (Basic Bool)) ''bind_to_port'' (Some CopyValue),
     Field ''InternalListener'' (Ptr RawExtension) ''internal_listener'' (Some CopyValue),
     Field ''ExactBalance'' (Ptr RawExtension) ''exact_balance'' (Some CopyValue),
     Field ''ExtendBalance'' (Ptr (Struct TypedExtensionConfig)) ''extend_balance'' (Some CopyInto),
     Field ''EnableMptcp'' (Basic Bool) ''enable_mptcp'' None,
     Field ''IgnoreGlobalConnLimit'' (Basic Bool) ''ignore_global_conn_limit'' None,
     Field ''BypassOverloadManager'' (Basic Bool) ''bypass_overload_manager'' None]"

definition AndFilter :: gostruct where [lds_defs]:
  "AndFilter = GoStruct ''AndFilter''
    [Field ''Filters'' (Slice (Ptr (Struct AccessLogFilter))) ''filters'' (Some CopyElemsInto)]"

definition DataSource :: gostruct where [lds_defs]:
  "DataSource = GoStruct ''DataSource''
    [Field ''Filename'' (Basic String) ''filename'' None,
     Field ''InlineBytes'' Bytes ''inline_bytes'' (Some CopySlice),
     Field ''InlineString'' (Basic String) ''inline_string'' None,
     Field ''EnvironmentVariable'' (Basic String) ''environment_variable'' None,
     Field ''WatchedDirectory'' (Ptr (Struct WatchedDirectory)) ''watched_directory'' (Some CopyInto)]"

definition ListenerFilterChainMatchPredicate_MatchSet :: gostruct where [lds_defs]:
  "ListenerFilterChainMatchPredicate_MatchSet = GoStruct ''ListenerFilterChainMatchPredicate_MatchSet''
    [Field ''Rules'' (Slice (Ptr (Struct ListenerFilterChainMatchPredicate))) ''rules'' (Some CopyElemsInto)]"

definition OrFilter :: gostruct where [lds_defs]:
  "OrFilter = GoStruct ''OrFilter''
    [Field ''Filters'' (Slice (Ptr (Struct AccessLogFilter))) ''filters'' (Some CopyElemsInto)]"

section \<open>All of them\<close>

definition lds_enums :: "goenum list" where
  "lds_enums =
     [AccessLogType, ApiConfigSource_ApiType, ApiVersion, ComparisonFilter_Op, FilterChainMatch_ConnectionSourceType,
      FractionalPercent_DenominatorType, GrpcStatusFilter_Status, HeaderValueOption_HeaderAppendAction,
      KeyValueAppend_KeyValueAppendAction, Listener_DrainType, RequestMethod, RoutingPriority,
      SocketAddress_Protocol, SocketOption_SocketState, TrafficDirection]"

definition lds_structs :: "gostruct list" where
  "lds_structs =
     [SocketAddress, Pipe, EnvoyInternalAddress, Address, SocketOption_SocketType, SocketOption,
      SocketOptionsOverride, AdditionalAddress, CidrRange, FilterChainMatch, WatchedDirectory, PathConfigSource,
      HeaderValue, BackoffStrategy, RetryPolicy_RetryPriority, RetryPolicy_RetryHostPredicate, RetryPolicy,
      GrpcService, RateLimitSettings, TypedExtensionConfig, ApiConfigSource, SelfConfigSource, ConfigSource,
      ExtensionConfigSource, Filter, Metadata, TransportSocket, FilterChain, Listener_FcdsConfig,
      Listener_DeprecatedV1, Int32Range, ListenerFilterChainMatchPredicate, ListenerFilter, UdpSocketConfig,
      RuntimeFeatureFlag, SocketCmsgHeaders, QuicProtocolOptions, UdpListenerConfig, ApiListener, RuntimeUInt32,
      ComparisonFilter, StatusCodeFilter, DurationFilter, FractionalPercent, RuntimeFilter, HeaderMatcher,
      HeaderFilter, ResponseFlagFilter, GrpcStatusFilter, ExtensionFilter, MetadataMatcher, MetadataFilter,
      LogTypeFilter, AccessLogFilter, AccessLog, LDS, AndFilter, DataSource,
      ListenerFilterChainMatchPredicate_MatchSet, OrFilter]"

end
