(* ===== verification/GenRds.thy ===== *)
theory GenRds
  imports GoTypes
begin

text \<open>
  The types of \<open>src/pkg/xds/types/rds/rds_generated.go\<close> in the order in which they refer to each other: the enums with
  their tables, then every struct with its fields and the statements of its \<open>DeepCopyInto\<close>.
\<close>

named_theorems rds_defs "the structs of the file"

section \<open>Enums\<close>

definition ApiVersion :: goenum where
  "ApiVersion = GoEnum ''ApiVersion''
    []
    []
    []"

definition FractionalPercent_DenominatorType :: goenum where
  "FractionalPercent_DenominatorType = GoEnum ''FractionalPercent_DenominatorType''
    [(''FractionalPercent_DenominatorType_HUNDRED'', ''HUNDRED''),
     (''FractionalPercent_DenominatorType_TEN_THOUSAND'', ''TEN_THOUSAND''),
     (''FractionalPercent_DenominatorType_MILLION'', ''MILLION'')]
    [(0, ''HUNDRED''), (1, ''TEN_THOUSAND''), (2, ''MILLION'')]
    [(''HUNDRED'', 0), (''TEN_THOUSAND'', 1), (''MILLION'', 2)]"

definition HeaderValueOption_HeaderAppendAction :: goenum where
  "HeaderValueOption_HeaderAppendAction = GoEnum ''HeaderValueOption_HeaderAppendAction''
    [(''HeaderValueOption_HeaderAppendAction_APPEND_IF_EXISTS_OR_ADD'', ''APPEND_IF_EXISTS_OR_ADD''),
     (''HeaderValueOption_HeaderAppendAction_ADD_IF_ABSENT'', ''ADD_IF_ABSENT''),
     (''HeaderValueOption_HeaderAppendAction_OVERWRITE_IF_EXISTS_OR_ADD'', ''OVERWRITE_IF_EXISTS_OR_ADD''),
     (''HeaderValueOption_HeaderAppendAction_OVERWRITE_IF_EXISTS'', ''OVERWRITE_IF_EXISTS'')]
    [(0, ''APPEND_IF_EXISTS_OR_ADD''), (1, ''ADD_IF_ABSENT''), (2, ''OVERWRITE_IF_EXISTS_OR_ADD''),
     (3, ''OVERWRITE_IF_EXISTS'')]
    [(''APPEND_IF_EXISTS_OR_ADD'', 0), (''ADD_IF_ABSENT'', 1), (''OVERWRITE_IF_EXISTS_OR_ADD'', 2),
     (''OVERWRITE_IF_EXISTS'', 3)]"

definition KeyValueAppend_KeyValueAppendAction :: goenum where
  "KeyValueAppend_KeyValueAppendAction = GoEnum ''KeyValueAppend_KeyValueAppendAction''
    [(''KeyValueAppend_KeyValueAppendAction_APPEND_IF_EXISTS_OR_ADD'', ''APPEND_IF_EXISTS_OR_ADD''),
     (''KeyValueAppend_KeyValueAppendAction_ADD_IF_ABSENT'', ''ADD_IF_ABSENT''),
     (''KeyValueAppend_KeyValueAppendAction_OVERWRITE_IF_EXISTS_OR_ADD'', ''OVERWRITE_IF_EXISTS_OR_ADD''),
     (''KeyValueAppend_KeyValueAppendAction_OVERWRITE_IF_EXISTS'', ''OVERWRITE_IF_EXISTS'')]
    [(0, ''APPEND_IF_EXISTS_OR_ADD''), (1, ''ADD_IF_ABSENT''), (2, ''OVERWRITE_IF_EXISTS_OR_ADD''),
     (3, ''OVERWRITE_IF_EXISTS'')]
    [(''APPEND_IF_EXISTS_OR_ADD'', 0), (''ADD_IF_ABSENT'', 1), (''OVERWRITE_IF_EXISTS_OR_ADD'', 2),
     (''OVERWRITE_IF_EXISTS'', 3)]"

definition ProxyProtocolConfig_Version :: goenum where
  "ProxyProtocolConfig_Version = GoEnum ''ProxyProtocolConfig_Version''
    []
    []
    []"

definition ProxyProtocolPassThroughTLVs_PassTLVsMatchType :: goenum where
  "ProxyProtocolPassThroughTLVs_PassTLVsMatchType = GoEnum ''ProxyProtocolPassThroughTLVs_PassTLVsMatchType''
    []
    []
    []"

definition RateLimit_Action_MetaData_Source :: goenum where
  "RateLimit_Action_MetaData_Source = GoEnum ''RateLimit_Action_MetaData_Source''
    [(''RateLimit_Action_MetaData_Source_DYNAMIC'', ''DYNAMIC''),
     (''RateLimit_Action_MetaData_Source_ROUTE_ENTRY'', ''ROUTE_ENTRY'')]
    [(0, ''DYNAMIC''), (1, ''ROUTE_ENTRY'')]
    [(''DYNAMIC'', 0), (''ROUTE_ENTRY'', 1)]"

definition RedirectAction_RedirectResponseCode :: goenum where
  "RedirectAction_RedirectResponseCode = GoEnum ''RedirectAction_RedirectResponseCode''
    [(''RedirectAction_RedirectResponseCode_MOVED_PERMANENTLY'', ''MOVED_PERMANENTLY''),
     (''RedirectAction_RedirectResponseCode_FOUND'', ''FOUND''),
     (''RedirectAction_RedirectResponseCode_SEE_OTHER'', ''SEE_OTHER''),
     (''RedirectAction_RedirectResponseCode_TEMPORARY_REDIRECT'', ''TEMPORARY_REDIRECT''),
     (''RedirectAction_RedirectResponseCode_PERMANENT_REDIRECT'', ''PERMANENT_REDIRECT'')]
    [(0, ''MOVED_PERMANENTLY''), (1, ''FOUND''), (2, ''SEE_OTHER''), (3, ''TEMPORARY_REDIRECT''),
     (4, ''PERMANENT_REDIRECT'')]
    [(''MOVED_PERMANENTLY'', 0), (''FOUND'', 1), (''SEE_OTHER'', 2), (''TEMPORARY_REDIRECT'', 3),
     (''PERMANENT_REDIRECT'', 4)]"

definition RequestMethod :: goenum where
  "RequestMethod = GoEnum ''RequestMethod''
    [(''RequestMethod_METHOD_UNSPECIFIED'', ''METHOD_UNSPECIFIED''), (''RequestMethod_GET'', ''GET''),
     (''RequestMethod_HEAD'', ''HEAD''), (''RequestMethod_POST'', ''POST''), (''RequestMethod_PUT'', ''PUT''),
     (''RequestMethod_DELETE'', ''DELETE''), (''RequestMethod_CONNECT'', ''CONNECT''),
     (''RequestMethod_OPTIONS'', ''OPTIONS''), (''RequestMethod_TRACE'', ''TRACE''),
     (''RequestMethod_PATCH'', ''PATCH'')]
    [(0, ''METHOD_UNSPECIFIED''), (1, ''GET''), (2, ''HEAD''), (3, ''POST''), (4, ''PUT''), (5, ''DELETE''),
     (6, ''CONNECT''), (7, ''OPTIONS''), (8, ''TRACE''), (9, ''PATCH'')]
    [(''METHOD_UNSPECIFIED'', 0), (''GET'', 1), (''HEAD'', 2), (''POST'', 3), (''PUT'', 4), (''DELETE'', 5),
     (''CONNECT'', 6), (''OPTIONS'', 7), (''TRACE'', 8), (''PATCH'', 9)]"

definition RetryPolicy_ResetHeaderFormat :: goenum where
  "RetryPolicy_ResetHeaderFormat = GoEnum ''RetryPolicy_ResetHeaderFormat''
    [(''RetryPolicy_ResetHeaderFormat_SECONDS'', ''SECONDS''),
     (''RetryPolicy_ResetHeaderFormat_UNIX_TIMESTAMP'', ''UNIX_TIMESTAMP'')]
    [(0, ''SECONDS''), (1, ''UNIX_TIMESTAMP'')]
    [(''SECONDS'', 0), (''UNIX_TIMESTAMP'', 1)]"

definition RouteAction_ClusterNotFoundResponseCode :: goenum where
  "RouteAction_ClusterNotFoundResponseCode = GoEnum ''RouteAction_ClusterNotFoundResponseCode''
    [(''RouteAction_ClusterNotFoundResponseCode_SERVICE_UNAVAILABLE'', ''SERVICE_UNAVAILABLE''),
     (''RouteAction_ClusterNotFoundResponseCode_NOT_FOUND'', ''NOT_FOUND''),
     (''RouteAction_ClusterNotFoundResponseCode_INTERNAL_SERVER_ERROR'', ''INTERNAL_SERVER_ERROR'')]
    [(0, ''SERVICE_UNAVAILABLE''), (1, ''NOT_FOUND''), (2, ''INTERNAL_SERVER_ERROR'')]
    [(''SERVICE_UNAVAILABLE'', 0), (''NOT_FOUND'', 1), (''INTERNAL_SERVER_ERROR'', 2)]"

definition RouteAction_InternalRedirectAction :: goenum where
  "RouteAction_InternalRedirectAction = GoEnum ''RouteAction_InternalRedirectAction''
    [(''RouteAction_InternalRedirectAction_PASS_THROUGH_INTERNAL_REDIRECT'', ''PASS_THROUGH_INTERNAL_REDIRECT''),
     (''RouteAction_InternalRedirectAction_HANDLE_INTERNAL_REDIRECT'', ''HANDLE_INTERNAL_REDIRECT'')]
    [(0, ''PASS_THROUGH_INTERNAL_REDIRECT''), (1, ''HANDLE_INTERNAL_REDIRECT'')]
    [(''PASS_THROUGH_INTERNAL_REDIRECT'', 0), (''HANDLE_INTERNAL_REDIRECT'', 1)]"

definition RoutingPriority :: goenum where
  "RoutingPriority = GoEnum ''RoutingPriority''
    [(''RoutingPriority_DEFAULT'', ''DEFAULT''), (''RoutingPriority_HIGH'', ''HIGH'')]
    [(0, ''DEFAULT''), (1, ''HIGH'')]
    [(''DEFAULT'', 0), (''HIGH'', 1)]"

definition TrafficDirection :: goenum where
  "TrafficDirection = GoEnum ''TrafficDirection''
    [(''TrafficDirection_UNSPECIFIED'', ''UNSPECIFIED''), (''TrafficDirection_INBOUND'', ''INBOUND''),
     (''TrafficDirection_OUTBOUND'', ''OUTBOUND'')]
    [(0, ''UNSPECIFIED''), (1, ''INBOUND''), (2, ''OUTBOUND'')]
    [(''UNSPECIFIED'', 0), (''INBOUND'', 1), (''OUTBOUND'', 2)]"

definition VirtualHost_TlsRequirementType :: goenum where
  "VirtualHost_TlsRequirementType = GoEnum ''VirtualHost_TlsRequirementType''
    [(''VirtualHost_TlsRequirementType_NONE'', ''NONE''),
     (''VirtualHost_TlsRequirementType_EXTERNAL_ONLY'', ''EXTERNAL_ONLY''),
     (''VirtualHost_TlsRequirementType_ALL'', ''ALL'')]
    [(0, ''NONE''), (1, ''EXTERNAL_ONLY''), (2, ''ALL'')]
    [(''NONE'', 0), (''EXTERNAL_ONLY'', 1), (''ALL'', 2)]"

section \<open>Structs\<close>

definition RegexMatcher :: gostruct where [rds_defs]:
  "RegexMatcher = GoStruct ''RegexMatcher''
    [Field ''GoogleRe2'' (Ptr RawExtension) ''google_re2'' (Some CopyValue),
     Field ''Regex'' (Basic String) ''regex'' None]"

definition RegexMatchAndSubstitute :: gostruct where [rds_defs]:
  "RegexMatchAndSubstitute = GoStruct ''RegexMatchAndSubstitute''
    [Field ''Pattern'' (Ptr (Struct RegexMatcher)) ''pattern'' (Some CopyInto),
     Field ''Substitution'' (Basic String) ''substitution'' None]"

definition RedirectAction :: gostruct where [rds_defs]:
  "RedirectAction = GoStruct ''RedirectAction''
    [Field ''HttpsRedirect'' (Basic Bool) ''https_redirect'' None,
     Field ''SchemeRedirect'' (Basic String) ''scheme_redirect'' None,
     Field ''HostRedirect'' (Basic String) ''host_redirect'' None,
     Field ''PortRedirect'' (Basic Uint32) ''port_redirect'' None,
     Field ''PathRedirect'' (Basic String) ''path_redirect'' None,
     Field ''PrefixRewrite'' (Basic String) ''prefix_rewrite'' None,
     Field ''RegexRewrite'' (Ptr (Struct RegexMatchAndSubstitute)) ''regex_rewrite'' (Some CopyInto),
     Field ''ResponseCode'' (Enum RedirectAction_RedirectResponseCode) ''response_code'' None,
     Field ''StripQuery'' (Basic Bool) ''strip_query'' None]"

definition WatchedDirectory :: gostruct where [rds_defs]:
  "WatchedDirectory = GoStruct ''WatchedDirectory''
    [Field ''Path'' (Basic String) ''path'' None]"

definition DataSource :: gostruct where [rds_defs]:
  "DataSource = GoStruct ''DataSource''
    [Field ''Filename'' (Basic String) ''filename'' None,
     Field ''InlineBytes'' Bytes ''inline_bytes'' (Some CopySlice),
     Field ''InlineString'' (Basic String) ''inline_string'' None,
     Field ''EnvironmentVariable'' (Basic String) ''environment_variable'' None,
     Field ''WatchedDirectory'' (Ptr (Struct WatchedDirectory)) ''watched_directory'' (Some CopyInto)]"

definition DirectResponseAction :: gostruct where [rds_defs]:
  "DirectResponseAction = GoStruct ''DirectResponseAction''
    [Field ''Status'' (Basic Uint32) ''status'' None,
     Field ''Body'' (Ptr (Struct DataSource)) ''body'' (Some CopyInto)]"

definition FilterAction :: gostruct where [rds_defs]:
  "FilterAction = GoStruct ''FilterAction''
    [Field ''TypedConfig'' (Ptr RawExtension) ''typed_config'' (Some CopyValue),
     Field ''Action'' (Ptr RawExtension) ''action'' (Some CopyValue)]"

definition Metadata :: gostruct where [rds_defs]:
  "Metadata = GoStruct ''Metadata''
    [Field ''FilterMetadata'' (Map (Ptr RawExtension)) ''filter_metadata'' (Some CopyMap),
     Field ''TypedFilterMetadata'' (Map (Ptr RawExtension)) ''typed_filter_metadata'' (Some CopyMap)]"

definition Decorator :: gostruct where [rds_defs]:
  "Decorator = GoStruct ''Decorator''
    [Field ''Operation'' (Basic String) ''operation'' None,
     Field ''Propagate'' (Ptr (Basic Bool)) ''propagate'' (Some CopyValue)]"

definition HeaderValue :: gostruct where [rds_defs]:
  "HeaderValue = GoStruct ''HeaderValue''
    [Field ''Key'' (Basic String) ''key'' None, Field ''Value'' (Basic String) ''value'' None,
     Field ''RawValue'' Bytes ''raw_value'' (Some CopySlice)]"

definition HeaderValueOption :: gostruct where [rds_defs]:
  "HeaderValueOption = GoStruct ''HeaderValueOption''
    [Field ''Header'' (Ptr (Struct HeaderValue)) ''header'' (Some CopyInto),
     Field ''Append'' (Ptr (Basic Bool)) ''append'' (Some CopyValue),
     Field ''AppendAction'' (Enum HeaderValueOption_HeaderAppendAction) ''append_action'' None,
     Field ''KeepEmptyValue'' (Basic Bool) ''keep_empty_value'' None]"

definition FractionalPercent :: gostruct where [rds_defs]:
  "FractionalPercent = GoStruct ''FractionalPercent''
    [Field ''Numerator'' (Basic Uint32) ''numerator'' None,
     Field ''Denominator'' (Enum FractionalPercent_DenominatorType) ''denominator'' None]"

definition CustomTag :: gostruct where [rds_defs]:
  "CustomTag = GoStruct ''CustomTag''
    [Field ''Tag'' (Basic String) ''tag'' None]"

definition Tracing :: gostruct where [rds_defs]:
  "Tracing = GoStruct ''Tracing''
    [Field ''ClientSampling'' (Ptr (Struct FractionalPercent)) ''client_sampling'' (Some CopyInto),
     Field ''RandomSampling'' (Ptr (Struct FractionalPercent)) ''random_sampling'' (Some CopyInto),
     Field ''OverallSampling'' (Ptr (Struct FractionalPercent)) ''overall_sampling'' (Some CopyInto),
     Field ''CustomTags'' (Slice (Ptr (Struct CustomTag))) ''custom_tags'' (Some CopyElemsInto)]"

definition Route :: gostruct where [rds_defs]:
  "Route = GoStruct ''Route''
    [Field ''Name'' (Basic String) ''name'' None, Field ''Match'' (Ptr RawExtension) ''match'' (Some CopyValue),
     Field ''Route'' (Ptr RawExtension) ''route'' (Some CopyValue),
     Field ''Redirect'' (Ptr (Struct RedirectAction)) ''redirect'' (Some CopyInto),
     Field ''DirectResponse'' (Ptr (Struct DirectResponseAction)) ''direct_response'' (Some CopyInto),
     Field ''FilterAction'' (Ptr (Struct FilterAction)) ''filter_action'' (Some CopyInto),
     Field ''NonForwardingAction'' (Ptr RawExtension) ''non_forwarding_action'' (Some CopyValue),
     Field ''Metadata'' (Ptr (Struct Metadata)) ''metadata'' (Some CopyInto),
     Field ''Decorator'' (Ptr (Struct Decorator)) ''decorator'' (Some CopyInto),
     Field ''TypedPerFilterConfig'' (Map (Ptr RawExtension)) ''typed_per_filter_config'' (Some CopyMap),
     Field ''RequestHeadersToAdd'' (Slice (Ptr (Struct HeaderValueOption))) ''request_headers_to_add'' (Some CopyElemsInto),
     Field ''RequestHeadersToRemove'' (Slice (Basic String)) ''request_headers_to_remove'' (Some CopySlice),
     Field ''ResponseHeadersToAdd'' (Slice (Ptr (Struct HeaderValueOption))) ''response_headers_to_add'' (Some CopyElemsInto),
     Field ''ResponseHeadersToRemove'' (Slice (Basic String)) ''response_headers_to_remove'' (Some CopySlice),
     Field ''Tracing'' (Ptr (Struct Tracing)) ''tracing'' (Some CopyInto),
     Field ''PerRequestBufferLimitBytes'' (Ptr (Basic Uint32)) ''per_request_buffer_limit_bytes'' (Some CopyValue),
     Field ''StatPrefix'' (Basic String) ''stat_prefix'' None,
     Field ''RequestBodyBufferLimit'' (Ptr (Basic Uint64)) ''request_body_buffer_limit'' (Some CopyValue)]"

definition Int64Range :: gostruct where [rds_defs]:
  "Int64Range = GoStruct ''Int64Range''
    [Field ''Start'' (Basic Int64) ''start'' None, Field ''End'' (Basic Int64) ''end'' None]"

definition TypedExtensionConfig :: gostruct where [rds_defs]:
  "TypedExtensionConfig = GoStruct ''TypedExtensionConfig''
    [Field ''Name'' (Basic String) ''name'' None,
     Field ''TypedConfig'' (Ptr RawExtension) ''typed_config'' (Some CopyValue)]"

definition StringMatcher :: gostruct where [rds_defs]:
  "StringMatcher = GoStruct ''StringMatcher''
    [Field ''Exact'' (Basic String) ''exact'' None, Field ''Prefix'' (Basic String) ''prefix'' None,
     Field ''Suffix'' (Basic String) ''suffix'' None,
     Field ''SafeRegex'' (Ptr (Struct RegexMatcher)) ''safe_regex'' (Some CopyInto),
     Field ''Contains'' (Basic String) ''contains'' None,
     Field ''Custom'' (Ptr (Struct TypedExtensionConfig)) ''custom'' (Some CopyInto),
     Field ''IgnoreCase'' (Basic Bool) ''ignore_case'' None]"

definition HeaderMatcher :: gostruct where [rds_defs]:
  "HeaderMatcher = GoStruct ''HeaderMatcher''
    [Field ''Name'' (Basic String) ''name'' None, Field ''ExactMatch'' (Basic String) ''exact_match'' None,
     Field ''SafeRegexMatch'' (Ptr (Struct RegexMatcher)) ''safe_regex_match'' (Some CopyInto),
     Field ''RangeMatch'' (Ptr (Struct Int64Range)) ''range_match'' (Some CopyInto),
     Field ''PresentMatch'' (Basic Bool) ''present_match'' None,
     Field ''PrefixMatch'' (Basic String) ''prefix_match'' None,
     Field ''SuffixMatch'' (Basic String) ''suffix_match'' None,
     Field ''ContainsMatch'' (Basic String) ''contains_match'' None,
     Field ''StringMatch'' (Ptr (Struct StringMatcher)) ''string_match'' (Some CopyInto),
     Field ''InvertMatch'' (Basic Bool) ''invert_match'' None,
     Field ''TreatMissingHeaderAsEmpty'' (Basic Bool) ''treat_missing_header_as_empty'' None]"

definition VirtualCluster :: gostruct where [rds_defs]:
  "VirtualCluster = GoStruct ''VirtualCluster''
    [Field ''Headers'' (Slice (Ptr (Struct HeaderMatcher))) ''headers'' (Some CopyElemsInto),
     Field ''Name'' (Basic String) ''name'' None]"

definition RateLimit_Action :: gostruct where [rds_defs]:
  "RateLimit_Action = GoStruct ''RateLimit_Action''
    [Field ''SourceCluster'' (Ptr RawExtension) ''source_cluster'' (Some CopyValue),
     Field ''DestinationCluster'' (Ptr RawExtension) ''destination_cluster'' (Some CopyValue),
     Field ''RequestHeaders'' (Ptr RawExtension) ''request_headers'' (Some CopyValue),
     Field ''QueryParameters'' (Ptr RawExtension) ''query_parameters'' (Some CopyValue),
     Field ''RemoteAddress'' (Ptr RawExtension) ''remote_address'' (Some CopyValue),
     Field ''GenericKey'' (Ptr RawExtension) ''generic_key'' (Some CopyValue),
     Field ''HeaderValueMatch'' (Ptr RawExtension) ''header_value_match'' (Some CopyValue),
     Field ''DynamicMetadata'' (Ptr RawExtension) ''dynamic_metadata'' (Some CopyValue),
     Field ''Metadata'' (Ptr RawExtension) ''metadata'' (Some CopyValue),
     Field ''Extension'' (Ptr (Struct TypedExtensionConfig)) ''extension'' (Some CopyInto),
     Field ''MaskedRemoteAddress'' (Ptr RawExtension) ''masked_remote_address'' (Some CopyValue),
     Field ''QueryParameterValueMatch'' (Ptr RawExtension) ''query_parameter_value_match'' (Some CopyValue)]"

definition RateLimit_Override :: gostruct where [rds_defs]:
  "RateLimit_Override = GoStruct ''RateLimit_Override''
    [Field ''DynamicMetadata'' (Ptr RawExtension) ''dynamic_metadata'' (Some CopyValue)]"

definition RateLimit_HitsAddend :: gostruct where [rds_defs]:
  "RateLimit_HitsAddend = GoStruct ''RateLimit_HitsAddend''
    [Field ''Number'' (Ptr (Basic Uint64)) ''number'' (Some CopyValue),
     Field ''Format'' (Basic String) ''format'' None]"

definition RateLimit :: gostruct where [rds_defs]:
  "RateLimit = GoStruct ''RateLimit''
    [Field ''Stage'' (Ptr (Basic Uint32)) ''stage'' (Some CopyValue),
     Field ''DisableKey'' (Basic String) ''disable_key'' None,
     Field ''Actions'' (Slice (Ptr (Struct RateLimit_Action))) ''actions'' (Some CopyElemsInto),
     Field ''Limit'' (Ptr (Struct RateLimit_Override)) ''limit'' (Some CopyInto),
     Field ''HitsAddend'' (Ptr (Struct RateLimit_HitsAddend)) ''hits_addend'' (Some CopyInto),
     Field ''ApplyOnStreamDone'' (Basic Bool) ''apply_on_stream_done'' None]"

definition RuntimeFractionalPercent :: gostruct where [rds_defs]:
  "RuntimeFractionalPercent = GoStruct ''RuntimeFractionalPercent''
    [Field ''DefaultValue'' (Ptr (Struct FractionalPercent)) ''default_value'' (Some CopyInto),
     Field ''RuntimeKey'' (Basic String) ''runtime_key'' None]"

definition CorsPolicy :: gostruct where [rds_defs]:
  "CorsPolicy = GoStruct ''CorsPolicy''
    [Field ''AllowOriginStringMatch'' (Slice (Ptr (Struct StringMatcher))) ''allow_origin_string_match'' (Some CopyElemsInto),
     Field ''AllowMethods'' (Basic String) ''allow_methods'' None,
     Field ''AllowHeaders'' (Basic String) ''allow_headers'' None,
     Field ''ExposeHeaders'' (Basic String) ''expose_headers'' None,
     Field ''MaxAge'' (Basic String) ''max_age'' None,
     Field ''AllowCredentials'' (Ptr (Basic Bool)) ''allow_credentials'' (Some CopyValue),
     Field ''FilterEnabled'' (Ptr (Struct RuntimeFractionalPercent)) ''filter_enabled'' (Some CopyInto),
     Field ''ShadowEnabled'' (Ptr (Struct RuntimeFractionalPercent)) ''shadow_enabled'' (Some CopyInto),
     Field ''AllowPrivateNetworkAccess'' (Ptr (Basic Bool)) ''allow_private_network_access'' (Some CopyValue),
     Field ''ForwardNotMatchingPreflights'' (Ptr (Basic Bool)) ''forward_not_matching_preflights'' (Some CopyValue)]"

definition RetryPolicy_RetryPriority :: gostruct where [rds_defs]:
  "RetryPolicy_RetryPriority = GoStruct ''RetryPolicy_RetryPriority''
    [Field ''Name'' (Basic String) ''name'' None,
     Field ''TypedConfig'' (Ptr RawExtension) ''typed_config'' (Some CopyValue)]"

definition RetryPolicy_RetryHostPredicate :: gostruct where [rds_defs]:
  "RetryPolicy_RetryHostPredicate = GoStruct ''RetryPolicy_RetryHostPredicate''
    [Field ''Name'' (Basic String) ''name'' None,
     Field ''TypedConfig'' (Ptr RawExtension) ''typed_config'' (Some CopyValue)]"

definition RetryPolicy_RetryBackOff :: gostruct where [rds_defs]:
  "RetryPolicy_RetryBackOff = GoStruct ''RetryPolicy_RetryBackOff''
    [Field ''BaseInterval'' (Ptr (Basic String)) ''base_interval'' (Some CopyValue),
     Field ''MaxInterval'' (Ptr (Basic String)) ''max_interval'' (Some CopyValue)]"

definition RetryPolicy :: gostruct where [rds_defs]:
  "RetryPolicy = GoStruct ''RetryPolicy''
    [Field ''RetryOn'' (Basic String) ''retry_on'' None,
     Field ''NumRetries'' (Ptr (Basic Uint32)) ''num_retries'' (Some CopyValue),
     Field ''PerTryTimeout'' (Ptr (Basic String)) ''per_try_timeout'' (Some CopyValue),
     Field ''PerTryIdleTimeout'' (Ptr (Basic String)) ''per_try_idle_timeout'' (Some CopyValue),
     Field ''RetryPriority'' (Ptr (Struct RetryPolicy_RetryPriority)) ''retry_priority'' (Some CopyInto),
     Field ''RetryHostPredicate'' (Slice (Ptr (Struct RetryPolicy_RetryHostPredicate))) ''retry_host_predicate'' (Some CopyElemsInto),
     Field ''RetryOptionsPredicates'' (Slice (Ptr (Struct TypedExtensionConfig))) ''retry_options_predicates'' (Some CopyElemsInto),
     Field ''HostSelectionRetryMaxAttempts'' (Basic Int64) ''host_selection_retry_max_attempts'' None,
     Field ''RetriableStatusCodes'' (Slice (Basic Uint32)) ''retriable_status_codes'' (Some CopySlice),
     Field ''RetryBackOff'' (Ptr (Struct RetryPolicy_RetryBackOff)) ''retry_back_off'' (Some CopyInto),
     Field ''RateLimitedRetryBackOff'' (Ptr RawExtension) ''rate_limited_retry_back_off'' (Some CopyValue),
     Field ''RetriableHeaders'' (Slice (Ptr (Struct HeaderMatcher))) ''retriable_headers'' (Some CopyElemsInto),
     Field ''RetriableRequestHeaders'' (Slice (Ptr (Struct HeaderMatcher))) ''retriable_request_headers'' (Some CopyElemsInto)]"

definition HedgePolicy :: gostruct where [rds_defs]:
  "HedgePolicy = GoStruct ''HedgePolicy''
    [Field ''InitialRequests'' (Ptr (Basic Uint32)) ''initial_requests'' (Some CopyValue),
     Field ''AdditionalRequestChance'' (Ptr (Struct FractionalPercent)) ''additional_request_chance'' (Some CopyInto),
     Field ''HedgeOnPerTryTimeout'' (Basic Bool) ''hedge_on_per_try_timeout'' None]"

definition HeaderMutation :: gostruct where [rds_defs]:
  "HeaderMutation = GoStruct ''HeaderMutation''
    [Field ''TypedConfig'' (Ptr RawExtension) ''typed_config'' (Some CopyValue)]"

definition RouteAction_RequestMirrorPolicy :: gostruct where [rds_defs]:
  "RouteAction_RequestMirrorPolicy = GoStruct ''RouteAction_RequestMirrorPolicy''
    [Field ''Cluster'' (Basic String) ''cluster'' None,
     Field ''ClusterHeader'' (Basic String) ''cluster_header'' None,
     Field ''RuntimeFraction'' (Ptr (Struct RuntimeFractionalPercent)) ''runtime_fraction'' (Some CopyInto),
     Field ''TraceSampled'' (Ptr (Basic Bool)) ''trace_sampled'' (Some CopyValue),
     Field ''DisableShadowHostSuffixAppend'' (Basic Bool) ''disable_shadow_host_suffix_append'' None,
     Field ''RequestHeadersMutations'' (Slice (Ptr (Struct HeaderMutation))) ''request_headers_mutations'' (Some CopyElemsInto),
     Field ''HostRewriteLiteral'' (Basic String) ''host_rewrite_literal'' None]"

definition VirtualHost :: gostruct where [rds_defs]:
  "VirtualHost = GoStruct ''VirtualHost''
    [Field ''Name'' (Basic String) ''name'' None,
     Field ''Domains'' (Slice (Basic String)) ''domains'' (Some CopySlice),
     Field ''Routes'' (Slice (Ptr (Struct Route))) ''routes'' (Some CopyElemsInto),
     Field ''RequireTls'' (Enum VirtualHost_TlsRequirementType) ''require_tls'' None,
     Field ''VirtualClusters'' (Slice (Ptr (Struct VirtualCluster))) ''virtual_clusters'' (Some CopyElemsInto),
     Field ''RateLimits'' (Slice (Ptr (Struct RateLimit))) ''rate_limits'' (Some CopyElemsInto),
     Field ''RequestHeadersToAdd'' (Slice (Ptr (Struct HeaderValueOption))) ''request_headers_to_add'' (Some CopyElemsInto),
     Field ''RequestHeadersToRemove'' (Slice (Basic String)) ''request_headers_to_remove'' (Some CopySlice),
     Field ''ResponseHeadersToAdd'' (Slice (Ptr (Struct HeaderValueOption))) ''response_headers_to_add'' (Some CopyElemsInto),
     Field ''ResponseHeadersToRemove'' (Slice (Basic String)) ''response_headers_to_remove'' (Some CopySlice),
     Field ''Cors'' (Ptr (Struct CorsPolicy)) ''cors'' (Some CopyInto),
     Field ''TypedPerFilterConfig'' (Map (Ptr RawExtension)) ''typed_per_filter_config'' (Some CopyMap),
     Field ''IncludeRequestAttemptCount'' (Basic Bool) ''include_request_attempt_count'' None,
     Field ''IncludeAttemptCountInResponse'' (Basic Bool) ''include_attempt_count_in_response'' None,
     Field ''RetryPolicy'' (Ptr (Struct RetryPolicy)) ''retry_policy'' (Some CopyInto),
     Field ''RetryPolicyTypedConfig'' (Ptr RawExtension) ''retry_policy_typed_config'' (Some CopyValue),
     Field ''HedgePolicy'' (Ptr (Struct HedgePolicy)) ''hedge_policy'' (Some CopyInto),
     Field ''IncludeIsTimeoutRetryHeader'' (Basic Bool) ''include_is_timeout_retry_header'' None,
     Field ''PerRequestBufferLimitBytes'' (Ptr (Basic Uint32)) ''per_request_buffer_limit_bytes'' (Some CopyValue),
     Field ''RequestBodyBufferLimit'' (Ptr (Basic Uint64)) ''request_body_buffer_limit'' (Some CopyValue),
     Field ''RequestMirrorPolicies'' (Slice (Ptr (Struct RouteAction_RequestMirrorPolicy))) ''request_mirror_policies'' (Some CopyElemsInto),
     Field ''Metadata'' (Ptr (Struct Metadata)) ''metadata'' (Some CopyInto)]"

definition ConfigSource :: gostruct where [rds_defs]:
  "ConfigSource = GoStruct ''ConfigSource''
    [Field ''InitialFetchTimeout'' (Ptr (Basic String)) ''initial_fetch_timeout'' (Some CopyValue),
     Field ''ResourceApiVersion'' (Enum ApiVersion) ''resource_api_version'' None]"

definition Vhds :: gostruct where [rds_defs]:
  "Vhds = GoStruct ''Vhds''
    [Field ''ConfigSource'' (Ptr (Struct ConfigSource)) ''config_source'' (Some CopyInto)]"

definition ClusterSpecifierPlugin :: gostruct where [rds_defs]:
  "ClusterSpecifierPlugin = GoStruct ''ClusterSpecifierPlugin''
    [Field ''TypedConfig'' (Ptr RawExtension) ''typed_config'' (Some CopyValue),
     Field ''Extension'' (Ptr (Struct TypedExtensionConfig)) ''extension'' (Some CopyInto),
     Field ''IsOptional'' (Basic Bool) ''is_optional'' None]"

definition RDS :: gostruct where [rds_defs]:
  "RDS = GoStruct ''RDS''
    [Field ''Name'' (Basic String) ''name'' None,
     Field ''VirtualHosts'' (Slice (Ptr (Struct VirtualHost))) ''virtual_hosts'' (Some CopyElemsInto),
     Field ''Vhds'' (Ptr (Struct Vhds)) ''vhds'' (Some CopyInto),
     Field ''InternalOnlyHeaders'' (Slice (Basic String)) ''internal_only_headers'' (Some CopySlice),
     Field ''ResponseHeadersToAdd'' (Slice (Ptr (Struct HeaderValueOption))) ''response_headers_to_add'' (Some CopyElemsInto),
     Field ''ResponseHeadersToRemove'' (Slice (Basic String)) ''response_headers_to_remove'' (Some CopySlice),
     Field ''RequestHeadersToAdd'' (Slice (Ptr (Struct HeaderValueOption))) ''request_headers_to_add'' (Some CopyElemsInto),
     Field ''RequestHeadersToRemove'' (Slice (Basic String)) ''request_headers_to_remove'' (Some CopySlice),
     Field ''MostSpecificHeaderMutationsWins'' (Basic Bool) ''most_specific_header_mutations_wins'' None,
     Field ''ValidateClusters'' (Ptr (Basic Bool)) ''validate_clusters'' (Some CopyValue),
     Field ''MaxDirectResponseBodySizeBytes'' (Ptr (Basic Uint32)) ''max_direct_response_body_size_bytes'' (Some CopyValue),
     Field ''ClusterSpecifierPlugins'' (Slice (Ptr (Struct ClusterSpecifierPlugin))) ''cluster_specifier_plugins'' (Some CopyElemsInto),
     Field ''RequestMirrorPolicies'' (Slice (Ptr (Struct RouteAction_RequestMirrorPolicy))) ''request_mirror_policies'' (Some CopyElemsInto),
     Field ''IgnorePortInHostMatching'' (Basic Bool) ''ignore_port_in_host_matching'' None,
     Field ''IgnorePathParametersInPathMatching'' (Basic Bool) ''ignore_path_parameters_in_path_matching'' None,
     Field ''TypedPerFilterConfig'' (Map (Ptr RawExtension)) ''typed_per_filter_config'' (Some CopyMap),
     Field ''Metadata'' (Ptr (Struct Metadata)) ''metadata'' (Some CopyInto)]"

definition DoubleRange :: gostruct where [rds_defs]:
  "DoubleRange = GoStruct ''DoubleRange''
    [Field ''Start'' (Basic Float64) ''start'' None, Field ''End'' (Basic Float64) ''end'' None]"

definition DoubleMatcher :: gostruct where [rds_defs]:
  "DoubleMatcher = GoStruct ''DoubleMatcher''
    [Field ''Range'' (Ptr (Struct DoubleRange)) ''range'' (Some CopyInto),
     Field ''Exact'' (Basic Float64) ''exact'' None]"

definition FilterStateMatcher :: gostruct where [rds_defs]:
  "FilterStateMatcher = GoStruct ''FilterStateMatcher''
    [Field ''Key'' (Basic String) ''key'' None]"

definition InternalRedirectPolicy :: gostruct where [rds_defs]:
  "InternalRedirectPolicy = GoStruct ''InternalRedirectPolicy''
    [Field ''MaxInternalRedirects'' (Ptr (Basic Uint32)) ''max_internal_redirects'' (Some CopyValue),
     Field ''RedirectResponseCodes'' (Slice (Basic Uint32)) ''redirect_response_codes'' (Some CopySlice),
     Field ''Predicates'' (Slice (Ptr (Struct TypedExtensionConfig))) ''predicates'' (Some CopyElemsInto),
     Field ''AllowCrossSchemeRedirect'' (Basic Bool) ''allow_cross_scheme_redirect'' None,
     Field ''ResponseHeadersToCopy'' (Slice (Basic String)) ''response_headers_to_copy'' (Some CopySlice)]"

definition JsonFormatOptions :: gostruct where [rds_defs]:
  "JsonFormatOptions = GoStruct ''JsonFormatOptions''
    [Field ''SortProperties'' (Basic Bool) ''sort_properties'' None]"

definition ValueMatcher :: gostruct where [rds_defs]:
  "ValueMatcher = GoStruct ''ValueMatcher''
    [Field ''NullMatch'' (Ptr RawExtension) ''null_match'' (Some CopyValue),
     Field ''DoubleMatch'' (Ptr (Struct DoubleMatcher)) ''double_match'' (Some CopyInto),
     Field ''StringMatch'' (Ptr (Struct StringMatcher)) ''string_match'' (Some CopyInto),
     Field ''BoolMatch'' (Basic Bool) ''bool_match'' None,
     Field ''PresentMatch'' (Basic Bool) ''present_match'' None,
     Field ''ListMatch'' (Ptr RawExtension) ''list_match'' (Some CopyValue),
     Field ''OrMatch'' (Ptr RawExtension) ''or_match'' (Some CopyValue)]"

definition ListMatcher :: gostruct where [rds_defs]:
  "ListMatcher = GoStruct ''ListMatcher''
    [Field ''OneOf'' (Ptr (Struct ValueMatcher)) ''one_of'' (Some CopyInto)]"

definition MetadataKey :: gostruct where [rds_defs]:
  "MetadataKey = GoStruct ''MetadataKey''
    [Field ''Key'' (Basic String) ''key'' None, Field ''Path'' (Slice (Ptr RawExtension)) ''path'' (Some CopyElems)]"

definition MetadataMatcher_PathSegment :: gostruct where [rds_defs]:
  "MetadataMatcher_PathSegment = GoStruct ''MetadataMatcher_PathSegment''
    [Field ''Key'' (Basic String) ''key'' None]"

definition MetadataMatcher :: gostruct where [rds_defs]:
  "MetadataMatcher = GoStruct ''MetadataMatcher''
    [Field ''Filter'' (Basic String) ''filter'' None,
     Field ''Path'' (Slice (Ptr (Struct MetadataMatcher_PathSegment))) ''path'' (Some CopyElemsInto),
     Field ''Value'' (Ptr (Struct ValueMatcher)) ''value'' (Some CopyInto),
     Field ''Invert'' (Basic Bool) ''invert'' None]"

definition OrMatcher :: gostruct where [rds_defs]:
  "OrMatcher = GoStruct ''OrMatcher''
    [Field ''ValueMatchers'' (Slice (Ptr (Struct ValueMatcher))) ''value_matchers'' (Some CopyElemsInto)]"

definition ProxyProtocolPassThroughTLVs :: gostruct where [rds_defs]:
  "ProxyProtocolPassThroughTLVs = GoStruct ''ProxyProtocolPassThroughTLVs''
    [Field ''MatchType'' (Enum ProxyProtocolPassThroughTLVs_PassTLVsMatchType) ''match_type'' None,
     Field ''TlvType'' (Slice (Basic Uint32)) ''tlv_type'' (Some CopySlice)]"

definition SubstitutionFormatString :: gostruct where [rds_defs]:
  "SubstitutionFormatString = GoStruct ''SubstitutionFormatString''
    [Field ''OmitEmptyValues'' (Basic Bool) ''omit_empty_values'' None,
     Field ''ContentType'' (Basic String) ''content_type'' None,
     Field ''Formatters'' (Slice (Ptr (Struct TypedExtensionConfig))) ''formatters'' (Some CopyElemsInto),
     Field ''JsonFormatOptions'' (Ptr (Struct JsonFormatOptions)) ''json_format_options'' (Some CopyInto)]"

definition TlvEntry :: gostruct where [rds_defs]:
  "TlvEntry = GoStruct ''TlvEntry''
    [Field ''Type'' (Basic Uint32) ''type'' None, Field ''Value'' Bytes ''value'' (Some CopySlice),
     Field ''FormatString'' (Ptr (Struct SubstitutionFormatString)) ''format_string'' (Some CopyInto)]"

definition ProxyProtocolConfig :: gostruct where [rds_defs]:
  "ProxyProtocolConfig = GoStruct ''ProxyProtocolConfig''
    [Field ''Version'' (Enum ProxyProtocolConfig_Version) ''version'' None,
     Field ''PassThroughTlvs'' (Ptr (Struct ProxyProtocolPassThroughTLVs)) ''pass_through_tlvs'' (Some CopyInto),
     Field ''AddedTlvs'' (Slice (Ptr (Struct TlvEntry))) ''added_tlvs'' (Some CopyElemsInto)]"

definition QueryParameterMatcher :: gostruct where [rds_defs]:
  "QueryParameterMatcher = GoStruct ''QueryParameterMatcher''
    [Field ''Name'' (Basic String) ''name'' None,
     Field ''StringMatch'' (Ptr (Struct StringMatcher)) ''string_match'' (Some CopyInto),
     Field ''PresentMatch'' (Basic Bool) ''present_match'' None]"

definition RateLimit_Action_DynamicMetaData :: gostruct where [rds_defs]:
  "RateLimit_Action_DynamicMetaData = GoStruct ''RateLimit_Action_DynamicMetaData''
    [Field ''DescriptorKey'' (Basic String) ''descriptor_key'' None,
     Field ''MetadataKey'' (Ptr (Struct MetadataKey)) ''metadata_key'' (Some CopyInto),
     Field ''DefaultValue'' (Basic String) ''default_value'' None]"

definition RateLimit_Action_GenericKey :: gostruct where [rds_defs]:
  "RateLimit_Action_GenericKey = GoStruct ''RateLimit_Action_GenericKey''
    [Field ''DescriptorValue'' (Basic String) ''descriptor_value'' None,
     Field ''DescriptorKey'' (Basic String) ''descriptor_key'' None]"

definition RateLimit_Action_HeaderValueMatch :: gostruct where [rds_defs]:
  "RateLimit_Action_HeaderValueMatch = GoStruct ''RateLimit_Action_HeaderValueMatch''
    [Field ''DescriptorKey'' (Basic String) ''descriptor_key'' None,
     Field ''DescriptorValue'' (Basic String) ''descriptor_value'' None,
     Field ''ExpectMatch'' (Ptr (Basic Bool)) ''expect_match'' (Some CopyValue),
     Field ''Headers'' (Slice (Ptr (Struct HeaderMatcher))) ''headers'' (Some CopyElemsInto)]"

definition RateLimit_Action_MaskedRemoteAddress :: gostruct where [rds_defs]:
  "RateLimit_Action_MaskedRemoteAddress = GoStruct ''RateLimit_Action_MaskedRemoteAddress''
    [Field ''V4PrefixMaskLen'' (Ptr (Basic Uint32)) ''v4_prefix_mask_len'' (Some CopyValue),
     Field ''V6PrefixMaskLen'' (Ptr (Basic Uint32)) ''v6_prefix_mask_len'' (Some CopyValue)]"

definition RateLimit_Action_MetaData :: gostruct where [rds_defs]:
  "RateLimit_Action_MetaData = GoStruct ''RateLimit_Action_MetaData''
    [Field ''DescriptorKey'' (Basic String) ''descriptor_key'' None,
     Field ''MetadataKey'' (Ptr (Struct MetadataKey)) ''metadata_key'' (Some CopyInto),
     Field ''DefaultValue'' (Basic String) ''default_value'' None,
     Field ''Source'' (Enum RateLimit_Action_MetaData_Source) ''source'' None,
     Field ''SkipIfAbsent'' (Basic Bool) ''skip_if_absent'' None]"

definition RateLimit_Action_QueryParameterValueMatch :: gostruct where [rds_defs]:
  "RateLimit_Action_QueryParameterValueMatch = GoStruct ''RateLimit_Action_QueryParameterValueMatch''
    [Field ''DescriptorKey'' (Basic String) ''descriptor_key'' None,
     Field ''DescriptorValue'' (Basic String) ''descriptor_value'' None,
     Field ''ExpectMatch'' (Ptr (Basic Bool)) ''expect_match'' (Some CopyValue),
     Field ''QueryParameters'' (Slice (Ptr (Struct QueryParameterMatcher))) ''query_parameters'' (Some CopyElemsInto)]"

definition RateLimit_Action_QueryParameters :: gostruct where [rds_defs]:
  "RateLimit_Action_QueryParameters = GoStruct ''RateLimit_Action_QueryParameters''
    [Field ''QueryParameterName'' (Basic String) ''query_parameter_name'' None,
     Field ''DescriptorKey'' (Basic String) ''descriptor_key'' None,
     Field ''SkipIfAbsent'' (Basic Bool) ''skip_if_absent'' None]"

definition RateLimit_Action_RequestHeaders :: gostruct where [rds_defs]:
  "RateLimit_Action_RequestHeaders = GoStruct ''RateLimit_Action_RequestHeaders''
    [Field ''HeaderName'' (Basic String) ''header_name'' None,
     Field ''DescriptorKey'' (Basic String) ''descriptor_key'' None,
     Field ''SkipIfAbsent'' (Basic Bool) ''skip_if_absent'' None]"

definition RateLimit_Override_DynamicMetadata :: gostruct where [rds_defs]:
  "RateLimit_Override_DynamicMetadata = GoStruct ''RateLimit_Override_DynamicMetadata''
    [Field ''MetadataKey'' (Ptr (Struct MetadataKey)) ''metadata_key'' (Some CopyInto)]"

definition RetryPolicy_ResetHeader :: gostruct where [rds_defs]:
  "RetryPolicy_ResetHeader = GoStruct ''RetryPolicy_ResetHeader''
    [Field ''Name'' (Basic String) ''name'' None,
     Field ''Format'' (Enum RetryPolicy_ResetHeaderFormat) ''format'' None]"

definition RetryPolicy_RateLimitedRetryBackOff :: gostruct where [rds_defs]:
  "RetryPolicy_RateLimitedRetryBackOff = GoStruct ''RetryPolicy_RateLimitedRetryBackOff''
    [Field ''ResetHeaders'' (Slice (Ptr (Struct RetryPolicy_ResetHeader))) ''reset_headers'' (Some CopyElemsInto),
     Field ''MaxInterval'' (Ptr (Basic String)) ''max_interval'' (Some CopyValue)]"

definition WeightedCluster_ClusterWeight :: gostruct where [rds_defs]:
  "WeightedCluster_ClusterWeight = GoStruct ''WeightedCluster_ClusterWeight''
    [Field ''Name'' (Basic String) ''name'' None, Field ''ClusterHeader'' (Basic String) ''cluster_header'' None,
     Field ''Weight'' (Ptr (Basic Uint32)) ''weight'' (Some CopyValue),
     Field ''MetadataMatch'' (Ptr (Struct Metadata)) ''metadata_match'' (Some CopyInto),
     Field ''RequestHeadersToAdd'' (Slice (Ptr (Struct HeaderValueOption))) ''request_headers_to_add'' (Some CopyElemsInto),
     Field ''RequestHeadersToRemove'' (Slice (Basic String)) ''request_headers_to_remove'' (Some CopySlice),
     Field ''ResponseHeadersToAdd'' (Slice (Ptr (Struct HeaderValueOption))) ''response_headers_to_add'' (Some CopyElemsInto),
     Field ''ResponseHeadersToRemove'' (Slice (Basic String)) ''response_headers_to_remove'' (Some CopySlice),
     Field ''TypedPerFilterConfig'' (Map (Ptr RawExtension)) ''typed_per_filter_config'' (Some CopyMap),
     Field ''HostRewriteLiteral'' (Basic String) ''host_rewrite_literal'' None]"

definition WeightedCluster :: gostruct where [rds_defs]:
  "WeightedCluster = GoStruct ''WeightedCluster''
    [Field ''Clusters'' (Slice (Ptr (Struct WeightedCluster_ClusterWeight))) ''clusters'' (Some CopyElemsInto),
     Field ''TotalWeight'' (Ptr (Basic Uint32)) ''total_weight'' (Some CopyValue),
     Field ''RuntimeKeyPrefix'' (Basic String) ''runtime_key_prefix'' None,
     Field ''HeaderName'' (Basic String) ''header_name'' None,
     Field ''UseHashPolicy'' (Ptr (Basic Bool)) ''use_hash_policy'' (Some CopyValue),
     Field ''HostRewriteLiteral'' (Basic String) ''host_rewrite_literal'' None]"

definition RouteAction_HashPolicy :: gostruct where [rds_defs]:
  "RouteAction_HashPolicy = GoStruct ''RouteAction_HashPolicy''
    [Field ''Header'' (Ptr RawExtension) ''header'' (Some CopyValue),
     Field ''Cookie'' (Ptr RawExtension) ''cookie'' (Some CopyValue),
     Field ''ConnectionProperties'' (Ptr RawExtension) ''connection_properties'' (Some CopyValue),
     Field ''QueryParameter'' (Ptr RawExtension) ''query_parameter'' (Some CopyValue),
     Field ''FilterState'' (Ptr RawExtension) ''filter_state'' (Some CopyValue),
     Field ''Terminal'' (Basic Bool) ''terminal'' None]"

definition RouteAction_MaxStreamDuration :: gostruct where [rds_defs]:
  "RouteAction_MaxStreamDuration = GoStruct ''RouteAction_MaxStreamDuration''
    [Field ''MaxStreamDuration'' (Ptr (Basic String)) ''max_stream_duration'' (Some CopyValue),
     Field ''GrpcTimeoutHeaderMax'' (Ptr (Basic String)) ''grpc_timeout_header_max'' (Some CopyValue),
     Field ''GrpcTimeoutHeaderOffset'' (Ptr (Basic String)) ''grpc_timeout_header_offset'' (Some CopyValue)]"

definition RouteAction :: gostruct where [rds_defs]:
  "RouteAction = GoStruct ''RouteAction''
    [Field ''Cluster'' (Basic String) ''cluster'' None,
     Field ''ClusterHeader'' (Basic String) ''cluster_header'' None,
     Field ''WeightedClusters'' (Ptr (Struct WeightedCluster)) ''weighted_clusters'' (Some CopyInto),
     Field ''ClusterSpecifierPlugin'' (Basic String) ''cluster_specifier_plugin'' None,
     Field ''InlineClusterSpecifierPlugin'' (Ptr (Struct ClusterSpecifierPlugin)) ''inline_cluster_specifier_plugin'' (Some CopyInto),
     Field ''ClusterNotFoundResponseCode'' (Enum RouteAction_ClusterNotFoundResponseCode) ''cluster_not_found_response_code'' None,
     Field ''MetadataMatch'' (Ptr (Struct Metadata)) ''metadata_match'' (Some CopyInto),
     Field ''PrefixRewrite'' (Basic String) ''prefix_rewrite'' None,
     Field ''RegexRewrite'' (Ptr (Struct RegexMatchAndSubstitute)) ''regex_rewrite'' (Some CopyInto),
     Field ''PathRewritePolicy'' (Ptr (Struct TypedExtensionConfig)) ''path_rewrite_policy'' (Some CopyInto),
     Field ''HostRewriteLiteral'' (Basic String) ''host_rewrite_literal'' None,
     Field ''AutoHostRewrite'' (Ptr (Basic Bool)) ''auto_host_rewrite'' (Some CopyValue),
     Field ''HostRewriteHeader'' (Basic String) ''host_rewrite_header'' None,
     Field ''HostRewritePathRegex'' (Ptr (Struct RegexMatchAndSubstitute)) ''host_rewrite_path_regex'' (Some CopyInto),
     Field ''AppendXForwardedHost'' (Basic Bool) ''append_x_forwarded_host'' None,
     Field ''Timeout'' (Ptr (Basic String)) ''timeout'' (Some CopyValue),
     Field ''IdleTimeout'' (Ptr (Basic String)) ''idle_timeout'' (Some CopyValue),
     Field ''FlushTimeout'' (Ptr (Basic String)) ''flush_timeout'' (Some CopyValue),
     Field ''EarlyDataPolicy'' (Ptr (Struct TypedExtensionConfig)) ''early_data_policy'' (Some CopyInto),
     Field ''RetryPolicy'' (Ptr (Struct RetryPolicy)) ''retry_policy'' (Some CopyInto),
     Field ''RetryPolicyTypedConfig'' (Ptr RawExtension) ''retry_policy_typed_config'' (Some CopyValue),
     Field ''RequestMirrorPolicies'' (Slice (Ptr (Struct RouteAction_RequestMirrorPolicy))) ''request_mirror_policies'' (Some CopyElemsInto),
     Field ''Priority'' (Enum RoutingPriority) ''priority'' None,
     Field ''RateLimits'' (Slice (Ptr (Struct RateLimit))) ''rate_limits'' (Some CopyElemsInto),
     Field ''IncludeVhRateLimits'' (Ptr (Basic Bool)) ''include_vh_rate_limits'' (Some CopyValue),
     Field ''HashPolicy'' (Slice (Ptr (Struct RouteAction_HashPolicy))) ''hash_policy'' (Some CopyElemsInto),
     Field ''Cors'' (Ptr (Struct CorsPolicy)) ''cors'' (Some CopyInto),
     Field ''MaxGrpcTimeout'' (Ptr (Basic String)) ''max_grpc_timeout'' (Some CopyValue),
     Field ''GrpcTimeoutOffset'' (Ptr (Basic String)) ''grpc_timeout_offset'' (Some CopyValue),
     Field ''UpgradeConfigs'' (Slice (Ptr RawExtension)) ''upgrade_configs'' (Some CopyElems),
     Field ''InternalRedirectPolicy'' (Ptr (Struct InternalRedirectPolicy)) ''internal_redirect_policy'' (Some CopyInto),
     Field ''InternalRedirectAction'' (Enum RouteAction_InternalRedirectAction) ''internal_redirect_action'' None,
     Field ''MaxInternalRedirects'' (Ptr (Basic Uint32)) ''max_internal_redirects'' (Some CopyValue),
     Field ''HedgePolicy'' (Ptr (Struct HedgePolicy)) ''hedge_policy'' (Some CopyInto),
     Field ''MaxStreamDuration'' (Ptr (Struct RouteAction_MaxStreamDuration)) ''max_stream_duration'' (Some CopyInto)]"

definition RouteAction_HashPolicy_ConnectionProperties :: gostruct where [rds_defs]:
  "RouteAction_HashPolicy_ConnectionProperties = GoStruct ''RouteAction_HashPolicy_ConnectionProperties''
    [Field ''SourceIp'' (Basic Bool) ''source_ip'' None]"

definition RouteAction_HashPolicy_CookieAttribute :: gostruct where [rds_defs]:
  "RouteAction_HashPolicy_CookieAttribute = GoStruct ''RouteAction_HashPolicy_CookieAttribute''
    [Field ''Name'' (Basic String) ''name'' None, Field ''Value'' (Basic String) ''value'' None]"

definition RouteAction_HashPolicy_Cookie :: gostruct where [rds_defs]:
  "RouteAction_HashPolicy_Cookie = GoStruct ''RouteAction_HashPolicy_Cookie''
    [Field ''Name'' (Basic String) ''name'' None, Field ''Ttl'' (Ptr (Basic String)) ''ttl'' (Some CopyValue),
     Field ''Path'' (Basic String) ''path'' None,
     Field ''Attributes'' (Slice (Ptr (Struct RouteAction_HashPolicy_CookieAttribute))) ''attributes'' (Some CopyElemsInto)]"

definition RouteAction_HashPolicy_FilterState :: gostruct where [rds_defs]:
  "RouteAction_HashPolicy_FilterState = GoStruct ''RouteAction_HashPolicy_FilterState''
    [Field ''Key'' (Basic String) ''key'' None]"

definition RouteAction_HashPolicy_Header :: gostruct where [rds_defs]:
  "RouteAction_HashPolicy_Header = GoStruct ''RouteAction_HashPolicy_Header''
    [Field ''HeaderName'' (Basic String) ''header_name'' None,
     Field ''RegexRewrite'' (Ptr (Struct RegexMatchAndSubstitute)) ''regex_rewrite'' (Some CopyInto)]"

definition RouteAction_HashPolicy_QueryParameter :: gostruct where [rds_defs]:
  "RouteAction_HashPolicy_QueryParameter = GoStruct ''RouteAction_HashPolicy_QueryParameter''
    [Field ''Name'' (Basic String) ''name'' None]"

definition RouteAction_UpgradeConfig_ConnectConfig :: gostruct where [rds_defs]:
  "RouteAction_UpgradeConfig_ConnectConfig = GoStruct ''RouteAction_UpgradeConfig_ConnectConfig''
    [Field ''ProxyProtocolConfig'' (Ptr (Struct ProxyProtocolConfig)) ''proxy_protocol_config'' (Some CopyInto),
     Field ''AllowPost'' (Basic Bool) ''allow_post'' None]"

definition RouteAction_UpgradeConfig :: gostruct where [rds_defs]:
  "RouteAction_UpgradeConfig = GoStruct ''RouteAction_UpgradeConfig''
    [Field ''UpgradeType'' (Basic String) ''upgrade_type'' None,
     Field ''Enabled'' (Ptr (Basic Bool)) ''enabled'' (Some CopyValue),
     Field ''ConnectConfig'' (Ptr (Struct RouteAction_UpgradeConfig_ConnectConfig)) ''connect_config'' (Some CopyInto)]"

definition RouteMatch_TlsContextMatchOptions :: gostruct where [rds_defs]:
  "RouteMatch_TlsContextMatchOptions = GoStruct ''RouteMatch_TlsContextMatchOptions''
    [Field ''Presented'' (Ptr (Basic Bool)) ''presented'' (Some CopyValue),
     Field ''Validated'' (Ptr (Basic Bool)) ''validated'' (Some CopyValue)]"

definition RouteMatch :: gostruct where [rds_defs]:
  "RouteMatch = GoStruct ''RouteMatch''
    [Field ''Prefix'' (Basic String) ''prefix'' None, Field ''Path'' (Basic String) ''path'' None,
     Field ''SafeRegex'' (Ptr (Struct RegexMatcher)) ''safe_regex'' (Some CopyInto),
     Field ''ConnectMatcher'' (Ptr RawExtension) ''connect_matcher'' (Some CopyValue),
     Field ''PathSeparatedPrefix'' (Basic String) ''path_separated_prefix'' None,
     Field ''PathMatchPolicy'' (Ptr (Struct TypedExtensionConfig)) ''path_match_policy'' (Some CopyInto),
     Field ''CaseSensitive'' (Ptr (Basic Bool)) ''case_sensitive'' (Some CopyValue),
     Field ''RuntimeFraction'' (Ptr (Struct RuntimeFractionalPercent)) ''runtime_fraction'' (Some CopyInto),
     Field ''Headers'' (Slice (Ptr (Struct HeaderMatcher))) ''headers'' (Some CopyElemsInto),
     Field ''QueryParameters'' (Slice (Ptr (Struct QueryParameterMatcher))) ''query_parameters'' (Some CopyElemsInto),
     Field ''Grpc'' (Ptr RawExtension) ''grpc'' (Some CopyValue),
     Field ''TlsContext'' (Ptr (Struct RouteMatch_TlsContextMatchOptions)) ''tls_context'' (Some CopyInto),
     Field ''DynamicMetadata'' (Slice (Ptr (Struct MetadataMatcher))) ''dynamic_metadata'' (Some CopyElemsInto),
     Field ''FilterState'' (Slice (Ptr (Struct FilterStateMatcher))) ''filter_state'' (Some CopyElemsInto)]"

section \<open>All of them\<close>

definition rds_enums :: "goenum list" where
  "rds_enums =
     [ApiVersion, FractionalPercent_DenominatorType, HeaderValueOption_HeaderAppendAction,
      KeyValueAppend_KeyValueAppendAction, ProxyProtocolConfig_Version,
      ProxyProtocolPassThroughTLVs_PassTLVsMatchType, RateLimit_Action_MetaData_Source,
      RedirectAction_RedirectResponseCode, RequestMethod, RetryPolicy_ResetHeaderFormat,
      RouteAction_ClusterNotFoundResponseCode, RouteAction_InternalRedirectAction, RoutingPriority, TrafficDirection,
      VirtualHost_TlsRequirementType]"

definition rds_structs :: "gostruct list" where
  "rds_structs =
     [RegexMatcher, RegexMatchAndSubstitute, RedirectAction, WatchedDirectory, DataSource, DirectResponseAction,
      FilterAction, Metadata, Decorator, HeaderValue, HeaderValueOption, FractionalPercent, CustomTag, Tracing,
      Route, Int64Range, TypedExtensionConfig, StringMatcher, HeaderMatcher, VirtualCluster, RateLimit_Action,
      RateLimit_Override, RateLimit_HitsAddend, RateLimit, RuntimeFractionalPercent, CorsPolicy,
      RetryPolicy_RetryPriority, RetryPolicy_RetryHostPredicate, RetryPolicy_RetryBackOff, RetryPolicy, HedgePolicy,
      HeaderMutation, RouteAction_RequestMirrorPolicy, VirtualHost, ConfigSource, Vhds, ClusterSpecifierPlugin, RDS,
      DoubleRange, DoubleMatcher, FilterStateMatcher, InternalRedirectPolicy, JsonFormatOptions, ValueMatcher,
      ListMatcher, MetadataKey, MetadataMatcher_PathSegment, MetadataMatcher, OrMatcher,
      ProxyProtocolPassThroughTLVs, SubstitutionFormatString, TlvEntry, ProxyProtocolConfig, QueryParameterMatcher,
      RateLimit_Action_DynamicMetaData, RateLimit_Action_GenericKey, RateLimit_Action_HeaderValueMatch,
      RateLimit_Action_MaskedRemoteAddress, RateLimit_Action_MetaData, RateLimit_Action_QueryParameterValueMatch,
      RateLimit_Action_QueryParameters, RateLimit_Action_RequestHeaders, RateLimit_Override_DynamicMetadata,
      RetryPolicy_ResetHeader, RetryPolicy_RateLimitedRetryBackOff, WeightedCluster_ClusterWeight, WeightedCluster,
      RouteAction_HashPolicy, RouteAction_MaxStreamDuration, RouteAction,
      RouteAction_HashPolicy_ConnectionProperties, RouteAction_HashPolicy_CookieAttribute,
      RouteAction_HashPolicy_Cookie, RouteAction_HashPolicy_FilterState, RouteAction_HashPolicy_Header,
      RouteAction_HashPolicy_QueryParameter, RouteAction_UpgradeConfig_ConnectConfig, RouteAction_UpgradeConfig,
      RouteMatch_TlsContextMatchOptions, RouteMatch]"

end
