(* ===== verification/DeepCopy.thy ===== *)
theory DeepCopy
  imports GoTypes
begin

text \<open>
  The memory of a Go program as far as deep copies need it, and the generated functions \<open>DeepCopyInto\<close> on it. A
  cell holds a variable (what a pointer points to), the array of a slice, the bytes of a byte slice or the entries
  of a map. A cell is allocated here when its contents are complete, which a Go program cannot tell. Argument: the
  \<open>DeepCopyInto\<close> of \<open>runtime.RawExtension\<close> in k8s.io/apimachinery (\<open>rawcopy\<close>).
\<close>

section \<open>Memory\<close>

type_synonym addr = nat

datatype mval =
    MBool bool
  | MInt int
  | MFloat float64
  | MString string
  | MNil
  | MRef addr
  | MRaw mval
  | MStruct "mval list"

datatype cell =
    Var mval
  | Array "mval list"
  | ByteArray string
  | Entries "(string \<times> mval) list"

record memory =
  cells :: "addr \<Rightarrow> cell option"
  free :: addr

definition memory_ok :: "memory \<Rightarrow> bool" where
  "memory_ok m \<longleftrightarrow> (\<forall>a. free m \<le> a \<longrightarrow> cells m a = None)"

definition allocate :: "cell \<Rightarrow> memory \<Rightarrow> mval \<times> memory" where
  "allocate c m = (MRef (free m), m\<lparr>cells := (cells m)(free m \<mapsto> c), free := Suc (free m)\<rparr>)"

definition overwrite :: "addr \<Rightarrow> cell \<Rightarrow> memory \<Rightarrow> memory" where
  "overwrite a c m = m\<lparr>cells := (cells m)(a \<mapsto> c)\<rparr>"

definition deref :: "memory \<Rightarrow> mval \<Rightarrow> cell option" where
  "deref m v = (case v of MRef a \<Rightarrow> cells m a | _ \<Rightarrow> None)"

section \<open>Deep copies\<close>

text \<open>A copying step gives the copy and the memory after it, and nothing where Go would follow a pointer that is
  none.\<close>

type_synonym copier = "mval \<Rightarrow> memory \<Rightarrow> (mval \<times> memory) option"

text \<open>\<open>*out = new(T)\<close> with the value behind a pointer: assigned, or copied by its \<open>DeepCopyInto\<close> (\<open>cp\<close>).\<close>

definition new_var :: "copier \<Rightarrow> copier" where
  "new_var cp v m =
     (case deref m v of
        Some (Var x) \<Rightarrow> map_option (\<lambda>(y, m). allocate (Var y) m) (cp x m)
      | _ \<Rightarrow> None)"

text \<open>A statement guarded by \<open>!= nil\<close>.\<close>

definition unless_nil :: "copier \<Rightarrow> copier" where
  "unless_nil cp v m = (if v = MNil then Some (v, m) else cp v m)"

fun each :: "copier \<Rightarrow> mval list \<Rightarrow> memory \<Rightarrow> (mval list \<times> memory) option" where
  "each cp [] m = Some ([], m)"
| "each cp (v # vs) m =
     (case cp v m of
        None \<Rightarrow> None
      | Some (w, m) \<Rightarrow> (case each cp vs m of None \<Rightarrow> None | Some (ws, m) \<Rightarrow> Some (w # ws, m)))"

definition new_array :: "copier \<Rightarrow> copier" where
  "new_array cp v m =
     (case deref m v of
        Some (Array vs) \<Rightarrow> map_option (\<lambda>(ws, m). allocate (Array ws) m) (each (unless_nil cp) vs m)
      | _ \<Rightarrow> None)"

definition same_contents :: copier where
  "same_contents v m = map_option (\<lambda>c. allocate c m) (deref m v)"

definition copy_field :: "copying \<Rightarrow> copier \<Rightarrow> copier" where
  "copy_field c cp =
     unless_nil (case c of
        CopyValue \<Rightarrow> new_var (\<lambda>x m. Some (x, m))
      | CopyInto \<Rightarrow> new_var cp
      | CopySlice \<Rightarrow> same_contents
      | CopyElems \<Rightarrow> new_array (new_var (\<lambda>x m. Some (x, m)))
      | CopyElemsInto \<Rightarrow> new_array (new_var cp)
      | CopyMap \<Rightarrow> same_contents)"

text \<open>\<open>copy_struct\<close> is the \<open>DeepCopyInto\<close> of a struct: the value at \<open>in\<close> becomes the value at \<open>out\<close>. The method called
  in the statement for a field is the one of the struct its type mentions (\<open>copy_target\<close>).\<close>

type_synonym rawcopy = "mval \<Rightarrow> memory \<Rightarrow> mval \<times> memory"

fun copy_target :: "rawcopy \<Rightarrow> gotype \<Rightarrow> copier"
  and copy_struct :: "rawcopy \<Rightarrow> gostruct \<Rightarrow> copier"
  and copy_fields :: "rawcopy \<Rightarrow> gofield list \<Rightarrow> mval list \<Rightarrow> memory \<Rightarrow> (mval list \<times> memory) option" where
  "copy_target rc (Struct S) x m = copy_struct rc S x m"
| "copy_target rc (Ptr t) x m = copy_target rc t x m"
| "copy_target rc (Slice t) x m = copy_target rc t x m"
| "copy_target rc RawExtension x m = Some (rc x m)"
| "copy_target rc (Map t) x m = None"
| "copy_target rc (Basic b) x m = None"
| "copy_target rc (Enum e) x m = None"
| "copy_target rc Bytes x m = None"
| "copy_struct rc (GoStruct n fs) v m =
     (case v of
        MStruct vs \<Rightarrow> map_option (\<lambda>(ws, m). (MStruct ws, m)) (copy_fields rc fs vs m)
      | _ \<Rightarrow> None)"
| "copy_fields rc [] vs m = (if vs = [] then Some ([], m) else None)"
| "copy_fields rc (Field n t j c # fs) vs m =
     (case vs of
        [] \<Rightarrow> None
      | v # vs \<Rightarrow>
          (case (case c of None \<Rightarrow> Some (v, m) | Some c \<Rightarrow> copy_field c (copy_target rc t) v m) of
             None \<Rightarrow> None
           | Some (w, m) \<Rightarrow> map_option (\<lambda>(ws, m). (w # ws, m)) (copy_fields rc fs vs m)))"

section \<open>Reading a value\<close>

text \<open>The value a type finds in memory, as a tree; a map with its keys in the order of its entries.\<close>

datatype goval =
    VBool bool
  | VInt int
  | VFloat float64
  | VString string
  | VNil
  | VPtr goval
  | VSlice "goval list"
  | VBytes string
  | VMap "(string \<times> goval) list"
  | VRaw "string option"
  | VStruct "goval list"

fun read_basic :: "mval \<Rightarrow> goval option" where
  "read_basic (MBool b) = Some (VBool b)"
| "read_basic (MInt n) = Some (VInt n)"
| "read_basic (MFloat x) = Some (VFloat x)"
| "read_basic (MString s) = Some (VString s)"
| "read_basic _ = None"

definition read_raw :: "memory \<Rightarrow> mval \<Rightarrow> goval option" where
  "read_raw m v =
     (case v of
        MRaw MNil \<Rightarrow> Some (VRaw None)
      | MRaw r \<Rightarrow> (case deref m r of Some (ByteArray s) \<Rightarrow> Some (VRaw (Some s)) | _ \<Rightarrow> None)
      | _ \<Rightarrow> None)"

fun pair_up :: "string list \<Rightarrow> goval option list \<Rightarrow> (string \<times> goval) list option" where
  "pair_up (k # ks) (Some v # vs) = map_option (Cons (k, v)) (pair_up ks vs)"
| "pair_up [] [] = Some []"
| "pair_up _ _ = None"

fun all_some :: "'a option list \<Rightarrow> 'a list option" where
  "all_some [] = Some []"
| "all_some (None # xs) = None"
| "all_some (Some x # xs) = map_option (Cons x) (all_some xs)"

fun read :: "memory \<Rightarrow> gotype \<Rightarrow> mval \<Rightarrow> goval option"
  and read_struct :: "memory \<Rightarrow> gostruct \<Rightarrow> mval \<Rightarrow> goval option"
  and read_fields :: "memory \<Rightarrow> gofield list \<Rightarrow> mval list \<Rightarrow> goval list option" where
  "read m (Basic b) v = read_basic v"
| "read m (Enum e) v = read_basic v"
| "read m RawExtension v = read_raw m v"
| "read m (Struct S) v = read_struct m S v"
| "read m Bytes v =
     (if v = MNil then Some VNil else case deref m v of Some (ByteArray s) \<Rightarrow> Some (VBytes s) | _ \<Rightarrow> None)"
| "read m (Ptr t) v =
     (if v = MNil then Some VNil
      else case deref m v of Some (Var x) \<Rightarrow> map_option VPtr (read m t x) | _ \<Rightarrow> None)"
| "read m (Slice t) v =
     (if v = MNil then Some VNil
      else case deref m v of Some (Array vs) \<Rightarrow> map_option VSlice (all_some (map (read m t) vs)) | _ \<Rightarrow> None)"
| "read m (Map t) v =
     (if v = MNil then Some VNil
      else case deref m v of
             Some (Entries es) \<Rightarrow> map_option VMap (pair_up (map fst es) (map (\<lambda>e. read m t (snd e)) es))
           | _ \<Rightarrow> None)"
| "read_struct m (GoStruct n fs) v =
     (case v of MStruct vs \<Rightarrow> map_option VStruct (read_fields m fs vs) | _ \<Rightarrow> None)"
| "read_fields m [] vs = (if vs = [] then Some [] else None)"
| "read_fields m (Field n t j c # fs) vs =
     (case vs of
        [] \<Rightarrow> None
      | v # vs \<Rightarrow> (case read m t v of None \<Rightarrow> None | Some g \<Rightarrow> map_option (Cons g) (read_fields m fs vs)))"

section \<open>The cells of a value\<close>

text \<open>The cells a copy is to own: all that the value reaches, except what lies behind the entries of a map and,
  unless \<open>raw\<close> holds, the bytes of raw extensions.\<close>

definition ref_of :: "mval \<Rightarrow> addr list" where
  "ref_of v = (case v of MRef a \<Rightarrow> [a] | _ \<Rightarrow> [])"

definition raw_cells :: "bool \<Rightarrow> mval \<Rightarrow> addr list" where
  "raw_cells raw v = (case v of MRaw r \<Rightarrow> if raw then ref_of r else [] | _ \<Rightarrow> [])"

fun owned :: "bool \<Rightarrow> memory \<Rightarrow> gotype \<Rightarrow> mval \<Rightarrow> addr list"
  and owned_struct :: "bool \<Rightarrow> memory \<Rightarrow> gostruct \<Rightarrow> mval \<Rightarrow> addr list"
  and owned_fields :: "bool \<Rightarrow> memory \<Rightarrow> gofield list \<Rightarrow> mval list \<Rightarrow> addr list" where
  "owned raw m (Basic b) v = []"
| "owned raw m (Enum e) v = []"
| "owned raw m RawExtension v = raw_cells raw v"
| "owned raw m (Struct S) v = owned_struct raw m S v"
| "owned raw m Bytes v = ref_of v"
| "owned raw m (Ptr t) v = ref_of v @ (case deref m v of Some (Var x) \<Rightarrow> owned raw m t x | _ \<Rightarrow> [])"
| "owned raw m (Slice t) v =
     ref_of v @ (case deref m v of Some (Array vs) \<Rightarrow> concat (map (owned raw m t) vs) | _ \<Rightarrow> [])"
| "owned raw m (Map t) v = ref_of v"
| "owned_struct raw m (GoStruct n fs) v = (case v of MStruct vs \<Rightarrow> owned_fields raw m fs vs | _ \<Rightarrow> [])"
| "owned_fields raw m [] vs = []"
| "owned_fields raw m (Field n t j c # fs) vs =
     (case vs of [] \<Rightarrow> [] | v # vs \<Rightarrow> owned raw m t v @ owned_fields raw m fs vs)"

end
