(* ===== verification/CopyFacts.thy ===== *)
theory CopyFacts
  imports DeepCopy
begin

text \<open>
  What a deep copy is: the copy reads as the original, the memory that was there is untouched, and the cells the
  copy owns are new (\<open>deep_copies\<close>). The statements of the generated functions are deep copies of the types they are
  written for, and so is the function of every generated struct.
\<close>

definition deep_copies :: "bool \<Rightarrow> gotype \<Rightarrow> copier \<Rightarrow> bool" where
  "deep_copies raw t cp \<longleftrightarrow>
     (\<forall>m v g. memory_ok m \<longrightarrow> read m t v = Some g \<longrightarrow>
        (\<exists>w m'. cp v m = Some (w, m') \<and> memory_ok m' \<and> cells m \<subseteq>\<^sub>m cells m' \<and> free m \<le> free m' \<and>
           read m' t w = Some g \<and> (\<forall>a \<in> set (owned raw m' t w). free m \<le> a)))"

lemma deep_copiesI:
  assumes "\<And>m v g. memory_ok m \<Longrightarrow> read m t v = Some g \<Longrightarrow>
     \<exists>w m'. cp v m = Some (w, m') \<and> memory_ok m' \<and> cells m \<subseteq>\<^sub>m cells m' \<and> free m \<le> free m' \<and>
       read m' t w = Some g \<and> (\<forall>a \<in> set (owned raw m' t w). free m \<le> a)"
  shows "deep_copies raw t cp"
  using assms unfolding deep_copies_def by blast

lemma deep_copiesE:
  assumes "deep_copies raw t cp" "memory_ok m" "read m t v = Some g"
  obtains w m' where "cp v m = Some (w, m')" "memory_ok m'" "cells m \<subseteq>\<^sub>m cells m'" "free m \<le> free m'"
    "read m' t w = Some g" "\<forall>a \<in> set (owned raw m' t w). free m \<le> a"
  using assms unfolding deep_copies_def by blast

section \<open>More memory\<close>

lemma deref_mono: "cells m \<subseteq>\<^sub>m cells m' \<Longrightarrow> deref m v = Some c \<Longrightarrow> deref m' v = Some c"
  by (auto simp: deref_def map_le_def dom_def split: mval.splits)

lemma all_some_mono:
  "(\<And>x g. x \<in> set xs \<Longrightarrow> f x = Some g \<Longrightarrow> h x = Some g) \<Longrightarrow> all_some (map f xs) = Some gs \<Longrightarrow>
     all_some (map h xs) = Some gs"
proof (induction xs arbitrary: gs)
  case (Cons x xs)
  then show ?case by (cases "f x") auto
qed simp

lemma pair_up_mono:
  "(\<And>x g. x \<in> set xs \<Longrightarrow> f x = Some g \<Longrightarrow> h x = Some g) \<Longrightarrow> pair_up (map k xs) (map f xs) = Some gs \<Longrightarrow>
     pair_up (map k xs) (map h xs) = Some gs"
proof (induction xs arbitrary: gs)
  case (Cons x xs)
  then show ?case by (cases "f x") auto
qed simp

lemma read_Ptr:
  "read m (Ptr t) v = Some g \<longleftrightarrow>
     v = MNil \<and> g = VNil \<or> v \<noteq> MNil \<and> (\<exists>x h. deref m v = Some (Var x) \<and> read m t x = Some h \<and> g = VPtr h)"
  by (auto split: option.splits cell.splits)

lemma read_Bytes:
  "read m Bytes v = Some g \<longleftrightarrow>
     v = MNil \<and> g = VNil \<or> v \<noteq> MNil \<and> (\<exists>s. deref m v = Some (ByteArray s) \<and> g = VBytes s)"
  by (auto split: option.splits cell.splits)

lemma read_Slice:
  "read m (Slice t) v = Some g \<longleftrightarrow>
     v = MNil \<and> g = VNil \<or>
     v \<noteq> MNil \<and> (\<exists>vs gs. deref m v = Some (Array vs) \<and> all_some (map (read m t) vs) = Some gs \<and> g = VSlice gs)"
  by (auto split: option.splits cell.splits)

lemma read_Map:
  "read m (Map t) v = Some g \<longleftrightarrow>
     v = MNil \<and> g = VNil \<or>
     v \<noteq> MNil \<and> (\<exists>es kvs. deref m v = Some (Entries es) \<and>
       pair_up (map fst es) (map (\<lambda>e. read m t (snd e)) es) = Some kvs \<and> g = VMap kvs)"
  by (auto split: option.splits cell.splits)

lemma read_struct_iff:
  "read_struct m (GoStruct n fs) v = Some g \<longleftrightarrow>
     (\<exists>vs gs. v = MStruct vs \<and> read_fields m fs vs = Some gs \<and> g = VStruct gs)"
  by (auto split: mval.splits)

lemma read_fields_Cons:
  "read_fields m (Field n t j c # fs) us = Some hs \<longleftrightarrow>
     (\<exists>v vs g gs. us = v # vs \<and> read m t v = Some g \<and> read_fields m fs vs = Some gs \<and> hs = g # gs)"
  by (auto split: list.splits option.splits)

lemmas read_iffs = read_Ptr read_Bytes read_Slice read_Map read_struct_iff read_fields_Cons

lemma read_raw_mono: "cells m \<subseteq>\<^sub>m cells m' \<Longrightarrow> read_raw m v = Some g \<Longrightarrow> read_raw m' v = Some g"
  by (auto simp: read_raw_def split: mval.splits option.splits cell.splits dest: deref_mono)

lemma read_mono:
  shows "cells m \<subseteq>\<^sub>m cells m' \<Longrightarrow> read m t v = Some g \<Longrightarrow> read m' t v = Some g"
    and "cells m \<subseteq>\<^sub>m cells m' \<Longrightarrow> read_struct m S v = Some g \<Longrightarrow> read_struct m' S v = Some g"
    and "cells m \<subseteq>\<^sub>m cells m' \<Longrightarrow> read_fields m fs vs = Some gs \<Longrightarrow> read_fields m' fs vs = Some gs"
proof (induction m t v and m S v and m fs vs arbitrary: g and g and gs rule: read_read_struct_read_fields.induct)
  case (6 m t v)
  then show ?case by (auto simp del: read.simps simp: read_Ptr dest: deref_mono)
next
  case (7 m t v)
  show ?case
  proof (cases "v = MNil")
    case False
    then obtain us hs where r: "deref m v = Some (Array us)" "all_some (map (read m t) us) = Some hs" "g = VSlice hs"
      using "7.prems"(2) unfolding read_Slice by blast
    have "all_some (map (read m' t) us) = Some hs"
      using "7.IH" [OF False r(1) refl] "7.prems"(1) by (intro all_some_mono [OF _ r(2)])
    then show ?thesis using deref_mono [OF "7.prems"(1) r(1)] False r(3) by (simp only: read_Slice) blast
  qed (use 7 in simp)
next
  case (8 m t v)
  show ?case
  proof (cases "v = MNil")
    case False
    then obtain es kvs where r: "deref m v = Some (Entries es)"
        "pair_up (map fst es) (map (\<lambda>e. read m t (snd e)) es) = Some kvs" "g = VMap kvs"
      using "8.prems"(2) unfolding read_Map by blast
    have "pair_up (map fst es) (map (\<lambda>e. read m' t (snd e)) es) = Some kvs"
      using "8.IH" [OF False r(1) refl] "8.prems"(1) by (intro pair_up_mono [OF _ r(2)]) auto
    then show ?thesis using deref_mono [OF "8.prems"(1) r(1)] False r(3) by (simp only: read_Map) blast
  qed (use 8 in simp)
next
  case (9 m n fs v)
  then show ?case by (auto simp: read_struct_iff simp del: read_struct.simps)
next
  case (11 m n t j c fs vs)
  then show ?case by (fastforce simp: read_fields_Cons simp del: read_fields.simps)
qed (auto simp: read_Bytes simp del: read.simps(5) dest: deref_mono read_raw_mono)

text \<open>The cells a value owns are there, so they stay the same when memory is added.\<close>

lemma owned_mono:
  shows "cells m \<subseteq>\<^sub>m cells m' \<Longrightarrow> read m t v = Some g \<Longrightarrow> owned raw m' t v = owned raw m t v"
    and "cells m \<subseteq>\<^sub>m cells m' \<Longrightarrow> read_struct m S v = Some g \<Longrightarrow> owned_struct raw m' S v = owned_struct raw m S v"
    and "cells m \<subseteq>\<^sub>m cells m' \<Longrightarrow> read_fields m fs vs = Some gs \<Longrightarrow>
           owned_fields raw m' fs vs = owned_fields raw m fs vs"
proof (induction m t v and m S v and m fs vs arbitrary: g and g and gs rule: read_read_struct_read_fields.induct)
  case (6 m t v)
  show ?case
  proof (cases "v = MNil")
    case False
    then obtain x h where "deref m v = Some (Var x)" "read m t x = Some h"
      using "6.prems"(2) unfolding read_Ptr by blast
    then show ?thesis using "6.IH" False "6.prems"(1) deref_mono by fastforce
  qed (simp add: deref_def)
next
  case (7 m t v)
  show ?case
  proof (cases "v = MNil")
    case False
    then obtain us hs where r: "deref m v = Some (Array us)" "all_some (map (read m t) us) = Some hs"
      using "7.prems"(2) unfolding read_Slice by blast
    have "map (owned raw m' t) us = map (owned raw m t) us"
      using r(2) "7.IH" [OF False r(1) refl] "7.prems"(1)
    proof (induction us arbitrary: hs)
      case (Cons u us)
      then show ?case by (cases "read m t u") auto
    qed simp
    then show ?thesis using deref_mono [OF "7.prems"(1) r(1)] r(1) by (simp del: map_eq_conv)
  qed (simp add: deref_def)
next
  case (9 m n fs v)
  then show ?case by (auto simp: read_struct_iff split: mval.splits)
next
  case (11 m n t j c fs vs)
  then show ?case by (fastforce simp: read_fields_Cons simp del: read_fields.simps)
qed auto

section \<open>Statements\<close>

lemma allocate_fresh:
  assumes "memory_ok m" "allocate c m = (w, m')"
  shows "w = MRef (free m)" "memory_ok m'" "cells m \<subseteq>\<^sub>m cells m'" "free m \<le> free m'" "deref m' w = Some c" "w \<noteq> MNil"
  using assms by (auto simp: allocate_def memory_ok_def map_le_def deref_def)

lemma deep_unless_nil:
  assumes "t = Ptr u \<or> t = Slice u \<or> t = Map u \<or> t = Bytes"
    and "\<And>m v g. memory_ok m \<Longrightarrow> v \<noteq> MNil \<Longrightarrow> read m t v = Some g \<Longrightarrow>
     \<exists>w m'. cp v m = Some (w, m') \<and> memory_ok m' \<and> cells m \<subseteq>\<^sub>m cells m' \<and> free m \<le> free m' \<and>
       read m' t w = Some g \<and> (\<forall>a \<in> set (owned raw m' t w). free m \<le> a)"
  shows "deep_copies raw t (unless_nil cp)"
proof (rule deep_copiesI)
  fix m v g assume m: "memory_ok m" and r: "read m t v = Some g"
  show "\<exists>w m'. unless_nil cp v m = Some (w, m') \<and> memory_ok m' \<and> cells m \<subseteq>\<^sub>m cells m' \<and> free m \<le> free m' \<and>
       read m' t w = Some g \<and> (\<forall>a \<in> set (owned raw m' t w). free m \<le> a)"
  proof (cases "v = MNil")
    case True
    then have "set (owned raw m t v) = {}" using assms(1) by (auto simp: ref_of_def deref_def)
    then show ?thesis using True m r by (auto simp: unless_nil_def)
  qed (use assms(2) [OF m _ r] in \<open>simp add: unless_nil_def\<close>)
qed

lemma deep_new_var:
  assumes "deep_copies raw t cp"
  shows "deep_copies raw (Ptr t) (unless_nil (new_var cp))"
proof (rule deep_unless_nil)
  fix m v g assume m: "memory_ok m" and v: "v \<noteq> MNil" and r: "read m (Ptr t) v = Some g"
  then obtain x h where x: "deref m v = Some (Var x)" "read m t x = Some h" "g = VPtr h" unfolding read_Ptr by blast
  obtain y m1 where y: "cp x m = Some (y, m1)" "memory_ok m1" "cells m \<subseteq>\<^sub>m cells m1" "free m \<le> free m1"
      "read m1 t y = Some h" "\<forall>a \<in> set (owned raw m1 t y). free m \<le> a"
    using deep_copiesE [OF assms m x(2)] by metis
  obtain w m2 where a: "allocate (Var y) m1 = (w, m2)" by (meson surj_pair)
  note f = allocate_fresh [OF y(2) a]
  have "read m2 (Ptr t) w = Some g" unfolding read_Ptr using f x(3) read_mono(1) [OF f(3) y(5)] by auto
  moreover have "owned raw m2 (Ptr t) w = free m1 # owned raw m1 t y"
    using owned_mono(1) [OF f(3) y(5)] f(1,5) by (simp add: ref_of_def)
  ultimately show "\<exists>w m'. new_var cp v m = Some (w, m') \<and> memory_ok m' \<and> cells m \<subseteq>\<^sub>m cells m' \<and>
       free m \<le> free m' \<and> read m' (Ptr t) w = Some g \<and> (\<forall>a \<in> set (owned raw m' (Ptr t) w). free m \<le> a)"
    using x(1) y a f(2,4) map_le_trans [OF y(3) f(3)]
    by (auto simp: new_var_def simp del: read.simps owned.simps)
qed simp

lemma deep_each:
  assumes cp: "deep_copies raw t cp"
  shows "memory_ok m \<Longrightarrow> all_some (map (read m t) vs) = Some gs \<Longrightarrow>
    \<exists>ws m'. each cp vs m = Some (ws, m') \<and> memory_ok m' \<and> cells m \<subseteq>\<^sub>m cells m' \<and> free m \<le> free m' \<and>
      all_some (map (read m' t) ws) = Some gs \<and> (\<forall>a \<in> set (concat (map (owned raw m' t) ws)). free m \<le> a)"
proof (induction vs arbitrary: m gs)
  case (Cons v vs)
  then obtain g hs where r: "read m t v = Some g" "all_some (map (read m t) vs) = Some hs" "gs = g # hs"
    by (cases "read m t v") auto
  obtain w m1 where w: "cp v m = Some (w, m1)" "memory_ok m1" "cells m \<subseteq>\<^sub>m cells m1" "free m \<le> free m1"
      "read m1 t w = Some g" "\<forall>a \<in> set (owned raw m1 t w). free m \<le> a"
    using deep_copiesE [OF cp Cons.prems(1) r(1)] by metis
  have "all_some (map (read m1 t) vs) = Some hs"
    by (rule all_some_mono [OF _ r(2)]) (rule read_mono(1) [OF w(3)])
  then obtain ws m2 where ws: "each cp vs m1 = Some (ws, m2)" "memory_ok m2" "cells m1 \<subseteq>\<^sub>m cells m2" "free m1 \<le> free m2"
      "all_some (map (read m2 t) ws) = Some hs" "\<forall>a \<in> set (concat (map (owned raw m2 t) ws)). free m1 \<le> a"
    using Cons.IH [OF w(2)] by metis
  have "read m2 t w = Some g" "owned raw m2 t w = owned raw m1 t w"
    using read_mono(1) [OF ws(3) w(5)] owned_mono(1) [OF ws(3) w(5)] by auto
  moreover have "\<forall>a \<in> set (concat (map (owned raw m2 t) ws)). free m \<le> a" using ws(6) w(4) le_trans by blast
  ultimately show ?case using w(1,4,6) ws r(3) map_le_trans [OF w(3) ws(3)] by auto
qed simp

lemma deep_new_array:
  assumes cp: "deep_copies raw t (unless_nil cp)"
  shows "deep_copies raw (Slice t) (unless_nil (new_array cp))"
proof (rule deep_unless_nil)
  fix m v g assume m: "memory_ok m" and v: "v \<noteq> MNil" and r: "read m (Slice t) v = Some g"
  then obtain vs gs where x: "deref m v = Some (Array vs)" "all_some (map (read m t) vs) = Some gs" "g = VSlice gs"
    unfolding read_Slice by blast
  obtain ws m1 where ws: "each (unless_nil cp) vs m = Some (ws, m1)" "memory_ok m1" "cells m \<subseteq>\<^sub>m cells m1" "free m \<le> free m1"
      "all_some (map (read m1 t) ws) = Some gs" "\<forall>a \<in> set (concat (map (owned raw m1 t) ws)). free m \<le> a"
    using deep_each [OF cp m x(2)] by blast
  obtain w m2 where a: "allocate (Array ws) m1 = (w, m2)" by (meson surj_pair)
  note f = allocate_fresh [OF ws(2) a]
  have l: "read m1 (Slice t) (MRef b) = Some g" if "cells m1 b = Some (Array ws)" for b
    using that ws(5) x(3) by (simp add: deref_def)
  have s: "all_some (map (read m2 t) ws) = Some gs"
    by (rule all_some_mono [OF _ ws(5)]) (rule read_mono(1) [OF f(3)])
  then have "read m2 (Slice t) w = Some g" unfolding read_Slice using f x(3) by auto
  moreover have "map (owned raw m2 t) ws = map (owned raw m1 t) ws"
    using ws(5) owned_mono(1) [OF f(3)]
  proof (induction ws arbitrary: gs)
    case (Cons u us)
    then show ?case by (cases "read m1 t u") auto
  qed simp
  then have "owned raw m2 (Slice t) w = free m1 # concat (map (owned raw m1 t) ws)"
    using f(1,5) by (simp add: ref_of_def del: map_eq_conv)
  ultimately show "\<exists>w m'. new_array cp v m = Some (w, m') \<and> memory_ok m' \<and> cells m \<subseteq>\<^sub>m cells m' \<and>
       free m \<le> free m' \<and> read m' (Slice t) w = Some g \<and> (\<forall>a \<in> set (owned raw m' (Slice t) w). free m \<le> a)"
    using x(1) ws(1,4,6) a f(2,4) map_le_trans [OF ws(3) f(3)]
    by (auto simp: new_array_def simp del: read.simps owned.simps)
qed simp

lemma owned_plain: "is_plain t \<Longrightarrow> owned raw m t v = []"
  by (auto simp: is_plain_def split: gotype.splits)

lemma deep_same_contents:
  assumes t: "t = Bytes \<or> t = Slice u \<and> is_plain u \<or> t = Map u"
  shows "deep_copies raw t (unless_nil same_contents)"
proof (rule deep_unless_nil)
  show "t = Ptr u \<or> t = Slice u \<or> t = Map u \<or> t = Bytes" using t by blast
  fix m v g assume m: "memory_ok m" and v: "v \<noteq> MNil" and r: "read m t v = Some g"
  have "deref m v \<noteq> None" using t r v by (auto split: option.splits)
  then obtain c where c: "deref m v = Some c" by blast
  obtain w m1 where a: "allocate c m = (w, m1)" by (meson surj_pair)
  note f = allocate_fresh [OF m a]
  have "read m1 t v = Some g" using read_mono(1) [OF f(3) r] .
  then have "read m1 t w = Some g" using t v f(5,6) deref_mono [OF f(3) c] by auto
  moreover have "\<forall>b \<in> set (owned raw m1 t w). free m \<le> b"
    using t f(1) by (auto simp: ref_of_def owned_plain split: option.splits cell.splits)
  ultimately show "\<exists>w m'. same_contents v m = Some (w, m') \<and> memory_ok m' \<and> cells m \<subseteq>\<^sub>m cells m' \<and>
       free m \<le> free m' \<and> read m' t w = Some g \<and> (\<forall>a \<in> set (owned raw m' t w). free m \<le> a)"
    using c a f(2,3,4) by (auto simp: same_contents_def)
qed

lemma deep_assign: "(\<And>m v. owned raw m t v = []) \<Longrightarrow> deep_copies raw t (\<lambda>x m. Some (x, m))"
  by (rule deep_copiesI) auto

lemma deep_raw: "deep_copies True RawExtension cp \<Longrightarrow> deep_copies raw RawExtension cp"
  unfolding deep_copies_def by (cases raw) (simp, simp add: raw_cells_def split: mval.splits, metis)

section \<open>Structs\<close>

text \<open>The struct or raw extension a type mentions.\<close>

fun target :: "gotype \<Rightarrow> gotype" where
  "target (Ptr t) = target t"
| "target (Slice t) = target t"
| "target t = t"

lemma target_is_target: "is_target t \<Longrightarrow> target t = t"
  by (cases t) (auto simp: is_target_def)

text \<open>The statement for a field of a generated struct.\<close>

lemma deep_field:
  assumes c: "writeDeepCopyField prim t = Some c" and s: "shape_ok t"
    and cp: "is_target (target t) \<Longrightarrow> deep_copies (\<not> prim) (target t) cp"
  shows "deep_copies (\<not> prim) t (copy_field c cp)"
proof -
  have assign: "deep_copies (\<not> prim) u (\<lambda>x m. Some (x, m))" if "isPrimitiveType prim u" for u
    using that by (intro deep_assign) (auto simp: isPrimitiveType_def raw_cells_def split: gotype.splits mval.splits)
  have called: "deep_copies (\<not> prim) u cp" if "target t = target u" "is_target u" for u
    using cp that target_is_target by metis
  show ?thesis
  proof (cases t)
    case (Ptr u)
    then have "is_target u \<or> isPrimitiveType prim u" using s
      by (auto simp: shape_ok_def isPrimitiveType_def split: gotype.splits)
    then show ?thesis using Ptr c called [of u] assign [of u]
      by (auto simp: writeDeepCopyField_def copy_field_def intro!: deep_new_var)
  next
    case (Slice u)
    show ?thesis
    proof (cases "\<exists>w. u = Ptr w")
      case True
      then obtain w where w: "u = Ptr w" "is_target w" using s Slice by (auto simp: shape_ok_def)
      then show ?thesis using Slice c called [of w] assign [of w]
        by (auto simp: writeDeepCopyField_def copy_field_def intro!: deep_new_array deep_new_var)
    next
      case False
      then have "is_plain u" "c = CopySlice" using s c Slice
        by (auto simp: shape_ok_def writeDeepCopyField_def split: gotype.splits)
      then show ?thesis using Slice by (auto simp: copy_field_def intro: deep_same_contents)
    qed
  qed (use s c in \<open>auto simp: shape_ok_def is_plain_def writeDeepCopyField_def copy_field_def intro: deep_same_contents\<close>)
qed

definition deep_fields :: "bool \<Rightarrow> gofield list \<Rightarrow> rawcopy \<Rightarrow> bool" where
  "deep_fields raw fs rc \<longleftrightarrow>
     (\<forall>m vs gs. memory_ok m \<longrightarrow> read_fields m fs vs = Some gs \<longrightarrow>
        (\<exists>ws m'. copy_fields rc fs vs m = Some (ws, m') \<and> memory_ok m' \<and> cells m \<subseteq>\<^sub>m cells m' \<and> free m \<le> free m' \<and>
           read_fields m' fs ws = Some gs \<and> (\<forall>a \<in> set (owned_fields raw m' fs ws). free m \<le> a)))"

lemma deep_fields_Cons:
  assumes f: "deep_copies raw t (case c of None \<Rightarrow> \<lambda>v m. Some (v, m) | Some c \<Rightarrow> copy_field c (copy_target rc t))"
    and fs: "deep_fields raw fs rc"
  shows "deep_fields raw (Field n t j c # fs) rc"
  unfolding deep_fields_def
proof (intro allI impI)
  fix m us hs assume m: "memory_ok m" and "read_fields m (Field n t j c # fs) us = Some hs"
  then obtain v vs g gs where r: "us = v # vs" "read m t v = Some g" "read_fields m fs vs = Some gs" "hs = g # gs"
    unfolding read_fields_Cons by blast
  obtain w m1 where w: "(case c of None \<Rightarrow> Some (v, m) | Some c \<Rightarrow> copy_field c (copy_target rc t) v m) = Some (w, m1)"
      "memory_ok m1" "cells m \<subseteq>\<^sub>m cells m1" "free m \<le> free m1" "read m1 t w = Some g"
      "\<forall>a \<in> set (owned raw m1 t w). free m \<le> a"
    by (rule deep_copiesE [OF f m r(2)]) (cases c; simp)
  obtain ws m2 where ws: "copy_fields rc fs vs m1 = Some (ws, m2)" "memory_ok m2" "cells m1 \<subseteq>\<^sub>m cells m2"
      "free m1 \<le> free m2" "read_fields m2 fs ws = Some gs" "\<forall>a \<in> set (owned_fields raw m2 fs ws). free m1 \<le> a"
    using fs w(2) read_mono(3) [OF w(3) r(3)] unfolding deep_fields_def by blast
  have "read m2 t w = Some g" "owned raw m2 t w = owned raw m1 t w"
    using read_mono(1) [OF ws(3) w(5)] owned_mono(1) [OF ws(3) w(5)] by auto
  moreover have "\<forall>a \<in> set (owned_fields raw m2 fs ws). free m \<le> a" using ws(6) w(4) le_trans by blast
  ultimately show "\<exists>ws m'. copy_fields rc (Field n t j c # fs) us m = Some (ws, m') \<and> memory_ok m' \<and>
      cells m \<subseteq>\<^sub>m cells m' \<and> free m \<le> free m' \<and> read_fields m' (Field n t j c # fs) ws = Some hs \<and>
      (\<forall>a \<in> set (owned_fields raw m' (Field n t j c # fs) ws). free m \<le> a)"
    using w(1,4,6) ws(1,2,4,5) r(1,4) map_le_trans [OF w(3) ws(3)] by auto
qed

lemma copy_target_ext:
  "copy_target rc (Struct S) = copy_struct rc S" "copy_target rc (Ptr t) = copy_target rc t"
  "copy_target rc (Slice t) = copy_target rc t" "copy_target rc RawExtension = (\<lambda>x m. Some (rc x m))"
  by (intro ext, simp)+

lemma deep_struct: "deep_copies raw (Struct S) cp \<Longrightarrow> deep_copies raw (target (Struct S)) cp"
  by simp

lemma deep_generated:
  assumes rc: "deep_copies True RawExtension (\<lambda>x m. Some (rc x m))"
  shows "generated_type prim t \<Longrightarrow> is_target (target t) \<Longrightarrow> deep_copies (\<not> prim) (target t) (copy_target rc t)"
    and "generated prim S \<Longrightarrow> deep_copies (\<not> prim) (Struct S) (copy_struct rc S)"
    and "generated_fields prim fs \<Longrightarrow> deep_fields (\<not> prim) fs rc"
proof (induction prim t and prim S and prim fs rule: generated_type_generated_generated_fields.induct)
  case (9 prim n fs)
  then have fs: "deep_fields (\<not> prim) fs rc" by (auto split: if_splits)
  show ?case
  proof (rule deep_copiesI)
    fix m v g assume m: "memory_ok m" and "read m (Struct (GoStruct n fs)) v = Some g"
    then obtain vs gs where r: "v = MStruct vs" "read_fields m fs vs = Some gs" "g = VStruct gs"
      by (auto simp: read_struct_iff simp del: read_struct.simps)
    then obtain ws m' where "copy_fields rc fs vs m = Some (ws, m')" "memory_ok m'" "cells m \<subseteq>\<^sub>m cells m'"
        "free m \<le> free m'" "read_fields m' fs ws = Some gs" "\<forall>a \<in> set (owned_fields (\<not> prim) m' fs ws). free m \<le> a"
      using fs m unfolding deep_fields_def by blast
    then show "\<exists>w m'. copy_struct rc (GoStruct n fs) v m = Some (w, m') \<and> memory_ok m' \<and> cells m \<subseteq>\<^sub>m cells m' \<and>
        free m \<le> free m' \<and> read m' (Struct (GoStruct n fs)) w = Some g \<and>
        (\<forall>a \<in> set (owned (\<not> prim) m' (Struct (GoStruct n fs)) w). free m \<le> a)"
      using r(1,3) by auto
  qed
next
  case (11 prim n t j c fs)
  then have g: "shape_ok t" "c = writeDeepCopyField prim t" "generated_type prim t" "generated_fields prim fs"
    by (auto split: if_splits)
  have "deep_copies (\<not> prim) t (\<lambda>v m. Some (v, m))" if "c = None"
    using that g(1,2) by (intro deep_assign owned_plain) (auto simp: shape_ok_def writeDeepCopyField_def split: gotype.splits)
  moreover have "deep_copies (\<not> prim) t (copy_field d (copy_target rc t))" if "c = Some d" for d
    using that g(1,2,3) 11(1) by (intro deep_field) auto
  ultimately show ?case using 11 g by (intro deep_fields_Cons) (auto split: option.splits)
qed (use rc deep_raw in \<open>auto simp: copy_target_ext is_target_def deep_fields_def\<close>)

text \<open>A change of memory behind a cell that is new leaves what was there.\<close>

lemma overwritten_apart:
  assumes "memory_ok m" "cells m \<subseteq>\<^sub>m cells m'" "free m \<le> a"
  shows "cells m \<subseteq>\<^sub>m cells (overwrite a c m')"
  using assms by (auto simp: overwrite_def memory_ok_def map_le_def dom_def)

end
