(* ===== verification/GenFacts.thy ===== *)
theory GenFacts
  imports GenCds GenEds GenHcm GenLds GenRds CopyFacts
begin

text \<open>
  The generated files are what the generator writes: every struct has the tags, types and statements that
  \<open>generated\<close> asks for, every enum is \<open>writeEnum\<close> of its values. The structs are evaluated by rewriting that looks only
  at what decides a comparison; \<open>block\<close> keeps it out of texts and lists.
\<close>

section \<open>Structs\<close>

lemma generated_step:
  "S = GoStruct n fs \<Longrightarrow> generated raw S = (if tags_differ fs then generated_fields raw fs else False)"
  by simp

lemma field_shapes:
  "shape_ok (Basic b) = True" "shape_ok (Enum e) = True" "shape_ok Bytes = True" "shape_ok (Ptr (Basic b)) = True"
  "shape_ok (Ptr RawExtension) = True" "shape_ok (Ptr (Struct S)) = True" "shape_ok (Slice (Basic b)) = True"
  "shape_ok (Slice (Enum e)) = True" "shape_ok (Slice (Ptr RawExtension)) = True"
  "shape_ok (Slice (Ptr (Struct S))) = True" "shape_ok (Map (Ptr RawExtension)) = True"
  "shape_ok (Map (Ptr (Struct S))) = True"
  by (simp_all add: shape_ok_def is_target_def is_plain_def)

lemma field_statements:
  "writeDeepCopyField raw (Basic b) = None" "writeDeepCopyField raw (Enum e) = None"
  "writeDeepCopyField raw Bytes = Some CopySlice" "writeDeepCopyField raw (Ptr (Basic b)) = Some CopyValue"
  "writeDeepCopyField True (Ptr RawExtension) = Some CopyValue"
  "writeDeepCopyField False (Ptr RawExtension) = Some CopyInto"
  "writeDeepCopyField raw (Ptr (Struct S)) = Some CopyInto"
  "writeDeepCopyField raw (Slice (Basic b)) = Some CopySlice" "writeDeepCopyField raw (Slice (Enum e)) = Some CopySlice"
  "writeDeepCopyField True (Slice (Ptr RawExtension)) = Some CopyElems"
  "writeDeepCopyField False (Slice (Ptr RawExtension)) = Some CopyElemsInto"
  "writeDeepCopyField raw (Slice (Ptr (Struct S))) = Some CopyElemsInto" "writeDeepCopyField raw (Map t) = Some CopyMap"
  by (simp_all add: writeDeepCopyField_def isPrimitiveType_def)

lemma block:
  "same_text s t = same_text s t" "tagged s fs = tagged s fs" "tags_differ fs = tags_differ fs"
  "generated_fields raw fs = generated_fields raw fs"
  by (rule refl)+

lemmas checks = list.pred_inject field_shapes field_statements same_text.simps tagged.simps tags_differ.simps
  generated_fields.simps generated_type.simps char.inject simp_thms if_True if_False

lemma cds_generated: "list_all (generated True) cds_structs"
  unfolding cds_structs_def by (simp only: checks cds_defs [THEN generated_step] cong: block if_weak_cong)

lemma eds_generated: "list_all (generated True) eds_structs"
  unfolding eds_structs_def by (simp only: checks eds_defs [THEN generated_step] cong: block if_weak_cong)

lemma hcm_generated: "list_all (generated False) hcm_structs"
  unfolding hcm_structs_def by (simp only: checks hcm_defs [THEN generated_step] cong: block if_weak_cong)

lemma lds_generated: "list_all (generated True) lds_structs"
  unfolding lds_structs_def by (simp only: checks lds_defs [THEN generated_step] cong: block if_weak_cong)

lemma rds_generated: "list_all (generated True) rds_structs"
  unfolding rds_structs_def by (simp only: checks rds_defs [THEN generated_step] cong: block if_weak_cong)

text \<open>The structs of the generators that count \<open>runtime.RawExtension\<close> as a primitive type, and of the one that does
  not.\<close>

definition generated_structs :: "bool \<Rightarrow> gostruct list" where
  "generated_structs raw = (if raw then cds_structs @ eds_structs @ lds_structs @ rds_structs else hcm_structs)"

lemma structs_generated: "S \<in> set (generated_structs raw) \<Longrightarrow> generated raw S"
  using cds_generated eds_generated hcm_generated lds_generated rds_generated
  by (auto simp: generated_structs_def list_all_iff split: if_splits)

section \<open>Enums\<close>

lemma enums_written:
  "list_all enum_ok cds_enums" "list_all enum_ok eds_enums" "list_all enum_ok hcm_enums"
  "list_all enum_ok lds_enums" "list_all enum_ok rds_enums"
  by (code_simp+)

definition generated_enums :: "goenum list" where
  "generated_enums = cds_enums @ eds_enums @ hcm_enums @ lds_enums @ rds_enums"

lemma generated_enums_ok: "E \<in> set generated_enums \<Longrightarrow> enum_ok E"
  using enums_written by (auto simp: generated_enums_def list_all_iff)

end
