(* ===== verification/GoMarshal.thy ===== *)
theory GoMarshal
  imports DeepCopy
begin

text \<open>
  What \<open>encoding/json\<close> writes for a value of a generated type, as a tree: the controllers marshal the specs and
  give the text to \<open>protojson\<close>. The fields of a struct that are empty are left out, as their tags ask for. Arguments
  (\<open>encoder\<close>): the text of a floating point number, and the \<open>MarshalJSON\<close> of \<open>runtime.RawExtension\<close>.
\<close>

section \<open>Texts\<close>

text \<open>\<open>strconv.AppendInt (n, 10)\<close>.\<close>

fun digits :: "nat \<Rightarrow> string" where
  "digits n = (if n < 10 then [char_of (48 + n)] else digits (n div 10) @ [char_of (48 + n mod 10)])"

declare digits.simps [simp del]

definition Itoa :: "int \<Rightarrow> string" where
  "Itoa n = (if n < 0 then CHR ''-'' # digits (nat (- n)) else digits (nat n))"

text \<open>A string with every byte that is not part of a UTF-8 sequence replaced by U+FFFD.\<close>

function utf8_text :: "string \<Rightarrow> string" where
  "utf8_text s =
     (case s of
        [] \<Rightarrow> []
      | c # r \<Rightarrow>
          if code c < 0x80 then c # utf8_text r
          else if utf8_len s = 0 then utf8_encode 0xFFFD @ utf8_text r
          else take (utf8_len s) s @ utf8_text (drop (utf8_len s) s))"
  by pat_completeness auto
termination
  by (relation "measure length") auto

declare utf8_text.simps [simp del]

section \<open>Values\<close>

record encoder =
  float_text :: "float64 \<Rightarrow> string option"
  raw_json :: "string option \<Rightarrow> json option"

definition isEmptyValue :: "goval \<Rightarrow> bool" where
  "isEmptyValue v =
     (case v of
        VBool b \<Rightarrow> \<not> b
      | VInt n \<Rightarrow> n = 0
      | VFloat x \<Rightarrow> x = Fin 0
      | VString s \<Rightarrow> s = []
      | VNil \<Rightarrow> True
      | VSlice vs \<Rightarrow> vs = []
      | VBytes s \<Rightarrow> s = []
      | VMap es \<Rightarrow> es = []
      | _ \<Rightarrow> False)"

definition by_key :: "string \<times> 'a \<Rightarrow> string \<times> 'a \<Rightarrow> bool" where
  "by_key a b \<longleftrightarrow> fst a < fst b"

fun Marshal :: "encoder \<Rightarrow> gotype \<Rightarrow> goval \<Rightarrow> json option"
  and marshal_fields :: "encoder \<Rightarrow> gofield list \<Rightarrow> goval list \<Rightarrow> (string \<times> json) list option"
  and marshal_elems :: "encoder \<Rightarrow> gotype \<Rightarrow> goval list \<Rightarrow> json list option"
  and marshal_entries :: "encoder \<Rightarrow> gotype \<Rightarrow> (string \<times> goval) list \<Rightarrow> (string \<times> json) list option" where
  "Marshal e t (VBool b) = Some (JBool b)"
| "Marshal e t (VInt n) = Some (JNum (Itoa n))"
| "Marshal e t (VFloat x) = map_option JNum (float_text e x)"
| "Marshal e t (VString s) = Some (JStr (utf8_text s))"
| "Marshal e t VNil = Some JNull"
| "Marshal e t (VBytes s) = Some (JStr (EncodeToString s))"
| "Marshal e t (VRaw r) = raw_json e r"
| "Marshal e t (VPtr v) = (case t of Ptr u \<Rightarrow> Marshal e u v | _ \<Rightarrow> None)"
| "Marshal e t (VSlice vs) = (case t of Slice u \<Rightarrow> map_option JArr (marshal_elems e u vs) | _ \<Rightarrow> None)"
| "Marshal e t (VMap es) =
     (case t of
        Map u \<Rightarrow> map_option (\<lambda>js. JObj (map (\<lambda>(k, j). (utf8_text k, j)) (sort_by by_key js))) (marshal_entries e u es)
      | _ \<Rightarrow> None)"
| "Marshal e t (VStruct vs) =
     (case t of Struct (GoStruct n fs) \<Rightarrow> map_option JObj (marshal_fields e fs vs) | _ \<Rightarrow> None)"
| "marshal_fields e fs [] = (if fs = [] then Some [] else None)"
| "marshal_fields e fs (v # vs) =
     (case fs of
        [] \<Rightarrow> None
      | Field n t j c # fs \<Rightarrow>
          if isEmptyValue v then marshal_fields e fs vs
          else (case Marshal e t v of None \<Rightarrow> None | Some x \<Rightarrow> map_option (Cons (j, x)) (marshal_fields e fs vs)))"

| "marshal_elems e t [] = Some []"
| "marshal_elems e t (v # vs) =
     (case Marshal e t v of None \<Rightarrow> None | Some x \<Rightarrow> map_option (Cons x) (marshal_elems e t vs))"
| "marshal_entries e t [] = Some []"
| "marshal_entries e t ((k, v) # es) =
     (case Marshal e t v of None \<Rightarrow> None | Some x \<Rightarrow> map_option (Cons (k, x)) (marshal_entries e t es))"

section \<open>Values of a type\<close>

definition in_range :: "basic \<Rightarrow> int \<Rightarrow> bool" where
  "in_range b n =
     (case b of
        Int32 \<Rightarrow> - (2 ^ 31) \<le> n \<and> n < 2 ^ 31
      | Int64 \<Rightarrow> - (2 ^ 63) \<le> n \<and> n < 2 ^ 63
      | Uint32 \<Rightarrow> 0 \<le> n \<and> n < 2 ^ 32
      | Uint64 \<Rightarrow> 0 \<le> n \<and> n < 2 ^ 64
      | _ \<Rightarrow> False)"

definition basic_value :: "basic \<Rightarrow> goval \<Rightarrow> bool" where
  "basic_value b v =
     (case v of
        VBool x \<Rightarrow> b = Bool
      | VInt n \<Rightarrow> in_range b n
      | VFloat x \<Rightarrow> b = Float64
      | VString s \<Rightarrow> b = String \<and> valid_utf8 s
      | _ \<Rightarrow> False)"

text \<open>A value of a type in an object of the API: its strings and keys come from JSON, so they are valid UTF-8.\<close>

fun api_value :: "gotype \<Rightarrow> goval \<Rightarrow> bool"
  and api_fields :: "gofield list \<Rightarrow> goval list \<Rightarrow> bool" where
  "api_value (Basic b) v = basic_value b v"
| "api_value (Enum e) v = basic_value String v"
| "api_value Bytes v = (case v of VNil \<Rightarrow> True | VBytes s \<Rightarrow> True | _ \<Rightarrow> False)"
| "api_value RawExtension v = (case v of VRaw r \<Rightarrow> True | _ \<Rightarrow> False)"
| "api_value (Ptr t) v = (case v of VNil \<Rightarrow> True | VPtr w \<Rightarrow> api_value t w | _ \<Rightarrow> False)"
| "api_value (Slice t) v = (case v of VNil \<Rightarrow> True | VSlice vs \<Rightarrow> list_all (api_value t) vs | _ \<Rightarrow> False)"
| "api_value (Map t) v =
     (case v of
        VNil \<Rightarrow> True
      | VMap es \<Rightarrow> gmap_ok es \<and> list_all (\<lambda>e. valid_utf8 (fst e) \<and> api_value t (snd e)) es
      | _ \<Rightarrow> False)"
| "api_value (Struct (GoStruct n fs)) v = (case v of VStruct vs \<Rightarrow> api_fields fs vs | _ \<Rightarrow> False)"
| "api_fields [] vs = (vs = [])"
| "api_fields (Field n t j c # fs) vs = (case vs of [] \<Rightarrow> False | v # vs \<Rightarrow> api_value t v \<and> api_fields fs vs)"

section \<open>What the text tells\<close>

text \<open>Two values the encoder does not tell apart: fields that are both empty, raw extensions and floats with the same
  text, a nil pointer and a raw extension that is null; maps as their keys and values.\<close>

definition nullish :: "encoder \<Rightarrow> goval \<Rightarrow> bool" where
  "nullish e v = (case v of VNil \<Rightarrow> True | VPtr (VRaw r) \<Rightarrow> raw_json e r = Some JNull | _ \<Rightarrow> False)"

fun same_value :: "encoder \<Rightarrow> goval \<Rightarrow> goval \<Rightarrow> bool"
  and same_elems :: "encoder \<Rightarrow> goval list \<Rightarrow> goval list \<Rightarrow> bool"
  and same_fields :: "encoder \<Rightarrow> goval list \<Rightarrow> goval list \<Rightarrow> bool"
  and same_entries :: "encoder \<Rightarrow> (string \<times> goval) list \<Rightarrow> (string \<times> goval) list \<Rightarrow> bool" where
  "same_value e (VBool b) w = (w = VBool b)"
| "same_value e (VInt n) w = (w = VInt n)"
| "same_value e (VFloat x) w = (case w of VFloat y \<Rightarrow> float_text e x = float_text e y | _ \<Rightarrow> False)"
| "same_value e (VString s) w = (w = VString s)"
| "same_value e VNil w = nullish e w"
| "same_value e (VBytes s) w = (w = VBytes s)"
| "same_value e (VRaw r) w = (case w of VRaw q \<Rightarrow> raw_json e r = raw_json e q | _ \<Rightarrow> False)"
| "same_value e (VPtr v) w =
     (case w of VPtr u \<Rightarrow> same_value e v u | VNil \<Rightarrow> nullish e (VPtr v) | _ \<Rightarrow> False)"
| "same_value e (VSlice vs) w = (case w of VSlice ws \<Rightarrow> same_elems e vs ws | _ \<Rightarrow> False)"
| "same_value e (VMap es) w = (case w of VMap fs \<Rightarrow> length es = length fs \<and> same_entries e es fs | _ \<Rightarrow> False)"
| "same_value e (VStruct vs) w = (case w of VStruct ws \<Rightarrow> same_fields e vs ws | _ \<Rightarrow> False)"
| "same_elems e [] ws = (ws = [])"
| "same_elems e (v # vs) ws = (case ws of [] \<Rightarrow> False | w # ws \<Rightarrow> same_value e v w \<and> same_elems e vs ws)"
| "same_fields e [] ws = (ws = [])"
| "same_fields e (v # vs) ws =
     (case ws of
        [] \<Rightarrow> False
      | w # ws \<Rightarrow>
          isEmptyValue v = isEmptyValue w \<and> (isEmptyValue v \<or> same_value e v w) \<and> same_fields e vs ws)"
| "same_entries e [] fs = True"
| "same_entries e ((k, v) # es) fs =
     (case map_of fs k of None \<Rightarrow> False | Some w \<Rightarrow> same_value e v w \<and> same_entries e es fs)"

end
