(* ===== verification/MarshalFacts.thy ===== *)
theory MarshalFacts
  imports GoMarshal
begin

text \<open>
  The encoder tells the values of a generated type apart unless they are the same to a reader of the text: the text
  of a number and a base64 text give the value back, the keys of a struct differ, and a map is written in the order
  of its keys.
\<close>

section \<open>Texts\<close>

definition digits_nat :: "string \<Rightarrow> nat" where
  "digits_nat s = foldl (\<lambda>n c. 10 * n + (of_char c - 48)) 0 s"

lemma digits_nat_digits [simp]: "digits_nat (digits n) = n"
proof (induction n rule: digits.induct)
  case (1 n)
  then show ?case by (subst digits.simps) (auto simp: digits_nat_def)
qed

lemma digits_plain: "c \<in> set (digits n) \<Longrightarrow> (48 :: nat) \<le> of_char c"
proof (induction n rule: digits.induct)
  case (1 n)
  then show ?case by (subst (asm) (2) digits.simps) (auto split: if_splits)
qed

lemma digits_not_minus: "digits n \<noteq> CHR ''-'' # s"
  using digits_plain [of "CHR ''-''" n] by auto

lemma digits_inj [simp]: "digits m = digits n \<longleftrightarrow> m = n"
  by (metis digits_nat_digits)

lemma Itoa_inj [simp]: "Itoa m = Itoa n \<longleftrightarrow> m = n"
  using digits_not_minus [of "nat m"] digits_not_minus [of "nat n"]
  by (auto simp: Itoa_def dest: sym)

lemma EncodeToString_inj [simp]: "EncodeToString s = EncodeToString t \<longleftrightarrow> s = t"
  by (metis Decode_Encode option.inject)

lemma utf8_text_valid: "valid_utf8 s \<Longrightarrow> utf8_text s = s"
proof (induction s rule: utf8_text.induct)
  case (1 s)
  show ?case
  proof (cases s)
    case Nil
    then show ?thesis by (subst utf8_text.simps) simp
  next
    case (Cons c r)
    then show ?thesis using 1 by (subst utf8_text.simps) (auto simp: valid_utf8_Cons)
  qed
qed

section \<open>Maps\<close>

lemma insert_by_insort: "insert_by by_key x ys = insort_key fst x ys"
  by (induction ys) (auto simp: by_key_def not_less)

lemma sort_by_sort_key: "sort_by by_key xs = sort_key fst xs"
  by (induction xs) (auto simp: insert_by_insort)

lemma sort_by_eq:
  assumes "distinct (map fst xs)" "distinct (map fst ys)"
  shows "sort_by by_key xs = sort_by by_key ys \<longleftrightarrow> set xs = set ys"
proof
  assume "set xs = set ys"
  moreover have "distinct xs" "distinct ys" using assms by (auto simp: distinct_map)
  ultimately have "mset xs = mset (sort_key fst ys)" by (simp add: set_eq_iff_mset_eq_distinct)
  then show "sort_by by_key xs = sort_by by_key ys"
    unfolding sort_by_sort_key using assms(1) by (intro sort_key_inj_key_eq) (auto simp: distinct_map)
qed (metis set_sort_by)

lemma marshal_entries_keys: "marshal_entries e t es = Some js \<Longrightarrow> map fst js = map fst es"
proof (induction es arbitrary: js)
  case (Cons a es)
  then show ?case by (cases a) (auto split: option.splits)
qed simp

lemma marshal_entries_nth:
  "marshal_entries e t es = Some js \<Longrightarrow> (k, x) \<in> set js \<longleftrightarrow> (\<exists>v. (k, v) \<in> set es \<and> Marshal e t v = Some x)"
proof (induction es arbitrary: js)
  case (Cons a es)
  then show ?case by (cases a) (auto split: option.splits)
qed simp

section \<open>Structs\<close>

lemma marshal_fields_Cons:
  "marshal_fields e (Field n t j c # fs) (v # vs) = Some js \<longleftrightarrow>
     (if isEmptyValue v then marshal_fields e fs vs = Some js
      else (\<exists>x ks. Marshal e t v = Some x \<and> marshal_fields e fs vs = Some ks \<and> js = (j, x) # ks))"
  by (auto split: option.splits)

lemma marshal_fields_keys: "marshal_fields e fs vs = Some js \<Longrightarrow> fst ` set js \<subseteq> field_tag ` set fs"
proof (induction vs arbitrary: fs js)
  case Nil
  then show ?case by (simp split: if_splits)
next
  case (Cons v vs)
  show ?case
  proof (cases fs)
    case Nil
    then show ?thesis using Cons.prems by simp
  next
    case (Cons f gs)
    obtain n t j c where f: "f = Field n t j c" by (cases f) auto
    have "marshal_fields e (Field n t j c # gs) (v # vs) = Some js" using Cons.prems Cons f by simp
    then obtain ks where ks: "marshal_fields e gs vs = Some ks" "fst ` set js \<subseteq> insert j (fst ` set ks)"
      unfolding marshal_fields_Cons by (cases "isEmptyValue v") auto
    then show ?thesis using Cons.IH [OF ks(1)] Cons f by auto
  qed
qed

text \<open>Fields with tags that differ: the texts agree when the fields do.\<close>

lemma fields_texts:
  assumes v: "marshal_fields e (Field n t j c # fs) (v # vs) = Some js"
    and w: "marshal_fields e (Field n t j c # fs) (w # ws) = Some ks"
    and tags: "j \<notin> field_tag ` set fs"
    and vals: "\<And>x y. \<not> isEmptyValue v \<Longrightarrow> \<not> isEmptyValue w \<Longrightarrow> Marshal e t v = Some x \<Longrightarrow> Marshal e t w = Some y \<Longrightarrow>
       x = y \<longleftrightarrow> same_value e v w"
    and rest: "\<And>js ks. marshal_fields e fs vs = Some js \<Longrightarrow> marshal_fields e fs ws = Some ks \<Longrightarrow>
       js = ks \<longleftrightarrow> same_fields e vs ws"
  shows "js = ks \<longleftrightarrow> same_fields e (v # vs) (w # ws)"
proof -
  have other: "js' \<noteq> (j, x) # ks'" if "marshal_fields e fs us = Some js'" for js' ks' us x
    using marshal_fields_keys [OF that] tags by auto
  consider "isEmptyValue v" "isEmptyValue w" | "isEmptyValue v" "\<not> isEmptyValue w"
    | "\<not> isEmptyValue v" "isEmptyValue w" | "\<not> isEmptyValue v" "\<not> isEmptyValue w"
    by blast
  then show ?thesis
  proof cases
    case 1
    then show ?thesis using v w rest unfolding marshal_fields_Cons by simp
  next
    case 2
    then show ?thesis using v w other unfolding marshal_fields_Cons by auto
  next
    case 3
    then show ?thesis using v w other [THEN not_sym] unfolding marshal_fields_Cons by auto
  next
    case 4
    then show ?thesis using v w rest vals unfolding marshal_fields_Cons by auto
  qed
qed

section \<open>Values\<close>

definition coded :: "gotype \<Rightarrow> bool" where
  "coded t \<longleftrightarrow> (\<exists>raw. generated_type raw t) \<and> (shape_ok t \<or> is_target t)"

lemma coded_Ptr:
  "coded (Ptr t) \<Longrightarrow> coded t \<and> t \<noteq> Bytes \<and> (\<forall>u. t \<noteq> Ptr u \<and> t \<noteq> Slice u \<and> t \<noteq> Map u)"
  by (auto simp: coded_def shape_ok_def is_target_def is_plain_def split: gotype.splits)

lemma coded_Slice: "coded (Slice t) \<Longrightarrow> coded t"
  by (auto simp: coded_def shape_ok_def is_target_def is_plain_def split: gotype.splits)

lemma coded_Map: "coded (Map t) \<Longrightarrow> coded t"
  by (auto simp: coded_def shape_ok_def is_target_def is_plain_def split: gotype.splits)

lemma same_keys:
  assumes "distinct (map fst xs)" "distinct (map fst ys)"
  shows "set xs = set ys \<longleftrightarrow> length xs = length ys \<and> set xs \<subseteq> set ys"
  using assms distinct_card [of xs] distinct_card [of ys] card_subset_eq [of "set ys" "set xs"]
  by (auto simp: distinct_map)

lemma marshal_VMap:
  assumes e: "marshal_entries e t es = Some xs" and f: "marshal_entries e t fs = Some ys"
    and ok: "gmap_ok es" "gmap_ok fs" "list_all (\<lambda>e. valid_utf8 (fst e)) es" "list_all (\<lambda>e. valid_utf8 (fst e)) fs"
  shows "map (\<lambda>(k, j). (utf8_text k, j)) (sort_by by_key xs) = map (\<lambda>(k, j). (utf8_text k, j)) (sort_by by_key ys) \<longleftrightarrow>
     length es = length fs \<and> set xs \<subseteq> set ys"
proof -
  have keys: "map fst xs = map fst es" "map fst ys = map fst fs" using marshal_entries_keys e f by auto
  have plain: "map (\<lambda>(k, j). (utf8_text k, j)) (sort_by by_key zs) = sort_by by_key zs"
    if "list_all valid_utf8 (map fst zs)" for zs :: "(string \<times> json) list"
    using that by (intro map_idI) (auto simp: list_all_iff utf8_text_valid)
  have "list_all valid_utf8 (map fst xs)" "list_all valid_utf8 (map fst ys)"
    using ok(3,4) unfolding keys by (auto simp: list_all_iff)
  moreover have "distinct (map fst xs)" "distinct (map fst ys)" using ok(1,2) keys by (simp_all add: gmap_ok_def)
  moreover have "length xs = length es" "length ys = length fs" using keys by (metis length_map)+
  ultimately show ?thesis by (simp add: plain sort_by_eq same_keys)
qed

lemma api_Struct:
  "api_value (Struct S) v =
     (case S of GoStruct n fs \<Rightarrow> (case v of VStruct vs \<Rightarrow> api_fields fs vs | _ \<Rightarrow> False))"
  by (cases S) simp

lemma api_kinds:
  "api_value t (VBool b) \<longleftrightarrow> t = Basic Bool"
  "api_value t (VInt n) \<longleftrightarrow> (\<exists>b. t = Basic b \<and> in_range b n)"
  "api_value t (VFloat f) \<longleftrightarrow> t = Basic Float64"
  "api_value t (VString s) \<longleftrightarrow> (t = Basic String \<or> (\<exists>e. t = Enum e)) \<and> valid_utf8 s"
  "api_value t VNil \<longleftrightarrow> t = Bytes \<or> (\<exists>u. t = Ptr u \<or> t = Slice u \<or> t = Map u)"
  "api_value t (VBytes s) \<longleftrightarrow> t = Bytes"
  "api_value t (VRaw r) \<longleftrightarrow> t = RawExtension"
  "api_value t (VPtr v) \<longleftrightarrow> (\<exists>u. t = Ptr u \<and> api_value u v)"
  "api_value t (VSlice vs) \<longleftrightarrow> (\<exists>u. t = Slice u \<and> list_all (api_value u) vs)"
  "api_value t (VMap es) \<longleftrightarrow>
     (\<exists>u. t = Map u \<and> gmap_ok es \<and> list_all (\<lambda>e. valid_utf8 (fst e) \<and> api_value u (snd e)) es)"
  "api_value t (VStruct vs) \<longleftrightarrow> (\<exists>n fs. t = Struct (GoStruct n fs) \<and> api_fields fs vs)"
  by (cases t; simp add: api_Struct basic_value_def in_range_def split: gostruct.splits basic.splits; fail)+

lemma marshal_null:
  assumes "coded (Ptr t)" "api_value t v" "Marshal e t v = Some x"
  shows "x = JNull \<longleftrightarrow> nullish e (VPtr v)"
  using assms coded_Ptr [OF assms(1)] by (cases v) (auto simp: api_kinds nullish_def simp del: api_value.simps)

lemma generated_fields_Cons:
  assumes "generated_fields raw (Field n t j c # fs)"
  shows "coded t" "generated_fields raw fs"
  using assms by (auto simp: coded_def split: if_splits)

lemma marshal_same:
  shows "coded t \<Longrightarrow> api_value t v \<Longrightarrow> api_value t w \<Longrightarrow> Marshal e t v = Some x \<Longrightarrow> Marshal e t w = Some y \<Longrightarrow>
       x = y \<longleftrightarrow> same_value e v w"
    and "coded t \<Longrightarrow> list_all (api_value t) vs \<Longrightarrow> list_all (api_value t) ws \<Longrightarrow> marshal_elems e t vs = Some xs \<Longrightarrow>
       marshal_elems e t ws = Some ys \<Longrightarrow> xs = ys \<longleftrightarrow> same_elems e vs ws"
    and "generated_fields raw fs \<Longrightarrow> distinct (map field_tag fs) \<Longrightarrow> api_fields fs us \<Longrightarrow> api_fields fs us' \<Longrightarrow>
       marshal_fields e fs us = Some js \<Longrightarrow> marshal_fields e fs us' = Some ks \<Longrightarrow> js = ks \<longleftrightarrow> same_fields e us us'"
    and "coded t \<Longrightarrow> list_all (\<lambda>e. api_value t (snd e)) es \<Longrightarrow> list_all (\<lambda>e. api_value t (snd e)) hs \<Longrightarrow> gmap_ok hs \<Longrightarrow>
       marshal_entries e t es = Some js \<Longrightarrow> marshal_entries e t hs = Some ks \<Longrightarrow>
       set js \<subseteq> set ks \<longleftrightarrow> same_entries e es hs"
proof (induction e v w and e vs ws and e us us' and e es hs
    arbitrary: t x y and t xs ys and raw fs js ks and t js ks rule: same_value_same_elems_same_fields_same_entries.induct)
  case (1 e b w)
  then show ?case by (cases w) (auto simp: api_kinds in_range_def simp del: api_value.simps)
next
  case (2 e n w)
  then show ?case by (cases w) (auto simp: api_kinds in_range_def simp del: api_value.simps)
next
  case (3 e f w)
  then show ?case by (cases w) (auto simp: api_kinds in_range_def simp del: api_value.simps)
next
  case (4 e s w)
  then show ?case by (cases w) (auto simp: api_kinds in_range_def utf8_text_valid simp del: api_value.simps)
next
  case (5 e w)
  show ?case
  proof (cases w)
    case (VPtr u)
    then obtain a where a: "t = Ptr a" "api_value a u" using 5 by (auto simp: api_kinds simp del: api_value.simps)
    then have "y = JNull \<longleftrightarrow> nullish e w" using 5 VPtr marshal_null [of a u e y] by auto
    then show ?thesis using 5 by auto
  qed (use 5 in \<open>auto simp: api_kinds nullish_def simp del: api_value.simps\<close>)
next
  case (6 e s w)
  then show ?case by (cases w) (auto simp: api_kinds simp del: api_value.simps)
next
  case (7 e r w)
  then show ?case by (cases w) (auto simp: api_kinds simp del: api_value.simps)
next
  case (8 e v w)
  then obtain a where a: "t = Ptr a" "api_value a v" by (auto simp: api_kinds simp del: api_value.simps)
  show ?case
  proof (cases w)
    case VNil
    then show ?thesis using 8 a marshal_null [of a v e x] by auto
  next
    case (VPtr u)
    then have u: "api_value a u" using 8(4) a(1) by (simp add: api_kinds del: api_value.simps)
    have "coded a" using coded_Ptr 8(2) a(1) by blast
    then show ?thesis using 8(1) [OF VPtr _ a(2) u] 8(5,6) VPtr a(1) by simp
  qed (use 8 a in \<open>auto simp: api_kinds simp del: api_value.simps\<close>)
next
  case (9 e vs w)
  then obtain a where a: "t = Slice a" "list_all (api_value a) vs" by (auto simp: api_kinds simp del: api_value.simps)
  show ?case
  proof (cases w)
    case (VSlice ws)
    then have u: "list_all (api_value a) ws" using 9(4) a(1) by (simp add: api_kinds del: api_value.simps)
    have "coded a" using coded_Slice 9(2) a(1) by blast
    then show ?thesis using 9(1) [OF VSlice _ a(2) u] 9(5,6) VSlice a(1) by auto
  qed (use 9 a in \<open>auto simp: api_kinds simp del: api_value.simps\<close>)
next
  case (10 e es w)
  then obtain a where a: "t = Map a" "gmap_ok es" "list_all (\<lambda>e. valid_utf8 (fst e) \<and> api_value a (snd e)) es"
    by (auto simp: api_kinds simp del: api_value.simps)
  show ?case
  proof (cases w)
    case (VMap hs)
    then have h: "gmap_ok hs" "list_all (\<lambda>e. valid_utf8 (fst e) \<and> api_value a (snd e)) hs" using 10 a(1) by (auto simp: api_kinds simp del: api_value.simps)
    obtain js ks where m: "marshal_entries e a es = Some js" "marshal_entries e a hs = Some ks"
      "x = JObj (map (\<lambda>(k, j). (utf8_text k, j)) (sort_by by_key js))"
      "y = JObj (map (\<lambda>(k, j). (utf8_text k, j)) (sort_by by_key ks))"
      using 10 a(1) VMap by auto
    have "set js \<subseteq> set ks \<longleftrightarrow> same_entries e es hs"
      using 10(1) [OF VMap coded_Map [OF 10(2) [unfolded a(1)]] _ _ h(1) m(1,2)] a(3) h(2)
      by (simp add: list_all_iff)
    moreover have "x = y \<longleftrightarrow> length es = length hs \<and> set js \<subseteq> set ks"
      unfolding m(3,4) json.inject using a h by (intro marshal_VMap [OF m(1,2)]) (auto simp: list_all_iff)
    ultimately show ?thesis using VMap by simp
  qed (use 10 a in \<open>auto simp: api_kinds simp del: api_value.simps\<close>)
next
  case (11 e vs w)
  then obtain n fs where a: "t = Struct (GoStruct n fs)" "api_fields fs vs" by (auto simp: api_kinds simp del: api_value.simps)
  have g: "distinct (map field_tag fs)" "\<exists>raw. generated_fields raw fs" using 11(2) a(1) by (auto simp: coded_def split: if_splits)
  show ?case
  proof (cases w)
    case (VStruct ws)
    then have u: "api_fields fs ws" using 11(4) a(1) by (simp add: api_kinds del: api_value.simps)
    obtain raw where "generated_fields raw fs" using g(2) by blast
    then show ?thesis using 11(1) [OF VStruct _ g(1) a(2) u] 11(5,6) VStruct a(1) by auto
  qed (use 11 a in \<open>auto simp: api_kinds simp del: api_value.simps\<close>)
next
  case (12 e ws)
  then show ?case by (cases ws) (auto split: option.splits)
next
  case (13 e v vs ws)
  show ?case
  proof (cases ws)
    case Nil
    then show ?thesis using 13 by (auto split: option.splits)
  next
    case (Cons w us)
    then obtain x' xs' y' ys' where m: "Marshal e t v = Some x'" "marshal_elems e t vs = Some xs'" "xs = x' # xs'"
        "Marshal e t w = Some y'" "marshal_elems e t us = Some ys'" "ys = y' # ys'"
      using 13(6,7) by (auto split: option.splits)
    have "x' = y' \<longleftrightarrow> same_value e v w" using 13(1) [OF Cons 13(3) _ _ m(1,4)] 13(4,5) Cons by simp
    moreover have "xs' = ys' \<longleftrightarrow> same_elems e vs us" using 13(2) [OF Cons 13(3) _ _ m(2,5)] 13(4,5) Cons by simp
    ultimately show ?thesis using Cons m by simp
  qed
next
  case (14 e ws)
  then show ?case by (cases fs; cases ws) (auto split: gofield.splits list.splits if_splits option.splits elim!: api_fields.elims)
next
  case (15 e v vs ws)
  obtain n t j c gs where f: "fs = Field n t j c # gs" "api_value t v" "api_fields gs vs"
    using 15(5) by (cases fs) (auto elim!: api_fields.elims)
  obtain w us where w: "ws = w # us" "api_value t w" "api_fields gs us" using 15(6) f(1) by (auto split: list.splits)
  note g = generated_fields_Cons [OF 15(3) [unfolded f(1)]]
  have tags: "j \<notin> field_tag ` set gs" "distinct (map field_tag gs)" using 15(4) f(1) by auto
  show ?case
    unfolding w(1)
  proof (rule fields_texts [OF 15(7) [unfolded f(1)] 15(8) [unfolded f(1) w(1)] tags(1)])
    fix x y assume "\<not> isEmptyValue v" "\<not> isEmptyValue w" "Marshal e t v = Some x" "Marshal e t w = Some y"
    then show "x = y \<longleftrightarrow> same_value e v w" using 15(1) [OF w(1)] g(1) f(2) w(2) by blast
  next
    fix js ks assume "marshal_fields e gs vs = Some js" "marshal_fields e gs us = Some ks"
    then show "js = ks \<longleftrightarrow> same_fields e vs us" using 15(2) [OF w(1)] g(2) tags(2) f(3) w(3) by blast
  qed
next
  case (16 e fs)
  then show ?case by auto
next
  case (17 e k v es hs)
  obtain z zs where z: "Marshal e t v = Some z" "marshal_entries e t es = Some zs" "js = (k, z) # zs"
    using 17(7) by (auto split: option.splits)
  have keys: "distinct (map fst ks)" using marshal_entries_keys [OF 17(8)] 17(6) by (simp add: gmap_ok_def)
  show ?case
  proof (cases "map_of hs k")
    case None
    then have "(k, z) \<notin> set ks" using marshal_entries_nth [OF 17(8)] by (auto simp: map_of_eq_None_iff image_iff)
    then show ?thesis using None z by auto
  next
    case (Some w)
    then have w: "(k, w) \<in> set hs" by (rule map_of_SomeD)
    have only: "u = w" if "(k, u) \<in> set hs" for u using 17(6) Some that by (simp add: gmap_ok_def)
    obtain y where y: "Marshal e t w = Some y" "(k, y) \<in> set ks"
    proof -
      have "fst ` set ks = fst ` set hs" using marshal_entries_keys [OF 17(8)] by (metis list.set_map)
      then have "k \<in> fst ` set ks" using w by force
      then show ?thesis using marshal_entries_nth [OF 17(8)] only that by fastforce
    qed
    have "(k, z) \<in> set ks \<longleftrightarrow> z = y" using y(2) keys by (metis eq_key_imp_eq_value)
    moreover have "z = y \<longleftrightarrow> same_value e v w"
      using 17(1) [OF Some 17(3) _ _ z(1) y(1)] 17(4,5) w by (auto simp: list_all_iff)
    moreover have "set zs \<subseteq> set ks \<longleftrightarrow> same_entries e es hs"
      using 17(2) [OF Some 17(3) _ 17(5,6) z(2) 17(8)] 17(4) by simp
    ultimately show ?thesis using Some z(3) by auto
  qed
qed

end
