(* ===== verification/GenSpec.thy ===== *)
theory GenSpec
  imports GenFacts MarshalFacts
begin

text \<open>
  What the generated types promise to the controllers that use them: a deep copy is independent of its original up to
  the values of maps and, in four of the five packages, the bytes of raw extensions; the text of a spec has exactly
  the fields that are not empty and tells two specs apart unless they are the same to its reader; every value of a
  type can be written; the tables of an enum are inverse to each other.
\<close>

section \<open>Deep copies\<close>

text \<open>\<open>runtime.RawExtension.DeepCopyInto\<close> as it is documented: it copies its receiver.\<close>

definition copies_raw :: "rawcopy \<Rightarrow> bool" where
  "copies_raw rc \<longleftrightarrow> deep_copies True RawExtension (\<lambda>x m. Some (rc x m))"

text \<open>C18. A deep copy of a generated struct is independent of its original: DeepCopyInto returns, the copy reads as the
  original and the original is as it was; whatever is written later to the cells the copy owns, the original reads
  the same. The copy owns all it reaches, except what the values of maps point to and, in the packages other than
  hcm, the bytes of raw extensions: their statements copy these by assignment.\<close>

theorem copies_are_independent:
  assumes "S \<in> set (generated_structs raw)" and rc: "copies_raw rc"
    and m: "memory_ok m" and r: "read_struct m S v = Some g"
  shows "\<exists>w m'. copy_struct rc S v m = Some (w, m') \<and> read_struct m' S w = Some g \<and> read_struct m' S v = Some g \<and>
     (\<forall>m''. (\<forall>a. a \<notin> set (owned_struct (\<not> raw) m' S w) \<longrightarrow> cells m'' a = cells m' a) \<longrightarrow>
        read_struct m'' S v = Some g)"
proof -
  have "deep_copies (\<not> raw) (Struct S) (copy_struct rc S)"
    using deep_generated(2) [OF rc [unfolded copies_raw_def]] structs_generated [OF assms(1)] .
  moreover have "read m (Struct S) v = Some g" using r by simp
  ultimately obtain w m' where c: "copy_struct rc S v m = Some (w, m')" "cells m \<subseteq>\<^sub>m cells m'"
      "read_struct m' S w = Some g" "\<forall>a \<in> set (owned_struct (\<not> raw) m' S w). free m \<le> a"
    using deep_copiesE [OF _ m, of "\<not> raw" "Struct S"] by (metis owned.simps(4) read.simps(4))
  have "read_struct m'' S v = Some g"
    if "\<forall>a. a \<notin> set (owned_struct (\<not> raw) m' S w) \<longrightarrow> cells m'' a = cells m' a" for m''
  proof (rule read_mono(2) [OF _ r])
    show "cells m \<subseteq>\<^sub>m cells m''"
      using that c(2,4) m unfolding map_le_def memory_ok_def by (metis domIff)
  qed
  then show ?thesis using c(1,3) read_mono(2) [OF c(2) r] by blast
qed

text \<open>A \<open>DeepCopyInto\<close> that copies the bytes.\<close>

definition sample_rawcopy :: rawcopy where
  "sample_rawcopy x m =
     (case x of
        MRaw r \<Rightarrow> (case deref m r of Some c \<Rightarrow> (case allocate c m of (s, m) \<Rightarrow> (MRaw s, m)) | None \<Rightarrow> (x, m))
      | _ \<Rightarrow> (x, m))"

lemma sample_copies_raw: "copies_raw sample_rawcopy"
  unfolding copies_raw_def
proof (rule deep_copiesI)
  fix m v g assume m: "memory_ok m" and g: "read m RawExtension v = Some g"
  then consider (none) "v = MRaw MNil" | (bytes) b s where "v = MRaw (MRef b)" "cells m b = Some (ByteArray s)" "g = VRaw (Some s)"
    by (auto simp: read_raw_def deref_def split: mval.splits option.splits cell.splits)
  then show "\<exists>w m'. Some (sample_rawcopy v m) = Some (w, m') \<and> memory_ok m' \<and> cells m \<subseteq>\<^sub>m cells m' \<and> free m \<le> free m' \<and>
      read m' RawExtension w = Some g \<and> (\<forall>a \<in> set (owned True m' RawExtension w). free m \<le> a)"
  proof cases
    case none
    then show ?thesis using m g by (simp add: sample_rawcopy_def deref_def raw_cells_def ref_of_def)
  next
    case bytes
    then have "sample_rawcopy v m =
        (MRaw (MRef (free m)), m\<lparr>cells := (cells m)(free m \<mapsto> ByteArray s), free := Suc (free m)\<rparr>)"
      by (simp add: sample_rawcopy_def deref_def allocate_def)
    then show ?thesis using m bytes(3)
      by (auto simp: memory_ok_def map_le_def read_raw_def deref_def raw_cells_def ref_of_def)
  qed
qed

text \<open>A filter with a runtime key and a fraction behind a pointer, and a raw extension in a map.\<close>

definition sample_memory :: memory where
  "sample_memory = \<lparr>cells = [0 \<mapsto> Var (MStruct [MInt 5, MString ''HUNDRED'']), 1 \<mapsto> Entries [(''envoy.lb'', MRef 2)],
     2 \<mapsto> Var (MRaw (MRef 3)), 3 \<mapsto> ByteArray ''{}''], free = 4\<rparr>"

definition sample_filter :: mval where
  "sample_filter = MStruct [MString ''key'', MRef 0, MBool True]"

lemma sample_memory_ok: "memory_ok sample_memory"
  by (simp add: memory_ok_def sample_memory_def)

lemma sample_filter_read:
  "read_struct sample_memory GenLds.RuntimeFilter sample_filter =
     Some (VStruct [VString ''key'', VPtr (VStruct [VInt 5, VString ''HUNDRED'']), VBool True])"
  by (simp add: sample_filter_def sample_memory_def GenLds.RuntimeFilter_def GenLds.FractionalPercent_def deref_def)

theorem copies_are_independent_witness:
  "\<exists>m'. copy_struct sample_rawcopy GenLds.RuntimeFilter sample_filter sample_memory =
       Some (MStruct [MString ''key'', MRef 4, MBool True], m') \<and>
     owned_struct False m' GenLds.RuntimeFilter (MStruct [MString ''key'', MRef 4, MBool True]) = [4] \<and>
     read_struct (overwrite 4 (Var (MStruct [MInt 50, MString ''HUNDRED''])) m') GenLds.RuntimeFilter sample_filter =
       Some (VStruct [VString ''key'', VPtr (VStruct [VInt 5, VString ''HUNDRED'']), VBool True])"
proof -
  have "GenLds.RuntimeFilter \<in> set (generated_structs True)" by (simp add: generated_structs_def lds_structs_def)
  then obtain w m' where c: "copy_struct sample_rawcopy GenLds.RuntimeFilter sample_filter sample_memory = Some (w, m')"
      "\<forall>m''. (\<forall>a. a \<notin> set (owned_struct (\<not> True) m' GenLds.RuntimeFilter w) \<longrightarrow> cells m'' a = cells m' a) \<longrightarrow>
         read_struct m'' GenLds.RuntimeFilter sample_filter =
           Some (VStruct [VString ''key'', VPtr (VStruct [VInt 5, VString ''HUNDRED'']), VBool True])"
    using copies_are_independent [OF _ sample_copies_raw sample_memory_ok sample_filter_read] by blast
  moreover from c(1) have w: "w = MStruct [MString ''key'', MRef 4, MBool True]"
      "cells m' 4 = Some (Var (MStruct [MInt 5, MString ''HUNDRED'']))"
    by (auto simp: sample_filter_def sample_memory_def GenLds.RuntimeFilter_def GenLds.FractionalPercent_def copy_field_def
        unless_nil_def new_var_def deref_def allocate_def)
  moreover from w(2) have "owned_struct False m' GenLds.RuntimeFilter w = [4]"
    by (simp add: w(1) GenLds.RuntimeFilter_def GenLds.FractionalPercent_def ref_of_def deref_def)
  ultimately show ?thesis by (auto simp: overwrite_def)
qed

text \<open>What a copy shares: the values of a map are the same pointers, so a write behind one changes the original,
  although the function is commented to copy the receiver; hcm is commented to have no maps of pointers.\<close>

theorem map_values_are_shared:
  "\<exists>w m'. copy_struct sample_rawcopy GenHcm.Metadata (MStruct [MRef 1, MNil]) sample_memory = Some (w, m') \<and>
     w = MStruct [MRef 4, MNil] \<and> cells m' 4 = cells m' 1 \<and>
     read_struct m' GenHcm.Metadata (MStruct [MRef 1, MNil]) = Some (VStruct [VMap [(''envoy.lb'', VPtr (VRaw (Some ''{}'')))], VNil]) \<and>
     read_struct (overwrite 2 (Var (MRaw MNil)) m') GenHcm.Metadata (MStruct [MRef 1, MNil]) =
       Some (VStruct [VMap [(''envoy.lb'', VPtr (VRaw None))], VNil])"
  by (simp add: GenHcm.Metadata_def sample_memory_def copy_field_def unless_nil_def same_contents_def deref_def allocate_def
      overwrite_def read_raw_def)

section \<open>The text of a spec\<close>

text \<open>C19. The text a controller marshals from a spec tells two values of a generated type apart unless they are the same
  to its reader: the texts are equal exactly when the values agree up to what same_value forgets, which is the
  difference between a nil and an empty field, between a nil pointer and a null extension, and the order of maps.\<close>

theorem spec_text_is_faithful:
  assumes S: "S \<in> set (generated_structs raw)" and v: "api_value (Struct S) v" and w: "api_value (Struct S) w"
    and x: "Marshal e (Struct S) v = Some x" and y: "Marshal e (Struct S) w = Some y"
  shows "x = y \<longleftrightarrow> same_value e v w"
proof (rule marshal_same(1) [OF _ v w x y])
  show "coded (Struct S)" using structs_generated [OF S] by (auto simp: coded_def is_target_def)
qed

definition sample_encoder :: encoder where
  "sample_encoder = \<lparr>float_text = (\<lambda>x. None), raw_json = (\<lambda>r. case r of None \<Rightarrow> Some JNull | Some s \<Rightarrow> parse_json s)\<rparr>"

text \<open>A header matcher of rds with a name, a prefix, a presence flag and an inversion flag.\<close>

definition header_matcher :: "string \<Rightarrow> string \<Rightarrow> bool \<Rightarrow> bool \<Rightarrow> goval" where
  "header_matcher name prefix present inverted =
     VStruct [VString name, VString [], VNil, VNil, VBool present, VString prefix, VString [], VString [], VNil,
       VBool inverted, VBool False]"

lemma ascii_text: "list_all (\<lambda>c. code c < 0x80) s \<Longrightarrow> valid_utf8 s"
  by (induction s) (auto simp: valid_utf8_Cons)

lemma header_matcher_value:
  "valid_utf8 name \<Longrightarrow> valid_utf8 prefix \<Longrightarrow> api_value (Struct GenRds.HeaderMatcher) (header_matcher name prefix p i)"
  by (simp add: GenRds.HeaderMatcher_def header_matcher_def basic_value_def)

lemma header_matcher_text:
  "Marshal e (Struct GenRds.HeaderMatcher) (header_matcher name prefix p i) =
     Some (JObj ((if name = [] then [] else [(''name'', JStr (utf8_text name))]) @
       (if p then [(''present_match'', JBool True)] else []) @
       (if prefix = [] then [] else [(''prefix_match'', JStr (utf8_text prefix))]) @
       (if i then [(''invert_match'', JBool True)] else [])))"
  by (simp add: GenRds.HeaderMatcher_def header_matcher_def isEmptyValue_def)

theorem spec_text_is_faithful_witness:
  "\<not> same_value sample_encoder (header_matcher ''x-user'' ''b'' False False) (header_matcher ''x-user'' ''b'' False True)"
proof -
  have "GenRds.HeaderMatcher \<in> set (generated_structs True)" by (simp add: generated_structs_def rds_structs_def)
  moreover have "valid_utf8 ''x-user''" "valid_utf8 ''b''" by (rule ascii_text; simp)+
  ultimately show ?thesis
    using spec_text_is_faithful [OF _ header_matcher_value header_matcher_value header_matcher_text header_matcher_text]
    by force
qed

definition struct_fields :: "gostruct \<Rightarrow> gofield list" where
  "struct_fields S = (case S of GoStruct n fs \<Rightarrow> fs)"

text \<open>A field that is empty cannot be set: a header matcher that asks for a header to be absent
  (present_match: false) is written with its name alone, which Envoy reads as asking for the header to be present;
  and a socket address loses the port zero.\<close>

theorem negative_presence_is_lost:
  "Marshal e (Struct GenRds.HeaderMatcher) (header_matcher (c # name) [] False False) =
     Some (JObj [(''name'', JStr (utf8_text (c # name)))]) \<and>
   Marshal e (Struct GenCds.SocketAddress)
     (VStruct [VString [], VString (d # host), VInt 0, VString [], VString [], VBool False, VString []]) =
     Some (JObj [(''address'', JStr (utf8_text (d # host)))])"
  by (simp add: header_matcher_text GenCds.SocketAddress_def isEmptyValue_def)

text \<open>The header matcher of lds has no field for what it matches: the generator did not find the file that declares
  the alternatives.\<close>

theorem lds_header_matcher_matches_nothing:
  "map field_tag (struct_fields GenLds.HeaderMatcher) = [''name'', ''invert_match'', ''treat_missing_header_as_empty''] \<and>
   {''exact_match'', ''safe_regex_match'', ''range_match'', ''present_match'', ''prefix_match'', ''suffix_match'',
     ''contains_match'', ''string_match''} \<subseteq> field_tag ` set (struct_fields GenRds.HeaderMatcher)"
  by (simp add: struct_fields_def GenLds.HeaderMatcher_def GenRds.HeaderMatcher_def)

section \<open>Enums\<close>

text \<open>The tables of every generated enum are inverse to each other: a number has the name that has this number,
  ToInt gives the number of a name in any case; a name the enum does not have is silently the number 0.\<close>

theorem enum_names_roundtrip:
  assumes "E \<in> set generated_enums"
  shows "(\<forall>i s. mget (names_of E) i = Some s \<longleftrightarrow> mget (values_of E) s = Some i) \<and>
     (\<forall>i x. mget (names_of E) i = Some (upper x) \<longrightarrow> ToInt upper E x = i) \<and>
     (\<forall>x. upper x \<notin> snd ` set (names_of E) \<longrightarrow> ToInt upper E x = 0)"
proof -
  obtain n vs where e: "E = writeEnum n vs" "distinct (map fst vs)" "distinct (map snd vs)"
    using generated_enums_ok [OF assms] by (cases E) (simp, metis)
  have t: "names_of E = map (\<lambda>(s, i). (i, s)) vs" "values_of E = vs" using e(1) by (simp_all add: writeEnum_def)
  have "map fst (names_of E) = map snd vs" by (simp add: t case_prod_unfold)
  then have "gmap_ok (names_of E)" "gmap_ok (values_of E)" using e(2,3) t(2) by (simp_all add: gmap_ok_def)
  then have "mget (names_of E) i = Some s \<longleftrightarrow> (i, s) \<in> set (names_of E)"
      "mget (values_of E) s = Some i \<longleftrightarrow> (s, i) \<in> set (values_of E)" for i s
    using in_set_mget mget_in_set by metis+
  then have both: "mget (names_of E) i = Some s \<longleftrightarrow> mget (values_of E) s = Some i" for i s
    by (force simp: t image_iff)
  have "mget (values_of E) s = None" if "s \<notin> snd ` set (names_of E)" for s
  proof (cases "mget (values_of E) s")
    case (Some i)
    then have "(i, s) \<in> set (names_of E)" using both mget_in_set by metis
    then show ?thesis using that by force
  qed
  then show ?thesis using both by (simp add: ToInt_def)
qed

theorem enum_names_roundtrip_witness:
  "ToInt (\<lambda>s. ''V2'') GenLds.ApiVersion ''v2'' = 1 \<and> ToInt (\<lambda>s. s) GenLds.ApiVersion ''V9'' = 0"
proof -
  have E: "GenLds.ApiVersion \<in> set generated_enums" by (simp add: generated_enums_def lds_enums_def)
  have "mget (names_of GenLds.ApiVersion) 1 = Some ''V2''" "''V9'' \<notin> snd ` set (names_of GenLds.ApiVersion)"
    by (simp_all add: GenLds.ApiVersion_def mget_def)
  then show ?thesis
    using enum_names_roundtrip [OF E, of "\<lambda>s. ''V2''"] enum_names_roundtrip [OF E, of "\<lambda>s. s"] by simp
qed

end
