(* ===== verification/CompositeRoute.thy ===== *)
theory CompositeRoute
  imports GenFacts
begin

text \<open>
  The type of a Route resource, \<open>src/pkg/xds/types/route/route.go\<close>: its own fields and the embedded connection manager,
  whose fields follow them in the value. The deep copy runs the statements of the route, then the \<open>DeepCopyInto\<close>
  of the embedded struct.
\<close>

definition own_fields :: "gofield list" where
  "own_fields =
     [Field ''ListenerRefs'' (Slice (Basic String)) ''listener_refs'' (Some CopySlice),
      Field ''TLSSecretRef'' (Basic String) ''tlssecret_ref'' None,
      Field ''TLSSecretRefs'' (Slice (Basic String)) ''tlssecret_refs'' (Some CopySlice),
      Field ''FilterChainMatch'' (Ptr (Struct GenLds.FilterChainMatch)) ''filter_chain_match'' (Some CopyInto),
      Field ''RouteConfig'' (Ptr (Struct GenRds.RDS)) ''route_config'' (Some CopyInto)]"

primrec fields_of :: "gostruct \<Rightarrow> gofield list" where
  "fields_of (GoStruct n fs) = fs"

definition CompositeRoute :: gostruct where
  "CompositeRoute = GoStruct ''Route'' (own_fields @ fields_of GenHcm.HCM)"

section \<open>Lists of fields\<close>

lemma copy_fields_append:
  "copy_fields rc fs vs m = Some (ws, m1) \<Longrightarrow> copy_fields rc gs us m1 = Some (xs, m2) \<Longrightarrow>
     copy_fields rc (fs @ gs) (vs @ us) m = Some (ws @ xs, m2)"
proof (induction rc fs vs m arbitrary: ws rule: copy_target_copy_struct_copy_fields.induct(3)
    [of "\<lambda>rc t x m. True" "\<lambda>rc S x m. True"])
  case (11 rc n t j c fs vs m)
  then show ?case by (auto split: list.splits option.splits prod.splits)
qed (auto split: if_splits)

lemma read_fields_split:
  "read_fields m (fs @ gs) vs = Some hs \<longleftrightarrow>
     (\<exists>us ws is js. vs = us @ ws \<and> hs = is @ js \<and> read_fields m fs us = Some is \<and> read_fields m gs ws = Some js)"
proof (induction fs arbitrary: vs hs)
  case (Cons f fs)
  obtain n t j c where f: "f = Field n t j c" by (cases f)
  show ?case unfolding f append_Cons read_fields_Cons Cons
    by (auto simp: Cons_eq_append_conv) (metis append_Cons)+
qed auto

lemma owned_fields_append:
  "read_fields m fs us = Some is \<Longrightarrow> owned_fields raw m (fs @ gs) (us @ ws) = owned_fields raw m fs us @ owned_fields raw m gs ws"
proof (induction fs arbitrary: us "is")
  case (Cons f fs)
  then show ?case by (cases f) (auto simp: read_fields_Cons simp del: read_fields.simps)
qed (auto split: if_splits)

lemma deep_fields_append:
  assumes fs: "deep_fields raw fs rc" and gs: "deep_fields raw gs rc"
  shows "deep_fields raw (fs @ gs) rc"
  unfolding deep_fields_def
proof (intro allI impI)
  fix m vs hs assume m: "memory_ok m" and "read_fields m (fs @ gs) vs = Some hs"
  then obtain us ws js ks where r: "vs = us @ ws" "hs = js @ ks" "read_fields m fs us = Some js" "read_fields m gs ws = Some ks"
    unfolding read_fields_split by blast
  obtain xs m1 where x: "copy_fields rc fs us m = Some (xs, m1)" "memory_ok m1" "cells m \<subseteq>\<^sub>m cells m1" "free m \<le> free m1"
      "read_fields m1 fs xs = Some js" "\<forall>a \<in> set (owned_fields raw m1 fs xs). free m \<le> a"
    using fs m r(3) unfolding deep_fields_def by blast
  obtain ys m2 where y: "copy_fields rc gs ws m1 = Some (ys, m2)" "memory_ok m2" "cells m1 \<subseteq>\<^sub>m cells m2" "free m1 \<le> free m2"
      "read_fields m2 gs ys = Some ks" "\<forall>a \<in> set (owned_fields raw m2 gs ys). free m1 \<le> a"
    using gs x(2) read_mono(3) [OF x(3) r(4)] unfolding deep_fields_def by blast
  have "read_fields m2 fs xs = Some js" "owned_fields raw m2 fs xs = owned_fields raw m1 fs xs"
    using read_mono(3) [OF y(3) x(5)] owned_mono(3) [OF y(3) x(5)] by auto
  moreover from this have "read_fields m2 (fs @ gs) (xs @ ys) = Some hs"
    using y(5) r(2) unfolding read_fields_split by blast
  ultimately show "\<exists>ws m'. copy_fields rc (fs @ gs) vs m = Some (ws, m') \<and> memory_ok m' \<and> cells m \<subseteq>\<^sub>m cells m' \<and>
      free m \<le> free m' \<and> read_fields m' (fs @ gs) ws = Some hs \<and> (\<forall>a \<in> set (owned_fields raw m' (fs @ gs) ws). free m \<le> a)"
    using copy_fields_append [OF x(1) y(1)] map_le_trans [OF x(3) y(3)] x(4,6) y(2,4,6) r(1)
      owned_fields_append [of m2 fs xs js raw gs ys] by fastforce
qed

text \<open>The cells owned without the bytes of extensions are among those with them.\<close>

lemma owned_fewer:
  shows "set (owned False m t v) \<subseteq> set (owned True m t v)"
    and "set (owned_struct False m S v) \<subseteq> set (owned_struct True m S v)"
    and "set (owned_fields False m fs vs) \<subseteq> set (owned_fields True m fs vs)"
proof (induction False m t v and False m S v and False m fs vs rule: owned_owned_struct_owned_fields.induct)
  case (7 m t v)
  show ?case
  proof (cases "\<exists>vs. deref m v = Some (Array vs)")
    case True
    then obtain vs where vs: "deref m v = Some (Array vs)" by blast
    then show ?thesis using "7"(1) [OF vs refl] by fastforce
  next
    case False
    then show ?thesis by (cases "deref m v") (auto split: cell.split)
  qed
qed (auto simp: raw_cells_def subset_iff split: mval.split option.split cell.split list.split)

section \<open>The deep copy of a route\<close>

lemma fewer_owned: "deep_fields True fs rc \<Longrightarrow> deep_fields False fs rc"
  unfolding deep_fields_def using owned_fewer(3) by fast

lemma struct_of_fields:
  assumes "deep_fields raw fs rc"
  shows "deep_copies raw (Struct (GoStruct n fs)) (copy_struct rc (GoStruct n fs))"
proof (rule deep_copiesI)
  fix m v g assume m: "memory_ok m" and "read m (Struct (GoStruct n fs)) v = Some g"
  then obtain vs gs where r: "v = MStruct vs" "read_fields m fs vs = Some gs" "g = VStruct gs"
    by (auto simp: read_struct_iff simp del: read_struct.simps)
  then obtain ws m' where "copy_fields rc fs vs m = Some (ws, m')" "memory_ok m'" "cells m \<subseteq>\<^sub>m cells m'"
      "free m \<le> free m'" "read_fields m' fs ws = Some gs" "\<forall>a \<in> set (owned_fields raw m' fs ws). free m \<le> a"
    using assms m unfolding deep_fields_def by blast
  then show "\<exists>w m'. copy_struct rc (GoStruct n fs) v m = Some (w, m') \<and> memory_ok m' \<and> cells m \<subseteq>\<^sub>m cells m' \<and>
      free m \<le> free m' \<and> read m' (Struct (GoStruct n fs)) w = Some g \<and>
      (\<forall>a \<in> set (owned raw m' (Struct (GoStruct n fs)) w). free m \<le> a)"
    using r(1,3) by auto
qed

lemma own_fields_generated: "generated_fields True own_fields"
proof -
  have "generated True GenLds.FilterChainMatch" "generated True GenRds.RDS"
    by (rule structs_generated, simp add: generated_structs_def lds_structs_def rds_structs_def)+
  then show ?thesis unfolding own_fields_def
    by (simp only: checks cong: block if_weak_cong)
qed

lemma generated_fields_of: "generated raw S \<Longrightarrow> generated_fields raw (fields_of S)"
  by (cases S) (simp split: if_splits)

text \<open>A deep copy of a route is one: the bytes of raw extensions aside it shares nothing but what the values of maps
  point to, although two generators made its parts.\<close>

theorem route_deep_copy:
  assumes rc: "deep_copies True RawExtension (\<lambda>x m. Some (rc x m))"
  shows "deep_copies False (Struct CompositeRoute) (copy_struct rc CompositeRoute)"
proof -
  have "generated False GenHcm.HCM" by (rule structs_generated) (simp add: generated_structs_def hcm_structs_def)
  then have "generated_fields False (fields_of GenHcm.HCM)" by (rule generated_fields_of)
  then have "deep_fields False (fields_of GenHcm.HCM) rc" using fewer_owned deep_generated(3) [OF rc, of False] by simp
  moreover have "deep_fields False own_fields rc" using deep_generated(3) [OF rc own_fields_generated] by simp
  ultimately show ?thesis unfolding CompositeRoute_def by (intro struct_of_fields deep_fields_append)
qed

end
