(* ===== verification/TypeGen.thy ===== *)
theory TypeGen
  imports GoStrings
begin

text \<open>
  The type generator, \<open>src/tools/typegen/rds/main.go\<close> (the others are variants of it): the work list of struct types, the
  texts of their field types, the clean-up of empty and of recursive types. Arguments: the Go types of Envoy
  as reflection shows them (\<open>universe\<close>). What the generator reads from the sources of Envoy, the enums and
  the alternatives of oneofs, is in the state it starts with.
\<close>

section \<open>Reflection\<close>

text \<open>A struct or an interface has a name; an int32 has the name of its enum, or of itself.\<close>

datatype rtype =
    RPtr rtype | RSlice rtype | RMap rtype rtype
  | RStruct string string
  | RInterface string
  | RInt32 string
  | RBool | RInt64 | RUint32 | RUint64 | RFloat32 | RFloat64 | RString | RUint8 | ROther

record rfield =
  rf_Name :: string
  rf_Exported :: bool
  rf_Type :: rtype
  rf_JSON :: string
  rf_Protobuf :: string

text \<open>The struct types by package and name, with their fields.\<close>

type_synonym universe = "((string \<times> string) \<times> rfield list) list"

definition struct_fields_of :: "universe \<Rightarrow> string \<times> string \<Rightarrow> rfield list" where
  "struct_fields_of U s = (case map_of U s of None \<Rightarrow> [] | Some fs \<Rightarrow> fs)"

section \<open>State\<close>

record FieldDef =
  fd_Name :: string
  fd_Type :: string
  fd_JSONName :: string

record OneofOption =
  oo_FieldName :: string
  oo_FieldType :: string
  oo_JSONName :: string

type_synonym type_defs = "(string, FieldDef list) gmap"

record Generator =
  processedTypes :: "string list"
  enumDefs :: "(string, (string \<times> int) list) gmap"
  typeDefs :: type_defs
  typeQueue :: "((string \<times> string) \<times> string) list"
  oneofWrappers :: "(string, OneofOption list) gmap"
  importsRuntime :: bool

definition raw_type :: string where
  "raw_type = ''*runtime.RawExtension''"

definition raw_slice :: string where
  "raw_slice = ''[]*runtime.RawExtension''"

definition typed_config :: FieldDef where
  "typed_config = \<lparr>fd_Name = ''TypedConfig'', fd_Type = raw_type, fd_JSONName = ''typed_config''\<rparr>"

section \<open>The queue\<close>

fun strip_ptr :: "rtype \<Rightarrow> rtype" where
  "strip_ptr (RPtr t) = strip_ptr t"
| "strip_ptr t = t"

definition queueType :: "rtype \<Rightarrow> string \<Rightarrow> Generator \<Rightarrow> Generator" where
  "queueType t outputName g =
     (case strip_ptr t of
        RStruct pkg name \<Rightarrow>
          let key = (if outputName = [] then name else outputName) in
          if key \<in> set (processedTypes g) then g
          else g\<lparr>processedTypes := key # processedTypes g, typeQueue := typeQueue g @ [((pkg, name), outputName)]\<rparr>
      | _ \<Rightarrow> g)"

section \<open>The text of a field type\<close>

definition with_runtime :: "string \<Rightarrow> Generator \<Rightarrow> string \<times> Generator" where
  "with_runtime s g = (s, g\<lparr>importsRuntime := True\<rparr>)"

text \<open>The well-known types: a part of the full name, and the text.\<close>

definition wrappers :: "(string \<times> string) list" where
  "wrappers =
     [(''wrapperspb.BoolValue'', ''*bool''), (''wrapperspb.UInt32Value'', ''*uint32''),
      (''wrapperspb.UInt64Value'', ''*uint64''), (''wrapperspb.Int32Value'', ''*int32''),
      (''wrapperspb.Int64Value'', ''*int64''), (''wrapperspb.FloatValue'', ''*float32''),
      (''wrapperspb.DoubleValue'', ''*float64''), (''wrapperspb.StringValue'', ''*string''),
      (''wrapperspb.BytesValue'', ''[]byte'')]"

definition mapStructType :: "string \<Rightarrow> string \<Rightarrow> Generator \<Rightarrow> string \<times> Generator" where
  "mapStructType pkg name g =
     (let full = pkg @ ''.'' @ name in
      if Contains full ''durationpb.Duration'' then (''string'', g)
      else if Contains full ''anypb.Any'' then with_runtime raw_type g
      else if Contains full ''structpb.Struct'' then with_runtime raw_type g
      else
        (case List.find (\<lambda>(part, s). Contains full part) wrappers of
           Some (part, s) \<Rightarrow> (s, g)
         | None \<Rightarrow>
             if Contains pkg ''envoyproxy''
             then (''*'' @ name, queueType (RStruct pkg name) name g) else ([], g)))"

definition mapEnumType :: "string \<Rightarrow> Generator \<Rightarrow> string \<times> Generator" where
  "mapEnumType name g =
     (name, if mget (enumDefs g) name = None then g\<lparr>enumDefs := mset_at name [] (enumDefs g)\<rparr> else g)"

fun mapFieldType :: "rtype \<Rightarrow> Generator \<Rightarrow> string \<times> Generator" where
  "mapFieldType (RPtr t) g =
     (case mapFieldType t g of
        (inner, g) \<Rightarrow> (if inner = [] then [] else if HasPrefix inner ''*'' then inner else ''*'' @ inner, g))"
| "mapFieldType (RSlice t) g =
     (case mapFieldType t g of (elem, g) \<Rightarrow> (if elem = [] then [] else ''[]'' @ elem, g))"
| "mapFieldType (RMap k t) g =
     (case mapFieldType k g of
        (key, g) \<Rightarrow>
          (case mapFieldType t g of
             (val, g) \<Rightarrow> (if key = [] \<or> val = [] then [] else ''map['' @ key @ '']'' @ val, g)))"
| "mapFieldType (RStruct pkg name) g = mapStructType pkg name g"
| "mapFieldType (RInterface name) g = ([], g)"
| "mapFieldType (RInt32 name) g =
     (if name \<noteq> [] \<and> name \<noteq> ''int32'' then mapEnumType name g else (''int32'', g))"
| "mapFieldType RBool g = (''bool'', g)"
| "mapFieldType RInt64 g = (''int64'', g)"
| "mapFieldType RUint32 g = (''uint32'', g)"
| "mapFieldType RUint64 g = (''uint64'', g)"
| "mapFieldType RFloat32 g = (''float32'', g)"
| "mapFieldType RFloat64 g = (''float64'', g)"
| "mapFieldType RString g = (''string'', g)"
| "mapFieldType RUint8 g = (''byte'', g)"
| "mapFieldType ROther g = ([], g)"

section \<open>Alternatives of a oneof\<close>

text \<open>The text after the last dot, or all of it.\<close>

definition after_dot :: "string \<Rightarrow> string" where
  "after_dot s = rev (takeWhile (\<lambda>c. c \<noteq> CHR ''.'') (rev s))"

definition plain_types :: "string list" where
  "plain_types = [''bool'', ''string'', ''int32'', ''int64'', ''uint32'', ''uint64'', ''float32'', ''float64'']"

definition known_types :: "(string \<times> string) list" where
  "known_types =
     [(''BoolValue'', ''*bool''), (''UInt32Value'', ''*uint32''), (''UInt64Value'', ''*uint64''),
      (''Int32Value'', ''*int32''), (''Int64Value'', ''*int64''), (''FloatValue'', ''*float32''),
      (''DoubleValue'', ''*float64''), (''StringValue'', ''*string''), (''Duration'', ''*string''), (''Empty'', ''*bool'')]"

definition simplifyOneofType :: "string \<Rightarrow> Generator \<Rightarrow> string \<times> Generator" where
  "simplifyOneofType fieldType g =
     (let isPointer = HasPrefix fieldType ''*''; t = after_dot (TrimPrefix fieldType ''*'') in
      if t \<in> set plain_types then (t, g)
      else if t = ''Any'' \<or> t = ''Struct'' then with_runtime raw_type g
      else
        (case map_of known_types t of
           Some s \<Rightarrow> (s, g)
         | None \<Rightarrow>
             if HasPrefix t ''[]'' then (t, g)
             else if mget (enumDefs g) t \<noteq> None then (t, g)
             else if CHR ''_'' \<in> set t \<and> isPointer then with_runtime raw_type g
             else if \<not> isPointer \<and> t \<notin> set (processedTypes g) then ([], g)
             else (if isPointer then ''*'' @ t else t, g)))"

section \<open>A struct\<close>

definition typesNeedingTypedConfig :: "string \<Rightarrow> bool" where
  "typesNeedingTypedConfig name \<longleftrightarrow>
     name \<in> set [''Filter'', ''TypedExtensionConfig'', ''FilterAction'', ''ClusterSpecifierPlugin'']"

definition isConfigTypeOneof :: "string \<Rightarrow> bool" where
  "isConfigTypeOneof name \<longleftrightarrow>
     name \<in> set [''ConfigType'', ''Action'', ''ClusterSpecifier'', ''HostRewriteSpecifier'', ''PathRewriteSpecifier'',
       ''PathMatchSpecifier'', ''Specifier'', ''MatchPattern'', ''ActionSpecifier'', ''HashPolicy'', ''OverrideSpecifier'']"

definition char_lower :: "char \<Rightarrow> char" where
  "char_lower c = (let n = of_char c :: nat in if 65 \<le> n \<and> n \<le> 90 then char_of (n + 32) else c)"

definition is_upper :: "char \<Rightarrow> bool" where
  "is_upper c \<longleftrightarrow> (let n = of_char c :: nat in 65 \<le> n \<and> n \<le> 90)"

text \<open>Names of fields are ASCII text.\<close>

definition toSnakeCase :: "string \<Rightarrow> string" where
  "toSnakeCase s =
     (case s of
        [] \<Rightarrow> []
      | c # r \<Rightarrow> char_lower c # concat (map (\<lambda>d. if is_upper d then [CHR ''_'', char_lower d] else [d]) r))"

text \<open>The name a tag gives: its first part, unless that is empty or a dash; the part that starts with \<open>name=\<close>.\<close>

definition getJSONName :: "rfield \<Rightarrow> string" where
  "getJSONName f =
     (let first = takeWhile (\<lambda>c. c \<noteq> CHR '','') (rf_JSON f) in
      if first \<noteq> [] \<and> first \<noteq> ''-'' then first
      else
        (case List.find (\<lambda>p. HasPrefix p ''name='') (Split (rf_Protobuf f) (CHR '','')) of
           Some p \<Rightarrow> TrimPrefix p ''name=''
         | None \<Rightarrow> toSnakeCase (rf_Name f)))"

definition has_field :: "string \<Rightarrow> FieldDef list \<Rightarrow> bool" where
  "has_field name fs \<longleftrightarrow> list_ex (\<lambda>f. fd_Name f = name) fs"

fun add_options :: "OneofOption list \<Rightarrow> FieldDef list \<Rightarrow> Generator \<Rightarrow> FieldDef list \<times> Generator" where
  "add_options [] fs g = (fs, g)"
| "add_options (x # xs) fs g =
     (if has_field (oo_FieldName x) fs then add_options xs fs g
      else
        (case simplifyOneofType (oo_FieldType x) g of
           (t, g) \<Rightarrow>
             add_options xs
               (if t = [] then fs
                else fs @ [\<lparr>fd_Name = oo_FieldName x, fd_Type = t, fd_JSONName = oo_JSONName x\<rparr>]) g))"

definition skipped :: "rfield \<Rightarrow> bool" where
  "skipped f \<longleftrightarrow> \<not> rf_Exported f \<or> rf_Name f \<in> set [''state'', ''sizeCache'', ''unknownFields''] \<or>
     HasPrefix (rf_Name f) ''XXX_''"

definition process_field :: "string \<Rightarrow> rfield \<Rightarrow> FieldDef list \<Rightarrow> Generator \<Rightarrow> FieldDef list \<times> Generator" where
  "process_field typeName f fs g =
     (if skipped f then (fs, g)
      else
        (case rf_Type f of
           RInterface i \<Rightarrow>
             if mlist (oneofWrappers g) i \<noteq> [] then add_options (mlist (oneofWrappers g) i) fs g
             else if isConfigTypeOneof (rf_Name f) then
               (if has_field ''TypedConfig'' fs then fs else fs @ [typed_config], g\<lparr>importsRuntime := True\<rparr>)
             else (fs, g)
         | t \<Rightarrow>
             (case mapFieldType t g of
                (s, g) \<Rightarrow>
                  if s = [] \<or> s = ''*'' @ typeName \<or> s = typeName \<or> getJSONName f = ''-'' then (fs, g)
                  else (fs @ [\<lparr>fd_Name = rf_Name f, fd_Type = s, fd_JSONName = getJSONName f\<rparr>], g))))"

fun process_fields :: "string \<Rightarrow> rfield list \<Rightarrow> FieldDef list \<Rightarrow> Generator \<Rightarrow> FieldDef list \<times> Generator" where
  "process_fields typeName [] fs g = (fs, g)"
| "process_fields typeName (f # r) fs g =
     (case process_field typeName f fs g of (fs, g) \<Rightarrow> process_fields typeName r fs g)"

definition processType :: "universe \<Rightarrow> string \<times> string \<Rightarrow> string \<Rightarrow> Generator \<Rightarrow> Generator" where
  "processType U s outputName g =
     (let typeName = (if outputName = [] then snd s else outputName); rfs = struct_fields_of U s in
      if HasPrefix typeName ''is'' \<or> typeName = [] then g
      else
        (case (if typesNeedingTypedConfig typeName \<and> \<not> list_ex (\<lambda>f. rf_Name f = ''TypedConfig'') rfs
               then ([typed_config], g\<lparr>importsRuntime := True\<rparr>) else ([], g)) of
           (fs, g) \<Rightarrow>
             (case process_fields typeName rfs fs g of
                (fs, g) \<Rightarrow> g\<lparr>typeDefs := mset_at typeName fs (typeDefs g)\<rparr>)))"

section \<open>The work list\<close>

text \<open>How the number of processed types and the queue grow together: what is queued is new, and named by the types.\<close>

fun struct_names :: "rtype \<Rightarrow> string list" where
  "struct_names (RPtr t) = struct_names t"
| "struct_names (RSlice t) = struct_names t"
| "struct_names (RMap k t) = struct_names k @ struct_names t"
| "struct_names (RStruct pkg name) = [name]"
| "struct_names _ = []"

definition mentioned :: "universe \<Rightarrow> string list" where
  "mentioned U = concat (map (\<lambda>(s, fs). concat (map (struct_names \<circ> rf_Type) fs)) U)"

definition grows :: "string set \<Rightarrow> Generator \<Rightarrow> Generator \<Rightarrow> bool" where
  "grows N g g' \<longleftrightarrow>
     (\<exists>new. distinct new \<and> set new \<subseteq> N - set (processedTypes g) \<and> processedTypes g' = new @ processedTypes g \<and>
        length (typeQueue g') = length (typeQueue g) + length new)"

lemma grows_refl [simp]: "grows N g g"
  unfolding grows_def by (rule exI [of _ "[]"]) simp

lemma grows_same:
  "processedTypes g' = processedTypes g \<Longrightarrow> typeQueue g' = typeQueue g \<Longrightarrow> grows N g g'"
  unfolding grows_def by (rule exI [of _ "[]"]) simp

lemma grows_trans: "grows N g g' \<Longrightarrow> grows N g' g'' \<Longrightarrow> grows N g g''"
  unfolding grows_def
proof (elim exE conjE)
  fix xs ys
  assume "distinct xs" "set xs \<subseteq> N - set (processedTypes g)" "processedTypes g' = xs @ processedTypes g"
    "length (typeQueue g') = length (typeQueue g) + length xs"
    "distinct ys" "set ys \<subseteq> N - set (processedTypes g')" "processedTypes g'' = ys @ processedTypes g'"
    "length (typeQueue g'') = length (typeQueue g') + length ys"
  then show "\<exists>new. distinct new \<and> set new \<subseteq> N - set (processedTypes g) \<and> processedTypes g'' = new @ processedTypes g \<and>
      length (typeQueue g'') = length (typeQueue g) + length new"
    by (intro exI [of _ "ys @ xs"]) auto
qed

lemma grows_mono: "grows N g g' \<Longrightarrow> N \<subseteq> M \<Longrightarrow> grows M g g'"
  unfolding grows_def by blast

lemma queueType_grows: "name \<noteq> [] \<Longrightarrow> name \<in> N \<Longrightarrow> grows N g (queueType (RStruct pkg name) name g)"
  unfolding grows_def queueType_def by (cases "name \<in> set (processedTypes g)")
    (auto intro: exI [of _ "[]"] exI [of _ "[name]"])

lemma queueType_grows': "name \<in> N \<Longrightarrow> grows N g (queueType (RStruct pkg name) name g)"
  unfolding grows_def queueType_def by (cases "name \<in> set (processedTypes g)")
    (auto intro: exI [of _ "[]"] exI [of _ "[name]"])

lemma mapFieldType_grows: "set (struct_names t) \<subseteq> N \<Longrightarrow> grows N g (snd (mapFieldType t g))"
proof (induction t g rule: mapFieldType.induct)
  case (3 k t g)
  then show ?case by (auto split: prod.splits intro: grows_trans)
qed (auto simp: mapStructType_def mapEnumType_def with_runtime_def Let_def queueType_grows' grows_same
    split: prod.splits option.splits)

lemma simplify_grows: "grows N g (snd (simplifyOneofType s g))"
  by (auto simp: simplifyOneofType_def with_runtime_def Let_def grows_same split: option.splits)

lemma add_options_grows: "grows N g (snd (add_options xs fs g))"
proof (induction xs fs g rule: add_options.induct)
  case (2 x xs fs g)
  then show ?case using simplify_grows [of N g "oo_FieldType x"] by (auto split: prod.splits intro: grows_trans)
qed simp

lemma process_field_type:
  assumes "\<not> (\<exists>i. rf_Type f = RInterface i)"
  shows "process_field name f fs g =
      (if skipped f then (fs, g)
       else case mapFieldType (rf_Type f) g of
         (s, g) \<Rightarrow>
           if s = [] \<or> s = ''*'' @ name \<or> s = name \<or> getJSONName f = ''-'' then (fs, g)
           else (fs @ [\<lparr>fd_Name = rf_Name f, fd_Type = s, fd_JSONName = getJSONName f\<rparr>], g))"
  using assms unfolding process_field_def by (cases "rf_Type f") simp_all

lemma process_field_grows:
  assumes "set (struct_names (rf_Type f)) \<subseteq> N"
  shows "grows N g (snd (process_field name f fs g))"
proof (cases "\<exists>i. rf_Type f = RInterface i")
  case True
  then show ?thesis by (auto simp: process_field_def add_options_grows grows_same)
next
  case False
  then show ?thesis using mapFieldType_grows [OF assms, of g]
    by (cases "mapFieldType (rf_Type f) g") (simp add: process_field_type)
qed

lemma process_fields_grows:
  "\<forall>f \<in> set rfs. set (struct_names (rf_Type f)) \<subseteq> N \<Longrightarrow> grows N g (snd (process_fields name rfs fs g))"
proof (induction rfs arbitrary: fs g)
  case (Cons f rfs)
  obtain fs1 g1 where r: "process_field name f fs g = (fs1, g1)" by (cases "process_field name f fs g")
  have "grows N g g1" using process_field_grows [of f N g name fs] Cons.prems r by simp
  then show ?case using grows_trans Cons r by simp
qed simp

lemma mentioned_fields:
  assumes "f \<in> set (struct_fields_of U s)"
  shows "set (struct_names (rf_Type f)) \<subseteq> set (mentioned U)"
proof -
  obtain fs where "(s, fs) \<in> set U" "f \<in> set fs"
    using assms map_of_SomeD [of U s] by (cases "map_of U s") (simp_all add: struct_fields_of_def)
  then show ?thesis unfolding mentioned_def by (cases s) fastforce
qed

lemma grows_typeDefs: "grows N g g' \<Longrightarrow> grows N g (g'\<lparr>typeDefs := d\<rparr>)"
  by (simp add: grows_def)

lemma processType_grows: "grows (set (mentioned U)) g (processType U s outputName g)"
proof -
  let ?name = "if outputName = [] then snd s else outputName"
  have fields: "grows (set (mentioned U)) h (snd (process_fields ?name (struct_fields_of U s) fs h))" for fs h
    by (rule process_fields_grows) (use mentioned_fields in blast)
  have step: "grows (set (mentioned U)) h (g'\<lparr>typeDefs := d\<rparr>)"
    if "process_fields ?name (struct_fields_of U s) fs h = (fs', g')" for fs h fs' g' d
    using that fields [of h fs] by (simp add: grows_typeDefs)
  have same: "grows (set (mentioned U)) g (g\<lparr>importsRuntime := True\<rparr>)" by (simp add: grows_same)
  show ?thesis unfolding processType_def Let_def
    by (auto split: prod.splits intro: step grows_trans [OF same step])
qed

text \<open>The loop of \<open>Generate\<close>: the first type of the queue is taken off and processed.\<close>

function process_queue :: "universe \<Rightarrow> Generator \<Rightarrow> Generator" where
  "process_queue U g =
     (case typeQueue g of
        [] \<Rightarrow> g
      | (s, outputName) # q \<Rightarrow> process_queue U (processType U s outputName (g\<lparr>typeQueue := q\<rparr>)))"
  by pat_completeness auto

definition left_over :: "universe \<Rightarrow> Generator \<Rightarrow> nat" where
  "left_over U g = 2 * card (set (mentioned U) - set (processedTypes g)) + length (typeQueue g)"

lemma left_over_less:
  assumes "typeQueue g = (s, outputName) # q"
  shows "left_over U (processType U s outputName (g\<lparr>typeQueue := q\<rparr>)) < left_over U g"
proof -
  let ?N = "set (mentioned U)" and ?g = "g\<lparr>typeQueue := q\<rparr>"
  obtain new where n: "distinct new" "set new \<subseteq> ?N - set (processedTypes g)"
      "processedTypes (processType U s outputName ?g) = new @ processedTypes g"
      "length (typeQueue (processType U s outputName ?g)) = length q + length new"
    using processType_grows [of U ?g s outputName] by (auto simp: grows_def)
  have "card (?N - set (processedTypes g) - set new) + length new = card (?N - set (processedTypes g))"
    using n(1,2) card_mono [OF _ n(2)] by (simp add: card_Diff_subset distinct_card)
  moreover have "?N - set (processedTypes (processType U s outputName ?g)) = ?N - set (processedTypes g) - set new"
    using n(3) by auto
  ultimately show ?thesis using n(4) assms by (simp add: left_over_def)
qed

termination process_queue
  by (relation "measure (\<lambda>(U, g). left_over U g)") (auto intro: left_over_less)

declare process_queue.simps [simp del]

section \<open>Empty types\<close>

definition replaceEmptyTypeRef :: "string set \<Rightarrow> string \<Rightarrow> string" where
  "replaceEmptyTypeRef gone t =
     (if HasPrefix t ''*'' \<and> TrimPrefix t ''*'' \<in> gone then raw_type
      else if HasPrefix t ''[]*'' \<and> TrimPrefix t ''[]*'' \<in> gone then raw_slice
      else if HasPrefix t ''[]'' \<and> TrimPrefix t ''[]'' \<in> gone then raw_slice
      else t)"

definition empty_types :: "type_defs \<Rightarrow> string list" where
  "empty_types ds = map fst (filter (\<lambda>(n, fs). fs = []) ds)"

definition replaceEmptyTypes :: "Generator \<Rightarrow> Generator" where
  "replaceEmptyTypes g =
     (let gone = set (empty_types (typeDefs g)) in
      if gone = {} then g
      else g\<lparr>importsRuntime := True,
        typeDefs :=
          map (\<lambda>(n, fs). (n, map (\<lambda>f. f\<lparr>fd_Type := replaceEmptyTypeRef gone (fd_Type f)\<rparr>) fs))
            (filter (\<lambda>(n, fs). n \<notin> gone) (typeDefs g))\<rparr>)"

section \<open>Recursive types\<close>

definition refers_to :: "string \<Rightarrow> string \<Rightarrow> bool" where
  "refers_to parent t \<longleftrightarrow> Contains t (''*'' @ parent) \<or> t = parent"

definition checkRecursiveReference :: "type_defs \<Rightarrow> string \<Rightarrow> string \<Rightarrow> bool" where
  "checkRecursiveReference ds parent elem =
     (case mget ds elem of
        None \<Rightarrow> False
      | Some fs \<Rightarrow>
          list_ex (\<lambda>f. refers_to parent (fd_Type f) \<or>
            (case mget ds (TrimPrefix (TrimPrefix (fd_Type f) ''[]*'') ''*'') of
               None \<Rightarrow> False
             | Some inner \<Rightarrow> list_ex (\<lambda>h. refers_to parent (fd_Type h)) inner)) fs)"

definition isRecursiveField :: "type_defs \<Rightarrow> string \<Rightarrow> string \<Rightarrow> bool" where
  "isRecursiveField ds parent t =
     (if t = ''*'' @ parent then True
      else if HasPrefix t ''[]*'' then checkRecursiveReference ds parent (TrimPrefix t ''[]*'')
      else if HasPrefix t ''*'' then checkRecursiveReference ds parent (TrimPrefix t ''*'')
      else False)"

text \<open>The field of a type with a given number; a range over a map visits the types in any order (\<open>order\<close>).\<close>

definition replace_field :: "string \<Rightarrow> nat \<Rightarrow> type_defs \<Rightarrow> type_defs" where
  "replace_field name i ds =
     (let fs = mlist ds name; f = fs ! i in
      if isRecursiveField ds name (fd_Type f)
      then mset_at name (fs[i := f\<lparr>fd_Type := if HasPrefix (fd_Type f) ''[]*'' then raw_slice else raw_type\<rparr>]) ds
      else ds)"

definition replace_type :: "string \<Rightarrow> type_defs \<Rightarrow> type_defs" where
  "replace_type name ds = fold (replace_field name) [0 ..< length (mlist ds name)] ds"

definition replaceRecursiveTypes :: "string list \<Rightarrow> Generator \<Rightarrow> Generator" where
  "replaceRecursiveTypes order g = g\<lparr>importsRuntime := True, typeDefs := fold replace_type order (typeDefs g)\<rparr>"

section \<open>The generator\<close>

text \<open>\<open>Generate\<close> from the state after the enums were read, up to the output.\<close>

definition Generate :: "universe \<Rightarrow> string \<times> string \<Rightarrow> (type_defs \<Rightarrow> string list) \<Rightarrow> Generator \<Rightarrow> Generator" where
  "Generate U root order g =
     (let g = process_queue U (queueType (RStruct (fst root) (snd root)) ''RDS'' g);
          g = replaceEmptyTypes g
      in replaceRecursiveTypes (order (typeDefs g)) g)"

end
