(* ===== verification/TypeGenFacts.thy ===== *)
theory TypeGenFacts
  imports TypeGen
begin

text \<open>
  What the generator guarantees. Every type on its work list is processed once and the list runs out; a type that a field
  mentions is queued. No field is left that its check takes for recursive, whatever order the types are visited in;
  which of them are replaced depends on the order.
\<close>

section \<open>Recursive types\<close>

text \<open>Names that cannot be taken for a part of the text of a raw extension.\<close>

definition type_name :: "string \<Rightarrow> bool" where
  "type_name n \<longleftrightarrow> n \<noteq> [] \<and> hd n \<noteq> CHR ''r'' \<and> hd n \<noteq> CHR ''*'' \<and> hd n \<noteq> CHR ''[''"

definition names_ok :: "type_defs \<Rightarrow> bool" where
  "names_ok ds \<longleftrightarrow> (\<forall>n. mget ds n \<noteq> None \<longrightarrow> type_name n)"

definition is_raw :: "string \<Rightarrow> bool" where
  "is_raw t \<longleftrightarrow> t = raw_type \<or> t = raw_slice"

lemma raw_refers_to: "type_name n \<Longrightarrow> is_raw t \<Longrightarrow> \<not> refers_to n t"
  by (cases n) (auto simp: type_name_def is_raw_def refers_to_def raw_type_def raw_slice_def HasPrefix_def)

lemma raw_inner:
  assumes "names_ok ds" and "is_raw t"
  shows "mget ds (TrimPrefix (TrimPrefix t ''[]*'') ''*'') = None" and "mget ds (TrimPrefix t ''[]*'') = None"
    "mget ds (TrimPrefix t ''*'') = None"
  using assms by (auto simp: names_ok_def type_name_def is_raw_def raw_type_def raw_slice_def TrimPrefix_def HasPrefix_def)

text \<open>The same types, with some fields raw.\<close>

definition field_weaker :: "FieldDef \<Rightarrow> FieldDef \<Rightarrow> bool" where
  "field_weaker f f' \<longleftrightarrow> fd_Name f' = fd_Name f \<and> fd_JSONName f' = fd_JSONName f \<and>
     (fd_Type f' = fd_Type f \<or> is_raw (fd_Type f'))"

definition weaker :: "type_defs \<Rightarrow> type_defs \<Rightarrow> bool" where
  "weaker ds ds' \<longleftrightarrow> (\<forall>n. rel_option (list_all2 field_weaker) (mget ds n) (mget ds' n))"

lemma weaker_refl [simp]: "weaker ds ds"
  by (auto simp: weaker_def field_weaker_def intro!: option.rel_refl list.rel_refl)

lemma weaker_trans:
  assumes "weaker ds ds'" and "weaker ds' ds''"
  shows "weaker ds ds''"
  unfolding weaker_def
proof
  fix n
  have "field_weaker x z" if "field_weaker x y" "field_weaker y z" for x y z
    using that by (auto simp: field_weaker_def)
  then have "list_all2 field_weaker xs zs" if "list_all2 field_weaker xs ys" "list_all2 field_weaker ys zs" for xs ys zs
    using that list_all2_trans [of field_weaker field_weaker field_weaker xs ys zs] by blast
  then show "rel_option (list_all2 field_weaker) (mget ds n) (mget ds'' n)"
    using assms [unfolded weaker_def, THEN spec, of n] by (auto simp: option.rel_sel)
qed

lemma weaker_None: "weaker ds ds' \<Longrightarrow> mget ds' n = None \<longleftrightarrow> mget ds n = None"
  unfolding weaker_def by (metis option.rel_distinct(1,2) option.exhaust option.rel_sel)

lemma weaker_Some:
  assumes "weaker ds ds'" and "mget ds' n = Some fs'"
  obtains fs where "mget ds n = Some fs" "list_all2 field_weaker fs fs'"
  using assms unfolding weaker_def by (metis option_rel_Some2)

lemma weaker_names: "weaker ds ds' \<Longrightarrow> names_ok ds \<Longrightarrow> names_ok ds'"
  by (simp add: names_ok_def weaker_None)

lemma weaker_field: "list_all2 field_weaker fs fs' \<Longrightarrow> f' \<in> set fs' \<Longrightarrow> \<exists>f \<in> set fs. field_weaker f f'"
  unfolding list_all2_conv_all_nth in_set_conv_nth by (metis nth_mem)

lemma refers_weaker:
  "type_name n \<Longrightarrow> field_weaker f f' \<Longrightarrow> refers_to n (fd_Type f') \<Longrightarrow> fd_Type f' = fd_Type f"
  using raw_refers_to by (auto simp: field_weaker_def)

lemma check_weaker:
  assumes w: "weaker ds ds'" and ok: "names_ok ds" and p: "type_name parent"
    and c: "checkRecursiveReference ds' parent elem"
  shows "checkRecursiveReference ds parent elem"
proof -
  obtain fs' where fs': "mget ds' elem = Some fs'" using c by (auto simp: checkRecursiveReference_def split: option.splits)
  obtain fs where fs: "mget ds elem = Some fs" "list_all2 field_weaker fs fs'" by (rule weaker_Some [OF w fs'])
  let ?in = "\<lambda>t. TrimPrefix (TrimPrefix t ''[]*'') ''*''"
  obtain f' where f': "f' \<in> set fs'" and
    r: "refers_to parent (fd_Type f') \<or>
      (\<exists>hs'. mget ds' (?in (fd_Type f')) = Some hs' \<and> (\<exists>h' \<in> set hs'. refers_to parent (fd_Type h')))"
    using c fs' by (auto simp: checkRecursiveReference_def list_ex_iff split: option.splits)
  obtain f where f: "f \<in> set fs" "field_weaker f f'" using weaker_field [OF fs(2) f'] by blast
  have "refers_to parent (fd_Type f) \<or>
      (\<exists>hs. mget ds (?in (fd_Type f)) = Some hs \<and> (\<exists>h \<in> set hs. refers_to parent (fd_Type h)))"
    using r
  proof
    assume "refers_to parent (fd_Type f')"
    then show ?thesis using refers_weaker [OF p f(2)] by simp
  next
    assume "\<exists>hs'. mget ds' (?in (fd_Type f')) = Some hs' \<and> (\<exists>h' \<in> set hs'. refers_to parent (fd_Type h'))"
    then obtain hs' h' where h': "mget ds' (?in (fd_Type f')) = Some hs'" "h' \<in> set hs'" "refers_to parent (fd_Type h')"
      by blast
    have "\<not> is_raw (fd_Type f')" using raw_inner(1) [OF weaker_names [OF w ok]] h'(1) by fastforce
    then have t: "fd_Type f' = fd_Type f" using f(2) by (auto simp: field_weaker_def)
    obtain hs where hs: "mget ds (?in (fd_Type f)) = Some hs" "list_all2 field_weaker hs hs'"
      using weaker_Some [OF w h'(1)] unfolding t .
    obtain h where "h \<in> set hs" "field_weaker h h'" using weaker_field [OF hs(2) h'(2)] by blast
    then show ?thesis using hs(1) refers_weaker [OF p, of h h'] h'(3) by auto
  qed
  then show ?thesis using fs(1) f(1) by (auto simp: checkRecursiveReference_def list_ex_iff intro!: bexI [of _ f])
qed

lemma recursive_weaker:
  "weaker ds ds' \<Longrightarrow> names_ok ds \<Longrightarrow> type_name parent \<Longrightarrow> isRecursiveField ds' parent t \<Longrightarrow> isRecursiveField ds parent t"
  using check_weaker by (auto simp: isRecursiveField_def split: if_splits)

lemma raw_not_recursive:
  assumes "names_ok ds" and "type_name parent" and "is_raw t"
  shows "\<not> isRecursiveField ds parent t"
proof -
  have "hd (tl raw_type) = CHR ''r''" "hd raw_slice = CHR ''[''" by (simp_all add: raw_type_def raw_slice_def)
  moreover have "hd (tl (''*'' @ parent)) \<noteq> CHR ''r''" "hd (''*'' @ parent) \<noteq> CHR ''[''"
    using assms(2) by (simp_all add: type_name_def)
  ultimately have "raw_type \<noteq> ''*'' @ parent" "raw_slice \<noteq> ''*'' @ parent" by metis+
  moreover have "\<not> HasPrefix raw_type ''[]*''" "HasPrefix raw_slice ''[]*''"
    by (simp_all add: HasPrefix_def raw_type_def raw_slice_def)
  ultimately show ?thesis using assms(3) raw_inner(2,3) [OF assms(1,3)]
    by (auto simp: is_raw_def isRecursiveField_def checkRecursiveReference_def)
qed

definition settled :: "string \<Rightarrow> nat \<Rightarrow> type_defs \<Rightarrow> bool" where
  "settled name i ds \<longleftrightarrow> (\<forall>j < i. j < length (mlist ds name) \<longrightarrow> \<not> isRecursiveField ds name (fd_Type (mlist ds name ! j)))"

lemma weaker_mlist: "weaker ds ds' \<Longrightarrow> list_all2 field_weaker (mlist ds n) (mlist ds' n)"
  unfolding weaker_def mlist_def by (drule spec [of _ n]) (auto simp: option_rel_Some1 split: option.splits)

lemma settled_weaker:
  assumes w: "weaker ds ds'" and ok: "names_ok ds" and p: "type_name n" and s: "settled n i ds"
  shows "settled n i ds'"
  unfolding settled_def
proof (intro allI impI)
  fix j assume j: "j < i" "j < length (mlist ds' n)"
  note l = weaker_mlist [OF w, of n]
  have len: "length (mlist ds n) = length (mlist ds' n)" using l by (rule list_all2_lengthD)
  have f: "field_weaker (mlist ds n ! j) (mlist ds' n ! j)" using l j(2) len by (simp add: list_all2_conv_all_nth)
  show "\<not> isRecursiveField ds' n (fd_Type (mlist ds' n ! j))"
  proof (cases "is_raw (fd_Type (mlist ds' n ! j))")
    case True
    then show ?thesis using raw_not_recursive weaker_names [OF w ok] p by blast
  next
    case False
    then have "fd_Type (mlist ds' n ! j) = fd_Type (mlist ds n ! j)" using f by (auto simp: field_weaker_def)
    moreover have "\<not> isRecursiveField ds n (fd_Type (mlist ds n ! j))" using s j len by (simp add: settled_def)
    ultimately show ?thesis using recursive_weaker [OF w ok p] by metis
  qed
qed

lemma replace_field_weaker:
  assumes "mget ds n \<noteq> None" and i: "i < length (mlist ds n)"
  shows "weaker ds (replace_field n i ds)"
proof -
  obtain fs where fs: "mget ds n = Some fs" using assms(1) by blast
  then have l: "mlist ds n = fs" by (simp add: mlist_def)
  have "list_all2 field_weaker fs (fs[i := (fs ! i)\<lparr>fd_Type := t\<rparr>])" if "is_raw t" for t
    using that i l by (auto simp: list_all2_conv_all_nth nth_list_update field_weaker_def)
  moreover have "list_all2 field_weaker gs gs" for gs by (simp add: list_all2_conv_all_nth field_weaker_def)
  then have "rel_option (list_all2 field_weaker) x x" for x by (cases x) simp_all
  ultimately show ?thesis using fs l by (auto simp: weaker_def replace_field_def Let_def is_raw_def)
qed

lemma replace_field_settled:
  assumes ok: "names_ok ds" and p: "type_name n" and n: "mget ds n \<noteq> None" and i: "i < length (mlist ds n)"
    and s: "settled n i ds"
  shows "settled n (Suc i) (replace_field n i ds)"
proof -
  let ?ds = "replace_field n i ds"
  have w: "weaker ds ?ds" using replace_field_weaker [OF n i] .
  have "settled n i ?ds" using settled_weaker [OF w ok p s] .
  moreover have "\<not> isRecursiveField ?ds n (fd_Type (mlist ?ds n ! i))"
  proof (cases "isRecursiveField ds n (fd_Type (mlist ds n ! i))")
    case True
    then have "is_raw (fd_Type (mlist ?ds n ! i))" using i by (auto simp: replace_field_def Let_def is_raw_def)
    then show ?thesis using raw_not_recursive weaker_names [OF w ok] p by blast
  next
    case False
    then show ?thesis by (simp add: replace_field_def Let_def)
  qed
  ultimately show ?thesis by (auto simp: settled_def less_Suc_eq)
qed

lemma replace_fields_settled:
  assumes ok: "names_ok ds" and p: "type_name n" and n: "mget ds n \<noteq> None" and k: "k \<le> length (mlist ds n)"
  shows "weaker ds (fold (replace_field n) [0 ..< k] ds) \<and> settled n k (fold (replace_field n) [0 ..< k] ds)"
  using k
proof (induction k)
  case 0
  then show ?case by (simp add: settled_def)
next
  case (Suc k)
  let ?ds = "fold (replace_field n) [0 ..< k] ds"
  have w: "weaker ds ?ds" "settled n k ?ds" using Suc by simp_all
  have "k < length (mlist ?ds n)" using Suc.prems list_all2_lengthD [OF weaker_mlist [OF w(1)]] by simp
  then show ?case
    using replace_field_settled [OF weaker_names [OF w(1) ok] p _ _ w(2)] replace_field_weaker [of ?ds n k]
      weaker_trans [OF w(1)] weaker_None [OF w(1), of n] n by simp
qed

lemma replace_type_settled:
  assumes "names_ok ds" and "mget ds n \<noteq> None"
  shows "weaker ds (replace_type n ds) \<and> settled n (length (mlist (replace_type n ds) n)) (replace_type n ds)"
proof -
  have "type_name n" using assms by (auto simp: names_ok_def)
  then have r: "weaker ds (replace_type n ds)" "settled n (length (mlist ds n)) (replace_type n ds)"
    using replace_fields_settled [OF assms(1) _ assms(2) order.refl] by (simp_all add: replace_type_def)
  moreover have "length (mlist (replace_type n ds) n) = length (mlist ds n)"
    using list_all2_lengthD [OF weaker_mlist [OF r(1)]] by simp
  ultimately show ?thesis by simp
qed

lemma replace_types_settled:
  assumes "names_ok ds" and "\<forall>n \<in> set order. mget ds n \<noteq> None"
  shows "weaker ds (fold replace_type order ds) \<and>
    (\<forall>n \<in> set order. settled n (length (mlist (fold replace_type order ds) n)) (fold replace_type order ds))"
  using assms(2)
proof (induction order rule: rev_induct)
  case (snoc n order)
  let ?ds = "fold replace_type order ds" and ?ds' = "replace_type n (fold replace_type order ds)"
  have ih: "weaker ds ?ds" "\<forall>m \<in> set order. settled m (length (mlist ?ds m)) ?ds" using snoc by simp_all
  have ok: "names_ok ?ds" using weaker_names [OF ih(1) assms(1)] .
  have r: "weaker ?ds ?ds'" "settled n (length (mlist ?ds' n)) ?ds'"
    using replace_type_settled [OF ok] snoc.prems weaker_None [OF ih(1)] by simp_all
  moreover have "settled m (length (mlist ?ds' m)) ?ds'" if "m \<in> set order" for m
  proof -
    have "type_name m" using that snoc.prems assms(1) by (auto simp: names_ok_def)
    moreover have "length (mlist ?ds' m) = length (mlist ?ds m)"
      using list_all2_lengthD [OF weaker_mlist [OF r(1), of m]] by simp
    ultimately show ?thesis using settled_weaker [OF r(1) ok] ih(2) that by metis
  qed
  ultimately show ?case using weaker_trans [OF ih(1) r(1)] by auto
qed simp

text \<open>C37. After the clean-up no field of a generated type is one that the generator takes for recursive, in whatever order
  the range over the map visited the types; nothing else has changed than that some fields are raw extensions.\<close>

theorem no_recursive_field_left:
  assumes "names_ok (typeDefs g)" and order: "\<And>n. n \<in> set order \<longleftrightarrow> mget (typeDefs g) n \<noteq> None"
    and ds: "ds = typeDefs (replaceRecursiveTypes order g)"
  shows "weaker (typeDefs g) ds \<and>
    (\<forall>n fs f. mget ds n = Some fs \<longrightarrow> f \<in> set fs \<longrightarrow> \<not> isRecursiveField ds n (fd_Type f))"
proof -
  have r: "weaker (typeDefs g) ds" "\<forall>n \<in> set order. settled n (length (mlist ds n)) ds"
    using replace_types_settled [OF assms(1)] order unfolding ds replaceRecursiveTypes_def by simp_all
  moreover have "\<not> isRecursiveField ds n (fd_Type f)" if d: "mget ds n = Some fs" "f \<in> set fs" for n fs f
  proof -
    have "n \<in> set order" using order weaker_None [OF r(1), of n] d(1) by simp
    then have "settled n (length fs) ds" "mlist ds n = fs" using r(2) d(1) by (auto simp: mlist_def)
    then show ?thesis using d(2) by (auto simp: settled_def in_set_conv_nth)
  qed
  ultimately show ?thesis by blast
qed

text \<open>Two types that mention each other, and one whose name continues that of another.\<close>

definition sample_types :: type_defs where
  "sample_types =
     [(''ValueMatcher'', [\<lparr>fd_Name = ''ListMatch'', fd_Type = ''*ListMatcher'', fd_JSONName = ''list_match''\<rparr>]),
      (''ListMatcher'', [\<lparr>fd_Name = ''OneOf'', fd_Type = ''*ValueMatcher'', fd_JSONName = ''one_of''\<rparr>])]"

definition sample_generator :: Generator where
  "sample_generator =
     \<lparr>processedTypes = [], enumDefs = [], typeDefs = sample_types, typeQueue = [], oneofWrappers = [],
      importsRuntime = False\<rparr>"

theorem no_recursive_field_left_witness:
  "\<not> isRecursiveField (typeDefs (replaceRecursiveTypes [''ListMatcher'', ''ValueMatcher''] sample_generator))
     ''ValueMatcher'' ''*ListMatcher''"
proof -
  let ?ds = "typeDefs (replaceRecursiveTypes [''ListMatcher'', ''ValueMatcher''] sample_generator)"
  have ok: "names_ok (typeDefs sample_generator)"
    by (auto simp: names_ok_def type_name_def sample_generator_def sample_types_def mget_def split: if_splits)
  have order: "n \<in> set [''ListMatcher'', ''ValueMatcher''] \<longleftrightarrow> mget (typeDefs sample_generator) n \<noteq> None" for n
    by (auto simp: sample_generator_def sample_types_def mget_def)
  have "mget ?ds ''ValueMatcher'' =
      Some [\<lparr>fd_Name = ''ListMatch'', fd_Type = ''*ListMatcher'', fd_JSONName = ''list_match''\<rparr>]"
    by code_simp
  from no_recursive_field_left [OF ok order refl, THEN conjunct2, rule_format, OF this list.set_intros(1)]
  show ?thesis by simp
qed

text \<open>Which of the two is left depends on the order.\<close>

theorem output_depends_on_order:
  "mget (typeDefs (replaceRecursiveTypes [''ListMatcher'', ''ValueMatcher''] sample_generator)) ''ListMatcher'' \<noteq>
   mget (typeDefs (replaceRecursiveTypes [''ValueMatcher'', ''ListMatcher''] sample_generator)) ''ListMatcher''"
  by code_simp

text \<open>A field of the type \<open>*RouteMatch\<close> counts as a reference to \<open>Route\<close>.\<close>

theorem longer_name_counts_as_reference:
  "isRecursiveField
     [(''Route'', [\<lparr>fd_Name = ''Action'', fd_Type = ''*Action'', fd_JSONName = ''action''\<rparr>]),
      (''Action'', [\<lparr>fd_Name = ''Match'', fd_Type = ''*RouteMatch'', fd_JSONName = ''match''\<rparr>]),
      (''RouteMatch'', [])] ''Route'' ''*Action''"
  by code_simp

section \<open>The work list\<close>

definition queue_key :: "(string \<times> string) \<times> string \<Rightarrow> string" where
  "queue_key x = (if snd x = [] then snd (fst x) else snd x)"

definition not_written :: "string \<Rightarrow> bool" where
  "not_written n \<longleftrightarrow> HasPrefix n ''is'' \<or> n = []"

definition accounted :: "Generator \<Rightarrow> bool" where
  "accounted g \<longleftrightarrow>
     (\<forall>n \<in> set (processedTypes g). mget (typeDefs g) n \<noteq> None \<or> n \<in> queue_key ` set (typeQueue g) \<or> not_written n)"

text \<open>What an operation of the generator does to the queue: it appends what it marks as processed.\<close>

definition appends :: "Generator \<Rightarrow> Generator \<Rightarrow> bool" where
  "appends g g' \<longleftrightarrow> typeDefs g' = typeDefs g \<and>
     (\<exists>q. typeQueue g' = typeQueue g @ q \<and> set (processedTypes g') = set (processedTypes g) \<union> queue_key ` set q)"

lemma appends_refl [simp]: "appends g g"
  by (simp add: appends_def)

lemma appends_same:
  "typeDefs g' = typeDefs g \<Longrightarrow> processedTypes g' = processedTypes g \<Longrightarrow> typeQueue g' = typeQueue g \<Longrightarrow> appends g g'"
  by (simp add: appends_def)

lemma appends_trans: "appends g g' \<Longrightarrow> appends g' g'' \<Longrightarrow> appends g g''"
  unfolding appends_def
proof (elim conjE exE)
  fix q r
  assume "typeDefs g' = typeDefs g" "typeQueue g' = typeQueue g @ q"
    "set (processedTypes g') = set (processedTypes g) \<union> queue_key ` set q"
    "typeDefs g'' = typeDefs g'" "typeQueue g'' = typeQueue g' @ r"
    "set (processedTypes g'') = set (processedTypes g') \<union> queue_key ` set r"
  then show "typeDefs g'' = typeDefs g \<and> (\<exists>q. typeQueue g'' = typeQueue g @ q \<and>
      set (processedTypes g'') = set (processedTypes g) \<union> queue_key ` set q)"
    by (intro conjI exI [of _ "q @ r"]) auto
qed

lemma queueType_appends: "appends g (queueType t outputName g)"
  by (auto simp: appends_def queueType_def queue_key_def Let_def split: rtype.split)

lemma mapFieldType_appends: "appends g (snd (mapFieldType t g))"
proof (induction t g rule: mapFieldType.induct)
  case (3 k t g)
  then show ?case by (auto split: prod.splits intro: appends_trans)
qed (auto simp: mapStructType_def mapEnumType_def with_runtime_def Let_def queueType_appends appends_same
    split: prod.splits option.splits)

lemma simplify_appends: "appends g (snd (simplifyOneofType s g))"
  by (auto simp: simplifyOneofType_def with_runtime_def Let_def appends_same split: option.splits)

lemma add_options_appends: "appends g (snd (add_options xs fs g))"
proof (induction xs fs g rule: add_options.induct)
  case (2 x xs fs g)
  then show ?case using simplify_appends [of g "oo_FieldType x"] by (auto split: prod.splits intro: appends_trans)
qed simp

lemma process_field_appends: "appends g (snd (process_field name f fs g))"
proof (cases "\<exists>i. rf_Type f = RInterface i")
  case True
  then show ?thesis by (auto simp: process_field_def add_options_appends appends_same)
next
  case False
  then show ?thesis using mapFieldType_appends [of g "rf_Type f"]
    by (cases "mapFieldType (rf_Type f) g") (simp add: process_field_type)
qed

lemma process_fields_appends: "appends g (snd (process_fields name rfs fs g))"
proof (induction rfs arbitrary: fs g)
  case (Cons f rfs)
  then show ?case using process_field_appends [of g name f fs] appends_trans
    by (cases "process_field name f fs g") fastforce
qed simp

lemma processType_accounted:
  assumes a: "accounted g" and q: "typeQueue g = (s, outputName) # q"
  shows "accounted (processType U s outputName (g\<lparr>typeQueue := q\<rparr>))"
proof -
  let ?g = "g\<lparr>typeQueue := q\<rparr>" and ?name = "if outputName = [] then snd s else outputName"
  have key: "queue_key (s, outputName) = ?name" by (simp add: queue_key_def)
  have old: "\<forall>n \<in> set (processedTypes g). mget (typeDefs g) n \<noteq> None \<or> n \<in> queue_key ` set q \<or> not_written n \<or> n = ?name"
    using a q key by (auto simp: accounted_def)
  show ?thesis
  proof (cases "not_written ?name")
    case True
    then show ?thesis using old by (auto simp: processType_def accounted_def not_written_def Let_def)
  next
    case False
    define start where "start = (if typesNeedingTypedConfig ?name \<and> \<not> list_ex (\<lambda>f. rf_Name f = ''TypedConfig'') (struct_fields_of U s)
      then ([typed_config], ?g\<lparr>importsRuntime := True\<rparr>) else ([], ?g))"
    obtain fs0 g0 where g0: "start = (fs0, g0)" by (cases start)
    obtain fs g1 where g1: "process_fields ?name (struct_fields_of U s) fs0 g0 = (fs, g1)"
      by (cases "process_fields ?name (struct_fields_of U s) fs0 g0")
    have r: "processType U s outputName ?g = g1\<lparr>typeDefs := mset_at ?name fs (typeDefs g1)\<rparr>"
      using False unfolding processType_def Let_def start_def [symmetric] not_written_def by (simp add: g0 g1)
    have "appends ?g g0" using g0 by (auto simp: start_def intro: appends_same split: if_splits)
    then have "appends ?g g1" using appends_trans process_fields_appends [of g0 ?name "struct_fields_of U s" fs0] g1 by fastforce
    then obtain new where n: "typeDefs g1 = typeDefs g" "typeQueue g1 = q @ new"
        "set (processedTypes g1) = set (processedTypes g) \<union> queue_key ` set new"
      unfolding appends_def by auto
    show ?thesis using old unfolding accounted_def r by (auto simp: n)
  qed
qed

text \<open>The work list runs out, and every type that was ever put on it is then defined, once: apart from the
  interfaces of oneofs, whose names are skipped, the generated file has every type a field of another one mentions.\<close>

theorem work_list_is_done:
  assumes "accounted g" and "h = process_queue U g"
  shows "typeQueue h = [] \<and> (\<forall>n \<in> set (processedTypes h). mget (typeDefs h) n \<noteq> None \<or> not_written n)"
proof -
  have "accounted (process_queue U g) \<and> typeQueue (process_queue U g) = []"
    using assms(1)
  proof (induction U g rule: process_queue.induct)
    case (1 U g)
    show ?case
    proof (cases "typeQueue g")
      case Nil
      then show ?thesis using 1(2) by (simp add: process_queue.simps)
    next
      case (Cons x q)
      obtain s out where x: "x = (s, out)" by (cases x)
      from 1(1) [OF Cons x [symmetric] processType_accounted [OF 1(2) Cons [unfolded x]]] show ?thesis
        by (subst (1 2) process_queue.simps) (simp add: Cons x)
    qed
  qed
  then show ?thesis unfolding assms(2) by (auto simp: accounted_def)
qed

section \<open>An example\<close>

definition sample_universe :: universe where
  "sample_universe =
     (let field = (\<lambda>name t tag. \<lparr>rf_Name = name, rf_Exported = True, rf_Type = t, rf_JSON = tag, rf_Protobuf = []\<rparr>);
          pkg = ''envoyproxy/route'' in
      [((pkg, ''RouteConfiguration''),
        [field ''Name'' RString ''name,omitempty'',
         field ''VirtualHosts'' (RSlice (RPtr (RStruct pkg ''VirtualHost''))) ''virtual_hosts,omitempty'',
         field ''Vhds'' (RPtr (RStruct pkg ''Vhds'')) ''vhds,omitempty'']),
       ((pkg, ''VirtualHost''),
        [field ''Name'' RString ''name,omitempty'',
         field ''RequireTls'' (RInt32 ''VirtualHost_TlsRequirementType'') ''require_tls,omitempty'',
         field ''Timeout'' (RPtr (RStruct ''durationpb'' ''Duration'')) []]),
       ((pkg, ''Vhds''), [])])"

definition no_types :: Generator where
  "no_types =
     \<lparr>processedTypes = [], enumDefs = [], typeDefs = [], typeQueue = [], oneofWrappers = [], importsRuntime = False\<rparr>"

text \<open>A struct without fields becomes a raw extension, a duration a string, a field without a tag has its name in
  snake case.\<close>

lemma sample_generated:
  "map (\<lambda>(n, fs). (n, map (\<lambda>f. (fd_Type f, fd_JSONName f)) fs))
     (typeDefs (Generate sample_universe
        (''envoyproxy/route'', ''RouteConfiguration'') mkeys no_types)) =
   [(''RDS'', [(''string'', ''name''), (''[]*VirtualHost'', ''virtual_hosts''), (''*runtime.RawExtension'', ''vhds'')]),
    (''VirtualHost'', [(''string'', ''name''), (''VirtualHost_TlsRequirementType'', ''require_tls''), (''*string'', ''timeout'')])]"
  by code_simp

lemma no_types_accounted: "accounted (queueType (RStruct pkg name) ''RDS'' no_types)"
  by (simp add: accounted_def queueType_def no_types_def queue_key_def)

end
