(* ===== verification/Options.thy ===== *)
theory Options
  imports Issue GoStrconv
begin

text \<open>
  The configuration of the process, \<open>src/pkg/app/config.go\<close>: the options with their defaults, the environment,
  the command line as Gxs \<open>flag\<close> package reads it, and the check of the options. Arguments: the file of variables
  read by godotenv, \<open>mail.ParseAddress\<close>, and the flags other packages register (\<open>libs\<close>: whether a flag
  is boolean, and the values it takes_value). A duration is a number of nanoseconds.
\<close>

section \<open>Options\<close>

record Options =
  op_Port :: int
  op_NodeID :: string
  op_Cluster :: string
  op_Namespace :: string
  op_MetricsAddr :: string
  op_ProbeAddr :: string
  op_RenewBeforeExpireInMinutes :: int
  op_StatusRefreshInterval :: int
  op_RetryBaseDelay :: int
  op_RetryMaxDelay :: int
  op_RetryMultiplier :: float64
  op_LetsEncryptEmail :: string
  op_LetsEncryptPrivateKeyBase64 :: string
  op_VaultURL :: string
  op_VaultToken :: string
  op_VaultPath :: string
  op_VaultSkipTLSVerify :: bool
  op_DryRun :: bool
  op_EnvPrefix :: string
  op_LogLevel :: int
  op_Production :: bool

definition NewOptions :: Options where
  "NewOptions =
     \<lparr>op_Port = 18000, op_NodeID = ''global'', op_Cluster = ''global'', op_Namespace = [],
      op_MetricsAddr = '':8080'', op_ProbeAddr = '':8081'', op_RenewBeforeExpireInMinutes = 43200,
      op_StatusRefreshInterval = 60 * 60 * 1000000000, op_RetryBaseDelay = 10 * 60 * 1000000000,
      op_RetryMaxDelay = 168 * 60 * 60 * 1000000000, op_RetryMultiplier = Fin 2,
      op_LetsEncryptEmail = [], op_LetsEncryptPrivateKeyBase64 = [],
      op_VaultURL = [], op_VaultToken = [], op_VaultPath = [], op_VaultSkipTLSVerify = False,
      op_DryRun = False, op_EnvPrefix = ''XDS_'', op_LogLevel = -1, op_Production = False\<rparr>"

section \<open>Flags\<close>

text \<open>A flag: whether it is boolean, and what setting it to a text does (nothing for a text it refuses).\<close>

type_synonym flag_value = "string \<Rightarrow> Options \<Rightarrow> Options option"

definition StringVar :: "(string \<Rightarrow> Options \<Rightarrow> Options) \<Rightarrow> bool \<times> flag_value" where
  "StringVar put = (False, \<lambda>s x. Some (put s x))"

definition UintVar :: "(int \<Rightarrow> Options \<Rightarrow> Options) \<Rightarrow> bool \<times> flag_value" where
  "UintVar put = (False, \<lambda>s x. map_option (\<lambda>n. put n x) (ParseUint s))"

definition IntVar :: "(int \<Rightarrow> Options \<Rightarrow> Options) \<Rightarrow> bool \<times> flag_value" where
  "IntVar put = (False, \<lambda>s x. map_option (\<lambda>n. put n x) (ParseInt s))"

definition DurationVar :: "(int \<Rightarrow> Options \<Rightarrow> Options) \<Rightarrow> bool \<times> flag_value" where
  "DurationVar put = (False, \<lambda>s x. map_option (\<lambda>n. put n x) (ParseDuration s))"

definition Float64Var :: "(float64 \<Rightarrow> Options \<Rightarrow> Options) \<Rightarrow> bool \<times> flag_value" where
  "Float64Var put = (False, \<lambda>s x. map_option (\<lambda>n. put n x) (ParseFloat s))"

definition BoolVar :: "(bool \<Rightarrow> Options \<Rightarrow> Options) \<Rightarrow> bool \<times> flag_value" where
  "BoolVar put = (True, \<lambda>s x. map_option (\<lambda>b. put b x) (ParseBool s))"

definition RegisterFlags :: "(string \<times> bool \<times> flag_value) list" where
  "RegisterFlags =
     [(''port'', UintVar (\<lambda>v x. x\<lparr>op_Port := v\<rparr>)),
      (''nodeID'', StringVar (\<lambda>v x. x\<lparr>op_NodeID := v\<rparr>)),
      (''cluster'', StringVar (\<lambda>v x. x\<lparr>op_Cluster := v\<rparr>)),
      (''namespace'', StringVar (\<lambda>v x. x\<lparr>op_Namespace := v\<rparr>)),
      (''email'', StringVar (\<lambda>v x. x\<lparr>op_LetsEncryptEmail := v\<rparr>)),
      (''privateKeyBase64'', StringVar (\<lambda>v x. x\<lparr>op_LetsEncryptPrivateKeyBase64 := v\<rparr>)),
      (''vaultURL'', StringVar (\<lambda>v x. x\<lparr>op_VaultURL := v\<rparr>)),
      (''vaultToken'', StringVar (\<lambda>v x. x\<lparr>op_VaultToken := v\<rparr>)),
      (''vaultPath'', StringVar (\<lambda>v x. x\<lparr>op_VaultPath := v\<rparr>)),
      (''vault-skip-tls-verify'', BoolVar (\<lambda>v x. x\<lparr>op_VaultSkipTLSVerify := v\<rparr>)),
      (''renewBeforeExpireInMinutes'', IntVar (\<lambda>v x. x\<lparr>op_RenewBeforeExpireInMinutes := v\<rparr>)),
      (''statusRefreshInterval'', DurationVar (\<lambda>v x. x\<lparr>op_StatusRefreshInterval := v\<rparr>)),
      (''retryBaseDelay'', DurationVar (\<lambda>v x. x\<lparr>op_RetryBaseDelay := v\<rparr>)),
      (''retryMaxDelay'', DurationVar (\<lambda>v x. x\<lparr>op_RetryMaxDelay := v\<rparr>)),
      (''retryMultiplier'', Float64Var (\<lambda>v x. x\<lparr>op_RetryMultiplier := v\<rparr>)),
      (''metrics-bind-address'', StringVar (\<lambda>v x. x\<lparr>op_MetricsAddr := v\<rparr>)),
      (''health-probe-bind-address'', StringVar (\<lambda>v x. x\<lparr>op_ProbeAddr := v\<rparr>)),
      (''dry-run'', BoolVar (\<lambda>v x. x\<lparr>op_DryRun := v\<rparr>)),
      (''env-prefix'', StringVar (\<lambda>v x. x\<lparr>op_EnvPrefix := v\<rparr>))]"

section \<open>The command line\<close>

text \<open>What the command line sets: the options and the flag \<open>version\<close>; the values of other packages are theirs.\<close>

record cmdline =
  cl_Options :: Options
  cl_Version :: bool

type_synonym lib_flags = "string \<Rightarrow> (bool \<times> (string \<Rightarrow> bool)) option"

definition formal :: "lib_flags \<Rightarrow> string \<Rightarrow> (bool \<times> (string \<Rightarrow> cmdline \<Rightarrow> cmdline option)) option" where
  "formal libs name =
     (if name = ''version'' then
        Some (True, \<lambda>s c. map_option (\<lambda>b. c\<lparr>cl_Version := b\<rparr>) (ParseBool s))
      else case map_of RegisterFlags name of
        Some (bool_flag, set_to) \<Rightarrow>
          Some (bool_flag, \<lambda>s c. map_option (\<lambda>v. c\<lparr>cl_Options := v\<rparr>) (set_to s (cl_Options c)))
      | None \<Rightarrow>
          map_option (\<lambda>(bool_flag, takes_value). (bool_flag, \<lambda>s c. if takes_value s then Some c else None)) (libs name))"

text \<open>One argument (\<open>parseOne\<close>): the flags end, an error, a request for help, or a flag with its value and the
  arguments after it. A flag that is not boolean takes the next argument when it has no value of its own.\<close>

datatype argument = Stop "string list" | Bad | Help | Set string string "string list"

definition name_part :: "string \<Rightarrow> string" where
  "name_part s = takeWhile (\<lambda>c. c \<noteq> CHR ''='') s"

definition value_part :: "string \<Rightarrow> string option" where
  "value_part s = (case dropWhile (\<lambda>c. c \<noteq> CHR ''='') s of [] \<Rightarrow> None | c # v \<Rightarrow> Some v)"

definition flag_argument :: "(string \<Rightarrow> bool option) \<Rightarrow> string \<Rightarrow> string list \<Rightarrow> argument" where
  "flag_argument bool_flag s rest =
     (if s = [] \<or> hd s = CHR ''-'' \<or> hd s = CHR ''='' then Bad
      else
        let name = name_part s in
        case bool_flag name of
          None \<Rightarrow> if name = ''help'' \<or> name = ''h'' then Help else Bad
        | Some True \<Rightarrow> Set name (case value_part s of Some v \<Rightarrow> v | None \<Rightarrow> ''true'') rest
        | Some False \<Rightarrow>
            (case value_part s of
               Some v \<Rightarrow> Set name v rest
             | None \<Rightarrow> (case rest of [] \<Rightarrow> Bad | v # rest \<Rightarrow> Set name v rest)))"

fun parse_argument :: "(string \<Rightarrow> bool option) \<Rightarrow> string list \<Rightarrow> argument" where
  "parse_argument bool_flag [] = Stop []"
| "parse_argument bool_flag (s # rest) =
     (case s of
        c # d # t \<Rightarrow>
          if c \<noteq> CHR ''-'' then Stop (s # rest)
          else if d \<noteq> CHR ''-'' then flag_argument bool_flag (d # t) rest
          else if t = [] then Stop rest
          else flag_argument bool_flag t rest
      | _ \<Rightarrow> Stop (s # rest))"

lemma flag_argument_shorter:
  "flag_argument bool_flag s rest = Set n v r \<Longrightarrow> length r \<le> length rest"
  by (auto simp: flag_argument_def Let_def split: if_splits option.splits bool.splits list.splits)

lemma parse_argument_shorter:
  "parse_argument bool_flag args = Set n v r \<Longrightarrow> length r < length args"
  by (cases "(bool_flag, args)" rule: parse_argument.cases)
    (auto split: if_splits list.splits dest!: flag_argument_shorter)

text \<open>\<open>flag.Parse\<close> of the command line's flag set: an error prints the usage and ends the process with status 2,
  a request for help ends it with status 0. The result has the arguments that follow the flags.\<close>

definition bool_flag :: "lib_flags \<Rightarrow> string \<Rightarrow> bool option" where
  "bool_flag libs name = map_option fst (formal libs name)"

definition set_flag :: "lib_flags \<Rightarrow> string \<Rightarrow> string \<Rightarrow> cmdline \<Rightarrow> cmdline option" where
  "set_flag libs name v c = (case formal libs name of None \<Rightarrow> None | Some (b, set_to) \<Rightarrow> set_to v c)"

function parse_flags :: "lib_flags \<Rightarrow> string list \<Rightarrow> cmdline \<Rightarrow> int + cmdline \<times> string list" where
  "parse_flags libs args c =
     (case parse_argument (bool_flag libs) args of
        Stop rest \<Rightarrow> Inr (c, rest)
      | Bad \<Rightarrow> Inl 2
      | Help \<Rightarrow> Inl 0
      | Set name v rest \<Rightarrow>
          (case set_flag libs name v c of None \<Rightarrow> Inl 2 | Some c \<Rightarrow> parse_flags libs rest c))"
  by pat_completeness auto

termination parse_flags
  by (relation "measure (\<lambda>(libs, args, c). length args)") (auto dest: parse_argument_shorter)

declare parse_flags.simps [simp del]

section \<open>The environment\<close>

definition loadEnvString :: "(string, string) gmap \<Rightarrow> string \<Rightarrow> string \<Rightarrow> string" where
  "loadEnvString env target name = (if target = [] then Getenv env name else target)"

text \<open>\<open>loadEnvFromFile\<close> on the environment: what \<open>godotenv.Load\<close> makes of it (\<open>load\<close>), unless there is no such file.\<close>

type_synonym env_file = "string \<Rightarrow> ((string, string) gmap \<Rightarrow> (string, string) gmap) option"

definition loadEnvFromFile :: "env_file \<Rightarrow> string \<Rightarrow> (string, string) gmap \<Rightarrow> (string, string) gmap" where
  "loadEnvFromFile file path env = (case file path of None \<Rightarrow> env | Some load \<Rightarrow> load env)"

definition envFilePath :: "(string, string) gmap \<Rightarrow> Options \<Rightarrow> string" where
  "envFilePath env opts =
     (let path = Getenv env (op_EnvPrefix opts @ ''ENV_FILE'')
      in if path = [] then ''/vault/secrets/env'' else path)"

definition load_strings :: "(string, string) gmap \<Rightarrow> Options \<Rightarrow> Options" where
  "load_strings env opts =
     (let p = op_EnvPrefix opts in
      opts\<lparr>op_LetsEncryptEmail := loadEnvString env (op_LetsEncryptEmail opts) (p @ ''LETS_ENCRYPT_EMAIL''),
        op_LetsEncryptPrivateKeyBase64 :=
          loadEnvString env (op_LetsEncryptPrivateKeyBase64 opts) (p @ ''LETS_ENCRYPT_PRIVATEKEYB64''),
        op_VaultURL := loadEnvString env (op_VaultURL opts) (p @ ''VAULT_URL''),
        op_VaultToken := loadEnvString env (op_VaultToken opts) (p @ ''VAULT_TOKEN''),
        op_VaultPath := loadEnvString env (op_VaultPath opts) (p @ ''VAULT_PATH''),
        op_Namespace := loadEnvString env (op_Namespace opts) (p @ ''NAMESPACE'')\<rparr>)"

definition load_level :: "(string, string) gmap \<Rightarrow> Options \<Rightarrow> Options" where
  "load_level env opts =
     (let level = Getenv env (op_EnvPrefix opts @ ''LOG_LEVEL'')
      in if level = [] then opts
         else case Atoi level of None \<Rightarrow> opts | Some n \<Rightarrow> opts\<lparr>op_LogLevel := n\<rparr>)"

definition load_production :: "(string, string) gmap \<Rightarrow> Options \<Rightarrow> Options" where
  "load_production env opts =
     (let production = Getenv env (op_EnvPrefix opts @ ''PRODUCTION'')
      in if production = [] then opts
         else case ParseBool production of None \<Rightarrow> opts | Some b \<Rightarrow> opts\<lparr>op_Production := b\<rparr>)"

definition LoadFromEnvironment ::
  "env_file \<Rightarrow> (string, string) gmap \<Rightarrow> Options \<Rightarrow> Options \<times> (string, string) gmap" where
  "LoadFromEnvironment file env opts =
     (let env = loadEnvFromFile file (envFilePath env opts) env
      in (load_production env (load_level env (load_strings env opts)), env))"

text \<open>\<open>RunWithFlags\<close> up to \<open>Run\<close>: the defaults, the environment, the flags. \<open>Inl\<close>: the process ends.\<close>

definition configure ::
  "lib_flags \<Rightarrow> env_file \<Rightarrow> (string, string) gmap \<Rightarrow> string list \<Rightarrow> int + Options \<times> (string, string) gmap" where
  "configure libs file env args =
     (case LoadFromEnvironment file env NewOptions of
        (opts, env) \<Rightarrow>
          (case parse_flags libs args \<lparr>cl_Options = opts, cl_Version = False\<rparr> of
             Inl status \<Rightarrow> Inl status
           | Inr (c, rest) \<Rightarrow> if cl_Version c then Inl 0 else Inr (cl_Options c, env)))"

section \<open>Validation\<close>

text \<open>The text of the base64 error is left out of the message.\<close>

definition Validate :: "(string \<Rightarrow> string + string) \<Rightarrow> Options \<Rightarrow> string option" where
  "Validate ParseAddress opts =
     (case (if op_LetsEncryptEmail opts = [] then None
            else case ParseAddress (op_LetsEncryptEmail opts) of Inl e \<Rightarrow> Some e | Inr a \<Rightarrow> None) of
        Some e \<Rightarrow> Some (''invalid Let's Encrypt email '' @ [CHR 0x27] @ op_LetsEncryptEmail opts @ [CHR 0x27] @ '': '' @ e)
      | None \<Rightarrow>
          if op_LetsEncryptPrivateKeyBase64 opts \<noteq> [] \<and> DecodeString (op_LetsEncryptPrivateKeyBase64 opts) = None
          then Some ''invalid base64-encoded private key''
          else if (op_VaultURL opts \<noteq> [] \<or> op_VaultToken opts \<noteq> [] \<or> op_VaultPath opts \<noteq> []) \<and>
             \<not> (op_VaultURL opts \<noteq> [] \<and> op_VaultToken opts \<noteq> [] \<and> op_VaultPath opts \<noteq> [])
          then Some ''all Vault configuration (URL, token, path) must be provided together''
          else None)"

section \<open>What the command line sets\<close>

text \<open>The flags a command line gives, with their values, in order: it does not depend on the options.\<close>

definition takes_value :: "lib_flags \<Rightarrow> string \<Rightarrow> string \<Rightarrow> bool" where
  "takes_value libs name v \<longleftrightarrow> set_flag libs name v \<lparr>cl_Options = NewOptions, cl_Version = False\<rparr> \<noteq> None"

function given :: "lib_flags \<Rightarrow> string list \<Rightarrow> int + (string \<times> string) list \<times> string list" where
  "given libs args =
     (case parse_argument (bool_flag libs) args of
        Stop rest \<Rightarrow> Inr ([], rest)
      | Bad \<Rightarrow> Inl 2
      | Help \<Rightarrow> Inl 0
      | Set name v rest \<Rightarrow>
          if takes_value libs name v
          then (case given libs rest of Inl status \<Rightarrow> Inl status | Inr (xs, rest) \<Rightarrow> Inr ((name, v) # xs, rest))
          else Inl 2)"
  by pat_completeness auto

termination given
  by (relation "measure (\<lambda>(libs, args). length args)") (auto dest: parse_argument_shorter)

declare given.simps [simp del]

lemmas flag_values = StringVar_def UintVar_def IntVar_def DurationVar_def Float64Var_def BoolVar_def

lemma registered_total:
  "list_all (\<lambda>(name, b, set_to). \<forall>v x y. set_to v x = None \<longleftrightarrow> set_to v y = None) RegisterFlags"
  by (simp add: RegisterFlags_def flag_values)

lemma set_flag_None: "set_flag libs name v c = None \<longleftrightarrow> \<not> takes_value libs name v"
proof (cases "map_of RegisterFlags name")
  case None
  then show ?thesis by (simp add: takes_value_def set_flag_def formal_def split: option.split)
next
  case (Some f)
  obtain b set_to where f: "f = (b, set_to)" by (cases f)
  have "set_to v (cl_Options c) = None \<longleftrightarrow> set_to v NewOptions = None"
    using registered_total map_of_SomeD [OF Some] unfolding f list_all_iff by blast
  then show ?thesis using Some f by (simp add: takes_value_def set_flag_def formal_def)
qed

lemma parse_flags_given:
  "parse_flags libs args c =
     (case given libs args of
        Inl status \<Rightarrow> Inl status
      | Inr (xs, rest) \<Rightarrow> Inr (fold (\<lambda>(name, v) c. the (set_flag libs name v c)) xs c, rest))"
proof (induction libs args c rule: parse_flags.induct)
  case (1 libs args c)
  show ?case
  proof (cases "parse_argument (bool_flag libs) args")
    case (Set name v rest)
    show ?thesis
    proof (cases "set_flag libs name v c")
      case None
      then show ?thesis using Set set_flag_None [of libs name v c] by (simp add: parse_flags.simps [of libs args] given.simps [of libs args])
    next
      case (Some d)
      moreover from this have "takes_value libs name v" using set_flag_None [of libs name v c] by simp
      ultimately show ?thesis using Set 1 [OF Set Some]
        by (simp add: parse_flags.simps [of libs args] given.simps [of libs args] split: sum.splits)
    qed
  qed (simp_all add: parse_flags.simps [of libs args] given.simps [of libs args])
qed

text \<open>The options that are strings and can come from the environment: flag, variable, option.\<close>

definition env_options :: "(string \<times> string \<times> (Options \<Rightarrow> string)) list" where
  "env_options =
     [(''email'', ''LETS_ENCRYPT_EMAIL'', op_LetsEncryptEmail),
      (''privateKeyBase64'', ''LETS_ENCRYPT_PRIVATEKEYB64'', op_LetsEncryptPrivateKeyBase64),
      (''vaultURL'', ''VAULT_URL'', op_VaultURL), (''vaultToken'', ''VAULT_TOKEN'', op_VaultToken),
      (''vaultPath'', ''VAULT_PATH'', op_VaultPath), (''namespace'', ''NAMESPACE'', op_Namespace)]"

lemma registered_option:
  assumes "(flag, var, get) \<in> set env_options"
  shows "list_all (\<lambda>(name, b, set_to). \<forall>v x y. set_to v x = Some y \<longrightarrow> get y = (if name = flag then v else get x))
    RegisterFlags"
proof -
  have "(flag, get) \<in> {(''email'', op_LetsEncryptEmail), (''privateKeyBase64'', op_LetsEncryptPrivateKeyBase64),
      (''vaultURL'', op_VaultURL), (''vaultToken'', op_VaultToken), (''vaultPath'', op_VaultPath),
      (''namespace'', op_Namespace)}"
    using assms unfolding env_options_def by auto
  then show ?thesis
    by (elim insertE emptyE Pair_inject; hypsubst)
      (auto simp: RegisterFlags_def flag_values)
qed

lemma set_flag_option:
  assumes o: "(flag, var, get) \<in> set env_options" and s: "set_flag libs name v c = Some d"
  shows "get (cl_Options d) = (if name = flag then v else get (cl_Options c))"
proof -
  have flag: "flag \<noteq> ''version''" "map_of RegisterFlags flag \<noteq> None" using o by (auto simp: env_options_def RegisterFlags_def)
  show ?thesis
  proof (cases "map_of RegisterFlags name")
    case None
    then show ?thesis using s flag by (auto simp: set_flag_def formal_def split: if_splits option.splits)
  next
    case (Some f)
    then show ?thesis using s flag registered_option [OF o] map_of_SomeD [OF Some]
      by (cases f) (auto simp: set_flag_def formal_def list_all_iff split: if_splits)
  qed
qed

lemma fold_option:
  assumes o: "(flag, var, get) \<in> set env_options"
  shows "\<forall>(name, v) \<in> set xs. takes_value libs name v \<Longrightarrow>
    get (cl_Options (fold (\<lambda>(name, v) c. the (set_flag libs name v c)) xs c)) =
      (case map_of (rev xs) flag of Some v \<Rightarrow> v | None \<Rightarrow> get (cl_Options c))"
proof (induction xs arbitrary: c rule: rev_induct)
  case (snoc x xs)
  obtain name v where x: "x = (name, v)" by (cases x)
  let ?c = "fold (\<lambda>(name, v) c. the (set_flag libs name v c)) xs c"
  obtain d where "set_flag libs name v ?c = Some d"
    using snoc.prems x set_flag_None [of libs name v ?c] by fastforce
  then show ?case using snoc set_flag_option [OF o] by (simp add: x)
qed simp

lemma given_accepted: "given libs args = Inr (xs, rest) \<Longrightarrow> \<forall>(name, v) \<in> set xs. takes_value libs name v"
proof (induction libs args arbitrary: xs rest rule: given.induct)
  case (1 libs args)
  then show ?case
    by (force simp: given.simps [of libs args] split: argument.splits if_splits sum.splits)
qed

lemma loaded_option:
  assumes "(flag, var, get) \<in> set env_options" and "LoadFromEnvironment file env NewOptions = (opts, env')"
  shows "get opts = Getenv env' (''XDS_'' @ var)"
proof -
  have "get (load_production env' (load_level env' x)) = get x" for x
    using assms(1) by (auto simp: env_options_def load_production_def load_level_def Let_def split: option.split)
  moreover have "get (load_strings env' NewOptions) = Getenv env' (''XDS_'' @ var)"
    using assms(1) by (auto simp: env_options_def load_strings_def loadEnvString_def NewOptions_def)
  ultimately show ?thesis using assms(2) by (auto simp: LoadFromEnvironment_def Let_def)
qed

text \<open>C32. The command line wins over the environment: when the process starts, an option that both can give has the
  value the last of its flags gives; without a flag it has the value of its variable, after the file of variables was
  loaded. A flag given an empty value counts as given, although the comment of LoadFromEnvironment says that the
  environment overrides a flag whose value is empty or its default. The name of the variable starts with XDS_ whatever
  the flag env-prefix says, since the environment is read before the flags.\<close>

theorem option_precedence:
  assumes "configure libs file env args = Inr (opts, env')" and o: "(flag, var, get) \<in> set env_options"
  shows "\<exists>xs rest. given libs args = Inr (xs, rest) \<and>
    get opts = (case map_of (rev xs) flag of Some v \<Rightarrow> v | None \<Rightarrow> Getenv env' (''XDS_'' @ var)) \<and>
    env' = loadEnvFromFile file (envFilePath env NewOptions) env"
proof -
  obtain opts0 env0 where l: "LoadFromEnvironment file env NewOptions = (opts0, env0)" by (cases "LoadFromEnvironment file env NewOptions")
  let ?c = "\<lparr>cl_Options = opts0, cl_Version = False\<rparr>"
  obtain xs rest where g: "given libs args = Inr (xs, rest)"
      "opts = cl_Options (fold (\<lambda>(name, v) c. the (set_flag libs name v c)) xs ?c)" "env' = env0"
    using assms(1) l by (auto simp: configure_def parse_flags_given split: sum.splits prod.splits if_splits)
  have "env0 = loadEnvFromFile file (envFilePath env NewOptions) env"
    using l by (simp add: LoadFromEnvironment_def Let_def)
  then show ?thesis
    using g fold_option [OF o given_accepted [OF g(1)], of ?c] loaded_option [OF o l] by (auto split: option.splits)
qed

definition sample_env :: "(string, string) gmap" where
  "sample_env = [(''XDS_VAULT_URL'', ''http://env''), (''XDS_VAULT_PATH'', ''/kv''), (''XDS_NAMESPACE'', ''envoy''), (''ALT_NAMESPACE'', ''other'')]"

definition sample_args :: "string list" where
  "sample_args = [''-vaultURL=http://one'', ''--dry-run'', ''--vaultURL'', ''http://two'', ''-vaultPath='', ''-env-prefix'', ''ALT_'']"

lemma sample_configured:
  "case configure (\<lambda>name. None) (\<lambda>path. None) sample_env sample_args of
     Inr (opts, env) \<Rightarrow> op_DryRun opts \<and> op_EnvPrefix opts = ''ALT_'' | Inl status \<Rightarrow> False"
  by code_simp

lemma sample_given:
  "given (\<lambda>name. None) sample_args =
     Inr ([(''vaultURL'', ''http://one''), (''dry-run'', ''true''), (''vaultURL'', ''http://two''), (''vaultPath'', []), (''env-prefix'', ''ALT_'')], [])"
  by code_simp

theorem option_precedence_witness:
  "\<exists>opts env'. configure (\<lambda>name. None) (\<lambda>path. None) sample_env sample_args = Inr (opts, env') \<and>
     op_VaultURL opts = ''http://two'' \<and> op_VaultPath opts = [] \<and> op_Namespace opts = ''envoy''"
proof -
  obtain opts env' where c: "configure (\<lambda>name. None) (\<lambda>path. None) sample_env sample_args = Inr (opts, env')"
    using sample_configured by (auto split: sum.splits prod.splits)
  have "op_VaultURL opts = ''http://two''"
    using option_precedence [OF c, of "''vaultURL''" "''VAULT_URL''" op_VaultURL] sample_given by (simp add: env_options_def)
  moreover have "op_VaultPath opts = []"
    using option_precedence [OF c, of "''vaultPath''" "''VAULT_PATH''" op_VaultPath] sample_given by (simp add: env_options_def)
  moreover have "op_Namespace opts = ''envoy''"
    using option_precedence [OF c, of "''namespace''" "''NAMESPACE''" op_Namespace] sample_given
    by (auto simp: env_options_def loadEnvFromFile_def sample_env_def Getenv_def mstr_def mget_def)
  ultimately show ?thesis using c by blast
qed

end
