(* ===== verification/App.thy ===== *)
theory App
  imports Options Secrets Lds Cds Eds Leader
begin

text \<open>
  The process, \<open>src/pkg/app\<close> and \<open>src/cmd/xds/main.go\<close>: the namespace, the configuration built from the options,
  the controllers with what each does once the caches have synced, the order in which everything starts and
  ends, and the probes. Arguments: the Kubernetes configuration, the outcome of every call of the
  controller-runtime manager (\<open>platform\<close>), the random number, \<open>mail.ParseAddress\<close>.
\<close>

section \<open>Configuration\<close>

text \<open>Arguments: the environment, the file of the service account, the namespace of the kubeconfig.\<close>

definition ResolveNamespace ::
  "(string, string) gmap \<Rightarrow> string + string \<Rightarrow> string + string \<Rightarrow> Options \<Rightarrow> Options" where
  "ResolveNamespace env account kubeconfig opts =
     (if op_Namespace opts \<noteq> [] then opts
      else case (if Getenv env ''KUBERNETES_SERVICE_HOST'' \<noteq> [] then account else Inl []) of
             Inr d \<Rightarrow> opts\<lparr>op_Namespace := d\<rparr>
           | Inl e \<Rightarrow>
               (case kubeconfig of
                  Inr ns \<Rightarrow> opts\<lparr>op_Namespace := if ns \<noteq> [] then ns else ''default''\<rparr>
                | Inl e \<Rightarrow> opts\<lparr>op_Namespace := ''default''\<rparr>))"

record xds_config =
  xc_Config :: Config
  xc_Settings :: sds_settings
  xc_RefreshTime :: int
  xc_RndNumber :: int
  xc_InsecureSkipVerify :: bool

text \<open>\<open>rnd\<close> is the result of \<open>rand.IntN(360)\<close>. An int has 64 bits (\<open>duration\<close>).\<close>

definition BuildXDSConfig :: "(string \<Rightarrow> string + string) \<Rightarrow> int \<Rightarrow> Options \<Rightarrow> xds_config" where
  "BuildXDSConfig ParseAddress rnd opts =
     \<lparr>xc_Config = new_Config (op_NodeID opts) (op_Cluster opts),
      xc_Settings =
        \<lparr>sx_Settings =
           \<lparr>DryRun = op_DryRun opts,
            RenewBeforeExpireInMinutes = duration (op_RenewBeforeExpireInMinutes opts - (rnd + 1)),
            DefaultNamespace = [], HasK8sClient = False,
            Storage_Vault =
              (if op_VaultURL opts \<noteq> [] \<and> op_VaultToken opts \<noteq> [] \<and> op_VaultPath opts \<noteq> [] then
                 Some \<lparr>vsc_Path = op_VaultPath opts, vsc_URL = op_VaultURL opts, vsc_Token = op_VaultToken opts,
                       vsc_SkipTLSVerify = op_VaultSkipTLSVerify opts\<rparr>
               else None),
            Account_Email =
              (if op_LetsEncryptEmail opts = [] then []
               else case ParseAddress (op_LetsEncryptEmail opts) of Inl e \<Rightarrow> [] | Inr a \<Rightarrow> a),
            Account_PrivateKeyBase64 = op_LetsEncryptPrivateKeyBase64 opts\<rparr>,
         RetryBaseDelay = op_RetryBaseDelay opts, RetryMaxDelay = op_RetryMaxDelay opts,
         RetryMultiplier = op_RetryMultiplier opts, StatusRefreshInterval = op_StatusRefreshInterval opts\<rparr>,
      xc_RefreshTime = 5000 * 1000000, xc_RndNumber = rnd + 1,
      xc_InsecureSkipVerify = op_VaultSkipTLSVerify opts\<rparr>"

text \<open>The Kubernetes client and the namespace, set once the manager exists.\<close>

definition with_client :: "Options \<Rightarrow> xds_config \<Rightarrow> xds_config" where
  "with_client opts xc =
     xc\<lparr>xc_Settings := (xc_Settings xc)\<lparr>sx_Settings := (sx_Settings (xc_Settings xc))\<lparr>HasK8sClient := True,
       DefaultNamespace := op_Namespace opts\<rparr>\<rparr>\<rparr>"

text \<open>The namespaces the cache watches: all of them when there is none in the options.\<close>

definition watched_namespaces :: "Options \<Rightarrow> string list option" where
  "watched_namespaces opts = (if op_Namespace opts \<noteq> [] then Some [op_Namespace opts] else None)"

definition createLeaderManager :: "string option \<Rightarrow> string \<Rightarrow> string + string \<Rightarrow> string + Manager" where
  "createLeaderManager clientset podName hostname = NewManager (Some (seconds 15)) clientset podName hostname"

section \<open>Controllers\<close>

text \<open>The reconcilers as \<open>SetupControllers\<close> makes them on the shared configuration: the route controller has the
  channel to the listener controller.\<close>

definition route_reconciler :: "Config \<Rightarrow> RouteReconciler" where
  "route_reconciler c =
     \<lparr>rr_Config = c, has_ListenerEvents = True, listenerEvents = [], has_requeue = True, requeue = [], losers = [],
      rds_reconciling = 0, accepts = 0, statusCalls = [], configErrors = []\<rparr>"

definition listener_reconciler :: "Config \<Rightarrow> ListenerReconciler" where
  "listener_reconciler c =
     \<lparr>lr_Config = c, lds_reconciling = 0, chains = [], lds_status_calls = [], lds_config_errors = []\<rparr>"

definition cluster_reconciler :: "Config \<Rightarrow> ClusterReconciler" where
  "cluster_reconciler c =
     \<lparr>kr_Config = c, cds_reconciling = 0, cds_status_calls = [], cds_config_errors = []\<rparr>"

definition endpoint_reconciler :: "Config \<Rightarrow> EndpointReconciler" where
  "endpoint_reconciler c =
     \<lparr>er_Config = c, eds_reconciling = 0, eds_status_calls = [], eds_config_errors = []\<rparr>"

definition secret_reconciler :: "Config \<Rightarrow> unit TLSSecretReconciler" where
  "secret_reconciler c =
     \<lparr>tr_Config = c, tr_certs = \<lparr>LeClient = None, VaultClient = None, environ = [], world = ()\<rparr>,
      sds_reconciling = 0, sds_status_writes = [], sds_config_errors = [], sds_patches = []\<rparr>"

text \<open>What the runnables of the controllers do to the shared configuration after the caches have synced. Each runs in
  a goroutine of its own, so their order is any.\<close>

datatype runnable = InitClusters nat | InitEndpoints nat | InitRoutes nat | InitListeners nat | InitSecrets sds_env

fun run_runnable :: "runnable \<Rightarrow> Config \<Rightarrow> Config" where
  "run_runnable (InitClusters n) c = kr_Config (initialize_clusters n (cluster_reconciler c))"
| "run_runnable (InitEndpoints n) c = er_Config (initialize_endpoints n (endpoint_reconciler c))"
| "run_runnable (InitRoutes n) c = rr_Config (initialize_routes n (route_reconciler c))"
| "run_runnable (InitListeners n) c = lr_Config (initialize_listeners n (listener_reconciler c))"
| "run_runnable (InitSecrets env) c = tr_Config (snd (initialize_secrets env (secret_reconciler c)))"

definition ReadinessCheck :: "ReconciliationStatus \<Rightarrow> string option" where
  "ReadinessCheck rs =
     (if \<not> AllReconciledWithSnapshot rs then Some ''not all controllers have reconciled yet'' else None)"

section \<open>The life of the process\<close>

datatype call =
    NewCtrlManager
  | SetupWithManager string
  | AddServer
  | AddHealthz
  | AddReadyz
  | NewLeaderManager
  | WaitForElection
  | StartManager
  | Release

text \<open>The error of each call, if any, and whether there is a configuration of the Kubernetes client.\<close>

record platform =
  pf_HasConfig :: bool
  pf_Error :: "call \<Rightarrow> string option"

text \<open>The calls of \<open>SetupControllers\<close>, \<open>SetupHealthChecks\<close> and \<open>Run\<close> that can fail, in order, with the text put before
  their error.\<close>

definition controllers :: "string list" where
  "controllers = [''Cluster'', ''Endpoint'', ''Route'', ''Listener'', ''TLSSecret'']"

definition SetupControllers :: "(call \<times> string) list" where
  "SetupControllers =
     map (\<lambda>n. (SetupWithManager n, ''controller setup error: unable to create '' @ n @ '' controller: '')) controllers"

definition SetupHealthChecks :: "(call \<times> string) list" where
  "SetupHealthChecks =
     [(AddHealthz, ''health check setup error: unable to set up health check: ''),
      (AddReadyz, ''health check setup error: unable to set up readiness check: '')]"

definition start_up :: "(call \<times> string) list" where
  "start_up =
     [(NewCtrlManager, ''manager creation error: '')] @ SetupControllers @
     [(AddServer, ''failed to add xDS server to manager: '')] @ SetupHealthChecks @
     [(NewLeaderManager, ''leader election setup error: ''),
      (WaitForElection, ''initial leader election failed: ''),
      (StartManager, ''manager error: '')]"

text \<open>Calls are made until one fails.\<close>

fun perform :: "(call \<Rightarrow> string option) \<Rightarrow> (call \<times> string) list \<Rightarrow> call list \<times> string option" where
  "perform fails [] = ([], None)"
| "perform fails ((c, text) # cs) =
     (case fails c of
        Some e \<Rightarrow> ([c], Some (text @ e))
      | None \<Rightarrow> (case perform fails cs of (made, r) \<Rightarrow> (c # made, r)))"

text \<open>How \<open>Run\<close> ends: the process exits, or the result; with the calls made and the configuration the controllers
  work with, once there is one. A failure to release the leadership is only logged.\<close>

datatype run_result = Exits int | Returns "string option"

record surroundings =
  su_ParseAddress :: "string \<Rightarrow> string + string"
  su_Account :: "string + string"
  su_Kubeconfig :: "string + string"
  su_IntN :: int

definition Run ::
  "surroundings \<Rightarrow> platform \<Rightarrow> (string, string) gmap \<Rightarrow> Options \<Rightarrow> call list \<times> xds_config option \<times> run_result" where
  "Run su pf env opts =
     (case Validate (su_ParseAddress su) opts of
        Some e \<Rightarrow> ([], None, Returns (Some (''configuration error: '' @ e)))
      | None \<Rightarrow>
          let opts = ResolveNamespace env (su_Account su) (su_Kubeconfig su) opts;
              xc = BuildXDSConfig (su_ParseAddress su) (su_IntN su) opts
          in if \<not> pf_HasConfig pf then ([], None, Exits 1)
             else (case perform (pf_Error pf) start_up of
                     (made, Some e) \<Rightarrow>
                       (made, if made = [NewCtrlManager] then None else Some (with_client opts xc), Returns (Some e))
                   | (made, None) \<Rightarrow> (made @ [Release], Some (with_client opts xc), Returns None)))"

text \<open>\<open>main\<close>: the calls it has made, the configuration, and the status the process ends with.\<close>

definition main ::
  "lib_flags \<Rightarrow> env_file \<Rightarrow> surroundings \<Rightarrow> platform \<Rightarrow> (string, string) gmap \<Rightarrow> string list \<Rightarrow>
   call list \<times> xds_config option \<times> int" where
  "main libs file su pf env args =
     (case configure libs file env args of
        Inl status \<Rightarrow> ([], None, status)
      | Inr (opts, env) \<Rightarrow>
          (case Run su pf env opts of
             (made, xc, Exits status) \<Rightarrow> (made, xc, status)
           | (made, xc, Returns e) \<Rightarrow> (made, xc, if e = None then 0 else 1)))"

section \<open>Facts\<close>

lemma perform_calls:
  "perform fails cs = (made, r) \<Longrightarrow>
    (r = None \<longrightarrow> made = map fst cs \<and> (\<forall>c \<in> set made. fails c = None)) \<and>
    (r \<noteq> None \<longrightarrow> (\<exists>cs1 c text e cs2. cs = cs1 @ (c, text) # cs2 \<and> made = map fst cs1 @ [c] \<and> fails c = Some e \<and>
       r = Some (text @ e) \<and> (\<forall>c \<in> set (map fst cs1). fails c = None)))"
proof (induction fails cs arbitrary: made r rule: perform.induct)
  case (2 fails c t cs)
  show ?case
  proof (cases "fails c")
    case (Some e)
    then show ?thesis using 2(2) by (intro conjI impI exI [of _ "[]"]) auto
  next
    case None
    obtain d where d: "perform fails cs = (d, r)" "made = c # d" using 2(2) None by (auto split: prod.splits)
    note ih = 2(1) [OF None d(1)]
    show ?thesis
    proof (cases r)
      case None
      then show ?thesis using ih d(2) \<open>fails c = None\<close> by auto
    next
      case (Some x)
      then obtain cs1 c' text' e cs2 where "cs = cs1 @ (c', text') # cs2" "d = map fst cs1 @ [c']" "fails c' = Some e"
          "r = Some (text' @ e)" "\<forall>c \<in> set (map fst cs1). fails c = None"
        using ih by auto
      then show ?thesis using d(2) \<open>fails c = None\<close> Some
        by (intro conjI impI exI [of _ "(c, t) # cs1"]) auto
    qed
  qed
qed simp


text \<open>The manager is started last: only after every other call has gone through, so not before the first election is
  over and never without one of the controllers or a probe; and leadership is released exactly when the manager has
  come to a regular end.\<close>

theorem manager_starts_last:
  assumes "main libs file su pf env args = (made, xc, status)"
  shows "(StartManager \<in> set made \<longrightarrow> (\<exists>more. made = map fst start_up @ more) \<and>
      (\<forall>c \<in> set (butlast (map fst start_up)). pf_Error pf c = None)) \<and>
    (Release \<in> set made \<longleftrightarrow> StartManager \<in> set made \<and> pf_Error pf StartManager = None) \<and>
    (made \<noteq> [] \<longrightarrow> (status = 0 \<longleftrightarrow> Release \<in> set made))"
proof (cases "made = []")
  case False
  obtain opts env' where c: "configure libs file env args = Inr (opts, env')" "Validate (su_ParseAddress su) opts = None"
      "pf_HasConfig pf"
    using assms False by (auto simp: main_def Run_def Let_def split: sum.splits prod.splits option.splits run_result.splits if_splits)
  obtain calls r where p: "perform (pf_Error pf) start_up = (calls, r)" by (cases "perform (pf_Error pf) start_up")
  have start: "StartManager \<notin> set (butlast (map fst start_up))" "Release \<notin> set (map fst start_up)"
      "StartManager \<in> set (map fst start_up)"
    by code_simp+
  show ?thesis
  proof (cases r)
    case None
    then have d: "made = map fst start_up @ [Release]" "status = 0" "\<forall>c \<in> set (map fst start_up). pf_Error pf c = None"
      using assms c p perform_calls [OF p] by (auto simp: main_def Run_def Let_def)
    have "\<forall>c \<in> set (butlast (map fst start_up)). pf_Error pf c = None" using d(3) by (blast dest: in_set_butlastD)
    moreover have "pf_Error pf StartManager = None" using d(3) start(3) by blast
    ultimately show ?thesis using start(3) d(1,2) by simp
  next
    case (Some e)
    then obtain cs1 c t x cs2 where d: "start_up = cs1 @ (c, t) # cs2" "made = map fst cs1 @ [c]" "pf_Error pf c = Some x"
        "status = 1" "\<forall>c \<in> set (map fst cs1). pf_Error pf c = None"
      using assms c p perform_calls [OF p] by (auto simp: main_def Run_def Let_def)
    have "set made \<subseteq> set (map fst start_up)" by (auto simp: d(1,2))
    then have "Release \<notin> set made" using start(2) by blast
    moreover have b: "butlast (map fst start_up) = map fst cs1 @ butlast (c # map fst cs2)"
      by (simp add: d(1) butlast_append)
    moreover have "StartManager \<notin> set (map fst cs1)" using start(1) by (simp add: b)
    moreover have "cs2 = []" if "c = StartManager"
      using that start(1) by (cases cs2) (simp_all add: b)
    ultimately show ?thesis using d(2-5) by (cases "c = StartManager") (simp_all add: d(1))
  qed
qed (use assms in \<open>auto\<close>)

section \<open>Readiness\<close>

definition found :: "runnable \<Rightarrow> nat" where
  "found x =
     (case x of
        InitClusters n \<Rightarrow> n | InitEndpoints n \<Rightarrow> n | InitRoutes n \<Rightarrow> n | InitListeners n \<Rightarrow> n
      | InitSecrets env \<Rightarrow> (case List_TLSSecrets env of Inl e \<Rightarrow> 0 | Inr items \<Rightarrow> length items))"

text \<open>No snapshot yet, and every kind that has resources waits for its first reconcile.\<close>

definition starting :: "ReconciliationStatus \<Rightarrow> bool" where
  "starting rs \<longleftrightarrow> \<not> snapshotGenerated rs \<and> (hasListeners rs \<longrightarrow> \<not> listenersReconciled rs) \<and>
     (hasRoutes rs \<longrightarrow> \<not> routesReconciled rs) \<and> (hasClusters rs \<longrightarrow> \<not> clustersReconciled rs) \<and>
     (hasEndpoints rs \<longrightarrow> \<not> endpointsReconciled rs) \<and> (hasDomainConfigs rs \<longrightarrow> \<not> domainConfigsReconciled rs)"

lemmas runnable_defs = initialize_clusters_def initialize_endpoints_def initialize_routes_def initialize_listeners_def
  initialize_secrets_def cluster_reconciler_def endpoint_reconciler_def route_reconciler_def listener_reconciler_def
  secret_reconciler_def cds_in_status_def eds_in_status_def in_status_def sds_in_status_def with_Status_def with_Config_def
  cds_config_def eds_config_def in_config_def sds_config_def

lemmas status_sets = SetHasListeners_def SetHasRoutes_def SetHasClusters_def SetHasEndpoints_def SetHasDomainConfigs_def
  SetListenersInitialized_def SetRoutesInitialized_def SetClustersInitialized_def SetEndpointsInitialized_def
  SetDomainConfigsInitialized_def

lemma run_runnable_status:
  assumes "starting (reconciliationStatus c)"
  shows "starting (reconciliationStatus (run_runnable x c)) \<and>
    (HasAnyResources (reconciliationStatus (run_runnable x c)) \<longleftrightarrow>
       HasAnyResources (reconciliationStatus c) \<or> 0 < found x)"
  using assms by (cases x) (auto simp: runnable_defs status_sets starting_def HasAnyResources_def found_def Let_def split: sum.splits)

lemma run_runnables_status:
  "starting (reconciliationStatus c) \<Longrightarrow> starting (reconciliationStatus (fold run_runnable xs c)) \<and>
    (HasAnyResources (reconciliationStatus (fold run_runnable xs c)) \<longleftrightarrow>
       HasAnyResources (reconciliationStatus c) \<or> (\<exists>x \<in> set xs. 0 < found x))"
proof (induction xs arbitrary: c)
  case (Cons x xs)
  then show ?case using run_runnable_status [OF Cons.prems, of x] by auto
qed simp

lemma ready_starting: "starting rs \<Longrightarrow> AllReconciledWithSnapshot rs \<longleftrightarrow> \<not> HasAnyResources rs"
  by (auto simp: starting_def AllReconciledWithSnapshot_def HasAnyResources_def AllReconciled_def IsSnapshotGenerated_def
      IsListenersReconciled_def IsRoutesReconciled_def IsClustersReconciled_def IsEndpointsReconciled_def
      IsDomainConfigsReconciled_def)

text \<open>C30. After the start, whichever runnables of the controllers have run and in whatever order, the readiness probe
  fails exactly when one of them has found a resource, so it waits for the first reconciles. It does not wait for
  the runnables themselves: before they have looked for resources the probe passes.\<close>

theorem readiness_at_start:
  "ReadinessCheck (reconciliationStatus (fold run_runnable xs (xc_Config (BuildXDSConfig parse rnd opts)))) = None \<longleftrightarrow>
     (\<forall>x \<in> set xs. found x = 0)"
proof -
  let ?c = "xc_Config (BuildXDSConfig parse rnd opts)"
  have "starting (reconciliationStatus ?c)" "\<not> HasAnyResources (reconciliationStatus ?c)"
    by (simp_all add: BuildXDSConfig_def new_Config_def NewReconciliationStatus_def starting_def HasAnyResources_def)
  then show ?thesis using run_runnables_status [of ?c xs] ready_starting by (auto simp: ReadinessCheck_def)
qed

theorem readiness_at_start_witness:
  "ReadinessCheck (reconciliationStatus (fold run_runnable [InitClusters 0, InitRoutes 2, InitListeners 0]
     (xc_Config (BuildXDSConfig Inr 7 NewOptions)))) \<noteq> None"
  using readiness_at_start [of "[InitClusters 0, InitRoutes 2, InitListeners 0]" Inr 7 NewOptions] by (simp add: found_def)

section \<open>The margin of renewals\<close>

lemma Minutes_pos:
  assumes "0 < d"
  shows "0 < Minutes d"
proof -
  define a b where ab: "a = d div minute" "b = d mod minute"
  have m: "0 < minute" by (simp add: minute_def)
  have e: "trunc_div d minute = a" "trunc_mod d minute = b"
    using assms by (simp_all add: ab trunc_div_def trunc_mod_def minus_div_mult_eq_mod)
  have "0 \<le> a" "0 \<le> b" using assms m by (simp_all add: ab pos_imp_zdiv_nonneg_iff)
  moreover have "a \<noteq> 0 \<or> b \<noteq> 0"
  proof -
    have "d = a * minute + b" by (simp add: ab)
    then show ?thesis using assms by auto
  qed
  moreover have nonneg: "0 \<le> round64 x" if "0 \<le> x" for x
    using that round64_pos [of x] by (cases "x = 0") (simp_all add: round64_def)
  moreover have "0 \<le> round64 (round64 (of_int b) / of_int minute)" if "0 \<le> b"
    using that m by (intro nonneg divide_nonneg_pos) simp_all
  moreover have "0 < round64 (round64 (of_int b) / of_int minute)" if "0 < b"
    using that m by (intro round64_pos divide_pos_pos) simp_all
  moreover have "0 < round64 (of_int a)" if "0 < a" using that by (simp add: round64_pos)
  ultimately have "0 < round64 (of_int a) + round64 (round64 (of_int b) / of_int minute)"
    by (metis add_nonneg_pos add_pos_nonneg le_less nonneg of_int_0_le_iff)
  then show ?thesis by (simp add: Minutes_def e round64_pos)
qed

lemma due_after_expiry:
  assumes "RenewBeforeExpireInMinutes cfg \<le> 0" and "due cfg d x now"
  shows "x_NotAfter x \<le> now"
proof (rule ccontr)
  assume "\<not> x_NotAfter x \<le> now"
  then have "0 < Minutes (time_Until now (x_NotAfter x))" by (intro Minutes_pos) (simp add: time_Until_def)
  moreover have "renewBefore cfg \<le> 0"
    using assms(1) round64_pos [of "- of_int (RenewBeforeExpireInMinutes cfg)"]
    by (cases "RenewBeforeExpireInMinutes cfg = 0") (simp_all add: renewBefore_def round64_def)
  ultimately show False using assms(2) by (simp add: due_def)
qed

text \<open>C31. The margin of renewals is the option less a random number of 1 to 360 minutes, so certificates are replaced up to
  six hours later than the option says; when nothing is left of the option, a stored certificate counts as due only
  after it has expired.\<close>

theorem renewal_margin:
  assumes "0 \<le> rnd" and "rnd < 360" and "0 \<le> op_RenewBeforeExpireInMinutes opts" and "op_RenewBeforeExpireInMinutes opts < 2 ^ 63"
    and m: "m = RenewBeforeExpireInMinutes (sx_Settings (xc_Settings xc))"
    and xc: "xc = with_client opts (BuildXDSConfig parse rnd opts)"
  shows "op_RenewBeforeExpireInMinutes opts - 360 \<le> m \<and> m < op_RenewBeforeExpireInMinutes opts \<and>
    (m \<le> 0 \<longrightarrow> (\<forall>d x now. due (sx_Settings (xc_Settings xc)) d x now \<longrightarrow> x_NotAfter x \<le> now))"
proof -
  let ?n = "op_RenewBeforeExpireInMinutes opts"
  have "duration (?n - (rnd + 1)) = ?n - (rnd + 1)"
    unfolding duration_def by (rule signed_take_bit_int_eq_self) (use assms(1-4) in \<open>simp_all\<close>)
  then have "m = ?n - (rnd + 1)" by (simp add: m xc with_client_def BuildXDSConfig_def)
  then have "?n - 360 \<le> m" "m < ?n" using assms(1,2) by simp_all
  moreover have "x_NotAfter x \<le> now" if "m \<le> 0" "due (sx_Settings (xc_Settings xc)) d x now" for d x now
    using due_after_expiry [OF _ that(2)] that(1) unfolding m .
  ultimately show ?thesis by blast
qed

definition hour_options :: Options where
  "hour_options = NewOptions\<lparr>op_RenewBeforeExpireInMinutes := 60\<rparr>"

theorem renewal_margin_witness:
  "\<forall>d x. \<not> due (sx_Settings (xc_Settings (with_client hour_options (BuildXDSConfig Inr 100 hour_options)))) d x (x_NotAfter x - 1)"
proof -
  let ?xc = "with_client hour_options (BuildXDSConfig Inr 100 hour_options)"
  have "duration (60 - (100 + 1)) = 60 - (100 + 1)"
    unfolding duration_def by (rule signed_take_bit_int_eq_self) simp_all
  then have m: "RenewBeforeExpireInMinutes (sx_Settings (xc_Settings ?xc)) = - 41"
    by (simp add: with_client_def BuildXDSConfig_def hour_options_def)
  have "x_NotAfter x \<le> x_NotAfter x - 1" if "due (sx_Settings (xc_Settings ?xc)) d x (x_NotAfter x - 1)" for d x
  proof -
    have "0 \<le> op_RenewBeforeExpireInMinutes hour_options" "op_RenewBeforeExpireInMinutes hour_options < 2 ^ 63"
      by (simp_all add: hour_options_def NewOptions_def)
    from renewal_margin [where rnd = 100 and parse = Inr, OF _ _ this refl refl] m
    have "\<forall>d x now. due (sx_Settings (xc_Settings ?xc)) d x now \<longrightarrow> x_NotAfter x \<le> now" by simp
    then show ?thesis using that by blast
  qed
  then show ?thesis by force
qed

text \<open>The Vault storage is configured exactly when one of its options is given, once they have been checked; without
  flags and variables the back-off is the default policy of the certificate controller.\<close>

lemma vault_all_or_none:
  assumes "Validate parse opts = None"
  shows "Storage_Vault (sx_Settings (xc_Settings (BuildXDSConfig parse rnd opts))) \<noteq> None \<longleftrightarrow>
    op_VaultURL opts \<noteq> [] \<or> op_VaultToken opts \<noteq> [] \<or> op_VaultPath opts \<noteq> []"
  using assms by (auto simp: Validate_def BuildXDSConfig_def split: option.splits sum.splits if_splits)

lemma default_options_policy: "retryDefaults (xc_Settings (BuildXDSConfig parse rnd NewOptions)) = DefaultRetryPolicy"
  by (simp add: retryDefaults_def BuildXDSConfig_def NewOptions_def DefaultRetryPolicy_def DefaultRetryBaseDelay_def
      DefaultRetryMaxDelay_def DefaultRetryMultiplier_def minute_def)

end
