(* ===== verification/Logs.thy ===== *)
theory Logs
  imports GoStrings
begin

text \<open>
  Logging and the build information, \<open>src/pkg/logfilter/logfilter.go\<close>, \<open>src/pkg/logger\<close>, the level names of
  \<open>src/pkg/app/logging.go\<close> and \<open>src/pkg/version/version.go\<close>: what is logged, not how it is written. Arguments:
  the core that is wrapped, the names zap gives to levels, the text made by \<open>fmt\<close> of a message with arguments.
\<close>

section \<open>The filter\<close>

record entry =
  en_LoggerName :: string
  en_Level :: int
  en_Message :: string

text \<open>The levels of zap: information is 0, warnings are 1.\<close>

definition HealthzFilterCore_Check :: "(entry \<Rightarrow> 'c \<Rightarrow> 'c) \<Rightarrow> entry \<Rightarrow> 'c \<Rightarrow> 'c" where
  "HealthzFilterCore_Check core e ce =
     (if en_LoggerName e = ''controller-runtime.healthz'' \<and> (en_Level e = 0 \<or> en_Level e = 1) then ce else core e ce)"

definition customLevelEncoder :: "(int \<Rightarrow> string) \<Rightarrow> int \<Rightarrow> string" where
  "customLevelEncoder capital level =
     (if level = -1 then ''WARN''
      else if level = -2 then ''DEBUG''
      else if level = -3 then ''VERBOSE''
      else capital level)"

section \<open>The logger of the ACME client\<close>

definition cleanMessage :: "string \<Rightarrow> string" where
  "cleanMessage msg = TrimPrefix (TrimPrefix (TrimPrefix msg ''[INFO] '') ''[DEBUG] '') ''acme: ''"

text \<open>What reaches the controller's logger: an error, or information at a level with a domain.\<close>

datatype logged = LogError string | LogInfo int string "string option"

definition Fatal :: "string \<Rightarrow> logged" where
  "Fatal msg = LogError (cleanMessage msg)"

definition Print :: "string \<Rightarrow> logged" where
  "Print msg = LogInfo 2 (cleanMessage msg) None"

text \<open>The arguments: the strings among them, nothing for another value.\<close>

definition Printf :: "string \<Rightarrow> string option list \<Rightarrow> logged" where
  "Printf msg args =
     (let domain = (case args of Some s # _ \<Rightarrow> s | _ \<Rightarrow> [])
      in LogInfo 2 (cleanMessage msg) (if domain \<noteq> [] then Some domain else None))"

section \<open>The example logger\<close>

text \<open>The line that is written, if any.\<close>

definition Debugf :: "bool \<Rightarrow> string \<Rightarrow> string option" where
  "Debugf debug line = (if debug then Some line else None)"

definition Warnf :: "string \<Rightarrow> string option" where
  "Warnf line = Some line"

section \<open>Versions\<close>

record Info =
  in_Version :: string
  in_GitCommit :: string
  in_BuildDate :: string
  in_GoVersion :: string
  in_Platform :: string

text \<open>The variables the linker sets are arguments; commits are ASCII text.\<close>

definition Info_String :: "Info \<Rightarrow> string" where
  "Info_String i =
     ''Version: '' @ in_Version i @ [CHR 0x0A] @ ''Git Commit: '' @ in_GitCommit i @ [CHR 0x0A] @
     ''Build Date: '' @ in_BuildDate i @ [CHR 0x0A] @ ''Go Version: '' @ in_GoVersion i @ [CHR 0x0A] @
     ''Platform: '' @ in_Platform i"

definition Info_Short :: "Info \<Rightarrow> string" where
  "Info_Short i = in_Version i @ '' (commit: '' @ take 7 (in_GitCommit i) @ '')''"

section \<open>Facts\<close>

text \<open>The filter hides health checks only: what another logger writes, and what the health checks report as an error,
  is kept.\<close>

lemma filter_keeps:
  "en_LoggerName e \<noteq> ''controller-runtime.healthz'' \<or> 2 \<le> en_Level e \<Longrightarrow> HealthzFilterCore_Check core e = core e"
  by (auto simp: HealthzFilterCore_Check_def)

lemma clean_prefixed:
  "cleanMessage (''[INFO] acme: '' @ msg) = msg"
  "cleanMessage (''[INFO] [DEBUG] acme: '' @ msg) = msg"
  by (simp_all add: cleanMessage_def TrimPrefix_def HasPrefix_def)

text \<open>A level without a name of its own has zap's; the level -1 has the name of zap's level 1.\<close>

lemma level_names: "\<not> (- 3 \<le> n \<and> n \<le> - 1) \<Longrightarrow> customLevelEncoder capital n = capital n"
  by (auto simp: customLevelEncoder_def)

lemma names_collide: "capital 1 = ''WARN'' \<Longrightarrow> customLevelEncoder capital (- 1) = customLevelEncoder capital 1"
  by (simp add: customLevelEncoder_def)

end
