(* ===== verification/Spec2Isabelle.thy ===== *)
theory Spec2Isabelle
  imports ServFacts SnapshotFacts RdsSpec LdsSpec Conditions Cds Eds Leader SecretWatch AuditSpec GenSpec CompositeRoute
    TypeGenFacts App Logs
begin

text \<open>
  A model of the Envoy xDS controller. It watches custom resources (Listener, Route, Cluster, Endpoint,
  TLSSecret) in Kubernetes, turns each into Envoy configuration kept per node id, and serves every
  Envoy node a snapshot of its resources.

  \<^bold>\<open>Parts and how they interact.\<close> The controllers (\<open>src/controllers/\<close>) write the
  stores of \<open>xds.Config\<close> (\<open>src/pkg/xds/xds.go\<close>) and count each change. The server loop
  (\<open>src/pkg/serv/serv.go\<close>) compares the counter on every tick, generates the snapshots and hands the
  consistent ones with a new version to the cache. The route controller tells the listener controller
  which listeners to build again, through events that survive a lost race (pending listeners of
  \<open>src/pkg/status/status.go\<close>). The TLSSecret controller reads certificates from a storage and, on the
  replica that leader election (\<open>src/pkg/leader/leader.go\<close>) has chosen, orders them
  (\<open>src/pkg/xds/sds.go\<close>). \<open>src/pkg/app\<close> puts the process together. A command
  (\<open>src/cmd/route-audit\<close>) predicts from manifests which routes the controller will refuse. The specs are Go types
  generated from Envoy's protobuf types (\<open>src/tools/typegen\<close>, \<open>src/pkg/xds/types\<close>).

  \<^bold>\<open>Theories, in the order of imports.\<close>
  \<^item> \<open>Prelude\<close>: Go maps as association lists, Go's sorting with a comparison (locale \<open>weak_order\<close>),
    sorted name lists, bytes. \<open>GoStrings\<close>, \<open>NetIP\<close>, \<open>Base64\<close>, \<open>GoJson\<close>, \<open>Sha256\<close>: the parts of Go's
    standard library the code calls (trimming and splitting, IP prefixes, base64, the JSON of node
    identifiers with its decoder, SHA-256).
  \<^item> \<open>Util\<close>: \<open>src/controllers/util/util.go\<close>. A node id is base64 of JSON; annotations to node ids.
  \<^item> \<open>Fcm\<close>: \<open>src/pkg/xds/fcm/fcm.go\<close>. Filter chain matches compiled to matchers, their comparison and
    the set of placed matchers.
  \<^item> \<open>Hash\<close>, \<open>HashFacts\<close>: \<open>src/pkg/xds/hash.go\<close>. The version of a snapshot, with its two memos.
  \<^item> \<open>Status\<close>: \<open>src/pkg/status/status.go\<close>. Readiness flags and pending listeners.
  \<^item> \<open>Config\<close>: the resources, the Envoy messages and the shared configuration. \<open>Store\<close>: the locale
    \<open>node_store\<close> of a store that keeps a resource on several nodes; \<open>Homes\<close>: the locale \<open>single_home\<close>
    of one that keeps it on one node, with the loops of the two controllers that do.
  \<^item> \<open>Snapshot\<close>, \<open>SnapshotFacts\<close>: the generation of snapshots (\<open>src/pkg/xds/xds.go\<close>). \<open>Metrics\<close>
    (\<open>src/pkg/xds/xdsMetrics.go\<close>), \<open>Serv\<close>, \<open>ServFacts\<close>: the server loop and the stream callbacks.
  \<^item> \<open>Rds\<close>, \<open>RdsFacts\<close>, \<open>RdsSpec\<close>: the route controller. \<open>Lds\<close>, \<open>LdsFacts\<close>, \<open>LdsSpec\<close>: the listener
    controller. \<open>Cds\<close>: the cluster controller. \<open>Eds\<close>: the endpoint controller. \<open>Conditions\<close>: the
    status these four write.
  \<^item> \<open>Leader\<close>: leader election, one replica and a system of replicas on one lease.
  \<^item> \<open>GoFloat\<close>, \<open>GoStrconv\<close>: Go's float arithmetic, exact values rounded once, and its parsers of
    numbers, booleans and durations. \<open>Backoff\<close>: \<open>src/controllers/sds/annotations.go\<close>. \<open>Storage\<close>, \<open>Issue\<close>:
    \<open>src/pkg/xds/sds.go\<close>, the three storages, the ACME client and the self-signed authority. \<open>Certs\<close>,
    \<open>CertFacts\<close>: \<open>src/controllers/sds/sds.go\<close>, when a certificate is read, ordered or published. \<open>SecretStatus\<close>,
    \<open>Secrets\<close>, \<open>SecretFacts\<close>, \<open>SecretSpec\<close>, \<open>SecretWatch\<close>: the TLSSecret controller.
  \<^item> \<open>RouteAudit\<close>, \<open>AuditFacts\<close>, \<open>AuditSpec\<close>: \<open>src/cmd/route-audit/main.go\<close>, tied to the route controller.
  \<^item> \<open>GoTypes\<close>: Go types as data, and what the type generators write for an enum and for the copy of a field;
    \<open>GenCds\<close>, \<open>GenEds\<close>, \<open>GenHcm\<close>, \<open>GenLds\<close>, \<open>GenRds\<close>: every struct and enum of the generated files
    as such data. \<open>DeepCopy\<close>, \<open>CopyFacts\<close>, \<open>GenFacts\<close>: their deep copies on an explicit memory. \<open>GoMarshal\<close>,
    \<open>MarshalFacts\<close>: their text in JSON. \<open>GenSpec\<close>: what both promise. \<open>CompositeRoute\<close>:
    \<open>src/pkg/xds/types/route/route.go\<close>.
  \<^item> \<open>TypeGen\<close>, \<open>TypeGenFacts\<close>: \<open>src/tools/typegen/rds/main.go\<close>, how the generator finds the types and
    clears empty and recursive ones.
  \<^item> \<open>Options\<close>, \<open>App\<close>: \<open>src/pkg/app\<close> and \<open>src/cmd/xds\<close>, the options with the command line and the
    environment, the start and the end of the process, the probes. \<open>Logs\<close>: the log filter, the ACME logger, versions.

  \<^bold>\<open>Correspondence.\<close> A struct is a record with the fields the modelled code reads or writes; a field
  \<open>rest\<close> stands for the other fields of a message, which are only copied. A handler is a function from
  its state to its result and new state; where the code can panic the outcome is an option. A Go map is an
  association list with distinct keys whose order is the order a range visits: theorems hold for any order.
  Counters are 64-bit words. Custom-resource specs stay opaque in the controllers, which only marshal them; their
  types are the data of the \<open>Gen\<close> theories. The Kubernetes API, Vault, the file system,
  protobuf conversion, the snapshot cache, the clock and certificate authorities are arguments.

  \<^bold>\<open>What the lemmas show.\<close> \<open>Util\<close>, \<open>Fcm\<close>, \<open>Hash\<close>: round trips, the equivalence of the optimised
  comparison and set with their definitions, versions that separate and do not depend on order.
  \<open>Snapshot\<close>, \<open>Serv\<close>: the contents of each node's snapshot, for keys that name any number of clusters and
  nodes, consistency, that no change is lost and no inconsistent node is updated. \<open>Rds\<close>, \<open>Lds\<close>: routes in the store never conflict, the oldest wins, the
  listener is what a reference says, the caches do not show, a request overtaken by a change stays pending.
  \<open>Cds\<close>, \<open>Eds\<close>: every resource has at most one home and is exactly where its annotations say.
  \<open>Leader\<close>: one leader among those that renewed in time, over all interleavings and with answers lost, as long as
  no release is unanswered; one that is can make two. \<open>Certs\<close>, \<open>Secrets\<close>: a
  certificate is ordered only when needed and published only once stored, a failure is recorded and retried after its
  back-off, a secret has one home, the status settles, credentials in the environment are put back. \<open>RouteAudit\<close>: the
  command refuses what the controller refuses. \<open>DeepCopy\<close>, \<open>GoMarshal\<close>: copies share nothing but what their
  statements assign, the text of a spec tells specs apart. \<open>TypeGen\<close>: no field is left that counts as
  recursive. \<open>App\<close>: which source of an option wins, when the probe passes, what is left of the renewal margin. The
  property of this theory ties the route and the listener controller together.

  \<^bold>\<open>Bounds and fuel.\<close> Loops are structural recursion, or functions with a termination proof (digits of
  a number, powers by halving the exponent, the JSON scanner, durations and the command line by the length of what is
  left, SHA-256 blocks, the work list of types by the names not yet seen); there is no fuel. Counters and durations
  wrap at 64 bits. Times are integers.

  \<^bold>\<open>Assumptions about the surroundings.\<close> Replicas have distinct ids and read one clock. An answer of the API server can
  be lost after the write was carried out. Reads of Kubernetes objects come from the manager's cache, which may
  lag behind a write: what a certificate read returns right after a write is stated for a cache that has caught up,
  or for an answer of the server that went past it. A time in a status is stored in whole seconds. A handler
  is modelled as running without another handler of the same controller between its steps, except where a step
  relation or an argument says otherwise; two reconciles of TLSSecrets that share the Vault client are not interleaved.

  \<^bold>\<open>Not modelled.\<close> How the type generators read the sources of Envoy and write files, the generated deep copies
  of the API types, mocks: downloads and regular expressions, generated code or test doubles. The gRPC server, the
  registration with Prometheus, the certificate gauge, the set-up of zap and the choice of watch predicates are library calls.
  The pause of 100 ms before a Vault read only delays. \<open>retry.RetryOnConflict\<close> is one attempt. Goroutines appear
  as the steps they take: the deferred end of a handler is an operation of its own, and what runs meanwhile is an
  argument. Also arguments: the YAML decoder, protobuf conversion and validation, the methods of raw extensions,
  the text of floats and upper case of names, \<open>mail.ParseAddress\<close>, X.509 and ACME, godotenv.
\<close>

section \<open>Routes placed by one controller are attached by the other\<close>

text \<open>Node ids are made from pairs of a cluster and a node.\<close>

definition pair_key :: "string \<Rightarrow> bool" where
  "pair_key key \<longleftrightarrow> (\<exists>c n. plain c \<and> plain n \<and> key = pair_id c n)"

lemma pair_key_match:
  "pair_key a \<Longrightarrow> pair_key b \<Longrightarrow> FindNodeAndCluster (NodeInfo_or_empty a) b \<Longrightarrow> a = b"
proof -
  assume a: "pair_key a" "pair_key b" "FindNodeAndCluster (NodeInfo_or_empty a) b"
  obtain c n where n: "plain c" "plain n" "a = pair_id c n" using a(1) by (auto simp: pair_key_def)
  obtain c' n' where n': "plain c'" "plain n'" "b = pair_id c' n'" using a(2) by (auto simp: pair_key_def)
  have "NodeInfo_or_empty a = \<lparr>Nodes = [n], Clusters = [c]\<rparr>"
    using decode_pair_id [OF n(1,2)] n(3) by (simp add: NodeInfo_or_empty_def)
  then have "n = n' \<and> c = c'"
    using a(3) decode_pair_id [OF n'(1,2)] n'(3) by (simp add: FindNodeAndCluster_def split: if_splits)
  then show "a = b" using n(3) n'(3) by simp
qed

text \<open>Both controllers read a route's match in the same way.\<close>

definition same_reading :: "rds_env \<Rightarrow> lds_env \<Rightarrow> bool" where
  "same_reading env lenv \<longleftrightarrow> validate lenv = validate_match env \<and> to_match lenv = recast_match env"

lemma built_matcher:
  assumes "same_reading env lenv" and "buildChain lenv rt quic = Built m c"
  shows "fcm_Compile env (rt_FilterChainMatch rt) = Inr m"
  using assms
  by (auto simp: same_reading_def buildChain_def unmarshalFilterChainMatch_def fcm_Compile_def Compile_def
      split: sum.splits option.splits)

lemma stored_route:
  assumes inv: "rds_inv env r" and keys: "\<forall>key\<in>set (mkeys (RouteConfigs (rr_Config r))). pair_key key"
    and node: "pair_key node" and rt: "rt \<in> set (getRoutesForNode (rr_Config r) l node)"
  shows "\<exists>rc. served r node (om_Name rt) = Some rc \<and> rc_Route rc = rt \<and> l \<in> set (rt_ListenerRefs rt)"
proof -
  obtain key rcs rc where e: "(key, rcs) \<in> set (RouteConfigs (rr_Config r))" "rc \<in> set rcs"
    "FindNodeAndCluster (NodeInfo_or_empty node) key" "rt = rc_Route rc" "l \<in> set (rt_ListenerRefs rt)"
    using rt by (auto simp: getRoutesForNode_def routes_at_def)
  have "key \<in> set (mkeys (RouteConfigs (rr_Config r)))" using e(1) by (force simp: mkeys_def)
  then have "key = node" using pair_key_match [OF node _ e(3)] keys by blast
  moreover have "store_wf r" using inv by (simp add: rds_inv_def)
  moreover have "mlist (RouteConfigs (rr_Config r)) key = rcs"
    using in_set_mlist [OF _ e(1)] \<open>store_wf r\<close> by (simp add: store_wf_def)
  ultimately have "served r node (rc_name rc) = Some rc" using served_mem [of r rc node] e(2) by simp
  then show ?thesis using e(4,5) by (auto simp: rc_name_def)
qed

lemma placed_routes_apart:
  assumes inv: "rds_inv env r" and keys: "\<forall>key\<in>set (mkeys (RouteConfigs (rr_Config r))). pair_key key"
    and node: "pair_key node" and same: "same_reading env lenv"
    and rts: "rt \<in> set (getRoutesForNode (rr_Config r) l node)" "rt' \<in> set (getRoutesForNode (rr_Config r) l node)"
    and built: "buildChain lenv rt quic = Built m c" "buildChain lenv rt' quic = Built m' c'" and ne: "rt \<noteq> rt'"
  shows "Matcher_Compare m m' \<noteq> Duplicate"
proof -
  obtain rc where rc: "served r node (om_Name rt) = Some rc" "rc_Route rc = rt" "l \<in> set (rt_ListenerRefs rt)"
    using stored_route [OF inv keys node rts(1)] by blast
  obtain rc' where rc': "served r node (om_Name rt') = Some rc'" "rc_Route rc' = rt'" "l \<in> set (rt_ListenerRefs rt')"
    using stored_route [OF inv keys node rts(2)] by blast
  have "om_Name rt \<noteq> om_Name rt'"
  proof
    assume "om_Name rt = om_Name rt'"
    then have "Some rc = Some rc'" using rc(1) rc'(1) by (simp only:)
    then show False using rc(2) rc'(2) ne by blast
  qed
  then have "conflict rc rc' = VNone" using inv rc(1) rc'(1) unfolding rds_inv_def no_conflicts_def by blast
  moreover have matcher: "rc_Matcher x = Some y"
    if "served r node k = Some x" "rc_Route x = z" "buildChain lenv z quic = Built y w" for k x y z w
  proof -
    have "entry_ok env x" using inv that(1) unfolding rds_inv_def entries_ok_def by blast
    then show ?thesis using that(2) built_matcher [OF same that(3)] by (auto simp: entry_ok_def)
  qed
  moreover have "sharesName (rt_ListenerRefs rt) (rt_ListenerRefs rt')"
    using rc(3) rc'(3) by (auto simp: sharesName_def list_ex_iff)
  ultimately have c: "RouteConflict rt rt' m m' = VNone" and share: "sharesName (rt_ListenerRefs rt) (rt_ListenerRefs rt')"
    using rc(2) rc'(2) matcher [OF rc(1,2) built(1)] matcher [OF rc'(1,2) built(2)] by (simp_all add: conflict_def)
  show ?thesis
  proof
    assume "Matcher_Compare m m' = Duplicate"
    then have "RouteConflict rt rt' m m' = Duplicate" using share by (simp add: RouteConflict_def)
    then show False using c by simp
  qed
qed

lemma looked_up_attached:
  assumes "rds_inv env r" and "\<forall>key\<in>set (mkeys (RouteConfigs (rr_Config r))). pair_key key"
    and "pair_key node" and "same_reading env lenv"
    and lds: "ListenerRecast lenv l (getRoutesForNode (rr_Config r) (om_Name l) node) = Inr lds"
    and lds0: "recast_listener lenv l = Inr lds0"
    and rt: "rt \<in> set (getRoutesForNode (rr_Config r) (om_Name l) node)"
    and built: "buildChain lenv rt (isQUIC lds0) = Built m c"
  shows "c \<in> set (el_FilterChains lds) \<or>
    (\<exists>fc\<in>set (el_FilterChains lds0). \<exists>p. compiled lenv fc p \<and> Matcher_Compare m p = Duplicate)"
  using lds
proof (rule listenerRecast_Inr)
  let ?rts = "getRoutesForNode (rr_Config r) (om_Name l) node"
  fix lds1 ms
  assume eq: "recast_listener lenv l = Inr lds1" and ms: "list_all2 (compiled lenv) (el_FilterChains lds1) ms"
    and new: "lds = lds1\<lparr>el_Name := om_Name l,
      el_FilterChains := el_FilterChains lds1 @ map snd (fst (attach lenv (isQUIC lds1) ms ?rts))\<rparr>"
  have l: "lds1 = lds0" using eq lds0 by simp
  consider "(m, c) \<in> set (fst (attach lenv (isQUIC lds0) ms ?rts))"
    | "collides (ms @ map fst (fst (attach lenv (isQUIC lds0) ms ?rts))) m"
    using attach_complete [OF rt built, of ms] by blast
  then show ?thesis
  proof cases
    case 1
    then show ?thesis unfolding new l by force
  next
    case 2
    then consider p where "p \<in> set ms" "Matcher_Compare m p = Duplicate"
      | p c' where "(p, c') \<in> set (fst (attach lenv (isQUIC lds0) ms ?rts))" "Matcher_Compare m p = Duplicate"
      unfolding collides_def list_ex_iff by fastforce
    then show ?thesis
    proof cases
      case 1
      then show ?thesis using ms unfolding l by (metis in_set_conv_nth list_all2_conv_all_nth)
    next
      case 2
      obtain rt' where rt': "rt' \<in> set ?rts" "buildChain lenv rt' (isQUIC lds0) = Built p c'"
        using attach_compiled [OF 2(1)] by blast
      have "rt = rt'"
        using placed_routes_apart [OF assms(1-4) rt rt'(1) built rt'(2)] 2(2) by blast
      then have "(m, c) \<in> set (fst (attach lenv (isQUIC lds0) ms ?rts))" using 2(1) rt'(2) built by simp
      then show ?thesis unfolding new l by force
    qed
  qed
qed

text \<open>The listener controller's look-up finds every route the route controller has placed on the node for the
  listener.\<close>

lemma pair_key_self: "pair_key node \<Longrightarrow> FindNodeAndCluster (NodeInfo_or_empty node) node"
  by (auto simp: pair_key_def FindNodeAndCluster_def NodeInfo_or_empty_def decode_pair_id)

lemma placed_looked_up:
  assumes inv: "rds_inv env r" and node: "pair_key node"
    and rc: "rc \<in> set (mlist (RouteConfigs (rr_Config r)) node)" and refs: "l \<in> set (rc_ListenerNames rc)"
  shows "rc_Route rc \<in> set (getRoutesForNode (rr_Config r) l node)"
proof -
  have wf: "store_wf r" using inv by (simp add: rds_inv_def)
  have "served r node (rc_name rc) = Some rc" using served_mem [OF wf] rc by blast
  then have "entry_ok env rc" using inv unfolding rds_inv_def entries_ok_def by blast
  then have l: "l \<in> set (rt_ListenerRefs (rc_Route rc))" using refs by (simp add: entry_ok_def)
  obtain rcs where "(node, rcs) \<in> set (RouteConfigs (rr_Config r))" "rc \<in> set rcs"
    using rc by (auto simp: mlist_def mget_def split: option.splits dest: map_of_SomeD [OF sym])
  then show ?thesis using pair_key_self [OF node] l by (auto simp: getRoutesForNode_def routes_at_def)
qed

text \<open>A listener that converts and has a route can only fail for its own chains.\<close>

lemma recast_fails:
  assumes "ListenerRecast lenv l rts = Inl e" and "recast_listener lenv l = Inr lds0" and "rts \<noteq> []"
  shows "place_static lenv (el_FilterChains lds0) [] = Inl e"
  using assms
  by (auto simp: ListenerRecast_def listenerRecast_def processRoutes_def Let_def split: sum.splits prod.splits)

text \<open>The route controller only places routes under such ids, as long as the annotations and the defaults are valid
  UTF-8.\<close>

lemma NodeIDs_are_pairs:
  assumes "valid_utf8 (mstr an ''nodes'')" "valid_utf8 (mstr an ''clusters'')" "valid_utf8 dn" "valid_utf8 dc"
    and "key \<in> set (NodeIDs an dn dc)"
  shows "pair_key key"
  using assms plain_part by (fastforce simp: NodeIDs_def pair_key_def Let_def split: if_splits)

text \<open>C1. The two controllers agree. Start from the store of the route controller, with its invariant: a route placed
  there under a node id, with the listener among its listeners, has its chain attached to the listener of that node,
  whenever the listener converts and the chain can be built. Another route never keeps it off; only a chain written
  in the listener resource itself can, and the listener as a whole fails only when its own chains do (one does not
  compile, or two collide). The ids of nodes are made of one cluster and one node each, as the controller makes them,
  and the two controllers read the match of a route in the same way.\<close>

theorem placed_routes_attached:
  assumes "rds_inv env r" and "\<forall>key\<in>set (mkeys (RouteConfigs (rr_Config r))). pair_key key"
    and "pair_key node" and "same_reading env lenv"
    and "rc \<in> set (mlist (RouteConfigs (rr_Config r)) node)" and "om_Name l \<in> set (rc_ListenerNames rc)"
    and "recast_listener lenv l = Inr lds0"
    and "buildChain lenv (rc_Route rc) (isQUIC lds0) = Built m c"
  shows "case ListenerRecast lenv l (getRoutesForNode (rr_Config r) (om_Name l) node) of
      Inr lds \<Rightarrow> c \<in> set (el_FilterChains lds) \<or>
        (\<exists>fc\<in>set (el_FilterChains lds0). \<exists>p. compiled lenv fc p \<and> Matcher_Compare m p = Duplicate)
    | Inl e \<Rightarrow> place_static lenv (el_FilterChains lds0) [] = Inl e"
proof -
  let ?rts = "getRoutesForNode (rr_Config r) (om_Name l) node"
  have rt: "rc_Route rc \<in> set ?rts" by (rule placed_looked_up [OF assms(1,3,5,6)])
  then have "?rts \<noteq> []" by auto
  then show ?thesis
    using looked_up_attached [OF assms(1-4) _ assms(7) rt assms(8)] recast_fails [OF _ assms(7)]
    by (auto split: sum.split)
qed

definition sample_reading :: lds_env where
  "sample_reading = sample_lds\<lparr>to_match := recast_match sample_rds, validate := validate_match sample_rds\<rparr>"

theorem placed_routes_attached_witness:
  "\<exists>rc lds m c. mlist (RouteConfigs (rr_Config with_b)) (pair_id ''c'' ''n'') = [rc] \<and>
     ListenerRecast sample_reading sample_cr (getRoutesForNode (rr_Config with_b) ''l'' (pair_id ''c'' ''n'')) = Inr lds \<and>
     buildChain sample_reading (rc_Route rc) False = Built m c \<and> c \<in> set (el_FilterChains lds)"
proof -
  let ?node = "pair_id ''c'' ''n''"
  let ?rts = "getRoutesForNode (rr_Config with_b) (om_Name sample_cr) ?node"
  have one: "case mlist (RouteConfigs (rr_Config with_b)) ?node of [rc] \<Rightarrow>
      ''l'' \<in> set (rc_ListenerNames rc) \<and>
      (case buildChain sample_reading (rc_Route rc) False of
         Built m c \<Rightarrow> (case ListenerRecast sample_reading sample_cr ?rts of Inr lds \<Rightarrow> True | Inl e \<Rightarrow> False)
       | _ \<Rightarrow> False) | _ \<Rightarrow> False"
    unfolding with_b_def by code_simp
  obtain rc where rc: "mlist (RouteConfigs (rr_Config with_b)) ?node = [rc]"
    using one by (cases "mlist (RouteConfigs (rr_Config with_b)) ?node" rule: list.exhaust) (auto split: list.splits)
  have ref: "om_Name sample_cr \<in> set (rc_ListenerNames rc)" using one unfolding rc by (simp add: sample_cr_def)
  obtain m c where b: "buildChain sample_reading (rc_Route rc) False = Built m c"
    using one unfolding rc by (auto split: builtChain.splits)
  obtain lds where l: "ListenerRecast sample_reading sample_cr ?rts = Inr lds"
    using one unfolding rc by (auto split: builtChain.splits sum.splits)
  let ?l0 = "\<lparr>el_Name = [], el_FilterChains = [], el_DefaultFilterChain = None,
     el_UdpQuicOptions = None, el_Address = Config.SocketAddress 0, el_rest = []\<rparr> :: Listener"
  have keys: "mkeys (RouteConfigs (rr_Config with_b)) = [?node]" unfolding with_b_def by code_simp
  have "plain ''c''" "plain ''n''" by code_simp+
  then have node: "pair_key ?node" by (auto simp: pair_key_def)
  have same: "same_reading sample_rds sample_reading" by (simp add: same_reading_def sample_reading_def)
  have inv: "rds_inv sample_rds with_b" unfolding with_b_def by (rule Reconcile_inv [OF sample_api fresh_inv])
  have l0: "recast_listener sample_reading sample_cr = Inr ?l0" by (simp add: sample_reading_def sample_lds_def)
  have "isQUIC ?l0 = False" by (simp add: isQUIC_def)
  then have b': "buildChain sample_reading (rc_Route rc) (isQUIC ?l0) = Built m c" using b by simp
  have mem: "rc \<in> set (mlist (RouteConfigs (rr_Config with_b)) ?node)" unfolding rc by simp
  have all: "\<forall>key\<in>set (mkeys (RouteConfigs (rr_Config with_b))). pair_key key" unfolding keys using node by simp
  have "c \<in> set (el_FilterChains lds)"
    using placed_routes_attached [OF inv all node same mem ref l0 b'] l by simp
  then show ?thesis using rc b l unfolding sample_cr_def by auto
qed

end
